(* ===== verification/Prelude.thy ===== *)
theory Prelude
  imports Main "HOL-Library.Sublist"
begin

text \<open>
  Shared ground of the development: the exceptions the release scripts raise,
  the result type that makes every raise a value, the combinators the
  translated bodies are written with, and the inversion rules that let
  \<open>simp\<close> and \<open>auto\<close> read a successful run backwards.
\<close>

section \<open>Exceptions and results\<close>

text \<open>
  One constructor per exception class that can leave a modelled function.  The
  string is the literal text of the source's message; values that the source
  interpolates with \<open>!r\<close> are left out of it, since no code reads them.
  \<open>PendingRelease\<close> derives from \<open>ContractError\<close>, which derives from
  \<open>ValueError\<close>, as do the decoding errors.
\<close>

datatype exc =
    ContractError string
  | PendingRelease string
  | ValueError string
  | JSONDecodeError
  | UnicodeDecodeError
  | UnicodeEncodeError
  | KeyError
  | TypeError
  | AttributeError
  | IndexError
  | AssertionError
  | RecursionError
  | OSError
  | SubprocessError
  | ValidationFailure
  | OverflowError
  | SystemExit string
  | EarlyReturn string  \<comment> \<open>not an exception: the value of a \<open>return\<close> from inside a body\<close>

type_synonym 'a res = "exc + 'a"

fun is_contract_error :: "exc \<Rightarrow> bool" where
  "is_contract_error (ContractError _) = True"
| "is_contract_error (PendingRelease _) = True"
| "is_contract_error _ = False"

fun is_value_error :: "exc \<Rightarrow> bool" where
  "is_value_error (ContractError _) = True"
| "is_value_error (PendingRelease _) = True"
| "is_value_error (ValueError _) = True"
| "is_value_error JSONDecodeError = True"
| "is_value_error UnicodeDecodeError = True"
| "is_value_error UnicodeEncodeError = True"
| "is_value_error _ = False"

text \<open>\<open>except (KeyError, TypeError, ValueError)\<close>, the clause around the epoch module.\<close>

fun is_shape_error :: "exc \<Rightarrow> bool" where
  "is_shape_error KeyError = True"
| "is_shape_error TypeError = True"
| "is_shape_error e = is_value_error e"

section \<open>Sequencing\<close>

definition bind :: "'a res \<Rightarrow> ('a \<Rightarrow> 'b res) \<Rightarrow> 'b res" where
  "bind m f = (case m of Inl e \<Rightarrow> Inl e | Inr x \<Rightarrow> f x)"

definition raise_if :: "bool \<Rightarrow> exc \<Rightarrow> 'a res \<Rightarrow> 'a res" where
  "raise_if c e k = (if c then Inl e else k)"

text \<open>\<open>if c: raise ContractError(msg)\<close>, followed by the rest of the body.\<close>

definition deny_if :: "bool \<Rightarrow> string \<Rightarrow> 'a res \<Rightarrow> 'a res" where
  "deny_if c msg k = (if c then Inl (ContractError msg) else k)"

text \<open>\<open>try: m except P: raise e\<close>.\<close>

definition rewrap :: "(exc \<Rightarrow> bool) \<Rightarrow> (exc \<Rightarrow> exc) \<Rightarrow> 'a res \<Rightarrow> 'a res" where
  "rewrap P f m = (case m of Inl e \<Rightarrow> Inl (if P e then f e else e) | Inr x \<Rightarrow> Inr x)"

text \<open>A \<open>for\<close> loop whose body updates an accumulator or raises.\<close>

fun for_each :: "('a \<Rightarrow> 's \<Rightarrow> 's res) \<Rightarrow> 'a list \<Rightarrow> 's \<Rightarrow> 's res" where
  "for_each f [] s = Inr s"
| "for_each f (x # xs) s = bind (f x s) (\<lambda>s'. for_each f xs s')"

text \<open>A list comprehension whose element expression can raise.\<close>

fun map_res :: "('a \<Rightarrow> 'b res) \<Rightarrow> 'a list \<Rightarrow> 'b list res" where
  "map_res f [] = Inr []"
| "map_res f (x # xs) = bind (f x) (\<lambda>y. bind (map_res f xs) (\<lambda>ys. Inr (y # ys)))"

fun is_ok :: "'a res \<Rightarrow> bool" where
  "is_ok (Inr _) = True"
| "is_ok (Inl _) = False"

subsection \<open>Reading a run backwards\<close>

named_theorems res_simps "equations that compute a run of the result monad"

lemma bind_simps [simp, res_simps]:
  "bind (Inl e) f = Inl e"
  "bind (Inr x) f = f x"
  by (simp_all add: bind_def)

lemma raise_if_simps [simp, res_simps]:
  "raise_if True e k = Inl e"
  "raise_if False e k = k"
  by (simp_all add: raise_if_def)

lemma deny_if_simps [simp, res_simps]:
  "deny_if True msg k = Inl (ContractError msg)"
  "deny_if False msg k = k"
  by (simp_all add: deny_if_def)

lemma bind_eq_Inr [simp]: "bind m f = Inr y \<longleftrightarrow> (\<exists>x. m = Inr x \<and> f x = Inr y)"
  by (cases m) auto

lemma bind_eq_Inl: "bind m f = Inl e \<longleftrightarrow> m = Inl e \<or> (\<exists>x. m = Inr x \<and> f x = Inl e)"
  by (cases m) auto

lemma raise_if_eq_Inr [simp]: "raise_if c e k = Inr y \<longleftrightarrow> \<not> c \<and> k = Inr y"
  by (simp add: raise_if_def)

lemma raise_if_eq_Inl: "raise_if c e k = Inl e' \<longleftrightarrow> (c \<and> e = e') \<or> (\<not> c \<and> k = Inl e')"
  by (simp add: raise_if_def)

lemma deny_if_eq_Inr [simp]: "deny_if c msg k = Inr y \<longleftrightarrow> \<not> c \<and> k = Inr y"
  by (simp add: deny_if_def)

lemma deny_if_eq_Inl:
  "deny_if c msg k = Inl e \<longleftrightarrow> (c \<and> e = ContractError msg) \<or> (\<not> c \<and> k = Inl e)"
  by (auto simp: deny_if_def)

lemma rewrap_eq_Inr [simp]: "rewrap P f m = Inr y \<longleftrightarrow> m = Inr y"
  by (cases m) (auto simp: rewrap_def)

lemma rewrap_simps [simp, res_simps]:
  "rewrap P f (Inr x) = Inr x"
  "rewrap P f (Inl e) = Inl (if P e then f e else e)"
  by (simp_all add: rewrap_def)

lemma rewrap_eq_Inl:
  "rewrap P f m = Inl e' \<longleftrightarrow> (\<exists>e. m = Inl e \<and> e' = (if P e then f e else e))"
  by (cases m) (auto simp: rewrap_def)

text \<open>A successful match whose other branches raise.\<close>

lemma case_option_Inr [simp]:
  "(case x of None \<Rightarrow> Inl e | Some y \<Rightarrow> f y) = Inr r \<longleftrightarrow> (\<exists>y. x = Some y \<and> f y = Inr r)"
  by (cases x) auto

lemma case_list_Inr [simp]:
  "(case xs of [] \<Rightarrow> Inl e | y # ys \<Rightarrow> f y ys) = Inr r \<longleftrightarrow> (\<exists>y ys. xs = y # ys \<and> f y ys = Inr r)"
  "(case xs of [] \<Rightarrow> m | y # ys \<Rightarrow> Inl (g y ys)) = Inr r \<longleftrightarrow> xs = [] \<and> m = Inr r"
  by (cases xs; auto)+

lemmas res_errors = bind_eq_Inl raise_if_eq_Inl deny_if_eq_Inl rewrap_eq_Inl

lemma is_ok_iff: "is_ok m \<longleftrightarrow> (\<exists>x. m = Inr x)"
  by (cases m) auto

lemma bind_cong [fundef_cong]:
  "m = m' \<Longrightarrow> (\<And>x. m' = Inr x \<Longrightarrow> f x = f' x) \<Longrightarrow> bind m f = bind m' f'"
  by (cases m') auto

subsection \<open>Loops\<close>

lemma for_each_append:
  "for_each f (xs @ ys) s = bind (for_each f xs s) (\<lambda>s'. for_each f ys s')"
  by (induction xs arbitrary: s) (simp_all add: bind_def split: sum.splits)

text \<open>The invariant rule for loops: what one turn keeps, the loop keeps.\<close>

lemma for_each_invariant:
  assumes "for_each f xs s = Inr s'" and "I s"
    and "\<And>x s s'. x \<in> set xs \<Longrightarrow> f x s = Inr s' \<Longrightarrow> I s \<Longrightarrow> I s'"
  shows "I s'"
  using assms by (induction xs arbitrary: s) auto

text \<open>The same with the processed prefix visible to the invariant.\<close>

lemma for_each_prefix_invariant:
  assumes "for_each f xs s = Inr s'" and "I [] s"
    and "\<And>pre x s s'. f x s = Inr s' \<Longrightarrow> I pre s \<Longrightarrow> I (pre @ [x]) s'"
  shows "I xs s'"
proof -
  have "for_each f xs s = Inr s' \<Longrightarrow> I pre s \<Longrightarrow> I (pre @ xs) s'" for pre xs s
  proof (induction xs arbitrary: pre s)
    case Nil
    then show ?case by simp
  next
    case (Cons x xs)
    then obtain t where "f x s = Inr t" and rest: "for_each f xs t = Inr s'"
      by auto
    with Cons.prems have "I (pre @ [x]) t" using assms(3) by blast
    from Cons.IH [OF rest this] show ?case by simp
  qed
  from this [of xs s "[]"] assms(1,2) show ?thesis by simp
qed

text \<open>Which exceptions can leave a loop: those of its body.\<close>

lemma for_each_error:
  assumes "for_each f xs s = Inl e" and "\<And>x s e. f x s = Inl e \<Longrightarrow> P e"
  shows "P e"
  using assms by (induction xs arbitrary: s) (auto simp: res_errors)

lemma map_res_Inr_iff: "map_res f xs = Inr ys \<longleftrightarrow> list_all2 (\<lambda>x y. f x = Inr y) xs ys"
  by (induction xs arbitrary: ys) (auto simp: list_all2_Cons1)

lemma map_res_error: "map_res f xs = Inl e \<Longrightarrow> (\<And>x. f x = Inl e \<Longrightarrow> P) \<Longrightarrow> P"
  by (induction xs) (auto simp: res_errors)

lemma map_res_id: "(\<And>x. x \<in> set xs \<Longrightarrow> f x = Inr (g x)) \<Longrightarrow> map_res f xs = Inr (map g xs)"
  by (induction xs) auto

text \<open>The simplifier need not look into messages.\<close>

lemma deny_if_cong [cong]: "c = c' \<Longrightarrow> k = k' \<Longrightarrow> deny_if c msg k = deny_if c' msg k'"
  by simp

lemma message_cong [cong]:
  "ContractError msg = ContractError msg" "PendingRelease msg = PendingRelease msg"
  "ValueError msg = ValueError msg" "SystemExit msg = SystemExit msg"
  "EarlyReturn msg = EarlyReturn msg"
  by (rule refl)+

subsection \<open>Which exceptions can leave a run\<close>

text \<open>
  \<open>errs P m\<close>: if the run \<open>m\<close> raises, it raises an exception in \<open>P\<close>.  The rules in
  \<open>errs\<close> take a translated body apart call by call.
\<close>

definition errs :: "(exc \<Rightarrow> bool) \<Rightarrow> 'a res \<Rightarrow> bool" where
  "errs P m = (\<forall>e. m = Inl e \<longrightarrow> P e)"

named_theorems errs "rules that take a run apart into the calls that can raise"

lemma errsD: "errs P m \<Longrightarrow> m = Inl e \<Longrightarrow> P e"
  by (simp add: errs_def)

lemma errsI: "(\<And>e. m = Inl e \<Longrightarrow> P e) \<Longrightarrow> errs P m"
  by (simp add: errs_def)

lemma errs_Inr [errs, simp]: "errs P (Inr x)"
  by (simp add: errs_def)

lemma errs_Inl [simp]: "errs P (Inl e) \<longleftrightarrow> P e"
  by (simp add: errs_def)

lemma errs_raise [errs]: "P e \<Longrightarrow> errs P (Inl e)"
  by (simp add: errs_def)

lemma errs_bind [errs]: "errs P m \<Longrightarrow> (\<And>x. m = Inr x \<Longrightarrow> errs P (f x)) \<Longrightarrow> errs P (bind m f)"
  by (auto simp: errs_def bind_eq_Inl)

lemma errs_raise_if [errs]: "P e \<Longrightarrow> (\<not> c \<Longrightarrow> errs P k) \<Longrightarrow> errs P (raise_if c e k)"
  by (auto simp: errs_def raise_if_eq_Inl)

lemma errs_deny_if [errs]:
  "P (ContractError msg) \<Longrightarrow> (\<not> c \<Longrightarrow> errs P k) \<Longrightarrow> errs P (deny_if c msg k)"
  by (auto simp: errs_def deny_if_eq_Inl)

lemma errs_rewrap [errs]:
  "errs (\<lambda>e. P (if Q e then f e else e)) m \<Longrightarrow> errs P (rewrap Q f m)"
  unfolding errs_def rewrap_eq_Inl by metis

lemma errs_if [errs]: "(c \<Longrightarrow> errs P a) \<Longrightarrow> (\<not> c \<Longrightarrow> errs P b) \<Longrightarrow> errs P (if c then a else b)"
  by simp

lemma errs_option [errs]:
  "(x = None \<Longrightarrow> errs P a) \<Longrightarrow> (\<And>y. x = Some y \<Longrightarrow> errs P (f y)) \<Longrightarrow>
   errs P (case x of None \<Rightarrow> a | Some y \<Rightarrow> f y)"
  by (cases x) auto

lemma errs_list [errs]:
  "(xs = [] \<Longrightarrow> errs P a) \<Longrightarrow> (\<And>y ys. xs = y # ys \<Longrightarrow> errs P (f y ys)) \<Longrightarrow>
   errs P (case xs of [] \<Rightarrow> a | y # ys \<Rightarrow> f y ys)"
  by (cases xs) auto

lemma errs_prod [errs]: "(\<And>x y. p = (x, y) \<Longrightarrow> errs P (f x y)) \<Longrightarrow> errs P (case p of (x, y) \<Rightarrow> f x y)"
  by (cases p) auto

lemma errs_mono: "errs P m \<Longrightarrow> (\<And>e. P e \<Longrightarrow> Q e) \<Longrightarrow> errs Q m"
  by (auto simp: errs_def)

lemma errs_for_each: "(\<And>x s. x \<in> set xs \<Longrightarrow> errs P (f x s)) \<Longrightarrow> errs P (for_each f xs s)"
  by (induction xs arbitrary: s) (auto intro!: errs)

lemma errs_map_res: "(\<And>x. x \<in> set xs \<Longrightarrow> errs P (f x)) \<Longrightarrow> errs P (map_res f xs)"
  by (induction xs) (auto intro!: errs)

section \<open>Association lists as dictionaries\<close>

lemma map_of_Some_in_keys: "map_of d k = Some v \<Longrightarrow> k \<in> set (map fst d)"
  by (force dest: map_of_SomeD)

lemma map_of_None_iff: "map_of d k = None \<longleftrightarrow> k \<notin> set (map fst d)"
  by (auto simp: map_of_eq_None_iff)

lemma map_of_exists: "k \<in> set (map fst d) \<Longrightarrow> \<exists>v. map_of d k = Some v"
  by (metis map_of_None_iff not_None_eq)

end
