(* ===== verification/PyText.thy ===== *)
theory PyText
  imports Prelude "HOL-Library.Char_ord" "HOL-Library.List_Lexorder"
begin

text \<open>
  The text operations of Python that the scripts use.  A \<open>bytes\<close> value is a
  \<open>string\<close>, one character per byte.  A \<open>str\<close> value is the \<open>string\<close> of its
  UTF-8 bytes, so \<open>decode\<close> is a validity check that returns its argument, and
  comparison of code points is comparison of bytes.  A lone surrogate, which only
  a JSON escape can produce, is kept as its three-byte encoding and fails
  \<open>encode\<close>.  The whitespace and line-break sets are those of Unicode.
\<close>

section \<open>Bytes and UTF-8\<close>

abbreviation byte :: "char \<Rightarrow> nat" where
  "byte c \<equiv> of_char c"

definition byte_in :: "nat \<Rightarrow> nat \<Rightarrow> char \<Rightarrow> bool" where
  "byte_in lo hi c = (lo \<le> byte c \<and> byte c \<le> hi)"

fun utf8_valid :: "string \<Rightarrow> bool" where
  "utf8_valid [] = True"
| "utf8_valid (a # s) =
    (if byte a < 128 then utf8_valid s
     else if byte_in 194 223 a then
       (case s of b # t \<Rightarrow> if byte_in 128 191 b then utf8_valid t else False | [] \<Rightarrow> False)
     else if byte_in 224 239 a then
       (case s of b # c # t \<Rightarrow>
          if byte_in (if byte a = 224 then 160 else 128) (if byte a = 237 then 159 else 191) b
             \<and> byte_in 128 191 c
          then utf8_valid t else False
        | _ \<Rightarrow> False)
     else if byte_in 240 244 a then
       (case s of b # c # d # t \<Rightarrow>
          if byte_in (if byte a = 240 then 144 else 128) (if byte a = 244 then 143 else 191) b
             \<and> byte_in 128 191 c \<and> byte_in 128 191 d
          then utf8_valid t else False
        | _ \<Rightarrow> False)
     else False)"

definition is_ascii :: "string \<Rightarrow> bool" where
  "is_ascii s = list_all (\<lambda>c. byte c < 128) s"

text \<open>\<open>payload.decode("utf-8")\<close> and \<open>text.encode("utf-8")\<close>.\<close>

definition decode_utf8 :: "string \<Rightarrow> string res" where
  "decode_utf8 s = (if utf8_valid s then Inr s else Inl UnicodeDecodeError)"

definition encode_utf8 :: "string \<Rightarrow> string res" where
  "encode_utf8 s = (if utf8_valid s then Inr s else Inl UnicodeEncodeError)"

lemma utf8_valid_low [simp]: "byte a < 128 \<Longrightarrow> utf8_valid (a # s) = utf8_valid s"
  by simp

declare utf8_valid.simps(2) [simp del]

lemma utf8_valid_ascii: "is_ascii s \<Longrightarrow> utf8_valid s"
  by (induction s) (simp_all add: is_ascii_def)

lemma utf8_valid_append: "utf8_valid s \<Longrightarrow> utf8_valid (s @ t) = utf8_valid t"
proof (induction s rule: length_induct)
  case (1 s)
  note IH = "1.IH" [rule_format]
  show ?case
  proof (cases s)
    case Nil
    then show ?thesis by simp
  next
    case (Cons a u)
    then have valid: "utf8_valid (a # u)" using "1.prems" by simp
    consider (one) "byte a < 128" | (two) "\<not> byte a < 128" "byte_in 194 223 a"
      | (three) "\<not> byte a < 128" "\<not> byte_in 194 223 a" "byte_in 224 239 a"
      | (four) "\<not> byte a < 128" "\<not> byte_in 194 223 a" "\<not> byte_in 224 239 a" "byte_in 240 244 a"
      using valid by (auto simp: utf8_valid.simps(2) split: if_splits)
    then show ?thesis
    proof cases
      case one
      with valid have "utf8_valid u" by simp
      then have "utf8_valid (u @ t) = utf8_valid t" using IH [of u] Cons by simp
      with one Cons show ?thesis by simp
    next
      case two
      with valid obtain b v where u: "u = b # v" and b: "byte_in 128 191 b" and v: "utf8_valid v"
        by (auto simp: utf8_valid.simps(2) split: list.splits if_splits)
      have "utf8_valid (v @ t) = utf8_valid t" using IH [of v] Cons u v by simp
      with two Cons u b show ?thesis by (simp add: utf8_valid.simps(2))
    next
      case three
      with valid obtain b c v where u: "u = b # c # v" and v: "utf8_valid v"
        by (auto simp: utf8_valid.simps(2) split: list.splits if_splits)
      have "utf8_valid (v @ t) = utf8_valid t" using IH [of v] Cons u v by simp
      with three Cons u valid show ?thesis
        by (simp add: utf8_valid.simps(2) split: if_splits)
    next
      case four
      with valid obtain b c d v where u: "u = b # c # d # v" and v: "utf8_valid v"
        by (auto simp: utf8_valid.simps(2) split: list.splits if_splits)
      have "utf8_valid (v @ t) = utf8_valid t" using IH [of v] Cons u v by simp
      with four Cons u valid show ?thesis
        by (simp add: utf8_valid.simps(2) split: if_splits)
    qed
  qed
qed

lemma is_ascii_simps [simp]:
  "is_ascii []" "is_ascii (c # s) \<longleftrightarrow> byte c < 128 \<and> is_ascii s"
  "is_ascii (s @ t) \<longleftrightarrow> is_ascii s \<and> is_ascii t"
  by (simp_all add: is_ascii_def)

section \<open>Prefixes, suffixes, splitting\<close>

definition startswith :: "string \<Rightarrow> string \<Rightarrow> bool" where
  "startswith s p = (take (length p) s = p)"

definition endswith :: "string \<Rightarrow> string \<Rightarrow> bool" where
  "endswith s p = (length p \<le> length s \<and> drop (length s - length p) s = p)"

definition removeprefix :: "string \<Rightarrow> string \<Rightarrow> string" where
  "removeprefix s p = (if startswith s p then drop (length p) s else s)"

lemma startswith_iff: "startswith s p \<longleftrightarrow> (\<exists>t. s = p @ t)"
  by (metis append_eq_conv_conj append_take_drop_id startswith_def)

lemma endswith_iff: "endswith s p \<longleftrightarrow> (\<exists>t. s = t @ p)"
proof
  assume "endswith s p"
  then have "s = take (length s - length p) s @ p"
    by (metis append_take_drop_id endswith_def)
  then show "\<exists>t. s = t @ p" by blast
qed (auto simp: endswith_def)

lemma startswith_append [simp]: "startswith (p @ s) p"
  by (auto simp: startswith_iff)

lemma removeprefix_append [simp]: "removeprefix (p @ s) p = s"
  by (simp add: removeprefix_def startswith_def)

text \<open>\<open>needle in hay\<close>.\<close>

fun contains :: "string \<Rightarrow> string \<Rightarrow> bool" where
  "contains hay needle =
    (startswith hay needle \<or> (case hay of [] \<Rightarrow> False | _ # t \<Rightarrow> contains t needle))"

declare contains.simps [simp del]

lemma contains_simps [simp]:
  "contains [] p \<longleftrightarrow> p = []"
  "contains (c # s) p \<longleftrightarrow> startswith (c # s) p \<or> contains s p"
  by (auto simp: contains.simps [of "[]"] contains.simps [of "c # s"] startswith_def)

lemma contains_iff: "contains s p \<longleftrightarrow> (\<exists>a b. s = a @ p @ b)"
proof (induction s)
  case Nil
  then show ?case by simp
next
  case (Cons c s)
  show ?case
  proof
    assume "contains (c # s) p"
    then consider t where "c # s = p @ t" | a b where "s = a @ p @ b"
      using Cons.IH by (auto simp: startswith_iff)
    then show "\<exists>a b. c # s = a @ p @ b"
    proof cases
      case 1
      then have "c # s = [] @ p @ t" by simp
      then show ?thesis by blast
    next
      case 2
      then have "c # s = (c # a) @ p @ b" by simp
      then show ?thesis by blast
    qed
  next
    assume "\<exists>a b. c # s = a @ p @ b"
    then obtain a b where eq: "c # s = a @ p @ b" by blast
    show "contains (c # s) p"
    proof (cases a)
      case Nil
      with eq have "startswith (c # s) p" by (auto simp: startswith_iff)
      then show ?thesis by simp
    next
      case (Cons x a')
      with eq have "s = a' @ p @ b" by simp
      then show ?thesis using Cons.IH by auto
    qed
  qed
qed

text \<open>\<open>s.split(sep)\<close> on a single-character separator: never empty.\<close>

fun split_on :: "char \<Rightarrow> string \<Rightarrow> string list" where
  "split_on sep [] = [[]]"
| "split_on sep (c # s) =
    (if c = sep then [] # split_on sep s
     else (case split_on sep s of [] \<Rightarrow> [[c]] | w # ws \<Rightarrow> (c # w) # ws))"

fun join :: "string \<Rightarrow> string list \<Rightarrow> string" where
  "join sep [] = []"
| "join sep [w] = w"
| "join sep (w # v # ws) = w @ sep @ join sep (v # ws)"

text \<open>\<open>s.split(sep, 1)\<close> and \<open>s.partition(sep)\<close>: the parts around the first separator.\<close>

fun split_first :: "char \<Rightarrow> string \<Rightarrow> (string \<times> string) option" where
  "split_first sep [] = None"
| "split_first sep (c # s) =
    (if c = sep then Some ([], s)
     else map_option (\<lambda>(a, b). (c # a, b)) (split_first sep s))"

lemma split_on_nonempty [simp]: "split_on sep s \<noteq> []"
  by (cases s) (auto split: list.splits)

lemma join_split_on: "join [sep] (split_on sep s) = s"
proof (induction s)
  case Nil
  then show ?case by simp
next
  case (Cons c s)
  then show ?case
    by (cases "split_on sep s" rule: list.exhaust) (auto split: list.splits, (metis join.elims neq_Nil_conv append_Cons join.simps)+)
qed

lemma split_on_no_sep: "w \<in> set (split_on sep s) \<Longrightarrow> sep \<notin> set w"
  by (induction s arbitrary: w) (auto split: if_splits list.splits)

lemma split_on_word: "sep \<notin> set w \<Longrightarrow> split_on sep w = [w]"
  by (induction w) auto

lemma split_on_append: "sep \<notin> set w \<Longrightarrow> split_on sep (w @ sep # s) = w # split_on sep s"
  by (induction w) auto

lemma split_first_Some: "split_first sep s = Some (a, b) \<Longrightarrow> s = a @ sep # b \<and> sep \<notin> set a"
  by (induction s arbitrary: a) (auto split: if_splits)

lemma split_first_append: "sep \<notin> set a \<Longrightarrow> split_first sep (a @ sep # b) = Some (a, b)"
  by (induction a) auto

section \<open>Whitespace and lines\<close>

text \<open>
  Length in bytes of the whitespace character a string starts with, 0 if it
  starts with none: the ASCII ones, U+0085, U+00A0, U+1680, U+2000 to U+200A,
  U+2028, U+2029, U+202F, U+205F and U+3000.
\<close>

definition ascii_space :: "char \<Rightarrow> bool" where
  "ascii_space c = (byte_in 9 13 c \<or> byte_in 28 32 c)"

definition space_bytes :: "nat list \<Rightarrow> bool" where
  "space_bytes bs =
    (case bs of
       [a, b] \<Rightarrow> a = 194 \<and> (b = 133 \<or> b = 160)
     | [a, b, c] \<Rightarrow>
         (a = 225 \<and> b = 154 \<and> c = 128)
       \<or> (a = 226 \<and> b = 128 \<and> (128 \<le> c \<and> c \<le> 138 \<or> c = 168 \<or> c = 169 \<or> c = 175))
       \<or> (a = 226 \<and> b = 129 \<and> c = 159)
       \<or> (a = 227 \<and> b = 128 \<and> c = 128)
     | _ \<Rightarrow> False)"

definition leading_space :: "string \<Rightarrow> nat" where
  "leading_space s =
    (case s of
       [] \<Rightarrow> 0
     | c # t \<Rightarrow>
       if ascii_space c then 1
       else if 2 \<le> length s \<and> space_bytes (map byte (take 2 s)) then 2
       else if 3 \<le> length s \<and> space_bytes (map byte (take 3 s)) then 3 else 0)"

text \<open>The same at the end; the argument is the reversed string.\<close>

definition trailing_space :: "string \<Rightarrow> nat" where
  "trailing_space r =
    (case r of
       [] \<Rightarrow> 0
     | c # t \<Rightarrow>
       if ascii_space c then 1
       else if 2 \<le> length r \<and> space_bytes (map byte (rev (take 2 r))) then 2
       else if 3 \<le> length r \<and> space_bytes (map byte (rev (take 3 r))) then 3 else 0)"

lemma leading_space_le: "leading_space s \<le> length s"
  by (auto simp: leading_space_def split: list.splits)

lemma trailing_space_le: "trailing_space s \<le> length s"
  by (auto simp: trailing_space_def split: list.splits)

lemma leading_space_drop: "leading_space s \<noteq> 0 \<Longrightarrow> length (drop (leading_space s) s) < length s"
  by (cases s) (auto simp: leading_space_def)

lemma trailing_space_drop: "trailing_space s \<noteq> 0 \<Longrightarrow> length (drop (trailing_space s) s) < length s"
  by (cases s) (auto simp: trailing_space_def)

function lstrip :: "string \<Rightarrow> string" where
  "lstrip s = (if leading_space s = 0 then s else lstrip (drop (leading_space s) s))"
  by pat_completeness auto
termination
  by (relation "measure length") (use leading_space_drop in auto)

function rstrip_rev :: "string \<Rightarrow> string" where
  "rstrip_rev r = (if trailing_space r = 0 then r else rstrip_rev (drop (trailing_space r) r))"
  by pat_completeness auto
termination
  by (relation "measure length") (use trailing_space_drop in auto)

declare lstrip.simps [simp del] rstrip_rev.simps [simp del]

definition rstrip :: "string \<Rightarrow> string" where
  "rstrip s = rev (rstrip_rev (rev s))"

definition strip :: "string \<Rightarrow> string" where
  "strip s = rstrip (lstrip s)"

text \<open>\<open>s.rstrip("\r\n")\<close>.\<close>

definition rstrip_crlf :: "string \<Rightarrow> string" where
  "rstrip_crlf s = rev (dropWhile (\<lambda>c. c = CHR 0x0A \<or> c = CHR 0x0D) (rev s))"

text \<open>\<open>s.split()\<close>: the maximal runs of non-whitespace.\<close>

function words_acc :: "string \<Rightarrow> string \<Rightarrow> string list" where
  "words_acc cur s =
    (case s of
       [] \<Rightarrow> if cur = [] then [] else [rev cur]
     | c # t \<Rightarrow>
       if leading_space s = 0 then words_acc (c # cur) t
       else (if cur = [] then [] else [rev cur]) @ words_acc [] (drop (leading_space s) s))"
  by pat_completeness auto
termination
  by (relation "measure (\<lambda>(cur, s). length s)") (use leading_space_le in auto)

declare words_acc.simps [simp del]

definition words :: "string \<Rightarrow> string list" where
  "words s = words_acc [] s"

text \<open>
  \<open>s.splitlines()\<close>: length in bytes of the line boundary a string starts with.
  A carriage return and line feed count as one boundary.
\<close>

fun line_break :: "string \<Rightarrow> nat" where
  "line_break [] = 0"
| "line_break (c # t) =
    (if c = CHR 0x0D then (case t of d # _ \<Rightarrow> if d = CHR 0x0A then 2 else 1 | [] \<Rightarrow> 1)
     else if byte_in 10 12 c \<or> byte_in 28 30 c then 1
     else (case t of
             d # u \<Rightarrow>
               if byte c = 194 \<and> byte d = 133 then 2
               else if byte c = 226 \<and> byte d = 128
                 then (case u of e # _ \<Rightarrow> if byte e = 168 \<or> byte e = 169 then 3 else 0 | [] \<Rightarrow> 0)
               else 0
           | [] \<Rightarrow> 0))"

lemma line_break_le: "line_break s \<le> length s"
  by (cases s) (auto split: list.splits)

function lines_acc :: "string \<Rightarrow> string \<Rightarrow> string list" where
  "lines_acc cur s =
    (case s of
       [] \<Rightarrow> if cur = [] then [] else [rev cur]
     | c # t \<Rightarrow>
       if line_break s = 0 then lines_acc (c # cur) t
       else rev cur # lines_acc [] (drop (line_break s) s))"
  by pat_completeness auto
termination
  by (relation "measure (\<lambda>(cur, s). length s)") (use line_break_le in auto)

declare lines_acc.simps [simp del]

definition splitlines :: "string \<Rightarrow> string list" where
  "splitlines s = lines_acc [] s"

text \<open>Text-mode reading of a pipe: every CR LF and lone CR becomes LF.\<close>

fun universal_newlines :: "string \<Rightarrow> string" where
  "universal_newlines [] = []"
| "universal_newlines (c # s) =
    (if c = CHR 0x0D
     then (case s of d # t \<Rightarrow> if d = CHR 0x0A then CHR 0x0A # universal_newlines t
                              else CHR 0x0A # universal_newlines s
           | [] \<Rightarrow> [CHR 0x0A])
     else c # universal_newlines s)"

text \<open>
  \<open>subprocess.run\<close> on the external programs \<open>git\<close>, \<open>gh\<close> and \<open>cosign\<close>.  What such a
  program answers is a parameter of the model: a \<open>runner\<close> maps the argument list
  (for git, the arguments after \<open>git -C <repository>\<close>) to its outcome.  The
  scripts only ask read-only questions, so an answer depends on the question alone.
\<close>

datatype outcome =
    Exited int string string  \<comment> \<open>return code, standard output, standard error\<close>
  | SpawnFailed
  | TimedOut

type_synonym runner = "string list \<Rightarrow> outcome"

text \<open>The output as bytes, with the return code.\<close>

definition run_bytes :: "runner \<Rightarrow> string list \<Rightarrow> (int \<times> string) res" where
  "run_bytes run args =
    (case run args of
       Exited rc out err \<Rightarrow> Inr (rc, out)
     | SpawnFailed \<Rightarrow> Inl OSError
     | TimedOut \<Rightarrow> Inl SubprocessError)"

text \<open>\<open>text=True, encoding="utf-8"\<close>: both pipes are decoded and their newlines translated.\<close>

definition run_text :: "runner \<Rightarrow> string list \<Rightarrow> (int \<times> string) res" where
  "run_text run args =
    (case run args of
       Exited rc out err \<Rightarrow>
         if utf8_valid out \<and> utf8_valid err then Inr (rc, universal_newlines out) else Inl UnicodeDecodeError
     | SpawnFailed \<Rightarrow> Inl OSError
     | TimedOut \<Rightarrow> Inl SubprocessError)"

text \<open>\<open>check=True\<close>: a nonzero return code raises.\<close>

definition run_checked :: "runner \<Rightarrow> string list \<Rightarrow> string res" where
  "run_checked run args =
    bind (run_text run args) (\<lambda>(rc, out). raise_if (rc \<noteq> 0) SubprocessError (Inr out))"

end
