(* ===== verification/PyPattern.thy ===== *)
theory PyPattern
  imports PyText
begin

text \<open>
  Decimal and hexadecimal text, and recognisers for the regular expressions of
  the scripts.  Every pattern is used through \<open>fullmatch\<close>, so each recogniser
  decides the whole string; character classes are the ASCII ranges the patterns
  spell out.  The interpreter's configurable limit on the digits of an
  \<open>int\<close> conversion is not modelled: \<open>int()\<close> and \<open>str()\<close> work at any length.
\<close>

section \<open>Character classes\<close>

definition is_digit :: "char \<Rightarrow> bool" where
  "is_digit c = byte_in 48 57 c"

definition is_hex :: "char \<Rightarrow> bool" where
  "is_hex c = (byte_in 48 57 c \<or> byte_in 97 102 c)"

definition is_slug_char :: "char \<Rightarrow> bool" where
  "is_slug_char c = (byte_in 48 57 c \<or> byte_in 97 122 c)"

definition is_name_char :: "char \<Rightarrow> bool" where
  "is_name_char c =
    (byte_in 48 57 c \<or> byte_in 65 90 c \<or> byte_in 97 122 c \<or> c \<in> {CHR ''_'', CHR ''.'', CHR ''-''})"

section \<open>Decimal numbers\<close>

definition digit_char :: "nat \<Rightarrow> char" where
  "digit_char d = char_of (48 + d)"

definition digit_val :: "char \<Rightarrow> nat" where
  "digit_val c = byte c - 48"

fun show_nat :: "nat \<Rightarrow> string" where
  "show_nat n = (if n < 10 then [digit_char n] else show_nat (n div 10) @ [digit_char (n mod 10)])"

declare show_nat.simps [simp del]

definition show_int :: "int \<Rightarrow> string" where
  "show_int i = (if i < 0 then ''-'' @ show_nat (nat (- i)) else show_nat (nat i))"

definition read_nat :: "string \<Rightarrow> nat" where
  "read_nat s = foldl (\<lambda>n c. 10 * n + digit_val c) 0 s"

lemma digit_char_simps [simp]:
  assumes "d < 10"
  shows "byte (digit_char d) = 48 + d" "is_digit (digit_char d)" "digit_val (digit_char d) = d"
  using assms by (simp_all add: digit_char_def is_digit_def digit_val_def byte_in_def)

lemma char_of_48 [simp]: "char_of (48 :: nat) = CHR ''0''"
  using char_of_char [of "CHR ''0''"] by simp

lemma digit_val_less: "is_digit c \<Longrightarrow> digit_val c < 10"
  by (auto simp: is_digit_def digit_val_def byte_in_def)

lemma digit_char_val: "is_digit c \<Longrightarrow> digit_char (digit_val c) = c"
  by (auto simp: is_digit_def digit_val_def digit_char_def byte_in_def)

lemma digit_char_eq_iff: "d < 10 \<Longrightarrow> is_digit c \<Longrightarrow> digit_char d = c \<longleftrightarrow> digit_val c = d"
  using digit_char_val by auto

lemma read_nat_append: "read_nat (s @ [c]) = 10 * read_nat s + digit_val c"
  by (simp add: read_nat_def)

lemma show_nat_digits: "list_all is_digit (show_nat n)"
  by (induction n rule: show_nat.induct) (subst show_nat.simps, simp)

lemma show_nat_nonempty [simp]: "show_nat n \<noteq> []"
  by (subst show_nat.simps) simp

lemma read_show_nat [simp]: "read_nat (show_nat n) = n"
proof (induction n rule: show_nat.induct)
  case (1 n)
  show ?case
  proof (cases "n < 10")
    case True
    then show ?thesis by (subst show_nat.simps) (simp add: read_nat_def)
  next
    case False
    with "1.IH" show ?thesis by (subst show_nat.simps) (simp add: read_nat_append)
  qed
qed

lemma show_nat_inj: "show_nat m = show_nat n \<longleftrightarrow> m = n"
  by (metis read_show_nat)

text \<open>\<open>0|[1-9][0-9]*\<close>, the numbers without a redundant leading zero.\<close>

definition canonical_num :: "string \<Rightarrow> bool" where
  "canonical_num s = (s = ''0'' \<or> (s \<noteq> [] \<and> hd s \<noteq> CHR ''0'' \<and> list_all is_digit s))"

definition positive_num :: "string \<Rightarrow> bool" where
  "positive_num s = (s \<noteq> [] \<and> hd s \<noteq> CHR ''0'' \<and> list_all is_digit s)"

lemma show_nat_hd: "0 < n \<Longrightarrow> hd (show_nat n) \<noteq> CHR ''0''"
proof (induction n rule: show_nat.induct)
  case (1 n)
  show ?case
  proof (cases "n < 10")
    case True
    with "1.prems" show ?thesis
      using digit_char_eq_iff [of n "CHR ''0''"]
      by (subst show_nat.simps) (simp add: is_digit_def byte_in_def digit_val_def)
  next
    case False
    then have "hd (show_nat (n div 10)) \<noteq> CHR ''0''" using "1.IH" by simp
    with False show ?thesis by (subst show_nat.simps) simp
  qed
qed

lemma canonical_show_nat [simp]: "canonical_num (show_nat n)"
proof (cases "n = 0")
  case True
  then show ?thesis by (simp add: canonical_num_def show_nat.simps [of 0] digit_char_def)
next
  case False
  then show ?thesis using show_nat_hd [of n] show_nat_digits [of n] by (simp add: canonical_num_def)
qed

lemma positive_show_nat [simp]: "positive_num (show_nat n) \<longleftrightarrow> 0 < n"
proof (cases "n = 0")
  case True
  then show ?thesis by (simp add: positive_num_def show_nat.simps [of 0] digit_char_def)
next
  case False
  then show ?thesis using show_nat_hd [of n] show_nat_digits [of n] by (simp add: positive_num_def)
qed

lemma show_read_positive:
  "list_all is_digit s \<Longrightarrow> s \<noteq> [] \<Longrightarrow> hd s \<noteq> CHR ''0'' \<Longrightarrow> show_nat (read_nat s) = s \<and> 0 < read_nat s"
proof (induction s rule: rev_induct)
  case Nil
  then show ?case by simp
next
  case (snoc c s)
  show ?case
  proof (cases "s = []")
    case True
    with snoc.prems have c: "is_digit c" "c \<noteq> CHR ''0''" by auto
    then have "digit_val c \<noteq> 0"
      using digit_char_eq_iff [of 0 c] by (auto simp: digit_char_def)
    with True c show ?thesis
      by (simp add: read_nat_def show_nat.simps [of "digit_val c"] digit_val_less digit_char_val)
  next
    case False
    with snoc have IH: "show_nat (read_nat s) = s" "0 < read_nat s" and c: "is_digit c" by auto
    have "\<not> read_nat (s @ [c]) < 10" using IH(2) by (simp add: read_nat_append)
    then show ?thesis
      using IH c digit_val_less [of c]
      by (subst show_nat.simps) (simp add: read_nat_append digit_char_val)
  qed
qed

lemma show_read_nat: "canonical_num s \<Longrightarrow> show_nat (read_nat s) = s"
  using show_read_positive [of s]
  by (auto simp: canonical_num_def read_nat_def digit_val_def show_nat.simps [of 0] digit_char_def)

lemma read_nat_inj: "canonical_num s \<Longrightarrow> canonical_num t \<Longrightarrow> read_nat s = read_nat t \<longleftrightarrow> s = t"
  by (metis show_read_nat)

lemma digits_no_char: "list_all is_digit s \<Longrightarrow> \<not> is_digit c \<Longrightarrow> c \<notin> set s"
  by (auto simp: list_all_iff)

lemma canonical_num_digits: "canonical_num s \<Longrightarrow> list_all is_digit s"
  by (auto simp: canonical_num_def is_digit_def byte_in_def)

lemma show_nat_no_char [simp]: "\<not> is_digit c \<Longrightarrow> c \<notin> set (show_nat n)"
  using digits_no_char show_nat_digits by blast

text \<open>\<open>run_id.isascii() and run_id.isdecimal()\<close>.\<close>

definition ascii_decimal :: "string \<Rightarrow> bool" where
  "ascii_decimal s = (s \<noteq> [] \<and> list_all is_digit s)"

section \<open>Hashes and versions\<close>

text \<open>\<open>^[0-9a-f]{40}$\<close>\<close>

definition sha1_hex :: "string \<Rightarrow> bool" where
  "sha1_hex s = (length s = 40 \<and> list_all is_hex s)"

text \<open>\<open>^sha256:[0-9a-f]{64}$\<close>\<close>

definition sha256_ref :: "string \<Rightarrow> bool" where
  "sha256_ref s = (startswith s ''sha256:'' \<and> length s = 71 \<and> list_all is_hex (drop 7 s))"

text \<open>
  \<open>(0|[1-9][0-9]*)\.(0|[1-9][0-9]*)\.(0|[1-9][0-9]*)\<close> with its three groups
  read as numbers.
\<close>

definition semver_groups :: "string \<Rightarrow> (nat \<times> nat \<times> nat) option" where
  "semver_groups s =
    (case split_on (CHR ''.'') s of
       [a, b, c] \<Rightarrow>
         if canonical_num a \<and> canonical_num b \<and> canonical_num c
         then Some (read_nat a, read_nat b, read_nat c) else None
     | _ \<Rightarrow> None)"

definition show_semver :: "nat \<times> nat \<times> nat \<Rightarrow> string" where
  "show_semver v = (case v of (a, b, c) \<Rightarrow> show_nat a @ ''.'' @ show_nat b @ ''.'' @ show_nat c)"

text \<open>The same behind the letter \<open>v\<close>.\<close>

definition tag_groups :: "string \<Rightarrow> (nat \<times> nat \<times> nat) option" where
  "tag_groups s = (case s of c # t \<Rightarrow> if c = CHR ''v'' then semver_groups t else None | [] \<Rightarrow> None)"

lemma dot_not_digit [simp]: "\<not> is_digit CHR ''.''"
  by (simp add: is_digit_def byte_in_def)

lemma semver_groups_show [simp]: "semver_groups (show_semver v) = Some v"
proof (cases v)
  case (fields a b c)
  have "split_on (CHR ''.'') (show_semver v) = [show_nat a, show_nat b, show_nat c]"
    using fields by (simp add: show_semver_def split_on_append split_on_word)
  with fields show ?thesis by (simp add: semver_groups_def)
qed

lemma semver_groups_Some:
  assumes "semver_groups s = Some v"
  shows "s = show_semver v"
proof -
  from assms obtain a b c where p: "split_on (CHR ''.'') s = [a, b, c]"
    and can: "canonical_num a" "canonical_num b" "canonical_num c"
    and v: "v = (read_nat a, read_nat b, read_nat c)"
    by (auto simp: semver_groups_def split: list.splits if_splits)
  have "s = join ''.'' [a, b, c]" using join_split_on [of "CHR ''.''" s] p by simp
  with can v show ?thesis by (simp add: show_semver_def show_read_nat)
qed

lemma semver_groups_iff: "semver_groups s = Some v \<longleftrightarrow> s = show_semver v"
  using semver_groups_Some semver_groups_show by metis

lemma show_semver_inj: "show_semver v = show_semver w \<longleftrightarrow> v = w"
  by (metis semver_groups_show option.inject)

lemma tag_groups_iff: "tag_groups s = Some v \<longleftrightarrow> s = CHR ''v'' # show_semver v"
  by (cases s) (auto simp: tag_groups_def semver_groups_iff)

lemma tag_groups_show [simp]: "tag_groups (CHR ''v'' # show_semver v) = Some v"
  by (simp add: tag_groups_iff)

text \<open>\<open>^changelog\.d/([1-9][0-9]*)-[a-z0-9]+(?:-[a-z0-9]+)*\.md$\<close>\<close>

definition slug_word :: "string \<Rightarrow> bool" where
  "slug_word w = (w \<noteq> [] \<and> list_all is_slug_char w)"

definition fragment_path_ok :: "string \<Rightarrow> bool" where
  "fragment_path_ok p =
    (startswith p ''changelog.d/'' \<and> endswith p ''.md'' \<and> 15 \<le> length p \<and>
     (case split_on (CHR ''-'') (take (length p - 15) (drop 12 p)) of
        n # w # ws \<Rightarrow> positive_num n \<and> list_all slug_word (w # ws)
      | _ \<Rightarrow> False))"

text \<open>\<open>[A-Za-z0-9_.-]+/[A-Za-z0-9_.-]+\<close>\<close>

definition owner_name_ok :: "string \<Rightarrow> bool" where
  "owner_name_ok s =
    (case split_on (CHR ''/'') s of
       [a, b] \<Rightarrow> a \<noteq> [] \<and> b \<noteq> [] \<and> list_all is_name_char a \<and> list_all is_name_char b
     | _ \<Rightarrow> False)"

text \<open>\<open>^untagged-[0-9a-f]{20}$\<close>\<close>

definition server_draft_tag :: "string \<Rightarrow> bool" where
  "server_draft_tag s =
    (startswith s ''untagged-'' \<and> length s = 29 \<and> list_all is_hex (drop 9 s))"

lemma sha1_hex_ascii: "sha1_hex s \<Longrightarrow> is_ascii s"
  by (auto simp: sha1_hex_def is_ascii_def is_hex_def byte_in_def list_all_iff)

end
