(* ===== verification/PyJson.thy ===== *)
theory PyJson
  imports PyPattern
begin

text \<open>
  JSON values as \<open>json.loads\<close> builds them, Python's equality and type tests on
  them, \<open>dict\<close> access, and \<open>json.dumps\<close> with the options the scripts pass.
  \<open>None\<close> is \<open>JNull\<close>.  A dictionary is its list of items in insertion order.
  A float is a finite binary fraction \<open>m * 2^e\<close>, an infinity or a NaN; the
  conversion between decimal text and floats (the C library's \<open>dtoa\<close>) is the
  parameter \<open>float_text\<close>, and so is \<open>str()\<close> of a list or dictionary, whose text
  depends on Unicode's table of printable characters.
\<close>

section \<open>Values\<close>

datatype pyfloat = Fin int int | PosInf | NegInf | NaN

datatype json =
    JNull
  | JBool bool
  | JInt int
  | JFloat pyfloat
  | JStr string
  | JArr "json list"
  | JObj "(string \<times> json) list"

type_synonym dict = "(string \<times> json) list"

record float_text =
  parse_float :: "string \<Rightarrow> pyfloat"
  float_repr :: "pyfloat \<Rightarrow> string"
  container_str :: "json \<Rightarrow> string"

text \<open>Python's \<open>==\<close>: \<open>True == 1 == 1.0\<close>, and dictionaries compare without order.\<close>

fun float_int_eq :: "pyfloat \<Rightarrow> int \<Rightarrow> bool" where
  "float_int_eq (Fin m e) i = (if 0 \<le> e then m * 2 ^ nat e = i else m = i * 2 ^ nat (- e))"
| "float_int_eq _ i = False"

fun float_eq :: "pyfloat \<Rightarrow> pyfloat \<Rightarrow> bool" where
  "float_eq (Fin m e) (Fin n f) = (m * 2 ^ nat (e - min e f) = n * 2 ^ nat (f - min e f))"
| "float_eq PosInf PosInf = True"
| "float_eq NegInf NegInf = True"
| "float_eq _ _ = False"

fun as_int :: "json \<Rightarrow> int option" where
  "as_int (JInt i) = Some i"
| "as_int (JBool b) = Some (if b then 1 else 0)"
| "as_int _ = None"

lemma size_zip_left: "(x :: json, y) \<in> set (zip xs ys) \<Longrightarrow> size x < Suc (size_list size xs)"
  by (auto dest!: set_zip_leftD simp: less_Suc_eq_le intro: size_list_estimation')

lemma size_item_value:
  "(k, v) \<in> set d \<Longrightarrow> size v < Suc (size_list (size_prod (\<lambda>x. 0) size) (d :: (string \<times> json) list))"
  by (auto simp: less_Suc_eq_le intro!: size_list_estimation' [of "(k, v)"])

function json_eq :: "json \<Rightarrow> json \<Rightarrow> bool" where
  "json_eq JNull w = (w = JNull)"
| "json_eq (JBool b) w =
    (case w of JFloat f \<Rightarrow> float_int_eq f (if b then 1 else 0) | _ \<Rightarrow> as_int w = Some (if b then 1 else 0))"
| "json_eq (JInt i) w = (case w of JFloat f \<Rightarrow> float_int_eq f i | _ \<Rightarrow> as_int w = Some i)"
| "json_eq (JFloat f) w =
    (case w of JFloat g \<Rightarrow> float_eq f g
     | _ \<Rightarrow> (case as_int w of Some i \<Rightarrow> float_int_eq f i | None \<Rightarrow> False))"
| "json_eq (JStr s) w = (w = JStr s)"
| "json_eq (JArr xs) w =
    (case w of JArr ys \<Rightarrow> length xs = length ys \<and> list_all (\<lambda>(x, y). json_eq x y) (zip xs ys) | _ \<Rightarrow> False)"
| "json_eq (JObj d) w =
    (case w of
       JObj e \<Rightarrow> length d = length e \<and>
         list_all (\<lambda>(k, v). case map_of e k of Some u \<Rightarrow> json_eq v u | None \<Rightarrow> False) d
     | _ \<Rightarrow> False)"
  by pat_completeness auto
termination
  by (relation "measure (\<lambda>(v, w). size v)") (auto dest: size_zip_left size_item_value)

section \<open>Type tests and dictionary access\<close>

text \<open>\<open>isinstance(v, int) and not isinstance(v, bool) and v > 0\<close>, also \<open>type(v) is int\<close>.\<close>

fun positive_int :: "json \<Rightarrow> bool" where
  "positive_int (JInt i) = (0 < i)"
| "positive_int _ = False"

fun is_int :: "json \<Rightarrow> bool" where
  "is_int (JInt _) = True"
| "is_int _ = False"

fun is_bool :: "json \<Rightarrow> bool" where
  "is_bool (JBool _) = True"
| "is_bool _ = False"

fun is_str :: "json \<Rightarrow> bool" where
  "is_str (JStr _) = True"
| "is_str _ = False"

fun nonempty_str :: "json \<Rightarrow> bool" where
  "nonempty_str (JStr s) = (s \<noteq> [])"
| "nonempty_str _ = False"

text \<open>A string that satisfies a pattern: \<open>isinstance(v, str) and RE.fullmatch(v)\<close>.\<close>

fun str_matches :: "(string \<Rightarrow> bool) \<Rightarrow> json \<Rightarrow> bool" where
  "str_matches p (JStr s) = p s"
| "str_matches p _ = False"

text \<open>Sets and dictionary keys hash their members: lists and dictionaries raise \<open>TypeError\<close>.\<close>

fun hashable :: "json \<Rightarrow> bool" where
  "hashable (JArr _) = False"
| "hashable (JObj _) = False"
| "hashable _ = True"

text \<open>\<open>v in {"a", "b"}\<close> and \<open>v in ("a", "b")\<close> for strings.\<close>

definition in_str_set :: "json \<Rightarrow> string list \<Rightarrow> bool res" where
  "in_str_set v ss = (if hashable v then Inr (v \<in> JStr ` set ss) else Inl TypeError)"

definition in_strs :: "json \<Rightarrow> string list \<Rightarrow> bool" where
  "in_strs v ss = (v \<in> JStr ` set ss)"

text \<open>\<open>d.get(k)\<close>, \<open>d[k]\<close> on a dictionary, \<open>v[k]\<close> and \<open>v.get(k)\<close> on any value.\<close>

definition get :: "dict \<Rightarrow> string \<Rightarrow> json" where
  "get d k = (case map_of d k of Some v \<Rightarrow> v | None \<Rightarrow> JNull)"

definition has_key :: "dict \<Rightarrow> string \<Rightarrow> bool" where
  "has_key d k = (k \<in> set (map fst d))"

definition item :: "dict \<Rightarrow> string \<Rightarrow> json res" where
  "item d k = (case map_of d k of Some v \<Rightarrow> Inr v | None \<Rightarrow> Inl KeyError)"

definition subscript :: "json \<Rightarrow> string \<Rightarrow> json res" where
  "subscript v k = (case v of JObj d \<Rightarrow> item d k | _ \<Rightarrow> Inl TypeError)"

definition method_get :: "json \<Rightarrow> string \<Rightarrow> json res" where
  "method_get v k = (case v of JObj d \<Rightarrow> Inr (get d k) | _ \<Rightarrow> Inl AttributeError)"

text \<open>\<open>set(d) == {...}\<close>.\<close>

definition keys_are :: "dict \<Rightarrow> string list \<Rightarrow> bool" where
  "keys_are d ks = (set (map fst d) = set ks)"

definition keys_include :: "dict \<Rightarrow> string list \<Rightarrow> bool" where
  "keys_include d ks = list_all (has_key d) ks"

text \<open>\<open>d[k] = v\<close>: an existing key keeps its place.\<close>

fun put :: "dict \<Rightarrow> string \<Rightarrow> json \<Rightarrow> dict" where
  "put [] k v = [(k, v)]"
| "put ((k', v') # d) k v = (if k' = k then (k, v) # d else (k', v') # put d k v)"

definition update :: "dict \<Rightarrow> dict \<Rightarrow> dict" where
  "update d e = foldl (\<lambda>d (k, v). put d k v) d e"

lemma map_of_put: "map_of (put d k v) = (map_of d)(k \<mapsto> v)"
  by (induction d k v rule: put.induct) auto

lemma get_put [simp]: "get (put d k v) k' = (if k' = k then v else get d k')"
  by (simp add: get_def map_of_put)

lemma keys_put [simp]: "set (map fst (put d k v)) = insert k (set (map fst d))"
  by (induction d k v rule: put.induct) auto

lemma distinct_put: "distinct (map fst d) \<Longrightarrow> distinct (map fst (put d k v))"
  by (induction d k v rule: put.induct) (use keys_put in \<open>auto simp del: set_map keys_put\<close>)

lemma get_Cons [simp]: "get ((k, v) # d) k' = (if k' = k then v else get d k')"
  by (simp add: get_def)

lemma get_Nil [simp]: "get [] k = JNull"
  by (simp add: get_def)

lemma has_key_simps [simp]:
  "has_key [] k \<longleftrightarrow> False" "has_key ((k', v) # d) k \<longleftrightarrow> k = k' \<or> has_key d k"
  by (auto simp: has_key_def)

lemma item_Cons [simp]: "item ((k, v) # d) k' = (if k' = k then Inr v else item d k')"
  by (simp add: item_def)

lemma item_eq_Inr: "item d k = Inr v \<longleftrightarrow> map_of d k = Some v"
  by (simp add: item_def split: option.splits)

lemma item_get: "has_key d k \<Longrightarrow> item d k = Inr (get d k)"
  using map_of_exists [of k d] by (auto simp: item_def get_def has_key_def split: option.splits)

lemma subscript_simps [simp]: "subscript (JObj d) k = item d k"
  by (simp add: subscript_def)

lemma get_not_key: "\<not> has_key d k \<Longrightarrow> get d k = JNull"
  by (simp add: get_def has_key_def map_of_None_iff [THEN iffD2] del: set_map)

lemma keys_are_has_key: "keys_are d ks \<Longrightarrow> has_key d k \<longleftrightarrow> k \<in> set ks"
  by (simp add: keys_are_def has_key_def)

lemma positive_int_iff: "positive_int v \<longleftrightarrow> (\<exists>i. v = JInt i \<and> 0 < i)"
  by (cases v) auto

lemma is_int_iff: "is_int v \<longleftrightarrow> (\<exists>i. v = JInt i)"
  by (cases v) auto

lemma is_bool_iff: "is_bool v \<longleftrightarrow> (\<exists>b. v = JBool b)"
  by (cases v) auto

lemma nonempty_str_iff: "nonempty_str v \<longleftrightarrow> (\<exists>s. v = JStr s \<and> s \<noteq> [])"
  by (cases v) auto

lemma str_matches_iff: "str_matches p v \<longleftrightarrow> (\<exists>s. v = JStr s \<and> p s)"
  by (cases v) auto

lemmas json_shape = positive_int_iff is_int_iff is_bool_iff nonempty_str_iff str_matches_iff

lemma json_eq_str [simp]: "json_eq (JStr s) w \<longleftrightarrow> w = JStr s" "json_eq v (JStr s) \<longleftrightarrow> v = JStr s"
  by simp (cases v; auto)

text \<open>A successful match on one constructor.\<close>

lemma case_json_Inr [simp]:
  "(case v of JNull \<Rightarrow> Inl e0 | JBool b \<Rightarrow> Inl (e1 b) | JInt i \<Rightarrow> Inl (e2 i) | JFloat x \<Rightarrow> Inl (e3 x)
    | JStr s \<Rightarrow> Inl (e4 s) | JArr xs \<Rightarrow> Inl (e5 xs) | JObj d \<Rightarrow> f d) = Inr y \<longleftrightarrow> (\<exists>d. v = JObj d \<and> f d = Inr y)"
  "(case v of JNull \<Rightarrow> Inl e0 | JBool b \<Rightarrow> Inl (e1 b) | JInt i \<Rightarrow> Inl (e2 i) | JFloat x \<Rightarrow> Inl (e3 x)
    | JStr s \<Rightarrow> Inl (e4 s) | JArr xs \<Rightarrow> g xs | JObj d \<Rightarrow> Inl (e6 d)) = Inr y \<longleftrightarrow> (\<exists>xs. v = JArr xs \<and> g xs = Inr y)"
  "(case v of JNull \<Rightarrow> Inl e0 | JBool b \<Rightarrow> Inl (e1 b) | JInt i \<Rightarrow> Inl (e2 i) | JFloat x \<Rightarrow> Inl (e3 x)
    | JStr s \<Rightarrow> h s | JArr xs \<Rightarrow> Inl (e5 xs) | JObj d \<Rightarrow> Inl (e6 d)) = Inr y \<longleftrightarrow> (\<exists>s. v = JStr s \<and> h s = Inr y)"
  by (cases v; simp)+

lemma errs_json [errs]:
  assumes "v = JNull \<Longrightarrow> errs P a" "\<And>b. v = JBool b \<Longrightarrow> errs P (f1 b)" "\<And>i. v = JInt i \<Longrightarrow> errs P (f2 i)"
    "\<And>x. v = JFloat x \<Longrightarrow> errs P (f3 x)" "\<And>s. v = JStr s \<Longrightarrow> errs P (f4 s)"
    "\<And>xs. v = JArr xs \<Longrightarrow> errs P (f5 xs)" "\<And>d. v = JObj d \<Longrightarrow> errs P (f6 d)"
  shows "errs P (case v of JNull \<Rightarrow> a | JBool b \<Rightarrow> f1 b | JInt i \<Rightarrow> f2 i | JFloat x \<Rightarrow> f3 x
    | JStr s \<Rightarrow> f4 s | JArr xs \<Rightarrow> f5 xs | JObj d \<Rightarrow> f6 d)"
  using assms by (cases v) simp_all

lemma errs_item [errs]: "P KeyError \<Longrightarrow> errs P (item d k)"
  by (simp add: errs_def item_def split: option.splits)

lemma errs_subscript [errs]: "P KeyError \<Longrightarrow> P TypeError \<Longrightarrow> errs P (subscript v k)"
  by (cases v) (auto simp: subscript_def intro!: errs)

lemma errs_method_get [errs]: "P AttributeError \<Longrightarrow> errs P (method_get v k)"
  by (cases v) (auto simp: method_get_def)

lemma errs_in_str_set [errs]: "P TypeError \<Longrightarrow> errs P (in_str_set v ss)"
  by (simp add: in_str_set_def)

section \<open>Printing\<close>

definition hex_digit :: "nat \<Rightarrow> char" where
  "hex_digit n = (if n < 10 then char_of (48 + n) else char_of (87 + n))"

definition u_escape :: "nat \<Rightarrow> string" where
  "u_escape n =
    [CHR 0x5C, CHR ''u'', hex_digit (n div 4096 mod 16), hex_digit (n div 256 mod 16),
     hex_digit (n div 16 mod 16), hex_digit (n mod 16)]"

definition escape_char :: "char \<Rightarrow> string" where
  "escape_char c =
    (if c = CHR 0x22 then [CHR 0x5C, CHR 0x22]
     else if c = CHR 0x5C then [CHR 0x5C, CHR 0x5C]
     else if c = CHR 0x0A then [CHR 0x5C, CHR ''n'']
     else if c = CHR 0x0D then [CHR 0x5C, CHR ''r'']
     else if c = CHR 0x09 then [CHR 0x5C, CHR ''t'']
     else if c = CHR 0x0C then [CHR 0x5C, CHR ''f'']
     else if c = CHR 0x08 then [CHR 0x5C, CHR ''b'']
     else if byte c < 32 then u_escape (byte c)
     else [c])"

text \<open>\<open>ensure_ascii=False\<close>: everything else is written as it is.\<close>

definition dump_str :: "string \<Rightarrow> string" where
  "dump_str s = [CHR 0x22] @ concat (map escape_char s) @ [CHR 0x22]"

definition sort_items :: "dict \<Rightarrow> dict" where
  "sort_items d = sort_key fst d"

function dumps :: "float_text \<Rightarrow> json \<Rightarrow> string" where
  "dumps fl JNull = ''null''"
| "dumps fl (JBool b) = (if b then ''true'' else ''false'')"
| "dumps fl (JInt i) = show_int i"
| "dumps fl (JFloat f) =
    (case f of PosInf \<Rightarrow> ''Infinity'' | NegInf \<Rightarrow> ''-Infinity'' | NaN \<Rightarrow> ''NaN'' | _ \<Rightarrow> float_repr fl f)"
| "dumps fl (JStr s) = dump_str s"
| "dumps fl (JArr xs) = ''['' @ join '','' (map (dumps fl) xs) @ '']''"
| "dumps fl (JObj d) =
    ''{'' @ join '','' (map (\<lambda>(k, v). dump_str k @ '':'' @ dumps fl v) (sort_items d)) @ ''}''"
  by pat_completeness auto
termination
  by (relation "measure (\<lambda>(fl, v). size v)")
     (auto simp: sort_items_def less_Suc_eq_le size_list_estimation' dest: size_item_value)

text \<open>
  \<open>ensure_ascii=True\<close>: outside string literals the text is ASCII, so the output is
  the one above with every other code point, and DEL, written as an escape.
\<close>

definition cp_escape :: "nat \<Rightarrow> string" where
  "cp_escape n =
    (if n < 65536 then u_escape n
     else u_escape (55296 + (n - 65536) div 1024) @ u_escape (56320 + (n - 65536) mod 1024))"

fun ascii_escapes :: "string \<Rightarrow> string" where
  "ascii_escapes [] = []"
| "ascii_escapes (a # s) =
    (if byte a < 127 then a # ascii_escapes s
     else if byte a < 192 then cp_escape (byte a) @ ascii_escapes s
     else if byte a < 224 then
       (case s of b # t \<Rightarrow> cp_escape ((byte a - 192) * 64 + (byte b - 128)) @ ascii_escapes t | [] \<Rightarrow> [])
     else if byte a < 240 then
       (case s of b # c # t \<Rightarrow>
          cp_escape (((byte a - 224) * 64 + (byte b - 128)) * 64 + (byte c - 128)) @ ascii_escapes t
        | _ \<Rightarrow> [])
     else
       (case s of b # c # d # t \<Rightarrow>
          cp_escape ((((byte a - 240) * 64 + (byte b - 128)) * 64 + (byte c - 128)) * 64 + (byte d - 128))
            @ ascii_escapes t
        | _ \<Rightarrow> []))"

definition dumps_ascii :: "float_text \<Rightarrow> json \<Rightarrow> string" where
  "dumps_ascii fl v = ascii_escapes (dumps fl v)"

text \<open>\<open>str(v)\<close>, as an f-string inserts it.\<close>

fun py_str :: "float_text \<Rightarrow> json \<Rightarrow> string" where
  "py_str fl JNull = ''None''"
| "py_str fl (JBool b) = (if b then ''True'' else ''False'')"
| "py_str fl (JInt i) = show_int i"
| "py_str fl (JFloat f) =
    (case f of PosInf \<Rightarrow> ''inf'' | NegInf \<Rightarrow> ''-inf'' | NaN \<Rightarrow> ''nan'' | _ \<Rightarrow> float_repr fl f)"
| "py_str fl (JStr s) = s"
| "py_str fl v = container_str fl v"

end
