(* ===== verification/PyJsonRoundtrip.thy ===== *)
theory PyJsonRoundtrip
  imports PyJsonParse
begin

text \<open>
  What \<open>json.dumps\<close> writes, \<open>json.loads\<close> reads back: the interface of an
  \<open>object_pairs_hook\<close> as a locale, the fuel bound of the scanner, and the round
  trip up to the order of keys, which \<open>sort_keys=True\<close> fixes.
\<close>

section \<open>Values that survive the round trip\<close>

text \<open>Dictionaries have distinct keys at every level and no float occurs.\<close>

function plain_json :: "json \<Rightarrow> bool" where
  "plain_json JNull = True"
| "plain_json (JBool b) = True"
| "plain_json (JInt i) = True"
| "plain_json (JFloat f) = False"
| "plain_json (JStr s) = True"
| "plain_json (JArr xs) = list_all plain_json xs"
| "plain_json (JObj d) = (distinct (map fst d) \<and> list_all (\<lambda>(k, v). plain_json v) d)"
  by pat_completeness auto
termination
  by (relation "measure size") (auto simp: less_Suc_eq_le size_list_estimation' dest: size_item_value)

text \<open>The value with every dictionary in key order.\<close>

function sorted_json :: "json \<Rightarrow> json" where
  "sorted_json JNull = JNull"
| "sorted_json (JBool b) = JBool b"
| "sorted_json (JInt i) = JInt i"
| "sorted_json (JFloat f) = JFloat f"
| "sorted_json (JStr s) = JStr s"
| "sorted_json (JArr xs) = JArr (map sorted_json xs)"
| "sorted_json (JObj d) = JObj (map (\<lambda>(k, v). (k, sorted_json v)) (sort_items d))"
  by pat_completeness auto
termination
  by (relation "measure size")
     (auto simp: sort_items_def less_Suc_eq_le size_list_estimation' dest: size_item_value)

text \<open>Fuel that a value's own text needs.\<close>

function fuel_need :: "json \<Rightarrow> nat" where
  "fuel_need JNull = 1"
| "fuel_need (JBool b) = 1"
| "fuel_need (JInt i) = 1"
| "fuel_need (JFloat f) = 1"
| "fuel_need (JStr s) = 1"
| "fuel_need (JArr xs) = Suc (sum_list (map (\<lambda>x. Suc (fuel_need x)) xs))"
| "fuel_need (JObj d) = Suc (sum_list (map (\<lambda>(k, v). Suc (fuel_need v)) (sort_items d)))"
  by pat_completeness auto
termination
  by (relation "measure size")
     (auto simp: sort_items_def less_Suc_eq_le size_list_estimation' dest: size_item_value)

section \<open>Strings\<close>

lemma hex_value_digit [simp]: "n < 16 \<Longrightarrow> hex_value (hex_digit n) = Some n"
  by (simp add: hex_value_def hex_digit_def byte_in_def)

lemma scan_unicode_escape:
  assumes "n < 128"
  shows "scan_unicode (hex_digit (n div 4096 mod 16) # hex_digit (n div 256 mod 16)
           # hex_digit (n div 16 mod 16) # hex_digit (n mod 16) # r) = Inr ([char_of n], r)"
proof -
  have "n div 4096 = 0" "n div 256 = 0" "n div 16 < 16" using assms by auto
  then show ?thesis
    using assms by (simp add: scan_unicode_def hex4_def encode_char_def)
qed

lemma scan_string_escape_char:
  "scan_string (escape_char c @ r) = prepend [c] (scan_string r)"
proof -
  have esc: "scan_string (CHR 0x5C # t) = bind (scan_escape t) (\<lambda>p. prepend (fst p) (scan_string (snd p)))" for t
    by (simp add: scan_string.simps(2))
  consider (quote) "c = CHR 0x22" | (bsl) "c = CHR 0x5C" | (nl) "c = CHR 0x0A" | (cr) "c = CHR 0x0D"
    | (tab) "c = CHR 0x09" | (ff) "c = CHR 0x0C" | (bs) "c = CHR 0x08"
    | (ctl) "byte c < 32" "c \<notin> {CHR 0x22, CHR 0x5C, CHR 0x0A, CHR 0x0D, CHR 0x09, CHR 0x0C, CHR 0x08}"
    | (plain) "\<not> byte c < 32" "c \<notin> {CHR 0x22, CHR 0x5C}"
    by auto
  then show ?thesis
  proof cases
    case ctl
    then have "escape_char c = u_escape (byte c)" by (simp add: escape_char_def)
    moreover have "scan_unicode (drop 2 (u_escape (byte c)) @ r) = Inr ([c], r)"
      using scan_unicode_escape [of "byte c" r] ctl by (simp add: u_escape_def)
    ultimately show ?thesis
      by (simp add: esc scan_escape_def u_escape_def)
  next
    case plain
    then have "escape_char c = [c]" by (auto simp: escape_char_def)
    with plain show ?thesis by (simp add: scan_string.simps(2))
  qed (simp_all add: escape_char_def esc scan_escape_def backslash_def)
qed

lemma scan_dump_str:
  "scan_string (concat (map escape_char s) @ CHR 0x22 # r) = Inr (s, r)"
  by (induction s) (simp_all add: scan_string.simps(2) scan_string_escape_char prepend_def)

section \<open>Numbers\<close>

text \<open>What may follow a value inside a document.\<close>

definition delimited :: "string \<Rightarrow> bool" where
  "delimited r = (case r of [] \<Rightarrow> True | c # _ \<Rightarrow> c \<in> {CHR '','', CHR '']'', CHR ''}'', CHR 0x0A})"

lemma delimited_not_number:
  "delimited r \<Longrightarrow> takeWhile is_digit r = [] \<and> dropWhile is_digit r = r \<and> scan_frac r = ([], r) \<and> scan_exp r = ([], r)"
  by (cases r) (auto simp: delimited_def is_digit_def byte_in_def scan_frac_def scan_exp_def Let_def)

lemma scan_int_show_nat: "delimited r \<Longrightarrow> scan_int (show_nat n @ r) = Some (show_nat n, r)"
proof -
  assume r: "delimited r"
  have d: "list_all is_digit (show_nat n)" by (rule show_nat_digits)
  then have whole: "takeWhile is_digit (show_nat n @ r) = show_nat n \<and> dropWhile is_digit (show_nat n @ r) = r"
    using delimited_not_number [OF r] by (simp add: takeWhile_append2 dropWhile_append2 list_all_iff)
  show ?thesis
  proof (cases "n = 0")
    case True
    then show ?thesis by (simp add: scan_int_def show_nat.simps [of 0] digit_char_def)
  next
    case False
    then have "hd (show_nat n) \<noteq> CHR ''0''" by (simp add: show_nat_hd)
    then show ?thesis
      using whole d show_nat_nonempty [of n]
      by (cases "show_nat n") (simp_all add: scan_int_def)
  qed
qed

lemma show_nat_not_minus: "\<not> startswith (show_nat n @ r) ''-''"
  using show_nat_digits [of n] show_nat_nonempty [of n]
  by (cases "show_nat n") (auto simp: startswith_def is_digit_def byte_in_def)

lemma scan_number_show_int:
  assumes "delimited r"
  shows "scan_number fl (show_int i @ r) = Inr (JInt i, r)"
proof (cases "i < 0")
  case True
  then have "show_int i @ r = ''-'' @ show_nat (nat (- i)) @ r" by (simp add: show_int_def)
  moreover have "startswith (''-'' @ show_nat (nat (- i)) @ r) ''-''" by (rule startswith_append)
  ultimately show ?thesis
    using True assms delimited_not_number [OF assms]
    by (simp add: scan_number_def Let_def scan_int_show_nat)
next
  case False
  then have "show_int i = show_nat (nat i)" by (simp add: show_int_def)
  then show ?thesis
    using False assms delimited_not_number [OF assms] show_nat_not_minus [of "nat i" r]
    by (simp add: scan_number_def Let_def scan_int_show_nat)
qed

lemma show_nat_head: "\<exists>c t. show_nat n = c # t \<and> is_digit c"
  using show_nat_digits [of n] show_nat_nonempty [of n] by (cases "show_nat n") auto

lemma show_int_head: "\<exists>c t. show_int i = c # t \<and> (is_digit c \<or> (c = CHR ''-'' \<and> (\<exists>d u. t = d # u \<and> is_digit d)))"
  using show_nat_head [of "nat i"] show_nat_head [of "nat (- i)"] by (auto simp: show_int_def)

lemma not_digit [simp]:
  "\<not> is_digit CHR ''n''" "\<not> is_digit CHR ''t''" "\<not> is_digit CHR ''f''" "\<not> is_digit CHR ''N''"
  "\<not> is_digit CHR ''I''" "\<not> is_digit CHR ''-''" "\<not> is_digit CHR 0x22" "\<not> is_digit CHR ''[''"
  "\<not> is_digit CHR ''{''" "\<not> is_digit CHR '']''" "\<not> is_digit CHR ''}''"
  by (simp_all add: is_digit_def byte_in_def)

lemma startswith_Cons [simp]:
  "startswith s [] = True" "startswith [] (d # p) = False"
  "startswith (c # s) (d # p) \<longleftrightarrow> c = d \<and> startswith s p"
  by (auto simp: startswith_def)

lemma digit_neq [simp]:
  assumes "is_digit c"
  shows "c \<noteq> CHR ''n''" "c \<noteq> CHR ''t''" "c \<noteq> CHR ''f''" "c \<noteq> CHR ''N''" "c \<noteq> CHR ''I''"
    "c \<noteq> CHR ''-''" "c \<noteq> CHR 0x22" "c \<noteq> CHR ''[''" "c \<noteq> CHR ''{''"
  using assms not_digit by metis+

lemma scan_constant_digit: "is_digit c \<Longrightarrow> scan_constant (c # t) = None"
  by (simp add: scan_constant_def constants_def)

lemma scan_constant_minus: "is_digit d \<Longrightarrow> scan_constant (CHR ''-'' # d # t) = None"
  by (simp add: scan_constant_def constants_def)

lemma scan_constant_show_int: "scan_constant (show_int i @ r) = None"
  using show_int_head [of i] by (auto simp: scan_constant_digit scan_constant_minus)

section \<open>Documents\<close>

text \<open>The characters a printed value can start with.\<close>

definition value_head :: "char \<Rightarrow> bool" where
  "value_head c = (is_digit c \<or> c \<in> {CHR ''-'', CHR ''n'', CHR ''t'', CHR ''f'', CHR 0x22, CHR ''['', CHR ''{''})"

lemma value_head_ascii: "value_head c \<Longrightarrow> byte c < 128"
  by (auto simp: value_head_def is_digit_def byte_in_def)

lemma dumps_head:
  assumes "plain_json v"
  shows "\<exists>c t. dumps fl v = c # t \<and> value_head c"
  using assms show_int_head by (cases v) (fastforce simp: dump_str_def value_head_def)+

lemma skip_ws_dumps [simp]: "plain_json v \<Longrightarrow> skip_ws (dumps fl v @ r) = dumps fl v @ r"
  using dumps_head [of v fl]
  by (auto simp: skip_ws_def json_space_def value_head_def is_digit_def byte_in_def)

lemma skip_ws_non_space: "\<not> json_space c \<Longrightarrow> skip_ws (c # t) = c # t"
  by (simp add: skip_ws_def)

lemma delim_not_space [simp]:
  "\<not> json_space CHR '',''" "\<not> json_space CHR '']''" "\<not> json_space CHR ''}''"
  "\<not> json_space CHR '':''" "\<not> json_space CHR 0x22"
  by (simp_all add: json_space_def)

lemma delimited_simps [simp]:
  "delimited []" "delimited (CHR '','' # r)" "delimited (CHR '']'' # r)" "delimited (CHR ''}'' # r)"
  "delimited (CHR 0x0A # r)"
  by (simp_all add: delimited_def)

lemma join_Cons: "join sep (w # ws) = w @ (if ws = [] then [] else sep @ join sep ws)"
  by (cases ws) auto

lemma parse_elements_join:
  assumes "xs \<noteq> []" "sum_list (map (\<lambda>x. Suc (fuel_need x)) xs) \<le> n"
    and "\<And>x. x \<in> set xs \<Longrightarrow> plain_json x"
    and "\<And>x n r. x \<in> set xs \<Longrightarrow> fuel_need x \<le> n \<Longrightarrow> delimited r
           \<Longrightarrow> parse_value fl hook n (dumps fl x @ r) = Inr (sorted_json x, r)"
  shows "parse_elements fl hook n (join '','' (map (dumps fl) xs) @ CHR '']'' # r)
           = Inr (map sorted_json xs, r)"
  using assms
proof (induction xs arbitrary: n)
  case Nil
  then show ?case by simp
next
  case (Cons x xs)
  then obtain m where n: "n = Suc m" and x: "fuel_need x \<le> m"
    and xs: "sum_list (map (\<lambda>x. Suc (fuel_need x)) xs) \<le> m"
    by (cases n) auto
  show ?case
  proof (cases "xs = []")
    case True
    then show ?thesis using n Cons.prems(4) [of x m "CHR '']'' # r"] x by (simp add: skip_ws_non_space)
  next
    case False
    have tail: "parse_elements fl hook m (join '','' (map (dumps fl) xs) @ CHR '']'' # r)
        = Inr (map sorted_json xs, r)"
      using Cons.IH [OF False xs] Cons.prems(3,4) by simp
    obtain y ys where ys: "xs = y # ys" using False by (cases xs) auto
    have ws: "skip_ws (join '','' (map (dumps fl) xs) @ CHR '']'' # r) = join '','' (map (dumps fl) xs) @ CHR '']'' # r"
      using Cons.prems(3) [of y] ys by (simp add: join_Cons)
    show ?thesis
      using n False x tail ws
        Cons.prems(4) [of x m "CHR '','' # join '','' (map (dumps fl) xs) @ CHR '']'' # r"]
      by (simp add: join_Cons skip_ws_non_space)
  qed
qed

abbreviation dump_item :: "float_text \<Rightarrow> string \<times> json \<Rightarrow> string" where
  "dump_item fl p \<equiv> (case p of (k, v) \<Rightarrow> dump_str k @ '':'' @ dumps fl v)"

lemma expect_same [simp]: "expect c (c # t) = Inr t"
  by (simp add: expect_def)

lemma parse_members_join:
  assumes "ps \<noteq> []" "sum_list (map (\<lambda>(k, v). Suc (fuel_need v)) ps) \<le> n"
    and "\<And>k v. (k, v) \<in> set ps \<Longrightarrow> plain_json v"
    and "\<And>k v n r. (k, v) \<in> set ps \<Longrightarrow> fuel_need v \<le> n \<Longrightarrow> delimited r
           \<Longrightarrow> parse_value fl hook n (dumps fl v @ r) = Inr (sorted_json v, r)"
  shows "parse_members fl hook n (join '','' (map (dump_item fl) ps) @ CHR ''}'' # r)
           = Inr (map (\<lambda>(k, v). (k, sorted_json v)) ps, r)"
  using assms
proof (induction ps arbitrary: n)
  case Nil
  then show ?case by simp
next
  case (Cons p ps)
  obtain k v where p: "p = (k, v)" by (cases p)
  with Cons.prems(2) obtain m where n: "n = Suc m" and v: "fuel_need v \<le> m"
    and ps: "sum_list (map (\<lambda>(k, v). Suc (fuel_need v)) ps) \<le> m"
    by (cases n) auto
  have plain: "plain_json v" using Cons.prems(3) [of k v] p by simp
  show ?case
  proof (cases "ps = []")
    case True
    then show ?thesis
      using n p plain Cons.prems(4) [of k v m "CHR ''}'' # r"] v
      by (simp add: skip_ws_non_space dump_str_def scan_dump_str)
  next
    case False
    have tail: "parse_members fl hook m (join '','' (map (dump_item fl) ps) @ CHR ''}'' # r)
        = Inr (map (\<lambda>(k, v). (k, sorted_json v)) ps, r)"
      using Cons.IH [OF False ps] Cons.prems(3,4) by (meson list.set_intros(2))
    obtain k' v' qs where qs: "ps = (k', v') # qs" using False by (cases ps) auto
    have ws: "skip_ws (join '','' (map (dump_item fl) ps) @ CHR ''}'' # r) = join '','' (map (dump_item fl) ps) @ CHR ''}'' # r"
      using qs by (simp add: join_Cons dump_str_def skip_ws_non_space)
    show ?thesis
      using n p False v tail ws plain
        Cons.prems(4) [of k v m "CHR '','' # join '','' (map (dump_item fl) ps) @ CHR ''}'' # r"]
      by (simp add: join_Cons skip_ws_non_space dump_str_def scan_dump_str)
  qed
qed

lemma scan_constant_words:
  "scan_constant (''null'' @ r) = Some (JNull, r)"
  "scan_constant (''true'' @ r) = Some (JBool True, r)"
  "scan_constant (''false'' @ r) = Some (JBool False, r)"
  by (simp_all add: scan_constant_def constants_def)

lemma sort_items_distinct [simp]: "distinct (map fst (sort_items d)) \<longleftrightarrow> distinct (map fst d)"
  by (simp add: distinct_map sort_items_def)

lemma set_sort_items [simp]: "set (sort_items d) = set d"
  by (simp add: sort_items_def)

lemma sort_items_empty [simp]: "sort_items d = [] \<longleftrightarrow> d = []"
  by (metis set_empty set_sort_items)

lemma map_fst_sorted_values [simp]: "map fst (map (\<lambda>(k, v). (k, sorted_json v)) d) = map fst d"
  by (induction d) auto

lemma plain_json_item: "plain_json (JObj d) \<Longrightarrow> (k, v) \<in> set d \<Longrightarrow> plain_json v"
  by (auto simp: list_all_iff)

lemma length_join: "ws \<noteq> [] \<Longrightarrow> Suc (length (join [c] ws)) = sum_list (map (\<lambda>w. Suc (length w)) ws)"
  by (induction ws) (auto simp: join_Cons)

lemma sum_list_double: "sum_list (map (\<lambda>x. 2 * (f x :: nat)) xs) = 2 * sum_list (map f xs)"
  by (induction xs) auto

lemma fuel_need_dumps: "plain_json v \<Longrightarrow> fuel_need v \<le> 2 * length (dumps fl v)"
proof (induction fl v rule: dumps.induct)
  case (3 fl i)
  obtain c t where "show_int i = c # t" using show_int_head [of i] by auto
  then show ?case by simp
next
  case (6 fl xs)
  have "sum_list (map (\<lambda>x. Suc (fuel_need x)) xs) \<le> sum_list (map (\<lambda>x. 2 * Suc (length (dumps fl x))) xs)"
    using 6 by (intro sum_list_mono) (simp add: list_all_iff le_SucI)
  also have "\<dots> = 2 * sum_list (map (\<lambda>w. Suc (length w)) (map (dumps fl) xs))"
    unfolding map_map comp_def by (rule sum_list_double)
  finally show ?case using length_join [of "map (dumps fl) xs" "CHR '',''"] by (cases "xs = []") auto
next
  case (7 fl d)
  have "sum_list (map (\<lambda>(k, v). Suc (fuel_need v)) (sort_items d))
      \<le> sum_list (map (\<lambda>p. 2 * Suc (length (dump_item fl p))) (sort_items d))"
    using 7 by (intro sum_list_mono) (fastforce simp: list_all_iff)
  also have "\<dots> = 2 * sum_list (map (\<lambda>w. Suc (length w)) (map (dump_item fl) (sort_items d)))"
    unfolding map_map comp_def by (rule sum_list_double)
  finally have sum: "sum_list (map (\<lambda>(k, v). Suc (fuel_need v)) (sort_items d))
      \<le> 2 * sum_list (map (\<lambda>w. Suc (length w)) (map (dump_item fl) (sort_items d)))" .
  show ?case
  proof (cases "d = []")
    case True
    then show ?thesis by (simp add: sort_items_def)
  next
    case False
    then have "map (dump_item fl) (sort_items d) \<noteq> []" by simp
    from length_join [OF this, of "CHR '',''"] sum show ?thesis by simp
  qed
qed (auto simp: dump_str_def)

section \<open>The hook interface\<close>

text \<open>
  What a client of \<open>json.loads\<close> relies on: its \<open>object_pairs_hook\<close> accepts a
  list of pairs with distinct keys as it is, and raises no \<open>RecursionError\<close>.
\<close>

locale pairs_hook =
  fixes hook :: "dict \<Rightarrow> json res"
  assumes hook_distinct: "distinct (map fst ps) \<Longrightarrow> hook ps = Inr (JObj ps)"
    and hook_no_recursion: "hook ps \<noteq> Inl RecursionError"
begin

lemma parse_value_dumps:
  "plain_json v \<Longrightarrow> fuel_need v \<le> n \<Longrightarrow> delimited r
    \<Longrightarrow> parse_value fl hook n (dumps fl v @ r) = Inr (sorted_json v, r)"
proof (induction fl v arbitrary: n r rule: dumps.induct)
  case (6 fl xs)
  then obtain m where n: "n = Suc m" and m: "sum_list (map (\<lambda>x. Suc (fuel_need x)) xs) \<le> m"
    by (cases n) auto
  have plain: "plain_json x" if "x \<in> set xs" for x using "6.prems"(1) that by (simp add: list_all_iff)
  show ?case
  proof (cases "xs = []")
    case True
    then show ?thesis using n by (simp add: skip_ws_non_space)
  next
    case False
    have body: "parse_elements fl hook m (join '','' (map (dumps fl) xs) @ CHR '']'' # r)
        = Inr (map sorted_json xs, r)"
      using parse_elements_join [OF False m plain] "6.IH" plain by blast
    obtain y ys where ys: "xs = y # ys" using False by (cases xs) auto
    obtain c t where c: "dumps fl y = c # t" "value_head c" using dumps_head [of y fl] plain ys by auto
    have "skip_ws (join '','' (map (dumps fl) xs) @ CHR '']'' # r) = join '','' (map (dumps fl) xs) @ CHR '']'' # r"
      using plain [of y] ys by (simp add: join_Cons)
    moreover have "\<not> startswith (join '','' (map (dumps fl) xs) @ CHR '']'' # r) '']''"
      using c ys by (auto simp: join_Cons value_head_def)
    ultimately show ?thesis using n body by simp
  qed
next
  case (7 fl d)
  then obtain m where n: "n = Suc m"
    and m: "sum_list (map (\<lambda>(k, v). Suc (fuel_need v)) (sort_items d)) \<le> m"
    by (cases n) auto
  have plain: "plain_json v" if "(k, v) \<in> set (sort_items d)" for k v
    using plain_json_item [OF "7.prems"(1)] that by simp
  have dist: "distinct (map fst d)" using "7.prems"(1) by simp
  show ?case
  proof (cases "d = []")
    case True
    then show ?thesis using n hook_distinct [of "[]"] by (simp add: skip_ws_non_space sort_items_def)
  next
    case False
    have body: "parse_members fl hook m (join '','' (map (dump_item fl) (sort_items d)) @ CHR ''}'' # r)
        = Inr (map (\<lambda>(k, v). (k, sorted_json v)) (sort_items d), r)"
      using parse_members_join [OF _ m plain] "7.IH" plain False by simp
    obtain k v qs where qs: "sort_items d = (k, v) # qs" using False by (cases "sort_items d") auto
    have "skip_ws (join '','' (map (dump_item fl) (sort_items d)) @ CHR ''}'' # r)
        = join '','' (map (dump_item fl) (sort_items d)) @ CHR ''}'' # r"
      and "\<not> startswith (join '','' (map (dump_item fl) (sort_items d)) @ CHR ''}'' # r) ''}''"
      using qs by (simp_all add: join_Cons dump_str_def skip_ws_non_space)
    moreover have "hook (map (\<lambda>(k, v). (k, sorted_json v)) (sort_items d))
        = Inr (JObj (map (\<lambda>(k, v). (k, sorted_json v)) (sort_items d)))"
      by (rule hook_distinct) (simp only: map_fst_sorted_values sort_items_distinct dist)
    ultimately show ?thesis using n body by simp
  qed
next
  case (2 fl b)
  then obtain m where "n = Suc m" by (cases n) auto
  then show ?case using scan_constant_words by (cases b) simp_all
next
  case (1 fl)
  then obtain m where "n = Suc m" by (cases n) auto
  then show ?case using scan_constant_words by simp
next
  case (3 fl i)
  then obtain m where n: "n = Suc m" by (cases n) auto
  obtain c t where c: "show_int i = c # t" "is_digit c \<or> c = CHR ''-''" using show_int_head [of i] by auto
  show ?case
    using n c scan_constant_show_int [of i r] scan_number_show_int [OF "3.prems"(3), of fl i] by auto
next
  case (5 fl s)
  then obtain m where "n = Suc m" by (cases n) auto
  then show ?case by (simp add: dump_str_def scan_dump_str)
qed simp

text \<open>Reading a printed value, alone or with the newline that ends a payload.\<close>

lemma loads_dumps:
  assumes v: "plain_json v" and r: "r = [] \<or> r = [CHR 0x0A]"
  shows "loads fl hook (dumps fl v @ r) = Inr (sorted_json v)"
proof -
  have "fuel_need v \<le> 2 * length (dumps fl v @ r) + 2"
    using fuel_need_dumps [OF v, of fl] by simp
  then have "parse_value fl hook (2 * length (dumps fl v @ r) + 2) (dumps fl v @ r) = Inr (sorted_json v, r)"
    using r by (intro parse_value_dumps v) auto
  moreover have "\<not> startswith (dumps fl v @ r) (encode_char 65279)"
    using dumps_head [OF v, of fl] value_head_ascii by (fastforce simp: encode_char_def)
  moreover have "skip_ws r = []" using r by (auto simp: skip_ws_def json_space_def)
  ultimately show ?thesis by (simp add: loads_def skip_ws_dumps [OF v] del: parse_value.simps)
qed

lemma parse_no_recursion:
  "2 * length s + 1 \<le> n \<Longrightarrow> parse_value fl hook n s \<noteq> Inl RecursionError"
  "2 * length s + 2 \<le> n \<Longrightarrow> parse_elements fl hook n s \<noteq> Inl RecursionError"
  "2 * length s + 2 \<le> n \<Longrightarrow> parse_members fl hook n s \<noteq> Inl RecursionError"
proof (induction n arbitrary: s)
  case 0
  { case 1 then show ?case by simp next case 2 then show ?case by simp next case 3 then show ?case by simp }
next
  case (Suc n)
  {
    case 1
    show ?case
    proof (cases s)
      case Nil
      then show ?thesis by simp
    next
      case (Cons c t)
      then have "2 * length (skip_ws t) + 2 \<le> n" using 1 skip_ws_le [of t] by simp
      note e = Suc.IH(2) [OF this] and m = Suc.IH(3) [OF this]
      show ?thesis
        using Cons e m hook_no_recursion
        by (auto simp: res_errors split: option.splits dest: scan_string_error scan_number_error)
    qed
  next
    case 2
    then have v: "parse_value fl hook n s \<noteq> Inl RecursionError" using Suc.IH(1) [of s] by simp
    have "parse_elements fl hook n (skip_ws t) \<noteq> Inl RecursionError"
      if "parse_value fl hook n s = Inr (x, q)" "skip_ws q = c # t" for x q c t
    proof -
      have "length (skip_ws t) < length s"
        using parse_length(1) [OF that(1)] skip_ws_Cons [OF that(2)] skip_ws_le [of t] by simp
      then show ?thesis using 2 Suc.IH(2) [of "skip_ws t"] by simp
    qed
    with v show ?case by (auto simp: res_errors split: list.splits if_splits)
  next
    case 3
    have "parse_value fl hook n (skip_ws s3) \<noteq> Inl RecursionError
        \<and> (\<forall>x q c t. parse_value fl hook n (skip_ws s3) = Inr (x, q) \<longrightarrow> skip_ws q = c # t \<longrightarrow>
             parse_members fl hook n (skip_ws t) \<noteq> Inl RecursionError)"
      if "expect (CHR 0x22) s = Inr s1" "scan_string s1 = Inr (k, s2)"
        "expect (CHR '':'') (skip_ws s2) = Inr s3" for s1 k s2 s3
    proof -
      have l: "length (skip_ws s3) < length s"
        using expect_length [OF that(1)] scan_string_length [OF that(2)] expect_length [OF that(3)]
          skip_ws_le [of s2] skip_ws_le [of s3] by linarith
      have "parse_members fl hook n (skip_ws t) \<noteq> Inl RecursionError"
        if "parse_value fl hook n (skip_ws s3) = Inr (x, q)" "skip_ws q = c # t" for x q c t
      proof -
        have "length (skip_ws t) < length s"
          using l parse_length(1) [OF that(1)] skip_ws_Cons [OF that(2)] skip_ws_le [of t] by simp
        then show ?thesis using 3 Suc.IH(3) [of "skip_ws t"] by simp
      qed
      moreover have "parse_value fl hook n (skip_ws s3) \<noteq> Inl RecursionError"
        using 3 l Suc.IH(1) [of "skip_ws s3"] by simp
      ultimately show ?thesis by blast
    qed
    note run = this
    show ?case
    proof (cases "expect (CHR 0x22) s")
      case (Inl e)
      then show ?thesis by (auto dest: expect_error)
    next
      case s1: (Inr s1)
      show ?thesis
      proof (cases "scan_string s1")
        case (Inl e)
        with s1 show ?thesis by (auto dest: scan_string_error)
      next
        case (Inr p)
        then obtain k s2 where s2: "scan_string s1 = Inr (k, s2)" by (cases p) auto
        show ?thesis
        proof (cases "expect (CHR '':'') (skip_ws s2)")
          case (Inl e)
          with s1 s2 show ?thesis by (auto dest: expect_error)
        next
          case s3: (Inr s3)
          show ?thesis
            using run [OF s1 s2 s3] s1 s2 s3
            by (cases "parse_value fl hook n (skip_ws s3)") (auto simp: res_errors split: list.splits if_splits)
        qed
      qed
    qed
  }
qed

lemma loads_no_fuel_error: "loads fl hook s \<noteq> Inl RecursionError"
proof -
  have "2 * length (skip_ws s) + 1 \<le> 2 * length s + 2" using skip_ws_le [of s] by simp
  then have "parse_value fl hook (2 * length s + 2) (skip_ws s) \<noteq> Inl RecursionError"
    by (rule parse_no_recursion(1))
  then show ?thesis
    unfolding loads_def
    by (cases "parse_value fl hook (2 * length s + 2) (skip_ws s)") (auto simp del: parse_value.simps split: if_splits)
qed

end

section \<open>The default dictionary\<close>

lemma put_new: "k \<notin> set (map fst d) \<Longrightarrow> put d k v = d @ [(k, v)]"
  by (induction d k v rule: put.induct) auto

lemma update_distinct: "distinct (map fst (d @ e)) \<Longrightarrow> update d e = d @ e"
proof (induction e arbitrary: d)
  case Nil
  then show ?case by (simp add: update_def)
next
  case (Cons p e)
  obtain k v where p: "p = (k, v)" by (cases p)
  have "update d (p # e) = update (put d k v) e" by (simp add: p update_def)
  also have "put d k v = d @ [(k, v)]" using Cons.prems p by (intro put_new) auto
  also have "update (d @ [(k, v)]) e = (d @ [(k, v)]) @ e" using Cons.prems p by (intro Cons.IH) auto
  finally show ?case by (simp add: p)
qed

interpretation last_wins: pairs_hook dict_hook
  by unfold_locales (auto simp: dict_hook_def update_distinct)

end
