(* ===== verification/PyCodec.thy ===== *)
theory PyCodec
  imports PyPattern "HOL-Library.Word"
begin

unbundle bit_operations_syntax

text \<open>
  \<open>hashlib.sha256\<close> and \<open>base64\<close> on byte strings, with the round trip of the
  canonical base64 form that the bundle checks rely on.
\<close>

section \<open>SHA-256\<close>

type_synonym u32 = "32 word"

definition sha_init :: "u32 list" where
  "sha_init =
    [0x6A09E667, 0xBB67AE85, 0x3C6EF372, 0xA54FF53A, 0x510E527F, 0x9B05688C, 0x1F83D9AB, 0x5BE0CD19]"

definition sha_consts :: "u32 list" where
  "sha_consts =
    [0x428A2F98, 0x71374491, 0xB5C0FBCF, 0xE9B5DBA5, 0x3956C25B, 0x59F111F1, 0x923F82A4, 0xAB1C5ED5,
     0xD807AA98, 0x12835B01, 0x243185BE, 0x550C7DC3, 0x72BE5D74, 0x80DEB1FE, 0x9BDC06A7, 0xC19BF174,
     0xE49B69C1, 0xEFBE4786, 0x0FC19DC6, 0x240CA1CC, 0x2DE92C6F, 0x4A7484AA, 0x5CB0A9DC, 0x76F988DA,
     0x983E5152, 0xA831C66D, 0xB00327C8, 0xBF597FC7, 0xC6E00BF3, 0xD5A79147, 0x06CA6351, 0x14292967,
     0x27B70A85, 0x2E1B2138, 0x4D2C6DFC, 0x53380D13, 0x650A7354, 0x766A0ABB, 0x81C2C92E, 0x92722C85,
     0xA2BFE8A1, 0xA81A664B, 0xC24B8B70, 0xC76C51A3, 0xD192E819, 0xD6990624, 0xF40E3585, 0x106AA070,
     0x19A4C116, 0x1E376C08, 0x2748774C, 0x34B0BCB5, 0x391C0CB3, 0x4ED8AA4A, 0x5B9CCA4F, 0x682E6FF3,
     0x748F82EE, 0x78A5636F, 0x84C87814, 0x8CC70208, 0x90BEFFFA, 0xA4506CEB, 0xBEF9A3F7, 0xC67178F2]"

definition big_sigma0 :: "u32 \<Rightarrow> u32" where
  "big_sigma0 x = word_rotr 2 x XOR word_rotr 13 x XOR word_rotr 22 x"

definition big_sigma1 :: "u32 \<Rightarrow> u32" where
  "big_sigma1 x = word_rotr 6 x XOR word_rotr 11 x XOR word_rotr 25 x"

definition small_sigma0 :: "u32 \<Rightarrow> u32" where
  "small_sigma0 x = word_rotr 7 x XOR word_rotr 18 x XOR drop_bit 3 x"

definition small_sigma1 :: "u32 \<Rightarrow> u32" where
  "small_sigma1 x = word_rotr 17 x XOR word_rotr 19 x XOR drop_bit 10 x"

definition sha_round :: "u32 \<Rightarrow> u32 \<Rightarrow> u32 list \<Rightarrow> u32 list" where
  "sha_round k w v =
    (case v of
       [a, b, c, d, e, f, g, h] \<Rightarrow>
         (let t1 = h + big_sigma1 e + ((e AND f) XOR (NOT e AND g)) + k + w;
              t2 = big_sigma0 a + ((a AND b) XOR (a AND c) XOR (b AND c))
          in [t1 + t2, a, b, c, d + t1, e, f, g])
     | _ \<Rightarrow> v)"

text \<open>The message schedule is a window of sixteen words that slides by one each round.\<close>

definition next_word :: "u32 list \<Rightarrow> u32" where
  "next_word ws = small_sigma1 (ws ! 14) + ws ! 9 + small_sigma0 (ws ! 1) + ws ! 0"

fun sha_rounds :: "u32 list \<Rightarrow> u32 list \<Rightarrow> u32 list \<Rightarrow> u32 list" where
  "sha_rounds [] ws v = v"
| "sha_rounds (k # ks) ws v = sha_rounds ks (tl ws @ [next_word ws]) (sha_round k (hd ws) v)"

fun be_words :: "string \<Rightarrow> u32 list" where
  "be_words (a # b # c # d # s) =
     of_nat (16777216 * byte a + 65536 * byte b + 256 * byte c + byte d) # be_words s"
| "be_words _ = []"

definition be_bytes :: "nat \<Rightarrow> nat \<Rightarrow> string" where
  "be_bytes n x = map (\<lambda>i. char_of (x div 256 ^ (n - 1 - i))) [0..<n]"

definition sha_pad :: "string \<Rightarrow> string" where
  "sha_pad s =
    s @ [char_of (128 :: nat)] @ replicate ((119 - length s mod 64) mod 64) (char_of (0 :: nat))
      @ be_bytes 8 (8 * length s)"

function sha_blocks :: "u32 list \<Rightarrow> u32 list \<Rightarrow> u32 list" where
  "sha_blocks v ws =
    (if ws = [] then v
     else sha_blocks (map2 (+) v (sha_rounds sha_consts (take 16 ws) v)) (drop 16 ws))"
  by pat_completeness auto
termination
  by (relation "measure (\<lambda>(v, ws). length ws)") auto

declare sha_blocks.simps [simp del]

definition sha256_words :: "string \<Rightarrow> u32 list" where
  "sha256_words s = sha_blocks sha_init (be_words (sha_pad s))"

text \<open>\<open>hashlib.sha256(s).digest()\<close> and \<open>.hexdigest()\<close>.\<close>

definition sha256_digest :: "string \<Rightarrow> string" where
  "sha256_digest s = concat (map (\<lambda>w. be_bytes 4 (unat w)) (sha256_words s))"

definition lower_hex :: "nat \<Rightarrow> char" where
  "lower_hex n = (if n < 10 then char_of (48 + n) else char_of (87 + n))"

definition hexlify :: "string \<Rightarrow> string" where
  "hexlify s = concat (map (\<lambda>c. [lower_hex (byte c div 16), lower_hex (byte c mod 16)]) s)"

definition sha256_hex :: "string \<Rightarrow> string" where
  "sha256_hex s = hexlify (sha256_digest s)"

section \<open>Base64\<close>

definition b64_alphabet :: string where
  "b64_alphabet = ''ABCDEFGHIJKLMNOPQRSTUVWXYZabcdefghijklmnopqrstuvwxyz0123456789+/''"

definition b64_char :: "nat \<Rightarrow> char" where
  "b64_char n =
    (if n < 26 then char_of (65 + n) else if n < 52 then char_of (71 + n)
     else if n < 62 then char_of (n - 4) else if n = 62 then CHR ''+'' else CHR ''/'')"

definition b64_value :: "char \<Rightarrow> nat option" where
  "b64_value c =
    (if byte_in 65 90 c then Some (byte c - 65) else if byte_in 97 122 c then Some (byte c - 71)
     else if byte_in 48 57 c then Some (byte c + 4) else if c = CHR ''+'' then Some 62
     else if c = CHR ''/'' then Some 63 else None)"

fun b64encode :: "string \<Rightarrow> string" where
  "b64encode [] = []"
| "b64encode [a] = [b64_char (byte a div 4), b64_char (byte a mod 4 * 16), CHR ''='', CHR ''='']"
| "b64encode [a, b] =
    [b64_char (byte a div 4), b64_char (byte a mod 4 * 16 + byte b div 16),
     b64_char (byte b mod 16 * 4), CHR ''='']"
| "b64encode (a # b # c # s) =
    [b64_char (byte a div 4), b64_char (byte a mod 4 * 16 + byte b div 16),
     b64_char (byte b mod 16 * 4 + byte c div 64), b64_char (byte c mod 64)] @ b64encode s"

text \<open>
  \<open>base64.b64decode(value, validate=True)\<close>.  Trailing bits are dropped, as the
  library drops them; text with surplus padding, which the library may decode, is
  refused here already and by the caller's comparison with the re-encoded bytes.
\<close>

fun b64decode :: "string \<Rightarrow> string option" where
  "b64decode [] = Some []"
| "b64decode (a # b # c # d # s) =
    (case (b64_value a, b64_value b) of
       (Some w, Some x) \<Rightarrow>
         (let first = char_of (w * 4 + x div 16) in
          if d = CHR ''='' then
            (if s \<noteq> [] then None
             else if c = CHR ''='' then Some [first]
             else (case b64_value c of
                     Some y \<Rightarrow> Some [first, char_of (x mod 16 * 16 + y div 4)] | None \<Rightarrow> None))
          else
            (case (b64_value c, b64_value d, b64decode s) of
               (Some y, Some z, Some r) \<Rightarrow>
                 Some (first # char_of (x mod 16 * 16 + y div 4) # char_of (y mod 4 * 64 + z) # r)
             | _ \<Rightarrow> None))
     | _ \<Rightarrow> None)"
| "b64decode _ = None"

lemma b64_value_char [simp]:
  assumes "n < 64"
  shows "b64_value (b64_char n) = Some n"
proof -
  consider "n < 26" | "26 \<le> n" "n < 52" | "52 \<le> n" "n < 62" | "n = 62" | "n = 63"
    using assms by linarith
  then show ?thesis
    by cases (auto simp: b64_value_def b64_char_def byte_in_def)
qed

lemma b64_char_not_pad [simp]: "n < 64 \<Longrightarrow> b64_char n \<noteq> CHR ''=''"
proof
  assume "n < 64" and "b64_char n = CHR ''=''"
  then have "b64_value CHR ''='' = Some n" using b64_value_char by metis
  then show False by (simp add: b64_value_def byte_in_def)
qed

lemma b64_groups:
  fixes a b c :: nat
  assumes "a < 256" "b < 256" "c < 256"
  shows "a div 4 < 64" "a mod 4 * 16 + b div 16 < 64" "b mod 16 * 4 + c div 64 < 64" "c mod 64 < 64"
    "a mod 4 * 16 < 64" "b mod 16 * 4 < 64"
    "a div 4 * 4 + (a mod 4 * 16 + b div 16) div 16 = a"
    "a div 4 * 4 + (a mod 4 * 16) div 16 = a"
    "(a mod 4 * 16 + b div 16) mod 16 * 16 + (b mod 16 * 4 + c div 64) div 4 = b"
    "(a mod 4 * 16 + b div 16) mod 16 * 16 + (b mod 16 * 4) div 4 = b"
    "(b mod 16 * 4 + c div 64) mod 4 * 64 + c mod 64 = c"
proof -
  have l: "a div 4 < 64" "b div 16 < 16" "c div 64 < 4" "a mod 4 < 4" "b mod 16 < 16" "c mod 64 < 64"
    using assms by (simp_all add: less_mult_imp_div_less)
  then show "a div 4 < 64" "c mod 64 < 64" by simp_all
  show "a mod 4 * 16 + b div 16 < 64" "b mod 16 * 4 + c div 64 < 64" "a mod 4 * 16 < 64" "b mod 16 * 4 < 64"
    using l by linarith+
  show "a div 4 * 4 + (a mod 4 * 16 + b div 16) div 16 = a" "a div 4 * 4 + (a mod 4 * 16) div 16 = a"
    using l by simp_all
  show "(a mod 4 * 16 + b div 16) mod 16 * 16 + (b mod 16 * 4 + c div 64) div 4 = b"
    "(a mod 4 * 16 + b div 16) mod 16 * 16 + (b mod 16 * 4) div 4 = b"
    using l by simp_all
  show "(b mod 16 * 4 + c div 64) mod 4 * 64 + c mod 64 = c"
    using l by simp
qed

lemma byte_less [simp]: "byte c < 256"
  by (rule nat_of_char_less_256)

lemma b64decode_encode [simp]: "b64decode (b64encode s) = Some s"
proof (induction s rule: b64encode.induct)
  case 1
  then show ?case by simp
next
  case (2 a)
  show ?case
    using b64_groups [OF byte_less [of a] byte_less [of a] byte_less [of a]] by (simp add: Let_def)
next
  case (3 a b)
  show ?case
    using b64_groups [OF byte_less [of a] byte_less [of b] byte_less [of b]] by (simp add: Let_def)
next
  case (4 a b c s)
  then show ?case
    using b64_groups [OF byte_less [of a] byte_less [of b] byte_less [of c]] by (simp add: Let_def)
qed

lemma b64encode_empty [simp]: "b64encode s = [] \<longleftrightarrow> s = []"
  by (cases s rule: b64encode.cases) auto

lemma sha256_words_length: "length (sha256_words s) = 8"
proof -
  have len: "length (sha_rounds ks ws v) = length v" for ks ws v
    by (induction ks arbitrary: ws v) (auto simp: sha_round_def Let_def split: list.splits)
  have "length (sha_blocks v ws) = length v" for v ws
    by (induction v ws rule: sha_blocks.induct) (subst sha_blocks.simps, simp add: len)
  then show ?thesis by (simp add: sha256_words_def sha_init_def)
qed

lemma length_sha256_digest: "length (sha256_digest s) = 32"
  using sha256_words_length [of s] by (simp add: sha256_digest_def be_bytes_def length_concat o_def sum_list_triv)

lemma sha256_digest_nonempty: "sha256_digest s \<noteq> []"
  using length_sha256_digest [of s] by auto

lemma hexlify_hex: "length (hexlify s) = 2 * length s \<and> list_all is_hex (hexlify s)"
proof (induction s)
  case (Cons c s)
  have "byte c div 16 < 16" by (rule less_mult_imp_div_less) simp
  moreover have "n < 16 \<Longrightarrow> is_hex (lower_hex n)" for n
    by (simp add: lower_hex_def is_hex_def byte_in_def)
  ultimately show ?case using Cons by (simp add: hexlify_def)
qed (simp add: hexlify_def)

lemma sha256_ref_hex: "sha256_ref (''sha256:'' @ sha256_hex s)"
  using hexlify_hex [of "sha256_digest s"]
  by (simp add: sha256_ref_def sha256_hex_def length_sha256_digest startswith_def)

end
