(* ===== verification/PyDate.thy ===== *)
theory PyDate
  imports PyPattern
begin

text \<open>
  \<open>date.fromisoformat\<close> and \<open>datetime.fromisoformat\<close> of Python 3.12: calendar dates
  and ISO week dates with or without separators, times with an optional fraction
  and offset.  A date is its proleptic ordinal; a timestamp is a local instant in
  microseconds with its offset, \<open>None\<close> for a naive one.  The fields follow the
  library's \<open>_parse_isoformat_date\<close> and \<open>_parse_isoformat_time\<close>, with ASCII digits only
  and no empty time after a separator; text after the date fields of a \<open>date\<close> is not
  looked at, as there.  The \<open>Z\<close> suffix is not modelled: the scripts replace it first.
\<close>

section \<open>The calendar\<close>

definition leap :: "int \<Rightarrow> bool" where
  "leap y = (y mod 4 = 0 \<and> (y mod 100 \<noteq> 0 \<or> y mod 400 = 0))"

definition month_days :: "int \<Rightarrow> int list" where
  "month_days y = [31, if leap y then 29 else 28, 31, 30, 31, 30, 31, 31, 30, 31, 30, 31]"

definition ymd_ord :: "int \<Rightarrow> int \<Rightarrow> int \<Rightarrow> int" where
  "ymd_ord y m d =
    365 * (y - 1) + (y - 1) div 4 - (y - 1) div 100 + (y - 1) div 400
      + sum_list (take (nat (m - 1)) (month_days y)) + d"

definition valid_ymd :: "int \<Rightarrow> int \<Rightarrow> int \<Rightarrow> bool" where
  "valid_ymd y m d =
    (1 \<le> y \<and> y \<le> 9999 \<and> 1 \<le> m \<and> m \<le> 12 \<and> 1 \<le> d \<and> d \<le> month_days y ! nat (m - 1))"

definition week_ord :: "int \<Rightarrow> int \<Rightarrow> int \<Rightarrow> int option" where
  "week_ord y w d =
    (let first = ymd_ord y 1 1; wd = (first + 6) mod 7;
         monday = first - wd + (if 3 < wd then 7 else 0);
         o1 = monday + 7 * (w - 1) + d - 1;
         week_ok = ((1 \<le> w \<and> w < 53)
           \<or> (w = 53 \<and> (first mod 7 = 4 \<or> (first mod 7 = 3 \<and> leap y))))
     in if 1 \<le> y \<and> y \<le> 9999 \<and> week_ok \<and> 1 \<le> d \<and> d \<le> 7 \<and> 1 \<le> o1 \<and> o1 \<le> 3652059
        then Some o1 else None)"

section \<open>Fields\<close>

definition num_field :: "nat \<Rightarrow> string \<Rightarrow> (int \<times> string) option" where
  "num_field n s =
    (if n \<le> length s \<and> list_all is_digit (take n s)
     then Some (int (read_nat (take n s)), drop n s) else None)"

definition skip_dash :: "bool \<Rightarrow> string \<Rightarrow> string option" where
  "skip_dash sep s =
    (if \<not> sep then Some s
     else (case s of c # t \<Rightarrow> if c = CHR ''-'' then Some t else None | [] \<Rightarrow> None))"

definition date_fields :: "string \<Rightarrow> int option" where
  "date_fields s =
    Option.bind (num_field 4 s) (\<lambda>(y, s1).
      let sep = startswith s1 ''-''; s2 = (if sep then drop 1 s1 else s1) in
      if startswith s2 ''W'' then
        Option.bind (num_field 2 (drop 1 s2)) (\<lambda>(w, s3).
          if s3 = [] then week_ord y w 1
          else Option.bind (skip_dash sep s3) (\<lambda>s4.
            Option.bind (num_field 1 s4) (\<lambda>(d, _). week_ord y w d)))
      else
        Option.bind (num_field 2 s2) (\<lambda>(m, s3).
        Option.bind (skip_dash sep s3) (\<lambda>s4.
        Option.bind (num_field 2 s4) (\<lambda>(d, _).
          if valid_ymd y m d then Some (ymd_ord y m d) else None))))"

definition date_fromisoformat :: "string \<Rightarrow> int option" where
  "date_fromisoformat s = (if length s \<in> {7, 8, 10} then date_fields s else None)"

section \<open>Timestamps\<close>

text \<open>Where the date of a timestamp ends.\<close>

definition date_end :: "string \<Rightarrow> nat option" where
  "date_end s =
    (let n = length s; digits = length (takeWhile is_digit (drop 7 s)) in
     if n = 7 then Some 7
     else if s ! 4 = CHR ''-'' then
       (if s ! 5 = CHR ''W'' then
          (if 8 < n \<and> s ! 8 = CHR ''-''
           then (if n = 9 then None else if 10 < n \<and> is_digit (s ! 10) then Some 8 else Some 10)
           else Some 8)
        else Some 10)
     else if s ! 4 = CHR ''W'' then
       (if 7 + digits < 9 then Some (7 + digits)
        else if even (7 + digits) then Some 7 else Some 8)
     else Some 8)"

text \<open>
  \<open>HH[:MM[:SS[.ffffff]]]\<close>: the microseconds it denotes.  \<open>i\<close> counts the fields
  read, \<open>sep\<close> says whether a colon followed the hours.
\<close>

definition fraction :: "string \<Rightarrow> int option" where
  "fraction s =
    (let k = min 6 (length s) in
     if s \<noteq> [] \<and> list_all is_digit s
     then Some (int (read_nat (take k s)) * 10 ^ (6 - k)) else None)"

fun hms :: "nat \<Rightarrow> bool \<Rightarrow> nat \<Rightarrow> string \<Rightarrow> (int list \<times> int) option" where
  "hms 0 sep i s = None"
| "hms (Suc k) sep i s =
    (case num_field 2 s of
       None \<Rightarrow> None
     | Some (v, t) \<Rightarrow>
       (case t of
          [] \<Rightarrow> Some ([v], 0)
        | c # u \<Rightarrow>
          let sep' = (if i = 0 then c = CHR '':'' else sep) in
          if k = 0 then
            (if c = CHR ''.'' \<or> c = CHR '','' then map_option (\<lambda>f. ([v], f)) (fraction u) else None)
          else if sep' \<and> c \<noteq> CHR '':'' then None
          else map_option (\<lambda>(vs, f). (v # vs, f)) (hms k sep' (Suc i) (if sep' then u else t))))"

definition seconds :: "int list \<Rightarrow> int" where
  "seconds vs = (case vs of [h] \<Rightarrow> 3600 * h | [h, m] \<Rightarrow> 3600 * h + 60 * m
    | [h, m, s] \<Rightarrow> 3600 * h + 60 * m + s | _ \<Rightarrow> 0)"

definition clock_ok :: "int list \<Rightarrow> bool" where
  "clock_ok vs = (vs \<noteq> [] \<and> hd vs \<le> 23 \<and> list_all (\<lambda>v. v \<le> 59) (tl vs))"

definition day_us :: int where
  "day_us = 86400000000"

definition time_fields :: "string \<Rightarrow> (int \<times> int option) option" where
  "time_fields s =
    (let a = takeWhile (\<lambda>c. c \<noteq> CHR ''+'' \<and> c \<noteq> CHR ''-'') s; b = drop (length a) s in
     Option.bind (hms 3 True 0 a) (\<lambda>(vs, us).
       if \<not> clock_ok vs then None
       else (case b of
         [] \<Rightarrow> Some (1000000 * seconds vs + us, None)
       | c # z \<Rightarrow>
         Option.bind (hms 3 True 0 z) (\<lambda>(ws, wus).
           let off = 1000000 * seconds ws + wus;
               signed = (if c = CHR ''-'' then - off else off) in
           if - day_us < signed \<and> signed < day_us
           then Some (1000000 * seconds vs + us, Some signed) else None))))"

text \<open>The character between date and time may be any one code point.\<close>

definition separator_length :: "string \<Rightarrow> nat" where
  "separator_length s =
    (case s of c # _ \<Rightarrow> if byte c < 128 then 1 else if byte c < 224 then 2 else if byte c < 240 then 3 else 4
     | [] \<Rightarrow> 0)"

definition datetime_fromisoformat :: "string \<Rightarrow> (int \<times> int option) option" where
  "datetime_fromisoformat s =
    (if length s < 7 then None
     else Option.bind (date_end s) (\<lambda>n.
       Option.bind (date_fields (take n s)) (\<lambda>d.
         let rest = drop n s in
         if rest = [] then Some (d * day_us, None)
         else map_option (\<lambda>(t, off). (d * day_us + t, off))
                (time_fields (drop (separator_length rest) rest)))))"

text \<open>\<open>text.replace("Z", "+00:00")\<close>.\<close>

definition replace_z :: "string \<Rightarrow> string" where
  "replace_z s = concat (map (\<lambda>c. if c = CHR ''Z'' then ''+00:00'' else [c]) s)"

text \<open>Equality of two aware timestamps is equality of their UTC instants.\<close>

definition utc :: "int \<times> int option \<Rightarrow> int option" where
  "utc t = map_option (\<lambda>off. fst t - off) (snd t)"

end
