(* ===== verification/Interfaces.thy ===== *)
theory Interfaces
  imports PyPattern "HOL-Library.Product_Lexorder"
begin

text \<open>
  The interfaces that several components share, as locales: a canonical text
  codec (base64, version tags, identity documents) and a release numbering whose
  successor the ledger steps along.
\<close>

section \<open>Canonical codecs\<close>

text \<open>
  A decoder that accepts exactly the text its encoder writes: every accepted text
  is the encoding of its value.
\<close>

locale canonical_codec =
  fixes encode :: "'a \<Rightarrow> string" and decode :: "string \<Rightarrow> 'a res" and valid :: "'a \<Rightarrow> bool"
  assumes decode_encode: "valid x \<Longrightarrow> decode (encode x) = Inr x"
    and decode_Inr: "decode s = Inr x \<Longrightarrow> valid x \<and> s = encode x"
begin

lemma accepts_iff: "decode s = Inr x \<longleftrightarrow> valid x \<and> s = encode x"
  using decode_encode decode_Inr by blast

lemma unique_text: "decode s = Inr x \<Longrightarrow> decode t = Inr x \<Longrightarrow> s = t"
  using decode_Inr by blast

lemma encode_inj: "valid x \<Longrightarrow> valid y \<Longrightarrow> encode x = encode y \<Longrightarrow> x = y"
  by (metis decode_encode sum.inject(2))

end

section \<open>Release numbering\<close>

text \<open>
  A numbering with a successor that is strictly greater: a walk along successors
  is strictly increasing, never comes back, and is determined by where it starts.
\<close>

locale numbering =
  fixes succ :: "'v :: linorder \<Rightarrow> 'v"
  assumes succ_greater: "v < succ v"
begin

lemma walk_above:
  "successively (\<lambda>v w. w = succ v) (v # vs) \<Longrightarrow> w \<in> set vs \<Longrightarrow> v < w"
proof (induction vs arbitrary: v)
  case Nil
  then show ?case by simp
next
  case (Cons u us)
  then have u: "u = succ v" by simp
  with succ_greater have "v < u" by simp
  show ?case
  proof (cases "w = u")
    case True
    with \<open>v < u\<close> show ?thesis by simp
  next
    case False
    with Cons.prems(2) have "w \<in> set us" by simp
    moreover have "successively (\<lambda>v w. w = succ v) (u # us)" using Cons.prems(1) by auto
    ultimately have "u < w" using Cons.IH by blast
    with \<open>v < u\<close> show ?thesis by (rule less_trans)
  qed
qed

lemma walk_increasing: "successively (\<lambda>v w. w = succ v) vs \<Longrightarrow> sorted_wrt (<) vs"
proof (induction vs)
  case Nil
  then show ?case by simp
next
  case (Cons v vs)
  then show ?case by (auto simp: walk_above successively_Cons)
qed

lemma walk_distinct: "successively (\<lambda>v w. w = succ v) vs \<Longrightarrow> distinct vs"
  by (drule walk_increasing) (simp add: strict_sorted_iff)

lemma walk_nth:
  "successively (\<lambda>v w. w = succ v) (v # vs) \<Longrightarrow> i < length (v # vs) \<Longrightarrow> (v # vs) ! i = (succ ^^ i) v"
proof (induction vs arbitrary: v i)
  case Nil
  then show ?case by simp
next
  case (Cons u us)
  then show ?case by (cases i) (auto simp: funpow_swap1)
qed

end

end
