(* ===== verification/Git.thy ===== *)
theory Git
  imports PyJson PyCodec PyDate PyText Interfaces
begin

text \<open>
  scripts/ci/platform_release_contract.py, first part: semantic versions, the git
  questions the release ledger asks, and the grammar of a changelog fragment.  The
  repository is the runner \<open>git\<close>: an argument list is what follows
  \<open>git -C <repository>\<close>.
\<close>

section \<open>Versions\<close>

datatype release_version = Version (major: nat) (minor: nat) (patch: nat)

text \<open>\<open>dataclass(order=True)\<close>: versions compare field by field.\<close>

instantiation release_version :: linorder
begin

definition less_eq_release_version :: "release_version \<Rightarrow> release_version \<Rightarrow> bool" where
  "less_eq_release_version v w = ((major v, minor v, patch v) \<le> (major w, minor w, patch w))"

definition less_release_version :: "release_version \<Rightarrow> release_version \<Rightarrow> bool" where
  "less_release_version v w = ((major v, minor v, patch v) < (major w, minor w, patch w))"

instance
  by standard
    (auto simp: less_eq_release_version_def less_release_version_def release_version.expand
      intro: release_version.expand)

end

definition version_str :: "release_version \<Rightarrow> string" where
  "version_str v = show_semver (major v, minor v, patch v)"

definition version_tag :: "release_version \<Rightarrow> string" where
  "version_tag v = ''v'' @ version_str v"

definition version_parse :: "string \<Rightarrow> release_version res" where
  "version_parse raw =
    (case semver_groups (strip raw) of
       None \<Rightarrow> Inl (ContractError ''invalid semantic version'')
     | Some (a, b, c) \<Rightarrow> Inr (Version a b c))"

definition next_version :: "release_version option \<Rightarrow> release_version" where
  "next_version base =
    (case base of None \<Rightarrow> Version 0 1 0 | Some v \<Rightarrow> Version (major v) (minor v) (patch v + 1))"

definition require_sha :: "json \<Rightarrow> string \<Rightarrow> string res" where
  "require_sha raw field =
    (case raw of
       JStr s \<Rightarrow> deny_if (\<not> sha1_hex s) (field @ '' must be one lowercase 40-hex SHA'') (Inr s)
     | _ \<Rightarrow> Inl (ContractError (field @ '' must be one lowercase 40-hex SHA'')))"

section \<open>The generated changelog of the retired model\<close>

definition iso_date_shape :: "string \<Rightarrow> bool" where
  "iso_date_shape s =
    (length s = 10 \<and> s ! 4 = CHR ''-'' \<and> s ! 7 = CHR ''-''
      \<and> list_all is_digit (take 4 s @ take 2 (drop 5 s) @ drop 8 s))"

text \<open>\<open>re.findall\<close> of the multi-line heading pattern: the dates of the heading lines.\<close>

definition heading_dates :: "string \<Rightarrow> string \<Rightarrow> string list" where
  "heading_dates ver text =
    filter iso_date_shape
      (map (\<lambda>line. drop (length (''## ['' @ ver @ ''] - '')) line)
        (filter (\<lambda>line. startswith line (''## ['' @ ver @ ''] - '')) (split_on (CHR 0x0A) text)))"

text \<open>
  The second pattern at the start of a line: \<open>## [Unreleased]\<close>, whitespace that ends
  with a line feed, and the heading up to the end of its line.
\<close>

definition unreleased_then :: "string \<Rightarrow> string \<Rightarrow> bool" where
  "unreleased_then heading s =
    (startswith s ''## [Unreleased]'' \<and>
     (let rest = drop (length ''## [Unreleased]'') s;
          body = lstrip rest;
          gap = take (length rest - length body) rest
      in endswith gap [CHR 0x0A] \<and> startswith body heading \<and>
         (case drop (length heading) body of [] \<Rightarrow> True | c # _ \<Rightarrow> c = CHR 0x0A)))"

fun line_starts :: "string \<Rightarrow> string list" where
  "line_starts [] = []"
| "line_starts (c # s) = (if c = CHR 0x0A then s # line_starts s else line_starts s)"

definition validate_changelog :: "string \<Rightarrow> release_version \<Rightarrow> unit res" where
  "validate_changelog text ver =
    (case heading_dates (version_str ver) text of
       [date] \<Rightarrow>
         deny_if (date_fromisoformat date = None) ''changelog release date is not a real ISO date'' (
         deny_if (\<not> list_ex (unreleased_then (''## ['' @ version_str ver @ ''] - '' @ date)) (text # line_starts text))
           ''current release must immediately follow empty Unreleased'' (Inr ()))
     | _ \<Rightarrow> Inl (ContractError ''changelog must contain exactly one current-version heading''))"

section \<open>Questions to git\<close>

definition git_absent :: "runner \<Rightarrow> string list \<Rightarrow> string option res" where
  "git_absent git args =
    bind (run_text git args) (\<lambda>(rc, out). Inr (if rc \<noteq> 0 then None else Some (strip out)))"

definition git_text :: "runner \<Rightarrow> string list \<Rightarrow> string res" where
  "git_text git args =
    bind (run_text git args) (\<lambda>(rc, out).
      deny_if (rc \<noteq> 0) (''git '' @ join '' '' args @ '' failed'') (Inr (strip out)))"

definition git_file :: "runner \<Rightarrow> string \<Rightarrow> string \<Rightarrow> string res" where
  "git_file git revision path = git_text git [''show'', revision @ '':'' @ path]"

definition git_bytes :: "runner \<Rightarrow> string list \<Rightarrow> string res" where
  "git_bytes git args =
    bind (run_bytes git args) (\<lambda>(rc, out).
      deny_if (rc \<noteq> 0) (''git '' @ join '' '' args @ '' failed'') (Inr out))"

lemma git_cong [cong]: "git_text git args = git_text git args" "git_bytes git args = git_bytes git args"
  by (rule refl)+

definition file_bytes :: "runner \<Rightarrow> string \<Rightarrow> string \<Rightarrow> string res" where
  "file_bytes git revision path = git_bytes git [''show'', revision @ '':'' @ path]"

definition object_id_ok :: "string \<Rightarrow> bool" where
  "object_id_ok s = ((length s = 40 \<or> length s = 64) \<and> list_all is_hex s)"

definition require_regular_fragment_entry :: "runner \<Rightarrow> string \<Rightarrow> string \<Rightarrow> unit res" where
  "require_regular_fragment_entry git revision path =
    bind (git_bytes git [''ls-tree'', ''-z'', ''--full-tree'', revision, ''--'', path]) (\<lambda>raw.
    deny_if (\<not> endswith raw [CHR 0x00] \<or> count_list raw (CHR 0x00) \<noteq> 1)
      ''fragment tree entry is absent or duplicated'' (
    case split_first (CHR 0x09) (butlast raw) of
      None \<Rightarrow> Inl (ContractError ''fragment tree entry is malformed'')
    | Some (metadata, encoded_path) \<Rightarrow>
        (case split_first (CHR '' '') metadata of
           None \<Rightarrow> Inl (ContractError ''fragment tree entry is malformed'')
         | Some (mode, rest) \<Rightarrow>
             (case split_first (CHR '' '') rest of
                None \<Rightarrow> Inl (ContractError ''fragment tree entry is malformed'')
              | Some (object_type, object_id) \<Rightarrow>
                  deny_if (\<not> utf8_valid encoded_path) ''fragment tree entry is malformed'' (
                  deny_if
                    (encoded_path \<noteq> path \<or> mode \<noteq> ''100644'' \<or> object_type \<noteq> ''blob''
                      \<or> \<not> object_id_ok object_id)
                    ''fragment must be one regular non-executable 100644 blob'' (Inr ()))))))"

definition exact_commit :: "runner \<Rightarrow> string \<Rightarrow> string \<Rightarrow> string res" where
  "exact_commit git revision field =
    bind (require_sha (JStr revision) field) (\<lambda>revision.
    bind (git_text git [''rev-parse'', ''--verify'', revision @ ''^{commit}'']) (\<lambda>answer.
    deny_if (answer \<noteq> revision) (field @ '' did not resolve exactly'') (Inr revision)))"

definition is_ancestor :: "runner \<Rightarrow> string \<Rightarrow> string \<Rightarrow> bool res" where
  "is_ancestor git ancestor descendant =
    bind (run_bytes git [''merge-base'', ''--is-ancestor'', ancestor, descendant]) (\<lambda>(rc, out).
      if rc = 0 then Inr True
      else if rc = 1 then Inr False
      else Inl (ContractError ''git ancestry check failed''))"

definition nul_path :: "string \<Rightarrow> string list \<Rightarrow> string list res" where
  "nul_path field paths =
    deny_if (\<not> utf8_valid field) ''release path is not UTF-8'' (
    deny_if (field = [] \<or> field \<in> set paths) ''release path inventory is empty or duplicated''
      (Inr (paths @ [field])))"

definition nul_paths :: "runner \<Rightarrow> string list \<Rightarrow> string list res" where
  "nul_paths git args =
    bind (git_bytes git args) (\<lambda>raw.
    let fields = split_on (CHR 0x00) raw in
    deny_if (last fields \<noteq> []) ''git path inventory was not NUL terminated'' (
    bind (for_each nul_path (butlast fields) []) (\<lambda>paths. Inr (sort paths))))"

section \<open>Changelog fragments\<close>

definition FRAGMENT_CATEGORIES :: "string list" where
  "FRAGMENT_CATEGORIES = [''Added'', ''Changed'', ''Fixed'', ''Security'']"

definition MAX_FRAGMENT_BYTES :: nat where "MAX_FRAGMENT_BYTES = 16 * 1024"

definition bullet_bad :: "string \<Rightarrow> bool" where
  "bullet_bad line = (\<not> startswith line ''- '' \<or> line = ''- '')"

definition validate_fragment_lines :: "string list \<Rightarrow> unit res" where
  "validate_fragment_lines lines =
    (case lines of
       heading # gap # bullets \<Rightarrow>
         deny_if (bullets = [] \<or> gap \<noteq> []) ''fragment must contain one category heading and bullet list'' (
         deny_if (\<not> startswith heading ''### '' \<or> drop 4 heading \<notin> set FRAGMENT_CATEGORIES)
           ''fragment category must be Added, Changed, Fixed, or Security'' (
         deny_if (list_ex bullet_bad bullets) ''every fragment body line must be one non-empty Markdown bullet'' (
         deny_if (list_ex (\<lambda>line. rstrip line \<noteq> line) lines)
           ''fragment lines must not contain trailing whitespace'' (Inr ()))))
     | _ \<Rightarrow> Inl (ContractError ''fragment must contain one category heading and bullet list''))"

definition validate_fragment_bytes :: "string \<Rightarrow> string \<Rightarrow> string res" where
  "validate_fragment_bytes path payload =
    deny_if (\<not> fragment_path_ok path) ''fragment path must be changelog.d/<issue>-<lowercase-slug>.md'' (
    deny_if (payload = [] \<or> MAX_FRAGMENT_BYTES < length payload)
      ''fragment must be non-empty and at most 16 KiB'' (
    deny_if
      (startswith payload [CHR 0xEF, CHR 0xBB, CHR 0xBF] \<or> CHR 0x0D \<in> set payload \<or> CHR 0x00 \<in> set payload)
      ''fragment must be BOM-free UTF-8 with LF line endings'' (
    deny_if (\<not> utf8_valid payload) ''fragment is not UTF-8'' (
    deny_if (\<not> endswith payload [CHR 0x0A] \<or> endswith payload [CHR 0x0A, CHR 0x0A])
      ''fragment must end in exactly one newline'' (
    deny_if (contains payload ''${{'') ''fragment must not contain a workflow expression opener'' (
    bind (validate_fragment_lines (splitlines payload)) (\<lambda>_. Inr payload)))))))"

text \<open>
  The grammar of a changelog fragment: what \<open>validate_fragment_bytes\<close> accepts, and
  that it accepts every fragment written in the documented form.
\<close>

section \<open>Lines\<close>

fun no_break :: "string \<Rightarrow> bool" where
  "no_break [] = True"
| "no_break (c # s) = (line_break (c # s) = 0 \<and> no_break s)"

lemma line_break_before_newline:
  "line_break (c # s) = 0 \<Longrightarrow> line_break (c # s @ CHR 0x0A # r) = 0"
  by (cases s; cases "tl s") (auto split: if_splits list.splits)

lemma lines_acc_line:
  "no_break w \<Longrightarrow> lines_acc cur (w @ CHR 0x0A # r) = (rev cur @ w) # lines_acc [] r"
proof (induction w arbitrary: cur)
  case Nil
  have "line_break (CHR 0x0A # r) = 1" by (simp add: byte_in_def)
  then show ?case by (simp add: lines_acc.simps [of cur "CHR 0x0A # r"])
next
  case (Cons c w)
  then have "line_break (c # w @ CHR 0x0A # r) = 0" using line_break_before_newline [of c w r] by simp
  with Cons show ?case by (simp add: lines_acc.simps [of cur "c # w @ CHR 0x0A # r"])
qed

lemma splitlines_lines:
  "list_all no_break ws \<Longrightarrow> splitlines (concat (map (\<lambda>w. w @ [CHR 0x0A]) ws)) = ws"
  by (induction ws) (simp_all add: splitlines_def lines_acc_line lines_acc.simps [of "[]" "[]"])

section \<open>The documented form\<close>

definition render_fragment :: "string \<Rightarrow> string list \<Rightarrow> string" where
  "render_fragment category bullets =
    concat (map (\<lambda>line. line @ [CHR 0x0A]) ((''### '' @ category) # [] # map (\<lambda>b. ''- '' @ b) bullets))"

text \<open>A bullet is text on one line, without trailing whitespace, NUL or an expression opener.\<close>

definition bullet_ok :: "string \<Rightarrow> bool" where
  "bullet_ok b \<longleftrightarrow> b \<noteq> [] \<and> no_break (''- '' @ b) \<and> rstrip (''- '' @ b) = ''- '' @ b \<and> utf8_valid b
     \<and> CHR 0x00 \<notin> set b"

lemma line_break_newline [simp]: "line_break (CHR 0x0D # s) \<noteq> 0" "line_break (CHR 0x0A # s) \<noteq> 0"
  by (cases s; simp add: byte_in_def)+

lemma no_break_no_cr: "no_break w \<Longrightarrow> CHR 0x0D \<notin> set w \<and> CHR 0x0A \<notin> set w"
proof (induction w)
  case (Cons c w)
  then have "line_break (c # w) = 0" by simp
  then have "c \<noteq> CHR 0x0D" "c \<noteq> CHR 0x0A" using line_break_newline [of w] by metis+
  with Cons show ?case by simp
qed simp

lemma concat_lines_chars: "c \<in> set (concat (map (\<lambda>line. line @ [x]) ws)) \<Longrightarrow> c = x \<or> (\<exists>w \<in> set ws. c \<in> set w)"
  by (induction ws) auto

lemma categories_ok: "c \<in> set FRAGMENT_CATEGORIES \<Longrightarrow>
    no_break (''### '' @ c) \<and> rstrip (''### '' @ c) = ''### '' @ c \<and> is_ascii c \<and> CHR 0x00 \<notin> set c"
proof -
  have "list_all (\<lambda>c. no_break (''### '' @ c) \<and> rstrip (''### '' @ c) = ''### '' @ c \<and> is_ascii c \<and> CHR 0x00 \<notin> set c)
      FRAGMENT_CATEGORIES"
    by code_simp
  then show "c \<in> set FRAGMENT_CATEGORIES \<Longrightarrow> ?thesis" by (auto simp: list_all_iff)
qed

lemma utf8_valid_concat: "\<forall>w \<in> set ws. utf8_valid w \<Longrightarrow> utf8_valid (concat ws)"
  by (induction ws) (simp_all add: utf8_valid_append)

text \<open>
  what the fragment check accepts has the documented structure: one heading
  with a known category, one empty line, and only non-empty bullets; it is UTF-8
  without carriage return, NUL or byte order mark, at most 16 KiB, closed by one
  newline; and it is returned unchanged.
\<close>

theorem fragment_structure:
  assumes "validate_fragment_bytes path payload = Inr text"
  shows "text = payload \<and> fragment_path_ok path \<and> length payload \<le> 16384 \<and> utf8_valid payload \<and>
    CHR 0x0D \<notin> set payload \<and> CHR 0x00 \<notin> set payload \<and> \<not> contains payload ''${{'' \<and>
    endswith payload [CHR 0x0A] \<and> \<not> endswith payload [CHR 0x0A, CHR 0x0A] \<and>
    (\<exists>category bullets. splitlines payload = (''### '' @ category) # [] # map (\<lambda>b. ''- '' @ b) bullets \<and>
       category \<in> set FRAGMENT_CATEGORIES \<and> bullets \<noteq> [] \<and> [] \<notin> set bullets)"
proof -
  have outer: "text = payload" "fragment_path_ok path" "length payload \<le> 16384" "utf8_valid payload"
    "CHR 0x0D \<notin> set payload" "CHR 0x00 \<notin> set payload" "\<not> contains payload ''${{''"
    "endswith payload [CHR 0x0A]" "\<not> endswith payload [CHR 0x0A, CHR 0x0A]"
    and lines: "validate_fragment_lines (splitlines payload) = Inr ()"
    using assms
    unfolding validate_fragment_bytes_def deny_if_eq_Inr bind_eq_Inr MAX_FRAGMENT_BYTES_def by auto
  from lines obtain heading bullets where split: "splitlines payload = heading # [] # bullets"
    and b: "bullets \<noteq> []" "\<not> list_ex bullet_bad bullets"
    and h: "startswith heading ''### ''" "drop 4 heading \<in> set FRAGMENT_CATEGORIES"
    unfolding validate_fragment_lines_def by (auto split: list.splits)
  from h obtain category where heading: "heading = ''### '' @ category" unfolding startswith_iff by blast
  have "map (\<lambda>b. ''- '' @ drop 2 b) bullets = bullets"
    using b(2) by (intro map_idI) (auto simp: list_ex_iff bullet_bad_def startswith_iff)
  moreover have "[] \<notin> set (map (drop 2) bullets)"
    using b(2) by (auto simp: list_ex_iff bullet_bad_def startswith_iff)
  ultimately have "splitlines payload = (''### '' @ category) # [] # map (\<lambda>b. ''- '' @ b) (map (drop 2) bullets)"
    using split heading by (simp add: o_def)
  moreover have "category \<in> set FRAGMENT_CATEGORIES" using h(2) heading by simp
  moreover have "map (drop 2) bullets \<noteq> []" using b(1) by simp
  ultimately show ?thesis
    using outer \<open>[] \<notin> set (map (drop 2) bullets)\<close> by blast
qed

text \<open>
  Every fragment written in the documented form, within the size bound and
  without a workflow expression opener, is accepted.
\<close>

theorem fragment_accepted:
  assumes path: "fragment_path_ok path" and category: "category \<in> set FRAGMENT_CATEGORIES"
    and bullets: "bullets \<noteq> []" "list_all bullet_ok bullets"
    and size: "length (render_fragment category bullets) \<le> 16384"
    and opener: "\<not> contains (render_fragment category bullets) ''${{''"
  shows "validate_fragment_bytes path (render_fragment category bullets) = Inr (render_fragment category bullets)"
proof -
  let ?lines = "(''### '' @ category) # [] # map (\<lambda>b. ''- '' @ b) bullets"
  let ?p = "render_fragment category bullets"
  note cat = categories_ok [OF category]
  have nb: "list_all no_break ?lines" using bullets(2) cat by (auto simp: list_all_iff bullet_ok_def)
  then have split: "splitlines ?p = ?lines" unfolding render_fragment_def by (rule splitlines_lines)
  have p: "?p = concat (map (\<lambda>line. line @ [CHR 0x0A]) ?lines)" by (simp only: render_fragment_def)
  have chars: "c \<in> set ?p \<Longrightarrow> c = CHR 0x0A \<or> (\<exists>w \<in> set ?lines. c \<in> set w)" for c
    using concat_lines_chars [of c "CHR 0x0A" ?lines] unfolding p by blast
  have all_lines: "\<forall>w \<in> set ?lines. no_break w" using nb unfolding list_all_iff .
  have no_nul: "\<forall>w \<in> set ?lines. CHR 0x00 \<notin> set w"
    using cat bullets(2) by (auto simp: list_all_iff bullet_ok_def)
  have differ: "CHR 0x0D \<noteq> CHR 0x0A" "CHR 0x00 \<noteq> CHR 0x0A" by simp_all
  have cr: "CHR 0x0D \<notin> set ?p" using chars differ(1) all_lines no_break_no_cr by blast
  have nul: "CHR 0x00 \<notin> set ?p" using chars differ(2) no_nul by blast
  have "\<forall>w \<in> set (map (\<lambda>line. line @ [CHR 0x0A]) ?lines). utf8_valid w"
    using cat bullets(2)
    by (auto simp: list_all_iff bullet_ok_def utf8_valid_append utf8_valid_ascii)
  then have utf8: "utf8_valid ?p" unfolding p by (rule utf8_valid_concat)
  obtain init final where fin: "bullets = init @ [final]" using bullets(1) by (cases bullets rule: rev_cases) auto
  then have final: "final \<noteq> []" "CHR 0x0A \<notin> set final"
    using bullets(2) no_break_no_cr [of "''- '' @ final"] by (auto simp: bullet_ok_def)
  have "?p = (concat (map (\<lambda>line. line @ [CHR 0x0A]) ((''### '' @ category) # [] # map (\<lambda>b. ''- '' @ b) init))
      @ ''- '') @ final @ [CHR 0x0A]"
    by (simp add: render_fragment_def fin)
  then obtain head where head: "?p = head @ final @ [CHR 0x0A]" by blast
  have ends: "endswith ?p [CHR 0x0A]" unfolding head endswith_iff by (intro exI [of _ "head @ final"]) simp
  have "\<not> endswith ?p [CHR 0x0A, CHR 0x0A]"
  proof
    assume "endswith ?p [CHR 0x0A, CHR 0x0A]"
    then obtain t where "head @ final @ [CHR 0x0A] = t @ [CHR 0x0A, CHR 0x0A]"
      unfolding endswith_iff head by blast
    then have "last (head @ final) = CHR 0x0A" by (metis append_assoc append.simps butlast_append butlast_snoc last_snoc)
    with final show False by (metis last_appendR last_in_set)
  qed
  moreover have "startswith ?p [CHR 0xEF, CHR 0xBB, CHR 0xBF] = False" "?p \<noteq> []"
    by (simp_all add: render_fragment_def startswith_def)
  moreover have "validate_fragment_lines ?lines = Inr ()"
  proof -
    have "list_ex bullet_bad (map (\<lambda>b. ''- '' @ b) bullets) = False"
      using bullets(2) by (auto simp: list_ex_iff list_all_iff bullet_bad_def bullet_ok_def startswith_def)
    moreover have "list_ex (\<lambda>line. rstrip line \<noteq> line) ?lines = False"
      using bullets(2) cat by (auto simp: list_ex_iff list_all_iff bullet_ok_def rstrip_def rstrip_rev.simps [of "[]"] trailing_space_def)
    ultimately show ?thesis
      using bullets(1) category by (simp add: validate_fragment_lines_def startswith_def)
  qed
  ultimately show ?thesis
    using path size opener cr nul utf8 ends
    by (simp add: validate_fragment_bytes_def split MAX_FRAGMENT_BYTES_def)
qed

theorem fragment_structure_witness:
  "\<exists>category bullets. splitlines (render_fragment ''Fixed'' [''a'', ''b'']) =
      (''### '' @ category) # [] # map (\<lambda>b. ''- '' @ b) bullets \<and> category \<in> set FRAGMENT_CATEGORIES"
proof -
  have "validate_fragment_bytes ''changelog.d/12-x-y.md'' (render_fragment ''Fixed'' [''a'', ''b'']) =
      Inr (render_fragment ''Fixed'' [''a'', ''b''])"
    by code_simp
  from fragment_structure [OF this] show ?thesis by blast
qed

theorem fragment_accepted_witness:
  "validate_fragment_bytes ''changelog.d/12-x-y.md'' (render_fragment ''Fixed'' [''a'', ''b'']) =
     Inr (render_fragment ''Fixed'' [''a'', ''b''])"
  by (rule fragment_accepted; code_simp)

text \<open>
  The fragment check splits lines at every boundary \<open>str.splitlines\<close> knows, so a
  fragment whose lines end in vertical tabs passes as one with LF line endings.
\<close>

theorem fragment_vertical_tabs:
  "validate_fragment_bytes ''changelog.d/12-x-y.md''
     (''### Fixed'' @ [CHR 0x0B, CHR 0x0B] @ ''- a'' @ [CHR 0x0B] @ ''- b'' @ [CHR 0x0A]) =
   Inr (''### Fixed'' @ [CHR 0x0B, CHR 0x0B] @ ''- a'' @ [CHR 0x0B] @ ''- b'' @ [CHR 0x0A])"
  by code_simp

end
