(* ===== verification/Ledger.thy ===== *)
theory Ledger
  imports Git
begin

text \<open>
  scripts/ci/platform_release_contract.py, the tag-derived release ledger: the
  linear range between two commits, the fragments a range adds, the ordered and
  contiguous sequence of release tags, and the transition window and release notes
  derived from it.
\<close>

section \<open>Constants and records\<close>

definition GENERATED_RELEASE_PATHS :: "string list" where
  "GENERATED_RELEASE_PATHS = [''VERSION'', ''CHANGELOG.md'']"

definition MAX_TAG_LEDGER_ENTRIES :: nat where "MAX_TAG_LEDGER_ENTRIES = 1024"

definition RECOVERY_BASE_SHA :: string where
  "RECOVERY_BASE_SHA = ''c63f357fbc77d55f6e60050f687cceb8723eda6c''"
definition RECOVERY_SOURCE_SHA :: string where
  "RECOVERY_SOURCE_SHA = ''51c5f44f9cf1d35f68c6e9613e73ad50ef2e644e''"
definition RECOVERY_TAG :: string where "RECOVERY_TAG = ''v0.1.0''"
definition TAG_LEDGER_FLOOR_TAG :: string where "TAG_LEDGER_FLOOR_TAG = ''v0.1.9''"
definition TAG_LEDGER_FLOOR_SHA :: string where
  "TAG_LEDGER_FLOOR_SHA = ''02863737ec3759e03e032f0a478f4b5298c61a0b''"
definition RELEASE_TAGGER_NAME :: string where "RELEASE_TAGGER_NAME = ''github-actions[bot]''"
definition RELEASE_TAGGER_EMAIL :: string where
  "RELEASE_TAGGER_EMAIL = ''41898282+github-actions[bot]@users.noreply.github.com''"

record intent =
  intent_source_sha :: string
  intent_version :: release_version

definition intent_tag :: "intent \<Rightarrow> string" where
  "intent_tag i = version_tag (intent_version i)"

record transition_window =
  base_sha :: string
  base_tag :: string
  window_intent :: intent
  window_fragment_path :: string
  window_fragment_sha256 :: string

record fragment_intent =
  fragment_source_sha :: string
  fragment_path :: string
  fragment_sha256 :: string

datatype tag_boundary =
  TagBoundary (boundary_version: release_version) (boundary_tag: string) (boundary_sha: string)

text \<open>\<open>dataclass(order=True)\<close>: version first, then tag, then source.\<close>

instantiation tag_boundary :: linorder
begin

definition less_eq_tag_boundary :: "tag_boundary \<Rightarrow> tag_boundary \<Rightarrow> bool" where
  "less_eq_tag_boundary b c =
    ((boundary_version b, boundary_tag b, boundary_sha b) \<le> (boundary_version c, boundary_tag c, boundary_sha c))"

definition less_tag_boundary :: "tag_boundary \<Rightarrow> tag_boundary \<Rightarrow> bool" where
  "less_tag_boundary b c =
    ((boundary_version b, boundary_tag b, boundary_sha b) < (boundary_version c, boundary_tag c, boundary_sha c))"

instance
  by standard
    (auto simp: less_eq_tag_boundary_def less_tag_boundary_def tag_boundary.expand intro: tag_boundary.expand)

end

section \<open>A range of commits\<close>

definition chain_step :: "runner \<Rightarrow> string \<Rightarrow> string \<Rightarrow> string res" where
  "chain_step git commit previous =
    bind (git_text git [''rev-list'', ''--parents'', ''-n'', ''1'', commit]) (\<lambda>out.
    deny_if (words out \<noteq> [commit, previous]) ''release range must be one contiguous linear commit chain''
      (Inr commit))"

definition linear_commits :: "runner \<Rightarrow> string \<Rightarrow> string \<Rightarrow> string list res" where
  "linear_commits git base head =
    bind (is_ancestor git base head) (\<lambda>anc.
    deny_if (\<not> anc)
      ''release head does not descend from the exact current base; request an owner-operated GitHub rebase update or create a fresh branch'' (
    bind (git_text git [''rev-list'', ''--first-parent'', ''--reverse'', base @ ''..'' @ head]) (\<lambda>raw.
    let commits = splitlines raw in
    deny_if (commits = [] \<or> last commits \<noteq> head) ''release range is empty or does not end at the exact head'' (
    bind (for_each (chain_step git) commits base) (\<lambda>_. Inr commits)))))"

definition surface_diff :: "string list \<Rightarrow> string \<Rightarrow> string \<Rightarrow> string list" where
  "surface_diff filters base head =
    [''diff'', ''--name-only'', ''--no-renames''] @ filters @ [''-z'', base, head]
      @ [''--'', ''VERSION'', ''CHANGELOG.md'', ''changelog.d'']"

definition fragment_intent_of :: "runner \<Rightarrow> string \<Rightarrow> string \<Rightarrow> fragment_intent res" where
  "fragment_intent_of git head path =
    bind (require_regular_fragment_entry git head path) (\<lambda>_.
    bind (file_bytes git head path) (\<lambda>payload.
    bind (validate_fragment_bytes path payload) (\<lambda>_.
    Inr \<lparr>fragment_source_sha = head, fragment_path = path, fragment_sha256 = sha256_hex payload\<rparr>)))"

definition release_surface_intents :: "runner \<Rightarrow> string \<Rightarrow> string \<Rightarrow> fragment_intent list res" where
  "release_surface_intents git base head =
    bind (linear_commits git base head) (\<lambda>_.
    bind (nul_paths git (surface_diff [] base head)) (\<lambda>changed.
    bind (nul_paths git (surface_diff [''--diff-filter=A''] base head)) (\<lambda>added.
    let generated = sort (remdups (filter (\<lambda>p. p \<in> set GENERATED_RELEASE_PATHS) changed)) in
    deny_if (generated \<noteq> []) (''retired generated release files changed: '' @ join '', '' generated) (
    deny_if (changed \<noteq> added) ''release fragments may only be newly added, never edited or removed'' (
    map_res (fragment_intent_of git head) added)))))"

section \<open>The ledger of release tags\<close>

definition tag_format :: string where
  "tag_format = ''--format=%(objecttype)%00%(*objecttype)%00%(tag)%00%(taggername)%00%(taggeremail)%00%(taggerdate:iso-strict)%00%(contents)%00%(*objectname)%00''"

definition boundary_query :: "string \<Rightarrow> string list" where
  "boundary_query name = [''for-each-ref'', ''--count=1'', tag_format, ''refs/tags/'' @ name]"

definition tag_query :: "string list" where "tag_query = [''tag'', ''--list'', ''v*'']"

definition tag_names :: "runner \<Rightarrow> string list res" where
  "tag_names git =
    bind (git_text git tag_query) (\<lambda>raw.
    let names = splitlines raw in
    deny_if (MAX_TAG_LEDGER_ENTRIES < length names)
      ''tag-derived release ledger exceeds the 1024-entry validation bound'' (Inr names))"

definition tag_version :: "string \<Rightarrow> release_version res" where
  "tag_version name =
    (case tag_groups name of
       None \<Rightarrow> Inl (ContractError ''platform tag is not canonical SemVer'')
     | Some (a, b, c) \<Rightarrow> Inr (Version a b c))"

text \<open>The metadata of one tag: annotated, by the release bot, dated and worded exactly.\<close>

definition read_boundary :: "runner \<Rightarrow> string \<Rightarrow> release_version \<Rightarrow> tag_boundary res" where
  "read_boundary git name ver =
    bind (git_bytes git (boundary_query name)) (\<lambda>raw.
    deny_if (\<not> endswith raw [CHR 0x00, CHR 0x0A]) (''platform tag '' @ name @ '' metadata is not bounded'') (
    let fields = split_on (CHR 0x00) (take (length raw - 2) raw) in
    deny_if (\<not> list_all utf8_valid fields) (''platform tag '' @ name @ '' metadata is not UTF-8'') (
    case fields of
      [object_type, peeled_type, embedded_name, tagger_name, tagger_email, tagger_date, message, source] \<Rightarrow>
        bind (require_sha (JStr source) (name @ '' target'')) (\<lambda>source_sha.
        bind (git_text git [''show'', ''-s'', ''--format=%cI'', source_sha]) (\<lambda>expected_date.
        deny_if
          (object_type \<noteq> ''tag'' \<or> peeled_type \<noteq> ''commit'' \<or> embedded_name \<noteq> name
            \<or> tagger_name \<noteq> RELEASE_TAGGER_NAME
            \<or> tagger_email \<noteq> ''<'' @ RELEASE_TAGGER_EMAIL @ ''>''
            \<or> tagger_date \<noteq> expected_date
            \<or> message \<noteq> ''Platform release '' @ name @ '' from '' @ source_sha)
          (''platform tag '' @ name @ '' metadata is not exact'')
          (Inr (TagBoundary ver name source_sha))))
    | _ \<Rightarrow> Inl (ContractError (''platform tag '' @ name @ '' metadata is incomplete'')))))"

definition collect_boundary ::
  "runner \<Rightarrow> string \<Rightarrow> tag_boundary list \<times> release_version list \<Rightarrow> (tag_boundary list \<times> release_version list) res" where
  "collect_boundary git name state =
    (case state of (boundaries, seen) \<Rightarrow>
      bind (tag_version name) (\<lambda>ver.
      deny_if (ver \<in> set seen) ''platform tag version is duplicated'' (
      bind (read_boundary git name ver) (\<lambda>boundary. Inr (boundaries @ [boundary], ver # seen)))))"

definition ledger_step :: "runner \<Rightarrow> tag_boundary \<Rightarrow> tag_boundary \<Rightarrow> tag_boundary res" where
  "ledger_step git boundary previous =
    deny_if (boundary_version boundary \<noteq> next_version (Some (boundary_version previous)))
      ''tag-derived release ledger skips or reverses a patch'' (
    deny_if (boundary_sha boundary = boundary_sha previous)
      ''tag-derived release ledger is not one ancestral sequence'' (
    bind (is_ancestor git (boundary_sha previous) (boundary_sha boundary)) (\<lambda>anc.
    deny_if (\<not> anc) ''tag-derived release ledger is not one ancestral sequence'' (
    bind (linear_commits git (boundary_sha previous) (boundary_sha boundary)) (\<lambda>_.
    bind (release_surface_intents git (boundary_sha previous) (boundary_sha boundary)) (\<lambda>intents.
    deny_if (length intents \<noteq> 1) ''every adjacent tag-derived release must bind exactly one fragment''
      (Inr boundary)))))))"

text \<open>The part of the function behind the sort.\<close>

definition check_ledger :: "runner \<Rightarrow> tag_boundary list \<Rightarrow> tag_boundary list res" where
  "check_ledger git boundaries =
    bind (version_parse (removeprefix TAG_LEDGER_FLOOR_TAG ''v'')) (\<lambda>floor_version.
    case filter (\<lambda>b. floor_version \<le> boundary_version b) boundaries of
      [] \<Rightarrow> Inl (ContractError ''tag-derived release ledger has no migration floor'')
    | floor # rest \<Rightarrow>
        deny_if (boundary_tag floor \<noteq> TAG_LEDGER_FLOOR_TAG \<or> boundary_sha floor \<noteq> TAG_LEDGER_FLOOR_SHA)
          ''tag-derived release ledger floor is not exact'' (
        bind (for_each (ledger_step git) rest floor) (\<lambda>_. Inr (floor # rest))))"

definition platform_tag_boundaries :: "runner \<Rightarrow> tag_boundary list res" where
  "platform_tag_boundaries git =
    bind (tag_names git) (\<lambda>names.
    bind (for_each (collect_boundary git) names ([], [])) (\<lambda>(boundaries, seen).
    check_ledger git (sort boundaries)))"

section \<open>Transitions\<close>

definition validate_unpublished_fragment_edit :: "runner \<Rightarrow> string \<Rightarrow> string \<Rightarrow> fragment_intent res" where
  "validate_unpublished_fragment_edit git base head =
    bind (linear_commits git base head) (\<lambda>_.
    bind (platform_tag_boundaries git) (\<lambda>ledger.
    bind (git_text git [''tag'', ''--points-at'', base]) (\<lambda>at_base.
    bind (if at_base = [] then git_text git [''tag'', ''--points-at'', head] else Inr at_base) (\<lambda>tagged.
    deny_if (tagged \<noteq> []) ''an unpublished fragment edit cannot use a tagged endpoint'' (
    let latest = last ledger in
    bind (is_ancestor git (boundary_sha latest) base) (\<lambda>anc.
    deny_if (\<not> anc) ''the latest platform tag must be an ancestor of the base'' (
    bind (release_surface_intents git (boundary_sha latest) base) (\<lambda>base_intents.
    bind (release_surface_intents git (boundary_sha latest) head) (\<lambda>head_intents.
    case (base_intents, head_intents) of
      ([base_intent], [head_intent]) \<Rightarrow>
        deny_if (fragment_path base_intent \<noteq> fragment_path head_intent)
          ''base and head must contain the same unpublished fragment'' (
        bind (nul_paths git (surface_diff [] base head)) (\<lambda>changed.
        bind (nul_paths git (surface_diff [''--diff-filter=M''] base head)) (\<lambda>modified.
        deny_if (changed \<noteq> [fragment_path base_intent] \<or> modified \<noteq> [fragment_path base_intent])
          ''release surface must only modify the one unpublished fragment'' (Inr head_intent))))
    | _ \<Rightarrow> Inl (ContractError ''base and head must each contain exactly one unpublished fragment''))))))))))"

text \<open>
  A failure of the ordinary path is kept while the edit path is tried; only
  \<open>ContractError\<close> is caught, in both places.
\<close>

definition validate_transition :: "runner \<Rightarrow> string \<Rightarrow> string \<Rightarrow> fragment_intent res" where
  "validate_transition git base head =
    bind (exact_commit git base ''base SHA'') (\<lambda>base.
    bind (exact_commit git head ''head SHA'') (\<lambda>head.
    let edit = (\<lambda>original. rewrap is_contract_error (\<lambda>_. original) (validate_unpublished_fragment_edit git base head))
    in case release_surface_intents git base head of
         Inr [one] \<Rightarrow> Inr one
       | Inr _ \<Rightarrow> edit (ContractError ''release range must add exactly one changelog fragment'')
       | Inl e \<Rightarrow> if is_contract_error e then edit e else Inl e))"

definition window_of :: "tag_boundary \<Rightarrow> string \<Rightarrow> release_version \<Rightarrow> fragment_intent \<Rightarrow> transition_window" where
  "window_of previous head ver fragment =
    \<lparr>base_sha = boundary_sha previous, base_tag = boundary_tag previous,
     window_intent = \<lparr>intent_source_sha = head, intent_version = ver\<rparr>,
     window_fragment_path = fragment_path fragment, window_fragment_sha256 = fragment_sha256 fragment\<rparr>"

text \<open>The first loop: the head is the source of a tag already in the ledger.\<close>

fun published_window ::
  "runner \<Rightarrow> string \<Rightarrow> tag_boundary option \<Rightarrow> tag_boundary list \<Rightarrow> transition_window option res" where
  "published_window git head previous [] = Inr None"
| "published_window git head previous (boundary # rest) =
    (if boundary_sha boundary \<noteq> head then published_window git head (Some boundary) rest
     else case previous of
            None \<Rightarrow> Inl (ContractError ''the migration-floor release is not a publishable new window'')
          | Some prev \<Rightarrow>
              bind (release_surface_intents git (boundary_sha prev) head) (\<lambda>intents.
              case intents of
                [fragment] \<Rightarrow> Inr (Some (window_of prev head (boundary_version boundary) fragment))
              | _ \<Rightarrow> Inl (ContractError ''an existing release tag must bind exactly one fragment'')))"

definition behind_step :: "runner \<Rightarrow> string \<Rightarrow> tag_boundary \<Rightarrow> unit \<Rightarrow> unit res" where
  "behind_step git head boundary u =
    bind (is_ancestor git head (boundary_sha boundary)) (\<lambda>behind.
    deny_if behind ''source SHA is behind a later tag but has no exact release tag'' (Inr ()))"

definition new_window :: "runner \<Rightarrow> string \<Rightarrow> tag_boundary list \<Rightarrow> transition_window res" where
  "new_window git head ledger =
    bind (for_each (behind_step git head) ledger ()) (\<lambda>_.
    let latest = last ledger in
    bind (is_ancestor git (boundary_sha latest) head) (\<lambda>anc.
    deny_if (\<not> anc) ''source SHA does not descend from the latest platform tag'' (
    bind (release_surface_intents git (boundary_sha latest) head) (\<lambda>intents.
    case intents of
      [] \<Rightarrow> Inl (ContractError ''unreleased source must add exactly one changelog fragment'')
    | [fragment] \<Rightarrow> Inr (window_of latest head (next_version (Some (boundary_version latest))) fragment)
    | _ \<Rightarrow> Inl (PendingRelease
        (''source is waiting for '' @ show_nat (length intents - 1) @ '' earlier main release(s)''))))))"

definition discover_transition_window :: "runner \<Rightarrow> string \<Rightarrow> transition_window res" where
  "discover_transition_window git head =
    bind (exact_commit git head ''head SHA'') (\<lambda>head.
    bind (platform_tag_boundaries git) (\<lambda>ledger.
    bind (published_window git head None ledger) (\<lambda>published.
    case published of Some window \<Rightarrow> Inr window | None \<Rightarrow> new_window git head ledger)))"

section \<open>Release notes\<close>

definition newline :: string where "newline = [CHR 0x0A]"

definition notes_preamble :: "string \<Rightarrow> string \<Rightarrow> string" where
  "notes_preamble head tag =
    ''## Platform '' @ tag @ newline @ newline
    @ ''Immutable repository source: `'' @ head @ ''`'' @ newline @ newline
    @ ''This release names platform source only. It does not deploy, promote, ''
    @ ''mutate a cluster, edge provider, DNS, Tunnel, secret, or protected custody.'' @ newline @ newline"

definition legacy_release_notes :: "string \<Rightarrow> string \<Rightarrow> string" where
  "legacy_release_notes head tag =
    notes_preamble head tag
    @ ''See `CHANGELOG.md` at this tag for the human-readable change record.'' @ newline"

definition render_release_notes ::
  "runner \<Rightarrow> string \<Rightarrow> string \<Rightarrow> string option \<Rightarrow> string option \<Rightarrow> string res" where
  "render_release_notes git head tag expected_base_sha expected_base_tag =
    deny_if ((expected_base_sha = None) \<noteq> (expected_base_tag = None))
      ''release-notes base SHA and tag must be supplied together'' (
    bind (exact_commit git head ''release-notes head SHA'') (\<lambda>head.
    if tag = TAG_LEDGER_FLOOR_TAG then
      deny_if (head \<noteq> TAG_LEDGER_FLOOR_SHA) ''legacy migration-floor notes source is not exact'' (
      bind (platform_tag_boundaries git) (\<lambda>ledger.
      deny_if (boundary_sha (hd ledger) \<noteq> head \<or> boundary_tag (hd ledger) \<noteq> tag)
        ''legacy migration-floor release is not exact'' (
      deny_if (expected_base_sha \<noteq> None) ''legacy migration-floor notes have no derived base''
        (Inr (legacy_release_notes head tag)))))
    else
      bind (discover_transition_window git head) (\<lambda>window.
      deny_if (intent_tag (window_intent window) \<noteq> tag) ''release-notes tag is not the derived tag'' (
      deny_if
        (expected_base_sha \<noteq> None \<and>
          (Some (base_sha window) \<noteq> expected_base_sha \<or> Some (base_tag window) \<noteq> expected_base_tag))
        ''release-notes predecessor is not the derived base'' (
      bind (file_bytes git head (window_fragment_path window)) (\<lambda>payload.
      bind (validate_fragment_bytes (window_fragment_path window) payload) (\<lambda>text.
      Inr (notes_preamble head tag
        @ ''Fragment: `'' @ window_fragment_path window @ ''` (`sha256:'' @ window_fragment_sha256 window
        @ ''`)'' @ newline @ newline @ text))))))))"

section \<open>The frozen recovery release\<close>

definition validate_recovery_release :: "runner \<Rightarrow> string \<Rightarrow> string \<Rightarrow> intent res" where
  "validate_recovery_release git source tag =
    bind (exact_commit git source ''recovery source SHA'') (\<lambda>source.
    deny_if (source \<noteq> RECOVERY_SOURCE_SHA \<or> tag \<noteq> RECOVERY_TAG)
      ''release recovery source or tag is not the exact frozen backlog'' (
    bind (git_text git [''rev-parse'', source @ ''^'']) (\<lambda>parent.
    deny_if (parent \<noteq> RECOVERY_BASE_SHA) ''release recovery base is not the exact protected predecessor'' (
    bind (git_text git [''cat-file'', ''-t'', ''refs/tags/'' @ tag]) (\<lambda>kind.
    deny_if (kind \<noteq> ''tag'') ''release recovery tag is not annotated'' (
    bind (git_text git [''rev-parse'', ''refs/tags/'' @ tag @ ''^{commit}'']) (\<lambda>target.
    deny_if (target \<noteq> source) ''release recovery tag target is not exact'' (
    bind (git_file git source ''VERSION'') (\<lambda>raw.
    bind (version_parse raw) (\<lambda>ver.
    deny_if (version_tag ver \<noteq> tag) ''release recovery VERSION is not exact'' (
    bind (git_file git source ''CHANGELOG.md'') (\<lambda>changelog.
    bind (validate_changelog changelog ver) (\<lambda>_.
    Inr \<lparr>intent_source_sha = source, intent_version = ver\<rparr>)))))))))))))"

end
