(* ===== verification/Epoch.thy ===== *)
theory Epoch
  imports PyJsonRoundtrip Interfaces PyText
begin

text \<open>
  scripts/ci/platform_release_epoch.py: the closed set of release identities.  A
  release tag belongs to one of four epochs; the epoch fixes the repository name,
  the identity schema and the publishing workflow.  A finite list of historical
  releases is bound to its sources.  A tag argument is a JSON value because the
  validators pass fields of unchecked evidence.
\<close>

declare One_nat_def [simp del]

section \<open>Constants\<close>

definition OLD_REPOSITORY :: string where "OLD_REPOSITORY = ''snaraj/website-infrastructure''"
definition NEW_REPOSITORY :: string where "NEW_REPOSITORY = ''snaraj/platform''"
definition REPOSITORY_ID :: int where "REPOSITORY_ID = 1327645656"
definition CHECKPOINT_TAG :: string where "CHECKPOINT_TAG = ''v0.1.68''"
definition CHECKPOINT_SOURCE :: string where
  "CHECKPOINT_SOURCE = ''b4bf0ac19038b1bca43651b601a348f8a84e7163''"
definition FROZEN_SELECTOR_DIGEST :: string where
  "FROZEN_SELECTOR_DIGEST = ''sha256:c104c4b87f9932f08302fd30454605b3326794097cfbe5d4060db8f9cca5c003''"
definition FROZEN_SELECTOR_SOURCE :: string where
  "FROZEN_SELECTOR_SOURCE = ''ce8598a9f0b4eca52cff231ed94137926df13c08''"
definition TERMINAL_V2_TAG :: string where "TERMINAL_V2_TAG = ''v0.1.77''"
definition TERMINAL_V2_SOURCE :: string where
  "TERMINAL_V2_SOURCE = ''7b768d56a50f258ff893410c90e0cfd4401441c0''"
definition FIRST_V3_TAG :: string where "FIRST_V3_TAG = ''v0.1.78''"
definition WORKFLOW_FILE :: string where "WORKFLOW_FILE = ''.github/workflows/platform-release.yml''"
definition WORKFLOW :: string where "WORKFLOW = WORKFLOW_FILE @ ''@refs/heads/main''"
definition TERMINAL_V3_TAG :: string where "TERMINAL_V3_TAG = ''v0.1.80''"
definition TERMINAL_V3_SOURCE :: string where
  "TERMINAL_V3_SOURCE = ''4f9b29339fec6ff06b37ecc0024b48cbe857f96f''"
definition RECOVERY_WORKFLOW :: string where
  "RECOVERY_WORKFLOW = ''.github/workflows/platform-release-recovery.yml''"

record historical =
  hist_source :: string
  hist_tree :: string
  hist_parent :: string
  hist_path :: string
  hist_sha256 :: string
  hist_main_run :: int
  hist_codeql_run :: int

definition HISTORICAL_RELEASES :: "historical list" where
  "HISTORICAL_RELEASES =
    [
     \<lparr>hist_source = ''060c9678e130487b27cdaec395b0f1c5d74b9240'', hist_tree = ''3ff155f933aba5e0e528d1f30a36357968031917'',
      hist_parent = TERMINAL_V3_SOURCE, hist_path = ''changelog.d/362-obsync-private-boundary.md'',
      hist_sha256 = ''efcf3d946e417320cc7d75f724cc862470571946cfe5fa760404a240cd150df1'',
      hist_main_run = 34283118915, hist_codeql_run = 34283118636\<rparr>,
     \<lparr>hist_source = ''9cd79f1e69cfa00eb5467822831056101629c8f8'', hist_tree = ''360078458d75927170d39c176479d14af0a58928'',
      hist_parent = ''060c9678e130487b27cdaec395b0f1c5d74b9240'', hist_path = ''changelog.d/365-obsync-staged-readiness.md'',
      hist_sha256 = ''546e5ad23459bd53a94b768668e1faa09ff1500fc1a34b5bf03d98a521d9b44a'',
      hist_main_run = 34305321734, hist_codeql_run = 34305321809\<rparr>,
     \<lparr>hist_source = ''3b7a0532ba5fe2f10037023f3e26ec5876f8d191'', hist_tree = ''012b386dacf8dcffde5a78dba9af2897d229859d'',
      hist_parent = ''9cd79f1e69cfa00eb5467822831056101629c8f8'', hist_path = ''changelog.d/367-reserved-file-storage.md'',
      hist_sha256 = ''90e877f38e58ff5e7c7caa564bc2606c2c7138229b544a59c200ba24154e8009'',
      hist_main_run = 34638257426, hist_codeql_run = 34638258315\<rparr>]"

definition HISTORICAL_WORKFLOWS :: "(string \<times> string) list" where
  "HISTORICAL_WORKFLOWS =
    [(''.github/workflows/pull-request.yml'',
      ''3fe60af5eb1f1e540cb2bbeda9888aa58fb85622f08c75f7246d50eb90c9d552''),
     (''.github/workflows/codeql.yml'',
      ''ecd647fa9c1867ef8fe162a19edf2ec978de8bdd7f8fb5d6beb74760540c91f0''),
     (''.github/workflows/platform-release.yml'',
      ''7964da478567a32ca68418a7b974f2f6dceeb1bddb027cee03bd8f698780aa00'')]"

definition historical_sources :: "string list" where
  "historical_sources = map hist_source HISTORICAL_RELEASES"

section \<open>Tags\<close>

definition value_error_if :: "bool \<Rightarrow> string \<Rightarrow> 'a res \<Rightarrow> 'a res" where
  "value_error_if c msg k = (if c then Inl (ValueError msg) else k)"

definition version :: "json \<Rightarrow> (nat \<times> nat \<times> nat) res" where
  "version tag =
    (case tag of
       JStr s \<Rightarrow>
         if 64 < length s then Inl (ValueError ''release tag is malformed'')
         else (case tag_groups s of
                 None \<Rightarrow> Inl (ValueError ''release tag is malformed'')
               | Some v \<Rightarrow> Inr v)
     | _ \<Rightarrow> Inl (ValueError ''release tag is malformed''))"

definition next_tag :: "json \<Rightarrow> string res" where
  "next_tag tag =
    bind (version tag) (\<lambda>v. case v of (major, minor, patch) \<Rightarrow>
      Inr (''v'' @ show_nat major @ ''.'' @ show_nat minor @ ''.'' @ show_nat (patch + 1)))"

text \<open>The module computes these once, when it is loaded.\<close>

definition TERMINAL_V1_TAG :: string where
  "TERMINAL_V1_TAG = projr (next_tag (JStr CHECKPOINT_TAG))"
definition FIRST_V2_TAG :: string where
  "FIRST_V2_TAG = projr (next_tag (JStr TERMINAL_V1_TAG))"
definition FIRST_V4_TAG :: string where
  "FIRST_V4_TAG = projr (next_tag (JStr TERMINAL_V3_TAG))"

fun historical_loop :: "json \<Rightarrow> string \<Rightarrow> historical list \<Rightarrow> historical option res" where
  "historical_loop tag candidate [] = Inr None"
| "historical_loop tag candidate (source # rest) =
    (if tag = JStr candidate then Inr (Some source)
     else bind (next_tag (JStr candidate)) (\<lambda>candidate'. historical_loop tag candidate' rest))"

definition historical_release :: "json \<Rightarrow> historical option res" where
  "historical_release tag = historical_loop tag FIRST_V4_TAG HISTORICAL_RELEASES"

definition release_target :: "string \<Rightarrow> string \<Rightarrow> string res" where
  "release_target tag source_sha =
    bind (historical_release (JStr tag)) (\<lambda>frozen.
      case frozen of
        Some f \<Rightarrow> value_error_if (source_sha \<noteq> hist_source f) ''recovery target has a foreign source'' (Inr ''main'')
      | None \<Rightarrow> Inr source_sha)"

section \<open>Repositories and epochs\<close>

definition repository :: "json \<Rightarrow> json \<Rightarrow> string res" where
  "repository name object_id =
    (case name of
       JStr s \<Rightarrow>
         value_error_if (s \<notin> {OLD_REPOSITORY, NEW_REPOSITORY} \<or> object_id \<noteq> JInt REPOSITORY_ID)
           ''repository name or immutable object identity is foreign'' (Inr s)
     | _ \<Rightarrow> Inl (ValueError ''repository name or immutable object identity is foreign''))"

record epoch_identity =
  id_repository :: string
  id_schema :: string
  id_asset :: string
  id_bundle :: string
  id_subject :: string
  id_version :: nat
  id_selector_digest :: "string option"
  id_selector_source :: "string option"
  id_publisher_workflow :: "string option"
  id_publisher_event :: "string option"

definition identity :: "json \<Rightarrow> epoch_identity res" where
  "identity tag =
    bind (version tag) (\<lambda>v.
    bind (version (JStr FIRST_V2_TAG)) (\<lambda>first2.
    bind (version (JStr FIRST_V3_TAG)) (\<lambda>first3.
    bind (version (JStr FIRST_V4_TAG)) (\<lambda>first4.
    let epoch = (if v < first2 then 1 else if v < first3 then 2 else if v < first4 then 3 else (4 :: nat));
        name = (if epoch = 1 then OLD_REPOSITORY else NEW_REPOSITORY);
        asset = ''platform-release-identity.v'' @ show_nat epoch @ ''.json'';
        base =
          \<lparr>id_repository = name,
           id_schema = ''https://snaraj.dev/schemas/platform-release-identity/v'' @ show_nat epoch,
           id_asset = asset, id_bundle = asset @ ''.sigstore.json'',
           id_subject = ''https://github.com/'' @ name @ ''/'' @ WORKFLOW, id_version = epoch,
           id_selector_digest = (if epoch < 3 then Some FROZEN_SELECTOR_DIGEST else None),
           id_selector_source = (if epoch < 3 then Some FROZEN_SELECTOR_SOURCE else None),
           id_publisher_workflow = None, id_publisher_event = None\<rparr>
    in if epoch = 4 then
         bind (historical_release tag) (\<lambda>frozen.
           let recovering = (frozen \<noteq> None);
               workflow = (if recovering then RECOVERY_WORKFLOW else WORKFLOW_FILE)
           in Inr (base\<lparr>id_publisher_workflow := Some workflow,
                        id_publisher_event := Some (if recovering then ''workflow_dispatch'' else ''workflow_run''),
                        id_subject := ''https://github.com/'' @ name @ ''/'' @ workflow @ ''@refs/heads/main''\<rparr>))
       else Inr base))))"

definition publication ::
  "json \<Rightarrow> json \<Rightarrow> json \<Rightarrow> json \<Rightarrow> json \<Rightarrow> json \<Rightarrow> epoch_identity res" where
  "publication name object_id tag base_tag base_sha source_sha =
    bind (repository name object_id) (\<lambda>_.
    value_error_if (\<not> str_matches sha1_hex base_sha) ''publication predecessor source is malformed'' (
    bind (identity tag) (\<lambda>selected.
    value_error_if (JStr (id_repository selected) \<noteq> name)
      ''repository and release epoch or predecessor disagree'' (
    bind (next_tag base_tag) (\<lambda>next.
    value_error_if (JStr next \<noteq> tag) ''repository and release epoch or predecessor disagree'' (
    value_error_if
      (name = JStr OLD_REPOSITORY
        \<and> (tag, base_tag, base_sha) \<noteq> (JStr TERMINAL_V1_TAG, JStr CHECKPOINT_TAG, JStr CHECKPOINT_SOURCE))
      ''old-name publication is only the terminal v1 edge'' (
    value_error_if
      (tag = JStr FIRST_V3_TAG \<and> (base_tag, base_sha) \<noteq> (JStr TERMINAL_V2_TAG, JStr TERMINAL_V2_SOURCE))
      ''first v3 publication has a foreign terminal-v2 predecessor'' (
    if id_version selected = 4 then
      value_error_if (\<not> str_matches sha1_hex source_sha) ''v4 publication requires its exact source SHA'' (
      bind (historical_release tag) (\<lambda>frozen.
        case frozen of
          Some f \<Rightarrow>
            value_error_if ((source_sha, base_sha) \<noteq> (JStr (hist_source f), JStr (hist_parent f)))
              ''historical publication source or predecessor is foreign'' (Inr selected)
        | None \<Rightarrow>
            value_error_if (in_strs source_sha historical_sources)
              ''historical source cannot choose another release edge'' (Inr selected)))
    else Inr selected))))))))"

section \<open>Signed evidence\<close>

definition exec_error :: "bool \<Rightarrow> 'a res \<Rightarrow> 'a res" where
  "exec_error c k = value_error_if c ''historical execution or original evidence is foreign'' k"

definition execution_shape :: "dict \<Rightarrow> unit res" where
  "execution_shape execution =
    value_error_if (\<not> keys_are execution [''source_sha'', ''tree_sha'', ''main_ci''])
      ''publication execution fields are foreign'' (
    value_error_if
      (\<not> str_matches sha1_hex (get execution ''source_sha'') \<or> \<not> str_matches sha1_hex (get execution ''tree_sha''))
      ''publication execution identity is malformed'' (
    case get execution ''main_ci'' of
      JObj run \<Rightarrow>
        value_error_if
          (\<not> keys_are run [''conclusion'', ''event'', ''head_sha'', ''ref'', ''run_attempt'', ''run_id'', ''workflow'']
            \<or> get run ''conclusion'' \<noteq> JStr ''success''
            \<or> get run ''event'' \<noteq> JStr ''push''
            \<or> get run ''head_sha'' \<noteq> get execution ''source_sha''
            \<or> get run ''ref'' \<noteq> JStr ''refs/heads/main''
            \<or> get run ''workflow'' \<noteq> JStr ''.github/workflows/pull-request.yml''
            \<or> \<not> positive_int (get run ''run_id'')
            \<or> \<not> positive_int (get run ''run_attempt''))
          ''publication execution main CI is foreign'' (Inr ())
    | _ \<Rightarrow> Inl (ValueError ''publication execution main CI is foreign'')))"

text \<open>The frozen evidence of a historical source: the operands of one \<open>or\<close> chain, in order.\<close>

definition historical_evidence :: "dict \<Rightarrow> dict \<Rightarrow> json \<Rightarrow> historical \<Rightarrow> unit res" where
  "historical_evidence evidence execution source frozen =
    bind (subscript source ''merge_sha'') (\<lambda>merge.
    exec_error (merge \<noteq> JStr (hist_source frozen)) (
    bind (subscript source ''tree_sha'') (\<lambda>tree.
    exec_error (tree \<noteq> JStr (hist_tree frozen)) (
    bind (item evidence ''predecessor'') (\<lambda>predecessor.
    bind (subscript predecessor ''peeled_commit'') (\<lambda>peeled.
    exec_error (peeled \<noteq> JStr (hist_parent frozen)) (
    bind (item evidence ''changelog'') (\<lambda>changelog.
    exec_error
      (\<not> json_eq changelog (JObj [(''fragment_path'', JStr (hist_path frozen)),
                                 (''fragment_sha256'', JStr (''sha256:'' @ hist_sha256 frozen))])) (
    bind (item evidence ''main_ci'') (\<lambda>main_ci.
    bind (subscript main_ci ''run_id'') (\<lambda>run_id.
    exec_error (\<not> json_eq run_id (JInt (hist_main_run frozen))) (
    bind (subscript main_ci ''run_attempt'') (\<lambda>attempt.
    exec_error (\<not> json_eq attempt (JInt 1)) (
    bind (item evidence ''platform_release'') (\<lambda>platform.
    bind (subscript platform ''run_attempt'') (\<lambda>platform_attempt.
    exec_error (\<not> json_eq platform_attempt (JInt 1)) (
    exec_error
      (in_strs (get execution ''source_sha'') historical_sources
        \<or> get execution ''source_sha'' = JStr TERMINAL_V3_SOURCE) (Inr ()))))))))))))))))))"

definition ordinary_evidence :: "dict \<Rightarrow> dict \<Rightarrow> json \<Rightarrow> unit res" where
  "ordinary_evidence evidence execution source =
    bind (subscript source ''merge_sha'') (\<lambda>merge.
    value_error_if (get execution ''source_sha'' \<noteq> merge) ''ordinary publication cannot substitute its executor'' (
    bind (subscript source ''tree_sha'') (\<lambda>tree.
    value_error_if (get execution ''tree_sha'' \<noteq> tree) ''ordinary publication cannot substitute its executor'' (
    bind (item evidence ''main_ci'') (\<lambda>main_ci.
    value_error_if (\<not> json_eq (get execution ''main_ci'') main_ci)
      ''ordinary publication cannot substitute its executor'' (Inr ()))))))"

definition validate_execution :: "dict \<Rightarrow> unit res" where
  "validate_execution evidence =
    bind (item evidence ''execution'') (\<lambda>execution.
    case execution of
      JObj ex \<Rightarrow>
        bind (execution_shape ex) (\<lambda>_.
        bind (item evidence ''source'') (\<lambda>source.
        bind (item evidence ''tag'') (\<lambda>tag.
        bind (subscript tag ''name'') (\<lambda>name.
        bind (historical_release name) (\<lambda>frozen.
          case frozen of
            Some f \<Rightarrow> historical_evidence evidence ex source f
          | None \<Rightarrow> ordinary_evidence evidence ex source)))))
    | _ \<Rightarrow> Inl (ValueError ''publication execution fields are foreign''))"

definition retired_selector :: "dict \<Rightarrow> unit res" where
  "retired_selector evidence =
    bind (item evidence ''selector'') (\<lambda>selector.
    bind (subscript selector ''digest'') (\<lambda>digest.
    bind (subscript selector ''provenance'') (\<lambda>provenance.
    bind (subscript provenance ''source_sha'') (\<lambda>source_sha.
    value_error_if ((digest, source_sha) \<noteq> (JStr FROZEN_SELECTOR_DIGEST, JStr FROZEN_SELECTOR_SOURCE))
      ''retired selector lineage changed'' (Inr ())))))"

definition validate_identity :: "dict \<Rightarrow> unit res" where
  "validate_identity evidence =
    bind (item evidence ''tag'') (\<lambda>tag_record.
    bind (subscript tag_record ''name'') (\<lambda>tag.
    bind (identity tag) (\<lambda>selected.
    value_error_if
      ((get evidence ''schema'', get evidence ''repository'')
        \<noteq> (JStr (id_schema selected), JStr (id_repository selected)))
      ''signed repository and release epoch disagree'' (
    bind (if 2 \<le> id_version selected
          then bind (item evidence ''repository'') (\<lambda>name. repository name (get evidence ''repository_id''))
          else Inr []) (\<lambda>_.
    bind (item evidence ''predecessor'') (\<lambda>predecessor.
    bind (subscript predecessor ''tag'') (\<lambda>previous.
    bind (next_tag previous) (\<lambda>next.
    value_error_if (JStr next \<noteq> tag) ''signed release epoch has a foreign predecessor'' (
    value_error_if
      (tag = JStr TERMINAL_V1_TAG
        \<and> \<not> json_eq predecessor (JObj [(''tag'', JStr CHECKPOINT_TAG), (''peeled_commit'', JStr CHECKPOINT_SOURCE)]))
      ''terminal v1 identity has a foreign checkpoint'' (
    bind (version tag) (\<lambda>v.
    bind (version (JStr TERMINAL_V1_TAG)) (\<lambda>terminal.
    bind (if id_version selected < 3 \<and> terminal \<le> v then retired_selector evidence else Inr ()) (\<lambda>_.
    if id_version selected = 4 then validate_execution evidence else Inr ())))))))))))))"

section \<open>Transports\<close>

definition metadata_repository :: "json \<Rightarrow> json \<Rightarrow> json \<Rightarrow> string res" where
  "metadata_repository tag name object_id =
    bind (identity tag) (\<lambda>selected.
    if name = JNull \<and> object_id = JNull then
      value_error_if (id_version selected \<noteq> 1) ''v2 transport requires immutable repository proof''
        (Inr (id_repository selected))
    else
      bind (repository name object_id) (\<lambda>n.
      value_error_if (n = OLD_REPOSITORY \<and> id_version selected \<noteq> 1)
        ''v2 identity cannot use the old repository transport'' (Inr n)))"

definition run_repository :: "json \<Rightarrow> dict \<Rightarrow> unit res" where
  "run_repository tag record =
    bind (version tag) (\<lambda>v.
    bind (version (JStr TERMINAL_V1_TAG)) (\<lambda>terminal.
    if v < terminal \<and> get record ''full_name'' = JStr OLD_REPOSITORY \<and> \<not> has_key record ''id''
    then Inr ()
    else bind (repository (get record ''full_name'') (get record ''id'')) (\<lambda>_.
         bind (metadata_repository tag (get record ''full_name'') (get record ''id'')) (\<lambda>_. Inr ()))))"

definition remote_urls :: "string \<Rightarrow> string list" where
  "remote_urls name =
    [''https://github.com/'' @ name @ ''.git'', ''git'' @ ''@'' @ ''github.com:'' @ name @ ''.git'']"

definition git_remote :: "float_text \<Rightarrow> runner \<Rightarrow> string \<Rightarrow> string res" where
  "git_remote fl gh url =
    (case filter (\<lambda>name. url \<in> set (remote_urls name)) [OLD_REPOSITORY, NEW_REPOSITORY] of
       [name] \<Rightarrow>
         bind (run_checked gh [''api'', ''--hostname'', ''github.com'', ''--method'', ''GET'',
                 ''repos/'' @ name, ''--jq'', ''{id, full_name}'']) (\<lambda>out.
         bind (loads fl dict_hook out) (\<lambda>record.
           case record of
             JObj d \<Rightarrow>
               bind (repository (get d ''full_name'') (get d ''id'')) (\<lambda>n.
               value_error_if (n \<noteq> name) ''Git remote does not name the current original repository'' (Inr name))
           | _ \<Rightarrow> Inl (ValueError ''Git remote does not name the current original repository'')))
     | _ \<Rightarrow> Inl (ValueError ''Git remote is outside the closed repository URL set''))"

section \<open>Tags and their order\<close>

lemma value_error_if_eq_Inr [simp]: "value_error_if c msg k = Inr y \<longleftrightarrow> \<not> c \<and> k = Inr y"
  by (simp add: value_error_if_def)

lemma value_error_if_cong [cong]: "c = c' \<Longrightarrow> k = k' \<Longrightarrow> value_error_if c msg k = value_error_if c' msg k'"
  by simp

lemma value_error_if_eq_Inl:
  "value_error_if c msg k = Inl e \<longleftrightarrow> (c \<and> e = ValueError msg) \<or> (\<not> c \<and> k = Inl e)"
  by (auto simp: value_error_if_def)

lemma value_error_if_simps [simp, res_simps]:
  "value_error_if True msg k = Inl (ValueError msg)" "value_error_if False msg k = k"
  by (simp_all add: value_error_if_def)

lemma exec_error_eq_Inr [simp]: "exec_error c k = Inr y \<longleftrightarrow> \<not> c \<and> k = Inr y"
  by (simp add: exec_error_def)

definition tag_text :: "nat \<times> nat \<times> nat \<Rightarrow> string" where
  "tag_text v = CHR ''v'' # show_semver v"

lemma version_Inr:
  "version tag = Inr v \<longleftrightarrow> tag = JStr (tag_text v) \<and> length (tag_text v) \<le> 64"
  by (cases v; cases tag) (auto simp: version_def tag_groups_iff tag_text_def show_semver_inj)

lemma version_tag_text [simp]: "length (tag_text v) \<le> 64 \<Longrightarrow> version (JStr (tag_text v)) = Inr v"
  by (simp add: version_Inr)

lemma version_error: "version tag = Inl e \<Longrightarrow> e = ValueError ''release tag is malformed''"
  by (cases tag) (auto simp: version_def split: option.splits if_splits)

lemma tag_text_inj [simp]: "tag_text v = tag_text w \<longleftrightarrow> v = w"
  by (simp add: tag_text_def show_semver_inj)

definition succ_version :: "nat \<times> nat \<times> nat \<Rightarrow> nat \<times> nat \<times> nat" where
  "succ_version v = (case v of (a, b, c) \<Rightarrow> (a, b, Suc c))"

lemma next_tag_Inr:
  "next_tag tag = Inr n \<longleftrightarrow> (\<exists>v. version tag = Inr v \<and> n = tag_text (succ_version v))"
  by (auto simp: next_tag_def tag_text_def show_semver_def succ_version_def One_nat_def)

lemma next_tag_error: "next_tag tag = Inl e \<Longrightarrow> e = ValueError ''release tag is malformed''"
  by (auto simp: next_tag_def res_errors split: prod.splits dest: version_error)

interpretation tag_codec: canonical_codec tag_text "\<lambda>s. version (JStr s)" "\<lambda>v. length (tag_text v) \<le> 64"
  by unfold_locales (auto simp: version_Inr)

interpretation patch_numbers: numbering succ_version
  by unfold_locales (auto simp: succ_version_def less_prod_def split: prod.splits)

lemma boundary_tags:
  "CHECKPOINT_TAG = tag_text (0, 1, 68)" "TERMINAL_V1_TAG = tag_text (0, 1, 69)"
  "FIRST_V2_TAG = tag_text (0, 1, 70)" "TERMINAL_V2_TAG = tag_text (0, 1, 77)"
  "FIRST_V3_TAG = tag_text (0, 1, 78)" "TERMINAL_V3_TAG = tag_text (0, 1, 80)"
  "FIRST_V4_TAG = tag_text (0, 1, 81)"
  by code_simp+

lemma boundary_lengths:
  "length (tag_text (0, 1, 68)) \<le> 64" "length (tag_text (0, 1, 69)) \<le> 64"
  "length (tag_text (0, 1, 70)) \<le> 64" "length (tag_text (0, 1, 77)) \<le> 64"
  "length (tag_text (0, 1, 78)) \<le> 64" "length (tag_text (0, 1, 80)) \<le> 64"
  "length (tag_text (0, 1, 81)) \<le> 64" "length (tag_text (0, 1, 82)) \<le> 64"
  "length (tag_text (0, 1, 83)) \<le> 64"
  by code_simp+

lemma boundary_versions [simp]:
  "version (JStr CHECKPOINT_TAG) = Inr (0, 1, 68)" "version (JStr TERMINAL_V1_TAG) = Inr (0, 1, 69)"
  "version (JStr FIRST_V2_TAG) = Inr (0, 1, 70)" "version (JStr FIRST_V3_TAG) = Inr (0, 1, 78)"
  "version (JStr TERMINAL_V3_TAG) = Inr (0, 1, 80)" "version (JStr FIRST_V4_TAG) = Inr (0, 1, 81)"
  by (simp_all add: boundary_tags boundary_lengths)

section \<open>The historical window\<close>

definition historical_table :: "((nat \<times> nat \<times> nat) \<times> historical) list" where
  "historical_table = zip [(0, 1, 81), (0, 1, 82), (0, 1, 83)] HISTORICAL_RELEASES"

lemma historical_release_eq:
  "historical_release tag =
     Inr (map_of (map (\<lambda>(v, h). (JStr (tag_text v), h)) historical_table) tag)"
proof -
  obtain h1 h2 h3 where h: "HISTORICAL_RELEASES = [h1, h2, h3]" by (simp add: HISTORICAL_RELEASES_def)
  have next1: "next_tag (JStr (tag_text (0, 1, 81))) = Inr (tag_text (0, 1, 82))"
    and next2: "next_tag (JStr (tag_text (0, 1, 82))) = Inr (tag_text (0, 1, 83))"
    and next3: "next_tag (JStr (tag_text (0, 1, 83))) = Inr (tag_text (0, 1, 84))"
    by (simp_all add: next_tag_Inr version_Inr boundary_lengths succ_version_def)
  show ?thesis
    by (auto simp: historical_release_def historical_table_def h boundary_tags next1 next2 next3)
qed

lemma historical_release_Some:
  "historical_release tag = Inr (Some f) \<longleftrightarrow>
     (\<exists>v. tag = JStr (tag_text v) \<and> (v, f) \<in> set historical_table)"
proof -
  have "distinct (map fst (map (\<lambda>(v, h). (JStr (tag_text v), h)) historical_table))"
    by (simp add: historical_table_def HISTORICAL_RELEASES_def)
  then have "map_of (map (\<lambda>(v, h). (JStr (tag_text v), h)) historical_table) tag = Some f \<longleftrightarrow>
      (tag, f) \<in> set (map (\<lambda>(v, h). (JStr (tag_text v), h)) historical_table)"
    by (simp del: map_map)
  then show ?thesis by (auto simp: historical_release_eq)
qed

lemma historical_sources_map: "historical_sources = map (\<lambda>p. hist_source (snd p)) historical_table"
  by (simp add: historical_sources_def historical_table_def HISTORICAL_RELEASES_def)

lemma historical_sources_distinct: "distinct historical_sources"
  by code_simp

lemma historical_sources_table:
  "s \<in> set historical_sources \<longleftrightarrow> (\<exists>v f. (v, f) \<in> set historical_table \<and> s = hist_source f)"
  by (force simp: historical_sources_map)

lemma historical_table_inj:
  assumes "(v, f) \<in> set historical_table" "(w, g) \<in> set historical_table" "hist_source f = hist_source g"
  shows "v = w \<and> f = g"
proof -
  have "inj_on (\<lambda>p. hist_source (snd p)) (set historical_table)"
    using historical_sources_distinct by (simp add: historical_sources_map distinct_map)
  from inj_onD [OF this, of "(v, f)" "(w, g)"] assms show ?thesis by simp
qed

lemma historical_table_versions: "map fst historical_table = [(0, 1, 81), (0, 1, 82), (0, 1, 83)]"
  by code_simp

lemma historical_table_bounds:
  assumes "(v, f) \<in> set historical_table"
  shows "(0, 1, 81) \<le> v \<and> v \<le> (0, 1, 83)"
proof -
  have "v \<in> set (map fst historical_table)" using assms by force
  then show ?thesis unfolding historical_table_versions by auto
qed

lemma historical_chain:
  "map hist_parent HISTORICAL_RELEASES = TERMINAL_V3_SOURCE # butlast historical_sources"
  by code_simp

section \<open>The epoch of a tag\<close>

text \<open>The specification: four half-open ranges of version numbers.\<close>

definition epoch_of :: "nat \<times> nat \<times> nat \<Rightarrow> nat" where
  "epoch_of v = (if v < (0, 1, 70) then 1 else if v < (0, 1, 78) then 2 else if v < (0, 1, 81) then 3 else 4)"

lemma epoch_of_mono: "v \<le> w \<Longrightarrow> epoch_of v \<le> epoch_of w"
  unfolding epoch_of_def by (simp split: if_splits) (meson leD le_less_trans)

lemma identity_error: "identity tag = Inl e \<Longrightarrow> e = ValueError ''release tag is malformed''"
  by (auto simp: identity_def Let_def res_errors historical_release_eq
      split: if_splits dest: version_error)

lemma identity_Inr:
  assumes "identity tag = Inr s"
  obtains v where "version tag = Inr v" "id_version s = epoch_of v"
    "id_repository s = (if epoch_of v = 1 then OLD_REPOSITORY else NEW_REPOSITORY)"
    "id_schema s = ''https://snaraj.dev/schemas/platform-release-identity/v'' @ show_nat (epoch_of v)"
    "id_asset s = ''platform-release-identity.v'' @ show_nat (epoch_of v) @ ''.json''"
    "id_bundle s = id_asset s @ ''.sigstore.json''"
proof -
  from assms obtain v where v: "version tag = Inr v" by (auto simp: identity_def)
  have e: "(if v < (0, 1, 70) then 1 else if v < (0, 1, 78) then 2 else if v < (0, 1, 81) then 3 else 4)
      = epoch_of v"
    by (simp add: epoch_of_def)
  from assms v that [of v] show thesis
    by (auto simp: identity_def Let_def e historical_release_eq split: if_splits)
qed

lemma identity_total: "version tag = Inr v \<Longrightarrow> \<exists>s. identity tag = Inr s"
  by (simp add: identity_def Let_def historical_release_eq)

lemma identity_version: "identity tag = Inr s \<Longrightarrow> version tag = Inr v \<Longrightarrow> id_version s = epoch_of v"
  by (erule identity_Inr) simp

lemma identity_fields:
  assumes "identity tag = Inr s" "version tag = Inr v"
  shows "id_repository s = (if epoch_of v = 1 then OLD_REPOSITORY else NEW_REPOSITORY)"
    "id_schema s = ''https://snaraj.dev/schemas/platform-release-identity/v'' @ show_nat (epoch_of v)"
    "id_asset s = ''platform-release-identity.v'' @ show_nat (epoch_of v) @ ''.json''"
  using assms(2) by (rule_tac identity_Inr [OF assms(1)], simp)+

lemma identity_version_range: "identity tag = Inr s \<Longrightarrow> id_version s \<in> {1, 2, 3, 4}"
  by (erule identity_Inr) (simp add: epoch_of_def)

section \<open>Which exceptions leave the module\<close>

lemma errs_value_error_if [errs]:
  "P (ValueError msg) \<Longrightarrow> (\<not> c \<Longrightarrow> errs P k) \<Longrightarrow> errs P (value_error_if c msg k)"
  by (simp add: value_error_if_def)

lemma errs_exec_error [errs]:
  "P (ValueError ''historical execution or original evidence is foreign'') \<Longrightarrow> (\<not> c \<Longrightarrow> errs P k) \<Longrightarrow>
   errs P (exec_error c k)"
  by (simp add: exec_error_def value_error_if_def)

lemma repository_Inr:
  "repository name oid = Inr n \<longleftrightarrow>
     name = JStr n \<and> n \<in> {OLD_REPOSITORY, NEW_REPOSITORY} \<and> oid = JInt REPOSITORY_ID"
  by (cases name) (auto simp: repository_def)

lemma errs_tags [errs]:
  "P (ValueError ''release tag is malformed'') \<Longrightarrow> errs P (version tag)"
  "P (ValueError ''release tag is malformed'') \<Longrightarrow> errs P (next_tag tag)"
  "P (ValueError ''release tag is malformed'') \<Longrightarrow> errs P (identity tag)"
  "errs P (historical_release tag)"
  by (auto simp: historical_release_eq dest: version_error next_tag_error identity_error intro!: errsI)

lemma errs_repository [errs]:
  "P (ValueError ''repository name or immutable object identity is foreign'') \<Longrightarrow> errs P (repository name oid)"
  unfolding repository_def by (intro errs) simp_all

lemma errs_validate_execution: "errs is_shape_error (validate_execution d)"
  unfolding validate_execution_def execution_shape_def historical_evidence_def ordinary_evidence_def
  by (intro errs) simp_all

text \<open>
  Whatever JSON object \<open>validate_identity\<close> is given, only \<open>KeyError\<close>,
  \<open>TypeError\<close> and \<open>ValueError\<close> can leave it, which is what its callers catch: no
  unchecked evidence escapes the validators' error contract.
\<close>

theorem validate_identity_errors: "errs is_shape_error (validate_identity evidence)"
  unfolding validate_identity_def retired_selector_def
  by (intro errs errs_validate_execution) simp_all

section \<open>What the module promises\<close>

text \<open>
  The epochs are ordered like the tags: a later release never returns to an
  earlier epoch, and once a release is published under the new repository name no
  later one goes back to the old name.
\<close>

theorem identity_epochs_ordered:
  assumes "identity t = Inr s" "identity t' = Inr s'" "version t = Inr v" "version t' = Inr v'" "v \<le> v'"
  shows "id_version s \<le> id_version s' \<and> (id_repository s' = OLD_REPOSITORY \<longrightarrow> id_repository s = OLD_REPOSITORY)
    \<and> (id_version s = id_version s' \<longrightarrow> id_schema s = id_schema s' \<and> id_asset s = id_asset s')"
proof -
  have e: "id_version s = epoch_of v" "id_version s' = epoch_of v'"
    using assms by (auto dest: identity_version)
  have "OLD_REPOSITORY \<noteq> NEW_REPOSITORY" by code_simp
  moreover have "1 \<le> epoch_of v" by (simp add: epoch_of_def)
  ultimately show ?thesis
    using epoch_of_mono [OF assms(5)] e identity_fields [OF assms(1,3)] identity_fields [OF assms(2,4)]
    by (simp del: append.simps split: if_splits)
qed

theorem identity_epochs_ordered_witness:
  "\<exists>s s'. identity (JStr CHECKPOINT_TAG) = Inr s \<and> identity (JStr FIRST_V2_TAG) = Inr s' \<and> id_version s \<le> id_version s'"
proof -
  obtain s s' where "identity (JStr CHECKPOINT_TAG) = Inr s" "identity (JStr FIRST_V2_TAG) = Inr s'"
    using identity_total boundary_versions by metis
  with identity_epochs_ordered [of "JStr CHECKPOINT_TAG" s "JStr FIRST_V2_TAG" s' "(0, 1, 68)" "(0, 1, 70)"]
  show ?thesis by auto
qed

lemma publication_Inr:
  assumes "publication name object_id tag base_tag base_sha source_sha = Inr s"
  shows "repository name object_id = Inr (id_repository s)" "str_matches sha1_hex base_sha"
    "identity tag = Inr s" "name = JStr (id_repository s)"
    "\<exists>n. next_tag base_tag = Inr n \<and> tag = JStr n"
    "id_version s = 4 \<Longrightarrow> \<exists>frozen. historical_release tag = Inr frozen \<and>
       (case frozen of
          Some f \<Rightarrow> source_sha = JStr (hist_source f) \<and> base_sha = JStr (hist_parent f)
        | None \<Rightarrow> \<not> in_strs source_sha historical_sources)"
proof -
  from assms obtain n t nx where *: "repository name object_id = Inr n" "str_matches sha1_hex base_sha"
    "identity tag = Inr t" "JStr (id_repository t) = name" "next_tag base_tag = Inr nx" "JStr nx = tag"
    and rest: "(if id_version t = 4 then
      value_error_if (\<not> str_matches sha1_hex source_sha) ''v4 publication requires its exact source SHA'' (
      bind (historical_release tag) (\<lambda>frozen.
        case frozen of
          Some f \<Rightarrow>
            value_error_if ((source_sha, base_sha) \<noteq> (JStr (hist_source f), JStr (hist_parent f)))
              ''historical publication source or predecessor is foreign'' (Inr t)
        | None \<Rightarrow>
            value_error_if (in_strs source_sha historical_sources)
              ''historical source cannot choose another release edge'' (Inr t)))
    else Inr t) = Inr s"
    unfolding publication_def bind_eq_Inr value_error_if_eq_Inr not_not by blast
  from rest have st: "s = t" by (auto split: if_splits option.splits)
  show "repository name object_id = Inr (id_repository s)" "str_matches sha1_hex base_sha"
    "identity tag = Inr s" "name = JStr (id_repository s)" "\<exists>n. next_tag base_tag = Inr n \<and> tag = JStr n"
    using * st by (auto simp: repository_Inr)
  show "id_version s = 4 \<Longrightarrow> \<exists>frozen. historical_release tag = Inr frozen \<and>
       (case frozen of
          Some f \<Rightarrow> source_sha = JStr (hist_source f) \<and> base_sha = JStr (hist_parent f)
        | None \<Rightarrow> \<not> in_strs source_sha historical_sources)"
    using rest st by (auto split: option.splits)
qed

text \<open>
  C4: \<open>publication\<close> only authorises an exact next edge of the original repository:
  the tag is the patch successor of the base tag, the repository has the immutable
  object id and the name of the tag's epoch, and the base is a full commit hash.
\<close>

theorem publication_exact_next:
  assumes "publication name object_id tag base_tag base_sha source_sha = Inr s"
  shows "\<exists>v. base_tag = JStr (tag_text v) \<and> tag = JStr (tag_text (succ_version v))
    \<and> name = JStr (id_repository s) \<and> object_id = JInt REPOSITORY_ID \<and> str_matches sha1_hex base_sha
    \<and> identity tag = Inr s"
  using publication_Inr(1-5) [OF assms] by (auto simp: next_tag_Inr version_Inr repository_Inr)

definition sample_sha :: json where
  "sample_sha = JStr (replicate 40 CHR ''a'')"

theorem publication_exact_next_witness:
  "\<exists>s. publication (JStr NEW_REPOSITORY) (JInt REPOSITORY_ID) (JStr ''v0.1.71'') (JStr ''v0.1.70'')
        sample_sha JNull = Inr s \<and> str_matches sha1_hex sample_sha"
proof -
  have ok: "is_ok (publication (JStr NEW_REPOSITORY) (JInt REPOSITORY_ID) (JStr ''v0.1.71'') (JStr ''v0.1.70'')
        sample_sha JNull)"
    by code_simp
  then obtain s where s: "publication (JStr NEW_REPOSITORY) (JInt REPOSITORY_ID) (JStr ''v0.1.71'') (JStr ''v0.1.70'')
        sample_sha JNull = Inr s"
    by (auto simp: is_ok_iff)
  from publication_exact_next [OF this] s show ?thesis by auto
qed

text \<open>
  in the current epoch \<open>publication\<close> keeps the historical releases and their
  sources in bijection: a historical tag is authorised only from its frozen source
  and parent, and a historical source only for its own tag.
\<close>

theorem publication_historical_bijection:
  assumes "publication name object_id tag base_tag base_sha source_sha = Inr s" "id_version s = 4"
    "(w, f) \<in> set historical_table"
  shows "(tag = JStr (tag_text w) \<longleftrightarrow> source_sha = JStr (hist_source f))
    \<and> (tag = JStr (tag_text w) \<longrightarrow> base_sha = JStr (hist_parent f))"
proof -
  obtain frozen where frozen: "historical_release tag = Inr frozen"
    and cases: "case frozen of
        Some f \<Rightarrow> source_sha = JStr (hist_source f) \<and> base_sha = JStr (hist_parent f)
      | None \<Rightarrow> \<not> in_strs source_sha historical_sources"
    using publication_Inr(6) [OF assms(1,2)] by blast
  show ?thesis
  proof (cases frozen)
    case None
    have "tag = JStr (tag_text w) \<Longrightarrow> historical_release tag = Inr (Some f)"
      using assms(3) by (simp only: historical_release_Some) blast
    then have "tag \<noteq> JStr (tag_text w)" using frozen None by auto
    moreover have "source_sha \<noteq> JStr (hist_source f)"
    proof -
      have "hist_source f \<in> set historical_sources" using assms(3) historical_sources_table by blast
      then show ?thesis using cases None by (auto simp: in_strs_def)
    qed
    ultimately show ?thesis by simp
  next
    case (Some g)
    with frozen obtain v where v: "tag = JStr (tag_text v)" "(v, g) \<in> set historical_table"
      by (auto simp: historical_release_Some)
    have "tag_text v = tag_text w \<Longrightarrow> g = f"
      using v(2) assms(3) historical_release_Some [of "JStr (tag_text v)"] by (metis sum.inject(2) option.inject tag_text_inj)
    moreover have "hist_source g = hist_source f \<Longrightarrow> v = w"
      using historical_table_inj [OF v(2) assms(3)] by simp
    ultimately show ?thesis using cases Some v(1) by auto
  qed
qed

definition first_historical :: historical where
  "first_historical = hd HISTORICAL_RELEASES"

theorem publication_historical_bijection_witness:
  "\<exists>s. publication (JStr NEW_REPOSITORY) (JInt REPOSITORY_ID) (JStr FIRST_V4_TAG) (JStr TERMINAL_V3_TAG)
        (JStr TERMINAL_V3_SOURCE) (JStr (hist_source first_historical)) = Inr s \<and> id_version s = 4
      \<and> hist_parent first_historical = TERMINAL_V3_SOURCE"
proof -
  let ?p = "publication (JStr NEW_REPOSITORY) (JInt REPOSITORY_ID) (JStr FIRST_V4_TAG) (JStr TERMINAL_V3_TAG)
        (JStr TERMINAL_V3_SOURCE) (JStr (hist_source first_historical))"
  have "case ?p of Inl e \<Rightarrow> False | Inr s \<Rightarrow> id_version s = 4" by code_simp
  then obtain s where s: "?p = Inr s" "id_version s = 4" by (auto split: sum.splits)
  have "((0, 1, 81), first_historical) \<in> set historical_table"
    by (simp add: historical_table_def first_historical_def HISTORICAL_RELEASES_def)
  from publication_historical_bijection [OF s this] s show ?thesis
    by (auto simp: boundary_tags)
qed

section \<open>Signed evidence that passes\<close>

lemma validate_identity_Inr:
  assumes "validate_identity evidence = Inr ()"
  obtains tag_record tag selected predecessor previous n where
    "item evidence ''tag'' = Inr tag_record" "subscript tag_record ''name'' = Inr tag"
    "identity tag = Inr selected" "get evidence ''schema'' = JStr (id_schema selected)"
    "get evidence ''repository'' = JStr (id_repository selected)"
    "2 \<le> id_version selected \<Longrightarrow> get evidence ''repository_id'' = JInt REPOSITORY_ID"
    "item evidence ''predecessor'' = Inr predecessor" "subscript predecessor ''tag'' = Inr previous"
    "next_tag previous = Inr n" "tag = JStr n"
    "id_version selected = 4 \<Longrightarrow> validate_execution evidence = Inr ()"
  using assms unfolding validate_identity_def bind_eq_Inr value_error_if_eq_Inr not_not prod.inject
  by (elim exE conjE) (rule that; auto simp: repository_Inr split: if_splits)

lemma validate_execution_Inr:
  assumes "validate_execution evidence = Inr ()"
  obtains ex source tag name frozen where
    "item evidence ''execution'' = Inr (JObj ex)" "execution_shape ex = Inr ()"
    "item evidence ''source'' = Inr source" "item evidence ''tag'' = Inr tag" "subscript tag ''name'' = Inr name"
    "historical_release name = Inr frozen"
    "case frozen of Some f \<Rightarrow> historical_evidence evidence ex source f = Inr ()
      | None \<Rightarrow> ordinary_evidence evidence ex source = Inr ()"
proof -
  from assms obtain ex where ex: "item evidence ''execution'' = Inr (JObj ex)"
    by (auto simp: validate_execution_def)
  with assms show thesis by (auto simp: validate_execution_def split: option.splits intro: that)
qed

lemma historical_evidence_Inr:
  assumes "historical_evidence evidence ex source f = Inr ()"
  shows "subscript source ''merge_sha'' = Inr (JStr (hist_source f))"
    "subscript source ''tree_sha'' = Inr (JStr (hist_tree f))"
    "\<not> in_strs (get ex ''source_sha'') historical_sources" "get ex ''source_sha'' \<noteq> JStr TERMINAL_V3_SOURCE"
  using assms unfolding historical_evidence_def bind_eq_Inr exec_error_eq_Inr not_not by blast+

lemma ordinary_evidence_Inr:
  assumes "ordinary_evidence evidence ex source = Inr ()"
  shows "subscript source ''merge_sha'' = Inr (get ex ''source_sha'')"
    "subscript source ''tree_sha'' = Inr (get ex ''tree_sha'')"
  using assms unfolding ordinary_evidence_def bind_eq_Inr value_error_if_eq_Inr not_not by auto

lemma epoch_four: "epoch_of v = 4 \<longleftrightarrow> (0, 1, 81) \<le> v"
  unfolding epoch_of_def by (auto simp: not_less less_eq_prod_def less_prod_def)

text \<open>
  C5: evidence of the current epoch that passes \<open>validate_identity\<close> cannot
  substitute its executor: an ordinary release was executed from the very commit
  and tree it publishes; a historical release publishes its frozen source and was
  executed from a commit that is none of the historical sources.
\<close>

theorem executor_not_substituted:
  assumes ok: "validate_identity evidence = Inr ()"
    and tag: "item evidence ''tag'' = Inr tag" "subscript tag ''name'' = Inr name" "version name = Inr v"
    and v: "(0, 1, 81) \<le> v"
  shows "\<exists>ex source. item evidence ''execution'' = Inr (JObj ex) \<and> item evidence ''source'' = Inr source \<and>
    (if v \<in> fst ` set historical_table
     then (\<exists>f. (v, f) \<in> set historical_table \<and> subscript source ''merge_sha'' = Inr (JStr (hist_source f)))
       \<and> \<not> in_strs (get ex ''source_sha'') historical_sources
     else subscript source ''merge_sha'' = Inr (get ex ''source_sha'')
       \<and> subscript source ''tree_sha'' = Inr (get ex ''tree_sha''))"
proof -
  from ok obtain s where s: "identity name = Inr s" "id_version s = 4 \<Longrightarrow> validate_execution evidence = Inr ()"
    using tag by (auto elim!: validate_identity_Inr)
  have "id_version s = 4" using identity_version [OF s(1) tag(3)] v by (simp add: epoch_four)
  with s(2) have "validate_execution evidence = Inr ()" by simp
  then obtain ex source frozen where ex: "item evidence ''execution'' = Inr (JObj ex)"
    and source: "item evidence ''source'' = Inr source" and frozen: "historical_release name = Inr frozen"
    and ev: "case frozen of Some f \<Rightarrow> historical_evidence evidence ex source f = Inr ()
      | None \<Rightarrow> ordinary_evidence evidence ex source = Inr ()"
    using tag by (auto elim!: validate_execution_Inr)
  have name: "name = JStr (tag_text v)" using tag(3) by (simp add: version_Inr)
  show ?thesis
  proof (cases frozen)
    case None
    have "v \<notin> fst ` set historical_table"
    proof
      assume "v \<in> fst ` set historical_table"
      then obtain f where "(v, f) \<in> set historical_table" by force
      then have "historical_release name = Inr (Some f)"
        unfolding name historical_release_Some by blast
      with frozen None show False by simp
    qed
    with ex source ev None ordinary_evidence_Inr [of evidence ex source] show ?thesis by auto
  next
    case (Some f)
    with frozen have "historical_release name = Inr (Some f)" by simp
    then obtain w where w: "name = JStr (tag_text w)" "(w, f) \<in> set historical_table"
      unfolding historical_release_Some by blast
    then have vf: "(v, f) \<in> set historical_table" using name by simp
    then have "v \<in> fst ` set historical_table" by force
    with ex source ev Some vf historical_evidence_Inr [of evidence ex source f] show ?thesis by auto
  qed
qed

definition sample_run :: json where
  "sample_run = JObj [(''conclusion'', JStr ''success''), (''event'', JStr ''push''), (''head_sha'', sample_sha),
    (''ref'', JStr ''refs/heads/main''), (''run_attempt'', JInt 1), (''run_id'', JInt 7),
    (''workflow'', JStr ''.github/workflows/pull-request.yml'')]"

definition sample_evidence :: dict where
  "sample_evidence =
    [(''tag'', JObj [(''name'', JStr ''v0.1.90'')]),
     (''schema'', JStr ''https://snaraj.dev/schemas/platform-release-identity/v4''),
     (''repository'', JStr NEW_REPOSITORY), (''repository_id'', JInt REPOSITORY_ID),
     (''predecessor'', JObj [(''tag'', JStr ''v0.1.89'')]),
     (''execution'', JObj [(''source_sha'', sample_sha), (''tree_sha'', sample_sha), (''main_ci'', sample_run)]),
     (''source'', JObj [(''merge_sha'', sample_sha), (''tree_sha'', sample_sha)]),
     (''main_ci'', sample_run)]"

theorem executor_not_substituted_witness:
  "validate_identity sample_evidence = Inr () \<and> item sample_evidence ''source'' =
     Inr (JObj [(''merge_sha'', sample_sha), (''tree_sha'', sample_sha)]) \<and>
   (\<exists>ex. item sample_evidence ''execution'' = Inr (JObj ex) \<and> get ex ''source_sha'' = sample_sha)"
proof -
  have ok: "validate_identity sample_evidence = Inr ()" by code_simp
  have items: "item sample_evidence ''tag'' = Inr (JObj [(''name'', JStr ''v0.1.90'')])"
    "subscript (JObj [(''name'', JStr ''v0.1.90'')]) ''name'' = Inr (JStr ''v0.1.90'')"
    "version (JStr ''v0.1.90'') = Inr (0, 1, 90)"
    "item sample_evidence ''source'' = Inr (JObj [(''merge_sha'', sample_sha), (''tree_sha'', sample_sha)])"
    by code_simp+
  have "(0, 1, 90) \<notin> fst ` set historical_table" by code_simp
  with executor_not_substituted [OF ok items(1-3)] items(4) ok show ?thesis by auto
qed

end
