(* ===== verification/Evidence.thy ===== *)
theory Evidence
  imports PyJsonRoundtrip Ledger Epoch
begin

text \<open>
  scripts/ci/platform_release_contract.py: reading JSON evidence strictly.  A
  duplicate key is refused, a validator names the exact fields it expects, an
  identity document is accepted only as the canonical text of its value, and base64
  only as the canonical text of its bytes.
\<close>

section \<open>Constants\<close>

definition SELECTOR_IMAGE :: string where
  "SELECTOR_IMAGE = ''ghcr.io/snaraj/website-infrastructure/platform-release-selector''"
definition SELECTOR_CERTIFICATE_ISSUER :: string where
  "SELECTOR_CERTIFICATE_ISSUER = ''https://token.actions.githubusercontent.com''"
definition SELECTOR_CERTIFICATE_SUBJECT :: string where
  "SELECTOR_CERTIFICATE_SUBJECT =
    ''https://github.com/snaraj/website-infrastructure/.github/workflows/platform-release.yml@refs/heads/main''"
definition SLSA_PROVENANCE_V1 :: string where "SLSA_PROVENANCE_V1 = ''https://slsa.dev/provenance/v1''"
definition PROTECTED_REF :: string where "PROTECTED_REF = ''refs/heads/main''"
definition WORKFLOW_NAME :: string where "WORKFLOW_NAME = ''Pull request''"
definition WORKFLOW_PATH :: string where "WORKFLOW_PATH = ''.github/workflows/pull-request.yml''"
definition PLATFORM_WORKFLOW_PATH :: string where
  "PLATFORM_WORKFLOW_PATH = ''.github/workflows/platform-release.yml''"
definition MAX_RELEASE_IDENTITY_BYTES :: nat where "MAX_RELEASE_IDENTITY_BYTES = 64 * 1024"
definition MAX_RELEASE_IDENTITY_BUNDLE_BYTES :: nat where "MAX_RELEASE_IDENTITY_BUNDLE_BYTES = 1024 * 1024"
definition RELEASE_IDENTITY_RECEIPT_PATH :: string where
  "RELEASE_IDENTITY_RECEIPT_PATH = ''docs/assurance/195-chart-acquisition-receipt.json''"
definition RELEASE_IDENTITY_ASSET_NAME :: string where
  "RELEASE_IDENTITY_ASSET_NAME = ''platform-release-identity.v1.json''"
definition RELEASE_IDENTITY_BUNDLE_ASSET_NAME :: string where
  "RELEASE_IDENTITY_BUNDLE_ASSET_NAME = ''platform-release-identity.v1.json.sigstore.json''"
definition BOT_LOGIN :: string where "BOT_LOGIN = ''github-actions[bot]''"
definition BOT_ID :: int where "BOT_ID = 41898282"

section \<open>Objects and arrays\<close>

definition object_of :: "json \<Rightarrow> string \<Rightarrow> dict res" where
  "object_of v field =
    (case v of JObj d \<Rightarrow> Inr d | _ \<Rightarrow> Inl (ContractError (field @ '' must be a JSON object'')))"

definition array_of :: "json \<Rightarrow> string \<Rightarrow> json list res" where
  "array_of v field =
    (case v of JArr xs \<Rightarrow> Inr xs | _ \<Rightarrow> Inl (ContractError (field @ '' must be a JSON array'')))"

fun the_str :: "json \<Rightarrow> string" where
  "the_str (JStr s) = s"
| "the_str _ = []"

definition string_set :: "json \<Rightarrow> string \<Rightarrow> string list res" where
  "string_set v field =
    (case v of
       JArr xs \<Rightarrow>
         deny_if (\<not> list_all is_str xs) (field @ '' must be an array of strings'') (
         let ss = map the_str xs in
         deny_if (\<not> distinct ss) (field @ '' must not contain duplicates'') (Inr ss))
     | _ \<Rightarrow> Inl (ContractError (field @ '' must be an array of strings'')))"

definition exact_fields :: "json \<Rightarrow> string list \<Rightarrow> string \<Rightarrow> dict res" where
  "exact_fields v ks label =
    bind (object_of v label) (\<lambda>record.
    deny_if (\<not> keys_are record ks) (label @ '' fields are incomplete or foreign'') (Inr record))"

lemma object_of_Inr [simp]: "object_of v field = Inr d \<longleftrightarrow> v = JObj d"
  by (auto simp: object_of_def)

lemma array_of_Inr [simp]: "array_of v field = Inr xs \<longleftrightarrow> v = JArr xs"
  by (auto simp: array_of_def)

lemma exact_fields_Inr [simp]: "exact_fields v ks label = Inr d \<longleftrightarrow> v = JObj d \<and> keys_are d ks"
  by (auto simp: exact_fields_def)

lemma string_set_Inr: "string_set v field = Inr ss \<longleftrightarrow> v = JArr (map JStr ss) \<and> distinct ss"
proof -
  have strs: "list_all is_str xs \<longleftrightarrow> xs = map JStr (map the_str xs)" for xs
  proof (induction xs)
    case (Cons x xs)
    then show ?case by (cases x) auto
  qed simp
  show ?thesis
  proof
    assume "string_set v field = Inr ss"
    then obtain xs where "v = JArr xs" "list_all is_str xs" "distinct (map the_str xs)" "ss = map the_str xs"
      by (auto simp: string_set_def Let_def)
    then show "v = JArr (map JStr ss) \<and> distinct ss" using strs [of xs] by metis
  qed (auto simp: string_set_def Let_def o_def list_all_iff)
qed

lemma evidence_cong [cong]:
  "v = v' \<Longrightarrow> object_of v field = object_of v' field" "v = v' \<Longrightarrow> array_of v field = array_of v' field"
  "v = v' \<Longrightarrow> string_set v field = string_set v' field"
  "v = v' \<Longrightarrow> exact_fields v ks label = exact_fields v' ks label"
  by simp_all

lemma errs_evidence [errs]:
  "(\<And>m. P (ContractError m)) \<Longrightarrow> errs P (object_of v field)"
  "(\<And>m. P (ContractError m)) \<Longrightarrow> errs P (array_of v field)"
  "(\<And>m. P (ContractError m)) \<Longrightarrow> errs P (string_set v field)"
  "(\<And>m. P (ContractError m)) \<Longrightarrow> errs P (exact_fields v ks field)"
  "(\<And>m. P (ContractError m)) \<Longrightarrow> errs P (require_sha v field)"
  unfolding object_of_def array_of_def string_set_def exact_fields_def Let_def require_sha_def
  by (auto intro!: errs)

section \<open>Strict decoding\<close>

definition reject_key :: "string \<times> json \<Rightarrow> dict \<Rightarrow> dict res" where
  "reject_key p record =
    deny_if (has_key record (fst p)) ''JSON object contains duplicate key'' (Inr (put record (fst p) (snd p)))"

definition reject_duplicate_json_keys :: "dict \<Rightarrow> json res" where
  "reject_duplicate_json_keys pairs = map_sum id JObj (for_each reject_key pairs [])"

definition decode_json_object :: "float_text \<Rightarrow> string \<Rightarrow> string \<Rightarrow> dict res" where
  "decode_json_object fl payload label =
    bind (rewrap (\<lambda>e. \<not> is_contract_error e \<and> (is_value_error e \<or> e = RecursionError))
            (\<lambda>_. ContractError (label @ '' is not strict UTF-8 JSON''))
            (bind (decode_utf8 payload) (loads fl reject_duplicate_json_keys)))
      (\<lambda>decoded. object_of decoded label)"

lemma reject_keys_distinct:
  "distinct (map fst (d @ ps)) \<Longrightarrow> for_each reject_key ps d = Inr (d @ ps)"
proof (induction ps arbitrary: d)
  case (Cons p ps)
  obtain k v where p: "p = (k, v)" by (cases p)
  have "\<not> has_key d k" "put d k v = d @ [(k, v)]" using Cons.prems p by (auto simp: has_key_def put_new)
  with Cons.IH [of "d @ [(k, v)]"] Cons.prems p show ?case by (simp add: reject_key_def)
qed simp

lemma reject_keys_Inr:
  "for_each reject_key ps d = Inr d' \<Longrightarrow> distinct (map fst d) \<Longrightarrow> distinct (map fst (d @ ps)) \<and> d' = d @ ps"
proof (induction ps arbitrary: d)
  case (Cons p ps)
  obtain k v where p: "p = (k, v)" by (cases p)
  with Cons.prems have new: "k \<notin> set (map fst d)" and rest: "for_each reject_key ps (put d k v) = Inr d'"
    unfolding for_each.simps reject_key_def [of p d] by (auto simp: has_key_def)
  from rest new Cons.prems(2) Cons.IH [of "d @ [(k, v)]"] show ?case by (auto simp: put_new p)
qed simp

interpretation strict_keys: pairs_hook reject_duplicate_json_keys
proof
  fix ps :: dict
  show "distinct (map fst ps) \<Longrightarrow> reject_duplicate_json_keys ps = Inr (JObj ps)"
    using reject_keys_distinct [of "[]" ps] by (simp add: reject_duplicate_json_keys_def)
  have "errs (\<lambda>e. e \<noteq> RecursionError) (for_each reject_key ps [])"
    unfolding reject_key_def by (intro errs errs_for_each) simp
  then show "reject_duplicate_json_keys ps \<noteq> Inl RecursionError"
    by (cases "for_each reject_key ps []") (auto simp: reject_duplicate_json_keys_def)
qed

section \<open>The canonical identity document\<close>

definition canonical_text :: "float_text \<Rightarrow> json \<Rightarrow> string" where
  "canonical_text fl v = dumps fl v @ [CHR 0x0A]"

definition canonical_release_identity :: "float_text \<Rightarrow> string \<Rightarrow> dict res" where
  "canonical_release_identity fl payload =
    deny_if (payload = [] \<or> MAX_RELEASE_IDENTITY_BYTES < length payload) ''platform release identity size is invalid'' (
    deny_if
      (CHR 0x0D \<in> set payload \<or> \<not> endswith payload [CHR 0x0A] \<or> endswith payload [CHR 0x0A, CHR 0x0A])
      ''platform release identity must have one terminal LF'' (
    bind (decode_json_object fl payload ''platform release identity'') (\<lambda>identity.
    bind (encode_utf8 (dumps fl (JObj identity))) (\<lambda>canonical.
    deny_if (payload \<noteq> canonical @ [CHR 0x0A]) ''platform release identity is not canonical JSON''
      (Inr identity)))))"

section \<open>Strict base64\<close>

definition strict_base64 :: "json \<Rightarrow> string \<Rightarrow> string res" where
  "strict_base64 v label =
    (case v of
       JStr s \<Rightarrow>
         deny_if (s = []) (label @ '' is absent'') (
         case b64decode s of
           None \<Rightarrow> Inl (ContractError (label @ '' is not canonical base64''))
         | Some decoded \<Rightarrow>
             deny_if (decoded = [] \<or> b64encode decoded \<noteq> s) (label @ '' is not canonical base64'') (Inr decoded))
     | _ \<Rightarrow> Inl (ContractError (label @ '' is absent'')))"

lemma strict_base64_Inr: "strict_base64 v label = Inr x \<longleftrightarrow> v = JStr (b64encode x) \<and> x \<noteq> []"
  by (cases v) (auto simp: strict_base64_def)

interpretation base64_codec: canonical_codec b64encode "\<lambda>s. strict_base64 (JStr s) label" "\<lambda>x. x \<noteq> []"
  for label
  by unfold_locales (auto simp: strict_base64_Inr)

section \<open>The Sigstore bundle\<close>

definition sigstore_bundle :: "float_text \<Rightarrow> string \<Rightarrow> string \<Rightarrow> dict res" where
  "sigstore_bundle fl payload document =
    deny_if (payload = [] \<or> MAX_RELEASE_IDENTITY_BUNDLE_BYTES < length payload)
      ''platform release identity Sigstore bundle size is invalid'' (
    bind (decode_json_object fl payload ''platform release identity Sigstore bundle'') (\<lambda>bundle.
    deny_if
      (\<not> keys_are bundle [''mediaType'', ''messageSignature'', ''verificationMaterial'']
        \<or> get bundle ''mediaType'' \<noteq> JStr ''application/vnd.dev.sigstore.bundle.v0.3+json'')
      ''platform release identity Sigstore bundle is unsupported'' (
    bind (object_of (get bundle ''messageSignature'') ''platform release identity Sigstore message signature'')
      (\<lambda>signature.
    bind (object_of (get signature ''messageDigest'') ''platform release identity Sigstore message digest'')
      (\<lambda>digest.
    deny_if
      (\<not> keys_are signature [''messageDigest'', ''signature''] \<or> \<not> keys_are digest [''algorithm'', ''digest'']
        \<or> get digest ''algorithm'' \<noteq> JStr ''SHA2_256'')
      ''platform release identity Sigstore bundle signs foreign bytes'' (
    bind (strict_base64 (get digest ''digest'') ''platform release identity Sigstore message digest'') (\<lambda>signed.
    deny_if (signed \<noteq> sha256_digest document)
      ''platform release identity Sigstore bundle signs foreign bytes'' (
    bind (strict_base64 (get signature ''signature'') ''platform release identity Sigstore signature'') (\<lambda>_.
    bind (object_of (get bundle ''verificationMaterial'')
            ''platform release identity Sigstore verification material'') (\<lambda>verification.
    deny_if
      (\<not> keys_include verification [''certificate'', ''tlogEntries'']
        \<or> \<not> list_all (\<lambda>k. k \<in> {''certificate'', ''timestampVerificationData'', ''tlogEntries''}) (map fst verification))
      ''platform release identity Sigstore verification material is incomplete'' (
    bind (object_of (get verification ''certificate'') ''platform release identity Sigstore certificate'')
      (\<lambda>certificate.
    deny_if
      (\<not> keys_are certificate [''rawBytes''] \<or>
        (case get verification ''tlogEntries'' of
           JArr entries \<Rightarrow>
             entries = [] \<or> list_ex (\<lambda>entry. case entry of JObj d \<Rightarrow> d = [] | _ \<Rightarrow> True) entries
         | _ \<Rightarrow> True))
      ''platform release identity Sigstore verification material is invalid'' (
    bind (strict_base64 (get certificate ''rawBytes'') ''platform release identity Sigstore certificate'') (\<lambda>_.
    deny_if
      (case get verification ''timestampVerificationData'' of JNull \<Rightarrow> False | JObj _ \<Rightarrow> False | _ \<Rightarrow> True)
      ''platform release identity Sigstore timestamp material is invalid'' (Inr bundle)))))))))))))))"

text \<open>
  What the strict readers promise: no duplicate key at any depth, one text for every
  accepted identity document, and acceptance of what \<open>json.dumps\<close> writes.
\<close>

section \<open>No duplicate key at any depth\<close>

text \<open>A property of values that the scanner builds from the parts: the hook decides for dictionaries.\<close>

locale checked_hook = pairs_hook +
  fixes good :: "json \<Rightarrow> bool"
  assumes good_scalar: "(\<nexists>xs. v = JArr xs) \<Longrightarrow> (\<nexists>d. v = JObj d) \<Longrightarrow> good v"
    and good_array: "list_all good xs \<Longrightarrow> good (JArr xs)"
    and good_hook: "hook ps = Inr v \<Longrightarrow> list_all (\<lambda>p. good (snd p)) ps \<Longrightarrow> good v"
begin

lemma good_number: "scan_number fl s = Inr (v, r) \<Longrightarrow> good v"
  by (intro good_scalar) (auto simp: scan_number_def Let_def case_prod_beta split: option.splits if_splits)

lemma good_constant: "scan_constant s = Some (v, r) \<Longrightarrow> good v"
  by (intro good_scalar) (auto simp: scan_constant_def constants_def split: if_splits)

lemma parse_good:
  "parse_value fl hook n s = Inr (v, r) \<Longrightarrow> good v"
  "parse_elements fl hook n s = Inr (vs, r) \<Longrightarrow> list_all good vs"
  "parse_members fl hook n s = Inr (ps, r) \<Longrightarrow> list_all (\<lambda>p. good (snd p)) ps"
proof (induction n arbitrary: s v vs ps r)
  case (Suc n)
  {
    case 1
    then show ?case
      using good_hook [of "[]"]
      by (auto simp: good_scalar good_array split: list.splits if_splits option.splits
          dest: good_number good_constant Suc.IH intro: good_hook)
  next
    case 2
    then show ?case by (auto split: list.splits if_splits dest: Suc.IH)
  next
    case 3
    then show ?case by (auto split: list.splits if_splits dest: Suc.IH)
  }
qed simp_all

lemma loads_good: "loads fl hook s = Inr v \<Longrightarrow> good v"
  by (auto simp: loads_def simp del: parse_value.simps split: if_splits dest: parse_good(1))

end

function distinct_json :: "json \<Rightarrow> bool" where
  "distinct_json (JArr xs) = list_all distinct_json xs"
| "distinct_json (JObj d) = (distinct (map fst d) \<and> list_all (\<lambda>(k, v). distinct_json v) d)"
| "distinct_json JNull = True"
| "distinct_json (JBool b) = True"
| "distinct_json (JInt i) = True"
| "distinct_json (JFloat f) = True"
| "distinct_json (JStr s) = True"
  by pat_completeness auto
termination
  by (relation "measure size") (auto simp: less_Suc_eq_le size_list_estimation' dest: size_item_value)

interpretation strict_distinct: checked_hook reject_duplicate_json_keys distinct_json
proof
  fix v :: json
  show "(\<nexists>xs. v = JArr xs) \<Longrightarrow> (\<nexists>d. v = JObj d) \<Longrightarrow> distinct_json v" by (cases v) auto
next
  fix ps v
  assume "reject_duplicate_json_keys ps = Inr v" and all: "list_all (\<lambda>p. distinct_json (snd p)) ps"
  then obtain d where d: "for_each reject_key ps [] = Inr d" "v = JObj d"
    by (cases "for_each reject_key ps []") (auto simp: reject_duplicate_json_keys_def)
  with reject_keys_Inr [OF d(1)] have "d = ps" "distinct (map fst ps)" by simp_all
  with d all show "distinct_json v" by (auto simp: list_all_iff)
qed simp

lemma decode_json_object_distinct: "decode_json_object fl payload label = Inr d \<Longrightarrow> distinct_json (JObj d)"
  unfolding decode_json_object_def by (auto dest: strict_distinct.loads_good simp del: distinct_json.simps)

section \<open>One text per document\<close>

lemma hex_digit_printable: "n < 16 \<Longrightarrow> 32 \<le> byte (hex_digit n)"
  by (simp add: hex_digit_def)

lemma escape_char_printable: "c \<in> set (escape_char a) \<Longrightarrow> 32 \<le> byte c"
  unfolding escape_char_def by (auto simp: u_escape_def hex_digit_printable split: if_splits)

lemma dump_str_printable: "c \<in> set (dump_str s) \<Longrightarrow> 32 \<le> byte c"
  by (auto simp: dump_str_def dest: escape_char_printable)

lemma join_chars: "c \<in> set (join sep ws) \<Longrightarrow> c \<in> set sep \<or> (\<exists>w \<in> set ws. c \<in> set w)"
  by (induction ws) (auto simp: join_Cons split: if_splits)

lemma show_int_printable: "c \<in> set (show_int i) \<Longrightarrow> 32 \<le> byte c"
proof -
  have "c \<in> set (show_nat n) \<Longrightarrow> 32 \<le> byte c" for n
    using show_nat_digits [of n] unfolding list_all_iff is_digit_def byte_in_def by fastforce
  moreover assume "c \<in> set (show_int i)"
  ultimately show ?thesis by (auto simp: show_int_def simp del: show_nat.simps split: if_splits)
qed

lemma dumps_printable: "plain_json v \<Longrightarrow> c \<in> set (dumps fl v) \<Longrightarrow> 32 \<le> byte c"
proof (induction fl v rule: dumps.induct)
  case (6 fl xs)
  then show ?case by (auto simp: list_all_iff dest!: join_chars)
next
  case (7 fl d)
  from "7.prems"(2) consider "c \<in> {CHR ''{'', CHR '','', CHR '':'', CHR ''}''}"
    | k v where "(k, v) \<in> set (sort_items d)" "c \<in> set (dump_str k)"
    | k v where "(k, v) \<in> set (sort_items d)" "c \<in> set (dumps fl v)"
    by (auto dest!: join_chars)
  then show ?case
  proof cases
    case 1
    then show ?thesis by auto
  next
    case 2
    then show ?thesis by (simp add: dump_str_printable)
  next
    case (3 k v)
    with "7.prems"(1) have "plain_json v" by (auto intro: plain_json_item)
    with 3 "7.IH" show ?thesis by blast
  qed
qed (auto simp: dump_str_printable show_int_printable split: if_splits)

lemma sort_items_sorted [simp]: "sort_items (map (\<lambda>(k, v). (k, f v)) (sort_items d)) = map (\<lambda>(k, v). (k, f v)) (sort_items d)"
proof -
  have "map fst (map (\<lambda>(k, v). (k, f v)) (sort_items d)) = map fst (sort_items d)" by auto
  then have "sorted (map fst (map (\<lambda>(k, v). (k, f v)) (sort_items d)))"
    by (simp only:) (simp add: sort_items_def)
  then show ?thesis unfolding sort_items_def [of "map _ _"] by (rule sort_key_id_if_sorted)
qed

lemma dumps_sorted_json [simp]: "dumps fl (sorted_json v) = dumps fl v"
proof (induction v rule: sorted_json.induct)
  case (6 xs)
  then have eq: "map (dumps fl \<circ> sorted_json) xs = map (dumps fl) xs" by simp
  show ?case by (simp add: eq del: map_eq_conv)
next
  case (7 d)
  have "map ((\<lambda>(k, v). dump_str k @ '':'' @ dumps fl v) \<circ> (\<lambda>(k, v). (k, sorted_json v))) (sort_items d) =
      map (\<lambda>(k, v). dump_str k @ '':'' @ dumps fl v) (sort_items d)"
    using 7 by (auto simp: set_sort_items)
  then show ?case by (simp only: sorted_json.simps dumps.simps sort_items_sorted map_map)
qed simp_all

text \<open>The document a printed dictionary reads back as.\<close>

definition sorted_dict :: "dict \<Rightarrow> dict" where
  "sorted_dict d = map (\<lambda>(k, v). (k, sorted_json v)) (sort_items d)"

lemma canonical_release_identity_Inr:
  assumes "canonical_release_identity fl payload = Inr d"
  shows "payload = canonical_text fl (JObj d)" "length payload \<le> 65536" "utf8_valid payload" "distinct_json (JObj d)"
proof -
  from assms have size: "length payload \<le> 65536"
    and decode: "decode_json_object fl payload ''platform release identity'' = Inr d"
    and body: "encode_utf8 (dumps fl (JObj d)) = Inr (dumps fl (JObj d))" "payload = dumps fl (JObj d) @ [CHR 0x0A]"
    unfolding canonical_release_identity_def bind_eq_Inr deny_if_eq_Inr MAX_RELEASE_IDENTITY_BYTES_def
    by (auto simp: encode_utf8_def split: if_splits)
  show "length payload \<le> 65536" "payload = canonical_text fl (JObj d)" using size body by (simp_all add: canonical_text_def)
  from decode show "distinct_json (JObj d)" by (rule decode_json_object_distinct)
  from decode show "utf8_valid payload"
    unfolding decode_json_object_def by (auto simp: decode_utf8_def split: if_splits)
qed

lemma utf8_valid_snoc: "utf8_valid (s @ [c]) \<Longrightarrow> byte c < 128 \<Longrightarrow> utf8_valid s"
proof (induction s rule: length_induct)
  case (1 s)
  have low: "\<not> byte_in lo hi c" if "128 \<le> lo" for lo hi using "1.prems"(2) that by (simp add: byte_in_def)
  show ?case
  proof (cases s)
    case (Cons a u)
    note IH = "1.IH" [rule_format]
    have valid: "utf8_valid (a # u @ [c])" using "1.prems" Cons by simp
    consider "byte a < 128" | (two) "\<not> byte a < 128" "byte_in 194 223 a"
      | (three) "\<not> byte a < 128" "\<not> byte_in 194 223 a" "byte_in 224 239 a"
      | (four) "\<not> byte a < 128" "\<not> byte_in 194 223 a" "\<not> byte_in 224 239 a" "byte_in 240 244 a"
      using valid by (auto simp: utf8_valid.simps(2) [of a] split: if_splits)
    then show ?thesis
    proof cases
      case 1
      then show ?thesis using valid IH [of u] Cons "1.prems"(2) by simp
    next
      case two
      then obtain b v where u: "u = b # v" "byte_in 128 191 b" "utf8_valid (v @ [c])"
        using valid low by (cases u) (auto simp: utf8_valid.simps(2) [of a] split: if_splits)
      then show ?thesis using two IH [of v] Cons "1.prems"(2) by (simp add: utf8_valid.simps(2) [of a])
    next
      case three
      obtain b d v where u: "u = b # d # v" "utf8_valid (v @ [c])"
        using valid low three
        by (cases u rule: remdups_adj.cases) (auto simp: utf8_valid.simps(2) [of a] split: if_splits)
      then show ?thesis using three valid IH [of v] Cons "1.prems"(2)
        by (simp add: utf8_valid.simps(2) [of a] split: if_splits)
    next
      case four
      obtain b d e v where u: "u = b # d # e # v" "utf8_valid (v @ [c])"
      proof (cases u)
        case (Cons b u1)
        show thesis
        proof (cases u1)
          case (Cons d u2)
          with \<open>u = b # u1\<close> show thesis
            using valid low four that
            by (cases u2) (auto simp: utf8_valid.simps(2) [of a] split: if_splits)
        qed (use valid low four \<open>u = b # u1\<close> in \<open>auto simp: utf8_valid.simps(2) [of a] split: if_splits\<close>)
      qed (use valid low four in \<open>auto simp: utf8_valid.simps(2) [of a] split: if_splits\<close>)
      then show ?thesis using four valid IH [of v] Cons "1.prems"(2)
        by (simp add: utf8_valid.simps(2) [of a] split: if_splits)
    qed
  qed simp
qed

lemma canonical_release_identity_accepts:
  assumes plain: "plain_json (JObj d)" and utf8: "utf8_valid (canonical_text fl (JObj d))"
    and size: "length (canonical_text fl (JObj d)) \<le> 65536"
  shows "canonical_release_identity fl (canonical_text fl (JObj d)) = Inr (sorted_dict d)"
proof -
  let ?body = "dumps fl (JObj d)"
  have printable: "c \<in> set ?body \<Longrightarrow> 32 \<le> byte c" for c by (rule dumps_printable [OF plain])
  have cr: "CHR 0x0D \<notin> set ?body" "CHR 0x0A \<notin> set ?body"
    using printable [of "CHR 0x0D"] printable [of "CHR 0x0A"] by auto
  have ends: "endswith (?body @ [CHR 0x0A]) [CHR 0x0A]" by (auto simp: endswith_iff simp del: dumps.simps)
  have once: "\<not> endswith (?body @ [CHR 0x0A]) [CHR 0x0A, CHR 0x0A]"
  proof
    assume "endswith (?body @ [CHR 0x0A]) [CHR 0x0A, CHR 0x0A]"
    then obtain u where "?body @ [CHR 0x0A] = (u @ [CHR 0x0A]) @ [CHR 0x0A]"
      unfolding endswith_iff by auto
    then have "?body = u @ [CHR 0x0A]" by (simp only: append_same_eq)
    with cr(2) show False by (metis in_set_conv_decomp)
  qed
  have valid: "utf8_valid ?body" using utf8 utf8_valid_snoc [of ?body "CHR 0x0A"] by (simp add: canonical_text_def)
  have "decode_json_object fl (canonical_text fl (JObj d)) ''platform release identity'' = Inr (sorted_dict d)"
    using utf8 strict_keys.loads_dumps [OF plain, of "[CHR 0x0A]" fl]
    by (simp add: decode_json_object_def decode_utf8_def canonical_text_def sorted_dict_def del: dumps.simps)
  moreover have "dumps fl (JObj (sorted_dict d)) = ?body"
    using dumps_sorted_json [of fl "JObj d"] by (simp only: sorted_json.simps sorted_dict_def)
  ultimately show ?thesis
    using size cr(1) ends once valid
    by (simp add: canonical_release_identity_def encode_utf8_def canonical_text_def MAX_RELEASE_IDENTITY_BYTES_def
        del: dumps.simps)
qed

section \<open>Properties\<close>

text \<open>
  an accepted identity document is the canonical text of its value, at most
  64 KiB of UTF-8, without a duplicate key at any depth: no two payloads carry the
  same document.
\<close>

theorem identity_document_canonical:
  assumes "canonical_release_identity fl payload = Inr d"
  shows "payload = canonical_text fl (JObj d) \<and> length payload \<le> 65536 \<and> utf8_valid payload \<and>
    distinct_json (JObj d)"
  using canonical_release_identity_Inr [OF assms] by blast

text \<open>
  C12: the canonical text of every document without floats and duplicate keys is
  accepted, within the size bound, and reads back as the document in key order.
\<close>

theorem identity_document_roundtrip:
  assumes "plain_json (JObj d)" "utf8_valid (canonical_text fl (JObj d))"
    "length (canonical_text fl (JObj d)) \<le> 65536"
  shows "canonical_release_identity fl (canonical_text fl (JObj d)) = Inr (sorted_dict d)"
  using assms by (rule canonical_release_identity_accepts)

text \<open>
  strict base64 accepts exactly the encodings of non-empty byte strings, each
  byte string under one text.
\<close>

theorem strict_base64_canonical:
  "strict_base64 v label = Inr x \<longleftrightarrow> v = JStr (b64encode x) \<and> x \<noteq> []"
  by (rule strict_base64_Inr)

definition sample_floats :: float_text where
  "sample_floats = \<lparr>parse_float = (\<lambda>s. Fin 0 0), float_repr = (\<lambda>f. ''0.0''), container_str = (\<lambda>v. [])\<rparr>"

definition sample_document :: dict where
  "sample_document = [(''tag'', JObj [(''name'', JStr ''v0.1.9'')]), (''runs'', JArr [JInt 7, JBool True, JNull])]"

lemma sample_document_ok:
  "plain_json (JObj sample_document)" "utf8_valid (canonical_text sample_floats (JObj sample_document))"
  "length (canonical_text sample_floats (JObj sample_document)) \<le> 65536"
proof -
  show "plain_json (JObj sample_document)" "utf8_valid (canonical_text sample_floats (JObj sample_document))"
    by code_simp+
  have "length (canonical_text sample_floats (JObj sample_document)) \<le> 100" by code_simp
  then show "length (canonical_text sample_floats (JObj sample_document)) \<le> 65536" by simp
qed

theorem identity_document_canonical_witness:
  "canonical_text sample_floats (JObj sample_document) =
     canonical_text sample_floats (JObj (sorted_dict sample_document)) \<and>
   distinct_json (JObj (sorted_dict sample_document))"
  using identity_document_canonical [OF canonical_release_identity_accepts [OF sample_document_ok]] by blast

theorem identity_document_roundtrip_witness:
  "canonical_release_identity sample_floats (canonical_text sample_floats (JObj sample_document)) =
     Inr (sorted_dict sample_document)"
  by (rule identity_document_roundtrip [OF sample_document_ok])

end
