(* ===== verification/Identity.thy ===== *)
theory Identity
  imports Evidence
begin

text \<open>
  scripts/ci/platform_release_contract.py: the signed platform release identity.  Its
  publisher (\<open>render_release_identity\<close>) writes the canonical document of one derived
  release edge; its verifiers accept the two assets of a release only when every
  field of the document agrees with what the caller expects.
\<close>

section \<open>The chart acquisition receipt\<close>

definition site_subjects :: "(string \<times> string) list" where
  "site_subjects =
    [(''lidersea-com'',
      ''https://github.com/snaraj/lidersea.com/.github/workflows/release-publisher.yml@refs/heads/main''),
     (''naranjo-online'',
      ''https://github.com/snaraj/naranjo.online/.github/workflows/release-publisher.yml@refs/heads/main'')]"

definition semver_text :: "string \<Rightarrow> bool" where
  "semver_text s = (semver_groups s \<noteq> None)"

definition image_prefix :: "string \<Rightarrow> string \<Rightarrow> string" where
  "image_prefix slug ver = ''ghcr.io/snaraj/'' @ slug @ '':v'' @ ver @ ''@''"

text \<open>The nested objects of one record and the field checks on them.\<close>

definition site_record_bad :: "string \<Rightarrow> string \<Rightarrow> dict \<Rightarrow> dict \<Rightarrow> dict \<Rightarrow> dict \<Rightarrow> bool" where
  "site_record_bad slug subject site chart release signer =
    (let ver = get site ''chartTag''; manifest = get site ''manifestDigest'';
         config = get site ''chartConfigDigest''; layer = get site ''chartLayerDigest''
     in \<not> str_matches semver_text ver
      \<or> \<not> json_eq (JObj chart) (JObj [(''appVersion'', ver), (''name'', JStr slug), (''version'', ver)])
      \<or> get site ''chartRepository'' \<noteq> JStr (''ghcr.io/snaraj/charts/'' @ slug)
      \<or> \<not> json_eq (get site ''matchingChartLayerCount'') (JInt 1)
      \<or> \<not> json_eq (JObj signer)
            (JObj [(''issuer'', JStr SELECTOR_CERTIFICATE_ISSUER), (''subject'', JStr subject)])
      \<or> \<not> str_matches sha256_ref manifest
      \<or> \<not> str_matches sha256_ref layer
      \<or> manifest = layer
      \<or> \<not> str_matches sha256_ref config
      \<or> config = manifest \<or> config = layer
      \<or> \<not> str_matches sha256_ref (get release ''assetDigest'')
      \<or> \<not> str_matches sha1_hex (get release ''sourceSha'')
      \<or> \<not> str_matches sha256_ref (get site ''arm64Digest'')
      \<or> \<not> is_str (get site ''workloadImage''))"

definition site_identity :: "dict \<Rightarrow> string \<times> string \<Rightarrow> dict \<Rightarrow> dict res" where
  "site_identity records entry identities =
    (case entry of (slug, subject) \<Rightarrow>
      bind (object_of (get records slug) (slug @ '' acquisition record'')) (\<lambda>site.
      deny_if
        (\<not> keys_are site
          [''arm64Digest'', ''chart'', ''chartConfigDigest'', ''chartLayerDigest'', ''chartRepository'',
           ''chartTag'', ''manifestDigest'', ''matchingChartLayerCount'', ''release'', ''signer'', ''workloadImage''])
        (slug @ '' acquisition fields are incomplete or foreign'') (
      bind (object_of (get site ''chart'') (slug @ '' chart metadata'')) (\<lambda>chart.
      bind (object_of (get site ''release'') (slug @ '' release metadata'')) (\<lambda>release.
      bind (object_of (get site ''signer'') (slug @ '' chart signer'')) (\<lambda>signer.
      deny_if
        (\<not> keys_are chart [''appVersion'', ''name'', ''version''] \<or> \<not> keys_are release [''assetDigest'', ''sourceSha'']
          \<or> \<not> keys_are signer [''issuer'', ''subject''])
        (slug @ '' nested acquisition fields are foreign'') (
      deny_if (site_record_bad slug subject site chart release signer) (slug @ '' acquisition identity is invalid'') (
      let ver = the_str (get site ''chartTag'');
          image = the_str (get site ''workloadImage'');
          prefix = image_prefix slug ver;
          workload = removeprefix image prefix
      in deny_if
           (\<not> startswith image prefix \<or> \<not> sha256_ref workload \<or> JStr workload = get site ''arm64Digest'')
           (slug @ '' workload identity is invalid'') (
         Inr (put identities slug
           (JObj [(''chart'', JObj [(''layer_digest'', get site ''chartLayerDigest''),
                     (''manifest_digest'', get site ''manifestDigest''),
                     (''repository'', JStr (''ghcr.io/snaraj/charts/'' @ slug)), (''version'', JStr ver)]),
                  (''workload'', JObj [(''arm64_digest'', get site ''arm64Digest''),
                     (''image'', JStr image)])])))))))))))"

definition site_identities_from_receipt :: "float_text \<Rightarrow> string \<Rightarrow> dict res" where
  "site_identities_from_receipt fl payload =
    bind (decode_json_object fl payload ''chart acquisition receipt'') (\<lambda>receipt.
    deny_if (\<not> keys_are receipt [''capturedDate'', ''chartLayerMediaType'', ''records'', ''schema'', ''tools''])
      ''chart acquisition receipt fields are incomplete or foreign'' (
    deny_if
      (get receipt ''schema'' \<noteq> JStr ''dev.snaraj.chart-acquisition-receipt/v2''
        \<or> get receipt ''chartLayerMediaType'' \<noteq> JStr ''application/vnd.cncf.helm.chart.content.v1.tar+gzip'')
      ''chart acquisition receipt schema is foreign'' (
    deny_if (\<not> str_matches (\<lambda>s. date_fromisoformat s \<noteq> None) (get receipt ''capturedDate''))
      ''chart acquisition receipt date is invalid'' (
    bind (object_of (get receipt ''tools'') ''chart acquisition tools'') (\<lambda>tools.
    deny_if (\<not> keys_are tools [''cosign'', ''oras''] \<or> \<not> list_all nonempty_str (map snd tools))
      ''chart acquisition tool identity is incomplete'' (
    bind (object_of (get receipt ''records'') ''chart acquisition records'') (\<lambda>records.
    deny_if (\<not> keys_are records (map fst site_subjects)) ''chart acquisition receipt must bind exactly both sites'' (
    for_each (site_identity records) site_subjects []))))))))"

section \<open>Rendering\<close>

text \<open>\<open>except ValueError as error: raise ContractError(str(error))\<close>.\<close>

fun as_contract :: "exc \<Rightarrow> exc" where
  "as_contract (ValueError m) = ContractError m"
| "as_contract (PendingRelease m) = ContractError m"
| "as_contract (ContractError m) = ContractError m"
| "as_contract e = ContractError []"

definition git_tree :: "runner \<Rightarrow> string \<Rightarrow> string \<Rightarrow> string res" where
  "git_tree git commit field =
    bind (git_text git [''rev-parse'', commit @ ''^{tree}'']) (\<lambda>out. require_sha (JStr out) field)"

text \<open>The integers of one publication: release, main run, attempt, platform run, attempt.\<close>

record run_ids =
  release_id :: int
  main_run_id :: int
  main_run_attempt :: int
  platform_run_id :: int
  platform_run_attempt :: int

definition run_ids_error :: "run_ids \<Rightarrow> string option" where
  "run_ids_error ids =
    (if release_id ids \<le> 0 then Some ''release ID must be a positive integer''
     else if main_run_id ids \<le> 0 then Some ''main run ID must be a positive integer''
     else if main_run_attempt ids \<le> 0 then Some ''main run attempt must be a positive integer''
     else if platform_run_id ids \<le> 0 then Some ''platform run ID must be a positive integer''
     else if platform_run_attempt ids \<le> 0 then Some ''platform run attempt must be a positive integer''
     else None)"

definition main_ci_evidence :: "string \<Rightarrow> int \<Rightarrow> int \<Rightarrow> dict" where
  "main_ci_evidence sha run attempt =
    [(''conclusion'', JStr ''success''), (''event'', JStr ''push''), (''head_sha'', JStr sha),
     (''ref'', JStr PROTECTED_REF), (''run_attempt'', JInt attempt), (''run_id'', JInt run),
     (''workflow'', JStr WORKFLOW_PATH)]"

definition platform_evidence :: "string \<Rightarrow> string \<Rightarrow> string \<Rightarrow> run_ids \<Rightarrow> dict" where
  "platform_evidence event sha workflow ids =
    [(''event'', JStr event), (''head_sha'', JStr sha), (''ref'', JStr PROTECTED_REF),
     (''run_attempt'', JInt (platform_run_attempt ids)), (''run_id'', JInt (platform_run_id ids)),
     (''workflow'', JStr workflow)]"

definition release_evidence :: "json \<Rightarrow> string \<Rightarrow> string \<Rightarrow> dict" where
  "release_evidence release tag target =
    [(''asset_count'', JInt 2), (''draft'', JBool False), (''id'', release), (''immutable'', JBool True),
     (''prerelease'', JBool False), (''tag_name'', JStr tag), (''target_commitish'', JStr target)]"

definition base_evidence ::
  "transition_window \<Rightarrow> epoch_identity \<Rightarrow> string \<Rightarrow> string \<Rightarrow> string \<Rightarrow> string \<Rightarrow> run_ids \<Rightarrow> dict" where
  "base_evidence window selected head tree tag tag_object ids =
    [(''changelog'', JObj [(''fragment_path'', JStr (window_fragment_path window)),
        (''fragment_sha256'', JStr (''sha256:'' @ window_fragment_sha256 window))]),
     (''main_ci'', JObj (main_ci_evidence head (main_run_id ids) (main_run_attempt ids))),
     (''platform_release'', JObj (platform_evidence ''workflow_run'' head PLATFORM_WORKFLOW_PATH ids)),
     (''predecessor'', JObj [(''peeled_commit'', JStr (base_sha window)), (''tag'', JStr (base_tag window))]),
     (''release'', JObj (release_evidence (JInt (release_id ids)) tag head)),
     (''repository'', JStr (id_repository selected)),
     (''schema'', JStr (id_schema selected)),
     (''source'', JObj [(''merge_sha'', JStr head), (''protected_ref'', JStr PROTECTED_REF), (''tree_sha'', JStr tree)]),
     (''tag'', JObj [(''name'', JStr tag), (''object_sha'', JStr tag_object), (''object_type'', JStr ''tag''),
        (''peeled_commit'', JStr head)])]"

text \<open>The fourth epoch names its executor and redirects the platform run and the target.\<close>

definition with_execution ::
  "runner \<Rightarrow> epoch_identity \<Rightarrow> string \<Rightarrow> string \<Rightarrow> run_ids \<Rightarrow> string option \<Rightarrow> int option \<Rightarrow> int option \<Rightarrow> dict \<Rightarrow> dict res" where
  "with_execution git selected head tag ids execution_sha run attempt evidence =
    bind (exact_commit git (case execution_sha of None \<Rightarrow> head | Some sha \<Rightarrow> sha) ''executor SHA'') (\<lambda>executor.
    bind (git_tree git executor ''executor tree SHA'') (\<lambda>tree.
    let run' = (if executor = head \<and> run = None then Some (main_run_id ids) else run);
        attempt' = (if executor = head \<and> attempt = None then Some (main_run_attempt ids) else attempt)
    in case (run', attempt') of
         (Some r, Some a) \<Rightarrow>
           deny_if (r \<le> 0 \<or> a \<le> 0) ''executor main CI requires its exact run and attempt'' (
           bind (release_target tag head) (\<lambda>target.
           let evidence1 = put evidence ''execution''
                 (JObj [(''source_sha'', JStr executor), (''tree_sha'', JStr tree),
                        (''main_ci'', JObj (main_ci_evidence executor r a))]);
               evidence2 = put evidence1 ''platform_release''
                 (JObj (platform_evidence (case id_publisher_event selected of Some e \<Rightarrow> e | None \<Rightarrow> []) executor
                    (case id_publisher_workflow selected of Some w \<Rightarrow> w | None \<Rightarrow> []) ids))
           in Inr (put evidence2 ''release'' (JObj (release_evidence (JInt (release_id ids)) tag target)))))
       | _ \<Rightarrow> Inl (ContractError ''executor main CI requires its exact run and attempt'')))"

text \<open>Epochs before the third carry the selector image and the sites.\<close>

definition selector_evidence :: "string \<Rightarrow> string \<Rightarrow> json" where
  "selector_evidence digest build =
    JObj [(''digest'', JStr digest), (''image'', JStr SELECTOR_IMAGE),
      (''provenance'', JObj [(''attestor_identity'', JStr SELECTOR_CERTIFICATE_SUBJECT),
         (''predicate_type'', JStr SLSA_PROVENANCE_V1), (''source_sha'', JStr build), (''subject_digest'', JStr digest)]),
      (''signature'', JObj [(''certificate_identity'', JStr SELECTOR_CERTIFICATE_SUBJECT),
         (''oidc_issuer'', JStr SELECTOR_CERTIFICATE_ISSUER)])]"

definition with_selector ::
  "float_text \<Rightarrow> runner \<Rightarrow> string \<Rightarrow> string option \<Rightarrow> string option \<Rightarrow> dict \<Rightarrow> dict res" where
  "with_selector fl git head digest build evidence =
    (case digest of
       None \<Rightarrow> Inl (ContractError ''selector image digest must be canonical sha256'')
     | Some d \<Rightarrow>
         deny_if (\<not> sha256_ref d) ''selector image digest must be canonical sha256'' (
         bind (require_sha (JStr (case build of None \<Rightarrow> [] | Some b \<Rightarrow> b)) ''selector image build source SHA'') (\<lambda>b.
         bind (file_bytes git head RELEASE_IDENTITY_RECEIPT_PATH) (\<lambda>receipt.
         bind (site_identities_from_receipt fl receipt) (\<lambda>sites.
         Inr (put (put evidence ''selector'' (selector_evidence d b)) ''sites'' (JObj sites)))))))"

record publish_args =
  selector_digest_arg :: "string option"
  selector_build_arg :: "string option"
  github_repository_arg :: "string option"
  github_repository_id_arg :: "int option"
  execution_sha_arg :: "string option"
  execution_run_arg :: "int option"
  execution_attempt_arg :: "int option"

definition opt_str :: "string option \<Rightarrow> json" where
  "opt_str x = (case x of None \<Rightarrow> JNull | Some s \<Rightarrow> JStr s)"

definition opt_int :: "int option \<Rightarrow> json" where
  "opt_int x = (case x of None \<Rightarrow> JNull | Some i \<Rightarrow> JInt i)"

text \<open>The epoch of the edge, authorised for publication where the epoch asks for it.\<close>

definition select_epoch :: "string \<Rightarrow> string \<Rightarrow> string \<Rightarrow> string \<Rightarrow> publish_args \<Rightarrow> epoch_identity res" where
  "select_epoch head tag base_commit base_name args =
    rewrap is_value_error as_contract (
      bind (identity (JStr tag)) (\<lambda>selected.
      if id_version selected \<in> {2, 4} \<or> github_repository_arg args \<noteq> None \<or> github_repository_id_arg args \<noteq> None
      then publication (opt_str (github_repository_arg args)) (opt_int (github_repository_id_arg args)) (JStr tag)
             (JStr base_name) (JStr base_commit) (JStr head)
      else Inr selected))"

definition identity_evidence ::
  "float_text \<Rightarrow> runner \<Rightarrow> string \<Rightarrow> string \<Rightarrow> string \<Rightarrow> string \<Rightarrow> string \<Rightarrow> run_ids \<Rightarrow> publish_args \<Rightarrow> dict res" where
  "identity_evidence fl git head tag base_commit base_name tag_object ids args =
    bind (exact_commit git head ''release-identity head SHA'') (\<lambda>head.
    bind (git_tree git head ''release-identity source tree SHA'') (\<lambda>tree.
    bind (require_sha (JStr base_commit) ''release-identity predecessor SHA'') (\<lambda>base_commit.
    bind (require_sha (JStr tag_object) ''annotated tag object SHA'') (\<lambda>tag_object.
    bind (discover_transition_window git head) (\<lambda>window.
    deny_if
      (intent_tag (window_intent window) \<noteq> tag \<or> base_sha window \<noteq> base_commit \<or> base_tag window \<noteq> base_name)
      ''release identity is not the derived exact-next edge'' (
    bind (select_epoch head tag base_commit base_name args) (\<lambda>selected.
    case run_ids_error ids of
      Some msg \<Rightarrow> Inl (ContractError msg)
    | None \<Rightarrow>
        let evidence = base_evidence window selected head tree tag tag_object ids;
            evidence1 = (if 2 \<le> id_version selected then put evidence ''repository_id'' (JInt REPOSITORY_ID) else evidence)
        in bind (if id_version selected = 4
                 then with_execution git selected head tag ids (execution_sha_arg args)
                        (execution_run_arg args) (execution_attempt_arg args) evidence1
                 else Inr evidence1) (\<lambda>evidence2.
           bind (if id_version selected < 3
                 then with_selector fl git head (selector_digest_arg args) (selector_build_arg args) evidence2
                 else Inr evidence2) (\<lambda>evidence3.
           bind (rewrap is_shape_error (\<lambda>_. ContractError ''release identity epoch is foreign'')
                   (validate_identity evidence3)) (\<lambda>_.
           Inr evidence3))))))))))"

definition render_release_identity ::
  "float_text \<Rightarrow> runner \<Rightarrow> string \<Rightarrow> string \<Rightarrow> string \<Rightarrow> string \<Rightarrow> string \<Rightarrow> run_ids \<Rightarrow> publish_args \<Rightarrow> string res" where
  "render_release_identity fl git head tag base_commit base_name tag_object ids args =
    bind (identity_evidence fl git head tag base_commit base_name tag_object ids args) (\<lambda>evidence.
    bind (encode_utf8 (canonical_text fl (JObj evidence))) (\<lambda>rendered.
    deny_if (MAX_RELEASE_IDENTITY_BYTES < length rendered) ''platform release identity exceeds 64 KiB'' (Inr rendered)))"

end
