(* ===== verification/IdentityCheck.thy ===== *)
theory IdentityCheck
  imports Identity
begin

text \<open>
  scripts/ci/platform_release_contract.py: the verifiers of a signed identity.  The
  metadata of the two release assets, the document against the caller's tag, source
  and predecessor edge, and the two workflow attempts it names.
\<close>

section \<open>The two assets of a release\<close>

definition staged_token :: "string \<Rightarrow> string \<Rightarrow> json \<Rightarrow> string option" where
  "staged_token transport name url =
    (case url of
       JStr s \<Rightarrow>
         let prefix = ''https://github.com/'' @ transport @ ''/releases/download/''; suffix = ''/'' @ name;
             token = take (length s - length prefix - length suffix) (drop (length prefix) s)
         in if startswith s prefix \<and> endswith s suffix \<and> length prefix + length suffix \<le> length s
               \<and> server_draft_tag token
            then Some token else None
     | _ \<Rightarrow> None)"

text \<open>The checks on a record that carries the bot's identity.\<close>

definition is_bot :: "dict \<Rightarrow> bool" where
  "is_bot d = (get d ''login'' = JStr BOT_LOGIN \<and> json_eq (get d ''id'') (JInt BOT_ID))"

definition nonnegative_int :: "json \<Rightarrow> bool" where
  "nonnegative_int v = (case v of JInt i \<Rightarrow> 0 \<le> i | _ \<Rightarrow> False)"

definition ASSET_FIELDS :: "string list" where
  "ASSET_FIELDS =
    [''browser_download_url'', ''content_type'', ''digest'', ''download_count'', ''id'', ''label'', ''name'',
     ''size'', ''state'', ''uploader'', ''url'']"

definition check_asset ::
  "float_text \<Rightarrow> dict \<Rightarrow> string \<Rightarrow> bool \<Rightarrow> dict \<Rightarrow> string \<times> string \<Rightarrow> string option \<Rightarrow> string option res" where
  "check_asset fl release_record transport staged by_name entry seen =
    (case entry of (name, payload) \<Rightarrow>
      let asset = (case get by_name name of JObj d \<Rightarrow> d | _ \<Rightarrow> []);
          asset_id = get asset ''id'';
          url = get asset ''browser_download_url'';
          final_url = ''https://github.com/'' @ transport @ ''/releases/download/''
            @ py_str fl (get release_record ''tag_name'') @ ''/'' @ name
      in
      deny_if (\<not> keys_include asset ASSET_FIELDS) ''platform release identity asset metadata is partial'' (
      deny_if (\<not> positive_int asset_id) ''platform release identity asset ID is invalid'' (
      bind (if staged
            then (case staged_token transport name url of
                    None \<Rightarrow> Inl (ContractError ''staged platform release identity download URL is foreign'')
                  | Some token \<Rightarrow>
                      (case seen of
                         None \<Rightarrow> Inr (Some token)
                       | Some t \<Rightarrow>
                           deny_if (token \<noteq> t) ''staged platform release identity download tokens conflict''
                             (Inr (Some t))))
            else Inr seen) (\<lambda>seen'.
      deny_if
        (get asset ''name'' \<noteq> JStr name
          \<or> (get asset ''label'' \<noteq> JNull \<and> get asset ''label'' \<noteq> JStr [])
          \<or> get asset ''state'' \<noteq> JStr ''uploaded''
          \<or> get asset ''content_type'' \<noteq> JStr ''application/json''
          \<or> \<not> json_eq (get asset ''size'') (JInt (int (length payload)))
          \<or> get asset ''digest'' \<noteq> JStr (''sha256:'' @ sha256_hex payload)
          \<or> get asset ''url'' \<noteq> JStr (''https://api.github.com/repos/'' @ transport @ ''/releases/assets/''
               @ py_str fl asset_id)
          \<or> (\<not> staged \<and> url \<noteq> JStr final_url))
        ''platform release identity asset metadata is foreign'' (
      bind (object_of (get asset ''uploader'') ''platform release identity uploader'') (\<lambda>uploader.
      deny_if (\<not> keys_include uploader [''id'', ''login''] \<or> \<not> is_bot uploader)
        ''platform release identity uploader is foreign'' (
      deny_if (\<not> nonnegative_int (get asset ''download_count''))
        ''platform release identity download count is invalid'' (Inr seen'))))))))"

definition validate_identity_asset_metadata ::
  "float_text \<Rightarrow> dict \<Rightarrow> string \<Rightarrow> string \<Rightarrow> bool \<Rightarrow> string option \<Rightarrow> int option \<Rightarrow> dict res" where
  "validate_identity_asset_metadata fl release_record document bundle staged api_repository api_repository_id =
    bind (canonical_release_identity fl document) (\<lambda>evidence.
    bind (rewrap is_shape_error (\<lambda>_. ContractError ''release identity epoch or transport is foreign'')
            (bind (item evidence ''tag'') (\<lambda>tag_record.
             bind (subscript tag_record ''name'') (\<lambda>tag.
             bind (identity tag) (\<lambda>selected.
             bind (metadata_repository tag (opt_str api_repository) (opt_int api_repository_id)) (\<lambda>transport.
             Inr (selected, transport))))))) (\<lambda>(selected, transport).
    deny_if (\<not> positive_int (get release_record ''id'')) ''GitHub Release ID is invalid'' (
    case get release_record ''assets'' of
      JArr assets \<Rightarrow>
        deny_if (length assets \<noteq> 2) ''GitHub Release must carry exactly two identity assets'' (
        bind (map_res (\<lambda>asset. object_of asset ''platform release identity asset'') assets) (\<lambda>records.
        deny_if (list_ex (\<lambda>asset. \<not> is_str (get asset ''name'')) records)
          ''GitHub Release identity asset set is foreign'' (
        let by_name = update [] (map (\<lambda>asset. (the_str (get asset ''name''), JObj asset)) records) in
        deny_if (\<not> keys_are by_name [id_asset selected, id_bundle selected] \<or> length by_name \<noteq> length records)
          ''GitHub Release identity asset set is foreign'' (
        bind (for_each (check_asset fl release_record transport staged by_name)
                [(id_asset selected, document), (id_bundle selected, bundle)] None) (\<lambda>_.
        bind (sigstore_bundle fl bundle document) (\<lambda>_. Inr evidence))))))
    | _ \<Rightarrow> Inl (ContractError ''GitHub Release must carry exactly two identity assets''))))"

section \<open>The document against what the caller expects\<close>

record expected_release =
  expected_tag :: string
  expected_sha :: string
  expected_build_sha :: "string option"
  expected_tag_object_sha :: "string option"
  expected_tree_sha :: "string option"
  expected_staged :: bool
  expected_api_repository :: "string option"
  expected_api_repository_id :: "int option"

definition require_optional_sha :: "string option \<Rightarrow> string \<Rightarrow> unit res" where
  "require_optional_sha sha field =
    (case sha of None \<Rightarrow> Inr () | Some s \<Rightarrow> bind (require_sha (JStr s) field) (\<lambda>_. Inr ()))"

definition evidence_fields :: "nat \<Rightarrow> string list" where
  "evidence_fields epoch =
    [''changelog'', ''main_ci'', ''platform_release'', ''predecessor'', ''release'', ''repository'', ''schema'',
     ''source'', ''tag'']
    @ (if 2 \<le> epoch then [''repository_id''] else [])
    @ (if epoch < 3 then [''selector'', ''sites''] else [])
    @ (if epoch = 4 then [''execution''] else [])"

definition check_source :: "expected_release \<Rightarrow> dict \<Rightarrow> unit res" where
  "check_source ex evidence =
    bind (exact_fields (get evidence ''source'') [''merge_sha'', ''protected_ref'', ''tree_sha''] ''source'') (\<lambda>source.
    deny_if
      (get source ''merge_sha'' \<noteq> JStr (expected_sha ex)
        \<or> get source ''protected_ref'' \<noteq> JStr PROTECTED_REF
        \<or> \<not> str_matches sha1_hex (get source ''tree_sha'')
        \<or> (case expected_tree_sha ex of None \<Rightarrow> False | Some tree \<Rightarrow> get source ''tree_sha'' \<noteq> JStr tree))
      ''selector predecessor protected source is foreign'' (Inr ()))"

definition check_release :: "expected_release \<Rightarrow> dict \<Rightarrow> dict \<Rightarrow> unit res" where
  "check_release ex release_record evidence =
    bind (exact_fields (get evidence ''release'')
            [''asset_count'', ''draft'', ''id'', ''immutable'', ''prerelease'', ''tag_name'', ''target_commitish'']
            ''release evidence'') (\<lambda>release.
    bind (rewrap is_value_error (\<lambda>_. ContractError ''Release source policy is foreign'')
            (release_target (expected_tag ex) (expected_sha ex))) (\<lambda>target.
    deny_if
      (\<not> is_int (get release ''asset_count'') \<or> \<not> positive_int (get release ''id'')
        \<or> \<not> is_bool (get release ''draft'') \<or> \<not> is_bool (get release ''immutable'')
        \<or> \<not> is_bool (get release ''prerelease'')
        \<or> \<not> json_eq (JObj release)
              (JObj (release_evidence (get release_record ''id'') (expected_tag ex) target)))
      ''selector predecessor release evidence is foreign'' (
    deny_if
      (get release_record ''tag_name'' \<noteq> JStr (expected_tag ex)
        \<or> get release_record ''name'' \<noteq> JStr (''Platform '' @ expected_tag ex)
        \<or> get release_record ''target_commitish'' \<noteq> JStr target
        \<or> get release_record ''draft'' \<noteq> JBool (expected_staged ex)
        \<or> get release_record ''prerelease'' \<noteq> JBool False
        \<or> get release_record ''immutable'' \<noteq> JBool (\<not> expected_staged ex)
        \<or> \<not> is_str (get release_record ''body''))
      ''selector predecessor REST release is foreign'' (
    bind (object_of (get release_record ''author'') ''selector predecessor author'') (\<lambda>author.
    deny_if (\<not> keys_include author [''id'', ''login''] \<or> \<not> is_bot author)
      ''selector predecessor author is foreign'' (Inr ()))))))"

definition check_tag :: "expected_release \<Rightarrow> dict \<Rightarrow> unit res" where
  "check_tag ex evidence =
    bind (exact_fields (get evidence ''tag'') [''name'', ''object_sha'', ''object_type'', ''peeled_commit''] ''tag evidence'')
      (\<lambda>tag.
    deny_if
      (get tag ''name'' \<noteq> JStr (expected_tag ex) \<or> get tag ''object_type'' \<noteq> JStr ''tag''
        \<or> get tag ''peeled_commit'' \<noteq> JStr (expected_sha ex) \<or> \<not> str_matches sha1_hex (get tag ''object_sha''))
      ''selector predecessor tag evidence is foreign'' (
    deny_if
      (case expected_tag_object_sha ex of None \<Rightarrow> False | Some sha \<Rightarrow> get tag ''object_sha'' \<noteq> JStr sha)
      ''selector predecessor annotated tag object moved'' (Inr ())))"

definition edge_bad :: "json \<Rightarrow> json \<Rightarrow> string \<Rightarrow> string \<Rightarrow> bool" where
  "edge_bad predecessor_tag predecessor_sha tag sha =
    (case predecessor_tag of
       JStr p \<Rightarrow>
         (case (tag_groups p, tag_groups tag) of
            (Some (a, b, c), Some candidate) \<Rightarrow>
              \<not> str_matches sha1_hex predecessor_sha \<or> predecessor_sha = JStr sha \<or> candidate \<noteq> (a, b, c + 1)
          | _ \<Rightarrow> True)
     | _ \<Rightarrow> True)"

definition check_edge :: "expected_release \<Rightarrow> dict \<Rightarrow> unit res" where
  "check_edge ex evidence =
    bind (exact_fields (get evidence ''predecessor'') [''peeled_commit'', ''tag''] ''predecessor evidence'') (\<lambda>predecessor.
    deny_if (edge_bad (get predecessor ''tag'') (get predecessor ''peeled_commit'') (expected_tag ex) (expected_sha ex))
      ''selector predecessor edge is foreign'' (
    bind (exact_fields (get evidence ''changelog'') [''fragment_path'', ''fragment_sha256''] ''changelog evidence'')
      (\<lambda>changelog.
    deny_if
      (\<not> str_matches fragment_path_ok (get changelog ''fragment_path'')
        \<or> \<not> str_matches sha256_ref (get changelog ''fragment_sha256''))
      ''selector predecessor changelog evidence is foreign'' (Inr ()))))"

definition run_fields :: "bool \<Rightarrow> string list" where
  "run_fields with_conclusion =
    [''event'', ''head_sha'', ''ref'', ''run_attempt'', ''run_id'', ''workflow'']
    @ (if with_conclusion then [''conclusion''] else [])"

text \<open>The shape every signed workflow run has.\<close>

definition run_bad :: "dict \<Rightarrow> string \<Rightarrow> json \<Rightarrow> string \<Rightarrow> bool \<Rightarrow> bool" where
  "run_bad run event sha workflow with_conclusion =
    (get run ''event'' \<noteq> JStr event \<or> get run ''head_sha'' \<noteq> sha \<or> get run ''ref'' \<noteq> JStr PROTECTED_REF
      \<or> get run ''workflow'' \<noteq> JStr workflow \<or> \<not> positive_int (get run ''run_id'')
      \<or> \<not> positive_int (get run ''run_attempt'')
      \<or> (with_conclusion \<and> get run ''conclusion'' \<noteq> JStr ''success''))"

definition check_run :: "dict \<Rightarrow> string \<Rightarrow> string \<Rightarrow> string \<Rightarrow> bool \<Rightarrow> json \<Rightarrow> unit res" where
  "check_run evidence key workflow event with_conclusion sha =
    bind (exact_fields (get evidence key) (run_fields with_conclusion) key) (\<lambda>run.
    deny_if (run_bad run event sha workflow with_conclusion)
      (''selector predecessor '' @ key @ '' is foreign'') (Inr ()))"

definition publisher_workflow_of :: "epoch_identity \<Rightarrow> string" where
  "publisher_workflow_of s = (case id_publisher_workflow s of Some w \<Rightarrow> w | None \<Rightarrow> PLATFORM_WORKFLOW_PATH)"

definition publisher_event_of :: "epoch_identity \<Rightarrow> string" where
  "publisher_event_of s = (case id_publisher_event s of Some e \<Rightarrow> e | None \<Rightarrow> ''workflow_run'')"

definition check_selector :: "expected_release \<Rightarrow> dict \<Rightarrow> json res" where
  "check_selector ex evidence =
    bind (exact_fields (get evidence ''selector'') [''digest'', ''image'', ''provenance'', ''signature''] ''selector'')
      (\<lambda>selector.
    let digest = get selector ''digest'' in
    deny_if (get selector ''image'' \<noteq> JStr SELECTOR_IMAGE \<or> \<not> str_matches sha256_ref digest)
      ''selector predecessor image is foreign'' (
    bind (exact_fields (get selector ''signature'') [''certificate_identity'', ''oidc_issuer''] ''signature'') (\<lambda>signature.
    deny_if
      (\<not> json_eq (JObj signature)
          (JObj [(''certificate_identity'', JStr SELECTOR_CERTIFICATE_SUBJECT),
                 (''oidc_issuer'', JStr SELECTOR_CERTIFICATE_ISSUER)]))
      ''selector predecessor signature identity is foreign'' (
    bind (exact_fields (get selector ''provenance'')
            [''attestor_identity'', ''predicate_type'', ''source_sha'', ''subject_digest''] ''provenance'') (\<lambda>provenance.
    deny_if
      (\<not> json_eq (JObj provenance)
          (JObj [(''attestor_identity'', JStr SELECTOR_CERTIFICATE_SUBJECT),
                 (''predicate_type'', JStr SLSA_PROVENANCE_V1), (''source_sha'', opt_str (expected_build_sha ex)),
                 (''subject_digest'', digest)]))
      ''selector predecessor provenance identity is foreign'' (Inr digest))))))"

definition site_bad :: "string \<Rightarrow> dict \<Rightarrow> dict \<Rightarrow> bool" where
  "site_bad slug chart workload =
    (let ver = get chart ''version''; prefix = image_prefix slug (the_str ver);
         image = the_str (get workload ''image'')
     in get chart ''repository'' \<noteq> JStr (''ghcr.io/snaraj/charts/'' @ slug)
      \<or> \<not> str_matches semver_text ver
      \<or> \<not> str_matches sha256_ref (get chart ''manifest_digest'')
      \<or> \<not> str_matches sha256_ref (get chart ''layer_digest'')
      \<or> get chart ''manifest_digest'' = get chart ''layer_digest''
      \<or> \<not> str_matches sha256_ref (get workload ''arm64_digest'')
      \<or> \<not> is_str (get workload ''image'')
      \<or> \<not> startswith image prefix
      \<or> \<not> sha256_ref (removeprefix image prefix)
      \<or> JStr (removeprefix image prefix) = get workload ''arm64_digest'')"

definition check_site :: "dict \<Rightarrow> string \<Rightarrow> unit \<Rightarrow> unit res" where
  "check_site sites slug u =
    bind (exact_fields (get sites slug) [''chart'', ''workload''] (slug @ '' site'')) (\<lambda>site.
    bind (exact_fields (get site ''chart'') [''layer_digest'', ''manifest_digest'', ''repository'', ''version'']
            (slug @ '' chart'')) (\<lambda>chart.
    bind (exact_fields (get site ''workload'') [''arm64_digest'', ''image''] (slug @ '' workload'')) (\<lambda>workload.
    deny_if (site_bad slug chart workload) (''selector predecessor '' @ slug @ '' identity is foreign'') (Inr ()))))"

definition check_execution :: "epoch_identity \<Rightarrow> expected_release \<Rightarrow> dict \<Rightarrow> json res" where
  "check_execution selected ex evidence =
    (if id_version selected = 4
     then bind (rewrap is_shape_error (\<lambda>_. ContractError ''signed publication execution is foreign'')
                  (validate_execution evidence)) (\<lambda>_.
          bind (item evidence ''execution'') (\<lambda>execution. subscript execution ''source_sha''))
     else Inr (JStr (expected_sha ex)))"

definition check_epoch :: "dict \<Rightarrow> unit res" where
  "check_epoch evidence =
    rewrap is_shape_error (\<lambda>_. ContractError ''signed release epoch is foreign'') (validate_identity evidence)"

text \<open>The part of the verifier that follows the asset metadata.\<close>

definition check_identity_document :: "epoch_identity \<Rightarrow> expected_release \<Rightarrow> dict \<Rightarrow> dict \<Rightarrow> json res" where
  "check_identity_document selected ex release_record evidence =
    deny_if (\<not> keys_are evidence (evidence_fields (id_version selected)))
      ''selector predecessor top-level fields are foreign'' (
    deny_if
      (get evidence ''schema'' \<noteq> JStr (id_schema selected) \<or> get evidence ''repository'' \<noteq> JStr (id_repository selected))
      ''selector predecessor schema or repository is foreign'' (
    bind (check_source ex evidence) (\<lambda>_.
    bind (check_release ex release_record evidence) (\<lambda>_.
    bind (check_tag ex evidence) (\<lambda>_.
    bind (check_edge ex evidence) (\<lambda>_.
    bind (check_execution selected ex evidence) (\<lambda>execution_sha.
    bind (check_run evidence ''main_ci'' WORKFLOW_PATH ''push'' True (JStr (expected_sha ex))) (\<lambda>_.
    bind (check_run evidence ''platform_release'' (publisher_workflow_of selected) (publisher_event_of selected) False
            execution_sha) (\<lambda>_.
    if 3 \<le> id_version selected then bind (check_epoch evidence) (\<lambda>_. Inr (JStr []))
    else
      bind (check_selector ex evidence) (\<lambda>digest.
      bind (exact_fields (get evidence ''sites'') [''lidersea-com'', ''naranjo-online''] ''sites'') (\<lambda>sites.
      bind (for_each (check_site sites) [''lidersea-com'', ''naranjo-online''] ()) (\<lambda>_.
      bind (check_epoch evidence) (\<lambda>_. Inr digest)))))))))))))"

definition selector_image_from_release ::
  "float_text \<Rightarrow> dict \<Rightarrow> string \<Rightarrow> string \<Rightarrow> expected_release \<Rightarrow> json res" where
  "selector_image_from_release fl release_record document bundle ex =
    bind (require_sha (JStr (expected_sha ex)) ''selector predecessor SHA'') (\<lambda>_.
    bind (identity (JStr (expected_tag ex))) (\<lambda>selected.
    bind (if id_version selected < 3
          then bind (require_sha (opt_str (expected_build_sha ex)) ''selector image build source SHA'') (\<lambda>_. Inr ())
          else Inr ()) (\<lambda>_.
    bind (require_optional_sha (expected_tag_object_sha ex) ''selector predecessor tag-object SHA'') (\<lambda>_.
    bind (require_optional_sha (expected_tree_sha ex) ''selector predecessor tree SHA'') (\<lambda>_.
    bind (validate_identity_asset_metadata fl release_record document bundle (expected_staged ex)
            (expected_api_repository ex) (expected_api_repository_id ex)) (\<lambda>evidence.
    check_identity_document selected ex release_record evidence))))))"

definition validate_identity_release_record ::
  "float_text \<Rightarrow> dict \<Rightarrow> string \<Rightarrow> string \<Rightarrow> expected_release \<Rightarrow> unit res" where
  "validate_identity_release_record fl release_record document bundle ex =
    bind (selector_image_from_release fl release_record document bundle
            (ex\<lparr>expected_build_sha := Some (case expected_build_sha ex of None \<Rightarrow> expected_sha ex | Some b \<Rightarrow> b)\<rparr>))
      (\<lambda>_. Inr ())"

end
