(* ===== verification/KeyOrder.thy ===== *)
theory KeyOrder
  imports IdentityCheck Evidence
begin

text \<open>
  The verifiers read a document by key: the key order that \<open>sort_keys=True\<close> writes is
  invisible to them.  Every check gives the same answer on a document and on the
  document in key order.
\<close>

section \<open>Reading a document in key order\<close>

lemma map_of_insort: "map_of (insort_key fst (k, v) d) = (map_of d)(k \<mapsto> v)"
  by (induction d) auto

lemma map_of_sort_items [simp]: "map_of (sort_items d) = map_of d"
  by (induction d) (auto simp: sort_items_def map_of_insort)

lemma map_of_sorted_dict [simp]: "map_of (sorted_dict d) k = map_option sorted_json (map_of d k)"
  unfolding sorted_dict_def by (simp add: map_of_map)

lemma keys_sorted_dict [simp]: "fst ` set (sorted_dict d) = fst ` set d"
  by (force simp: sorted_dict_def)

lemma get_sorted_dict [simp]: "get (sorted_dict d) k = sorted_json (get d k)"
  by (simp add: get_def split: option.splits)

lemma has_key_sorted_dict [simp]: "has_key (sorted_dict d) k = has_key d k"
  by (simp add: has_key_def)

lemma keys_are_sorted_dict [simp]: "keys_are (sorted_dict d) ks = keys_are d ks"
  by (simp add: keys_are_def)

lemma keys_include_sorted_dict [simp]: "keys_include (sorted_dict d) ks = keys_include d ks"
  unfolding keys_include_def list_all_iff by simp

lemma item_sorted_dict [simp]: "item (sorted_dict d) k = map_sum id sorted_json (item d k)"
  by (simp add: item_def split: option.splits)

lemma sorted_json_object [simp]: "sorted_json (JObj d) = JObj (sorted_dict d)"
  by (simp add: sorted_dict_def)

declare sorted_json.simps(7) [simp del]

lemma sorted_json_leaf [simp]:
  "sorted_json v = JNull \<longleftrightarrow> v = JNull" "sorted_json v = JBool b \<longleftrightarrow> v = JBool b"
  "sorted_json v = JInt i \<longleftrightarrow> v = JInt i" "sorted_json v = JStr s \<longleftrightarrow> v = JStr s"
  "JStr s = sorted_json v \<longleftrightarrow> JStr s = v"
  by (cases v; auto)+

lemma shape_sorted_json [simp]:
  "is_str (sorted_json v) = is_str v" "is_int (sorted_json v) = is_int v" "is_bool (sorted_json v) = is_bool v"
  "positive_int (sorted_json v) = positive_int v" "str_matches p (sorted_json v) = str_matches p v"
  "the_str (sorted_json v) = the_str v" "in_strs (sorted_json v) ss = in_strs v ss"
  by (cases v; auto simp: in_strs_def)+

lemma subscript_sorted_json [simp]: "subscript (sorted_json v) k = map_sum id sorted_json (subscript v k)"
  by (cases v) (auto simp: subscript_def)

lemma bind_map_sum [simp]: "bind (map_sum id f m) g = bind m (\<lambda>x. g (f x))"
  by (cases m) simp_all

lemma length_sorted_dict [simp]: "length (sorted_dict d) = length d"
  by (simp add: sorted_dict_def sort_items_def)

lemma set_sorted_dict: "set (sorted_dict d) = (\<lambda>(k, v). (k, sorted_json v)) ` set d"
  by (simp add: sorted_dict_def)

lemma json_eq_sorted_right [simp]: "json_eq v (sorted_json w) = json_eq v w"
proof (induction v w rule: json_eq.induct)
  case (6 xs w)
  show ?case
  proof (cases w)
    case (JArr ys)
    have "(case p of (x, y) \<Rightarrow> json_eq x (sorted_json y)) = (case p of (x, y) \<Rightarrow> json_eq x y)" if "p \<in> set (zip xs ys)" for p
      using 6 [OF JArr that] by (cases p) simp
    then have "list_all (\<lambda>(x, y). json_eq x (sorted_json y)) (zip xs ys) = list_all (\<lambda>(x, y). json_eq x y) (zip xs ys)"
      by (intro list.pred_cong) auto
    then show ?thesis using JArr by (simp add: zip_map2 list.pred_map comp_def case_prod_beta')
  qed (simp_all add: sorted_dict_def)
next
  case (7 d w)
  show ?case
  proof (cases w)
    case (JObj e)
    have "(case p of (k, v) \<Rightarrow> case map_of (sorted_dict e) k of Some u \<Rightarrow> json_eq v u | None \<Rightarrow> False)
        = (case p of (k, v) \<Rightarrow> case map_of e k of Some u \<Rightarrow> json_eq v u | None \<Rightarrow> False)" if "p \<in> set d" for p
      using 7 JObj that by (cases p) (auto split: option.splits)
    then show ?thesis using JObj by (simp add: list_all_iff)
  qed simp_all
next
  case (2 b w)
  then show ?case by (cases w) simp_all
next
  case (3 i w)
  then show ?case by (cases w) simp_all
next
  case (4 f w)
  then show ?case by (cases w) simp_all
qed simp_all

lemma json_eq_sorted_left [simp]: "json_eq (sorted_json v) w = json_eq v w"
proof (induction v arbitrary: w rule: sorted_json.induct)
  case (6 xs)
  show ?case
  proof (cases w)
    case (JArr ys)
    have "(case p of (x, y) \<Rightarrow> json_eq (sorted_json x) y) = (case p of (x, y) \<Rightarrow> json_eq x y)" if "p \<in> set (zip xs ys)" for p
      using 6 that by (cases p) (auto dest: set_zip_leftD)
    then have "list_all (\<lambda>(x, y). json_eq (sorted_json x) y) (zip xs ys) = list_all (\<lambda>(x, y). json_eq x y) (zip xs ys)"
      by (intro list.pred_cong) auto
    then show ?thesis using JArr by (simp add: zip_map1 list.pred_map comp_def case_prod_beta')
  qed simp_all
next
  case (7 d)
  show ?case
  proof (cases w)
    case (JObj e)
    have "json_eq (sorted_json v) u = json_eq v u" if "(k, v) \<in> set d" for k v u
      using 7 that by simp
    then show ?thesis using JObj
      by (force simp: list_all_iff set_sorted_dict split: option.splits)
  qed simp_all
qed simp_all

section \<open>The epoch checks\<close>

lemma version_sorted_json [simp]: "version (sorted_json v) = version v"
  by (cases v) (simp_all add: version_def sorted_dict_def)

lemma next_tag_sorted_json [simp]: "next_tag (sorted_json v) = next_tag v"
  by (simp add: next_tag_def)

lemma historical_loop_sorted_json: "historical_loop (sorted_json v) c hs = historical_loop v c hs"
  by (induction v c hs rule: historical_loop.induct) (simp_all add: bind_def split: sum.splits)

lemma historical_release_sorted_json [simp]: "historical_release (sorted_json v) = historical_release v"
  by (simp add: historical_release_def historical_loop_sorted_json)

lemma identity_sorted_json [simp]: "identity (sorted_json v) = identity v"
  unfolding identity_def version_sorted_json historical_release_sorted_json by (rule refl)

lemma repository_sorted_json [simp]: "repository (sorted_json v) (sorted_json w) = repository v w"
  by (cases v) (simp_all add: repository_def)

lemma case_sorted_json:
  "(case sorted_json v of JObj d \<Rightarrow> f d | _ \<Rightarrow> x) = (case v of JObj d \<Rightarrow> f (sorted_dict d) | _ \<Rightarrow> x)"
  "(case sorted_json v of JStr s \<Rightarrow> g s | _ \<Rightarrow> x) = (case v of JStr s \<Rightarrow> g s | _ \<Rightarrow> x)"
  by (cases v; simp)+

lemma sorted_json_str: "is_str w \<Longrightarrow> sorted_json v = sorted_json w \<longleftrightarrow> v = w"
  by (cases w) auto

lemma str_matches_is_str: "str_matches p v \<Longrightarrow> is_str v"
  by (cases v) simp_all

lemma value_error_if_drop: "(\<not> c \<Longrightarrow> k = k') \<Longrightarrow> value_error_if c msg k = value_error_if c msg k'"
  by (simp add: value_error_if_def)

lemma execution_shape_strings:
  "execution_shape ex = Inr u \<Longrightarrow> is_str (get ex ''source_sha'') \<and> is_str (get ex ''tree_sha'')"
  unfolding execution_shape_def by (auto dest: str_matches_is_str)

lemma value_error_if_str:
  "is_str w \<Longrightarrow> value_error_if (c (sorted_json v = sorted_json w)) msg k = value_error_if (c (v = w)) msg k"
  by (simp add: sorted_json_str)

lemma execution_shape_sorted [simp]: "execution_shape (sorted_dict d) = execution_shape d"
  unfolding execution_shape_def keys_are_sorted_dict get_sorted_dict shape_sorted_json case_sorted_json sorted_json_leaf
  by (intro value_error_if_drop) (auto simp: sorted_json_str str_matches_is_str split: json.splits)

lemma historical_evidence_sorted [simp]:
  "historical_evidence (sorted_dict d) (sorted_dict ex) (sorted_json s) f = historical_evidence d ex s f"
  unfolding historical_evidence_def
  by (simp only: item_sorted_dict subscript_sorted_json bind_map_sum sorted_json_leaf json_eq_sorted_left
      get_sorted_dict shape_sorted_json)

lemma ordinary_evidence_sorted:
  assumes "is_str (get ex ''source_sha'')" "is_str (get ex ''tree_sha'')"
  shows "ordinary_evidence (sorted_dict d) (sorted_dict ex) (sorted_json s) = ordinary_evidence d ex s"
proof -
  have "sorted_json (get ex ''source_sha'') = sorted_json v \<longleftrightarrow> get ex ''source_sha'' = v"
    "sorted_json (get ex ''tree_sha'') = sorted_json v \<longleftrightarrow> get ex ''tree_sha'' = v" for v
    using assms sorted_json_str by metis+
  then show ?thesis
    unfolding ordinary_evidence_def
    by (simp only: item_sorted_dict subscript_sorted_json bind_map_sum json_eq_sorted_left json_eq_sorted_right
        get_sorted_dict)
qed

lemma validate_execution_sorted [simp]: "validate_execution (sorted_dict d) = validate_execution d"
  unfolding validate_execution_def item_sorted_dict bind_map_sum case_sorted_json execution_shape_sorted
    subscript_sorted_json historical_release_sorted_json historical_evidence_sorted
  by (intro bind_cong refl) (auto split: json.splits option.splits intro!: bind_cong ordinary_evidence_sorted dest: execution_shape_strings)

lemma retired_selector_sorted [simp]: "retired_selector (sorted_dict d) = retired_selector d"
  unfolding retired_selector_def
  by (simp only: item_sorted_dict subscript_sorted_json bind_map_sum prod.inject sorted_json_leaf)

lemma validate_identity_sorted [simp]: "validate_identity (sorted_dict d) = validate_identity d"
  unfolding validate_identity_def
  by (simp only: item_sorted_dict subscript_sorted_json bind_map_sum prod.inject sorted_json_leaf get_sorted_dict
      identity_sorted_json repository_sorted_json next_tag_sorted_json version_sorted_json json_eq_sorted_left
      retired_selector_sorted validate_execution_sorted)

section \<open>The verifier of a document\<close>

lemma object_of_sorted [simp]: "object_of (sorted_json v) label = map_sum id sorted_dict (object_of v label)"
  by (cases v) (simp_all add: object_of_def)

lemma exact_fields_sorted [simp]: "exact_fields (sorted_json v) ks label = map_sum id sorted_dict (exact_fields v ks label)"
  by (cases v) (simp_all add: exact_fields_def object_of_def deny_if_def)

lemma check_source_sorted [simp]: "check_source ex (sorted_dict d) = check_source ex d"
  unfolding check_source_def
  by (simp only: get_sorted_dict exact_fields_sorted bind_map_sum sorted_json_leaf shape_sorted_json)

lemma check_release_sorted [simp]: "check_release ex r (sorted_dict d) = check_release ex r d"
  unfolding check_release_def
  by (simp only: get_sorted_dict exact_fields_sorted bind_map_sum shape_sorted_json sorted_json_object [symmetric]
      json_eq_sorted_left)

lemma check_tag_sorted [simp]: "check_tag ex (sorted_dict d) = check_tag ex d"
  unfolding check_tag_def
  by (simp only: get_sorted_dict exact_fields_sorted bind_map_sum sorted_json_leaf shape_sorted_json)

lemma edge_bad_sorted [simp]: "edge_bad (sorted_json p) (sorted_json s) tag sha = edge_bad p s tag sha"
  unfolding edge_bad_def case_sorted_json shape_sorted_json sorted_json_leaf by (rule refl)

lemma check_edge_sorted [simp]: "check_edge ex (sorted_dict d) = check_edge ex d"
  unfolding check_edge_def
  by (simp only: get_sorted_dict exact_fields_sorted bind_map_sum edge_bad_sorted shape_sorted_json)

lemma run_bad_sorted: "is_str sha \<Longrightarrow> run_bad (sorted_dict d) event sha workflow c = run_bad d event sha workflow c"
  by (cases sha) (simp_all add: run_bad_def)

lemma check_run_sorted:
  "is_str sha \<Longrightarrow> check_run (sorted_dict d) key workflow event c sha = check_run d key workflow event c sha"
  unfolding check_run_def by (simp only: get_sorted_dict exact_fields_sorted bind_map_sum run_bad_sorted)

lemma deny_if_drop: "(\<not> c \<Longrightarrow> k = k') \<Longrightarrow> deny_if c msg k = deny_if c msg k'"
  by (simp add: deny_if_def)

lemma sorted_json_self: "is_str v \<Longrightarrow> sorted_json v = v"
  by (cases v) simp_all

lemma check_selector_sorted [simp]: "check_selector ex (sorted_dict d) = check_selector ex d"
proof -
  have digest: "sorted_json (get x ''digest'') = get x ''digest''"
    if "\<not> (get x ''image'' \<noteq> JStr SELECTOR_IMAGE \<or> \<not> str_matches sha256_ref (get x ''digest''))" for x
    using that by (intro sorted_json_self) (blast intro: str_matches_is_str)
  show ?thesis
    unfolding check_selector_def Let_def get_sorted_dict exact_fields_sorted bind_map_sum shape_sorted_json
      sorted_json_leaf sorted_json_object [symmetric] json_eq_sorted_left
    by (rule bind_cong [OF refl], rule deny_if_drop, drule digest) (simp only:)
qed

lemma site_bad_sorted [simp]: "site_bad slug (sorted_dict c) (sorted_dict w) = site_bad slug c w"
proof (cases "str_matches sha256_ref (get c ''layer_digest'')")
  case True
  then have "sorted_json v = sorted_json (get c ''layer_digest'') \<longleftrightarrow> v = get c ''layer_digest''" for v
    by (intro sorted_json_str str_matches_is_str)
  then show ?thesis unfolding site_bad_def Let_def by simp
next
  case False
  then show ?thesis unfolding site_bad_def Let_def by simp
qed

lemma check_site_sorted [simp]: "check_site (sorted_dict d) slug u = check_site d slug u"
  unfolding check_site_def
  by (simp only: get_sorted_dict exact_fields_sorted bind_map_sum site_bad_sorted)

lemma validate_execution_string:
  assumes "validate_execution d = Inr u" "item d ''execution'' = Inr e" "subscript e ''source_sha'' = Inr v"
  shows "is_str v"
proof -
  from assms(1,2) obtain ex where "e = JObj ex" "execution_shape ex = Inr ()"
    unfolding validate_execution_def by auto
  with execution_shape_strings [of ex] assms(3) show ?thesis by (auto simp: item_eq_Inr get_def)
qed

lemma check_execution_sorted [simp]: "check_execution s ex (sorted_dict d) = check_execution s ex d"
proof -
  have "bind (item d ''execution'') (\<lambda>e. map_sum id sorted_json (subscript e ''source_sha'')) =
      bind (item d ''execution'') (\<lambda>e. subscript e ''source_sha'')" if "validate_execution d = Inr u" for u
  proof (rule bind_cong [OF refl])
    fix e
    assume "item d ''execution'' = Inr e"
    from validate_execution_string [OF that this]
    show "map_sum id sorted_json (subscript e ''source_sha'') = subscript e ''source_sha''"
      by (cases "subscript e ''source_sha''") (auto simp: sorted_json_self)
  qed
  then show ?thesis
    unfolding check_execution_def validate_execution_sorted item_sorted_dict bind_map_sum subscript_sorted_json
    by (auto intro!: bind_cong)
qed

lemma check_execution_is_str: "check_execution s ex d = Inr v \<Longrightarrow> is_str v"
  unfolding check_execution_def by (auto split: if_splits intro: validate_execution_string)

lemma check_epoch_sorted [simp]: "check_epoch (sorted_dict d) = check_epoch d"
  by (simp add: check_epoch_def)

lemma check_identity_document_sorted:
  "check_identity_document s ex r (sorted_dict d) = check_identity_document s ex r d"
  unfolding check_identity_document_def
  by (simp only: keys_are_sorted_dict get_sorted_dict sorted_json_leaf check_source_sorted check_release_sorted
      check_tag_sorted check_edge_sorted check_execution_sorted check_run_sorted check_selector_sorted
      exact_fields_sorted bind_map_sum check_site_sorted check_epoch_sorted is_str.simps)
    (auto intro!: bind_cong check_run_sorted deny_if_cong dest: check_execution_is_str)

end
