(* ===== verification/LedgerProps.thy ===== *)
theory LedgerProps
  imports Ledger
begin

text \<open>
  What the release ledger promises: the linear chain of a range, the exact,
  contiguous and ancestral sequence of release tags, the transition window as the
  exact next patch, and its stability under publication of the tag.
\<close>

declare One_nat_def [simp del]

section \<open>Version numbers\<close>

lemma version_less_iff:
  "Version a b c < Version a' b' c' \<longleftrightarrow> (a, b, c) < (a', b', c')"
  "Version a b c \<le> Version a' b' c' \<longleftrightarrow> (a, b, c) \<le> (a', b', c')"
  by (simp_all add: less_release_version_def less_eq_release_version_def)

lemma version_str_inj [simp]: "version_str v = version_str w \<longleftrightarrow> v = w"
  by (auto simp: version_str_def show_semver_inj release_version.expand)

lemma version_tag_inj [simp]: "version_tag v = version_tag w \<longleftrightarrow> v = w"
  by (simp add: version_tag_def)

lemma tag_version_Inr: "tag_version name = Inr v \<longleftrightarrow> name = version_tag v"
  by (cases v) (auto simp: tag_version_def tag_groups_iff version_tag_def version_str_def show_semver_inj
      split: option.splits)

interpretation release_tag_codec: canonical_codec version_tag tag_version "\<lambda>_. True"
  by unfold_locales (auto simp: tag_version_Inr)

definition next_patch :: "release_version \<Rightarrow> release_version" where
  "next_patch v = next_version (Some v)"

lemma next_patch_simp [simp]: "next_patch (Version a b c) = Version a b (Suc c)"
  by (simp add: next_patch_def next_version_def)

interpretation release_numbers: numbering next_patch
proof
  show "v < next_patch v" for v
    by (cases v) (simp add: version_less_iff less_prod_def)
qed

lemma next_patch_power: "(next_patch ^^ i) (Version a b c) = Version a b (c + i)"
  by (induction i) simp_all

section \<open>Loops that thread the previous element\<close>

lemma for_each_chain_iff:
  assumes "\<And>x s t. f x s = Inr t \<longleftrightarrow> t = x \<and> R s x"
  shows "(\<exists>s'. for_each f xs s = Inr s') \<longleftrightarrow> successively R (s # xs)"
proof (induction xs arbitrary: s)
  case (Cons x xs)
  have "(\<exists>s'. for_each f (x # xs) s = Inr s') \<longleftrightarrow> R s x \<and> (\<exists>s'. for_each f xs x = Inr s')"
    using assms by auto
  then show ?case by (simp add: Cons.IH)
qed simp

section \<open>One linear range\<close>

text \<open>\<open>commit\<close> has \<open>previous\<close> as its only parent.\<close>

definition only_parent :: "runner \<Rightarrow> string \<Rightarrow> string \<Rightarrow> bool" where
  "only_parent git previous commit =
    (case git_text git [''rev-list'', ''--parents'', ''-n'', ''1'', commit] of
       Inr out \<Rightarrow> words out = [commit, previous] | Inl _ \<Rightarrow> False)"

lemma chain_step_Inr: "chain_step git commit previous = Inr t \<longleftrightarrow> t = commit \<and> only_parent git previous commit"
  by (auto simp: chain_step_def only_parent_def split: sum.splits)

lemma linear_commits_Inr:
  "linear_commits git base head = Inr commits \<longleftrightarrow>
     is_ancestor git base head = Inr True \<and>
     (\<exists>raw. git_text git [''rev-list'', ''--first-parent'', ''--reverse'', base @ ''..'' @ head] = Inr raw
        \<and> commits = splitlines raw) \<and>
     commits \<noteq> [] \<and> last commits = head \<and> successively (only_parent git) (base # commits)"
proof -
  have loop: "(\<exists>s. for_each (chain_step git) commits base = Inr s) \<longleftrightarrow> successively (only_parent git) (base # commits)"
    by (rule for_each_chain_iff) (simp add: chain_step_Inr)
  show ?thesis
    unfolding linear_commits_def Let_def bind_eq_Inr deny_if_eq_Inr loop [symmetric] by auto
qed

text \<open>
  A release range that is accepted is one unbroken chain: it starts at a child
  of the base, every commit has the one before it as its only parent, and it ends at
  the head.
\<close>

theorem linear_range_is_chain:
  assumes "linear_commits git base head = Inr commits"
  shows "commits \<noteq> [] \<and> last commits = head \<and> successively (only_parent git) (base # commits)
    \<and> is_ancestor git base head = Inr True"
  using assms by (simp add: linear_commits_Inr)

section \<open>The ledger\<close>

text \<open>What relates a release to the one before it.\<close>

definition follows :: "runner \<Rightarrow> tag_boundary \<Rightarrow> tag_boundary \<Rightarrow> bool" where
  "follows git previous boundary \<longleftrightarrow>
     boundary_version boundary = next_patch (boundary_version previous) \<and>
     boundary_sha boundary \<noteq> boundary_sha previous \<and>
     is_ancestor git (boundary_sha previous) (boundary_sha boundary) = Inr True \<and>
     is_ok (linear_commits git (boundary_sha previous) (boundary_sha boundary)) \<and>
     (\<exists>fragment. release_surface_intents git (boundary_sha previous) (boundary_sha boundary) = Inr [fragment])"

lemma length_one_iff: "length xs = 1 \<longleftrightarrow> (\<exists>x. xs = [x])"
  by (cases xs) (auto simp: One_nat_def)

lemma ledger_step_Inr: "ledger_step git boundary previous = Inr t \<longleftrightarrow> t = boundary \<and> follows git previous boundary"
  by (auto simp: ledger_step_def follows_def next_patch_def is_ok_iff length_one_iff)

lemma floor_version: "version_parse (removeprefix TAG_LEDGER_FLOOR_TAG ''v'') = Inr (Version 0 1 9)"
  by code_simp

lemma floor_tag: "TAG_LEDGER_FLOOR_TAG = version_tag (Version 0 1 9)"
  by code_simp

lemma check_ledger_Inr:
  "check_ledger git boundaries = Inr ledger \<longleftrightarrow>
     ledger = filter (\<lambda>b. Version 0 1 9 \<le> boundary_version b) boundaries \<and> ledger \<noteq> [] \<and>
     boundary_tag (hd ledger) = TAG_LEDGER_FLOOR_TAG \<and> boundary_sha (hd ledger) = TAG_LEDGER_FLOOR_SHA \<and>
     successively (follows git) ledger"
proof -
  have loop: "(\<exists>s. for_each (ledger_step git) rest b = Inr s) \<longleftrightarrow> successively (follows git) (b # rest)" for b rest
    by (rule for_each_chain_iff) (simp add: ledger_step_Inr)
  show ?thesis
    unfolding check_ledger_def floor_version
    by (cases "filter (\<lambda>b. Version 0 1 9 \<le> boundary_version b) boundaries")
      (auto simp add: loop simp del: successively.simps)
qed

lemma read_boundary_Inr:
  assumes "read_boundary git name ver = Inr b"
  shows "boundary_version b = ver \<and> boundary_tag b = name \<and> sha1_hex (boundary_sha b)"
proof -
  from assms obtain raw where
    "let fields = split_on (CHR 0x00) (take (length raw - 2) raw) in
      (case fields of
        [object_type, peeled_type, embedded_name, tagger_name, tagger_email, tagger_date, message, source] \<Rightarrow>
        bind (require_sha (JStr source) (name @ '' target'')) (\<lambda>source_sha.
        bind (git_text git [''show'', ''-s'', ''--format=%cI'', source_sha]) (\<lambda>expected_date.
        deny_if
          (object_type \<noteq> ''tag'' \<or> peeled_type \<noteq> ''commit'' \<or> embedded_name \<noteq> name
            \<or> tagger_name \<noteq> RELEASE_TAGGER_NAME
            \<or> tagger_email \<noteq> ''<'' @ RELEASE_TAGGER_EMAIL @ ''>''
            \<or> tagger_date \<noteq> expected_date
            \<or> message \<noteq> ''Platform release '' @ name @ '' from '' @ source_sha)
          (''platform tag '' @ name @ '' metadata is not exact'')
          (Inr (TagBoundary ver name source_sha))))
      | _ \<Rightarrow> Inl (ContractError (''platform tag '' @ name @ '' metadata is incomplete''))) = Inr b"
    unfolding read_boundary_def bind_eq_Inr deny_if_eq_Inr Let_def by blast
  then show ?thesis
    by (auto simp: Let_def require_sha_def split: list.splits simp del: append.simps)
qed

text \<open>One tag name and the boundary it stands for.\<close>

definition boundary_of :: "runner \<Rightarrow> string \<Rightarrow> tag_boundary \<Rightarrow> bool" where
  "boundary_of git name b \<longleftrightarrow> (\<exists>v. tag_version name = Inr v \<and> read_boundary git name v = Inr b)"

lemma boundary_ofD:
  "boundary_of git name b \<Longrightarrow>
     name = boundary_tag b \<and> boundary_tag b = version_tag (boundary_version b) \<and> sha1_hex (boundary_sha b)"
  by (auto simp: boundary_of_def tag_version_Inr dest: read_boundary_Inr)

lemma collect_boundary_Inr:
  "collect_boundary git name (bs, vs) = Inr st \<longleftrightarrow>
     (\<exists>b. boundary_of git name b \<and> boundary_version b \<notin> set vs \<and> st = (bs @ [b], boundary_version b # vs))"
  by (auto simp: collect_boundary_def boundary_of_def dest: read_boundary_Inr)

lemma collect_boundaries_from:
  "for_each (collect_boundary git) names (bs, vs) = Inr (bs', vs') \<longleftrightarrow>
     (\<exists>cs. list_all2 (boundary_of git) names cs \<and> bs' = bs @ cs \<and> vs' = rev (map boundary_version cs) @ vs
       \<and> distinct (map boundary_version cs) \<and> set (map boundary_version cs) \<inter> set vs = {})"
proof (induction names arbitrary: bs vs)
  case Nil
  then show ?case by auto
next
  case (Cons n names)
  show ?case (is "?L \<longleftrightarrow> ?R")
  proof
    assume ?L
    then obtain b where b: "boundary_of git n b" "boundary_version b \<notin> set vs"
      and rest: "for_each (collect_boundary git) names (bs @ [b], boundary_version b # vs) = Inr (bs', vs')"
      by (auto simp: collect_boundary_Inr)
    from rest obtain cs where "list_all2 (boundary_of git) names cs" "bs' = (bs @ [b]) @ cs"
      "vs' = rev (map boundary_version cs) @ boundary_version b # vs" "distinct (map boundary_version cs)"
      "set (map boundary_version cs) \<inter> set (boundary_version b # vs) = {}"
      unfolding Cons.IH by blast
    with b show ?R by (intro exI [of _ "b # cs"]) auto
  next
    assume ?R
    then obtain b cs where b: "boundary_of git n b" "boundary_version b \<notin> set vs"
      and cs: "list_all2 (boundary_of git) names cs" "bs' = bs @ b # cs"
      "vs' = rev (map boundary_version (b # cs)) @ vs" "distinct (map boundary_version (b # cs))"
      "set (map boundary_version (b # cs)) \<inter> set vs = {}"
      by (auto simp: list_all2_Cons1)
    have "collect_boundary git n (bs, vs) = Inr (bs @ [b], boundary_version b # vs)"
      unfolding collect_boundary_Inr using b by blast
    moreover have "for_each (collect_boundary git) names (bs @ [b], boundary_version b # vs) = Inr (bs', vs')"
      unfolding Cons.IH using cs by (intro exI [of _ cs]) auto
    ultimately show ?L by simp
  qed
qed

lemma boundaries_names: "list_all2 (boundary_of git) names bs \<Longrightarrow> names = map boundary_tag bs"
  by (induction rule: list_all2_induct) (auto dest: boundary_ofD)

lemma boundaries_tags:
  "list_all2 (boundary_of git) names bs \<Longrightarrow> \<forall>b \<in> set bs. boundary_tag b = version_tag (boundary_version b)"
  by (induction rule: list_all2_induct) (auto dest: boundary_ofD)

lemma boundaries_distinct:
  assumes "list_all2 (boundary_of git) names bs"
  shows "distinct (map boundary_version bs) \<longleftrightarrow> distinct names"
proof -
  have "\<forall>b \<in> set bs. boundary_tag b = version_tag (boundary_version b)" by (rule boundaries_tags [OF assms])
  then have "map boundary_tag bs = map version_tag (map boundary_version bs)" by simp
  moreover have "names = map boundary_tag bs" by (rule boundaries_names [OF assms])
  ultimately have "names = map version_tag (map boundary_version bs)" by simp
  then show ?thesis by (simp add: distinct_map inj_on_def del: map_map)
qed

lemma collect_boundaries_Inr:
  "(\<exists>seen. for_each (collect_boundary git) names ([], []) = Inr (bs, seen)) \<longleftrightarrow>
     list_all2 (boundary_of git) names bs \<and> distinct names"
  by (auto simp: collect_boundaries_from boundaries_distinct)

lemma platform_tag_boundaries_Inr:
  "platform_tag_boundaries git = Inr ledger \<longleftrightarrow>
     (\<exists>names bs. tag_names git = Inr names \<and> list_all2 (boundary_of git) names bs \<and> distinct names
       \<and> check_ledger git (sort bs) = Inr ledger)"
proof -
  have "platform_tag_boundaries git = Inr ledger \<longleftrightarrow>
      (\<exists>names bs seen. tag_names git = Inr names \<and> for_each (collect_boundary git) names ([], []) = Inr (bs, seen)
        \<and> check_ledger git (sort bs) = Inr ledger)"
    by (auto simp: platform_tag_boundaries_def)
  then show ?thesis using collect_boundaries_Inr [of git] by blast
qed

lemma platform_tag_boundaries_chain:
  assumes "platform_tag_boundaries git = Inr ledger"
  shows "ledger \<noteq> [] \<and> boundary_sha (hd ledger) = TAG_LEDGER_FLOOR_SHA \<and> successively (follows git) ledger \<and>
    (\<forall>i < length ledger. boundary_version (ledger ! i) = Version 0 1 (9 + i) \<and>
       boundary_tag (ledger ! i) = version_tag (Version 0 1 (9 + i)))"
  (is "?ne \<and> ?floor \<and> ?chain \<and> ?versions")
proof -
  from assms obtain names bs where all: "list_all2 (boundary_of git) names bs"
    and checked: "check_ledger git (sort bs) = Inr ledger"
    by (auto simp: platform_tag_boundaries_Inr)
  have ne: ?ne and floor: ?floor and tag: "boundary_tag (hd ledger) = TAG_LEDGER_FLOOR_TAG" and chain: ?chain
    using checked unfolding check_ledger_Inr by blast+
  have tags: "boundary_tag b = version_tag (boundary_version b)" if "b \<in> set ledger" for b
    using that checked boundaries_tags [OF all] by (auto simp: check_ledger_Inr)
  have "version_tag (boundary_version (hd ledger)) = version_tag (Version 0 1 9)"
    using tags [of "hd ledger"] ne tag by (simp add: floor_tag)
  then have hd: "boundary_version (hd ledger) = Version 0 1 9" by simp
  obtain f rest where ledger: "ledger = f # rest" using ne by (cases ledger) auto
  have "successively (\<lambda>v w. w = next_patch v) (map boundary_version ledger)"
    using chain by (auto simp: successively_map follows_def elim: successively_mono)
  then have walk: "i < length ledger \<Longrightarrow> boundary_version (ledger ! i) = (next_patch ^^ i) (Version 0 1 9)" for i
    using release_numbers.walk_nth [of "boundary_version f" "map boundary_version rest" i] hd
    by (simp add: ledger nth_map [symmetric] del: nth_map)
  have ?versions
  proof (intro allI impI)
    fix i assume i: "i < length ledger"
    then have v: "boundary_version (ledger ! i) = Version 0 1 (9 + i)" by (simp add: walk next_patch_power)
    with tags [of "ledger ! i"] i show "boundary_version (ledger ! i) = Version 0 1 (9 + i) \<and>
       boundary_tag (ledger ! i) = version_tag (Version 0 1 (9 + i))" by simp
  qed
  with ne floor chain show ?thesis by simp
qed

text \<open>
  C1: the release ledger is the exact sequence of releases: it starts at the frozen
  migration floor, the release at position \<open>i\<close> is version \<open>0.1.(9+i)\<close> under its
  own tag, and every release follows the one before it: the next patch, a proper
  descendant along a linear chain that adds exactly one fragment.
\<close>

theorem ledger_contiguous:
  assumes "platform_tag_boundaries git = Inr ledger"
  shows "ledger \<noteq> [] \<and> boundary_sha (hd ledger) = TAG_LEDGER_FLOOR_SHA \<and> successively (follows git) ledger \<and>
    (\<forall>i < length ledger. boundary_version (ledger ! i) = Version 0 1 (9 + i) \<and>
       boundary_tag (ledger ! i) = version_tag (Version 0 1 (9 + i)))"
  using assms by (rule platform_tag_boundaries_chain)

text \<open>
  the ledger loses no release: its tags are exactly the version tags of the
  repository from the migration floor on, each once.
\<close>

theorem ledger_complete:
  assumes "platform_tag_boundaries git = Inr ledger" "tag_names git = Inr names"
  shows "distinct (map boundary_tag ledger) \<and>
    set (map boundary_tag ledger) = {version_tag v | v. version_tag v \<in> set names \<and> Version 0 1 9 \<le> v}"
proof -
  from assms obtain bs where all: "list_all2 (boundary_of git) names bs" and dist: "distinct names"
    and checked: "check_ledger git (sort bs) = Inr ledger"
    by (auto simp: platform_tag_boundaries_Inr)
  have names: "names = map boundary_tag bs" by (rule boundaries_names [OF all])
  have tags: "boundary_tag b = version_tag (boundary_version b)" if "b \<in> set bs" for b
    using boundaries_tags [OF all] that by blast
  have ledger: "ledger = filter (\<lambda>b. Version 0 1 9 \<le> boundary_version b) (sort bs)"
    using checked unfolding check_ledger_Inr by blast
  have "distinct bs" "inj_on boundary_tag (set bs)" using dist names by (simp_all add: distinct_map)
  moreover have "set ledger \<subseteq> set bs" by (auto simp: ledger)
  ultimately have dist': "distinct (map boundary_tag ledger)"
    by (auto simp: ledger distinct_map intro: inj_on_subset)
  have "t \<in> set (map boundary_tag ledger) \<longleftrightarrow> (\<exists>v. t = version_tag v \<and> version_tag v \<in> set names \<and> Version 0 1 9 \<le> v)"
    (is "_ = ?R t") for t
  proof
    assume "t \<in> set (map boundary_tag ledger)"
    then obtain b where "b \<in> set bs" "t = boundary_tag b" "Version 0 1 9 \<le> boundary_version b"
      by (auto simp: ledger)
    with tags show "?R t" by (intro exI [of _ "boundary_version b"]) (simp add: names rev_image_eqI)
  next
    assume "?R t"
    then obtain v where v: "t = version_tag v" "version_tag v \<in> set names" "Version 0 1 9 \<le> v" by blast
    then have "version_tag v \<in> boundary_tag ` set bs" by (simp add: names)
    then obtain b where "version_tag v = boundary_tag b" "b \<in> set bs" by (rule imageE)
    with v have b: "b \<in> set bs" "t = boundary_tag b" "boundary_tag b = version_tag v" "Version 0 1 9 \<le> v" by simp_all
    with tags have "boundary_version b = v" by simp
    with b show "t \<in> set (map boundary_tag ledger)" by (auto simp: ledger intro!: rev_image_eqI [of b])
  qed
  then have "set (map boundary_tag ledger) = {version_tag v | v. version_tag v \<in> set names \<and> Version 0 1 9 \<le> v}"
    by blast
  with dist' show ?thesis by blast
qed

lemma ledger_contiguous_ne: "platform_tag_boundaries git = Inr ledger \<Longrightarrow> ledger \<noteq> []"
  using platform_tag_boundaries_chain by blast

section \<open>The transition window\<close>

lemma length_gt_one: "(\<exists>x y zs. xs = x # y # zs) \<longleftrightarrow> 1 < length xs"
  by (cases xs rule: remdups_adj.cases) (auto simp: One_nat_def)

lemma published_window_None:
  "published_window git head previous ledger = Inr None \<longleftrightarrow> (\<forall>b \<in> set ledger. boundary_sha b \<noteq> head)"
  by (induction ledger arbitrary: previous) (auto split: list.splits option.splits)

lemma published_window_skip:
  "\<forall>b \<in> set bs. boundary_sha b \<noteq> head \<Longrightarrow> bs \<noteq> [] \<Longrightarrow>
     published_window git head previous (bs @ cs) = published_window git head (Some (last bs)) cs"
  by (induction bs arbitrary: previous) auto

lemma published_window_Some:
  "published_window git head previous ledger = Inr (Some w) \<Longrightarrow>
     \<exists>prev b rest fragment. boundary_sha b = head \<and>
       release_surface_intents git (boundary_sha prev) head = Inr [fragment] \<and>
       w = window_of prev head (boundary_version b) fragment \<and>
       ((previous = Some prev \<and> ledger = b # rest) \<or> (\<exists>pre. ledger = pre @ prev # b # rest))"
proof (induction ledger arbitrary: previous)
  case Nil
  then show ?case by simp
next
  case (Cons c ledger)
  show ?case
  proof (cases "boundary_sha c = head")
    case True
    with Cons.prems obtain prev fragment where "previous = Some prev"
      "release_surface_intents git (boundary_sha prev) head = Inr [fragment]"
      "w = window_of prev head (boundary_version c) fragment"
      by auto
    with True show ?thesis by blast
  next
    case False
    with Cons.prems have "published_window git head (Some c) ledger = Inr (Some w)" by simp
    from Cons.IH [OF this] show ?thesis
    proof (elim exE conjE disjE)
      fix prev b rest fragment
      assume "boundary_sha b = head" "release_surface_intents git (boundary_sha prev) head = Inr [fragment]"
        "w = window_of prev head (boundary_version b) fragment" "Some c = Some prev" "ledger = b # rest"
      then show ?thesis by (intro exI [of _ prev] exI [of _ b] exI [of _ rest] exI [of _ fragment]) auto
    next
      fix prev b rest fragment pre
      assume "boundary_sha b = head" "release_surface_intents git (boundary_sha prev) head = Inr [fragment]"
        "w = window_of prev head (boundary_version b) fragment" "ledger = pre @ prev # b # rest"
      then show ?thesis
        by (intro exI [of _ prev] exI [of _ b] exI [of _ rest] exI [of _ fragment]) (auto intro: exI [of _ "c # pre"])
    qed
  qed
qed

lemma new_window_Inr:
  "new_window git head ledger = Inr w \<longleftrightarrow>
     (\<exists>u. for_each (behind_step git head) ledger () = Inr u) \<and>
     is_ancestor git (boundary_sha (last ledger)) head = Inr True \<and>
     (\<exists>fragment. release_surface_intents git (boundary_sha (last ledger)) head = Inr [fragment] \<and>
        w = window_of (last ledger) head (next_patch (boundary_version (last ledger))) fragment)"
  by (auto simp: new_window_def Let_def next_patch_def)

lemma exact_commit_Inr: "exact_commit git revision field = Inr r \<longleftrightarrow>
     r = revision \<and> sha1_hex revision \<and> git_text git [''rev-parse'', ''--verify'', revision @ ''^{commit}''] = Inr revision"
  by (auto simp: exact_commit_def require_sha_def)

lemma discover_Inr:
  "discover_transition_window git head = Inr w \<longleftrightarrow>
     exact_commit git head ''head SHA'' = Inr head \<and>
     (\<exists>ledger. platform_tag_boundaries git = Inr ledger \<and>
       (published_window git head None ledger = Inr (Some w) \<or>
        (published_window git head None ledger = Inr None \<and> new_window git head ledger = Inr w)))"
  by (auto simp: discover_transition_window_def exact_commit_Inr split: option.splits)

lemma discover_window:
  assumes "discover_transition_window git head = Inr w"
  shows "\<exists>ledger prev fragment. platform_tag_boundaries git = Inr ledger \<and> prev \<in> set ledger \<and>
    base_sha w = boundary_sha prev \<and> base_tag w = boundary_tag prev \<and>
    intent_source_sha (window_intent w) = head \<and>
    intent_version (window_intent w) = next_patch (boundary_version prev) \<and>
    release_surface_intents git (base_sha w) head = Inr [fragment] \<and>
    window_fragment_path w = fragment_path fragment \<and> window_fragment_sha256 w = fragment_sha256 fragment \<and>
    (if head \<in> boundary_sha ` set ledger
     then TagBoundary (intent_version (window_intent w)) (intent_tag (window_intent w)) head \<in> set ledger
     else prev = last ledger)"
proof -
  from assms obtain ledger where ledger: "platform_tag_boundaries git = Inr ledger"
    and either: "published_window git head None ledger = Inr (Some w) \<or>
      (published_window git head None ledger = Inr None \<and> new_window git head ledger = Inr w)"
    unfolding discover_Inr by blast
  have ne: "ledger \<noteq> []" and chain: "successively (follows git) ledger"
    and tags: "\<And>i. i < length ledger \<Longrightarrow> boundary_tag (ledger ! i) = version_tag (boundary_version (ledger ! i))"
    using platform_tag_boundaries_chain [OF ledger] by auto
  from either show ?thesis
  proof
    assume "published_window git head None ledger = Inr (Some w)"
    from published_window_Some [OF this] obtain prev b rest fragment pre where b: "boundary_sha b = head"
      and intents: "release_surface_intents git (boundary_sha prev) head = Inr [fragment]"
      and w: "w = window_of prev head (boundary_version b) fragment" and eq: "ledger = pre @ prev # b # rest"
      by auto
    have "follows git prev b" using chain by (simp add: eq successively_append_iff)
    then have "boundary_version b = next_patch (boundary_version prev)" by (simp add: follows_def)
    moreover have "boundary_tag b = version_tag (boundary_version b)"
      using tags [of "Suc (length pre)"] by (simp add: eq nth_append)
    moreover have "head \<in> boundary_sha ` set ledger" using b by (auto simp: eq)
    moreover have "TagBoundary (boundary_version b) (boundary_tag b) head = b" using b by (cases b) simp
    ultimately show ?thesis
      using ledger intents w
      by (intro exI [of _ ledger] exI [of _ prev] exI [of _ fragment]) (simp add: eq window_of_def intent_tag_def)
  next
    assume new: "published_window git head None ledger = Inr None \<and> new_window git head ledger = Inr w"
    then obtain fragment where
      intents: "release_surface_intents git (boundary_sha (last ledger)) head = Inr [fragment]"
      and w: "w = window_of (last ledger) head (next_patch (boundary_version (last ledger))) fragment"
      unfolding new_window_Inr by blast
    have "head \<notin> boundary_sha ` set ledger" using new by (auto simp: published_window_None)
    with ledger intents w ne show ?thesis
      by (intro exI [of _ ledger] exI [of _ "last ledger"] exI [of _ fragment]) (simp add: window_of_def)
  qed
qed

lemma discover_base_differs:
  assumes "discover_transition_window git head = Inr w"
  shows "base_sha w \<noteq> head"
proof -
  from assms obtain ledger where ledger: "platform_tag_boundaries git = Inr ledger"
    and either: "published_window git head None ledger = Inr (Some w) \<or>
      (published_window git head None ledger = Inr None \<and> new_window git head ledger = Inr w)"
    unfolding discover_Inr by blast
  have ne: "ledger \<noteq> []" and chain: "successively (follows git) ledger"
    using platform_tag_boundaries_chain [OF ledger] by auto
  from either show ?thesis
  proof
    assume "published_window git head None ledger = Inr (Some w)"
    from published_window_Some [OF this] obtain prev b rest fragment pre where b: "boundary_sha b = head"
      and w: "w = window_of prev head (boundary_version b) fragment" and eq: "ledger = pre @ prev # b # rest"
      by auto
    have "follows git prev b" using chain by (simp add: eq successively_append_iff)
    with b w show ?thesis by (auto simp: follows_def window_of_def)
  next
    assume new: "published_window git head None ledger = Inr None \<and> new_window git head ledger = Inr w"
    then have "head \<notin> boundary_sha ` set ledger" by (auto simp: published_window_None)
    moreover have "base_sha w = boundary_sha (last ledger)" using new by (auto simp: new_window_Inr window_of_def)
    ultimately show ?thesis using ne by auto
  qed
qed

text \<open>
  C2: a transition window is the exact next patch: its base is a release of the
  ledger, its version the patch after it, and the range from the base to the head
  adds the one fragment the window names.  The head is either the release that
  follows the base in the ledger, or unreleased, and then the base is the latest
  release.
\<close>

theorem window_is_next_patch:
  assumes "discover_transition_window git head = Inr w"
  shows "\<exists>ledger prev fragment. platform_tag_boundaries git = Inr ledger \<and> prev \<in> set ledger \<and>
    base_sha w = boundary_sha prev \<and> base_tag w = boundary_tag prev \<and>
    intent_source_sha (window_intent w) = head \<and>
    intent_version (window_intent w) = next_patch (boundary_version prev) \<and>
    release_surface_intents git (base_sha w) head = Inr [fragment] \<and>
    window_fragment_path w = fragment_path fragment \<and> window_fragment_sha256 w = fragment_sha256 fragment \<and>
    (if head \<in> boundary_sha ` set ledger
     then TagBoundary (intent_version (window_intent w)) (intent_tag (window_intent w)) head \<in> set ledger
     else prev = last ledger)"
  using assms by (rule discover_window)

section \<open>Waiting releases\<close>

text \<open>Nothing below the window raises \<open>PendingRelease\<close>.\<close>

fun not_pending :: "exc \<Rightarrow> bool" where
  "not_pending (PendingRelease _) = False"
| "not_pending _ = True"

lemma errs_runs [errs]:
  "P OSError \<Longrightarrow> P SubprocessError \<Longrightarrow> errs P (run_bytes git args)"
  "P OSError \<Longrightarrow> P SubprocessError \<Longrightarrow> P UnicodeDecodeError \<Longrightarrow> errs P (run_text git args)"
  by (auto simp: run_bytes_def run_text_def split: outcome.splits)

lemma errs_require_sha: "(\<And>m. P (ContractError m)) \<Longrightarrow> errs P (require_sha raw field)"
  unfolding require_sha_def by (intro errs)

lemma errs_git:
  assumes "\<And>m. P (ContractError m)" "P OSError" "P SubprocessError"
  shows "errs P (git_bytes git args)" "errs P (is_ancestor git a b)" "errs P (nul_paths git args)"
    "errs P (require_regular_fragment_entry git a b)" "errs P (file_bytes git a b)"
  unfolding git_bytes_def is_ancestor_def nul_paths_def nul_path_def require_regular_fragment_entry_def Let_def
    file_bytes_def
  by (intro errs errs_for_each assms)+

lemma errs_git_text:
  assumes "\<And>m. P (ContractError m)" "P OSError" "P SubprocessError" "P UnicodeDecodeError"
  shows "errs P (git_text git args)" "errs P (exact_commit git a b)"
  unfolding git_text_def exact_commit_def
  by (intro errs errs_require_sha assms)+

lemma errs_fragment: "(\<And>m. P (ContractError m)) \<Longrightarrow> errs P (validate_fragment_bytes path payload)"
  unfolding validate_fragment_bytes_def validate_fragment_lines_def by (intro errs)

lemma errs_ledger:
  assumes "\<And>m. P (ContractError m)" "P OSError" "P SubprocessError" "P UnicodeDecodeError"
  shows "errs P (linear_commits git a b)" "errs P (release_surface_intents git a b)"
    "errs P (platform_tag_boundaries git)"
proof -
  show lin: "errs P (linear_commits git a b)" for a b
    unfolding linear_commits_def chain_step_def Let_def
    by (intro errs errs_for_each errs_git_text errs_git assms)
  show rsi: "errs P (release_surface_intents git a b)" for a b
    unfolding release_surface_intents_def fragment_intent_of_def Let_def
    by (intro errs errs_map_res lin errs_git_text errs_git errs_fragment assms)
  have rb: "errs P (read_boundary git n v)" for n v
    unfolding read_boundary_def Let_def
    by (intro errs errs_require_sha errs_git_text errs_git assms)
  show "errs P (platform_tag_boundaries git)"
    unfolding platform_tag_boundaries_def tag_names_def collect_boundary_def tag_version_def check_ledger_def
      version_parse_def ledger_step_def Let_def
    by (intro errs errs_for_each rb lin rsi errs_git_text errs_git assms)
qed

lemma errs_published_window:
  assumes "\<And>m. P (ContractError m)" "P OSError" "P SubprocessError" "P UnicodeDecodeError"
  shows "errs P (published_window git head previous ledger)"
proof (induction ledger arbitrary: previous)
  case (Cons b ledger)
  show ?case unfolding published_window.simps by (intro errs errs_ledger assms Cons.IH)
qed simp

lemma not_pending_simps: "not_pending OSError" "not_pending SubprocessError" "not_pending UnicodeDecodeError"
    "not_pending (ContractError m)"
  by simp_all

text \<open>
  C6: \<open>PendingRelease\<close> means exactly that earlier main commits still wait for their
  release: it is raised only for an unreleased head above the latest release whose
  range to that release adds more than one fragment.
\<close>

theorem pending_means_backlog:
  assumes "discover_transition_window git head = Inl (PendingRelease m)"
  shows "\<exists>ledger intents. platform_tag_boundaries git = Inr ledger \<and> head \<notin> boundary_sha ` set ledger \<and>
    is_ancestor git (boundary_sha (last ledger)) head = Inr True \<and>
    release_surface_intents git (boundary_sha (last ledger)) head = Inr intents \<and> 1 < length intents"
proof -
  note np = not_pending_simps
  have "errs not_pending (exact_commit git head ''head SHA'')" "errs not_pending (platform_tag_boundaries git)"
    "errs not_pending (published_window git head None ledger)" for ledger
    by (rule errs_git_text errs_ledger errs_published_window; fact np)+
  then have no: "exact_commit git head ''head SHA'' \<noteq> Inl (PendingRelease m)"
    "platform_tag_boundaries git \<noteq> Inl (PendingRelease m)"
    "published_window git head None ledger \<noteq> Inl (PendingRelease m)" for ledger
    using errsD not_pending.simps(1) by metis+
  with assms obtain ledger where ledger: "platform_tag_boundaries git = Inr ledger"
    and none: "published_window git head None ledger = Inr None"
    and new: "new_window git head ledger = Inl (PendingRelease m)"
    unfolding discover_transition_window_def bind_eq_Inl exact_commit_Inr
    by (auto split: option.splits)
  have anc: "errs not_pending (is_ancestor git a b)" "errs not_pending (release_surface_intents git a b)"
    "errs not_pending (for_each (behind_step git head) ledger ())" for a b
    unfolding behind_step_def
    by (rule errs_git errs_ledger; simp)+ (intro errs_for_each errs errs_git; simp)
  then have no: "is_ancestor git a b \<noteq> Inl (PendingRelease m)"
    "release_surface_intents git a b \<noteq> Inl (PendingRelease m)"
    "for_each (behind_step git head) ledger () \<noteq> Inl (PendingRelease m)" for a b
    using errsD not_pending.simps(1) by metis+
  obtain intents where "is_ancestor git (boundary_sha (last ledger)) head = Inr True"
    "release_surface_intents git (boundary_sha (last ledger)) head = Inr intents" "1 < length intents"
    using new no
    by (cases "release_surface_intents git (boundary_sha (last ledger)) head")
      (auto simp: new_window_def Let_def res_errors length_gt_one [symmetric] split: list.splits)
  with ledger none show ?thesis by (auto simp: published_window_None)
qed

end
