(* ===== verification/PublisherProps.thy ===== *)
theory PublisherProps
  imports KeyOrder LedgerProps
begin

text \<open>
  The publisher and the verifier of a signed identity agree: the document that
  \<open>render_release_identity\<close> writes for a release edge is accepted, byte for byte, by
  the reader of canonical documents and by every check on the document.
\<close>

section \<open>The edge and its epoch\<close>

lemma require_sha_Inr [simp]: "require_sha v field = Inr s \<longleftrightarrow> v = JStr s \<and> sha1_hex s"
  by (cases v) (auto simp: require_sha_def)

lemma git_tree_sha: "git_tree git commit field = Inr tree \<Longrightarrow> sha1_hex tree"
  by (auto simp: git_tree_def)

lemma select_epoch_identity: "select_epoch head tag base_commit base_name args = Inr s \<Longrightarrow> identity (JStr tag) = Inr s"
  unfolding select_epoch_def by (auto split: if_splits dest: publication_Inr(3))

lemma identity_publisher:
  assumes "identity tag = Inr s"
  shows "id_version s = 4 \<longleftrightarrow> id_publisher_workflow s \<noteq> None" "id_version s = 4 \<longleftrightarrow> id_publisher_event s \<noteq> None"
proof -
  from assms obtain v where v: "version tag = Inr v" by (auto simp: identity_def)
  show "id_version s = 4 \<longleftrightarrow> id_publisher_workflow s \<noteq> None" "id_version s = 4 \<longleftrightarrow> id_publisher_event s \<noteq> None"
    using assms v unfolding identity_def Let_def historical_release_eq by (auto split: if_splits)
qed

lemma release_target_ordinary:
  assumes "identity (JStr tag) = Inr s" "id_version s \<noteq> 4"
  shows "release_target tag sha = Inr sha"
proof -
  from assms(1) obtain v where v: "version (JStr tag) = Inr v" by (rule identity_Inr)
  have "historical_release (JStr tag) = Inr None"
  proof (cases "historical_release (JStr tag)")
    case (Inr f)
    show ?thesis
    proof (cases f)
      case (Some h)
      with Inr obtain w where w: "JStr tag = JStr (tag_text w)" "(w, h) \<in> set historical_table"
        by (auto simp: historical_release_Some)
      with v have "w = v" by (simp add: version_Inr)
      with w(2) historical_table_bounds have "epoch_of v = 4" by (auto simp: epoch_four)
      with assms identity_version [OF assms(1) v] show ?thesis by simp
    qed (use Inr in simp)
  qed (simp add: historical_release_eq)
  then show ?thesis by (simp add: release_target_def)
qed

lemma next_patch_edge:
  assumes "sha1_hex sha" "sha \<noteq> head"
  shows "\<not> edge_bad (JStr (version_tag v)) (JStr sha) (version_tag (next_patch v)) head"
proof -
  have "tag_groups (version_tag u) = Some (major u, minor u, patch u)" for u
    by (simp add: tag_groups_iff version_tag_def version_str_def)
  with assms show ?thesis by (cases v) (simp add: edge_bad_def)
qed

text \<open>The edge of a discovered window, as the verifier asks for it.\<close>

lemma window_edge:
  assumes "discover_transition_window git head = Inr w" "sha1_hex (base_sha w)"
  shows "\<not> edge_bad (JStr (base_tag w)) (JStr (base_sha w)) (intent_tag (window_intent w)) head"
    "fragment_path_ok (window_fragment_path w)" "sha256_ref (''sha256:'' @ window_fragment_sha256 w)"
proof -
  from discover_window [OF assms(1)] obtain ledger prev fragment where
    ledger: "platform_tag_boundaries git = Inr ledger" "prev \<in> set ledger" and base: "base_tag w = boundary_tag prev"
    and ver: "intent_version (window_intent w) = next_patch (boundary_version prev)"
    and intents: "release_surface_intents git (base_sha w) head = Inr [fragment]"
    and frag: "window_fragment_path w = fragment_path fragment" "window_fragment_sha256 w = fragment_sha256 fragment"
    by blast
  have "boundary_tag prev = version_tag (boundary_version prev)"
    using platform_tag_boundaries_chain [OF ledger(1)] ledger(2) by (auto simp: in_set_conv_nth)
  with ver base show "\<not> edge_bad (JStr (base_tag w)) (JStr (base_sha w)) (intent_tag (window_intent w)) head"
    using next_patch_edge [OF assms(2) discover_base_differs [OF assms(1)]] by (simp add: intent_tag_def)
  from intents obtain path where "fragment_intent_of git head path = Inr fragment"
    unfolding release_surface_intents_def Let_def bind_eq_Inr deny_if_eq_Inr map_res_Inr_iff
    by (auto simp: list_all2_Cons2)
  then show "fragment_path_ok (window_fragment_path w)" "sha256_ref (''sha256:'' @ window_fragment_sha256 w)"
    unfolding frag fragment_intent_of_def validate_fragment_bytes_def
    by (auto simp: sha256_ref_hex simp del: append.simps)
qed

section \<open>The fields of a rendered document\<close>

text \<open>What every epoch writes; the execution of the fourth and the selector of the first two follow.\<close>

definition common_fields ::
  "transition_window \<Rightarrow> epoch_identity \<Rightarrow> string \<Rightarrow> string \<Rightarrow> string \<Rightarrow> string \<Rightarrow> run_ids \<Rightarrow> dict \<Rightarrow> bool" where
  "common_fields window selected head tree tag tag_object ids d \<longleftrightarrow>
     get d ''changelog'' = JObj [(''fragment_path'', JStr (window_fragment_path window)),
       (''fragment_sha256'', JStr (''sha256:'' @ window_fragment_sha256 window))] \<and>
     get d ''main_ci'' = JObj (main_ci_evidence head (main_run_id ids) (main_run_attempt ids)) \<and>
     get d ''predecessor'' = JObj [(''peeled_commit'', JStr (base_sha window)), (''tag'', JStr (base_tag window))] \<and>
     get d ''repository'' = JStr (id_repository selected) \<and> get d ''schema'' = JStr (id_schema selected) \<and>
     get d ''source'' =
       JObj [(''merge_sha'', JStr head), (''protected_ref'', JStr PROTECTED_REF), (''tree_sha'', JStr tree)] \<and>
     get d ''tag'' = JObj [(''name'', JStr tag), (''object_sha'', JStr tag_object), (''object_type'', JStr ''tag''),
       (''peeled_commit'', JStr head)]"

lemma common_fields_base: "common_fields window selected head tree tag tag_object ids
    (base_evidence window selected head tree tag tag_object ids)"
  unfolding common_fields_def base_evidence_def by simp

lemma base_platform: "get (base_evidence window selected head tree tag tag_object ids) ''platform_release'' =
    JObj (platform_evidence ''workflow_run'' head PLATFORM_WORKFLOW_PATH ids)"
  by (simp add: base_evidence_def)

lemma base_release: "get (base_evidence window selected head tree tag tag_object ids) ''release'' =
    JObj (release_evidence (JInt (release_id ids)) tag head)"
  by (simp add: base_evidence_def)

lemma common_fields_put [simp]:
  "k \<notin> {''changelog'', ''main_ci'', ''predecessor'', ''repository'', ''schema'', ''source'', ''tag''} \<Longrightarrow>
   common_fields window selected head tree tag tag_object ids (put d k v) =
   common_fields window selected head tree tag tag_object ids d"
proof -
  assume k: "k \<notin> {''changelog'', ''main_ci'', ''predecessor'', ''repository'', ''schema'', ''source'', ''tag''}"
  have "f \<in> {''changelog'', ''main_ci'', ''predecessor'', ''repository'', ''schema'', ''source'', ''tag''} \<Longrightarrow>
      get (put d k v) f = get d f" for f
    using k by auto
  then show ?thesis unfolding common_fields_def by (simp only: insert_iff simp_thms)
qed

lemma with_execution_Inr:
  assumes "with_execution git selected head tag ids execution run attempt d = Inr d'"
  obtains executor tree r a target where "sha1_hex executor" "sha1_hex tree" "0 < r" "0 < a"
    "release_target tag head = Inr target"
    "d' = put (put (put d ''execution'' (JObj [(''source_sha'', JStr executor), (''tree_sha'', JStr tree),
             (''main_ci'', JObj (main_ci_evidence executor r a))]))
           ''platform_release'' (JObj (platform_evidence (case id_publisher_event selected of Some e \<Rightarrow> e | None \<Rightarrow> [])
             executor (case id_publisher_workflow selected of Some w \<Rightarrow> w | None \<Rightarrow> []) ids)))
           ''release'' (JObj (release_evidence (JInt (release_id ids)) tag target))"
proof -
  obtain executor tree where
    1: "exact_commit git (case execution of None \<Rightarrow> head | Some sha \<Rightarrow> sha) ''executor SHA'' = Inr executor"
    and 2: "git_tree git executor ''executor tree SHA'' = Inr tree"
    using assms unfolding with_execution_def bind_eq_Inr by blast
  let ?run = "if executor = head \<and> run = None then Some (main_run_id ids) else run"
  let ?attempt = "if executor = head \<and> attempt = None then Some (main_run_attempt ids) else attempt"
  note body = assms [unfolded with_execution_def 1 2 bind_simps Let_def]
  obtain r a where ra: "?run = Some r" "?attempt = Some a"
    using body by (cases ?run; cases ?attempt) (simp_all only: prod.case option.case, simp_all)
  from body [unfolded ra prod.case option.case deny_if_eq_Inr bind_eq_Inr sum.inject]
  obtain target where bounds: "\<not> (r \<le> 0 \<or> a \<le> 0)" and target: "release_target tag head = Inr target"
    and d': "put (put (put d ''execution'' (JObj [(''source_sha'', JStr executor), (''tree_sha'', JStr tree),
             (''main_ci'', JObj (main_ci_evidence executor r a))]))
           ''platform_release'' (JObj (platform_evidence (case id_publisher_event selected of Some e \<Rightarrow> e | None \<Rightarrow> [])
             executor (case id_publisher_workflow selected of Some w \<Rightarrow> w | None \<Rightarrow> []) ids)))
           ''release'' (JObj (release_evidence (JInt (release_id ids)) tag target)) = d'"
    by blast
  have "sha1_hex executor" using 1 by (auto simp: exact_commit_Inr)
  from that [OF this git_tree_sha [OF 2] _ _ target d' [symmetric]] bounds show thesis by simp
qed

section \<open>The sites of the first two epochs\<close>

lemma site_identity_Inr:
  assumes "site_identity records (slug, subject) identities = Inr identities'"
  obtains chart workload where
    "identities' = put identities slug (JObj [(''chart'', JObj chart), (''workload'', JObj workload)])"
    "keys_are chart [''layer_digest'', ''manifest_digest'', ''repository'', ''version'']"
    "keys_are workload [''arm64_digest'', ''image'']" "\<not> site_bad slug chart workload"
    "plain_json (JObj chart)" "plain_json (JObj workload)"
proof -
  from assms obtain site chart release signer where
    bad: "\<not> site_record_bad slug subject site chart release signer"
    and image: "\<not> (\<not> startswith (the_str (get site ''workloadImage'')) (image_prefix slug (the_str (get site ''chartTag''))) \<or>
      \<not> sha256_ref (removeprefix (the_str (get site ''workloadImage'')) (image_prefix slug (the_str (get site ''chartTag'')))) \<or>
      JStr (removeprefix (the_str (get site ''workloadImage'')) (image_prefix slug (the_str (get site ''chartTag''))))
        = get site ''arm64Digest'')"
    and result: "put identities slug
           (JObj [(''chart'', JObj [(''layer_digest'', get site ''chartLayerDigest''),
                     (''manifest_digest'', get site ''manifestDigest''),
                     (''repository'', JStr (''ghcr.io/snaraj/charts/'' @ slug)),
                     (''version'', JStr (the_str (get site ''chartTag'')))]),
                  (''workload'', JObj [(''arm64_digest'', get site ''arm64Digest''),
                     (''image'', JStr (the_str (get site ''workloadImage'')))])]) = identities'"
    unfolding site_identity_def prod.case bind_eq_Inr deny_if_eq_Inr Let_def sum.inject by blast
  from bad have shape: "str_matches semver_text (get site ''chartTag'')" "str_matches sha256_ref (get site ''manifestDigest'')"
    "str_matches sha256_ref (get site ''chartLayerDigest'')" "get site ''manifestDigest'' \<noteq> get site ''chartLayerDigest''"
    "str_matches sha256_ref (get site ''arm64Digest'')"
    unfolding site_record_bad_def Let_def by blast+
  then obtain ver manifest layer arm where v: "get site ''chartTag'' = JStr ver" "get site ''manifestDigest'' = JStr manifest"
    "get site ''chartLayerDigest'' = JStr layer" "get site ''arm64Digest'' = JStr arm"
    unfolding str_matches_iff by blast
  let ?chart = "[(''layer_digest'', JStr layer), (''manifest_digest'', JStr manifest),
      (''repository'', JStr (''ghcr.io/snaraj/charts/'' @ slug)), (''version'', JStr ver)]"
  let ?workload = "[(''arm64_digest'', JStr arm), (''image'', JStr (the_str (get site ''workloadImage'')))]"
  have "\<not> site_bad slug ?chart ?workload"
    using shape image v unfolding site_bad_def Let_def by simp
  moreover have "keys_are ?chart [''layer_digest'', ''manifest_digest'', ''repository'', ''version'']"
    "keys_are ?workload [''arm64_digest'', ''image'']" "plain_json (JObj ?chart)" "plain_json (JObj ?workload)"
    by (simp_all add: keys_are_def)
  moreover have "identities' = put identities slug (JObj [(''chart'', JObj ?chart), (''workload'', JObj ?workload)])"
    using result unfolding v the_str.simps by (rule sym)
  ultimately show thesis using that [of ?chart ?workload] by blast
qed

lemma site_identities_Inr:
  assumes "site_identities_from_receipt fl payload = Inr sites"
  shows "keys_are sites [''lidersea-com'', ''naranjo-online''] \<and> plain_json (JObj sites) \<and>
    for_each (check_site sites) [''lidersea-com'', ''naranjo-online''] () = Inr ()"
proof -
  from assms obtain records where "for_each (site_identity records) site_subjects [] = Inr sites"
    unfolding site_identities_from_receipt_def bind_eq_Inr deny_if_eq_Inr by blast
  then obtain first s1 s2 where one: "site_identity records (''lidersea-com'', s1) [] = Inr first"
    and two: "site_identity records (''naranjo-online'', s2) first = Inr sites"
    unfolding site_subjects_def by (auto simp del: append.simps)
  from one obtain c1 w1 where 1: "first = [(''lidersea-com'', JObj [(''chart'', JObj c1), (''workload'', JObj w1)])]"
    "keys_are c1 [''layer_digest'', ''manifest_digest'', ''repository'', ''version'']"
    "keys_are w1 [''arm64_digest'', ''image'']" "\<not> site_bad ''lidersea-com'' c1 w1"
    "plain_json (JObj c1)" "plain_json (JObj w1)"
    by (rule site_identity_Inr) simp
  from two obtain c2 w2 where 2: "sites = put first ''naranjo-online'' (JObj [(''chart'', JObj c2), (''workload'', JObj w2)])"
    "keys_are c2 [''layer_digest'', ''manifest_digest'', ''repository'', ''version'']"
    "keys_are w2 [''arm64_digest'', ''image'']" "\<not> site_bad ''naranjo-online'' c2 w2"
    "plain_json (JObj c2)" "plain_json (JObj w2)"
    by (rule site_identity_Inr)
  show ?thesis
    using 1 2 by (simp add: check_site_def exact_fields_def keys_are_def object_of_def deny_if_def)
qed

section \<open>The rendered document as a whole\<close>

lemma keys_put_image [simp]: "fst ` set (put d k v) = insert k (fst ` set d)"
  using keys_put [of d k v] by simp

lemma has_key_put [simp]: "has_key (put d k v) k' \<longleftrightarrow> k' = k \<or> has_key d k'"
  unfolding has_key_def keys_put by simp

lemma set_put: "set (put d k v) \<subseteq> insert (k, v) (set d)"
  by (induction d k v rule: put.induct) auto

lemma plain_put: "plain_json (JObj d) \<Longrightarrow> plain_json v \<Longrightarrow> plain_json (JObj (put d k v))"
  using set_put [of d k v] by (auto simp: distinct_put list_all_iff)

text \<open>What the two optional parts leave behind.\<close>

lemma plain_base_evidence: "plain_json (JObj (base_evidence window selected head tree tag tag_object ids))"
  by (simp add: base_evidence_def main_ci_evidence_def platform_evidence_def release_evidence_def)

lemma keys_base_evidence:
  "fst ` set (base_evidence window selected head tree tag tag_object ids) =
   {''changelog'', ''main_ci'', ''platform_release'', ''predecessor'', ''release'', ''repository'', ''schema'',
     ''source'', ''tag''}"
  by (auto simp: base_evidence_def)

lemma case_option_error: "(case x of None \<Rightarrow> m | Some y \<Rightarrow> Inl (g y)) = Inr r \<longleftrightarrow> x = None \<and> m = Inr r"
  by (cases x) auto

lemma with_selector_Inr:
  assumes "with_selector fl git head digest build d = Inr d'"
  obtains digest' b sites where "digest = Some digest'" "sha256_ref digest'" "build = Some b" "sha1_hex b"
    "keys_are sites [''lidersea-com'', ''naranjo-online'']" "plain_json (JObj sites)"
    "for_each (check_site sites) [''lidersea-com'', ''naranjo-online''] () = Inr ()"
    "d' = put (put d ''selector'' (selector_evidence digest' b)) ''sites'' (JObj sites)"
proof -
  obtain digest' where digest: "digest = Some digest'"
    using assms by (cases digest) (simp_all add: with_selector_def)
  from assms [unfolded digest with_selector_def option.case(2) deny_if_eq_Inr bind_eq_Inr sum.inject require_sha_Inr json.inject]
  obtain b receipt sites where *: "\<not> \<not> sha256_ref digest'" "(case build of None \<Rightarrow> [] | Some b \<Rightarrow> b) = b" "sha1_hex b"
    and sites: "site_identities_from_receipt fl receipt = Inr sites"
    and d': "put (put d ''selector'' (selector_evidence digest' b)) ''sites'' (JObj sites) = d'"
    by blast
  have "build = Some b" using * by (cases build) (auto simp: sha1_hex_def)
  with that [OF digest _ this] * site_identities_Inr [OF sites] d' show thesis by blast
qed

lemma identity_evidence_Inr:
  assumes "identity_evidence fl git head tag base_commit base_name tag_object ids args = Inr d"
  obtains window tree selected d1 where
    "git_tree git head ''release-identity source tree SHA'' = Inr tree" "sha1_hex head" "sha1_hex tree" "sha1_hex base_commit" "sha1_hex tag_object"
    "discover_transition_window git head = Inr window" "intent_tag (window_intent window) = tag"
    "base_sha window = base_commit" "base_tag window = base_name"
    "identity (JStr tag) = Inr selected" "run_ids_error ids = None"
    "(if id_version selected = 4
        then with_execution git selected head tag ids (execution_sha_arg args) (execution_run_arg args)
          (execution_attempt_arg args)
          (if 2 \<le> id_version selected
           then put (base_evidence window selected head tree tag tag_object ids) ''repository_id'' (JInt REPOSITORY_ID)
           else base_evidence window selected head tree tag tag_object ids)
        else Inr (if 2 \<le> id_version selected
           then put (base_evidence window selected head tree tag tag_object ids) ''repository_id'' (JInt REPOSITORY_ID)
           else base_evidence window selected head tree tag tag_object ids)) = Inr d1"
    "(if id_version selected < 3
         then with_selector fl git head (selector_digest_arg args) (selector_build_arg args) d1 else Inr d1) = Inr d"
    "validate_identity d = Inr ()"
proof -
  from assms obtain tree window selected d1 u where
    head: "sha1_hex head"
    and tree: "git_tree git head ''release-identity source tree SHA'' = Inr tree"
    and base: "sha1_hex base_commit" and tag_object: "sha1_hex tag_object"
    and window: "discover_transition_window git head = Inr window"
    and edge: "\<not> (intent_tag (window_intent window) \<noteq> tag \<or> base_sha window \<noteq> base_commit \<or> base_tag window \<noteq> base_name)"
    and selected: "select_epoch head tag base_commit base_name args = Inr selected"
    and ids: "run_ids_error ids = None"
    and d1: "(if id_version selected = 4
        then with_execution git selected head tag ids (execution_sha_arg args) (execution_run_arg args)
          (execution_attempt_arg args)
          (if 2 \<le> id_version selected
           then put (base_evidence window selected head tree tag tag_object ids) ''repository_id'' (JInt REPOSITORY_ID)
           else base_evidence window selected head tree tag tag_object ids)
        else Inr (if 2 \<le> id_version selected
           then put (base_evidence window selected head tree tag tag_object ids) ''repository_id'' (JInt REPOSITORY_ID)
           else base_evidence window selected head tree tag tag_object ids)) = Inr d1"
    and d: "(if id_version selected < 3
         then with_selector fl git head (selector_digest_arg args) (selector_build_arg args) d1 else Inr d1) = Inr d"
    and valid: "validate_identity d = Inr u"
    unfolding identity_evidence_def bind_eq_Inr deny_if_eq_Inr Let_def case_option_error rewrap_eq_Inr
      exact_commit_Inr require_sha_Inr json.inject sum.inject
    by blast
  from edge have "intent_tag (window_intent window) = tag" "base_sha window = base_commit" "base_tag window = base_name"
    by simp_all
  then show thesis
    using that [OF tree head git_tree_sha [OF tree] base tag_object window _ _ _ select_epoch_identity [OF selected] ids d1 d] valid
    by simp
qed

text \<open>The document once the execution of the fourth epoch is in place.\<close>

definition executed_document ::
  "transition_window \<Rightarrow> epoch_identity \<Rightarrow> string \<Rightarrow> string \<Rightarrow> string \<Rightarrow> string \<Rightarrow> run_ids \<Rightarrow> string \<Rightarrow> string \<Rightarrow> dict \<Rightarrow> bool"
  where
  "executed_document window selected head tree tag tag_object ids executor target d \<longleftrightarrow>
     common_fields window selected head tree tag tag_object ids d \<and> plain_json (JObj d) \<and>
     get d ''platform_release'' =
       JObj (platform_evidence (publisher_event_of selected) executor (publisher_workflow_of selected) ids) \<and>
     get d ''release'' = JObj (release_evidence (JInt (release_id ids)) tag target) \<and>
     release_target tag head = Inr target \<and>
     (if id_version selected = 4 then \<exists>run. get d ''execution'' = JObj run \<and> has_key d ''execution'' \<and>
        get run ''source_sha'' = JStr executor \<and> has_key run ''source_sha'' else executor = head)"

lemma executed_put:
  "k \<notin> {''changelog'', ''main_ci'', ''predecessor'', ''repository'', ''schema'', ''source'', ''tag'',
      ''platform_release'', ''release'', ''execution''} \<Longrightarrow> plain_json v \<Longrightarrow>
   executed_document window selected head tree tag tag_object ids executor target d \<Longrightarrow>
   executed_document window selected head tree tag tag_object ids executor target (put d k v)"
  unfolding executed_document_def
  by (auto simp: plain_put simp del: plain_json.simps split: if_splits)

lemma executed_document_intro:
  assumes d1: "(if id_version selected = 4
        then with_execution git selected head tag ids sha run attempt base else Inr base) = Inr d1"
    and base: "common_fields window selected head tree tag tag_object ids base" "plain_json (JObj base)"
      "get base ''platform_release'' = JObj (platform_evidence ''workflow_run'' head PLATFORM_WORKFLOW_PATH ids)"
      "get base ''release'' = JObj (release_evidence (JInt (release_id ids)) tag head)"
    and selected: "identity (JStr tag) = Inr selected"
  obtains executor target where
    "executed_document window selected head tree tag tag_object ids executor target d1"
    "set (map fst d1) = set (map fst base) \<union> (if id_version selected = 4
       then {''execution'', ''platform_release'', ''release''} else {})"
proof (cases "id_version selected = 4")
  case True
  with d1 have "with_execution git selected head tag ids sha run attempt base = Inr d1" by simp
  then obtain executor xtree r a target where target: "release_target tag head = Inr target"
    and d1: "d1 = put (put (put base ''execution'' (JObj [(''source_sha'', JStr executor), (''tree_sha'', JStr xtree),
             (''main_ci'', JObj (main_ci_evidence executor r a))]))
           ''platform_release'' (JObj (platform_evidence (case id_publisher_event selected of Some e \<Rightarrow> e | None \<Rightarrow> [])
             executor (case id_publisher_workflow selected of Some w \<Rightarrow> w | None \<Rightarrow> []) ids)))
           ''release'' (JObj (release_evidence (JInt (release_id ids)) tag target))"
    by (rule with_execution_Inr)
  obtain e w where ew: "id_publisher_event selected = Some e" "id_publisher_workflow selected = Some w"
    using identity_publisher [OF selected] True by auto
  have plain: "plain_json (JObj d1)"
    unfolding d1
    by (intro plain_put base(2)) (simp_all add: main_ci_evidence_def platform_evidence_def release_evidence_def)
  have "executed_document window selected head tree tag tag_object ids executor target d1"
    unfolding executed_document_def
    using target base(1) plain True
    by (simp add: d1 ew publisher_event_of_def publisher_workflow_of_def del: plain_json.simps)
  then show thesis by (rule that) (use True in \<open>auto simp: d1 simp del: set_map\<close>)
next
  case False
  then have publisher: "publisher_event_of selected = ''workflow_run''" "publisher_workflow_of selected = PLATFORM_WORKFLOW_PATH"
    using identity_publisher [OF selected] by (simp_all add: publisher_event_of_def publisher_workflow_of_def)
  have "executed_document window selected head tree tag tag_object ids head head d1"
    unfolding executed_document_def using False d1 base publisher release_target_ordinary [OF selected False]
    by simp
  then show thesis by (rule that) (use False d1 in auto)
qed

lemma evidence_shape:
  assumes "identity_evidence fl git head tag base_commit base_name tag_object ids args = Inr d"
  obtains window tree selected executor target where
    "sha1_hex head" "sha1_hex tree" "sha1_hex tag_object" "run_ids_error ids = None"
    "identity (JStr tag) = Inr selected" "validate_identity d = Inr ()"
    "git_tree git head ''release-identity source tree SHA'' = Inr tree"
    "\<not> edge_bad (JStr (base_tag window)) (JStr (base_sha window)) tag head"
    "fragment_path_ok (window_fragment_path window)" "sha256_ref (''sha256:'' @ window_fragment_sha256 window)"
    "executed_document window selected head tree tag tag_object ids executor target d"
    "keys_are d (evidence_fields (id_version selected))"
    "id_version selected < 3 \<longrightarrow> (\<exists>digest b sites. sha256_ref digest \<and> selector_build_arg args = Some b \<and>
       get d ''selector'' = selector_evidence digest b \<and>
           get d ''sites'' = JObj sites \<and> keys_are sites [''lidersea-com'', ''naranjo-online''] \<and>
           for_each (check_site sites) [''lidersea-com'', ''naranjo-online''] () = Inr ())"
proof -
  from assms obtain window tree selected d1 where
    tree: "git_tree git head ''release-identity source tree SHA'' = Inr tree"
    and sha: "sha1_hex head" "sha1_hex tree" "sha1_hex base_commit" "sha1_hex tag_object"
    and window: "discover_transition_window git head = Inr window"
    and edge: "intent_tag (window_intent window) = tag" "base_sha window = base_commit"
    and selected: "identity (JStr tag) = Inr selected" and ids: "run_ids_error ids = None"
    and d1: "(if id_version selected = 4
        then with_execution git selected head tag ids (execution_sha_arg args) (execution_run_arg args)
          (execution_attempt_arg args)
          (if 2 \<le> id_version selected
           then put (base_evidence window selected head tree tag tag_object ids) ''repository_id'' (JInt REPOSITORY_ID)
           else base_evidence window selected head tree tag tag_object ids)
        else Inr (if 2 \<le> id_version selected
           then put (base_evidence window selected head tree tag tag_object ids) ''repository_id'' (JInt REPOSITORY_ID)
           else base_evidence window selected head tree tag tag_object ids)) = Inr d1"
    and d: "(if id_version selected < 3
         then with_selector fl git head (selector_digest_arg args) (selector_build_arg args) d1 else Inr d1) = Inr d"
    and valid: "validate_identity d = Inr ()"
    by (rule identity_evidence_Inr)
  let ?e = "base_evidence window selected head tree tag tag_object ids"
  let ?base = "if 2 \<le> id_version selected then put ?e ''repository_id'' (JInt REPOSITORY_ID) else ?e"
  have base: "common_fields window selected head tree tag tag_object ids ?base" "plain_json (JObj ?base)"
      "get ?base ''platform_release'' = JObj (platform_evidence ''workflow_run'' head PLATFORM_WORKFLOW_PATH ids)"
      "get ?base ''release'' = JObj (release_evidence (JInt (release_id ids)) tag head)"
    by (simp_all add: common_fields_base plain_put plain_base_evidence base_platform base_release
        del: plain_json.simps(1,2,4,5,6,7))
  from executed_document_intro [OF d1 base selected] obtain executor target where
    doc: "executed_document window selected head tree tag tag_object ids executor target d1"
    and keys: "set (map fst d1) = set (map fst ?base) \<union> (if id_version selected = 4
       then {''execution'', ''platform_release'', ''release''} else {})"
    by blast
  have base_keys: "set (map fst ?base) =
      {''changelog'', ''main_ci'', ''platform_release'', ''predecessor'', ''release'', ''repository'', ''schema'',
       ''source'', ''tag''} \<union> (if 2 \<le> id_version selected then {''repository_id''} else {})"
    by (simp add: keys_base_evidence insert_commute)
  have base_sha: "sha1_hex (base_sha window)" using sha(3) edge(2) by simp
  note common = that [OF sha(1,2,4) ids selected valid tree
    window_edge(1) [OF window base_sha, unfolded edge(1)] window_edge(2,3) [OF window base_sha]]
  show thesis
  proof (cases "id_version selected < 3")
    case False
    with d have eq: "d = d1" by simp
    show thesis
    proof (rule common)
      show "executed_document window selected head tree tag tag_object ids executor target d"
        using doc by (simp only: eq)
      show "keys_are d (evidence_fields (id_version selected))"
        using False unfolding eq keys_are_def keys base_keys evidence_fields_def by auto
    qed (use False in simp)
  next
    case True
    with d have "with_selector fl git head (selector_digest_arg args) (selector_build_arg args) d1 = Inr d" by simp
    then obtain digest b sites where build: "selector_build_arg args = Some b" "sha256_ref digest"
      and sites: "keys_are sites [''lidersea-com'', ''naranjo-online'']" "plain_json (JObj sites)"
        "for_each (check_site sites) [''lidersea-com'', ''naranjo-online''] () = Inr ()"
      and d: "d = put (put d1 ''selector'' (selector_evidence digest b)) ''sites'' (JObj sites)"
      by (rule with_selector_Inr)
    show thesis
    proof (rule common)
      show "executed_document window selected head tree tag tag_object ids executor target d"
        unfolding d
        by (intro executed_put doc sites(2)) (simp_all add: selector_evidence_def)
      show "keys_are d (evidence_fields (id_version selected))"
        using True unfolding d keys_are_def keys_put keys base_keys evidence_fields_def by auto
      show "id_version selected < 3 \<longrightarrow> (\<exists>digest b sites. sha256_ref digest \<and> selector_build_arg args = Some b \<and>
         get d ''selector'' = selector_evidence digest b \<and>
           get d ''sites'' = JObj sites \<and> keys_are sites [''lidersea-com'', ''naranjo-online''] \<and>
           for_each (check_site sites) [''lidersea-com'', ''naranjo-online''] () = Inr ())"
        by (intro impI exI [of _ digest] exI [of _ b] exI [of _ sites]) (use build sites in \<open>simp add: d\<close>)
    qed
  qed
qed

section \<open>Agreement\<close>

text \<open>The REST record of the release that carries the document, staged or final.\<close>

definition release_record_for :: "run_ids \<Rightarrow> string \<Rightarrow> string \<Rightarrow> bool \<Rightarrow> dict \<Rightarrow> bool" where
  "release_record_for ids tag target staged r \<longleftrightarrow>
     get r ''id'' = JInt (release_id ids) \<and> get r ''tag_name'' = JStr tag \<and>
     get r ''name'' = JStr (''Platform '' @ tag) \<and> get r ''target_commitish'' = JStr target \<and>
     get r ''draft'' = JBool staged \<and> get r ''prerelease'' = JBool False \<and>
     get r ''immutable'' = JBool (\<not> staged) \<and> is_str (get r ''body'') \<and>
     (case get r ''author'' of JObj author \<Rightarrow> keys_include author [''id'', ''login''] \<and> is_bot author | _ \<Rightarrow> False)"

text \<open>What a caller who knows the edge expects; the object identities are optional.\<close>

definition expects :: "expected_release \<Rightarrow> string \<Rightarrow> string \<Rightarrow> string \<Rightarrow> string \<Rightarrow> string option \<Rightarrow> bool" where
  "expects ex tag head tree tag_object build \<longleftrightarrow>
     expected_tag ex = tag \<and> expected_sha ex = head \<and> expected_build_sha ex = build \<and>
     expected_tag_object_sha ex \<in> {None, Some tag_object} \<and> expected_tree_sha ex \<in> {None, Some tree}"

lemma release_json_eq: "release_record_for ids tag target staged r \<Longrightarrow>
   json_eq (JObj (release_evidence (JInt (release_id ids)) tag target))
     (JObj (release_evidence (get r ''id'') tag target))"
  by (simp add: release_record_for_def release_evidence_def)

lemma agreement_release:
  assumes "get d ''release'' = JObj (release_evidence (JInt (release_id ids)) tag target)"
    "release_target tag head = Inr target" "run_ids_error ids = None" "expected_tag ex = tag" "expected_sha ex = head"
    "release_record_for ids tag target (expected_staged ex) r"
  shows "check_release ex r d = Inr ()"
proof -
  obtain author where author: "get r ''author'' = JObj author" "keys_include author [''id'', ''login'']" "is_bot author"
    using assms(6) by (auto simp: release_record_for_def split: json.splits)
  have id: "0 < release_id ids" using assms(3) by (simp add: run_ids_error_def split: if_splits)
  have keys: "keys_are (release_evidence (JInt (release_id ids)) tag target)
      [''asset_count'', ''draft'', ''id'', ''immutable'', ''prerelease'', ''tag_name'', ''target_commitish'']"
    by (simp add: release_evidence_def keys_are_def)
  have fields: "\<not> (\<not> is_int (get (release_evidence (JInt (release_id ids)) tag target) ''asset_count'') \<or>
      \<not> positive_int (get (release_evidence (JInt (release_id ids)) tag target) ''id'') \<or>
      \<not> is_bool (get (release_evidence (JInt (release_id ids)) tag target) ''draft'') \<or>
      \<not> is_bool (get (release_evidence (JInt (release_id ids)) tag target) ''immutable'') \<or>
      \<not> is_bool (get (release_evidence (JInt (release_id ids)) tag target) ''prerelease''))"
    using id by (simp add: release_evidence_def)
  show ?thesis
    using assms release_json_eq [OF assms(6)] keys fields author
    unfolding check_release_def assms(1,2,4,5) exact_fields_def object_of_def
    by (simp add: release_record_for_def)
qed

lemma agreement_source:
  assumes "get d ''source'' =
      JObj [(''merge_sha'', JStr head), (''protected_ref'', JStr PROTECTED_REF), (''tree_sha'', JStr tree)]"
    "sha1_hex tree" "expected_sha ex = head" "expected_tree_sha ex \<in> {None, Some tree}"
  shows "check_source ex d = Inr ()"
  using assms(2,4) unfolding check_source_def assms(1,3) exact_fields_def object_of_def
  by (auto simp: keys_are_def)

lemma agreement_tag:
  assumes "get d ''tag'' = JObj [(''name'', JStr tag), (''object_sha'', JStr tag_object), (''object_type'', JStr ''tag''),
       (''peeled_commit'', JStr head)]"
    "sha1_hex tag_object" "expected_tag ex = tag" "expected_sha ex = head"
    "expected_tag_object_sha ex \<in> {None, Some tag_object}"
  shows "check_tag ex d = Inr ()"
  using assms(2,5) unfolding check_tag_def assms(1,3,4) exact_fields_def object_of_def
  by (auto simp: keys_are_def)

lemma agreement_edge:
  assumes "get d ''predecessor'' = JObj [(''peeled_commit'', JStr sha), (''tag'', JStr base)]"
    "get d ''changelog'' = JObj [(''fragment_path'', JStr path), (''fragment_sha256'', JStr digest)]"
    "\<not> edge_bad (JStr base) (JStr sha) tag head" "fragment_path_ok path" "sha256_ref digest"
    "expected_tag ex = tag" "expected_sha ex = head"
  shows "check_edge ex d = Inr ()"
  using assms(3-5) unfolding check_edge_def assms(1,2,6,7) exact_fields_def object_of_def
  by (simp add: keys_are_def)

lemma agreement_main:
  assumes "get d ''main_ci'' = JObj (main_ci_evidence head run attempt)" "0 < run" "0 < attempt"
  shows "check_run d ''main_ci'' WORKFLOW_PATH ''push'' True (JStr head) = Inr ()"
  using assms(2,3) unfolding check_run_def assms(1) exact_fields_def object_of_def
  by (simp add: keys_are_def run_fields_def run_bad_def main_ci_evidence_def insert_commute)

lemma agreement_platform:
  assumes "get d ''platform_release'' = JObj (platform_evidence event executor workflow ids)"
    "0 < platform_run_id ids" "0 < platform_run_attempt ids"
  shows "check_run d ''platform_release'' workflow event False (JStr executor) = Inr ()"
  using assms(2,3) unfolding check_run_def assms(1) exact_fields_def object_of_def
  by (simp add: keys_are_def run_fields_def run_bad_def platform_evidence_def insert_commute)

lemma agreement_selector:
  assumes "get d ''selector'' = selector_evidence digest build" "sha256_ref digest" "expected_build_sha ex = Some build"
  shows "check_selector ex d = Inr (JStr digest)"
  using assms(2) unfolding check_selector_def assms(1,3) selector_evidence_def exact_fields_def object_of_def
  by (simp add: keys_are_def opt_str_def)

lemma agreement_execution:
  assumes "executed_document window selected head tree tag tag_object ids executor target d"
    "validate_identity d = Inr ()" "identity (JStr tag) = Inr selected" "expected_sha ex = head"
  shows "check_execution selected ex d = Inr (JStr executor)"
proof (cases "id_version selected = 4")
  case True
  from assms(1) True obtain run where run: "get d ''execution'' = JObj run" "has_key d ''execution''"
    "get run ''source_sha'' = JStr executor" "has_key run ''source_sha''"
    unfolding executed_document_def by auto
  from assms(1) have tag: "get d ''tag'' = JObj [(''name'', JStr tag), (''object_sha'', JStr tag_object),
      (''object_type'', JStr ''tag''), (''peeled_commit'', JStr head)]"
    unfolding executed_document_def common_fields_def by blast
  have "validate_execution d = Inr ()"
  proof (rule validate_identity_Inr [OF assms(2)])
    fix tag_record tag' selected'
    assume *: "item d ''tag'' = Inr tag_record" "subscript tag_record ''name'' = Inr tag'" "identity tag' = Inr selected'"
      "id_version selected' = 4 \<Longrightarrow> validate_execution d = Inr ()"
    from *(1) tag have "tag_record = JObj [(''name'', JStr tag), (''object_sha'', JStr tag_object),
        (''object_type'', JStr ''tag''), (''peeled_commit'', JStr head)]"
      by (auto simp: item_get get_not_key item_def get_def split: option.splits)
    with *(2) have "tag' = JStr tag" by (simp add: item_def)
    with *(3,4) assms(3) True show "validate_execution d = Inr ()" by simp
  qed
  with run True show ?thesis by (simp add: check_execution_def item_get)
qed (use assms in \<open>simp add: check_execution_def executed_document_def\<close>)

lemma publisher_agreement:
  assumes evidence: "identity_evidence fl git head tag base_commit base_name tag_object ids args = Inr d"
    and tree: "git_tree git head ''release-identity source tree SHA'' = Inr tree"
    and target: "release_target tag head = Inr target"
    and ex: "expects ex tag head tree tag_object (selector_build_arg args)"
    and r: "release_record_for ids tag target (expected_staged ex) r"
    and selected: "identity (JStr tag) = Inr selected"
  shows "\<exists>digest. check_identity_document selected ex r d = Inr digest"
proof -
  obtain window tree' selected' executor target' where
    sha: "sha1_hex head" "sha1_hex tree'" "sha1_hex tag_object" and ids: "run_ids_error ids = None"
    and selected': "identity (JStr tag) = Inr selected'" and valid: "validate_identity d = Inr ()"
    and tree': "git_tree git head ''release-identity source tree SHA'' = Inr tree'"
    and edge: "\<not> edge_bad (JStr (base_tag window)) (JStr (base_sha window)) tag head"
    and frag: "fragment_path_ok (window_fragment_path window)" "sha256_ref (''sha256:'' @ window_fragment_sha256 window)"
    and doc: "executed_document window selected' head tree' tag tag_object ids executor target' d"
    and keys: "keys_are d (evidence_fields (id_version selected'))"
    and sites: "id_version selected' < 3 \<longrightarrow> (\<exists>digest b sites. sha256_ref digest \<and> selector_build_arg args = Some b \<and>
       get d ''selector'' = selector_evidence digest b \<and>
           get d ''sites'' = JObj sites \<and> keys_are sites [''lidersea-com'', ''naranjo-online''] \<and>
           for_each (check_site sites) [''lidersea-com'', ''naranjo-online''] () = Inr ())"
    by (rule evidence_shape [OF evidence])
  have eqs: "selected' = selected" "tree' = tree" using selected selected' tree tree' by simp_all
  note sha = sha [unfolded eqs] and keys = keys [unfolded eqs] and sites = sites [unfolded eqs]
  note doc' = doc [unfolded eqs]
  note doc = doc' [unfolded executed_document_def common_fields_def]
  have "release_target tag head = Inr target'" using doc by blast
  then have target': "target' = target" using target by simp
  have expects: "expected_tag ex = tag" "expected_sha ex = head" "expected_build_sha ex = selector_build_arg args"
    "expected_tag_object_sha ex \<in> {None, Some tag_object}" "expected_tree_sha ex \<in> {None, Some tree}"
    using ex by (simp_all add: expects_def)
  have positive: "0 < main_run_id ids" "0 < main_run_attempt ids" "0 < platform_run_id ids" "0 < platform_run_attempt ids"
    using ids by (auto simp: run_ids_error_def split: if_splits)
  from doc have fields: "get d ''source'' =
      JObj [(''merge_sha'', JStr head), (''protected_ref'', JStr PROTECTED_REF), (''tree_sha'', JStr tree)]"
    "get d ''tag'' = JObj [(''name'', JStr tag), (''object_sha'', JStr tag_object), (''object_type'', JStr ''tag''),
       (''peeled_commit'', JStr head)]"
    "get d ''predecessor'' = JObj [(''peeled_commit'', JStr (base_sha window)), (''tag'', JStr (base_tag window))]"
    "get d ''changelog'' = JObj [(''fragment_path'', JStr (window_fragment_path window)),
       (''fragment_sha256'', JStr (''sha256:'' @ window_fragment_sha256 window))]"
    "get d ''main_ci'' = JObj (main_ci_evidence head (main_run_id ids) (main_run_attempt ids))"
    "get d ''platform_release'' = JObj (platform_evidence (publisher_event_of selected) executor (publisher_workflow_of selected) ids)"
    "get d ''release'' = JObj (release_evidence (JInt (release_id ids)) tag target')"
    by blast+
  note checks = agreement_source [OF fields(1) sha(2) expects(2,5)] agreement_tag [OF fields(2) sha(3) expects(1,2,4)]
    agreement_edge [OF fields(3,4) edge frag expects(1,2)] agreement_main [OF fields(5) positive(1,2)]
    agreement_platform [OF fields(6) positive(3,4)]
    agreement_release [OF fields(7) [unfolded target'] target ids expects(1,2) r]
  have execution: "check_execution selected ex d = Inr (JStr executor)"
    using agreement_execution [OF _ valid selected expects(2)] doc' by blast
  have epoch: "check_epoch d = Inr ()" using valid by (simp add: check_epoch_def)
  have schema: "get d ''schema'' = JStr (id_schema selected)" "get d ''repository'' = JStr (id_repository selected)"
    using doc by blast+
  show ?thesis
  proof (cases "id_version selected < 3")
    case True
    from sites [rule_format, OF True] obtain digest b sites where sel: "sha256_ref digest" "selector_build_arg args = Some b"
       "get d ''selector'' = selector_evidence digest b" and site: "get d ''sites'' = JObj sites"
       "keys_are sites [''lidersea-com'', ''naranjo-online'']"
       "for_each (check_site sites) [''lidersea-com'', ''naranjo-online''] () = Inr ()"
      by blast
    have "check_selector ex d = Inr (JStr digest)"
      using agreement_selector [OF sel(3,1)] expects(3) sel(2) by simp
    then show ?thesis
      using True keys checks execution epoch site
      unfolding check_identity_document_def schema expects(2) by (simp add: exact_fields_def object_of_def)
  next
    case False
    then show ?thesis
      using keys checks execution epoch unfolding check_identity_document_def schema expects(2) by simp
  qed
qed

end
