(* ===== verification/LedgerReplay.thy ===== *)
theory LedgerReplay
  imports LedgerProps "HOL-Library.Multiset" Evidence
begin

text \<open>
  Publication does not change what a source means: once the tag of a transition
  window exists, rediscovering the window from the same source gives the same
  window.  The two states of the repository are two runners that differ only in the
  answers about tags.
\<close>

section \<open>Two states of one repository\<close>

definition agrees :: "runner \<Rightarrow> runner \<Rightarrow> string \<Rightarrow> bool" where
  "agrees git git' tag \<longleftrightarrow>
     (\<forall>args. args \<noteq> tag_query \<longrightarrow> args \<noteq> boundary_query tag \<longrightarrow> git' args = git args)"

lemma agrees_runs:
  assumes "agrees git git' tag" "args \<noteq> tag_query" "args \<noteq> boundary_query tag"
  shows "git_text git' args = git_text git args" "git_bytes git' args = git_bytes git args"
    "run_bytes git' args = run_bytes git args"
  using assms by (auto simp: agrees_def git_text_def git_bytes_def run_text_def run_bytes_def)

lemma other_queries:
  "''merge-base'' # xs \<noteq> tag_query" "''rev-list'' # xs \<noteq> tag_query" "''diff'' # xs \<noteq> tag_query"
  "''ls-tree'' # xs \<noteq> tag_query" "''show'' # xs \<noteq> tag_query" "''rev-parse'' # xs \<noteq> tag_query"
  "''merge-base'' # xs \<noteq> boundary_query t" "''rev-list'' # xs \<noteq> boundary_query t" "''diff'' # xs \<noteq> boundary_query t"
  "''ls-tree'' # xs \<noteq> boundary_query t" "''show'' # xs \<noteq> boundary_query t" "''rev-parse'' # xs \<noteq> boundary_query t"
  "boundary_query n \<noteq> tag_query"
  by (simp_all add: tag_query_def boundary_query_def)

lemma boundary_query_inj [simp]: "boundary_query m = boundary_query n \<longleftrightarrow> m = n"
  by (simp add: boundary_query_def)

lemma surface_diff_head: "surface_diff filters a b = ''diff'' # tl (surface_diff filters a b)"
  by (simp add: surface_diff_def)

lemma same_text:
  assumes "agrees git git' tag"
  shows "git_text git' (''rev-list'' # xs) = git_text git (''rev-list'' # xs)"
    "git_text git' (''rev-parse'' # xs) = git_text git (''rev-parse'' # xs)"
    "git_text git' (''show'' # xs) = git_text git (''show'' # xs)"
    "git_bytes git' (''show'' # xs) = git_bytes git (''show'' # xs)"
    "git_bytes git' (''ls-tree'' # xs) = git_bytes git (''ls-tree'' # xs)"
    "run_bytes git' (''merge-base'' # xs) = run_bytes git (''merge-base'' # xs)"
    "git_bytes git' (surface_diff fs a b) = git_bytes git (surface_diff fs a b)"
    "n \<noteq> tag \<Longrightarrow> git_bytes git' (boundary_query n) = git_bytes git (boundary_query n)"
proof -
  have "surface_diff fs a b \<noteq> tag_query" "surface_diff fs a b \<noteq> boundary_query tag"
    using other_queries(3,9) surface_diff_head by metis+
  then show "git_bytes git' (surface_diff fs a b) = git_bytes git (surface_diff fs a b)"
    by (rule agrees_runs [OF assms])
qed (simp_all add: agrees_runs [OF assms] other_queries)

lemma same_questions:
  assumes "agrees git git' tag"
  shows "is_ancestor git' = is_ancestor git" "linear_commits git' = linear_commits git"
    "release_surface_intents git' = release_surface_intents git" "exact_commit git' = exact_commit git"
proof -
  show anc: "is_ancestor git' = is_ancestor git"
    unfolding is_ancestor_def same_text [OF assms] ..
  show lin: "linear_commits git' = linear_commits git"
    unfolding linear_commits_def chain_step_def anc same_text [OF assms] ..
  show "exact_commit git' = exact_commit git"
    unfolding exact_commit_def same_text [OF assms] ..
  show "release_surface_intents git' = release_surface_intents git"
    unfolding release_surface_intents_def fragment_intent_of_def require_regular_fragment_entry_def
      file_bytes_def nul_paths_def lin same_text [OF assms] ..
qed

lemma same_follows: "agrees git git' tag \<Longrightarrow> follows git' = follows git"
  by (intro ext) (simp add: follows_def same_questions)

lemma same_boundary:
  assumes "agrees git git' tag" "n \<noteq> tag"
  shows "boundary_of git' n b = boundary_of git n b"
  unfolding boundary_of_def read_boundary_def same_text(3) [OF assms(1)] same_text(8) [OF assms] ..

section \<open>Publishing the next tag\<close>

text \<open>The tag of the window now exists: it is listed, in any order, and names the source exactly.\<close>

definition published :: "runner \<Rightarrow> runner \<Rightarrow> transition_window \<Rightarrow> bool" where
  "published git git' w \<longleftrightarrow>
     (let tag = intent_tag (window_intent w); ver = intent_version (window_intent w) in
      agrees git git' tag \<and>
      (\<exists>names names'. tag_names git = Inr names \<and> tag_names git' = Inr names' \<and> tag \<notin> set names \<and>
         mset names' = add_mset tag (mset names)) \<and>
      read_boundary git' tag ver = Inr (TagBoundary ver tag (intent_source_sha (window_intent w))))"

lemma successively_snoc: "successively R (xs @ [x]) \<longleftrightarrow> successively R xs \<and> (xs = [] \<or> R (last xs) x)"
  by (auto simp: successively_append_iff)

lemma next_patch_greater: "v < next_patch v"
  by (rule release_numbers.succ_greater)

lemma sorted_snoc_boundary:
  assumes "sorted ledger" "ledger \<noteq> []" "boundary_version b = next_patch (boundary_version (last ledger))"
  shows "sorted (ledger @ [b])"
proof -
  have "last ledger \<le> b"
    using next_patch_greater [of "boundary_version (last ledger)"] assms(3)
    by (auto simp: less_eq_tag_boundary_def less_eq_prod_def)
  moreover have "c \<le> last ledger" if "c \<in> set ledger" for c
  proof -
    obtain cs l where "ledger = cs @ [l]" using assms(2) by (cases ledger rule: rev_cases) auto
    with assms(1) that show ?thesis by (auto simp: sorted_append)
  qed
  ultimately have "c \<le> b" if "c \<in> set ledger" for c using that by (meson order_trans)
  then show ?thesis using assms(1) by (simp add: sorted_append)
qed

lemma ledger_after_publication:
  assumes ledger: "platform_tag_boundaries git = Inr ledger" and pub: "published git git' w"
    and fol: "follows git (last ledger) b" and b: "b = TagBoundary ver tag head"
    and w: "ver = intent_version (window_intent w)" "tag = intent_tag (window_intent w)"
      "head = intent_source_sha (window_intent w)"
  shows "platform_tag_boundaries git' = Inr (ledger @ [b])"
proof -
  from ledger obtain names bs where names: "tag_names git = Inr names" and all: "list_all2 (boundary_of git) names bs"
    and dist: "distinct names" and checked: "check_ledger git (sort bs) = Inr ledger"
    by (auto simp: platform_tag_boundaries_Inr)
  from pub names w obtain names' where agrees: "agrees git git' tag" and names': "tag_names git' = Inr names'"
    and new: "tag \<notin> set names" and perm: "mset names' = mset (tag # names)"
    and read: "read_boundary git' tag ver = Inr b"
    by (auto simp: published_def Let_def b)
  have tag_ver: "tag_version tag = Inr ver" by (simp add: tag_version_Inr w intent_tag_def)
  have "list_all2 (boundary_of git') names bs"
  proof -
    have "list_all2 (\<lambda>n b. n \<in> set names \<and> boundary_of git n b) names bs"
      using all by (simp add: list_all2_conv_all_nth)
    then show ?thesis
    proof (rule list_all2_mono)
      fix n b assume "n \<in> set names \<and> boundary_of git n b"
      moreover from this have "n \<noteq> tag" using new by auto
      ultimately show "boundary_of git' n b" by (simp add: same_boundary [OF agrees])
    qed
  qed
  moreover have "boundary_of git' tag b" using tag_ver read by (simp add: boundary_of_def)
  ultimately have "list_all2 (boundary_of git') (tag # names) (b # bs)" by simp
  from list_all2_reorder_left_invariance [OF this perm]
  obtain bs' where all': "list_all2 (boundary_of git') names' bs'" and mset: "mset bs' = mset (b # bs)" by blast
  have dist': "distinct names'"
    using dist new perm by (metis distinct.simps(2) mset_eq_imp_distinct_iff)
  have lg: "ledger = filter (\<lambda>b. Version 0 1 9 \<le> boundary_version b) (sort bs)" "ledger \<noteq> []"
    "boundary_tag (hd ledger) = TAG_LEDGER_FLOOR_TAG" "boundary_sha (hd ledger) = TAG_LEDGER_FLOOR_SHA"
    "successively (follows git) ledger"
    using checked unfolding check_ledger_Inr by blast+
  have bver: "boundary_version b = next_patch (boundary_version (last ledger))" using fol by (simp add: follows_def)
  have "Version 0 1 9 \<le> boundary_version (last ledger)" using lg(1,2) last_in_set [of ledger] by auto
  then have fl: "Version 0 1 9 \<le> boundary_version b"
    using bver next_patch_greater [of "boundary_version (last ledger)"] by simp
  have "filter (\<lambda>b. Version 0 1 9 \<le> boundary_version b) (sort bs') = ledger @ [b]"
  proof -
    have "mset (filter (\<lambda>b. Version 0 1 9 \<le> boundary_version b) bs') = mset (ledger @ [b])"
      using fl by (simp add: mset lg(1) mset_filter)
    moreover have "sorted (ledger @ [b])"
      by (rule sorted_snoc_boundary [OF _ lg(2) bver]) (simp add: lg(1) sorted_filter [where f = "\<lambda>x. x", simplified])
    ultimately show ?thesis
      by (metis filter_sort properties_for_sort mset_sort)
  qed
  then have "check_ledger git' (sort bs') = Inr (ledger @ [b])"
    unfolding check_ledger_Inr same_follows [OF agrees]
    using lg fol by (simp add: successively_snoc)
  with names' all' dist' show ?thesis by (auto simp: platform_tag_boundaries_Inr)
qed

text \<open>
  C3: discovering a window is stable under publication.  If an unreleased source has
  a transition window, and then the window's tag is published on that source, the
  ledger has grown by exactly that release and the same source still has the same
  window: a retried or resumed publisher recomputes what it published.
\<close>

theorem window_stable_under_publication:
  assumes found: "discover_transition_window git head = Inr w"
    and ledger: "platform_tag_boundaries git = Inr ledger"
    and unreleased: "head \<notin> boundary_sha ` set ledger"
    and pub: "published git git' w"
  shows "discover_transition_window git' head = Inr w \<and>
    platform_tag_boundaries git' =
      Inr (ledger @ [TagBoundary (intent_version (window_intent w)) (intent_tag (window_intent w)) head])"
proof -
  let ?b = "TagBoundary (intent_version (window_intent w)) (intent_tag (window_intent w)) head"
  have agrees: "agrees git git' (intent_tag (window_intent w))"
    using pub by (simp add: published_def Let_def)
  have none: "published_window git h None ledger = Inr None" if "h = head" for h
    using unreleased that by (auto simp: published_window_None)
  with found ledger have commit: "exact_commit git head ''head SHA'' = Inr head"
    and new: "new_window git head ledger = Inr w"
    unfolding discover_Inr by auto
  then obtain fragment where anc: "is_ancestor git (boundary_sha (last ledger)) head = Inr True"
    and intents: "release_surface_intents git (boundary_sha (last ledger)) head = Inr [fragment]"
    and w: "w = window_of (last ledger) head (next_patch (boundary_version (last ledger))) fragment"
    unfolding new_window_Inr by blast
  have ne: "ledger \<noteq> []" using ledger_contiguous_ne [OF ledger] .
  have "follows git (last ledger) ?b"
    using anc intents unreleased ne
    by (auto simp: follows_def w window_of_def is_ok_iff release_surface_intents_def)
  then have ledger': "platform_tag_boundaries git' = Inr (ledger @ [?b])"
    by (rule ledger_after_publication [OF ledger pub]) (simp_all add: w window_of_def)
  have "published_window git' head None (ledger @ [?b]) = Inr (Some w)"
    using unreleased ne intents same_questions(3) [OF agrees]
    by (subst published_window_skip) (auto simp: w window_of_def)
  with ledger' commit show ?thesis
    unfolding discover_Inr same_questions [OF agrees] by blast
qed

text \<open>
  A small repository, as a table of git answers, on which the ledger theorems apply:
  the migration floor and one commit above it that adds one fragment, before and
  after the tag of that commit is published.
\<close>

section \<open>The repository\<close>

definition respond :: "(string list \<times> string) list \<Rightarrow> runner" where
  "respond answers args = (case map_of answers args of Some out \<Rightarrow> Exited 0 out [] | None \<Rightarrow> Exited 1 [] [])"

definition nul :: string where "nul = [CHR 0x00]"

definition sample_head :: string where "sample_head = replicate 40 CHR ''a''"

definition sample_path :: string where "sample_path = ''changelog.d/1-a.md''"

definition sample_payload :: string where
  "sample_payload = ''### Added'' @ newline @ newline @ ''- x'' @ newline"

definition sample_date :: string where "sample_date = ''2026-01-02T03:04:05+00:00''"

definition tag_metadata :: "string \<Rightarrow> string \<Rightarrow> string" where
  "tag_metadata name source =
    join nul [''tag'', ''commit'', name, RELEASE_TAGGER_NAME, ''<'' @ RELEASE_TAGGER_EMAIL @ ''>'', sample_date,
      ''Platform release '' @ name @ '' from '' @ source, source] @ nul @ newline"

text \<open>docs/assurance/195-chart-acquisition-receipt.json, the receipt the program reads.\<close>

definition receipt_records :: dict where
  "receipt_records =
    [(''lidersea-com'', JObj
      [(''arm64Digest'', JStr ''sha256:f424768e07081d7f8fd85f0ea05e3e1e85421d62de27fe08109193a3813b0de9''),
       (''chart'', JObj [(''appVersion'', JStr ''0.1.42''), (''name'', JStr ''lidersea-com''), (''version'', JStr ''0.1.42'')]),
       (''chartConfigDigest'', JStr ''sha256:9f9bc51575f980940cb8562e6b50d0ac078a560b9cc67678b0169895d3747c16''),
       (''chartLayerDigest'', JStr ''sha256:7497364e68af0f909625735bb1b7fe64120fd6920a2ff0e16dcefd9ebe352d99''),
       (''chartRepository'', JStr ''ghcr.io/snaraj/charts/lidersea-com''),
       (''chartTag'', JStr ''0.1.42''),
       (''manifestDigest'', JStr ''sha256:5a944c4602cd1b1df8b6613bc2daa037dcc00b2616402de33e5eece1edd8cdf7''),
       (''matchingChartLayerCount'', JInt 1),
       (''release'', JObj
        [(''assetDigest'', JStr ''sha256:b6e90ea1ff09854fae7319af3741ff5640ae3da8a2a7e4937d041b68fda30422''),
         (''sourceSha'', JStr ''ff25643033f89996b32826a3ac02d0bee9074536'')]),
       (''signer'', JObj
        [(''issuer'', JStr ''https://token.actions.githubusercontent.com''),
         (''subject'', JStr ''https://github.com/snaraj/lidersea.com/.github/workflows/release-publisher.yml@refs/heads/main'')]),
       (''workloadImage'', JStr ''ghcr.io/snaraj/lidersea-com:v0.1.42@sha256:d23a20d3c222f7acb7e3a5e2391767eb5762dae3865eb1546b809d0811b8abc9'')]),
     (''naranjo-online'', JObj
      [(''arm64Digest'', JStr ''sha256:6e3c2d23ad04a61aa22d3c123802922c4d1360e8ca10c0635fe3511ad94ac786''),
       (''chart'', JObj [(''appVersion'', JStr ''0.1.80''), (''name'', JStr ''naranjo-online''), (''version'', JStr ''0.1.80'')]),
       (''chartConfigDigest'', JStr ''sha256:c3c21cbc2b029703ef13dda2818d296282ad0ca8f3df65bc424fe81998622c4f''),
       (''chartLayerDigest'', JStr ''sha256:c9a3ee1272562dd7ab38d3ab834e491f8c689a799ee33eec56fa3fc9937ebe7f''),
       (''chartRepository'', JStr ''ghcr.io/snaraj/charts/naranjo-online''),
       (''chartTag'', JStr ''0.1.80''),
       (''manifestDigest'', JStr ''sha256:a665c74985b0dc3e9b8351c0306d58f8d318a581f7fdda71874a98fde85773f3''),
       (''matchingChartLayerCount'', JInt 1),
       (''release'', JObj
        [(''assetDigest'', JStr ''sha256:61825308c6290fb46f38b58c92c451b1c826b0474ca98ce911f7785ac3a0c135''),
         (''sourceSha'', JStr ''6ce0887c38b5f70ceff7d75f3cc1a91dd6947093'')]),
       (''signer'', JObj
        [(''issuer'', JStr ''https://token.actions.githubusercontent.com''),
         (''subject'', JStr ''https://github.com/snaraj/naranjo.online/.github/workflows/release-publisher.yml@refs/heads/main'')]),
       (''workloadImage'', JStr ''ghcr.io/snaraj/naranjo-online:v0.1.80@sha256:63236d492c84e7d0e48f3e8b8c1b7551053defbd6461e27a3b3e6e5c1559f05f'')])]"

definition receipt_document :: dict where
  "receipt_document =
    [(''capturedDate'', JStr ''2026-09-07''),
      (''chartLayerMediaType'', JStr ''application/vnd.cncf.helm.chart.content.v1.tar+gzip''),
      (''records'', JObj receipt_records),
      (''schema'', JStr ''dev.snaraj.chart-acquisition-receipt/v2''),
      (''tools'', JObj [(''cosign'', JStr ''3.1.3''), (''oras'', JStr ''1.3.4'')])]"

definition receipt_query :: "string list" where
  "receipt_query = [''show'', sample_head @ '':'' @ RELEASE_IDENTITY_RECEIPT_PATH]"

definition sample_answers :: "(string list \<times> string) list" where
  "sample_answers =
    [([''rev-parse'', ''--verify'', sample_head @ ''^{commit}''], sample_head @ newline),
     (tag_query, ''v0.1.9'' @ newline),
     (boundary_query ''v0.1.9'', tag_metadata ''v0.1.9'' TAG_LEDGER_FLOOR_SHA),
     ([''show'', ''-s'', ''--format=%cI'', TAG_LEDGER_FLOOR_SHA], sample_date @ newline),
     ([''show'', ''-s'', ''--format=%cI'', sample_head], sample_date @ newline),
     ([''merge-base'', ''--is-ancestor'', TAG_LEDGER_FLOOR_SHA, sample_head], []),
     ([''rev-list'', ''--first-parent'', ''--reverse'', TAG_LEDGER_FLOOR_SHA @ ''..'' @ sample_head], sample_head @ newline),
     ([''rev-list'', ''--parents'', ''-n'', ''1'', sample_head], sample_head @ '' '' @ TAG_LEDGER_FLOOR_SHA @ newline),
     (surface_diff [] TAG_LEDGER_FLOOR_SHA sample_head, sample_path @ nul),
     (surface_diff [''--diff-filter=A''] TAG_LEDGER_FLOOR_SHA sample_head, sample_path @ nul),
     ([''ls-tree'', ''-z'', ''--full-tree'', sample_head, ''--'', sample_path],
      ''100644 blob '' @ replicate 40 CHR ''0'' @ [CHR 0x09] @ sample_path @ nul),
     ([''show'', sample_head @ '':'' @ sample_path], sample_payload),
     ([''rev-parse'', sample_head @ ''^{tree}''], replicate 40 CHR ''c'' @ newline)]"

definition with_receipt :: "runner \<Rightarrow> runner" where
  "with_receipt git args =
    (if args = receipt_query then Exited 0 (dumps sample_floats (JObj receipt_document)) [] else git args)"

definition sample_git :: runner where "sample_git = with_receipt (respond sample_answers)"

definition published_git :: runner where
  "published_git = with_receipt (respond
    ([(tag_query, ''v0.1.10'' @ newline @ ''v0.1.9'' @ newline),
      (boundary_query ''v0.1.10'', tag_metadata ''v0.1.10'' sample_head)] @ sample_answers))"

definition sample_fragment :: fragment_intent where
  "sample_fragment = \<lparr>fragment_source_sha = sample_head, fragment_path = sample_path,
     fragment_sha256 = sha256_hex sample_payload\<rparr>"

definition floor_boundary :: tag_boundary where
  "floor_boundary = TagBoundary (Version 0 1 9) ''v0.1.9'' TAG_LEDGER_FLOOR_SHA"

definition sample_window :: transition_window where
  "sample_window = window_of floor_boundary sample_head (Version 0 1 10) sample_fragment"

section \<open>Its answers\<close>

lemma sample_linear: "linear_commits sample_git TAG_LEDGER_FLOOR_SHA sample_head = Inr [sample_head]"
  by code_simp

lemma sample_ledger: "platform_tag_boundaries sample_git = Inr [floor_boundary]"
  by code_simp

lemma sample_entry: "require_regular_fragment_entry sample_git sample_head sample_path = Inr ()"
  "file_bytes sample_git sample_head sample_path = Inr sample_payload"
  "validate_fragment_bytes sample_path sample_payload = Inr sample_payload"
  by code_simp+

lemma sample_paths:
  "nul_paths sample_git (surface_diff [] TAG_LEDGER_FLOOR_SHA sample_head) = Inr [sample_path]"
  "nul_paths sample_git (surface_diff [''--diff-filter=A''] TAG_LEDGER_FLOOR_SHA sample_head) = Inr [sample_path]"
  "filter (\<lambda>p. p \<in> set GENERATED_RELEASE_PATHS) [sample_path] = []"
  by code_simp+

lemma sample_intents:
  "release_surface_intents sample_git TAG_LEDGER_FLOOR_SHA sample_head = Inr [sample_fragment]"
  unfolding release_surface_intents_def fragment_intent_of_def sample_linear sample_paths bind_simps Let_def
  by (simp add: sample_entry sample_fragment_def)

lemma sample_ancestry:
  "is_ancestor sample_git TAG_LEDGER_FLOOR_SHA sample_head = Inr True"
  "is_ancestor sample_git sample_head TAG_LEDGER_FLOOR_SHA = Inr False"
  "exact_commit sample_git sample_head ''head SHA'' = Inr sample_head"
  "sample_head \<noteq> TAG_LEDGER_FLOOR_SHA"
  by code_simp+

lemma sample_discovered: "discover_transition_window sample_git sample_head = Inr sample_window"
  unfolding discover_Inr
  by (simp add: sample_ledger sample_ancestry floor_boundary_def new_window_Inr behind_step_def sample_intents
      sample_window_def sample_ancestry(4) [symmetric])

lemma sample_window_simps:
  "intent_tag (window_intent sample_window) = ''v0.1.10''"
  "intent_version (window_intent sample_window) = Version 0 1 10"
  "intent_source_sha (window_intent sample_window) = sample_head"
  "base_tag sample_window = ''v0.1.9''"
  unfolding sample_window_def window_of_def intent_tag_def floor_boundary_def by (simp_all, code_simp)

lemma sample_published: "published sample_git published_git sample_window"
proof -
  have "agrees sample_git published_git ''v0.1.10''"
    by (auto simp: agrees_def sample_git_def published_git_def with_receipt_def respond_def)
  moreover have "tag_names sample_git = Inr [''v0.1.9'']" "tag_names published_git = Inr [''v0.1.10'', ''v0.1.9'']"
    "read_boundary published_git ''v0.1.10'' (Version 0 1 10) = Inr (TagBoundary (Version 0 1 10) ''v0.1.10'' sample_head)"
    by code_simp+
  ultimately show ?thesis by (simp add: published_def sample_window_simps)
qed

section \<open>The theorems at work\<close>

theorem linear_range_is_chain_witness: "only_parent sample_git TAG_LEDGER_FLOOR_SHA sample_head"
  using linear_range_is_chain [OF sample_linear] by simp

theorem ledger_contiguous_witness:
  "platform_tag_boundaries sample_git = Inr [floor_boundary] \<and> boundary_version floor_boundary = Version 0 1 9"
  using ledger_contiguous [OF sample_ledger] sample_ledger by simp

theorem ledger_complete_witness:
  "\<exists>names. tag_names sample_git = Inr names \<and> set (map boundary_tag [floor_boundary]) =
     {version_tag v | v. version_tag v \<in> set names \<and> Version 0 1 9 \<le> v}"
proof -
  have "tag_names sample_git = Inr [''v0.1.9'']" by code_simp
  from ledger_complete [OF sample_ledger this] this show ?thesis by blast
qed

theorem window_is_next_patch_witness:
  "\<exists>ledger prev. platform_tag_boundaries sample_git = Inr ledger \<and> prev \<in> set ledger \<and>
     intent_version (window_intent sample_window) = next_patch (boundary_version prev)"
  using window_is_next_patch [OF sample_discovered] by blast

theorem window_stable_witness:
  "discover_transition_window published_git sample_head = Inr sample_window"
  by (rule window_stable_under_publication [OF sample_discovered sample_ledger _ sample_published, THEN conjunct1])
    (simp add: floor_boundary_def sample_ancestry)

section \<open>A backlog\<close>

text \<open>The same repository with a head whose range adds two fragments.\<close>

definition backlog_git :: runner where
  "backlog_git = respond
    ([(surface_diff [] TAG_LEDGER_FLOOR_SHA sample_head, sample_path @ nul @ ''changelog.d/2-b.md'' @ nul),
      (surface_diff [''--diff-filter=A''] TAG_LEDGER_FLOOR_SHA sample_head,
         sample_path @ nul @ ''changelog.d/2-b.md'' @ nul),
      ([''ls-tree'', ''-z'', ''--full-tree'', sample_head, ''--'', ''changelog.d/2-b.md''],
         ''100644 blob '' @ replicate 40 CHR ''1'' @ [CHR 0x09] @ ''changelog.d/2-b.md'' @ nul),
      ([''show'', sample_head @ '':changelog.d/2-b.md''], sample_payload)] @ sample_answers)"

lemma backlog_parts:
  "linear_commits backlog_git TAG_LEDGER_FLOOR_SHA sample_head = Inr [sample_head]"
  "nul_paths backlog_git (surface_diff [] TAG_LEDGER_FLOOR_SHA sample_head) = Inr [sample_path, ''changelog.d/2-b.md'']"
  "nul_paths backlog_git (surface_diff [''--diff-filter=A''] TAG_LEDGER_FLOOR_SHA sample_head) =
     Inr [sample_path, ''changelog.d/2-b.md'']"
  "filter (\<lambda>p. p \<in> set GENERATED_RELEASE_PATHS) [sample_path, ''changelog.d/2-b.md''] = []"
  "platform_tag_boundaries backlog_git = Inr [floor_boundary]"
  "is_ancestor backlog_git TAG_LEDGER_FLOOR_SHA sample_head = Inr True"
  "is_ancestor backlog_git sample_head TAG_LEDGER_FLOOR_SHA = Inr False"
  "exact_commit backlog_git sample_head ''head SHA'' = Inr sample_head"
  by code_simp+

lemma backlog_entries:
  "require_regular_fragment_entry backlog_git sample_head sample_path = Inr ()"
  "require_regular_fragment_entry backlog_git sample_head ''changelog.d/2-b.md'' = Inr ()"
  "file_bytes backlog_git sample_head sample_path = Inr sample_payload"
  "file_bytes backlog_git sample_head ''changelog.d/2-b.md'' = Inr sample_payload"
  "validate_fragment_bytes sample_path sample_payload = Inr sample_payload"
  "validate_fragment_bytes ''changelog.d/2-b.md'' sample_payload = Inr sample_payload"
  by code_simp+

lemma backlog_intents:
  "\<exists>f g. release_surface_intents backlog_git TAG_LEDGER_FLOOR_SHA sample_head = Inr [f, g]"
  unfolding release_surface_intents_def fragment_intent_of_def backlog_parts bind_simps Let_def
  by (simp add: backlog_entries)

lemma backlog_pending: "\<exists>m. discover_transition_window backlog_git sample_head = Inl (PendingRelease m)"
proof -
  obtain f g where "release_surface_intents backlog_git TAG_LEDGER_FLOOR_SHA sample_head = Inr [f, g]"
    using backlog_intents by blast
  then show ?thesis
    using sample_ancestry(4)
    by (simp add: discover_transition_window_def new_window_def behind_step_def Let_def backlog_parts floor_boundary_def
        next_version_def)
qed

theorem pending_means_backlog_witness:
  "\<exists>intents. release_surface_intents backlog_git TAG_LEDGER_FLOOR_SHA sample_head = Inr intents \<and> 1 < length intents"
proof -
  obtain m where "discover_transition_window backlog_git sample_head = Inl (PendingRelease m)"
    using backlog_pending by blast
  from pending_means_backlog [OF this] show ?thesis
    by (auto simp: backlog_parts floor_boundary_def)
qed

end
