(* ===== verification/PyJsonPrint.thy ===== *)
theory PyJsonPrint
  imports Evidence "HOL-Library.Multiset"
begin

text \<open>
  The text of documents whose strings are ASCII: it is ASCII itself, its length has
  a bound that evaluates, and \<open>ensure_ascii\<close> leaves it as it is.
\<close>

section \<open>Printed text is ASCII and bounded\<close>

text \<open>A bound on the printed length, and documents whose strings are ASCII without DEL.\<close>

definition low_ascii :: "string \<Rightarrow> bool" where
  "low_ascii s = list_all (\<lambda>c. byte c < 127) s"

lemma low_ascii_simps [simp]:
  "low_ascii []" "low_ascii (c # s) \<longleftrightarrow> byte c < 127 \<and> low_ascii s"
  "low_ascii (s @ t) \<longleftrightarrow> low_ascii s \<and> low_ascii t"
  by (simp_all add: low_ascii_def)

lemma low_ascii_replicate [simp]: "low_ascii (replicate n c) \<longleftrightarrow> n = 0 \<or> byte c < 127"
  by (induction n) auto

lemma low_ascii_hex: "list_all is_hex s \<Longrightarrow> low_ascii s"
  by (auto simp: low_ascii_def list_all_iff is_hex_def is_digit_def byte_in_def)

lemma low_ascii_is_ascii: "low_ascii s \<Longrightarrow> is_ascii s"
  by (auto simp: low_ascii_def is_ascii_def list_all_iff)


function print_bound :: "json \<Rightarrow> nat" where
  "print_bound JNull = 4"
| "print_bound (JBool b) = 5"
| "print_bound (JInt i) = length (show_int i)"
| "print_bound (JFloat f) = 0"
| "print_bound (JStr s) = 6 * length s + 2"
| "print_bound (JArr xs) = 2 + sum_list (map (\<lambda>v. print_bound v + 1) xs)"
| "print_bound (JObj d) = 2 + sum_list (map (\<lambda>(k, v). 6 * length k + print_bound v + 4) d)"
  by pat_completeness auto
termination
  by (relation "measure size") (auto simp: less_Suc_eq_le size_list_estimation' dest: size_item_value)

function ascii_json :: "json \<Rightarrow> bool" where
  "ascii_json JNull = True"
| "ascii_json (JBool b) = True"
| "ascii_json (JInt i) = True"
| "ascii_json (JFloat f) = False"
| "ascii_json (JStr s) = low_ascii s"
| "ascii_json (JArr xs) = list_all ascii_json xs"
| "ascii_json (JObj d) = list_all (\<lambda>(k, v). low_ascii k \<and> ascii_json v) d"
  by pat_completeness auto
termination
  by (relation "measure size") (auto simp: less_Suc_eq_le size_list_estimation' dest: size_item_value)

lemma hex_digit_ascii: "n < 16 \<Longrightarrow> byte (hex_digit n) < 127"
  by (simp add: hex_digit_def)

lemma escape_char_ascii: "byte a < 127 \<Longrightarrow> c \<in> set (escape_char a) \<Longrightarrow> byte c < 127"
  unfolding escape_char_def by (auto simp: u_escape_def hex_digit_ascii split: if_splits)

lemma dump_str_ascii: "low_ascii s \<Longrightarrow> c \<in> set (dump_str s) \<Longrightarrow> byte c < 127"
  by (auto simp: dump_str_def low_ascii_def list_all_iff dest: escape_char_ascii)

lemma show_int_ascii: "c \<in> set (show_int i) \<Longrightarrow> byte c < 127"
proof -
  have "c \<in> set (show_nat n) \<Longrightarrow> byte c < 127" for n
    using show_nat_digits [of n] unfolding list_all_iff is_digit_def byte_in_def by fastforce
  moreover assume "c \<in> set (show_int i)"
  ultimately show ?thesis by (auto simp: show_int_def simp del: show_nat.simps split: if_splits)
qed

lemma dumps_low: "ascii_json v \<Longrightarrow> c \<in> set (dumps fl v) \<Longrightarrow> byte c < 127"
proof (induction fl v rule: dumps.induct)
  case (6 fl xs)
  then show ?case by (auto simp: list_all_iff dest!: join_chars)
next
  case (7 fl d)
  from "7.prems"(2) consider "c \<in> {CHR ''{'', CHR '','', CHR '':'', CHR ''}''}"
    | k v where "(k, v) \<in> set (sort_items d)" "c \<in> set (dump_str k)"
    | k v where "(k, v) \<in> set (sort_items d)" "c \<in> set (dumps fl v)"
    by (auto dest!: join_chars)
  then show ?case
  proof cases
    case (2 k v)
    with "7.prems"(1) show ?thesis by (auto simp: list_all_iff set_sort_items intro: dump_str_ascii)
  next
    case (3 k v)
    with "7.prems"(1) have "ascii_json v" by (auto simp: list_all_iff set_sort_items)
    with 3 "7.IH" show ?thesis by blast
  qed auto
qed (auto simp: dump_str_ascii show_int_ascii split: if_splits)

lemma length_dump_str: "length (dump_str s) \<le> 6 * length s + 2"
proof -
  have "length (escape_char c) \<le> 6" for c by (simp add: escape_char_def u_escape_def)
  then have "length (concat (map escape_char s)) \<le> 6 * length s"
    by (induction s) (auto intro: add_mono [of _ 6, simplified])
  then show ?thesis by (simp add: dump_str_def)
qed

lemma length_join_le: "length (join [c] ws) \<le> sum_list (map (\<lambda>w. length w + 1) ws)"
  by (cases "ws = []") (use length_join [of ws c] in auto)

lemma length_dumps: "ascii_json v \<Longrightarrow> length (dumps fl v) \<le> print_bound v"
proof (induction fl v rule: dumps.induct)
  case (6 fl xs)
  have "length (join [CHR '',''] (map (dumps fl) xs)) \<le> (\<Sum>w\<leftarrow>map (dumps fl) xs. length w + 1)" by (rule length_join_le)
  also have "\<dots> \<le> (\<Sum>v\<leftarrow>xs. print_bound v + 1)"
    using 6 unfolding map_map o_def by (intro sum_list_mono) (simp add: list_all_iff)
  finally show ?case by simp
next
  case (7 fl d)
  let ?item = "\<lambda>(k, v). dump_str k @ '':'' @ dumps fl v"
  have "length (join [CHR '',''] (map ?item (sort_items d))) \<le> (\<Sum>w\<leftarrow>map ?item (sort_items d). length w + 1)"
    by (rule length_join_le)
  also have "\<dots> \<le> (\<Sum>(k, v)\<leftarrow>sort_items d. 6 * length k + print_bound v + 4)"
    unfolding map_map
  proof (rule sum_list_mono)
    fix kv assume kv: "kv \<in> set (sort_items d)"
    obtain k v where eq: "kv = (k, v)" by (cases kv)
    with kv "7.prems" have "ascii_json v" by (auto simp: list_all_iff set_sort_items)
    with "7.IH" kv eq have "length (dumps fl v) \<le> print_bound v" by blast
    with length_dump_str [of k]
    show "((\<lambda>w. length w + 1) \<circ> ?item) kv \<le> (case kv of (k, v) \<Rightarrow> 6 * length k + print_bound v + 4)"
      by (simp add: eq)
  qed
  also have "\<dots> = (\<Sum>(k, v)\<leftarrow>d. 6 * length k + print_bound v + 4)"
    unfolding sort_items_def sum_mset_sum_list [symmetric] mset_map by simp
  finally show ?case by simp
qed (use length_dump_str in \<open>auto split: if_splits\<close>)

lemma dumps_low_ascii: "ascii_json v \<Longrightarrow> low_ascii (dumps fl v)"
  using dumps_low by (auto simp: low_ascii_def list_all_iff)

lemma ascii_escapes_low: "low_ascii s \<Longrightarrow> ascii_escapes s = s"
  by (induction s) simp_all

lemma canonical_text_printed:
  assumes "ascii_json (JObj d)" "print_bound (JObj d) \<le> 65535"
  shows "utf8_valid (canonical_text fl (JObj d)) \<and> length (canonical_text fl (JObj d)) \<le> 65536"
proof -
  have "is_ascii (canonical_text fl (JObj d))"
    using low_ascii_is_ascii [OF dumps_low_ascii [OF assms(1)]] by (simp add: canonical_text_def del: dumps.simps)
  moreover have "length (canonical_text fl (JObj d)) \<le> 65536"
    using length_dumps [OF assms(1), of fl] assms(2) by (simp add: canonical_text_def del: dumps.simps print_bound.simps)
  ultimately show ?thesis by (simp add: utf8_valid_ascii)
qed

end
