(* ===== verification/Agreement.thy ===== *)
theory Agreement
  imports PublisherProps LedgerReplay PyJsonPrint
begin

text \<open>
  The publisher and the verifier on one release: what \<open>render_release_identity\<close>
  writes is accepted.  The sample publishes v0.1.10 with the receipt of the
  repository.
\<close>

section \<open>The property\<close>

text \<open>
  C7: the bytes that the publisher writes for a derived release edge are a
  canonical identity document, and every check of the verifier accepts it for the
  same edge and the matching REST release, whichever epoch the tag belongs to.
\<close>

theorem publisher_is_accepted:
  assumes "render_release_identity fl git head tag base_commit base_name tag_object ids args = Inr payload"
    and "git_tree git head ''release-identity source tree SHA'' = Inr tree"
    and "release_target tag head = Inr target" "identity (JStr tag) = Inr selected"
    and "expects ex tag head tree tag_object (selector_build_arg args)"
    and "release_record_for ids tag target (expected_staged ex) r"
  shows "\<exists>evidence digest. canonical_release_identity fl payload = Inr evidence \<and>
    check_identity_document selected ex r evidence = Inr digest"
proof -
  from assms(1) obtain d where d: "identity_evidence fl git head tag base_commit base_name tag_object ids args = Inr d"
    and payload: "payload = canonical_text fl (JObj d)" "utf8_valid payload" "length payload \<le> 65536"
    unfolding render_release_identity_def bind_eq_Inr deny_if_eq_Inr MAX_RELEASE_IDENTITY_BYTES_def
    by (auto simp: encode_utf8_def split: if_splits)
  from d have "plain_json (JObj d)" by (rule evidence_shape) (simp add: executed_document_def)
  from canonical_release_identity_accepts [OF this] payload
  have "canonical_release_identity fl payload = Inr (sorted_dict d)" by simp
  with publisher_agreement [OF d assms(2,3,5,6,4)] show ?thesis
    by (auto simp: check_identity_document_sorted)
qed

section \<open>The release of the sample repository\<close>

definition receipt_sites :: dict where
  "receipt_sites =
    [(''lidersea-com'', JObj
       [(''chart'', JObj
         [(''layer_digest'', JStr ''sha256:7497364e68af0f909625735bb1b7fe64120fd6920a2ff0e16dcefd9ebe352d99''),
          (''manifest_digest'', JStr ''sha256:5a944c4602cd1b1df8b6613bc2daa037dcc00b2616402de33e5eece1edd8cdf7''),
          (''repository'', JStr ''ghcr.io/snaraj/charts/lidersea-com''),
          (''version'', JStr ''0.1.42'')]),
        (''workload'', JObj
         [(''arm64_digest'', JStr ''sha256:f424768e07081d7f8fd85f0ea05e3e1e85421d62de27fe08109193a3813b0de9''),
          (''image'', JStr ''ghcr.io/snaraj/lidersea-com:v0.1.42@sha256:d23a20d3c222f7acb7e3a5e2391767eb5762dae3865eb1546b809d0811b8abc9'')])]),
      (''naranjo-online'', JObj
       [(''chart'', JObj
         [(''layer_digest'', JStr ''sha256:c9a3ee1272562dd7ab38d3ab834e491f8c689a799ee33eec56fa3fc9937ebe7f''),
          (''manifest_digest'', JStr ''sha256:a665c74985b0dc3e9b8351c0306d58f8d318a581f7fdda71874a98fde85773f3''),
          (''repository'', JStr ''ghcr.io/snaraj/charts/naranjo-online''),
          (''version'', JStr ''0.1.80'')]),
        (''workload'', JObj
         [(''arm64_digest'', JStr ''sha256:6e3c2d23ad04a61aa22d3c123802922c4d1360e8ca10c0635fe3511ad94ac786''),
          (''image'', JStr ''ghcr.io/snaraj/naranjo-online:v0.1.80@sha256:63236d492c84e7d0e48f3e8b8c1b7551053defbd6461e27a3b3e6e5c1559f05f'')])])]"

lemma receipt_ok: "plain_json (JObj receipt_document)" "sorted_dict receipt_document = receipt_document"
  "ascii_json (JObj receipt_document)" 
  by code_simp+

lemma receipt_sites_found: "for_each (site_identity receipt_records) site_subjects [] = Inr receipt_sites"
  by code_simp

lemma receipt_date: "date_fromisoformat ''2026-09-07'' \<noteq> None"
  by code_simp

lemma receipt_keys: "fst ` set receipt_records = {''lidersea-com'', ''naranjo-online''}"
  by (simp add: receipt_records_def)

lemma receipt_accepted:
  "site_identities_from_receipt sample_floats (dumps sample_floats (JObj receipt_document)) = Inr receipt_sites"
proof -
  have "low_ascii (dumps sample_floats (JObj receipt_document))"
    using receipt_ok(3) by (rule dumps_low_ascii)
  then have "decode_json_object sample_floats (dumps sample_floats (JObj receipt_document)) label = Inr receipt_document" for label
    using strict_keys.loads_dumps [OF receipt_ok(1), of "[]" sample_floats] receipt_ok(2)
    by (simp add: decode_json_object_def decode_utf8_def utf8_valid_ascii low_ascii_is_ascii sorted_dict_def del: dumps.simps)
  moreover have "fst ` set receipt_document = {''capturedDate'', ''chartLayerMediaType'', ''records'', ''schema'', ''tools''}"
    by (simp add: receipt_document_def)
  moreover have "get receipt_document ''schema'' = JStr ''dev.snaraj.chart-acquisition-receipt/v2''"
    "get receipt_document ''chartLayerMediaType'' = JStr ''application/vnd.cncf.helm.chart.content.v1.tar+gzip''"
    "get receipt_document ''capturedDate'' = JStr ''2026-09-07''" "get receipt_document ''records'' = JObj receipt_records"
    "get receipt_document ''tools'' = JObj [(''cosign'', JStr ''3.1.3''), (''oras'', JStr ''1.3.4'')]"
    by (simp_all add: receipt_document_def)
  ultimately show ?thesis
    using receipt_sites_found receipt_date receipt_keys unfolding site_identities_from_receipt_def
    by (simp add: object_of_def keys_are_def site_subjects_def del: for_each.simps)
qed

definition sample_ids :: run_ids where
  "sample_ids = \<lparr>release_id = 7, main_run_id = 11, main_run_attempt = 1, platform_run_id = 12, platform_run_attempt = 1\<rparr>"

definition sample_tree :: string where "sample_tree = replicate 40 CHR ''c''"
definition sample_object :: string where "sample_object = replicate 40 CHR ''d''"
definition sample_build :: string where "sample_build = replicate 40 CHR ''e''"
definition sample_digest :: string where "sample_digest = ''sha256:'' @ replicate 64 CHR ''1''"

definition sample_args :: publish_args where
  "sample_args = \<lparr>selector_digest_arg = Some sample_digest, selector_build_arg = Some sample_build,
     github_repository_arg = None, github_repository_id_arg = None, execution_sha_arg = None,
     execution_run_arg = None, execution_attempt_arg = None\<rparr>"

definition sample_epoch :: epoch_identity where
  "sample_epoch = projr (identity (JStr ''v0.1.10''))"

text \<open>The document, over the digest of the fragment.\<close>

definition sample_identity :: "string \<Rightarrow> dict" where
  "sample_identity digest =
    put (put (base_evidence (window_of floor_boundary sample_head (Version 0 1 10)
      \<lparr>fragment_source_sha = sample_head, fragment_path = sample_path, fragment_sha256 = digest\<rparr>) sample_epoch sample_head sample_tree
      ''v0.1.10'' sample_object sample_ids) ''selector'' (selector_evidence sample_digest sample_build))
      ''sites'' (JObj receipt_sites)"

lemma sample_epoch: "identity (JStr ''v0.1.10'') = Inr sample_epoch" "id_version sample_epoch = 1"
  by code_simp+

lemma sample_queries:
  "exact_commit sample_git sample_head field = Inr sample_head"
  "git_tree sample_git sample_head field = Inr sample_tree"
  "file_bytes sample_git sample_head RELEASE_IDENTITY_RECEIPT_PATH =
     Inr (dumps sample_floats (JObj receipt_document))"
proof -
  have "git_text sample_git [''rev-parse'', ''--verify'', sample_head @ ''^{commit}''] = Inr sample_head" "sha1_hex sample_head"
    by code_simp+
  then show "exact_commit sample_git sample_head field = Inr sample_head" by (simp add: exact_commit_Inr)
  have "git_text sample_git [''rev-parse'', sample_head @ ''^{tree}''] = Inr sample_tree" "sha1_hex sample_tree"
    by code_simp+
  then show "git_tree sample_git sample_head field = Inr sample_tree" by (simp add: git_tree_def)
  show "file_bytes sample_git sample_head RELEASE_IDENTITY_RECEIPT_PATH =
     Inr (dumps sample_floats (JObj receipt_document))"
    unfolding file_bytes_def git_bytes_def sample_git_def with_receipt_def
    by (simp add: receipt_query_def run_bytes_def del: dumps.simps)
qed

lemma sample_identity_fields:
  "get (sample_identity digest) ''tag'' = JObj [(''name'', JStr ''v0.1.10''), (''object_sha'', JStr sample_object),
     (''object_type'', JStr ''tag''), (''peeled_commit'', JStr sample_head)]"
  "get (sample_identity digest) ''schema'' = JStr (id_schema sample_epoch)"
  "get (sample_identity digest) ''repository'' = JStr (id_repository sample_epoch)"
  "get (sample_identity digest) ''predecessor'' = JObj [(''peeled_commit'', JStr TAG_LEDGER_FLOOR_SHA), (''tag'', JStr ''v0.1.9'')]"
  "has_key (sample_identity digest) ''tag''" "has_key (sample_identity digest) ''predecessor''"
  by (simp_all add: sample_identity_def base_evidence_def window_of_def floor_boundary_def)

lemma sample_edge: "next_tag (JStr ''v0.1.9'') = Inr ''v0.1.10''" "version (JStr ''v0.1.10'') = Inr (0, 1, 10)"
  "JStr ''v0.1.10'' \<noteq> JStr TERMINAL_V1_TAG" "(case version (JStr TERMINAL_V1_TAG) of Inr t \<Rightarrow> \<not> t \<le> (0, 1, 10) | _ \<Rightarrow> False)"
  by code_simp+

lemma sample_identity_valid: "validate_identity (sample_identity digest) = Inr ()"
proof -
  obtain t where t: "version (JStr TERMINAL_V1_TAG) = Inr t" "\<not> t \<le> (0, 1, 10)"
    using sample_edge(4) by (auto split: sum.splits)
  show ?thesis
    unfolding validate_identity_def item_get [OF sample_identity_fields(5)] item_get [OF sample_identity_fields(6)]
      sample_identity_fields bind_simps
    using sample_edge(3) t by (simp add: sample_epoch sample_edge item_def)
qed

lemma sample_shas: "require_sha (JStr TAG_LEDGER_FLOOR_SHA) field = Inr TAG_LEDGER_FLOOR_SHA"
  "require_sha (JStr sample_object) field = Inr sample_object" "require_sha (JStr sample_build) field = Inr sample_build"
  "sha256_ref sample_digest" "run_ids_error sample_ids = None" "selector_digest_arg sample_args = Some sample_digest"
  "selector_build_arg sample_args = Some sample_build"
  unfolding require_sha_Inr by code_simp+

lemma sample_selected: "select_epoch head ''v0.1.10'' base name sample_args = Inr sample_epoch"
  by (simp add: select_epoch_def sample_args_def sample_epoch)

lemma sample_window_edge:
  "\<not> (intent_tag (window_intent sample_window) \<noteq> ''v0.1.10'' \<or> base_sha sample_window \<noteq> TAG_LEDGER_FLOOR_SHA \<or>
      base_tag sample_window \<noteq> ''v0.1.9'')"
  by (simp add: sample_window_simps) (simp add: sample_window_def window_of_def floor_boundary_def)

lemma sample_rendered:
  "identity_evidence sample_floats sample_git sample_head ''v0.1.10'' TAG_LEDGER_FLOOR_SHA ''v0.1.9'' sample_object
     sample_ids sample_args = Inr (sample_identity (sha256_hex sample_payload))"
proof -
  have window: "window_of floor_boundary sample_head (Version 0 1 10) \<lparr>fragment_source_sha = sample_head,
      fragment_path = sample_path, fragment_sha256 = sha256_hex sample_payload\<rparr> = sample_window"
    by (simp add: sample_window_def sample_fragment_def)
  let ?base = "base_evidence sample_window sample_epoch sample_head sample_tree ''v0.1.10'' sample_object sample_ids"
  have selector: "with_selector sample_floats sample_git sample_head (Some sample_digest) (Some sample_build) ?base =
      Inr (sample_identity (sha256_hex sample_payload))"
    unfolding with_selector_def sample_identity_def window by (simp add: sample_shas sample_queries receipt_accepted del: dumps.simps)
  show ?thesis
    unfolding identity_evidence_def sample_queries bind_simps sample_shas sample_discovered deny_if_def
      if_not_P [OF sample_window_edge] sample_selected option.case Let_def
    by (simp add: sample_epoch selector sample_identity_valid)
qed

lemma sample_ascii: "ascii_json (JObj receipt_sites)" "low_ascii WORKFLOW_PATH" "low_ascii PLATFORM_WORKFLOW_PATH"
  "low_ascii PROTECTED_REF" "low_ascii SELECTOR_IMAGE" "low_ascii SELECTOR_CERTIFICATE_SUBJECT"
  "low_ascii SLSA_PROVENANCE_V1" "low_ascii SELECTOR_CERTIFICATE_ISSUER" "low_ascii (id_schema sample_epoch)"
  "low_ascii (id_repository sample_epoch)" "low_ascii TAG_LEDGER_FLOOR_SHA" "low_ascii sample_path"
  by code_simp+

lemma sample_bounds: "print_bound (JObj receipt_sites) \<le> 6000"
   "length WORKFLOW_PATH \<le> 100" "length PLATFORM_WORKFLOW_PATH \<le> 100" 
   "length PROTECTED_REF \<le> 100"
   "length SELECTOR_IMAGE \<le> 100" "length SELECTOR_CERTIFICATE_SUBJECT \<le> 200" "length SLSA_PROVENANCE_V1 \<le> 100"
   "length SELECTOR_CERTIFICATE_ISSUER \<le> 100" "length (id_schema sample_epoch) \<le> 100"
   "length (id_repository sample_epoch) \<le> 100" "length TAG_LEDGER_FLOOR_SHA = 40" "length sample_path \<le> 100"
   "length (show_int 1) \<le> 9" "length (show_int 2) \<le> 9" "length (show_int 7) \<le> 9"
   "length (show_int 11) \<le> 9" "length (show_int 12) \<le> 9"
   by (simp add: receipt_sites_def) code_simp+

lemma sample_digests: "low_ascii (sha256_hex p)" "length (sha256_hex p) = 64"
proof -
  have "list_all is_hex (sha256_hex p)" "length (sha256_hex p) = 64"
    using hexlify_hex [of "sha256_digest p"] by (simp_all add: sha256_hex_def length_sha256_digest)
  then show "low_ascii (sha256_hex p)" "length (sha256_hex p) = 64"
    by (simp_all add: low_ascii_hex)
qed

lemmas sample_shape = sample_identity_def base_evidence_def selector_evidence_def window_of_def floor_boundary_def
  sample_object_def sample_head_def sample_tree_def sample_digest_def sample_build_def main_ci_evidence_def
  platform_evidence_def release_evidence_def sample_ids_def

lemma sample_printed:
  "ascii_json (JObj (sample_identity (sha256_hex p)))"
  "print_bound (JObj (sample_identity (sha256_hex p))) \<le> 65535"
  using sample_ascii sample_bounds sample_digests [of p]
  by (simp_all add: sample_shape)

text \<open>The REST record of the draft, as the caller of the verifier holds it.\<close>

definition sample_release :: dict where
  "sample_release =
    [(''id'', JInt 7), (''tag_name'', JStr ''v0.1.10''), (''name'', JStr ''Platform v0.1.10''),
     (''target_commitish'', JStr sample_head), (''draft'', JBool True), (''prerelease'', JBool False),
     (''immutable'', JBool False), (''body'', JStr ''notes''),
     (''author'', JObj [(''login'', JStr BOT_LOGIN), (''id'', JInt BOT_ID)])]"

definition sample_expected :: expected_release where
  "sample_expected = \<lparr>expected_tag = ''v0.1.10'', expected_sha = sample_head, expected_build_sha = Some sample_build,
     expected_tag_object_sha = Some sample_object, expected_tree_sha = Some sample_tree, expected_staged = True,
     expected_api_repository = None, expected_api_repository_id = None\<rparr>"

theorem publisher_is_accepted_witness:
  "\<exists>payload evidence digest. render_release_identity sample_floats sample_git sample_head ''v0.1.10''
      TAG_LEDGER_FLOOR_SHA ''v0.1.9'' sample_object sample_ids sample_args = Inr payload \<and>
    canonical_release_identity sample_floats payload = Inr evidence \<and>
    check_identity_document sample_epoch sample_expected sample_release evidence = Inr digest"
proof -
  let ?d = "sample_identity (sha256_hex sample_payload)"
  have "ascii_json (JObj ?d)" "print_bound (JObj ?d) \<le> 65535" using sample_printed by simp_all
  then have "utf8_valid (canonical_text sample_floats (JObj ?d)) \<and> length (canonical_text sample_floats (JObj ?d)) \<le> 65536"
    by (rule canonical_text_printed)
  then have "render_release_identity sample_floats sample_git sample_head ''v0.1.10''
      TAG_LEDGER_FLOOR_SHA ''v0.1.9'' sample_object sample_ids sample_args = Inr (canonical_text sample_floats (JObj ?d))"
    unfolding render_release_identity_def sample_rendered
    by (simp add: encode_utf8_def MAX_RELEASE_IDENTITY_BYTES_def)
  moreover have "release_target ''v0.1.10'' sample_head = Inr sample_head"
    using release_target_ordinary [OF sample_epoch(1)] sample_epoch(2) by simp
  moreover have "release_record_for sample_ids ''v0.1.10'' sample_head (expected_staged sample_expected) sample_release"
    by (simp add: release_record_for_def sample_release_def sample_expected_def sample_ids_def keys_include_def is_bot_def)
  moreover have "expects sample_expected ''v0.1.10'' sample_head sample_tree sample_object (selector_build_arg sample_args)"
    by (simp add: expects_def sample_expected_def sample_args_def)
  ultimately show ?thesis
    using publisher_is_accepted [OF _ sample_queries(2) _ sample_epoch(1)] by blast
qed

end
