(* ===== verification/Records.thy ===== *)
theory Records
  imports IdentityCheck
begin

text \<open>
  scripts/ci/platform_release_contract.py: the REST records of a publication.  The
  annotated tag, the published Release, the mutable draft, and their classification
  as absent or exact.
\<close>

section \<open>Constants\<close>

definition GRANDFATHERED_MAIN_RELEASE_TARGETS :: "(string \<times> string) list" where
  "GRANDFATHERED_MAIN_RELEASE_TARGETS =
    [(RECOVERY_TAG, RECOVERY_SOURCE_SHA), (''v0.1.19'', ''95d1a8f26dedc8853b5c41b349e05cdc6d1a947c'')]"

section \<open>Tags\<close>

definition same_instant :: "json \<Rightarrow> string \<Rightarrow> string \<Rightarrow> unit res" where
  "same_instant actual expected field =
    (case actual of
       JStr a \<Rightarrow>
         (case (datetime_fromisoformat (replace_z a), datetime_fromisoformat (replace_z expected)) of
            (Some at, Some et) \<Rightarrow>
              deny_if (utc at = None \<or> utc et = None \<or> utc at \<noteq> utc et)
                (field @ '' does not equal the deterministic source-commit instant'') (Inr ())
          | _ \<Rightarrow> Inl (ContractError (field @ '' must be an ISO-8601 timestamp'')))
     | _ \<Rightarrow> Inl (ContractError (field @ '' must be an ISO-8601 timestamp'')))"

record tag_expectation =
  te_tag :: string
  te_source_sha :: string
  te_message :: string
  te_tagger_name :: string
  te_tagger_email :: string
  te_tagger_date :: string

definition validate_tag_record :: "dict \<Rightarrow> dict \<Rightarrow> tag_expectation \<Rightarrow> unit res" where
  "validate_tag_record ref_record tag_record te =
    bind (require_sha (JStr (te_source_sha te)) ''tag target SHA'') (\<lambda>source_sha.
    bind (object_of (get ref_record ''object'') ''tag ref object'') (\<lambda>ref_object.
    bind (require_sha (get ref_object ''sha'') ''annotated tag object SHA'') (\<lambda>tag_object_sha.
    deny_if
      (get ref_record ''ref'' \<noteq> JStr (''refs/tags/'' @ te_tag te) \<or> get ref_object ''type'' \<noteq> JStr ''tag'')
      ''tag ref is not the exact annotated tag object'' (
    deny_if (get tag_record ''sha'' \<noteq> JStr tag_object_sha \<or> get tag_record ''tag'' \<noteq> JStr (te_tag te))
      ''annotated tag object identity does not match its ref'' (
    bind (object_of (get tag_record ''object'') ''annotated tag target'') (\<lambda>target.
    deny_if (get target ''type'' \<noteq> JStr ''commit'' \<or> get target ''sha'' \<noteq> JStr source_sha)
      ''annotated tag target is not the exact source commit'' (
    deny_if (get tag_record ''message'' \<noteq> JStr (te_message te)) ''annotated tag message is not exact'' (
    deny_if
      (te_tagger_name te \<noteq> ''github-actions[bot]''
        \<or> te_tagger_email te \<noteq> ''41898282+github-actions[bot]@users.noreply.github.com'')
      ''expected annotated tagger is not the GitHub Actions bot'' (
    bind (object_of (get tag_record ''tagger'') ''annotated tagger'') (\<lambda>tagger.
    deny_if
      (get tagger ''name'' \<noteq> JStr (te_tagger_name te) \<or> get tagger ''email'' \<noteq> JStr (te_tagger_email te))
      ''annotated tagger identity violates policy'' (
    same_instant (get tagger ''date'') (te_tagger_date te) ''annotated tagger date'')))))))))))"

section \<open>Published releases\<close>

record release_expectation =
  re_tag :: string
  re_source_sha :: string
  re_title :: string
  re_body :: string

definition body_matches :: "json \<Rightarrow> string \<Rightarrow> bool" where
  "body_matches actual body =
    (if startswith body ''{'' then actual = JStr body
     else str_matches (\<lambda>a. rstrip_crlf a = rstrip_crlf body) actual)"

definition validate_release_record :: "dict \<Rightarrow> release_expectation \<Rightarrow> bool \<Rightarrow> unit res" where
  "validate_release_record record re allow_grandfathered =
    bind (require_sha (JStr (re_source_sha re)) ''GitHub Release target SHA'') (\<lambda>source_sha.
    deny_if (get record ''tag_name'' \<noteq> JStr (re_tag re) \<or> get record ''name'' \<noteq> JStr (re_title re))
      ''GitHub Release tag or title is not exact'' (
    let target = get record ''target_commitish'';
        grandfathered = (allow_grandfathered \<and> target = JStr ''main''
          \<and> (re_tag re, source_sha) \<in> set GRANDFATHERED_MAIN_RELEASE_TARGETS)
    in
    deny_if (target \<noteq> JStr source_sha \<and> \<not> grandfathered) ''GitHub Release target is not the exact source commit'' (
    deny_if (\<not> is_str (get record ''body'') \<or> \<not> body_matches (get record ''body'') (re_body re))
      ''GitHub Release notes are not exact'' (
    deny_if (get record ''draft'' \<noteq> JBool False \<or> get record ''prerelease'' \<noteq> JBool False)
      ''GitHub Release must be published and non-prerelease'' (
    deny_if (get record ''immutable'' \<noteq> JBool True) ''GitHub Release must be authoritatively immutable'' (
    bind (object_of (get record ''author'') ''GitHub Release author'') (\<lambda>author.
    deny_if (\<not> is_bot author) ''GitHub Release author is not the GitHub Actions bot'' (
    deny_if (get record ''assets'' \<noteq> JArr []) ''GitHub Release asset inventory must be exactly empty'' (Inr ())))))))))"

section \<open>The mutable draft\<close>

record draft_expectation =
  de_release_id :: "int option"
  de_server_tag :: "string option"
  de_asset_count :: int

definition validate_draft_release_record :: "dict \<Rightarrow> release_expectation \<Rightarrow> draft_expectation \<Rightarrow> unit res" where
  "validate_draft_release_record record re de =
    bind (require_sha (JStr (re_source_sha re)) ''draft Release target SHA'') (\<lambda>source_sha.
    bind (rewrap is_value_error (\<lambda>_. ContractError ''draft Release source policy is foreign'')
            (release_target (re_tag re) source_sha)) (\<lambda>target.
    deny_if (\<not> positive_int (get record ''id'')) ''draft Release ID is invalid'' (
    deny_if (case de_release_id de of None \<Rightarrow> False | Some i \<Rightarrow> get record ''id'' \<noteq> JInt i)
      ''draft Release ID is not the expected incident object'' (
    let draft_tag = get record ''tag_name'' in
    bind (case de_server_tag de of
            Some t \<Rightarrow>
              deny_if (draft_tag \<noteq> JStr t) ''draft Release server tag is not the expected incident object'' (Inr ())
          | None \<Rightarrow>
              deny_if (draft_tag \<noteq> JStr (re_tag re) \<and> \<not> str_matches server_draft_tag draft_tag)
                ''draft Release server tag is foreign'' (Inr ())) (\<lambda>_.
    deny_if (get record ''name'' \<noteq> JStr (re_title re) \<or> get record ''target_commitish'' \<noteq> JStr target)
      ''draft Release identity is not exact'' (
    deny_if (get record ''body'' \<noteq> JStr (re_body re)) ''draft Release body is not byte-exact'' (
    deny_if (get record ''draft'' \<noteq> JBool True \<or> get record ''prerelease'' \<noteq> JBool False)
      ''draft Release lifecycle state is not exact'' (
    deny_if (get record ''immutable'' \<noteq> JBool False) ''draft Release became immutable before publication'' (
    bind (object_of (get record ''author'') ''draft Release author'') (\<lambda>author.
    deny_if (\<not> is_bot author) ''draft Release author is not the GitHub Actions bot'' (
    deny_if (de_asset_count de \<notin> {0, 2}) ''draft Release expected asset count is invalid'' (
    deny_if
      (case get record ''assets'' of JArr assets \<Rightarrow> int (length assets) \<noteq> de_asset_count de | _ \<Rightarrow> True)
      ''draft Release asset inventory count is not exact'' (Inr ())))))))))))))"

text \<open>The shapes in which an inventory of releases arrives.\<close>

fun is_arr :: "json \<Rightarrow> bool" where
  "is_arr (JArr _) = True"
| "is_arr _ = False"

fun is_obj :: "json \<Rightarrow> bool" where
  "is_obj (JObj _) = True"
| "is_obj _ = False"

fun arr_items :: "json \<Rightarrow> json list" where
  "arr_items (JArr xs) = xs"
| "arr_items _ = []"

definition release_inventory :: "json \<Rightarrow> json list res" where
  "release_inventory pages =
    (case pages of
       JObj d \<Rightarrow> Inr [JObj d]
     | JArr xs \<Rightarrow>
         if xs = [] then Inr []
         else if list_all is_arr xs then Inr (concat (map arr_items xs))
         else if list_all is_obj xs then Inr xs
         else Inl (ContractError ''draft Release page inventory is malformed'')
     | _ \<Rightarrow> Inl (ContractError ''draft Release page inventory is invalid''))"

definition draft_relevant ::
  "string \<Rightarrow> string \<Rightarrow> string \<Rightarrow> string list \<Rightarrow> draft_expectation \<Rightarrow> dict \<Rightarrow> bool" where
  "draft_relevant tag sha title bodies de record =
    (get record ''tag_name'' = JStr tag
      \<or> get record ''target_commitish'' = JStr sha
      \<or> get record ''name'' = JStr title
      \<or> in_strs (get record ''body'') bodies
      \<or> (case de_release_id de of None \<Rightarrow> False | Some i \<Rightarrow> json_eq (get record ''id'') (JInt i))
      \<or> (case de_server_tag de of None \<Rightarrow> False | Some t \<Rightarrow> get record ''tag_name'' = JStr t))"

definition exact_published :: "string \<Rightarrow> string \<Rightarrow> string \<Rightarrow> string list \<Rightarrow> dict \<Rightarrow> bool" where
  "exact_published tag sha title bodies record =
    (get record ''tag_name'' = JStr tag
      \<and> get record ''target_commitish'' = JStr sha
      \<and> get record ''name'' = JStr title
      \<and> in_strs (get record ''body'') bodies
      \<and> get record ''draft'' = JBool False
      \<and> get record ''prerelease'' = JBool False
      \<and> get record ''immutable'' = JBool True
      \<and> (case get record ''author'' of JObj author \<Rightarrow> is_bot author | _ \<Rightarrow> False))"

definition draft_candidate ::
  "string \<Rightarrow> string \<Rightarrow> string \<Rightarrow> string list \<Rightarrow> draft_expectation \<Rightarrow> json \<Rightarrow> nat \<times> dict list \<Rightarrow> (nat \<times> dict list) res" where
  "draft_candidate tag sha title bodies de v state =
    (case state of (index, candidates) \<Rightarrow>
      bind (object_of v (''draft Release inventory item '' @ show_nat index)) (\<lambda>record.
      Inr (index + 1,
        if draft_relevant tag sha title bodies de record \<and> \<not> exact_published tag sha title bodies record
        then candidates @ [record] else candidates)))"

definition classify_draft_release_state ::
  "json \<Rightarrow> string \<Rightarrow> string \<Rightarrow> string \<Rightarrow> string list \<Rightarrow> draft_expectation \<Rightarrow> (string \<times> json) res" where
  "classify_draft_release_state pages tag source_sha title bodies de =
    bind (require_sha (JStr source_sha) ''draft Release target SHA'') (\<lambda>sha.
    deny_if (bodies = []) ''draft Release expected bodies are invalid'' (
    bind (release_inventory pages) (\<lambda>records.
    deny_if (MAX_TAG_LEDGER_ENTRIES < length records) ''draft Release inventory exceeds the review bound'' (
    bind (for_each (draft_candidate tag sha title bodies de) records (0, [])) (\<lambda>(index, candidates).
    case candidates of
      [] \<Rightarrow> Inr (''absent'', JNull)
    | [candidate] \<Rightarrow>
        (case get candidate ''body'' of
           JStr body \<Rightarrow>
             deny_if (body \<notin> set bodies) ''draft Release body is not one reviewed state'' (
             bind (validate_draft_release_record candidate
                     \<lparr>re_tag = tag, re_source_sha = sha, re_title = title, re_body = body\<rparr> de) (\<lambda>_.
             Inr (''exact'', get candidate ''id'')))
         | _ \<Rightarrow> Inl (ContractError ''draft Release body is not one reviewed state''))
    | _ \<Rightarrow> Inl (ContractError ''draft Release inventory is ambiguous or conflicting''))))))"

section \<open>Absent or exact\<close>

definition classify_tag_state :: "int \<Rightarrow> dict option \<Rightarrow> dict option \<Rightarrow> tag_expectation \<Rightarrow> string res" where
  "classify_tag_state http_status ref_record tag_record te =
    (if http_status = 404 then
       deny_if (ref_record \<noteq> None \<or> tag_record \<noteq> None) ''absent tag state cannot carry tag records'' (Inr ''absent'')
     else
       deny_if (http_status \<noteq> 200) (''tag ref probe returned unexpected HTTP '' @ show_int http_status) (
       case (ref_record, tag_record) of
         (Some r, Some t) \<Rightarrow> bind (validate_tag_record r t te) (\<lambda>_. Inr ''exact'')
       | _ \<Rightarrow> Inl (ContractError ''present tag state requires both REST tag records'')))"

definition classify_release_state :: "int \<Rightarrow> dict option \<Rightarrow> release_expectation \<Rightarrow> bool \<Rightarrow> string res" where
  "classify_release_state http_status release_record re allow_grandfathered =
    bind (require_sha (JStr (re_source_sha re)) ''GitHub Release target SHA'') (\<lambda>_.
    if http_status = 404 then
      deny_if (release_record \<noteq> None) ''absent GitHub Release state cannot carry a record'' (Inr ''absent'')
    else
      deny_if (http_status \<noteq> 200) (''GitHub Release probe returned unexpected HTTP '' @ show_int http_status) (
      case release_record of
        None \<Rightarrow> Inl (ContractError ''present GitHub Release state requires its REST record'')
      | Some r \<Rightarrow> bind (validate_release_record r re allow_grandfathered) (\<lambda>_. Inr ''exact'')))"

definition classify_identity_release_state ::
  "float_text \<Rightarrow> int \<Rightarrow> dict option \<Rightarrow> string option \<Rightarrow> string option \<Rightarrow> expected_release \<Rightarrow> string res" where
  "classify_identity_release_state fl http_status release_record document bundle ex =
    bind (require_sha (JStr (expected_sha ex)) ''GitHub Release target SHA'') (\<lambda>_.
    if http_status = 404 then
      deny_if (release_record \<noteq> None \<or> document \<noteq> None \<or> bundle \<noteq> None)
        ''absent identity Release cannot carry records'' (Inr ''absent'')
    else
      deny_if (http_status \<noteq> 200) (''identity Release probe returned unexpected HTTP '' @ show_int http_status) (
      case (release_record, document, bundle) of
        (Some r, Some d, Some b) \<Rightarrow>
          bind (validate_identity_release_record fl r d b (ex\<lparr>expected_staged := False\<rparr>)) (\<lambda>_. Inr ''exact'')
      | _ \<Rightarrow> Inl (ContractError ''present identity Release requires metadata and both assets'')))"

definition require_publication_state :: "string \<Rightarrow> string \<Rightarrow> string res" where
  "require_publication_state actual required =
    deny_if (required \<notin> {''absent'', ''exact''} \<or> actual \<noteq> required)
      ''publication state does not equal required'' (Inr actual)"

end
