(* ===== verification/RunEvidence.thy ===== *)
theory RunEvidence
  imports Records
begin

text \<open>
  scripts/ci/platform_release_contract.py: the workflow attempts a signed identity
  names, against the run records GitHub returns, and the one burned partial release.
\<close>

section \<open>Constants of the burned partial release\<close>

definition BURNED_PARTIAL_TAG :: string where "BURNED_PARTIAL_TAG = ''v0.1.42''"
definition BURNED_PARTIAL_SOURCE_SHA :: string where
  "BURNED_PARTIAL_SOURCE_SHA = ''6d85c2b01dd4bd66add4192372b26bcdf1b0a951''"
definition BURNED_PARTIAL_TAG_OBJECT_SHA :: string where
  "BURNED_PARTIAL_TAG_OBJECT_SHA = ''9821c1bdb462bb76a9a8c89d5523ab44cdab35e2''"
definition BURNED_PARTIAL_TREE_SHA :: string where
  "BURNED_PARTIAL_TREE_SHA = ''ac999a9d0f1626df897d66903ed52c42a26e65a9''"
definition BURNED_PARTIAL_DRAFT_ID :: int where "BURNED_PARTIAL_DRAFT_ID = 378336604"
definition BURNED_PARTIAL_DOWNLOAD_TOKEN_SHA256 :: string where
  "BURNED_PARTIAL_DOWNLOAD_TOKEN_SHA256 = ''b20952c4af11ed71690a8f921cf4010982ef458806d97d2c6073215c28c5644c''"
definition BURNED_PARTIAL_IDENTITY_ASSET_ID :: int where "BURNED_PARTIAL_IDENTITY_ASSET_ID = 533468594"
definition BURNED_PARTIAL_IDENTITY_SHA256 :: string where
  "BURNED_PARTIAL_IDENTITY_SHA256 = ''36d9be841c616aee31a72484f3dddafaa419363c35aa3056bdb3a13becf091f8''"
definition BURNED_PARTIAL_BUNDLE_ASSET_ID :: int where "BURNED_PARTIAL_BUNDLE_ASSET_ID = 533468609"
definition BURNED_PARTIAL_BUNDLE_SHA256 :: string where
  "BURNED_PARTIAL_BUNDLE_SHA256 = ''c98827ef92cfb2727128b6acd227ad9a111cada5682a9f1cda7fb6b1e814ca3c''"
definition BURNED_PARTIAL_MAIN_RUN_ID :: int where "BURNED_PARTIAL_MAIN_RUN_ID = 33152936164"
definition BURNED_PARTIAL_PLATFORM_RUN_ID :: int where "BURNED_PARTIAL_PLATFORM_RUN_ID = 33153400419"
definition BURNED_PARTIAL_RUN_ATTEMPT :: int where "BURNED_PARTIAL_RUN_ATTEMPT = 1"
definition BURNED_PARTIAL_SELECTOR_DIGEST :: string where
  "BURNED_PARTIAL_SELECTOR_DIGEST = ''sha256:c9f8d59013bc5ca9431e3ccd22227e4e05920746829318cacf1ccb70b17d2e61''"

section \<open>Workflow attempts\<close>

record run_row =
  row_key :: string
  row_receipt :: json
  row_actual :: dict
  row_workflow :: string
  row_event :: string
  row_conclusion :: bool
  row_actual_conclusion :: json
  row_status :: json
  row_sha :: json

definition run_epoch :: "dict \<Rightarrow> epoch_identity res" where
  "run_epoch evidence =
    bind (item evidence ''tag'') (\<lambda>tag_record.
    bind (subscript tag_record ''name'') (\<lambda>tag.
    bind (identity tag) (\<lambda>selected.
    bind (item evidence ''schema'') (\<lambda>schema.
    bind (item evidence ''repository'') (\<lambda>name.
    value_error_if ((schema, name) \<noteq> (JStr (id_schema selected), JStr (id_repository selected)))
      ''run identity epoch is foreign'' (
    if 2 \<le> id_version selected
    then bind (repository name (get evidence ''repository_id'')) (\<lambda>_. Inr selected)
    else Inr selected))))))"

definition attempt_bad :: "run_row \<Rightarrow> dict \<Rightarrow> bool" where
  "attempt_bad row receipt =
    (let actual = row_actual row in
      \<not> keys_are receipt (run_fields (row_conclusion row))
      \<or> run_bad receipt (row_event row) (row_sha row) (row_workflow row) (row_conclusion row)
      \<or> \<not> json_eq (get actual ''id'') (get receipt ''run_id'')
      \<or> \<not> json_eq (get actual ''run_attempt'') (get receipt ''run_attempt'')
      \<or> get actual ''event'' \<noteq> JStr (row_event row)
      \<or> get actual ''head_branch'' \<noteq> JStr ''main''
      \<or> get actual ''head_sha'' \<noteq> row_sha row
      \<or> get actual ''path'' \<noteq> JStr (row_workflow row)
      \<or> get actual ''status'' \<noteq> row_status row
      \<or> get actual ''conclusion'' \<noteq> row_actual_conclusion row)"

definition check_row :: "dict \<Rightarrow> run_row \<Rightarrow> unit \<Rightarrow> unit res" where
  "check_row evidence row u =
    bind (object_of (row_receipt row) (''release identity '' @ row_key row)) (\<lambda>receipt.
    bind (object_of (get (row_actual row) ''repository'') (row_key row @ '' run repository'')) (\<lambda>run_repo.
    bind (rewrap is_shape_error (\<lambda>_. ContractError (row_key row @ '' workflow repository is foreign''))
            (bind (item evidence ''tag'') (\<lambda>tag_record.
             bind (subscript tag_record ''name'') (\<lambda>tag. run_repository tag run_repo)))) (\<lambda>_.
    deny_if (attempt_bad row receipt) (''release identity '' @ row_key row @ '' workflow attempt is foreign'')
      (Inr ()))))"

definition pending_statuses :: "string list" where
  "pending_statuses = [''queued'', ''in_progress'', ''pending'', ''requested'', ''waiting'']"

definition check_pending :: "bool \<Rightarrow> epoch_identity \<Rightarrow> string \<Rightarrow> dict \<Rightarrow> unit res" where
  "check_pending platform_pending selected platform_conclusion platform_run =
    (if \<not> platform_pending then Inr ()
     else
       deny_if (id_version selected \<noteq> 4 \<or> platform_conclusion \<noteq> ''success'')
         ''pending publisher classification is foreign'' (
       bind (in_str_set (get platform_run ''status'') pending_statuses) (\<lambda>known.
       deny_if (\<not> known \<or> get platform_run ''conclusion'' \<noteq> JNull)
         ''pending publisher classification is foreign'' (Inr ()))))"

text \<open>The executor of the fourth epoch, its commit and its own main run.\<close>

definition executor_rows :: "epoch_identity \<Rightarrow> dict \<Rightarrow> string \<Rightarrow> json \<Rightarrow> dict \<Rightarrow> dict option \<Rightarrow> run_row list res" where
  "executor_rows selected evidence source_sha execution_sha main_run execution_run =
    (if id_version selected \<noteq> 4 then Inr []
     else
       bind (case execution_run of
               Some run \<Rightarrow> Inr run
             | None \<Rightarrow>
                 deny_if (execution_sha \<noteq> JStr source_sha)
                   ''historical publication requires executor main CI proof'' (Inr main_run)) (\<lambda>run.
       bind (object_of (get run ''head_commit'') ''executor head commit'') (\<lambda>head_commit.
       bind (item evidence ''execution'') (\<lambda>execution.
       bind (subscript execution ''tree_sha'') (\<lambda>tree.
       deny_if ((get head_commit ''id'', get head_commit ''tree_id'') \<noteq> (execution_sha, tree))
         ''executor tree differs from its completed main CI record'' (
       bind (subscript execution ''main_ci'') (\<lambda>main_ci.
       Inr [\<lparr>row_key = ''execution.main_ci'', row_receipt = main_ci, row_actual = run, row_workflow = WORKFLOW_PATH,
             row_event = ''push'', row_conclusion = True, row_actual_conclusion = JStr ''success'',
             row_status = JStr ''completed'', row_sha = execution_sha\<rparr>])))))))"

definition execution_source :: "epoch_identity \<Rightarrow> dict \<Rightarrow> string \<Rightarrow> json res" where
  "execution_source selected evidence source_sha =
    (if id_version selected = 4
     then bind (rewrap is_shape_error (\<lambda>_. ContractError ''signed publication execution is foreign'')
                  (validate_execution evidence)) (\<lambda>_.
          bind (item evidence ''execution'') (\<lambda>execution. subscript execution ''source_sha''))
     else Inr (JStr source_sha))"

definition validate_identity_run_records ::
  "float_text \<Rightarrow> string \<Rightarrow> dict \<Rightarrow> dict \<Rightarrow> string \<Rightarrow> dict option \<Rightarrow> bool \<Rightarrow> unit res" where
  "validate_identity_run_records fl document main_run platform_run platform_conclusion execution_run platform_pending =
    deny_if (platform_conclusion \<notin> {''success'', ''failure''}) ''platform Release run conclusion is invalid'' (
    bind (canonical_release_identity fl document) (\<lambda>evidence.
    bind (rewrap is_shape_error (\<lambda>_. ContractError ''run identity epoch is foreign'') (run_epoch evidence)) (\<lambda>selected.
    bind (object_of (get evidence ''source'') ''release identity source'') (\<lambda>source.
    bind (require_sha (get source ''merge_sha'') ''release identity workflow source SHA'') (\<lambda>source_sha.
    bind (check_pending platform_pending selected platform_conclusion platform_run) (\<lambda>_.
    bind (execution_source selected evidence source_sha) (\<lambda>execution_sha.
    let main_row = \<lparr>row_key = ''main_ci'', row_receipt = get evidence ''main_ci'', row_actual = main_run,
          row_workflow = WORKFLOW_PATH, row_event = ''push'', row_conclusion = True,
          row_actual_conclusion = JStr ''success'', row_status = JStr ''completed'', row_sha = JStr source_sha\<rparr>;
        platform_row = \<lparr>row_key = ''platform_release'', row_receipt = get evidence ''platform_release'',
          row_actual = platform_run, row_workflow = publisher_workflow_of selected,
          row_event = publisher_event_of selected, row_conclusion = False,
          row_actual_conclusion = (if platform_pending then JNull else JStr platform_conclusion),
          row_status = (if platform_pending then get platform_run ''status'' else JStr ''completed''),
          row_sha = execution_sha\<rparr>
    in bind (executor_rows selected evidence source_sha execution_sha main_run execution_run) (\<lambda>executor.
       for_each (check_row evidence) ([main_row, platform_row] @ executor) ()))))))))"

section \<open>The burned partial release\<close>

text \<open>\<open>url.rsplit("/", 2)[-2]\<close>, the path component before the last.\<close>

definition url_token :: "json \<Rightarrow> string res" where
  "url_token url =
    (case url of
       JStr s \<Rightarrow> (case rev (split_on (CHR ''/'') s) of _ # token # _ \<Rightarrow> Inr token | _ \<Rightarrow> Inl IndexError)
     | _ \<Rightarrow> Inl AttributeError)"

definition burned_assets :: "(string \<times> int \<times> string) list" where
  "burned_assets =
    [(RELEASE_IDENTITY_ASSET_NAME, BURNED_PARTIAL_IDENTITY_ASSET_ID, BURNED_PARTIAL_IDENTITY_SHA256),
     (RELEASE_IDENTITY_BUNDLE_ASSET_NAME, BURNED_PARTIAL_BUNDLE_ASSET_ID, BURNED_PARTIAL_BUNDLE_SHA256)]"

definition check_burned_asset :: "dict \<Rightarrow> string \<times> int \<times> string \<Rightarrow> unit \<Rightarrow> unit res" where
  "check_burned_asset by_name entry u =
    (case entry of (name, asset_id, sha) \<Rightarrow>
      bind (object_of (get by_name name) ''burned partial asset'') (\<lambda>asset.
      bind (url_token (get asset ''browser_download_url'')) (\<lambda>token.
      deny_if (\<not> json_eq (get asset ''id'') (JInt asset_id) \<or> get asset ''digest'' \<noteq> JStr (''sha256:'' @ sha))
        ''burned partial asset identity is foreign'' (
      raise_if (\<not> is_ascii token) UnicodeEncodeError (
      deny_if (sha256_hex token \<noteq> BURNED_PARTIAL_DOWNLOAD_TOKEN_SHA256)
        ''burned partial asset identity is foreign'' (Inr ()))))))"

text \<open>The name of an asset, as the key of the inventory; the release check has fixed it to be text.\<close>

definition named_asset :: "json \<Rightarrow> (string \<times> json) res" where
  "named_asset asset =
    bind (object_of asset ''burned partial asset'') (\<lambda>d.
    bind (item d ''name'') (\<lambda>name. Inr (the_str name, asset)))"

definition burned_expectation :: expected_release where
  "burned_expectation =
    \<lparr>expected_tag = BURNED_PARTIAL_TAG, expected_sha = BURNED_PARTIAL_SOURCE_SHA,
     expected_build_sha = Some BURNED_PARTIAL_SOURCE_SHA,
     expected_tag_object_sha = Some BURNED_PARTIAL_TAG_OBJECT_SHA,
     expected_tree_sha = Some BURNED_PARTIAL_TREE_SHA, expected_staged = True,
     expected_api_repository = None, expected_api_repository_id = None\<rparr>"

definition burned_receipts :: "dict \<Rightarrow> unit res" where
  "burned_receipts evidence =
    bind (object_of (get evidence ''main_ci'') ''burned partial main receipt'') (\<lambda>main_receipt.
    bind (object_of (get evidence ''platform_release'') ''burned partial platform receipt'') (\<lambda>platform_receipt.
    deny_if
      (\<not> json_eq (get main_receipt ''run_id'') (JInt BURNED_PARTIAL_MAIN_RUN_ID)
        \<or> \<not> json_eq (get main_receipt ''run_attempt'') (JInt BURNED_PARTIAL_RUN_ATTEMPT)
        \<or> \<not> json_eq (get platform_receipt ''run_id'') (JInt BURNED_PARTIAL_PLATFORM_RUN_ID)
        \<or> \<not> json_eq (get platform_receipt ''run_attempt'') (JInt BURNED_PARTIAL_RUN_ATTEMPT))
      ''burned partial workflow receipt is foreign'' (Inr ())))"

definition validate_burned_partial_release_record ::
  "float_text \<Rightarrow> dict \<Rightarrow> string \<Rightarrow> string \<Rightarrow> string \<Rightarrow> dict \<Rightarrow> dict \<Rightarrow> json res" where
  "validate_burned_partial_release_record fl release_record document bundle body main_run platform_run =
    bind (validate_draft_release_record release_record
            \<lparr>re_tag = BURNED_PARTIAL_TAG, re_source_sha = BURNED_PARTIAL_SOURCE_SHA,
             re_title = ''Platform '' @ BURNED_PARTIAL_TAG, re_body = body\<rparr>
            \<lparr>de_release_id = Some BURNED_PARTIAL_DRAFT_ID, de_server_tag = None, de_asset_count = 2\<rparr>) (\<lambda>_.
    bind (selector_image_from_release fl release_record document bundle burned_expectation) (\<lambda>digest.
    deny_if (digest \<noteq> JStr BURNED_PARTIAL_SELECTOR_DIGEST) ''burned partial selector digest is foreign'' (
    deny_if (sha256_hex document \<noteq> BURNED_PARTIAL_IDENTITY_SHA256)
      ''burned partial identity asset bytes are foreign'' (
    deny_if (sha256_hex bundle \<noteq> BURNED_PARTIAL_BUNDLE_SHA256) ''burned partial bundle asset bytes are foreign'' (
    bind (item release_record ''assets'') (\<lambda>assets.
    bind (map_res named_asset (arr_items assets)) (\<lambda>named.
    bind (for_each (check_burned_asset (update [] named)) burned_assets ()) (\<lambda>_.
    bind (canonical_release_identity fl document) (\<lambda>evidence.
    bind (burned_receipts evidence) (\<lambda>_.
    bind (validate_identity_run_records fl document main_run platform_run ''failure'' None False) (\<lambda>_.
    Inr digest)))))))))))"

end
