(* ===== verification/MainCi.thy ===== *)
theory MainCi
  imports Evidence
begin

text \<open>
  scripts/ci/platform_release_contract.py: the triggering workflow run, the jobs and
  ordered steps of protected-main CI, and the exact CodeQL run for the same source.
\<close>

section \<open>Constants\<close>

definition REQUIRED_CHECKS :: "string list" where
  "REQUIRED_CHECKS = [''dependency-review'', ''repository-and-infrastructure'']"

definition MAIN_CI_REQUIRED_STEPS :: "string list" where
  "MAIN_CI_REQUIRED_STEPS =
    [''Check out repository'', ''Enforce the platform release transition'', ''Install checksum-verified tools'',
     ''Validate workflows'', ''Validate Python policy tooling'', ''Enforce the self-hosted coverage contract'',
     ''Check shell'', ''Scan current tree for secrets'', ''Render and validate Helm and Kubernetes'',
     ''Prove render determinism and validate the assurance ledger'', ''Scan dependencies and full-tree secrets'',
     ''Validate the private obsync TLS transport'', ''Scan the pinned obsync proxy image'',
     ''Scan IaC and configuration'']"

definition MAIN_CI_PUSH_SKIPPED_STEPS :: "string list" where
  "MAIN_CI_PUSH_SKIPPED_STEPS = [''Scan immutable pull-request history'']"

definition MAIN_CI_EXACT_STEPS :: "(string \<times> string) list" where
  "MAIN_CI_EXACT_STEPS =
    [(''Set up job'', ''success'')]
    @ map (\<lambda>name. (name, ''success'')) (take 3 MAIN_CI_REQUIRED_STEPS)
    @ map (\<lambda>name. (name, ''skipped'')) MAIN_CI_PUSH_SKIPPED_STEPS
    @ map (\<lambda>name. (name, ''success'')) (drop 3 MAIN_CI_REQUIRED_STEPS)
    @ [(''Post Check out repository'', ''success''), (''Complete job'', ''success'')]"

definition CODEQL_WORKFLOW_NAME :: string where "CODEQL_WORKFLOW_NAME = ''CodeQL''"
definition CODEQL_WORKFLOW_PATH :: string where "CODEQL_WORKFLOW_PATH = ''.github/workflows/codeql.yml''"

definition CODEQL_EXACT_STEPS :: "(string \<times> (string \<times> string) list) list" where
  "CODEQL_EXACT_STEPS =
    [(''analyze (python, none)'',
      [(''Set up job'', ''success''), (''Check out repository'', ''success''), (''Initialize CodeQL'', ''success''),
       (''Analyze'', ''success''), (''Post Analyze'', ''success''), (''Post Initialize CodeQL'', ''success''),
       (''Post Check out repository'', ''success''), (''Complete job'', ''success'')])]"

definition incomplete_statuses :: "string list" where
  "incomplete_statuses = [''queued'', ''in_progress'', ''pending'', ''requested'', ''waiting'']"

section \<open>The triggering run\<close>

definition run_requirements :: "(string \<times> string) list" where
  "run_requirements =
    [(''name'', WORKFLOW_NAME), (''event'', ''push''), (''status'', ''completed''), (''conclusion'', ''success''),
     (''head_branch'', ''main'')]"

definition require_field :: "dict \<Rightarrow> string \<times> string \<Rightarrow> unit \<Rightarrow> unit res" where
  "require_field run entry u =
    (case entry of (key, v) \<Rightarrow>
      deny_if (get run key \<noteq> JStr v) (''workflow_run '' @ key @ '' must equal '' @ v) (Inr ()))"

definition names_repository :: "json \<Rightarrow> string \<Rightarrow> bool" where
  "names_repository v expected =
    (case v of JObj d \<Rightarrow> get d ''full_name'' = JStr expected | _ \<Rightarrow> False)"

definition workflow_path_of :: "string \<Rightarrow> string" where
  "workflow_path_of path = (case split_first (CHR ''@'') path of Some (a, b) \<Rightarrow> a | None \<Rightarrow> path)"

definition plan_workflow_run :: "dict \<Rightarrow> string \<Rightarrow> string res" where
  "plan_workflow_run event expected_repository =
    deny_if (\<not> names_repository (get event ''repository'') expected_repository) ''repository identity mismatch'' (
    case get event ''workflow_run'' of
      JObj run \<Rightarrow>
        bind (for_each (require_field run) run_requirements ()) (\<lambda>_.
        deny_if (\<not> str_matches (\<lambda>p. workflow_path_of p = WORKFLOW_PATH) (get run ''path''))
          ''workflow path mismatch'' (
        deny_if (\<not> names_repository (get run ''head_repository'') expected_repository)
          ''head repository identity mismatch'' (
        require_sha (get run ''head_sha'') ''head SHA'')))
    | _ \<Rightarrow> Inl (ContractError ''workflow_run payload is absent''))"

section \<open>Jobs and ordered steps\<close>

text \<open>The decimal text of a run: \<open>isascii() and isdecimal() and int(..) > 0\<close>.\<close>

definition positive_decimal :: "string \<Rightarrow> bool" where
  "positive_decimal s = (ascii_decimal s \<and> 0 < read_nat s)"

text \<open>One step of a job; the messages are those of its caller.\<close>

definition collect_step ::
  "string \<Rightarrow> string \<Rightarrow> json \<Rightarrow> (string \<times> string) list \<Rightarrow> (string \<times> string) list res" where
  "collect_step label kind v steps =
    bind (object_of v label) (\<lambda>step.
    case get step ''name'' of
      JStr name \<Rightarrow>
        deny_if (name = [] \<or> name \<in> set (map fst steps)) (kind @ '' step names must be non-empty and unique'') (
        case get step ''conclusion'' of
          JStr conclusion \<Rightarrow>
            deny_if (conclusion = []) (kind @ '' step conclusion is missing'') (Inr (steps @ [(name, conclusion)]))
        | _ \<Rightarrow> Inl (ContractError (kind @ '' step conclusion is missing'')))
    | _ \<Rightarrow> Inl (ContractError (kind @ '' step names must be non-empty and unique'')))"

definition collect_main_job ::
  "string \<Rightarrow> string \<Rightarrow> string \<Rightarrow> json \<Rightarrow> (string \<times> dict) list \<Rightarrow> (string \<times> dict) list res" where
  "collect_main_job run_id run_attempt sha v by_name =
    bind (object_of v ''Actions job'') (\<lambda>job.
    case get job ''name'' of
      JStr name \<Rightarrow>
        deny_if (name = [] \<or> name \<in> set (map fst by_name)) ''Actions job names must be non-empty and unique'' (
        deny_if
          (\<not> json_eq (get job ''run_id'') (JInt (int (read_nat run_id)))
            \<or> \<not> json_eq (get job ''run_attempt'') (JInt (int (read_nat run_attempt)))
            \<or> get job ''head_sha'' \<noteq> JStr sha \<or> get job ''head_branch'' \<noteq> JStr ''main''
            \<or> get job ''workflow_name'' \<noteq> JStr WORKFLOW_NAME \<or> get job ''status'' \<noteq> JStr ''completed'')
          ''Actions job identity or completed-run binding is not exact'' (Inr (by_name @ [(name, job)])))
    | _ \<Rightarrow> Inl (ContractError ''Actions job names must be non-empty and unique''))"

text \<open>A job of the inventory; the caller has checked that it is there.\<close>

definition job_of :: "(string \<times> dict) list \<Rightarrow> string \<Rightarrow> dict" where
  "job_of by_name name = (case map_of by_name name of Some d \<Rightarrow> d | None \<Rightarrow> [])"

section \<open>CodeQL\<close>

definition classify_codeql_run :: "dict \<Rightarrow> string \<Rightarrow> (int \<times> int) option res" where
  "classify_codeql_run runs_record source_sha =
    bind (require_sha (JStr source_sha) ''CodeQL source SHA'') (\<lambda>sha.
    deny_if (\<not> keys_are runs_record [''total_count'', ''workflow_runs'']) ''CodeQL run response fields are missing or foreign'' (
    bind (array_of (get runs_record ''workflow_runs'') ''CodeQL workflow runs'') (\<lambda>runs.
    let total = get runs_record ''total_count'' in
    deny_if (\<not> is_int total) ''CodeQL run count must be an integer'' (
    if total = JInt 0 \<and> runs = [] then Inr None
    else
      deny_if (total \<noteq> JInt 1 \<or> length runs \<noteq> 1) ''expected exactly one CodeQL push run for the source SHA'' (
      bind (object_of (hd runs) ''CodeQL workflow run'') (\<lambda>run.
      deny_if
        (\<not> positive_int (get run ''id'') \<or> \<not> positive_int (get run ''run_attempt'')
          \<or> get run ''name'' \<noteq> JStr CODEQL_WORKFLOW_NAME \<or> get run ''path'' \<noteq> JStr CODEQL_WORKFLOW_PATH
          \<or> get run ''event'' \<noteq> JStr ''push'' \<or> get run ''head_branch'' \<noteq> JStr ''main''
          \<or> get run ''head_sha'' \<noteq> JStr sha)
        ''CodeQL run identity or protected-main binding is not exact'' (
      bind (in_str_set (get run ''status'') incomplete_statuses) (\<lambda>pending.
      if pending then
        deny_if (get run ''conclusion'' \<noteq> JNull) ''incomplete CodeQL run has a foreign conclusion'' (Inr None)
      else
        deny_if (get run ''status'' \<noteq> JStr ''completed'' \<or> get run ''conclusion'' \<noteq> JStr ''success'')
          ''CodeQL run did not complete successfully'' (
        case (get run ''id'', get run ''run_attempt'') of
          (JInt i, JInt a) \<Rightarrow> Inr (Some (i, a))
        | _ \<Rightarrow> Inl TypeError)))))))))"

definition collect_codeql_job :: "json \<Rightarrow> (string \<times> dict) list \<Rightarrow> (string \<times> dict) list res" where
  "collect_codeql_job v by_name =
    bind (object_of v ''CodeQL job'') (\<lambda>job.
    case get job ''name'' of
      JStr name \<Rightarrow>
        deny_if (name = [] \<or> name \<in> set (map fst by_name)) ''CodeQL job names must be non-empty and unique''
          (Inr (by_name @ [(name, job)]))
    | _ \<Rightarrow> Inl (ContractError ''CodeQL job names must be non-empty and unique''))"

definition check_codeql_job ::
  "(string \<times> dict) list \<Rightarrow> int \<Rightarrow> int \<Rightarrow> string \<Rightarrow> string \<times> (string \<times> string) list \<Rightarrow> bool \<Rightarrow> bool res" where
  "check_codeql_job by_name run_id run_attempt sha entry pending =
    (case entry of (name, expected_steps) \<Rightarrow>
      let job = job_of by_name name in
      deny_if
        (\<not> json_eq (get job ''run_id'') (JInt run_id) \<or> \<not> json_eq (get job ''run_attempt'') (JInt run_attempt)
          \<or> get job ''head_sha'' \<noteq> JStr sha \<or> get job ''head_branch'' \<noteq> JStr ''main''
          \<or> get job ''workflow_name'' \<noteq> JStr CODEQL_WORKFLOW_NAME)
        ''CodeQL job identity or source binding is not exact'' (
      bind (in_str_set (get job ''status'') incomplete_statuses) (\<lambda>incomplete.
      if incomplete then
        deny_if (get job ''conclusion'' \<noteq> JNull) ''incomplete CodeQL job has a foreign conclusion'' (Inr True)
      else
        deny_if (get job ''status'' \<noteq> JStr ''completed'' \<or> get job ''conclusion'' \<noteq> JStr ''success'')
          ''CodeQL job did not complete successfully'' (
        bind (array_of (get job ''steps'') ''CodeQL job steps'') (\<lambda>values.
        bind (for_each (collect_step ''CodeQL job step'' ''CodeQL'') values []) (\<lambda>steps.
        deny_if (steps \<noteq> expected_steps) ''CodeQL step order, inventory, or conclusions are not exact''
          (Inr pending)))))))"

definition codeql_jobs_ready :: "dict \<Rightarrow> int \<Rightarrow> int \<Rightarrow> string \<Rightarrow> bool res" where
  "codeql_jobs_ready jobs_record run_id run_attempt source_sha =
    bind (require_sha (JStr source_sha) ''CodeQL job source SHA'') (\<lambda>sha.
    deny_if (run_id \<le> 0 \<or> run_attempt \<le> 0) ''CodeQL job run identity is not positive integers'' (
    deny_if (\<not> keys_are jobs_record [''jobs'', ''total_count'']) ''CodeQL jobs response fields are missing or foreign'' (
    bind (array_of (get jobs_record ''jobs'') ''CodeQL jobs'') (\<lambda>jobs.
    let total = get jobs_record ''total_count''; n = length CODEQL_EXACT_STEPS in
    deny_if (\<not> is_int total) ''CodeQL job count must be an integer'' (
    if total = JInt 0 \<and> jobs = [] then Inr False
    else
      deny_if (total \<noteq> JInt (int n) \<or> length jobs \<noteq> n) ''expected the exact Python CodeQL job for the source SHA'' (
      bind (for_each collect_codeql_job jobs []) (\<lambda>by_name.
      deny_if (set (map fst by_name) \<noteq> set (map fst CODEQL_EXACT_STEPS)) ''CodeQL job inventory is not exact'' (
      bind (for_each (check_codeql_job by_name run_id run_attempt sha) CODEQL_EXACT_STEPS False) (\<lambda>pending.
      Inr (\<not> pending))))))))))"

section \<open>The receipt of protected-main CI\<close>

text \<open>The two jobs of the run: the exact steps of one, the skip of the other.\<close>

definition check_main_jobs :: "(string \<times> dict) list \<Rightarrow> unit res" where
  "check_main_jobs by_name =
    (let repository_job = job_of by_name ''repository-and-infrastructure'';
         dependency_job = job_of by_name ''dependency-review''
     in
     deny_if (get repository_job ''conclusion'' \<noteq> JStr ''success'') ''required repository job did not conclude success'' (
     bind (array_of (get repository_job ''steps'') ''repository job steps'') (\<lambda>values.
     bind (for_each (collect_step ''repository job step'' ''repository job'') values []) (\<lambda>steps.
     deny_if (steps \<noteq> MAIN_CI_EXACT_STEPS) ''protected-main step order, inventory, or conclusions are not exact'' (
     deny_if (get dependency_job ''conclusion'' \<noteq> JStr ''skipped'')
       ''dependency-review must be skipped for a protected-main push'' (
     bind (array_of (get dependency_job ''steps'') ''dependency-review steps'') (\<lambda>skipped.
     deny_if (skipped \<noteq> []) ''skipped dependency-review must expose no steps'' (Inr ()))))))))"

definition main_ci_receipt :: "string \<Rightarrow> string \<Rightarrow> string \<Rightarrow> string \<Rightarrow> dict" where
  "main_ci_receipt repo run_id run_attempt sha =
    [(''codeql'', JStr ''success''), (''dependency_review'', JStr ''skipped-on-push''), (''repository'', JStr repo),
     (''repository_and_infrastructure'', JStr ''success''), (''run_attempt'', JInt (int (read_nat run_attempt))),
     (''run_id'', JInt (int (read_nat run_id))), (''schema'', JStr ''platform-release-main-ci-jobs-v1''),
     (''source_sha'', JStr sha), (''status'', JStr ''PASS'')]"

definition build_main_ci_jobs_receipt ::
  "dict \<Rightarrow> dict \<Rightarrow> dict \<Rightarrow> string \<Rightarrow> string \<Rightarrow> string \<Rightarrow> string \<Rightarrow> dict res" where
  "build_main_ci_jobs_receipt jobs_record codeql_runs codeql_jobs repo run_id run_attempt source_sha =
    deny_if (\<not> owner_name_ok repo) ''jobs repository identity must be owner/name'' (
    bind (require_sha (JStr source_sha) ''jobs source SHA'') (\<lambda>sha.
    deny_if (\<not> positive_decimal run_id) ''jobs run ID must be one positive decimal integer'' (
    deny_if (\<not> positive_decimal run_attempt) ''jobs run attempt must be one positive decimal integer'' (
    deny_if (\<not> keys_are jobs_record [''jobs'', ''total_count'']) ''Actions jobs response fields are missing or foreign'' (
    bind (array_of (get jobs_record ''jobs'') ''Actions jobs'') (\<lambda>jobs.
    deny_if (get jobs_record ''total_count'' \<noteq> JInt 2 \<or> length jobs \<noteq> 2)
      ''protected-main run must expose exactly two jobs'' (
    bind (for_each (collect_main_job run_id run_attempt sha) jobs []) (\<lambda>by_name.
    deny_if (set (map fst by_name) \<noteq> set REQUIRED_CHECKS) ''Actions job inventory is missing, duplicate, or foreign'' (
    bind (check_main_jobs by_name) (\<lambda>_.
    bind (classify_codeql_run codeql_runs sha) (\<lambda>codeql_run.
    case codeql_run of
      None \<Rightarrow> Inl (ContractError ''exact-SHA CodeQL main run is absent or incomplete'')
    | Some (codeql_id, codeql_attempt) \<Rightarrow>
        bind (codeql_jobs_ready codeql_jobs codeql_id codeql_attempt sha) (\<lambda>ready.
        deny_if (\<not> ready) ''exact-SHA CodeQL main job is absent or incomplete''
          (Inr (main_ci_receipt repo run_id run_attempt sha))))))))))))))"

end
