(* ===== verification/Settings.thy ===== *)
theory Settings
  imports MainCi
begin

text \<open>
  scripts/ci/platform_release_contract.py: the repository settings a release relies
  on.  The receipts of observed settings, their validators, and the live observation
  through read-only REST queries (the runner \<open>gh\<close>).
\<close>

section \<open>Constants\<close>

definition GITHUB_API_VERSION :: string where "GITHUB_API_VERSION = ''2026-03-10''"
definition EXPECTED_MAIN_RULESET :: string where "EXPECTED_MAIN_RULESET = ''only-me-merge''"
definition EXPECTED_RELEASE_TAG_RULESET :: string where
  "EXPECTED_RELEASE_TAG_RULESET = ''immutable-platform-release-tags''"
definition EXPECTED_RELEASE_TAG_PATTERN :: string where "EXPECTED_RELEASE_TAG_PATTERN = ''refs/tags/v*.*.*''"
definition GITHUB_ACTIONS_INTEGRATION_ID :: int where "GITHUB_ACTIONS_INTEGRATION_ID = 15368"
definition PREFLIGHT_APP_ID_VARIABLE :: string where "PREFLIGHT_APP_ID_VARIABLE = ''PLATFORM_RELEASE_APP_ID''"
definition PREFLIGHT_APP_PRIVATE_KEY_SECRET :: string where
  "PREFLIGHT_APP_PRIVATE_KEY_SECRET = ''PLATFORM_RELEASE_APP_PRIVATE_KEY''"
definition PREFLIGHT_ENVIRONMENT :: string where "PREFLIGHT_ENVIRONMENT = ''platform-release''"
definition OWNER_UPDATE_RULESET :: string where "OWNER_UPDATE_RULESET = ''Owner-PR-Updates''"

definition OWNER_UPDATE_RECEIPT :: dict where
  "OWNER_UPDATE_RECEIPT =
    [(''active_main_branch_ruleset_count'', JInt 2), (''owner_update_ruleset'', JStr OWNER_UPDATE_RULESET),
     (''owner_update_ref'', JStr ''~DEFAULT_BRANCH''), (''owner_update_fetch_and_merge'', JBool False),
     (''owner_update_bypass'', JStr ''owner-user-pull-request'')]"

section \<open>Single settings\<close>

definition status_check :: "json \<Rightarrow> (string \<times> int) list \<Rightarrow> (string \<times> int) list res" where
  "status_check v checks =
    bind (object_of v ''required status check'') (\<lambda>record.
    deny_if (\<not> keys_are record [''context'', ''integration_id'']) ''required status check fields are missing or foreign'' (
    case get record ''context'' of
      JStr context \<Rightarrow>
        deny_if (context = []) ''required status check context must be non-empty'' (
        case get record ''integration_id'' of
          JInt integration_id \<Rightarrow>
            deny_if ((context, integration_id) \<in> set checks) ''required status checks must not contain duplicates''
              (Inr (checks @ [(context, integration_id)]))
        | _ \<Rightarrow> Inl (ContractError ''required status check integration_id must be an integer''))
    | _ \<Rightarrow> Inl (ContractError ''required status check context must be non-empty'')))"

definition status_check_set :: "json \<Rightarrow> (string \<times> int) list res" where
  "status_check_set v = bind (array_of v ''required status checks'') (\<lambda>items. for_each status_check items [])"

definition validate_immutable_settings :: "dict \<Rightarrow> unit res" where
  "validate_immutable_settings settings =
    deny_if (\<not> keys_are settings [''enabled'', ''enforced_by_owner''])
      ''immutable-release settings fields are missing or foreign'' (
    deny_if (get settings ''enabled'' \<noteq> JBool True) ''GitHub immutable releases must be enabled'' (
    deny_if (\<not> is_bool (get settings ''enforced_by_owner''))
      ''immutable-release owner-enforcement state must be boolean'' (Inr ())))"

definition build_immutable_settings_receipt ::
  "dict \<Rightarrow> string \<Rightarrow> string \<Rightarrow> string \<Rightarrow> string \<Rightarrow> dict res" where
  "build_immutable_settings_receipt settings repo source_sha run_id run_attempt =
    deny_if (\<not> owner_name_ok repo) ''repository identity must be owner/name'' (
    bind (require_sha (JStr source_sha) ''settings source SHA'') (\<lambda>sha.
    deny_if (\<not> positive_decimal run_id) ''settings run ID must be one positive decimal integer'' (
    deny_if (\<not> positive_decimal run_attempt) ''settings run attempt must be one positive decimal integer'' (
    bind (validate_immutable_settings settings) (\<lambda>_.
    Inr [(''immutable_releases_enabled'', JBool True), (''repository'', JStr repo),
         (''run_attempt'', JInt (int (read_nat run_attempt))), (''run_id'', JInt (int (read_nat run_id))),
         (''schema'', JStr ''platform-release-immutable-settings-v1''), (''source_sha'', JStr sha),
         (''status'', JStr ''PASS'')])))))"

definition validate_private_vulnerability_reporting :: "dict \<Rightarrow> unit res" where
  "validate_private_vulnerability_reporting settings =
    deny_if (\<not> keys_are settings [''enabled''])
      ''private-vulnerability-reporting settings fields are missing or foreign'' (
    deny_if (get settings ''enabled'' \<noteq> JBool True) ''GitHub private vulnerability reporting must be enabled'' (Inr ()))"

section \<open>The provisioning receipt of the release App\<close>

definition app_receipt_fields :: "string list" where
  "app_receipt_fields =
    [''app_identity_binding_exact'', ''environment_branch_policies'', ''environment_custom_branch_policies'',
     ''environment_name'', ''environment_private_key_secret_name'', ''environment_private_key_secret_present'',
     ''environment_protected_branches'', ''environment_required_reviewers'', ''environment_variable_name'',
     ''environment_wait_timer_minutes'', ''immutable_releases'', ''installation_account'', ''installation_events'',
     ''installation_permissions'', ''installation_repositories'', ''installation_repository_selection'',
     ''installation_suspended'', ''repository'']"

definition validate_app_provisioning_receipt :: "dict \<Rightarrow> string \<Rightarrow> unit res" where
  "validate_app_provisioning_receipt receipt repo =
    deny_if (\<not> keys_are receipt app_receipt_fields) ''release-App receipt fields are missing or foreign'' (
    deny_if (get receipt ''repository'' \<noteq> JStr repo) ''release-App receipt repository is not exact'' (
    deny_if
      (case split_first (CHR ''/'') repo of
         None \<Rightarrow> True
       | Some (owner, name) \<Rightarrow> get receipt ''installation_account'' \<noteq> JStr owner)
      ''release-App installation account is not the repository owner'' (
    deny_if (get receipt ''environment_name'' \<noteq> JStr PREFLIGHT_ENVIRONMENT)
      ''release-App environment name is not exact'' (
    deny_if
      (get receipt ''environment_protected_branches'' \<noteq> JBool False
        \<or> get receipt ''environment_custom_branch_policies'' \<noteq> JBool True
        \<or> \<not> json_eq (get receipt ''environment_branch_policies'')
              (JArr [JObj [(''name'', JStr ''main''), (''type'', JStr ''branch'')]])
        \<or> get receipt ''environment_required_reviewers'' \<noteq> JInt 0
        \<or> get receipt ''environment_wait_timer_minutes'' \<noteq> JInt 0)
      ''release-App environment is not unattended protected-main only'' (
    deny_if (get receipt ''environment_variable_name'' \<noteq> JStr PREFLIGHT_APP_ID_VARIABLE)
      ''release-App ID variable name is not exact'' (
    deny_if
      (get receipt ''environment_private_key_secret_name'' \<noteq> JStr PREFLIGHT_APP_PRIVATE_KEY_SECRET
        \<or> get receipt ''environment_private_key_secret_present'' \<noteq> JBool True)
      ''release-App private-key secret-name receipt is not exact'' (
    deny_if (get receipt ''app_identity_binding_exact'' \<noteq> JBool True)
      ''release-App variable and installation identity are not exact'' (
    deny_if (get receipt ''installation_repository_selection'' \<noteq> JStr ''selected'')
      ''release-App installation must use selected repositories'' (
    deny_if (get receipt ''installation_repositories'' \<noteq> JArr [JStr repo])
      ''release-App installation must select only the exact repository'' (
    deny_if
      (\<not> json_eq (get receipt ''installation_permissions'')
          (JObj [(''administration'', JStr ''read''), (''metadata'', JStr ''read'')]))
      ''release-App installation permissions are not least-authority'' (
    deny_if (get receipt ''installation_events'' \<noteq> JArr []) ''release-App installation must subscribe to no events'' (
    deny_if (get receipt ''installation_suspended'' \<noteq> JBool False) ''release-App installation must be active'' (
    deny_if (get receipt ''immutable_releases'' \<noteq> JBool True)
      ''release-App token did not prove immutable releases enabled'' (Inr ()))))))))))))))"

section \<open>The settings receipt\<close>

definition settings_receipt_fields :: "string list" where
  "settings_receipt_fields =
    [''actions_allowed_actions'', ''actions_can_approve_pull_request_reviews'', ''actions_enabled'',
     ''actions_sha_pinning_required'', ''allow_deletions'', ''allow_force_pushes'', ''branch'', ''bypass_actors'',
     ''default_workflow_permissions'', ''immutable_releases'', ''merge_methods'', ''private_vulnerability_reporting'',
     ''active_release_tag_ruleset_count'', ''release_tag_bypass_actors'', ''release_tag_creation_restricted'',
     ''release_tag_deletions_allowed'', ''release_tag_excludes'', ''release_tag_includes'',
     ''release_tag_non_fast_forward_allowed'', ''release_tag_pattern'', ''release_tag_rule_types'',
     ''release_tag_ruleset'', ''release_tag_ruleset_active'', ''release_tag_ruleset_repository_owned'',
     ''release_tag_ruleset_target'', ''release_tag_updates_allowed'', ''repository'', ''require_linear_history'',
     ''require_pull_request'', ''require_signed_commits'', ''required_status_checks'', ''restrict_updates'',
     ''secret_scanning'', ''secret_scanning_non_provider_patterns'', ''secret_scanning_push_protection'',
     ''secret_scanning_validity_checks'', ''strict_status_checks'']
    @ map fst OWNER_UPDATE_RECEIPT"

definition exact_booleans :: "(string \<times> bool) list" where
  "exact_booleans =
    [(''actions_enabled'', True), (''actions_sha_pinning_required'', True),
     (''actions_can_approve_pull_request_reviews'', False), (''immutable_releases'', True),
     (''private_vulnerability_reporting'', True), (''release_tag_ruleset_active'', True),
     (''release_tag_creation_restricted'', False), (''release_tag_updates_allowed'', False),
     (''release_tag_deletions_allowed'', False), (''release_tag_non_fast_forward_allowed'', False),
     (''strict_status_checks'', True), (''require_pull_request'', True), (''require_linear_history'', True),
     (''require_signed_commits'', True), (''allow_force_pushes'', False), (''allow_deletions'', False),
     (''restrict_updates'', False), (''secret_scanning'', True), (''secret_scanning_push_protection'', True)]"

definition require_owner_field :: "dict \<Rightarrow> string \<times> json \<Rightarrow> unit \<Rightarrow> unit res" where
  "require_owner_field receipt entry u =
    (case entry of (field, v) \<Rightarrow>
      deny_if (get receipt field \<noteq> v) (''settings receipt '' @ field @ '' is not exact'') (Inr ()))"

definition require_boolean :: "dict \<Rightarrow> string \<times> bool \<Rightarrow> unit \<Rightarrow> unit res" where
  "require_boolean receipt entry u =
    (case entry of (field, b) \<Rightarrow>
      deny_if (get receipt field \<noteq> JBool b)
        (''settings receipt '' @ field @ '' must be '' @ (if b then ''True'' else ''False'')) (Inr ()))"

definition require_some_boolean :: "dict \<Rightarrow> string \<Rightarrow> unit \<Rightarrow> unit res" where
  "require_some_boolean receipt field u =
    deny_if (\<not> is_bool (get receipt field)) (''settings receipt '' @ field @ '' must be boolean'') (Inr ())"

definition validate_release_tag_settings :: "dict \<Rightarrow> unit res" where
  "validate_release_tag_settings receipt =
    deny_if (get receipt ''bypass_actors'' \<noteq> JArr []) ''protected-main rules must have no bypass actors'' (
    deny_if (get receipt ''release_tag_ruleset'' \<noteq> JStr EXPECTED_RELEASE_TAG_RULESET)
      ''release-tag ruleset identity is not exact'' (
    deny_if (get receipt ''release_tag_pattern'' \<noteq> JStr EXPECTED_RELEASE_TAG_PATTERN)
      ''release-tag ruleset pattern is not exact'' (
    deny_if (get receipt ''release_tag_bypass_actors'' \<noteq> JArr []) ''release-tag rules must have no bypass actors'' (
    deny_if (\<not> json_eq (get receipt ''active_release_tag_ruleset_count'') (JInt 1))
      ''release-tag ruleset count is not exact'' (
    deny_if (get receipt ''release_tag_ruleset_repository_owned'' \<noteq> JBool True)
      ''release-tag ruleset is not repository-owned'' (
    deny_if (get receipt ''release_tag_ruleset_target'' \<noteq> JStr ''tag'') ''release-tag ruleset target is not exact'' (
    deny_if (get receipt ''release_tag_includes'' \<noteq> JArr [JStr EXPECTED_RELEASE_TAG_PATTERN])
      ''release-tag include inventory is not exact'' (
    deny_if (get receipt ''release_tag_excludes'' \<noteq> JArr []) ''release-tag exclusions must be empty'' (
    deny_if
      (get receipt ''release_tag_rule_types'' \<noteq> JArr [JStr ''deletion'', JStr ''non_fast_forward'', JStr ''update''])
      ''release-tag rule inventory is not exact'' (Inr ()))))))))))"

definition validate_settings_receipt :: "dict \<Rightarrow> string \<Rightarrow> unit res" where
  "validate_settings_receipt receipt repo =
    deny_if (\<not> keys_are receipt settings_receipt_fields) ''settings receipt fields are missing or foreign'' (
    bind (for_each (require_owner_field receipt) OWNER_UPDATE_RECEIPT ()) (\<lambda>_.
    deny_if (get receipt ''repository'' \<noteq> JStr repo \<or> get receipt ''branch'' \<noteq> JStr ''main'')
      ''settings receipt repository or branch is not exact'' (
    bind (string_set (get receipt ''merge_methods'') ''merge methods'') (\<lambda>methods.
    deny_if (set methods \<noteq> {''rebase'', ''squash''}) ''only squash and rebase merge methods may be enabled'' (
    bind (status_check_set (get receipt ''required_status_checks'')) (\<lambda>checks.
    deny_if (set checks \<noteq> set (map (\<lambda>c. (c, GITHUB_ACTIONS_INTEGRATION_ID)) REQUIRED_CHECKS))
      ''required GitHub Actions checks are missing, foreign, or unbound'' (
    bind (in_str_set (get receipt ''actions_allowed_actions'') [''all'', ''local_only'', ''selected'']) (\<lambda>allowed.
    deny_if (\<not> allowed) ''Actions allow policy is missing or foreign'' (
    deny_if (get receipt ''default_workflow_permissions'' \<noteq> JStr ''read'')
      ''default workflow token permissions must be read-only'' (
    bind (for_each (require_boolean receipt) exact_booleans ()) (\<lambda>_.
    bind (for_each (require_some_boolean receipt)
            [''secret_scanning_non_provider_patterns'', ''secret_scanning_validity_checks''] ()) (\<lambda>_.
    validate_release_tag_settings receipt))))))))))))"

end
