(* ===== verification/LiveSettings.thy ===== *)
theory LiveSettings
  imports Settings "HOL-Library.Product_Lexorder"
begin

text \<open>
  scripts/ci/platform_release_contract.py: the live observation of the repository
  settings.  The rulesets are selected from the inventory, validated record by
  record, and condensed into a receipt that must itself be valid.
\<close>

section \<open>Selecting rulesets\<close>

definition active_ruleset :: "string \<Rightarrow> dict \<Rightarrow> bool" where
  "active_ruleset target summary =
    (get summary ''target'' = JStr target \<and> get summary ''enforcement'' = JStr ''active'')"

definition repository_owned :: "string \<Rightarrow> dict \<Rightarrow> bool" where
  "repository_owned repo record = (get record ''source_type'' = JStr ''Repository'' \<and> get record ''source'' = JStr repo)"

definition select_main_step :: "string \<Rightarrow> json \<Rightarrow> (string \<times> int) list \<Rightarrow> (string \<times> int) list res" where
  "select_main_step repo v selected =
    bind (object_of v ''repository ruleset summary'') (\<lambda>summary.
    if \<not> active_ruleset ''branch'' summary then Inr selected
    else
      deny_if
        (\<not> in_strs (get summary ''name'') [EXPECTED_MAIN_RULESET, OWNER_UPDATE_RULESET]
          \<or> in_strs (get summary ''name'') (map fst selected)
          \<or> \<not> repository_owned repo summary
          \<or> \<not> positive_int (get summary ''id'')
          \<or> get summary ''id'' \<in> set (map (\<lambda>p. JInt (snd p)) selected))
        ''active main ruleset inventory is foreign or ambiguous'' (
      case (get summary ''name'', get summary ''id'') of
        (JStr name, JInt i) \<Rightarrow> Inr (selected @ [(name, i)])
      | _ \<Rightarrow> Inl TypeError))"

definition select_main_ruleset_ids :: "json \<Rightarrow> string \<Rightarrow> (int \<times> int) res" where
  "select_main_ruleset_ids summaries repo =
    bind (array_of summaries ''repository rulesets'') (\<lambda>items.
    bind (for_each (select_main_step repo) items []) (\<lambda>selected.
    case (map_of selected EXPECTED_MAIN_RULESET, map_of selected OWNER_UPDATE_RULESET) of
      (Some main, Some owner) \<Rightarrow> Inr (main, owner)
    | _ \<Rightarrow> Inl (ContractError ''both core security and owner-update rulesets are required'')))"

definition validate_owner_rule :: "dict \<Rightarrow> unit res" where
  "validate_owner_rule rule =
    deny_if
      ((\<not> keys_are rule [''type''] \<and> \<not> keys_are rule [''type'', ''parameters''])
        \<or> get rule ''type'' \<noteq> JStr ''update'')
      ''owner-update restriction is missing or weakened'' (
    if has_key rule ''parameters'' then
      bind (object_of (get rule ''parameters'') ''owner-update parameters'') (\<lambda>parameters.
      deny_if
        (\<not> keys_are parameters [''update_allows_fetch_and_merge'']
          \<or> get parameters ''update_allows_fetch_and_merge'' \<noteq> JBool False)
        ''owner-update restriction is missing or weakened'' (Inr ()))
    else Inr ())"

definition validate_owner_update_ruleset :: "int \<Rightarrow> dict \<Rightarrow> string \<Rightarrow> unit res" where
  "validate_owner_update_ruleset ruleset_id record repo =
    deny_if
      (get record ''id'' \<noteq> JInt ruleset_id \<or> get record ''name'' \<noteq> JStr OWNER_UPDATE_RULESET
        \<or> get record ''target'' \<noteq> JStr ''branch'' \<or> \<not> repository_owned repo record
        \<or> get record ''enforcement'' \<noteq> JStr ''active'')
      ''owner-update ruleset identity or enforcement is not exact'' (
    deny_if
      (\<not> json_eq (get record ''conditions'')
          (JObj [(''ref_name'', JObj [(''include'', JArr [JStr ''~DEFAULT_BRANCH'']), (''exclude'', JArr [])])]))
      ''owner-update restriction must target only the default branch'' (
    bind (array_of (get record ''rules'') ''owner-update rules'') (\<lambda>rules.
    deny_if (length rules \<noteq> 1) ''owner-update restriction must contain exactly one rule'' (
    bind (object_of (hd rules) ''owner-update rule'') (\<lambda>rule.
    bind (validate_owner_rule rule) (\<lambda>_.
    bind (array_of (get record ''bypass_actors'') ''owner-update bypass actors'') (\<lambda>actors.
    deny_if (length actors \<noteq> 1) ''owner-update bypass must name exactly the owner User'' (
    bind (object_of (hd actors) ''owner-update bypass actor'') (\<lambda>actor.
    deny_if
      (\<not> keys_are actor [''actor_id'', ''actor_type'', ''bypass_mode''] \<or> get actor ''actor_id'' \<noteq> JInt 39077795
        \<or> get actor ''actor_type'' \<noteq> JStr ''User'' \<or> get actor ''bypass_mode'' \<noteq> JStr ''pull_request'')
      ''owner-update bypass must be the owner User through a PR only'' (Inr ()))))))))))"

definition tag_ruleset_step :: "json \<Rightarrow> dict list \<Rightarrow> dict list res" where
  "tag_ruleset_step v active =
    bind (object_of v ''repository ruleset summary'') (\<lambda>summary.
    Inr (if active_ruleset ''tag'' summary then active @ [summary] else active))"

definition select_release_tag_ruleset_id :: "json \<Rightarrow> string \<Rightarrow> int res" where
  "select_release_tag_ruleset_id summaries repo =
    bind (array_of summaries ''repository rulesets'') (\<lambda>items.
    bind (for_each tag_ruleset_step items []) (\<lambda>active.
    deny_if (length active \<noteq> 1) ''expected exactly one active release-tag ruleset across all sources'' (
    let candidate = hd active in
    deny_if (get candidate ''name'' \<noteq> JStr EXPECTED_RELEASE_TAG_RULESET \<or> \<not> repository_owned repo candidate)
      ''active release-tag ruleset is not the exact repository rule'' (
    case get candidate ''id'' of
      JInt i \<Rightarrow> deny_if (i \<le> 0) ''release-tag ruleset has no authoritative numeric ID'' (Inr i)
    | _ \<Rightarrow> Inl (ContractError ''release-tag ruleset has no authoritative numeric ID'')))))"

section \<open>Validating rulesets\<close>

definition rule_step :: "string \<Rightarrow> json \<Rightarrow> (string \<times> dict) list \<Rightarrow> (string \<times> dict) list res" where
  "rule_step label v rules =
    bind (object_of v (label @ '' rule'')) (\<lambda>rule.
    case get rule ''type'' of
      JStr kind \<Rightarrow>
        deny_if (kind = [] \<or> kind \<in> set (map fst rules)) (label @ '' rule types must be non-empty and unique'')
          (Inr (rules @ [(kind, rule)]))
    | _ \<Rightarrow> Inl (ContractError (label @ '' rule types must be non-empty and unique'')))"

text \<open>The only condition is the exact reference.\<close>

definition check_ref_name :: "dict \<Rightarrow> string \<Rightarrow> string \<Rightarrow> string \<Rightarrow> unit res" where
  "check_ref_name record label include_pattern msg =
    bind (object_of (get record ''conditions'') (label @ '' conditions'')) (\<lambda>conditions.
    deny_if (\<not> keys_are conditions [''ref_name'']) (label @ '' conditions are missing or foreign'') (
    bind (object_of (get conditions ''ref_name'') (label @ '' ref condition'')) (\<lambda>ref_name.
    deny_if
      (\<not> keys_are ref_name [''exclude'', ''include''] \<or> get ref_name ''exclude'' \<noteq> JArr []
        \<or> get ref_name ''include'' \<noteq> JArr [JStr include_pattern]) msg (Inr ()))))"

definition ruleset_identity_bad :: "dict \<Rightarrow> int \<Rightarrow> string \<Rightarrow> string \<Rightarrow> string \<Rightarrow> bool" where
  "ruleset_identity_bad record ruleset_id name target repo =
    (\<not> json_eq (get record ''id'') (JInt ruleset_id) \<or> get record ''name'' \<noteq> JStr name
      \<or> get record ''target'' \<noteq> JStr target \<or> \<not> repository_owned repo record
      \<or> get record ''enforcement'' \<noteq> JStr ''active'')"

definition release_tag_facts :: dict where
  "release_tag_facts =
    [(''active_release_tag_ruleset_count'', JInt 1), (''release_tag_ruleset'', JStr EXPECTED_RELEASE_TAG_RULESET),
     (''release_tag_ruleset_active'', JBool True), (''release_tag_ruleset_repository_owned'', JBool True),
     (''release_tag_ruleset_target'', JStr ''tag''), (''release_tag_pattern'', JStr EXPECTED_RELEASE_TAG_PATTERN),
     (''release_tag_includes'', JArr [JStr EXPECTED_RELEASE_TAG_PATTERN]), (''release_tag_excludes'', JArr []),
     (''release_tag_creation_restricted'', JBool False), (''release_tag_updates_allowed'', JBool False),
     (''release_tag_deletions_allowed'', JBool False), (''release_tag_non_fast_forward_allowed'', JBool False),
     (''release_tag_bypass_actors'', JArr []),
     (''release_tag_rule_types'', JArr [JStr ''deletion'', JStr ''non_fast_forward'', JStr ''update''])]"

definition release_tag_ruleset_receipt :: "int \<Rightarrow> dict \<Rightarrow> string \<Rightarrow> dict res" where
  "release_tag_ruleset_receipt ruleset_id record repo =
    deny_if (ruleset_identity_bad record ruleset_id EXPECTED_RELEASE_TAG_RULESET ''tag'' repo)
      ''release-tag ruleset identity or enforcement is not exact'' (
    bind (check_ref_name record ''release-tag'' EXPECTED_RELEASE_TAG_PATTERN
            ''release-tag ruleset must target the exact conservative v*.*.* namespace'') (\<lambda>_.
    bind (array_of (get record ''bypass_actors'') ''release-tag bypass actors'') (\<lambda>bypass.
    deny_if (bypass \<noteq> []) ''release-tag ruleset must have no bypass actors'' (
    bind (array_of (get record ''rules'') ''release-tag rules'') (\<lambda>values.
    bind (for_each (rule_step ''release-tag'') values []) (\<lambda>rules.
    deny_if (set (map fst rules) \<noteq> {''update'', ''deletion'', ''non_fast_forward''})
      ''release-tag rules must allow creation and forbid update/deletion/force-update'' (
    deny_if (\<not> keys_are (job_of rules ''update'') [''type''])
      ''release-tag update rule must use the exact safe tag normalization'' (
    deny_if (\<not> keys_are (job_of rules ''deletion'') [''type'']) ''release-tag deletion rule has foreign parameters'' (
    deny_if (\<not> keys_are (job_of rules ''non_fast_forward'') [''type''])
      ''release-tag non_fast_forward rule has foreign parameters'' (Inr release_tag_facts))))))))))"

section \<open>The receipt\<close>

definition merge_fields :: "(string \<times> string) list" where
  "merge_fields =
    [(''allow_merge_commit'', ''merge''), (''allow_rebase_merge'', ''rebase''), (''allow_squash_merge'', ''squash'')]"

definition merge_step :: "dict \<Rightarrow> string \<times> string \<Rightarrow> string list \<Rightarrow> string list res" where
  "merge_step record entry methods =
    (case entry of (field, method) \<Rightarrow>
      (case get record field of
         JBool b \<Rightarrow> Inr (if b then methods @ [method] else methods)
       | _ \<Rightarrow> Inl (ContractError (''repository setting '' @ field @ '' is not boolean''))))"

definition security_enabled :: "dict \<Rightarrow> string \<Rightarrow> bool res" where
  "security_enabled security field =
    bind (object_of (get security field) (''repository '' @ field @ '' setting'')) (\<lambda>record.
    bind (in_str_set (get record ''status'') [''enabled'', ''disabled'']) (\<lambda>known.
    deny_if (\<not> known) (''repository '' @ field @ '' status is missing or foreign'')
      (Inr (get record ''status'' = JStr ''enabled''))))"

text \<open>The Actions policy: enabled, allowed actions, pinning, token permissions, approval.\<close>

definition check_actions :: "dict \<Rightarrow> dict \<Rightarrow> unit res" where
  "check_actions actions workflow =
    deny_if (\<not> is_bool (get actions ''enabled'')) ''Actions enabled state must be boolean'' (
    bind (in_str_set (get actions ''allowed_actions'') [''all'', ''local_only'', ''selected'']) (\<lambda>allowed.
    deny_if (\<not> allowed) ''Actions allow policy is missing or foreign'' (
    deny_if (\<not> is_bool (get actions ''sha_pinning_required'')) ''Actions SHA-pinning state must be boolean'' (
    bind (in_str_set (get workflow ''default_workflow_permissions'') [''read'', ''write'']) (\<lambda>known.
    deny_if (\<not> known \<or> \<not> is_bool (get workflow ''can_approve_pull_request_reviews''))
      ''default workflow permission settings are malformed'' (Inr ()))))))"

definition main_rules :: "dict \<Rightarrow> (json list \<times> (string \<times> dict) list) res" where
  "main_rules record =
    bind (array_of (get record ''bypass_actors'') ''protected-main bypass actors'') (\<lambda>bypass.
    bind (array_of (get record ''rules'') ''protected-main rules'') (\<lambda>values.
    bind (for_each (rule_step ''protected-main'') values []) (\<lambda>rules. Inr (bypass, rules))))"

definition pull_request_rule :: "(string \<times> dict) list \<Rightarrow> string list \<Rightarrow> unit res" where
  "pull_request_rule rules merge_methods =
    (case map_of rules ''pull_request'' of
       None \<Rightarrow> Inl (ContractError ''protected main must require pull requests'')
     | Some rule \<Rightarrow>
         bind (object_of (get rule ''parameters'') ''pull-request rule parameters'') (\<lambda>parameters.
         bind (string_set (get parameters ''allowed_merge_methods'') ''ruleset merge methods'') (\<lambda>allowed.
         deny_if (set allowed \<noteq> set merge_methods) ''repository and ruleset merge methods do not match'' (Inr ()))))"

definition status_rule :: "(string \<times> dict) list \<Rightarrow> (json \<times> (string \<times> int) list) res" where
  "status_rule rules =
    (case map_of rules ''required_status_checks'' of
       None \<Rightarrow> Inl (ContractError ''protected main must require exact status checks'')
     | Some rule \<Rightarrow>
         bind (object_of (get rule ''parameters'') ''status-check rule parameters'') (\<lambda>parameters.
         deny_if (get parameters ''do_not_enforce_on_create'' \<noteq> JBool False)
           ''required checks must also apply when the ref is created'' (
         bind (status_check_set (get parameters ''required_status_checks'')) (\<lambda>checks.
         Inr (get parameters ''strict_required_status_checks_policy'', checks)))))"

definition has_rule :: "(string \<times> dict) list \<Rightarrow> string \<Rightarrow> bool" where
  "has_rule rules kind = (kind \<in> set (map fst rules))"

definition settings_facts ::
  "string \<Rightarrow> string list \<Rightarrow> json \<Rightarrow> (string \<times> int) list \<Rightarrow> dict \<Rightarrow> dict \<Rightarrow> dict \<Rightarrow> dict
    \<Rightarrow> (string \<times> dict) list \<Rightarrow> json list \<Rightarrow> bool \<Rightarrow> bool \<Rightarrow> bool \<Rightarrow> bool \<Rightarrow> dict" where
  "settings_facts repo methods strict checks immutable vulnerability actions workflow rules bypass s1 s2 s3 s4 =
    [(''repository'', JStr repo), (''branch'', JStr ''main''),
     (''merge_methods'', JArr (map JStr (sort methods))),
     (''required_status_checks'',
       JArr (map (\<lambda>(context, i). JObj [(''context'', JStr context), (''integration_id'', JInt i)]) (sort checks))),
     (''strict_status_checks'', strict),
     (''actions_enabled'', get actions ''enabled''),
     (''actions_allowed_actions'', get actions ''allowed_actions''),
     (''actions_sha_pinning_required'', get actions ''sha_pinning_required''),
     (''default_workflow_permissions'', get workflow ''default_workflow_permissions''),
     (''actions_can_approve_pull_request_reviews'', get workflow ''can_approve_pull_request_reviews''),
     (''require_pull_request'', JBool True),
     (''require_linear_history'', JBool (has_rule rules ''required_linear_history'')),
     (''require_signed_commits'', JBool (has_rule rules ''required_signatures'')),
     (''allow_force_pushes'', JBool (\<not> has_rule rules ''non_fast_forward'')),
     (''allow_deletions'', JBool (\<not> has_rule rules ''deletion'')),
     (''restrict_updates'', JBool (has_rule rules ''update'')),
     (''bypass_actors'', if bypass = [] then JArr [] else JArr [JStr ''present'']),
     (''immutable_releases'', get immutable ''enabled''),
     (''private_vulnerability_reporting'', get vulnerability ''enabled''),
     (''secret_scanning'', JBool s1), (''secret_scanning_push_protection'', JBool s2),
     (''secret_scanning_non_provider_patterns'', JBool s3), (''secret_scanning_validity_checks'', JBool s4)]"

record live_records =
  repository_record :: dict
  immutable_record :: dict
  vulnerability_record :: dict
  actions_record :: dict
  workflow_record :: dict
  main_ruleset_id :: int
  main_ruleset :: dict
  owner_ruleset_id :: int
  owner_ruleset :: dict
  tag_ruleset_id :: int
  tag_ruleset :: dict

definition build_settings_receipt :: "string \<Rightarrow> live_records \<Rightarrow> dict res" where
  "build_settings_receipt repo r =
    deny_if
      (get (repository_record r) ''full_name'' \<noteq> JStr repo \<or> get (repository_record r) ''default_branch'' \<noteq> JStr ''main'')
      ''repository settings identity or default branch is not exact'' (
    bind (for_each (merge_step (repository_record r)) merge_fields []) (\<lambda>methods.
    bind (validate_immutable_settings (immutable_record r)) (\<lambda>_.
    bind (validate_private_vulnerability_reporting (vulnerability_record r)) (\<lambda>_.
    bind (check_actions (actions_record r) (workflow_record r)) (\<lambda>_.
    bind (object_of (get (repository_record r) ''security_and_analysis'') ''repository security-and-analysis settings'')
      (\<lambda>security.
    deny_if (ruleset_identity_bad (main_ruleset r) (main_ruleset_id r) EXPECTED_MAIN_RULESET ''branch'' repo)
      ''protected-main ruleset identity or enforcement is not exact'' (
    bind (check_ref_name (main_ruleset r) ''protected-main'' ''refs/heads/main''
            ''protected-main ruleset must target only refs/heads/main'') (\<lambda>_.
    bind (main_rules (main_ruleset r)) (\<lambda>(bypass, rules).
    bind (pull_request_rule rules methods) (\<lambda>_.
    bind (status_rule rules) (\<lambda>(strict, checks).
    bind (security_enabled security ''secret_scanning'') (\<lambda>s1.
    bind (security_enabled security ''secret_scanning_push_protection'') (\<lambda>s2.
    bind (security_enabled security ''secret_scanning_non_provider_patterns'') (\<lambda>s3.
    bind (security_enabled security ''secret_scanning_validity_checks'') (\<lambda>s4.
    bind (release_tag_ruleset_receipt (tag_ruleset_id r) (tag_ruleset r) repo) (\<lambda>tag_facts.
    bind (validate_owner_update_ruleset (owner_ruleset_id r) (owner_ruleset r) repo) (\<lambda>_.
    let receipt = update (update
          (settings_facts repo methods strict checks (immutable_record r) (vulnerability_record r) (actions_record r)
             (workflow_record r) rules bypass s1 s2 s3 s4) tag_facts) OWNER_UPDATE_RECEIPT
    in bind (validate_settings_receipt receipt repo) (\<lambda>_. Inr receipt))))))))))))))))))"

section \<open>The live queries\<close>

definition api_command :: "string \<Rightarrow> bool \<Rightarrow> string list" where
  "api_command endpoint paginate =
    [''api'', ''--method'', ''GET'', ''--header'', ''Accept: application/vnd.github+json'', ''--header'',
     ''X-GitHub-Api-Version: '' @ GITHUB_API_VERSION]
    @ (if paginate then [''--paginate'', ''--slurp''] else []) @ [endpoint]"

definition api_page :: "json \<Rightarrow> json list \<Rightarrow> json list res" where
  "api_page page flattened =
    bind (array_of page ''paginated GitHub settings page'') (\<lambda>items. Inr (flattened @ items))"

definition github_api_get :: "float_text \<Rightarrow> runner \<Rightarrow> string \<Rightarrow> bool \<Rightarrow> json res" where
  "github_api_get fl gh endpoint paginate =
    bind (run_text gh (api_command endpoint paginate)) (\<lambda>(rc, out).
    deny_if (rc \<noteq> 0) ''read-only GitHub settings query failed'' (
    bind (rewrap (\<lambda>e. e = JSONDecodeError)
            (\<lambda>_. ContractError ''read-only GitHub settings query returned malformed JSON'')
            (loads fl dict_hook out)) (\<lambda>v.
    if \<not> paginate then Inr v
    else bind (array_of v ''paginated GitHub settings response'') (\<lambda>pages.
         bind (for_each api_page pages []) (\<lambda>items. Inr (JArr items))))))"

definition api_object :: "float_text \<Rightarrow> runner \<Rightarrow> string \<Rightarrow> string \<Rightarrow> dict res" where
  "api_object fl gh endpoint label = bind (github_api_get fl gh endpoint False) (\<lambda>v. object_of v label)"

definition observe_live_settings :: "float_text \<Rightarrow> runner \<Rightarrow> string \<Rightarrow> dict res" where
  "observe_live_settings fl gh repo =
    deny_if (\<not> owner_name_ok repo) ''repository must be an exact owner/name pair'' (
    let base = ''repos/'' @ repo in
    bind (api_object fl gh base ''repository settings'') (\<lambda>repository_settings.
    bind (api_object fl gh (base @ ''/immutable-releases'') ''immutable-release settings'') (\<lambda>immutable.
    bind (api_object fl gh (base @ ''/private-vulnerability-reporting'')
            ''private-vulnerability-reporting settings'') (\<lambda>vulnerability.
    bind (api_object fl gh (base @ ''/actions/permissions'') ''Actions policy settings'') (\<lambda>actions.
    bind (api_object fl gh (base @ ''/actions/permissions/workflow'') ''default workflow permission settings'')
      (\<lambda>workflow.
    bind (github_api_get fl gh (base @ ''/rulesets?includes_parents=true&per_page=100'') True) (\<lambda>summaries.
    bind (select_main_ruleset_ids summaries repo) (\<lambda>(main_id, owner_id).
    bind (select_release_tag_ruleset_id summaries repo) (\<lambda>tag_id.
    bind (api_object fl gh (base @ ''/rulesets/'' @ show_int main_id) ''protected-main ruleset'') (\<lambda>main_record.
    bind (api_object fl gh (base @ ''/rulesets/'' @ show_int tag_id) ''release-tag ruleset'') (\<lambda>tag_record.
    bind (api_object fl gh (base @ ''/rulesets/'' @ show_int owner_id) ''owner-update ruleset'') (\<lambda>owner_record.
    build_settings_receipt repo
      \<lparr>repository_record = repository_settings, immutable_record = immutable, vulnerability_record = vulnerability,
       actions_record = actions, workflow_record = workflow, main_ruleset_id = main_id, main_ruleset = main_record,
       owner_ruleset_id = owner_id, owner_ruleset = owner_record, tag_ruleset_id = tag_id,
       tag_ruleset = tag_record\<rparr>))))))))))))"

end
