(* ===== verification/Command.thy ===== *)
theory Command
  imports RunEvidence LiveSettings
begin

text \<open>
  scripts/ci/platform_release_contract.py: the command line.  A command is one
  constructor with the arguments its subparser declares (text, integers, optional
  values, and files); a file is its path and what reading it gives.  \<open>main\<close> maps
  the outcome of the command to its exit code.  What is printed is kept as a value:
  the layout of the default \<open>json.dumps\<close> is not modelled.
\<close>

section \<open>Files and output\<close>

record input_file =
  input_path :: string
  input_bytes :: "string res"

datatype printed =
    Line string  \<comment> \<open>\<open>print(text)\<close>\<close>
  | Raw string  \<comment> \<open>\<open>print(text, end="")\<close>\<close>
  | SortedJson json  \<comment> \<open>\<open>print(json.dumps(value, sort_keys=True))\<close>, with or without indentation\<close>

definition read_text :: "input_file \<Rightarrow> string res" where
  "read_text f = bind (bind (input_bytes f) decode_utf8) (\<lambda>s. Inr (universal_newlines s))"

definition read_json :: "float_text \<Rightarrow> input_file \<Rightarrow> json res" where
  "read_json fl f = bind (read_text f) (loads fl dict_hook)"

definition read_object :: "float_text \<Rightarrow> input_file \<Rightarrow> dict res" where
  "read_object fl f = bind (read_json fl f) (\<lambda>v. object_of v (input_path f))"

definition read_optional :: "(input_file \<Rightarrow> 'a res) \<Rightarrow> input_file option \<Rightarrow> 'a option res" where
  "read_optional reader f = (case f of None \<Rightarrow> Inr None | Some file \<Rightarrow> bind (reader file) (\<lambda>x. Inr (Some x)))"

definition emit :: "intent \<Rightarrow> printed" where
  "emit i = SortedJson (JObj [(''source_sha'', JStr (intent_source_sha i)), (''tag'', JStr (intent_tag i)),
     (''version'', JStr (version_str (intent_version i)))])"

definition emit_fragment :: "fragment_intent \<Rightarrow> printed" where
  "emit_fragment i = SortedJson (JObj [(''fragment_path'', JStr (fragment_path i)),
     (''fragment_sha256'', JStr (fragment_sha256 i)), (''source_sha'', JStr (fragment_source_sha i))])"

section \<open>Commands\<close>

datatype ledger_command =
    Transition string string
  | ReleaseWindow string
  | ReleaseNotes string string "string option" "string option"
  | ReleaseIdentity string string string string string run_ids publish_args
  | RecoveryRelease string string

datatype settings_command =
    WorkflowRun input_file string
  | SettingsReceipt input_file string
  | SettingsPreflight string
  | AppProvisioningReceipt input_file string
  | ImmutableSettings input_file
  | ImmutableSettingsReceipt input_file string string string string
  | MainCiJobsReceipt input_file input_file input_file string string string string
  | CodeqlRunState input_file string
  | CodeqlJobsState input_file int int string

datatype record_command =
    TagRecord input_file input_file tag_expectation
  | TagState int "string option" "input_file option" "input_file option" tag_expectation
  | ReleaseDraftRecord input_file string string string input_file draft_expectation
  | ReleaseDraftState input_file string string string "input_file list" draft_expectation string
  | ReleaseState int "string option" "input_file option" bool string string string input_file

datatype identity_command =
    BurnedPartial input_file input_file input_file input_file input_file input_file
  | IdentityReleaseRecord bool input_file input_file input_file expected_release
  | SelectorImage input_file input_file input_file expected_release
  | IdentityRunRecords input_file input_file input_file "input_file option"
  | IdentityReleaseState int "string option" "input_file option" "input_file option" "input_file option" expected_release

datatype command =
    LedgerCommand ledger_command
  | SettingsCommand settings_command
  | RecordCommand record_command
  | IdentityCommand identity_command

definition window_json :: "transition_window \<Rightarrow> json" where
  "window_json w =
    JObj [(''base_sha'', JStr (base_sha w)), (''base_tag'', JStr (base_tag w)),
      (''fragment_path'', JStr (window_fragment_path w)), (''fragment_sha256'', JStr (window_fragment_sha256 w)),
      (''source_sha'', JStr (intent_source_sha (window_intent w))), (''tag'', JStr (intent_tag (window_intent w))),
      (''version'', JStr (version_str (intent_version (window_intent w))))]"

fun run_ledger_command :: "float_text \<Rightarrow> runner \<Rightarrow> ledger_command \<Rightarrow> printed res" where
  "run_ledger_command fl git (Transition base head) =
    bind (validate_transition git base head) (\<lambda>fragment. Inr (emit_fragment fragment))"
| "run_ledger_command fl git (ReleaseWindow head) =
    bind (discover_transition_window git head) (\<lambda>window. Inr (SortedJson (window_json window)))"
| "run_ledger_command fl git (ReleaseNotes head tag base_commit base_name) =
    bind (render_release_notes git head tag base_commit base_name) (\<lambda>notes. Inr (Raw notes))"
| "run_ledger_command fl git (ReleaseIdentity head tag base_commit base_name tag_object ids args) =
    bind (render_release_identity fl git head tag base_commit base_name tag_object ids args) (\<lambda>text. Inr (Raw text))"
| "run_ledger_command fl git (RecoveryRelease source tag) =
    bind (validate_recovery_release git source tag) (\<lambda>i. Inr (emit i))"

fun run_settings_command :: "float_text \<Rightarrow> runner \<Rightarrow> settings_command \<Rightarrow> printed res" where
  "run_settings_command fl gh (WorkflowRun event repo) =
    bind (read_json fl event) (\<lambda>v.
    case v of
      JObj d \<Rightarrow> bind (plan_workflow_run d repo) (\<lambda>sha. Inr (Line sha))
    | _ \<Rightarrow> Inl AttributeError)"
| "run_settings_command fl gh (SettingsReceipt receipt repo) =
    bind (read_object fl receipt) (\<lambda>d. bind (validate_settings_receipt d repo) (\<lambda>_. Inr (Line ''exact'')))"
| "run_settings_command fl gh (SettingsPreflight repo) =
    bind (observe_live_settings fl gh repo) (\<lambda>receipt. Inr (SortedJson (JObj receipt)))"
| "run_settings_command fl gh (AppProvisioningReceipt receipt repo) =
    bind (read_object fl receipt) (\<lambda>d. bind (validate_app_provisioning_receipt d repo) (\<lambda>_. Inr (Line ''exact'')))"
| "run_settings_command fl gh (ImmutableSettings settings) =
    bind (read_object fl settings) (\<lambda>d. bind (validate_immutable_settings d) (\<lambda>_. Inr (Line ''exact'')))"
| "run_settings_command fl gh (ImmutableSettingsReceipt settings repo sha run attempt) =
    bind (read_object fl settings) (\<lambda>d.
    bind (build_immutable_settings_receipt d repo sha run attempt) (\<lambda>receipt. Inr (SortedJson (JObj receipt))))"
| "run_settings_command fl gh (MainCiJobsReceipt jobs runs codeql repo run attempt sha) =
    bind (read_object fl jobs) (\<lambda>jobs_record.
    bind (read_object fl runs) (\<lambda>codeql_runs.
    bind (read_object fl codeql) (\<lambda>codeql_jobs.
    bind (build_main_ci_jobs_receipt jobs_record codeql_runs codeql_jobs repo run attempt sha) (\<lambda>receipt.
    Inr (SortedJson (JObj receipt))))))"
| "run_settings_command fl gh (CodeqlRunState runs sha) =
    bind (read_object fl runs) (\<lambda>d.
    bind (classify_codeql_run d sha) (\<lambda>state.
    Inr (Line (case state of None \<Rightarrow> ''pending''
      | Some (run, attempt) \<Rightarrow> ''ready:'' @ show_int run @ '':'' @ show_int attempt))))"
| "run_settings_command fl gh (CodeqlJobsState jobs run attempt sha) =
    bind (read_object fl jobs) (\<lambda>d.
    bind (codeql_jobs_ready d run attempt sha) (\<lambda>ready. Inr (Line (if ready then ''ready'' else ''pending''))))"

definition required_state :: "string option \<Rightarrow> string \<Rightarrow> printed res" where
  "required_state required state =
    (case required of
       None \<Rightarrow> Inr (Line state)
     | Some r \<Rightarrow> bind (require_publication_state state r) (\<lambda>s. Inr (Line s)))"

fun run_record_command :: "float_text \<Rightarrow> record_command \<Rightarrow> printed res" where
  "run_record_command fl (TagRecord ref_json tag_json te) =
    bind (read_object fl ref_json) (\<lambda>ref_record.
    bind (read_object fl tag_json) (\<lambda>tag_record.
    bind (validate_tag_record ref_record tag_record te) (\<lambda>_. Inr (Line ''exact''))))"
| "run_record_command fl (TagState http_status required ref_json tag_json te) =
    bind (read_optional (read_object fl) ref_json) (\<lambda>ref_record.
    bind (read_optional (read_object fl) tag_json) (\<lambda>tag_record.
    bind (classify_tag_state http_status ref_record tag_record te) (required_state required)))"
| "run_record_command fl (ReleaseDraftRecord release_json tag sha title body de) =
    bind (read_object fl release_json) (\<lambda>release_record.
    bind (read_text body) (\<lambda>text.
    bind (validate_draft_release_record release_record
            \<lparr>re_tag = tag, re_source_sha = sha, re_title = title, re_body = text\<rparr> de) (\<lambda>_. Inr (Line ''exact''))))"
| "run_record_command fl (ReleaseDraftState releases_json tag sha title body de required) =
    bind (read_json fl releases_json) (\<lambda>pages.
    bind (map_res read_text body) (\<lambda>bodies.
    bind (classify_draft_release_state pages tag sha title bodies de) (\<lambda>(state, release).
    bind (require_publication_state state required) (\<lambda>_.
    Inr (Line (if state = ''exact'' then py_str fl release else state))))))"
| "run_record_command fl (ReleaseState http_status required release_json grandfathered tag sha title body) =
    bind (read_optional (read_object fl) release_json) (\<lambda>release_record.
    bind (read_text body) (\<lambda>text.
    bind (classify_release_state http_status release_record
            \<lparr>re_tag = tag, re_source_sha = sha, re_title = title, re_body = text\<rparr> grandfathered)
      (required_state required)))"

fun run_identity_command :: "float_text \<Rightarrow> identity_command \<Rightarrow> printed res" where
  "run_identity_command fl (BurnedPartial release_json document bundle body main_run platform_run) =
    bind (read_object fl release_json) (\<lambda>release_record.
    bind (input_bytes document) (\<lambda>document_bytes.
    bind (input_bytes bundle) (\<lambda>bundle_bytes.
    bind (read_text body) (\<lambda>text.
    bind (read_object fl main_run) (\<lambda>main_record.
    bind (read_object fl platform_run) (\<lambda>platform_record.
    bind (validate_burned_partial_release_record fl release_record document_bytes bundle_bytes text main_record
            platform_record) (\<lambda>digest. Inr (Line (py_str fl digest)))))))))"
| "run_identity_command fl (IdentityReleaseRecord staged release_json document bundle ex) =
    bind (rewrap is_shape_error (\<lambda>_. ContractError ''release identity tag is malformed'')
            (identity (JStr (expected_tag ex)))) (\<lambda>selected.
    deny_if (id_version selected < 3 \<and> expected_build_sha ex = None)
      ''historical selector identity requires its build source SHA'' (
    bind (read_object fl release_json) (\<lambda>release_record.
    bind (input_bytes document) (\<lambda>document_bytes.
    bind (input_bytes bundle) (\<lambda>bundle_bytes.
    bind (validate_identity_release_record fl release_record document_bytes bundle_bytes
            (ex\<lparr>expected_staged := staged\<rparr>)) (\<lambda>_. Inr (Line ''exact'')))))))"
| "run_identity_command fl (SelectorImage release_json document bundle ex) =
    bind (read_object fl release_json) (\<lambda>release_record.
    bind (input_bytes document) (\<lambda>document_bytes.
    bind (input_bytes bundle) (\<lambda>bundle_bytes.
    bind (selector_image_from_release fl release_record document_bytes bundle_bytes
            (ex\<lparr>expected_staged := False\<rparr>)) (\<lambda>digest. Inr (Line (py_str fl digest))))))"
| "run_identity_command fl (IdentityRunRecords document main_run platform_run execution_run) =
    bind (input_bytes document) (\<lambda>document_bytes.
    bind (read_object fl main_run) (\<lambda>main_record.
    bind (read_object fl platform_run) (\<lambda>platform_record.
    bind (read_optional (read_object fl) execution_run) (\<lambda>execution_record.
    bind (validate_identity_run_records fl document_bytes main_record platform_record ''success'' execution_record False)
      (\<lambda>_. Inr (Line ''exact''))))))"
| "run_identity_command fl (IdentityReleaseState http_status required release_json document bundle ex) =
    bind (read_optional (read_object fl) release_json) (\<lambda>release_record.
    bind (read_optional input_bytes document) (\<lambda>document_bytes.
    bind (read_optional input_bytes bundle) (\<lambda>bundle_bytes.
    bind (classify_identity_release_state fl http_status release_record document_bytes bundle_bytes ex)
      (required_state required))))"

definition run_command :: "float_text \<Rightarrow> runner \<Rightarrow> runner \<Rightarrow> command \<Rightarrow> printed res" where
  "run_command fl git gh cmd =
    (case cmd of
       LedgerCommand c \<Rightarrow> run_ledger_command fl git c
     | SettingsCommand c \<Rightarrow> run_settings_command fl gh c
     | RecordCommand c \<Rightarrow> run_record_command fl c
     | IdentityCommand c \<Rightarrow> run_identity_command fl c)"

section \<open>Exit codes\<close>

datatype exit_state =
    Done printed  \<comment> \<open>exit 0\<close>
  | Pending string  \<comment> \<open>exit 3\<close>
  | Denied exc  \<comment> \<open>exit 1 with the message on standard error\<close>
  | Uncaught exc  \<comment> \<open>a traceback\<close>

definition caught :: "exc \<Rightarrow> bool" where
  "caught e = (is_contract_error e \<or> e = OSError \<or> e = JSONDecodeError \<or> e = UnicodeDecodeError)"

definition main :: "float_text \<Rightarrow> runner \<Rightarrow> runner \<Rightarrow> command \<Rightarrow> exit_state" where
  "main fl git gh cmd =
    (case run_command fl git gh cmd of
       Inr out \<Rightarrow> Done out
     | Inl (PendingRelease m) \<Rightarrow> Pending m
     | Inl e \<Rightarrow> if caught e then Denied e else Uncaught e)"

end
