(* ===== verification/Predecessor.thy ===== *)
theory Predecessor
  imports Records
begin

text \<open>
  scripts/ci/validate_platform_predecessor.py: the one historical predecessor whose
  release carries no identity assets.  Its identity is derived from the local tag
  ledger and then compared with the REST records.  \<open>fail\<close> is \<open>SystemExit\<close>.
\<close>

section \<open>Constants\<close>

definition PREDECESSOR_REPOSITORY :: string where "PREDECESSOR_REPOSITORY = ''snaraj/website-infrastructure''"
definition PREDECESSOR_TAG :: string where "PREDECESSOR_TAG = ''v0.1.40''"
definition SUCCESSOR_TAG :: string where "SUCCESSOR_TAG = ''v0.1.41''"
definition BOT_NAME :: string where "BOT_NAME = ''github-actions[bot]''"
definition BOT_EMAIL :: string where "BOT_EMAIL = ''41898282+github-actions[bot]@users.noreply.github.com''"
definition MAIN_WORKFLOW :: string where "MAIN_WORKFLOW = ''.github/workflows/pull-request.yml''"
definition PLATFORM_WORKFLOW :: string where "PLATFORM_WORKFLOW = ''.github/workflows/platform-release.yml''"

section \<open>Reading\<close>

definition fail_if :: "bool \<Rightarrow> string \<Rightarrow> 'a res \<Rightarrow> 'a res" where
  "fail_if c msg k = (if c then Inl (SystemExit msg) else k)"

definition unique_key :: "string \<times> json \<Rightarrow> dict \<Rightarrow> dict res" where
  "unique_key p result =
    fail_if (has_key result (fst p)) ''duplicate JSON key'' (Inr (put result (fst p) (snd p)))"

definition unique_object :: "dict \<Rightarrow> json res" where
  "unique_object pairs = map_sum id JObj (for_each unique_key pairs [])"

definition load_object :: "float_text \<Rightarrow> string res \<Rightarrow> dict res" where
  "load_object fl content =
    bind (rewrap (\<lambda>e. e \<in> {OSError, UnicodeDecodeError, UnicodeEncodeError, JSONDecodeError})
            (\<lambda>_. SystemExit ''cannot read JSON object'')
            (bind (bind content decode_utf8) (\<lambda>s. loads fl unique_object (universal_newlines s)))) (\<lambda>v.
    case v of JObj d \<Rightarrow> Inr d | _ \<Rightarrow> Inl (SystemExit ''must contain one JSON object''))"

definition positive_or_fail :: "json \<Rightarrow> string \<Rightarrow> int res" where
  "positive_or_fail v label =
    (case v of
       JInt i \<Rightarrow> fail_if (i \<le> 0) (label @ '' is not one positive integer'') (Inr i)
     | _ \<Rightarrow> Inl (SystemExit (label @ '' is not one positive integer'')))"

definition sha_or_fail :: "string \<Rightarrow> string \<Rightarrow> string res" where
  "sha_or_fail v label = fail_if (\<not> sha1_hex v) (label @ '' is not one lowercase commit SHA'') (Inr v)"

definition git_or_fail :: "runner \<Rightarrow> string list \<Rightarrow> string res" where
  "git_or_fail git args =
    bind (rewrap (\<lambda>e. e \<in> {OSError, SubprocessError})
            (\<lambda>_. SystemExit ''cannot derive predecessor from the local tag ledger'') (run_checked git args))
      (\<lambda>out. Inr (strip out))"

section \<open>The local identity\<close>

definition validate_edge :: "string \<Rightarrow> string \<Rightarrow> unit res" where
  "validate_edge base target =
    fail_if (base \<noteq> PREDECESSOR_TAG \<or> target \<noteq> SUCCESSOR_TAG)
      ''zero-asset predecessor exception is only v0.1.40 to v0.1.41'' (Inr ())"

record local_identity =
  local_notes :: string
  local_predecessor_sha :: string
  local_predecessor_tag :: string
  local_source_sha :: string
  local_tag_object_sha :: string
  local_tagger_date :: string

definition derive_local_identity :: "runner \<Rightarrow> local_identity res" where
  "derive_local_identity git =
    bind (git_or_fail git [''rev-parse'', ''refs/tags/'' @ PREDECESSOR_TAG]) (\<lambda>out.
    bind (sha_or_fail out ''local annotated tag object SHA'') (\<lambda>tag_object.
    bind (git_or_fail git [''cat-file'', ''-t'', tag_object]) (\<lambda>kind.
    fail_if (kind \<noteq> ''tag'') ''v0.1.40 local tag is not annotated'' (
    bind (git_or_fail git [''rev-parse'', ''refs/tags/'' @ PREDECESSOR_TAG @ ''^{commit}'']) (\<lambda>out.
    bind (sha_or_fail out ''local peeled commit SHA'') (\<lambda>source.
    bind (rewrap is_contract_error (\<lambda>_. SystemExit ''v0.1.40 local release ledger is invalid'')
            (bind (discover_transition_window git source) (\<lambda>window.
             bind (render_release_notes git source PREDECESSOR_TAG (Some (base_sha window)) (Some (base_tag window)))
               (\<lambda>notes. Inr (window, notes))))) (\<lambda>(window, notes).
    fail_if (intent_tag (window_intent window) \<noteq> PREDECESSOR_TAG) ''local release ledger does not derive v0.1.40'' (
    bind (git_or_fail git [''show'', ''-s'', ''--format=%cI'', source]) (\<lambda>date.
    Inr \<lparr>local_notes = notes, local_predecessor_sha = base_sha window, local_predecessor_tag = base_tag window,
         local_source_sha = source, local_tag_object_sha = tag_object, local_tagger_date = date\<rparr>)))))))))"

section \<open>The REST records\<close>

definition validate_release :: "dict \<Rightarrow> local_identity \<Rightarrow> int res" where
  "validate_release release local =
    bind (positive_or_fail (get release ''id'') ''GitHub Release ID'') (\<lambda>release_id.
    bind (rewrap is_contract_error (\<lambda>_. SystemExit ''v0.1.40 immutable zero-asset GitHub Release is foreign'')
            (validate_release_record release
               \<lparr>re_tag = PREDECESSOR_TAG, re_source_sha = local_source_sha local,
                re_title = ''Platform '' @ PREDECESSOR_TAG, re_body = local_notes local\<rparr> False)) (\<lambda>_.
    fail_if (get release ''assets'' \<noteq> JArr []) ''v0.1.40 GitHub Release must have exactly zero assets''
      (Inr release_id)))"

definition validate_tag :: "dict \<Rightarrow> dict \<Rightarrow> local_identity \<Rightarrow> unit res" where
  "validate_tag ref tag_record local =
    fail_if
      (case get ref ''object'' of
         JObj d \<Rightarrow> get d ''sha'' \<noteq> JStr (local_tag_object_sha local)
       | _ \<Rightarrow> True)
      ''v0.1.40 REST ref does not match the local annotated tag object'' (
    rewrap is_contract_error (\<lambda>_. SystemExit ''v0.1.40 annotated tag moved or conflicts'')
      (validate_tag_record ref tag_record
        \<lparr>te_tag = PREDECESSOR_TAG, te_source_sha = local_source_sha local,
         te_message = ''Platform release '' @ PREDECESSOR_TAG @ '' from '' @ local_source_sha local,
         te_tagger_name = BOT_NAME, te_tagger_email = BOT_EMAIL, te_tagger_date = local_tagger_date local\<rparr>))"

definition validate_run_shape :: "dict \<Rightarrow> string \<Rightarrow> string \<Rightarrow> string \<Rightarrow> string \<Rightarrow> (int \<times> int) res" where
  "validate_run_shape run source event workflow label =
    bind (positive_or_fail (get run ''id'') (label @ '' run ID'')) (\<lambda>run_id.
    bind (positive_or_fail (get run ''run_attempt'') (label @ '' run attempt'')) (\<lambda>attempt.
    fail_if
      (get run ''event'' \<noteq> JStr event \<or> get run ''head_sha'' \<noteq> JStr source
        \<or> get run ''head_branch'' \<noteq> JStr ''main'' \<or> get run ''path'' \<noteq> JStr workflow
        \<or> get run ''status'' \<noteq> JStr ''completed'' \<or> get run ''conclusion'' \<noteq> JStr ''success''
        \<or> (case get run ''repository'' of
             JObj d \<Rightarrow> get d ''full_name'' \<noteq> JStr PREDECESSOR_REPOSITORY
           | _ \<Rightarrow> True))
      (''v0.1.40 '' @ label @ '' run is partial, failed, or foreign'') (Inr (run_id, attempt))))"

definition select_exact_run :: "dict \<Rightarrow> string \<Rightarrow> string \<Rightarrow> string \<Rightarrow> string \<Rightarrow> (int \<times> int) res" where
  "select_exact_run listing source event workflow label =
    fail_if (\<not> keys_are listing [''total_count'', ''workflow_runs''])
      (''v0.1.40 '' @ label @ '' run listing is partial or foreign'') (
    case (get listing ''total_count'', get listing ''workflow_runs'') of
      (JInt n, JArr [JObj run]) \<Rightarrow>
        fail_if (n \<noteq> 1) (''v0.1.40 must have one successful exact '' @ label @ '' run'')
          (validate_run_shape run source event workflow label)
    | _ \<Rightarrow> Inl (SystemExit (''v0.1.40 must have one successful exact '' @ label @ '' run'')))"

definition validate_run_record ::
  "dict \<Rightarrow> int \<times> int \<Rightarrow> string \<Rightarrow> string \<Rightarrow> string \<Rightarrow> string \<Rightarrow> unit res" where
  "validate_run_record actual expected source event workflow label =
    bind (validate_run_shape actual source event workflow label) (\<lambda>run.
    fail_if (run \<noteq> expected) (''v0.1.40 '' @ label @ '' attempt does not match its runtime query'') (Inr ()))"

record predecessor_records =
  pr_local :: local_identity
  pr_release_id :: int
  pr_main :: "int \<times> int"
  pr_platform :: "int \<times> int"

definition validate_records ::
  "runner \<Rightarrow> dict \<Rightarrow> dict \<Rightarrow> dict \<Rightarrow> dict \<Rightarrow> dict \<Rightarrow> predecessor_records res" where
  "validate_records git release ref tag_record main_runs platform_runs =
    bind (derive_local_identity git) (\<lambda>local.
    bind (validate_release release local) (\<lambda>release_id.
    bind (validate_tag ref tag_record local) (\<lambda>_.
    bind (select_exact_run main_runs (local_source_sha local) ''push'' MAIN_WORKFLOW ''main CI'') (\<lambda>main.
    bind (select_exact_run platform_runs (local_source_sha local) ''workflow_run'' PLATFORM_WORKFLOW ''platform release'')
      (\<lambda>platform.
    Inr \<lparr>pr_local = local, pr_release_id = release_id, pr_main = main, pr_platform = platform\<rparr>)))))"

text \<open>The dictionary that is returned and printed.\<close>

definition run_json :: "int \<times> int \<Rightarrow> json" where
  "run_json run = JObj [(''run_attempt'', JInt (snd run)), (''run_id'', JInt (fst run))]"

definition predecessor_json :: "predecessor_records \<Rightarrow> json" where
  "predecessor_json r =
    JObj [(''main_ci'', run_json (pr_main r)), (''platform_release'', run_json (pr_platform r)),
      (''predecessor'', JObj [(''peeled_commit'', JStr (local_predecessor_sha (pr_local r))),
         (''tag'', JStr (local_predecessor_tag (pr_local r)))]),
      (''release'', JObj [(''asset_count'', JInt 0), (''id'', JInt (pr_release_id r)),
         (''tag_name'', JStr PREDECESSOR_TAG), (''target_commitish'', JStr (local_source_sha (pr_local r)))]),
      (''source'', JObj [(''merge_sha'', JStr (local_source_sha (pr_local r)))]),
      (''tag'', JObj [(''object_sha'', JStr (local_tag_object_sha (pr_local r))),
         (''peeled_commit'', JStr (local_source_sha (pr_local r)))])]"

section \<open>The command\<close>

record predecessor_files =
  pf_release :: "string res"
  pf_ref :: "string res"
  pf_tag :: "string res"
  pf_main_runs :: "string res"
  pf_platform_runs :: "string res"
  pf_main_run :: "string res option"
  pf_platform_run :: "string res option"

definition check_attempts :: "float_text \<Rightarrow> predecessor_files \<Rightarrow> predecessor_records \<Rightarrow> unit res" where
  "check_attempts fl files r =
    (case (pf_main_run files, pf_platform_run files) of
       (Some main_file, Some platform_file) \<Rightarrow>
         bind (load_object fl main_file) (\<lambda>main_run.
         bind (validate_run_record main_run (pr_main r) (local_source_sha (pr_local r)) ''push'' MAIN_WORKFLOW ''main CI'')
           (\<lambda>_.
         bind (load_object fl platform_file) (\<lambda>platform_run.
         validate_run_record platform_run (pr_platform r) (local_source_sha (pr_local r)) ''workflow_run''
           PLATFORM_WORKFLOW ''platform release'')))
     | _ \<Rightarrow> Inr ())"

definition predecessor_main ::
  "float_text \<Rightarrow> runner \<Rightarrow> string \<Rightarrow> string \<Rightarrow> predecessor_files \<Rightarrow> bool \<Rightarrow> string option res" where
  "predecessor_main fl git base target files emits =
    bind (validate_edge base target) (\<lambda>_.
    fail_if ((pf_main_run files = None) \<noteq> (pf_platform_run files = None))
      ''both exact workflow-run attempt records are required together'' (
    bind (load_object fl (pf_release files)) (\<lambda>release.
    bind (load_object fl (pf_ref files)) (\<lambda>ref.
    bind (load_object fl (pf_tag files)) (\<lambda>tag_record.
    bind (load_object fl (pf_main_runs files)) (\<lambda>main_runs.
    bind (load_object fl (pf_platform_runs files)) (\<lambda>platform_runs.
    bind (validate_records git release ref tag_record main_runs platform_runs) (\<lambda>derived.
    bind (check_attempts fl files derived) (\<lambda>_.
    Inr (if emits then Some (dumps_ascii fl (predecessor_json derived)) else None))))))))))"

end
