(* ===== verification/PyBytes.thy ===== *)
theory PyBytes
  imports PyJsonParse PyPattern
begin

text \<open>
  Two parts of the standard library that the recovery client relies on:
  \<open>json.loads\<close> on bytes, which detects the encoding of its input, and the fields of
  \<open>urllib.parse.urlsplit\<close> that the redirect check reads.
\<close>

section \<open>JSON in bytes\<close>

text \<open>
  \<open>bytes.decode(encoding, "surrogatepass")\<close>: UTF-8 with the three-byte form of
  surrogates, UTF-16 and UTF-32 in both orders.
\<close>

fun utf8_surrogatepass :: "string \<Rightarrow> bool" where
  "utf8_surrogatepass [] = True"
| "utf8_surrogatepass (a # s) =
    (if byte a < 128 then utf8_surrogatepass s
     else if byte_in 194 223 a then
       (case s of b # t \<Rightarrow> if byte_in 128 191 b then utf8_surrogatepass t else False | [] \<Rightarrow> False)
     else if byte_in 224 239 a then
       (case s of b # c # t \<Rightarrow>
          if byte_in (if byte a = 224 then 160 else 128) 191 b \<and> byte_in 128 191 c
          then utf8_surrogatepass t else False
        | _ \<Rightarrow> False)
     else if byte_in 240 244 a then
       (case s of b # c # d # t \<Rightarrow>
          if byte_in (if byte a = 240 then 144 else 128) (if byte a = 244 then 143 else 191) b
             \<and> byte_in 128 191 c \<and> byte_in 128 191 d
          then utf8_surrogatepass t else False
        | _ \<Rightarrow> False)
     else False)"

text \<open>The units of a fixed-width encoding, \<open>None\<close> for a truncated last unit.\<close>

fun units16 :: "bool \<Rightarrow> string \<Rightarrow> nat list option" where
  "units16 big [] = Some []"
| "units16 big [a] = None"
| "units16 big (a # b # s) =
    map_option (\<lambda>us. (if big then 256 * byte a + byte b else byte a + 256 * byte b) # us) (units16 big s)"

fun units32 :: "bool \<Rightarrow> string \<Rightarrow> nat list option" where
  "units32 big [] = Some []"
| "units32 big (a # b # c # d # s) =
    (let n = (if big then ((byte a * 256 + byte b) * 256 + byte c) * 256 + byte d
              else ((byte d * 256 + byte c) * 256 + byte b) * 256 + byte a)
     in if n < 1114112 then map_option (\<lambda>us. n # us) (units32 big s) else None)"
| "units32 big _ = None"

text \<open>A high unit takes the low unit that follows it; a unit alone is kept.\<close>

fun pair_units :: "nat list \<Rightarrow> nat list" where
  "pair_units (h # l # us) =
    (if 55296 \<le> h \<and> h < 56320 \<and> 56320 \<le> l \<and> l < 57344
     then (65536 + 1024 * (h - 55296) + (l - 56320)) # pair_units us else h # pair_units (l # us))"
| "pair_units us = us"

definition decode_units :: "nat list option \<Rightarrow> string res" where
  "decode_units us = (case us of None \<Rightarrow> Inl UnicodeDecodeError | Some ns \<Rightarrow> Inr (concat (map encode_char ns)))"

definition decode_utf16 :: "bool \<Rightarrow> string \<Rightarrow> string res" where
  "decode_utf16 big s = decode_units (map_option pair_units (units16 big s))"

definition decode_utf32 :: "bool \<Rightarrow> string \<Rightarrow> string res" where
  "decode_utf32 big s = decode_units (units32 big s)"

definition decode_utf8_pass :: "string \<Rightarrow> string res" where
  "decode_utf8_pass s = (if utf8_surrogatepass s then Inr s else Inl UnicodeDecodeError)"

text \<open>\<open>json.detect_encoding\<close> followed by the decoding; a byte order mark is dropped.\<close>

definition zero :: "string \<Rightarrow> nat \<Rightarrow> bool" where
  "zero s i = (s ! i = CHR 0x00)"

definition decode_json_bytes :: "string \<Rightarrow> string res" where
  "decode_json_bytes s =
    (if startswith s [CHR 0x00, CHR 0x00, CHR 0xFE, CHR 0xFF] then decode_utf32 True (drop 4 s)
     else if startswith s [CHR 0xFF, CHR 0xFE, CHR 0x00, CHR 0x00] then decode_utf32 False (drop 4 s)
     else if startswith s [CHR 0xFE, CHR 0xFF] then decode_utf16 True (drop 2 s)
     else if startswith s [CHR 0xFF, CHR 0xFE] then decode_utf16 False (drop 2 s)
     else if startswith s [CHR 0xEF, CHR 0xBB, CHR 0xBF] then decode_utf8_pass (drop 3 s)
     else if 4 \<le> length s \<and> zero s 0 then (if zero s 1 then decode_utf32 True s else decode_utf16 True s)
     else if 4 \<le> length s \<and> zero s 1 then
       (if zero s 2 \<and> zero s 3 then decode_utf32 False s else decode_utf16 False s)
     else if length s = 2 \<and> zero s 0 then decode_utf16 True s
     else if length s = 2 \<and> zero s 1 then decode_utf16 False s
     else decode_utf8_pass s)"

definition loads_text :: "float_text \<Rightarrow> string \<Rightarrow> json res" where
  "loads_text fl s =
    bind (parse_value fl dict_hook (2 * length s + 2) (skip_ws s)) (\<lambda>(v, r).
      if skip_ws r = [] then Inr v else Inl JSONDecodeError)"

definition loads_bytes :: "float_text \<Rightarrow> string \<Rightarrow> json res" where
  "loads_bytes fl s = bind (decode_json_bytes s) (loads_text fl)"

section \<open>\<open>urllib.parse.urlsplit\<close>\<close>

definition lower_char :: "char \<Rightarrow> char" where
  "lower_char c = (if byte_in 65 90 c then char_of (byte c + 32) else c)"

definition is_letter :: "char \<Rightarrow> bool" where
  "is_letter c = (byte_in 65 90 c \<or> byte_in 97 122 c)"

definition scheme_char :: "char \<Rightarrow> bool" where
  "scheme_char c = (is_letter c \<or> is_digit c \<or> c \<in> set ''+-.'')"

text \<open>\<open>s.partition(c)\<close> and \<open>s.rpartition(c)\<close>, without the separator.\<close>

definition before :: "char \<Rightarrow> string \<Rightarrow> string" where
  "before c s = takeWhile (\<lambda>x. x \<noteq> c) s"

definition after :: "char \<Rightarrow> string \<Rightarrow> string" where
  "after c s = drop 1 (dropWhile (\<lambda>x. x \<noteq> c) s)"

definition after_last :: "char \<Rightarrow> string \<Rightarrow> string" where
  "after_last c s = rev (before c (rev s))"

definition before_last :: "char \<Rightarrow> string \<Rightarrow> string" where
  "before_last c s = rev (after c (rev s))"

record split_url =
  url_scheme :: string
  url_netloc :: string
  url_fragment :: string

text \<open>
  Leading control characters and spaces are dropped, tabs and newlines everywhere;
  the scheme is read when everything before the first colon is a scheme character.
\<close>

definition clean_url :: "string \<Rightarrow> string" where
  "clean_url s = filter (\<lambda>c. c \<notin> {CHR 0x09, CHR 0x0D, CHR 0x0A}) (dropWhile (\<lambda>c. byte c \<le> 32) s)"

definition split_scheme :: "string \<Rightarrow> string \<times> string" where
  "split_scheme s =
    (let name = before (CHR '':'') s
     in if CHR '':'' \<in> set s \<and> name \<noteq> [] \<and> is_letter (hd name) \<and> list_all scheme_char name
        then (map lower_char name, after (CHR '':'') s) else ([], s))"

definition split_netloc :: "string \<Rightarrow> string \<times> string" where
  "split_netloc s =
    (if startswith s ''//''
     then (takeWhile (\<lambda>c. c \<notin> set ''/?#'') (drop 2 s), dropWhile (\<lambda>c. c \<notin> set ''/?#'') (drop 2 s)) else ([], s))"

text \<open>
  \<open>rejected\<close> stands for the address checks of a bracketed host and the Unicode
  normalisation check of a network location that is not ASCII.
\<close>

definition urlsplit :: "(string \<Rightarrow> bool) \<Rightarrow> string \<Rightarrow> split_url res" where
  "urlsplit rejected s =
    (case split_scheme (clean_url s) of (scheme, rest) \<Rightarrow>
     case split_netloc rest of (netloc, path) \<Rightarrow>
       if (CHR ''['' \<in> set netloc) \<noteq> (CHR '']'' \<in> set netloc)
          \<or> ((CHR ''['' \<in> set netloc \<or> \<not> is_ascii netloc) \<and> rejected netloc)
       then Inl (ValueError ''Invalid network location'')
       else Inr \<lparr>url_scheme = scheme, url_netloc = netloc, url_fragment = after (CHR ''#'') path\<rparr>)"

definition host_info :: "string \<Rightarrow> string \<times> string" where
  "host_info netloc =
    (let info = after_last (CHR ''@'') netloc
     in if CHR ''['' \<in> set info
        then (before (CHR '']'') (after (CHR ''['') info), after (CHR '':'') (after (CHR '']'') (after (CHR ''['') info)))
        else (before (CHR '':'') info, after (CHR '':'') info))"

definition url_hostname :: "split_url \<Rightarrow> string" where
  "url_hostname u =
    (let host = fst (host_info (url_netloc u))
     in map lower_char (before (CHR ''%'') host) @ dropWhile (\<lambda>x. x \<noteq> CHR ''%'') host)"

definition url_port :: "split_url \<Rightarrow> nat option res" where
  "url_port u =
    (let port = snd (host_info (url_netloc u))
     in if port = [] then Inr None
        else raise_if (\<not> list_all is_digit port) (ValueError ''Port could not be cast to integer value'') (
             raise_if (65535 < read_nat port) (ValueError ''Port out of range 0-65535'') (Inr (Some (read_nat port)))))"

text \<open>\<open>not username and not password\<close>.\<close>

definition no_userinfo :: "split_url \<Rightarrow> bool" where
  "no_userinfo u =
    (let info = before_last (CHR ''@'') (url_netloc u)
     in before (CHR '':'') info = [] \<and> after (CHR '':'') info = [])"

end
