(* ===== verification/Client.thy ===== *)
theory Client
  imports PyBytes Settings PyText
begin

text \<open>
  scripts/ci/platform_release_recovery.py, the class \<open>PublicAPI\<close>: reads with a
  budget of requests, time and bytes, and the monad of computations that read.
  The servers and the clock are a parameter, the \<open>network\<close>.
\<close>

section \<open>Computations that read\<close>

type_synonym ('s, 'a) io = "'s \<Rightarrow> 'a res \<times> 's"

definition lift :: "'a res \<Rightarrow> ('s, 'a) io" where
  "lift m s = (m, s)"

definition io_bind :: "('s, 'a) io \<Rightarrow> ('a \<Rightarrow> ('s, 'b) io) \<Rightarrow> ('s, 'b) io" where
  "io_bind m f s = (case m s of (Inl e, s') \<Rightarrow> (Inl e, s') | (Inr x, s') \<Rightarrow> f x s')"

fun io_map :: "('a \<Rightarrow> ('s, 'b) io) \<Rightarrow> 'a list \<Rightarrow> ('s, 'b list) io" where
  "io_map f [] = lift (Inr [])"
| "io_map f (x # xs) = io_bind (f x) (\<lambda>y. io_bind (io_map f xs) (\<lambda>ys. lift (Inr (y # ys))))"

text \<open>\<open>require\<close>, inside a computation and in a pure body.\<close>

definition require :: "bool \<Rightarrow> string \<Rightarrow> unit res" where
  "require condition message = deny_if (\<not> condition) message (Inr ())"

section \<open>The network and the client\<close>

record http_request =
  req_url :: string
  req_headers :: "(string \<times> string) list"
  req_timeout :: int

text \<open>
  An answer: a response of status 200 to 299 with its body, an \<open>HTTPError\<close> with its
  \<open>Location\<close> header, or an exception of the connection.
\<close>

datatype http_reply =
    Response nat "string res"
  | HttpError nat "string option"
  | NoReply exc

text \<open>
  What the world answers: the reply to a request, given all requests sent before
  it, the monotonic clock in nanoseconds at its k-th reading, and the network
  locations that \<open>urlsplit\<close> rejects for reasons of address syntax or Unicode.
\<close>

record network =
  answer :: "http_request list \<Rightarrow> http_request \<Rightarrow> http_reply"
  clock :: "nat \<Rightarrow> int"
  rejected_netloc :: "string \<Rightarrow> bool"

record client =
  api_token :: "string option"
  api_deadline :: int
  api_requests :: nat
  api_readings :: nat
  api_sent :: "http_request list"

definition API :: string where "API = ''https://api.github.com/repos/snaraj/platform''"
definition MAX_JSON :: nat where "MAX_JSON = 2 * 1024 * 1024"
definition ASSET_HOST :: string where "ASSET_HOST = ''release-assets.githubusercontent.com''"

definition seconds :: "int \<Rightarrow> int" where "seconds n = n * 1000000000"

definition public_api :: "network \<Rightarrow> string option \<Rightarrow> client" where
  "public_api net token =
    \<lparr>api_token = token, api_deadline = clock net 0 + seconds 240, api_requests = 0, api_readings = 1, api_sent = []\<rparr>"

definition api_path_ok :: "string \<Rightarrow> bool" where
  "api_path_ok path =
    ((path = [] \<or> startswith path ''/'')
      \<and> \<not> list_ex (\<lambda>v. contains v path) [''..'', ''#'', [CHR 0x5C], [CHR 0x0D], [CHR 0x0A]])"

text \<open>\<open>self.requests += 1\<close> and the reading of the clock.\<close>

definition spend :: "network \<Rightarrow> (client, int) io" where
  "spend net api =
    (Inr (api_deadline api - clock net (api_readings api)),
     api\<lparr>api_requests := api_requests api + 1, api_readings := api_readings api + 1\<rparr>)"

definition budget_left :: "int \<Rightarrow> (client, unit) io" where
  "budget_left remaining api = (require (api_requests api \<le> 96 \<and> 0 < remaining) ''recovery read budget exhausted'', api)"

definition open_url :: "network \<Rightarrow> http_request \<Rightarrow> (client, http_reply) io" where
  "open_url net request api = (Inr (answer net (api_sent api) request), api\<lparr>api_sent := api_sent api @ [request]\<rparr>)"

definition api_headers :: "bool \<Rightarrow> string option \<Rightarrow> (string \<times> string) list" where
  "api_headers asset token =
    [(''Accept'', if asset then ''application/octet-stream'' else ''application/vnd.github+json''),
     (''X-GitHub-Api-Version'', GITHUB_API_VERSION)]
    @ (case token of Some (c # t) \<Rightarrow> [(''Authorization'', ''Bearer '' @ c # t)] | _ \<Rightarrow> [])"

definition api_request :: "string \<Rightarrow> bool \<Rightarrow> int \<Rightarrow> (client, http_request) io" where
  "api_request path asset remaining api =
    (Inr \<lparr>req_url = API @ path, req_headers = api_headers asset (api_token api), req_timeout = min (seconds 20) remaining\<rparr>,
     api)"

text \<open>The target of an asset redirect.\<close>

definition redirect_target :: "network \<Rightarrow> string \<Rightarrow> unit res" where
  "redirect_target net location =
    bind (urlsplit (rejected_netloc net) location) (\<lambda>target.
    if url_scheme target \<noteq> ''https'' \<or> url_hostname target \<noteq> ASSET_HOST
    then require False ''foreign asset redirect''
    else bind (url_port target) (\<lambda>port.
         require ((port = None \<or> port = Some 443) \<and> no_userinfo target \<and> url_fragment target = []) ''foreign asset redirect''))"

definition read_body :: "nat \<Rightarrow> http_reply \<Rightarrow> (nat \<times> string) res" where
  "read_body limit reply =
    (case reply of
       Response status body \<Rightarrow>
         bind (require (status = 200) ''GitHub read did not return 200'') (\<lambda>_.
         bind body (\<lambda>bytes.
         bind (require (length (take (limit + 1) bytes) \<le> limit) ''GitHub response exceeds its byte budget'') (\<lambda>_.
         Inr (200, take (limit + 1) bytes))))
     | HttpError code location \<Rightarrow> Inl OSError
     | NoReply e \<Rightarrow> Inl e)"

definition follow_asset :: "network \<Rightarrow> nat \<Rightarrow> string \<Rightarrow> int \<Rightarrow> (client, nat \<times> string) io" where
  "follow_asset net limit location remaining =
    io_bind (lift (redirect_target net location)) (\<lambda>_.
    io_bind (open_url net \<lparr>req_url = location, req_headers = [], req_timeout = min (seconds 20) remaining\<rparr>) (\<lambda>reply.
    lift (read_body limit reply)))"

definition api_read :: "network \<Rightarrow> string \<Rightarrow> nat \<Rightarrow> bool \<Rightarrow> (client, nat \<times> string) io" where
  "api_read net path limit asset =
    io_bind (lift (require (api_path_ok path) ''foreign API path'')) (\<lambda>_.
    io_bind (spend net) (\<lambda>remaining.
    io_bind (budget_left remaining) (\<lambda>_.
    io_bind (api_request path asset remaining) (\<lambda>request.
    io_bind (open_url net request) (\<lambda>reply.
    case reply of
      HttpError code location \<Rightarrow>
        if asset \<and> code = 302 then follow_asset net limit (case location of None \<Rightarrow> [] | Some l \<Rightarrow> l) remaining
        else if code = 404 \<and> \<not> asset then lift (Inr (404, []))
        else lift (Inl (ContractError ''GitHub read refused with an HTTP error''))
    | _ \<Rightarrow> lift (read_body limit reply))))))"

definition api_find :: "float_text \<Rightarrow> network \<Rightarrow> string \<Rightarrow> bool \<Rightarrow> (client, dict option) io" where
  "api_find fl net path absent =
    io_bind (api_read net path MAX_JSON False) (\<lambda>(status, data).
    if status = 404
    then lift (bind (require absent ''required GitHub record missing; delivery remains held'') (\<lambda>_. Inr None))
    else lift (bind (loads_bytes fl data) (\<lambda>value.
         case value of
           JObj d \<Rightarrow> Inr (Some d)
         | _ \<Rightarrow> Inl (ContractError ''GitHub object response required''))))"

text \<open>\<open>api.get(path)\<close> where the record must exist.\<close>

definition api_get :: "float_text \<Rightarrow> network \<Rightarrow> string \<Rightarrow> (client, dict) io" where
  "api_get fl net path =
    io_bind (api_find fl net path False) (\<lambda>record.
    lift (case record of Some d \<Rightarrow> Inr d | None \<Rightarrow> Inl AttributeError))"

end
