(* ===== verification/Recovery.thy ===== *)
theory Recovery
  imports Client IdentityCheck Records MainCi RunEvidence
begin

text \<open>
  scripts/ci/platform_release_recovery.py: the admission of the finite backlog of
  historical sources.  A first dispatch selects the first source without a release
  (\<open>selection\<close>); the later jobs recheck that selection (\<open>binding\<close>) and never choose
  again.
\<close>

section \<open>The dispatch\<close>

definition SELECTION_SCHEMA :: string where
  "SELECTION_SCHEMA = ''https://snaraj.dev/schemas/platform-release-recovery-selection/v1''"
definition TERMINAL_TREE :: string where "TERMINAL_TREE = ''db18c40ece8fa91f9dfabb7cb99a833a34a30505''"
definition TERMINAL_TAG_OBJECT :: string where "TERMINAL_TAG_OBJECT = ''e28add890e0af9b0be7c3a8548dad3b6fb7e9324''"
definition TERMINAL_RELEASE_ID :: int where "TERMINAL_RELEASE_ID = 384446269"
definition TERMINAL_MAIN_RUN :: int where "TERMINAL_MAIN_RUN = 34186703418"
definition TERMINAL_PUBLISHER_RUN :: int where "TERMINAL_PUBLISHER_RUN = 34186887764"
definition MAX_SELECTION :: nat where "MAX_SELECTION = 4096"

definition canonical :: "float_text \<Rightarrow> dict \<Rightarrow> string" where
  "canonical fl d = dumps_ascii fl (JObj d)"

definition positive :: "json \<Rightarrow> int res" where
  "positive v =
    (case v of
       JInt i \<Rightarrow> bind (require (0 < i) ''run identity is not a positive integer'') (\<lambda>_. Inr i)
     | _ \<Rightarrow> Inl (ContractError ''run identity is not a positive integer''))"

type_synonym environment = "string \<Rightarrow> string option"

text \<open>The executor and the run that the dispatch binds; \<open>bound_fields\<close> is its JSON form.\<close>

record execution_bound =
  bound_sha :: string
  bound_run :: int

definition bound_fields :: "execution_bound \<Rightarrow> dict" where
  "bound_fields b =
    [(''repository'', JStr NEW_REPOSITORY), (''repository_id'', JInt REPOSITORY_ID),
     (''executor_sha'', JStr (bound_sha b)), (''run_id'', JInt (bound_run b)), (''run_attempt'', JInt 1)]"

definition workflow_ref :: string where
  "workflow_ref = NEW_REPOSITORY @ ''/'' @ RECOVERY_WORKFLOW @ ''@'' @ PROTECTED_REF"

definition context_environment :: "environment \<Rightarrow> execution_bound res" where
  "context_environment env =
    bind (require (env ''GITHUB_API_URL'' = Some ''https://api.github.com'') ''foreign API'') (\<lambda>_.
    bind (require (env ''GITHUB_REPOSITORY'' = Some NEW_REPOSITORY) ''foreign repository'') (\<lambda>_.
    bind (require (env ''GITHUB_REPOSITORY_ID'' = Some (show_int REPOSITORY_ID)) ''foreign repository object'') (\<lambda>_.
    bind (require (env ''GITHUB_EVENT_NAME'' = Some ''workflow_dispatch'') ''recovery needs a dispatch'') (\<lambda>_.
    bind (require (env ''GITHUB_REF'' = Some PROTECTED_REF) ''recovery needs protected main'') (\<lambda>_.
    bind (require (env ''GITHUB_RUN_ATTEMPT'' = Some ''1'') ''recovery reruns refuse; use a fresh no-input dispatch'') (\<lambda>_.
    bind (require (env ''GITHUB_WORKFLOW_REF'' = Some workflow_ref) ''foreign recovery workflow'') (\<lambda>_.
    bind (require_sha (opt_str (env ''GITHUB_SHA'')) ''executor SHA'') (\<lambda>sha.
    bind (require (env ''GITHUB_WORKFLOW_SHA'' = Some sha) ''executor and workflow SHA differ'') (\<lambda>_.
    let run = (case env ''GITHUB_RUN_ID'' of None \<Rightarrow> [] | Some r \<Rightarrow> r)
    in bind (require (positive_num run) ''foreign run ID'') (\<lambda>_.
       Inr \<lparr>bound_sha = sha, bound_run = int (read_nat run)\<rparr>))))))))))"

definition get_or :: "json \<Rightarrow> dict \<Rightarrow> string \<Rightarrow> json" where
  "get_or missing d k = (if has_key d k then get d k else missing)"

definition own_repository :: "dict \<Rightarrow> string \<Rightarrow> bool \<Rightarrow> unit res" where
  "own_repository record message default_branch =
    bind (repository (get record ''full_name'') (get record ''id'')) (\<lambda>_.
    require (get record ''full_name'' = JStr NEW_REPOSITORY
      \<and> (default_branch \<longrightarrow> get record ''default_branch'' = JStr ''main'')) message)"

definition recovery_context :: "environment \<Rightarrow> json \<Rightarrow> execution_bound res" where
  "recovery_context env event =
    bind (context_environment env) (\<lambda>bound.
    case event of
      JObj e \<Rightarrow>
        (case get_or (JObj []) e ''repository'' of
           JObj record \<Rightarrow>
             bind (own_repository record ''event repository or default branch differs'' True) (\<lambda>_.
             bind (require (get e ''inputs'' = JNull \<or> get e ''inputs'' = JObj []) ''recovery accepts no inputs'') (\<lambda>_.
             Inr bound))
         | _ \<Rightarrow> Inl (ContractError ''event repository missing''))
    | _ \<Rightarrow> Inl AttributeError)"

section \<open>The frozen sources in the checkout\<close>

definition check_workflow :: "runner \<Rightarrow> string \<Rightarrow> string \<times> string \<Rightarrow> unit \<Rightarrow> unit res" where
  "check_workflow git sha entry u =
    (case entry of (path, digest) \<Rightarrow>
      bind (git_bytes git [''show'', sha @ '':'' @ path]) (\<lambda>content.
      require (sha256_hex content = digest) ''historical workflow differs from its closed inventory''))"

definition check_historical :: "runner \<Rightarrow> historical \<Rightarrow> unit \<Rightarrow> unit res" where
  "check_historical git frozen u =
    (let sha = hist_source frozen
     in bind (git_text git [''rev-list'', ''--parents'', ''-n'', ''1'', sha]) (\<lambda>parents.
        bind (require (words parents = [sha, hist_parent frozen]) ''historical edge is not the exact single-parent source'') (\<lambda>_.
        bind (git_text git [''rev-parse'', sha @ ''^{tree}'']) (\<lambda>tree.
        bind (require (tree = hist_tree frozen) ''historical tree differs'') (\<lambda>_.
        bind (validate_transition git (hist_parent frozen) sha) (\<lambda>fragment.
        bind (require (fragment_path fragment = hist_path frozen \<and> fragment_sha256 fragment = hist_sha256 frozen)
                ''historical fragment differs'') (\<lambda>_.
        for_each (check_workflow git sha) HISTORICAL_WORKFLOWS ())))))))"

definition prove_trees :: "runner \<Rightarrow> execution_bound \<Rightarrow> unit res" where
  "prove_trees git bound =
    bind (git_text git [''rev-parse'', ''HEAD'']) (\<lambda>head.
    bind (require (head = bound_sha bound) ''checkout differs from executor'') (\<lambda>_.
    bind (require (bound_sha bound \<notin> set (TERMINAL_V3_SOURCE # map hist_source HISTORICAL_RELEASES))
            ''historical source cannot execute recovery'') (\<lambda>_.
    bind (is_ancestor git (hist_source (last HISTORICAL_RELEASES)) (bound_sha bound)) (\<lambda>descends.
    bind (require descends ''executor does not descend from the frozen backlog'') (\<lambda>_.
    bind (git_text git [''rev-parse'', TERMINAL_V3_SOURCE @ ''^{tree}'']) (\<lambda>tree.
    bind (require (tree = TERMINAL_TREE) ''terminal tree differs'') (\<lambda>_.
    for_each (check_historical git) HISTORICAL_RELEASES ())))))))"

section \<open>Runs of the executor\<close>

definition exact_run :: "float_text \<Rightarrow> network \<Rightarrow> json \<Rightarrow> json \<Rightarrow> (client, dict) io" where
  "exact_run fl net run_id attempt =
    io_bind (lift (positive run_id)) (\<lambda>i.
    io_bind (lift (positive attempt)) (\<lambda>a.
    io_bind (api_get fl net (''/actions/runs/'' @ show_int i @ ''/attempts/'' @ show_int a)) (\<lambda>v.
    lift (
      bind (require (json_eq (get v ''id'') (JInt i) \<and> json_eq (get v ''run_attempt'') (JInt a)) ''run attempt substitution'') (\<lambda>_.
      bind (for_each (\<lambda>field u.
              case get_or (JObj []) v field of
                JObj record \<Rightarrow> own_repository record ''run repository name differs'' False
              | _ \<Rightarrow> Inl (ContractError ''run repository absent'')) [''repository'', ''head_repository''] ()) (\<lambda>_.
      Inr v))))))"

text \<open>\<open>len(v)\<close> and \<open>v[0]\<close>.\<close>

fun length_of :: "json \<Rightarrow> nat res" where
  "length_of (JArr xs) = Inr (length xs)"
| "length_of (JObj d) = Inr (length d)"
| "length_of (JStr s) = Inr (length (filter (\<lambda>c. \<not> byte_in 128 191 c) s))"
| "length_of _ = Inl TypeError"

fun first_of :: "json \<Rightarrow> json res" where
  "first_of (JArr (x # xs)) = Inr x"
| "first_of (JArr []) = Inl IndexError"
| "first_of (JObj d) = Inl KeyError"
| "first_of (JStr s) = Inr (JStr s)"
| "first_of _ = Inl TypeError"

definition run_tuple :: "float_text \<Rightarrow> network \<Rightarrow> string \<Rightarrow> string \<Rightarrow> (client, int \<times> int) io" where
  "run_tuple fl net source workflow =
    io_bind (api_get fl net (''/actions/workflows/'' @ workflow @ ''/runs?branch=main&event=push&head_sha='' @ source
      @ ''&per_page=100'')) (\<lambda>v.
    lift (
      bind (require (keys_are v [''total_count'', ''workflow_runs''] \<and> get v ''total_count'' = JInt 1)
        ''executor needs exactly one complete main workflow listing'') (\<lambda>_.
      bind (length_of (get v ''workflow_runs'')) (\<lambda>n.
      bind (require (n = 1) ''executor needs exactly one complete main workflow listing'') (\<lambda>_.
      bind (first_of (get v ''workflow_runs'')) (\<lambda>run.
      bind (bind (method_get run ''id'') positive) (\<lambda>i.
      bind (bind (method_get run ''run_attempt'') positive) (\<lambda>a. Inr (i, a)))))))))"

text \<open>\<open>record.get(key, {}).get(field)\<close>.\<close>

definition nested :: "dict \<Rightarrow> string \<Rightarrow> string \<Rightarrow> json res" where
  "nested record key field = method_get (get_or (JObj []) record key) field"

definition prove_ci :: "float_text \<Rightarrow> network \<Rightarrow> string \<Rightarrow> string \<Rightarrow> int \<times> int \<Rightarrow> int \<times> int \<Rightarrow> (client, unit) io" where
  "prove_ci fl net source tree main_run codeql =
    io_bind (exact_run fl net (JInt (fst main_run)) (JInt (snd main_run))) (\<lambda>main_record.
    io_bind (lift (
      bind (item main_record ''repository'') (\<lambda>repo.
      bind (plan_workflow_run [(''repository'', repo), (''workflow_run'', JObj main_record)] NEW_REPOSITORY) (\<lambda>planned.
      bind (require (planned = source) ''main run source differs'') (\<lambda>_.
      bind (nested main_record ''head_commit'' ''id'') (\<lambda>commit.
      bind (require (commit = JStr source) ''main run tree differs'') (\<lambda>_.
      bind (nested main_record ''head_commit'' ''tree_id'') (\<lambda>tree_id.
      require (tree_id = JStr tree) ''main run tree differs'')))))))) (\<lambda>_.
    io_bind (exact_run fl net (JInt (fst codeql)) (JInt (snd codeql))) (\<lambda>codeql_record.
    let codeql_runs = [(''total_count'', JInt 1), (''workflow_runs'', JArr [JObj codeql_record])]
    in io_bind (lift (
         bind (classify_codeql_run codeql_runs source) (\<lambda>found.
         require (found = Some codeql) ''CodeQL is not the exact successful attempt''))) (\<lambda>_.
       io_bind (api_get fl net (''/actions/runs/'' @ show_int (fst main_run) @ ''/attempts/'' @ show_int (snd main_run)
         @ ''/jobs?per_page=100'')) (\<lambda>main_jobs.
       io_bind (api_get fl net (''/actions/runs/'' @ show_int (fst codeql) @ ''/attempts/'' @ show_int (snd codeql)
         @ ''/jobs?per_page=100'')) (\<lambda>codeql_jobs.
       lift (
         bind (build_main_ci_jobs_receipt main_jobs codeql_runs codeql_jobs NEW_REPOSITORY
                 (show_int (fst main_run)) (show_int (snd main_run)) source) (\<lambda>_. Inr ()))))))))"

definition prove_context :: "float_text \<Rightarrow> runner \<Rightarrow> network \<Rightarrow> execution_bound \<Rightarrow> (client, unit) io" where
  "prove_context fl git net bound =
    io_bind (lift (prove_trees git bound)) (\<lambda>_.
    io_bind (api_get fl net []) (\<lambda>record.
    io_bind (lift (own_repository record ''current repository identity or default branch differs'' True)) (\<lambda>_.
    io_bind (api_get fl net ''/git/ref/heads/main'') (\<lambda>ref.
    io_bind (lift (
      bind (require (get ref ''ref'' = JStr PROTECTED_REF) ''executor is no longer current protected main'') (\<lambda>_.
      bind (nested ref ''object'' ''type'') (\<lambda>kind.
      bind (require (kind = JStr ''commit'') ''executor is no longer current protected main'') (\<lambda>_.
      bind (nested ref ''object'' ''sha'') (\<lambda>sha.
      require (sha = JStr (bound_sha bound)) ''executor is no longer current protected main''))))))  (\<lambda>_.
    io_bind (exact_run fl net (JInt (bound_run bound)) (JInt 1)) (\<lambda>run.
    lift (
      bind (require
        (get run ''event'' = JStr ''workflow_dispatch'' \<and> get run ''head_branch'' = JStr ''main''
          \<and> get run ''head_sha'' = JStr (bound_sha bound) \<and> get run ''path'' = JStr RECOVERY_WORKFLOW
          \<and> get run ''status'' = JStr ''in_progress'' \<and> get run ''conclusion'' = JNull)
        ''current recovery execution record differs'') (\<lambda>_.
      bind (nested run ''head_commit'' ''id'') (\<lambda>commit.
      bind (require (commit = JStr (bound_sha bound)) ''current recovery execution tree differs'') (\<lambda>_.
      bind (nested run ''head_commit'' ''tree_id'') (\<lambda>tree_id.
      bind (git_text git [''rev-parse'', ''HEAD^{tree}'']) (\<lambda>tree.
      require (tree_id = JStr tree) ''current recovery execution tree differs''))))))))))))"

end
