(* ===== verification/RecoverySelection.thy ===== *)
theory RecoverySelection
  imports Recovery
begin

text \<open>
  scripts/ci/platform_release_recovery.py: the proof that a release is complete, the
  selection of the first source without one, the recheck of a selection, and the
  command line.
\<close>

section \<open>One release\<close>

text \<open>
  \<open>cosign verify-blob\<close> is a parameter: given the contents of the two files, a
  program that answers an argument list.
\<close>

type_synonym cosign = "string \<Rightarrow> string \<Rightarrow> runner"

definition workflow_arguments :: "json \<Rightarrow> epoch_identity \<Rightarrow> string list res" where
  "workflow_arguments v selected =
    (if id_version selected = 4
     then (case v of
             JObj d \<Rightarrow>
               bind (validate_identity d) (\<lambda>_.
               bind (item d ''execution'') (\<lambda>execution.
               bind (subscript execution ''source_sha'') (\<lambda>sha.
               case (sha, id_publisher_event selected) of
                 (JStr s, Some event) \<Rightarrow>
                   Inr [''--certificate-github-workflow-sha'', s, ''--certificate-github-workflow-trigger'', event]
               | _ \<Rightarrow> Inl TypeError)))
           | _ \<Rightarrow> Inl TypeError)
     else Inr [])"

definition verify_signature :: "float_text \<Rightarrow> cosign \<Rightarrow> string \<Rightarrow> string \<Rightarrow> string \<Rightarrow> unit res" where
  "verify_signature fl cosign document bundle tag =
    bind (identity (JStr tag)) (\<lambda>selected.
    bind (loads_bytes fl document) (\<lambda>v.
    bind (workflow_arguments v selected) (\<lambda>args.
    bind (run_bytes (cosign document bundle)
            ([''verify-blob'', ''--timeout'', ''30s'', ''--bundle'', ''bundle.json'', ''--certificate-identity'',
              id_subject selected, ''--certificate-oidc-issuer'', SELECTOR_CERTIFICATE_ISSUER]
             @ args @ [''identity.json''])) (\<lambda>(rc, out).
    raise_if (rc \<noteq> 0) SubprocessError (Inr ())))))"

definition prove_tag :: "float_text \<Rightarrow> runner \<Rightarrow> network \<Rightarrow> string \<Rightarrow> string \<Rightarrow> dict option \<Rightarrow> (client, string) io" where
  "prove_tag fl git net tag source ref =
    (case ref of
       None \<Rightarrow> lift (Inl (ContractError ''owner-prepared annotated tag missing; recovery remains held''))
     | Some r \<Rightarrow>
         io_bind (lift (bind (nested r ''object'' ''sha'') (\<lambda>sha. require_sha sha ''tag object''))) (\<lambda>object_sha.
         io_bind (api_get fl net (''/git/tags/'' @ object_sha)) (\<lambda>annotated.
         lift (
           bind (git_text git [''show'', ''-s'', ''--format=%cI'', source]) (\<lambda>date.
           bind (validate_tag_record r annotated
                   \<lparr>te_tag = tag, te_source_sha = source, te_message = ''Platform release '' @ tag @ '' from '' @ source,
                    te_tagger_name = RELEASE_TAGGER_NAME, te_tagger_email = RELEASE_TAGGER_EMAIL,
                    te_tagger_date = date\<rparr>) (\<lambda>_.
           bind (git_text git [''rev-parse'', ''refs/tags/'' @ tag]) (\<lambda>fetched.
           bind (require (fetched = object_sha) ''fetched and API tag objects differ'') (\<lambda>_.
           Inr object_sha))))))))"

definition named :: "json \<Rightarrow> json" where
  "named asset = (case asset of JObj d \<Rightarrow> get_or (JStr []) d ''name'' | _ \<Rightarrow> JNull)"

definition identity_assets :: "dict \<Rightarrow> epoch_identity \<Rightarrow> dict list res" where
  "identity_assets release selected =
    (case get_or (JArr []) release ''assets'' of
       JArr assets \<Rightarrow>
         bind (require (length assets = 2) ''partial or foreign release remains held'') (\<lambda>_.
         bind (require (list_all is_obj assets) ''foreign identity asset names remain held'') (\<lambda>_.
         raise_if (\<not> list_all (hashable \<circ> named) assets) TypeError (
         bind (require (named ` set assets = {JStr (id_asset selected), JStr (id_bundle selected)})
                 ''foreign identity asset names remain held'') (\<lambda>_.
         Inr (map (\<lambda>asset. case asset of JObj d \<Rightarrow> d | _ \<Rightarrow> []) assets)))))
     | _ \<Rightarrow> Inl (ContractError ''partial or foreign release remains held''))"

definition size_within :: "json \<Rightarrow> nat \<Rightarrow> bool" where
  "size_within v limit = (case v of JInt i \<Rightarrow> 0 < i \<and> i \<le> int limit | _ \<Rightarrow> False)"

definition download_asset :: "network \<Rightarrow> epoch_identity \<Rightarrow> dict \<Rightarrow> (client, json \<times> string) io" where
  "download_asset net selected asset =
    io_bind (lift (positive (get asset ''id''))) (\<lambda>asset_id.
    io_bind (lift (item asset ''name'')) (\<lambda>name.
    let limit = (if name = JStr (id_asset selected) then MAX_RELEASE_IDENTITY_BYTES else MAX_RELEASE_IDENTITY_BUNDLE_BYTES)
    in io_bind (lift (require (size_within (get asset ''size'') limit) ''identity asset size exceeds budget'')) (\<lambda>_.
       io_bind (api_read net (''/releases/assets/'' @ show_int asset_id) limit True) (\<lambda>(status, data).
       lift (bind (require (status = 200) ''identity asset download failed'') (\<lambda>_. Inr (name, data)))))))"

definition payload_of :: "(json \<times> string) list \<Rightarrow> string \<Rightarrow> string res" where
  "payload_of raw name = (case map_of (rev raw) (JStr name) of Some data \<Rightarrow> Inr data | None \<Rightarrow> Inl KeyError)"

definition signed_run :: "json \<Rightarrow> string \<Rightarrow> (json \<times> json) res" where
  "signed_run v key =
    bind (subscript v key) (\<lambda>run.
    bind (subscript run ''run_id'') (\<lambda>i.
    bind (subscript run ''run_attempt'') (\<lambda>a. Inr (i, a))))"

definition terminal_checkpoint :: "string \<Rightarrow> dict \<Rightarrow> json \<Rightarrow> unit res" where
  "terminal_checkpoint object_sha release v =
    bind (item release ''id'') (\<lambda>release_id.
    bind (signed_run v ''main_ci'') (\<lambda>(main_run, main_attempt).
    bind (signed_run v ''platform_release'') (\<lambda>(platform_run, platform_attempt).
    require (object_sha = TERMINAL_TAG_OBJECT \<and> json_eq release_id (JInt TERMINAL_RELEASE_ID)
      \<and> json_eq main_run (JInt TERMINAL_MAIN_RUN) \<and> json_eq main_attempt (JInt 1)
      \<and> json_eq platform_run (JInt TERMINAL_PUBLISHER_RUN) \<and> json_eq platform_attempt (JInt 1))
      ''terminal v3 identity differs from the frozen checkpoint'')))"

definition signed_attempt :: "float_text \<Rightarrow> network \<Rightarrow> json \<Rightarrow> string \<Rightarrow> (client, dict) io" where
  "signed_attempt fl net v key =
    io_bind (lift (signed_run v key)) (\<lambda>(run, attempt). exact_run fl net run attempt)"

definition executor_attempt :: "float_text \<Rightarrow> network \<Rightarrow> epoch_identity \<Rightarrow> json \<Rightarrow> (client, dict option) io" where
  "executor_attempt fl net selected v =
    (if id_version selected = 4
     then io_bind (lift (subscript v ''execution'')) (\<lambda>execution.
          io_bind (signed_attempt fl net execution ''main_ci'') (\<lambda>run. lift (Inr (Some run))))
     else lift (Inr None))"

definition settle_runs ::
  "float_text \<Rightarrow> string \<Rightarrow> epoch_identity \<Rightarrow> dict \<Rightarrow> dict \<Rightarrow> dict option \<Rightarrow> bool res" where
  "settle_runs fl document selected main_run platform_run executor =
    bind (if id_version selected = 4 then in_str_set (get platform_run ''status'') pending_statuses else Inr False)
      (\<lambda>pending.
    if pending
    then bind (validate_identity_run_records fl document main_run platform_run ''success'' executor True) (\<lambda>_.
         Inl (PendingRelease ''original publisher attempt is still pending; do not advance''))
    else bind (validate_identity_run_records fl document main_run platform_run ''success'' executor False) (\<lambda>_. Inr True))"

text \<open>What follows once the tag and the two assets are in hand.\<close>

definition prove_payload ::
  "float_text \<Rightarrow> runner \<Rightarrow> network \<Rightarrow> cosign \<Rightarrow> string \<Rightarrow> string \<Rightarrow> string \<Rightarrow> dict \<Rightarrow> epoch_identity \<Rightarrow>
   (json \<times> string) list \<Rightarrow> (client, bool) io" where
  "prove_payload fl git net cosign tag source object_sha release selected raw =
    io_bind (lift (payload_of raw (id_asset selected))) (\<lambda>document.
    io_bind (lift (payload_of raw (id_bundle selected))) (\<lambda>bundle.
    io_bind (lift (
      bind (git_text git [''rev-parse'', source @ ''^{tree}'']) (\<lambda>tree.
      validate_identity_release_record fl release document bundle
        \<lparr>expected_tag = tag, expected_sha = source, expected_build_sha = None, expected_tag_object_sha = Some object_sha,
         expected_tree_sha = Some tree, expected_staged = False, expected_api_repository = Some NEW_REPOSITORY,
         expected_api_repository_id = Some REPOSITORY_ID\<rparr>))) (\<lambda>_.
    io_bind (lift (verify_signature fl cosign document bundle tag)) (\<lambda>_.
    io_bind (lift (loads_bytes fl document)) (\<lambda>v.
    io_bind (lift (if tag = TERMINAL_V3_TAG then terminal_checkpoint object_sha release v else Inr ())) (\<lambda>_.
    io_bind (signed_attempt fl net v ''main_ci'') (\<lambda>main_run.
    io_bind (signed_attempt fl net v ''platform_release'') (\<lambda>platform_run.
    io_bind (executor_attempt fl net selected v) (\<lambda>executor.
    lift (settle_runs fl document selected main_run platform_run executor))))))))))"

definition prove_release ::
  "float_text \<Rightarrow> runner \<Rightarrow> network \<Rightarrow> cosign \<Rightarrow> string \<Rightarrow> string \<Rightarrow> (client, bool) io" where
  "prove_release fl git net cosign tag source =
    io_bind (api_find fl net (''/git/ref/tags/'' @ tag) True) (\<lambda>ref.
    io_bind (api_find fl net (''/releases/tags/'' @ tag) True) (\<lambda>release.
    if ref = None
    then lift (bind (require (release = None) ''Release without its exact annotated tag'') (\<lambda>_. Inr False))
    else
      io_bind (prove_tag fl git net tag source ref) (\<lambda>object_sha.
      case release of
        None \<Rightarrow> lift (Inr False)
      | Some r \<Rightarrow>
          io_bind (lift (identity (JStr tag))) (\<lambda>selected.
          io_bind (lift (identity_assets r selected)) (\<lambda>assets.
          io_bind (io_map (download_asset net selected) assets) (\<lambda>raw.
          prove_payload fl git net cosign tag source object_sha r selected raw))))))"

section \<open>The selection and its recheck\<close>

definition executor_keys :: "string list" where
  "executor_keys =
    [''executor_main_run_id'', ''executor_main_run_attempt'', ''executor_codeql_run_id'', ''executor_codeql_run_attempt'']"

definition selection_fields :: "execution_bound \<Rightarrow> string list" where
  "selection_fields bound =
    [''schema''] @ map fst (bound_fields bound) @ [''source_sha'', ''tag'', ''base_sha'', ''base_tag''] @ executor_keys"

definition binding :: "float_text \<Rightarrow> runner \<Rightarrow> execution_bound \<Rightarrow> string \<Rightarrow> dict res" where
  "binding fl git bound supplied =
    bind (encode_utf8 supplied) (\<lambda>bytes.
    bind (require (length bytes \<le> MAX_SELECTION) ''selection exceeds its byte budget'') (\<lambda>_.
    bind (loads fl dict_hook supplied) (\<lambda>parsed.
    case parsed of
      JObj v \<Rightarrow>
        bind (require (canonical fl v = supplied) ''selection must be canonical JSON'') (\<lambda>_.
        bind (require (keys_are v (selection_fields bound) \<and> get v ''schema'' = JStr SELECTION_SCHEMA)
                ''foreign selection fields'') (\<lambda>_.
        bind (require (list_all (\<lambda>(k, expected). get v k = expected) (bound_fields bound))
                ''selection belongs to another executor, run or attempt'') (\<lambda>_.
        bind (historical_release (get v ''tag'')) (\<lambda>chosen.
        case chosen of
          None \<Rightarrow> Inl (ContractError ''selection is outside the finite window'')
        | Some h \<Rightarrow>
            bind (require (get v ''source_sha'' = JStr (hist_source h)) ''selection is outside the finite window'') (\<lambda>_.
            bind (publication (JStr NEW_REPOSITORY) (JInt REPOSITORY_ID) (get v ''tag'') (get v ''base_tag'')
                    (get v ''base_sha'') (get v ''source_sha'')) (\<lambda>_.
            bind (discover_transition_window git (hist_source h)) (\<lambda>window.
            bind (require
                    (get v ''base_tag'' = JStr (base_tag window) \<and> get v ''base_sha'' = JStr (base_sha window)
                      \<and> get v ''tag'' = JStr (intent_tag (window_intent window)))
                    ''selected edge no longer matches the ledger'') (\<lambda>_.
            bind (for_each (\<lambda>key u. bind (positive (get v key)) (\<lambda>_. Inr ())) executor_keys ()) (\<lambda>_.
            Inr v)))))))))
    | _ \<Rightarrow> Inl (ContractError ''selection must be canonical JSON''))))"

text \<open>The loop over the frozen sources: the first one without a complete release, and its tag.\<close>

fun first_incomplete ::
  "float_text \<Rightarrow> runner \<Rightarrow> network \<Rightarrow> cosign \<Rightarrow> string \<Rightarrow> historical list \<Rightarrow> (client, (string \<times> historical) option) io"
  where
  "first_incomplete fl git net cosign tag [] = lift (Inr None)"
| "first_incomplete fl git net cosign tag (frozen # rest) =
    io_bind (prove_release fl git net cosign tag (hist_source frozen)) (\<lambda>complete.
    if \<not> complete then lift (Inr (Some (tag, frozen)))
    else io_bind (lift (next_tag (JStr tag))) (\<lambda>next. first_incomplete fl git net cosign next rest))"

definition selection_value ::
  "execution_bound \<Rightarrow> historical \<Rightarrow> string \<Rightarrow> transition_window \<Rightarrow> int \<times> int \<Rightarrow> int \<times> int \<Rightarrow> dict" where
  "selection_value bound chosen tag window main_run codeql =
    [(''schema'', JStr SELECTION_SCHEMA)] @ bound_fields bound @
    [(''source_sha'', JStr (hist_source chosen)), (''tag'', JStr tag), (''base_sha'', JStr (base_sha window)),
     (''base_tag'', JStr (base_tag window)), (''executor_main_run_id'', JInt (fst main_run)),
     (''executor_main_run_attempt'', JInt (snd main_run)), (''executor_codeql_run_id'', JInt (fst codeql)),
     (''executor_codeql_run_attempt'', JInt (snd codeql))]"

type_synonym selected_edge = "dict \<times> historical \<times> (int \<times> int) \<times> (int \<times> int)"

definition select_first ::
  "float_text \<Rightarrow> runner \<Rightarrow> network \<Rightarrow> cosign \<Rightarrow> execution_bound \<Rightarrow> (client, selected_edge) io" where
  "select_first fl git net cosign bound =
    io_bind (run_tuple fl net (bound_sha bound) ''pull-request.yml'') (\<lambda>main_run.
    io_bind (run_tuple fl net (bound_sha bound) ''codeql.yml'') (\<lambda>codeql.
    io_bind (prove_release fl git net cosign TERMINAL_V3_TAG TERMINAL_V3_SOURCE) (\<lambda>terminal.
    io_bind (lift (require terminal ''terminal v3 Release missing'')) (\<lambda>_.
    io_bind (first_incomplete fl git net cosign FIRST_V4_TAG HISTORICAL_RELEASES) (\<lambda>found.
    lift (case found of
        None \<Rightarrow> Inl (ContractError ''finite recovery backlog is complete; use the ordinary publisher'')
      | Some (tag, chosen) \<Rightarrow>
          bind (discover_transition_window git (hist_source chosen)) (\<lambda>window.
          bind (require (intent_tag (window_intent window) = tag \<and> base_sha window = hist_parent chosen)
                  ''derived ledger edge differs'') (\<lambda>_.
          Inr (selection_value bound chosen tag window main_run codeql, chosen, main_run, codeql)))))))))"

text \<open>The supplied selection: its predecessor must be complete.\<close>

definition recheck ::
  "float_text \<Rightarrow> runner \<Rightarrow> network \<Rightarrow> cosign \<Rightarrow> execution_bound \<Rightarrow> string \<Rightarrow> (client, selected_edge) io" where
  "recheck fl git net cosign bound supplied =
    io_bind (lift (binding fl git bound supplied)) (\<lambda>v.
    io_bind (lift (historical_release (get v ''tag''))) (\<lambda>chosen.
    io_bind (prove_release fl git net cosign (the_str (get v ''base_tag'')) (the_str (get v ''base_sha''))) (\<lambda>complete.
    io_bind (lift (require complete ''selected predecessor remains incomplete'')) (\<lambda>_.
    io_bind (lift (map_res (\<lambda>key. positive (get v key)) executor_keys)) (\<lambda>runs.
    lift (case (chosen, runs) of
        (Some h, [main_run, main_attempt, codeql, codeql_attempt]) \<Rightarrow>
          Inr (v, h, (main_run, main_attempt), (codeql, codeql_attempt))
      | _ \<Rightarrow> Inl TypeError))))))"

definition selection ::
  "float_text \<Rightarrow> runner \<Rightarrow> network \<Rightarrow> cosign \<Rightarrow> execution_bound \<Rightarrow> string option \<Rightarrow> (client, dict) io" where
  "selection fl git net cosign bound supplied =
    io_bind (prove_context fl git net bound) (\<lambda>_.
    io_bind (case supplied of
               None \<Rightarrow> select_first fl git net cosign bound
             | Some s \<Rightarrow> recheck fl git net cosign bound s) (\<lambda>(v, chosen, main_run, codeql).
    io_bind (lift (git_text git [''rev-parse'', bound_sha bound @ ''^{tree}''])) (\<lambda>tree.
    io_bind (prove_ci fl net (bound_sha bound) tree main_run codeql) (\<lambda>_.
    io_bind (prove_ci fl net (hist_source chosen) (hist_tree chosen) (hist_main_run chosen, 1) (hist_codeql_run chosen, 1)) (\<lambda>_.
    io_bind (api_find fl net (''/git/ref/tags/'' @ the_str (get v ''tag'')) True) (\<lambda>ref.
    io_bind (prove_tag fl git net (the_str (get v ''tag'')) (hist_source chosen) ref) (\<lambda>_.
    lift (Inr v))))))))"

text \<open>
  scripts/ci/platform_release_recovery.py: the command line.  The process environment
  and the files are parameters; the answer is the text printed, the text appended
  to the job's output file, and the exit code.
\<close>

datatype recovery_command = Prepare | Verify | Bind | PredecessorOf

record process =
  proc_env :: environment
  proc_read :: "string \<Rightarrow> string res"   \<comment> \<open>the bytes of a file\<close>
  proc_append :: "string \<Rightarrow> unit res"   \<comment> \<open>opening the output file\<close>

text \<open>What a command prints on standard output and appends to the job's output.\<close>

record printed_lines =
  stdout_line :: string
  job_output :: string

definition environ :: "environment \<Rightarrow> string \<Rightarrow> string res" where
  "environ env name = (case env name of None \<Rightarrow> Inl KeyError | Some s \<Rightarrow> Inr s)"

definition foreign_credentials :: "string list" where
  "foreign_credentials =
    [''GH_TOKEN'', ''GITHUB_TOKEN'', ''IMMUTABLE_SETTINGS_TOKEN'', ''ACTIONS_READ_TOKEN'', ''CONTENTS_READ_TOKEN'',
     ''GH_ENTERPRISE_TOKEN'', ''GITHUB_ENTERPRISE_TOKEN'']"

definition nonempty_env :: "environment \<Rightarrow> string \<Rightarrow> bool" where
  "nonempty_env env name = (env name \<noteq> None \<and> env name \<noteq> Some [])"

text \<open>\<open>int(text)\<close>: surrounding space, a sign, digits with single underscores between them.\<close>

definition digit_groups :: "string \<Rightarrow> bool" where
  "digit_groups s = list_all (\<lambda>g. g \<noteq> [] \<and> list_all is_digit g) (split_on (CHR ''_'') s)"

definition int_of_text :: "string \<Rightarrow> int res" where
  "int_of_text s =
    (let t = strip s;
         body = (if t \<noteq> [] \<and> hd t \<in> set ''+-'' then tl t else t);
         value = int (read_nat (filter (\<lambda>c. c \<noteq> CHR ''_'') body))
     in raise_if (\<not> digit_groups body) (ValueError ''invalid literal for int() with base 10'')
          (Inr (if startswith t ''-'' then - value else value)))"

definition run_predecessor ::
  "float_text \<Rightarrow> runner \<Rightarrow> network \<Rightarrow> cosign \<Rightarrow> environment \<Rightarrow> string option \<Rightarrow> printed_lines res" where
  "run_predecessor fl git net cosign env token =
    bind (require (env ''GITHUB_API_URL'' = Some ''https://api.github.com'') ''foreign API'') (\<lambda>_.
    bind (environ env ''GITHUB_REPOSITORY'') (\<lambda>name.
    bind (bind (environ env ''GITHUB_REPOSITORY_ID'') int_of_text) (\<lambda>repository_id.
    bind (repository (JStr name) (JInt repository_id)) (\<lambda>_.
    bind (require (name = NEW_REPOSITORY) ''foreign repository'') (\<lambda>_.
    bind (environ env ''SOURCE_SHA'') (\<lambda>source.
    bind (discover_transition_window git source) (\<lambda>window.
    bind (fst (prove_release fl git net cosign (base_tag window) (base_sha window) (public_api net token))) (\<lambda>complete.
    bind (require complete ''predecessor Release absent'') (\<lambda>_.
    Inr \<lparr>stdout_line = ''PREDECESSOR=PASS'', job_output = []\<rparr>)))))))))"

definition edge_variables :: "(string \<times> string) list" where
  "edge_variables =
    [(''source_sha'', ''SOURCE_SHA''), (''tag'', ''TAG''), (''base_sha'', ''BASE_SHA''), (''base_tag'', ''BASE_TAG'')]"

definition run_bind :: "float_text \<Rightarrow> runner \<Rightarrow> environment \<Rightarrow> execution_bound \<Rightarrow> string \<Rightarrow> printed_lines res" where
  "run_bind fl git env bound supplied =
    bind (prove_trees git bound) (\<lambda>_.
    bind (binding fl git bound supplied) (\<lambda>v.
    bind (for_each (\<lambda>(field, variable) u.
            require (opt_str (env variable) = get v field) ''publisher differs from selected edge'') edge_variables ()) (\<lambda>_.
    bind (historical_release (get v ''tag'')) (\<lambda>chosen.
    case chosen of
      None \<Rightarrow> Inl TypeError
    | Some h \<Rightarrow>
        bind (require (env ''MAIN_RUN_ID'' = Some (show_int (hist_main_run h)) \<and> env ''MAIN_RUN_ATTEMPT'' = Some ''1'')
                ''publisher original CI differs'') (\<lambda>_.
        bind (require
                (env ''EXECUTION_MAIN_RUN_ID'' = Some (py_str fl (get v ''executor_main_run_id''))
                  \<and> env ''EXECUTION_MAIN_RUN_ATTEMPT'' = Some (py_str fl (get v ''executor_main_run_attempt'')))
                ''publisher executor CI differs'') (\<lambda>_.
        Inr \<lparr>stdout_line = ''RECOVERY_BINDING=PASS'', job_output = []\<rparr>))))))"

definition run_selection ::
  "float_text \<Rightarrow> runner \<Rightarrow> network \<Rightarrow> cosign \<Rightarrow> process \<Rightarrow> string option \<Rightarrow> recovery_command \<Rightarrow> execution_bound \<Rightarrow>
   string option \<Rightarrow> printed_lines res" where
  "run_selection fl git net cosign proc token cmd bound supplied =
    bind (fst (selection fl git net cosign bound supplied (public_api net token))) (\<lambda>v.
    bind (encode_utf8 (canonical fl v)) (\<lambda>encoded.
    bind (require (length encoded \<le> MAX_SELECTION) ''selection exceeds its byte budget'') (\<lambda>_.
    bind (if cmd = Prepare
          then bind (bind (environ (proc_env proc) ''GITHUB_OUTPUT'') (proc_append proc)) (\<lambda>_.
               Inr (''selection='' @ encoded @ newline @ ''source_sha='' @ the_str (get v ''source_sha'') @ newline))
          else Inr []) (\<lambda>appended.
    Inr \<lparr>stdout_line = ''RECOVERY_SELECTION=PASS source='' @ the_str (get v ''source_sha'') @ '' executor=''
           @ the_str (get v ''executor_sha'') @ '' run='' @ py_str fl (get v ''run_id'') @ '':1'',
         job_output = appended\<rparr>))))"

definition run_recovery ::
  "float_text \<Rightarrow> runner \<Rightarrow> network \<Rightarrow> cosign \<Rightarrow> process \<Rightarrow> recovery_command \<Rightarrow> printed_lines res" where
  "run_recovery fl git net cosign proc cmd =
    (let env = proc_env proc; token = env ''RECOVERY_READ_TOKEN''
     in bind (require (\<not> list_ex (nonempty_env env) foreign_credentials) ''ambient credential refused'') (\<lambda>_.
        if cmd = PredecessorOf then run_predecessor fl git net cosign env token
        else
          bind (bind (environ env ''GITHUB_EVENT_PATH'') (proc_read proc)) (\<lambda>content.
          let raw_event = take (MAX_JSON + 1) content
          in bind (require (length raw_event \<le> MAX_JSON) ''event exceeds its byte budget'') (\<lambda>_.
             bind (loads_bytes fl raw_event) (\<lambda>event.
             bind (recovery_context env event) (\<lambda>bound.
             let supplied = env ''RECOVERY_SELECTION''
             in bind (require ((cmd = Verify \<or> cmd = Bind) = (supplied \<noteq> None)) ''selection mode differs'') (\<lambda>_.
                case (cmd, supplied) of
                  (Bind, Some s) \<Rightarrow> run_bind fl git env bound s
                | _ \<Rightarrow> run_selection fl git net cosign proc token cmd bound supplied)))))))"

text \<open>The exit codes: 0, 3 for a pending publisher, 1 for the refusals that are caught.\<close>

datatype recovery_exit =
    Passed printed_lines
  | HeldPending string
  | Refused exc
  | Traceback exc

definition recovery_caught :: "exc \<Rightarrow> bool" where
  "recovery_caught e = (is_value_error e \<or> e \<in> {KeyError, TypeError, OSError, SubprocessError})"

definition recovery_main ::
  "float_text \<Rightarrow> runner \<Rightarrow> network \<Rightarrow> cosign \<Rightarrow> process \<Rightarrow> recovery_command \<Rightarrow> recovery_exit" where
  "recovery_main fl git net cosign proc cmd =
    (case run_recovery fl git net cosign proc cmd of
       Inr out \<Rightarrow> Passed out
     | Inl (PendingRelease m) \<Rightarrow> HeldPending m
     | Inl e \<Rightarrow> if recovery_caught e then Refused e else Traceback e)"

end
