(* ===== verification/RecoveryReads.thy ===== *)
theory RecoveryReads
  imports RecoverySelection
begin

text \<open>
  What the recovery client may do: the states that reads lead to, as an inductive
  relation, the invariant of its budget and its credential over that relation, and
  the rules that take the translated bodies apart.
\<close>

section \<open>Running computations\<close>

named_theorems io_simps "equations that read a successful run backwards"

lemma lift_run [io_simps]: "lift m s = (Inr x, t) \<longleftrightarrow> m = Inr x \<and> t = s"
  by (auto simp: lift_def)

lemma io_bind_run [io_simps]:
  "io_bind m f s = (Inr y, t) \<longleftrightarrow> (\<exists>x u. m s = (Inr x, u) \<and> f x u = (Inr y, t))"
  by (auto simp: io_bind_def split: prod.splits sum.splits)

lemma require_Inr [simp, io_simps]: "require c msg = Inr u \<longleftrightarrow> c"
  by (simp add: require_def)

lemma io_map_run: "io_map f xs s = (Inr ys, t) \<Longrightarrow> length ys = length xs \<and> (\<forall>y\<in>set ys. \<exists>x\<in>set xs. \<exists>u v. f x u = (Inr y, v))"
proof (induction xs arbitrary: s ys)
  case Nil
  then show ?case by (simp add: io_simps)
next
  case (Cons x xs)
  then obtain y u zs where "f x s = (Inr y, u)" "io_map f xs u = (Inr zs, t)" "ys = y # zs"
    by (auto simp: io_simps)
  with Cons.IH show ?case by fastforce
qed

section \<open>Reachable states of the client\<close>

inductive reads :: "network \<Rightarrow> client \<Rightarrow> client \<Rightarrow> bool" for net where
  here: "reads net s s"
| read: "reads net s t \<Longrightarrow> reads net s (snd (api_read net path limit asset t))"

lemma reads_trans: "reads net t u \<Longrightarrow> reads net s t \<Longrightarrow> reads net s u"
  by (induction rule: reads.induct) (auto intro: reads.intros)

text \<open>\<open>only_reads\<close>: a computation that changes the client by reads alone.\<close>

definition only_reads :: "network \<Rightarrow> (client, 'a) io \<Rightarrow> bool" where
  "only_reads net m = (\<forall>s. reads net s (snd (m s)))"

named_theorems only_reads "rules that take a computation apart into its reads"

lemma only_reads_lift [only_reads]: "only_reads net (lift m)"
  by (simp add: only_reads_def lift_def here)

lemma only_reads_read [only_reads]: "only_reads net (api_read net path limit asset)"
  unfolding only_reads_def by (blast intro: here read)

lemma only_reads_bind [only_reads]:
  assumes m: "only_reads net m" and f: "\<And>x. only_reads net (f x)"
  shows "only_reads net (io_bind m f)"
  unfolding only_reads_def
proof
  fix s
  obtain r u where mu: "m s = (r, u)" by (cases "m s")
  have u: "reads net s u" using m mu unfolding only_reads_def by (metis snd_conv)
  show "reads net s (snd (io_bind m f s))"
  proof (cases r)
    case (Inl e)
    then show ?thesis using u by (simp add: io_bind_def mu)
  next
    case (Inr x)
    have "reads net u (snd (f x u))" using f unfolding only_reads_def by blast
    then show ?thesis using reads_trans [OF _ u] by (simp add: io_bind_def mu Inr)
  qed
qed

lemma only_reads_if [only_reads]: "only_reads net a \<Longrightarrow> only_reads net b \<Longrightarrow> only_reads net (if c then a else b)"
  by simp

lemma only_reads_option [only_reads]:
  "only_reads net a \<Longrightarrow> (\<And>y. only_reads net (f y)) \<Longrightarrow> only_reads net (case x of None \<Rightarrow> a | Some y \<Rightarrow> f y)"
  by (cases x) auto

lemma only_reads_prod [only_reads]: "(\<And>x y. only_reads net (f x y)) \<Longrightarrow> only_reads net (case p of (x, y) \<Rightarrow> f x y)"
  by (cases p) auto

lemma only_reads_let [only_reads]: "only_reads net (f v) \<Longrightarrow> only_reads net (let x = v in f x)"
  by simp

lemma only_reads_map [only_reads]: "(\<And>x. only_reads net (f x)) \<Longrightarrow> only_reads net (io_map f xs)"
  by (induction xs) (auto intro!: only_reads)

lemma only_reads_records [only_reads]:
  "only_reads net (api_find fl net path absent)" "only_reads net (api_get fl net path)"
  unfolding api_get_def api_find_def by (intro only_reads)+

lemma only_reads_runs [only_reads]:
  "only_reads net (exact_run fl net i a)" "only_reads net (run_tuple fl net source workflow)"
  unfolding exact_run_def run_tuple_def by (intro only_reads)+

lemma only_reads_ci [only_reads]: "only_reads net (prove_ci fl net source tree main_run codeql)"
  unfolding prove_ci_def by (intro only_reads)

lemma only_reads_context [only_reads]: "only_reads net (prove_context fl git net bound)"
  unfolding prove_context_def by (intro only_reads)

lemma only_reads_tag [only_reads]: "only_reads net (prove_tag fl git net tag source ref)"
  unfolding prove_tag_def by (intro only_reads)

lemma only_reads_download [only_reads]: "only_reads net (download_asset net selected asset)"
  unfolding download_asset_def by (intro only_reads)

lemma only_reads_payload [only_reads]:
  "only_reads net (prove_payload fl git net cosign tag source object_sha release selected raw)"
  unfolding prove_payload_def signed_attempt_def executor_attempt_def by (intro only_reads)

lemma only_reads_release [only_reads]: "only_reads net (prove_release fl git net cosign tag source)"
  unfolding prove_release_def by (intro only_reads)

lemma only_reads_incomplete [only_reads]: "only_reads net (first_incomplete fl git net cosign tag hs)"
  by (induction hs arbitrary: tag) (auto intro!: only_reads)

lemma only_reads_selection: "only_reads net (selection fl git net cosign bound supplied)"
  unfolding selection_def select_first_def recheck_def by (intro only_reads)

section \<open>The budget and the credential\<close>

text \<open>
  A request that may leave: either one of the API, with its headers and its
  credential, or a redirected asset, with no header at all.
\<close>

definition api_address :: "string \<Rightarrow> bool" where
  "api_address url = (startswith url API \<and> api_path_ok (drop (length API) url))"

definition allowed_request :: "network \<Rightarrow> string option \<Rightarrow> http_request \<Rightarrow> bool" where
  "allowed_request net token r =
    (0 < req_timeout r \<and> req_timeout r \<le> seconds 20 \<and>
     (if req_headers r = [] then redirect_target net (req_url r) = Inr ()
      else api_address (req_url r) \<and> req_headers r \<in> {api_headers True token, api_headers False token}))"

definition within_budget :: "network \<Rightarrow> string option \<Rightarrow> client \<Rightarrow> bool" where
  "within_budget net token s =
    (api_token s = token \<and> length (api_sent s) \<le> 2 * min (api_requests s) 96
      \<and> list_all (allowed_request net token) (api_sent s))"

lemma fresh_budget: "within_budget net token (public_api net token)"
  by (simp add: within_budget_def public_api_def)

lemma api_headers_nonempty [simp]: "api_headers asset token \<noteq> []"
  by (simp add: api_headers_def)

lemma api_request_allowed:
  assumes "api_path_ok path" "0 < remaining"
  shows "allowed_request net token \<lparr>req_url = API @ path, req_headers = api_headers asset token,
    req_timeout = min (seconds 20) remaining\<rparr>"
  using assms by (cases asset) (auto simp: allowed_request_def api_address_def startswith_def seconds_def)

text \<open>One read keeps the invariant, whatever the network answers.\<close>

lemma follow_budget:
  assumes "api_token s = token" "length (api_sent s) < 2 * min (api_requests s) 96"
    "list_all (allowed_request net token) (api_sent s)" "0 < remaining"
  shows "within_budget net token (snd (follow_asset net limit location remaining s))"
  using assms unfolding follow_asset_def io_bind_def lift_def open_url_def within_budget_def
  by (auto split: sum.splits simp: allowed_request_def seconds_def)

lemma read_budget:
  assumes "within_budget net token s"
  shows "within_budget net token (snd (api_read net path limit asset s))"
proof -
  let ?s = "s\<lparr>api_requests := api_requests s + 1, api_readings := api_readings s + 1\<rparr>"
  let ?remaining = "api_deadline s - clock net (api_readings s)"
  let ?request = "\<lparr>req_url = API @ path, req_headers = api_headers asset (api_token s),
    req_timeout = min (seconds 20) ?remaining\<rparr>"
  let ?t = "?s\<lparr>api_sent := api_sent s @ [?request]\<rparr>"
  let ?go = "api_path_ok path \<and> api_requests s + 1 \<le> 96 \<and> 0 < ?remaining"
  have spent: "within_budget net token ?s" using assms by (auto simp: within_budget_def)
  show ?thesis
  proof (cases ?go)
    case False
    then have "snd (api_read net path limit asset s) \<in> {s, ?s}"
      by (auto simp: api_read_def io_bind_def lift_def require_def spend_def budget_left_def deny_if_def)
    with assms spent show ?thesis by auto
  next
    case True
    have sent: "api_token ?t = token" "length (api_sent ?t) < 2 * min (api_requests ?t) 96"
      "list_all (allowed_request net token) (api_sent ?t)"
      using assms True api_request_allowed [of path ?remaining net "api_token s" asset] by (auto simp: within_budget_def)
    have run: "snd (api_read net path limit asset s) =
      (case answer net (api_sent s) ?request of
        HttpError code location \<Rightarrow>
          if asset \<and> code = 302 then snd (follow_asset net limit (case location of None \<Rightarrow> [] | Some l \<Rightarrow> l) ?remaining ?t)
          else ?t
      | _ \<Rightarrow> ?t)"
      using True
      by (auto simp: api_read_def io_bind_def lift_def require_def spend_def budget_left_def deny_if_def api_request_def
          open_url_def split: http_reply.splits)
    have "within_budget net token ?t" using sent by (auto simp: within_budget_def)
    with follow_budget [OF sent] True show ?thesis
      unfolding run by (auto split: http_reply.splits)
  qed
qed

lemma reads_budget: "reads net s t \<Longrightarrow> within_budget net token s \<Longrightarrow> within_budget net token t"
  by (induction rule: reads.induct) (auto intro: read_budget)

lemma run_budget: "only_reads net m \<Longrightarrow> within_budget net token (snd (m (public_api net token)))"
  unfolding only_reads_def using reads_budget fresh_budget by blast

text \<open>
  C8: whatever the network answers, a selection sends at most 192 requests (96 reads,
  each with at most one redirect), each with a positive timeout of at most 20
  seconds; a request that carries headers, and so the credential, goes to the API of
  this repository, and every other goes to the asset host of GitHub with no header.
\<close>

theorem recovery_read_budget:
  "length (api_sent (snd (selection fl git net cosign bound supplied (public_api net token)))) \<le> 192 \<and>
   list_all (allowed_request net token) (api_sent (snd (selection fl git net cosign bound supplied (public_api net token))))"
  using run_budget [OF only_reads_selection, of net token fl git cosign bound supplied]
  by (auto simp: within_budget_def)

end
