(* ===== verification/RecoveryProps.thy ===== *)
theory RecoveryProps
  imports RecoveryReads PyJsonPrint PublisherProps KeyOrder
begin

text \<open>
  What recovery admits: a release counts as complete only with its verified payload
  and its original runs, a selection is the first source of the backlog without such
  a release, and the later jobs accept exactly that selection.
\<close>

section \<open>Answers of a computation\<close>

text \<open>\<open>returns P m\<close>: whenever the computation returns, from any state, its answer is in \<open>P\<close>.\<close>

definition returns :: "('a \<Rightarrow> bool) \<Rightarrow> ('s, 'a) io \<Rightarrow> bool" where
  "returns P m = (\<forall>s x t. m s = (Inr x, t) \<longrightarrow> P x)"

lemma returnsD: "returns P m \<Longrightarrow> m s = (Inr x, t) \<Longrightarrow> P x"
  by (auto simp: returns_def)

lemma returnsI: "(\<And>s x t. m s = (Inr x, t) \<Longrightarrow> P x) \<Longrightarrow> returns P m"
  by (auto simp: returns_def)

section \<open>A complete release\<close>

text \<open>
  The evidence behind a complete release: the tag object that the API and the checkout
  agree on, the release record with its two payloads, accepted by the verifier of
  identities, a signature by the workflow of the epoch, and the original runs.
\<close>

definition release_evidenced ::
  "float_text \<Rightarrow> runner \<Rightarrow> cosign \<Rightarrow> string \<Rightarrow> string \<Rightarrow> string \<Rightarrow> bool" where
  "release_evidenced fl git cosign tag source object_sha \<longleftrightarrow>
     git_text git [''rev-parse'', ''refs/tags/'' @ tag] = Inr object_sha \<and> sha1_hex object_sha \<and>
     (\<exists>record document bundle tree main_run platform_run executor.
        git_text git [''rev-parse'', source @ ''^{tree}''] = Inr tree \<and>
        validate_identity_release_record fl record document bundle
          \<lparr>expected_tag = tag, expected_sha = source, expected_build_sha = None, expected_tag_object_sha = Some object_sha,
           expected_tree_sha = Some tree, expected_staged = False, expected_api_repository = Some NEW_REPOSITORY,
           expected_api_repository_id = Some REPOSITORY_ID\<rparr> = Inr () \<and>
        verify_signature fl cosign document bundle tag = Inr () \<and>
        validate_identity_run_records fl document main_run platform_run ''success'' executor False = Inr ())"

lemma prove_tag_returns:
  assumes "prove_tag fl git net tag source ref s = (Inr object_sha, t)"
  shows "git_text git [''rev-parse'', ''refs/tags/'' @ tag] = Inr object_sha \<and> sha1_hex object_sha"
  using assms unfolding prove_tag_def
  by (cases ref) (auto simp: io_simps)

lemma settle_runs_Inr:
  assumes "settle_runs fl document selected main_run platform_run executor = Inr b"
  shows "b \<and> validate_identity_run_records fl document main_run platform_run ''success'' executor False = Inr ()"
  using assms unfolding settle_runs_def by (auto split: if_splits)

lemma prove_payload_returns:
  assumes run: "prove_payload fl git net cosign tag source object_sha record selected payloads s = (Inr b, t)"
    and tag: "git_text git [''rev-parse'', ''refs/tags/'' @ tag] = Inr object_sha \<and> sha1_hex object_sha"
  shows "b \<and> release_evidenced fl git cosign tag source object_sha"
proof -
  from run obtain document "bundle" tree main_run platform_run executor u1 u2 where
    "git_text git [''rev-parse'', source @ ''^{tree}''] = Inr tree"
    "validate_identity_release_record fl record document bundle
        \<lparr>expected_tag = tag, expected_sha = source, expected_build_sha = None, expected_tag_object_sha = Some object_sha,
         expected_tree_sha = Some tree, expected_staged = False, expected_api_repository = Some NEW_REPOSITORY,
         expected_api_repository_id = Some REPOSITORY_ID\<rparr> = Inr u1"
    "verify_signature fl cosign document bundle tag = Inr u2"
    and settled: "settle_runs fl document selected main_run platform_run executor = Inr b"
    unfolding prove_payload_def io_simps bind_eq_Inr by blast
  with settle_runs_Inr [OF settled] tag show ?thesis unfolding release_evidenced_def by (cases u1; cases u2) blast
qed

lemma prove_release_returns:
  assumes run: "prove_release fl git net cosign tag source s = (Inr b, t)" and b: b
  shows "\<exists>object_sha. release_evidenced fl git cosign tag source object_sha"
proof -
  from run obtain ref release u where
    body: "(if ref = None
      then lift (bind (require (release = None) ''Release without its exact annotated tag'') (\<lambda>_. Inr False))
      else
        io_bind (prove_tag fl git net tag source ref) (\<lambda>object_sha.
        case release of
          None \<Rightarrow> lift (Inr False)
        | Some r \<Rightarrow>
            io_bind (lift (identity (JStr tag))) (\<lambda>selected.
            io_bind (lift (identity_assets r selected)) (\<lambda>assets.
            io_bind (io_map (download_asset net selected) assets) (\<lambda>raw.
            prove_payload fl git net cosign tag source object_sha r selected raw))))) u = (Inr b, t)"
    unfolding prove_release_def io_simps by blast
  show ?thesis
  proof (cases "ref = None")
    case True
    with body b show ?thesis by (simp add: io_simps)
  next
    case False
    note body = body [unfolded if_not_P [OF False] io_simps]
    from body obtain object_sha v where tag: "prove_tag fl git net tag source ref u = (Inr object_sha, v)"
      and rest: "(case release of
          None \<Rightarrow> lift (Inr False)
        | Some r \<Rightarrow>
            io_bind (lift (identity (JStr tag))) (\<lambda>selected.
            io_bind (lift (identity_assets r selected)) (\<lambda>assets.
            io_bind (io_map (download_asset net selected) assets) (\<lambda>raw.
            prove_payload fl git net cosign tag source object_sha r selected raw)))) v = (Inr b, t)"
      by blast
    from rest b obtain r where r: "release = Some r" by (cases release) (simp_all add: io_simps)
    from rest [unfolded r option.case io_simps] obtain selected payloads w where
      "prove_payload fl git net cosign tag source object_sha r selected payloads w = (Inr b, t)" by blast
    from prove_payload_returns [OF this prove_tag_returns [OF tag]] show ?thesis by blast
  qed
qed

lemma prove_release_absent:
  assumes run: "prove_release fl git net cosign tag source s = (Inr False, t)"
  shows "\<exists>u v. api_find fl net (''/releases/tags/'' @ tag) True u = (Inr None, v)"
proof -
  from run obtain ref release u v where
    found: "api_find fl net (''/releases/tags/'' @ tag) True u = (Inr release, v)" and
    body: "(if ref = None
      then lift (bind (require (release = None) ''Release without its exact annotated tag'') (\<lambda>_. Inr False))
      else
        io_bind (prove_tag fl git net tag source ref) (\<lambda>object_sha.
        case release of
          None \<Rightarrow> lift (Inr False)
        | Some r \<Rightarrow>
            io_bind (lift (identity (JStr tag))) (\<lambda>selected.
            io_bind (lift (identity_assets r selected)) (\<lambda>assets.
            io_bind (io_map (download_asset net selected) assets) (\<lambda>raw.
            prove_payload fl git net cosign tag source object_sha r selected raw))))) v = (Inr False, t)"
    unfolding prove_release_def io_simps by blast
  have "release = None"
  proof (cases "ref = None")
    case True
    with body show ?thesis by (simp add: io_simps)
  next
    case False
    note body = body [unfolded if_not_P [OF False] io_simps]
    from body obtain object_sha w where tag: "prove_tag fl git net tag source ref v = (Inr object_sha, w)"
      and rest: "(case release of
          None \<Rightarrow> lift (Inr False)
        | Some r \<Rightarrow>
            io_bind (lift (identity (JStr tag))) (\<lambda>selected.
            io_bind (lift (identity_assets r selected)) (\<lambda>assets.
            io_bind (io_map (download_asset net selected) assets) (\<lambda>raw.
            prove_payload fl git net cosign tag source object_sha r selected raw)))) w = (Inr False, t)"
      by blast
    show ?thesis
    proof (cases release)
      case (Some r)
      from rest [unfolded Some option.case io_simps] obtain selected payloads x where
        "prove_payload fl git net cosign tag source object_sha r selected payloads x = (Inr False, t)" by blast
      from prove_payload_returns [OF this prove_tag_returns [OF tag]] show ?thesis by blast
    qed
  qed
  with found show ?thesis by blast
qed


section \<open>The first incomplete release\<close>

definition proven_release :: "float_text \<Rightarrow> runner \<Rightarrow> network \<Rightarrow> cosign \<Rightarrow> bool \<Rightarrow> string \<Rightarrow> historical \<Rightarrow> bool" where
  "proven_release fl git net cosign complete tag h \<longleftrightarrow>
     (\<exists>s t. prove_release fl git net cosign tag (hist_source h) s = (Inr complete, t))"

lemma first_incomplete_Some:
  assumes "first_incomplete fl git net cosign (tag_text v) hs s = (Inr (Some (tag, h)), t)"
  shows "\<exists>pre w post. zip (map (\<lambda>i. (succ_version ^^ i) v) [0..<length hs]) hs = pre @ (w, h) # post \<and> tag = tag_text w \<and>
    list_all (\<lambda>(u, g). proven_release fl git net cosign True (tag_text u) g) pre \<and>
    proven_release fl git net cosign False tag h"
  using assms
proof (induction hs arbitrary: v s)
  case Nil
  then show ?case by (simp add: io_simps)
next
  case (Cons g hs)
  from Cons.prems obtain b u where run: "prove_release fl git net cosign (tag_text v) (hist_source g) s = (Inr b, u)"
    and rest: "(if \<not> b then lift (Inr (Some (tag_text v, g)))
      else io_bind (lift (next_tag (JStr (tag_text v)))) (\<lambda>n. first_incomplete fl git net cosign n hs)) u = (Inr (Some (tag, h)), t)"
    by (auto simp: io_simps)
  have split: "zip (map (\<lambda>i. (succ_version ^^ i) v) [0..<length (g # hs)]) (g # hs) =
      (v, g) # zip (map (\<lambda>i. (succ_version ^^ i) (succ_version v)) [0..<length hs]) hs"
    by (simp add: upt_conv_Cons map_Suc_upt [symmetric] funpow_swap1 o_def del: upt_Suc)
  show ?case
  proof (cases b)
    case False
    with run rest show ?thesis unfolding split
      by (intro exI [of _ "[]"]) (auto simp: io_simps proven_release_def)
  next
    case True
    with rest obtain n where n: "next_tag (JStr (tag_text v)) = Inr n"
      and go: "first_incomplete fl git net cosign n hs u = (Inr (Some (tag, h)), t)"
      by (auto simp: io_simps)
    from n have "n = tag_text (succ_version v)" by (auto simp: next_tag_Inr version_Inr)
    from Cons.IH [OF go [unfolded this]] obtain pre w post where
      "zip (map (\<lambda>i. (succ_version ^^ i) (succ_version v)) [0..<length hs]) hs = pre @ (w, h) # post" "tag = tag_text w"
      "list_all (\<lambda>(u, g). proven_release fl git net cosign True (tag_text u) g) pre"
      "proven_release fl git net cosign False tag h" by blast
    with run True show ?thesis unfolding split
      by (intro exI [of _ "(v, g) # pre"] exI [of _ w] exI [of _ post]) (auto simp: proven_release_def)
  qed
qed

lemma historical_walk:
  "zip (map (\<lambda>i. (succ_version ^^ i) (0, 1, 81)) [0..<length HISTORICAL_RELEASES]) HISTORICAL_RELEASES = historical_table"
  by (simp add: historical_table_def HISTORICAL_RELEASES_def succ_version_def eval_nat_numeral)

text \<open>What a selection has established.\<close>

definition selected_first :: "float_text \<Rightarrow> runner \<Rightarrow> network \<Rightarrow> cosign \<Rightarrow> execution_bound \<Rightarrow> selected_edge \<Rightarrow> bool" where
  "selected_first fl git net cosign bound edge \<longleftrightarrow>
     (case edge of (v, h, main_run, codeql) \<Rightarrow>
       \<exists>pre w post window. historical_table = pre @ (w, h) # post \<and>
         list_all (\<lambda>(u, g). proven_release fl git net cosign True (tag_text u) g) pre \<and>
         proven_release fl git net cosign False (tag_text w) h \<and>
         discover_transition_window git (hist_source h) = Inr window \<and>
         intent_tag (window_intent window) = tag_text w \<and> base_sha window = hist_parent h \<and>
         v = selection_value bound h (tag_text w) window main_run codeql \<and>
         0 < fst main_run \<and> 0 < snd main_run \<and> 0 < fst codeql \<and> 0 < snd codeql)"

lemma positive_Inr [simp]: "positive v = Inr i \<longleftrightarrow> v = JInt i \<and> 0 < i"
  by (cases v) (auto simp: positive_def)

lemma run_tuple_returns: "run_tuple fl net source workflow s = (Inr (i, a), t) \<Longrightarrow> 0 < i \<and> 0 < a"
  unfolding run_tuple_def by (auto simp: io_simps)

lemma select_first_returns:
  assumes "select_first fl git net cosign bound s = (Inr edge, t)"
  shows "selected_first fl git net cosign bound edge"
proof -
  from assms obtain main_run codeql found a b c d e where
    runs: "run_tuple fl net (bound_sha bound) ''pull-request.yml'' a = (Inr main_run, b)"
      "run_tuple fl net (bound_sha bound) ''codeql.yml'' b = (Inr codeql, c)"
    and found: "first_incomplete fl git net cosign FIRST_V4_TAG HISTORICAL_RELEASES d = (Inr found, e)"
    and rest: "(case found of
        None \<Rightarrow> Inl (ContractError ''finite recovery backlog is complete; use the ordinary publisher'')
      | Some (tag, chosen) \<Rightarrow>
          bind (discover_transition_window git (hist_source chosen)) (\<lambda>window.
          bind (require (intent_tag (window_intent window) = tag \<and> base_sha window = hist_parent chosen)
                  ''derived ledger edge differs'') (\<lambda>_.
          Inr (selection_value bound chosen tag window main_run codeql, chosen, main_run, codeql)))) = Inr edge"
    unfolding select_first_def io_simps by blast
  obtain tag h where f: "found = Some (tag, h)" using rest by (cases found) auto
  from rest [unfolded f option.case prod.case bind_eq_Inr require_Inr] obtain window where
    window: "discover_transition_window git (hist_source h) = Inr window" "intent_tag (window_intent window) = tag"
      "base_sha window = hist_parent h"
    and edge: "edge = (selection_value bound h tag window main_run codeql, h, main_run, codeql)"
    by auto
  from first_incomplete_Some [OF found [unfolded f boundary_tags]] obtain pre w post where
    "historical_table = pre @ (w, h) # post" "tag = tag_text w"
    "list_all (\<lambda>(u, g). proven_release fl git net cosign True (tag_text u) g) pre"
    "proven_release fl git net cosign False tag h"
    unfolding historical_walk by blast
  moreover have "0 < fst main_run" "0 < snd main_run" "0 < fst codeql" "0 < snd codeql"
    using runs run_tuple_returns by (metis prod.collapse)+
  ultimately show ?thesis using window unfolding selected_first_def edge prod.case by blast
qed

text \<open>
  C9: a selection is the first source of the frozen backlog without a release: every
  earlier one is complete, this one is not, its edge is the window that the ledger
  derives, and the selected value names exactly that edge and positive run numbers.
\<close>

theorem selection_is_first:
  "returns (selected_first fl git net cosign bound) (select_first fl git net cosign bound)"
  by (rule returnsI) (rule select_first_returns)

section \<open>The selection crosses jobs unchanged\<close>

lemma historical_tables:
  "list_all (\<lambda>((a, b, c), h). historical_release (JStr (tag_text (a, b, c))) = Inr (Some h)) historical_table"
  "list_all (\<lambda>((a, b, c), h). is_ok (publication (JStr NEW_REPOSITORY) (JInt REPOSITORY_ID) (JStr (tag_text (a, b, c)))
     (JStr (tag_text (a, b, c - 1))) (JStr (hist_parent h)) (JStr (hist_source h)))) historical_table"
  "list_all (\<lambda>((a, b, c), h). low_ascii (tag_text (a, b, c)) \<and> low_ascii (hist_source h) \<and> low_ascii (hist_parent h) \<and>
     low_ascii (tag_text (a, b, c - 1))) historical_table"
  by code_simp+

lemma window_base_tag:
  assumes "discover_transition_window git head = Inr window" "intent_tag (window_intent window) = tag_text (a, b, c)"
  shows "base_tag window = tag_text (a, b, c - 1)"
proof -
  from discover_window [OF assms(1)] obtain ledger prev where
    ledger: "platform_tag_boundaries git = Inr ledger" "prev \<in> set ledger" and base: "base_tag window = boundary_tag prev"
    and ver: "intent_version (window_intent window) = next_patch (boundary_version prev)"
    by blast
  have "boundary_tag prev = version_tag (boundary_version prev)"
    using platform_tag_boundaries_chain [OF ledger(1)] ledger(2) by (auto simp: in_set_conv_nth)
  moreover have tags: "version_tag v = tag_text (major v, minor v, patch v)" for v
    by (cases v) (simp add: version_tag_def version_str_def tag_text_def show_semver_def)
  moreover have "tag_text (major (next_patch (boundary_version prev)), minor (next_patch (boundary_version prev)),
      patch (next_patch (boundary_version prev))) = tag_text (a, b, c)"
    using assms(2) ver tags by (simp add: intent_tag_def)
  ultimately show ?thesis using base by (cases "boundary_version prev") auto
qed

lemma selection_value_fields:
  "get (selection_value bound h tag window m q) ''schema'' = JStr SELECTION_SCHEMA"
  "get (selection_value bound h tag window m q) ''tag'' = JStr tag"
  "get (selection_value bound h tag window m q) ''source_sha'' = JStr (hist_source h)"
  "get (selection_value bound h tag window m q) ''base_sha'' = JStr (base_sha window)"
  "get (selection_value bound h tag window m q) ''base_tag'' = JStr (base_tag window)"
  "get (selection_value bound h tag window m q) ''executor_main_run_id'' = JInt (fst m)"
  "get (selection_value bound h tag window m q) ''executor_main_run_attempt'' = JInt (snd m)"
  "get (selection_value bound h tag window m q) ''executor_codeql_run_id'' = JInt (fst q)"
  "get (selection_value bound h tag window m q) ''executor_codeql_run_attempt'' = JInt (snd q)"
  "list_all (\<lambda>(k, expected). get (selection_value bound h tag window m q) k = expected) (bound_fields bound)"
  "keys_are (selection_value bound h tag window m q) (selection_fields bound)"
  "plain_json (JObj (selection_value bound h tag window m q))"
  unfolding selection_value_def bound_fields_def
  by (simp_all add: keys_are_def selection_fields_def bound_fields_def executor_keys_def insert_commute)

lemma selection_value_ascii:
  assumes "low_ascii (bound_sha bound)" "low_ascii tag" "low_ascii (hist_source h)" "low_ascii (base_sha window)"
    "low_ascii (base_tag window)"
  shows "ascii_json (JObj (selection_value bound h tag window m q))"
proof -
  have "low_ascii SELECTION_SCHEMA" "low_ascii NEW_REPOSITORY" by code_simp+
  with assms show ?thesis unfolding selection_value_def bound_fields_def by simp
qed

lemma canonical_ascii:
  assumes "ascii_json (JObj d)" "plain_json (JObj d)"
  shows "canonical fl d = dumps fl (JObj d)" "canonical fl (sorted_dict d) = dumps fl (JObj d)"
    "encode_utf8 (canonical fl d) = Inr (canonical fl d)"
    "loads fl dict_hook (canonical fl d) = Inr (JObj (sorted_dict d))"
proof -
  have low: "low_ascii (dumps fl (JObj d))" using assms(1) by (rule dumps_low_ascii)
  show eq: "canonical fl d = dumps fl (JObj d)"
    using ascii_escapes_low [OF low] by (simp only: canonical_def dumps_ascii_def)
  show "canonical fl (sorted_dict d) = dumps fl (JObj d)"
    using ascii_escapes_low [OF low] dumps_sorted_json [of fl "JObj d"]
    by (simp only: canonical_def dumps_ascii_def sorted_json_object)
  show "encode_utf8 (canonical fl d) = Inr (canonical fl d)"
    using low unfolding eq by (simp add: encode_utf8_def low_ascii_is_ascii utf8_valid_ascii del: dumps.simps)
  show "loads fl dict_hook (canonical fl d) = Inr (JObj (sorted_dict d))"
    using last_wins.loads_dumps [OF assms(2), of "[]" fl] unfolding eq
    by (simp only: append_Nil2 sorted_json_object) simp
qed

lemma binding_accepts:
  assumes table: "(w, h) \<in> set historical_table" and window: "discover_transition_window git (hist_source h) = Inr window"
    and tag: "intent_tag (window_intent window) = tag_text w" and parent: "base_sha window = hist_parent h"
    and positive: "0 < fst m" "0 < snd m" "0 < fst q" "0 < snd q"
    and sha: "sha1_hex (bound_sha bound)"
    and size: "length (canonical fl (selection_value bound h (tag_text w) window m q)) \<le> MAX_SELECTION"
  shows "binding fl git bound (canonical fl (selection_value bound h (tag_text w) window m q)) =
    Inr (sorted_dict (selection_value bound h (tag_text w) window m q))"
proof -
  let ?v = "selection_value bound h (tag_text w) window m q"
  obtain a b c where w: "w = (a, b, c)" by (cases w)
  have base: "base_tag window = tag_text (a, b, c - 1)" using window tag unfolding w by (rule window_base_tag)
  from historical_tables table have known: "historical_release (JStr (tag_text w)) = Inr (Some h)"
    and "is_ok (publication (JStr NEW_REPOSITORY) (JInt REPOSITORY_ID) (JStr (tag_text w))
      (JStr (tag_text (a, b, c - 1))) (JStr (hist_parent h)) (JStr (hist_source h)))"
    and low: "low_ascii (tag_text w)" "low_ascii (hist_source h)" "low_ascii (hist_parent h)"
      "low_ascii (tag_text (a, b, c - 1))"
    unfolding w list_all_iff by fast+
  then obtain sel where publication: "publication (JStr NEW_REPOSITORY) (JInt REPOSITORY_ID) (JStr (tag_text w))
      (JStr (tag_text (a, b, c - 1))) (JStr (hist_parent h)) (JStr (hist_source h)) = Inr sel"
    by (auto simp: is_ok_iff)
  have "list_all is_hex (bound_sha bound)" using sha by (simp add: sha1_hex_def)
  then have ascii: "ascii_json (JObj ?v)"
    using low parent base by (intro selection_value_ascii) (simp_all add: low_ascii_hex)
  note printed = canonical_ascii [OF ascii selection_value_fields(12)]
  have same: "canonical fl (sorted_dict ?v) = canonical fl ?v" by (simp only: printed(1,2))
  have fields: "list_all (\<lambda>(k, expected). get (sorted_dict ?v) k = expected) (bound_fields bound)"
    using selection_value_fields(10) [of bound h "tag_text w" window m q]
    by (simp add: bound_fields_def)
  have keys: "for_each (\<lambda>key u. bind (positive (get (sorted_dict ?v) key)) (\<lambda>_. Inr ())) executor_keys () = Inr ()"
    using positive by (simp add: executor_keys_def selection_value_fields positive_def)
  show ?thesis
    unfolding binding_def printed(3) bind_simps printed(4) json.case same
    using size fields keys known publication window tag parent base
    by (simp add: require_def selection_value_fields del: dumps.simps)
qed

text \<open>
  C11: the text of a selection within the byte budget is accepted by the recheck of the
  later jobs over the same history, which answers the same selection: nothing is
  selected again.
\<close>

theorem selection_crosses_jobs:
  "returns (\<lambda>(v, h, runs).
      if sha1_hex (bound_sha bound) \<and> length (canonical fl v) \<le> MAX_SELECTION
      then binding fl git bound (canonical fl v) = Inr (sorted_dict v) else True)
    (select_first fl git net cosign bound)"
proof (rule returnsI)
  fix s edge t
  assume "select_first fl git net cosign bound s = (Inr edge, t)"
  then have first: "selected_first fl git net cosign bound edge" by (rule select_first_returns)
  obtain v h m q where edge: "edge = (v, h, m, q)" by (cases edge) auto
  from first [unfolded selected_first_def edge prod.case] obtain pre w post window where
    table: "historical_table = pre @ (w, h) # post" and
    *: "discover_transition_window git (hist_source h) = Inr window" "intent_tag (window_intent window) = tag_text w"
      "base_sha window = hist_parent h" "v = selection_value bound h (tag_text w) window m q"
      "0 < fst m" "0 < snd m" "0 < fst q" "0 < snd q"
    by blast
  have "(w, h) \<in> set historical_table" by (simp add: table)
  with binding_accepts [OF _ *(1,2,3,5,6,7,8)] *(4)
  show "case edge of (v, h, runs) \<Rightarrow>
      if sha1_hex (bound_sha bound) \<and> length (canonical fl v) \<le> MAX_SELECTION
      then binding fl git bound (canonical fl v) = Inr (sorted_dict v) else True"
    by (simp add: edge)
qed

end
