(* ===== verification/ReleaseState.thy ===== *)
theory ReleaseState
  imports PyPattern PyText
begin

text \<open>
  scripts/validate_release_state.py: the closed YAML grammar of the GitOps release
  manifests.  A file is read without following links and without a change under
  the reader; its lines must be exactly those of the release's contract.
\<close>

section \<open>Observing one file\<close>

text \<open>
  \<open>CanonicalYamlError\<close> derives from \<open>ValueError\<close> and is modelled as \<open>ValueError\<close>.  An
  observation holds what the operating system answers, in the order of the calls.
\<close>

record file_stat =
  st_regular :: bool
  st_dev :: int
  st_ino :: int
  st_size :: int
  st_mtime_ns :: int

record observation =
  resolves_before :: "bool res"  \<comment> \<open>the path resolves to itself\<close>
  lstat_before :: "file_stat res"
  opened :: "file_stat res"  \<comment> \<open>\<open>open\<close> and \<open>fstat\<close>\<close>
  chunk :: "nat \<Rightarrow> string res"  \<comment> \<open>what the k-th \<open>read\<close> offers\<close>
  fstat_after :: "file_stat res"
  lstat_after :: "file_stat res"
  resolves_after :: "bool res"

definition MAX_RELEASE_YAML_BYTES :: nat where "MAX_RELEASE_YAML_BYTES = 65536"

definition yaml_error :: "string \<Rightarrow> 'a res" where
  "yaml_error message = Inl (ValueError message)"

definition yaml_if :: "bool \<Rightarrow> string \<Rightarrow> 'a res \<Rightarrow> 'a res" where
  "yaml_if c message k = (if c then yaml_error message else k)"

definition same_identity :: "file_stat \<Rightarrow> file_stat \<Rightarrow> bool" where
  "same_identity a b \<longleftrightarrow>
     (st_dev a, st_ino a, st_size a, st_mtime_ns a) = (st_dev b, st_ino b, st_size b, st_mtime_ns b)"

text \<open>The read loop: it stops at an empty chunk or when the budget is used up.\<close>

function read_chunks :: "(nat \<Rightarrow> string res) \<Rightarrow> nat \<Rightarrow> nat \<Rightarrow> string res" where
  "read_chunks offer k remaining =
    (if remaining = 0 then Inr []
     else bind (offer k) (\<lambda>bytes.
       let c = take (min 65536 remaining) bytes
       in if c = [] then Inr []
          else bind (read_chunks offer (k + 1) (remaining - length c)) (\<lambda>rest. Inr (c @ rest))))"
  by pat_completeness auto
termination
  by (relation "measure (\<lambda>(offer, k, remaining). remaining)") (auto simp: Let_def)

declare read_chunks.simps [simp del]

definition observe_bytes :: "observation \<Rightarrow> string res" where
  "observe_bytes file =
    bind (resolves_before file) (\<lambda>direct.
    yaml_if (\<not> direct) ''release YAML path must not contain symlinks'' (
    bind (lstat_before file) (\<lambda>before.
    yaml_if (\<not> st_regular before) ''release YAML must be a regular file'' (
    yaml_if (st_size before \<le> 0 \<or> st_size before > int MAX_RELEASE_YAML_BYTES)
      ''release YAML size is outside the bounded contract'' (
    bind (opened file) (\<lambda>held.
    yaml_if (\<not> st_regular held) ''release YAML must be a regular file'' (
    yaml_if (\<not> same_identity held before) ''release YAML changed while opening'' (
    bind (read_chunks (chunk file) 0 (MAX_RELEASE_YAML_BYTES + 1)) (\<lambda>bytes.
    bind (fstat_after file) (\<lambda>after_read.
    yaml_if (\<not> same_identity after_read held \<or> int (length bytes) \<noteq> st_size held)
      ''release YAML changed while reading'' (
    bind (lstat_after file) (\<lambda>after.
    if \<not> st_regular after \<or> \<not> same_identity after held
    then yaml_error ''release YAML path changed while reading''
    else bind (resolves_after file) (\<lambda>direct.
         yaml_if (\<not> direct) ''release YAML path changed while reading'' (Inr bytes))))))))))))))"

text \<open>\<open>except (OSError, RuntimeError)\<close>; a loop of links raises \<open>RuntimeError\<close>, here \<open>OSError\<close>.\<close>

definition safe_bytes :: "observation \<Rightarrow> string res" where
  "safe_bytes file =
    rewrap (\<lambda>e. e = OSError) (\<lambda>_. ValueError ''release YAML cannot be opened safely'') (observe_bytes file)"

section \<open>Text and lines\<close>

text \<open>C0 controls but the newline, DEL, the C1 controls and the two Unicode separators.\<close>

definition control_free :: "string \<Rightarrow> bool" where
  "control_free s =
    (list_all (\<lambda>c. (32 \<le> byte c \<or> c = CHR 0x0A) \<and> byte c \<noteq> 127) s
      \<and> list_all (\<lambda>n. \<not> contains s [CHR 0xC2, char_of n]) [128..<160]
      \<and> \<not> contains s [CHR 0xE2, CHR 0x80, CHR 0xA8] \<and> \<not> contains s [CHR 0xE2, CHR 0x80, CHR 0xA9])"

definition spaces :: "string \<Rightarrow> string" where
  "spaces s = dropWhile (\<lambda>c. c = CHR '' '') s"

text \<open>\<open>[ ]*(?:---|[.][.][.])(?:[ ]+#.*)?\<close>.\<close>

definition document_marker :: "string \<Rightarrow> bool" where
  "document_marker line =
    (let t = spaces line; rest = drop 3 t
     in (startswith t ''---'' \<or> startswith t ''...'')
        \<and> (rest = [] \<or> (startswith rest '' '' \<and> startswith (spaces rest) ''#'')))"

definition newline_char :: char where "newline_char = CHR 0x0A"

definition canonical_text_of :: "bool \<Rightarrow> string \<Rightarrow> string res" where
  "canonical_text_of allow_documents bytes =
    yaml_if (bytes = [] \<or> length bytes > MAX_RELEASE_YAML_BYTES \<or> \<not> endswith bytes [newline_char])
      ''release YAML must be bounded and LF terminated'' (
    yaml_if (\<not> utf8_valid bytes) ''release YAML must be UTF-8'' (
    yaml_if (\<not> control_free bytes) ''release YAML must use LF as its only control separator'' (
    yaml_if (\<not> allow_documents \<and> list_ex document_marker (split_on newline_char bytes))
      ''release YAML document markers are forbidden'' (Inr bytes))))"

definition read_canonical_text :: "bool \<Rightarrow> observation \<Rightarrow> string res" where
  "read_canonical_text allow_documents file = bind (safe_bytes file) (canonical_text_of allow_documents)"

definition indent_of :: "string \<Rightarrow> nat" where
  "indent_of line = length line - length (spaces line)"

text \<open>Neither blank nor a comment.\<close>

definition significant :: "string \<Rightarrow> bool" where
  "significant line = (strip line \<noteq> [] \<and> \<not> startswith (lstrip line) ''#'')"

definition key_char :: "char \<Rightarrow> bool" where
  "key_char c = (byte_in 65 90 c \<or> byte_in 97 122 c \<or> is_digit c \<or> c \<in> set ''_.-'')"

definition scalar_ok :: "string \<Rightarrow> bool" where
  "scalar_ok s =
    (case s of [] \<Rightarrow> False
     | c # t \<Rightarrow> (byte_in 65 90 c \<or> byte_in 97 122 c \<or> is_digit c \<or> c \<in> set ''./'')
          \<and> list_all (\<lambda>c. byte_in 65 90 c \<or> byte_in 97 122 c \<or> is_digit c \<or> c \<in> set ''_./:@+-'') t)"

text \<open>One mapping entry at an exact indentation; no entry at another one.\<close>

type_synonym entry = "string \<times> string option"

definition mapping_entry :: "string \<Rightarrow> nat \<Rightarrow> entry option res" where
  "mapping_entry line indent =
    (if indent_of line \<noteq> indent then Inr None
     else
       let content = drop indent line;
           key = takeWhile key_char content;
           rest = dropWhile key_char content
       in yaml_if (content = ''---'' \<or> content = ''...'') ''release YAML document markers are forbidden'' (
          yaml_if (key = [] \<or> \<not> startswith rest '':'') ''release YAML contains a non-canonical mapping line'' (
          let suffix = tl rest
          in if suffix = [] then Inr (Some (key, None))
             else
               yaml_if (\<not> startswith suffix '' '' \<or> suffix \<noteq> '' '' @ strip (tl suffix))
                 ''release YAML scalar spacing is not canonical'' (
               yaml_if (\<not> scalar_ok (tl suffix)) ''release YAML contains an unsupported scalar''
                 (Inr (Some (key, Some (tl suffix))))))))"

section \<open>Sections\<close>

definition collect_match ::
  "string list \<Rightarrow> nat \<Rightarrow> string \<Rightarrow> nat \<Rightarrow> (nat \<times> string option) list \<Rightarrow> (nat \<times> string option) list res" where
  "collect_match lines indent key index matches =
    (let line = lines ! index
     in if \<not> significant line then Inr matches
        else bind (mapping_entry line indent) (\<lambda>found.
             case found of
               Some (k, v) \<Rightarrow> Inr (if k = key then matches @ [(index, v)] else matches)
             | None \<Rightarrow> Inr matches))"

text \<open>The first significant line after the child that is not deeper than it.\<close>

definition nested_end :: "string list \<Rightarrow> nat \<Rightarrow> nat \<Rightarrow> nat \<Rightarrow> nat" where
  "nested_end lines index stop indent =
    (case filter (\<lambda>i. significant (lines ! i) \<and> indent_of (lines ! i) \<le> indent) [index + 1..<stop] of
       [] \<Rightarrow> stop | i # _ \<Rightarrow> i)"

definition child ::
  "string list \<Rightarrow> nat \<Rightarrow> nat \<Rightarrow> nat \<Rightarrow> string \<Rightarrow> bool \<Rightarrow> (string option \<times> nat \<times> nat) res" where
  "child lines first stop indent key container =
    bind (for_each (collect_match lines indent key) [first..<stop] []) (\<lambda>matches.
    case matches of
      [(index, v)] \<Rightarrow>
        yaml_if (container \<and> v \<noteq> None) ''release YAML mapping field is not a mapping'' (
        yaml_if (\<not> container \<and> v = None) ''release YAML scalar field is not a scalar'' (
        Inr (v, index + 1, nested_end lines index stop indent)))
    | _ \<Rightarrow> yaml_error ''release YAML field is missing or duplicated'')"

fun descend ::
  "string list \<Rightarrow> string list \<Rightarrow> nat \<Rightarrow> nat \<Rightarrow> nat \<Rightarrow> (nat \<times> nat \<times> nat) res" where
  "descend lines [] first stop indent = Inr (first, stop, indent)"
| "descend lines (component # path) first stop indent =
    bind (child lines first stop indent component True) (\<lambda>(_, first', last').
    descend lines path first' last' (indent + 2))"

definition canonical_scalar :: "string \<Rightarrow> string list \<Rightarrow> string res" where
  "canonical_scalar text path =
    yaml_if (path = []) ''release YAML path is empty'' (
    let lines = split_on newline_char text
    in bind (descend lines (butlast path) 0 (length lines) 0) (\<lambda>(first, stop, indent).
       bind (child lines first stop indent (List.last path) False) (\<lambda>(v, _, _).
       case v of
         None \<Rightarrow> yaml_error ''release YAML scalar is unavailable''
       | Some s \<Rightarrow> Inr s)))"

definition mapping_section :: "string \<Rightarrow> string list \<Rightarrow> (string list \<times> nat \<times> nat \<times> nat) res" where
  "mapping_section text path =
    (let lines = split_on newline_char text
     in bind (descend lines path 0 (length lines) 0) (\<lambda>(first, stop, indent). Inr (lines, first, stop, indent)))"

text \<open>
  The mapping as paths with their scalar, in the order of the lines; \<open>None\<close> is a
  mapping.  A context is the path whose children an indentation belongs to; deeper
  ones are dropped first, so the \<open>pop\<close> of the source finds nothing to remove.
\<close>

type_synonym flat = "(string list \<times> string option) list"

record mapping_state =
  parsed :: flat
  contexts :: "(nat \<times> string list) list"

definition mapping_line :: "nat \<Rightarrow> string \<Rightarrow> mapping_state \<Rightarrow> mapping_state res" where
  "mapping_line base_indent line st =
    (if \<not> significant line then Inr st
     else
       let indent = indent_of line;
           live = filter (\<lambda>(level, _). \<not> indent < level) (contexts st)
       in yaml_if (indent < base_indent \<or> odd (indent - base_indent))
            ''release values indentation is not canonical'' (
          case map_of live indent of
            None \<Rightarrow> yaml_error ''release values indentation jumps a mapping level''
          | Some parent \<Rightarrow>
              bind (mapping_entry line indent) (\<lambda>found.
              case found of
                None \<Rightarrow> yaml_error ''release values contain an unsupported document marker''
              | Some (key, v) \<Rightarrow>
                  let item_path = parent @ [key]
                  in yaml_if (item_path \<in> fst ` set (parsed st)) ''release values contain a duplicate key'' (
                     Inr \<lparr>parsed = parsed st @ [(item_path, v)],
                          contexts = (if v = None then [(indent + 2, item_path)] else []) @ live\<rparr>))))"

definition parse_simple_mapping :: "string list \<Rightarrow> nat \<Rightarrow> flat res" where
  "parse_simple_mapping lines base_indent =
    bind (for_each (mapping_line base_indent) lines \<lparr>parsed = [], contexts = [(base_indent, [])]\<rparr>) (\<lambda>st.
    yaml_if (parsed st = []) ''release values mapping is empty'' (Inr (parsed st)))"

definition load_simple_mapping_file :: "observation \<Rightarrow> flat res" where
  "load_simple_mapping_file file =
    bind (read_canonical_text False file) (\<lambda>text. parse_simple_mapping (split_on newline_char text) 0)"

definition bool_scalar :: "string \<Rightarrow> bool res" where
  "bool_scalar s =
    yaml_if (s \<noteq> ''true'' \<and> s \<noteq> ''false'') ''release boolean must be explicit true or false'' (Inr (s = ''true''))"

section \<open>The closed shapes\<close>

datatype requirement =
    Exactly string
  | Suspend  \<comment> \<open>\<open>  suspend: (?:true|false)\<close>\<close>
  | TokenRevision  \<comment> \<open>\<open>        tokenRevision: \<close> with a revision\<close>

definition revision_char :: "char \<Rightarrow> bool" where
  "revision_char c = (byte_in 97 122 c \<or> is_digit c \<or> c \<in> set ''._-'')"

definition token_revision :: "string \<Rightarrow> bool" where
  "token_revision s =
    (s = ''not-configured'' \<or> s = ''UNRESOLVED''
      \<or> (startswith s ''rev-'' \<and>
          (case drop 4 s of [] \<Rightarrow> False
           | c # t \<Rightarrow> (byte_in 97 122 c \<or> is_digit c) \<and> length t \<le> 62 \<and> list_all revision_char t)))"

fun meets :: "requirement \<Rightarrow> string \<Rightarrow> bool" where
  "meets (Exactly s) line = (line = s)"
| "meets Suspend line = (line = ''  suspend: true'' \<or> line = ''  suspend: false'')"
| "meets TokenRevision line =
    (startswith line ''        tokenRevision: '' \<and> token_revision (drop 23 line))"

definition require_exact_significant_lines :: "string \<Rightarrow> requirement list \<Rightarrow> unit res" where
  "require_exact_significant_lines text expected =
    (let actual = filter significant (split_on newline_char text)
     in yaml_if (length actual \<noteq> length expected) ''release YAML shape is outside the closed contract'' (
        yaml_if (\<not> list_all2 meets expected actual) ''release YAML shape is outside the closed contract'' (Inr ())))"

definition PUBLIC_CONNECTOR_SITES :: "string list" where
  "PUBLIC_CONNECTOR_SITES = [''naranjo-online'', ''lidersea-com'', ''obsync'']"

record release_contract =
  rc_release :: string
  rc_parent :: "string option"
  rc_bootstrap_parent :: bool
  rc_parent_name :: "string option"
  rc_namespace :: string
  rc_repository :: "string option"
  rc_readiness :: string
  rc_interval :: string
  rc_chart :: string
  rc_source :: string
  rc_chart_ref :: "string option"
  rc_parent_path :: string
  rc_parent_service_account :: string

definition RELEASE_CONTRACTS :: "(string \<times> release_contract) list" where
  "RELEASE_CONTRACTS =
    [(''cloudflare-public'',
      \<lparr>rc_release = ''kubernetes/platform/cloudflare-public/release/release.yaml'', rc_parent = None,
       rc_bootstrap_parent = False, rc_parent_name = None, rc_namespace = ''cloudflare-public'', rc_repository = None,
       rc_readiness = ''suspended-until-tunnel-token-ceremony'', rc_interval = ''10m0s'',
       rc_chart = ''./kubernetes/platform/cloudflare-public/chart'', rc_source = ''cloudflare-public-source'',
       rc_chart_ref = None, rc_parent_path = ''./kubernetes/platform/cloudflare-public/release'',
       rc_parent_service_account = ''platform-services-reconciler''\<rparr>)]"

definition connector_lines :: "string list \<Rightarrow> requirement list" where
  "connector_lines sites =
    Exactly ''    connectors:'' # concat (map (\<lambda>site. [Exactly (''      '' @ site @ '':''), TokenRevision]) sites)"

definition helm_release_shape :: "string \<Rightarrow> release_contract \<Rightarrow> requirement list" where
  "helm_release_shape name c =
    map Exactly
      ([''apiVersion: helm.toolkit.fluxcd.io/v2'', ''kind: HelmRelease'', ''metadata:'', ''  name: '' @ name,
        ''  namespace: '' @ rc_namespace c]
       @ (if rc_repository c \<noteq> None then [''  labels:'', ''    app.kubernetes.io/managed-by: fluxcd''] else [])
       @ [''  annotations:'', ''    platform.snaraj.dev/readiness: '' @ rc_readiness c, ''spec:''])
    @ [Suspend]
    @ map Exactly
      ([''  interval: '' @ rc_interval c, ''  maxHistory: 2'', ''  releaseName: '' @ name,
        ''  serviceAccountName: helm-reconciler'']
       @ (if rc_repository c \<noteq> None then [''  driftDetection:'', ''    mode: enabled''] else [])
       @ (case rc_chart_ref c of
            Some ref \<Rightarrow> [''  chartRef:'', ''    kind: OCIRepository'', ''    name: '' @ ref]
          | None \<Rightarrow>
              [''  chart:'', ''    spec:'', ''      chart: '' @ rc_chart c, ''      reconcileStrategy: Revision'',
               ''      sourceRef:'', ''        kind: GitRepository'', ''        name: '' @ rc_source c,
               ''      interval: 10m0s''])
       @ [''  install:'', ''    remediation:'', ''      retries: 0'', ''  upgrade:'', ''    cleanupOnFail: true'',
          ''    remediation:'', ''      retries: 0'', ''      strategy: rollback'', ''  values:''])
    @ (if rc_chart_ref c \<noteq> None then [Exactly ''    deploymentReady: true''] else connector_lines PUBLIC_CONNECTOR_SITES)"

definition parent_shape :: "release_contract \<Rightarrow> requirement list" where
  "parent_shape c =
    map Exactly
      [''apiVersion: kustomize.toolkit.fluxcd.io/v1'', ''kind: Kustomization'', ''metadata:'',
       ''  name: '' @ (case rc_parent_name c of None \<Rightarrow> ''None'' | Some n \<Rightarrow> n), ''  namespace: flux-system'', ''spec:'',
       ''  deletionPolicy: Orphan'', ''  force: false'', ''  interval: 10m0s'', ''  path: '' @ rc_parent_path c,
       ''  prune: false'', ''  retryInterval: 1m0s'', ''  serviceAccountName: '' @ rc_parent_service_account c,
       ''  sourceRef:'', ''    kind: GitRepository'', ''    name: flux-system'', ''  suspend: false'', ''  timeout: 5m0s'',
       ''  wait: true'']"

section \<open>Loading\<close>

record helm_release_state =
  suspended :: bool
  release_values :: flat
  values_text :: string

definition values_lines :: "string list \<Rightarrow> nat \<Rightarrow> string list res" where
  "values_lines lines base_indent =
    map_res (\<lambda>line.
      if significant line
      then yaml_if (indent_of line < base_indent) ''release values escaped their mapping'' (Inr (drop base_indent line))
      else Inr []) lines"

definition trim_newlines :: "string \<Rightarrow> string" where
  "trim_newlines s = rev (dropWhile (\<lambda>c. c = newline_char) (rev s))"

definition check_values :: "release_contract \<Rightarrow> flat \<Rightarrow> unit res" where
  "check_values c values =
    (if rc_chart_ref c \<noteq> None
     then yaml_if (values \<noteq> [([''deploymentReady''], Some ''true'')])
            ''site release values must contain exactly deploymentReady: true'' (Inr ())
     else for_each (\<lambda>site u.
            yaml_if (\<not> (case map_of values [''connectors'', site, ''tokenRevision''] of
                          Some (Some revision) \<Rightarrow> token_revision revision | _ \<Rightarrow> False))
              ''tunnel token revision is not canonical'' (Inr ())) PUBLIC_CONNECTOR_SITES ())"

definition require_scalar :: "string \<Rightarrow> string list \<Rightarrow> string \<Rightarrow> string \<Rightarrow> unit res" where
  "require_scalar text path expected message =
    bind (canonical_scalar text path) (\<lambda>s. yaml_if (s \<noteq> expected) message (Inr ()))"

definition helm_release_of :: "string \<Rightarrow> release_contract \<Rightarrow> string \<Rightarrow> helm_release_state res" where
  "helm_release_of name c text =
    bind (require_exact_significant_lines text (helm_release_shape name c)) (\<lambda>_.
    bind (require_scalar text [''apiVersion''] ''helm.toolkit.fluxcd.io/v2'' ''release apiVersion is unsupported'') (\<lambda>_.
    bind (require_scalar text [''kind''] ''HelmRelease'' ''release kind is unsupported'') (\<lambda>_.
    bind (require_scalar text [''metadata'', ''name''] name ''release name does not match its closed identity'') (\<lambda>_.
    bind (require_scalar text [''metadata'', ''namespace''] (rc_namespace c)
            ''release namespace does not match its closed identity'') (\<lambda>_.
    bind (bind (canonical_scalar text [''spec'', ''suspend'']) bool_scalar) (\<lambda>stopped.
    bind (mapping_section text [''spec'', ''values'']) (\<lambda>(lines, first, stop, base_indent).
    let part = take (stop - first) (drop first lines)
    in bind (parse_simple_mapping part base_indent) (\<lambda>values.
       bind (values_lines part base_indent) (\<lambda>rendered.
       bind (check_values c values) (\<lambda>_.
       Inr \<lparr>suspended = stopped, release_values = values,
            values_text = trim_newlines (join [newline_char] rendered) @ [newline_char]\<rparr>))))))))))"

text \<open>The tree: the observation of a path, and whether the retired aggregate exists.\<close>

record release_tree =
  tree_file :: "string \<Rightarrow> observation"
  tree_reconciliation :: "bool res"

definition contract_of :: "string \<Rightarrow> release_contract res" where
  "contract_of name = (case map_of RELEASE_CONTRACTS name of None \<Rightarrow> Inl KeyError | Some c \<Rightarrow> Inr c)"

definition load_helm_release :: "release_tree \<Rightarrow> string \<Rightarrow> helm_release_state res" where
  "load_helm_release root name =
    bind (contract_of name) (\<lambda>c.
    bind (read_canonical_text False (tree_file root (rc_release c))) (helm_release_of name c))"

text \<open>\<open>text.split("\n---\n")\<close>.\<close>

function split_documents :: "string \<Rightarrow> string list" where
  "split_documents s =
    (let sep = [newline_char] @ ''---'' @ [newline_char]
     in case s of
          [] \<Rightarrow> [[]]
        | c # t \<Rightarrow>
            if startswith s sep then [] # split_documents (drop (length sep) s)
            else (case split_documents t of [] \<Rightarrow> [[c]] | d # ds \<Rightarrow> (c # d) # ds))"
  by pat_completeness auto
termination
  by (relation "measure length") auto

declare split_documents.simps [simp del]

definition parent_of :: "release_contract \<Rightarrow> string \<Rightarrow> string \<Rightarrow> bool res" where
  "parent_of c expected_name combined =
    (let body = (if endswith combined [newline_char] then butlast combined else combined);
         marker = ''  name: '' @ expected_name @ [newline_char];
         matches = filter (\<lambda>d. contains d marker) (map (\<lambda>d. d @ [newline_char]) (split_documents body))
     in case matches of
          [text] \<Rightarrow>
            bind (require_exact_significant_lines text (parent_shape c)) (\<lambda>_.
            bind (require_scalar text [''apiVersion''] ''kustomize.toolkit.fluxcd.io/v1'' ''parent apiVersion is unsupported'') (\<lambda>_.
            bind (require_scalar text [''kind''] ''Kustomization'' ''parent kind is unsupported'') (\<lambda>_.
            bind (require_scalar text [''metadata'', ''name''] expected_name ''parent name does not match its closed identity'') (\<lambda>_.
            Inr False))))
        | _ \<Rightarrow> yaml_error ''direct parent identity is absent or duplicated'')"

definition load_parent_suspension :: "release_tree \<Rightarrow> string \<Rightarrow> bool res" where
  "load_parent_suspension root name =
    bind (contract_of name) (\<lambda>c.
    bind (tree_reconciliation root) (\<lambda>present.
    yaml_if present ''retired aggregate reconciliation is present'' (
    case rc_parent c of
      None \<Rightarrow> Inr (\<not> rc_bootstrap_parent c)
    | Some path \<Rightarrow>
        bind (read_canonical_text True (tree_file root path))
          (parent_of c (case rc_parent_name c of None \<Rightarrow> ''None'' | Some n \<Rightarrow> n)))))"

text \<open>\<open>all(...)\<close> stops at the first release that is not suspended.\<close>

fun all_suspended :: "release_tree \<Rightarrow> string list \<Rightarrow> bool res" where
  "all_suspended root [] = Inr True"
| "all_suspended root (name # names) =
    bind (load_helm_release root name) (\<lambda>st. if suspended st then all_suspended root names else Inr False)"

definition all_helm_releases_suspended :: "release_tree \<Rightarrow> bool res" where
  "all_helm_releases_suspended root = all_suspended root (map fst RELEASE_CONTRACTS)"

datatype state_command = AllHelmSuspended | EmitValues string

text \<open>The exit code and the text on standard output; other exceptions leave a traceback.\<close>

definition state_main :: "release_tree \<Rightarrow> state_command \<Rightarrow> (nat \<times> string) res" where
  "state_main root cmd =
    (case (case cmd of
             AllHelmSuspended \<Rightarrow> bind (all_helm_releases_suspended root) (\<lambda>b. Inr (if b then 0 else 1, []))
           | EmitValues name \<Rightarrow> bind (load_helm_release root name) (\<lambda>st. Inr (0, values_text st))) of
       Inr out \<Rightarrow> Inr out
     | Inl (ValueError m) \<Rightarrow> Inr (1, [])
     | Inl OSError \<Rightarrow> Inr (1, [])
     | Inl UnicodeDecodeError \<Rightarrow> Inr (1, [])
     | Inl e \<Rightarrow> Inl e)"

end
