(* ===== verification/ReleaseLines.thy ===== *)
theory ReleaseLines
  imports ReleaseState
begin

text \<open>
  The lines of the closed grammar: a printer of entries, what the reader makes of a
  printed entry, and the reading of sections as segments of lines, which comments
  and blank lines do not change.
\<close>

section \<open>Stripping ASCII text\<close>

definition plain_char :: "char \<Rightarrow> bool" where
  "plain_char c = (33 \<le> byte c \<and> byte c < 127)"

lemma leading_space_plain: "plain_char c \<Longrightarrow> leading_space (c # s) = 0"
  by (auto simp: leading_space_def ascii_space_def byte_in_def plain_char_def space_bytes_def split: list.splits)

lemma lstrip_plain: "plain_char c \<Longrightarrow> lstrip (c # s) = c # s"
  by (simp add: lstrip.simps [of "c # s"] leading_space_plain)

lemma lstrip_space: "lstrip (CHR '' '' # s) = lstrip s"
proof -
  have "leading_space (CHR '' '' # s) = 1" by (simp add: leading_space_def ascii_space_def byte_in_def)
  then show ?thesis by (simp add: lstrip.simps [of "CHR '' '' # s"])
qed

lemma lstrip_replicate: "lstrip (replicate n CHR '' '' @ s) = lstrip s"
  by (induction n) (simp_all add: lstrip_space)

lemma trailing_space_keeps: "plain_char c \<Longrightarrow> trailing_space (r @ [c]) \<le> length r"
proof -
  assume c: "plain_char c"
  then have "\<not> ascii_space c" "\<And>a. \<not> space_bytes [byte c, a]" "\<And>a b. \<not> space_bytes [byte c, a, b]"
    by (auto simp: ascii_space_def byte_in_def plain_char_def space_bytes_def)
  then show ?thesis
    by (cases r rule: remdups_adj.cases; cases "drop 2 r") (auto simp: trailing_space_def)
qed

lemma rstrip_rev_keeps: "plain_char c \<Longrightarrow> \<exists>u. rstrip_rev (r @ [c]) = u @ [c]"
proof (induction r rule: length_induct)
  case (1 r)
  let ?k = "trailing_space (r @ [c])"
  show ?case
  proof (cases "?k = 0")
    case True
    then show ?thesis by (simp add: rstrip_rev.simps [of "r @ [c]"])
  next
    case False
    have k: "?k \<le> length r" using "1.prems" by (rule trailing_space_keeps)
    then have "rstrip_rev (r @ [c]) = rstrip_rev (drop ?k r @ [c])"
      using False by (simp add: rstrip_rev.simps [of "r @ [c]"])
    moreover have "length (drop ?k r) < length r" using False k by auto
    ultimately show ?thesis using "1.IH" "1.prems" by metis
  qed
qed

lemma strip_nonempty: "plain_char c \<Longrightarrow> strip (c # s) \<noteq> []"
  using rstrip_rev_keeps [of c "rev s"] by (auto simp: strip_def rstrip_def lstrip_plain)

lemma rstrip_plain: "plain_char c \<Longrightarrow> rstrip (s @ [c]) = s @ [c]"
proof -
  assume c: "plain_char c"
  have "trailing_space (c # rev s) = 0"
    using c by (auto simp: trailing_space_def ascii_space_def byte_in_def plain_char_def space_bytes_def split: list.splits)
  then show ?thesis by (simp add: rstrip_def rstrip_rev.simps [of "c # rev s"])
qed

lemma strip_plain: "list_all plain_char s \<Longrightarrow> strip s = s"
proof (cases s)
  case Nil
  then show ?thesis by (simp add: strip_def rstrip_def lstrip.simps [of "[]"] rstrip_rev.simps [of "[]"] leading_space_def trailing_space_def)
next
  case (Cons c t)
  moreover assume all: "list_all plain_char s"
  ultimately have "lstrip s = s" by (simp add: lstrip_plain)
  moreover obtain u d where "s = u @ [d]" using Cons by (metis list.distinct(1) rev_exhaust)
  ultimately show ?thesis using all by (simp add: strip_def rstrip_plain)
qed

section \<open>Printed entries\<close>

type_synonym yaml_entry = "nat \<times> string \<times> string option"

fun entry_line :: "yaml_entry \<Rightarrow> string" where
  "entry_line (indent, key, v) =
    replicate indent CHR '' '' @ key @ '':'' @ (case v of None \<Rightarrow> [] | Some s \<Rightarrow> '' '' @ s)"

fun entry_ok :: "yaml_entry \<Rightarrow> bool" where
  "entry_ok (indent, key, v) \<longleftrightarrow>
     key \<noteq> [] \<and> list_all key_char key \<and> (case v of None \<Rightarrow> True | Some s \<Rightarrow> scalar_ok s)"

lemma spaces_replicate [simp]: "spaces (replicate n CHR '' '' @ s) = spaces s"
  by (induction n) (simp_all add: spaces_def)

lemma spaces_key: "c \<noteq> CHR '' '' \<Longrightarrow> spaces (c # s) = c # s"
  by (simp add: spaces_def)

lemma key_char_plain: "key_char c \<Longrightarrow> plain_char c \<and> c \<noteq> CHR '' '' \<and> c \<noteq> CHR ''#'' \<and> c \<noteq> CHR '':''"
  by (auto simp: key_char_def byte_in_def is_digit_def plain_char_def)

lemma scalar_plain: "scalar_ok s \<Longrightarrow> strip s = s"
proof (rule strip_plain)
  assume "scalar_ok s"
  then show "list_all plain_char s"
    by (auto simp: scalar_ok_def byte_in_def is_digit_def plain_char_def list_all_iff split: list.splits)
qed

lemma indent_of_entry: "entry_ok (indent, key, v) \<Longrightarrow> indent_of (entry_line (indent, key, v)) = indent"
  by (cases key) (auto simp: indent_of_def spaces_key dest!: key_char_plain)

lemma significant_entry: "entry_ok e \<Longrightarrow> significant (entry_line e)"
proof -
  assume ok: "entry_ok e"
  obtain indent key v where e: "e = (indent, key, v)" by (cases e)
  from ok e obtain c k where key: "key = c # k" "key_char c" by (cases key) auto
  from key_char_plain [OF key(2)] have c: "plain_char c" "c \<noteq> CHR ''#''" by auto
  have "lstrip (entry_line e) = c # k @ '':'' @ (case v of None \<Rightarrow> [] | Some s \<Rightarrow> '' '' @ s)"
    by (simp add: e key lstrip_replicate lstrip_plain [OF c(1)])
  moreover have "strip (entry_line e) \<noteq> []"
    using strip_nonempty [OF c(1), of "k @ '':'' @ (case v of None \<Rightarrow> [] | Some s \<Rightarrow> '' '' @ s)"]
    by (simp add: strip_def e key lstrip_replicate)
  ultimately show ?thesis using c by (auto simp: significant_def startswith_def)
qed

lemma takeWhile_key: "list_all key_char key \<Longrightarrow> takeWhile key_char (key @ CHR '':'' # s) = key \<and>
    dropWhile key_char (key @ CHR '':'' # s) = CHR '':'' # s"
proof -
  assume "list_all key_char key"
  moreover have "\<not> key_char CHR '':''" by (auto dest: key_char_plain)
  ultimately show ?thesis by (simp add: takeWhile_append dropWhile_append list_all_iff)
qed

lemma mapping_entry_line:
  assumes "entry_ok (indent, key, v)"
  shows "mapping_entry (entry_line (indent, key, v)) j = Inr (if indent = j then Some (key, v) else None)"
proof (cases "indent = j")
  case False
  then show ?thesis using indent_of_entry [OF assms] by (simp add: mapping_entry_def del: entry_line.simps)
next
  case True
  have content: "drop j (entry_line (indent, key, v)) = key @ CHR '':'' # (case v of None \<Rightarrow> [] | Some s \<Rightarrow> '' '' @ s)"
    using True by simp
  have no_marker: "key @ CHR '':'' # t \<noteq> ''---''" "key @ CHR '':'' # t \<noteq> ''...''" for t
  proof -
    have colon: "CHR '':'' \<in> set (key @ CHR '':'' # t)" by simp
    show "key @ CHR '':'' # t \<noteq> ''---''"
    proof
      assume eq: "key @ CHR '':'' # t = ''---''"
      from colon show False unfolding eq by simp
    qed
    show "key @ CHR '':'' # t \<noteq> ''...''"
    proof
      assume eq: "key @ CHR '':'' # t = ''...''"
      from colon show False unfolding eq by simp
    qed
  qed
  show ?thesis
    using assms True indent_of_entry [OF assms] no_marker
    unfolding mapping_entry_def content Let_def
    by (auto simp: takeWhile_key yaml_if_def scalar_plain startswith_def simp del: entry_line.simps split: option.splits)
qed

end
