(* ===== verification/ReleaseSegments.thy ===== *)
theory ReleaseSegments
  imports ReleaseLines
begin

text \<open>
  Sections as segments: the index arithmetic of the reader is a walk over the lines
  that follow a child, and lines that are blank or comments make no difference.
\<close>

section \<open>Reading a segment\<close>

fun found_in :: "nat \<Rightarrow> string \<Rightarrow> string list \<Rightarrow> (string option \<times> string list) list res" where
  "found_in indent key [] = Inr []"
| "found_in indent key (line # rest) =
    (if \<not> significant line then found_in indent key rest
     else bind (mapping_entry line indent) (\<lambda>found.
          bind (found_in indent key rest) (\<lambda>ms.
          Inr (case found of Some (k, v) \<Rightarrow> if k = key then (v, rest) # ms else ms | None \<Rightarrow> ms))))"

definition deeper :: "nat \<Rightarrow> string \<Rightarrow> bool" where
  "deeper indent line = (\<not> (significant line \<and> indent_of line \<le> indent))"

definition segment_child :: "nat \<Rightarrow> string \<Rightarrow> bool \<Rightarrow> string list \<Rightarrow> (string option \<times> string list) res" where
  "segment_child indent key container segment =
    bind (found_in indent key segment) (\<lambda>matches.
    case matches of
      [(v, rest)] \<Rightarrow>
        yaml_if (container \<and> v \<noteq> None) ''release YAML mapping field is not a mapping'' (
        yaml_if (\<not> container \<and> v = None) ''release YAML scalar field is not a scalar'' (
        Inr (v, takeWhile (deeper indent) rest)))
    | _ \<Rightarrow> yaml_error ''release YAML field is missing or duplicated'')"

fun segment_descend :: "string list \<Rightarrow> nat \<Rightarrow> string list \<Rightarrow> (string list \<times> nat) res" where
  "segment_descend [] indent segment = Inr (segment, indent)"
| "segment_descend (component # path) indent segment =
    bind (segment_child indent component True segment) (\<lambda>(_, inner). segment_descend path (indent + 2) inner)"

definition slice :: "'a list \<Rightarrow> nat \<Rightarrow> nat \<Rightarrow> 'a list" where
  "slice xs a b = take (b - a) (drop a xs)"

lemma slice_Cons: "a < b \<Longrightarrow> b \<le> length xs \<Longrightarrow> slice xs a b = xs ! a # slice xs (Suc a) b"
  unfolding slice_def by (simp add: Cons_nth_drop_Suc [symmetric] Suc_diff_Suc [symmetric] take_Suc_Cons del: take_Suc_conv_app_nth)

lemma slice_empty [simp]: "b \<le> a \<Longrightarrow> slice xs a b = []"
  by (simp add: slice_def)

lemma length_slice [simp]: "b \<le> length xs \<Longrightarrow> length (slice xs a b) = b - a"
  by (simp add: slice_def)

lemma slice_all [simp]: "slice xs 0 (length xs) = xs"
  by (simp add: slice_def)

lemma take_slice: "a + n \<le> b \<Longrightarrow> take n (slice xs a b) = slice xs a (a + n)"
  by (simp add: slice_def min_def)

text \<open>The loop of \<open>child\<close> finds the lines that \<open>found_in\<close> finds.\<close>

lemma collect_found:
  assumes "stop \<le> length lines"
  shows "for_each (collect_match lines indent key) [first..<stop] ms =
    bind (found_in indent key (slice lines first stop)) (\<lambda>fs.
      Inr (ms @ map (\<lambda>(v, rest). (stop - length rest - 1, v)) fs))"
proof (induction "stop - first" arbitrary: first ms)
  case 0
  then show ?case by simp
next
  case (Suc n)
  then have less: "first < stop" by simp
  have "n = stop - Suc first" using Suc.hyps(2) by simp
  note IH = Suc.hyps(1) [OF this]
  have len: "stop - length (slice lines (Suc first) stop) - 1 = first"
    using less assms by simp
  show ?case
  proof (cases "significant (lines ! first)")
    case False
    then show ?thesis
      using less IH by (simp add: upt_conv_Cons slice_Cons [OF less assms] collect_match_def Let_def)
  next
    case True
    show ?thesis
    proof (cases "mapping_entry (lines ! first) indent")
      case (Inl e)
      then show ?thesis
        using less True by (simp add: upt_conv_Cons slice_Cons [OF less assms] collect_match_def Let_def)
    next
      case (Inr found)
      show ?thesis
      proof (cases "found_in indent key (slice lines (Suc first) stop)")
        case (Inl e)
        with Inr True less IH show ?thesis
          by (cases found) (auto simp: upt_conv_Cons slice_Cons [OF less assms] collect_match_def Let_def)
      next
        case (Inr fs)
        with \<open>mapping_entry (lines ! first) indent = Inr found\<close> True less IH len show ?thesis
          by (cases found) (auto simp: upt_conv_Cons slice_Cons [OF less assms] collect_match_def Let_def)
      qed
    qed
  qed
qed

lemma nested_end_segment:
  assumes "stop \<le> length lines" "index < stop"
  shows "slice lines (index + 1) (nested_end lines index stop indent) =
      takeWhile (deeper indent) (slice lines (index + 1) stop)"
    "nested_end lines index stop indent \<le> stop"
proof -
  have *: "slice lines a (case filter (\<lambda>i. \<not> deeper indent (lines ! i)) [a..<stop] of [] \<Rightarrow> stop | i # _ \<Rightarrow> i) =
      takeWhile (deeper indent) (slice lines a stop) \<and>
      (case filter (\<lambda>i. \<not> deeper indent (lines ! i)) [a..<stop] of [] \<Rightarrow> stop | i # _ \<Rightarrow> i) \<le> stop \<and>
      (a \<le> stop \<longrightarrow> a \<le> (case filter (\<lambda>i. \<not> deeper indent (lines ! i)) [a..<stop] of [] \<Rightarrow> stop | i # _ \<Rightarrow> i))" for a
  proof (induction "stop - a" arbitrary: a)
    case 0
    then show ?case by simp
  next
    case (Suc n)
    then have less: "a < stop" by simp
    have "n = stop - Suc a" using Suc.hyps(2) by simp
    note IH = Suc.hyps(1) [OF this]
    let ?e = "case filter (\<lambda>i. \<not> deeper indent (lines ! i)) [Suc a..<stop] of [] \<Rightarrow> stop | i # _ \<Rightarrow> i"
    show ?case
    proof (cases "deeper indent (lines ! a)")
      case True
      have "a < ?e" "?e \<le> length lines" using IH less assms(1) by auto
      with IH True less show ?thesis
        by (simp add: upt_conv_Cons slice_Cons [OF less assms(1)] slice_Cons [of a ?e lines])
    next
      case False
      with less show ?thesis by (simp add: upt_conv_Cons slice_Cons [OF less assms(1)])
    qed
  qed
  from * [of "index + 1"] show "slice lines (index + 1) (nested_end lines index stop indent) =
      takeWhile (deeper indent) (slice lines (index + 1) stop)"
    "nested_end lines index stop indent \<le> stop"
    by (simp_all add: nested_end_def deeper_def)
qed

lemma found_in_suffix: "found_in indent key segment = Inr fs \<Longrightarrow> (v, rest) \<in> set fs \<Longrightarrow> strict_suffix rest segment"
proof (induction segment arbitrary: fs)
  case Nil
  then show ?case by simp
next
  case (Cons line segment)
  show ?case
  proof (cases "significant line")
    case False
    with Cons.prems have "found_in indent key segment = Inr fs" by simp
    from Cons.IH [OF this Cons.prems(2)] show ?thesis by (meson strict_suffix_def suffix_ConsI suffix_ConsD' suffix_order.less_le_trans suffix_order.order_refl)
  next
    case True
    with Cons.prems(1) obtain found ms where ms: "found_in indent key segment = Inr ms"
      and fs: "fs = (case found of Some (k, v) \<Rightarrow> if k = key then (v, segment) # ms else ms | None \<Rightarrow> ms)"
      by auto
    from fs Cons.prems(2) have "rest = segment \<or> (v, rest) \<in> set ms"
      by (auto split: option.splits if_splits)
    then show ?thesis
    proof
      assume "rest = segment"
      then show ?thesis by (simp add: strict_suffix_def suffix_def)
    next
      assume "(v, rest) \<in> set ms"
      from Cons.IH [OF ms this] show ?thesis
        by (meson suffix_ConsI suffix_order.less_le_trans suffix_order.order_refl)
    qed
  qed
qed

lemma slice_suffix:
  assumes "strict_suffix rest (slice xs first stop)" "stop \<le> length xs"
  shows "rest = slice xs (stop - length rest) stop" "first < stop - length rest" "length rest < stop"
proof -
  from assms(1) obtain pre where pre: "slice xs first stop = pre @ rest" "pre \<noteq> []"
    by (auto simp: strict_suffix_def suffix_def)
  have "length pre + length rest = stop - first"
    using arg_cong [OF pre(1), of length] assms(2) by simp
  moreover have "0 < length pre" using pre(2) by simp
  ultimately have eq: "stop - length rest = first + length pre" and less: "first < stop - length rest" "length rest < stop"
    by arith+
  have "rest = drop (length pre) (slice xs first stop)" by (simp add: pre(1))
  also have "\<dots> = slice xs (first + length pre) stop"
    by (simp add: slice_def drop_take add.commute)
  finally show "rest = slice xs (stop - length rest) stop" using eq by simp
  show "first < stop - length rest" "length rest < stop" by (fact less)+
qed

text \<open>The child of a section, as a segment.\<close>

lemma child_segment:
  assumes "stop \<le> length lines"
  shows "segment_child indent key container (slice lines first stop) =
      bind (child lines first stop indent key container) (\<lambda>(v, first', stop'). Inr (v, slice lines first' stop'))"
    "child lines first stop indent key container = Inr (v, first', stop') \<Longrightarrow> stop' \<le> length lines"
proof -
  have "segment_child indent key container (slice lines first stop) =
      bind (child lines first stop indent key container) (\<lambda>(v, first', stop'). Inr (v, slice lines first' stop')) \<and>
    (child lines first stop indent key container = Inr (v, first', stop') \<longrightarrow> stop' \<le> length lines)"
  proof (cases "found_in indent key (slice lines first stop)")
    case (Inl e)
    then show ?thesis using assms by (simp add: segment_child_def child_def collect_found)
  next
    case (Inr fs)
    show ?thesis
    proof (cases "\<exists>w rest. fs = [(w, rest)]")
      case False
      then consider "fs = []" | a b c d xs where "fs = (a, b) # (c, d) # xs"
        by (metis list.exhaust surj_pair)
      then show ?thesis
        using Inr assms by cases (simp_all add: segment_child_def child_def collect_found yaml_error_def)
    next
      case True
      then obtain w rest where fs: "fs = [(w, rest)]" by blast
      have suffix: "strict_suffix rest (slice lines first stop)"
        using found_in_suffix [OF Inr] by (simp add: fs)
      note place = slice_suffix [OF suffix assms]
      let ?i = "stop - length rest - 1"
      have i: "?i < stop" "?i + 1 = stop - length rest" using place by auto
      have rest: "rest = slice lines (?i + 1) stop" using place(1) i(2) by simp
      from nested_end_segment [OF assms i(1), of indent] rest i(2) assms
      show ?thesis
        using Inr by (simp add: fs segment_child_def child_def collect_found yaml_if_def yaml_error_def)
    qed
  qed
  then show "segment_child indent key container (slice lines first stop) =
      bind (child lines first stop indent key container) (\<lambda>(v, first', stop'). Inr (v, slice lines first' stop'))"
    "child lines first stop indent key container = Inr (v, first', stop') \<Longrightarrow> stop' \<le> length lines"
    by blast+
qed

lemma descend_segment:
  assumes "stop \<le> length lines"
  shows "segment_descend path indent (slice lines first stop) =
      bind (descend lines path first stop indent) (\<lambda>(first', stop', indent'). Inr (slice lines first' stop', indent'))"
    "descend lines path first stop indent = Inr (first', stop', indent') \<Longrightarrow> stop' \<le> length lines"
proof -
  have "segment_descend path indent (slice lines first stop) =
      bind (descend lines path first stop indent) (\<lambda>(first', stop', indent'). Inr (slice lines first' stop', indent')) \<and>
    (\<forall>f s i. descend lines path first stop indent = Inr (f, s, i) \<longrightarrow> s \<le> length lines)"
    using assms
  proof (induction path arbitrary: first stop indent)
    case Nil
    then show ?case by simp
  next
    case (Cons component path)
    note step = child_segment [OF Cons.prems, where indent = indent and key = component and container = True and first = first]
    show ?case
    proof (cases "child lines first stop indent component True")
      case (Inl e)
      then show ?thesis using step(1) by simp
    next
      case (Inr r)
      obtain v f s where r: "r = (v, f, s)" by (cases r)
      have "s \<le> length lines" using step(2) Inr r by blast
      from Cons.IH [OF this, of "indent + 2" f] show ?thesis using step(1) Inr r by simp
    qed
  qed
  then show "segment_descend path indent (slice lines first stop) =
      bind (descend lines path first stop indent) (\<lambda>(first', stop', indent'). Inr (slice lines first' stop', indent'))"
    "descend lines path first stop indent = Inr (first', stop', indent') \<Longrightarrow> stop' \<le> length lines"
    by blast+
qed

text \<open>A scalar and a section, over the whole text.\<close>

definition segment_scalar :: "string list \<Rightarrow> string list \<Rightarrow> string res" where
  "segment_scalar path lines =
    bind (segment_descend (butlast path) 0 lines) (\<lambda>(segment, indent).
    bind (segment_child indent (last path) False segment) (\<lambda>(v, _).
    case v of None \<Rightarrow> yaml_error ''release YAML scalar is unavailable'' | Some s \<Rightarrow> Inr s))"

lemma canonical_scalar_segment:
  "path \<noteq> [] \<Longrightarrow> canonical_scalar s path = segment_scalar path (split_on newline_char s)"
proof -
  assume path: "path \<noteq> []"
  let ?lines = "split_on newline_char s"
  note whole = descend_segment(1) [of "length ?lines" ?lines "butlast path" 0 0, simplified]
  show ?thesis
  proof (cases "descend ?lines (butlast path) 0 (length ?lines) 0")
    case (Inl e)
    then show ?thesis using path whole by (simp add: canonical_scalar_def segment_scalar_def yaml_if_def Let_def)
  next
    case (Inr r)
    obtain f t i where r: "r = (f, t, i)" by (cases r)
    have t: "t \<le> length ?lines"
      using descend_segment(2) [of "length ?lines" ?lines "butlast path" 0 0 f t i] Inr r by simp
    from child_segment(1) [OF t, where indent = i and key = "last path" and container = False and first = f] show ?thesis
      using path whole Inr r
      by (cases "child ?lines f t i (last path) False")
        (auto simp: canonical_scalar_def segment_scalar_def yaml_if_def Let_def)
  qed
qed

lemma mapping_section_segment:
  "bind (mapping_section s path) (\<lambda>(lines, first, stop, indent). Inr (take (stop - first) (drop first lines), indent)) =
   segment_descend path 0 (split_on newline_char s)"
proof -
  let ?lines = "split_on newline_char s"
  note whole = descend_segment(1) [of "length ?lines" ?lines path 0 0, simplified]
  show ?thesis
    unfolding whole mapping_section_def Let_def
    by (cases "descend ?lines path 0 (length ?lines) 0") (auto simp: slice_def)
qed

section \<open>Blank lines and comments\<close>

lemma takeWhile_deeper: "filter significant (takeWhile (deeper indent) ls) = takeWhile (deeper indent) (filter significant ls)"
  by (induction ls) (auto simp: deeper_def)

lemma found_in_filter:
  "found_in indent key (filter significant segment) =
    bind (found_in indent key segment) (\<lambda>fs. Inr (map (\<lambda>(v, rest). (v, filter significant rest)) fs))"
proof (induction segment)
  case Nil
  then show ?case by simp
next
  case (Cons line segment)
  then show ?case
    by (cases "mapping_entry line indent"; cases "found_in indent key segment") (auto split: option.splits)
qed

lemma segment_child_filter:
  "segment_child indent key container (filter significant segment) =
    bind (segment_child indent key container segment) (\<lambda>(v, rest). Inr (v, filter significant rest))"
proof (cases "found_in indent key segment")
  case (Inl e)
  then show ?thesis by (simp add: segment_child_def found_in_filter)
next
  case (Inr fs)
  consider "fs = []" | v rest where "fs = [(v, rest)]" | a b c d xs where "fs = (a, b) # (c, d) # xs"
    by (metis list.exhaust surj_pair)
  then show ?thesis
    using Inr by cases (simp_all add: segment_child_def found_in_filter yaml_error_def yaml_if_def takeWhile_deeper)
qed

lemma segment_descend_filter:
  "segment_descend path indent (filter significant segment) =
    bind (segment_descend path indent segment) (\<lambda>(inner, i). Inr (filter significant inner, i))"
proof (induction path arbitrary: indent segment)
  case Nil
  then show ?case by simp
next
  case (Cons component path)
  then show ?case
    by (cases "segment_child indent component True segment") (auto simp: segment_child_filter)
qed

lemma segment_scalar_filter: "segment_scalar path (filter significant lines) = segment_scalar path lines"
proof (cases "segment_descend (butlast path) 0 lines")
  case (Inr r)
  obtain inner i where r: "r = (inner, i)" by (cases r)
  show ?thesis
    using Inr r
    by (cases "segment_child i (last path) False inner")
      (auto simp: segment_scalar_def segment_descend_filter segment_child_filter)
qed (simp add: segment_scalar_def segment_descend_filter)

lemma insignificant_line: "\<not> significant l \<Longrightarrow> mapping_line b l st = Inr st"
  by (simp add: mapping_line_def)

lemma mapping_lines_filter: "for_each (mapping_line b) (filter significant ls) st = for_each (mapping_line b) ls st"
proof (induction ls arbitrary: st)
  case Nil
  then show ?case by simp
next
  case (Cons l ls)
  show ?case
  proof (cases "significant l")
    case True
    then show ?thesis by (cases "mapping_line b l st") (simp_all add: Cons.IH)
  next
    case False
    then show ?thesis by (simp add: Cons.IH insignificant_line)
  qed
qed

lemma parse_filter: "parse_simple_mapping (filter significant ls) b = parse_simple_mapping ls b"
  by (simp add: parse_simple_mapping_def mapping_lines_filter)

end
