(* ===== verification/ReleaseTree.thy ===== *)
theory ReleaseTree
  imports ReleaseSegments
begin

text \<open>
  Mappings as trees: a printer, the paths of a tree, and the theorem that
  \<open>parse_simple_mapping\<close> reads a printed tree back as its paths.
\<close>

datatype yaml_tree = Leaf string string | Node string "yaml_tree list"

fun tree_entries :: "nat \<Rightarrow> yaml_tree list \<Rightarrow> yaml_entry list" where
  "tree_entries b [] = []"
| "tree_entries b (Leaf k v # ts) = (b, k, Some v) # tree_entries b ts"
| "tree_entries b (Node k cs # ts) = (b, k, None) # tree_entries (b + 2) cs @ tree_entries b ts"

fun flatten :: "string list \<Rightarrow> yaml_tree list \<Rightarrow> flat" where
  "flatten parent [] = []"
| "flatten parent (Leaf k v # ts) = (parent @ [k], Some v) # flatten parent ts"
| "flatten parent (Node k cs # ts) = (parent @ [k], None) # flatten (parent @ [k]) cs @ flatten parent ts"

definition tree_lines :: "nat \<Rightarrow> yaml_tree list \<Rightarrow> string list" where
  "tree_lines b ts = map entry_line (tree_entries b ts)"

text \<open>Keys and scalars of the grammar, and no key twice in a mapping.\<close>

fun tree_ok :: "yaml_tree list \<Rightarrow> bool" where
  "tree_ok [] = True"
| "tree_ok (Leaf k v # ts) = (k \<noteq> [] \<and> list_all key_char k \<and> scalar_ok v \<and> tree_ok ts)"
| "tree_ok (Node k cs # ts) = (k \<noteq> [] \<and> list_all key_char k \<and> tree_ok cs \<and> tree_ok ts)"

definition live :: "nat \<Rightarrow> (nat \<times> string list) list \<Rightarrow> (nat \<times> string list) list" where
  "live indent cs = filter (\<lambda>(level, _). \<not> indent < level) cs"

lemma live_live: "i \<le> j \<Longrightarrow> live i (live j cs) = live i cs"
  by (induction cs) (auto simp: live_def)

lemma live_Cons: "live i ((l, p) # cs) = (if i < l then live i cs else (l, p) # live i cs)"
  by (simp add: live_def)

lemma mapping_line_entry:
  assumes "entry_ok (indent, k, v)" "even (indent - b)" "b \<le> indent" "map_of (live indent (contexts st)) indent = Some parent"
    "parent @ [k] \<notin> fst ` set (parsed st)"
  shows "mapping_line b (entry_line (indent, k, v)) st =
    Inr \<lparr>parsed = parsed st @ [(parent @ [k], v)],
         contexts = (if v = None then [(indent + 2, parent @ [k])] else []) @ live indent (contexts st)\<rparr>"
  using significant_entry [OF assms(1)] indent_of_entry [OF assms(1)] mapping_entry_line [OF assms(1), of indent] assms(2-)
  unfolding mapping_line_def Let_def live_def yaml_if_def
  by (cases v) (simp_all del: entry_line.simps)

lemma mapping_tree:
  assumes "tree_ok ts" "b \<le> indent" "even (indent - b)" "map_of (live indent (contexts st)) indent = Some parent"
    "distinct (map fst (parsed st @ flatten parent ts))"
  shows "\<exists>cs. for_each (mapping_line b) (tree_lines indent ts) st =
      Inr \<lparr>parsed = parsed st @ flatten parent ts, contexts = cs\<rparr> \<and> live indent cs = live indent (contexts st)"
  using assms
proof (induction ts arbitrary: indent parent st rule: tree_ok.induct)
  case 1
  then show ?case by (intro exI [of _ "contexts st"]) (simp add: tree_lines_def)
next
  case (2 k v ts)
  let ?st = "\<lparr>parsed = parsed st @ [(parent @ [k], Some v)], contexts = live indent (contexts st)\<rparr>"
  have ok: "entry_ok (indent, k, Some v)" using "2.prems"(1) by simp
  have fresh: "parent @ [k] \<notin> fst ` set (parsed st)" using "2.prems"(5) by auto
  have step: "mapping_line b (entry_line (indent, k, Some v)) st = Inr ?st"
    using mapping_line_entry [OF ok "2.prems"(3,2,4) fresh] by simp
  have "tree_ok ts" "map_of (live indent (contexts ?st)) indent = Some parent"
    "distinct (map fst (parsed ?st @ flatten parent ts))"
    using "2.prems" by (auto simp: live_live)
  from "2.IH" [OF this(1) "2.prems"(2,3) this(2,3)] step show ?case
    by (auto simp: tree_lines_def live_live simp del: entry_line.simps)
next
  case (3 k cs ts)
  let ?p = "parent @ [k]"
  let ?st = "\<lparr>parsed = parsed st @ [(?p, None)], contexts = (indent + 2, ?p) # live indent (contexts st)\<rparr>"
  have ok: "entry_ok (indent, k, None)" using "3.prems"(1) by simp
  have fresh: "?p \<notin> fst ` set (parsed st)" using "3.prems"(5) by auto
  have step: "mapping_line b (entry_line (indent, k, None)) st = Inr ?st"
    using mapping_line_entry [OF ok "3.prems"(3,2,4) fresh] by simp
  have "tree_ok cs" "b \<le> indent + 2" "even (indent + 2 - b)"
    "map_of (live (indent + 2) (contexts ?st)) (indent + 2) = Some ?p"
    "distinct (map fst (parsed ?st @ flatten ?p cs))"
    using "3.prems" by (auto simp: live_Cons)
  from "3.IH"(1) [OF this] obtain cs' where
    inner: "for_each (mapping_line b) (tree_lines (indent + 2) cs) ?st =
      Inr \<lparr>parsed = parsed ?st @ flatten ?p cs, contexts = cs'\<rparr>"
    and cs': "live (indent + 2) cs' = live (indent + 2) (contexts ?st)" by blast
  let ?st' = "\<lparr>parsed = parsed ?st @ flatten ?p cs, contexts = cs'\<rparr>"
  have "live indent cs' = live indent (live (indent + 2) cs')" by (simp add: live_live)
  also have "\<dots> = live indent (contexts st)" unfolding cs' by (simp add: live_live live_Cons)
  finally have same: "live indent cs' = live indent (contexts st)" .
  have "tree_ok ts" "map_of (live indent (contexts ?st')) indent = Some parent"
    "distinct (map fst (parsed ?st' @ flatten parent ts))"
    using "3.prems" by (auto simp: same)
  from "3.IH"(2) [OF this(1) "3.prems"(2,3) this(2,3)] obtain cs'' where
    "for_each (mapping_line b) (tree_lines indent ts) ?st' =
      Inr \<lparr>parsed = parsed ?st' @ flatten parent ts, contexts = cs''\<rparr>" "live indent cs'' = live indent cs'" by auto
  with step inner same show ?case
    by (auto simp: tree_lines_def for_each_append simp del: entry_line.simps)
qed

lemma flatten_nonempty: "ts \<noteq> [] \<Longrightarrow> flatten parent ts \<noteq> []"
  by (cases ts rule: tree_ok.cases) auto

lemma parse_tree_lines:
  assumes "tree_ok ts" "distinct (map fst (flatten [] ts))" "ts \<noteq> []"
  shows "parse_simple_mapping (tree_lines b ts) b = Inr (flatten [] ts)"
proof -
  let ?st = "\<lparr>parsed = [], contexts = [(b, [])]\<rparr>"
  have "\<exists>cs. for_each (mapping_line b) (tree_lines b ts) ?st = Inr \<lparr>parsed = parsed ?st @ flatten [] ts, contexts = cs\<rparr> \<and>
      live b cs = live b (contexts ?st)"
    by (rule mapping_tree) (use assms in \<open>auto simp: live_def\<close>)
  then show ?thesis using flatten_nonempty [OF assms(3), of "[]"] by (auto simp: parse_simple_mapping_def yaml_if_def)
qed


section \<open>Emitted values\<close>

lemma split_on_snoc: "split_on sep (s @ [sep]) = split_on sep s @ [[]]"
proof (induction s)
  case Nil
  then show ?case by simp
next
  case (Cons c s)
  then show ?case using split_on_nonempty [of sep s] by (auto split: list.splits)
qed

lemma split_on_join:
  assumes "ws \<noteq> []" "list_all (\<lambda>w. sep \<notin> set w) ws"
  shows "split_on sep (join [sep] ws) = ws"
  using assms by (induction "[sep]" ws rule: join.induct) (auto simp: split_on_word split_on_append)

lemma trim_newlines_split: "\<exists>n. s = trim_newlines s @ replicate n newline_char"
proof -
  have "rev s = takeWhile (\<lambda>c. c = newline_char) (rev s) @ dropWhile (\<lambda>c. c = newline_char) (rev s)" by simp
  then have "s = rev (dropWhile (\<lambda>c. c = newline_char) (rev s)) @ rev (takeWhile (\<lambda>c. c = newline_char) (rev s))"
    by (metis rev_append rev_rev_ident)
  moreover have "rev (takeWhile (\<lambda>c. c = newline_char) (rev s)) =
      replicate (length (takeWhile (\<lambda>c. c = newline_char) (rev s))) newline_char"
    by (rule replicate_eqI) (auto dest: set_takeWhileD)
  ultimately show ?thesis unfolding trim_newlines_def by metis
qed

lemma empty_insignificant: "\<not> significant []"
  by (simp add: significant_def strip_def rstrip_def lstrip.simps [of "[]"] rstrip_rev.simps [of "[]"] leading_space_def
      trailing_space_def)

lemma significant_newlines:
  "filter significant (split_on newline_char (s @ replicate n newline_char)) = filter significant (split_on newline_char s)"
proof (induction n)
  case 0
  then show ?case by simp
next
  case (Suc n)
  have "s @ replicate (Suc n) newline_char = (s @ replicate n newline_char) @ [newline_char]"
    by (simp add: replicate_append_same)
  then show ?case using Suc empty_insignificant by (simp only: split_on_snoc) simp
qed

lemma significant_trimmed:
  "filter significant (split_on newline_char (trim_newlines s @ [newline_char])) = filter significant (split_on newline_char s)"
proof -
  obtain n where n: "s = trim_newlines s @ replicate n newline_char" using trim_newlines_split by blast
  have "filter significant (split_on newline_char s) = filter significant (split_on newline_char (trim_newlines s))"
    using significant_newlines [of "trim_newlines s" n] n by simp
  then show ?thesis using significant_newlines [of "trim_newlines s" 1] by simp
qed

lemma tree_entries_deep: "e \<in> set (tree_entries b ts) \<Longrightarrow> b \<le> fst e"
  by (induction b ts rule: tree_entries.induct) force+

lemma tree_entries_ok: "tree_ok ts \<Longrightarrow> e \<in> set (tree_entries b ts) \<Longrightarrow> entry_ok e"
  by (induction b ts rule: tree_entries.induct) auto

lemma values_lines_tree:
  assumes "tree_ok ts" "filter significant part = tree_lines b ts"
  shows "values_lines part b = Inr (map (\<lambda>l. if significant l then drop b l else []) part)"
  unfolding values_lines_def
proof (rule map_res_id)
  fix l
  assume l: "l \<in> set part"
  show "(if significant l then yaml_if (indent_of l < b) ''release values escaped their mapping'' (Inr (drop b l)) else Inr []) =
      Inr (if significant l then drop b l else [])"
  proof (cases "significant l")
    case True
    with l have "l \<in> set (filter significant part)" by simp
    then obtain e where e: "e \<in> set (tree_entries b ts)" "l = entry_line e"
      unfolding assms(2) tree_lines_def by auto
    obtain j k v where "e = (j, k, v)" by (cases e)
    with tree_entries_deep [OF e(1)] tree_entries_ok [OF assms(1) e(1)] indent_of_entry e(2) have "b \<le> indent_of l" by auto
    with True show ?thesis by (simp add: yaml_if_def)
  qed simp
qed

lemma drop_entry_line: "entry_ok (j, k, v) \<Longrightarrow> b \<le> j \<Longrightarrow> drop b (entry_line (j, k, v)) = entry_line (j - b, k, v)"
  by simp

lemma tree_entries_shift: "map (\<lambda>(j, k, v). (j - b, k, v)) (tree_entries (b + c) ts) = tree_entries c ts"
proof (induction c ts rule: tree_entries.induct)
  case (3 c k cs ts)
  then show ?case by (simp add: add.assoc)
qed simp_all

lemma tree_lines_shift:
  assumes "tree_ok ts"
  shows "map (drop b) (tree_lines b ts) = tree_lines 0 ts"
proof -
  have "map (drop b) (tree_lines b ts) = map entry_line (map (\<lambda>(j, k, v). (j - b, k, v)) (tree_entries b ts))"
    unfolding tree_lines_def map_map
  proof (rule map_cong [OF refl])
    fix e
    assume e: "e \<in> set (tree_entries b ts)"
    obtain j k v where e': "e = (j, k, v)" by (cases e)
    with tree_entries_deep [OF e] tree_entries_ok [OF assms e] drop_entry_line
    show "(drop b \<circ> entry_line) e = (entry_line \<circ> (\<lambda>(j, k, v). (j - b, k, v))) e" by auto
  qed
  with tree_entries_shift [of b 0 ts] show ?thesis by (simp add: tree_lines_def)
qed

lemma rendered_significant:
  assumes "tree_ok ts" "filter significant part = tree_lines b ts"
  shows "filter significant (map (\<lambda>l. if significant l then drop b l else []) part) = tree_lines 0 ts"
proof -
  have keeps: "significant (drop b l)" if "l \<in> set part" "significant l" for l
  proof -
    from that have "l \<in> set (filter significant part)" by simp
    then obtain e where e: "e \<in> set (tree_entries b ts)" "l = entry_line e"
      unfolding assms(2) tree_lines_def by auto
    obtain j k v where e': "e = (j, k, v)" by (cases e)
    have ok: "entry_ok (j, k, v)" using tree_entries_ok [OF assms(1) e(1)] e' by simp
    then have "entry_ok (j - b, k, v)" by simp
    from significant_entry [OF this] show ?thesis
      using tree_entries_deep [OF e(1)] drop_entry_line [OF ok] e e' by simp
  qed
  have "filter significant (map (\<lambda>l. if significant l then drop b l else []) part) = map (drop b) (filter significant part)"
    using keeps
  proof (induction part)
    case Nil
    then show ?case by simp
  next
    case (Cons l part)
    then show ?case by (cases "significant l") (simp_all add: empty_insignificant)
  qed
  then show ?thesis using assms(2) tree_lines_shift [OF assms(1)] by simp
qed

lemma emitted_lines:
  assumes "tree_ok ts" "filter significant part = tree_lines b ts" "list_all (\<lambda>w. newline_char \<notin> set w) part" "ts \<noteq> []"
  shows "\<exists>rendered. values_lines part b = Inr rendered \<and>
    filter significant (split_on newline_char (trim_newlines (join [newline_char] rendered) @ [newline_char])) = tree_lines 0 ts"
proof -
  let ?rendered = "map (\<lambda>l. if significant l then drop b l else []) part"
  have "part \<noteq> []"
  proof
    assume "part = []"
    with assms(2,4) show False by (cases ts rule: tree_ok.cases) (simp_all add: tree_lines_def)
  qed
  moreover have "list_all (\<lambda>w. newline_char \<notin> set w) ?rendered"
    using assms(3) by (auto simp: list_all_iff dest: in_set_dropD)
  ultimately have "split_on newline_char (join [newline_char] ?rendered) = ?rendered"
    by (intro split_on_join) simp_all
  then have "filter significant (split_on newline_char (trim_newlines (join [newline_char] ?rendered) @ [newline_char])) =
      tree_lines 0 ts"
    using rendered_significant [OF assms(1,2)] by (simp only: significant_trimmed)
  with values_lines_tree [OF assms(1,2)] show ?thesis by blast
qed

end
