(* ===== verification/ReleaseContract.thy ===== *)
theory ReleaseContract
  imports ReleaseTree
begin

text \<open>
  The closed contract of the public connectors' HelmRelease: the reader accepts exactly
  the texts whose significant lines are the contract's lines, for some suspension flag
  and three canonical token revisions, and returns that flag and those revisions.
\<close>

section \<open>Reading entries\<close>

fun entry_found :: "nat \<Rightarrow> string \<Rightarrow> yaml_entry list \<Rightarrow> (string option \<times> yaml_entry list) list" where
  "entry_found i key [] = []"
| "entry_found i key ((j, k, v) # es) = (if i = j \<and> k = key then (v, es) # entry_found i key es else entry_found i key es)"

definition entry_inner :: "nat \<Rightarrow> yaml_entry list \<Rightarrow> yaml_entry list" where
  "entry_inner i es = takeWhile (\<lambda>(j, _). i < j) es"

text \<open>Below indentation \<open>m\<close> an entry is canonical; deeper, its key may hold other characters.\<close>

fun entry_good :: "nat \<Rightarrow> yaml_entry \<Rightarrow> bool" where
  "entry_good m (j, k, v) =
    (entry_ok (j, k, v) \<or> (m \<le> j \<and> (case k of [] \<Rightarrow> False | c # _ \<Rightarrow> plain_char c \<and> c \<noteq> CHR ''#'')))"

lemma good_line:
  assumes "entry_good m e" "e = (j, k, v)"
  shows "significant (entry_line e)" "indent_of (entry_line e) = j"
proof -
  show "indent_of (entry_line e) = j"
  proof (cases "entry_ok (j, k, v)")
    case True
    then show ?thesis using assms(2) indent_of_entry by blast
  next
    case False
    with assms obtain c t where "k = c # t" "plain_char c" by (auto split: list.splits)
    moreover from this(2) have "c \<noteq> CHR '' ''" by (auto simp: plain_char_def)
    ultimately show ?thesis using assms(2) by (simp add: indent_of_def spaces_key)
  qed
  show "significant (entry_line e)"
  proof (cases "entry_ok e")
    case True
    then show ?thesis by (rule significant_entry)
  next
    case False
    with assms obtain c t where k: "k = c # t" and c: "plain_char c" "c \<noteq> CHR ''#''" by (auto split: list.splits)
    have "lstrip (entry_line e) = c # t @ '':'' @ (case v of None \<Rightarrow> [] | Some s \<Rightarrow> '' '' @ s)"
      by (simp add: assms(2) k lstrip_replicate lstrip_plain [OF c(1)])
    moreover have "strip (entry_line e) \<noteq> []"
      using strip_nonempty [OF c(1), of "t @ '':'' @ (case v of None \<Rightarrow> [] | Some s \<Rightarrow> '' '' @ s)"]
      by (simp add: strip_def assms(2) k lstrip_replicate)
    ultimately show ?thesis using c by (auto simp: significant_def startswith_def)
  qed
qed

lemma good_mapping_entry:
  assumes "entry_good m (j, k, v)" "i < m"
  shows "mapping_entry (entry_line (j, k, v)) i = Inr (if j = i then Some (k, v) else None)"
proof (cases "entry_ok (j, k, v)")
  case True
  then show ?thesis by (rule mapping_entry_line)
next
  case False
  with assms have "j \<noteq> i" by auto
  with good_line(2) [OF assms(1) refl] show ?thesis by (simp add: mapping_entry_def del: entry_line.simps)
qed

lemma entries_found:
  assumes "list_all (entry_good m) es" "i < m"
  shows "found_in i key (map entry_line es) =
    Inr (map (\<lambda>(v, rest). (v, map entry_line rest)) (entry_found i key es))"
  using assms(1)
proof (induction es)
  case Nil
  then show ?case by simp
next
  case (Cons e es)
  obtain j k v where e: "e = (j, k, v)" by (cases e)
  from Cons.prems e have good: "entry_good m (j, k, v)" by simp
  show ?case
    using good_line(1) [OF good refl] good_mapping_entry [OF good assms(2)] Cons
    by (auto simp: e simp del: entry_line.simps entry_good.simps)
qed

lemma entries_inner:
  "list_all (entry_good m) es \<Longrightarrow> takeWhile (deeper i) (map entry_line es) = map entry_line (entry_inner i es)"
proof (induction es)
  case Nil
  then show ?case by (simp add: entry_inner_def)
next
  case (Cons e es)
  obtain j k v where e: "e = (j, k, v)" by (cases e)
  from Cons.prems have good: "entry_good m e" by simp
  have "deeper i (entry_line e) \<longleftrightarrow> i < j" using good_line [OF good e] by (auto simp: deeper_def)
  then show ?case using Cons by (auto simp: entry_inner_def e simp del: entry_line.simps)
qed

lemma entry_found_good: "list_all P es \<Longrightarrow> (v, rest) \<in> set (entry_found i key es) \<Longrightarrow> list_all P rest"
  by (induction i key es rule: entry_found.induct) (auto split: if_splits)

lemma list_all_inner: "list_all P es \<Longrightarrow> list_all P (entry_inner i es)"
  by (auto simp: entry_inner_def list_all_iff dest: set_takeWhileD)

lemma entries_child:
  assumes "list_all (entry_good m) es" "i < m" "entry_found i key es = [(v, rest)]" "container = (v = None)"
  shows "segment_child i key container (map entry_line es) = Inr (v, map entry_line (entry_inner i rest))"
    "list_all (entry_good m) (entry_inner i rest)"
proof -
  have rest: "list_all (entry_good m) rest" using entry_found_good [OF assms(1), of v rest i key] assms(3) by simp
  then show "list_all (entry_good m) (entry_inner i rest)" by (rule list_all_inner)
  show "segment_child i key container (map entry_line es) = Inr (v, map entry_line (entry_inner i rest))"
    using entries_found [OF assms(1,2), of key] entries_inner [OF rest] assms(3,4)
    by (cases v) (simp_all add: segment_child_def yaml_if_def)
qed

section \<open>The lines of the contract\<close>

definition connector_tree :: "string list \<Rightarrow> yaml_tree list" where
  "connector_tree revisions =
    [Node ''connectors'' (map2 (\<lambda>site r. Node site [Leaf ''tokenRevision'' r]) PUBLIC_CONNECTOR_SITES revisions)]"

definition release_entries :: "bool \<Rightarrow> string list \<Rightarrow> yaml_entry list" where
  "release_entries stopped revisions =
    [(0, ''apiVersion'', Some ''helm.toolkit.fluxcd.io/v2''), (0, ''kind'', Some ''HelmRelease''), (0, ''metadata'', None),
     (2, ''name'', Some ''cloudflare-public''), (2, ''namespace'', Some ''cloudflare-public''), (2, ''annotations'', None),
     (4, ''platform.snaraj.dev/readiness'', Some ''suspended-until-tunnel-token-ceremony''), (0, ''spec'', None),
     (2, ''suspend'', Some (if stopped then ''true'' else ''false'')), (2, ''interval'', Some ''10m0s''),
     (2, ''maxHistory'', Some ''2''), (2, ''releaseName'', Some ''cloudflare-public''),
     (2, ''serviceAccountName'', Some ''helm-reconciler''), (2, ''chart'', None), (4, ''spec'', None),
     (6, ''chart'', Some ''./kubernetes/platform/cloudflare-public/chart''), (6, ''reconcileStrategy'', Some ''Revision''),
     (6, ''sourceRef'', None), (8, ''kind'', Some ''GitRepository''), (8, ''name'', Some ''cloudflare-public-source''),
     (6, ''interval'', Some ''10m0s''), (2, ''install'', None), (4, ''remediation'', None), (6, ''retries'', Some ''0''),
     (2, ''upgrade'', None), (4, ''cleanupOnFail'', Some ''true''), (4, ''remediation'', None), (6, ''retries'', Some ''0''),
     (6, ''strategy'', Some ''rollback''), (2, ''values'', None)] @ tree_entries 4 (connector_tree revisions)"

definition release_lines :: "bool \<Rightarrow> string list \<Rightarrow> string list" where
  "release_lines stopped revisions = map entry_line (release_entries stopped revisions)"

definition cloudflare_contract :: release_contract where
  "cloudflare_contract = the (map_of RELEASE_CONTRACTS ''cloudflare-public'')"

definition cloudflare_release :: "string \<Rightarrow> helm_release_state res" where
  "cloudflare_release = helm_release_of ''cloudflare-public'' cloudflare_contract"

lemma startswith_rest: "startswith s p \<Longrightarrow> s = p @ drop (length p) s"
  unfolding startswith_def by (metis append_take_drop_id)

lemma revision_scalar: "token_revision s \<Longrightarrow> scalar_ok s"
proof -
  assume s: "token_revision s"
  consider "s = ''not-configured'' \<or> s = ''UNRESOLVED''" | c t where "s = ''rev-'' @ c # t" "byte_in 97 122 c \<or> is_digit c"
      "list_all revision_char t"
  proof -
    assume *: "s = ''not-configured'' \<or> s = ''UNRESOLVED'' \<Longrightarrow> thesis"
      "\<And>c t. s = ''rev-'' @ c # t \<Longrightarrow> byte_in 97 122 c \<or> is_digit c \<Longrightarrow> list_all revision_char t \<Longrightarrow> thesis"
    show thesis
    proof (cases "s = ''not-configured'' \<or> s = ''UNRESOLVED''")
      case True
      then show ?thesis by (rule *)
    next
      case False
      with s have "startswith s ''rev-''" and rest: "case drop 4 s of [] \<Rightarrow> False
           | c # t \<Rightarrow> (byte_in 97 122 c \<or> is_digit c) \<and> length t \<le> 62 \<and> list_all revision_char t"
        unfolding token_revision_def by blast+
      from startswith_rest [OF this(1)] have "s = ''rev-'' @ drop 4 s" by (simp add: eval_nat_numeral)
      with rest * show ?thesis by (cases "drop 4 s") auto
    qed
  qed
  then show ?thesis
  proof cases
    case 1
    then show ?thesis by (auto simp: scalar_ok_def byte_in_def is_digit_def)
  next
    case 2
    then show ?thesis
      by (auto simp: scalar_ok_def byte_in_def is_digit_def revision_char_def list_all_iff)
  qed
qed


text \<open>The entries of the contract, evaluated.\<close>

lemma release_good:
  assumes "token_revision r1" "token_revision r2" "token_revision r3"
  shows "list_all (entry_good 4) (release_entries b [r1, r2, r3])"
  using assms [THEN revision_scalar]
  by (cases b)
    (simp_all add: release_entries_def connector_tree_def PUBLIC_CONNECTOR_SITES_def key_char_def byte_in_def is_digit_def
      scalar_ok_def [of "[]"] scalar_ok_def [of "x # y" for x y] plain_char_def)

lemma top_scalar:
  assumes "list_all (entry_good 4) es" "entry_found 0 key es = [(Some v, rest)]"
  shows "segment_scalar [key] (map entry_line es) = Inr v"
  using entries_child(1) [OF assms(1) _ assms(2), of False] by (simp add: segment_scalar_def)

lemma section_of:
  assumes "list_all (entry_good 4) es" "entry_found 0 key es = [(None, rest)]"
  shows "segment_descend [key] 0 (map entry_line es) = Inr (map entry_line (entry_inner 0 rest), 2)"
    "list_all (entry_good 4) (entry_inner 0 rest)"
  using entries_child [OF assms(1) _ assms(2), of True] by simp_all

lemma nested_scalar:
  assumes "list_all (entry_good 4) es" "entry_found 0 key es = [(None, rest)]"
    "entry_found 2 field (entry_inner 0 rest) = [(Some v, rest')]"
  shows "segment_scalar [key, field] (map entry_line es) = Inr v"
  using section_of(1) [OF assms(1,2)] entries_child(1) [OF section_of(2) [OF assms(1,2)] _ assms(3), of False]
  by (simp add: segment_scalar_def del: segment_descend.simps)

lemmas release_simps = release_entries_def connector_tree_def PUBLIC_CONNECTOR_SITES_def entry_inner_def

lemma release_found:
  "\<exists>rest. entry_found 0 ''apiVersion'' (release_entries b [r1, r2, r3]) = [(Some ''helm.toolkit.fluxcd.io/v2'', rest)]"
  "\<exists>rest. entry_found 0 ''kind'' (release_entries b [r1, r2, r3]) = [(Some ''HelmRelease'', rest)]"
  "\<exists>rest rest'. entry_found 0 ''metadata'' (release_entries b [r1, r2, r3]) = [(None, rest)] \<and>
    entry_found 2 ''name'' (entry_inner 0 rest) = [(Some ''cloudflare-public'', rest')]"
  "\<exists>rest rest'. entry_found 0 ''metadata'' (release_entries b [r1, r2, r3]) = [(None, rest)] \<and>
    entry_found 2 ''namespace'' (entry_inner 0 rest) = [(Some ''cloudflare-public'', rest')]"
  "\<exists>rest rest'. entry_found 0 ''spec'' (release_entries b [r1, r2, r3]) = [(None, rest)] \<and>
    entry_found 2 ''suspend'' (entry_inner 0 rest) = [(Some (if b then ''true'' else ''false''), rest')]"
  "\<exists>rest rest'. entry_found 0 ''spec'' (release_entries b [r1, r2, r3]) = [(None, rest)] \<and>
    entry_found 2 ''values'' (entry_inner 0 rest) = [(None, rest')] \<and>
    entry_inner 2 rest' = tree_entries 4 (connector_tree [r1, r2, r3])"
  by (simp_all add: release_simps)

lemma release_fields:
  assumes "token_revision r1" "token_revision r2" "token_revision r3"
    "filter significant (split_on newline_char s) = release_lines b [r1, r2, r3]"
  shows "canonical_scalar s [''apiVersion''] = Inr ''helm.toolkit.fluxcd.io/v2''"
    "canonical_scalar s [''kind''] = Inr ''HelmRelease''"
    "canonical_scalar s [''metadata'', ''name''] = Inr ''cloudflare-public''"
    "canonical_scalar s [''metadata'', ''namespace''] = Inr ''cloudflare-public''"
    "canonical_scalar s [''spec'', ''suspend''] = Inr (if b then ''true'' else ''false'')"
proof -
  note good = release_good [OF assms(1-3), of b]
  note found = release_found [of b r1 r2 r3]
  have scalar: "canonical_scalar s path = segment_scalar path (map entry_line (release_entries b [r1, r2, r3]))"
    if "path \<noteq> []" for path
    using canonical_scalar_segment [OF that] segment_scalar_filter [of path "split_on newline_char s"] assms(4)
    by (simp add: release_lines_def)
  show "canonical_scalar s [''apiVersion''] = Inr ''helm.toolkit.fluxcd.io/v2''"
    unfolding scalar [OF list.distinct(2)] using top_scalar [OF good] found(1) by blast
  show "canonical_scalar s [''kind''] = Inr ''HelmRelease''"
    unfolding scalar [OF list.distinct(2)] using top_scalar [OF good] found(2) by blast
  show "canonical_scalar s [''metadata'', ''name''] = Inr ''cloudflare-public''"
    unfolding scalar [OF list.distinct(2)] using nested_scalar [OF good] found(3) by blast
  show "canonical_scalar s [''metadata'', ''namespace''] = Inr ''cloudflare-public''"
    unfolding scalar [OF list.distinct(2)] using nested_scalar [OF good] found(4) by blast
  show "canonical_scalar s [''spec'', ''suspend''] = Inr (if b then ''true'' else ''false'')"
    unfolding scalar [OF list.distinct(2)] using nested_scalar [OF good] found(5) by blast
qed

lemma release_values_section:
  assumes "token_revision r1" "token_revision r2" "token_revision r3"
    "filter significant (split_on newline_char s) = release_lines b [r1, r2, r3]"
  shows "\<exists>lines first stop. mapping_section s [''spec'', ''values''] = Inr (lines, first, stop, 4) \<and>
    lines = split_on newline_char s \<and>
    filter significant (take (stop - first) (drop first lines)) = tree_lines 4 (connector_tree [r1, r2, r3])"
proof -
  note good = release_good [OF assms(1-3), of b]
  obtain rest rest' where found: "entry_found 0 ''spec'' (release_entries b [r1, r2, r3]) = [(None, rest)]"
    "entry_found 2 ''values'' (entry_inner 0 rest) = [(None, rest')]"
    "entry_inner 2 rest' = tree_entries 4 (connector_tree [r1, r2, r3])"
    using release_found(6) [of b r1 r2 r3] by blast
  note top = entries_child [OF good _ found(1), of True, simplified]
  have "segment_descend [''spec'', ''values''] 0 (filter significant (split_on newline_char s)) =
      Inr (tree_lines 4 (connector_tree [r1, r2, r3]), 4)"
    using top(1) entries_child(1) [OF top(2) _ found(2), of True] found(3)
    by (simp add: assms(4) release_lines_def tree_lines_def numeral_2_eq_2 [symmetric])
  then obtain inner where inner: "segment_descend [''spec'', ''values''] 0 (split_on newline_char s) = Inr (inner, 4)"
    "filter significant inner = tree_lines 4 (connector_tree [r1, r2, r3])"
    unfolding segment_descend_filter bind_eq_Inr by force
  show ?thesis
    using mapping_section_segment [of s "[''spec'', ''values'']"] inner(2)
    unfolding inner(1) bind_eq_Inr by (force simp: mapping_section_def Let_def)
qed


section \<open>The closed contract\<close>

definition release_head :: "string list" where
  "release_head = map entry_line (take 8 (release_entries True [[], [], []]))"

definition release_middle :: "string list" where
  "release_middle = map entry_line (take 22 (drop 9 (release_entries True [[], [], []])))"

lemma shape_lines:
  "helm_release_shape ''cloudflare-public'' cloudflare_contract =
    map Exactly release_head @ Suspend # map Exactly release_middle @
    [Exactly ''      naranjo-online:'', TokenRevision, Exactly ''      lidersea-com:'', TokenRevision, Exactly ''      obsync:'',
     TokenRevision]"
  by code_simp

lemma release_lines_parts:
  "release_lines b [r1, r2, r3] =
    release_head @ (''  suspend: '' @ (if b then ''true'' else ''false'')) # release_middle @
    [''      naranjo-online:'', ''        tokenRevision: '' @ r1, ''      lidersea-com:'', ''        tokenRevision: '' @ r2,
     ''      obsync:'', ''        tokenRevision: '' @ r3]"
proof -
  have "replicate (Suc (Suc (Suc (Suc (Suc (Suc 0)))))) CHR '' '' = ''      ''" by simp
  then show ?thesis
    by (simp add: release_lines_def release_head_def release_middle_def release_entries_def connector_tree_def
        PUBLIC_CONNECTOR_SITES_def eval_nat_numeral)
qed

lemma meets_exactly: "list_all2 meets (map Exactly ls @ rs) xs \<longleftrightarrow> (\<exists>ys. xs = ls @ ys \<and> list_all2 meets rs ys)"
  by (induction ls arbitrary: xs) (auto simp: list_all2_Cons1)

lemma meets_suspend: "meets Suspend line \<longleftrightarrow> (\<exists>b. line = ''  suspend: '' @ (if b then ''true'' else ''false''))"
  by (auto simp: ex_bool_eq)

lemma meets_revision: "meets TokenRevision line \<longleftrightarrow> (\<exists>r. token_revision r \<and> line = ''        tokenRevision: '' @ r)"
proof
  assume "meets TokenRevision line"
  then have "startswith line ''        tokenRevision: ''" "token_revision (drop 23 line)" by simp_all
  moreover from startswith_rest [OF this(1)] have "line = ''        tokenRevision: '' @ drop 23 line"
    by (simp add: eval_nat_numeral)
  ultimately show "\<exists>r. token_revision r \<and> line = ''        tokenRevision: '' @ r" by blast
next
  assume "\<exists>r. token_revision r \<and> line = ''        tokenRevision: '' @ r"
  then show "meets TokenRevision line" by (auto simp: startswith_def eval_nat_numeral)
qed

lemma release_shape_lines:
  "require_exact_significant_lines s (helm_release_shape ''cloudflare-public'' cloudflare_contract) = Inr () \<longleftrightarrow>
    (\<exists>b r1 r2 r3. token_revision r1 \<and> token_revision r2 \<and> token_revision r3 \<and>
      filter significant (split_on newline_char s) = release_lines b [r1, r2, r3])"
proof -
  let ?shape = "helm_release_shape ''cloudflare-public'' cloudflare_contract"
  let ?lines = "filter significant (split_on newline_char s)"
  have "require_exact_significant_lines s ?shape = Inr () \<longleftrightarrow> list_all2 meets ?shape ?lines"
    by (auto simp: require_exact_significant_lines_def Let_def yaml_if_def yaml_error_def dest: list_all2_lengthD)
  moreover have "list_all2 meets ?shape xs \<longleftrightarrow>
      (\<exists>b r1 r2 r3. token_revision r1 \<and> token_revision r2 \<and> token_revision r3 \<and> xs = release_lines b [r1, r2, r3])" for xs
    unfolding shape_lines release_lines_parts meets_exactly list_all2_Cons1 list_all2_Nil meets_revision meets_suspend
      meets.simps(1)
    by (intro iffI; elim exE conjE; hypsubst; intro exI conjI; (rule refl | assumption))
  ultimately show ?thesis by blast
qed


lemma connector_flat:
  "flatten [] (connector_tree [r1, r2, r3]) =
    [([''connectors''], None), ([''connectors'', ''naranjo-online''], None),
     ([''connectors'', ''naranjo-online'', ''tokenRevision''], Some r1), ([''connectors'', ''lidersea-com''], None),
     ([''connectors'', ''lidersea-com'', ''tokenRevision''], Some r2), ([''connectors'', ''obsync''], None),
     ([''connectors'', ''obsync'', ''tokenRevision''], Some r3)]"
  by (simp add: connector_tree_def PUBLIC_CONNECTOR_SITES_def)

lemma connector_ok:
  "token_revision r1 \<Longrightarrow> token_revision r2 \<Longrightarrow> token_revision r3 \<Longrightarrow> tree_ok (connector_tree [r1, r2, r3])"
  by (simp add: connector_tree_def PUBLIC_CONNECTOR_SITES_def revision_scalar key_char_def byte_in_def is_digit_def)

lemma connector_parsed:
  assumes "token_revision r1" "token_revision r2" "token_revision r3"
    "filter significant part = tree_lines b (connector_tree [r1, r2, r3])"
  shows "parse_simple_mapping part b = Inr (flatten [] (connector_tree [r1, r2, r3]))"
proof -
  have "parse_simple_mapping (tree_lines b (connector_tree [r1, r2, r3])) b = Inr (flatten [] (connector_tree [r1, r2, r3]))"
    by (rule parse_tree_lines) (use assms connector_ok in \<open>simp_all add: connector_flat\<close>, simp add: connector_tree_def)
  then show ?thesis using parse_filter [of part b] assms(4) by simp
qed

lemma connectors_checked:
  "token_revision r1 \<Longrightarrow> token_revision r2 \<Longrightarrow> token_revision r3 \<Longrightarrow>
    check_values cloudflare_contract (flatten [] (connector_tree [r1, r2, r3])) = Inr ()"
  by (simp add: check_values_def cloudflare_contract_def RELEASE_CONTRACTS_def connector_flat PUBLIC_CONNECTOR_SITES_def
      yaml_if_def)

lemma cloudflare_release_reads:
  assumes "token_revision r1" "token_revision r2" "token_revision r3"
    "filter significant (split_on newline_char s) = release_lines b [r1, r2, r3]"
  shows "\<exists>t. cloudflare_release s = Inr \<lparr>suspended = b, release_values = flatten [] (connector_tree [r1, r2, r3]), values_text = t\<rparr> \<and>
    filter significant (split_on newline_char t) = tree_lines 0 (connector_tree [r1, r2, r3])"
proof -
  have shape: "require_exact_significant_lines s (helm_release_shape ''cloudflare-public'' cloudflare_contract) = Inr ()"
    unfolding release_shape_lines using assms by blast
  have namespace: "rc_namespace cloudflare_contract = ''cloudflare-public''"
    by (simp add: cloudflare_contract_def RELEASE_CONTRACTS_def)
  obtain lines first stop where place: "mapping_section s [''spec'', ''values''] = Inr (lines, first, stop, 4)"
    and whole: "lines = split_on newline_char s"
    and part: "filter significant (take (stop - first) (drop first lines)) = tree_lines 4 (connector_tree [r1, r2, r3])"
    using release_values_section [OF assms] by blast
  have "list_all (\<lambda>w. newline_char \<notin> set w) (take (stop - first) (drop first lines))"
    unfolding whole list_all_iff by (auto dest!: in_set_takeD in_set_dropD split_on_no_sep)
  from emitted_lines [OF connector_ok [OF assms(1-3)] part this] obtain rendered where
    rendered: "values_lines (take (stop - first) (drop first lines)) 4 = Inr rendered"
    "filter significant (split_on newline_char (trim_newlines (join [newline_char] rendered) @ [newline_char])) =
      tree_lines 0 (connector_tree [r1, r2, r3])"
    by (auto simp: connector_tree_def)
  note read = shape release_fields [OF assms] place connector_parsed [OF assms(1-3) part] rendered(1) connectors_checked [OF assms(1-3)]
  have flag: "bool_scalar (if b then ''true'' else ''false'') = Inr b"
    by (simp add: bool_scalar_def yaml_if_def)
  show ?thesis
    unfolding cloudflare_release_def helm_release_of_def require_scalar_def namespace
    by (simp only: read bind_simps yaml_if_def Let_def flag prod.case simp_thms if_False) (use rendered(2) in blast)
qed

lemma cloudflare_release_exact:
  "(\<exists>t. cloudflare_release s = Inr \<lparr>suspended = b, release_values = vals, values_text = t\<rparr>) \<longleftrightarrow>
    (\<exists>r1 r2 r3. token_revision r1 \<and> token_revision r2 \<and> token_revision r3 \<and>
      vals = flatten [] (connector_tree [r1, r2, r3]) \<and>
      filter significant (split_on newline_char s) = release_lines b [r1, r2, r3])"
proof
  assume "\<exists>t. cloudflare_release s = Inr \<lparr>suspended = b, release_values = vals, values_text = t\<rparr>"
  then obtain t where read: "cloudflare_release s = Inr \<lparr>suspended = b, release_values = vals, values_text = t\<rparr>" by blast
  then have "\<exists>u. require_exact_significant_lines s (helm_release_shape ''cloudflare-public'' cloudflare_contract) = Inr u"
    unfolding cloudflare_release_def helm_release_of_def bind_eq_Inr by blast
  then have "require_exact_significant_lines s (helm_release_shape ''cloudflare-public'' cloudflare_contract) = Inr ()" by simp
  then obtain b' r1 r2 r3 where r: "token_revision r1" "token_revision r2" "token_revision r3"
    "filter significant (split_on newline_char s) = release_lines b' [r1, r2, r3]"
    unfolding release_shape_lines by blast
  from cloudflare_release_reads [OF r] read have "b' = b" "vals = flatten [] (connector_tree [r1, r2, r3])" by auto
  with r show "\<exists>r1 r2 r3. token_revision r1 \<and> token_revision r2 \<and> token_revision r3 \<and>
      vals = flatten [] (connector_tree [r1, r2, r3]) \<and>
      filter significant (split_on newline_char s) = release_lines b [r1, r2, r3]" by blast
next
  assume "\<exists>r1 r2 r3. token_revision r1 \<and> token_revision r2 \<and> token_revision r3 \<and>
      vals = flatten [] (connector_tree [r1, r2, r3]) \<and>
      filter significant (split_on newline_char s) = release_lines b [r1, r2, r3]"
  then show "\<exists>t. cloudflare_release s = Inr \<lparr>suspended = b, release_values = vals, values_text = t\<rparr>"
    using cloudflare_release_reads by blast
qed

end
