(* ===== verification/PyRegex.thy ===== *)
theory PyRegex
  imports PyPattern
begin

text \<open>
  Python's \<open>re\<close> as a backtracking matcher: the matches of an expression from a
  position, in the order in which the engine tries them.  A text is its list of
  characters, each the string of its UTF-8 bytes.
\<close>

section \<open>Characters\<close>

text \<open>
  A byte that does not start a well-formed sequence is a character of its own: the
  lone surrogate that \<open>surrogateescape\<close> decodes it to.
\<close>

definition lead_width :: "char \<Rightarrow> nat" where
  "lead_width c = (if byte c < 192 then 1 else if byte c < 224 then 2 else if byte c < 240 then 3 else 4)"

definition char_width :: "string \<Rightarrow> nat" where
  "char_width s =
    (case s of [] \<Rightarrow> 1 | c # t \<Rightarrow> if utf8_valid (take (lead_width c) s) then lead_width c else 1)"

function characters :: "string \<Rightarrow> string list" where
  "characters [] = []"
| "characters (c # s) = take (char_width (c # s)) (c # s) # characters (drop (char_width (c # s)) (c # s))"
  by pat_completeness auto
termination
  by (relation "measure length") (auto simp: char_width_def lead_width_def)

lemma concat_characters [simp]: "concat (characters s) = s"
  by (induction s rule: characters.induct) auto

lemma characters_ascii: "is_ascii s \<Longrightarrow> characters s = map (\<lambda>c. [c]) s"
  by (induction s rule: characters.induct) (auto simp: char_width_def lead_width_def is_ascii_def)

section \<open>Expressions\<close>

datatype rx =
    Empty
  | One "string \<Rightarrow> bool"  \<comment> \<open>one character\<close>
  | Seq rx rx
  | Alt rx rx
  | Star bool rx  \<comment> \<open>\<open>*\<close>, or \<open>*?\<close> when not greedy\<close>
  | Cap string rx  \<comment> \<open>a group\<close>
  | LineStart  \<comment> \<open>\<open>^\<close> with \<open>re.M\<close>\<close>
  | LineEnd  \<comment> \<open>\<open>$\<close> with \<open>re.M\<close>\<close>
  | TextStart  \<comment> \<open>\<open>^\<close>\<close>
  | Dollar  \<comment> \<open>\<open>$\<close>: the end, or before a final newline\<close>
  | TextEnd  \<comment> \<open>\<open>\Z\<close>\<close>
  | NotBehind "string \<Rightarrow> bool"
  | NotAhead "string \<Rightarrow> bool"
  | Boundary "string \<Rightarrow> bool"  \<comment> \<open>\<open>\b\<close> for a class of word characters\<close>

record point =
  behind :: "string list"  \<comment> \<open>what has been read, backwards\<close>
  ahead :: "string list"
  groups :: "(string \<times> string) list"

definition nl :: string where "nl = [CHR 0x0A]"

definition guard_at :: "bool \<Rightarrow> point \<Rightarrow> point list" where
  "guard_at c p = (if c then [p] else [])"

fun iterate :: "bool \<Rightarrow> nat \<Rightarrow> (point \<Rightarrow> point list) \<Rightarrow> point \<Rightarrow> point list" where
  "iterate greedy 0 f p = [p]"
| "iterate greedy (Suc n) f p =
    (let more = concat (map (iterate greedy n f) (filter (\<lambda>q. length (ahead q) < length (ahead p)) (f p)))
     in if greedy then more @ [p] else p # more)"

definition text_between :: "point \<Rightarrow> point \<Rightarrow> string" where
  "text_between p q = concat (take (length (ahead p) - length (ahead q)) (ahead p))"

primrec runs :: "rx \<Rightarrow> point \<Rightarrow> point list" where
  "runs Empty p = [p]"
| "runs (One ok) p =
    (case ahead p of [] \<Rightarrow> [] | c # cs \<Rightarrow> if ok c then [p\<lparr>behind := c # behind p, ahead := cs\<rparr>] else [])"
| "runs (Seq a b) p = concat (map (runs b) (runs a p))"
| "runs (Alt a b) p = runs a p @ runs b p"
| "runs (Star greedy a) p = iterate greedy (length (ahead p)) (runs a) p"
| "runs (Cap name a) p = map (\<lambda>q. q\<lparr>groups := (name, text_between p q) # groups q\<rparr>) (runs a p)"
| "runs LineStart p = guard_at (behind p = [] \<or> hd (behind p) = nl) p"
| "runs LineEnd p = guard_at (ahead p = [] \<or> hd (ahead p) = nl) p"
| "runs TextStart p = guard_at (behind p = []) p"
| "runs Dollar p = guard_at (ahead p = [] \<or> ahead p = [nl]) p"
| "runs TextEnd p = guard_at (ahead p = []) p"
| "runs (NotBehind ok) p = guard_at (behind p = [] \<or> \<not> ok (hd (behind p))) p"
| "runs (NotAhead ok) p = guard_at (ahead p = [] \<or> \<not> ok (hd (ahead p))) p"
| "runs (Boundary ok) p =
    guard_at ((behind p \<noteq> [] \<and> ok (hd (behind p))) \<noteq> (ahead p \<noteq> [] \<and> ok (hd (ahead p)))) p"

definition start :: "string \<Rightarrow> point" where
  "start s = \<lparr>behind = [], ahead = characters s, groups = []\<rparr>"

definition rx_match :: "rx \<Rightarrow> string \<Rightarrow> point option" where
  "rx_match r s = (case runs r (start s) of [] \<Rightarrow> None | p # _ \<Rightarrow> Some p)"

definition rx_fullmatch :: "rx \<Rightarrow> string \<Rightarrow> point option" where
  "rx_fullmatch r s = (case filter (\<lambda>p. ahead p = []) (runs r (start s)) of [] \<Rightarrow> None | p # _ \<Rightarrow> Some p)"

definition group_of :: "point \<Rightarrow> string \<Rightarrow> string option" where
  "group_of p name = map_of (groups p) name"

text \<open>The positions of a text from one on, and the leftmost match.\<close>

fun search_from :: "rx \<Rightarrow> string list \<Rightarrow> string list \<Rightarrow> (string list \<times> point) option" where
  "search_from r before [] =
    (case runs r \<lparr>behind = before, ahead = [], groups = []\<rparr> of [] \<Rightarrow> None | q # _ \<Rightarrow> Some (before, q))"
| "search_from r before (c # cs) =
    (case runs r \<lparr>behind = before, ahead = c # cs, groups = []\<rparr> of
       q # _ \<Rightarrow> Some (before, q)
     | [] \<Rightarrow> search_from r (c # before) cs)"

definition rx_search :: "rx \<Rightarrow> string \<Rightarrow> bool" where
  "rx_search r s = (search_from r [] (characters s) \<noteq> None)"

text \<open>\<open>re.split\<close> for an expression that never matches the empty text.\<close>

fun split_fuel :: "nat \<Rightarrow> rx \<Rightarrow> string list \<Rightarrow> string list \<Rightarrow> string list" where
  "split_fuel 0 r before cs = [concat cs]"
| "split_fuel (Suc n) r before cs =
    (case search_from r before cs of
       None \<Rightarrow> [concat cs]
     | Some (at, q) \<Rightarrow>
         concat (take (length at - length before) cs) # split_fuel n r (behind q) (ahead q))"

definition rx_split :: "rx \<Rightarrow> string \<Rightarrow> string list" where
  "rx_split r s = split_fuel (Suc (length s)) r [] (characters s)"

text \<open>
  \<open>finditer\<close> from a position on, for an expression that never matches the empty text: each
  match is the text it covers and its final point.
\<close>

fun matches_fuel :: "nat \<Rightarrow> rx \<Rightarrow> string list \<Rightarrow> string list \<Rightarrow> (string \<times> point) list" where
  "matches_fuel 0 r before cs = []"
| "matches_fuel (Suc n) r before cs =
    (case search_from r before cs of
       None \<Rightarrow> []
     | Some (at, q) \<Rightarrow>
         (concat (rev (take (length (behind q) - length at) (behind q))), q) # matches_fuel n r (behind q) (ahead q))"

definition rx_find_from :: "rx \<Rightarrow> point \<Rightarrow> (string \<times> point) list" where
  "rx_find_from r p = matches_fuel (Suc (length (ahead p))) r (behind p) (ahead p)"

definition rx_findall :: "rx \<Rightarrow> string \<Rightarrow> string list" where
  "rx_findall r s = map fst (rx_find_from r (start s))"

definition rx_find_groups :: "rx \<Rightarrow> string \<Rightarrow> string \<Rightarrow> string list" where
  "rx_find_groups r name s =
    map (\<lambda>(m, q). case group_of q name of None \<Rightarrow> [] | Some g \<Rightarrow> g) (rx_find_from r (start s))"

definition rx_first :: "rx \<Rightarrow> string \<Rightarrow> point option" where
  "rx_first r s = map_option snd (search_from r [] (characters s))"

section \<open>Building blocks\<close>

definition ch :: "char \<Rightarrow> rx" where "ch c = One (\<lambda>x. x = [c])"

definition one_of :: "string \<Rightarrow> rx" where "one_of cs = One (\<lambda>x. \<exists>c \<in> set cs. x = [c])"

definition chars_where :: "(char \<Rightarrow> bool) \<Rightarrow> rx" where
  "chars_where ok = One (\<lambda>x. case x of [c] \<Rightarrow> ok c | _ \<Rightarrow> False)"

primrec lit :: "string \<Rightarrow> rx" where
  "lit [] = Empty"
| "lit (c # s) = Seq (ch c) (lit s)"

fun alts :: "rx list \<Rightarrow> rx" where
  "alts [] = One (\<lambda>x. False)"
| "alts [r] = r"
| "alts (r # rs) = Alt r (alts rs)"

fun seqs :: "rx list \<Rightarrow> rx" where
  "seqs [] = Empty"
| "seqs [r] = r"
| "seqs (r # rs) = Seq r (seqs rs)"

definition opt :: "rx \<Rightarrow> rx" where "opt r = Alt r Empty"
definition many :: "rx \<Rightarrow> rx" where "many r = Star True r"
definition some_of :: "rx \<Rightarrow> rx" where "some_of r = Seq r (many r)"

primrec times :: "nat \<Rightarrow> rx \<Rightarrow> rx" where
  "times 0 r = Empty"
| "times (Suc n) r = Seq r (times n r)"

primrec up_to :: "nat \<Rightarrow> rx \<Rightarrow> rx" where
  "up_to 0 r = Empty"
| "up_to (Suc n) r = Alt (Seq r (up_to n r)) Empty"

text \<open>\<open>\s\<close> and \<open>.\<close>.\<close>

definition space_char :: "string \<Rightarrow> bool" where
  "space_char x = (x \<noteq> [] \<and> strip x = [])"

definition white :: rx where "white = One space_char"
definition dot :: rx where "dot = One (\<lambda>x. x \<noteq> nl)"

text \<open>
  \<open>(?i)\<close>: a character is compared after folding the ASCII letters and the four others that
  fold to one: U+0130 and U+0131 to i, U+017F to s, U+212A to k.
\<close>

definition lower_char :: "char \<Rightarrow> char" where
  "lower_char c = (if byte_in 65 90 c then char_of (byte c + 32) else c)"

definition fold_letter :: "string \<Rightarrow> string" where
  "fold_letter x =
    (if x = [CHR 0xC4, CHR 0xB0] \<or> x = [CHR 0xC4, CHR 0xB1] then ''i''
     else if x = [CHR 0xC5, CHR 0xBF] then ''s''
     else if x = [CHR 0xE2, CHR 0x84, CHR 0xAA] then ''k''
     else map lower_char x)"

definition ci_where :: "(char \<Rightarrow> bool) \<Rightarrow> rx" where
  "ci_where ok = One (\<lambda>x. case fold_letter x of [c] \<Rightarrow> ok c | _ \<Rightarrow> False)"

primrec ci_lit :: "string \<Rightarrow> rx" where
  "ci_lit [] = Empty"
| "ci_lit (c # s) = Seq (ci_where (\<lambda>x. x = lower_char c)) (ci_lit s)"

definition at_least :: "nat \<Rightarrow> rx \<Rightarrow> rx" where "at_least n r = Seq (times n r) (many r)"
definition between :: "nat \<Rightarrow> nat \<Rightarrow> rx \<Rightarrow> rx" where "between m n r = Seq (times m r) (up_to (n - m) r)"

section \<open>Facts\<close>

text \<open>A run only reads forward: what is behind plus what is ahead is the text.\<close>

definition whole :: "point \<Rightarrow> string list" where
  "whole p = rev (behind p) @ ahead p"

lemma iterate_whole:
  "(\<And>p q. q \<in> set (f p) \<Longrightarrow> whole q = whole p \<and> length (ahead q) \<le> length (ahead p)) \<Longrightarrow>
   q \<in> set (iterate greedy n f p) \<Longrightarrow> whole q = whole p \<and> length (ahead q) \<le> length (ahead p)"
  by (induction n arbitrary: p) (fastforce simp: Let_def split: if_splits)+

lemma runs_whole: "q \<in> set (runs r p) \<Longrightarrow> whole q = whole p \<and> length (ahead q) \<le> length (ahead p)"
proof (induction r arbitrary: p q)
  case (One ok)
  then show ?case by (cases "ahead p") (auto simp: whole_def split: if_splits)
next
  case (Seq a b)
  then obtain u where "u \<in> set (runs a p)" "q \<in> set (runs b u)" by auto
  with Seq.IH show ?case by (metis le_trans)
next
  case (Alt a b)
  then show ?case by auto
next
  case (Star greedy a)
  from Star.prems have "q \<in> set (iterate greedy (length (ahead p)) (runs a) p)" by simp
  from iterate_whole [OF Star.IH this] show ?case by simp
next
  case (Cap name a)
  from Cap.prems obtain u where u: "u \<in> set (runs a p)"
    and q: "q = u\<lparr>groups := (name, text_between p u) # groups u\<rparr>" by auto
  from Cap.IH [OF u] show ?case by (simp add: q whole_def)
qed (simp_all add: guard_at_def split: if_splits)

end
