(* ===== verification/ReleaseTransition.thy ===== *)
theory ReleaseTransition
  imports ReleaseState PyRegex
begin

text \<open>
  scripts/validate_release_transition.py: the classification of the release state into
  a scaffold, a transition or a release, and the recognition of Secret documents.
\<close>

section \<open>Secret documents\<close>

definition top_level_yaml_lines :: "string \<Rightarrow> string list" where
  "top_level_yaml_lines document =
    (let lines = filter significant (splitlines document)
     in if lines = [] then []
        else let base = Min (set (map indent_of lines))
             in map (drop base) (filter (\<lambda>line. indent_of line = base) lines))"

definition kind_key :: rx where
  "kind_key = alts [lit ''kind'', lit [CHR 0x22, CHR ''k'', CHR ''i'', CHR ''n'', CHR ''d'', CHR 0x22],
     lit [CHR 0x27, CHR ''k'', CHR ''i'', CHR ''n'', CHR ''d'', CHR 0x27]]"

definition quoted :: "char \<Rightarrow> string \<Rightarrow> string" where "quoted q s = [q] @ s @ [q]"

definition secret_value :: rx where
  "secret_value = alts [lit ''Secret'', lit (quoted (CHR 0x22) ''Secret''), lit (quoted (CHR 0x27) ''Secret'')]"

definition BLOCK_KIND_KEY :: rx where
  "BLOCK_KIND_KEY = seqs [TextStart, kind_key, many white, lit '':'']"

definition BLOCK_SECRET_KIND :: rx where
  "BLOCK_SECRET_KIND =
    seqs [TextStart, kind_key, many white, lit '':'', many white, secret_value, many white,
      opt (seqs [lit ''#'', many dot]), Dollar]"

definition FLOW_SECRET_KIND :: rx where
  "FLOW_SECRET_KIND =
    seqs [Alt TextStart (one_of '',{''), many white, kind_key, many white, lit '':'', many white, secret_value, many white,
      Alt (one_of '',}'') Dollar]"

definition KIND_VALUE :: rx where
  "KIND_VALUE =
    seqs [TextStart, many white, kind_key, many white, lit '':'', many white, Cap ''1'' (Star False dot), many white,
      opt (seqs [lit ''#'', many dot]), Dollar]"

definition letter :: "string \<Rightarrow> bool" where
  "letter x = (case x of [c] \<Rightarrow> byte_in 65 90 c \<or> byte_in 97 122 c | _ \<Rightarrow> False)"

definition SECRET_WORD :: rx where
  "SECRET_WORD = seqs [NotBehind letter, lit ''Secret'', NotAhead letter]"

definition suspicious_value :: "string \<Rightarrow> bool" where
  "suspicious_value v =
    (rx_search SECRET_WORD v
      \<or> list_ex (\<lambda>c. startswith v [c]) [CHR ''!'', CHR 0x26, CHR ''*'', CHR ''|'', CHR ''>'', CHR ''['', CHR ''{'']
      \<or> ((startswith v [CHR 0x22] \<or> startswith v [CHR 0x27]) \<and> CHR 0x5C \<in> set v))"

definition suspicious_line :: "string \<Rightarrow> bool" where
  "suspicious_line line =
    (case rx_match KIND_VALUE line of
       None \<Rightarrow> False
     | Some p \<Rightarrow> (case group_of p ''1'' of None \<Rightarrow> False | Some v \<Rightarrow> suspicious_value v))"

definition secret_kind_state :: "string \<Rightarrow> bool \<times> bool" where
  "secret_kind_state document =
    (let kind_lines = filter (\<lambda>l. rx_match BLOCK_KIND_KEY l \<noteq> None) (top_level_yaml_lines document);
         secret_lines = filter (\<lambda>l. rx_fullmatch BLOCK_SECRET_KIND l \<noteq> None) kind_lines;
         flow_secret = rx_search FLOW_SECRET_KIND document;
         secret_like = (secret_lines \<noteq> [] \<or> flow_secret \<or> list_ex suspicious_line (splitlines document))
     in (secret_like, secret_like \<and> \<not> flow_secret \<and> kind_lines = [''kind: Secret'']))"

definition DOCUMENT_SEPARATOR :: rx where
  "DOCUMENT_SEPARATOR = seqs [LineStart, lit ''---'', many white, LineEnd]"

definition contains_secret_document :: "string \<Rightarrow> bool" where
  "contains_secret_document s = list_ex (\<lambda>d. fst (secret_kind_state d)) (rx_split DOCUMENT_SEPARATOR s)"

section \<open>The plan\<close>

datatype phase = Initial | Staged | Active
datatype release_mode = Scaffold | Transition | Release

record transition_plan =
  plan_mode :: release_mode
  cloudflare_public :: phase
  platform_suspended :: bool

definition any_workload_active :: "transition_plan \<Rightarrow> bool" where
  "any_workload_active plan = (cloudflare_public plan = Active \<or> \<not> platform_suspended plan)"

definition CLOUDFLARE_RELEASE_KUSTOMIZATION :: string where
  "CLOUDFLARE_RELEASE_KUSTOMIZATION = ''kubernetes/platform/cloudflare-public/release/kustomization.yaml''"

definition require_secretless_public_release :: "release_tree \<Rightarrow> unit res" where
  "require_secretless_public_release root =
    bind (read_canonical_text False (tree_file root CLOUDFLARE_RELEASE_KUSTOMIZATION)) (\<lambda>s.
    yaml_if (filter significant (split_on newline_char s) \<noteq>
        [''apiVersion: kustomize.config.k8s.io/v1beta1'', ''kind: Kustomization'', ''resources:'', ''  - source.yaml'',
         ''  - release.yaml''])
      ''public release Kustomization is outside the closed resource inventory'' (Inr ()))"

text \<open>\<open>str(values[path]) not in {"not-configured", "UNRESOLVED"}\<close>.\<close>

definition configured_flag :: "flat \<Rightarrow> string \<Rightarrow> bool res" where
  "configured_flag values site =
    (case map_of values [''connectors'', site, ''tokenRevision''] of
       None \<Rightarrow> Inl KeyError
     | Some v \<Rightarrow> Inr (case v of None \<Rightarrow> True | Some s \<Rightarrow> s \<noteq> ''not-configured'' \<and> s \<noteq> ''UNRESOLVED''))"

definition cloudflare_phase :: "release_tree \<Rightarrow> bool \<Rightarrow> phase res" where
  "cloudflare_phase root platform_stopped =
    bind (load_helm_release root ''cloudflare-public'') (\<lambda>release.
    bind (map_res (configured_flag (release_values release)) PUBLIC_CONNECTOR_SITES) (\<lambda>flags.
    yaml_if (length (remdups flags) \<noteq> 1) ''connector token revisions must be uniformly configured'' (
    let configured = hd flags
    in bind (require_secretless_public_release root) (\<lambda>_.
       if suspended release \<and> \<not> configured then Inr Initial
       else if suspended release \<and> configured then Inr Staged
       else if \<not> suspended release \<and> configured \<and> \<not> platform_stopped then Inr Active
       else yaml_error ''cloudflare release state is unsafe''))))"

definition classify :: "release_tree \<Rightarrow> transition_plan res" where
  "classify root =
    bind (load_parent_suspension root ''cloudflare-public'') (\<lambda>stopped.
    bind (cloudflare_phase root stopped) (\<lambda>found.
    Inr \<lparr>plan_mode = (if found = Initial \<and> stopped then Scaffold
                       else if found = Active \<and> \<not> stopped then Release else Transition),
         cloudflare_public = found, platform_suspended = stopped\<rparr>))"

definition mode_name :: "release_mode \<Rightarrow> string" where
  "mode_name m = (case m of Scaffold \<Rightarrow> ''scaffold'' | Transition \<Rightarrow> ''transition'' | Release \<Rightarrow> ''release'')"

definition phase_name :: "phase \<Rightarrow> string" where
  "phase_name p = (case p of Initial \<Rightarrow> ''initial'' | Staged \<Rightarrow> ''staged'' | Active \<Rightarrow> ''active'')"

definition bool_name :: "bool \<Rightarrow> string" where "bool_name b = (if b then ''true'' else ''false'')"

definition print_plan :: "transition_plan \<Rightarrow> string list" where
  "print_plan plan =
    [''mode='' @ mode_name (plan_mode plan), ''cloudflare-public='' @ phase_name (cloudflare_public plan),
     ''platform-services-suspended='' @ bool_name (platform_suspended plan),
     ''any-workload-active='' @ bool_name (any_workload_active plan)]"

datatype transition_command = SelectMode | Plan release_mode

definition transition_main :: "release_tree \<Rightarrow> transition_command \<Rightarrow> (nat \<times> string list) res" where
  "transition_main root cmd =
    (case bind (classify root) (\<lambda>plan.
            case cmd of
              SelectMode \<Rightarrow> Inr [mode_name (plan_mode plan)]
            | Plan expected \<Rightarrow>
                yaml_if (plan_mode plan \<noteq> expected) ''release mode changed between checks'' (Inr (print_plan plan))) of
       Inr lines \<Rightarrow> Inr (0, lines)
     | Inl (ValueError m) \<Rightarrow> Inr (1, [])
     | Inl OSError \<Rightarrow> Inr (1, [])
     | Inl UnicodeDecodeError \<Rightarrow> Inr (1, [])
     | Inl e \<Rightarrow> Inl e)"

end
