(* ===== verification/ReleaseProps.thy ===== *)
theory ReleaseProps
  imports ReleaseContract ReleaseTransition
begin

text \<open>
  What the release-state readers promise: the file they read did not change under them,
  the closed contract, the mappings they emit, and the classification of the tree.
\<close>

section \<open>The file\<close>

lemma read_chunks_bound: "read_chunks offer k n = Inr s \<Longrightarrow> length s \<le> n"
proof (induction offer k n arbitrary: s rule: read_chunks.induct)
  case (1 offer k n)
  show ?case
  proof (cases "n = 0")
    case True
    with "1.prems" show ?thesis by (simp add: read_chunks.simps [of offer k 0])
  next
    case False
    with "1.prems" obtain bytes where bytes: "offer k = Inr bytes"
      by (auto simp: read_chunks.simps [of offer k n])
    let ?c = "take (min 65536 n) bytes"
    show ?thesis
    proof (cases "?c = []")
      case True
      with "1.prems" False bytes show ?thesis by (simp add: read_chunks.simps [of offer k n])
    next
      case nonempty: False
      from "1.prems" False bytes nonempty have "bind (read_chunks offer (k + 1) (n - length ?c)) (\<lambda>rest. Inr (?c @ rest)) = Inr s"
        by (simp add: read_chunks.simps [of offer k n] Let_def del: bind_eq_Inr length_take take_eq_Nil)
      then obtain rest where
        rest: "read_chunks offer (k + 1) (n - length ?c) = Inr rest" and s: "s = ?c @ rest"
        by (auto simp del: length_take)
      from "1.IH" [OF False bytes refl nonempty rest] s show ?thesis by auto
    qed
  qed
qed

lemma yaml_if_eq_Inr: "yaml_if c m k = Inr y \<longleftrightarrow> \<not> c \<and> k = Inr y"
  by (simp add: yaml_if_def yaml_error_def)

text \<open>All observations of the file agree, and the bytes are all of it.\<close>

definition undisturbed :: "observation \<Rightarrow> string \<Rightarrow> bool" where
  "undisturbed file s =
    (resolves_before file = Inr True \<and> resolves_after file = Inr True \<and>
      (case (lstat_before file, opened file, fstat_after file, lstat_after file) of
         (Inr before, Inr held, Inr after_read, Inr after) \<Rightarrow>
           st_regular before \<and> st_regular held \<and> st_regular after \<and>
           same_identity held before \<and> same_identity after_read before \<and> same_identity after before \<and>
           st_size before = int (length s)
       | _ \<Rightarrow> False))"

lemma observed_bytes:
  assumes "observe_bytes file = Inr s"
  shows "undisturbed file s" "0 < length s" "length s \<le> MAX_RELEASE_YAML_BYTES"
proof -
  from assms obtain before held after_read after where obs:
    "resolves_before file = Inr True" "lstat_before file = Inr before" "opened file = Inr held"
    "fstat_after file = Inr after_read" "lstat_after file = Inr after" "resolves_after file = Inr True"
    and regular: "st_regular before" "st_regular held" "st_regular after"
    and same: "same_identity held before" "same_identity after_read held" "same_identity after held"
    and size: "\<not> (st_size before \<le> 0 \<or> st_size before > int MAX_RELEASE_YAML_BYTES)" "int (length s) = st_size held"
    unfolding observe_bytes_def bind_eq_Inr yaml_if_eq_Inr
    by (auto simp: yaml_if_eq_Inr yaml_error_def split: if_splits)
  from same have "same_identity after_read before" "same_identity after before" "st_size held = st_size before"
    by (simp_all add: same_identity_def)
  with obs regular same size show "undisturbed file s" "0 < length s" "length s \<le> MAX_RELEASE_YAML_BYTES"
    by (auto simp: undisturbed_def)
qed

lemma safe_bytes_observed: "safe_bytes file = Inr s \<Longrightarrow> observe_bytes file = Inr s"
  by (simp add: safe_bytes_def)

text \<open>
  the reader returns text only of an undisturbed regular file: every observation, before and after the read, is of
  the same device, inode, size and time, the path resolves to itself, the bytes are as many as the file's size, within
  the bound, end with a newline, are UTF-8 and hold no control character.
\<close>

theorem canonical_text_undisturbed:
  "case read_canonical_text allow file of
     Inl e \<Rightarrow> True
   | Inr s \<Rightarrow> undisturbed file s \<and> 0 < length s \<and> length s \<le> MAX_RELEASE_YAML_BYTES \<and>
       endswith s [newline_char] \<and> utf8_valid s \<and> control_free s"
proof (cases "read_canonical_text allow file")
  case (Inr s)
  then obtain bytes where bytes: "safe_bytes file = Inr bytes" and "canonical_text_of allow bytes = Inr s"
    unfolding read_canonical_text_def bind_eq_Inr by blast
  from this(2) have "s = bytes" "endswith s [newline_char]" "utf8_valid s" "control_free s"
    unfolding canonical_text_of_def yaml_if_eq_Inr by auto
  with Inr observed_bytes [OF safe_bytes_observed [OF bytes]] show ?thesis by simp
qed simp

lemma read_chunks_from:
  assumes "list_all (\<lambda>c. c \<noteq> [] \<and> length c \<le> 65536) cs" "length (concat cs) \<le> n"
    "offer = (\<lambda>i. Inr (if i < k + length cs then (pre @ cs) ! i else []))" "length pre = k"
  shows "read_chunks offer k n = Inr (concat cs)"
  using assms
proof (induction cs arbitrary: k n pre)
  case Nil
  then have "offer k = Inr []" by simp
  then show ?case by (simp add: read_chunks.simps [of offer k n])
next
  case (Cons c cs)
  have offer: "offer k = Inr c" using Cons.prems by (simp add: nth_append)
  have c: "take (min 65536 n) c = c" "c \<noteq> []" using Cons.prems by auto
  moreover from this(2) have "n \<noteq> 0" using Cons.prems(2) by (cases c) auto
  ultimately have c: "take (min 65536 n) c = c" "c \<noteq> []" "n \<noteq> 0" by blast+
  have "read_chunks offer (k + 1) (n - length c) = Inr (concat cs)"
    by (rule Cons.IH [of "n - length c" "k + 1" "pre @ [c]"]) (use Cons.prems in auto)
  with offer c show ?case by (simp add: read_chunks.simps [of offer k n] Let_def)
qed

text \<open>
  C15: however the operating system cuts a file into chunks of at most 65536 bytes, the read loop ends and returns
  the whole content when it fits the budget.
\<close>

theorem read_loop_complete:
  assumes "list_all (\<lambda>c. c \<noteq> [] \<and> length c \<le> 65536) cs" "length (concat cs) \<le> MAX_RELEASE_YAML_BYTES"
  shows "read_chunks (\<lambda>k. Inr (if k < length cs then cs ! k else [])) 0 (MAX_RELEASE_YAML_BYTES + 1) = Inr (concat cs)"
  by (rule read_chunks_from [where pre = "[]"]) (use assms in \<open>simp_all add: fun_eq_iff\<close>)

theorem read_loop_complete_witness:
  "read_chunks (\<lambda>k. Inr (if k < length [''kind: '', ''HelmRelease''] then [''kind: '', ''HelmRelease''] ! k else [])) 0
      (MAX_RELEASE_YAML_BYTES + 1) = Inr ''kind: HelmRelease''"
  using read_loop_complete [of "[''kind: '', ''HelmRelease'']"] by (simp add: MAX_RELEASE_YAML_BYTES_def)

section \<open>Mappings\<close>

text \<open>
  the mapping reader inverts the printer: a text whose lines, blank lines and comments aside, are those of a
  tree of canonical keys and scalars without a duplicate path is read as the paths of the tree in order.
\<close>

theorem mapping_roundtrip:
  assumes "tree_ok ts" "ts \<noteq> []" "distinct (map fst (flatten [] ts))" "filter significant lines = tree_lines b ts"
  shows "parse_simple_mapping lines b = Inr (flatten [] ts)"
  using parse_tree_lines [OF assms(1,3,2), of b] assms(4) parse_filter [of lines b] by simp

theorem mapping_roundtrip_witness:
  "parse_simple_mapping [''# values'', ''image:'', ''  tag: v1.2.3'', [], ''replicas: 2''] 0 =
    Inr [([''image''], None), ([''image'', ''tag''], Some ''v1.2.3''), ([''replicas''], Some ''2'')]"
proof -
  let ?ts = "[Node ''image'' [Leaf ''tag'' ''v1.2.3''], Leaf ''replicas'' ''2'']"
  have "filter significant [''# values'', ''image:'', ''  tag: v1.2.3'', [], ''replicas: 2''] = tree_lines 0 ?ts" by code_simp
  moreover have "tree_ok ?ts" by code_simp
  moreover have "distinct (map fst (flatten [] ?ts))" by code_simp
  moreover have "flatten [] ?ts = [([''image''], None), ([''image'', ''tag''], Some ''v1.2.3''), ([''replicas''], Some ''2'')]"
    by code_simp
  ultimately show ?thesis using mapping_roundtrip [of ?ts] by simp
qed

text \<open>
  C13: the HelmRelease reader accepts exactly the closed contract: it returns a suspension flag and values if and only if
  the lines of the text that are neither blank nor comments are the contract's lines for that flag and three
  canonical token revisions, and the values are the connectors' mapping of those revisions.
\<close>

theorem helm_release_contract:
  "(\<exists>t. helm_release_of ''cloudflare-public'' cloudflare_contract s =
      Inr \<lparr>suspended = b, release_values = vals, values_text = t\<rparr>) \<longleftrightarrow>
    (\<exists>r1 r2 r3. token_revision r1 \<and> token_revision r2 \<and> token_revision r3 \<and>
      vals = flatten [] (connector_tree [r1, r2, r3]) \<and>
      filter significant (split_on newline_char s) = release_lines b [r1, r2, r3])"
  using cloudflare_release_exact unfolding cloudflare_release_def .

text \<open>
  The values text the reader emits is itself a canonical mapping: read back at the outermost indentation it gives
  the values that were read from the release.
\<close>

theorem emitted_values_roundtrip:
  "case helm_release_of ''cloudflare-public'' cloudflare_contract s of
     Inl e \<Rightarrow> True
   | Inr st \<Rightarrow> parse_simple_mapping (split_on newline_char (values_text st)) 0 = Inr (release_values st)"
proof (cases "helm_release_of ''cloudflare-public'' cloudflare_contract s")
  case (Inr st)
  obtain b vals t where st: "st = \<lparr>suspended = b, release_values = vals, values_text = t\<rparr>" by (cases st)
  with Inr have "\<exists>t. cloudflare_release s = Inr \<lparr>suspended = b, release_values = vals, values_text = t\<rparr>"
    by (simp add: cloudflare_release_def)
  then obtain r1 r2 r3 where r: "token_revision r1" "token_revision r2" "token_revision r3"
    "filter significant (split_on newline_char s) = release_lines b [r1, r2, r3]"
    unfolding cloudflare_release_exact by blast
  from cloudflare_release_reads [OF r] Inr st
  have vals: "vals = flatten [] (connector_tree [r1, r2, r3])"
    and emitted: "filter significant (split_on newline_char t) = tree_lines 0 (connector_tree [r1, r2, r3])"
    by (auto simp: cloudflare_release_def)
  from connector_parsed [OF r(1-3) emitted] vals show ?thesis by (simp add: Inr st)
qed simp

section \<open>Classification\<close>

definition unconfigured :: "string \<Rightarrow> bool" where
  "unconfigured r = (r = ''not-configured'' \<or> r = ''UNRESOLVED'')"

lemma parent_suspended:
  "load_parent_suspension root ''cloudflare-public'' = Inr stopped \<longleftrightarrow> tree_reconciliation root = Inr False \<and> stopped"
  by (auto simp: load_parent_suspension_def contract_of_def RELEASE_CONTRACTS_def yaml_if_eq_Inr)

lemma release_loaded:
  "load_helm_release root ''cloudflare-public'' = Inr st \<longleftrightarrow>
    (\<exists>s. read_canonical_text False (tree_file root (rc_release cloudflare_contract)) = Inr s \<and> cloudflare_release s = Inr st)"
  by (simp add: load_helm_release_def contract_of_def cloudflare_contract_def RELEASE_CONTRACTS_def cloudflare_release_def)

lemma flags_read:
  "map_res (configured_flag (flatten [] (connector_tree [r1, r2, r3]))) PUBLIC_CONNECTOR_SITES =
    Inr (map (\<lambda>r. \<not> unconfigured r) [r1, r2, r3])"
  by (simp add: connector_flat PUBLIC_CONNECTOR_SITES_def configured_flag_def unconfigured_def)

lemma uniform_flags:
  "length (remdups (map (\<lambda>r. \<not> unconfigured r) [r1, r2, r3])) = 1 \<longleftrightarrow>
    list_all (\<lambda>r. unconfigured r = unconfigured r1) [r2, r3]"
  by auto

lemma classify_plan:
  "classify root = Inr plan \<longleftrightarrow>
    (\<exists>s r1 r2 r3. tree_reconciliation root = Inr False \<and>
      read_canonical_text False (tree_file root (rc_release cloudflare_contract)) = Inr s \<and>
      token_revision r1 \<and> token_revision r2 \<and> token_revision r3 \<and>
      filter significant (split_on newline_char s) = release_lines True [r1, r2, r3] \<and>
      require_secretless_public_release root = Inr () \<and>
      unconfigured r2 = unconfigured r1 \<and> unconfigured r3 = unconfigured r1 \<and>
      plan = (if unconfigured r1
              then \<lparr>plan_mode = Scaffold, cloudflare_public = Initial, platform_suspended = True\<rparr>
              else \<lparr>plan_mode = Transition, cloudflare_public = Staged, platform_suspended = True\<rparr>))"
  (is "_ \<longleftrightarrow> ?plan")
proof
  assume "classify root = Inr plan"
  then obtain found where parent: "tree_reconciliation root = Inr False" and found: "cloudflare_phase root True = Inr found"
    and plan: "plan = \<lparr>plan_mode = (if found = Initial then Scaffold else Transition), cloudflare_public = found,
      platform_suspended = True\<rparr>"
    unfolding classify_def bind_eq_Inr parent_suspended by auto
  from found obtain st flags where st: "load_helm_release root ''cloudflare-public'' = Inr st"
    and flags: "map_res (configured_flag (release_values st)) PUBLIC_CONNECTOR_SITES = Inr flags" "length (remdups flags) = 1"
    and secretless: "require_secretless_public_release root = Inr ()"
    and phase: "suspended st" "found = (if hd flags then Staged else Initial)"
    unfolding cloudflare_phase_def bind_eq_Inr yaml_if_eq_Inr Let_def
    by (auto simp: yaml_error_def split: if_splits)
  from st obtain s where s: "read_canonical_text False (tree_file root (rc_release cloudflare_contract)) = Inr s"
    "cloudflare_release s = Inr st" unfolding release_loaded by blast
  obtain b vals t where st': "st = \<lparr>suspended = b, release_values = vals, values_text = t\<rparr>" by (cases st)
  with s(2) have "\<exists>t. cloudflare_release s = Inr \<lparr>suspended = b, release_values = vals, values_text = t\<rparr>" by blast
  then obtain r1 r2 r3 where r: "token_revision r1" "token_revision r2" "token_revision r3"
    "vals = flatten [] (connector_tree [r1, r2, r3])"
    "filter significant (split_on newline_char s) = release_lines b [r1, r2, r3]"
    unfolding cloudflare_release_exact by blast
  have all: "flags = map (\<lambda>r. \<not> unconfigured r) [r1, r2, r3]"
    using flags(1) flags_read [of r1 r2 r3] by (simp add: st' r(4))
  from flags(2) have "list_all (\<lambda>r. unconfigured r = unconfigured r1) [r2, r3]"
    unfolding all uniform_flags .
  with parent s(1) r secretless phase plan st' all show ?plan by auto
next
  assume ?plan
  then obtain s r1 r2 r3 where parent: "tree_reconciliation root = Inr False"
    and s: "read_canonical_text False (tree_file root (rc_release cloudflare_contract)) = Inr s"
    and r: "token_revision r1" "token_revision r2" "token_revision r3"
      "filter significant (split_on newline_char s) = release_lines True [r1, r2, r3]"
    and secretless: "require_secretless_public_release root = Inr ()"
    and uniform: "unconfigured r2 = unconfigured r1" "unconfigured r3 = unconfigured r1"
    and plan: "plan = (if unconfigured r1
              then \<lparr>plan_mode = Scaffold, cloudflare_public = Initial, platform_suspended = True\<rparr>
              else \<lparr>plan_mode = Transition, cloudflare_public = Staged, platform_suspended = True\<rparr>)" by blast
  from cloudflare_release_reads [OF r] obtain t where
    "cloudflare_release s = Inr \<lparr>suspended = True, release_values = flatten [] (connector_tree [r1, r2, r3]), values_text = t\<rparr>"
    by blast
  with s have st: "load_helm_release root ''cloudflare-public'' =
      Inr \<lparr>suspended = True, release_values = flatten [] (connector_tree [r1, r2, r3]), values_text = t\<rparr>"
    unfolding release_loaded by blast
  have one: "length (remdups (map (\<lambda>r. \<not> unconfigured r) [r1, r2, r3])) = 1"
    unfolding uniform_flags using uniform by simp
  have parent': "load_parent_suspension root ''cloudflare-public'' = Inr True" using parent by (simp add: parent_suspended)
  have "cloudflare_phase root True = Inr (if unconfigured r1 then Initial else Staged)"
    unfolding cloudflare_phase_def st bind_simps helm_release_state.simps flags_read one secretless Let_def yaml_if_def
    by simp
  with parent' show "classify root = Inr plan" by (simp add: classify_def plan)
qed


end
