(* ===== verification/HistoryText.thy ===== *)
theory HistoryText
  imports PyRegex PyCodec ReleaseTransition
begin

text \<open>
  scripts/validate_publication_history.py: what makes a path or a text unpublishable.
  A text is the string of its bytes; a byte that is not part of well-formed UTF-8 is the
  surrogate that \<open>surrogateescape\<close> decodes it to.  The tables of the Unicode database for
  characters beyond ASCII are a parameter.
\<close>

section \<open>Characters\<close>

record unicode_data =
  fold_wide :: "string \<Rightarrow> string"  \<comment> \<open>the case folding of a character beyond ASCII\<close>
  word_wide :: "string \<Rightarrow> bool"  \<comment> \<open>whether it is alphanumeric\<close>

definition fold_symbol :: "unicode_data \<Rightarrow> string \<Rightarrow> string" where
  "fold_symbol u x = (case x of [c] \<Rightarrow> [lower_char c] | _ \<Rightarrow> fold_wide u x)"

definition casefold :: "unicode_data \<Rightarrow> string \<Rightarrow> string" where
  "casefold u s = concat (map (fold_symbol u) (characters s))"

definition ascii_word :: "char \<Rightarrow> bool" where
  "ascii_word c = (byte_in 65 90 c \<or> byte_in 97 122 c \<or> is_digit c \<or> c = CHR ''_'')"

text \<open>\<open>\w\<close>.\<close>

definition word_symbol :: "unicode_data \<Rightarrow> string \<Rightarrow> bool" where
  "word_symbol u x = (case x of [c] \<Rightarrow> ascii_word c | _ \<Rightarrow> word_wide u x)"

definition upper :: "char \<Rightarrow> bool" where "upper c = byte_in 65 90 c"
definition lower :: "char \<Rightarrow> bool" where "lower c = byte_in 97 122 c"
definition alnum :: "char \<Rightarrow> bool" where "alnum c = (upper c \<or> lower c \<or> is_digit c)"

text \<open>Digits of lower-case hexadecimal.\<close>

definition low_hex :: "char \<Rightarrow> bool" where "low_hex c = (is_digit c \<or> byte_in 97 102 c)"

text \<open>The same for a character under \<open>(?i)\<close>.\<close>

definition ci_hex :: "string \<Rightarrow> bool" where
  "ci_hex x = (case fold_letter x of [c] \<Rightarrow> low_hex c | _ \<Rightarrow> False)"

section \<open>Paths\<close>

definition FORBIDDEN_COMPONENTS :: "string list" where
  "FORBIDDEN_COMPONENTS =
    [''.artifacts'', ''.cache'', ''.git'', ''.idea'', ''.ssh'', ''.terraform'', ''.vscode'', ''__pycache__'', ''coverage'',
     ''local-evidence'', ''node_modules'', ''results'']"

definition FORBIDDEN_FILE_PATTERNS :: "string list" where
  "FORBIDDEN_FILE_PATTERNS =
    [''.ds_store'', ''.env'', ''.env.*'', ''.gitleaksignore'', ''.terraformrc'', ''*.7z'', ''*.age'', ''*.agekey'', ''*.aes'',
     ''*.asc'', ''*.auto.tfvars'', ''*.auto.tfvars.json'', ''*.backend.hcl'', ''*.bak'', ''*.bz2'', ''*.cab'', ''*.bin'',
     ''*.blob'', ''*.ciphertext'', ''*.dec.*'', ''*.enc'', ''*.encrypted'', ''*.gpg'', ''*.gz'', ''*.key'', ''*.kubeconfig'',
     ''*.lz'', ''*.lz4'', ''*.p12'', ''*.pem'', ''*.pfx'', ''*.pgp'', ''*.plaintext.*'', ''*.pyc'', ''*.pyd'', ''*.pyo'',
     ''*.rar'', ''*.sarif'', ''*.sbom.json'', ''*.sops.env'', ''*.sops.ini'', ''*.sops.json'', ''*.swo'', ''*.swp'', ''*.tar'',
     ''*.tar.*'', ''*.tfbackend'', ''*.tfplan'', ''*.tfplan.json'', ''*.tgz'', ''*.tmp'', ''*.token'', ''*.txz'', ''*.xz'',
     ''*.zip'', ''*.zst'', ''*~'', ''cloudflared-token*'', ''crash.*.log'', ''crash.log'', ''id_ed25519*'', ''id_rsa*'',
     ''keys.txt'', ''known_hosts*'', ''kubeconfig*'', ''api-encryption-config.yaml'', ''encryption-config.yaml.local'',
     ''powershell_transcript.*.txt'', ''*.transcript.txt'', ''thumbs.db'', ''terraform.rc'', ''terraform.tfvars'',
     ''terraform.tfvars.json'']"

definition FORBIDDEN_EXACT_PATHS :: "string list" where
  "FORBIDDEN_EXACT_PATHS =
    [''bootstrap/pi/cni-manifest.local.yaml'', ''bootstrap/pi/decisions.env.local'',
     ''bootstrap/pi/encryption-config.yaml.local'', ''bootstrap/pi/images.lock.local'',
     ''bootstrap/pi/kubeadm-config.yaml.local'', ''bootstrap/pi/protected-legacy-runtime-evidence.local'',
     ''bootstrap/pi/protected-services.env.local'']"

definition ALLOWED_DIST_PATHS :: "string list" where
  "ALLOWED_DIST_PATHS =
    [''websites/lidersea.com/internal/web/dist/.gitkeep'', ''websites/naranjo.online/internal/web/dist/.gitkeep'']"

text \<open>\<open>fnmatch.fnmatchcase\<close> for patterns whose only wildcard is the star.\<close>

fun glob :: "string \<Rightarrow> string \<Rightarrow> bool" where
  "glob [] s = (s = [])"
| "glob (p # ps) [] = (p = CHR ''*'' \<and> glob ps [])"
| "glob (p # ps) (c # s) =
    (if p = CHR ''*'' then glob ps (c # s) \<or> glob (p # ps) s else p = c \<and> glob ps s)"

definition slash :: char where "slash = CHR 0x2F"
definition backslash :: char where "backslash = CHR 0x5C"

definition unsafe_path :: "string \<Rightarrow> bool" where
  "unsafe_path path =
    (path = [] \<or> startswith path [slash] \<or> backslash \<in> set path \<or> contains path [slash, slash]
      \<or> list_ex (\<lambda>part. part = [] \<or> part = ''.'' \<or> part = ''..'') (split_on slash path)
      \<or> list_ex (\<lambda>c. byte c < 32 \<or> byte c = 127) path)"

definition local_name :: "string \<Rightarrow> string \<Rightarrow> bool" where
  "local_name lowered name =
    (lowered \<in> set FORBIDDEN_EXACT_PATHS
      \<or> (contains name ''cloudflare'' \<and> contains name ''receipt'' \<and> endswith name ''.json'')
      \<or> endswith name ''.tfstate'' \<or> contains name ''.tfstate.''
      \<or> endswith name ''_override.tf'' \<or> endswith name ''_override.tf.json''
      \<or> name = ''override.tf'' \<or> name = ''override.tf.json'')"

definition sops_path :: "string \<Rightarrow> bool" where
  "sops_path lowered =
    rx_search (seqs [lit ''.sops.y'', opt (lit ''a''), lit ''ml'', Dollar]) lowered"

text \<open>\<open>[label] if condition\<close>, appended in the order of the source.\<close>

definition label_if :: "bool \<Rightarrow> string \<Rightarrow> string list" where
  "label_if c label = (if c then [label] else [])"

definition path_findings :: "unicode_data \<Rightarrow> string \<Rightarrow> string list" where
  "path_findings u path =
    (let lowered = casefold u path;
         components = split_on slash lowered;
         name = List.last components
     in label_if (unsafe_path path) ''unsafe path encoding''
      @ label_if (list_ex (\<lambda>c. c \<in> set FORBIDDEN_COMPONENTS) components) ''forbidden local-only path''
      @ label_if (name \<noteq> ''.env.example'' \<and> list_ex (\<lambda>pattern. glob pattern name) FORBIDDEN_FILE_PATTERNS)
          ''forbidden local-only path''
      @ label_if (local_name lowered name) ''forbidden local-only path''
      @ label_if (''dist'' \<in> set components \<and> lowered \<notin> set ALLOWED_DIST_PATHS) ''forbidden generated-output path''
      @ label_if (''apps'' \<in> set components \<or> ''clusters'' \<in> set components) ''forbidden repository layout''
      @ label_if (take 2 components = [''kubernetes'', ''homelab'']) ''forbidden repository layout''
      @ label_if (sops_path lowered) ''forbidden SOPS ciphertext path'')"

definition is_test_path :: "unicode_data \<Rightarrow> string \<Rightarrow> bool" where
  "is_test_path u path =
    (let components = split_on slash (casefold u path)
     in ''tests'' \<in> set components \<or> startswith (List.last components) ''test_'')"

section \<open>Addresses\<close>

definition digit_rx :: rx where "digit_rx = chars_where is_digit"

definition IPV4_LITERAL :: rx where
  "IPV4_LITERAL =
    (let edge = (\<lambda>x. case x of [c] \<Rightarrow> is_digit c \<or> c = CHR ''.'' | _ \<Rightarrow> False);
         octet = between 1 3 digit_rx
     in seqs [NotBehind edge, times 3 (seqs [octet, lit ''.'']), octet, NotAhead edge])"

definition IPV6_CANDIDATE :: rx where
  "IPV6_CANDIDATE =
    (let hex = One ci_hex;
         edge = (\<lambda>x. ci_hex x \<or> x = '':'');
         group = Seq (up_to 4 hex) (lit '':'')
     in seqs [NotBehind edge, between 2 7 group, up_to 4 hex, NotAhead edge])"

definition PUBLIC_NETWORK_IPV4 :: "string list" where
  "PUBLIC_NETWORK_IPV4 =
    [''0.0.0.0'', ''10.0.0.0'', ''10.42.0.0'', ''10.42.1.0'', ''10.43.0.0'', ''10.44.0.0'', ''10.99.0.0'', ''100.64.0.0'',
     ''127.0.0.0'', ''127.0.0.1'', ''169.254.0.0'', ''172.16.0.0'', ''192.168.0.0'', ''224.0.0.0'', ''240.0.0.0'']"

text \<open>The documentation networks are /24, so an address is in one if its first three octets are the network's.\<close>

definition DOCUMENTATION_IPV4 :: "nat list list" where
  "DOCUMENTATION_IPV4 = [[192, 0, 2], [198, 51, 100], [203, 0, 113]]"

definition SYNTHETIC_TEST_IPV4_OCTETS :: "nat list list" where
  "SYNTHETIC_TEST_IPV4_OCTETS =
    [[8, 8, 8, 8], [192, 168, 1, 10], [192, 168, 50, 0], [192, 168, 50, 1], [192, 168, 50, 10], [192, 168, 50, 11],
     [192, 168, 50, 20], [192, 168, 60, 1]]"

text \<open>\<open>ipaddress.ip_address\<close> on dotted digits: no leading zero and no octet above 255.\<close>

definition ipv4_octets :: "string \<Rightarrow> nat list option" where
  "ipv4_octets s =
    (let parts = split_on (CHR ''.'') s
     in if list_all (\<lambda>p. (p = ''0'' \<or> \<not> startswith p ''0'') \<and> read_nat p \<le> 255) parts then Some (map read_nat parts)
        else None)"

definition allowed_ipv4 :: "bool \<Rightarrow> string \<Rightarrow> bool" where
  "allowed_ipv4 is_test s =
    (case ipv4_octets s of
       None \<Rightarrow> True
     | Some octets \<Rightarrow>
         s \<in> set PUBLIC_NETWORK_IPV4 \<or> take 3 octets \<in> set DOCUMENTATION_IPV4
           \<or> (is_test \<and> octets \<in> set SYNTHETIC_TEST_IPV4_OCTETS))"

text \<open>
  \<open>ipaddress.ip_address\<close> on groups of hexadecimal digits and colons: the eight groups of
  the address.  At most one inner group may be empty, and it stands for the missing ones.
\<close>

definition hex_digit_value :: "char \<Rightarrow> nat" where
  "hex_digit_value c = (if is_digit c then byte c - 48 else byte (lower_char c) - 87)"

definition hextet :: "string \<Rightarrow> nat" where
  "hextet s = foldl (\<lambda>n c. 16 * n + hex_digit_value c) 0 s"

definition ipv6_groups :: "string \<Rightarrow> nat list option" where
  "ipv6_groups s =
    (let parts = split_on (CHR '':'') s;
         n = length parts;
         skips = filter (\<lambda>i. parts ! i = []) [1..<n - 1]
     in if n < 3 \<or> 9 < n \<or> 1 < length skips then None
        else case skips of
          [i] \<Rightarrow>
            let hi = (if hd parts = [] then i - 1 else i);
                lo = (if List.last parts = [] then n - i - 2 else n - i - 1)
            in if (hd parts = [] \<and> hi \<noteq> 0) \<or> (List.last parts = [] \<and> lo \<noteq> 0) \<or> 8 \<le> hi + lo then None
               else Some (map hextet (take hi parts) @ replicate (8 - (hi + lo)) 0 @ map hextet (drop (n - lo) parts))
        | _ \<Rightarrow>
            if n \<noteq> 8 \<or> hd parts = [] \<or> List.last parts = [] then None else Some (map hextet parts))"

text \<open>Unspecified, loopback or in 2001:db8::/32.\<close>

definition harmless_ipv6 :: "nat list \<Rightarrow> bool" where
  "harmless_ipv6 gs =
    (gs = replicate 8 0 \<or> gs = replicate 7 0 @ [1] \<or> take 2 gs = [0x2001, 0xDB8])"

definition has_forbidden_ipv6 :: "string \<Rightarrow> bool" where
  "has_forbidden_ipv6 text =
    list_ex (\<lambda>candidate. case ipv6_groups candidate of None \<Rightarrow> False | Some gs \<Rightarrow> \<not> harmless_ipv6 gs)
      (rx_findall IPV6_CANDIDATE text)"

end
