(* ===== verification/HistoryContent.thy ===== *)
theory HistoryContent
  imports HistoryText Complex_Main
begin

text \<open>
  scripts/validate_publication_history.py: the patterns of content that must not be
  published, the coverage badge, media files and opaque artifacts.
\<close>

section \<open>Prohibited content\<close>

definition quote_rx :: rx where "quote_rx = one_of [CHR 0x22, CHR 0x27]"
definition alnum_rx :: rx where "alnum_rx = chars_where alnum"
definition b64_rx :: rx where "b64_rx = chars_where (\<lambda>c. alnum c \<or> c = CHR ''+'' \<or> c = slash)"
definition token_rx :: rx where "token_rx = chars_where (\<lambda>c. alnum c \<or> c \<in> set ''_+-'' \<or> c = slash)"
definition ci_token_rx :: rx where "ci_token_rx = ci_where (\<lambda>c. alnum c \<or> c \<in> set ''_+-'' \<or> c = slash)"
definition assign_rx :: rx where "assign_rx = seqs [opt quote_rx, many white, one_of '':='', many white]"

definition PROHIBITED_CONTENT_PATTERNS :: "unicode_data \<Rightarrow> (string \<times> rx) list" where
  "PROHIBITED_CONTENT_PATTERNS u =
    (let b = Boundary (word_symbol u)
     in [(''age private identity'',
          seqs [lit ''AGE-SECRET-KEY-'', opt (lit ''PQ-''), lit ''1'', some_of (chars_where (\<lambda>c. upper c \<or> is_digit c))]),
         (''private key block'',
          seqs [lit ''-----BEGIN '',
            alts [seqs [many (chars_where (\<lambda>c. upper c \<or> is_digit c \<or> c = CHR '' '')), lit ''PRIVATE KEY''],
              lit ''PGP PRIVATE KEY BLOCK''],
            lit ''-----'']),
         (''GitHub classic token'', seqs [b, lit ''gh'', one_of ''pousr'', lit ''_'', at_least 20 alnum_rx, b]),
         (''GitHub fine-grained token'',
          seqs [b, lit ''github_pat_'', at_least 20 (chars_where (\<lambda>c. alnum c \<or> c = CHR ''_'')), b]),
         (''AWS access key'', seqs [b, lit ''AKIA'', times 16 (chars_where (\<lambda>c. is_digit c \<or> upper c)), b]),
         (''prefixed Cloudflare API credential'',
          seqs [b, alts [lit ''cfk'', lit ''cfut'', lit ''cfat''], lit ''_'', times 40 alnum_rx,
            times 8 (chars_where (\<lambda>c. is_digit c \<or> byte_in 65 70 c \<or> byte_in 97 102 c)), b]),
         (''literal Cloudflare API token'',
          seqs [b, ci_lit ''cloudflare_api_token'', b, assign_rx, opt quote_rx, at_least 20 ci_token_rx, opt quote_rx]),
         (''Cloudflare bearer credential'',
          seqs [b, ci_lit ''authorization'', b, opt quote_rx, many white, lit '':'', many white, opt quote_rx, ci_lit ''bearer'',
            some_of white, at_least 20 (ci_where (\<lambda>c. alnum c \<or> c \<in> set ''._~+-'' \<or> c = slash))]),
         (''Cloudflare Tunnel runtime token'',
          seqs [b, opt (seqs [ci_lit ''cloudflared'', opt (one_of ''_ -'')]), ci_lit ''tunnel'', opt (one_of ''_ -''),
            ci_lit ''token'', b, assign_rx, opt quote_rx,
            alts [seqs [ci_lit ''eyJ'', at_least 20 (ci_where (\<lambda>c. alnum c \<or> c = CHR ''+'' \<or> c = slash)), up_to 2 (lit ''='')],
              at_least 80 ci_token_rx],
            opt quote_rx]),
         (''bare Cloudflare Tunnel runtime token'', seqs [lit ''eyJ'', between 77 4093 b64_rx, up_to 2 (lit ''='')]),
         (''local Cloudflare token receipt'',
          seqs [quote_rx, ci_lit ''schema'', quote_rx, many white, lit '':'', many white, quote_rx,
            ci_lit ''cloudflare-phase-token-receipt-v'', one_of ''12'', quote_rx])])"

definition ENCRYPTION_CONFIGURATION_SENTINEL :: string where
  "ENCRYPTION_CONFIGURATION_SENTINEL = ''REPLACE_BASE64_32_BYTE_KEY''"

definition blank :: rx where "blank = one_of [CHR '' '', CHR 0x09]"

definition spelled :: "string \<Rightarrow> rx" where
  "spelled s = alts [lit (quoted (CHR 0x22) s), lit (quoted (CHR 0x27) s), lit s]"

definition rest_comment :: rx where
  "rest_comment = seqs [many blank, opt (seqs [lit ''#'', many dot]), LineEnd]"

definition ENCRYPTION_CONFIGURATION_KIND :: rx where
  "ENCRYPTION_CONFIGURATION_KIND =
    seqs [LineStart, many blank, alts [lit (quoted (CHR 0x22) ''kind''), lit (quoted (CHR 0x27) ''kind''), lit ''kind''],
      many blank, lit '':'', many blank, spelled ''EncryptionConfiguration'', rest_comment]"

definition SECRETBOX_PROVIDER :: rx where
  "SECRETBOX_PROVIDER =
    seqs [LineStart, many blank, opt (seqs [lit ''-'', some_of blank]), spelled ''secretbox'', many blank, lit '':'']"

definition SECRETBOX_SECRET_SCALAR :: rx where
  "SECRETBOX_SECRET_SCALAR =
    seqs [LineStart, many blank, spelled ''secret'', many blank, lit '':'', many blank,
      Cap ''value'' (Star False (One (\<lambda>x. x \<noteq> ''#'' \<and> x \<noteq> [CHR 0x0D] \<and> x \<noteq> nl))), rest_comment]"

definition ENCRYPTION_SEPARATOR :: rx where
  "ENCRYPTION_SEPARATOR = seqs [LineStart, many blank, lit ''---'', many blank, opt (seqs [lit ''#'', many dot]), LineEnd]"

definition unquote_scalar :: "string \<Rightarrow> string" where
  "unquote_scalar s =
    (let v = strip s
     in if 2 \<le> length v \<and> (hd v = CHR 0x27 \<or> hd v = CHR 0x22) \<and> List.last v = hd v then strip (butlast (tl v)) else v)"

definition concrete_secret :: "string \<Rightarrow> bool" where
  "concrete_secret s = (unquote_scalar s \<noteq> [] \<and> unquote_scalar s \<noteq> ENCRYPTION_CONFIGURATION_SENTINEL)"

definition plaintext_document :: "string \<Rightarrow> bool" where
  "plaintext_document document =
    (rx_search ENCRYPTION_CONFIGURATION_KIND document \<and>
      (case rx_first SECRETBOX_PROVIDER document of
         None \<Rightarrow> False
       | Some provider \<Rightarrow>
           list_ex (\<lambda>(m, q). concrete_secret (case group_of q ''value'' of None \<Rightarrow> [] | Some v \<Rightarrow> v))
             (rx_find_from SECRETBOX_SECRET_SCALAR provider)))"

definition contains_plaintext_encryption_configuration :: "string \<Rightarrow> bool" where
  "contains_plaintext_encryption_configuration text =
    list_ex plaintext_document (rx_split ENCRYPTION_SEPARATOR (universal_newlines text))"

definition separator_rx :: rx where "separator_rx = some_of (one_of [backslash, slash])"

definition not_separator :: "string \<Rightarrow> bool" where
  "not_separator x = (x \<noteq> [backslash] \<and> x \<noteq> [slash] \<and> \<not> space_char x)"

definition LOCAL_PROFILE :: rx where
  "LOCAL_PROFILE =
    seqs [ci_where lower, lit '':'', separator_rx, ci_lit ''Users'', separator_rx, some_of (One not_separator)]"

definition WORKSPACE_PATH :: "unicode_data \<Rightarrow> rx" where
  "WORKSPACE_PATH u =
    seqs [ci_where lower, lit '':'', separator_rx, ci_lit ''dev'',
      alts [one_of [backslash, slash], Boundary (word_symbol u)]]"

definition UUID_IDENTIFIER :: rx where
  "UUID_IDENTIFIER =
    (let h = One ci_hex
     in seqs [NotBehind ci_hex, times 8 h, lit ''-'', times 3 (seqs [times 4 h, lit ''-'']), times 12 h, NotAhead ci_hex])"

definition EMAIL_ADDRESS :: "unicode_data \<Rightarrow> rx" where
  "EMAIL_ADDRESS u =
    seqs [Boundary (word_symbol u), some_of (ci_where (\<lambda>c. alnum c \<or> c \<in> set ''._%+-'')), lit ''@'',
      some_of (ci_where (\<lambda>c. alnum c \<or> c \<in> set ''.-'')), lit ''.'', at_least 2 (ci_where lower), Boundary (word_symbol u)]"

definition low_hex_symbol :: "string \<Rightarrow> bool" where
  "low_hex_symbol x = (case x of [c] \<Rightarrow> low_hex c | _ \<Rightarrow> False)"

definition OPAQUE_32_HEX :: rx where
  "OPAQUE_32_HEX = seqs [NotBehind low_hex_symbol, times 32 (One low_hex_symbol), NotAhead low_hex_symbol]"

definition SYNTHETIC_32_HEX :: "string list" where
  "SYNTHETIC_32_HEX =
    [replicate 32 CHR ''1'', replicate 32 CHR ''2'', replicate 32 CHR ''3'', ''0123456789abcdef'' @ ''0123456789abcdef'']"

definition private_email :: "unicode_data \<Rightarrow> string \<Rightarrow> bool" where
  "private_email u address =
    (let lowered = casefold u address in endswith lowered ''.invalid'' \<or> endswith lowered ''@users.noreply.github.com'')"

text \<open>The path is inspected with the text; the encryption configuration is looked for in the text alone.\<close>

definition text_findings :: "unicode_data \<Rightarrow> string \<Rightarrow> string \<Rightarrow> bool \<Rightarrow> string list" where
  "text_findings u text path is_test =
    (let inspected = text @ nl @ path
     in map fst (filter (\<lambda>(label, pattern). rx_search pattern inspected) (PROHIBITED_CONTENT_PATTERNS u))
      @ label_if (contains_plaintext_encryption_configuration text) ''plaintext Kubernetes API encryption configuration''
      @ label_if (rx_search LOCAL_PROFILE inspected \<or> rx_search (WORKSPACE_PATH u) inspected) ''local workstation path''
      @ label_if (list_ex (\<lambda>v. \<not> allowed_ipv4 is_test v) (rx_findall IPV4_LITERAL inspected))
          ''non-public host IPv4 address''
      @ label_if (has_forbidden_ipv6 inspected) ''non-public host IPv6 address''
      @ label_if (list_ex (\<lambda>v. v \<noteq> ''00000000-0000-0000-0000-000000000000'') (rx_findall UUID_IDENTIFIER inspected))
          ''machine or tunnel UUID''
      @ label_if (list_ex (\<lambda>a. \<not> private_email u a) (rx_findall (EMAIL_ADDRESS u) inspected)) ''non-private email address''
      @ label_if (list_ex (\<lambda>v. v \<notin> set SYNTHETIC_32_HEX) (rx_findall OPAQUE_32_HEX inspected))
          ''non-synthetic 32-hex identifier'')"

section \<open>The coverage badge\<close>

definition APPROVED_TEXT_BADGE_PATHS :: "string list" where "APPROVED_TEXT_BADGE_PATHS = [''docs/badges/coverage.svg'']"
definition MAX_TEXT_BADGE_BYTES :: nat where "MAX_TEXT_BADGE_BYTES = 2048"

definition dq :: string where "dq = [CHR 0x22]"

definition BADGE_REQUIRED_PREFIX :: string where
  "BADGE_REQUIRED_PREFIX = ''<svg xmlns='' @ dq @ ''http://www.w3.org/2000/svg'' @ dq @ '' ''"

definition BADGE_FORBIDDEN_FRAGMENTS :: "string list" where
  "BADGE_FORBIDDEN_FRAGMENTS =
    [''base64'', ''data:'', ''script'', ''href'', ''xlink'', ''import'', ''foreignobject'', ''<image'', ''<use'', ''url('',
     [CHR 0x26, CHR ''#''], ''http'', ''<!'', ''<?'']"

definition BADGE_ALLOWED_ELEMENTS :: "string list" where
  "BADGE_ALLOWED_ELEMENTS = [''svg'', ''title'', ''g'', ''rect'', ''text'']"

definition ELEMENT_NAME :: rx where
  "ELEMENT_NAME =
    seqs [lit ''<'', many white, opt (lit [slash]), many white,
      Cap ''1'' (seqs [chars_where (\<lambda>c. upper c \<or> lower c), many (chars_where (\<lambda>c. alnum c \<or> c = CHR ''-''))])]"

definition approved_badge_violation :: "string \<Rightarrow> bool" where
  "approved_badge_violation data =
    (let remainder = map lower_char (drop (length BADGE_REQUIRED_PREFIX) data)
     in length data > MAX_TEXT_BADGE_BYTES
      \<or> \<not> is_ascii data
      \<or> list_ex (\<lambda>c. byte c < 32 \<and> c \<noteq> CHR 0x0A) data
      \<or> \<not> startswith data BADGE_REQUIRED_PREFIX \<or> \<not> endswith data (''</svg>'' @ nl)
      \<or> list_ex (\<lambda>fragment. contains remainder fragment) BADGE_FORBIDDEN_FRAGMENTS
      \<or> list_ex (\<lambda>e. map lower_char e \<notin> set BADGE_ALLOWED_ELEMENTS) (rx_find_groups ELEMENT_NAME ''1'' data))"

section \<open>Media\<close>

definition bytes_of :: "nat list \<Rightarrow> string" where "bytes_of = map char_of"

definition starts_any :: "string \<Rightarrow> string list \<Rightarrow> bool" where
  "starts_any data = list_ex (startswith data)"

definition MEDIA_SUFFIXES :: "string list" where
  "MEDIA_SUFFIXES =
    [''.aac'', ''.avif'', ''.avi'', ''.bmp'', ''.flac'', ''.gif'', ''.heic'', ''.heif'', ''.ico'', ''.jpeg'', ''.jpg'', ''.m4a'',
     ''.mkv'', ''.mov'', ''.mp3'', ''.mp4'', ''.ogg'', ''.ogv'', ''.otf'', ''.png'', ''.svg'', ''.tif'', ''.tiff'', ''.ttf'',
     ''.wav'', ''.webm'', ''.webp'', ''.woff'', ''.woff2'']"

definition MAX_UI_ASSET_BYTES :: int where "MAX_UI_ASSET_BYTES = 1048576"
definition MAX_ASSET_TREE_BYTES :: int where "MAX_ASSET_TREE_BYTES = 2097152"

definition png_magic :: string where "png_magic = [CHR 0x89] @ ''PNG'' @ bytes_of [13, 10, 26, 10]"
definition jpeg_magic :: string where "jpeg_magic = bytes_of [255, 216, 255]"
definition ebml_magic :: string where "ebml_magic = bytes_of [26] @ ''E'' @ bytes_of [223, 163]"
definition truetype_magic :: string where "truetype_magic = bytes_of [0, 1, 0, 0]"
definition tiff_magic :: "string list" where "tiff_magic = [''II*'' @ bytes_of [0], ''MM'' @ bytes_of [0] @ ''*'']"

definition media_magic_matches :: "string \<Rightarrow> string \<Rightarrow> bool" where
  "media_magic_matches data ext =
    (if ext = ''.bmp'' then startswith data ''BM''
     else if ext = ''.png'' then startswith data png_magic
     else if ext \<in> set [''.jpg'', ''.jpeg''] then startswith data jpeg_magic
     else if ext = ''.gif'' then starts_any data [''GIF87a'', ''GIF89a'']
     else if ext \<in> set [''.ogg'', ''.ogv''] then startswith data ''OggS''
     else if ext = ''.flac'' then startswith data ''fLaC''
     else if ext = ''.mp3'' then starts_any data [''ID3'', bytes_of [255, 251], bytes_of [255, 243], bytes_of [255, 242]]
     else if ext \<in> set [''.mkv'', ''.webm''] then startswith data ebml_magic
     else if ext = ''.ico'' then startswith data (bytes_of [0, 0, 1, 0])
     else if ext \<in> set [''.woff'', ''.woff2'', ''.otf''] then starts_any data [''wOFF'', ''wOF2'', ''OTTO'']
     else if ext \<in> set [''.webp'', ''.wav'', ''.avi'']
     then startswith data ''RIFF'' \<and>
       take 4 (drop 8 data) = (if ext = ''.webp'' then ''WEBP'' else if ext = ''.wav'' then ''WAVE'' else ''AVI '')
     else if ext \<in> set [''.mp4'', ''.m4a'', ''.mov'', ''.avif'', ''.heic'', ''.heif'']
     then 12 \<le> length data \<and> take 4 (drop 4 data) = ''ftyp''
     else if ext = ''.ttf'' then startswith data truetype_magic
     else if ext \<in> set [''.tif'', ''.tiff''] then starts_any data tiff_magic
     else if ext = ''.aac''
     then 2 \<le> length data \<and> byte (data ! 0) = 0xFF \<and> byte (data ! 1) \<in> set [0xF0, 0xF1, 0xF8, 0xF9]
     else False)"

text \<open>\<open>bytes.lstrip()\<close>.\<close>

definition byte_space :: "char \<Rightarrow> bool" where "byte_space c = (c = CHR '' '' \<or> byte_in 9 13 c)"
definition lstrip_bytes :: "string \<Rightarrow> string" where "lstrip_bytes s = dropWhile byte_space s"

definition has_media_magic :: "string \<Rightarrow> bool" where
  "has_media_magic data =
    (let magic = take 64 data
     in starts_any magic
          ([png_magic, jpeg_magic, ''GIF87a'', ''GIF89a'', ''OggS'', ''fLaC'', ''ID3'', ebml_magic, truetype_magic, ''wOFF'',
            ''wOF2'', ''OTTO'', ''BM''] @ tiff_magic)
      \<or> (startswith magic ''RIFF'' \<and> take 4 (drop 8 magic) \<in> set [''WEBP'', ''WAVE'', ''AVI ''])
      \<or> (12 \<le> length magic \<and> take 4 (drop 4 magic) = ''ftyp'')
      \<or> startswith (map lower_char (lstrip_bytes magic)) ''<svg'')"

definition asset_scope :: "unicode_data \<Rightarrow> string \<Rightarrow> (string \<times> string) option" where
  "asset_scope u path =
    (let parts = split_on slash (casefold u path)
     in if length parts < 2 \<or> parts ! 1 \<notin> set [''naranjo.online'', ''lidersea.com''] then None
        else if 6 \<le> length parts \<and> parts ! 0 = ''websites'' \<and> take 3 (drop 2 parts) = [''frontend'', ''src'', ''assets'']
        then Some (parts ! 1, ''source'')
        else if 7 \<le> length parts \<and> parts ! 0 = ''websites''
          \<and> take 4 (drop 2 parts) = [''internal'', ''web'', ''dist'', ''assets'']
        then Some (parts ! 1, ''generated'')
        else None)"

section \<open>Opaque artifacts\<close>

definition ARCHIVE_OR_ENCRYPTION_MAGIC :: "string list" where
  "ARCHIVE_OR_ENCRYPTION_MAGIC =
    [''PK'' @ bytes_of [3, 4], ''PK'' @ bytes_of [5, 6], ''PK'' @ bytes_of [7, 8], bytes_of [31, 139], ''BZh'',
     bytes_of [253] @ ''7zXZ'' @ bytes_of [0], ''7z'' @ bytes_of [188, 175, 39, 28], ''Rar!'' @ bytes_of [26, 7],
     ''('' @ bytes_of [181] @ [CHR 0x2F] @ bytes_of [253], ''Salted__'', ''U2FsdGVkX1'', ''age-encryption.org/v1'',
     ''-----BEGIN AGE ENCRYPTED FILE-----'', ''-----BEGIN PGP MESSAGE-----'']"

text \<open>The logarithms of \<open>_entropy\<close> are the real ones; the source computes them in floating point.\<close>

definition entropy :: "string \<Rightarrow> real" where
  "entropy data =
    - (\<Sum>c \<leftarrow> remdups data. (real (count_list data c) / real (length data)) * log 2 (real (count_list data c) / real (length data)))"

definition printable_byte :: "char \<Rightarrow> bool" where
  "printable_byte c = (byte c \<in> set [9, 10, 13] \<or> byte_in 32 126 c)"

text \<open>\<open>Path(path).ext\<close>.\<close>

definition path_name :: "string \<Rightarrow> string" where
  "path_name path =
    (case filter (\<lambda>p. p \<noteq> [] \<and> p \<noteq> ''.'') (split_on slash path) of [] \<Rightarrow> [] | ps \<Rightarrow> List.last ps)"

definition path_suffix :: "string \<Rightarrow> string" where
  "path_suffix path =
    (let name = path_name path;
         tail = takeWhile (\<lambda>c. c \<noteq> CHR ''.'') (rev name);
         i = length name - length tail - 1
     in if CHR ''.'' \<in> set name \<and> 0 < i \<and> i < length name - 1 then drop i name else [])"

definition encoded_text :: "string \<Rightarrow> bool" where
  "encoded_text squeezed =
    (let b64 = (\<lambda>c. alnum c \<or> c = CHR ''+'' \<or> c = slash)
     in (takeWhile b64 squeezed \<noteq> [] \<and> dropWhile b64 squeezed \<in> set [[], ''='', ''==''])
      \<or> (squeezed \<noteq> [] \<and> list_all (\<lambda>c. is_digit c \<or> byte_in 65 70 c \<or> byte_in 97 102 c) squeezed))"

definition opaque_artifact_finding :: "unicode_data \<Rightarrow> string \<Rightarrow> string \<Rightarrow> string option" where
  "opaque_artifact_finding u data path =
    (let ext = casefold u (path_suffix path);
         valid_media = (ext \<in> set MEDIA_SUFFIXES \<and> media_magic_matches data ext);
         squeezed = filter (\<lambda>c. \<not> byte_space c) data
     in if starts_any data ARCHIVE_OR_ENCRYPTION_MAGIC
            \<or> (265 \<le> length data \<and> take 5 (drop 257 data) = ''ustar'')
            \<or> starts_any (lstrip_bytes data) [''age-encryption.org/v1'', ''-----BEGIN PGP MESSAGE-----'']
        then Some ''archive or encrypted artifact''
        else if (CHR 0x00 \<in> set data \<or> \<not> utf8_valid data) \<and> \<not> valid_media then Some ''opaque binary artifact''
        else if 512 \<le> length squeezed \<and> encoded_text squeezed then Some ''opaque encoded artifact''
        else if 1024 \<le> length data \<and> \<not> valid_media
            \<and> 4 * length (filter printable_byte data) < 3 * length data \<and> entropy data > 15 / 2
        then Some ''opaque high-entropy artifact''
        else None)"

end
