(* ===== verification/History.thy ===== *)
theory History
  imports HistoryContent PyText RecoverySelection
begin

text \<open>
  scripts/validate_publication_history.py: the walk over every commit that crosses the
  publication boundary.  Git is a parameter: what it prints for its arguments, in the
  repository it is asked in, and what \<open>cat-file --batch\<close> prints for a list of objects.
\<close>

section \<open>Limits and reports\<close>

definition MAX_OUTGOING_COMMITS :: nat where "MAX_OUTGOING_COMMITS = 256"
definition MAX_COMMIT_OBJECT_BYTES :: nat where "MAX_COMMIT_OBJECT_BYTES = 262144"
definition MAX_TREE_INVENTORY_BYTES :: nat where "MAX_TREE_INVENTORY_BYTES = 2097152"
definition MAX_ALL_TREE_INVENTORIES_BYTES :: nat where "MAX_ALL_TREE_INVENTORIES_BYTES = 33554432"
definition MAX_TREE_ENTRIES :: nat where "MAX_TREE_ENTRIES = 20000"
definition MAX_ALL_TREE_ENTRIES :: nat where "MAX_ALL_TREE_ENTRIES = 200000"
definition MAX_BLOB_BYTES :: int where "MAX_BLOB_BYTES = 2097152"
definition MAX_TREE_BYTES :: int where "MAX_TREE_BYTES = 16777216"
definition MAX_UNIQUE_BLOB_BYTES :: int where "MAX_UNIQUE_BLOB_BYTES = 67108864"
definition MAX_FINDINGS_REPORTED :: nat where "MAX_FINDINGS_REPORTED = 64"

definition validation_failure :: "'a res" where "validation_failure = Inl ValidationFailure"

definition fail_when :: "bool \<Rightarrow> 'a res \<Rightarrow> 'a res" where
  "fail_when c k = (if c then validation_failure else k)"

record report =
  finding_count :: nat
  messages :: "string list"

definition path_digest :: "string \<Rightarrow> string" where
  "path_digest raw_path = take 16 (sha256_hex raw_path)"

definition finding_message :: "string \<Rightarrow> string \<Rightarrow> string option \<Rightarrow> string" where
  "finding_message label commit raw_path =
    ''FAIL publication history: '' @ label @ ''; commit='' @ commit @
      (case raw_path of None \<Rightarrow> [] | Some p \<Rightarrow> ''; path_sha256='' @ path_digest p)"

definition add_finding :: "string \<Rightarrow> string option \<Rightarrow> string \<Rightarrow> report \<Rightarrow> report" where
  "add_finding commit raw_path label r =
    (let n = finding_count r + 1
     in if MAX_FINDINGS_REPORTED \<le> length (messages r) then r\<lparr>finding_count := n\<rparr>
        else r\<lparr>finding_count := n, messages := messages r @ [finding_message label commit raw_path]\<rparr>)"

definition add_findings :: "string \<Rightarrow> string option \<Rightarrow> string list \<Rightarrow> report \<Rightarrow> report" where
  "add_findings commit raw_path labels r = fold (add_finding commit raw_path) labels r"

section \<open>Git\<close>

text \<open>The variables that could redirect Git to another repository or configuration are dropped.\<close>

definition ambient_git_names :: "string list" where
  "ambient_git_names =
    [''GIT_ALTERNATE_OBJECT_DIRECTORIES'', ''GIT_COMMON_DIR'', ''GIT_CONFIG'', ''GIT_CONFIG_COUNT'', ''GIT_CONFIG_GLOBAL'',
     ''GIT_CONFIG_SYSTEM'', ''GIT_DIR'', ''GIT_INDEX_FILE'', ''GIT_OBJECT_DIRECTORY'', ''GIT_WORK_TREE'']"

definition redirects_git :: "string \<Rightarrow> bool" where
  "redirects_git name =
    (name \<in> set ambient_git_names \<or> startswith name ''GIT_CONFIG_KEY_'' \<or> startswith name ''GIT_CONFIG_VALUE_'')"

type_synonym variables = "string \<Rightarrow> string option"

definition git_environment :: "variables \<Rightarrow> variables" where
  "git_environment ambient =
    (\<lambda>name.
      if name = ''GIT_NO_REPLACE_OBJECTS'' then Some ''1''
      else if name = ''GIT_OPTIONAL_LOCKS'' then Some ''0''
      else if redirects_git name then None else ambient name)"

record git_world =
  git_in :: "variables \<Rightarrow> string \<Rightarrow> runner"  \<comment> \<open>under an environment, \<open>git -C <repository>\<close> with the arguments\<close>
  git_batch :: "variables \<Rightarrow> string \<Rightarrow> runner"  \<comment> \<open>\<open>cat-file --batch\<close>, the objects asked for, in order\<close>
  ambient_environment :: variables
  current_directory :: string
  resolved_directory :: "string \<Rightarrow> (string \<times> bool) res"  \<comment> \<open>the resolved path and whether it is a directory\<close>

definition GIT_ENVIRONMENT :: "git_world \<Rightarrow> variables" where
  "GIT_ENVIRONMENT w = git_environment (ambient_environment w)"

definition git_bytes_within :: "git_world \<Rightarrow> string \<Rightarrow> string list \<Rightarrow> nat \<Rightarrow> string res" where
  "git_bytes_within w repo args limit =
    (case git_in w (GIT_ENVIRONMENT w) repo args of
       Exited rc out err \<Rightarrow> fail_when (limit < length out) (fail_when (rc \<noteq> 0) (Inr out))
     | SpawnFailed \<Rightarrow> validation_failure
     | TimedOut \<Rightarrow> validation_failure)"

definition resolve_repository :: "git_world \<Rightarrow> string res" where
  "resolve_repository w =
    bind (git_bytes_within w (current_directory w) [''rev-parse'', ''--show-toplevel''] 4096) (\<lambda>raw_root.
    fail_when (\<not> utf8_valid raw_root) (
    bind (resolved_directory w (strip raw_root)) (\<lambda>(repo, is_dir).
    fail_when (\<not> is_dir) (Inr repo))))"

text \<open>\<open>[0-9a-f]{40}|[0-9a-f]{64}\<close>.\<close>

definition object_name :: "string \<Rightarrow> bool" where
  "object_name s = ((length s = 40 \<or> length s = 64) \<and> list_all low_hex s)"

definition resolve_commit :: "git_world \<Rightarrow> string \<Rightarrow> string \<Rightarrow> string res" where
  "resolve_commit w repo v =
    fail_when (\<not> object_name v) (
    bind (git_bytes_within w repo [''rev-parse'', ''--verify'', v @ ''^{commit}''] 128) (\<lambda>found.
    fail_when (\<not> is_ascii found) (fail_when (strip found \<noteq> v) (Inr v))))"

definition outgoing_commits :: "git_world \<Rightarrow> string \<Rightarrow> string \<Rightarrow> string \<Rightarrow> string list res" where
  "outgoing_commits w repo baseline candidate =
    bind (git_bytes_within w repo [''rev-list'', ''--reverse'', ''--topo-order'', baseline @ ''..'' @ candidate]
           ((MAX_OUTGOING_COMMITS + 1) * 65)) (\<lambda>listed.
    fail_when (\<not> is_ascii listed) (
    let commits = splitlines listed
    in fail_when (commits = [] \<or> MAX_OUTGOING_COMMITS < length commits) (
       fail_when (List.last commits \<noteq> candidate \<or> \<not> distinct commits) (
       fail_when (\<not> list_all object_name commits) (Inr commits)))))"

section \<open>Commit objects\<close>

text \<open>The text before and after the first empty line.\<close>

fun split_blank_line :: "string \<Rightarrow> (string \<times> string) option" where
  "split_blank_line (c # d # s) =
    (if c = CHR 0x0A \<and> d = CHR 0x0A then Some ([], s)
     else map_option (\<lambda>(h, m). (c # h, m)) (split_blank_line (d # s)))"
| "split_blank_line s = None"

definition header_count :: "string \<Rightarrow> string \<Rightarrow> nat" where
  "header_count name header =
    length (filter (\<lambda>line. startswith line name) (split_on newline_char (universal_newlines header)))"

definition commit_labels :: "unicode_data \<Rightarrow> string \<Rightarrow> string \<Rightarrow> string list" where
  "commit_labels u metadata message =
    label_if (\<not> utf8_valid metadata) ''commit metadata is not UTF-8''
    @ map (\<lambda>label. ''commit metadata '' @ label) (text_findings u metadata [] False)
    @ (case opaque_artifact_finding u message [] of None \<Rightarrow> [] | Some label \<Rightarrow> [''commit metadata '' @ label])"

definition commit_metadata :: "git_world \<Rightarrow> unicode_data \<Rightarrow> string \<Rightarrow> string \<Rightarrow> report \<Rightarrow> report res" where
  "commit_metadata w u repo commit r =
    bind (git_bytes_within w repo [''cat-file'', ''commit'', commit] MAX_COMMIT_OBJECT_BYTES) (\<lambda>metadata.
    fail_when (CHR 0x00 \<in> set metadata) (
    case split_blank_line metadata of
      None \<Rightarrow> validation_failure
    | Some (header, message) \<Rightarrow>
        fail_when (header_count ''author '' header \<noteq> 1 \<or> header_count ''committer '' header \<noteq> 1)
          (Inr (add_findings commit None (commit_labels u metadata message) r))))"

section \<open>Tree inventories\<close>

record tree_entry =
  raw_path :: string
  relative_path :: string
  entry_oid :: string
  entry_size :: int

record tree_state =
  tree_report :: report
  tree_entries_read :: "tree_entry list"
  total_size :: int
  casefold_paths :: "string list"

text \<open>\<open>bytes.split()\<close>.\<close>

fun byte_words_acc :: "string \<Rightarrow> string \<Rightarrow> string list" where
  "byte_words_acc cur [] = (if cur = [] then [] else [rev cur])"
| "byte_words_acc cur (c # s) =
    (if byte_space c then (if cur = [] then [] else [rev cur]) @ byte_words_acc [] s else byte_words_acc (c # cur) s)"

definition byte_words :: "string \<Rightarrow> string list" where "byte_words s = byte_words_acc [] s"

text \<open>\<open>int(text)\<close> refuses more than 4300 digits.\<close>

definition size_of_text :: "string \<Rightarrow> int res" where
  "size_of_text s =
    fail_when (\<not> is_ascii s \<or> 4300 < length (filter is_digit s))
      (case int_of_text s of Inl e \<Rightarrow> validation_failure | Inr n \<Rightarrow> Inr n)"

definition decoded_path :: "string \<Rightarrow> string" where
  "decoded_path raw = (if utf8_valid raw then raw else [])"

definition entry_labels :: "unicode_data \<Rightarrow> string list \<Rightarrow> string \<Rightarrow> string \<Rightarrow> string \<Rightarrow> string list" where
  "entry_labels u seen mode kind raw =
    (let path = decoded_path raw
     in label_if (\<not> utf8_valid raw) ''non-UTF-8 repository path''
      @ label_if (casefold u path \<in> set seen) ''case-colliding repository path''
      @ path_findings u path
      @ map (\<lambda>label. ''repository path '' @ label) (text_findings u path [] (is_test_path u path))
      @ label_if (mode \<noteq> ''100644'' \<and> mode \<noteq> ''100755'') ''symbolic or unsupported Git mode''
      @ label_if (kind \<noteq> ''blob'') ''non-blob Git tree entry'')"

definition tree_record :: "unicode_data \<Rightarrow> string \<Rightarrow> string \<Rightarrow> tree_state \<Rightarrow> tree_state res" where
  "tree_record u commit line st =
    (case split_first (CHR 0x09) line of
       None \<Rightarrow> validation_failure
     | Some (header, raw) \<Rightarrow>
         (case byte_words header of
            [mode, kind, oid, size_text] \<Rightarrow>
              fail_when (\<not> is_ascii mode \<or> \<not> is_ascii kind \<or> \<not> is_ascii oid) (
              let path = decoded_path raw;
                  r = add_findings commit (Some raw) (entry_labels u (casefold_paths st) mode kind raw) (tree_report st);
                  seen = casefold_paths st @ [casefold u path]
              in if kind \<noteq> ''blob'' then Inr (st\<lparr>tree_report := r, casefold_paths := seen\<rparr>)
                 else fail_when (\<not> object_name oid) (
                   bind (size_of_text size_text) (\<lambda>sz.
                   fail_when (sz < 0) (
                   let counted = st\<lparr>tree_report := r, casefold_paths := seen, total_size := total_size st + sz\<rparr>
                   in if MAX_BLOB_BYTES < sz
                      then Inr (counted\<lparr>tree_report := add_finding commit (Some raw)
                                          ''blob exceeds publication size ceiling'' r\<rparr>)
                      else Inr (counted\<lparr>tree_entries_read := tree_entries_read st @
                             [\<lparr>raw_path = raw, relative_path = path, entry_oid = oid, entry_size = sz\<rparr>]\<rparr>)))))
          | _ \<Rightarrow> validation_failure))"

definition parse_tree ::
  "git_world \<Rightarrow> unicode_data \<Rightarrow> string \<Rightarrow> string \<Rightarrow> report \<Rightarrow> (report \<times> tree_entry list \<times> nat) res" where
  "parse_tree w u repo commit r =
    bind (git_bytes_within w repo [''ls-tree'', ''-r'', ''-z'', ''-l'', ''--full-tree'', commit] MAX_TREE_INVENTORY_BYTES)
      (\<lambda>listed.
    let records = filter (\<lambda>line. line \<noteq> []) (split_on (CHR 0x00) listed)
    in fail_when (MAX_TREE_ENTRIES < length records) (
       bind (for_each (tree_record u commit) records
              \<lparr>tree_report = r, tree_entries_read = [], total_size = 0, casefold_paths = []\<rparr>) (\<lambda>st.
       Inr (if MAX_TREE_BYTES < total_size st
            then add_finding commit None ''tree exceeds aggregate publication size ceiling'' (tree_report st)
            else tree_report st,
          tree_entries_read st, length listed))))"

section \<open>Blobs\<close>

type_synonym sizes = "(string \<times> int) list"

text \<open>\<open>blob_sizes.setdefault(oid, size)\<close>: one object has one size.\<close>

definition record_size :: "tree_entry \<Rightarrow> sizes \<Rightarrow> sizes res" where
  "record_size e known =
    (case map_of known (entry_oid e) of
       None \<Rightarrow> Inr (known @ [(entry_oid e, entry_size e)])
     | Some n \<Rightarrow> fail_when (n \<noteq> entry_size e) (Inr known))"

text \<open>\<open>readline(256)\<close> and the rest of the stream.\<close>

definition read_line :: "string \<Rightarrow> string \<times> string" where
  "read_line s =
    (let line = takeWhile (\<lambda>c. c \<noteq> newline_char) s;
         n = min 256 (length line + 1)
     in (take n s, drop n s))"

fun read_blob_stream :: "sizes \<Rightarrow> string \<Rightarrow> (string \<times> string) list res" where
  "read_blob_stream [] out = Inr []"
| "read_blob_stream ((oid, sz) # wanted) out =
    (let (header, body) = read_line out
     in case byte_words header of
          [name, kind, digits] \<Rightarrow>
            fail_when (name \<noteq> oid \<or> kind \<noteq> ''blob'' \<or> digits = [] \<or> \<not> list_all is_digit digits
                \<or> int (read_nat digits) \<noteq> sz) (
            let n = nat sz; data = take n body; rest = drop n body
            in fail_when (length data \<noteq> n \<or> take 1 rest \<noteq> nl)
                 (bind (read_blob_stream wanted (drop 1 rest)) (\<lambda>blobs. Inr ((oid, data) # blobs))))
        | _ \<Rightarrow> validation_failure)"

definition read_blobs :: "git_world \<Rightarrow> string \<Rightarrow> sizes \<Rightarrow> (string \<times> string) list res" where
  "read_blobs w repo known =
    (let wanted = sort_key fst known
     in fail_when (MAX_UNIQUE_BLOB_BYTES < sum_list (map snd known)) (
        case git_batch w (GIT_ENVIRONMENT w) repo (map fst wanted) of
          Exited rc out err \<Rightarrow>
            bind (read_blob_stream wanted out) (\<lambda>blobs. fail_when (rc \<noteq> 0) (Inr blobs))
        | SpawnFailed \<Rightarrow> validation_failure
        | TimedOut \<Rightarrow> validation_failure))"

section \<open>Content\<close>

definition STRUCTURAL_SECRET_EXAMPLE_PATH :: string where
  "STRUCTURAL_SECRET_EXAMPLE_PATH =
    ''kubernetes/platform/cloudflare-public/examples/'' @ ''tunnel-token.invalid-example.yaml''"

definition STRUCTURAL_SECRET_EXAMPLE_SHA256 :: string where
  "STRUCTURAL_SECRET_EXAMPLE_SHA256 = ''4595e398a051186524a4e40a1a2029054eb6e2ee38703f886f3746e04a9b972d''"

definition is_pinned_structural_secret_example :: "unicode_data \<Rightarrow> string \<Rightarrow> string \<Rightarrow> bool" where
  "is_pinned_structural_secret_example u path data =
    (casefold u path = STRUCTURAL_SECRET_EXAMPLE_PATH \<and> sha256_hex data = STRUCTURAL_SECRET_EXAMPLE_SHA256)"

definition TEXT_SUFFIXES :: "string list" where
  "TEXT_SUFFIXES =
    [''.conf'', ''.css'', ''.env'', ''.example'', ''.go'', ''.hcl'', ''.html'', ''.js'', ''.json'', ''.lock'', ''.md'', ''.mjs'',
     ''.rego'', ''.service'', ''.sh'', ''.svelte'', ''.tf'', ''.timer'', ''.toml'', ''.tpl'', ''.ts'', ''.txt'', ''.yaml'', ''.yml'']"

definition DATA_URI :: rx where
  "DATA_URI =
    seqs [ci_lit ''data:'', alts [ci_lit ''image'', ci_lit ''audio'', ci_lit ''video'', ci_lit ''font''], lit [slash],
      some_of (One (\<lambda>x. x \<noteq> '';'' \<and> x \<noteq> '','')), ci_lit '';base64,'']"

text \<open>The module's copy of the Secret detector of the release transition.\<close>

definition committed_kind_state :: "string \<Rightarrow> bool \<times> bool" where
  "committed_kind_state = secret_kind_state"

definition committed_secret_document :: "string \<Rightarrow> bool" where
  "committed_secret_document s = list_ex (\<lambda>d. fst (committed_kind_state d)) (rx_split DOCUMENT_SEPARATOR s)"

definition media_like :: "unicode_data \<Rightarrow> string \<Rightarrow> string \<Rightarrow> bool" where
  "media_like u path data = (casefold u (path_suffix path) \<in> set MEDIA_SUFFIXES \<or> has_media_magic data)"

text \<open>The site and kind of asset tree a media file counts for.\<close>

definition counted_scope :: "unicode_data \<Rightarrow> string \<Rightarrow> string \<Rightarrow> (string \<times> string) option" where
  "counted_scope u path data =
    (if media_like u path data \<and> casefold u path \<notin> set APPROVED_TEXT_BADGE_PATHS then asset_scope u path else None)"

definition media_labels :: "unicode_data \<Rightarrow> string \<Rightarrow> string \<Rightarrow> int \<Rightarrow> string list" where
  "media_labels u path data sz =
    (if \<not> media_like u path data then []
     else if casefold u path \<in> set APPROVED_TEXT_BADGE_PATHS
     then label_if (approved_badge_violation data) ''approved badge violates the strict text contract''
     else case asset_scope u path of
         None \<Rightarrow> [''media outside approved frontend asset tree'']
       | Some place \<Rightarrow> label_if (MAX_UI_ASSET_BYTES < sz) ''frontend media exceeds size ceiling'')"

definition content_labels :: "unicode_data \<Rightarrow> tree_entry \<Rightarrow> string \<Rightarrow> string list" where
  "content_labels u e data =
    (let path = relative_path e; lowered = casefold u path
     in text_findings u data path (is_test_path u path)
      @ (case opaque_artifact_finding u data path of None \<Rightarrow> [] | Some label \<Rightarrow> [label])
      @ media_labels u path data (entry_size e)
      @ label_if (casefold u (path_suffix path) \<in> set TEXT_SUFFIXES \<and> rx_search DATA_URI data) ''embedded media data URI''
      @ label_if (startswith lowered ''kubernetes/'' \<and> (endswith lowered ''.yaml'' \<or> endswith lowered ''.yml'')
            \<and> committed_secret_document data \<and> \<not> is_pinned_structural_secret_example u path data)
          ''committed Kubernetes Secret manifest'')"

type_synonym asset_totals = "((string \<times> string) \<times> int) list"

definition add_total :: "(string \<times> string) \<Rightarrow> int \<Rightarrow> asset_totals \<Rightarrow> asset_totals" where
  "add_total place sz totals =
    (case map_of totals place of
       None \<Rightarrow> totals @ [(place, sz)]
     | Some n \<Rightarrow> map (\<lambda>(k, v). if k = place then (k, v + sz) else (k, v)) totals)"

text \<open>\<open>blobs[oid]\<close>.\<close>

definition blob_of :: "(string \<times> string) list \<Rightarrow> string \<Rightarrow> string res" where
  "blob_of blobs oid = (case map_of blobs oid of None \<Rightarrow> Inl KeyError | Some data \<Rightarrow> Inr data)"

definition scan_entry ::
  "unicode_data \<Rightarrow> (string \<times> string) list \<Rightarrow> string \<Rightarrow> tree_entry \<Rightarrow> report \<times> asset_totals \<Rightarrow> (report \<times> asset_totals) res" where
  "scan_entry u blobs commit e = (\<lambda>(r, totals).
    bind (blob_of blobs (entry_oid e)) (\<lambda>data.
    Inr (add_findings commit (Some (raw_path e)) (content_labels u e data) r,
         case counted_scope u (relative_path e) data of
           None \<Rightarrow> totals
         | Some place \<Rightarrow> add_total place (entry_size e) totals)))"

definition scan_commit ::
  "unicode_data \<Rightarrow> (string \<times> string) list \<Rightarrow> string \<times> tree_entry list \<Rightarrow> report \<Rightarrow> report res" where
  "scan_commit u blobs = (\<lambda>(commit, entries) r.
    bind (for_each (scan_entry u blobs commit) entries (r, [])) (\<lambda>(r', totals).
    Inr (add_findings commit None
      (concat (map (\<lambda>(place, total). label_if (MAX_ASSET_TREE_BYTES < total)
        ''frontend media tree exceeds aggregate ceiling'') totals)) r')))"

section \<open>The range\<close>

record scan_state =
  scan_report :: report
  commit_entries :: "(string \<times> tree_entry list) list"
  blob_sizes :: sizes
  all_entries :: nat
  all_inventory_bytes :: nat

definition inventory_commit :: "git_world \<Rightarrow> unicode_data \<Rightarrow> string \<Rightarrow> string \<Rightarrow> scan_state \<Rightarrow> scan_state res" where
  "inventory_commit w u repo commit st =
    bind (commit_metadata w u repo commit (scan_report st)) (\<lambda>r.
    bind (parse_tree w u repo commit r) (\<lambda>(r', entries, inventory_bytes).
    let st' = st\<lparr>scan_report := r', commit_entries := commit_entries st @ [(commit, entries)],
                 all_entries := all_entries st + length entries,
                 all_inventory_bytes := all_inventory_bytes st + inventory_bytes\<rparr>
    in fail_when (MAX_ALL_TREE_ENTRIES < all_entries st' \<or> MAX_ALL_TREE_INVENTORIES_BYTES < all_inventory_bytes st') (
       bind (for_each record_size entries (blob_sizes st)) (\<lambda>known. Inr (st'\<lparr>blob_sizes := known\<rparr>)))))"

definition no_findings :: report where "no_findings = \<lparr>finding_count = 0, messages = []\<rparr>"

definition printed_findings :: "report \<Rightarrow> string list" where
  "printed_findings r =
    (if finding_count r = 0 then []
     else messages r @
       (if length (messages r) < finding_count r
        then [''FAIL publication history: additional findings suppressed; count='' @
                show_nat (finding_count r - length (messages r))]
        else []))"

text \<open>Whether the range is allowed, the number of commits and what is printed as errors.\<close>

definition validate_range ::
  "git_world \<Rightarrow> unicode_data \<Rightarrow> string \<Rightarrow> string \<Rightarrow> string \<Rightarrow> (bool \<times> nat \<times> string list) res" where
  "validate_range w u repo baseline candidate =
    bind (outgoing_commits w repo baseline candidate) (\<lambda>commits.
    bind (for_each (inventory_commit w u repo) commits
           \<lparr>scan_report = no_findings, commit_entries = [], blob_sizes = [], all_entries = 0, all_inventory_bytes = 0\<rparr>)
      (\<lambda>st.
    bind (read_blobs w repo (blob_sizes st)) (\<lambda>blobs.
    bind (for_each (scan_commit u blobs) (commit_entries st) (scan_report st)) (\<lambda>r.
    Inr (finding_count r = 0, length commits, printed_findings r)))))"

section \<open>The command line\<close>

record history_result =
  exit_code :: nat
  printed_out :: "string list"
  printed_err :: "string list"

definition rejected_history :: history_result where
  "rejected_history =
    \<lparr>exit_code = 1, printed_out = [], printed_err = [''FAIL publication history validation.'']\<rparr>"

definition history_range :: "string list \<Rightarrow> (bool \<times> string \<times> string) option" where
  "history_range argv =
    (case argv of
       [b, c] \<Rightarrow> Some (False, b, c)
     | [flag, b, c] \<Rightarrow> if flag = ''--pull-request'' then Some (True, b, c) else None
     | _ \<Rightarrow> None)"

definition related_commits :: "git_world \<Rightarrow> string \<Rightarrow> bool \<Rightarrow> string \<Rightarrow> string \<Rightarrow> unit res" where
  "related_commits w repo pull_request baseline candidate =
    (if pull_request
     then bind (git_bytes_within w repo [''merge-base'', baseline, candidate] 128) (\<lambda>found.
          fail_when (\<not> is_ascii found) (fail_when (\<not> object_name (strip found)) (Inr ())))
     else bind (git_bytes_within w repo [''merge-base'', ''--is-ancestor'', baseline, candidate] 0) (\<lambda>_. Inr ()))"

definition run_history :: "git_world \<Rightarrow> unicode_data \<Rightarrow> bool \<Rightarrow> string \<Rightarrow> string \<Rightarrow> history_result res" where
  "run_history w u pull_request baseline_argument candidate_argument =
    bind (resolve_repository w) (\<lambda>repo.
    bind (resolve_commit w repo baseline_argument) (\<lambda>baseline.
    bind (resolve_commit w repo candidate_argument) (\<lambda>candidate.
    fail_when (baseline = candidate) (
    bind (related_commits w repo pull_request baseline candidate) (\<lambda>_.
    bind (validate_range w u repo baseline candidate) (\<lambda>(allowed, commit_count, errors).
    Inr (if \<not> allowed then \<lparr>exit_code = 1, printed_out = [], printed_err = errors\<rparr>
         else \<lparr>exit_code = 0,
                printed_out = [''PASS publication history: '' @ show_nat commit_count @
                  '' outgoing commit(s) scanned from '' @ baseline @ '' to '' @ candidate],
                printed_err = []\<rparr>)))))))"

text \<open>\<open>except (OSError, ValidationFailure, ValueError)\<close>.\<close>

definition history_caught :: "exc \<Rightarrow> bool" where
  "history_caught e = (e = OSError \<or> e = ValidationFailure \<or> is_value_error e)"

definition history_main :: "git_world \<Rightarrow> unicode_data \<Rightarrow> string list \<Rightarrow> history_result res" where
  "history_main w u argv =
    (case history_range argv of
       None \<Rightarrow> Inr rejected_history
     | Some (pull_request, b, c) \<Rightarrow>
         (case run_history w u pull_request b c of
            Inr out \<Rightarrow> Inr out
          | Inl e \<Rightarrow> if history_caught e then Inr rejected_history else Inl e))"

end
