(* ===== verification/HistoryProps.thy ===== *)
theory HistoryProps
  imports History
begin

text \<open>
  What the history validator promises: an allowed range is clean in every commit, tree
  entry and blob, and what it reads is bounded.
\<close>

section \<open>Reports\<close>

lemma fail_when_eq_Inr [simp]: "fail_when c k = Inr y \<longleftrightarrow> \<not> c \<and> k = Inr y"
  by (simp add: fail_when_def validation_failure_def)

lemma validation_failure_neq [simp]: "validation_failure \<noteq> Inr y" "Inr y \<noteq> validation_failure"
  by (simp_all add: validation_failure_def)

lemma count_add_finding [simp]: "finding_count (add_finding c p l r) = finding_count r + 1"
  by (simp add: add_finding_def Let_def)

lemma count_add_findings [simp]: "finding_count (add_findings c p ls r) = finding_count r + length ls"
  by (induction ls arbitrary: r) (simp_all add: add_findings_def)

lemma label_if_empty [simp]: "label_if c l = [] \<longleftrightarrow> \<not> c"
  by (simp add: label_if_def)

section \<open>Clean commits and trees\<close>

definition clean_metadata :: "git_world \<Rightarrow> unicode_data \<Rightarrow> string \<Rightarrow> string \<Rightarrow> bool" where
  "clean_metadata w u repo commit \<longleftrightarrow>
    (\<exists>metadata header message.
      git_bytes_within w repo [''cat-file'', ''commit'', commit] MAX_COMMIT_OBJECT_BYTES = Inr metadata \<and>
      split_blank_line metadata = Some (header, message) \<and> commit_labels u metadata message = [])"

lemma metadata_count:
  assumes "commit_metadata w u repo commit r = Inr r'"
  shows "finding_count r' = 0 \<longleftrightarrow> finding_count r = 0 \<and> clean_metadata w u repo commit"
proof -
  from assms obtain metadata where metadata:
    "git_bytes_within w repo [''cat-file'', ''commit'', commit] MAX_COMMIT_OBJECT_BYTES = Inr metadata"
    and rest: "(case split_blank_line metadata of None \<Rightarrow> validation_failure
      | Some (header, message) \<Rightarrow>
          fail_when (header_count ''author '' header \<noteq> 1 \<or> header_count ''committer '' header \<noteq> 1)
            (Inr (add_findings commit None (commit_labels u metadata message) r))) = Inr r'"
    unfolding commit_metadata_def bind_eq_Inr fail_when_eq_Inr by blast
  from rest obtain header message where split: "split_blank_line metadata = Some (header, message)"
    and r': "r' = add_findings commit None (commit_labels u metadata message) r"
    by (auto split: option.splits)
  show ?thesis by (auto simp: r' clean_metadata_def metadata split)
qed

text \<open>One inventory line: a regular blob of admissible size under a clean path that no earlier path folds to.\<close>

definition clean_record :: "unicode_data \<Rightarrow> string list \<Rightarrow> string \<Rightarrow> tree_entry \<Rightarrow> bool" where
  "clean_record u seen line e \<longleftrightarrow>
    (\<exists>header mode kind size_text.
      split_first (CHR 0x09) line = Some (header, raw_path e) \<and>
      byte_words header = [mode, kind, entry_oid e, size_text] \<and>
      entry_labels u seen mode kind (raw_path e) = [] \<and> relative_path e = decoded_path (raw_path e) \<and>
      object_name (entry_oid e) \<and> size_of_text size_text = Inr (entry_size e) \<and>
      0 \<le> entry_size e \<and> entry_size e \<le> MAX_BLOB_BYTES)"

lemma entry_labels_blob: "entry_labels u seen mode kind raw = [] \<Longrightarrow> kind = ''blob'' \<and> (mode = ''100644'' \<or> mode = ''100755'')"
  by (auto simp: entry_labels_def Let_def)

lemma tree_record_count:
  assumes "tree_record u commit line st = Inr st'"
  shows "finding_count (tree_report st') = 0 \<longleftrightarrow> finding_count (tree_report st) = 0 \<and>
      (\<exists>e. clean_record u (casefold_paths st) line e)"
    "finding_count (tree_report st') = 0 \<Longrightarrow> clean_record u (casefold_paths st) line e \<Longrightarrow>
      tree_entries_read st' = tree_entries_read st @ [e] \<and> total_size st' = total_size st + entry_size e \<and>
      casefold_paths st' = casefold_paths st @ [casefold u (relative_path e)]"
proof -
  from assms obtain header raw where split: "split_first (CHR 0x09) line = Some (header, raw)"
    by (auto simp: tree_record_def split: option.splits)
  from assms split obtain mode kind oid size_text where fields: "byte_words header = [mode, kind, oid, size_text]"
    by (auto simp: tree_record_def split: list.splits)
  let ?labels = "entry_labels u (casefold_paths st) mode kind raw"
  let ?r = "add_findings commit (Some raw) ?labels (tree_report st)"
  have clean: "clean_record u (casefold_paths st) line e \<longleftrightarrow>
      raw_path e = raw \<and> entry_oid e = oid \<and> ?labels = [] \<and> relative_path e = decoded_path raw \<and> object_name oid \<and>
      size_of_text size_text = Inr (entry_size e) \<and> 0 \<le> entry_size e \<and> entry_size e \<le> MAX_BLOB_BYTES" for e
    by (auto simp: clean_record_def split fields)
  have "(finding_count (tree_report st') = 0 \<longleftrightarrow> finding_count (tree_report st) = 0 \<and>
      (\<exists>e. clean_record u (casefold_paths st) line e)) \<and>
    (finding_count (tree_report st') = 0 \<longrightarrow> (\<forall>e. clean_record u (casefold_paths st) line e \<longrightarrow>
      tree_entries_read st' = tree_entries_read st @ [e] \<and> total_size st' = total_size st + entry_size e \<and>
      casefold_paths st' = casefold_paths st @ [casefold u (relative_path e)]))"
  proof (cases "kind = ''blob''")
    case False
    then have "?labels \<noteq> []" using entry_labels_blob by blast
    moreover from assms split fields False have "tree_report st' = ?r"
      by (auto simp: tree_record_def Let_def)
    ultimately show ?thesis by (simp add: clean)
  next
    case True
    from assms split fields True obtain n where n: "object_name oid" "size_of_text size_text = Inr n" "0 \<le> n"
      and st': "st' = (let counted = st\<lparr>tree_report := ?r, casefold_paths := casefold_paths st @ [casefold u (decoded_path raw)],
              total_size := total_size st + n\<rparr>
          in if MAX_BLOB_BYTES < n
             then counted\<lparr>tree_report := add_finding commit (Some raw) ''blob exceeds publication size ceiling'' ?r\<rparr>
             else counted\<lparr>tree_entries_read := tree_entries_read st @
                 [\<lparr>raw_path = raw, relative_path = decoded_path raw, entry_oid = oid, entry_size = n\<rparr>]\<rparr>)"
      by (auto simp: tree_record_def Let_def not_less split: if_splits)
    show ?thesis
    proof (cases "MAX_BLOB_BYTES < n")
      case True
      then show ?thesis using st' n by (auto simp: Let_def clean)
    next
      case False
      then have eq: "clean_record u (casefold_paths st) line e \<longleftrightarrow>
          ?labels = [] \<and> e = \<lparr>raw_path = raw, relative_path = decoded_path raw, entry_oid = oid, entry_size = n\<rparr>" for e
        using n by (cases e) (auto simp: clean)
      show ?thesis using False st' by (auto simp: Let_def eq)
    qed
  qed
  then show "finding_count (tree_report st') = 0 \<longleftrightarrow> finding_count (tree_report st) = 0 \<and>
      (\<exists>e. clean_record u (casefold_paths st) line e)"
    "finding_count (tree_report st') = 0 \<Longrightarrow> clean_record u (casefold_paths st) line e \<Longrightarrow>
      tree_entries_read st' = tree_entries_read st @ [e] \<and> total_size st' = total_size st + entry_size e \<and>
      casefold_paths st' = casefold_paths st @ [casefold u (relative_path e)]"
    by blast+
qed

fun clean_records :: "unicode_data \<Rightarrow> string list \<Rightarrow> string list \<Rightarrow> tree_entry list \<Rightarrow> bool" where
  "clean_records u seen [] es = (es = [])"
| "clean_records u seen (line # lines) [] = False"
| "clean_records u seen (line # lines) (e # es) =
    (clean_record u seen line e \<and> clean_records u (seen @ [casefold u (relative_path e)]) lines es)"

lemma clean_records_Cons:
  "(\<exists>es. clean_records u seen (line # lines) es) \<longleftrightarrow>
    (\<exists>e es. clean_record u seen line e \<and> clean_records u (seen @ [casefold u (relative_path e)]) lines es)"
proof
  assume "\<exists>es. clean_records u seen (line # lines) es"
  then obtain es where "clean_records u seen (line # lines) es" by blast
  then show "\<exists>e es. clean_record u seen line e \<and> clean_records u (seen @ [casefold u (relative_path e)]) lines es"
    by (cases es) auto
next
  assume "\<exists>e es. clean_record u seen line e \<and> clean_records u (seen @ [casefold u (relative_path e)]) lines es"
  then obtain e es where "clean_records u seen (line # lines) (e # es)" by auto
  then show "\<exists>es. clean_records u seen (line # lines) es" by blast
qed

lemma tree_records_count:
  assumes "for_each (tree_record u commit) lines st = Inr st'"
  shows "finding_count (tree_report st') = 0 \<longleftrightarrow> finding_count (tree_report st) = 0 \<and>
      (\<exists>es. clean_records u (casefold_paths st) lines es)"
    "finding_count (tree_report st') = 0 \<Longrightarrow> clean_records u (casefold_paths st) lines es \<Longrightarrow>
      tree_entries_read st' = tree_entries_read st @ es \<and>
      total_size st' = total_size st + sum_list (map entry_size es)"
proof -
  have "(finding_count (tree_report st') = 0 \<longleftrightarrow> finding_count (tree_report st) = 0 \<and>
      (\<exists>es. clean_records u (casefold_paths st) lines es)) \<and>
    (finding_count (tree_report st') = 0 \<longrightarrow> (\<forall>es. clean_records u (casefold_paths st) lines es \<longrightarrow>
      tree_entries_read st' = tree_entries_read st @ es \<and>
      total_size st' = total_size st + sum_list (map entry_size es)))"
    using assms
  proof (induction lines arbitrary: st)
    case Nil
    then show ?case by simp
  next
    case (Cons line lines)
    then obtain st1 where step: "tree_record u commit line st = Inr st1"
      and rest: "for_each (tree_record u commit) lines st1 = Inr st'" by auto
    note first = tree_record_count [OF step]
    note IH = Cons.IH [OF rest]
    show ?case
    proof (cases "finding_count (tree_report st1) = 0")
      case False
      then have "\<not> (finding_count (tree_report st) = 0 \<and> (\<exists>e. clean_record u (casefold_paths st) line e))"
        using first(1) by simp
      moreover have "finding_count (tree_report st') \<noteq> 0" using conjunct1 [OF IH] False by simp
      ultimately show ?thesis unfolding clean_records_Cons by blast
    next
      case True
      then obtain e where e: "clean_record u (casefold_paths st) line e" and zero: "finding_count (tree_report st) = 0"
        using first(1) by blast
      note after = first(2) [OF True e]
      have only: "clean_record u (casefold_paths st) line e' \<Longrightarrow> e' = e" for e'
        using first(2) [OF True, of e'] after by simp
      have step': "clean_records u (casefold_paths st) (line # lines) es \<longleftrightarrow>
          (\<exists>es'. es = e # es' \<and> clean_records u (casefold_paths st1) lines es')" for es
      proof (cases es)
        case Nil
        then show ?thesis by simp
      next
        case (Cons e' es')
        have "clean_record u (casefold_paths st) line e' \<longleftrightarrow> e' = e" using e only by blast
        then show ?thesis using Cons conjunct2 [OF conjunct2 [OF after]] by auto
      qed
      have "(\<exists>es. clean_records u (casefold_paths st) (line # lines) es) \<longleftrightarrow> (\<exists>es. clean_records u (casefold_paths st1) lines es)"
        using step' by blast
      moreover have "tree_entries_read st' = tree_entries_read st @ es \<and> total_size st' = total_size st + sum_list (map entry_size es)"
        if zero': "finding_count (tree_report st') = 0" and es: "clean_records u (casefold_paths st) (line # lines) es" for es
      proof -
        from es obtain es' where es': "es = e # es'" "clean_records u (casefold_paths st1) lines es'"
          unfolding step' by blast
        from conjunct2 [OF IH] zero' es'(2) have "tree_entries_read st' = tree_entries_read st1 @ es' \<and>
            total_size st' = total_size st1 + sum_list (map entry_size es')" by blast
        then show ?thesis using after es'(1) by simp
      qed
      ultimately show ?thesis using conjunct1 [OF IH] zero True by simp
    qed
  qed
  then show "finding_count (tree_report st') = 0 \<longleftrightarrow> finding_count (tree_report st) = 0 \<and>
      (\<exists>es. clean_records u (casefold_paths st) lines es)"
    "finding_count (tree_report st') = 0 \<Longrightarrow> clean_records u (casefold_paths st) lines es \<Longrightarrow>
      tree_entries_read st' = tree_entries_read st @ es \<and>
      total_size st' = total_size st + sum_list (map entry_size es)"
    by blast+
qed

definition clean_tree :: "git_world \<Rightarrow> unicode_data \<Rightarrow> string \<Rightarrow> string \<Rightarrow> tree_entry list \<Rightarrow> bool" where
  "clean_tree w u repo commit entries \<longleftrightarrow>
    (\<exists>listed. git_bytes_within w repo [''ls-tree'', ''-r'', ''-z'', ''-l'', ''--full-tree'', commit]
        MAX_TREE_INVENTORY_BYTES = Inr listed \<and>
      clean_records u [] (filter (\<lambda>line. line \<noteq> []) (split_on (CHR 0x00) listed)) entries \<and>
      sum_list (map entry_size entries) \<le> MAX_TREE_BYTES)"

lemma parse_tree_count:
  assumes "parse_tree w u repo commit r = Inr (r', entries, n)"
  shows "finding_count r' = 0 \<longleftrightarrow> finding_count r = 0 \<and> (\<exists>es. clean_tree w u repo commit es)"
    "finding_count r' = 0 \<Longrightarrow> clean_tree w u repo commit es \<Longrightarrow> entries = es"
proof -
  let ?start = "\<lparr>tree_report = r, tree_entries_read = [], total_size = 0, casefold_paths = []\<rparr>"
  from assms obtain listed st where listed: "git_bytes_within w repo [''ls-tree'', ''-r'', ''-z'', ''-l'', ''--full-tree'', commit]
        MAX_TREE_INVENTORY_BYTES = Inr listed"
    and run: "for_each (tree_record u commit) (filter (\<lambda>line. line \<noteq> []) (split_on (CHR 0x00) listed)) ?start = Inr st"
    and out: "r' = (if MAX_TREE_BYTES < total_size st
            then add_finding commit None ''tree exceeds aggregate publication size ceiling'' (tree_report st)
            else tree_report st)" "entries = tree_entries_read st"
    unfolding parse_tree_def Let_def bind_eq_Inr fail_when_eq_Inr by auto
  note count = tree_records_count [OF run, simplified]
  have clean: "clean_tree w u repo commit es \<longleftrightarrow>
      clean_records u [] (filter (\<lambda>line. line \<noteq> []) (split_on (CHR 0x00) listed)) es \<and>
      sum_list (map entry_size es) \<le> MAX_TREE_BYTES" for es
    by (simp add: clean_tree_def listed)
  show "finding_count r' = 0 \<longleftrightarrow> finding_count r = 0 \<and> (\<exists>es. clean_tree w u repo commit es)"
    using count out(1) by (auto simp: clean not_less split: if_splits) (force simp: not_less)+
  show "finding_count r' = 0 \<Longrightarrow> clean_tree w u repo commit es \<Longrightarrow> entries = es"
    using count out by (auto simp: clean split: if_splits)
qed

section \<open>Clean content\<close>

definition total_of :: "asset_totals \<Rightarrow> (string \<times> string) \<Rightarrow> int" where
  "total_of totals place = (case map_of totals place of None \<Rightarrow> 0 | Some n \<Rightarrow> n)"

lemma map_of_bump: "map_of (map (\<lambda>(k, v). if k = place then (k, v + n) else (k, v)) ts) k =
    map_option (\<lambda>v. if k = place then v + n else v) (map_of ts k)"
  by (induction ts) auto

lemma add_total:
  "total_of (add_total place n totals) k = total_of totals k + (if k = place then n else 0)"
  "distinct (map fst totals) \<Longrightarrow> distinct (map fst (add_total place n totals))"
proof -
  show "total_of (add_total place n totals) k = total_of totals k + (if k = place then n else 0)"
    by (auto simp: total_of_def add_total_def map_of_bump map_add_def split: option.splits)
  have keys: "map fst (map (\<lambda>(k, v). if k = place then (k, v + n) else (k, v)) totals) = map fst totals"
    by (induction totals) auto
  show "distinct (map fst (add_total place n totals))" if "distinct (map fst totals)"
  proof (cases "map_of totals place")
    case None
    from None have "place \<notin> fst ` set totals" by (simp add: map_of_eq_None_iff)
    with that show ?thesis unfolding add_total_def None option.case by simp
  next
    case (Some v)
    with that keys show ?thesis by (simp only: add_total_def option.case)
  qed
qed

definition blob_data :: "(string \<times> string) list \<Rightarrow> tree_entry \<Rightarrow> string" where
  "blob_data blobs e = (case map_of blobs (entry_oid e) of None \<Rightarrow> [] | Some data \<Rightarrow> data)"

text \<open>The bytes of a commit's media that count for one asset tree.\<close>

definition asset_bytes :: "unicode_data \<Rightarrow> (string \<times> string) list \<Rightarrow> tree_entry list \<Rightarrow> (string \<times> string) \<Rightarrow> int" where
  "asset_bytes u blobs entries place =
    sum_list (map entry_size (filter (\<lambda>e. counted_scope u (relative_path e) (blob_data blobs e) = Some place) entries))"

definition clean_content :: "unicode_data \<Rightarrow> (string \<times> string) list \<Rightarrow> tree_entry list \<Rightarrow> bool" where
  "clean_content u blobs entries \<longleftrightarrow>
    list_all (\<lambda>e. content_labels u e (blob_data blobs e) = []) entries \<and>
    (\<forall>place. asset_bytes u blobs entries place \<le> MAX_ASSET_TREE_BYTES)"

lemma scan_entry_found:
  "map_of blobs (entry_oid e) = Some data \<Longrightarrow> scan_entry u blobs commit e (r, totals) =
    Inr (add_findings commit (Some (raw_path e)) (content_labels u e data) r,
         case counted_scope u (relative_path e) data of None \<Rightarrow> totals | Some place \<Rightarrow> add_total place (entry_size e) totals)"
  by (simp add: scan_entry_def blob_of_def)

lemma scan_entries:
  assumes "for_each (scan_entry u blobs commit) entries (r, totals) = Inr (r', totals')" "distinct (map fst totals)"
  shows "finding_count r' = 0 \<longleftrightarrow> finding_count r = 0 \<and>
      list_all (\<lambda>e. content_labels u e (blob_data blobs e) = []) entries"
    "distinct (map fst totals')"
    "total_of totals' place = total_of totals place + asset_bytes u blobs entries place"
    "list_all (\<lambda>e. map_of blobs (entry_oid e) = Some (blob_data blobs e)) entries"
proof -
  have "(finding_count r' = 0 \<longleftrightarrow> finding_count r = 0 \<and>
      list_all (\<lambda>e. content_labels u e (blob_data blobs e) = []) entries) \<and>
    distinct (map fst totals') \<and> total_of totals' place = total_of totals place + asset_bytes u blobs entries place \<and>
    list_all (\<lambda>e. map_of blobs (entry_oid e) = Some (blob_data blobs e)) entries"
    using assms
  proof (induction entries arbitrary: r totals)
    case Nil
    then show ?case by (simp add: asset_bytes_def)
  next
    case (Cons e entries)
    then obtain data where data: "map_of blobs (entry_oid e) = Some data"
      by (auto simp: scan_entry_def blob_of_def split: option.splits)
    let ?r = "add_findings commit (Some (raw_path e)) (content_labels u e data) r"
    let ?totals = "case counted_scope u (relative_path e) data of None \<Rightarrow> totals | Some place \<Rightarrow> add_total place (entry_size e) totals"
    have rest: "for_each (scan_entry u blobs commit) entries (?r, ?totals) = Inr (r', totals')"
      using Cons.prems(1) by (simp add: scan_entry_found [OF data])
    have keys: "distinct (map fst ?totals)" using Cons.prems(2) add_total(2) by (auto split: option.splits)
    have blob: "blob_data blobs e = data" by (simp add: blob_data_def data)
    have total: "total_of ?totals place = total_of totals place +
        (if counted_scope u (relative_path e) data = Some place then entry_size e else 0)"
      by (auto simp: add_total(1) split: option.splits)
    from Cons.IH [OF rest keys] total show ?case
      by (auto simp: blob data asset_bytes_def)
  qed
  then show "finding_count r' = 0 \<longleftrightarrow> finding_count r = 0 \<and>
      list_all (\<lambda>e. content_labels u e (blob_data blobs e) = []) entries"
    "distinct (map fst totals')"
    "total_of totals' place = total_of totals place + asset_bytes u blobs entries place"
    "list_all (\<lambda>e. map_of blobs (entry_oid e) = Some (blob_data blobs e)) entries"
    by blast+
qed

lemma totals_within:
  assumes "distinct (map fst totals)" "0 \<le> m"
  shows "concat (map (\<lambda>(place, total). label_if (m < total) l) totals) = [] \<longleftrightarrow> (\<forall>place. total_of totals place \<le> m)"
proof
  assume *: "concat (map (\<lambda>(place, total). label_if (m < total) l) totals) = []"
  show "\<forall>place. total_of totals place \<le> m"
  proof
    fix place
    show "total_of totals place \<le> m"
    proof (cases "map_of totals place")
      case None
      then show ?thesis using assms(2) by (simp add: total_of_def)
    next
      case (Some n)
      then have "(place, n) \<in> set totals" by (rule map_of_SomeD)
      with * have "\<not> m < n" by (force simp: label_if_def split: if_splits)
      then show ?thesis by (simp add: total_of_def Some)
    qed
  qed
next
  assume *: "\<forall>place. total_of totals place \<le> m"
  have "label_if (m < total) l = []" if "(place, total) \<in> set totals" for place total
  proof -
    from that have "map_of totals place = Some total" using assms(1) by simp
    with * [rule_format, of place] show ?thesis by (simp add: total_of_def)
  qed
  then show "concat (map (\<lambda>(place, total). label_if (m < total) l) totals) = []" by auto
qed

lemma scan_commit_count:
  assumes "scan_commit u blobs (commit, entries) r = Inr r'"
  shows "finding_count r' = 0 \<longleftrightarrow> finding_count r = 0 \<and> clean_content u blobs entries"
    "list_all (\<lambda>e. map_of blobs (entry_oid e) = Some (blob_data blobs e)) entries"
proof -
  let ?over = "\<lambda>totals. concat (map (\<lambda>(place, total). label_if (MAX_ASSET_TREE_BYTES < total)
        ''frontend media tree exceeds aggregate ceiling'') totals)"
  from assms obtain r1 totals where run: "for_each (scan_entry u blobs commit) entries (r, []) = Inr (r1, totals)"
    and r': "r' = add_findings commit None (?over totals) r1"
    by (auto simp: scan_commit_def)
  note scanned = scan_entries [OF run, simplified]
  have "?over totals = [] \<longleftrightarrow> (\<forall>place. total_of totals place \<le> MAX_ASSET_TREE_BYTES)"
    by (rule totals_within) (use scanned(2) in \<open>simp_all add: MAX_ASSET_TREE_BYTES_def\<close>)
  also have "\<dots> \<longleftrightarrow> (\<forall>place. asset_bytes u blobs entries place \<le> MAX_ASSET_TREE_BYTES)"
    using scan_entries(3) [OF run] by (simp only: total_of_def [of "[]"] map_of.simps option.case add_0 list.map distinct.simps)
  finally have over: "?over totals = [] \<longleftrightarrow> (\<forall>place. asset_bytes u blobs entries place \<le> MAX_ASSET_TREE_BYTES)" .
  show "finding_count r' = 0 \<longleftrightarrow> finding_count r = 0 \<and> clean_content u blobs entries"
    unfolding r' count_add_findings clean_content_def add_is_0 length_0_conv over scanned(1) by blast
  show "list_all (\<lambda>e. map_of blobs (entry_oid e) = Some (blob_data blobs e)) entries" by (fact scanned(4))
qed

section \<open>The range\<close>

lemma known_sizes:
  assumes "for_each record_size entries known = Inr known'"
  shows "list_all (\<lambda>e. map_of known' (entry_oid e) = Some (entry_size e)) entries"
    "map_of known k = Some n \<Longrightarrow> map_of known' k = Some n"
    "fst ` set known' = fst ` set known \<union> entry_oid ` set entries"
    "distinct (map fst known) \<Longrightarrow> distinct (map fst known')"
proof -
  have "list_all (\<lambda>e. map_of known' (entry_oid e) = Some (entry_size e)) entries \<and>
      (\<forall>k n. map_of known k = Some n \<longrightarrow> map_of known' k = Some n) \<and>
      fst ` set known' = fst ` set known \<union> entry_oid ` set entries \<and>
      (distinct (map fst known) \<longrightarrow> distinct (map fst known'))"
    using assms
  proof (induction entries arbitrary: known)
    case Nil
    then show ?case by simp
  next
    case (Cons e entries)
    then obtain mid where mid: "record_size e known = Inr mid" and rest: "for_each record_size entries mid = Inr known'"
      by auto
    have grown: "map_of mid (entry_oid e) = Some (entry_size e)" "map_of known k = Some n \<Longrightarrow> map_of mid k = Some n"
      "fst ` set mid = insert (entry_oid e) (fst ` set known)" "distinct (map fst known) \<Longrightarrow> distinct (map fst mid)" for k n
    proof -
      show "map_of mid (entry_oid e) = Some (entry_size e)" "map_of known k = Some n \<Longrightarrow> map_of mid k = Some n"
        using mid by (auto simp: record_size_def map_add_def split: option.splits)
      show "fst ` set mid = insert (entry_oid e) (fst ` set known)" "distinct (map fst known) \<Longrightarrow> distinct (map fst mid)"
        using mid by (auto simp: record_size_def map_of_eq_None_iff split: option.splits)
          (force dest: map_of_SomeD)+
    qed
    from Cons.IH [OF rest] grown show ?case by auto
  qed
  then show "list_all (\<lambda>e. map_of known' (entry_oid e) = Some (entry_size e)) entries"
    "map_of known k = Some n \<Longrightarrow> map_of known' k = Some n"
    "fst ` set known' = fst ` set known \<union> entry_oid ` set entries"
    "distinct (map fst known) \<Longrightarrow> distinct (map fst known')"
    by blast+
qed

definition clean_inventory :: "git_world \<Rightarrow> unicode_data \<Rightarrow> string \<Rightarrow> string \<times> tree_entry list \<Rightarrow> bool" where
  "clean_inventory w u repo = (\<lambda>(commit, entries). clean_metadata w u repo commit \<and> clean_tree w u repo commit entries)"

lemma tree_count:
  assumes "parse_tree w u repo commit r = Inr (r', entries, n)"
  shows "finding_count r' = 0 \<longleftrightarrow> finding_count r = 0 \<and> clean_tree w u repo commit entries"
proof
  assume zero: "finding_count r' = 0"
  with parse_tree_count(1) [OF assms] obtain es where es: "finding_count r = 0" "clean_tree w u repo commit es" by blast
  from parse_tree_count(2) [OF assms zero es(2)] es show "finding_count r = 0 \<and> clean_tree w u repo commit entries" by simp
next
  assume "finding_count r = 0 \<and> clean_tree w u repo commit entries"
  with parse_tree_count(1) [OF assms] show "finding_count r' = 0" by blast
qed

lemma inventory_step:
  assumes "inventory_commit w u repo commit st = Inr st'"
  obtains entries where "commit_entries st' = commit_entries st @ [(commit, entries)]"
    "for_each record_size entries (blob_sizes st) = Inr (blob_sizes st')"
    "all_entries st' = all_entries st + length entries" "all_entries st' \<le> MAX_ALL_TREE_ENTRIES"
    "finding_count (scan_report st') = 0 \<longleftrightarrow> finding_count (scan_report st) = 0 \<and> clean_inventory w u repo (commit, entries)"
    "\<And>es. finding_count (scan_report st') = 0 \<Longrightarrow> clean_tree w u repo commit es \<Longrightarrow> es = entries"
proof -
  from assms obtain r r' entries n known where metadata: "commit_metadata w u repo commit (scan_report st) = Inr r"
    and tree: "parse_tree w u repo commit r = Inr (r', entries, n)"
    and known: "for_each record_size entries (blob_sizes st) = Inr known"
    and limit: "all_entries st + length entries \<le> MAX_ALL_TREE_ENTRIES"
    and st': "st' = st\<lparr>scan_report := r', commit_entries := commit_entries st @ [(commit, entries)],
        all_entries := all_entries st + length entries, all_inventory_bytes := all_inventory_bytes st + n, blob_sizes := known\<rparr>"
    by (auto simp: inventory_commit_def Let_def not_less)
  have count: "finding_count r' = 0 \<longleftrightarrow> finding_count (scan_report st) = 0 \<and> clean_inventory w u repo (commit, entries)"
    unfolding clean_inventory_def prod.case tree_count [OF tree] metadata_count [OF metadata] by blast
  have only: "es = entries" if "finding_count r' = 0" "clean_tree w u repo commit es" for es
    using parse_tree_count(2) [OF tree that] by simp
  show thesis
    by (rule that [of entries]) (use known limit count only in \<open>simp_all add: st'\<close>)
qed

lemma inventories:
  assumes "for_each (inventory_commit w u repo) commits st = Inr st'"
  shows "\<exists>inventory. map fst inventory = commits \<and> commit_entries st' = commit_entries st @ inventory \<and>
    for_each record_size (concat (map snd inventory)) (blob_sizes st) = Inr (blob_sizes st') \<and>
    all_entries st' = all_entries st + length (concat (map snd inventory)) \<and>
    (commits \<noteq> [] \<longrightarrow> all_entries st' \<le> MAX_ALL_TREE_ENTRIES) \<and>
    (finding_count (scan_report st') = 0 \<longleftrightarrow> finding_count (scan_report st) = 0 \<and> list_all (clean_inventory w u repo) inventory) \<and>
    (\<forall>other. finding_count (scan_report st') = 0 \<longrightarrow> map fst other = commits \<longrightarrow>
      list_all (clean_inventory w u repo) other \<longrightarrow> other = inventory)"
  using assms
proof (induction commits arbitrary: st)
  case Nil
  then show ?case by simp
next
  case (Cons commit commits)
  then obtain st1 where step: "inventory_commit w u repo commit st = Inr st1"
    and rest: "for_each (inventory_commit w u repo) commits st1 = Inr st'" by auto
  obtain entries where one: "commit_entries st1 = commit_entries st @ [(commit, entries)]"
    "for_each record_size entries (blob_sizes st) = Inr (blob_sizes st1)"
    "all_entries st1 = all_entries st + length entries" "all_entries st1 \<le> MAX_ALL_TREE_ENTRIES"
    "finding_count (scan_report st1) = 0 \<longleftrightarrow> finding_count (scan_report st) = 0 \<and> clean_inventory w u repo (commit, entries)"
    "\<And>es. finding_count (scan_report st1) = 0 \<Longrightarrow> clean_tree w u repo commit es \<Longrightarrow> es = entries"
    using inventory_step [OF step] by blast
  from Cons.IH [OF rest] obtain inventory where more: "map fst inventory = commits"
    "commit_entries st' = commit_entries st1 @ inventory"
    "for_each record_size (concat (map snd inventory)) (blob_sizes st1) = Inr (blob_sizes st')"
    "all_entries st' = all_entries st1 + length (concat (map snd inventory))"
    "commits \<noteq> [] \<longrightarrow> all_entries st' \<le> MAX_ALL_TREE_ENTRIES"
    "finding_count (scan_report st') = 0 \<longleftrightarrow> finding_count (scan_report st1) = 0 \<and> list_all (clean_inventory w u repo) inventory"
    "\<forall>other. finding_count (scan_report st') = 0 \<longrightarrow> map fst other = commits \<longrightarrow>
      list_all (clean_inventory w u repo) other \<longrightarrow> other = inventory" by (elim exE conjE) (rule that)
  have last_limit: "all_entries st' \<le> MAX_ALL_TREE_ENTRIES"
    using more(1,4,5) one(4) by (cases "commits = []") auto
  have unique: "other = (commit, entries) # inventory"
    if "finding_count (scan_report st') = 0" "map fst other = commit # commits" "list_all (clean_inventory w u repo) other" for other
  proof -
    from that(2) obtain es others where other: "other = (commit, es) # others" "map fst others = commits" by (cases other) auto
    with that(3) have "clean_tree w u repo commit es" "list_all (clean_inventory w u repo) others"
      by (auto simp: clean_inventory_def)
    with one(6) [of es] more(6) more(7) [rule_format, of others] that(1) other show ?thesis by simp
  qed
  have "map fst ((commit, entries) # inventory) = commit # commits"
    "commit_entries st' = commit_entries st @ (commit, entries) # inventory"
    "for_each record_size (concat (map snd ((commit, entries) # inventory))) (blob_sizes st) = Inr (blob_sizes st')"
    "all_entries st' = all_entries st + length (concat (map snd ((commit, entries) # inventory)))"
    "finding_count (scan_report st') = 0 \<longleftrightarrow> finding_count (scan_report st) = 0 \<and>
      list_all (clean_inventory w u repo) ((commit, entries) # inventory)"
    using one(1-5) more(1-6) by (simp_all add: for_each_append)
  with last_limit unique show ?case by (intro exI [of _ "(commit, entries) # inventory"] conjI allI impI)
qed

lemma inventories_count:
  assumes "for_each (inventory_commit w u repo) commits st = Inr st'" "map fst other = commits"
    "list_all (clean_inventory w u repo) other" "finding_count (scan_report st) = 0"
  shows "finding_count (scan_report st') = 0"
  using assms
proof (induction commits arbitrary: st other)
  case Nil
  then show ?case by simp
next
  case (Cons commit commits)
  then obtain mid where step: "inventory_commit w u repo commit st = Inr mid"
    and rest: "for_each (inventory_commit w u repo) commits mid = Inr st'" by auto
  from Cons.prems(2) obtain es others where other: "other = (commit, es) # others" "map fst others = commits"
    by (cases other) auto
  from step obtain r r' entries n where metadata: "commit_metadata w u repo commit (scan_report st) = Inr r"
    and tree: "parse_tree w u repo commit r = Inr (r', entries, n)" and mid: "scan_report mid = r'"
    by (auto simp: inventory_commit_def Let_def)
  from Cons.prems(3) other have "clean_metadata w u repo commit" "clean_tree w u repo commit es"
    by (simp_all add: clean_inventory_def)
  with metadata_count [OF metadata] parse_tree_count(1) [OF tree] Cons.prems(4) have "finding_count (scan_report mid) = 0"
    by (auto simp: mid)
  with Cons.IH [OF rest other(2)] Cons.prems(3) other(1) show ?case by simp
qed

lemma blob_stream:
  "read_blob_stream wanted out = Inr blobs \<Longrightarrow>
    list_all2 (\<lambda>(oid, n) (name, data). name = oid \<and> length data = nat n) wanted blobs"
proof (induction wanted arbitrary: out blobs)
  case Nil
  then show ?case by simp
next
  case (Cons w wanted)
  obtain oid n where w: "w = (oid, n)" by (cases w)
  obtain header body where line: "read_line out = (header, body)" by (cases "read_line out")
  from Cons.prems w line obtain name kind digits where "byte_words header = [name, kind, digits]"
    by (auto split: list.splits)
  with Cons.prems w line obtain rest where "length (take (nat n) body) = nat n"
    "read_blob_stream wanted (drop 1 (drop (nat n) body)) = Inr rest" "blobs = (oid, take (nat n) body) # rest"
    by (auto simp: Let_def)
  with Cons.IH w show ?case by auto
qed

lemma list_all2_partner: "list_all2 P xs ys \<Longrightarrow> x \<in> set xs \<Longrightarrow> \<exists>y \<in> set ys. P x y"
  by (induction rule: list_all2_induct) auto

lemma read_blobs_Inr:
  assumes "read_blobs w repo known = Inr blobs" "distinct (map fst known)"
  shows "sum_list (map snd known) \<le> MAX_UNIQUE_BLOB_BYTES" "fst ` set blobs = fst ` set known"
    "map_of known oid = Some n \<Longrightarrow> \<exists>data. map_of blobs oid = Some data \<and> length data = nat n"
proof -
  from assms(1) show "sum_list (map snd known) \<le> MAX_UNIQUE_BLOB_BYTES"
    by (simp add: read_blobs_def Let_def)
  from assms(1) obtain out where "read_blob_stream (sort_key fst known) out = Inr blobs"
    unfolding read_blobs_def Let_def fail_when_eq_Inr by (auto split: outcome.splits)
  note same = blob_stream [OF this]
  have keys: "map fst blobs = map fst (sort_key fst known)"
    using same by (induction rule: list_all2_induct) auto
  then have "set (map fst blobs) = set (map fst (sort_key fst known))" by simp
  then show "fst ` set blobs = fst ` set known" by (simp only: set_map set_sort)
  have "distinct (map fst (sort_key fst known))"
    using assms(2) by (simp add: distinct_map)
  then have distinct: "distinct (map fst blobs)" by (simp add: keys)
  show "\<exists>data. map_of blobs oid = Some data \<and> length data = nat n" if "map_of known oid = Some n"
  proof -
    from that have "(oid, n) \<in> set (sort_key fst known)" by (simp add: map_of_SomeD)
    from list_all2_partner [OF same this] obtain x where "x \<in> set blobs" "fst x = oid" "length (snd x) = nat n"
      by (auto simp: case_prod_beta)
    then have "(oid, snd x) \<in> set blobs" by (cases x) auto
    with distinct have "map_of blobs oid = Some (snd x)" by simp
    with \<open>length (snd x) = nat n\<close> show ?thesis by blast
  qed
qed

lemma scan_commits:
  assumes "for_each (scan_commit u blobs) inventory r = Inr r'"
  shows "finding_count r' = 0 \<longleftrightarrow> finding_count r = 0 \<and> list_all (\<lambda>(commit, entries). clean_content u blobs entries) inventory"
  using assms
proof (induction inventory arbitrary: r)
  case Nil
  then show ?case by simp
next
  case (Cons one inventory)
  obtain commit entries where one: "one = (commit, entries)" by (cases one)
  from Cons.prems one obtain mid where mid: "scan_commit u blobs (commit, entries) r = Inr mid"
    and rest: "for_each (scan_commit u blobs) inventory mid = Inr r'" by auto
  show ?case unfolding Cons.IH [OF rest] scan_commit_count(1) [OF mid] by (simp add: one)
qed

text \<open>The blob of an entry is among those read and has the bytes its inventory line announces.\<close>

definition backed :: "(string \<times> string) list \<Rightarrow> tree_entry \<Rightarrow> bool" where
  "backed blobs e =
    (map_of blobs (entry_oid e) = Some (blob_data blobs e) \<and> length (blob_data blobs e) = nat (entry_size e))"

lemma blobs_backed:
  assumes "for_each record_size entries [] = Inr known" "read_blobs w repo known = Inr blobs"
  shows "list_all (backed blobs) entries"
  unfolding list_all_iff
proof
  note sizes = known_sizes [OF assms(1)]
  fix e
  assume "e \<in> set entries"
  with sizes(1) have "map_of known (entry_oid e) = Some (entry_size e)" unfolding list_all_iff by blast
  from read_blobs_Inr(3) [OF assms(2) _ this] sizes(4) show "backed blobs e"
    by (auto simp: backed_def blob_data_def)
qed

text \<open>A commit whose metadata, inventory and blobs are clean, each blob with the bytes the inventory announces.\<close>

definition clean_commit ::
  "git_world \<Rightarrow> unicode_data \<Rightarrow> string \<Rightarrow> (string \<times> string) list \<Rightarrow> string \<times> tree_entry list \<Rightarrow> bool" where
  "clean_commit w u repo blobs = (\<lambda>(commit, entries).
    clean_metadata w u repo commit \<and> clean_tree w u repo commit entries \<and> clean_content u blobs entries \<and>
    list_all (backed blobs) entries)"

lemma range_run:
  assumes "validate_range w u repo baseline candidate = Inr (allowed, n, printed)"
  obtains commits st blobs r inventory where "outgoing_commits w repo baseline candidate = Inr commits" "n = length commits"
    "commit_entries st = inventory" "map fst inventory = commits"
    "for_each (inventory_commit w u repo) commits
       \<lparr>scan_report = no_findings, commit_entries = [], blob_sizes = [], all_entries = 0, all_inventory_bytes = 0\<rparr> = Inr st"
    "for_each record_size (concat (map snd inventory)) [] = Inr (blob_sizes st)"
    "read_blobs w repo (blob_sizes st) = Inr blobs"
    "for_each (scan_commit u blobs) inventory (scan_report st) = Inr r"
    "allowed \<longleftrightarrow> finding_count r = 0" "printed = printed_findings r"
    "finding_count (scan_report st) = 0 \<longleftrightarrow> list_all (clean_inventory w u repo) inventory"
    "\<forall>other. finding_count (scan_report st) = 0 \<longrightarrow> map fst other = commits \<longrightarrow>
      list_all (clean_inventory w u repo) other \<longrightarrow> other = inventory"
    "commits \<noteq> [] \<longrightarrow> all_entries st \<le> MAX_ALL_TREE_ENTRIES" "all_entries st = length (concat (map snd inventory))"
    "sum_list (map snd (blob_sizes st)) \<le> MAX_UNIQUE_BLOB_BYTES"
    "fst ` set blobs = entry_oid ` set (concat (map snd inventory))"
    "list_all (backed blobs) (concat (map snd inventory))"
proof -
  let ?start = "\<lparr>scan_report = no_findings, commit_entries = [], blob_sizes = [], all_entries = 0, all_inventory_bytes = 0\<rparr>"
  from assms obtain commits st blobs r where run: "outgoing_commits w repo baseline candidate = Inr commits"
    "for_each (inventory_commit w u repo) commits ?start = Inr st" "read_blobs w repo (blob_sizes st) = Inr blobs"
    "for_each (scan_commit u blobs) (commit_entries st) (scan_report st) = Inr r"
    "allowed \<longleftrightarrow> finding_count r = 0" "n = length commits" "printed = printed_findings r"
    by (auto simp: validate_range_def)
  from inventories [OF run(2)] obtain inventory where inv: "map fst inventory = commits" "commit_entries st = inventory"
    "for_each record_size (concat (map snd inventory)) [] = Inr (blob_sizes st)"
    "all_entries st = length (concat (map snd inventory))" "commits \<noteq> [] \<longrightarrow> all_entries st \<le> MAX_ALL_TREE_ENTRIES"
    "finding_count (scan_report st) = 0 \<longleftrightarrow> list_all (clean_inventory w u repo) inventory"
    "\<forall>other. finding_count (scan_report st) = 0 \<longrightarrow> map fst other = commits \<longrightarrow>
      list_all (clean_inventory w u repo) other \<longrightarrow> other = inventory"
    by (elim exE conjE) (rule that, simp_all add: no_findings_def)
  note sizes = known_sizes [OF inv(3)]
  note blobs = read_blobs_Inr [OF run(3) sizes(4), simplified]
  note all_backed = blobs_backed [OF inv(3) run(3)]
  have keys: "fst ` set blobs = entry_oid ` set (concat (map snd inventory))"
    unfolding blobs(2) sizes(3) by simp
  show thesis
    by (rule that [OF run(1,6) inv(2,1) run(2) inv(3) run(3) _ run(5,7) inv(6,7,5,4) blobs(1) keys all_backed])
      (use run(4) inv(2) in simp)
qed

lemma range_verdict_printed:
  "validate_range w u repo baseline candidate = Inr (allowed, n, printed) \<Longrightarrow> allowed \<longleftrightarrow> printed = []"
  by (auto simp: validate_range_def printed_findings_def)

lemma range_clean:
  "case validate_range w u repo baseline candidate of
     Inl e \<Rightarrow> True
   | Inr (allowed, n, printed) \<Rightarrow>
       (\<exists>commits known blobs. outgoing_commits w repo baseline candidate = Inr commits \<and> n = length commits \<and>
         read_blobs w repo known = Inr blobs \<and>
         (allowed \<longleftrightarrow> (\<exists>inventory. map fst inventory = commits \<and> list_all (clean_commit w u repo blobs) inventory))) \<and>
       (allowed \<longleftrightarrow> printed = [])"
proof (cases "validate_range w u repo baseline candidate")
  case (Inr res)
  obtain allowed n printed where res: "res = (allowed, n, printed)" by (cases res)
  obtain commits st blobs r inventory where
    run: "outgoing_commits w repo baseline candidate = Inr commits" "n = length commits"
    "commit_entries st = inventory" "map fst inventory = commits"
    "for_each (inventory_commit w u repo) commits
       \<lparr>scan_report = no_findings, commit_entries = [], blob_sizes = [], all_entries = 0, all_inventory_bytes = 0\<rparr> = Inr st"
    "for_each record_size (concat (map snd inventory)) [] = Inr (blob_sizes st)"
    "read_blobs w repo (blob_sizes st) = Inr blobs"
    "for_each (scan_commit u blobs) inventory (scan_report st) = Inr r"
    "allowed \<longleftrightarrow> finding_count r = 0" "printed = printed_findings r"
    "finding_count (scan_report st) = 0 \<longleftrightarrow> list_all (clean_inventory w u repo) inventory"
    "\<forall>other. finding_count (scan_report st) = 0 \<longrightarrow> map fst other = commits \<longrightarrow>
      list_all (clean_inventory w u repo) other \<longrightarrow> other = inventory"
    "commits \<noteq> [] \<longrightarrow> all_entries st \<le> MAX_ALL_TREE_ENTRIES" "all_entries st = length (concat (map snd inventory))"
    "sum_list (map snd (blob_sizes st)) \<le> MAX_UNIQUE_BLOB_BYTES"
    "fst ` set blobs = entry_oid ` set (concat (map snd inventory))"
    "list_all (backed blobs) (concat (map snd inventory))"
    by (rule range_run [OF Inr [unfolded res]]) (rule that)
  have clean: "list_all (clean_commit w u repo blobs) inventory \<longleftrightarrow>
      list_all (clean_inventory w u repo) inventory \<and> list_all (\<lambda>(commit, entries). clean_content u blobs entries) inventory"
    using run(17) by (auto simp: list_all_iff clean_commit_def clean_inventory_def)
  have counted: "finding_count r = 0 \<longleftrightarrow> list_all (clean_commit w u repo blobs) inventory"
    unfolding scan_commits [OF run(8)] run(11) clean by blast
  have "allowed \<longleftrightarrow> (\<exists>inventory. map fst inventory = commits \<and> list_all (clean_commit w u repo blobs) inventory)"
  proof
    assume allowed
    with counted run(9) have "list_all (clean_commit w u repo blobs) inventory" by simp
    with run(4) show "\<exists>inventory. map fst inventory = commits \<and> list_all (clean_commit w u repo blobs) inventory" by blast
  next
    assume "\<exists>inventory. map fst inventory = commits \<and> list_all (clean_commit w u repo blobs) inventory"
    then obtain other where other: "map fst other = commits" "list_all (clean_commit w u repo blobs) other" by blast
    then have clean_other: "list_all (clean_inventory w u repo) other"
      by (auto simp: list_all_iff clean_commit_def clean_inventory_def)
    have "finding_count (scan_report st) = 0"
      by (rule inventories_count [OF run(5) other(1) clean_other]) (simp add: no_findings_def)
    from run(12) [rule_format, OF this other(1) clean_other] other(2) counted run(9) show allowed by simp
  qed
  moreover have "allowed \<longleftrightarrow> printed = []" by (rule range_verdict_printed [OF Inr [unfolded res]])
  ultimately show ?thesis using run(1,2,7) Inr res by auto
qed simp

text \<open>
  C17: a range is allowed exactly when every outgoing commit is clean: its commit object carries nothing private, every
  inventory line is a regular blob of admissible size under a clean path that no other path folds to, the aggregate
  sizes are within bounds, and every blob, read with exactly the announced bytes, carries nothing unpublishable.
  The commits checked are all those Git lists, and an allowed range prints nothing.
\<close>

theorem range_verdict:
  "case validate_range w u repo baseline candidate of
     Inl e \<Rightarrow> True
   | Inr (allowed, n, printed) \<Rightarrow>
       (\<exists>commits known blobs. outgoing_commits w repo baseline candidate = Inr commits \<and> n = length commits \<and>
         read_blobs w repo known = Inr blobs \<and>
         (allowed \<longleftrightarrow> (\<exists>inventory. map fst inventory = commits \<and> list_all (clean_commit w u repo blobs) inventory))) \<and>
       (allowed \<longleftrightarrow> printed = [])"
  by (rule range_clean)

section \<open>Bounds\<close>

text \<open>
  whatever Git answers, a scan that ends has read at most 256 commits, at most 200000 inventory entries, and at most
  64 MiB of distinct blobs, each of exactly its announced size.
\<close>

theorem range_bounds:
  "case validate_range w u repo baseline candidate of
     Inl e \<Rightarrow> True
   | Inr (allowed, n, printed) \<Rightarrow>
       n \<le> MAX_OUTGOING_COMMITS \<and>
       (\<exists>commits inventory known blobs. outgoing_commits w repo baseline candidate = Inr commits \<and> length commits = n \<and>
         map fst inventory = commits \<and> read_blobs w repo known = Inr blobs \<and>
         length (concat (map snd inventory)) \<le> MAX_ALL_TREE_ENTRIES \<and>
         fst ` set blobs = entry_oid ` set (concat (map snd inventory)) \<and>
         sum_list (map snd known) \<le> MAX_UNIQUE_BLOB_BYTES \<and>
         list_all (backed blobs) (concat (map snd inventory)))"
proof (cases "validate_range w u repo baseline candidate")
  case (Inr res)
  obtain allowed n printed where res: "res = (allowed, n, printed)" by (cases res)
  obtain commits st blobs r inventory where
    run: "outgoing_commits w repo baseline candidate = Inr commits" "n = length commits"
    "commit_entries st = inventory" "map fst inventory = commits"
    "for_each (inventory_commit w u repo) commits
       \<lparr>scan_report = no_findings, commit_entries = [], blob_sizes = [], all_entries = 0, all_inventory_bytes = 0\<rparr> = Inr st"
    "for_each record_size (concat (map snd inventory)) [] = Inr (blob_sizes st)"
    "read_blobs w repo (blob_sizes st) = Inr blobs"
    "for_each (scan_commit u blobs) inventory (scan_report st) = Inr r"
    "allowed \<longleftrightarrow> finding_count r = 0" "printed = printed_findings r"
    "finding_count (scan_report st) = 0 \<longleftrightarrow> list_all (clean_inventory w u repo) inventory"
    "\<forall>other. finding_count (scan_report st) = 0 \<longrightarrow> map fst other = commits \<longrightarrow>
      list_all (clean_inventory w u repo) other \<longrightarrow> other = inventory"
    "commits \<noteq> [] \<longrightarrow> all_entries st \<le> MAX_ALL_TREE_ENTRIES" "all_entries st = length (concat (map snd inventory))"
    "sum_list (map snd (blob_sizes st)) \<le> MAX_UNIQUE_BLOB_BYTES"
    "fst ` set blobs = entry_oid ` set (concat (map snd inventory))"
    "list_all (backed blobs) (concat (map snd inventory))"
    by (rule range_run [OF Inr [unfolded res]]) (rule that)
  have commits: "length commits \<le> MAX_OUTGOING_COMMITS" "commits \<noteq> []"
    using run(1) by (auto simp: outgoing_commits_def Let_def)
  have "outgoing_commits w repo baseline candidate = Inr commits \<and> length commits = n \<and> map fst inventory = commits \<and>
      read_blobs w repo (blob_sizes st) = Inr blobs \<and> length (concat (map snd inventory)) \<le> MAX_ALL_TREE_ENTRIES \<and>
      fst ` set blobs = entry_oid ` set (concat (map snd inventory)) \<and>
      sum_list (map snd (blob_sizes st)) \<le> MAX_UNIQUE_BLOB_BYTES \<and> list_all (backed blobs) (concat (map snd inventory))"
    using commits(2) run(1,2,4,7,13,14,15,16,17) by metis
  with commits(1) run(2) show ?thesis unfolding Inr res sum.case prod.case by blast
qed simp

end
