(* ===== verification/HistoryMain.thy ===== *)
theory HistoryMain
  imports HistoryProps
begin

text \<open>
  What the history validator prints: fixed labels, commit names and digests, never content.
\<close>

section \<open>Diagnostics\<close>

definition text_labels :: "string list" where
  "text_labels =
    [''age private identity'', ''private key block'', ''GitHub classic token'', ''GitHub fine-grained token'', ''AWS access key'',
     ''prefixed Cloudflare API credential'', ''literal Cloudflare API token'', ''Cloudflare bearer credential'',
     ''Cloudflare Tunnel runtime token'', ''bare Cloudflare Tunnel runtime token'', ''local Cloudflare token receipt'',
     ''plaintext Kubernetes API encryption configuration'', ''local workstation path'', ''non-public host IPv4 address'',
     ''non-public host IPv6 address'', ''machine or tunnel UUID'', ''non-private email address'',
     ''non-synthetic 32-hex identifier'']"

definition opaque_labels :: "string list" where
  "opaque_labels =
    [''archive or encrypted artifact'', ''opaque binary artifact'', ''opaque encoded artifact'', ''opaque high-entropy artifact'']"

definition path_labels :: "string list" where
  "path_labels =
    [''unsafe path encoding'', ''forbidden local-only path'', ''forbidden generated-output path'',
     ''forbidden repository layout'', ''forbidden SOPS ciphertext path'']"

definition history_labels :: "string list" where
  "history_labels =
    text_labels @ opaque_labels @ path_labels @ map (\<lambda>l. ''repository path '' @ l) text_labels @
    map (\<lambda>l. ''commit metadata '' @ l) (text_labels @ opaque_labels) @
    [''commit metadata is not UTF-8'', ''non-UTF-8 repository path'', ''case-colliding repository path'',
     ''symbolic or unsupported Git mode'', ''non-blob Git tree entry'', ''blob exceeds publication size ceiling'',
     ''tree exceeds aggregate publication size ceiling'', ''approved badge violates the strict text contract'',
     ''media outside approved frontend asset tree'', ''frontend media exceeds size ceiling'', ''embedded media data URI'',
     ''committed Kubernetes Secret manifest'', ''frontend media tree exceeds aggregate ceiling'']"

lemma label_if_subset: "l \<in> set ls \<Longrightarrow> set (label_if c l) \<subseteq> set ls"
  by (auto simp: label_if_def)

lemma text_findings_labels: "set (text_findings u s p t) \<subseteq> set text_labels"
proof -
  have "set (map fst (filter (\<lambda>(label, pattern). rx_search pattern x) (PROHIBITED_CONTENT_PATTERNS u))) \<subseteq>
      set (map fst (PROHIBITED_CONTENT_PATTERNS u))" for x
    by auto
  moreover have "set (map fst (PROHIBITED_CONTENT_PATTERNS u)) \<subseteq> set text_labels"
    unfolding PROHIBITED_CONTENT_PATTERNS_def Let_def text_labels_def by simp
  ultimately have "set (map fst (filter (\<lambda>(label, pattern). rx_search pattern x) (PROHIBITED_CONTENT_PATTERNS u))) \<subseteq>
      set text_labels" for x by blast
  then show ?thesis
    unfolding text_findings_def Let_def set_append
    by (intro Un_least label_if_subset) (simp_all add: text_labels_def)
qed

lemma path_findings_labels: "set (path_findings u p) \<subseteq> set path_labels"
  unfolding path_findings_def Let_def set_append
  by (intro Un_least label_if_subset) (simp_all add: path_labels_def)

lemma one_of_four:
  "(if a then Some w else if b then Some x else if c then Some y else if d then Some z else None) = Some l \<Longrightarrow>
    l \<in> set [w, x, y, z]"
  by (auto split: if_splits)

lemma opaque_finding_label: "opaque_artifact_finding u d p = Some l \<Longrightarrow> l \<in> set opaque_labels"
  unfolding opaque_artifact_finding_def opaque_labels_def Let_def by (rule one_of_four)

lemma history_labels_parts:
  "set text_labels \<subseteq> set history_labels" "set opaque_labels \<subseteq> set history_labels" "set path_labels \<subseteq> set history_labels"
  "(\<lambda>l. ''repository path '' @ l) ` set text_labels \<subseteq> set history_labels"
  "(\<lambda>l. ''commit metadata '' @ l) ` (set text_labels \<union> set opaque_labels) \<subseteq> set history_labels"
  unfolding history_labels_def set_append set_map by blast+

text \<open>A fixed label, the name of a scanned commit and at most sixteen hexadecimal digits.\<close>

definition neutral_line :: "string list \<Rightarrow> string \<Rightarrow> bool" where
  "neutral_line commits line \<longleftrightarrow>
    (\<exists>label commit digest. label \<in> set history_labels \<and> commit \<in> set commits \<and>
      (digest = [] \<or> (\<exists>d. digest = ''; path_sha256='' @ d \<and> length d = 16 \<and> list_all is_hex d)) \<and>
      line = ''FAIL publication history: '' @ label @ ''; commit='' @ commit @ digest)"

definition neutral_report :: "string list \<Rightarrow> report \<Rightarrow> bool" where
  "neutral_report commits r \<longleftrightarrow>
    length (messages r) = min MAX_FINDINGS_REPORTED (finding_count r) \<and> list_all (neutral_line commits) (messages r)"

lemma digest_hex: "length (path_digest p) = 16 \<and> list_all is_hex (path_digest p)"
proof -
  have "length (sha256_hex p) = 64 \<and> list_all is_hex (sha256_hex p)"
    using sha256_ref_hex [of p] by (simp add: sha256_ref_def)
  then show ?thesis by (auto simp: path_digest_def list_all_iff dest: in_set_takeD)
qed

lemma neutral_message:
  "label \<in> set history_labels \<Longrightarrow> commit \<in> set commits \<Longrightarrow> neutral_line commits (finding_message label commit p)"
proof -
  assume known: "label \<in> set history_labels" "commit \<in> set commits"
  let ?digest = "case p of None \<Rightarrow> [] | Some q \<Rightarrow> ''; path_sha256='' @ path_digest q"
  have "?digest = [] \<or> (\<exists>d. ?digest = ''; path_sha256='' @ d \<and> length d = 16 \<and> list_all is_hex d)"
    using digest_hex by (cases p) auto
  with known show ?thesis
    unfolding neutral_line_def finding_message_def by blast
qed

lemma neutral_add:
  "label \<in> set history_labels \<Longrightarrow> commit \<in> set commits \<Longrightarrow> neutral_report commits r \<Longrightarrow>
    neutral_report commits (add_finding commit p label r)"
  using neutral_message by (auto simp: neutral_report_def add_finding_def Let_def)

lemma neutral_adds:
  "set labels \<subseteq> set history_labels \<Longrightarrow> commit \<in> set commits \<Longrightarrow> neutral_report commits r \<Longrightarrow>
    neutral_report commits (add_findings commit p labels r)"
  by (induction labels arbitrary: r) (simp_all add: add_findings_def neutral_add)

lemma commit_labels_known: "set (commit_labels u metadata message) \<subseteq> set history_labels"
proof -
  have "''commit metadata is not UTF-8'' \<in> set history_labels" by (simp only: history_labels_def set_append) simp
  then show ?thesis
    using history_labels_parts(5) text_findings_labels [of u metadata "[]" False] opaque_finding_label [of u message "[]"]
    unfolding commit_labels_def set_append set_map
    by (intro Un_least label_if_subset) (auto split: option.splits)
qed

lemma entry_labels_known: "set (entry_labels u seen mode kind raw) \<subseteq> set history_labels"
proof -
  have fixed: "''non-UTF-8 repository path'' \<in> set history_labels" "''case-colliding repository path'' \<in> set history_labels"
    "''symbolic or unsupported Git mode'' \<in> set history_labels" "''non-blob Git tree entry'' \<in> set history_labels"
    by (simp_all only: history_labels_def set_append) simp_all
  have "set (path_findings u p) \<subseteq> set history_labels" for p
    using path_findings_labels history_labels_parts(3) by blast
  moreover have "(\<lambda>l. ''repository path '' @ l) ` set (text_findings u p [] t) \<subseteq> set history_labels" for p t
    using text_findings_labels [of u p "[]" t] history_labels_parts(4) by blast
  ultimately show ?thesis
    unfolding entry_labels_def Let_def set_append set_map by (intro Un_least label_if_subset fixed) blast+
qed

lemma media_labels_known: "set (media_labels u path data n) \<subseteq> set history_labels"
proof -
  have fixed: "''approved badge violates the strict text contract'' \<in> set history_labels"
    "''media outside approved frontend asset tree'' \<in> set history_labels"
    "''frontend media exceeds size ceiling'' \<in> set history_labels"
    by (simp_all only: history_labels_def set_append) simp_all
  show ?thesis
  proof (cases "asset_scope u path")
    case None
    then show ?thesis using fixed(2) label_if_subset [OF fixed(1)] by (simp add: media_labels_def)
  next
    case (Some place)
    then show ?thesis using label_if_subset [OF fixed(3)] label_if_subset [OF fixed(1)] by (simp add: media_labels_def)
  qed
qed

lemma content_labels_known: "set (content_labels u e data) \<subseteq> set history_labels"
proof -
  have fixed: "''embedded media data URI'' \<in> set history_labels" "''committed Kubernetes Secret manifest'' \<in> set history_labels"
    by (simp_all only: history_labels_def set_append) simp_all
  have "set (text_findings u d p t) \<subseteq> set history_labels" for d p t
    using text_findings_labels history_labels_parts(1) by blast
  moreover have "set (case opaque_artifact_finding u data p of None \<Rightarrow> [] | Some label \<Rightarrow> [label]) \<subseteq> set history_labels" for p
    using opaque_finding_label history_labels_parts(2) by (auto split: option.splits)
  ultimately show ?thesis
    unfolding content_labels_def Let_def set_append
    by (intro Un_least label_if_subset fixed media_labels_known) blast+
qed

lemma neutral_record:
  assumes "tree_record u commit line st = Inr st'" "commit \<in> set commits" "neutral_report commits (tree_report st)"
  shows "neutral_report commits (tree_report st')"
proof -
  have label: "''blob exceeds publication size ceiling'' \<in> set history_labels"
    by (simp only: history_labels_def set_append) simp
  from assms(1) obtain header raw where split: "split_first (CHR 0x09) line = Some (header, raw)"
    by (auto simp: tree_record_def split: option.splits)
  from assms(1) split obtain mode kind oid size_text where fields: "byte_words header = [mode, kind, oid, size_text]"
    by (auto simp: tree_record_def split: list.splits)
  let ?r = "add_findings commit (Some raw) (entry_labels u (casefold_paths st) mode kind raw) (tree_report st)"
  have "neutral_report commits ?r" by (rule neutral_adds [OF entry_labels_known assms(2,3)])
  moreover from assms(1) split fields have
    "tree_report st' = ?r \<or> tree_report st' = add_finding commit (Some raw) ''blob exceeds publication size ceiling'' ?r"
    by (auto simp: tree_record_def Let_def split: if_splits)
  ultimately show ?thesis using neutral_add [OF label assms(2)] by auto
qed

lemma neutral_tree:
  assumes "parse_tree w u repo commit r = Inr (r', entries, n)" "commit \<in> set commits" "neutral_report commits r"
  shows "neutral_report commits r'"
proof -
  have label: "''tree exceeds aggregate publication size ceiling'' \<in> set history_labels"
    by (simp only: history_labels_def set_append) simp
  from assms(1) obtain lines st where
    run: "for_each (tree_record u commit) lines
      \<lparr>tree_report = r, tree_entries_read = [], total_size = 0, casefold_paths = []\<rparr> = Inr st"
    and r': "r' = tree_report st \<or> r' = add_finding commit None ''tree exceeds aggregate publication size ceiling'' (tree_report st)"
    unfolding parse_tree_def Let_def bind_eq_Inr fail_when_eq_Inr by (auto split: if_splits)
  have "neutral_report commits (tree_report st)"
    by (rule for_each_invariant [OF run, of "\<lambda>st. neutral_report commits (tree_report st)"])
      (use assms(2,3) neutral_record in auto)
  with r' neutral_add [OF label assms(2)] show ?thesis by auto
qed

lemma neutral_inventory:
  assumes "inventory_commit w u repo commit st = Inr st'" "commit \<in> set commits" "neutral_report commits (scan_report st)"
  shows "neutral_report commits (scan_report st')"
proof -
  from assms(1) obtain r r' entries n where metadata: "commit_metadata w u repo commit (scan_report st) = Inr r"
    and tree: "parse_tree w u repo commit r = Inr (r', entries, n)" and st': "scan_report st' = r'"
    by (auto simp: inventory_commit_def Let_def)
  have "neutral_report commits r"
    using metadata neutral_adds [OF commit_labels_known assms(2,3)]
    by (auto simp: commit_metadata_def split: option.splits)
  from neutral_tree [OF tree assms(2) this] show ?thesis by (simp add: st')
qed

lemma neutral_scan:
  assumes "scan_commit u blobs (commit, entries) r = Inr r'" "commit \<in> set commits" "neutral_report commits r"
  shows "neutral_report commits r'"
proof -
  have "''frontend media tree exceeds aggregate ceiling'' \<in> set history_labels"
    by (simp only: history_labels_def set_append) simp
  then have label: "set (concat (map (\<lambda>(place, total). label_if (MAX_ASSET_TREE_BYTES < total)
        ''frontend media tree exceeds aggregate ceiling'') totals)) \<subseteq> set history_labels" for totals :: asset_totals
    by (auto simp: label_if_def)
  from assms(1) obtain r1 totals where run: "for_each (scan_entry u blobs commit) entries (r, []) = Inr (r1, totals)"
    and r': "r' = add_findings commit None (concat (map (\<lambda>(place, total). label_if (MAX_ASSET_TREE_BYTES < total)
        ''frontend media tree exceeds aggregate ceiling'') totals)) r1"
    by (auto simp: scan_commit_def)
  have "neutral_report commits (fst (r1, totals))"
    by (rule for_each_invariant [OF run, of "\<lambda>st. neutral_report commits (fst st)"])
      (use assms(2,3) neutral_adds [OF content_labels_known] in \<open>auto simp: scan_entry_def\<close>)
  then show ?thesis unfolding r' using neutral_adds [OF label assms(2)] by simp
qed

text \<open>
  C18: the diagnostics never echo scanned content: at most 64 lines and a count are printed, and each line is a fixed
  label, the name of a scanned commit and at most sixteen hexadecimal digits of a digest.
\<close>

theorem diagnostics_neutral:
  "case validate_range w u repo baseline candidate of
     Inl e \<Rightarrow> True
   | Inr (allowed, n, printed) \<Rightarrow>
       length printed \<le> MAX_FINDINGS_REPORTED + 1 \<and>
       (\<exists>commits. outgoing_commits w repo baseline candidate = Inr commits \<and>
         list_all (\<lambda>line. neutral_line commits line \<or>
           (\<exists>k. line = ''FAIL publication history: additional findings suppressed; count='' @ show_nat k)) printed)"
proof (cases "validate_range w u repo baseline candidate")
  case (Inr res)
  obtain allowed n printed where res: "res = (allowed, n, printed)" by (cases res)
  from Inr res obtain commits st blobs r where commits: "outgoing_commits w repo baseline candidate = Inr commits"
    and inventory: "for_each (inventory_commit w u repo) commits
       \<lparr>scan_report = no_findings, commit_entries = [], blob_sizes = [], all_entries = 0, all_inventory_bytes = 0\<rparr> = Inr st"
    and scan: "for_each (scan_commit u blobs) (commit_entries st) (scan_report st) = Inr r"
    and printed: "printed = printed_findings r"
    by (auto simp: validate_range_def)
  have "neutral_report commits (scan_report st)"
    by (rule for_each_invariant [OF inventory, of "\<lambda>st. neutral_report commits (scan_report st)"])
      (use neutral_inventory in \<open>auto simp: neutral_report_def no_findings_def\<close>)
  moreover have "set (map fst (commit_entries st)) \<subseteq> set commits"
    using inventories [OF inventory] by auto
  ultimately have "neutral_report commits r"
    using neutral_scan by (intro for_each_invariant [OF scan, of "neutral_report commits"]) fastforce+
  then have lines: "length (messages r) \<le> MAX_FINDINGS_REPORTED" "list_all (neutral_line commits) (messages r)"
    by (simp_all add: neutral_report_def)
  then have "length printed \<le> MAX_FINDINGS_REPORTED + 1"
    "list_all (\<lambda>line. neutral_line commits line \<or>
      (\<exists>k. line = ''FAIL publication history: additional findings suppressed; count='' @ show_nat k)) printed"
    unfolding printed printed_findings_def list_all_iff by auto
  with commits show ?thesis unfolding Inr res sum.case prod.case by blast
qed simp

text \<open>
  The history command always ends with an exit code: no exception escapes it.
\<close>

section \<open>The command\<close>

abbreviation only_failure :: "exc \<Rightarrow> bool" where "only_failure e \<equiv> e = ValidationFailure"

lemma errs_validation_failure [errs]: "errs only_failure validation_failure"
  by (simp add: validation_failure_def errs_def)

lemma errs_fail_when [errs]: "(\<not> c \<Longrightarrow> errs only_failure k) \<Longrightarrow> errs only_failure (fail_when c k)"
  by (simp add: fail_when_def validation_failure_def errs_def)

lemma errs_git_bytes [errs]: "errs only_failure (git_bytes_within w repo args limit)"
  unfolding git_bytes_within_def by (auto intro!: errs split: outcome.splits)

lemma errs_commits [errs]: "errs only_failure (outgoing_commits w repo b c)"
  unfolding outgoing_commits_def Let_def by (intro errs)

lemma errs_metadata [errs]: "errs only_failure (commit_metadata w u repo commit r)"
  unfolding commit_metadata_def by (auto intro!: errs split: option.splits)

lemma errs_size [errs]: "errs only_failure (size_of_text s)"
  unfolding size_of_text_def by (auto intro!: errs split: sum.splits)

lemma errs_record [errs]: "errs only_failure (tree_record u commit line st)"
proof (cases "split_first (CHR 0x09) line")
  case None
  then show ?thesis by (simp add: tree_record_def errs_validation_failure)
next
  case (Some parts)
  obtain header raw where parts: "parts = (header, raw)" by (cases parts)
  show ?thesis
  proof (cases "\<exists>mode kind oid size_text. byte_words header = [mode, kind, oid, size_text]")
    case True
    then obtain mode kind oid size_text where "byte_words header = [mode, kind, oid, size_text]" by blast
    then show ?thesis unfolding tree_record_def Some parts option.case prod.case Let_def by (simp only: list.case) (intro errs)
  next
    case False
    then show ?thesis unfolding tree_record_def Some parts option.case prod.case
      by (auto intro!: errs split: list.splits)
  qed
qed

lemma errs_tree [errs]: "errs only_failure (parse_tree w u repo commit r)"
  unfolding parse_tree_def Let_def by (intro errs errs_for_each)

lemma errs_record_size [errs]: "errs only_failure (record_size e known)"
  unfolding record_size_def by (auto intro!: errs split: option.splits)

lemma errs_inventory [errs]: "errs only_failure (inventory_commit w u repo commit st)"
  unfolding inventory_commit_def Let_def by (intro errs errs_for_each)

lemma errs_stream [errs]: "errs only_failure (read_blob_stream wanted out)"
proof (induction wanted arbitrary: out)
  case Nil
  then show ?case by (simp add: errs_def)
next
  case (Cons one wanted)
  obtain oid n where one: "one = (oid, n)" by (cases one)
  obtain header body where line: "read_line out = (header, body)" by (cases "read_line out")
  show ?case
  proof (cases "\<exists>name kind digits. byte_words header = [name, kind, digits]")
    case True
    then obtain name kind digits where "byte_words header = [name, kind, digits]" by blast
    then show ?thesis
      unfolding one read_blob_stream.simps line Let_def prod.case by (simp only: list.case) (intro errs Cons.IH)
  next
    case False
    then show ?thesis unfolding one read_blob_stream.simps line Let_def prod.case
      by (auto intro!: errs split: list.splits)
  qed
qed

lemma errs_blobs [errs]: "errs only_failure (read_blobs w repo known)"
  unfolding read_blobs_def Let_def by (auto intro!: errs split: outcome.splits)

lemma scan_commit_total:
  assumes "list_all (backed blobs) entries"
  shows "\<exists>r'. scan_commit u blobs (commit, entries) r = Inr r'"
proof -
  have "\<exists>out. for_each (scan_entry u blobs commit) entries st = Inr out" for st
    using assms
  proof (induction entries arbitrary: st)
    case (Cons e entries)
    then show ?case by (cases st) (simp add: backed_def scan_entry_found)
  qed simp
  then obtain out where "for_each (scan_entry u blobs commit) entries (r, []) = Inr out" by blast
  then show ?thesis by (cases out) (simp add: scan_commit_def)
qed

lemma scan_commits_total:
  "list_all (backed blobs) (concat (map snd inventory)) \<Longrightarrow> \<exists>r'. for_each (scan_commit u blobs) inventory r = Inr r'"
proof (induction inventory arbitrary: r)
  case (Cons one inventory)
  obtain commit entries where one: "one = (commit, entries)" by (cases one)
  with Cons.prems scan_commit_total [of blobs entries u commit r] obtain mid
    where "scan_commit u blobs (commit, entries) r = Inr mid" by auto
  with Cons.IH [of mid] Cons.prems one show ?case by auto
qed simp

text \<open>No blob is missing when the contents are scanned, so no \<open>KeyError\<close> escapes.\<close>

lemma errs_range: "errs only_failure (validate_range w u repo baseline candidate)"
proof (cases "outgoing_commits w repo baseline candidate")
  case (Inl e)
  then show ?thesis using errs_commits [of w repo baseline candidate] by (simp add: validate_range_def)
next
  case (Inr commits)
  let ?start = "\<lparr>scan_report = no_findings, commit_entries = [], blob_sizes = [], all_entries = 0, all_inventory_bytes = 0\<rparr>"
  show ?thesis
  proof (cases "for_each (inventory_commit w u repo) commits ?start")
    case (Inl e)
    have "errs only_failure (for_each (inventory_commit w u repo) commits ?start)" by (intro errs_for_each errs)
    with Inl Inr show ?thesis by (simp add: validate_range_def errs_def)
  next
    case st: (Inr st)
    show ?thesis
    proof (cases "read_blobs w repo (blob_sizes st)")
      case (Inl e)
      then show ?thesis using Inr st errs_blobs [of w repo "blob_sizes st"] by (simp add: validate_range_def errs_def)
    next
      case blobs: (Inr blobs)
      from inventories [OF st] obtain inventory where inv: "commit_entries st = inventory"
        "for_each record_size (concat (map snd inventory)) [] = Inr (blob_sizes st)" by auto
      have "list_all (backed blobs) (concat (map snd inventory))" by (rule blobs_backed [OF inv(2) blobs])
      from scan_commits_total [OF this, of u "scan_report st"] inv(1)
      obtain r where "for_each (scan_commit u blobs) (commit_entries st) (scan_report st) = Inr r" by auto
      then show ?thesis using Inr st blobs by (simp add: validate_range_def errs_def)
    qed
  qed
qed

lemma history_caught_failure: "errs only_failure m \<Longrightarrow> errs history_caught m"
  by (auto simp: errs_def history_caught_def)

lemma errs_caught_when: "errs history_caught k \<Longrightarrow> errs history_caught (fail_when c k)"
  by (auto simp: fail_when_def validation_failure_def errs_def history_caught_def)

lemma errs_run_history:
  assumes "\<And>p. errs history_caught (resolved_directory w p)"
  shows "errs history_caught (run_history w u pull_request b c)"
proof -
  have "errs history_caught (resolve_repository w)"
    unfolding resolve_repository_def
    by (intro errs_bind errs_caught_when assms history_caught_failure [OF errs_git_bytes] errs_prod errs_Inr)
  moreover have "errs history_caught (resolve_commit w repo v)" for repo v
    unfolding resolve_commit_def by (intro history_caught_failure errs)
  moreover have "errs history_caught (related_commits w repo pull_request v v')" for repo v v'
    unfolding related_commits_def by (intro history_caught_failure errs)
  ultimately show ?thesis
    unfolding run_history_def
    by (intro errs_bind errs_caught_when history_caught_failure [OF errs_range] errs_prod errs_Inr)
qed

lemma run_history_result:
  assumes "run_history w u pull_request b c = Inr out"
  shows "exit_code out = 0 \<and> printed_err out = [] \<and> length (printed_out out) = 1 \<or>
    exit_code out = 1 \<and> printed_err out \<noteq> [] \<and> printed_out out = []"
proof -
  from assms obtain repo allowed n errors where verdict: "validate_range w u repo b c = Inr (allowed, n, errors)"
    and out: "out = (if \<not> allowed then \<lparr>exit_code = 1, printed_out = [], printed_err = errors\<rparr>
         else \<lparr>exit_code = 0,
                printed_out = [''PASS publication history: '' @ show_nat n @
                  '' outgoing commit(s) scanned from '' @ b @ '' to '' @ c],
                printed_err = []\<rparr>)"
    unfolding run_history_def bind_eq_Inr fail_when_eq_Inr resolve_commit_def by auto
  from range_verdict_printed [OF verdict] out show ?thesis by (cases allowed) simp_all
qed


text \<open>A directory that is not a repository: Git fails, the command rejects the range.\<close>

definition bare_world :: git_world where
  "bare_world =
    \<lparr>git_in = (\<lambda>_ _ _. Exited 128 [] []), git_batch = (\<lambda>_ _ _. SpawnFailed), ambient_environment = Map.empty,
      current_directory = ''/srv'',
      resolved_directory = (\<lambda>p. Inr (p, True))\<rparr>"


section \<open>The environment\<close>

definition forged_world :: "git_world \<Rightarrow> variables \<Rightarrow> git_world" where
  "forged_world w forged =
    w\<lparr>ambient_environment := (\<lambda>name. if redirects_git name then forged name else ambient_environment w name)\<rparr>"

lemma forged_git: "git_bytes_within (forged_world w forged) = git_bytes_within w"
proof -
  have "GIT_ENVIRONMENT (forged_world w forged) = GIT_ENVIRONMENT w"
    by (rule ext) (simp add: GIT_ENVIRONMENT_def git_environment_def forged_world_def)
  then show ?thesis by (intro ext) (simp add: git_bytes_within_def forged_world_def)
qed

lemma forged_blobs: "read_blobs (forged_world w forged) = read_blobs w"
proof -
  have "GIT_ENVIRONMENT (forged_world w forged) = GIT_ENVIRONMENT w"
    by (rule ext) (simp add: GIT_ENVIRONMENT_def git_environment_def forged_world_def)
  then show ?thesis by (intro ext) (simp add: read_blobs_def forged_world_def)
qed

text \<open>
  No inherited variable that could point Git at another repository, object store or configuration changes the verdict:
  whatever values such variables have, the command gives the same result.
\<close>

theorem ambient_git_ignored:
  "history_main (w\<lparr>ambient_environment := (\<lambda>name. if redirects_git name then forged name else ambient_environment w name)\<rparr>)
     u argv = history_main w u argv"
proof -
  have "inventory_commit (forged_world w forged) u = inventory_commit w u"
    by (intro ext) (simp add: inventory_commit_def commit_metadata_def parse_tree_def forged_git)
  then have "validate_range (forged_world w forged) u = validate_range w u"
    by (intro ext) (simp add: validate_range_def outgoing_commits_def forged_git forged_blobs)
  moreover have "resolve_repository (forged_world w forged) = resolve_repository w"
    unfolding resolve_repository_def forged_git by (simp add: forged_world_def)
  moreover have "resolve_commit (forged_world w forged) = resolve_commit w"
    unfolding resolve_commit_def forged_git ..
  moreover have "related_commits (forged_world w forged) = related_commits w"
    by (intro ext) (simp only: related_commits_def forged_git)
  ultimately have "run_history (forged_world w forged) u = run_history w u"
    by (intro ext) (simp only: run_history_def)
  then show ?thesis by (simp add: history_main_def forged_world_def [symmetric] split: option.split)
qed

end
