(* ===== verification/PyValue.thy ===== *)
theory PyValue
  imports PyBytes
begin

text \<open>
  What the evidence validators do with parsed values whose shape nothing has checked
  yet: \<open>dict.get\<close> with a default, iteration, truth, membership and order of numbers,
  each with the exception Python raises on a value of another type.
\<close>

section \<open>Exits\<close>

text \<open>\<open>if c: raise SystemExit(message)\<close>, followed by the rest of the body.\<close>

abbreviation exit_if :: "bool \<Rightarrow> string \<Rightarrow> 'a res \<Rightarrow> 'a res" where
  "exit_if c message k \<equiv> raise_if c (SystemExit message) k"

text \<open>A loop that keeps nothing ends when its body accepts every element.\<close>

lemma for_each_unit: "for_each f xs () = Inr () \<longleftrightarrow> list_all (\<lambda>x. f x () = Inr ()) xs"
  by (induction xs) auto

section \<open>Dictionaries\<close>

text \<open>\<open>d.get(k, otherwise)\<close>.\<close>

definition get_default :: "dict \<Rightarrow> string \<Rightarrow> json \<Rightarrow> json" where
  "get_default d k otherwise = (case map_of d k of Some v \<Rightarrow> v | None \<Rightarrow> otherwise)"

lemma get_default_simps [simp]:
  "get_default [] k v = v" "get_default ((k', w) # d) k v = (if k = k' then w else get_default d k v)"
  by (simp_all add: get_default_def)

lemma get_default_null: "get_default d k JNull = get d k"
  by (simp add: get_default_def get_def)

text \<open>The receiver of an attribute that only dictionaries have among the values of JSON.\<close>

definition object_item :: "json \<Rightarrow> dict res" where
  "object_item v = (case v of JObj d \<Rightarrow> Inr d | _ \<Rightarrow> Inl AttributeError)"

lemma object_item_simps [simp]: "object_item (JObj d) = Inr d"
  by (simp add: object_item_def)

lemma object_item_Inr [simp]: "object_item v = Inr d \<longleftrightarrow> v = JObj d"
  by (cases v) (simp_all add: object_item_def)

lemma errs_object_item [errs]: "P AttributeError \<Longrightarrow> errs P (object_item v)"
  by (cases v) (simp_all add: object_item_def)

text \<open>\<open>v if isinstance(v, dict) else {}\<close>.\<close>

definition dict_or_empty :: "json \<Rightarrow> dict" where
  "dict_or_empty v = (case v of JObj d \<Rightarrow> d | _ \<Rightarrow> [])"

lemma dict_or_empty_simps [simp]: "dict_or_empty (JObj d) = d" "dict_or_empty JNull = []"
  by (simp_all add: dict_or_empty_def)

definition is_object :: "json \<Rightarrow> bool" where
  "is_object v = (case v of JObj _ \<Rightarrow> True | _ \<Rightarrow> False)"

lemma is_object_iff: "is_object v \<longleftrightarrow> (\<exists>d. v = JObj d)"
  by (cases v) (simp_all add: is_object_def)

lemma is_object_simps [simp]: "is_object (JObj d)"
  by (simp add: is_object_def)

text \<open>\<open>[d for d in xs if isinstance(d, dict)]\<close>.\<close>

definition objects :: "json list \<Rightarrow> dict list" where
  "objects xs = map dict_or_empty (filter is_object xs)"

section \<open>Iteration and truth\<close>

text \<open>The characters of a string: its UTF-8 sequences.\<close>

definition tail_bytes :: "char \<Rightarrow> nat" where
  "tail_bytes c = (if byte c < 192 then 0 else if byte c < 224 then 1 else if byte c < 240 then 2 else 3)"

function code_points :: "string \<Rightarrow> string list" where
  "code_points [] = []"
| "code_points (c # s) = (c # take (tail_bytes c) s) # code_points (drop (tail_bytes c) s)"
  by pat_completeness auto
termination
  by (relation "measure length") auto

text \<open>\<open>for x in v\<close>: the elements of a list, the keys of a dictionary, the characters of a string.\<close>

definition elements_of :: "json \<Rightarrow> json list res" where
  "elements_of v =
    (case v of
       JArr xs \<Rightarrow> Inr xs
     | JObj d \<Rightarrow> Inr (map (JStr \<circ> fst) d)
     | JStr s \<Rightarrow> Inr (map JStr (code_points s))
     | _ \<Rightarrow> Inl TypeError)"

lemma elements_of_simps [simp]: "elements_of (JArr xs) = Inr xs"
  by (simp add: elements_of_def)

lemma errs_elements_of [errs]: "P TypeError \<Longrightarrow> errs P (elements_of v)"
  by (cases v) (simp_all add: elements_of_def)

definition truthy :: "json \<Rightarrow> bool" where
  "truthy v =
    (case v of
       JNull \<Rightarrow> False
     | JBool b \<Rightarrow> b
     | JInt i \<Rightarrow> i \<noteq> 0
     | JFloat f \<Rightarrow> \<not> float_int_eq f 0
     | JStr s \<Rightarrow> s \<noteq> []
     | JArr xs \<Rightarrow> xs \<noteq> []
     | JObj d \<Rightarrow> d \<noteq> [])"

text \<open>\<open>any(p(x) for x in xs)\<close>: it stops at the first \<open>True\<close>, so nothing after it can raise.\<close>

fun any_res :: "('a \<Rightarrow> bool res) \<Rightarrow> 'a list \<Rightarrow> bool res" where
  "any_res p [] = Inr False"
| "any_res p (x # xs) = bind (p x) (\<lambda>b. if b then Inr True else any_res p xs)"

lemma any_res_False [simp]: "any_res p xs = Inr False \<longleftrightarrow> list_all (\<lambda>x. p x = Inr False) xs"
  by (induction xs) auto

lemma errs_any_res [errs]: "(\<And>x. x \<in> set xs \<Longrightarrow> errs P (p x)) \<Longrightarrow> errs P (any_res p xs)"
  by (induction xs) (auto intro!: errs)

text \<open>\<open>v in {None, 0}\<close>, which hashes the value.\<close>

definition none_or_zero :: "json \<Rightarrow> bool res" where
  "none_or_zero v = (if hashable v then Inr (v = JNull \<or> json_eq v (JInt 0)) else Inl TypeError)"

lemma errs_none_or_zero [errs]: "P TypeError \<Longrightarrow> errs P (none_or_zero v)"
  by (simp add: none_or_zero_def)

text \<open>\<open>v in (None, w)\<close>.\<close>

definition none_or :: "json \<Rightarrow> json \<Rightarrow> bool" where
  "none_or w v = (v = JNull \<or> json_eq v w)"

section \<open>Order of numbers\<close>

text \<open>
  \<open><\<close> between integers, truth values and floats compares exact values; \<open>finite\<close> numbers
  are \<open>m * 2^e\<close>.  The code compares numbers it has found finite.
\<close>

fun binary :: "json \<Rightarrow> (int \<times> int) option" where
  "binary (JInt i) = Some (i, 0)"
| "binary (JBool b) = Some (if b then 1 else 0, 0)"
| "binary (JFloat (Fin m e)) = Some (m, e)"
| "binary v = None"

definition binary_less :: "int \<times> int \<Rightarrow> int \<times> int \<Rightarrow> bool" where
  "binary_less = (\<lambda>(m, e) (n, f). m * 2 ^ nat (e - min e f) < n * 2 ^ nat (f - min e f))"

definition number_less :: "json \<Rightarrow> json \<Rightarrow> bool" where
  "number_less v w =
    (case (binary v, binary w) of (Some a, Some b) \<Rightarrow> binary_less a b | _ \<Rightarrow> False)"

section \<open>Strict documents\<close>

text \<open>
  \<open>object_pairs_hook\<close> that refuses a repeated key, and \<open>parse_constant\<close> that refuses
  \<open>NaN\<close>, \<open>Infinity\<close> and \<open>-Infinity\<close>.  In a document that is otherwise sound, the letters
  \<open>N\<close> and \<open>I\<close> occur outside string literals in these constants only.  The source
  refuses a constant when it is scanned and the model at the end; when the rest of
  the text is not sound either, the two may name another of its faults.
\<close>

definition unique_pairs :: "exc \<Rightarrow> dict \<Rightarrow> json res" where
  "unique_pairs e pairs =
    map_sum id JObj (for_each (\<lambda>(key, v) d. raise_if (has_key d key) e (Inr (put d key v))) pairs [])"

fun outside_strings :: "bool \<Rightarrow> string \<Rightarrow> string" where
  "outside_strings quoted [] = []"
| "outside_strings False (c # s) = (if c = CHR 0x22 then outside_strings True s else c # outside_strings False s)"
| "outside_strings True (c # s) =
    (if c = CHR 0x22 then outside_strings False s
     else if c = CHR 0x5C then (case s of [] \<Rightarrow> [] | _ # t \<Rightarrow> outside_strings True t)
     else outside_strings True s)"

definition names_constant :: "string \<Rightarrow> bool" where
  "names_constant s = list_ex (\<lambda>c. c = CHR ''N'' \<or> c = CHR ''I'') (outside_strings False s)"

definition loads_strict :: "float_text \<Rightarrow> exc \<Rightarrow> exc \<Rightarrow> string \<Rightarrow> json res" where
  "loads_strict fl duplicate constant s =
    bind (loads fl (unique_pairs duplicate) s) (\<lambda>v. raise_if (names_constant s) constant (Inr v))"

end
