(* ===== verification/StorageEvidence.thy ===== *)
theory StorageEvidence
  imports PyValue PyCodec "HOL-Library.Product_Lexorder"
begin

text \<open>
  scripts/validate_reserved_storage_evidence.py: the qualification packet of the two
  reserved filesystems is checked against the expectation it names by digest.  A
  key is read with \<open>get\<close> where \<open>shape\<close> has already required it, so that the source's
  subscript cannot raise.  Byte and inode counts are unbounded integers, as there;
  \<open>number\<close> bounds each one that is read.
\<close>

section \<open>Fields\<close>

text \<open>\<open>need(condition, reason)\<close>, followed by the rest of the body.\<close>

definition need :: "bool \<Rightarrow> string \<Rightarrow> 'a res \<Rightarrow> 'a res" where
  "need condition reason k = (if condition then k else Inl (ValueError reason))"

lemma need_simps [simp, res_simps]:
  "need True reason k = k" "need False reason k = Inl (ValueError reason)"
  by (simp_all add: need_def)

lemma need_eq_Inr [simp]: "need c reason k = Inr y \<longleftrightarrow> c \<and> k = Inr y"
  by (simp add: need_def)

lemma errs_need [errs]: "P (ValueError reason) \<Longrightarrow> (c \<Longrightarrow> errs P k) \<Longrightarrow> errs P (need c reason k)"
  by (simp add: need_def)

definition PROFILE :: string where "PROFILE = ''reserved-file-ext4-v1''"

definition ROLES :: "(string \<times> int) list" where
  "ROLES = [(''blobs'', 250 * 1024 ^ 3), (''journal'', 4 * 1024 ^ 3)]"

definition PHASES :: "string list" where
  "PHASES = [''reserved'', ''formatted'', ''restarted'', ''trimmed'']"

definition MAX_EXPECTED_INPUT :: nat where "MAX_EXPECTED_INPUT = 64 * 1024"
definition MAX_EVIDENCE_INPUT :: nat where "MAX_EVIDENCE_INPUT = 16 * 1024 ^ 2"
definition MAX_EXTENTS :: nat where "MAX_EXTENTS = 8192"
definition MAX_AGE :: int where "MAX_AGE = 15 * 60"

definition shape :: "json \<Rightarrow> string list \<Rightarrow> dict res" where
  "shape v names =
    (case v of JObj d \<Rightarrow> need (keys_are d names) ''shape'' (Inr d) | _ \<Rightarrow> Inl (ValueError ''shape''))"

definition number :: "json \<Rightarrow> int \<Rightarrow> int res" where
  "number v minimum =
    (case v of
       JInt i \<Rightarrow> need (minimum \<le> i \<and> i \<le> 2 ^ 63 - 1) ''number'' (Inr i)
     | _ \<Rightarrow> Inl (ValueError ''number''))"

definition text_char :: "char \<Rightarrow> bool" where
  "text_char c = (is_name_char c \<or> c \<in> {CHR ''/'', CHR '':'', CHR ''+''})"

definition plain_text :: "json \<Rightarrow> string res" where
  "plain_text v =
    (case v of
       JStr s \<Rightarrow> need (0 < length s \<and> length s \<le> 256 \<and> list_all text_char s) ''text'' (Inr s)
     | _ \<Rightarrow> Inl (ValueError ''text''))"

definition hex_text :: "nat \<Rightarrow> string \<Rightarrow> bool" where
  "hex_text n s = (length s = n \<and> list_all is_hex s)"

definition check_digest :: "json \<Rightarrow> unit res" where
  "check_digest v =
    need (case v of JStr s \<Rightarrow> hex_text 64 s \<and> s \<noteq> replicate 64 (CHR ''0'') | _ \<Rightarrow> False) ''digest'' (Inr ())"

text \<open>
  Both texts separate their items alike, so leaving out the blanks of the default
  layout does not change whether they are equal.
\<close>

definition same :: "float_text \<Rightarrow> json \<Rightarrow> json \<Rightarrow> bool" where
  "same fl v expected = (dumps_ascii fl v = dumps_ascii fl expected)"

definition uuid_text :: "string \<Rightarrow> bool" where
  "uuid_text s =
    (case split_on (CHR ''-'') s of
       [a, b, c, d, e] \<Rightarrow> hex_text 8 a \<and> hex_text 4 b \<and> hex_text 4 c \<and> hex_text 4 d \<and> hex_text 12 e
     | _ \<Rightarrow> False)"

definition filesystem_uuid :: "json \<Rightarrow> unit res" where
  "filesystem_uuid v =
    need (str_matches uuid_text v) ''filesystem_uuid'' (
    need (\<not> str_matches (\<lambda>s. filter (\<lambda>c. c \<noteq> CHR ''-'') s = replicate 32 (CHR ''0'')) v)
      ''filesystem_uuid'' (Inr ()))"

definition device_text :: "string \<Rightarrow> bool" where
  "device_text s =
    (case split_on (CHR '':'') s of [a, b] \<Rightarrow> canonical_num a \<and> canonical_num b | _ \<Rightarrow> False)"

type_synonym inode_identity = "string \<times> int"

definition file_identity :: "json \<Rightarrow> inode_identity res" where
  "file_identity v =
    bind (shape v [''device'', ''inode'']) (\<lambda>d.
    (case get d ''device'' of
       JStr device \<Rightarrow>
         need (device_text device) ''device'' (
         bind (number (get d ''inode'') 1) (\<lambda>inode. Inr (device, inode)))
     | _ \<Rightarrow> Inl (ValueError ''device'')))"

section \<open>Reading one input\<close>

text \<open>
  What the operating system answers: \<open>open\<close> with \<open>O_NOFOLLOW\<close> and \<open>fstat\<close>, then the
  bytes of the file up to its end.
\<close>

record input_info =
  info_regular :: bool
  info_size :: int
  info_mode :: nat

record evidence_input =
  input_info :: "input_info res"
  input_content :: "string res"

definition load :: "float_text \<Rightarrow> evidence_input \<Rightarrow> nat \<Rightarrow> (string \<times> json) res" where
  "load fl file limit =
    bind (input_info file) (\<lambda>info.
    need (info_regular info \<and> 0 < info_size info \<and> info_size info \<le> int limit) ''input_file'' (
    need (info_mode info mod 64 = 0) ''input_permissions'' (
    bind (input_content file) (\<lambda>content.
    let payload = take (limit + 1) content in
    need (length payload \<le> limit) ''input_size'' (
    bind (bind (decode_json_bytes payload)
      (loads_strict fl (ValueError ''duplicate_key'') (ValueError ''json_constant''))) (\<lambda>document.
    Inr (payload, document)))))))"

section \<open>Extents\<close>

type_synonym extent = "int \<times> int"

definition disjoint :: "extent list \<Rightarrow> string \<Rightarrow> unit res" where
  "disjoint physical reason =
    (let ordered = sort physical in
     need (list_all (\<lambda>(left, right). snd left \<le> fst right) (zip ordered (tl ordered))) reason (Inr ()))"

definition allocation_extent :: "json \<Rightarrow> int \<times> extent list \<Rightarrow> (int \<times> extent list) res" where
  "allocation_extent v = (\<lambda>(cursor, physical).
    bind (shape v [''logical'', ''physical'', ''length'', ''state'']) (\<lambda>extent.
    bind (number (get extent ''logical'') 0) (\<lambda>offset.
    bind (number (get extent ''physical'') 1) (\<lambda>start.
    bind (number (get extent ''length'') 1) (\<lambda>len.
    need (in_strs (get extent ''state'') [''written'', ''unwritten'']) ''extent_state'' (
    need (offset = cursor) ''extent_coverage'' (
    Inr (cursor + len, physical @ [(start, start + len)]))))))))"

definition allocation :: "json \<Rightarrow> inode_identity \<Rightarrow> int \<Rightarrow> extent list res" where
  "allocation observation expected_identity sz =
    bind (shape observation [''identity'', ''sizeBytes'', ''allocatedBytes'', ''extents'']) (\<lambda>d.
    bind (file_identity (get d ''identity'')) (\<lambda>found.
    need (found = expected_identity) ''backing_identity'' (
    bind (number (get d ''sizeBytes'') 1) (\<lambda>size_bytes.
    need (size_bytes = sz) ''backing_size'' (
    bind (number (get d ''allocatedBytes'') 0) (\<lambda>allocated.
    need (sz \<le> allocated) ''physical_allocation'' (
    (case get d ''extents'' of
       JArr extents \<Rightarrow>
         need (1 \<le> length extents \<and> length extents \<le> MAX_EXTENTS) ''extent_count'' (
         bind (for_each allocation_extent extents (0, [])) (\<lambda>(cursor, physical).
         need (cursor = sz) ''extent_coverage'' (
         bind (disjoint physical ''extent_alias'') (\<lambda>_. Inr physical))))
     | _ \<Rightarrow> Inl (ValueError ''extent_count'')))))))))"

section \<open>The pool and its reservations\<close>

record pool =
  pool_expected :: dict
  pool_packet :: dict
  host_reserve :: int
  inode_reserve :: int
  capacity :: int
  available_before :: int
  available_after :: int
  inodes_before :: int
  inodes_after :: int

definition check_texts :: "dict \<Rightarrow> unit res" where
  "check_texts expected =
    for_each (\<lambda>key _. bind (plain_text (get expected key)) (\<lambda>_. Inr ()))
      [''node'', ''poolUuid'', ''poolDevice'', ''kernelRelease''] ()"

definition check_header :: "string \<Rightarrow> json \<Rightarrow> json \<Rightarrow> int \<Rightarrow> (dict \<times> dict) res" where
  "check_header expected_bytes expected_value packet_value now =
    bind (shape expected_value
      [''schema'', ''profile'', ''node'', ''poolUuid'', ''poolDevice'', ''kernelRelease'',
       ''recoveryDecisionSha256'', ''hostReserveBytes'', ''hostReserveInodes'', ''reservations'', ''volumes'']) (\<lambda>expected.
    bind (shape packet_value
      [''schema'', ''profile'', ''expectedSha256'', ''capturedAt'', ''rawEvidenceSha256'', ''pool'',
       ''reservations'', ''volumes'', ''recovery'']) (\<lambda>packet.
    need (get expected ''schema'' = JInt 1 \<and> get packet ''schema'' = JInt 1) ''schema'' (
    need (get expected ''profile'' = JStr PROFILE \<and> get packet ''profile'' = JStr PROFILE) ''profile'' (
    need (get packet ''expectedSha256'' = JStr (sha256_hex expected_bytes)) ''expected_binding'' (
    bind (check_digest (get packet ''rawEvidenceSha256'')) (\<lambda>_.
    bind (number (get packet ''capturedAt'') 0) (\<lambda>captured.
    need (0 \<le> now - captured \<and> now - captured \<le> MAX_AGE) ''freshness'' (Inr (expected, packet)))))))))"

definition check_pool :: "dict \<Rightarrow> dict \<Rightarrow> pool res" where
  "check_pool expected packet =
    bind (check_texts expected) (\<lambda>_.
    bind (filesystem_uuid (get expected ''poolUuid'')) (\<lambda>_.
    bind (check_digest (get expected ''recoveryDecisionSha256'')) (\<lambda>_.
    bind (number (get expected ''hostReserveBytes'') 1) (\<lambda>reserve.
    bind (number (get expected ''hostReserveInodes'') 1) (\<lambda>inodes.
    bind (shape (get packet ''pool'')
      [''uuid'', ''device'', ''filesystem'', ''node'', ''capacityBytes'', ''availableBeforeBytes'',
       ''availableAfterBytes'', ''availableBeforeInodes'', ''availableAfterInodes'', ''inventoryComplete'']) (\<lambda>pool.
    need (get pool ''uuid'' = get expected ''poolUuid'' \<and> get pool ''device'' = get expected ''poolDevice''
      \<and> get pool ''node'' = get expected ''node'' \<and> get pool ''filesystem'' = JStr ''ext4'') ''pool_identity'' (
    need (get pool ''inventoryComplete'' = JBool True) ''ledger_complete'' (
    bind (number (get pool ''capacityBytes'') 1) (\<lambda>total.
    bind (number (get pool ''availableBeforeBytes'') 0) (\<lambda>earlier.
    bind (number (get pool ''availableAfterBytes'') 0) (\<lambda>later.
    need (earlier \<le> total \<and> later \<le> total) ''pool_capacity'' (
    bind (number (get pool ''availableBeforeInodes'') 0) (\<lambda>before_inodes.
    bind (number (get pool ''availableAfterInodes'') 0) (\<lambda>after_inodes.
    Inr \<lparr>pool_expected = expected, pool_packet = packet, host_reserve = reserve, inode_reserve = inodes,
         capacity = total, available_before = earlier, available_after = later,
         inodes_before = before_inodes, inodes_after = after_inodes\<rparr>))))))))))))))"

record ledger =
  identities :: "inode_identity list"
  additional :: int
  outstanding :: int
  allocated_before_total :: int
  allocated_after_total :: int

text \<open>One item of \<open>expected["reservations"]\<close>; the packet has the same keys.\<close>

definition reservation_item :: "pool \<Rightarrow> dict \<Rightarrow> string \<times> json \<Rightarrow> ledger \<Rightarrow> ledger res" where
  "reservation_item p observed_items = (\<lambda>(key, reservation) l.
    bind (plain_text (JStr key)) (\<lambda>_.
    bind (shape reservation [''identity'', ''reservedBytes'']) (\<lambda>r.
    bind (file_identity (get r ''identity'')) (\<lambda>ident.
    need (JStr (fst ident) = get (pool_expected p) ''poolDevice'' \<and> ident \<notin> set (identities l))
      ''reservation_identity'' (
    bind (number (get r ''reservedBytes'') 1) (\<lambda>reserved.
    bind (shape (get observed_items key) [''identity'', ''allocatedBeforeBytes'', ''allocatedAfterBytes'']) (\<lambda>observed.
    bind (file_identity (get observed ''identity'')) (\<lambda>found.
    need (found = ident) ''reservation_binding'' (
    bind (number (get observed ''allocatedBeforeBytes'') 0) (\<lambda>earlier.
    bind (number (get observed ''allocatedAfterBytes'') 0) (\<lambda>later.
    need (earlier \<le> capacity p \<and> later \<le> capacity p) ''reservation_allocation'' (
    Inr \<lparr>identities = identities l @ [ident],
         additional = additional l + max 0 (reserved - earlier),
         outstanding = outstanding l + max 0 (reserved - later),
         allocated_before_total = allocated_before_total l + earlier,
         allocated_after_total = allocated_after_total l + later\<rparr>))))))))))))"

definition empty_ledger :: ledger where
  "empty_ledger =
    \<lparr>identities = [], additional = 0, outstanding = 0, allocated_before_total = 0, allocated_after_total = 0\<rparr>"

definition check_reservations :: "pool \<Rightarrow> (dict \<times> dict) res" where
  "check_reservations p =
    (case get (pool_expected p) ''reservations'' of
       JObj reserved \<Rightarrow>
         need (2 \<le> length reserved \<and> length reserved \<le> 64) ''reservation_count'' (
         (case get (pool_packet p) ''reservations'' of
            JObj observed \<Rightarrow>
              need (keys_are observed (map fst reserved)) ''reservation_inventory'' (
              bind (for_each (reservation_item p observed) reserved empty_ledger) (\<lambda>l.
              need (allocated_before_total l \<le> capacity p - available_before p
                \<and> allocated_after_total l \<le> capacity p - available_after p) ''ledger_used_bytes'' (
              need (additional l + host_reserve p \<le> available_before p) ''capacity_before'' (
              need (outstanding l + host_reserve p \<le> available_after p) ''capacity_after'' (
              need (inode_reserve p + 2 \<le> inodes_before p \<and> inode_reserve p \<le> inodes_after p) ''pool_inodes'' (
              Inr (reserved, observed)))))))
          | _ \<Rightarrow> Inl (ValueError ''reservation_inventory'')))
     | _ \<Rightarrow> Inl (ValueError ''reservation_count''))"

section \<open>The two volumes\<close>

record volume_state =
  filesystem_ids :: "string list"
  mount_devices :: "string list"
  physical_by_phase :: "(string \<times> extent list) list"

definition backing_ownership :: json where
  "backing_ownership = JObj
    [(''uid'', JInt 0), (''gid'', JInt 0), (''mode'', JStr ''0600''), (''links'', JInt 1), (''type'', JStr ''regular''),
     (''ancestors'', JStr ''root-owned-no-links-no-write''), (''acl'', JStr ''none''),
     (''workloadHolePunch'', JStr ''denied'')]"

definition fallback_state :: json where
  "fallback_state = JObj
    [(''uid'', JInt 0), (''gid'', JInt 0), (''mode'', JStr ''0000''), (''acl'', JStr ''none''), (''layout'', JStr ''absent''),
     (''workloadWrite'', JStr ''denied''), (''ancestors'', JStr ''root-owned-no-links-no-write'')]"

definition recovery_state :: json where
  "recovery_state = JObj
    [(''missingMount'', JStr ''refused''), (''wrongBacking'', JStr ''refused''), (''secondConsumer'', JStr ''refused''),
     (''restartDurability'', JStr ''verified''), (''offlineRestore'', JStr ''verified''),
     (''quarantineRecovery'', JStr ''verified''), (''reconciler'', JStr ''suspended''),
     (''deploymentReady'', JBool False)]"

text \<open>\<open>/dev/loop(?:0|[1-9][0-9]*)\<close>.\<close>

definition loop_device :: "string \<Rightarrow> bool" where
  "loop_device s = (startswith s ''/dev/loop'' \<and> canonical_num (drop 9 s))"

definition extend_phase :: "string \<Rightarrow> extent list \<Rightarrow> (string \<times> extent list) list \<Rightarrow> (string \<times> extent list) list" where
  "extend_phase phase found by_phase = map (\<lambda>(k, l). if k = phase then (k, l @ found) else (k, l)) by_phase"

definition check_phase ::
  "dict \<Rightarrow> json \<Rightarrow> int \<Rightarrow> string \<Rightarrow> (string \<times> extent list) list \<Rightarrow> (string \<times> extent list) list res" where
  "check_phase phases reservation_identity sz phase by_phase =
    bind (file_identity reservation_identity) (\<lambda>ident.
    bind (allocation (get phases phase) ident sz) (\<lambda>physical.
    Inr (extend_phase phase physical by_phase)))"

definition check_mount ::
  "json \<Rightarrow> string \<Rightarrow> string \<Rightarrow> json \<Rightarrow> int \<Rightarrow> int \<Rightarrow> int \<Rightarrow> string list \<Rightarrow> string res" where
  "check_mount v name uuid reservation_identity claim_bytes sz min_inodes devices =
    bind (shape v [''target'', ''filesystem'', ''uuid'', ''sourceDevice'', ''sourceMajorMinor'', ''backingIdentity'',
      ''flags'', ''topology'', ''uid'', ''gid'', ''mode'', ''acl'', ''usableBytes'', ''freeInodes'']) (\<lambda>mount.
    need (get mount ''target'' = JStr (''/mnt/local-pie-ssd-reserved/'' @ name) \<and> get mount ''filesystem'' = JStr ''ext4''
      \<and> get mount ''uuid'' = JStr uuid) ''mount_identity'' (
    (case get mount ''sourceDevice'' of
       JStr device \<Rightarrow>
         need (loop_device device) ''loop_source'' (
         let major_minor = ''7:'' @ drop 9 device in
         need (get mount ''sourceMajorMinor'' = JStr major_minor \<and> major_minor \<notin> set devices) ''loop_device'' (
         bind (file_identity (get mount ''backingIdentity'')) (\<lambda>backing.
         bind (file_identity reservation_identity) (\<lambda>ident.
         need (backing = ident) ''loop_backing'' (
         need (get mount ''flags'' = JArr (map JStr [''rw'', ''nodev'', ''nosuid'', ''noexec'', ''nodiscard''])
           \<and> get mount ''topology'' = JStr ''exact-no-bind-no-nested-no-links'') ''mount_flags'' (
         need (get mount ''uid'' = JInt 65532 \<and> get mount ''gid'' = JInt 65532
           \<and> get mount ''mode'' = JStr ''0700'' \<and> get mount ''acl'' = JStr ''none'') ''mount_ownership'' (
         bind (number (get mount ''usableBytes'') 0) (\<lambda>usable.
         need (claim_bytes \<le> usable \<and> usable \<le> sz) ''usable_capacity'' (
         bind (number (get mount ''freeInodes'') 0) (\<lambda>free.
         need (min_inodes \<le> free) ''usable_capacity'' (Inr major_minor)))))))))))
     | _ \<Rightarrow> Inl (ValueError ''loop_source''))))"

definition check_prevention :: "json \<Rightarrow> json \<Rightarrow> unit res" where
  "check_prevention v kernel_release =
    bind (shape v [''kernelRelease'', ''mechanismSha256'', ''formatDiscard'', ''loopDiscard'', ''loopZeroUnmap'',
      ''restartEnforcement'', ''explicitTrim'']) (\<lambda>prevention.
    need (get prevention ''kernelRelease'' = kernel_release) ''kernel_binding'' (
    bind (check_digest (get prevention ''mechanismSha256'')) (\<lambda>_.
    need (get prevention ''formatDiscard'' = JStr ''disabled'' \<and> get prevention ''loopDiscard'' = JStr ''blocked''
      \<and> get prevention ''loopZeroUnmap'' = JStr ''blocked'' \<and> get prevention ''restartEnforcement'' = JStr ''verified''
      \<and> get prevention ''explicitTrim'' = JStr ''blocked-reservation-unchanged'') ''trim_prevention'' (Inr ()))))"

text \<open>What the expectation says of one role: its file, its UUID, its size and its inodes.\<close>

definition volume_config ::
  "dict \<Rightarrow> json \<Rightarrow> string \<Rightarrow> int \<Rightarrow> string list \<Rightarrow> (string \<times> string \<times> int \<times> int \<times> dict) res" where
  "volume_config reserved v name claim_bytes ids =
    bind (shape v [''backingFile'', ''filesystemUuid'', ''imageBytes'', ''minimumFreeInodes'']) (\<lambda>config.
    let file = ''/var/lib/obsync-reserved/'' @ name @ ''.img'' in
    need (get config ''backingFile'' = JStr file) ''backing_path'' (
    bind (filesystem_uuid (get config ''filesystemUuid'')) (\<lambda>_.
    need (get config ''filesystemUuid'' \<notin> JStr ` set ids) ''filesystem_identity'' (
    bind (number (get config ''imageBytes'') 1) (\<lambda>sz.
    need (claim_bytes < sz) ''filesystem_overhead'' (
    bind (number (get config ''minimumFreeInodes'') 1) (\<lambda>min_inodes.
    need (has_key reserved name) ''volume_reservation'' (
    let reservation = dict_or_empty (get reserved name) in
    need (get reservation ''reservedBytes'' = JInt sz) ''reserved_size'' (
    (case get config ''filesystemUuid'' of
       JStr uuid \<Rightarrow> Inr (file, uuid, sz, min_inodes, reservation)
     | _ \<Rightarrow> Inl (ValueError ''filesystem_uuid'')))))))))))"

definition check_role ::
  "float_text \<Rightarrow> pool \<Rightarrow> dict \<Rightarrow> dict \<Rightarrow> dict \<Rightarrow> dict \<Rightarrow> string \<times> int \<Rightarrow> volume_state \<Rightarrow> volume_state res" where
  "check_role fl p reserved observed configs volumes = (\<lambda>(role, claim_bytes) st.
    let name = ''obsync-'' @ role in
    bind (volume_config reserved (get configs role) name claim_bytes (filesystem_ids st))
      (\<lambda>(file, uuid, sz, min_inodes, reservation).
    bind (shape (get volumes role) [''backing'', ''ownership'', ''phases'', ''mount'', ''fallback'', ''prevention'']) (\<lambda>volume.
    need (get volume ''backing'' = JStr file) ''backing_binding'' (
    need (same fl (get volume ''ownership'') backing_ownership) ''backing_ownership'' (
    bind (shape (get volume ''phases'') PHASES) (\<lambda>phases.
    bind (for_each (check_phase phases (get reservation ''identity'') sz) PHASES (physical_by_phase st)) (\<lambda>by_phase.
    bind (subscript (get observed name) ''allocatedAfterBytes'') (\<lambda>later.
    bind (subscript (get phases ''trimmed'') ''allocatedBytes'') (\<lambda>trimmed.
    need (later = trimmed) ''allocation_ledger'' (
    bind (check_mount (get volume ''mount'') name uuid (get reservation ''identity'') claim_bytes sz min_inodes
      (mount_devices st)) (\<lambda>major_minor.
    need (same fl (get volume ''fallback'') fallback_state) ''fallback'' (
    bind (check_prevention (get volume ''prevention'') (get (pool_expected p) ''kernelRelease'')) (\<lambda>_.
    Inr \<lparr>filesystem_ids = filesystem_ids st @ [uuid], mount_devices = mount_devices st @ [major_minor],
         physical_by_phase = by_phase\<rparr>)))))))))))))"

section \<open>The packet\<close>

definition pool_uuid :: "dict \<Rightarrow> string list" where
  "pool_uuid expected = (case get expected ''poolUuid'' of JStr s \<Rightarrow> [s] | _ \<Rightarrow> [])"

definition check_packet :: "float_text \<Rightarrow> dict \<Rightarrow> dict \<Rightarrow> json res" where
  "check_packet fl expected packet =
    bind (check_pool expected packet) (\<lambda>p.
    bind (check_reservations p) (\<lambda>(reserved, observed).
    bind (shape (get expected ''volumes'') (map fst ROLES)) (\<lambda>configs.
    bind (shape (get packet ''volumes'') (map fst ROLES)) (\<lambda>volumes.
    bind (for_each (check_role fl p reserved observed configs volumes) ROLES
      \<lparr>filesystem_ids = pool_uuid expected, mount_devices = [], physical_by_phase = map (\<lambda>phase. (phase, [])) PHASES\<rparr>)
      (\<lambda>st.
    bind (for_each (\<lambda>(phase, physical) _. disjoint physical ''volume_extent_alias'') (physical_by_phase st) ()) (\<lambda>_.
    need (same fl (get packet ''recovery'') recovery_state) ''recovery'' (
    Inr (JObj [(''profile'', JStr PROFILE), (''evidenceConsistency'', JStr ''pass''),
      (''activationAuthorized'', JBool False)]))))))))"

definition validate_storage :: "float_text \<Rightarrow> string \<Rightarrow> json \<Rightarrow> json \<Rightarrow> int \<Rightarrow> json res" where
  "validate_storage fl expected_bytes expected_value packet_value now =
    bind (check_header expected_bytes expected_value packet_value now) (\<lambda>(expected, packet).
    check_packet fl expected packet)"

text \<open>\<open>except (OSError, ValueError, TypeError, KeyError, UnicodeError, RecursionError)\<close>.\<close>

definition storage_caught :: "exc \<Rightarrow> bool" where
  "storage_caught e \<longleftrightarrow> e = OSError \<or> e = TypeError \<or> e = KeyError \<or> e = RecursionError \<or> is_value_error e"

datatype storage_output = Refused | Result json

definition storage_main :: "float_text \<Rightarrow> evidence_input \<Rightarrow> evidence_input \<Rightarrow> int \<Rightarrow> (nat \<times> storage_output) res" where
  "storage_main fl expected_file evidence_file now =
    (case bind (load fl expected_file MAX_EXPECTED_INPUT) (\<lambda>(expected_bytes, expected).
          bind (load fl evidence_file MAX_EVIDENCE_INPUT) (\<lambda>(_, packet).
          validate_storage fl expected_bytes expected packet now)) of
       Inr result \<Rightarrow> Inr (0, Result result)
     | Inl e \<Rightarrow> if storage_caught e then Inr (1, Refused) else Inl e)"

end
