(* ===== verification/StorageProps.thy ===== *)
theory StorageProps
  imports StorageEvidence
begin

text \<open>
  What an accepted qualification packet establishes: complete and exclusive physical
  extents of both images in every phase, a funded ledger of reservations, and a
  document of the closed shape.
\<close>

section \<open>Reading a packet\<close>

fun path_of :: "json \<Rightarrow> string list \<Rightarrow> json" where
  "path_of v [] = v"
| "path_of v (k # ks) = path_of (get (dict_or_empty v) k) ks"

definition int_of :: "json \<Rightarrow> int" where
  "int_of v = (case v of JInt i \<Rightarrow> i | _ \<Rightarrow> 0)"

definition elements :: "json \<Rightarrow> json list" where
  "elements v = (case v of JArr xs \<Rightarrow> xs | _ \<Rightarrow> [])"

lemma reading_simps [simp]: "int_of (JInt i) = i" "elements (JArr xs) = xs"
  by (simp_all add: int_of_def elements_def)

definition extent_of :: "json \<Rightarrow> extent" where
  "extent_of v =
    (let start = int_of (path_of v [''physical'']) in (start, start + int_of (path_of v [''length''])))"

definition extents_of :: "json \<Rightarrow> extent list" where
  "extents_of observation = map extent_of (elements (path_of observation [''extents'']))"

text \<open>The extents of one role in one phase, and how many of some extents hold a byte of the pool.\<close>

definition role_extents :: "json \<Rightarrow> string \<Rightarrow> string \<Rightarrow> extent list" where
  "role_extents packet phase role = extents_of (path_of packet [''volumes'', role, ''phases'', phase])"

definition holders :: "int \<Rightarrow> extent list \<Rightarrow> nat" where
  "holders byte_address extents = length (filter (\<lambda>(a, b). a \<le> byte_address \<and> byte_address < b) extents)"

definition covered :: "extent list \<Rightarrow> int" where
  "covered extents = (\<Sum>(a, b) \<leftarrow> extents. b - a)"

section \<open>Fields\<close>

lemma shape_Inr [simp]: "shape v names = Inr d \<longleftrightarrow> v = JObj d \<and> keys_are d names"
  by (cases v) (auto simp: shape_def)

lemma number_Inr [simp]: "number v m = Inr i \<longleftrightarrow> v = JInt i \<and> m \<le> i \<and> i \<le> 2 ^ 63 - 1"
  by (cases v) (auto simp: number_def)

lemma file_identity_Inr:
  "file_identity v = Inr ident \<longleftrightarrow>
    (\<exists>d. v = JObj d \<and> keys_are d [''device'', ''inode''] \<and> get d ''device'' = JStr (fst ident) \<and> device_text (fst ident)
      \<and> get d ''inode'' = JInt (snd ident) \<and> 1 \<le> snd ident \<and> snd ident \<le> 2 ^ 63 - 1)"
  by (cases ident) (auto simp: file_identity_def split: json.splits)

section \<open>Extents\<close>

lemma sorted_apart:
  assumes "sorted_wrt (\<lambda>l r. snd l \<le> fst r) xs" and "list_all (\<lambda>(a, b). a < b) xs"
  shows "holders x xs \<le> 1"
  using assms
proof (induction xs)
  case Nil
  then show ?case by (simp add: holders_def)
next
  case (Cons e xs)
  obtain a b where e: "e = (a, b)" by (cases e)
  show ?case
  proof (cases "a \<le> x \<and> x < b")
    case True
    have "\<not> (fst r \<le> x \<and> x < snd r)" if "r \<in> set xs" for r
      using Cons.prems(1) that True e by fastforce
    then have "filter (\<lambda>(a, b). a \<le> x \<and> x < b) xs = []"
      by (auto simp: filter_empty_conv)
    then show ?thesis using True e by (simp add: holders_def)
  next
    case False
    then show ?thesis using Cons e by (auto simp: holders_def)
  qed
qed

lemma adjacent_apart:
  assumes "list_all (\<lambda>(l, r). snd l \<le> fst r) (zip xs (tl xs))" and "list_all (\<lambda>(a, b). a < b) xs"
  shows "sorted_wrt (\<lambda>l r. snd l \<le> fst (r :: extent)) xs"
  using assms
proof (induction xs)
  case Nil
  then show ?case by simp
next
  case (Cons x xs)
  show ?case
  proof (cases xs)
    case Nil
    then show ?thesis by simp
  next
    case (Cons y ys)
    then have rest: "sorted_wrt (\<lambda>l r. snd l \<le> fst r) xs" and first: "snd x \<le> fst y"
      using Cons.IH Cons.prems by auto
    have "fst y < snd y" using Cons.prems(2) Cons by auto
    then have "snd x \<le> fst r" if "r \<in> set xs" for r
      using that rest first Cons by fastforce
    then show ?thesis using rest by simp
  qed
qed

lemma disjoint_holders:
  assumes "disjoint xs reason = Inr u" and "list_all (\<lambda>(a, b). a < b) xs"
  shows "holders x xs \<le> 1"
proof -
  have "list_all (\<lambda>(l, r). snd l \<le> fst r) (zip (sort xs) (tl (sort xs)))"
    using assms(1) by (simp add: disjoint_def Let_def)
  moreover have "list_all (\<lambda>(a, b). a < b) (sort xs)"
    using assms(2) by (simp add: list_all_iff)
  ultimately have "holders x (sort xs) \<le> 1"
    using adjacent_apart sorted_apart by blast
  moreover have "holders x (sort xs) = holders x xs"
    unfolding holders_def by (metis filter_sort length_sort)
  ultimately show ?thesis by simp
qed

lemma allocation_step:
  assumes "allocation_extent x (c, p) = Inr s"
  shows "1 \<le> fst (extent_of x) \<and> fst (extent_of x) < snd (extent_of x)
    \<and> s = (c + (snd (extent_of x) - fst (extent_of x)), p @ [extent_of x])"
  using assms by (auto simp: allocation_extent_def extent_of_def)

lemma allocation_loop:
  assumes "for_each allocation_extent xs (c, p) = Inr (c', p')"
  shows "p' = p @ map extent_of xs \<and> list_all (\<lambda>(a, b). 1 \<le> a \<and> a < b) (map extent_of xs)
    \<and> c' = c + covered (map extent_of xs)"
  using assms
proof (induction xs arbitrary: c p)
  case Nil
  then show ?case by (simp add: covered_def)
next
  case (Cons x xs)
  then obtain t where step: "allocation_extent x (c, p) = Inr t" and rest: "for_each allocation_extent xs t = Inr (c', p')"
    by auto
  note facts = allocation_step [OF step]
  show ?case using Cons.IH [of "fst t" "snd t"] rest facts by (simp add: covered_def split_def)
qed

text \<open>An accepted observation: its extents cover the whole file, none is empty.\<close>

definition backs :: "int \<Rightarrow> extent list \<Rightarrow> bool" where
  "backs sz extents = (list_all (\<lambda>(a, b). 1 \<le> a \<and> a < b) extents \<and> covered extents = sz)"

lemma allocation_backs:
  assumes "allocation observation ident sz = Inr physical"
  shows "physical = extents_of observation \<and> backs sz physical"
proof -
  from assms obtain d xs u where d: "observation = JObj d" "get d ''extents'' = JArr xs"
    and loop: "for_each allocation_extent xs (0, []) = Inr (sz, physical)"
    by (auto simp: allocation_def split: json.splits)
  from allocation_loop [OF loop] show ?thesis
    by (simp add: d extents_of_def backs_def)
qed

lemma extend_phase_keys: "map fst (extend_phase phase found bp) = map fst bp"
  by (auto simp: extend_phase_def)

lemma check_phase_step:
  assumes "check_phase phases ident sz p bp = Inr bp'"
  shows "bp' = extend_phase p (extents_of (get phases p)) bp \<and> backs sz (extents_of (get phases p))"
  using assms by (auto simp: check_phase_def dest: allocation_backs)

lemma phases_loop:
  assumes "for_each (check_phase phases ident sz) ps bp = Inr bp'" and "distinct ps"
  shows "bp' = map (\<lambda>(k, l). if k \<in> set ps then (k, l @ extents_of (get phases k)) else (k, l)) bp
    \<and> (\<forall>p \<in> set ps. backs sz (extents_of (get phases p)))"
  using assms
proof (induction ps arbitrary: bp)
  case Nil
  then show ?case by (auto simp: split_def)
next
  case (Cons p ps)
  then obtain t where step: "check_phase phases ident sz p bp = Inr t"
    and rest: "for_each (check_phase phases ident sz) ps t = Inr bp'"
    by auto
  have "p \<notin> set ps" "distinct ps" using Cons.prems(2) by simp_all
  with Cons.IH [OF rest] check_phase_step [OF step] show ?case
    by (auto simp: extend_phase_def split_def)
qed

section \<open>The two volumes\<close>

lemma volume_config_size:
  assumes "volume_config reserved v name claim ids = Inr (backing, uuid, sz, min_inodes, reservation)"
  shows "claim < sz \<and> path_of v [''imageBytes''] = JInt sz"
  using assms by (auto simp: volume_config_def Let_def split: json.splits)

lemma check_role_phases:
  assumes "check_role fl p reserved observed configs volumes (role, claim) st = Inr st'"
  obtains sz phases bp where "claim < sz" "path_of (get configs role) [''imageBytes''] = JInt sz"
    "path_of (get volumes role) [''phases''] = JObj phases"
    "for_each (check_phase phases bp sz) PHASES (physical_by_phase st) = Inr (physical_by_phase st')"
proof -
  from assms obtain backing uuid sz min_inodes reservation volume phases
    where config: "volume_config reserved (get configs role) (''obsync-'' @ role) claim (filesystem_ids st)
        = Inr (backing, uuid, sz, min_inodes, reservation)"
      and volume: "get volumes role = JObj volume" "get volume ''phases'' = JObj phases"
      and loop: "for_each (check_phase phases (get reservation ''identity'') sz) PHASES (physical_by_phase st)
        = Inr (physical_by_phase st')"
    unfolding check_role_def Let_def by (auto split: prod.splits)
  have "claim < sz" "path_of (get configs role) [''imageBytes''] = JInt sz"
    using volume_config_size [OF config] by simp_all
  moreover have "path_of (get volumes role) [''phases''] = JObj phases" by (simp add: volume)
  ultimately show thesis using loop by (rule that)
qed

lemma check_role_extents:
  assumes "check_role fl p reserved observed configs volumes (role, claim) st = Inr st'"
    and "physical_by_phase st = map (\<lambda>k. (k, F k)) PHASES"
  shows "physical_by_phase st' = map (\<lambda>k. (k, F k @ extents_of (path_of (get volumes role) [''phases'', k]))) PHASES
    \<and> (\<exists>sz > claim. path_of (get configs role) [''imageBytes''] = JInt sz
      \<and> (\<forall>k \<in> set PHASES. backs sz (extents_of (path_of (get volumes role) [''phases'', k]))))"
proof -
  from assms(1) obtain sz phases bp where sz: "claim < sz" "path_of (get configs role) [''imageBytes''] = JInt sz"
    and phases: "path_of (get volumes role) [''phases''] = JObj phases"
    and loop: "for_each (check_phase phases bp sz) PHASES (physical_by_phase st) = Inr (physical_by_phase st')"
    by (rule check_role_phases)
  have at: "path_of (get volumes role) [''phases'', k] = get phases k" for k
    using phases by simp
  have "distinct PHASES" by (simp add: PHASES_def)
  note facts = phases_loop [OF loop this]
  have "physical_by_phase st' = map (\<lambda>k. (k, F k @ extents_of (get phases k))) PHASES"
    using facts assms(2) by simp
  then show ?thesis using facts sz by (auto simp only: at)
qed

section \<open>The whole packet\<close>

lemma validate_storage_steps:
  assumes "validate_storage fl bytes expected packet now = Inr result"
  obtains e k p reserved observed configs volumes st where
    "check_header bytes expected packet now = Inr (e, k)" "check_pool e k = Inr p"
    "check_reservations p = Inr (reserved, observed)"
    "get e ''volumes'' = JObj configs" "get k ''volumes'' = JObj volumes"
    "for_each (check_role fl p reserved observed configs volumes) ROLES
      \<lparr>filesystem_ids = pool_uuid e, mount_devices = [], physical_by_phase = map (\<lambda>phase. (phase, [])) PHASES\<rparr> = Inr st"
    "for_each (\<lambda>(phase, physical) _. disjoint physical ''volume_extent_alias'') (physical_by_phase st) () = Inr ()"
    "result = JObj [(''profile'', JStr PROFILE), (''evidenceConsistency'', JStr ''pass''), (''activationAuthorized'', JBool False)]"
  using assms unfolding validate_storage_def check_packet_def by (auto split: prod.splits)

lemma check_header_objects:
  "check_header bytes expected packet now = Inr (e, k) \<Longrightarrow> expected = JObj e \<and> packet = JObj k"
  unfolding check_header_def by auto

lemma disjoint_loop:
  assumes "for_each (\<lambda>(phase, physical) _. disjoint physical reason) bp () = Inr ()" and "(phase, physical) \<in> set bp"
  shows "disjoint physical reason = Inr ()"
  using assms by (induction bp) auto

text \<open>
  C20: physical reservation.  In every phase of an accepted packet, the extents of each image are non-empty ranges
  that together have exactly the size the expectation names, which exceeds the claim of the role; and no byte of the
  pool lies in two extents, whether of one image or of both.
\<close>

theorem storage_extents_exclusive:
  assumes "validate_storage fl bytes expected packet now = Inr result" and "phase \<in> set PHASES"
  shows "(\<forall>(role, claim) \<in> set ROLES. \<exists>sz > claim. path_of expected [''volumes'', role, ''imageBytes''] = JInt sz
      \<and> backs sz (role_extents packet phase role))
    \<and> (\<forall>byte_address. holders byte_address
        (role_extents packet phase ''blobs'' @ role_extents packet phase ''journal'') \<le> 1)"
proof -
  from assms(1) obtain e k p reserved observed configs volumes st where
    header: "check_header bytes expected packet now = Inr (e, k)"
    and dicts: "get e ''volumes'' = JObj configs" "get k ''volumes'' = JObj volumes"
    and roles: "for_each (check_role fl p reserved observed configs volumes) ROLES
      \<lparr>filesystem_ids = pool_uuid e, mount_devices = [], physical_by_phase = map (\<lambda>phase. (phase, [])) PHASES\<rparr> = Inr st"
    and apart: "for_each (\<lambda>(phase, physical) _. disjoint physical ''volume_extent_alias'') (physical_by_phase st) () = Inr ()"
    by (rule validate_storage_steps)
  have paths: "path_of expected [''volumes'', r, ''imageBytes''] = path_of (get configs r) [''imageBytes'']"
    "role_extents packet ph r = extents_of (path_of (get volumes r) [''phases'', ph])" for r ph
    using check_header_objects [OF header] dicts by (simp_all add: role_extents_def)
  from roles obtain st1 where
    one: "check_role fl p reserved observed configs volumes (''blobs'', 250 * 1024 ^ 3)
      \<lparr>filesystem_ids = pool_uuid e, mount_devices = [], physical_by_phase = map (\<lambda>phase. (phase, [])) PHASES\<rparr> = Inr st1"
    and two: "check_role fl p reserved observed configs volumes (''journal'', 4 * 1024 ^ 3) st1 = Inr st"
    by (auto simp only: ROLES_def for_each.simps bind_eq_Inr sum.inject)
  note blobs = check_role_extents [OF one, of "\<lambda>_. []", simplified volume_state.simps, OF refl]
  note journal = check_role_extents [OF two conjunct1 [OF blobs]]
  have sizes: "\<forall>(role, claim) \<in> set ROLES. \<exists>sz > claim. path_of (get configs role) [''imageBytes''] = JInt sz
      \<and> backs sz (extents_of (path_of (get volumes role) [''phases'', phase]))"
    using conjunct2 [OF blobs] conjunct2 [OF journal] assms(2) unfolding ROLES_def by fastforce
  let ?both = "role_extents packet phase ''blobs'' @ role_extents packet phase ''journal''"
  have "(phase, ?both) \<in> set (physical_by_phase st)"
    using conjunct1 [OF journal] assms(2) by (auto simp: paths)
  then have "disjoint ?both ''volume_extent_alias'' = Inr ()" by (rule disjoint_loop [OF apart])
  moreover have "list_all (\<lambda>(a, b). a < b) ?both"
    using sizes unfolding ROLES_def paths by (fastforce simp: backs_def list_all_iff)
  ultimately have "holders x ?both \<le> 1" for x by (rule disjoint_holders)
  then show ?thesis using sizes unfolding paths by blast
qed

section \<open>The reservation ledger\<close>

text \<open>
  For the moment \<open>allocatedBeforeBytes\<close> or \<open>allocatedAfterBytes\<close>: the bytes the reservations hold, and the bytes they
  are still owed.
\<close>

definition held_bytes :: "dict \<Rightarrow> string \<Rightarrow> dict \<Rightarrow> int" where
  "held_bytes observed moment reserved = (\<Sum>(key, _) \<leftarrow> reserved. int_of (path_of (JObj observed) [key, moment]))"

definition owed_bytes :: "dict \<Rightarrow> string \<Rightarrow> dict \<Rightarrow> int" where
  "owed_bytes observed moment reserved =
    (\<Sum>(key, v) \<leftarrow> reserved. max 0 (int_of (path_of v [''reservedBytes'']) - int_of (path_of (JObj observed) [key, moment])))"

definition inode_of :: "json \<Rightarrow> json \<times> json" where
  "inode_of v = (path_of v [''identity'', ''device''], path_of v [''identity'', ''inode''])"

definition json_inode :: "inode_identity \<Rightarrow> json \<times> json" where
  "json_inode ident = (JStr (fst ident), JInt (snd ident))"

lemma inj_json_inode: "inj json_inode"
  by (rule injI) (auto simp: json_inode_def intro: prod_eqI)

lemma reservation_step:
  assumes "reservation_item p observed (key, v) l = Inr l'"
  shows "\<exists>ident. identities l' = identities l @ [ident] \<and> ident \<notin> set (identities l) \<and> inode_of v = json_inode ident
    \<and> additional l' = additional l + owed_bytes observed ''allocatedBeforeBytes'' [(key, v)]
    \<and> outstanding l' = outstanding l + owed_bytes observed ''allocatedAfterBytes'' [(key, v)]
    \<and> allocated_before_total l' = allocated_before_total l + held_bytes observed ''allocatedBeforeBytes'' [(key, v)]
    \<and> allocated_after_total l' = allocated_after_total l + held_bytes observed ''allocatedAfterBytes'' [(key, v)]"
proof -
  from assms obtain r ob ident found reserved earlier later where
    v: "v = JObj r" "get observed key = JObj ob" "get r ''reservedBytes'' = JInt reserved"
      "get ob ''allocatedBeforeBytes'' = JInt earlier" "get ob ''allocatedAfterBytes'' = JInt later"
    and ident: "file_identity (get r ''identity'') = Inr ident" "ident \<notin> set (identities l)"
    and l': "l' = \<lparr>identities = identities l @ [ident], additional = additional l + max 0 (reserved - earlier),
      outstanding = outstanding l + max 0 (reserved - later), allocated_before_total = allocated_before_total l + earlier,
      allocated_after_total = allocated_after_total l + later\<rparr>"
    unfolding reservation_item_def by auto
  from ident(1) have "inode_of v = json_inode ident"
    by (auto simp: file_identity_Inr inode_of_def json_inode_def v)
  with v ident(2) show ?thesis by (simp add: l' owed_bytes_def held_bytes_def)
qed

lemma reservation_loop:
  assumes "for_each (reservation_item p observed) items l = Inr l'" and "distinct (identities l)"
  shows "distinct (identities l') \<and> map json_inode (identities l') = map json_inode (identities l) @ map (inode_of \<circ> snd) items
    \<and> additional l' = additional l + owed_bytes observed ''allocatedBeforeBytes'' items
    \<and> outstanding l' = outstanding l + owed_bytes observed ''allocatedAfterBytes'' items
    \<and> allocated_before_total l' = allocated_before_total l + held_bytes observed ''allocatedBeforeBytes'' items
    \<and> allocated_after_total l' = allocated_after_total l + held_bytes observed ''allocatedAfterBytes'' items"
  using assms
proof (induction items arbitrary: l)
  case Nil
  then show ?case by (simp add: owed_bytes_def held_bytes_def)
next
  case (Cons item items)
  obtain key v where item: "item = (key, v)" by (cases item)
  with Cons.prems(1) obtain t where step: "reservation_item p observed (key, v) l = Inr t"
    and rest: "for_each (reservation_item p observed) items t = Inr l'"
    by auto
  from reservation_step [OF step] Cons.prems(2) have "distinct (identities t)" by auto
  from Cons.IH [OF rest this] reservation_step [OF step] show ?case
    by (auto simp: item owed_bytes_def held_bytes_def)
qed

text \<open>What the pool says: the capacity, the free bytes and the host's reserve.\<close>

definition pool_bytes :: "json \<Rightarrow> string \<Rightarrow> int" where
  "pool_bytes packet key = int_of (path_of packet [''pool'', key])"

lemma check_pool_reads:
  assumes "check_pool e k = Inr p"
  shows "pool_expected p = e \<and> pool_packet p = k \<and> capacity p = pool_bytes (JObj k) ''capacityBytes''
    \<and> available_before p = pool_bytes (JObj k) ''availableBeforeBytes''
    \<and> available_after p = pool_bytes (JObj k) ''availableAfterBytes''
    \<and> host_reserve p = int_of (get e ''hostReserveBytes'') \<and> 1 \<le> host_reserve p"
  using assms unfolding check_pool_def by (auto simp: pool_bytes_def)

lemma check_reservations_reads:
  assumes "check_reservations p = Inr (reserved, observed)"
  obtains l where "get (pool_expected p) ''reservations'' = JObj reserved"
    "get (pool_packet p) ''reservations'' = JObj observed"
    "for_each (reservation_item p observed) reserved empty_ledger = Inr l"
    "allocated_before_total l \<le> capacity p - available_before p" "allocated_after_total l \<le> capacity p - available_after p"
    "additional l + host_reserve p \<le> available_before p" "outstanding l + host_reserve p \<le> available_after p"
  using assms unfolding check_reservations_def by auto

text \<open>
  C21: the ledger of an accepted packet is funded.  Before and after the allocation, the free bytes of the pool cover
  what all reservations are still owed and the host's reserve, the bytes they hold fit into the used part of the
  pool, and no two reservations name the same inode.
\<close>

theorem storage_ledger_funded:
  assumes "validate_storage fl bytes expected packet now = Inr result"
    and "path_of expected [''reservations''] = JObj reserved" and "path_of packet [''reservations''] = JObj observed"
  shows "owed_bytes observed ''allocatedBeforeBytes'' reserved + int_of (path_of expected [''hostReserveBytes''])
      \<le> pool_bytes packet ''availableBeforeBytes''
    \<and> owed_bytes observed ''allocatedAfterBytes'' reserved + int_of (path_of expected [''hostReserveBytes''])
      \<le> pool_bytes packet ''availableAfterBytes''
    \<and> held_bytes observed ''allocatedBeforeBytes'' reserved + pool_bytes packet ''availableBeforeBytes''
      \<le> pool_bytes packet ''capacityBytes''
    \<and> held_bytes observed ''allocatedAfterBytes'' reserved + pool_bytes packet ''availableAfterBytes''
      \<le> pool_bytes packet ''capacityBytes''
    \<and> distinct (map (inode_of \<circ> snd) reserved)"
proof -
  from assms(1) obtain e k p reserved' observed' where
    header: "check_header bytes expected packet now = Inr (e, k)" and pool: "check_pool e k = Inr p"
    and ledger: "check_reservations p = Inr (reserved', observed')"
    by (rule validate_storage_steps)
  note objects = check_header_objects [OF header] and reads = check_pool_reads [OF pool]
  from ledger obtain l where same: "get (pool_expected p) ''reservations'' = JObj reserved'"
      "get (pool_packet p) ''reservations'' = JObj observed'"
    and loop: "for_each (reservation_item p observed') reserved' empty_ledger = Inr l"
    and bounds: "allocated_before_total l \<le> capacity p - available_before p"
      "allocated_after_total l \<le> capacity p - available_after p"
      "additional l + host_reserve p \<le> available_before p" "outstanding l + host_reserve p \<le> available_after p"
    by (rule check_reservations_reads)
  have eq: "reserved' = reserved" "observed' = observed"
    using same assms(2,3) objects reads by simp_all
  have "distinct (identities empty_ledger)" by (simp add: empty_ledger_def)
  note sums = reservation_loop [OF loop this]
  have "distinct (map json_inode (identities l))"
    using conjunct1 [OF sums] inj_on_subset [OF inj_json_inode subset_UNIV] unfolding distinct_map by simp
  moreover have "map json_inode (identities l) = map (inode_of \<circ> snd) reserved"
    using sums by (simp add: empty_ledger_def eq)
  ultimately have "distinct (map (inode_of \<circ> snd) reserved)" by simp
  then show ?thesis using sums bounds reads objects by (simp add: empty_ledger_def eq)
qed

text \<open>
  A complete packet after the fixture of the repository's tests: two images of 252 and
  6 GiB on one pool, each one extent, and a third, unmounted reservation.
\<close>

definition gib :: int where "gib = 1073741824"

definition zeros :: "nat \<Rightarrow> char \<Rightarrow> string" where "zeros n c = replicate n c"

definition uuid_number :: "char \<Rightarrow> json" where
  "uuid_number c = JStr (zeros 8 (CHR ''0'') @ ''-0000-0000-0000-'' @ zeros 11 (CHR ''0'') @ [c])"

definition inode_json :: "int \<Rightarrow> json" where
  "inode_json n = JObj [(''device'', JStr ''8:1''), (''inode'', JInt n)]"

definition config_json :: "string \<Rightarrow> char \<Rightarrow> int \<Rightarrow> json" where
  "config_json name c sz = JObj
    [(''backingFile'', JStr (''/var/lib/obsync-reserved/'' @ name @ ''.img'')), (''filesystemUuid'', uuid_number c),
     (''imageBytes'', JInt sz), (''minimumFreeInodes'', JInt 2000)]"

definition reservation_json :: "int \<Rightarrow> int \<Rightarrow> json" where
  "reservation_json n sz = JObj [(''identity'', inode_json n), (''reservedBytes'', JInt sz)]"

definition sample_expected :: json where
  "sample_expected = JObj
    [(''schema'', JInt 1), (''profile'', JStr ''reserved-file-ext4-v1''), (''node'', JStr ''storage-node-placeholder''),
     (''poolUuid'', uuid_number (CHR ''1'')), (''poolDevice'', JStr ''8:1''), (''kernelRelease'', JStr ''fixture-kernel''),
     (''recoveryDecisionSha256'', JStr (zeros 64 (CHR ''c''))), (''hostReserveBytes'', JInt (100 * gib)),
     (''hostReserveInodes'', JInt 1000),
     (''reservations'', JObj
       [(''obsync-blobs'', reservation_json 100 (252 * gib)), (''obsync-journal'', reservation_json 101 (6 * gib)),
        (''retained-test'', reservation_json 102 (64 * gib))]),
     (''volumes'', JObj
       [(''blobs'', config_json ''obsync-blobs'' (CHR ''2'') (252 * gib)),
        (''journal'', config_json ''obsync-journal'' (CHR ''3'') (6 * gib))])]"

definition allocated_json :: "int \<Rightarrow> int \<Rightarrow> int \<Rightarrow> json" where
  "allocated_json n bytes_before bytes_after = JObj
    [(''identity'', inode_json n), (''allocatedBeforeBytes'', JInt bytes_before), (''allocatedAfterBytes'', JInt bytes_after)]"

definition observation_json :: "int \<Rightarrow> int \<Rightarrow> int \<Rightarrow> json" where
  "observation_json n start sz = JObj
    [(''identity'', inode_json n), (''sizeBytes'', JInt sz), (''allocatedBytes'', JInt sz),
     (''extents'', JArr [JObj [(''logical'', JInt 0), (''physical'', JInt start), (''length'', JInt sz),
       (''state'', JStr ''unwritten'')]])]"

definition mount_json :: "string \<Rightarrow> char \<Rightarrow> string \<Rightarrow> int \<Rightarrow> int \<Rightarrow> json" where
  "mount_json name c loop n usable = JObj
    [(''target'', JStr (''/mnt/local-pie-ssd-reserved/'' @ name)), (''filesystem'', JStr ''ext4''),
     (''uuid'', uuid_number c), (''sourceDevice'', JStr (''/dev/loop'' @ loop)), (''sourceMajorMinor'', JStr (''7:'' @ loop)),
     (''backingIdentity'', inode_json n),
     (''flags'', JArr (map JStr [''rw'', ''nodev'', ''nosuid'', ''noexec'', ''nodiscard''])),
     (''topology'', JStr ''exact-no-bind-no-nested-no-links''), (''uid'', JInt 65532), (''gid'', JInt 65532),
     (''mode'', JStr ''0700''), (''acl'', JStr ''none''), (''usableBytes'', JInt usable), (''freeInodes'', JInt 3000)]"

definition prevention_json :: json where
  "prevention_json = JObj
    [(''kernelRelease'', JStr ''fixture-kernel''), (''mechanismSha256'', JStr (zeros 64 (CHR ''b''))),
     (''formatDiscard'', JStr ''disabled''), (''loopDiscard'', JStr ''blocked''), (''loopZeroUnmap'', JStr ''blocked''),
     (''restartEnforcement'', JStr ''verified''), (''explicitTrim'', JStr ''blocked-reservation-unchanged'')]"

definition volume_json :: "string \<Rightarrow> char \<Rightarrow> string \<Rightarrow> int \<Rightarrow> int \<Rightarrow> int \<Rightarrow> json" where
  "volume_json name c loop n start sz = JObj
    [(''backing'', JStr (''/var/lib/obsync-reserved/'' @ name @ ''.img'')), (''ownership'', backing_ownership),
     (''phases'', JObj (map (\<lambda>phase. (phase, observation_json n start sz)) PHASES)),
     (''mount'', mount_json name c loop n (sz - gib)), (''fallback'', fallback_state), (''prevention'', prevention_json)]"

definition sample_now :: int where "sample_now = 1800000000"

definition sample_packet :: "string \<Rightarrow> json" where
  "sample_packet digest = JObj
    [(''schema'', JInt 1), (''profile'', JStr ''reserved-file-ext4-v1''), (''expectedSha256'', JStr digest),
     (''capturedAt'', JInt sample_now), (''rawEvidenceSha256'', JStr (zeros 64 (CHR ''a''))),
     (''pool'', JObj
       [(''uuid'', uuid_number (CHR ''1'')), (''device'', JStr ''8:1''), (''filesystem'', JStr ''ext4''),
        (''node'', JStr ''storage-node-placeholder''), (''capacityBytes'', JInt (1024 * gib)),
        (''availableBeforeBytes'', JInt (700 * gib)), (''availableAfterBytes'', JInt (445 * gib)),
        (''availableBeforeInodes'', JInt 3000), (''availableAfterInodes'', JInt 2998), (''inventoryComplete'', JBool True)]),
     (''reservations'', JObj
       [(''obsync-blobs'', allocated_json 100 0 (252 * gib)), (''obsync-journal'', allocated_json 101 0 (6 * gib)),
        (''retained-test'', allocated_json 102 (32 * gib) (32 * gib))]),
     (''volumes'', JObj
       [(''blobs'', volume_json ''obsync-blobs'' (CHR ''2'') ''0'' 100 gib (252 * gib)),
        (''journal'', volume_json ''obsync-journal'' (CHR ''3'') ''1'' 101 (301 * gib) (6 * gib))]),
     (''recovery'', recovery_state)]"

definition sample_texts :: float_text where
  "sample_texts = \<lparr>parse_float = (\<lambda>_. PosInf), float_repr = (\<lambda>_. ''inf''), container_str = (\<lambda>_. [])\<rparr>"


lemma sample_packet_checks:
  "check_packet sample_texts (dict_or_empty sample_expected) (dict_or_empty (sample_packet d))
    = Inr (JObj [(''profile'', JStr PROFILE), (''evidenceConsistency'', JStr ''pass''), (''activationAuthorized'', JBool False)])"
  by code_simp

lemma sample_shapes:
  "keys_are (dict_or_empty sample_expected)
    [''schema'', ''profile'', ''node'', ''poolUuid'', ''poolDevice'', ''kernelRelease'', ''recoveryDecisionSha256'',
     ''hostReserveBytes'', ''hostReserveInodes'', ''reservations'', ''volumes'']"
  "keys_are (dict_or_empty (sample_packet d))
    [''schema'', ''profile'', ''expectedSha256'', ''capturedAt'', ''rawEvidenceSha256'', ''pool'', ''reservations'',
     ''volumes'', ''recovery'']"
  "check_digest (get (dict_or_empty (sample_packet d)) ''rawEvidenceSha256'') = Inr ()"
  by code_simp+

lemma sample_objects:
  "sample_expected = JObj (dict_or_empty sample_expected)" "sample_packet d = JObj (dict_or_empty (sample_packet d))"
  by (simp_all add: sample_expected_def sample_packet_def)

lemma sample_fields:
  "get (dict_or_empty sample_expected) ''schema'' = JInt 1" "get (dict_or_empty (sample_packet d)) ''schema'' = JInt 1"
  "get (dict_or_empty sample_expected) ''profile'' = JStr PROFILE"
  "get (dict_or_empty (sample_packet d)) ''profile'' = JStr PROFILE"
  "get (dict_or_empty (sample_packet d)) ''expectedSha256'' = JStr d"
  "get (dict_or_empty (sample_packet d)) ''capturedAt'' = JInt sample_now"
  by (simp_all add: sample_expected_def sample_packet_def PROFILE_def)

lemma sample_header:
  "check_header bytes sample_expected (sample_packet (sha256_hex bytes)) sample_now
    = Inr (dict_or_empty sample_expected, dict_or_empty (sample_packet (sha256_hex bytes)))"
proof -
  have "shape sample_expected names = need (keys_are (dict_or_empty sample_expected) names) ''shape'' (Inr (dict_or_empty sample_expected))"
    "shape (sample_packet d) names = need (keys_are (dict_or_empty (sample_packet d)) names) ''shape'' (Inr (dict_or_empty (sample_packet d)))"
    for names d
    by (subst sample_objects, simp add: shape_def)+
  then show ?thesis
    unfolding check_header_def
    by (simp only: sample_shapes sample_fields need_simps bind_simps simp_thms number_def json.case sample_now_def MAX_AGE_def) simp
qed

lemma sample_accepted:
  "validate_storage sample_texts [] sample_expected (sample_packet (sha256_hex [])) sample_now
    = Inr (JObj [(''profile'', JStr PROFILE), (''evidenceConsistency'', JStr ''pass''), (''activationAuthorized'', JBool False)])"
  unfolding validate_storage_def sample_header by (simp add: sample_packet_checks)

theorem storage_extents_exclusive_witness:
  "backs (252 * gib) (role_extents (sample_packet (sha256_hex [])) ''trimmed'' ''blobs'')
    \<and> holders (50 * gib) (role_extents (sample_packet (sha256_hex [])) ''trimmed'' ''blobs''
        @ role_extents (sample_packet (sha256_hex [])) ''trimmed'' ''journal'') \<le> 1"
proof -
  have "''trimmed'' \<in> set PHASES" by (simp add: PHASES_def)
  note facts = storage_extents_exclusive [OF sample_accepted this]
  have "path_of sample_expected [''volumes'', ''blobs'', ''imageBytes''] = JInt (252 * gib)"
    by (simp add: sample_expected_def config_json_def)
  then show ?thesis using facts unfolding ROLES_def by force
qed

theorem storage_ledger_funded_witness:
  "owed_bytes [(''a'', allocated_json 1 0 5)] ''allocatedAfterBytes'' [(''a'', reservation_json 1 9)] = 4
    \<and> owed_bytes (dict_or_empty (path_of (sample_packet (sha256_hex [])) [''reservations''])) ''allocatedAfterBytes''
        (dict_or_empty (path_of sample_expected [''reservations''])) + 100 * gib \<le> 445 * gib"
proof -
  let ?r = "dict_or_empty (path_of sample_expected [''reservations''])"
  let ?o = "dict_or_empty (path_of (sample_packet (sha256_hex [])) [''reservations''])"
  have "path_of sample_expected [''reservations''] = JObj ?r"
    "path_of (sample_packet (sha256_hex [])) [''reservations''] = JObj ?o"
    by (simp_all add: sample_expected_def sample_packet_def)
  note facts = storage_ledger_funded [OF sample_accepted this]
  have "int_of (path_of sample_expected [''hostReserveBytes'']) = 100 * gib"
    "pool_bytes (sample_packet (sha256_hex [])) ''availableAfterBytes'' = 445 * gib"
    by (simp_all add: sample_expected_def sample_packet_def pool_bytes_def)
  then show ?thesis using facts by (simp add: owed_bytes_def allocated_json_def reservation_json_def)
qed

end
