(* ===== verification/StorageTypes.thy ===== *)
theory StorageTypes
  imports StorageProps
begin

text \<open>
  The types of the two documents.  A schema says which keys an object has and what lies
  under them; \<open>conforms\<close> checks a value against it.  The validator is one long sequence of
  checks; what passes it inhabits the two closed schemas below.
\<close>

section \<open>Schemas\<close>

datatype schema =
    Whole int  \<comment> \<open>an integer from here to \<open>2^63 - 1\<close>\<close>
  | Leaf "json \<Rightarrow> bool"
  | Fields "(string \<times> schema) list"  \<comment> \<open>exactly these keys\<close>
  | Table schema  \<comment> \<open>any keys, all values alike\<close>
  | Items schema

lemma schema_field_size: "(k, s) \<in> set fs \<Longrightarrow> size s < Suc (size_list (size_prod (\<lambda>x. 0) size) (fs :: (string \<times> schema) list))"
  by (auto simp: less_Suc_eq_le intro!: size_list_estimation' [of "(k, s)"])

function conforms :: "schema \<Rightarrow> json \<Rightarrow> bool" where
  "conforms (Whole lo) v = (case v of JInt i \<Rightarrow> lo \<le> i \<and> i \<le> 2 ^ 63 - 1 | _ \<Rightarrow> False)"
| "conforms (Leaf p) v = p v"
| "conforms (Fields fs) v =
    (case v of
       JObj d \<Rightarrow> keys_are d (map fst fs) \<and> list_all (\<lambda>(k, s). conforms s (get d k)) fs
     | _ \<Rightarrow> False)"
| "conforms (Table s) v = (case v of JObj d \<Rightarrow> list_all (\<lambda>k. conforms s (get d k)) (map fst d) | _ \<Rightarrow> False)"
| "conforms (Items s) v = (case v of JArr xs \<Rightarrow> list_all (conforms s) xs | _ \<Rightarrow> False)"
  by pat_completeness auto
termination
  by (relation "measure (\<lambda>(s, v). size s)") (auto dest: schema_field_size)

lemma conforms_whole: "number v lo = Inr i \<Longrightarrow> conforms (Whole lo) v"
  by simp

abbreviation word :: "string \<Rightarrow> schema" where "word s \<equiv> Leaf (\<lambda>v. v = JStr s)"

abbreviation any_text :: schema where "any_text \<equiv> Leaf is_str"

definition digest_schema :: schema where
  "digest_schema = Leaf (\<lambda>v. check_digest v = Inr ())"

definition uuid_schema :: schema where
  "uuid_schema = Leaf (\<lambda>v. filesystem_uuid v = Inr ())"

definition inode_schema :: schema where
  "inode_schema = Fields [(''device'', Leaf (str_matches device_text)), (''inode'', Whole 1)]"

definition reserved_schema :: schema where
  "reserved_schema = Fields [(''identity'', inode_schema), (''reservedBytes'', Whole 1)]"

definition allocated_schema :: schema where
  "allocated_schema = Fields
    [(''identity'', inode_schema), (''allocatedBeforeBytes'', Whole 0), (''allocatedAfterBytes'', Whole 0)]"

definition config_schema :: schema where
  "config_schema = Fields
    [(''backingFile'', any_text), (''filesystemUuid'', uuid_schema), (''imageBytes'', Whole 1),
     (''minimumFreeInodes'', Whole 1)]"

definition expected_schema :: schema where
  "expected_schema = Fields
    [(''schema'', Leaf (\<lambda>v. v = JInt 1)), (''profile'', word PROFILE), (''node'', any_text), (''poolUuid'', uuid_schema),
     (''poolDevice'', any_text), (''kernelRelease'', any_text), (''recoveryDecisionSha256'', digest_schema),
     (''hostReserveBytes'', Whole 1), (''hostReserveInodes'', Whole 1),
     (''reservations'', Table reserved_schema),
     (''volumes'', Fields (map (\<lambda>(role, _). (role, config_schema)) ROLES))]"

definition extent_schema :: schema where
  "extent_schema = Fields
    [(''logical'', Whole 0), (''physical'', Whole 1), (''length'', Whole 1),
     (''state'', Leaf (\<lambda>v. in_strs v [''written'', ''unwritten'']))]"

definition observation_schema :: schema where
  "observation_schema = Fields
    [(''identity'', inode_schema), (''sizeBytes'', Whole 1), (''allocatedBytes'', Whole 0),
     (''extents'', Items extent_schema)]"

definition mount_schema :: schema where
  "mount_schema = Fields
    [(''target'', any_text), (''filesystem'', word ''ext4''), (''uuid'', any_text),
     (''sourceDevice'', Leaf (str_matches loop_device)), (''sourceMajorMinor'', any_text), (''backingIdentity'', inode_schema),
     (''flags'', Leaf (\<lambda>v. v = JArr (map JStr [''rw'', ''nodev'', ''nosuid'', ''noexec'', ''nodiscard'']))),
     (''topology'', word ''exact-no-bind-no-nested-no-links''), (''uid'', Leaf (\<lambda>v. v = JInt 65532)),
     (''gid'', Leaf (\<lambda>v. v = JInt 65532)), (''mode'', word ''0700''), (''acl'', word ''none''),
     (''usableBytes'', Whole 0), (''freeInodes'', Whole 0)]"

definition prevention_schema :: schema where
  "prevention_schema = Fields
    [(''kernelRelease'', any_text), (''mechanismSha256'', digest_schema), (''formatDiscard'', word ''disabled''),
     (''loopDiscard'', word ''blocked''), (''loopZeroUnmap'', word ''blocked''), (''restartEnforcement'', word ''verified''),
     (''explicitTrim'', word ''blocked-reservation-unchanged'')]"

definition volume_schema :: "float_text \<Rightarrow> schema" where
  "volume_schema fl = Fields
    [(''backing'', any_text), (''ownership'', Leaf (\<lambda>v. same fl v backing_ownership)),
     (''phases'', Fields (map (\<lambda>phase. (phase, observation_schema)) PHASES)), (''mount'', mount_schema),
     (''fallback'', Leaf (\<lambda>v. same fl v fallback_state)), (''prevention'', prevention_schema)]"

definition pool_schema :: schema where
  "pool_schema = Fields
    [(''uuid'', uuid_schema), (''device'', any_text), (''filesystem'', word ''ext4''), (''node'', any_text),
     (''capacityBytes'', Whole 1), (''availableBeforeBytes'', Whole 0), (''availableAfterBytes'', Whole 0),
     (''availableBeforeInodes'', Whole 0), (''availableAfterInodes'', Whole 0),
     (''inventoryComplete'', Leaf (\<lambda>v. v = JBool True))]"

definition packet_schema :: "float_text \<Rightarrow> schema" where
  "packet_schema fl = Fields
    [(''schema'', Leaf (\<lambda>v. v = JInt 1)), (''profile'', word PROFILE), (''expectedSha256'', any_text),
     (''capturedAt'', Whole 0), (''rawEvidenceSha256'', digest_schema), (''pool'', pool_schema),
     (''reservations'', Table allocated_schema),
     (''volumes'', Fields (map (\<lambda>(role, _). (role, volume_schema fl)) ROLES)),
     (''recovery'', Leaf (\<lambda>v. same fl v recovery_state))]"

section \<open>The checks establish the schemas\<close>

lemma conforms_inode: "file_identity v = Inr ident \<Longrightarrow> conforms inode_schema v"
  by (auto simp: file_identity_Inr inode_schema_def)

lemma extent_typed: "allocation_extent x s = Inr s' \<Longrightarrow> conforms extent_schema x"
  by (cases s) (auto simp: allocation_extent_def extent_schema_def)

lemma extents_typed: "for_each allocation_extent xs s = Inr s' \<Longrightarrow> list_all (conforms extent_schema) xs"
  by (induction xs arbitrary: s) (auto dest: extent_typed)

lemma observation_typed: "allocation v ident sz = Inr physical \<Longrightarrow> conforms observation_schema v"
  by (auto simp: allocation_def observation_schema_def dest!: conforms_inode extents_typed split: json.splits)

lemma phases_typed:
  assumes "for_each (check_phase phases ident sz) ps bp = Inr bp'"
  shows "list_all (\<lambda>p. conforms observation_schema (get phases p)) ps"
  using assms by (induction ps arbitrary: bp) (auto simp: check_phase_def dest: observation_typed)

lemma mount_typed: "check_mount v name uuid ident claim sz free devices = Inr major \<Longrightarrow> conforms mount_schema v"
  by (auto simp: check_mount_def mount_schema_def Let_def dest!: conforms_inode split: json.splits)

lemma prevention_typed:
  "check_prevention v release = Inr u \<Longrightarrow> is_str release \<Longrightarrow> conforms prevention_schema v"
  by (auto simp: check_prevention_def prevention_schema_def digest_schema_def)

lemma config_typed: "volume_config reserved v name claim ids = Inr r \<Longrightarrow> conforms config_schema v"
  by (auto simp: volume_config_def Let_def config_schema_def uuid_schema_def split: json.splits)

lemma role_typed:
  assumes "check_role fl p reserved observed configs volumes (role, claim) st = Inr st'"
    and "is_str (get (pool_expected p) ''kernelRelease'')"
  shows "conforms (volume_schema fl) (get volumes role) \<and> conforms config_schema (get configs role)"
proof -
  from assms(1) obtain r backing uuid sz min_inodes reservation volume phases major by_phase u
    where config: "volume_config reserved (get configs role) (''obsync-'' @ role) claim (filesystem_ids st) = Inr r"
      and volume: "get volumes role = JObj volume" "keys_are volume
        [''backing'', ''ownership'', ''phases'', ''mount'', ''fallback'', ''prevention'']"
        "get volume ''backing'' = JStr backing" "same fl (get volume ''ownership'') backing_ownership"
        "same fl (get volume ''fallback'') fallback_state"
      and phases: "get volume ''phases'' = JObj phases" "keys_are phases PHASES"
        "for_each (check_phase phases (get reservation ''identity'') sz) PHASES (physical_by_phase st) = Inr by_phase"
      and mount: "check_mount (get volume ''mount'') (''obsync-'' @ role) uuid (get reservation ''identity'') claim sz
        min_inodes (mount_devices st) = Inr major"
      and prevention: "check_prevention (get volume ''prevention'') (get (pool_expected p) ''kernelRelease'') = Inr u"
    unfolding check_role_def Let_def by (auto split: prod.splits)
  have "conforms (Fields (map (\<lambda>phase. (phase, observation_schema)) PHASES)) (JObj phases)"
    using phases(2) phases_typed [OF phases(3)] by (simp add: list_all_iff comp_def)
  then show ?thesis
    using volume phases(1) config_typed [OF config] mount_typed [OF mount] prevention_typed [OF prevention assms(2)]
    by (simp add: volume_schema_def)
qed

lemma reservation_typed:
  assumes "reservation_item p observed (key, v) l = Inr l'"
  shows "conforms reserved_schema v \<and> conforms allocated_schema (get observed key)"
  using assms
  by (auto simp: reservation_item_def reserved_schema_def allocated_schema_def dest!: conforms_inode)

lemma reservations_typed:
  assumes "for_each (reservation_item p observed) reserved l = Inr l'"
  shows "list_all (\<lambda>(key, v). conforms reserved_schema v \<and> conforms allocated_schema (get observed key)) reserved"
  using assms by (induction reserved arbitrary: l) (auto dest: reservation_typed)

lemma tables_typed:
  assumes "check_reservations p = Inr (reserved, observed)"
  shows "conforms (Table reserved_schema) (get (pool_expected p) ''reservations'')
    \<and> conforms (Table allocated_schema) (get (pool_packet p) ''reservations'')"
proof -
  from assms obtain l where at: "get (pool_expected p) ''reservations'' = JObj reserved"
      "get (pool_packet p) ''reservations'' = JObj observed"
    and loop: "for_each (reservation_item p observed) reserved empty_ledger = Inr l"
    by (rule check_reservations_reads)
  have keys: "keys_are observed (map fst reserved)"
    using assms at unfolding check_reservations_def by auto
  note typed = reservations_typed [OF loop]
  have "conforms reserved_schema (get reserved k)" if "k \<in> set (map fst reserved)" for k
  proof -
    from that obtain v where "map_of reserved k = Some v" by (meson map_of_None_iff not_None_eq image_set)
    then show ?thesis using typed by (auto simp: get_def list_all_iff dest!: map_of_SomeD)
  qed
  moreover have "conforms allocated_schema (get observed k)" if "k \<in> set (map fst observed)" for k
    using that keys typed by (auto simp: keys_are_def list_all_iff)
  ultimately show ?thesis by (simp add: at list_all_iff)
qed

lemma pool_typed:
  assumes "check_pool e k = Inr p"
  shows "conforms pool_schema (get k ''pool'') \<and> pool_expected p = e \<and> pool_packet p = k
    \<and> list_all (\<lambda>key. is_str (get e key)) [''node'', ''poolDevice'', ''kernelRelease'']
    \<and> conforms uuid_schema (get e ''poolUuid'') \<and> conforms digest_schema (get e ''recoveryDecisionSha256'')
    \<and> conforms (Whole 1) (get e ''hostReserveBytes'') \<and> conforms (Whole 1) (get e ''hostReserveInodes'')"
proof -
  have plain: "plain_text v = Inr s \<Longrightarrow> is_str v" for v s
    by (cases v) (simp_all add: plain_text_def)
  from assms obtain u where "check_texts e = Inr u" unfolding check_pool_def by auto
  then have texts: "list_all (\<lambda>key. is_str (get e key)) [''node'', ''poolDevice'', ''kernelRelease'']"
    unfolding check_texts_def by (auto dest: plain)
  from assms obtain q where "get k ''pool'' = JObj q" "keys_are q
      [''uuid'', ''device'', ''filesystem'', ''node'', ''capacityBytes'', ''availableBeforeBytes'',
       ''availableAfterBytes'', ''availableBeforeInodes'', ''availableAfterInodes'', ''inventoryComplete'']"
    and "get q ''uuid'' = get e ''poolUuid''" "get q ''device'' = get e ''poolDevice''" "get q ''node'' = get e ''node''"
      "get q ''filesystem'' = JStr ''ext4''" "get q ''inventoryComplete'' = JBool True"
    and "conforms (Whole 1) (get q ''capacityBytes'')" "conforms (Whole 0) (get q ''availableBeforeBytes'')"
      "conforms (Whole 0) (get q ''availableAfterBytes'')" "conforms (Whole 0) (get q ''availableBeforeInodes'')"
      "conforms (Whole 0) (get q ''availableAfterInodes'')"
    and rest: "pool_expected p = e" "pool_packet p = k" "filesystem_uuid (get e ''poolUuid'') = Inr ()"
      "check_digest (get e ''recoveryDecisionSha256'') = Inr ()"
      "conforms (Whole 1) (get e ''hostReserveBytes'')" "conforms (Whole 1) (get e ''hostReserveInodes'')"
    unfolding check_pool_def by auto
  then have "conforms pool_schema (get k ''pool'')"
    using texts by (simp add: pool_schema_def uuid_schema_def)
  with rest texts show ?thesis by (simp add: uuid_schema_def digest_schema_def)
qed

lemma header_typed:
  assumes "check_header bytes expected packet now = Inr (e, k)"
  shows "keys_are e (map fst (case expected_schema of Fields fs \<Rightarrow> fs | _ \<Rightarrow> []))
    \<and> keys_are k (map fst (case packet_schema fl of Fields fs \<Rightarrow> fs | _ \<Rightarrow> []))
    \<and> get e ''schema'' = JInt 1 \<and> get k ''schema'' = JInt 1 \<and> get e ''profile'' = JStr PROFILE
    \<and> get k ''profile'' = JStr PROFILE \<and> is_str (get k ''expectedSha256'')
    \<and> conforms digest_schema (get k ''rawEvidenceSha256'') \<and> conforms (Whole 0) (get k ''capturedAt'')"
  using assms unfolding check_header_def by (auto simp: expected_schema_def packet_schema_def digest_schema_def)



end
