(* ===== verification/FluxEvidence.thy ===== *)
theory FluxEvidence
  imports PyValue
begin

text \<open>
  scripts/validate_flux_release_evidence.py: the captured Flux objects of the cluster
  against the release commit.  The script is a straight line over files of one
  directory; \<open>capture\<close> is what reading each of them by name gives.  The sets of
  expected identities are lists, in sorted order where the source sorts them.
  Values built by the same parse are not compared with each other by the source,
  so Python's shortcut for identical objects plays no part in its comparisons.
\<close>

section \<open>Captured files\<close>

type_synonym capture = "string \<Rightarrow> string res"

type_synonym object_id = "string \<times> string"

definition load_capture :: "float_text \<Rightarrow> capture \<Rightarrow> string \<Rightarrow> json res" where
  "load_capture fl files name =
    bind (files name) (\<lambda>bytes.
    bind (decode_utf8 bytes) (\<lambda>contents. loads fl dict_hook (universal_newlines contents)))"

definition load_items :: "float_text \<Rightarrow> capture \<Rightarrow> string \<Rightarrow> json list res" where
  "load_items fl files name =
    bind (load_capture fl files name) (\<lambda>document.
    bind (method_get document ''items'') (\<lambda>items.
    (case items of
       JArr xs \<Rightarrow> Inr xs
     | _ \<Rightarrow> Inl (SystemExit (name @ '' does not contain one Kubernetes item list'')))))"

section \<open>Kubernetes objects\<close>

definition metadata :: "dict \<Rightarrow> dict" where
  "metadata obj = dict_or_empty (get obj ''metadata'')"

definition status :: "dict \<Rightarrow> dict" where
  "status obj = dict_or_empty (get obj ''status'')"

definition id_label :: "object_id \<Rightarrow> string" where
  "id_label ident = fst ident @ ''/'' @ snd ident"

text \<open>The conditions of one type; elements that are not objects are passed over.\<close>

definition conditions_of :: "dict \<Rightarrow> string \<Rightarrow> dict list res" where
  "conditions_of obj kind =
    bind (elements_of (get_default (status obj) ''conditions'' (JArr []))) (\<lambda>conditions.
    Inr (filter (\<lambda>d. get d ''type'' = JStr kind) (objects conditions)))"

definition one_ready :: "dict \<Rightarrow> string \<Rightarrow> string \<Rightarrow> unit res" where
  "one_ready obj kind label =
    bind (conditions_of obj ''Ready'') (\<lambda>ready.
    exit_if (length ready \<noteq> 1 \<or> get (hd ready) ''status'' \<noteq> JStr ''True'')
      (kind @ '' '' @ label @ '' does not have exactly one Ready=True condition'') (Inr ()))"

definition one_source_verified :: "dict \<Rightarrow> string \<Rightarrow> int \<Rightarrow> unit res" where
  "one_source_verified obj label generation =
    bind (conditions_of obj ''SourceVerified'') (\<lambda>verified.
    exit_if (length verified \<noteq> 1 \<or> get (hd verified) ''status'' \<noteq> JStr ''True''
        \<or> get (hd verified) ''reason'' \<noteq> JStr ''Succeeded''
        \<or> \<not> json_eq (get (hd verified) ''observedGeneration'') (JInt generation))
      (''OCIRepository '' @ label @ '' does not have exact SourceVerified=True/Succeeded'') (Inr ()))"

definition exact_generation :: "dict \<Rightarrow> string \<Rightarrow> string \<Rightarrow> int res" where
  "exact_generation obj kind label =
    (let message = kind @ '' '' @ label @ '' has not observed its exact current generation'' in
     case get (metadata obj) ''generation'' of
       JInt generation \<Rightarrow>
         exit_if (generation < 1 \<or> get (status obj) ''observedGeneration'' \<noteq> JInt generation) message (Inr generation)
     | _ \<Rightarrow> Inl (SystemExit message))"

definition has_identity :: "object_id \<Rightarrow> dict \<Rightarrow> bool" where
  "has_identity ident obj =
    (get (metadata obj) ''namespace'' = JStr (fst ident) \<and> get (metadata obj) ''name'' = JStr (snd ident))"

definition by_identity :: "json list \<Rightarrow> object_id \<Rightarrow> string \<Rightarrow> dict res" where
  "by_identity items ident kind =
    bind (map_res object_item items) (\<lambda>found.
    let matches = filter (has_identity ident) found in
    exit_if (length matches \<noteq> 1)
      (''expected exactly one '' @ kind @ '' '' @ id_label ident @ '', found '' @ show_nat (length matches))
      (Inr (hd matches)))"

text \<open>A set of pairs hashes their members, once the number of items is right.\<close>

definition identity_of :: "dict \<Rightarrow> json \<times> json" where
  "identity_of obj = (get (metadata obj) ''namespace'', get (metadata obj) ''name'')"

definition json_identity :: "object_id \<Rightarrow> json \<times> json" where
  "json_identity ident = (JStr (fst ident), JStr (snd ident))"

definition hashable_pair :: "json \<times> json \<Rightarrow> bool" where
  "hashable_pair p = (hashable (fst p) \<and> hashable (snd p))"

definition inventory_item :: "string \<Rightarrow> json \<Rightarrow> (json \<times> json) list \<Rightarrow> (json \<times> json) list res" where
  "inventory_item kind v found =
    (case v of
       JObj obj \<Rightarrow> Inr (found @ [identity_of obj])
     | _ \<Rightarrow> Inl (SystemExit (kind @ '' inventory contains a non-object item'')))"

definition exact_namespaced_inventory :: "json list \<Rightarrow> object_id list \<Rightarrow> string \<Rightarrow> unit res" where
  "exact_namespaced_inventory items expected kind =
    bind (for_each (inventory_item kind) items []) (\<lambda>found.
    let message = ''live '' @ kind @ '' inventory differs from the exact release set'' in
    exit_if (length found \<noteq> length expected) message (
    if \<not> list_all hashable_pair found then Inl TypeError
    else exit_if (set found \<noteq> json_identity ` set expected) message (Inr ())))"

text \<open>\<open>kind.lower()\<close> of the fixed ASCII kinds.\<close>

definition desired_name :: "string \<Rightarrow> object_id \<Rightarrow> string" where
  "desired_name kind ident =
    ''desired-flux-'' @ map lower_char kind @ ''-'' @ fst ident @ ''-'' @ snd ident @ ''.json''"

definition desired_object :: "string \<Rightarrow> string \<Rightarrow> object_id \<Rightarrow> string \<Rightarrow> json \<Rightarrow> dict res" where
  "desired_object kind api_version ident message v =
    bind (object_item v) (\<lambda>desired.
    exit_if (get desired ''apiVersion'' \<noteq> JStr api_version \<or> get desired ''kind'' \<noteq> JStr kind
        \<or> \<not> has_identity ident desired \<or> \<not> is_object (get desired ''spec''))
      message (Inr desired))"

definition desired_flux_object :: "float_text \<Rightarrow> capture \<Rightarrow> string \<Rightarrow> string \<Rightarrow> object_id \<Rightarrow> dict res" where
  "desired_flux_object fl files kind api_version ident =
    bind (load_capture fl files (desired_name kind ident))
      (desired_object kind api_version ident (''desired '' @ kind @ '' normalization is invalid: '' @ id_label ident))"

text \<open>The spec of a live object is the spec of its normalized desired form.\<close>

definition same_spec :: "dict \<Rightarrow> dict \<Rightarrow> bool" where
  "same_spec obj desired = json_eq (get obj ''spec'') (get desired ''spec'')"

section \<open>Kustomizations\<close>

definition kustomization_identities :: "object_id list" where
  "kustomization_identities =
    [(''flux-system'', ''lidersea-com-reconciler''), (''flux-system'', ''naranjo-online-reconciler''),
     (''flux-system'', ''obsync-reconciler'')]"

definition check_kustomization ::
  "float_text \<Rightarrow> capture \<Rightarrow> string \<Rightarrow> json list \<Rightarrow> object_id \<Rightarrow> unit \<Rightarrow> unit res" where
  "check_kustomization fl files revision items ident _ =
    bind (by_identity items ident ''Kustomization'') (\<lambda>obj.
    bind (desired_flux_object fl files ''Kustomization'' ''kustomize.toolkit.fluxcd.io/v1'' ident) (\<lambda>desired.
    bind (exact_generation obj ''Kustomization'' (id_label ident)) (\<lambda>_.
    bind (one_ready obj ''Kustomization'' (id_label ident)) (\<lambda>_.
    exit_if (get (status obj) ''lastAppliedRevision'' \<noteq> JStr revision
        \<or> get (status obj) ''lastAttemptedRevision'' \<noteq> JStr revision)
      (''Kustomization '' @ id_label ident @ '' is not applied and attempted at exact local HEAD'') (
    exit_if (\<not> same_spec obj desired)
      (''Kustomization '' @ id_label ident @ '' spec differs from exact desired state'') (Inr ()))))))"

definition check_kustomizations :: "float_text \<Rightarrow> capture \<Rightarrow> string \<Rightarrow> unit res" where
  "check_kustomizations fl files revision =
    bind (load_items fl files ''kustomizations.json'') (\<lambda>items.
    bind (exact_namespaced_inventory items kustomization_identities ''Kustomization'') (\<lambda>_.
    for_each (check_kustomization fl files revision items) kustomization_identities ()))"

section \<open>Git sources\<close>

definition source_identities :: "object_id list" where
  "source_identities = [(''cloudflare-public'', ''cloudflare-public-source''), (''flux-system'', ''flux-system'')]"

definition check_git_source ::
  "float_text \<Rightarrow> capture \<Rightarrow> string \<Rightarrow> json list \<Rightarrow> object_id \<Rightarrow> unit \<Rightarrow> unit res" where
  "check_git_source fl files revision items ident _ =
    bind (by_identity items ident ''GitRepository'') (\<lambda>obj.
    bind (desired_flux_object fl files ''GitRepository'' ''source.toolkit.fluxcd.io/v1'' ident) (\<lambda>desired.
    bind (exact_generation obj ''GitRepository'' (id_label ident)) (\<lambda>_.
    bind (one_ready obj ''GitRepository'' (id_label ident)) (\<lambda>_.
    let spec_value = get_default obj ''spec'' (JObj []);
        artifact = get_default (status obj) ''artifact'' (JObj []) in
    bind (object_item spec_value) (\<lambda>spec.
    exit_if (get spec ''url'' \<noteq> JStr ''https://github.com/snaraj/website-infrastructure.git''
        \<or> \<not> json_eq (get spec ''ref'') (JObj [(''branch'', JStr ''main'')])
        \<or> \<not> is_object artifact \<or> get (dict_or_empty artifact) ''revision'' \<noteq> JStr revision)
      (''GitRepository '' @ id_label ident @ '' is not the exact current main artifact'') (
    exit_if (\<not> json_eq spec_value (get desired ''spec''))
      (''GitRepository '' @ id_label ident @ '' spec differs from exact desired state'') (Inr ())))))))"

definition check_git_sources :: "float_text \<Rightarrow> capture \<Rightarrow> string \<Rightarrow> unit res" where
  "check_git_sources fl files revision =
    bind (load_items fl files ''gitrepositories.json'') (\<lambda>items.
    bind (exact_namespaced_inventory items source_identities ''GitRepository'') (\<lambda>_.
    for_each (check_git_source fl files revision items) source_identities ()))"

definition empty_inventory :: "(string \<Rightarrow> json list res) \<Rightarrow> string \<times> string \<Rightarrow> unit \<Rightarrow> unit res" where
  "empty_inventory load_named = (\<lambda>(filename, kind) _.
    bind (load_named filename) (\<lambda>items.
    exit_if (items \<noteq> []) (''live '' @ kind @ '' inventory must be empty'') (Inr ())))"

definition check_empty_inventories :: "float_text \<Rightarrow> capture \<Rightarrow> unit res" where
  "check_empty_inventories fl files =
    for_each (empty_inventory (load_items fl files))
      [(''buckets.json'', ''Bucket''), (''externalartifacts.json'', ''ExternalArtifact''),
       (''helmrepositories.json'', ''HelmRepository'')] ()"

section \<open>Chart sources\<close>

record chart_contract =
  chart_url :: string
  chart_tag :: string
  chart_digest :: string
  artifact_digest :: string
  chart_subject :: string

definition oci_chart_sources :: "(object_id \<times> chart_contract) list" where
  "oci_chart_sources =
    [((''lidersea-com'', ''lidersea-com-chart''),
      \<lparr>chart_url = ''oci://ghcr.io/snaraj/charts/lidersea-com'',
       chart_tag = ''0.1.37'',
       chart_digest = ''sha256:05ab03a6e7520ea6768e4efc3750c83f8f7bc827cac3289bf9ee1326c873c8fc'',
       artifact_digest = ''sha256:1190b1297885d233a01f362467a00eb8f32c49ca5843edeb8af53d5a25f21b3b'',
       chart_subject = [CHR ''^''] @ ''https://github'' @ [CHR 0x5C] @ ''.com/snaraj/lidersea'' @ [CHR 0x5C] @ ''.com/''
         @ [CHR 0x5C] @ ''.github/workflows/release-publisher'' @ [CHR 0x5C] @ ''.yml@refs/heads/main$''\<rparr>),
     ((''naranjo-online'', ''naranjo-online-chart''),
      \<lparr>chart_url = ''oci://ghcr.io/snaraj/charts/naranjo-online'',
       chart_tag = ''0.1.54'',
       chart_digest = ''sha256:7223dd78f308c1e211da71f6e062195724aaedc47962b0a04907eeb0baf2d7bb'',
       artifact_digest = ''sha256:56d37664cfedcddafcc9bd440b69e27b1f386012b9fe55868dd7d0e8d773a494'',
       chart_subject = [CHR ''^''] @ ''https://github'' @ [CHR 0x5C] @ ''.com/snaraj/naranjo'' @ [CHR 0x5C] @ ''.online/''
         @ [CHR 0x5C] @ ''.github/workflows/release-publisher'' @ [CHR 0x5C] @ ''.yml@refs/heads/main$''\<rparr>)]"

definition EXPECTED_CHART_ISSUER :: string where
  "EXPECTED_CHART_ISSUER =
    ''^https://token'' @ [CHR 0x5C] @ ''.actions'' @ [CHR 0x5C] @ ''.githubusercontent'' @ [CHR 0x5C] @ ''.com$''"

text \<open>The anonymous, cosign-verified source: what the spec of one chart source must say.\<close>

definition exact_chart_source :: "chart_contract \<Rightarrow> dict \<Rightarrow> bool" where
  "exact_chart_source contract spec =
    (let verify = get_default spec ''verify'' (JObj []) in
     get spec ''url'' = JStr (chart_url contract)
     \<and> json_eq (get spec ''ref'') (JObj [(''digest'', JStr (chart_digest contract))])
     \<and> get spec ''secretRef'' = JNull \<and> get spec ''serviceAccountName'' = JNull
     \<and> none_or (JBool False) (get spec ''insecure'')
     \<and> (case verify of
          JObj v \<Rightarrow> get v ''provider'' = JStr ''cosign'' \<and> get v ''secretRef'' = JNull
            \<and> (case get v ''matchOIDCIdentity'' of
                 JArr [found] \<Rightarrow>
                   json_eq found (JObj [(''issuer'', JStr EXPECTED_CHART_ISSUER),
                     (''subject'', JStr (chart_subject contract))])
               | _ \<Rightarrow> False)
        | _ \<Rightarrow> False))"

type_synonym chart_revisions = "(object_id \<times> (string \<times> string)) list"

definition check_chart_source ::
  "float_text \<Rightarrow> capture \<Rightarrow> json list \<Rightarrow> object_id \<times> chart_contract \<Rightarrow> chart_revisions \<Rightarrow> chart_revisions res" where
  "check_chart_source fl files items = (\<lambda>(ident, contract) revisions.
    bind (by_identity items ident ''OCIRepository'') (\<lambda>obj.
    bind (desired_flux_object fl files ''OCIRepository'' ''source.toolkit.fluxcd.io/v1'' ident) (\<lambda>desired.
    bind (exact_generation obj ''OCIRepository'' (id_label ident)) (\<lambda>generation.
    bind (one_ready obj ''OCIRepository'' (id_label ident)) (\<lambda>_.
    bind (one_source_verified obj (id_label ident) generation) (\<lambda>_.
    let spec_value = get_default obj ''spec'' (JObj []) in
    bind (object_item spec_value) (\<lambda>spec.
    exit_if (\<not> exact_chart_source contract spec)
      (''OCIRepository '' @ id_label ident @ '' is not the exact anonymous, cosign-verified chart source'') (
    let annotations = get_default (metadata obj) ''annotations'' (JObj []) in
    exit_if (\<not> is_object annotations
        \<or> get (dict_or_empty annotations) ''platform.snaraj.dev/chart-release'' \<noteq> JStr (chart_tag contract))
      (''OCIRepository '' @ id_label ident @ '' lacks its reviewed audit-only chart release annotation'') (
    exit_if (\<not> json_eq spec_value (get desired ''spec''))
      (''OCIRepository '' @ id_label ident @ '' spec differs from exact desired state'') (
    let artifact = dict_or_empty (get_default (status obj) ''artifact'' (JObj [])) in
    exit_if (get artifact ''revision'' \<noteq> JStr (chart_digest contract)
        \<or> get artifact ''digest'' \<noteq> JStr (artifact_digest contract))
      (''OCIRepository '' @ id_label ident @ '' is not ready at its exact immutable chart digest'') (
    Inr (revisions @ [(ident, (chart_tag contract, chart_digest contract))]))))))))))))"

definition check_chart_sources :: "float_text \<Rightarrow> capture \<Rightarrow> chart_revisions res" where
  "check_chart_sources fl files =
    bind (load_items fl files ''ocirepositories.json'') (\<lambda>items.
    bind (exact_namespaced_inventory items (map fst oci_chart_sources) ''OCIRepository'') (\<lambda>_.
    for_each (check_chart_source fl files items) oci_chart_sources []))"

section \<open>Helm releases\<close>

definition release_sources :: "(object_id \<times> object_id option) list" where
  "release_sources =
    [((''naranjo-online'', ''naranjo-online''), Some (''naranjo-online'', ''naranjo-online-chart'')),
     ((''lidersea-com'', ''lidersea-com''), Some (''lidersea-com'', ''lidersea-com-chart'')),
     ((''cloudflare-public'', ''cloudflare-public''), None)]"

definition git_chart_sources :: "(object_id \<times> string) list" where
  "git_chart_sources = [((''cloudflare-public'', ''cloudflare-public''), ''cloudflare-public-source'')]"

definition expected_chart_identities :: "object_id list" where
  "expected_chart_identities = map (\<lambda>((namespace, name), _). (namespace, namespace @ ''-'' @ name)) git_chart_sources"

text \<open>\<open>release.get("spec", {}).get(key)\<close>.\<close>

definition spec_field :: "dict \<Rightarrow> string \<Rightarrow> json res" where
  "spec_field obj key = method_get (get_default obj ''spec'' (JObj [])) key"

text \<open>The deployed release: its attempted revision and its latest history entry.\<close>

definition deployed_release :: "object_id \<Rightarrow> dict \<Rightarrow> (string \<times> dict) res" where
  "deployed_release ident release =
    (let label = ''HelmRelease '' @ id_label ident; st = status release in
     bind (exact_generation release ''HelmRelease'' (id_label ident)) (\<lambda>generation.
     bind (one_ready release ''HelmRelease'' (id_label ident)) (\<lambda>_.
     exit_if (get st ''lastAttemptedGeneration'' \<noteq> JInt generation)
       (label @ '' did not attempt its exact current generation'') (
     case get st ''lastAttemptedRevision'' of
       JStr attempted \<Rightarrow>
         exit_if (attempted = []) (label @ '' has no attempted source revision'') (
         case get st ''history'' of
           JArr (JObj latest # _) \<Rightarrow>
             exit_if (get latest ''name'' \<noteq> JStr (snd ident) \<or> get latest ''namespace'' \<noteq> JStr (fst ident)
                 \<or> get latest ''status'' \<noteq> JStr ''deployed'' \<or> get latest ''chartVersion'' \<noteq> JStr attempted)
               (label @ '' attempted revision is not its latest deployed revision'') (Inr (attempted, latest))
         | _ \<Rightarrow> Inl (SystemExit (label @ '' has no successful release history'')))
     | _ \<Rightarrow> Inl (SystemExit (label @ '' has no attempted source revision''))))))"

text \<open>A site release resolves its chart through its own verified source.\<close>

definition check_site_release ::
  "chart_revisions \<Rightarrow> object_id \<Rightarrow> object_id \<Rightarrow> dict \<Rightarrow> string \<Rightarrow> dict \<Rightarrow> unit res" where
  "check_site_release revisions ident chart_source release attempted latest =
    (let label = ''HelmRelease '' @ id_label ident; st = status release in
     bind (spec_field release ''chartRef'') (\<lambda>chart_ref.
     exit_if (\<not> json_eq chart_ref (JObj [(''kind'', JStr ''OCIRepository''), (''name'', JStr (snd chart_source))]))
       (label @ '' does not resolve its chart through its own verified OCI source'') (
     exit_if (get st ''helmChart'' \<noteq> JNull)
       (label @ '' must not materialize a HelmChart on the chartRef path'') (
     case map_of revisions chart_source of
       None \<Rightarrow> Inl KeyError
     | Some (tag, digest) \<Rightarrow>
         exit_if (attempted \<noteq> tag @ ''+'' @ take 12 (drop 7 digest)
             \<or> get st ''lastAttemptedRevisionDigest'' \<noteq> JStr digest
             \<or> \<not> none_or (JStr digest) (get latest ''ociDigest''))
           (label @ '' deployed a chart version its verified source does not currently resolve'') (Inr ())))))"

text \<open>The connector release materializes one HelmChart from this repository.\<close>

definition check_git_chart ::
  "string \<Rightarrow> json list \<Rightarrow> object_id \<Rightarrow> dict \<Rightarrow> dict \<Rightarrow> string \<Rightarrow> unit res" where
  "check_git_chart revision helmcharts ident release desired_release attempted =
    (let label = ''HelmRelease '' @ id_label ident;
         no_reference = Inl (SystemExit (label @ '' has no canonical HelmChart reference'')) in
     case get (status release) ''helmChart'' of
       JStr chart_reference \<Rightarrow>
         (case split_on (CHR ''/'') chart_reference of
            [chart_namespace, chart_name] \<Rightarrow>
              exit_if (chart_namespace \<noteq> fst ident \<or> chart_name \<noteq> fst ident @ ''-'' @ snd ident)
                (label @ '' references an unexpected HelmChart'') (
              let chart_ident = (chart_namespace, chart_name) in
              bind (by_identity helmcharts chart_ident ''HelmChart'') (\<lambda>chart.
              bind (exact_generation chart ''HelmChart'' (id_label chart_ident)) (\<lambda>_.
              bind (one_ready chart ''HelmChart'' (id_label chart_ident)) (\<lambda>_.
              let chart_spec = get_default chart ''spec'' (JObj []) in
              bind (object_item (get_default desired_release ''spec'' (JObj []))) (\<lambda>desired_spec.
              bind (method_get (get_default desired_spec ''chart'' (JObj [])) ''spec'') (\<lambda>desired_chart_spec.
              let artifact = get_default (status chart) ''artifact'' (JObj []) in
              bind (object_item chart_spec) (\<lambda>spec.
              (case map_of git_chart_sources ident of
                 None \<Rightarrow> if get spec ''reconcileStrategy'' \<noteq> JStr ''Revision''
                   then Inl (SystemExit (label @ '' is not applied from its exact current Git artifact''))
                   else Inl KeyError
               | Some source \<Rightarrow>
                   exit_if (get spec ''reconcileStrategy'' \<noteq> JStr ''Revision''
                       \<or> \<not> json_eq (get spec ''sourceRef'')
                           (JObj [(''kind'', JStr ''GitRepository''), (''name'', JStr source)])
                       \<or> \<not> json_eq chart_spec desired_chart_spec
                       \<or> get (status chart) ''observedSourceArtifactRevision'' \<noteq> JStr revision
                       \<or> \<not> is_object artifact
                       \<or> get (dict_or_empty artifact) ''revision'' \<noteq> JStr attempted)
                     (label @ '' is not applied from its exact current Git artifact'') (Inr ())))))))))
          | _ \<Rightarrow> no_reference)
     | _ \<Rightarrow> no_reference)"

definition check_helm_release ::
  "float_text \<Rightarrow> capture \<Rightarrow> string \<Rightarrow> chart_revisions \<Rightarrow> json list \<Rightarrow> json list
    \<Rightarrow> object_id \<times> object_id option \<Rightarrow> unit \<Rightarrow> unit res" where
  "check_helm_release fl files revision revisions helmreleases helmcharts = (\<lambda>(ident, chart_source) _.
    bind (by_identity helmreleases ident ''HelmRelease'') (\<lambda>release.
    bind (desired_flux_object fl files ''HelmRelease'' ''helm.toolkit.fluxcd.io/v2'' ident) (\<lambda>desired_release.
    bind (if chart_source = None then Inr True
          else bind (spec_field release ''values'') (\<lambda>values.
            Inr (json_eq values (JObj [(''deploymentReady'', JBool True)])))) (\<lambda>exact_values.
    exit_if (\<not> exact_values)
      (''HelmRelease '' @ id_label ident @ '' values are not exactly deploymentReady=true'') (
    exit_if (\<not> same_spec release desired_release)
      (''HelmRelease '' @ id_label ident @ '' spec differs from exact desired state'') (
    bind (deployed_release ident release) (\<lambda>(attempted, latest).
    (case chart_source of
       Some source \<Rightarrow> check_site_release revisions ident source release attempted latest
     | None \<Rightarrow> check_git_chart revision helmcharts ident release desired_release attempted))))))))"

definition check_releases :: "float_text \<Rightarrow> capture \<Rightarrow> string \<Rightarrow> chart_revisions \<Rightarrow> unit res" where
  "check_releases fl files revision revisions =
    bind (load_items fl files ''helmreleases.json'') (\<lambda>helmreleases.
    bind (load_items fl files ''helmcharts.json'') (\<lambda>helmcharts.
    bind (exact_namespaced_inventory helmreleases (map fst release_sources) ''HelmRelease'') (\<lambda>_.
    bind (exact_namespaced_inventory helmcharts expected_chart_identities ''HelmChart'') (\<lambda>_.
    for_each (check_helm_release fl files revision revisions helmreleases helmcharts) release_sources ()))))"

section \<open>Network policies\<close>

text \<open>In the order of \<open>sorted\<close>.\<close>

definition expected_network_policies :: "object_id list" where
  "expected_network_policies =
    [(''cloudflare-public'', ''cloudflared-dns''), (''cloudflare-public'', ''cloudflared-edge''),
     (''cloudflare-public'', ''cloudflared-lidersea-com''), (''cloudflare-public'', ''cloudflared-naranjo-online''),
     (''cloudflare-public'', ''default-deny-all''), (''lidersea-com'', ''default-deny''),
     (''lidersea-com'', ''ingress-to-lidersea-com''), (''naranjo-online'', ''default-deny''),
     (''naranjo-online'', ''ingress-to-naranjo-online'')]"

definition match_labels :: "(string \<times> string) list \<Rightarrow> json" where
  "match_labels labels = JObj [(''matchLabels'', JObj (map (\<lambda>(k, v). (k, JStr v)) labels))]"

definition exact_site_application_policy_spec :: "string \<Rightarrow> json" where
  "exact_site_application_policy_spec namespace =
    JObj ([(''podSelector'', match_labels
        [(''app.kubernetes.io/name'', namespace), (''app.kubernetes.io/instance'', namespace)]),
      (''policyTypes'', JArr (if namespace = ''lidersea-com'' then [JStr ''Ingress'', JStr ''Egress''] else [JStr ''Ingress''])),
      (''ingress'', JArr [JObj
        [(''from'', JArr [JObj
           [(''namespaceSelector'', match_labels [(''kubernetes.io/metadata.name'', ''cloudflare-public'')]),
            (''podSelector'', match_labels
              [(''app.kubernetes.io/name'', ''cloudflare-public''),
               (''app.kubernetes.io/instance'', namespace @ ''-tunnel'')])]]),
         (''ports'', JArr [JObj [(''port'', JInt 8080), (''protocol'', JStr ''TCP'')]])]])]
      @ (if namespace = ''lidersea-com'' then [(''egress'', JArr [])] else []))"

definition tenant_namespaces :: "string list" where
  "tenant_namespaces = [''cloudflare-public'', ''lidersea-com'', ''naranjo-online'']"

definition expected_default_deny_identities :: "object_id list" where
  "expected_default_deny_identities =
    [(''cloudflare-public'', ''default-deny-all''), (''naranjo-online'', ''default-deny''),
     (''lidersea-com'', ''default-deny'')]"

definition exact_default_deny_spec :: json where
  "exact_default_deny_spec =
    JObj [(''podSelector'', JObj []), (''policyTypes'', JArr [JStr ''Ingress'', JStr ''Egress''])]"

text \<open>\<open>metadata(policy).get("namespace") in tenant_namespaces\<close>, over all policies in order.\<close>

fun tenant_policies :: "json list \<Rightarrow> dict list res" where
  "tenant_policies [] = Inr []"
| "tenant_policies (v # vs) =
    bind (object_item v) (\<lambda>policy.
    bind (in_str_set (get (metadata policy) ''namespace'') tenant_namespaces) (\<lambda>tenant.
    bind (tenant_policies vs) (\<lambda>policies. Inr (if tenant then policy # policies else policies))))"

text \<open>The dictionary by identity: a later policy replaces an earlier one under the same key.\<close>

fun by_pair :: "dict list \<Rightarrow> ((json \<times> json) \<times> dict) list \<Rightarrow> ((json \<times> json) \<times> dict) list res" where
  "by_pair [] found = Inr found"
| "by_pair (policy # policies) found =
    (let key = identity_of policy in
     if \<not> hashable_pair key then Inl TypeError
     else by_pair policies
       (if key \<in> set (map fst found) then map (\<lambda>(k, v). if k = key then (k, policy) else (k, v)) found
        else found @ [(key, policy)]))"

definition namespace_wide :: "((json \<times> json) \<times> dict) list \<Rightarrow> string \<Rightarrow> bool" where
  "namespace_wide live namespace =
    list_ex (\<lambda>(key, policy). fst key = JStr namespace \<and> key \<in> json_identity ` set expected_default_deny_identities
      \<and> json_eq (get policy ''spec'') exact_default_deny_spec) live"

definition check_network_policy ::
  "float_text \<Rightarrow> capture \<Rightarrow> ((json \<times> json) \<times> dict) list \<Rightarrow> object_id \<Rightarrow> unit \<Rightarrow> unit res" where
  "check_network_policy fl files live ident _ =
    bind (load_capture fl files (''desired-networkpolicy-'' @ fst ident @ ''-'' @ snd ident @ ''.json'')) (\<lambda>document.
    bind (desired_object ''NetworkPolicy'' ''networking.k8s.io/v1'' ident
      (''desired NetworkPolicy normalization is invalid: '' @ id_label ident) document) (\<lambda>desired.
    exit_if (snd ident = ''ingress-to-'' @ fst ident
        \<and> \<not> json_eq (get desired ''spec'') (exact_site_application_policy_spec (fst ident)))
      (''desired signed-chart application NetworkPolicy is not exact: '' @ id_label ident) (
    exit_if (ident \<in> set expected_default_deny_identities
        \<and> \<not> json_eq (get desired ''spec'') exact_default_deny_spec)
      (''desired namespace-wide default-deny is not exact: '' @ id_label ident) (
    (case map_of live (json_identity ident) of
       None \<Rightarrow> Inl KeyError
     | Some policy \<Rightarrow>
         exit_if (\<not> same_spec policy desired)
           (''live NetworkPolicy spec differs from exact desired state: '' @ id_label ident) (Inr ()))))))"

definition check_network_policies :: "float_text \<Rightarrow> capture \<Rightarrow> unit res" where
  "check_network_policies fl files =
    bind (load_items fl files ''networkpolicies.json'') (\<lambda>items.
    bind (tenant_policies items) (\<lambda>policies.
    bind (by_pair policies []) (\<lambda>live.
    exit_if (length policies \<noteq> length expected_network_policies
        \<or> set (map fst live) \<noteq> json_identity ` set expected_network_policies)
      ''live tenant NetworkPolicy inventory differs from exact desired state'' (
    bind (for_each (\<lambda>namespace _. exit_if (\<not> namespace_wide live namespace)
        (''tenant namespace has no exact namespace-wide default-deny: '' @ namespace) (Inr ()))
      tenant_namespaces ()) (\<lambda>_.
    for_each (check_network_policy fl files live) expected_network_policies ())))))"

section \<open>The script\<close>

definition flux_evidence :: "float_text \<Rightarrow> capture \<Rightarrow> string \<Rightarrow> string res" where
  "flux_evidence fl files commit =
    exit_if (\<not> sha1_hex commit) ''release Git commit is unavailable or non-canonical'' (
    let revision = ''main@sha1:'' @ commit in
    bind (check_kustomizations fl files revision) (\<lambda>_.
    bind (check_git_sources fl files revision) (\<lambda>_.
    bind (check_empty_inventories fl files) (\<lambda>_.
    bind (check_chart_sources fl files) (\<lambda>revisions.
    bind (check_releases fl files revision revisions) (\<lambda>_.
    bind (check_network_policies fl files) (\<lambda>_.
    Inr ''release-gate: PASS Flux sources, Helm revisions, and live security-policy specs are bound to exact local HEAD'')))))))"

end
