(* ===== verification/FluxProps.thy ===== *)
theory FluxProps
  imports FluxEvidence
begin

text \<open>
  What accepted Flux evidence establishes of the captured objects: the inventories are
  exact, and every object in them is current and bound to the release.
\<close>

section \<open>Inventories\<close>

lemma inventory_loop_ids:
  assumes "for_each (inventory_item kind) items acc = Inr found"
  shows "list_all is_object items \<and> found = acc @ map (identity_of \<circ> dict_or_empty) items"
  using assms
proof (induction items arbitrary: acc)
  case Nil
  then show ?case by simp
next
  case (Cons v vs)
  then obtain t where step: "inventory_item kind v acc = Inr t" and rest: "for_each (inventory_item kind) vs t = Inr found"
    by auto
  from step obtain obj where "v = JObj obj" "t = acc @ [identity_of obj]" by (auto simp: inventory_item_def)
  with Cons.IH [OF rest] show ?case by simp
qed

lemma identity_of_iff: "identity_of obj = json_identity ident \<longleftrightarrow> has_identity ident obj"
  by (auto simp: identity_of_def json_identity_def has_identity_def)

lemma inventory_covers:
  assumes "exact_namespaced_inventory items expected kind = Inr ()"
  shows "length items = length expected
    \<and> (\<forall>v \<in> set items. \<exists>obj. \<exists>ident \<in> set expected. v = JObj obj \<and> has_identity ident obj)"
proof -
  from assms obtain found where loop: "for_each (inventory_item kind) items [] = Inr found"
    and len: "length found = length expected" and same: "set found = json_identity ` set expected"
    unfolding exact_namespaced_inventory_def Let_def by (auto split: if_splits)
  from inventory_loop_ids [OF loop] have objs: "list_all is_object items"
    and found: "found = map (identity_of \<circ> dict_or_empty) items" by simp_all
  have "\<exists>obj. \<exists>ident \<in> set expected. v = JObj obj \<and> has_identity ident obj" if "v \<in> set items" for v
  proof -
    from that objs obtain obj where v: "v = JObj obj" by (auto simp: list_all_iff is_object_iff)
    then have "identity_of obj \<in> set found" using that by (force simp: found)
    then show ?thesis using v by (auto simp: same identity_of_iff)
  qed
  then show ?thesis using len by (simp add: found)
qed

lemma map_res_objects: "map_res object_item items = Inr objs \<longleftrightarrow> items = map JObj objs"
  unfolding map_res_Inr_iff by (auto simp: list_all2_conv_all_nth list_eq_iff_nth_eq)

lemma by_identity_unique:
  assumes "by_identity items ident kind = Inr obj" and "JObj other \<in> set items" and "has_identity ident other"
  shows "other = obj"
proof -
  from assms(1) obtain objs where items: "items = map JObj objs"
    and one: "length (filter (has_identity ident) objs) = 1" and obj: "obj = hd (filter (has_identity ident) objs)"
    unfolding by_identity_def Let_def by (auto simp: map_res_objects)
  from one obtain x where x: "filter (has_identity ident) objs = [x]" by (auto simp: length_Suc_conv)
  have "other \<in> set (filter (has_identity ident) objs)" using assms(2,3) by (auto simp: items)
  then show ?thesis using x obj by simp
qed

text \<open>One check per expected identity therefore reaches every captured object.\<close>

lemma every_object:
  assumes "exact_namespaced_inventory items expected kind = Inr ()"
    and "\<And>ident. ident \<in> set expected \<Longrightarrow> \<exists>obj. by_identity items ident kind = Inr obj \<and> P ident obj"
  shows "list_all (\<lambda>v. \<exists>ident \<in> set expected. \<exists>obj. v = JObj obj \<and> has_identity ident obj \<and> P ident obj) items"
  unfolding list_all_iff
proof
  fix v
  assume v: "v \<in> set items"
  with inventory_covers [OF assms(1)] obtain obj ident
    where at: "ident \<in> set expected" "v = JObj obj" "has_identity ident obj" by blast
  with assms(2) obtain found where "by_identity items ident kind = Inr found" "P ident found" by blast
  moreover from this(1) have "obj = found" using at v by (blast intro: by_identity_unique)
  ultimately show "\<exists>ident \<in> set expected. \<exists>obj. v = JObj obj \<and> has_identity ident obj \<and> P ident obj"
    using at by blast
qed

section \<open>Objects\<close>

text \<open>An object whose controller has seen its present generation and reports it ready.\<close>

definition current :: "dict \<Rightarrow> bool" where
  "current obj \<longleftrightarrow>
    (\<exists>generation \<ge> 1. get (metadata obj) ''generation'' = JInt generation
      \<and> get (status obj) ''observedGeneration'' = JInt generation)
    \<and> (\<exists>ready. conditions_of obj ''Ready'' = Inr [ready] \<and> get ready ''status'' = JStr ''True'')"

lemma exact_generation_Inr:
  "exact_generation obj kind label = Inr g \<longleftrightarrow>
    1 \<le> g \<and> get (metadata obj) ''generation'' = JInt g \<and> get (status obj) ''observedGeneration'' = JInt g"
  unfolding exact_generation_def Let_def by (cases "get (metadata obj) ''generation''") auto

lemma one_ready_Inr:
  "one_ready obj kind label = Inr u \<longleftrightarrow>
    (\<exists>ready. conditions_of obj ''Ready'' = Inr [ready] \<and> get ready ''status'' = JStr ''True'')"
  unfolding one_ready_def by (auto simp: length_Suc_conv)

lemma current_iff:
  "current obj \<longleftrightarrow> is_ok (exact_generation obj kind label) \<and> is_ok (one_ready obj kind' label')"
  unfolding current_def is_ok_iff exact_generation_Inr one_ready_Inr by auto

text \<open>The live spec is the one of the normalized desired object.\<close>

definition as_desired :: "float_text \<Rightarrow> capture \<Rightarrow> string \<Rightarrow> string \<Rightarrow> object_id \<Rightarrow> dict \<Rightarrow> bool" where
  "as_desired fl files kind api ident obj \<longleftrightarrow>
    (\<exists>desired. desired_flux_object fl files kind api ident = Inr desired
      \<and> json_eq (get_default obj ''spec'' (JObj [])) (get desired ''spec''))"

lemma desired_spec_object:
  assumes "desired_flux_object fl files kind api ident = Inr desired"
  shows "is_object (get desired ''spec'')"
  using assms by (auto simp: desired_flux_object_def desired_object_def)

lemma same_spec_default:
  assumes "same_spec obj desired" and "is_object (get desired ''spec'')"
  shows "json_eq (get_default obj ''spec'' (JObj [])) (get desired ''spec'')"
proof (cases "map_of obj ''spec''")
  case None
  with assms show ?thesis by (auto simp: same_spec_def get_def is_object_iff)
next
  case (Some v)
  with assms(1) show ?thesis by (simp add: same_spec_def get_def get_default_def)
qed

definition bound_kustomization :: "float_text \<Rightarrow> capture \<Rightarrow> string \<Rightarrow> object_id \<Rightarrow> dict \<Rightarrow> bool" where
  "bound_kustomization fl files revision ident obj \<longleftrightarrow> current obj
    \<and> get (status obj) ''lastAppliedRevision'' = JStr revision
    \<and> get (status obj) ''lastAttemptedRevision'' = JStr revision
    \<and> as_desired fl files ''Kustomization'' ''kustomize.toolkit.fluxcd.io/v1'' ident obj"

lemma kustomization_step:
  assumes "check_kustomization fl files revision items ident u = Inr u'"
  shows "\<exists>obj. by_identity items ident ''Kustomization'' = Inr obj \<and> bound_kustomization fl files revision ident obj"
  using assms unfolding check_kustomization_def
  by (auto simp: bound_kustomization_def as_desired_def current_def exact_generation_Inr one_ready_Inr
      dest: same_spec_default [OF _ desired_spec_object])

definition bound_git_source :: "float_text \<Rightarrow> capture \<Rightarrow> string \<Rightarrow> object_id \<Rightarrow> dict \<Rightarrow> bool" where
  "bound_git_source fl files revision ident obj \<longleftrightarrow> current obj
    \<and> (\<exists>artifact. get_default (status obj) ''artifact'' (JObj []) = JObj artifact \<and> get artifact ''revision'' = JStr revision)
    \<and> as_desired fl files ''GitRepository'' ''source.toolkit.fluxcd.io/v1'' ident obj"

lemma git_source_step:
  assumes "check_git_source fl files revision items ident u = Inr u'"
  shows "\<exists>obj. by_identity items ident ''GitRepository'' = Inr obj \<and> bound_git_source fl files revision ident obj"
  using assms unfolding check_git_source_def Let_def
  by (auto simp: bound_git_source_def as_desired_def current_def exact_generation_Inr one_ready_Inr is_object_iff simp del: json_eq.simps)

text \<open>A chart source at its pinned manifest and layer digests, its signature verified by the pinned publisher.\<close>

definition pinned_chart :: "float_text \<Rightarrow> capture \<Rightarrow> object_id \<Rightarrow> chart_contract \<Rightarrow> dict \<Rightarrow> bool" where
  "pinned_chart fl files ident contract obj \<longleftrightarrow> current obj
    \<and> (\<exists>verified. conditions_of obj ''SourceVerified'' = Inr [verified]
      \<and> get verified ''status'' = JStr ''True'' \<and> get verified ''reason'' = JStr ''Succeeded'')
    \<and> (\<exists>spec. get_default obj ''spec'' (JObj []) = JObj spec \<and> exact_chart_source contract spec)
    \<and> get (dict_or_empty (get_default (status obj) ''artifact'' (JObj []))) ''revision'' = JStr (chart_digest contract)
    \<and> get (dict_or_empty (get_default (status obj) ''artifact'' (JObj []))) ''digest'' = JStr (artifact_digest contract)
    \<and> as_desired fl files ''OCIRepository'' ''source.toolkit.fluxcd.io/v1'' ident obj"

lemma chart_source_step:
  assumes "check_chart_source fl files items (ident, contract) revisions = Inr revisions'"
  shows "revisions' = revisions @ [(ident, (chart_tag contract, chart_digest contract))]
    \<and> (\<exists>obj. by_identity items ident ''OCIRepository'' = Inr obj \<and> pinned_chart fl files ident contract obj)"
  using assms unfolding check_chart_source_def Let_def one_source_verified_def
  by (auto simp: pinned_chart_def as_desired_def current_def exact_generation_Inr one_ready_Inr length_Suc_conv
      simp del: json_eq.simps)

lemma chart_sources_loop:
  assumes "for_each (check_chart_source fl files items) sources revisions = Inr revisions'"
  shows "revisions' = revisions @ map (\<lambda>(ident, c). (ident, (chart_tag c, chart_digest c))) sources
    \<and> list_all (\<lambda>(ident, c). \<exists>obj. by_identity items ident ''OCIRepository'' = Inr obj \<and> pinned_chart fl files ident c obj) sources"
  using assms
proof (induction sources arbitrary: revisions)
  case Nil
  then show ?case by simp
next
  case (Cons source sources)
  obtain ident c where source: "source = (ident, c)" by (cases source)
  with Cons.prems obtain t where step: "check_chart_source fl files items (ident, c) revisions = Inr t"
    and rest: "for_each (check_chart_source fl files items) sources t = Inr revisions'"
    by auto
  from chart_source_step [OF step] Cons.IH [OF rest] show ?case by (simp add: source)
qed

section \<open>Releases\<close>

text \<open>
  A site release runs the pinned chart: its deployed revision is the tag with twelve digits of the pinned digest.  The
  connector release runs a chart built from the release commit.
\<close>

definition bound_release ::
  "float_text \<Rightarrow> capture \<Rightarrow> string \<Rightarrow> json list \<Rightarrow> object_id option \<Rightarrow> object_id \<Rightarrow> dict \<Rightarrow> bool" where
  "bound_release fl files revision helmcharts chart_source ident obj \<longleftrightarrow> current obj
    \<and> as_desired fl files ''HelmRelease'' ''helm.toolkit.fluxcd.io/v2'' ident obj
    \<and> (\<exists>attempted latest. deployed_release ident obj = Inr (attempted, latest)
      \<and> (case chart_source of
           Some source \<Rightarrow>
             (\<exists>c. map_of oci_chart_sources source = Some c
               \<and> attempted = chart_tag c @ ''+'' @ take 12 (drop 7 (chart_digest c))
               \<and> get (status obj) ''lastAttemptedRevisionDigest'' = JStr (chart_digest c))
         | None \<Rightarrow>
             (\<exists>chart. JObj chart \<in> set helmcharts \<and> current chart
               \<and> get (status chart) ''observedSourceArtifactRevision'' = JStr revision
               \<and> get (dict_or_empty (get_default (status chart) ''artifact'' (JObj []))) ''revision'' = JStr attempted)))"

definition pinned_revisions :: chart_revisions where
  "pinned_revisions = map (\<lambda>(ident, c). (ident, (chart_tag c, chart_digest c))) oci_chart_sources"

lemma map_of_pinned:
  "map_of pinned_revisions source = map_option (\<lambda>c. (chart_tag c, chart_digest c)) (map_of oci_chart_sources source)"
proof -
  have "map_of (map (\<lambda>(ident, c). (ident, (chart_tag c, chart_digest c))) cs) source
      = map_option (\<lambda>c. (chart_tag c, chart_digest c)) (map_of cs source)" for cs
    by (induction cs) auto
  then show ?thesis by (simp add: pinned_revisions_def)
qed

lemma deployed_current:
  assumes "deployed_release ident obj = Inr (attempted, latest)"
  shows "current obj"
  using assms unfolding deployed_release_def Let_def by (auto simp: current_def exact_generation_Inr one_ready_Inr)

lemma site_release_step:
  assumes "check_site_release pinned_revisions ident source obj attempted latest = Inr u"
  shows "\<exists>c. map_of oci_chart_sources source = Some c
    \<and> attempted = chart_tag c @ ''+'' @ take 12 (drop 7 (chart_digest c))
    \<and> get (status obj) ''lastAttemptedRevisionDigest'' = JStr (chart_digest c)"
  using assms unfolding check_site_release_def Let_def
  by (auto simp: map_of_pinned split: prod.splits simp del: json_eq.simps)

lemma by_identity_in:
  assumes "by_identity items ident kind = Inr obj"
  shows "JObj obj \<in> set items \<and> has_identity ident obj"
proof -
  from assms obtain objs where items: "items = map JObj objs"
    and one: "length (filter (has_identity ident) objs) = 1" and obj: "obj = hd (filter (has_identity ident) objs)"
    unfolding by_identity_def Let_def by (auto simp: map_res_objects)
  from one have "filter (has_identity ident) objs \<noteq> []" by auto
  then have "obj \<in> set (filter (has_identity ident) objs)" unfolding obj by (rule hd_in_set)
  then show ?thesis by (auto simp: items)
qed

lemma git_chart_step:
  assumes "check_git_chart revision helmcharts ident obj desired attempted = Inr u"
  shows "\<exists>chart. JObj chart \<in> set helmcharts \<and> current chart
    \<and> get (status chart) ''observedSourceArtifactRevision'' = JStr revision
    \<and> get (dict_or_empty (get_default (status chart) ''artifact'' (JObj []))) ''revision'' = JStr attempted"
  using assms unfolding check_git_chart_def Let_def
  by (auto simp: current_def exact_generation_Inr one_ready_Inr dest: by_identity_in
      split: json.splits list.splits option.splits if_splits simp del: json_eq.simps)

lemma release_step:
  assumes "check_helm_release fl files revision pinned_revisions helmreleases helmcharts (ident, chart_source) u = Inr u'"
  shows "\<exists>obj. by_identity helmreleases ident ''HelmRelease'' = Inr obj
    \<and> bound_release fl files revision helmcharts chart_source ident obj"
proof -
  from assms obtain obj desired attempted latest where
    obj: "by_identity helmreleases ident ''HelmRelease'' = Inr obj"
    and desired: "desired_flux_object fl files ''HelmRelease'' ''helm.toolkit.fluxcd.io/v2'' ident = Inr desired"
    and spec: "same_spec obj desired" and deployed: "deployed_release ident obj = Inr (attempted, latest)"
    and chart: "(case chart_source of
       Some source \<Rightarrow> check_site_release pinned_revisions ident source obj attempted latest
     | None \<Rightarrow> check_git_chart revision helmcharts ident obj desired attempted) = Inr u'"
    unfolding check_helm_release_def by auto
  have "as_desired fl files ''HelmRelease'' ''helm.toolkit.fluxcd.io/v2'' ident obj"
    unfolding as_desired_def using desired same_spec_default [OF spec desired_spec_object [OF desired]] by blast
  moreover have "current obj" by (rule deployed_current [OF deployed])
  ultimately show ?thesis
    using obj deployed chart unfolding bound_release_def
    by (cases chart_source) (auto dest: site_release_step git_chart_step)
qed

section \<open>Network policies\<close>

lemma tenant_policies_in:
  assumes "tenant_policies items = Inr policies" and "policy \<in> set policies"
  shows "JObj policy \<in> set items"
  using assms by (induction items arbitrary: policies) (auto split: if_splits)

lemma by_pair_in:
  assumes "by_pair policies found = Inr live" and "(key, policy) \<in> set live"
    and "\<And>k p. (k, p) \<in> set found \<Longrightarrow> identity_of p = k \<and> Q p" and "\<And>p. p \<in> set policies \<Longrightarrow> Q p"
  shows "identity_of policy = key \<and> Q policy"
  using assms
proof (induction policies arbitrary: found)
  case Nil
  then show ?case by simp
next
  case (Cons p ps)
  let ?next = "if identity_of p \<in> set (map fst found)
    then map (\<lambda>(k, v). if k = identity_of p then (k, p) else (k, v)) found else found @ [(identity_of p, p)]"
  from Cons.prems(1) have rest: "by_pair ps ?next = Inr live" by (auto simp: Let_def split: if_splits)
  have entry: "(k, q) \<in> set found \<or> k = identity_of p \<and> q = p" if "(k, q) \<in> set ?next" for k q
    using that by (auto split: if_splits)
  have "identity_of q = k \<and> Q q" if "(k, q) \<in> set ?next" for k q
    using entry [OF that] Cons.prems(3) [of k q] Cons.prems(4) [of p] by auto
  then show ?case using Cons.IH [OF rest Cons.prems(2)] Cons.prems(4) by (meson list.set_intros(2))
qed

lemma namespace_isolated:
  assumes "tenant_policies items = Inr policies" and "by_pair policies [] = Inr live" and "namespace_wide live namespace"
  shows "\<exists>policy. JObj policy \<in> set items \<and> get (metadata policy) ''namespace'' = JStr namespace
    \<and> json_eq (get policy ''spec'') exact_default_deny_spec"
proof -
  from assms(3) obtain key policy where live: "(key, policy) \<in> set live" "fst key = JStr namespace"
      "json_eq (get policy ''spec'') exact_default_deny_spec"
    unfolding namespace_wide_def by (auto simp: list_ex_iff)
  have "identity_of policy = key \<and> JObj policy \<in> set items"
    using by_pair_in [OF assms(2) live(1), of "\<lambda>p. JObj p \<in> set items"] tenant_policies_in [OF assms(1)] by simp
  then show ?thesis using live(2,3) by (auto simp: identity_of_def)
qed

section \<open>Accepted evidence\<close>

text \<open>The captured list of a kind is exact, and each of its objects satisfies \<open>P\<close> under its identity.\<close>

definition captured ::
  "float_text \<Rightarrow> capture \<Rightarrow> string \<Rightarrow> object_id list \<Rightarrow> (object_id \<Rightarrow> dict \<Rightarrow> bool) \<Rightarrow> bool" where
  "captured fl files name expected P \<longleftrightarrow>
    (\<exists>items. load_items fl files name = Inr items \<and> length items = length expected
      \<and> list_all (\<lambda>v. \<exists>ident \<in> set expected. \<exists>obj. v = JObj obj \<and> has_identity ident obj \<and> P ident obj) items)"

lemma capturedI:
  assumes "load_items fl files name = Inr items" and "exact_namespaced_inventory items expected kind = Inr u"
    and "\<And>ident. ident \<in> set expected \<Longrightarrow> \<exists>obj. by_identity items ident kind = Inr obj \<and> P ident obj"
  shows "captured fl files name expected P"
proof -
  have exact: "exact_namespaced_inventory items expected kind = Inr ()" using assms(2) by simp
  show ?thesis
    unfolding captured_def using assms(1) inventory_covers [OF exact] every_object [OF exact assms(3)] by blast
qed

lemma kustomizations_captured:
  assumes "check_kustomizations fl files revision = Inr u"
  shows "captured fl files ''kustomizations.json'' kustomization_identities (bound_kustomization fl files revision)"
proof -
  from assms obtain items u' where load: "load_items fl files ''kustomizations.json'' = Inr items"
    and exact: "exact_namespaced_inventory items kustomization_identities ''Kustomization'' = Inr u'"
    and each: "list_all (\<lambda>x. check_kustomization fl files revision items x () = Inr ()) kustomization_identities"
    unfolding check_kustomizations_def by (auto simp: for_each_unit)
  show ?thesis by (rule capturedI [OF load exact]) (use each in \<open>auto simp: list_all_iff dest!: kustomization_step\<close>)
qed

lemma git_sources_captured:
  assumes "check_git_sources fl files revision = Inr u"
  shows "captured fl files ''gitrepositories.json'' source_identities (bound_git_source fl files revision)"
proof -
  from assms obtain items u' where load: "load_items fl files ''gitrepositories.json'' = Inr items"
    and exact: "exact_namespaced_inventory items source_identities ''GitRepository'' = Inr u'"
    and each: "list_all (\<lambda>x. check_git_source fl files revision items x () = Inr ()) source_identities"
    unfolding check_git_sources_def by (auto simp: for_each_unit)
  show ?thesis by (rule capturedI [OF load exact]) (use each in \<open>auto simp: list_all_iff dest!: git_source_step\<close>)
qed

lemma chart_sources_captured:
  assumes "check_chart_sources fl files = Inr revisions"
  shows "revisions = pinned_revisions
    \<and> captured fl files ''ocirepositories.json'' (map fst oci_chart_sources)
        (\<lambda>ident obj. \<exists>c. (ident, c) \<in> set oci_chart_sources \<and> pinned_chart fl files ident c obj)"
proof -
  from assms obtain items u' where load: "load_items fl files ''ocirepositories.json'' = Inr items"
    and exact: "exact_namespaced_inventory items (map fst oci_chart_sources) ''OCIRepository'' = Inr u'"
    and loop: "for_each (check_chart_source fl files items) oci_chart_sources [] = Inr revisions"
    unfolding check_chart_sources_def by auto
  note facts = chart_sources_loop [OF loop]
  have "captured fl files ''ocirepositories.json'' (map fst oci_chart_sources)
      (\<lambda>ident obj. \<exists>c. (ident, c) \<in> set oci_chart_sources \<and> pinned_chart fl files ident c obj)"
    by (rule capturedI [OF load exact]) (use facts in \<open>fastforce simp: list_all_iff\<close>)
  then show ?thesis using facts by (simp add: pinned_revisions_def)
qed

lemma releases_captured:
  assumes "check_releases fl files revision pinned_revisions = Inr u"
  shows "\<exists>helmcharts. load_items fl files ''helmcharts.json'' = Inr helmcharts
    \<and> captured fl files ''helmreleases.json'' (map fst release_sources)
        (\<lambda>ident obj. \<exists>source. (ident, source) \<in> set release_sources
          \<and> bound_release fl files revision helmcharts source ident obj)"
proof -
  from assms obtain items helmcharts u' where load: "load_items fl files ''helmreleases.json'' = Inr items"
      "load_items fl files ''helmcharts.json'' = Inr helmcharts"
    and exact: "exact_namespaced_inventory items (map fst release_sources) ''HelmRelease'' = Inr u'"
    and each: "list_all (\<lambda>x. check_helm_release fl files revision pinned_revisions items helmcharts x () = Inr ()) release_sources"
    unfolding check_releases_def by (auto simp: for_each_unit)
  have "captured fl files ''helmreleases.json'' (map fst release_sources)
        (\<lambda>ident obj. \<exists>source. (ident, source) \<in> set release_sources
          \<and> bound_release fl files revision helmcharts source ident obj)"
  proof (rule capturedI [OF load(1) exact])
    fix ident
    assume "ident \<in> set (map fst release_sources)"
    then obtain source where at: "(ident, source) \<in> set release_sources" by auto
    with each have "check_helm_release fl files revision pinned_revisions items helmcharts (ident, source) () = Inr ()"
      by (auto simp: list_all_iff)
    from release_step [OF this] at show "\<exists>obj. by_identity items ident ''HelmRelease'' = Inr obj
        \<and> (\<exists>source. (ident, source) \<in> set release_sources \<and> bound_release fl files revision helmcharts source ident obj)"
      by blast
  qed
  then show ?thesis using load(2) by blast
qed

lemma policies_captured:
  assumes "check_network_policies fl files = Inr u"
  shows "\<exists>items. load_items fl files ''networkpolicies.json'' = Inr items
    \<and> list_all (\<lambda>namespace. \<exists>policy. JObj policy \<in> set items
        \<and> get (metadata policy) ''namespace'' = JStr namespace \<and> json_eq (get policy ''spec'') exact_default_deny_spec)
        tenant_namespaces"
proof -
  from assms obtain items policies live where load: "load_items fl files ''networkpolicies.json'' = Inr items"
    and tenant: "tenant_policies items = Inr policies" and live: "by_pair policies [] = Inr live"
    and wide: "list_all (\<lambda>namespace. namespace_wide live namespace) tenant_namespaces"
    unfolding check_network_policies_def by (auto simp: for_each_unit)
  show ?thesis using load wide namespace_isolated [OF tenant live] by (auto simp: list_all_iff)
qed


end
