(* ===== verification/RuntimeInventory.thy ===== *)
theory RuntimeInventory
  imports FluxEvidence
begin

text \<open>
  scripts/validate_runtime_inventory_evidence.py: the captured namespaces, controllers,
  Pods and Services of the whole cluster against the pinned images.  It reads its
  files as the Flux evidence script does.  Objects are dictionaries, which
  \<open>load_objects\<close> has checked; everything below them may still have any shape, and an
  access that Python refuses raises.  Comparing with \<open>==\<close> is \<open>json_eq\<close>.
\<close>

section \<open>Captured objects\<close>

definition load_objects :: "float_text \<Rightarrow> capture \<Rightarrow> string \<Rightarrow> dict list res" where
  "load_objects fl files name =
    bind (load_items fl files name) (\<lambda>items.
    exit_if (list_ex (\<lambda>v. \<not> is_object v) items) (name @ '' contains a non-object item'') (
    Inr (map dict_or_empty items)))"

definition deleting :: "dict \<Rightarrow> bool" where
  "deleting obj = (get (metadata obj) ''deletionTimestamp'' \<noteq> JNull)"

definition string_of :: "json \<Rightarrow> string" where
  "string_of v = (case v of JStr s \<Rightarrow> s | _ \<Rightarrow> [])"

definition object_key :: "dict \<Rightarrow> object_id" where
  "object_key obj =
    (string_of (get (metadata obj) ''namespace''), string_of (get (metadata obj) ''name''))"

definition object_uid :: "dict \<Rightarrow> string" where
  "object_uid obj = string_of (get (metadata obj) ''uid'')"

type_synonym objects_by_key = "(object_id \<times> dict) list"

text \<open>The set of identities of some objects, which hashes them.\<close>

definition identity_set :: "dict list \<Rightarrow> (json \<times> json) list res" where
  "identity_set objs =
    (let found = map identity_of objs in if list_all hashable_pair found then Inr found else Inl TypeError)"

definition uid_item :: "string \<Rightarrow> dict \<Rightarrow> objects_by_key \<Rightarrow> objects_by_key res" where
  "uid_item kind obj result =
    exit_if (\<not> nonempty_str (get (metadata obj) ''uid''))
      (kind @ '' '' @ id_label (object_key obj) @ '' has no stable UID'') (Inr (result @ [(object_key obj, obj)]))"

definition exact_namespaced_map :: "dict list \<Rightarrow> object_id list \<Rightarrow> string \<Rightarrow> objects_by_key res" where
  "exact_namespaced_map objs expected kind =
    (let message = ''live '' @ kind @ '' inventory differs from the exact release set'' in
     exit_if (length objs \<noteq> length expected) message (
     bind (identity_set objs) (\<lambda>found.
     exit_if (set found \<noteq> json_identity ` set expected) message (for_each (uid_item kind) objs []))))"

definition dynamic_item :: "string \<Rightarrow> dict \<Rightarrow> objects_by_key \<Rightarrow> objects_by_key res" where
  "dynamic_item kind obj result =
    exit_if (\<not> nonempty_str (fst (identity_of obj)) \<or> \<not> nonempty_str (snd (identity_of obj))
        \<or> object_key obj \<in> set (map fst result)
        \<or> \<not> nonempty_str (get (metadata obj) ''uid'')
        \<or> object_uid obj \<in> set (map (object_uid \<circ> snd) result))
      (''live '' @ kind @ '' inventory has an invalid or duplicate identity'') (Inr (result @ [(object_key obj, obj)]))"

definition dynamic_namespaced_map :: "dict list \<Rightarrow> string \<Rightarrow> objects_by_key res" where
  "dynamic_namespaced_map objs kind = for_each (dynamic_item kind) objs []"

definition one_controller_owner :: "dict \<Rightarrow> string \<Rightarrow> object_id \<Rightarrow> dict res" where
  "one_controller_owner obj kind key =
    (case get_default (metadata obj) ''ownerReferences'' (JArr []) of
       JArr owners \<Rightarrow>
         let controllers = filter (\<lambda>owner. get owner ''controller'' = JBool True) (objects owners) in
         exit_if (length owners \<noteq> 1 \<or> length controllers \<noteq> 1)
           (kind @ '' '' @ id_label key @ '' lacks one exact controller owner'') (Inr (hd controllers))
     | _ \<Rightarrow> Inl (SystemExit (kind @ '' '' @ id_label key @ '' has invalid owner references'')))"

text \<open>\<open>obj.get("spec", {}).get(...).get(...)\<close>, each step with the default \<open>{}\<close>.\<close>

fun get_path :: "json \<Rightarrow> string list \<Rightarrow> json res" where
  "get_path v [] = Inr v"
| "get_path v (k # ks) = bind (object_item v) (\<lambda>d. get_path (get_default d k (JObj [])) ks)"

definition template_spec :: "dict \<Rightarrow> json res" where
  "template_spec obj = get_path (JObj obj) [''spec'', ''template'', ''spec'']"

definition status_field :: "dict \<Rightarrow> string \<Rightarrow> json res" where
  "status_field obj key = method_get (get_default obj ''status'' (JObj [])) key"

section \<open>Containers\<close>

definition container_images :: "json \<Rightarrow> string list option res" where
  "container_images v =
    bind (object_item v) (\<lambda>spec.
    Inr (case (get_default spec ''containers'' (JArr []), get_default spec ''initContainers'' (JArr [])) of
           (JArr regular, JArr init) \<Rightarrow>
             if regular = [] \<or> list_ex (\<lambda>c. \<not> is_object c) (regular @ init) then None
             else
               let images = map (\<lambda>c. get (dict_or_empty c) ''image'') (regular @ init) in
               if list_all nonempty_str images then Some (map string_of images) else None
         | _ \<Rightarrow> None))"

text \<open>
  \<open>a + b\<close> where the result is iterated over at once: lists and strings concatenate; a
  sum of numbers cannot be iterated over, and any other pair cannot be added.
\<close>

definition add_values :: "json \<Rightarrow> json \<Rightarrow> json res" where
  "add_values v w =
    (case (v, w) of
       (JArr xs, JArr ys) \<Rightarrow> Inr (JArr (xs @ ys))
     | (JStr s, JStr t) \<Rightarrow> Inr (JStr (s @ t))
     | _ \<Rightarrow> Inl TypeError)"

definition all_containers :: "dict \<Rightarrow> json list res" where
  "all_containers spec =
    bind (add_values (get_default spec ''containers'' (JArr [])) (get_default spec ''initContainers'' (JArr []))) (\<lambda>v.
    bind (add_values v (get_default spec ''ephemeralContainers'' (JArr []))) elements_of)"

definition container_ports :: "string \<Rightarrow> json \<Rightarrow> unit \<Rightarrow> unit res" where
  "container_ports label v _ =
    bind (object_item v) (\<lambda>container.
    bind (elements_of (get_default container ''ports'' (JArr []))) (\<lambda>ports.
    for_each (\<lambda>port _.
      bind (method_get port ''hostPort'') (\<lambda>host_port.
      bind (none_or_zero host_port) (\<lambda>absent.
      exit_if (\<not> absent) (label @ '' declares a hostPort'') (Inr ())))) ports ()))"

definition assert_no_host_port :: "dict \<Rightarrow> string \<Rightarrow> unit res" where
  "assert_no_host_port spec label =
    bind (all_containers spec) (\<lambda>containers. for_each (container_ports label) containers ())"

text \<open>\<open>"hostPath" in volume\<close>.\<close>

definition mentions :: "string \<Rightarrow> json \<Rightarrow> bool res" where
  "mentions key v =
    (case v of
       JObj d \<Rightarrow> Inr (has_key d key)
     | JArr xs \<Rightarrow> Inr (JStr key \<in> set xs)
     | JStr s \<Rightarrow> Inr (contains s key)
     | _ \<Rightarrow> Inl TypeError)"

definition container_security :: "string list \<Rightarrow> string \<Rightarrow> json \<Rightarrow> unit \<Rightarrow> unit res" where
  "container_security allowed label v _ =
    bind (object_item v) (\<lambda>container.
    bind (object_item (get_default container ''securityContext'' (JObj []))) (\<lambda>security.
    bind (object_item (get_default security ''capabilities'' (JObj []))) (\<lambda>capabilities.
    let added = get_default capabilities ''add'' (JArr []);
        message = label @ '' contains a privileged container capability'' in
    exit_if (get security ''privileged'' = JBool True \<or> get security ''allowPrivilegeEscalation'' = JBool True
        \<or> get security ''procMount'' = JStr ''Unmasked'') message (
    (case added of
       JArr values \<Rightarrow>
         bind (any_res (\<lambda>value. bind (in_str_set value allowed) (\<lambda>ok. Inr (\<not> ok))) values) (\<lambda>foreign.
         exit_if foreign message (Inr ()))
     | _ \<Rightarrow> Inl (SystemExit message))))))"

definition assert_restricted_spec :: "dict \<Rightarrow> string \<Rightarrow> string list \<Rightarrow> unit res" where
  "assert_restricted_spec spec label allowed =
    exit_if (list_ex (\<lambda>key. get spec key = JBool True) [''hostNetwork'', ''hostPID'', ''hostIPC''])
      (label @ '' enters a host namespace'') (
    bind (elements_of (get_default spec ''volumes'' (JArr []))) (\<lambda>volumes.
    bind (any_res (mentions ''hostPath'') volumes) (\<lambda>host_path.
    exit_if host_path (label @ '' mounts a hostPath'') (
    bind (all_containers spec) (\<lambda>containers.
    bind (for_each (container_security allowed label) containers ()) (\<lambda>_.
    assert_no_host_port spec label))))))"

section \<open>Stable controllers\<close>

definition counts_equal :: "dict \<Rightarrow> string list \<Rightarrow> int \<Rightarrow> bool" where
  "counts_equal st names n = list_all (\<lambda>name. json_eq (get st name) (JInt n)) names"

definition stable_deployment :: "dict \<Rightarrow> object_id \<Rightarrow> int res" where
  "stable_deployment obj key =
    (let unstable = SystemExit (''Deployment '' @ id_label key @ '' is not exactly stable'') in
     bind (method_get (get_default obj ''spec'' (JObj [])) ''replicas'') (\<lambda>replicas_value.
     case (replicas_value, get (metadata obj) ''generation'') of
       (JInt replicas, JInt generation) \<Rightarrow>
         raise_if (replicas < 1 \<or> generation < 1) unstable (
         bind (object_item (get_default obj ''status'' (JObj []))) (\<lambda>st.
         raise_if (\<not> counts_equal st [''observedGeneration''] generation
           \<or> \<not> counts_equal st [''replicas'', ''updatedReplicas'', ''readyReplicas'', ''availableReplicas''] replicas)
           unstable (
         bind (none_or_zero (get st ''unavailableReplicas'')) (\<lambda>none.
         raise_if (\<not> none) unstable (Inr replicas)))))
     | _ \<Rightarrow> Inl unstable))"

definition stable_daemonset :: "dict \<Rightarrow> object_id \<Rightarrow> int res" where
  "stable_daemonset obj key =
    (let unstable = SystemExit (''DaemonSet '' @ id_label key @ '' is not exactly stable'') in
     bind (object_item (get_default obj ''status'' (JObj []))) (\<lambda>st.
     case (get (metadata obj) ''generation'', get st ''desiredNumberScheduled'') of
       (JInt generation, JInt desired) \<Rightarrow>
         raise_if (generation < 1 \<or> \<not> counts_equal st [''observedGeneration''] generation \<or> desired \<noteq> 1
           \<or> \<not> counts_equal st
               [''currentNumberScheduled'', ''updatedNumberScheduled'', ''numberReady'', ''numberAvailable''] desired)
           unstable (
         bind (none_or_zero (get st ''numberMisscheduled'')) (\<lambda>misscheduled.
         raise_if (\<not> misscheduled) unstable (
         bind (none_or_zero (get st ''numberUnavailable'')) (\<lambda>none.
         raise_if (\<not> none) unstable (Inr desired)))))
     | _ \<Rightarrow> Inl unstable))"

section \<open>Namespaces and the node\<close>

definition expected_namespaces :: "string list" where
  "expected_namespaces =
    [''default'', ''kube-node-lease'', ''kube-public'', ''kube-system'', ''flux-system'', ''cloudflare-public'',
     ''naranjo-online'', ''lidersea-com'']"

definition check_namespaces :: "float_text \<Rightarrow> capture \<Rightarrow> unit res" where
  "check_namespaces fl files =
    bind (load_objects fl files ''namespaces.json'') (\<lambda>objs.
    let names = map (\<lambda>obj. get (metadata obj) ''name'') objs;
        message = ''live Namespace inventory differs from the exact release set'' in
    exit_if (length names \<noteq> length expected_namespaces) message (
    if \<not> list_all hashable names then Inl TypeError
    else exit_if (set names \<noteq> JStr ` set expected_namespaces) message (
      for_each (\<lambda>obj _.
        bind (status_field obj ''phase'') (\<lambda>phase.
        exit_if (phase \<noteq> JStr ''Active'' \<or> deleting obj) ''an expected Namespace is not exactly Active'' (Inr ())))
        objs ())))"

definition production_node :: "float_text \<Rightarrow> capture \<Rightarrow> (string \<times> string) res" where
  "production_node fl files =
    bind (load_objects fl files ''nodes.json'') (\<lambda>nodes.
    exit_if (length nodes \<noteq> 1) ''global inventory requires exactly one production node'' (
    let node = metadata (hd nodes) in
    exit_if (\<not> nonempty_str (get node ''name'') \<or> \<not> nonempty_str (get node ''uid''))
      ''production node identity is unavailable'' (
    Inr (string_of (get node ''name''), string_of (get node ''uid'')))))"

section \<open>The controllers\<close>

definition base_deployments :: "object_id list" where
  "base_deployments =
    [(''naranjo-online'', ''naranjo-online''), (''lidersea-com'', ''lidersea-com''),
     (''cloudflare-public'', ''cloudflared''), (''flux-system'', ''source-controller''),
     (''flux-system'', ''kustomize-controller''), (''flux-system'', ''helm-controller''), (''kube-system'', ''coredns'')]"

datatype provider = Cilium | Calico

fun provider_deployment :: "provider \<Rightarrow> object_id" where
  "provider_deployment Cilium = (''kube-system'', ''cilium-operator'')"
| "provider_deployment Calico = (''kube-system'', ''calico-kube-controllers'')"

fun provider_daemonset :: "provider \<Rightarrow> object_id" where
  "provider_daemonset Cilium = (''kube-system'', ''cilium'')"
| "provider_daemonset Calico = (''kube-system'', ''calico-node'')"

definition kube_proxy :: object_id where "kube_proxy = (''kube-system'', ''kube-proxy'')"

definition coredns :: object_id where "coredns = (''kube-system'', ''coredns'')"

definition expected_deployments :: "provider \<Rightarrow> object_id list" where
  "expected_deployments p = base_deployments @ [provider_deployment p]"

definition expected_daemonsets :: "provider \<Rightarrow> object_id list" where
  "expected_daemonsets p = [kube_proxy, provider_daemonset p]"

definition find_provider :: "(json \<times> json) list \<Rightarrow> (json \<times> json) list \<Rightarrow> provider option" where
  "find_provider deployment_ids daemonset_ids =
    find (\<lambda>p. set deployment_ids = json_identity ` set (expected_deployments p)
      \<and> set daemonset_ids = json_identity ` set (expected_daemonsets p)) [Cilium, Calico]"

record controllers =
  cni :: provider
  deployments :: objects_by_key
  daemonsets :: objects_by_key

definition load_controllers :: "float_text \<Rightarrow> capture \<Rightarrow> controllers res" where
  "load_controllers fl files =
    bind (load_objects fl files ''deployments.json'') (\<lambda>deployment_items.
    bind (load_objects fl files ''daemonsets.json'') (\<lambda>daemonset_items.
    bind (identity_set deployment_items) (\<lambda>deployment_ids.
    bind (identity_set daemonset_items) (\<lambda>daemonset_ids.
    case find_provider deployment_ids daemonset_ids of
      None \<Rightarrow> Inl (SystemExit
        ''live Deployment/DaemonSet inventory is outside the exact kubeadm/CNI release variants'')
    | Some p \<Rightarrow>
        bind (exact_namespaced_map deployment_items (expected_deployments p) ''Deployment'') (\<lambda>ds.
        bind (exact_namespaced_map daemonset_items (expected_daemonsets p) ''DaemonSet'') (\<lambda>dms.
        Inr \<lparr>cni = p, deployments = ds, daemonsets = dms\<rparr>))))))"

definition check_unused_kinds :: "float_text \<Rightarrow> capture \<Rightarrow> unit res" where
  "check_unused_kinds fl files =
    for_each (\<lambda>(filename, kind) _.
      bind (load_objects fl files filename) (\<lambda>objs.
      exit_if (objs \<noteq> []) (''live '' @ kind @ '' inventory must be empty'') (Inr ())))
      [(''statefulsets.json'', ''StatefulSet''), (''replicationcontrollers.json'', ''ReplicationController''),
       (''jobs.json'', ''Job''), (''cronjobs.json'', ''CronJob''),
       (''horizontalpodautoscalers.json'', ''HorizontalPodAutoscaler'')] ()"

text \<open>The nine pins of the command line, after the directory.\<close>

record pins =
  naranjo_image :: string
  lidersea_image :: string
  cloudflared_image :: string
  flux_source_image :: string
  flux_kustomize_image :: string
  flux_helm_image :: string
  kubernetes_version :: string
  coredns_image :: string
  etcd_image :: string

definition expected_deployment_images :: "pins \<Rightarrow> (object_id \<times> string) list" where
  "expected_deployment_images pin =
    [((''naranjo-online'', ''naranjo-online''), naranjo_image pin),
     ((''lidersea-com'', ''lidersea-com''), lidersea_image pin),
     ((''cloudflare-public'', ''cloudflared''), cloudflared_image pin),
     ((''flux-system'', ''source-controller''), flux_source_image pin),
     ((''flux-system'', ''kustomize-controller''), flux_kustomize_image pin),
     ((''flux-system'', ''helm-controller''), flux_helm_image pin),
     (coredns, coredns_image pin)]"

text \<open>
  \<open>quay[.]io/cilium/[A-Za-z0-9._/-]+(?::[A-Za-z0-9._-]+)?@sha256:[0-9a-f]{64}\<close>, and the same
  for \<open>docker[.]io/calico/\<close>.
\<close>

fun provider_registry :: "provider \<Rightarrow> string" where
  "provider_registry Cilium = ''quay.io/cilium/''"
| "provider_registry Calico = ''docker.io/calico/''"

definition provider_image :: "provider \<Rightarrow> string \<Rightarrow> bool" where
  "provider_image p img =
    (case split_on (CHR ''@'') img of
       [reference, digest] \<Rightarrow>
         sha256_ref digest \<and> startswith reference (provider_registry p)
         \<and> (let path_ok = (\<lambda>s. s \<noteq> [] \<and> list_all (\<lambda>c. is_name_char c \<or> c = CHR ''/'') s) in
            case split_on (CHR '':'') (drop (length (provider_registry p)) reference) of
              [path] \<Rightarrow> path_ok path
            | [path, tag] \<Rightarrow> path_ok path \<and> tag \<noteq> [] \<and> list_all is_name_char tag
            | _ \<Rightarrow> False)
     | _ \<Rightarrow> False)"

definition unreviewed_image :: "provider \<Rightarrow> string \<Rightarrow> bool" where
  "unreviewed_image p img = (\<not> provider_image p img \<or> endswith img (''@sha256:'' @ replicate 64 (CHR ''0'')))"

type_synonym replica_counts = "(object_id \<times> int) list"

definition check_deployment ::
  "pins \<Rightarrow> provider \<Rightarrow> object_id \<times> dict \<Rightarrow> replica_counts \<Rightarrow> replica_counts res" where
  "check_deployment pin p = (\<lambda>(key, obj) counts.
    bind (stable_deployment obj key) (\<lambda>replicas.
    bind (template_spec obj) (\<lambda>template.
    bind (container_images template) (\<lambda>found.
    case found of
      None \<Rightarrow> Inl (SystemExit (''Deployment '' @ id_label key @ '' has invalid container images''))
    | Some images \<Rightarrow>
        bind (if key = provider_deployment p
              then exit_if (list_ex (unreviewed_image p) images)
                ''CNI controller Deployment image is outside the reviewed provider registry/digest contract'' (Inr ())
              else
                (case map_of (expected_deployment_images pin) key of
                   None \<Rightarrow> Inl KeyError
                 | Some img \<Rightarrow> exit_if (images \<noteq> [img])
                     (''Deployment '' @ id_label key @ '' image inventory differs from exact desired state'') (Inr ()))) (\<lambda>_.
        bind (object_item template) (\<lambda>spec.
        bind (assert_restricted_spec spec (''Deployment '' @ id_label key @ '' template'')
          (if key = coredns then [''NET_BIND_SERVICE''] else [])) (\<lambda>_.
        Inr (counts @ [(key, replicas)]))))))))"

definition check_daemonset ::
  "pins \<Rightarrow> provider \<Rightarrow> object_id \<times> dict \<Rightarrow> replica_counts \<Rightarrow> replica_counts res" where
  "check_daemonset pin p = (\<lambda>(key, obj) counts.
    bind (stable_daemonset obj key) (\<lambda>desired.
    bind (template_spec obj) (\<lambda>template.
    bind (container_images template) (\<lambda>found.
    case found of
      None \<Rightarrow> Inl (SystemExit (''DaemonSet '' @ id_label key @ '' has invalid container images''))
    | Some images \<Rightarrow>
        bind (if key = kube_proxy
              then exit_if (images \<noteq> [''registry.k8s.io/kube-proxy:'' @ kubernetes_version pin])
                ''kube-proxy image differs from the exact reviewed Kubernetes version'' (Inr ())
              else exit_if (list_ex (unreviewed_image p) images)
                ''CNI DaemonSet image is outside the reviewed provider registry/digest contract'' (Inr ())) (\<lambda>_.
        bind (object_item template) (\<lambda>spec.
        bind (assert_no_host_port spec (''DaemonSet '' @ id_label key @ '' template'')) (\<lambda>_.
        Inr (counts @ [(key, desired)]))))))))"

section \<open>ReplicaSets\<close>

text \<open>
  \<open>json.loads(json.dumps(v))\<close> copies a value, so that \<open>pop\<close> does not change the capture;
  values of the model are not shared, and the copy is the value itself.  \<open>pop_at\<close>
  descends with the default \<open>{}\<close> and removes a key: a list has a \<open>pop\<close> of its own.
\<close>

fun pop_at :: "string list \<Rightarrow> string \<Rightarrow> json \<Rightarrow> (json \<times> json) res" where
  "pop_at [] key v =
    (case v of
       JObj d \<Rightarrow> Inr (get d key, JObj (filter (\<lambda>p. fst p \<noteq> key) d))
     | JArr _ \<Rightarrow> Inl TypeError
     | _ \<Rightarrow> Inl AttributeError)"
| "pop_at (k # ks) key v =
    bind (object_item v) (\<lambda>d.
    bind (pop_at ks key (get_default d k (JObj []))) (\<lambda>(popped, w).
    Inr (popped, JObj (if has_key d k then put d k w else d))))"

text \<open>A dictionary from UIDs: a later object replaces an earlier one of the same UID.\<close>

definition uid_lookup :: "(string \<times> object_id) list \<Rightarrow> json \<Rightarrow> object_id option res" where
  "uid_lookup table v =
    (if \<not> hashable v then Inl TypeError
     else Inr (case v of JStr uid \<Rightarrow> map_of (rev table) uid | _ \<Rightarrow> None))"

definition uids_of :: "objects_by_key \<Rightarrow> (string \<times> object_id) list" where
  "uids_of objs = map (\<lambda>(key, obj). (object_uid obj, key)) objs"

record replicaset_state =
  active_replicasets :: "(object_id \<times> string) list"
  replicaset_parent :: "(string \<times> object_id) list"
  replicaset_names :: "(string \<times> object_id) list"

definition mirrors_deployment :: "dict \<Rightarrow> dict \<Rightarrow> int \<Rightarrow> int \<Rightarrow> bool res" where
  "mirrors_deployment deployment replicaset replicas wanted =
    bind (get_path (JObj deployment) [''spec'', ''selector'']) (\<lambda>deployment_selector.
    bind (get_path (JObj replicaset) [''spec'', ''selector'']) (\<lambda>replicaset_selector.
    bind (get_path (JObj deployment) [''spec'', ''template'']) (\<lambda>deployment_template.
    bind (get_path (JObj replicaset) [''spec'', ''template'']) (\<lambda>replicaset_template.
    bind (pop_at [''matchLabels''] ''pod-template-hash'' replicaset_selector) (\<lambda>(selector_hash, selector).
    bind (pop_at [''metadata'', ''labels''] ''pod-template-hash'' replicaset_template) (\<lambda>(template_hash, template).
    if \<not> nonempty_str selector_hash \<or> template_hash \<noteq> selector_hash
      \<or> \<not> json_eq selector deployment_selector \<or> \<not> json_eq template deployment_template \<or> replicas \<noteq> wanted
    then Inr False
    else bind (object_item (get_default replicaset ''status'' (JObj []))) (\<lambda>st.
      Inr (counts_equal st [''readyReplicas'', ''availableReplicas''] replicas))))))))"

definition idle_field :: "dict \<Rightarrow> string \<Rightarrow> bool res" where
  "idle_field obj key =
    bind (object_item (get_default obj ''status'' (JObj []))) (\<lambda>st.
    bind (none_or_zero (get_default st key (JInt 0))) (\<lambda>none. Inr (\<not> none)))"

definition count_of :: "replica_counts \<Rightarrow> object_id \<Rightarrow> int res" where
  "count_of counts key = (case map_of counts key of None \<Rightarrow> Inl KeyError | Some n \<Rightarrow> Inr n)"

definition object_at :: "objects_by_key \<Rightarrow> object_id \<Rightarrow> dict res" where
  "object_at objs key = (case map_of objs key of None \<Rightarrow> Inl KeyError | Some obj \<Rightarrow> Inr obj)"

definition check_replicaset ::
  "objects_by_key \<Rightarrow> replica_counts \<Rightarrow> object_id \<times> dict \<Rightarrow> replicaset_state \<Rightarrow> replicaset_state res" where
  "check_replicaset deps counts = (\<lambda>(key, replicaset) st.
    bind (one_controller_owner replicaset ''ReplicaSet'' key) (\<lambda>owner.
    bind (uid_lookup (uids_of deps) (get owner ''uid'')) (\<lambda>found.
    let foreign = SystemExit (''ReplicaSet '' @ id_label key @ '' is outside the exact Deployment UID chain'') in
    case found of
      None \<Rightarrow> Inl foreign
    | Some parent \<Rightarrow>
        raise_if (get owner ''apiVersion'' \<noteq> JStr ''apps/v1'' \<or> get owner ''kind'' \<noteq> JStr ''Deployment''
          \<or> get owner ''name'' \<noteq> JStr (snd parent) \<or> fst key \<noteq> fst parent
          \<or> \<not> startswith (snd key) (snd parent @ ''-'')) foreign (
        bind (method_get (get_default replicaset ''spec'' (JObj [])) ''replicas'') (\<lambda>replicas_value.
        let invalid = SystemExit (''ReplicaSet '' @ id_label key @ '' has an invalid replica count'') in
        case replicas_value of
          JInt replicas \<Rightarrow>
            raise_if (replicas < 0) invalid (
            let uid = object_uid replicaset;
                st' = st\<lparr>replicaset_parent := replicaset_parent st @ [(uid, parent)],
                         replicaset_names := replicaset_names st @ [(uid, key)]\<rparr> in
            if replicas \<noteq> 0 then
              bind (object_at deps parent) (\<lambda>deployment.
              bind (count_of counts parent) (\<lambda>wanted.
              bind (mirrors_deployment deployment replicaset replicas wanted) (\<lambda>exact.
              exit_if (\<not> exact)
                (''active ReplicaSet '' @ id_label key @ '' differs from its exact stable Deployment'') (
              exit_if (parent \<in> set (map fst (active_replicasets st')))
                (''Deployment '' @ id_label parent @ '' has more than one active ReplicaSet'') (
              Inr (st'\<lparr>active_replicasets := active_replicasets st' @ [(parent, uid)]\<rparr>))))))
            else
              bind (any_res (idle_field replicaset) [''replicas'', ''readyReplicas'', ''availableReplicas'']) (\<lambda>live.
              exit_if live (''inactive ReplicaSet '' @ id_label key @ '' still has live replicas'') (Inr st')))
        | _ \<Rightarrow> Inl invalid)))))"

definition check_replicasets :: "float_text \<Rightarrow> capture \<Rightarrow> objects_by_key \<Rightarrow> replica_counts \<Rightarrow> replicaset_state res" where
  "check_replicasets fl files deps counts =
    bind (load_objects fl files ''replicasets.json'') (\<lambda>objs.
    bind (dynamic_namespaced_map objs ''ReplicaSet'') (\<lambda>replicasets.
    bind (for_each (check_replicaset deps counts) replicasets
      \<lparr>active_replicasets = [], replicaset_parent = [], replicaset_names = []\<rparr>) (\<lambda>st.
    exit_if (set (map fst (active_replicasets st)) \<noteq> set (map fst deps))
      ''each exact Deployment must have one and only one active ReplicaSet'' (Inr st))))"

section \<open>Pods\<close>

record pod_state =
  pod_counts :: replica_counts
  static_seen :: "object_id list"
  pod_uids :: "string list"

record pod_world =
  world_pins :: pins
  world_node :: "string \<times> string"
  world_controllers :: controllers
  world_replicasets :: replicaset_state

text \<open>What the owner of a Pod says of it: the images it may run and how it is confined.\<close>

record pod_role =
  role_images :: "string list option"
  role_elevated :: bool
  role_capabilities :: "string list"
  role_parent :: "object_id option"

definition static_components :: "string list" where
  "static_components = [''etcd'', ''kube-apiserver'', ''kube-controller-manager'', ''kube-scheduler'']"

definition static_expected :: "string \<Rightarrow> object_id list" where
  "static_expected node_name = map (\<lambda>component. (''kube-system'', component @ ''-'' @ node_name)) static_components"

definition static_images :: "pins \<Rightarrow> string \<Rightarrow> string list option" where
  "static_images pin component =
    (if component = ''etcd'' then Some [etcd_image pin]
     else if component \<in> set static_components
     then Some [''registry.k8s.io/'' @ component @ '':'' @ kubernetes_version pin]
     else None)"

definition mirror_role :: "pod_world \<Rightarrow> pod_state \<Rightarrow> object_id \<Rightarrow> dict \<Rightarrow> dict \<Rightarrow> json \<Rightarrow> pod_role res" where
  "mirror_role w st key pod spec owners =
    (let (node_name, node_uid) = world_node w in
     bind (if truthy owners
           then bind (one_controller_owner pod ''mirror Pod'' key) (\<lambda>owner.
             exit_if (get owner ''apiVersion'' \<noteq> JStr ''v1'' \<or> get owner ''kind'' \<noteq> JStr ''Node''
                 \<or> get owner ''name'' \<noteq> JStr node_name \<or> get owner ''uid'' \<noteq> JStr node_uid)
               (''mirror Pod '' @ id_label key @ '' has an unexpected Node owner'') (Inr ()))
           else Inr ()) (\<lambda>_.
     exit_if (key \<in> set (static_seen st) \<or> get spec ''nodeName'' \<noteq> JStr node_name
         \<or> truthy (get spec ''initContainers'') \<or> truthy (get spec ''ephemeralContainers''))
       (''unowned Pod '' @ id_label key @ '' is not one exact kubeadm mirror Pod'') (
     let component = take (length (snd key) - length node_name - 1) (snd key) in
     Inr \<lparr>role_images = static_images (world_pins w) component, role_elevated = True,
          role_capabilities = [], role_parent = None\<rparr>)))"

definition replicaset_role :: "pod_world \<Rightarrow> object_id \<Rightarrow> dict \<Rightarrow> pod_role res" where
  "replicaset_role w key owner =
    (let outside = SystemExit (''Pod '' @ id_label key @ '' is outside the active Deployment UID chain'');
         sets = world_replicasets w in
     bind (uid_lookup (replicaset_parent sets) (get owner ''uid'')) (\<lambda>found.
     case found of
       None \<Rightarrow> Inl outside
     | Some parent \<Rightarrow>
         (case map_of (rev (replicaset_names sets)) (string_of (get owner ''uid'')) of
            None \<Rightarrow> Inl outside
          | Some set_key \<Rightarrow>
              raise_if (map_of (active_replicasets sets) parent \<noteq> Some (string_of (get owner ''uid''))
                \<or> get owner ''name'' \<noteq> JStr (snd set_key) \<or> fst key \<noteq> fst parent
                \<or> \<not> startswith (snd key) (snd set_key @ ''-'')) outside (
              bind (object_at (deployments (world_controllers w)) parent) (\<lambda>deployment.
              bind (template_spec deployment) (\<lambda>template.
              bind (container_images template) (\<lambda>images.
              Inr \<lparr>role_images = images, role_elevated = False,
                   role_capabilities = (if parent = coredns then [''NET_BIND_SERVICE''] else []),
                   role_parent = Some parent\<rparr>)))))))"

definition daemonset_role :: "pod_world \<Rightarrow> object_id \<Rightarrow> dict \<Rightarrow> pod_role res" where
  "daemonset_role w key owner =
    (let outside = SystemExit (''Pod '' @ id_label key @ '' is outside the exact DaemonSet UID chain'');
         sets = daemonsets (world_controllers w) in
     bind (uid_lookup (uids_of sets) (get owner ''uid'')) (\<lambda>found.
     case found of
       None \<Rightarrow> Inl outside
     | Some parent \<Rightarrow>
         raise_if (get owner ''name'' \<noteq> JStr (snd parent) \<or> fst key \<noteq> fst parent
           \<or> \<not> startswith (snd key) (snd parent @ ''-'')) outside (
         bind (object_at sets parent) (\<lambda>daemonset.
         bind (template_spec daemonset) (\<lambda>template.
         bind (container_images template) (\<lambda>images.
         Inr \<lparr>role_images = images, role_elevated = True, role_capabilities = [],
              role_parent = Some parent\<rparr>))))))"

definition owned_role :: "pod_world \<Rightarrow> object_id \<Rightarrow> dict \<Rightarrow> json \<Rightarrow> pod_role res" where
  "owned_role w key pod owners =
    exit_if (\<not> truthy owners)
      (''unowned Pod '' @ id_label key @ '' is not one exact kubeadm mirror Pod'') (
    bind (one_controller_owner pod ''Pod'' key) (\<lambda>owner.
    let unapproved = SystemExit (''Pod '' @ id_label key @ '' has an unapproved controller kind'') in
    raise_if (get owner ''apiVersion'' \<noteq> JStr ''apps/v1'') unapproved (
    bind (in_str_set (get owner ''kind'') [''ReplicaSet'', ''DaemonSet'']) (\<lambda>approved.
    raise_if (\<not> approved) unapproved (
    if get owner ''kind'' = JStr ''ReplicaSet'' then replicaset_role w key owner else daemonset_role w key owner)))))"

definition pod_ready :: "dict \<Rightarrow> object_id \<Rightarrow> unit res" where
  "pod_ready pod key =
    bind (status_field pod ''phase'') (\<lambda>phase.
    exit_if (phase \<noteq> JStr ''Running'') (''Pod '' @ id_label key @ '' is not Running'') (
    bind (object_item (get_default pod ''status'' (JObj []))) (\<lambda>st.
    bind (elements_of (get_default st ''conditions'' (JArr []))) (\<lambda>conditions.
    let ready = filter (\<lambda>d. get d ''type'' = JStr ''Ready'') (objects conditions) in
    exit_if (length ready \<noteq> 1 \<or> get (hd ready) ''status'' \<noteq> JStr ''True'')
      (''Pod '' @ id_label key @ '' is not exactly Ready'') (Inr ())))))"

definition pod_identity :: "dict \<Rightarrow> pod_state \<Rightarrow> object_id res" where
  "pod_identity pod st =
    (let invalid = SystemExit ''live Pod inventory has an invalid, duplicate, or deleting identity'' in
     bind (in_str_set (fst (identity_of pod)) expected_namespaces) (\<lambda>known.
     raise_if (\<not> known \<or> \<not> nonempty_str (snd (identity_of pod)) \<or> \<not> nonempty_str (get (metadata pod) ''uid'')
       \<or> object_uid pod \<in> set (pod_uids st) \<or> deleting pod) invalid (Inr (object_key pod))))"

text \<open>\<open>mirror_annotation not in {None, ""}\<close>, evaluated for the expected static Pods only.\<close>

definition is_mirror :: "string \<Rightarrow> object_id \<Rightarrow> json \<Rightarrow> bool res" where
  "is_mirror node_name key annotation =
    (if key \<notin> set (static_expected node_name) then Inr False
     else if \<not> hashable annotation then Inl TypeError
     else Inr (annotation \<noteq> JNull \<and> annotation \<noteq> JStr []))"

definition bump :: "object_id option \<Rightarrow> replica_counts \<Rightarrow> replica_counts" where
  "bump parent counts = map (\<lambda>(k, n). if parent = Some k then (k, n + 1) else (k, n)) counts"

definition check_pod :: "pod_world \<Rightarrow> dict \<Rightarrow> pod_state \<Rightarrow> pod_state res" where
  "check_pod w pod st =
    bind (pod_identity pod st) (\<lambda>key.
    let spec = dict_or_empty (get pod ''spec'') in
    bind (container_images (JObj spec)) (\<lambda>found.
    case found of
      None \<Rightarrow> Inl (SystemExit (''Pod '' @ id_label key @ '' has invalid container images''))
    | Some images \<Rightarrow>
        let owners = get_default (metadata pod) ''ownerReferences'' (JArr []) in
        bind (method_get (get_default (metadata pod) ''annotations'' (JObj [])) ''kubernetes.io/config.mirror'') (\<lambda>annotation.
        bind (is_mirror (fst (world_node w)) key annotation) (\<lambda>mirror.
        bind (if mirror then mirror_role w st key pod spec owners else owned_role w key pod owners) (\<lambda>role.
        exit_if (role_images role \<noteq> Some images)
          (''Pod '' @ id_label key @ '' image inventory differs from its exact controller'') (
        bind (pod_ready pod key) (\<lambda>_.
        bind (assert_no_host_port spec (''Pod '' @ id_label key)) (\<lambda>_.
        bind (if role_elevated role then Inr ()
              else assert_restricted_spec spec (''Pod '' @ id_label key) (role_capabilities role)) (\<lambda>_.
        Inr \<lparr>pod_counts = bump (role_parent role) (pod_counts st),
             static_seen = (if mirror then static_seen st @ [key] else static_seen st),
             pod_uids = pod_uids st @ [object_uid pod]\<rparr>)))))))))"

definition check_pods :: "float_text \<Rightarrow> capture \<Rightarrow> pod_world \<Rightarrow> replica_counts \<Rightarrow> unit res" where
  "check_pods fl files w expected_counts =
    bind (load_objects fl files ''pods.json'') (\<lambda>pods.
    let ctl = world_controllers w in
    bind (for_each (check_pod w) pods
      \<lparr>pod_counts = map (\<lambda>(key, _). (key, 0)) (deployments ctl @ daemonsets ctl),
       static_seen = [], pod_uids = []\<rparr>) (\<lambda>st.
    exit_if (set (static_seen st) \<noteq> set (static_expected (fst (world_node w))))
      ''live kubeadm mirror Pod inventory is incomplete'' (
    exit_if (set (pod_counts st) \<noteq> set expected_counts)
      ''live controller-owned Pod counts differ from exact stable controller replicas'' (Inr ()))))"

section \<open>Services and webhooks\<close>

definition expected_services :: "object_id list" where
  "expected_services =
    [(''default'', ''kubernetes''), (''kube-system'', ''kube-dns''), (''flux-system'', ''source-controller''),
     (''naranjo-online'', ''naranjo-online''), (''lidersea-com'', ''lidersea-com'')]"

definition node_port :: "json \<Rightarrow> bool res" where
  "node_port port =
    bind (method_get port ''nodePort'') (\<lambda>v. bind (none_or_zero v) (\<lambda>none. Inr (\<not> none)))"

definition check_service :: "object_id \<times> dict \<Rightarrow> unit \<Rightarrow> unit res" where
  "check_service = (\<lambda>(key, service) _.
    let exposed = SystemExit (''Service '' @ id_label key @ '' has a direct-origin exposure field'') in
    bind (object_item (get_default service ''spec'' (JObj []))) (\<lambda>spec.
    raise_if (get_default spec ''type'' (JStr ''ClusterIP'') \<noteq> JStr ''ClusterIP'' \<or> truthy (get spec ''externalIPs'')
      \<or> truthy (get spec ''externalName'')) exposed (
    bind (none_or_zero (get spec ''healthCheckNodePort'')) (\<lambda>none.
    raise_if (\<not> none) exposed (
    bind (elements_of (get_default spec ''ports'' (JArr []))) (\<lambda>ports.
    bind (any_res node_port ports) (\<lambda>open.
    raise_if open exposed (Inr ()))))))))"

definition check_services :: "float_text \<Rightarrow> capture \<Rightarrow> unit res" where
  "check_services fl files =
    bind (load_objects fl files ''services.json'') (\<lambda>objs.
    bind (exact_namespaced_map objs expected_services ''Service'') (\<lambda>services.
    for_each check_service services ()))"

definition check_webhooks :: "float_text \<Rightarrow> capture \<Rightarrow> unit res" where
  "check_webhooks fl files =
    bind (load_objects fl files ''mutatingwebhooks.json'') (\<lambda>mutating.
    exit_if (mutating \<noteq> []) ''live MutatingWebhookConfiguration inventory must be empty'' (
    bind (load_objects fl files ''webhooks.json'') (\<lambda>validating.
    exit_if (validating \<noteq> []) ''live ValidatingWebhookConfiguration inventory must be empty'' (Inr ()))))"

section \<open>The script\<close>

definition runtime_inventory :: "float_text \<Rightarrow> capture \<Rightarrow> pins \<Rightarrow> string res" where
  "runtime_inventory fl files pin =
    bind (check_namespaces fl files) (\<lambda>_.
    bind (production_node fl files) (\<lambda>node.
    bind (load_controllers fl files) (\<lambda>ctl.
    bind (check_unused_kinds fl files) (\<lambda>_.
    bind (for_each (check_deployment pin (cni ctl)) (deployments ctl) []) (\<lambda>deployment_replicas.
    bind (for_each (check_daemonset pin (cni ctl)) (daemonsets ctl) []) (\<lambda>daemonset_desired.
    bind (check_replicasets fl files (deployments ctl) deployment_replicas) (\<lambda>sets.
    bind (check_pods fl files
      \<lparr>world_pins = pin, world_node = node, world_controllers = ctl, world_replicasets = sets\<rparr>
      (deployment_replicas @ daemonset_desired)) (\<lambda>_.
    bind (check_services fl files) (\<lambda>_.
    bind (check_webhooks fl files) (\<lambda>_.
    Inr ''release-gate: PASS exact global namespace, controller, Pod, Service, and webhook inventories are closed''))))))))))"

end
