(* ===== verification/RuntimeProps.thy ===== *)
theory RuntimeProps
  imports RuntimeInventory
begin

text \<open>
  What an accepted runtime inventory establishes of every live Pod: the images it runs
  have been reviewed, and outside \<open>kube-system\<close> it has no hold on the host.
\<close>

section \<open>Reviewed images\<close>

definition reviewed_image :: "pins \<Rightarrow> provider \<Rightarrow> string \<Rightarrow> bool" where
  "reviewed_image pin p reference \<longleftrightarrow>
    reference \<in> snd ` set (expected_deployment_images pin) \<or> reference = etcd_image pin
    \<or> (\<exists>component \<in> set (''kube-proxy'' # static_components).
        reference = ''registry.k8s.io/'' @ component @ '':'' @ kubernetes_version pin)
    \<or> \<not> unreviewed_image p reference"

text \<open>A controller whose Pod template names reviewed images only.\<close>

definition reviewed_template :: "pins \<Rightarrow> provider \<Rightarrow> dict \<Rightarrow> bool" where
  "reviewed_template pin p obj \<longleftrightarrow>
    (\<exists>template images. template_spec obj = Inr template \<and> container_images template = Inr (Some images)
      \<and> list_all (reviewed_image pin p) images)"

lemma deployment_reviewed:
  assumes "check_deployment pin p (key, obj) counts = Inr counts'"
  shows "reviewed_template pin p obj"
proof -
  from assms obtain template images where template: "template_spec obj = Inr template"
      "container_images template = Inr (Some images)"
    and images: "(key = provider_deployment p \<and> \<not> list_ex (unreviewed_image p) images)
      \<or> (\<exists>img. map_of (expected_deployment_images pin) key = Some img \<and> images = [img])"
    unfolding check_deployment_def by (auto split: option.splits if_splits)
  have "list_all (reviewed_image pin p) images"
    using images by (auto simp: reviewed_image_def list_ex_iff list_all_iff dest!: map_of_SomeD intro: rev_image_eqI)
  then show ?thesis using template unfolding reviewed_template_def by blast
qed

lemma daemonset_reviewed:
  assumes "check_daemonset pin p (key, obj) counts = Inr counts'"
  shows "reviewed_template pin p obj"
proof -
  from assms obtain template images where template: "template_spec obj = Inr template"
      "container_images template = Inr (Some images)"
    and images: "images = [''registry.k8s.io/kube-proxy:'' @ kubernetes_version pin] \<or> \<not> list_ex (unreviewed_image p) images"
    unfolding check_daemonset_def by (auto split: option.splits if_splits)
  have "list_all (reviewed_image pin p) images"
    using images by (auto simp: reviewed_image_def list_ex_iff list_all_iff)
  then show ?thesis using template unfolding reviewed_template_def by blast
qed

lemma loop_reviewed:
  assumes "for_each f objs counts = Inr counts'"
    and "\<And>key obj s s'. f (key, obj) s = Inr s' \<Longrightarrow> reviewed_template pin p obj"
  shows "list_all (\<lambda>(key, obj). reviewed_template pin p obj) objs"
  using assms(1) by (induction objs arbitrary: counts) (auto dest: assms(2))

lemma object_at_reviewed:
  assumes "object_at objs key = Inr obj" and "list_all (\<lambda>(key, obj). reviewed_template pin p obj) objs"
    and "template_spec obj = Inr template" and "container_images template = Inr (Some images)"
  shows "list_all (reviewed_image pin p) images"
proof -
  from assms(1) have "(key, obj) \<in> set objs" by (auto simp: object_at_def dest: map_of_SomeD split: option.splits)
  with assms(2) have "reviewed_template pin p obj" by (auto simp: list_all_iff)
  with assms(3,4) show ?thesis by (auto simp: reviewed_template_def)
qed

section \<open>Confinement\<close>

definition unprivileged :: "json \<Rightarrow> bool" where
  "unprivileged v \<longleftrightarrow>
    (\<exists>container security capabilities added. v = JObj container
      \<and> get_default container ''securityContext'' (JObj []) = JObj security
      \<and> get security ''privileged'' \<noteq> JBool True \<and> get security ''allowPrivilegeEscalation'' \<noteq> JBool True
      \<and> get security ''procMount'' \<noteq> JStr ''Unmasked''
      \<and> get_default security ''capabilities'' (JObj []) = JObj capabilities
      \<and> get_default capabilities ''add'' (JArr []) = JArr added \<and> set added \<subseteq> {JStr ''NET_BIND_SERVICE''})"

definition confined :: "dict \<Rightarrow> bool" where
  "confined spec \<longleftrightarrow>
    list_all (\<lambda>key. get spec key \<noteq> JBool True) [''hostNetwork'', ''hostPID'', ''hostIPC'']
    \<and> (\<exists>volumes. elements_of (get_default spec ''volumes'' (JArr [])) = Inr volumes
      \<and> list_all (\<lambda>v. mentions ''hostPath'' v = Inr False) volumes)
    \<and> (\<exists>containers. all_containers spec = Inr containers \<and> list_all unprivileged containers)"

lemma container_security_unprivileged:
  assumes "container_security allowed label v u = Inr u'" and "set allowed \<subseteq> {''NET_BIND_SERVICE''}"
  shows "unprivileged v"
proof -
  from assms(1) obtain container security capabilities added where v: "v = JObj container"
      "get_default container ''securityContext'' (JObj []) = JObj security"
      "get_default security ''capabilities'' (JObj []) = JObj capabilities"
      "get_default capabilities ''add'' (JArr []) = JArr added"
    and flags: "get security ''privileged'' \<noteq> JBool True" "get security ''allowPrivilegeEscalation'' \<noteq> JBool True"
      "get security ''procMount'' \<noteq> JStr ''Unmasked''"
    and added_ok: "list_all (\<lambda>x. bind (in_str_set x allowed) (\<lambda>ok. Inr (\<not> ok)) = Inr False) added"
    unfolding container_security_def Let_def by auto
  have "set added \<subseteq> {JStr ''NET_BIND_SERVICE''}"
    using added_ok assms(2) by (fastforce simp: list_all_iff in_str_set_def split: if_splits)
  with v flags show ?thesis unfolding unprivileged_def by blast
qed

lemma restricted_confined:
  assumes "assert_restricted_spec spec label allowed = Inr u" and "set allowed \<subseteq> {''NET_BIND_SERVICE''}"
  shows "confined spec"
proof -
  from assms(1) obtain volumes containers where
    flags: "\<not> list_ex (\<lambda>key. get spec key = JBool True) [''hostNetwork'', ''hostPID'', ''hostIPC'']"
    and volumes: "elements_of (get_default spec ''volumes'' (JArr [])) = Inr volumes"
      "list_all (\<lambda>v. mentions ''hostPath'' v = Inr False) volumes"
    and containers: "all_containers spec = Inr containers"
      "list_all (\<lambda>v. container_security allowed label v () = Inr ()) containers"
    unfolding assert_restricted_spec_def by (auto simp: for_each_unit)
  have "list_all unprivileged containers"
    using containers(2) container_security_unprivileged [OF _ assms(2)] by (auto simp: list_all_iff)
  then show ?thesis
    using flags volumes containers(1) unfolding confined_def by (auto simp: list_ex_iff list_all_iff)
qed

section \<open>Pods and their owners\<close>

text \<open>What a role guarantees: reviewed images; it is elevated in \<open>kube-system\<close> only; at most one capability.\<close>

definition sound_role :: "pins \<Rightarrow> provider \<Rightarrow> object_id \<Rightarrow> pod_role \<Rightarrow> bool" where
  "sound_role pin p key role \<longleftrightarrow>
    (\<forall>images. role_images role = Some images \<longrightarrow> list_all (reviewed_image pin p) images)
    \<and> (role_elevated role \<longrightarrow> fst key = ''kube-system'')
    \<and> set (role_capabilities role) \<subseteq> {''NET_BIND_SERVICE''}"

definition sound_world :: "pod_world \<Rightarrow> bool" where
  "sound_world w \<longleftrightarrow>
    (let ctl = world_controllers w in
     list_all (\<lambda>(key, obj). reviewed_template (world_pins w) (cni ctl) obj) (deployments ctl @ daemonsets ctl)
     \<and> list_all (\<lambda>(key, obj). fst key = ''kube-system'') (daemonsets ctl))"

lemma static_images_reviewed:
  assumes "static_images pin component = Some images"
  shows "list_all (reviewed_image pin p) images"
  using assms by (auto simp: static_images_def reviewed_image_def split: if_splits)

lemma mirror_sound:
  assumes "mirror_role w st key pod spec owners = Inr role" and "key \<in> set (static_expected (fst (world_node w)))"
  shows "sound_role (world_pins w) p key role"
proof -
  from assms(1) obtain component where
    "role = \<lparr>role_images = static_images (world_pins w) component, role_elevated = True, role_capabilities = [], role_parent = None\<rparr>"
    unfolding mirror_role_def Let_def by (auto split: prod.splits)
  then show ?thesis
    using assms(2) static_images_reviewed by (auto simp: sound_role_def static_expected_def)
qed

lemma replicaset_sound:
  assumes "replicaset_role w key owner = Inr role" and "sound_world w"
  shows "sound_role (world_pins w) (cni (world_controllers w)) key role"
proof -
  from assms(1) obtain parent deployment template images where
    at: "object_at (deployments (world_controllers w)) parent = Inr deployment"
    and template: "template_spec deployment = Inr template" "container_images template = Inr images"
    and role: "role = \<lparr>role_images = images, role_elevated = False,
      role_capabilities = (if parent = coredns then [''NET_BIND_SERVICE''] else []), role_parent = Some parent\<rparr>"
    unfolding replicaset_role_def Let_def by auto
  have "list_all (\<lambda>(key, obj). reviewed_template (world_pins w) (cni (world_controllers w)) obj) (deployments (world_controllers w))"
    using assms(2) by (simp add: sound_world_def Let_def)
  then show ?thesis
    using object_at_reviewed [OF at _ template(1)] template(2) by (auto simp: sound_role_def role)
qed

lemma daemonset_sound:
  assumes "daemonset_role w key owner = Inr role" and "sound_world w"
  shows "sound_role (world_pins w) (cni (world_controllers w)) key role"
proof -
  from assms(1) obtain parent daemonset template images where
    at: "object_at (daemonsets (world_controllers w)) parent = Inr daemonset" and same: "fst key = fst parent"
    and template: "template_spec daemonset = Inr template" "container_images template = Inr images"
    and role: "role = \<lparr>role_images = images, role_elevated = True, role_capabilities = [], role_parent = Some parent\<rparr>"
    unfolding daemonset_role_def Let_def by auto
  have "list_all (\<lambda>(key, obj). reviewed_template (world_pins w) (cni (world_controllers w)) obj) (daemonsets (world_controllers w))"
    using assms(2) by (simp add: sound_world_def Let_def)
  moreover have "fst parent = ''kube-system''"
    using assms(2) at by (force simp: sound_world_def Let_def object_at_def list_all_iff dest: map_of_SomeD split: option.splits)
  ultimately show ?thesis
    using object_at_reviewed [OF at _ template(1)] template(2) same by (auto simp: sound_role_def role)
qed

lemma owned_sound:
  assumes "owned_role w key pod owners = Inr role" and "sound_world w"
  shows "sound_role (world_pins w) (cni (world_controllers w)) key role"
  using assms unfolding owned_role_def Let_def
  by (auto dest: replicaset_sound daemonset_sound split: if_splits)

text \<open>What is shown of one Pod.\<close>

definition accounted :: "pins \<Rightarrow> provider \<Rightarrow> dict \<Rightarrow> bool" where
  "accounted pin p pod \<longleftrightarrow>
    (let spec = dict_or_empty (get pod ''spec'') in
     (\<exists>images. container_images (JObj spec) = Inr (Some images) \<and> list_all (reviewed_image pin p) images)
     \<and> (fst (object_key pod) = ''kube-system'' \<or> confined spec))"

lemma pod_step:
  assumes "check_pod w pod st = Inr st'" and "sound_world w"
  shows "accounted (world_pins w) (cni (world_controllers w)) pod
    \<and> object_uid pod \<notin> set (pod_uids st) \<and> pod_uids st' = pod_uids st @ [object_uid pod]"
proof -
  let ?spec = "dict_or_empty (get pod ''spec'')"
  from assms(1) obtain key images owners mirror annotation role u where
    key: "pod_identity pod st = Inr key" and images: "container_images (JObj ?spec) = Inr (Some images)"
    and mirror: "is_mirror (fst (world_node w)) key annotation = Inr mirror"
    and role: "(if mirror then mirror_role w st key pod ?spec owners else owned_role w key pod owners) = Inr role"
    and same: "role_images role = Some images"
    and restricted: "(if role_elevated role then Inr () else
      assert_restricted_spec ?spec (''Pod '' @ id_label key) (role_capabilities role)) = Inr u"
    and st': "pod_uids st' = pod_uids st @ [object_uid pod]"
    unfolding check_pod_def Let_def by auto
  have fresh: "key = object_key pod \<and> object_uid pod \<notin> set (pod_uids st)"
    using key unfolding pod_identity_def Let_def by auto
  have "sound_role (world_pins w) (cni (world_controllers w)) key role"
  proof (cases mirror)
    case True
    with mirror have "key \<in> set (static_expected (fst (world_node w)))"
      by (auto simp: is_mirror_def split: if_splits)
    then show ?thesis using role True mirror_sound by simp
  next
    case False
    then show ?thesis using role owned_sound assms(2) by simp
  qed
  then show ?thesis
    using images same restricted restricted_confined fresh st'
    by (auto simp: sound_role_def accounted_def Let_def split: if_splits)
qed

lemma pods_loop:
  assumes "for_each (check_pod w) pods st = Inr st'" and "sound_world w" and "distinct (pod_uids st)"
  shows "list_all (accounted (world_pins w) (cni (world_controllers w))) pods
    \<and> pod_uids st' = pod_uids st @ map object_uid pods \<and> distinct (pod_uids st')"
  using assms
proof (induction pods arbitrary: st)
  case Nil
  then show ?case by simp
next
  case (Cons pod pods)
  then obtain t where step: "check_pod w pod st = Inr t" and rest: "for_each (check_pod w) pods t = Inr st'"
    by auto
  note facts = pod_step [OF step Cons.prems(2)]
  then have "distinct (pod_uids t)" using Cons.prems(3) by simp
  note ih = Cons.IH [OF rest Cons.prems(2) this]
  then have "distinct (pod_uids st')" by blast
  with ih facts show ?case by (simp only: list.pred_inject list.map append_assoc append_Cons append_Nil)
qed

section \<open>The controllers\<close>

lemma uid_items_keys:
  assumes "for_each (uid_item kind) objs acc = Inr result"
  shows "result = acc @ map (\<lambda>obj. (object_key obj, obj)) objs"
  using assms
proof (induction objs arbitrary: acc)
  case Nil
  then show ?case by simp
next
  case (Cons obj objs)
  then obtain t where step: "uid_item kind obj acc = Inr t" and rest: "for_each (uid_item kind) objs t = Inr result"
    by auto
  from step have "t = acc @ [(object_key obj, obj)]" by (auto simp: uid_item_def Let_def)
  with Cons.IH [OF rest] show ?case by simp
qed

lemma exact_map_keys:
  assumes "exact_namespaced_map objs expected kind = Inr result" and "(key, obj) \<in> set result"
  shows "key \<in> set expected"
proof -
  from assms(1) obtain found where found: "identity_set objs = Inr found" "set found = json_identity ` set expected"
    and loop: "for_each (uid_item kind) objs [] = Inr result"
    unfolding exact_namespaced_map_def Let_def by auto
  from uid_items_keys [OF loop] assms(2) have obj: "obj \<in> set objs" "key = object_key obj" by auto
  have "identity_of obj \<in> set found" using found(1) obj(1) by (auto simp: identity_set_def Let_def split: if_splits)
  then show ?thesis
    using found(2) obj(2) by (auto simp: identity_of_def json_identity_def object_key_def string_of_def)
qed

lemma daemonset_namespace:
  assumes "load_controllers fl files = Inr ctl"
  shows "list_all (\<lambda>(key, obj). fst key = ''kube-system'') (daemonsets ctl)"
proof -
  from assms obtain objs where "exact_namespaced_map objs (expected_daemonsets (cni ctl)) ''DaemonSet'' = Inr (daemonsets ctl)"
    unfolding load_controllers_def by auto
  from exact_map_keys [OF this] show ?thesis
    by (cases "cni ctl") (fastforce simp: list_all_iff expected_daemonsets_def kube_proxy_def)+
qed


end
