(* ===== verification/DisposalLedger.thy ===== *)
theory DisposalLedger
  imports PyValue PyDate
begin

text \<open>
  scripts/validate_destructive_test_ledger.py: the evidence of an authorized experiment
  on disposable workloads.  \<open>denial\<close> returns the first reason to refuse; inside it an early
  \<open>return reason\<close> leaves the body as \<open>EarlyReturn reason\<close>, and an exception as itself.
\<close>

abbreviation return_if :: "bool \<Rightarrow> string \<Rightarrow> 'a res \<Rightarrow> 'a res" where
  "return_if c reason k \<equiv> raise_if c (EarlyReturn reason) k"

section \<open>The closed vocabulary\<close>

definition SCENARIOS :: "string list" where
  "SCENARIOS = [''clean-recreate'', ''termination'', ''restart'', ''node-loss'', ''dependency-loss'']"

definition ALLOWED_EPHEMERAL_KINDS :: "(string \<times> string) list" where
  "ALLOWED_EPHEMERAL_KINDS =
    [(''apps/v1'', ''DaemonSet''), (''apps/v1'', ''Deployment''), (''apps/v1'', ''ReplicaSet''),
     (''batch/v1'', ''CronJob''), (''batch/v1'', ''Job''), (''v1'', ''Pod'')]"

definition MAX_INVENTORY :: nat where "MAX_INVENTORY = 32"

definition SIGNAL_CASES :: "(string \<times> string list) list" where
  "SIGNAL_CASES =
    [(''mixed-signals'', [''TERM'', ''INT'', ''HUP'']), (''repeated-hup'', [''HUP'', ''HUP'']),
     (''repeated-int'', [''INT'', ''INT'']), (''repeated-term'', [''TERM'', ''TERM''])]"

definition PROTECTED :: "string list" where
  "PROTECTED =
    [''secrets-and-tokens'', ''private-keys-etcd-pki'', ''provider-dns-domain-tunnel-identities'',
     ''protected-custody'', ''git-history'']"

definition TOP_LEVEL_FIELDS :: "string list" where
  "TOP_LEVEL_FIELDS =
    [''acceptance_metrics'', ''artifact_sha256'', ''authorization'', ''classification'', ''cleanup_guard'',
     ''cleanup_receipt'', ''cloudflare_connector'', ''desired_state_sha256'', ''externalized_state'', ''inventory'',
     ''protected_exclusions'', ''recovery_journal'', ''recreate_from_zero'', ''scenarios'', ''schema_version'',
     ''serialized_lane'', ''signal_evidence'']"

definition INVENTORY_FIELDS :: "string list" where
  "INVENTORY_FIELDS =
    [''apiVersion'', ''classification'', ''fault_target'', ''kind'', ''name'', ''namespace'', ''scope'', ''uid'']"

definition METRIC_FIELDS :: "string list" where
  "METRIC_FIELDS =
    [''availability_percent'', ''expected_downtime_seconds'', ''readiness_seconds'', ''rto_seconds'']"

definition SCENARIO_FIELDS :: "string list" where
  "SCENARIO_FIELDS =
    [''availability_accepted'', ''cleanup_receipt_sha256'', ''completed_at'', ''fault_sha256'', ''fault_target_uid'',
     ''name'', ''observed_availability_percent'', ''observed_downtime_seconds'', ''observed_readiness_seconds'',
     ''observed_rto_seconds'', ''poststate_sha256'', ''prestate_sha256'', ''public_https_recovered'',
     ''readiness_accepted'', ''recovery_journal_sha256'', ''recovery_sha256'', ''residue_orphans'',
     ''rollback_status'', ''started_at'']"

definition GUARD_FIELDS :: "string list" where
  "GUARD_FIELDS = [''reentry_policy'', ''rollback_limit'', ''signals'']"

definition RECEIPT_FIELDS :: "string list" where
  "RECEIPT_FIELDS =
    [''completed_at'', ''observed_cleanup_seconds'', ''receipt_count'', ''residue_orphans'', ''rollback_count'',
     ''rollback_status'', ''sha256'', ''signals_deferred'']"

definition JOURNAL_FIELDS :: "string list" where
  "JOURNAL_FIELDS = [''created_before_mutation'', ''final_state'', ''initial_state'', ''recovery_action'', ''sha256'']"

definition SIGNAL_FIELDS :: "string list" where
  "SIGNAL_FIELDS =
    [''completed_at'', ''journal_final_state'', ''name'', ''observed_cleanup_seconds'', ''receipt_count'',
     ''residue_orphans'', ''rollback_count'', ''signals'', ''started_at'']"

text \<open>\<open>LedgerJSONError\<close> derives from \<open>ValueError\<close> and is modelled as \<open>ValueError\<close>.\<close>

definition decode_ledger :: "float_text \<Rightarrow> string \<Rightarrow> json res" where
  "decode_ledger fl payload =
    loads_strict fl (ValueError ''ledger JSON contains duplicate member'')
      (ValueError ''ledger JSON contains non-finite constant'') payload"

section \<open>Values\<close>

definition sha256_text :: "json \<Rightarrow> bool" where
  "sha256_text v = str_matches (\<lambda>s. length s = 64 \<and> list_all is_hex s) v"

text \<open>
  \<open>math.isfinite\<close> converts an integer to a double: from \<open>2^1024 - 2^970\<close> on the
  rounded value is out of range and the conversion raises \<open>OverflowError\<close>.
\<close>

definition is_finite_number :: "json \<Rightarrow> bool res" where
  "is_finite_number v =
    (case v of
       JInt i \<Rightarrow> if 2 ^ 1024 - 2 ^ 970 \<le> \<bar>i\<bar> then Inl OverflowError else Inr True
     | JFloat (Fin m e) \<Rightarrow> Inr True
     | _ \<Rightarrow> Inr False)"

text \<open>The same, deciding the numbers of ordinary size without the two powers.\<close>

lemma is_finite_number_code [code]:
  "is_finite_number v =
    (case v of
       JInt i \<Rightarrow>
         if \<bar>i\<bar> < 18446744073709551616 then Inr True
         else if 2 ^ 1024 - 2 ^ 970 \<le> \<bar>i\<bar> then Inl OverflowError else Inr True
     | JFloat (Fin m e) \<Rightarrow> Inr True
     | _ \<Rightarrow> Inr False)"
proof -
  have "(18446744073709551616 :: int) \<le> 2 ^ 1024 - 2 ^ 970" by simp
  then show ?thesis by (auto simp: is_finite_number_def split: json.splits pyfloat.splits)
qed

definition metric :: "json \<Rightarrow> bool \<Rightarrow> bool res" where
  "metric v percent =
    bind (is_finite_number v) (\<lambda>finite.
    Inr (finite \<and> \<not> number_less v (JInt 0) \<and> (\<not> percent \<or> \<not> number_less (JInt 100) v)))"

text \<open>\<open>not _metric(v) or v > limit\<close>.\<close>

definition metric_exceeds :: "json \<Rightarrow> json \<Rightarrow> bool res" where
  "metric_exceeds v limit = bind (metric v False) (\<lambda>ok. Inr (\<not> ok \<or> number_less limit v))"

text \<open>\<open>UTC.fullmatch\<close> and \<open>strptime\<close>: the instant in seconds.\<close>

definition utc_time :: "json \<Rightarrow> int option" where
  "utc_time v =
    (case v of
       JStr s \<Rightarrow>
         let num = (\<lambda>i n. int (read_nat (take n (drop i s)))) in
         if length s = 20 \<and> list_all (\<lambda>i. is_digit (s ! i)) [0, 1, 2, 3, 5, 6, 8, 9, 11, 12, 14, 15, 17, 18]
           \<and> s ! 4 = CHR ''-'' \<and> s ! 7 = CHR ''-'' \<and> s ! 10 = CHR ''T'' \<and> s ! 13 = CHR '':'' \<and> s ! 16 = CHR '':''
           \<and> s ! 19 = CHR ''Z'' \<and> valid_ymd (num 0 4) (num 5 2) (num 8 2)
           \<and> num 11 2 < 24 \<and> num 14 2 < 60 \<and> num 17 2 < 60
         then Some (((ymd_ord (num 0 4) (num 5 2) (num 8 2) * 24 + num 11 2) * 60 + num 14 2) * 60 + num 17 2)
         else None
     | _ \<Rightarrow> None)"

definition ordered_times :: "dict \<Rightarrow> bool" where
  "ordered_times d =
    (case (utc_time (get d ''started_at''), utc_time (get d ''completed_at'')) of
       (Some started, Some completed) \<Rightarrow> started \<le> completed
     | _ \<Rightarrow> False)"

definition has_exact_fields :: "json \<Rightarrow> string list \<Rightarrow> bool" where
  "has_exact_fields v names = (is_object v \<and> keys_are (dict_or_empty v) names)"

text \<open>\<open>if not _exact_fields(v, names): return reason\<close>, then the rest with \<open>v\<close> a dictionary.\<close>

definition with_fields :: "json \<Rightarrow> string list \<Rightarrow> string \<Rightarrow> (dict \<Rightarrow> 'a res) \<Rightarrow> 'a res" where
  "with_fields v names reason k = return_if (\<not> has_exact_fields v names) reason (k (dict_or_empty v))"

lemma with_fields_Inr [simp]:
  "with_fields v names reason k = Inr x \<longleftrightarrow> (\<exists>d. v = JObj d \<and> keys_are d names \<and> k d = Inr x)"
  by (cases v) (simp_all add: with_fields_def has_exact_fields_def is_object_def)

text \<open>The set of the names of the objects of a list, which hashes them.\<close>

definition name_set :: "json list \<Rightarrow> json list res" where
  "name_set xs =
    (let names = map (\<lambda>d. get d ''name'') (objects xs) in
     if list_all hashable names then Inr names else Inl TypeError)"

section \<open>The inventory\<close>

record targets =
  target_identities :: "json list list"
  target_uids :: "json list"
  fault_targets :: "json list"

definition inventory_entry :: "json \<Rightarrow> targets \<Rightarrow> targets res" where
  "inventory_entry v t =
    with_fields v INVENTORY_FIELDS ''inventory entry fields are missing or foreign'' (\<lambda>resource.
    let ident = map (get resource) [''apiVersion'', ''kind'', ''namespace'', ''name'', ''uid''];
        uid = get resource ''uid'' in
    return_if (\<not> list_all nonempty_str ident) ''inventory identity is incomplete'' (
    return_if (ident \<in> set (target_identities t)) ''inventory contains duplicate identity'' (
    return_if (uid \<in> set (target_uids t)) ''inventory UIDs must be unique'' (
    return_if ((get resource ''apiVersion'', get resource ''kind'')
        \<notin> (\<lambda>(api, kind). (JStr api, JStr kind)) ` set ALLOWED_EPHEMERAL_KINDS)
      ''resource API/kind is outside the closed ephemeral workload allowlist'' (
    return_if (get resource ''scope'' \<noteq> JStr ''Namespaced'' \<or> get resource ''classification'' \<noteq> JStr ''ephemeral-workload'')
      ''resource scope or classification is not exact'' (
    return_if (\<not> is_bool (get resource ''fault_target'')) ''resource fault_target must be boolean'' (
    Inr \<lparr>target_identities = target_identities t @ [ident], target_uids = target_uids t @ [uid],
         fault_targets = (if get resource ''fault_target'' = JBool True then fault_targets t @ [uid] else fault_targets t)\<rparr>)))))))"

definition check_inventory :: "json \<Rightarrow> json res" where
  "check_inventory v =
    (let reason = ''exact target inventory cardinality is outside the closed bound'' in
     case v of
       JArr inventory \<Rightarrow>
         return_if (length inventory < 1 \<or> MAX_INVENTORY < length inventory) reason (
         bind (for_each inventory_entry inventory
           \<lparr>target_identities = [], target_uids = [], fault_targets = []\<rparr>) (\<lambda>t.
         return_if (length (fault_targets t) \<noteq> 1) ''inventory must classify exactly one fault target''
           (Inr (hd (fault_targets t)))))
     | _ \<Rightarrow> Inl (EarlyReturn reason))"

definition check_exclusions :: "json \<Rightarrow> unit res" where
  "check_exclusions v =
    (let reason = ''protected exclusions are not the exact required set'' in
     case v of
       JArr exclusions \<Rightarrow>
         if \<not> list_all hashable exclusions then Inl TypeError
         else return_if (set exclusions \<noteq> JStr ` set PROTECTED \<or> length exclusions \<noteq> length PROTECTED) reason (Inr ())
     | _ \<Rightarrow> Inl (EarlyReturn reason))"

definition check_metrics :: "json \<Rightarrow> dict res" where
  "check_metrics v =
    with_fields v METRIC_FIELDS ''acceptance metric fields are missing or foreign'' (\<lambda>metrics.
    bind (for_each (\<lambda>key _.
        bind (metric (get metrics key) (key = ''availability_percent'')) (\<lambda>ok.
        return_if (\<not> ok) (''acceptance metric '' @ key @ '' is invalid'') (Inr ())))
      [''expected_downtime_seconds'', ''rto_seconds'', ''readiness_seconds'', ''availability_percent''] ()) (\<lambda>_.
    return_if (\<not> number_less (JInt 0) (get metrics ''rto_seconds'')
        \<or> \<not> number_less (JInt 0) (get metrics ''readiness_seconds''))
      ''RTO and readiness acceptance bounds must be positive'' (Inr metrics)))"

section \<open>Guard, journal and receipt\<close>

definition check_guard :: "json \<Rightarrow> unit res" where
  "check_guard v =
    with_fields v GUARD_FIELDS ''cleanup guard fields are missing or foreign'' (\<lambda>guard.
    return_if (get guard ''signals'' \<noteq> JArr (map JStr [''HUP'', ''INT'', ''TERM'']))
      ''cleanup guard signal inventory is not exact'' (
    return_if (get guard ''reentry_policy'' \<noteq> JStr ''ignore-after-first''
        \<or> \<not> json_eq (get guard ''rollback_limit'') (JInt 1))
      ''cleanup guard is not re-entry safe or single-rollback'' (Inr ())))"

definition check_journal :: "json \<Rightarrow> json res" where
  "check_journal v =
    with_fields v JOURNAL_FIELDS ''recovery journal fields are missing or foreign'' (\<lambda>journal.
    return_if (\<not> sha256_text (get journal ''sha256'')) ''recovery journal requires an immutable SHA-256 identity'' (
    return_if (get journal ''created_before_mutation'' \<noteq> JBool True \<or> get journal ''initial_state'' \<noteq> JStr ''prepared''
        \<or> get journal ''final_state'' \<noteq> JStr ''closed'' \<or> get journal ''recovery_action'' \<noteq> JStr ''rollback-or-escalate'')
      ''recovery journal lifecycle is not exact'' (Inr (get journal ''sha256''))))"

definition check_receipt :: "json \<Rightarrow> dict \<Rightarrow> json res" where
  "check_receipt v metrics =
    with_fields v RECEIPT_FIELDS ''cleanup receipt fields are missing or foreign'' (\<lambda>receipt.
    return_if (\<not> sha256_text (get receipt ''sha256'') \<or> utc_time (get receipt ''completed_at'') = None)
      ''cleanup receipt identity or completion time is invalid'' (
    return_if (get receipt ''signals_deferred'' \<noteq> JBool True \<or> \<not> json_eq (get receipt ''rollback_count'') (JInt 1)
        \<or> \<not> json_eq (get receipt ''receipt_count'') (JInt 1) \<or> get receipt ''rollback_status'' \<noteq> JStr ''verified''
        \<or> \<not> json_eq (get receipt ''residue_orphans'') (JInt 0))
      ''cleanup receipt does not prove one rollback, one receipt, and no residue'' (
    bind (metric_exceeds (get receipt ''observed_cleanup_seconds'') (get metrics ''rto_seconds'')) (\<lambda>late.
    return_if late ''cleanup receipt exceeds the accepted RTO'' (Inr (get receipt ''sha256''))))))"

section \<open>Signals\<close>

definition signal_entry :: "dict \<Rightarrow> json \<Rightarrow> unit \<Rightarrow> unit res" where
  "signal_entry metrics v _ =
    with_fields v SIGNAL_FIELDS ''signal evidence fields are missing or foreign'' (\<lambda>evidence.
    (case get evidence ''name'' of
       JStr name \<Rightarrow>
         (case map_of SIGNAL_CASES name of
            None \<Rightarrow> Inl KeyError
          | Some sequence \<Rightarrow>
              return_if (get evidence ''signals'' \<noteq> JArr (map JStr sequence))
                ''signal evidence sequence is not exact'' (
              return_if (\<not> ordered_times evidence)
                ''signal evidence timestamps are absent, invalid, or reversed'' (
              return_if (\<not> json_eq (get evidence ''rollback_count'') (JInt 1)
                  \<or> \<not> json_eq (get evidence ''receipt_count'') (JInt 1)
                  \<or> \<not> json_eq (get evidence ''residue_orphans'') (JInt 0)
                  \<or> get evidence ''journal_final_state'' \<noteq> JStr ''closed'')
                ''signal evidence does not prove one rollback, one receipt, and no residue'' (
              bind (metric_exceeds (get evidence ''observed_cleanup_seconds'') (get metrics ''rto_seconds'')) (\<lambda>late.
              return_if late ''signal cleanup exceeds the accepted RTO'' (Inr ()))))))
     | _ \<Rightarrow> Inl KeyError))"

definition check_signals :: "json \<Rightarrow> dict \<Rightarrow> unit res" where
  "check_signals v metrics =
    (let reason = ''signal evidence cardinality is not exact'' in
     case v of
       JArr signal_evidence \<Rightarrow>
         return_if (length signal_evidence \<noteq> length SIGNAL_CASES) reason (
         bind (name_set signal_evidence) (\<lambda>signal_names.
         return_if (set signal_names \<noteq> JStr ` set (map fst SIGNAL_CASES))
           ''repeated and mixed signal evidence set is incomplete or widened'' (
         for_each (signal_entry metrics) signal_evidence ())))
     | _ \<Rightarrow> Inl (EarlyReturn reason))"

section \<open>Scenarios\<close>

text \<open>The identities every scenario repeats: the fault target, the receipt and the journal.\<close>

record bindings =
  bound_target :: json
  bound_receipt :: json
  bound_journal :: json
  bound_connector :: bool

definition quoted_name :: "dict \<Rightarrow> string" where
  "quoted_name scenario =
    (case get scenario ''name'' of JStr s \<Rightarrow> [CHR 0x27] @ s @ [CHR 0x27] | _ \<Rightarrow> [])"

definition check_observations :: "dict \<Rightarrow> dict \<Rightarrow> unit res" where
  "check_observations scenario metrics =
    bind (for_each (\<lambda>(observed, target) _.
        bind (metric_exceeds (get scenario observed) (get metrics target)) (\<lambda>worse.
        return_if worse (''scenario '' @ observed @ '' is invalid or exceeds acceptance'') (Inr ())))
      [(''observed_downtime_seconds'', ''expected_downtime_seconds''), (''observed_rto_seconds'', ''rto_seconds''),
       (''observed_readiness_seconds'', ''readiness_seconds'')] ()) (\<lambda>_.
    let availability = get scenario ''observed_availability_percent'' in
    bind (metric availability True) (\<lambda>ok.
    return_if (\<not> ok \<or> number_less availability (get metrics ''availability_percent''))
      ''scenario observed availability is invalid or below acceptance'' (Inr ())))"

definition scenario_entry :: "dict \<Rightarrow> bindings \<Rightarrow> json \<Rightarrow> unit \<Rightarrow> unit res" where
  "scenario_entry metrics b v _ =
    with_fields v SCENARIO_FIELDS ''scenario fields are missing or foreign'' (\<lambda>scenario.
    return_if (get scenario ''fault_target_uid'' \<noteq> bound_target b)
      ''scenario fault target does not bind the classified inventory UID'' (
    return_if (get scenario ''cleanup_receipt_sha256'' \<noteq> bound_receipt b)
      ''scenario cleanup receipt identity does not match'' (
    return_if (get scenario ''recovery_journal_sha256'' \<noteq> bound_journal b)
      ''scenario recovery journal identity does not match'' (
    bind (for_each (\<lambda>key _. return_if (\<not> sha256_text (get scenario key))
        (''scenario '' @ quoted_name scenario @ '' has no exact '' @ key) (Inr ()))
      [''prestate_sha256'', ''fault_sha256'', ''recovery_sha256'', ''poststate_sha256''] ()) (\<lambda>_.
    return_if (\<not> ordered_times scenario) ''scenario timestamps are absent, invalid, or reversed'' (
    bind (check_observations scenario metrics) (\<lambda>_.
    return_if (\<not> json_eq (get scenario ''residue_orphans'') (JInt 0) \<or> get scenario ''rollback_status'' \<noteq> JStr ''verified'')
      ''scenario residue or rollback is not clean'' (
    return_if (get scenario ''readiness_accepted'' \<noteq> JBool True \<or> get scenario ''availability_accepted'' \<noteq> JBool True)
      ''scenario acceptance is incomplete'' (
    return_if (bound_connector b \<and> get scenario ''public_https_recovered'' \<noteq> JBool True)
      ''connector scenario lacks public HTTPS recovery proof'' (Inr ()))))))))))"

definition check_scenarios :: "json \<Rightarrow> dict \<Rightarrow> bindings \<Rightarrow> unit res" where
  "check_scenarios v metrics b =
    (let reason = ''required destructive scenario set is incomplete or widened'' in
     case v of
       JArr scenarios \<Rightarrow>
         bind (name_set scenarios) (\<lambda>names.
         return_if (set names \<noteq> JStr ` set SCENARIOS) reason (
         return_if (length scenarios \<noteq> length SCENARIOS) ''scenario set contains duplicates'' (
         for_each (scenario_entry metrics b) scenarios ())))
     | _ \<Rightarrow> Inl (EarlyReturn reason))"

section \<open>The ledger\<close>

definition check_authority :: "dict \<Rightarrow> unit res" where
  "check_authority d =
    return_if (\<not> json_eq (get d ''schema_version'') (JInt 1)) ''schema_version must equal 1'' (
    return_if (get d ''authorization'' \<noteq> JStr ''explicit-owner-window'')
      ''ledger does not record explicit owner live-window authorization'' (
    return_if (get d ''classification'' \<noteq> JStr ''ephemeral-disposable'')
      ''only engineered ephemeral-disposable resources may use destructive ledger'' (
    return_if (get d ''externalized_state'' \<noteq> JBool True) ''durable state is not proven externalized'' (
    return_if (\<not> sha256_text (get d ''desired_state_sha256'') \<or> \<not> sha256_text (get d ''artifact_sha256''))
      ''desired state and artifact require immutable SHA-256 identities'' (Inr ())))))"

definition check_document :: "json \<Rightarrow> unit res" where
  "check_document document =
    with_fields document TOP_LEVEL_FIELDS ''ledger fields are missing or foreign'' (\<lambda>d.
    bind (check_authority d) (\<lambda>_.
    bind (check_inventory (get d ''inventory'')) (\<lambda>target.
    bind (check_exclusions (get d ''protected_exclusions'')) (\<lambda>_.
    bind (check_metrics (get d ''acceptance_metrics'')) (\<lambda>metrics.
    bind (check_guard (get d ''cleanup_guard'')) (\<lambda>_.
    bind (check_journal (get d ''recovery_journal'')) (\<lambda>journal_sha.
    bind (check_receipt (get d ''cleanup_receipt'') metrics) (\<lambda>receipt_sha.
    bind (check_signals (get d ''signal_evidence'') metrics) (\<lambda>_.
    let connector = get d ''cloudflare_connector'' in
    bind (check_scenarios (get d ''scenarios'') metrics
      \<lparr>bound_target = target, bound_receipt = receipt_sha, bound_journal = journal_sha,
       bound_connector = (connector = JBool True)\<rparr>) (\<lambda>_.
    return_if (\<not> is_bool connector) ''connector classification must be boolean'' (
    return_if (get d ''serialized_lane'' \<noteq> JBool True \<or> get d ''recreate_from_zero'' \<noteq> JBool True)
      ''serialization or clean recreate-from-zero proof is absent'' (Inr ()))))))))))))"

definition denial :: "json \<Rightarrow> string option res" where
  "denial document =
    (case check_document document of
       Inr _ \<Rightarrow> Inr None
     | Inl e \<Rightarrow> (case e of EarlyReturn reason \<Rightarrow> Inr (Some reason) | _ \<Rightarrow> Inl e))"

section \<open>The command line\<close>

datatype ledger_verdict = Allow | Deny string | Unreadable

definition ledger_caught :: "exc \<Rightarrow> bool" where
  "ledger_caught e \<longleftrightarrow> e = OSError \<or> is_value_error e"

text \<open>\<open>except (OSError, UnicodeDecodeError, json.JSONDecodeError, LedgerJSONError)\<close>.\<close>

definition ledger_main :: "float_text \<Rightarrow> string res \<Rightarrow> (nat \<times> ledger_verdict) res" where
  "ledger_main fl bytes =
    (case bind (bind bytes decode_utf8) (\<lambda>contents. decode_ledger fl (universal_newlines contents)) of
       Inl e \<Rightarrow> if ledger_caught e then Inr (1, Unreadable) else Inl e
     | Inr document \<Rightarrow>
         bind (denial document) (\<lambda>reason.
         Inr (case reason of None \<Rightarrow> (0, Allow) | Some r \<Rightarrow> (1, Deny r))))"

end
