(* ===== verification/DisposalProps.thy ===== *)
theory DisposalProps
  imports DisposalLedger
begin

text \<open>
  What an allowed ledger establishes, which exceptions can leave its check, and the
  complete ledger of the repository's tests.
\<close>

section \<open>Allowed ledgers\<close>

lemma denial_None: "denial v = Inr None \<longleftrightarrow> check_document v = Inr ()"
  by (simp add: denial_def split: sum.splits exc.splits)

lemma check_document_steps:
  assumes "check_document v = Inr u"
  obtains d target metrics journal_sha receipt_sha where "v = JObj d"
    "check_authority d = Inr ()" "check_inventory (get d ''inventory'') = Inr target"
    "check_exclusions (get d ''protected_exclusions'') = Inr ()"
    "check_metrics (get d ''acceptance_metrics'') = Inr metrics"
    "check_receipt (get d ''cleanup_receipt'') metrics = Inr receipt_sha"
    "check_journal (get d ''recovery_journal'') = Inr journal_sha"
    "check_signals (get d ''signal_evidence'') metrics = Inr ()"
    "check_scenarios (get d ''scenarios'') metrics
      \<lparr>bound_target = target, bound_receipt = receipt_sha, bound_journal = journal_sha,
       bound_connector = (get d ''cloudflare_connector'' = JBool True)\<rparr> = Inr ()"
  using assms unfolding check_document_def Let_def by auto

text \<open>One resource of the closed kinds.\<close>

definition ephemeral :: "dict \<Rightarrow> bool" where
  "ephemeral resource \<longleftrightarrow> keys_are resource INVENTORY_FIELDS
    \<and> list_all (\<lambda>key. nonempty_str (get resource key)) [''apiVersion'', ''kind'', ''namespace'', ''name'', ''uid'']
    \<and> (\<exists>(api, kind) \<in> set ALLOWED_EPHEMERAL_KINDS. get resource ''apiVersion'' = JStr api \<and> get resource ''kind'' = JStr kind)
    \<and> get resource ''scope'' = JStr ''Namespaced'' \<and> get resource ''classification'' = JStr ''ephemeral-workload''"

lemma inventory_entry_step:
  assumes "inventory_entry v t = Inr t'" and "d = dict_or_empty v"
  shows "v = JObj d \<and> ephemeral d \<and> get d ''uid'' \<notin> set (target_uids t)
    \<and> target_uids t' = target_uids t @ [get d ''uid'']
    \<and> fault_targets t' = fault_targets t @ (if get d ''fault_target'' = JBool True then [get d ''uid''] else [])"
proof -
  from assms(1) obtain e where v: "v = JObj e" unfolding inventory_entry_def by auto
  then have "e = d" by (simp add: assms(2))
  with assms(1) v show ?thesis unfolding inventory_entry_def Let_def ephemeral_def by auto
qed

definition uids :: "json list \<Rightarrow> json list" where
  "uids xs = map (\<lambda>v. get (dict_or_empty v) ''uid'') xs"

definition marked :: "json list \<Rightarrow> json list" where
  "marked xs = filter (\<lambda>v. get (dict_or_empty v) ''fault_target'' = JBool True) xs"

lemma inventory_loop:
  assumes "for_each inventory_entry xs t = Inr t'" and "distinct (target_uids t)"
  shows "list_all (\<lambda>v. is_object v \<and> ephemeral (dict_or_empty v)) xs \<and> distinct (target_uids t')
    \<and> target_uids t' = target_uids t @ uids xs \<and> fault_targets t' = fault_targets t @ uids (marked xs)"
  using assms
proof (induction xs arbitrary: t)
  case Nil
  then show ?case by (simp add: uids_def marked_def)
next
  case (Cons x xs)
  then obtain s where step: "inventory_entry x t = Inr s" and rest: "for_each inventory_entry xs s = Inr t'"
    by auto
  note facts = inventory_entry_step [OF step refl]
  then have "distinct (target_uids s)" using Cons.prems(2) by simp
  note ih = Cons.IH [OF rest this]
  from facts have "is_object x" by (metis is_object_simps)
  moreover have "distinct (target_uids t')" using ih by blast
  ultimately show ?case using ih facts by (auto simp only: list.pred_inject uids_def marked_def append_assoc append.simps list.map filter.simps split: if_splits)
qed

lemma check_inventory_facts:
  assumes "check_inventory v = Inr target"
  shows "\<exists>xs. v = JArr xs \<and> 1 \<le> length xs \<and> length xs \<le> MAX_INVENTORY
    \<and> list_all (\<lambda>v. is_object v \<and> ephemeral (dict_or_empty v)) xs \<and> distinct (uids xs) \<and> uids (marked xs) = [target]"
proof -
  from assms obtain xs t where v: "v = JArr xs" "1 \<le> length xs" "length xs \<le> MAX_INVENTORY"
    and loop: "for_each inventory_entry xs \<lparr>target_identities = [], target_uids = [], fault_targets = []\<rparr> = Inr t"
    and one: "length (fault_targets t) = 1" "target = hd (fault_targets t)"
    unfolding check_inventory_def Let_def by (auto simp: Suc_le_eq not_less)
  have "uids (marked xs) = [target]"
    using inventory_loop [OF loop] one by (cases "fault_targets t") (auto simp: length_Suc_conv)
  then show ?thesis using v inventory_loop [OF loop] by auto
qed

text \<open>A scenario bound to the fault target, whose observations stay within the accepted metrics.\<close>

definition number_at_most :: "json \<Rightarrow> json \<Rightarrow> bool" where
  "number_at_most v w \<longleftrightarrow> \<not> number_less w v"

definition within :: "dict \<Rightarrow> dict \<Rightarrow> bool" where
  "within metrics scenario \<longleftrightarrow>
    number_at_most (get scenario ''observed_downtime_seconds'') (get metrics ''expected_downtime_seconds'')
    \<and> number_at_most (get scenario ''observed_rto_seconds'') (get metrics ''rto_seconds'')
    \<and> number_at_most (get scenario ''observed_readiness_seconds'') (get metrics ''readiness_seconds'')
    \<and> number_at_most (get metrics ''availability_percent'') (get scenario ''observed_availability_percent'')"

lemma scenario_step:
  assumes "scenario_entry metrics b v u = Inr u'" and "d = dict_or_empty v"
  shows "v = JObj d \<and> within metrics d \<and> get d ''fault_target_uid'' = bound_target b \<and> ordered_times d
    \<and> json_eq (get d ''residue_orphans'') (JInt 0) \<and> get d ''rollback_status'' = JStr ''verified''"
proof -
  from assms(1) obtain e where v: "v = JObj e" unfolding scenario_entry_def by auto
  then have "e = d" by (simp add: assms(2))
  with assms(1) v show ?thesis
    unfolding scenario_entry_def check_observations_def metric_exceeds_def Let_def within_def number_at_most_def by auto
qed

lemma scenarios_loop:
  assumes "for_each (scenario_entry metrics b) xs u = Inr u'"
  shows "list_all (\<lambda>v. is_object v \<and> within metrics (dict_or_empty v) \<and> ordered_times (dict_or_empty v)
    \<and> get (dict_or_empty v) ''fault_target_uid'' = bound_target b) xs"
  using assms
proof (induction xs arbitrary: u)
  case Nil
  then show ?case by simp
next
  case (Cons x xs)
  then obtain s where step: "scenario_entry metrics b x u = Inr s" and rest: "for_each (scenario_entry metrics b) xs s = Inr u'"
    by auto
  note facts = scenario_step [OF step refl]
  moreover from facts have "is_object x" by (metis is_object_simps)
  ultimately show ?case using Cons.IH [OF rest] by simp
qed

lemma names_once:
  assumes "name_set xs = Inr names" and "set names = JStr ` set ss" and "length xs = length ss" and "distinct ss"
    and "list_all is_object xs"
  shows "names = map (\<lambda>v. get (dict_or_empty v) ''name'') xs \<and> distinct names"
proof -
  have "objects xs = map dict_or_empty xs"
    using assms(5) by (simp add: objects_def list_all_iff)
  with assms(1) have names: "names = map (\<lambda>v. get (dict_or_empty v) ''name'') xs"
    by (simp add: name_set_def Let_def comp_def split: if_splits)
  have "card (set names) = length ss"
    using assms(2,4) by (simp add: card_image inj_on_def distinct_card)
  then show ?thesis using names assms(3) by (simp add: card_distinct)
qed

text \<open>
  C25: what an allowed ledger is about.  At most 32 resources, all namespaced workloads of the six ephemeral kinds with
  different UIDs, exactly one of them the fault target; and each of the five scenarios exactly once, run against that
  target, with timestamps in order and every observation within the accepted metrics.
\<close>

theorem allowed_ledger_scope:
  assumes "denial (JObj d) = Inr None"
  shows "\<exists>resources target scenarios metrics.
    get d ''inventory'' = JArr resources \<and> length resources \<le> MAX_INVENTORY
    \<and> list_all (\<lambda>v. is_object v \<and> ephemeral (dict_or_empty v)) resources \<and> distinct (uids resources)
    \<and> uids (marked resources) = [target]
    \<and> get d ''acceptance_metrics'' = JObj metrics \<and> get d ''scenarios'' = JArr scenarios
    \<and> list_all (\<lambda>v. is_object v \<and> within metrics (dict_or_empty v) \<and> ordered_times (dict_or_empty v)
        \<and> get (dict_or_empty v) ''fault_target_uid'' = target) scenarios
    \<and> distinct (map (\<lambda>v. get (dict_or_empty v) ''name'') scenarios)
    \<and> set (map (\<lambda>v. get (dict_or_empty v) ''name'') scenarios) = JStr ` set SCENARIOS"
proof -
  from assms have "check_document (JObj d) = Inr ()" by (simp add: denial_None)
  then obtain target metrics journal_sha receipt_sha where
    inventory: "check_inventory (get d ''inventory'') = Inr target"
    and metrics: "check_metrics (get d ''acceptance_metrics'') = Inr metrics"
    and scenarios: "check_scenarios (get d ''scenarios'') metrics
      \<lparr>bound_target = target, bound_receipt = receipt_sha, bound_journal = journal_sha,
       bound_connector = (get d ''cloudflare_connector'' = JBool True)\<rparr> = Inr ()" (is "check_scenarios _ _ ?b = _")
    by (rule check_document_steps) simp
  from scenarios obtain xs names where xs: "get d ''scenarios'' = JArr xs" "name_set xs = Inr names"
      "set names = JStr ` set SCENARIOS" "length xs = length SCENARIOS"
    and loop: "for_each (scenario_entry metrics ?b) xs () = Inr ()"
    unfolding check_scenarios_def Let_def by auto
  note each = scenarios_loop [OF loop]
  have "distinct SCENARIOS" by (simp add: SCENARIOS_def)
  moreover have "list_all is_object xs" using each by (simp add: list_all_iff)
  ultimately have once: "names = map (\<lambda>v. get (dict_or_empty v) ''name'') xs \<and> distinct names"
    by (rule names_once [OF xs(2,3,4)])
  have "get d ''acceptance_metrics'' = JObj metrics"
    using metrics unfolding check_metrics_def by auto
  then show ?thesis
    using check_inventory_facts [OF inventory] each once xs(1,3) by (fastforce simp only: bindings.simps)
qed

section \<open>Exceptions\<close>

lemma errs_with_fields [errs]:
  "P (EarlyReturn reason) \<Longrightarrow> (\<And>d. errs P (k d)) \<Longrightarrow> errs P (with_fields v names reason k)"
  unfolding with_fields_def by (intro errs)

lemma errs_is_finite_number [errs]: "P OverflowError \<Longrightarrow> errs P (is_finite_number v)"
  unfolding is_finite_number_def by (auto intro!: errs split: json.splits pyfloat.splits)

lemma errs_name_set [errs]: "P TypeError \<Longrightarrow> errs P (name_set xs)"
  unfolding name_set_def Let_def by (intro errs)

definition ledger_escape :: "exc \<Rightarrow> bool" where
  "ledger_escape e \<longleftrightarrow> e = TypeError \<or> e = OverflowError \<or> (\<exists>reason. e = EarlyReturn reason)"

lemma ledger_escape_simps [simp]:
  "ledger_escape TypeError" "ledger_escape OverflowError" "ledger_escape (EarlyReturn reason)"
  by (simp_all add: ledger_escape_def)

lemma errs_metric [errs]: "errs ledger_escape (metric v percent)" "errs ledger_escape (metric_exceeds v w)"
  unfolding metric_exceeds_def metric_def by (intro errs; simp)+

lemma errs_targets [errs]: "errs ledger_escape (check_inventory v)"
  unfolding check_inventory_def inventory_entry_def Let_def by (intro errs errs_for_each; simp)

lemma errs_exclusions [errs]: "errs ledger_escape (check_exclusions v)"
  unfolding check_exclusions_def Let_def by (intro errs; simp)

lemma errs_metrics [errs]: "errs ledger_escape (check_metrics v)"
  unfolding check_metrics_def by (intro errs errs_for_each; simp)

lemma errs_guard [errs]: "errs ledger_escape (check_guard v)"
  unfolding check_guard_def by (intro errs; simp)

lemma errs_journal [errs]: "errs ledger_escape (check_journal v)"
  unfolding check_journal_def by (intro errs; simp)

lemma errs_receipt [errs]: "errs ledger_escape (check_receipt v metrics)"
  unfolding check_receipt_def by (intro errs; simp)

lemma errs_authority [errs]: "errs ledger_escape (check_authority d)"
  unfolding check_authority_def by (intro errs; simp)

lemma errs_scenarios [errs]: "errs ledger_escape (check_scenarios v metrics b)"
  unfolding check_scenarios_def scenario_entry_def check_observations_def Let_def split_def
  by (intro errs errs_for_each; simp)

text \<open>The names of the signal evidence are the keys of \<open>SIGNAL_CASES\<close> by then, so the subscript cannot raise.\<close>

lemma errs_signal_entry:
  assumes "is_object v \<Longrightarrow> get (dict_or_empty v) ''name'' \<in> JStr ` set (map fst SIGNAL_CASES)"
  shows "errs ledger_escape (signal_entry metrics v u)"
proof (cases "is_object v")
  case True
  with assms obtain name sequence where at: "get (dict_or_empty v) ''name'' = JStr name" "map_of SIGNAL_CASES name = Some sequence"
    by (auto dest: map_of_exists simp del: set_map)
  show ?thesis
    unfolding signal_entry_def with_fields_def at json.case option.case by (intro errs; simp)
next
  case False
  then show ?thesis unfolding signal_entry_def with_fields_def has_exact_fields_def by simp
qed

lemma errs_signals [errs]: "errs ledger_escape (check_signals v metrics)"
proof -
  have "errs ledger_escape (for_each (signal_entry metrics) xs ())"
    if names: "name_set xs = Inr names" "set names = JStr ` set (map fst SIGNAL_CASES)" for xs names
  proof (rule errs_for_each, rule errs_signal_entry)
    fix x
    assume "x \<in> set xs" and "is_object x"
    then have "get (dict_or_empty x) ''name'' \<in> set names"
      using names(1) by (force simp: name_set_def objects_def Let_def split: if_splits)
    then show "get (dict_or_empty x) ''name'' \<in> JStr ` set (map fst SIGNAL_CASES)" by (simp only: names(2))
  qed
  then show ?thesis unfolding check_signals_def Let_def by (intro errs; simp)
qed

text \<open>
  The failure modes of the check.  Whatever the document, \<open>denial\<close> answers with a reason or with none, or raises
  \<open>TypeError\<close> (an unhashable name or exclusion) or \<open>OverflowError\<close> (an integer beyond the range of a double); the
  subscripts into the closed tables never fail.
\<close>

theorem denial_failures: "errs (\<lambda>e. e = TypeError \<or> e = OverflowError) (denial v)"
proof -
  have "errs ledger_escape (check_document v)"
    unfolding check_document_def Let_def by (intro errs; simp)
  then show ?thesis
    by (auto simp: denial_def errs_def ledger_escape_def split: sum.splits exc.splits)
qed

text \<open>A complete ledger after the fixture of the repository's tests.\<close>

definition ledger_hash :: "char \<Rightarrow> json" where "ledger_hash c = JStr (replicate 64 c)"

definition sample_times :: "string \<Rightarrow> dict" where
  "sample_times finish = [(''started_at'', JStr ''2026-08-13T00:00:00Z''), (''completed_at'', JStr finish)]"

definition sample_scenario :: "string \<Rightarrow> json" where
  "sample_scenario name = JObj (sample_times ''2026-08-13T00:01:00Z'' @
    [(''prestate_sha256'', ledger_hash (CHR ''a'')), (''fault_sha256'', ledger_hash (CHR ''a'')),
     (''recovery_sha256'', ledger_hash (CHR ''a'')), (''poststate_sha256'', ledger_hash (CHR ''a'')),
     (''observed_downtime_seconds'', JInt 30), (''observed_rto_seconds'', JInt 60), (''observed_readiness_seconds'', JInt 20),
     (''observed_availability_percent'', JFloat (Fin 199 (-1))), (''residue_orphans'', JInt 0),
     (''rollback_status'', JStr ''verified''), (''readiness_accepted'', JBool True), (''availability_accepted'', JBool True),
     (''public_https_recovered'', JBool True), (''fault_target_uid'', JStr ''uid-1''),
     (''cleanup_receipt_sha256'', ledger_hash (CHR ''b'')), (''recovery_journal_sha256'', ledger_hash (CHR ''c'')),
     (''name'', JStr name)])"

definition sample_signal :: "string \<times> string list \<Rightarrow> json" where
  "sample_signal = (\<lambda>(name, signals). JObj (sample_times ''2026-08-13T00:00:30Z'' @
    [(''name'', JStr name), (''signals'', JArr (map JStr signals)), (''observed_cleanup_seconds'', JInt 30),
     (''rollback_count'', JInt 1), (''receipt_count'', JInt 1), (''residue_orphans'', JInt 0),
     (''journal_final_state'', JStr ''closed'')]))"

definition sample_resource :: "string \<Rightarrow> string \<Rightarrow> bool \<Rightarrow> json" where
  "sample_resource name uid target = JObj
    [(''apiVersion'', JStr ''apps/v1''), (''kind'', JStr ''Deployment''), (''namespace'', JStr ''edge''), (''name'', JStr name),
     (''uid'', JStr uid), (''scope'', JStr ''Namespaced''), (''classification'', JStr ''ephemeral-workload''),
     (''fault_target'', JBool target)]"

definition sample_ledger :: dict where
  "sample_ledger =
    [(''schema_version'', JInt 1), (''authorization'', JStr ''explicit-owner-window''),
     (''classification'', JStr ''ephemeral-disposable''), (''externalized_state'', JBool True),
     (''desired_state_sha256'', ledger_hash (CHR ''a'')), (''artifact_sha256'', ledger_hash (CHR ''a'')),
     (''inventory'', JArr [sample_resource ''connector'' ''uid-1'' True, sample_resource ''relay'' ''uid-2'' False]),
     (''protected_exclusions'', JArr (map JStr PROTECTED)),
     (''acceptance_metrics'', JObj
       [(''expected_downtime_seconds'', JInt 60), (''rto_seconds'', JInt 120), (''readiness_seconds'', JInt 30),
        (''availability_percent'', JFloat (Fin 99 0))]),
     (''cleanup_guard'', JObj
       [(''signals'', JArr (map JStr [''HUP'', ''INT'', ''TERM''])), (''reentry_policy'', JStr ''ignore-after-first''),
        (''rollback_limit'', JInt 1)]),
     (''cleanup_receipt'', JObj
       [(''sha256'', ledger_hash (CHR ''b'')), (''completed_at'', JStr ''2026-08-13T00:01:00Z''),
        (''observed_cleanup_seconds'', JInt 30), (''signals_deferred'', JBool True), (''rollback_count'', JInt 1),
        (''receipt_count'', JInt 1), (''rollback_status'', JStr ''verified''), (''residue_orphans'', JInt 0)]),
     (''recovery_journal'', JObj
       [(''sha256'', ledger_hash (CHR ''c'')), (''created_before_mutation'', JBool True), (''initial_state'', JStr ''prepared''),
        (''final_state'', JStr ''closed''), (''recovery_action'', JStr ''rollback-or-escalate'')]),
     (''signal_evidence'', JArr (map sample_signal SIGNAL_CASES)),
     (''scenarios'', JArr (map sample_scenario SCENARIOS)),
     (''cloudflare_connector'', JBool True), (''serialized_lane'', JBool True), (''recreate_from_zero'', JBool True)]"

definition sample_metrics :: dict where
  "sample_metrics = dict_or_empty (get sample_ledger ''acceptance_metrics'')"

definition sample_bindings :: bindings where
  "sample_bindings = \<lparr>bound_target = JStr ''uid-1'', bound_receipt = ledger_hash (CHR ''b''),
     bound_journal = ledger_hash (CHR ''c''), bound_connector = True\<rparr>"

lemma sample_scenario_passes: "scenario_entry sample_metrics sample_bindings (sample_scenario name) u = Inr ()"
  by code_simp

lemma sample_signals_pass: "check_signals (get sample_ledger ''signal_evidence'') sample_metrics = Inr ()"
  by code_simp

lemma sample_scenarios_pass: "check_scenarios (get sample_ledger ''scenarios'') sample_metrics sample_bindings = Inr ()"
proof -
  have loop: "for_each (scenario_entry sample_metrics sample_bindings) (map sample_scenario names) u = Inr ()" for names u
    by (induction names arbitrary: u) (simp_all add: sample_scenario_passes)
  have at: "get sample_ledger ''scenarios'' = JArr (map sample_scenario SCENARIOS)"
    by (simp add: sample_ledger_def)
  have names: "name_set (map sample_scenario SCENARIOS) = Inr (map JStr SCENARIOS)"
    by code_simp
  show ?thesis
    unfolding check_scenarios_def at Let_def json.case names bind_simps by (simp add: loop)
qed

lemma sample_parts:
  "keys_are sample_ledger TOP_LEVEL_FIELDS" "check_authority sample_ledger = Inr ()"
  "check_inventory (get sample_ledger ''inventory'') = Inr (JStr ''uid-1'')"
  "check_exclusions (get sample_ledger ''protected_exclusions'') = Inr ()"
  "check_metrics (get sample_ledger ''acceptance_metrics'') = Inr sample_metrics"
  "check_guard (get sample_ledger ''cleanup_guard'') = Inr ()"
  "check_journal (get sample_ledger ''recovery_journal'') = Inr (ledger_hash (CHR ''c''))"
  "check_receipt (get sample_ledger ''cleanup_receipt'') sample_metrics = Inr (ledger_hash (CHR ''b''))"
  "get sample_ledger ''cloudflare_connector'' = JBool True" "get sample_ledger ''serialized_lane'' = JBool True"
  "get sample_ledger ''recreate_from_zero'' = JBool True"
  by code_simp+

lemma sample_allowed: "denial (JObj sample_ledger) = Inr None"
proof -
  have "check_document (JObj sample_ledger) = Inr ()"
    unfolding check_document_def with_fields_def has_exact_fields_def
    by (simp add: sample_parts sample_signals_pass sample_scenarios_pass [unfolded sample_bindings_def])
  then show ?thesis by (simp add: denial_None)
qed

text \<open>Both exceptions occur: a scenario whose name is a list, and an integer beyond the range of a double.\<close>

lemma unhashable_name: "check_scenarios (JArr [JObj [(''name'', JArr [])]]) metrics b = Inl TypeError"
  by (simp add: check_scenarios_def name_set_def objects_def Let_def)

lemma huge_number: "metric (JInt (2 ^ 1024)) percent = Inl OverflowError"
  by (simp add: metric_def is_finite_number_def)

theorem allowed_ledger_scope_witness:
  "\<exists>resources target. get sample_ledger ''inventory'' = JArr resources \<and> distinct (uids resources)
    \<and> uids (marked resources) = [target]"
  using allowed_ledger_scope [OF sample_allowed] by blast

end
