(* ===== verification/PrFlow.thy ===== *)
theory PrFlow
  imports PyJson "HOL-Library.List_Lexorder"
begin

text \<open>
  scripts/validate_pr_flow.py: which branch names, push refspecs and operations the pull
  request flow may use.  Every rule is a denial reason or none.  An argument is a JSON value
  because the functions test its type.
\<close>

section \<open>The reviewed names\<close>

definition PROTECTED_BRANCHES :: "string list" where
  "PROTECTED_BRANCHES = [''main'', ''master'', ''HEAD'']"

definition AGENT_LANES :: "string list" where
  "AGENT_LANES = [''5.6-sol'', ''daybreak-blue'', ''fable5'', ''opus4.8'', ''opus5'', ''sonnet5'']"

definition REASONING_EFFORTS :: "string list" where
  "REASONING_EFFORTS = [''low'', ''med'', ''high'', ''max'']"

definition GENERIC_NAMESPACES :: "string list" where
  "GENERIC_NAMESPACES =
    [''deploy/'', ''import/'', ''ci/'', ''docs/'', ''feat/'', ''fix/'', ''chore/'', ''media/'']"

definition ALLOWED_NAMESPACES :: "string list" where
  "ALLOWED_NAMESPACES =
    map (\<lambda>lane. lane @ ''/'') AGENT_LANES
    @ concat (map (\<lambda>lane. map (\<lambda>effort. lane @ ''-'' @ effort @ ''/'') REASONING_EFFORTS) AGENT_LANES)
    @ GENERIC_NAMESPACES"

section \<open>Shapes\<close>

text \<open>
  \<open>^[a-z0-9][a-z0-9._/-]*$\<close> under \<open>match\<close>: the dollar sign also matches before a line feed that ends the text.
\<close>

definition branch_char :: "char \<Rightarrow> bool" where
  "branch_char c = (byte_in 97 122 c \<or> is_digit c \<or> c \<in> set ''._/-'')"

definition at_dollar :: "string \<Rightarrow> bool" where
  "at_dollar rest = (rest = [] \<or> rest = [CHR 0x0A])"

definition branch_shape :: "string \<Rightarrow> bool" where
  "branch_shape s =
    (case s of
       [] \<Rightarrow> False
     | c # t \<Rightarrow> (byte_in 97 122 c \<or> is_digit c) \<and> at_dollar (dropWhile branch_char t))"

text \<open>\<open>^[0-9]+-[a-z0-9]\<close>, a prefix of the text.\<close>

definition issue_topic :: "string \<Rightarrow> bool" where
  "issue_topic s =
    (takeWhile is_digit s \<noteq> []
     \<and> (case dropWhile is_digit s of
          dash # c # _ \<Rightarrow> dash = CHR ''-'' \<and> (byte_in 97 122 c \<or> is_digit c)
        | _ \<Rightarrow> False))"

section \<open>Lanes\<close>

text \<open>A lane, the effort of a dispatched branch, and what follows the first segment.\<close>

type_synonym ownership = "string \<times> string option \<times> string"

definition lane_effort :: "string \<Rightarrow> string \<Rightarrow> string option option" where
  "lane_effort head lane =
    (if head = lane then Some None
     else if startswith head (lane @ ''-'')
          then (let effort = drop (length lane + 1) head
                in if effort \<in> set REASONING_EFFORTS then Some (Some effort) else None)
          else None)"

text \<open>The loop over the lanes: the first that explains the segment.\<close>

fun first_lane :: "string \<Rightarrow> string \<Rightarrow> string list \<Rightarrow> ownership option" where
  "first_lane head remainder [] = None"
| "first_lane head remainder (lane # lanes) =
    (case lane_effort head lane of
       Some effort \<Rightarrow> Some (lane, effort, remainder)
     | None \<Rightarrow> first_lane head remainder lanes)"

text \<open>\<open>sorted(lanes, key=len, reverse=True)\<close> is stable, and lanes are ASCII.\<close>

definition longest_first :: "string list \<Rightarrow> string list" where
  "longest_first lanes = sort_key (\<lambda>lane. - int (length lane)) lanes"

definition parse_lane :: "string \<Rightarrow> string list \<Rightarrow> ownership option" where
  "parse_lane name lanes =
    (case split_first (CHR ''/'') name of
       None \<Rightarrow> None
     | Some (head, remainder) \<Rightarrow> first_lane head remainder (longest_first lanes))"

definition FORBIDDEN_AGENT_OPERATIONS :: "string list" where
  "FORBIDDEN_AGENT_OPERATIONS =
    [''merge'', ''auto-merge'', ''squash-merge'', ''rebase-main'', ''push-main'', ''force-push'', ''delete-ref'',
     ''create-tag'', ''ready-author'', ''ready-reviewer'']"

section \<open>Denials\<close>

abbreviation deny_when :: "bool \<Rightarrow> string \<Rightarrow> string option \<Rightarrow> string option" where
  "deny_when c reason k \<equiv> (if c then Some reason else k)"

text \<open>\<open>namespace.rstrip("/")\<close>.\<close>

definition strip_slashes :: "string \<Rightarrow> string" where
  "strip_slashes s = rev (dropWhile (\<lambda>c. c = CHR ''/'') (rev s))"

definition branch_denial :: "json \<Rightarrow> string option" where
  "branch_denial v =
    (case v of
       JStr name \<Rightarrow>
         deny_when (name = []) ''branch name is empty'' (
         deny_when (name \<in> set PROTECTED_BRANCHES) ''protected branch may not be authored directly'' (
         deny_when (\<not> branch_shape name) ''branch name has unsafe shape'' (
         deny_when (endswith name ''/'' \<or> contains name ''//'' \<or> contains name ''..'' \<or> endswith name ''.lock'')
           ''branch name has unsafe shape'' (
         case parse_lane name AGENT_LANES of
           None \<Rightarrow>
             deny_when (\<not> list_ex (startswith name) GENERIC_NAMESPACES) ''branch name is outside the reviewed namespaces'' (
             deny_when (list_ex (\<lambda>namespace. name = strip_slashes namespace) GENERIC_NAMESPACES)
               ''branch name is a bare namespace'' None)
         | Some (_, effort, remainder) \<Rightarrow>
             deny_when (remainder = []) ''branch name is a bare namespace'' (
             deny_when (effort \<noteq> None \<and> \<not> issue_topic remainder)
               ''effort-tagged branch must be <lane>-<effort>/<issue#>-<topic>'' None)))))
     | _ \<Rightarrow> Some ''branch name is empty'')"

definition refspec_denial :: "json \<Rightarrow> json \<Rightarrow> string option" where
  "refspec_denial v current_branch =
    (case v of
       JStr refspec \<Rightarrow>
         deny_when (refspec = []) ''refspec is empty'' (
         deny_when (startswith refspec ''+'') ''force push is never allowed'' (
         deny_when (startswith refspec '':'' \<or> endswith refspec '':'') ''ref deletion is never allowed'' (
         let (source, destination) =
           (case split_first (CHR '':'') refspec of None \<Rightarrow> (refspec, refspec) | Some (s, d) \<Rightarrow> (s, d)) in
         deny_when (CHR ''*'' \<in> set refspec) ''wildcard refspecs are never allowed'' (
         deny_when (startswith destination ''refs/'' \<and> \<not> startswith destination ''refs/heads/'')
           ''only branch refs may be pushed'' (
         let plain_destination = removeprefix destination ''refs/heads/'';
             plain_source = removeprefix source ''refs/heads/'' in
         deny_when (plain_destination \<in> set PROTECTED_BRANCHES) ''pushing to a protected branch is never allowed'' (
         deny_when (plain_source \<noteq> plain_destination) ''source and destination branch must match'' (
         case branch_denial (JStr plain_destination) of
           Some denied \<Rightarrow> Some denied
         | None \<Rightarrow>
             deny_when (JStr plain_destination \<noteq> current_branch)
               ''only the currently checked-out work branch may be pushed'' None)))))))
     | _ \<Rightarrow> Some ''refspec is empty'')"

definition operation_denial :: "json \<Rightarrow> string option" where
  "operation_denial v =
    (case v of
       JStr operation \<Rightarrow>
         deny_when (operation = []) ''operation is empty'' (
         deny_when (operation \<in> set FORBIDDEN_AGENT_OPERATIONS) ''operation is reserved to the owner or coordinator'' (
         deny_when (operation \<notin> set [''author'', ''review'', ''comment'', ''draft-pr'', ''push-work-branch''])
           ''operation is unknown and therefore denied'' None))
     | _ \<Rightarrow> Some ''operation is empty'')"

section \<open>The command line\<close>

text \<open>The exit code and the text printed; \<open>argv\<close> starts with the name of the script.\<close>

definition usage_text :: string where
  "usage_text = ''usage: validate_pr_flow.py branch <name> | '' @ ''refspec <refspec> <current-branch> | operation <name>''"

definition denied_exit :: "string option \<Rightarrow> nat \<times> string" where
  "denied_exit denial = (case denial of Some reason \<Rightarrow> (1, ''DENY: '' @ reason) | None \<Rightarrow> (0, ''ALLOW''))"

definition pr_flow_main :: "string list \<Rightarrow> nat \<times> string" where
  "pr_flow_main argv =
    (case argv of
       [_, command, a] \<Rightarrow>
         if command = ''branch'' then denied_exit (branch_denial (JStr a))
         else if command = ''operation'' then denied_exit (operation_denial (JStr a))
         else (2, usage_text)
     | [_, command, a, b] \<Rightarrow>
         if command = ''refspec'' then denied_exit (refspec_denial (JStr a) (JStr b)) else (2, usage_text)
     | _ \<Rightarrow> (2, usage_text))"

text \<open>
  What the pull request rules let through: exactly the forced-free spellings of one work branch
  under a reviewed namespace, and the lane a branch name belongs to.
\<close>

section \<open>Lanes\<close>

definition effort_suffix :: "string option \<Rightarrow> string" where
  "effort_suffix effort = (case effort of None \<Rightarrow> [] | Some e \<Rightarrow> CHR ''-'' # e)"

text \<open>The name is \<open><lane>/<rest>\<close> or \<open><lane>-<effort>/<rest>\<close>.\<close>

definition explains :: "string \<Rightarrow> string option \<Rightarrow> string \<Rightarrow> string \<Rightarrow> bool" where
  "explains lane effort remainder name \<longleftrightarrow>
    name = lane @ effort_suffix effort @ CHR ''/'' # remainder \<and> CHR ''/'' \<notin> set lane
    \<and> pred_option (\<lambda>e. e \<in> set REASONING_EFFORTS) effort"

definition claimed :: "string \<Rightarrow> string \<Rightarrow> bool" where
  "claimed name lane \<longleftrightarrow> (\<exists>effort remainder. explains lane effort remainder name)"

lemma efforts_flat: "e \<in> set REASONING_EFFORTS \<Longrightarrow> CHR ''/'' \<notin> set e"
  by (auto simp: REASONING_EFFORTS_def)

lemma lane_effort_iff:
  "lane_effort head lane = Some effort \<longleftrightarrow>
    head = lane @ effort_suffix effort \<and> pred_option (\<lambda>e. e \<in> set REASONING_EFFORTS) effort"
proof (cases effort)
  case None
  then show ?thesis by (auto simp: lane_effort_def effort_suffix_def Let_def)
next
  case (Some e)
  show ?thesis
  proof
    assume "lane_effort head lane = Some effort"
    with Some have "startswith head (lane @ ''-'')" "e = drop (length lane + 1) head" "e \<in> set REASONING_EFFORTS"
      by (auto simp: lane_effort_def Let_def split: if_splits)
    then show "head = lane @ effort_suffix effort \<and> pred_option (\<lambda>e. e \<in> set REASONING_EFFORTS) effort"
      using Some by (auto simp: startswith_iff effort_suffix_def)
  next
    assume "head = lane @ effort_suffix effort \<and> pred_option (\<lambda>e. e \<in> set REASONING_EFFORTS) effort"
    with Some show "lane_effort head lane = Some effort"
      by (simp add: lane_effort_def effort_suffix_def startswith_iff Let_def)
  qed
qed

lemma first_lane_None: "first_lane head remainder lanes = None \<longleftrightarrow> list_all (\<lambda>lane. lane_effort head lane = None) lanes"
  by (induction lanes) (auto split: option.splits)

lemma first_lane_Some:
  assumes "first_lane head remainder lanes = Some (lane, effort, r)"
  shows "r = remainder \<and> lane_effort head lane = Some effort
    \<and> (\<exists>xs ys. lanes = xs @ lane # ys \<and> list_all (\<lambda>x. lane_effort head x = None) xs)"
  using assms
proof (induction lanes)
  case Nil
  then show ?case by simp
next
  case (Cons l ls)
  show ?case
  proof (cases "lane_effort head l")
    case None
    with Cons obtain xs ys where "r = remainder" "lane_effort head lane = Some effort"
      "ls = xs @ lane # ys" "list_all (\<lambda>x. lane_effort head x = None) xs" by auto
    with None have "l # ls = (l # xs) @ lane # ys \<and> list_all (\<lambda>x. lane_effort head x = None) (l # xs)" by simp
    with \<open>r = remainder\<close> \<open>lane_effort head lane = Some effort\<close> show ?thesis by blast
  next
    case (Some e)
    with Cons.prems have "l = lane" "r = remainder" "e = effort" by auto
    with Some have "l # ls = [] @ lane # ls" "lane_effort head lane = Some effort" by auto
    with \<open>r = remainder\<close> show ?thesis by fastforce
  qed
qed

lemma claimed_iff:
  assumes "split_first (CHR ''/'') name = Some (head, rest)"
  shows "claimed name lane \<longleftrightarrow> (\<exists>effort. lane_effort head lane = Some effort)"
proof -
  from split_first_Some [OF assms] have name: "name = head @ CHR ''/'' # rest" and flat: "CHR ''/'' \<notin> set head" by simp_all
  have "head = lane @ effort_suffix effort \<and> r = rest" if "explains lane effort r name" for effort r
  proof -
    have "CHR ''/'' \<notin> set (lane @ effort_suffix effort)"
      using that efforts_flat by (auto simp: explains_def effort_suffix_def split: option.splits)
    moreover have "name = (lane @ effort_suffix effort) @ CHR ''/'' # r" using that by (simp add: explains_def)
    ultimately have "split_first (CHR ''/'') name = Some (lane @ effort_suffix effort, r)"
      using split_first_append [of "CHR ''/''" "lane @ effort_suffix effort" r] by simp
    with assms show ?thesis by simp
  qed
  moreover have "explains lane effort rest name" if "lane_effort head lane = Some effort" for effort
    using that name flat by (auto simp: lane_effort_iff explains_def)
  ultimately show ?thesis unfolding claimed_def lane_effort_iff explains_def by blast
qed

lemma claimed_no_slash: "split_first (CHR ''/'') name = None \<Longrightarrow> \<not> claimed name lane"
proof
  assume none: "split_first (CHR ''/'') name = None" and "claimed name lane"
  then have "CHR ''/'' \<in> set name" by (auto simp: claimed_def explains_def)
  then obtain a b where "name = a @ CHR ''/'' # b" "CHR ''/'' \<notin> set a" by (meson split_list_first)
  with none show False by (simp add: split_first_append)
qed

lemma sorted_prefix:
  assumes "sorted (map f (xs @ x # ys))" and "y \<in> set ys"
  shows "f x \<le> f y"
  using assms by (auto simp: sorted_append)

lemma parse_lane_explains:
  assumes "parse_lane name lanes = Some (lane, effort, remainder)"
  shows "lane \<in> set lanes \<and> explains lane effort remainder name"
proof -
  from assms obtain head rest where split: "split_first (CHR ''/'') name = Some (head, rest)"
    and first: "first_lane head rest (longest_first lanes) = Some (lane, effort, remainder)"
    by (auto simp: parse_lane_def split: option.splits)
  from first_lane_Some [OF first] have "remainder = rest" "lane_effort head lane = Some effort"
    and "lane \<in> set (longest_first lanes)" by auto
  then show ?thesis
    using split_first_Some [OF split] by (auto simp: lane_effort_iff explains_def longest_first_def)
qed

text \<open>
  who owns a branch.  Whatever the registry, the name is assigned to the longest registered lane that explains it, with
  the effort and the rest of the explanation, and to no lane only if none explains it.
\<close>

theorem lane_is_longest:
  "case parse_lane name lanes of
     None \<Rightarrow> filter (claimed name) lanes = []
   | Some (lane, effort, remainder) \<Rightarrow>
       lane \<in> set lanes \<and> explains lane effort remainder name
       \<and> list_all (\<lambda>other. length other \<le> length lane) (filter (claimed name) lanes)"
proof (cases "split_first (CHR ''/'') name")
  case None
  then show ?thesis using claimed_no_slash by (simp add: parse_lane_def filter_empty_conv)
next
  case (Some parts)
  obtain head rest where parts: "parts = (head, rest)" by (cases parts)
  note split = Some [unfolded parts]
  from split_first_Some [OF split] have name: "name = head @ CHR ''/'' # rest" and flat: "CHR ''/'' \<notin> set head" by simp_all
  show ?thesis
  proof (cases "first_lane head rest (longest_first lanes)")
    case none: None
    then have "list_all (\<lambda>lane. lane_effort head lane = None) (longest_first lanes)" by (simp add: first_lane_None)
    then have "\<not> claimed name lane" if "lane \<in> set lanes" for lane
      using that unfolding claimed_iff [OF split] by (auto simp: list_all_iff longest_first_def)
    then show ?thesis using split none by (simp add: parse_lane_def filter_empty_conv)
  next
    case (Some found)
    obtain lane effort r where found: "found = (lane, effort, r)" by (cases found)
    from first_lane_Some [OF Some [unfolded found]] obtain xs ys where r: "r = rest"
      and eff: "lane_effort head lane = Some effort" and lanes: "longest_first lanes = xs @ lane # ys"
      and skipped: "list_all (\<lambda>x. lane_effort head x = None) xs" by blast
    have "sorted (map (\<lambda>lane. - int (length lane)) (xs @ lane # ys))"
      unfolding lanes [symmetric] by (simp add: longest_first_def)
    note after = sorted_prefix [OF this]
    have all: "set lanes = set (xs @ lane # ys)" unfolding lanes [symmetric] by (simp add: longest_first_def)
    have "length other \<le> length lane" if "other \<in> set lanes" "claimed name other" for other
    proof -
      have "lane_effort head other \<noteq> None" using that(2) claimed_iff [OF split] by simp
      then have "other \<notin> set xs" using skipped by (auto simp: list_all_iff)
      with that(1) all have "other = lane \<or> other \<in> set ys" by auto
      then show ?thesis using after by fastforce
    qed
    moreover have result: "parse_lane name lanes = Some (lane, effort, rest)"
      using split Some by (simp add: parse_lane_def found r)
    ultimately show ?thesis using parse_lane_explains [OF result] by (simp add: list_all_iff)
  qed
qed

section \<open>Work branches\<close>

lemma branch_allowed_lane:
  assumes "parse_lane name AGENT_LANES = Some (lane, effort, remainder)"
  shows "list_ex (startswith name) ALLOWED_NAMESPACES"
proof -
  from parse_lane_explains [OF assms] have lane: "lane \<in> set AGENT_LANES"
    and ex: "explains lane effort remainder name" by simp_all
  let ?ns = "lane @ effort_suffix effort @ ''/''"
  have "?ns \<in> set ALLOWED_NAMESPACES"
  proof (cases effort)
    case None
    with lane show ?thesis by (simp add: ALLOWED_NAMESPACES_def effort_suffix_def)
  next
    case (Some e)
    with ex have "e \<in> set REASONING_EFFORTS" by (simp add: explains_def)
    with lane Some show ?thesis by (auto simp: ALLOWED_NAMESPACES_def effort_suffix_def)
  qed
  moreover have "startswith name ?ns" using ex by (simp add: explains_def startswith_iff)
  ultimately show ?thesis unfolding list_ex_iff by blast
qed

lemma branch_allowed:
  assumes "branch_denial (JStr name) = None"
  shows "list_ex (startswith name) ALLOWED_NAMESPACES \<and> branch_shape name \<and> name \<notin> set PROTECTED_BRANCHES"
proof -
  have shape: "branch_shape name \<and> name \<notin> set PROTECTED_BRANCHES"
    using assms by (simp add: branch_denial_def split: if_splits)
  show ?thesis
  proof (cases "parse_lane name AGENT_LANES")
    case None
    with assms have "list_ex (startswith name) GENERIC_NAMESPACES"
      by (simp add: branch_denial_def split: if_splits)
    then show ?thesis using shape by (auto simp: ALLOWED_NAMESPACES_def list_ex_iff)
  next
    case (Some p)
    then show ?thesis using shape branch_allowed_lane by (cases p) auto
  qed
qed

lemma namespaces_not_refs: "list_all (\<lambda>ns. ns \<noteq> [] \<and> hd ns \<noteq> CHR ''r'') ALLOWED_NAMESPACES"
  by code_simp

lemma allowed_not_refs:
  assumes "branch_denial (JStr name) = None"
  shows "\<not> startswith name ''refs/''"
proof
  assume refs: "startswith name ''refs/''"
  from branch_allowed [OF assms] obtain ns where ns: "ns \<in> set ALLOWED_NAMESPACES" "startswith name ns"
    by (auto simp: list_ex_iff)
  obtain t t' where "name = ns @ t" "name = ''refs/'' @ t'"
    using ns(2) refs unfolding startswith_iff by blast
  moreover have "ns \<noteq> [] \<and> hd ns \<noteq> CHR ''r''" using ns(1) namespaces_not_refs by (auto simp: list_all_iff)
  ultimately show False by (cases ns) auto
qed

lemma shape_chars:
  assumes "branch_shape name" and "c \<in> set name"
  shows "branch_char c \<or> c = CHR 0x0A"
proof -
  from assms(1) obtain d t where name: "name = d # t" and first: "branch_char d" and rest: "at_dollar (dropWhile branch_char t)"
    by (auto simp: branch_shape_def branch_char_def split: list.splits)
  have "set t \<subseteq> set (takeWhile branch_char t) \<union> set (dropWhile branch_char t)"
    by (metis set_append subset_refl takeWhile_dropWhile_id)
  then show ?thesis
    using assms(2) name first rest by (auto simp: at_dollar_def dest!: set_takeWhileD)
qed

section \<open>Pushes\<close>

definition head_ref :: "string \<Rightarrow> string" where "head_ref branch = ''refs/heads/'' @ branch"

text \<open>The spellings of a push of a branch to itself.\<close>

definition self_pushes :: "string \<Rightarrow> string list" where
  "self_pushes branch =
    (let names = [branch, head_ref branch] in
     names @ concat (map (\<lambda>source. map (\<lambda>destination. source @ '':'' @ destination) names) names))"

lemma plain_names: "\<not> startswith b ''refs/'' \<Longrightarrow> removeprefix s ''refs/heads/'' = b \<longleftrightarrow> s = b \<or> s = head_ref b"
  by (auto simp: removeprefix_def head_ref_def startswith_iff)

lemma split_colon_iff:
  "split_first (CHR '':'') s = Some (a, b) \<longleftrightarrow> s = a @ '':'' @ b \<and> CHR '':'' \<notin> set a"
  using split_first_Some split_first_append by fastforce

lemma split_colon_None: "split_first (CHR '':'') s = None \<longleftrightarrow> CHR '':'' \<notin> set s"
  by (induction s) auto

lemma allowed_chars:
  assumes "branch_denial (JStr b) = None"
  shows "CHR '':'' \<notin> set b \<and> CHR ''*'' \<notin> set b \<and> b \<noteq> [] \<and> hd b \<noteq> CHR ''+''"
proof -
  have shape: "branch_shape b" using branch_allowed [OF assms] by simp
  then obtain d t where b: "b = d # t" and first: "byte_in 97 122 d \<or> is_digit d"
    by (auto simp: branch_shape_def split: list.splits)
  have "\<not> branch_char (CHR '':'')" "\<not> branch_char (CHR ''*'')" by code_simp+
  then have "CHR '':'' \<notin> set b" "CHR ''*'' \<notin> set b" using shape_chars [OF shape] by fastforce+
  moreover have "d \<noteq> CHR ''+''" using first by (auto simp: is_digit_def byte_in_def)
  ultimately show ?thesis using b by simp
qed

lemma refspec_allowed_iff:
  assumes "refspec \<noteq> []" and "\<not> startswith refspec ''+''" and "\<not> startswith refspec '':''" and "\<not> endswith refspec '':''"
    and "(source, destination) = (case split_first (CHR '':'') refspec of None \<Rightarrow> (refspec, refspec) | Some (s, d) \<Rightarrow> (s, d))"
  shows "refspec_denial (JStr refspec) current = None \<longleftrightarrow>
    CHR ''*'' \<notin> set refspec \<and> \<not> (startswith destination ''refs/'' \<and> \<not> startswith destination ''refs/heads/'')
    \<and> removeprefix source ''refs/heads/'' = removeprefix destination ''refs/heads/''
    \<and> branch_denial (JStr (removeprefix destination ''refs/heads/'')) = None
    \<and> JStr (removeprefix destination ''refs/heads/'') = current"
  using assms branch_allowed [of "removeprefix destination ''refs/heads/''"]
  by (auto simp: refspec_denial_def Let_def split: prod.splits option.splits if_splits)

lemma hd_startswith: "startswith s [c] \<longleftrightarrow> s \<noteq> [] \<and> hd s = c"
  by (cases s) (auto simp: startswith_def)

lemma last_endswith: "endswith s [c] \<longleftrightarrow> s \<noteq> [] \<and> c = List.last s"
  by (cases s rule: rev_cases) (auto simp: endswith_def)

text \<open>What both names of an allowed branch share.\<close>

lemma self_name:
  assumes "branch_denial (JStr b) = None" and "x \<in> {b, head_ref b}"
  shows "x \<noteq> [] \<and> hd x \<noteq> CHR ''+'' \<and> CHR '':'' \<notin> set x \<and> CHR ''*'' \<notin> set x
    \<and> removeprefix x ''refs/heads/'' = b \<and> (startswith x ''refs/'' \<longrightarrow> startswith x ''refs/heads/'')"
proof -
  have plain: "removeprefix x ''refs/heads/'' = b" using assms(2) plain_names [OF allowed_not_refs [OF assms(1)]] by blast
  from assms(2) consider "x = b" | "x = ''refs/heads/'' @ b" by (auto simp: head_ref_def)
  then show ?thesis
    using allowed_chars [OF assms(1)] allowed_not_refs [OF assms(1)] plain by cases (simp_all add: startswith_def)
qed

lemma self_push_denied:
  assumes "branch_denial (JStr b) = None" and "refspec \<in> set (self_pushes b)"
  shows "refspec_denial (JStr refspec) (JStr b) = None"
proof -
  note facts = self_name [OF assms(1)]
  from assms(2) consider (one) "refspec \<in> {b, head_ref b}"
    | (two) x y where "refspec = x @ '':'' @ y" "x \<in> {b, head_ref b}" "y \<in> {b, head_ref b}"
    by (auto simp: self_pushes_def Let_def)
  then show ?thesis
  proof cases
    case one
    note here = facts [OF one]
    have "split_first (CHR '':'') refspec = None" using here by (simp add: split_colon_None)
    moreover have "List.last refspec \<noteq> CHR '':''" "hd refspec \<noteq> CHR '':''" using here by (auto dest: last_in_set hd_in_set)
    ultimately show ?thesis
      using here assms(1) by (subst refspec_allowed_iff [where source = refspec and destination = refspec])
        (auto simp: hd_startswith last_endswith)
  next
    case two
    note x = facts [OF two(2)] and y = facts [OF two(3)]
    have "split_first (CHR '':'') refspec = Some (x, y)" using x two(1) by (simp add: split_colon_iff)
    moreover have "hd refspec = hd x" using x two(1) by simp
    moreover have "List.last refspec = List.last y" using y two(1) by simp
    moreover have "hd x \<noteq> CHR '':''" "List.last y \<noteq> CHR '':''" using x y by (auto dest: last_in_set hd_in_set)
    ultimately show ?thesis
      using x y two(1) assms(1) by (subst refspec_allowed_iff [where source = x and destination = y])
        (auto simp: hd_startswith last_endswith)
  qed
qed

lemma push_denied_self:
  assumes "refspec_denial (JStr refspec) (JStr b) = None"
  shows "branch_denial (JStr b) = None \<and> refspec \<in> set (self_pushes b)"
proof -
  obtain source destination where parts:
    "(source, destination) = (case split_first (CHR '':'') refspec of None \<Rightarrow> (refspec, refspec) | Some (s, d) \<Rightarrow> (s, d))"
    by (metis surj_pair)
  have guards: "refspec \<noteq> []" "\<not> startswith refspec ''+''" "\<not> startswith refspec '':''" "\<not> endswith refspec '':''"
    using assms by (auto simp: refspec_denial_def split: if_splits)
  from assms have plain: "removeprefix source ''refs/heads/'' = b" "removeprefix destination ''refs/heads/'' = b"
    and allowed: "branch_denial (JStr b) = None"
    unfolding refspec_allowed_iff [OF guards parts] by auto
  have names: "source \<in> {b, head_ref b}" "destination \<in> {b, head_ref b}"
    using plain plain_names [OF allowed_not_refs [OF allowed]] by auto
  show ?thesis
  proof (cases "split_first (CHR '':'') refspec")
    case None
    with parts names allowed show ?thesis by (auto simp: self_pushes_def Let_def)
  next
    case (Some p)
    with parts have "refspec = source @ '':'' @ destination" by (cases p) (simp add: split_colon_iff)
    with names allowed show ?thesis by (auto simp: self_pushes_def Let_def)
  qed
qed

text \<open>
  C26: what an agent may push.  A refspec is allowed exactly when it is one of the six spellings of a push of the current
  branch to itself and the branch is an allowed work branch: no force, no deletion, no wildcard, no tag and no other branch.
\<close>

theorem push_is_own_branch:
  "refspec_denial (JStr refspec) (JStr current) = None \<longleftrightarrow>
    branch_denial (JStr current) = None \<and> refspec \<in> set (self_pushes current)"
  using push_denied_self self_push_denied by blast

text \<open>
  An allowed branch lies in a reviewed namespace and is not protected; its characters are the reviewed ones, with one
  exception, a line feed at the very end.
\<close>

lemma trailing_line_feed: "branch_denial (JStr (''fix/x'' @ [CHR 0x0A])) = None"
  by code_simp

end
