(* ===== verification/ImageRelease.thy ===== *)
theory ImageRelease
  imports PyJson
begin

text \<open>
  scripts/validate_image_release.py: the versions of website container images and the tracked
  gates that bound which of them may be promoted.  The policy file is what reading it gives.
\<close>

section \<open>Versions\<close>

definition POLICY_FILE :: string where "POLICY_FILE = ''release-policy.env''"

record site_contract =
  site_domain :: string
  site_gate :: string

definition SITE_CONTRACTS :: "(string \<times> site_contract) list" where
  "SITE_CONTRACTS =
    [(''naranjo-online'', \<lparr>site_domain = ''naranjo.online'', site_gate = ''NARANJO_ONLINE_PRODUCTION_GRADUATED''\<rparr>),
     (''lidersea-com'', \<lparr>site_domain = ''lidersea.com'', site_gate = ''LIDERSEA_COM_PRODUCTION_GRADUATED''\<rparr>)]"

text \<open>A longer text with a character beyond ASCII matches no pattern, so its length in bytes may be used.\<close>

definition parse_semver :: "json \<Rightarrow> bool \<Rightarrow> (nat \<times> nat \<times> nat) option" where
  "parse_semver v tagged =
    (case v of
       JStr s \<Rightarrow>
         if (if tagged then 128 else 127) < length s then None
         else if tagged then tag_groups s else semver_groups s
     | _ \<Rightarrow> None)"

section \<open>The policy\<close>

type_synonym gates = "(string \<times> string) list"

definition gate_char :: "char \<Rightarrow> bool" where
  "gate_char c = (byte_in 65 90 c \<or> is_digit c \<or> c = CHR ''_'')"

text \<open>\<open>([A-Z0-9_]+)=(yes|no)\<close>, with its two groups.\<close>

definition gate_line :: "string \<Rightarrow> (string \<times> string) option" where
  "gate_line line =
    (case split_first (CHR ''='') line of
       None \<Rightarrow> None
     | Some (key, decision) \<Rightarrow>
         if key \<noteq> [] \<and> list_all gate_char key \<and> decision \<in> {''yes'', ''no''} then Some (key, decision) else None)"

fun gate_lines :: "string list \<Rightarrow> gates \<Rightarrow> gates option" where
  "gate_lines [] gates = Some gates"
| "gate_lines (line # lines) gates =
    (case gate_line line of
       None \<Rightarrow> None
     | Some (key, decision) \<Rightarrow>
         if key \<in> set (map fst gates) then None else gate_lines lines (gates @ [(key, decision)]))"

definition read_policy_text :: "string \<Rightarrow> gates option" where
  "read_policy_text text =
    (let lines = splitlines text in
     if \<not> (endswith text [CHR 0x0A] \<or> endswith text [CHR 0x0D, CHR 0x0A]) \<or> length lines \<noteq> length SITE_CONTRACTS
     then None
     else case gate_lines lines [] of
            None \<Rightarrow> None
          | Some gates \<Rightarrow>
              if map fst gates = map (site_gate \<circ> snd) SITE_CONTRACTS then Some gates else None)"

text \<open>\<open>read_text(encoding="utf-8")\<close> of the file below the root; its newlines are translated.\<close>

definition read_policy :: "string res \<Rightarrow> gates option" where
  "read_policy content =
    (case bind content decode_utf8 of
       Inr text \<Rightarrow> read_policy_text (universal_newlines text)
     | Inl _ \<Rightarrow> None)"

section \<open>Errors\<close>

definition known_site :: "string \<Rightarrow> bool" where
  "known_site site \<longleftrightarrow> site \<in> set (map fst SITE_CONTRACTS)"

definition repository_errors :: "string res \<Rightarrow> string option \<Rightarrow> string list" where
  "repository_errors content site =
    (let sites = (case site of Some s \<Rightarrow> if s \<noteq> [] then [s] else map fst SITE_CONTRACTS | None \<Rightarrow> map fst SITE_CONTRACTS) in
     if list_ex (\<lambda>candidate. \<not> known_site candidate) sites then [''unknown website release identity'']
     else if read_policy content = None
          then [''release-policy.env must contain exactly the two reviewed yes/no production-graduation gates'']
          else [])"

text \<open>The site's gate has a decision, because an accepted policy has exactly the gates of the contracts.\<close>

definition gate_of :: "gates \<Rightarrow> string \<Rightarrow> string" where
  "gate_of gates site =
    (case map_of SITE_CONTRACTS site of
       Some contract \<Rightarrow> (case map_of gates (site_gate contract) of Some d \<Rightarrow> d | None \<Rightarrow> [])
     | None \<Rightarrow> [])"

definition tag_errors :: "string res \<Rightarrow> string \<Rightarrow> json \<Rightarrow> bool \<Rightarrow> bool \<Rightarrow> string list" where
  "tag_errors content site tag current rollback =
    (if \<not> known_site site then [''unknown website release identity'']
     else
       let errors = repository_errors content (Some site) in
       case parse_semver tag True of
         None \<Rightarrow> errors @ [''release tag must be exact stable vMAJOR.MINOR.PATCH SemVer'']
       | Some (major, _, _) \<Rightarrow>
           errors
           @ (case read_policy content of
                None \<Rightarrow> []
              | Some gates \<Rightarrow>
                  if gate_of gates site = ''no'' \<and> major \<noteq> 0
                  then [''v1+ promotion is forbidden before tracked production graduation''] else [])
           @ (if current \<and> rollback then [''release tag cannot be both current and rollback''] else []))"

section \<open>The command line\<close>

datatype image_command =
    Validate (validated_site: "string option")
  | ValidateTag string string bool bool

definition image_release_main :: "string res \<Rightarrow> image_command \<Rightarrow> nat \<times> string list" where
  "image_release_main content command =
    (let errors = (case command of
        Validate site \<Rightarrow> repository_errors content site
      | ValidateTag site tag current rollback \<Rightarrow> tag_errors content site (JStr tag) current rollback) in
     if errors \<noteq> [] then (1, map (\<lambda>e. ''FAIL '' @ e) errors)
     else (0, [''PASS immutable image release version policy'']))"

section \<open>What a promotion needs\<close>

lemma gate_lines_keys:
  assumes "gate_lines lines gates = Some result"
  shows "\<exists>found. result = gates @ found \<and> length found = length lines \<and> list_all (\<lambda>(_, d). d = ''yes'' \<or> d = ''no'') found"
  using assms
proof (induction lines arbitrary: gates)
  case Nil
  then show ?case by simp
next
  case (Cons line lines)
  then obtain key decision where line: "gate_line line = Some (key, decision)"
    and rest: "gate_lines lines (gates @ [(key, decision)]) = Some result"
    by (auto split: option.splits if_splits)
  from Cons.IH [OF rest] obtain found where found: "result = gates @ (key, decision) # found" "length found = length lines"
    "list_all (\<lambda>(_, d). d = ''yes'' \<or> d = ''no'') found" by auto
  have "decision = ''yes'' \<or> decision = ''no''"
    using line by (auto simp: gate_line_def split: option.splits if_splits)
  with found have "list_all (\<lambda>(_, d). d = ''yes'' \<or> d = ''no'') ((key, decision) # found)" by simp
  with found show ?case by fastforce
qed

lemma policy_gates:
  assumes "read_policy content = Some gates"
  shows "map fst gates = map (site_gate \<circ> snd) SITE_CONTRACTS \<and> list_all (\<lambda>(_, d). d = ''yes'' \<or> d = ''no'') gates"
  using assms by (auto simp: read_policy_def read_policy_text_def Let_def split: sum.splits option.splits if_splits
    dest: gate_lines_keys)

lemma gate_decided:
  assumes "read_policy content = Some gates" and "known_site site"
  shows "gate_of gates site = ''yes'' \<or> gate_of gates site = ''no''"
proof -
  from policy_gates [OF assms(1)] obtain d d' where
    gates: "gates = [(''NARANJO_ONLINE_PRODUCTION_GRADUATED'', d), (''LIDERSEA_COM_PRODUCTION_GRADUATED'', d')]"
    and "d = ''yes'' \<or> d = ''no''" "d' = ''yes'' \<or> d' = ''no''"
    by (auto simp: SITE_CONTRACTS_def)
  moreover have "site = ''naranjo-online'' \<or> site = ''lidersea-com''"
    using assms(2) by (auto simp: known_site_def SITE_CONTRACTS_def)
  ultimately show ?thesis by (auto simp: gate_of_def SITE_CONTRACTS_def)
qed

text \<open>
  which tags may be promoted.  A tag passes exactly for a known site, under a well-formed policy, when it is the text of
  a version of at most 128 characters, and is major version 0 unless the tracked policy says that this site has
  graduated.
\<close>

theorem promotion_gate:
  "tag_errors content site (JStr tag) current rollback = [] \<longleftrightarrow>
    known_site site \<and> \<not> (current \<and> rollback)
    \<and> (\<exists>gates v. read_policy content = Some gates \<and> tag = CHR ''v'' # show_semver v \<and> length tag \<le> 128
        \<and> (fst v = 0 \<or> gate_of gates site = ''yes''))"
proof (cases "known_site site")
  case True
  have named: "site \<noteq> []" using True by (auto simp: known_site_def SITE_CONTRACTS_def)
  show ?thesis
  proof (cases "read_policy content")
    case None
    then show ?thesis using True named by (auto simp: tag_errors_def repository_errors_def Let_def split: option.splits)
  next
    case (Some gates)
    then show ?thesis
      using True named gate_decided [OF Some True]
      by (auto simp: tag_errors_def repository_errors_def Let_def parse_semver_def tag_groups_iff show_semver_inj split: option.splits)
  qed
qed (simp add: tag_errors_def)

end
