(* ===== verification/PrivateFile.thy ===== *)
theory PrivateFile
  imports PyText
begin

text \<open>
  scripts/validate_kubeconfig_snapshot.py: reading a private file under custody.  Four validators carry
  the same helpers.  What the operating system answers is a parameter, one field per call in
  the order of the calls; the platform is POSIX, where \<open>normcase\<close> is the identity.
\<close>

definition line_feed :: char where "line_feed = CHR 0x0A"

section \<open>Metadata\<close>

record os_stat =
  device :: int
  inode :: int
  mode_bits :: int
  links :: int
  owner_uid :: int
  owner_gid :: int
  byte_size :: int
  modified_ns :: int
  changed_ns :: int

text \<open>\<open>S_IFMT\<close> and \<open>S_IMODE\<close>.\<close>

definition file_kind :: "os_stat \<Rightarrow> int" where "file_kind st = mode_bits st div 4096 mod 16"

definition is_regular :: "os_stat \<Rightarrow> bool" where "is_regular st \<longleftrightarrow> file_kind st = 8"
definition is_directory :: "os_stat \<Rightarrow> bool" where "is_directory st \<longleftrightarrow> file_kind st = 4"
definition is_symlink :: "os_stat \<Rightarrow> bool" where "is_symlink st \<longleftrightarrow> file_kind st = 10"

definition permissions :: "os_stat \<Rightarrow> int" where "permissions st = mode_bits st mod 4096"

text \<open>All of them, and for a directory on the way the ones that do not describe its content.\<close>

definition path_state :: "os_stat \<Rightarrow> int list" where
  "path_state st =
    [device st, inode st, mode_bits st, links st, owner_uid st, owner_gid st, byte_size st, modified_ns st, changed_ns st]"

definition ancestor_state :: "os_stat \<Rightarrow> int list" where
  "ancestor_state st = [device st, inode st, mode_bits st, owner_uid st, owner_gid st]"

lemma path_state_inj [simp]: "path_state st = path_state st' \<longleftrightarrow> st = st'"
  by (auto simp: path_state_def)

section \<open>Paths\<close>

text \<open>The components of \<open>Path(text)\<close> below its root, and its text.\<close>

definition path_parts :: "string \<Rightarrow> string list" where
  "path_parts text = filter (\<lambda>part. part \<noteq> [] \<and> part \<noteq> ''.'') (split_on (CHR ''/'') text)"

definition path_root :: "string \<Rightarrow> string" where
  "path_root text =
    (if startswith text ''//'' \<and> \<not> startswith text ''///'' then ''//'' else if startswith text ''/'' then ''/'' else [])"

definition path_text :: "string \<Rightarrow> string" where
  "path_text text = path_root text @ join ''/'' (path_parts text)"

type_synonym look = "string list \<Rightarrow> os_stat res"

text \<open>Every ancestor and the path itself, from the root on.\<close>

definition chain_entry :: "exc \<Rightarrow> look \<Rightarrow> string list \<Rightarrow> string list \<Rightarrow> (string list \<times> int list) res" where
  "chain_entry e look parts component =
    bind (look component) (\<lambda>st.
    raise_if (is_symlink st) e (
    Inr (component, if component = parts then path_state st else ancestor_state st)))"

definition path_chain :: "exc \<Rightarrow> look \<Rightarrow> string list \<Rightarrow> (string list \<times> int list) list res" where
  "path_chain e look parts = map_res (chain_entry e look parts) (prefixes parts)"

text \<open>The descent through directory handles; each \<open>open\<close> refuses a link.\<close>

definition open_no_follow :: "exc \<Rightarrow> bool \<Rightarrow> string list \<Rightarrow> (string list \<Rightarrow> unit res) \<Rightarrow> unit res" where
  "open_no_follow e absolute parts descend_to =
    raise_if (\<not> absolute \<or> parts = []) e (
    bind (for_each (\<lambda>directory _.
        raise_if (List.last directory \<in> {[], ''.'', ''..''}) e (descend_to directory))
      (tl (prefixes (butlast parts))) ()) (\<lambda>_.
    descend_to parts))"

section \<open>Reading\<close>

text \<open>
  \<open>while remaining: chunk = os.read(fd, remaining)\<close>; \<open>offer k\<close> is what the k-th read finds.
\<close>

function read_upto :: "(nat \<Rightarrow> string res) \<Rightarrow> nat \<Rightarrow> nat \<Rightarrow> string res" where
  "read_upto offer k remaining =
    (if remaining = 0 then Inr []
     else bind (offer k) (\<lambda>bytes.
       let c = take remaining bytes in
       if c = [] then Inr []
       else bind (read_upto offer (k + 1) (remaining - length c)) (\<lambda>rest. Inr (c @ rest))))"
  by pat_completeness auto
termination
  by (relation "measure (\<lambda>(offer, k, remaining). remaining)") (auto simp: Let_def)

declare read_upto.simps [simp del]

lemma read_upto_bound: "read_upto offer k remaining = Inr bytes \<Longrightarrow> length bytes \<le> remaining"
proof (induction offer k remaining arbitrary: bytes rule: read_upto.induct)
  case (1 offer k remaining)
  show ?case
  proof (cases "remaining = 0")
    case True
    with "1.prems" show ?thesis by (simp add: read_upto.simps [of offer k 0])
  next
    case False
    with "1.prems" obtain offered where offered: "offer k = Inr offered"
      and rest: "take remaining offered = [] \<and> bytes = []
        \<or> take remaining offered \<noteq> [] \<and> (\<exists>r. read_upto offer (k + 1) (remaining - length (take remaining offered)) = Inr r
            \<and> bytes = take remaining offered @ r)"
      by (subst (asm) read_upto.simps) (auto simp: Let_def split: if_splits)
    from rest show ?thesis
      using "1.IH" [OF False offered refl] by fastforce
  qed
qed

section \<open>The snapshot file\<close>

definition MAX_KUBECONFIG_BYTES :: nat where "MAX_KUBECONFIG_BYTES = 256 * 1024"

text \<open>\<open>SnapshotError\<close> derives from \<open>ValueError\<close> and has no text.\<close>

abbreviation snapshot_error :: exc where "snapshot_error \<equiv> ValueError []"

record custody =
  resolved_first :: "string res"
  walk_first :: look
  walk_before :: look
  lstat_before :: "os_stat res"
  descends :: "string list \<Rightarrow> unit res"
  fstat_before :: "os_stat res"
  parent_before :: "os_stat res"
  offered :: "nat \<Rightarrow> string res"
  fstat_after :: "os_stat res"
  parent_after :: "os_stat res"
  entry_after :: "os_stat res"
  walk_after :: look
  lstat_after :: "os_stat res"
  resolved_after :: "string res"
  effective_uid :: int

text \<open>
  \<open>except (OSError, RuntimeError, SnapshotError)\<close>; a loop of links raises \<open>RuntimeError\<close>, here \<open>OSError\<close>.
\<close>

definition as_snapshot_error :: "'a res \<Rightarrow> 'a res" where
  "as_snapshot_error m = rewrap (\<lambda>e. e = OSError) (\<lambda>_. snapshot_error) m"

text \<open>
  The components contain neither an empty one nor a single dot, and a path with two dots is refused, so
  \<open>abspath(normpath(path))\<close> is the path.
\<close>

definition canonical_path :: "custody \<Rightarrow> string \<Rightarrow> string list res" where
  "canonical_path c text =
    raise_if (text = [] \<or> list_ex (\<lambda>x. byte x < 32) text) snapshot_error (
    raise_if (path_root text = [] \<or> list_ex (\<lambda>part. part \<in> {''.'', ''..''}) (path_parts text)) snapshot_error (
    bind (as_snapshot_error (resolved_first c)) (\<lambda>resolved.
    bind (as_snapshot_error (path_chain snapshot_error (walk_first c) (path_parts text))) (\<lambda>_.
    raise_if (resolved \<noteq> path_text text) snapshot_error (Inr (path_parts text))))))"

definition read_held_open :: "custody \<Rightarrow> os_stat \<Rightarrow> string list \<Rightarrow> (string \<times> os_stat \<times> os_stat) res" where
  "read_held_open c earlier parts =
    bind (open_no_follow snapshot_error True parts (descends c)) (\<lambda>_.
    bind (fstat_before c) (\<lambda>opened.
    bind (parent_before c) (\<lambda>parent.
    raise_if (path_state opened \<noteq> path_state earlier) snapshot_error (
    bind (read_upto (offered c) 0 (MAX_KUBECONFIG_BYTES + 1)) (\<lambda>bytes.
    bind (fstat_after c) (\<lambda>opened_after.
    bind (parent_after c) (\<lambda>parent_later.
    bind (entry_after c) (\<lambda>directory_entry.
    raise_if (path_state parent \<noteq> path_state parent_later \<or> path_state directory_entry \<noteq> path_state opened_after)
      snapshot_error (Inr (bytes, opened, opened_after))))))))))"

definition read_snapshot :: "custody \<Rightarrow> string \<Rightarrow> string res" where
  "read_snapshot c text =
    bind (canonical_path c text) (\<lambda>parts.
    bind (as_snapshot_error (path_chain snapshot_error (walk_before c) parts)) (\<lambda>before_chain.
    bind (as_snapshot_error (lstat_before c)) (\<lambda>earlier.
    raise_if (\<not> is_regular earlier \<or> is_symlink earlier \<or> links earlier \<noteq> 1 \<or> byte_size earlier \<le> 0
        \<or> int MAX_KUBECONFIG_BYTES < byte_size earlier) snapshot_error (
    raise_if (owner_uid earlier \<noteq> effective_uid c \<or> permissions earlier \<notin> {256, 384}) snapshot_error (
    bind (as_snapshot_error (read_held_open c earlier parts)) (\<lambda>(bytes, opened, opened_after).
    raise_if (path_state opened \<noteq> path_state opened_after \<or> byte_size opened_after \<noteq> int (length bytes)
        \<or> MAX_KUBECONFIG_BYTES < length bytes) snapshot_error (
    bind (as_snapshot_error (path_chain snapshot_error (walk_after c) parts)) (\<lambda>after_chain.
    bind (as_snapshot_error (lstat_after c)) (\<lambda>later.
    bind (as_snapshot_error (resolved_after c)) (\<lambda>resolved.
    raise_if (before_chain \<noteq> after_chain \<or> path_state later \<noteq> path_state opened_after \<or> resolved \<noteq> path_text text)
      snapshot_error (Inr bytes)))))))))))"

section \<open>Custody\<close>

text \<open>One file, the same at all five observations, private to the caller and exactly as long as what was read.\<close>

definition undisturbed :: "custody \<Rightarrow> os_stat \<Rightarrow> string \<Rightarrow> bool" where
  "undisturbed c st bytes \<longleftrightarrow>
    lstat_before c = Inr st \<and> fstat_before c = Inr st \<and> fstat_after c = Inr st \<and> entry_after c = Inr st \<and> lstat_after c = Inr st
    \<and> parent_before c = parent_after c
    \<and> is_regular st \<and> links st = 1 \<and> owner_uid st = effective_uid c \<and> permissions st \<in> {256, 384}
    \<and> 0 < length bytes \<and> length bytes \<le> MAX_KUBECONFIG_BYTES \<and> byte_size st = int (length bytes)"

text \<open>No directory on the way is a link or is replaced by another one while the file is read.\<close>

definition anchored :: "custody \<Rightarrow> string list \<Rightarrow> bool" where
  "anchored c parts \<longleftrightarrow>
    list_all (\<lambda>component. \<exists>x y. walk_before c component = Inr x \<and> walk_after c component = Inr y
      \<and> \<not> is_symlink x \<and> \<not> is_symlink y \<and> ancestor_state x = ancestor_state y) (prefixes parts)"

lemma chains_anchored:
  assumes "path_chain e (walk_before c) parts = Inr chain" and "path_chain e (walk_after c) parts = Inr chain"
  shows "anchored c parts"
  unfolding anchored_def list_all_length
proof (intro allI impI)
  fix i
  assume i: "i < length (prefixes parts)"
  let ?p = "prefixes parts ! i"
  from assms i have "chain_entry e (walk_before c) parts ?p = Inr (chain ! i)"
    "chain_entry e (walk_after c) parts ?p = Inr (chain ! i)"
    by (auto simp: path_chain_def map_res_Inr_iff list_all2_conv_all_nth)
  then show "\<exists>x y. walk_before c ?p = Inr x \<and> walk_after c ?p = Inr y
      \<and> \<not> is_symlink x \<and> \<not> is_symlink y \<and> ancestor_state x = ancestor_state y"
    by (cases "chain ! i") (auto simp: chain_entry_def split: if_splits)
qed

text \<open>
  C27: what is read is what is there.  A snapshot is read only from an absolute path that resolves to itself, from one regular file
  of one link, owned by the caller with mode 0400 or 0600, whose metadata is the same before, during and after the
  read and whose size is the number of bytes read, under directories none of which is a link or has been replaced.
\<close>

theorem snapshot_custody:
  "case read_snapshot c text of
     Inl e \<Rightarrow> True
   | Inr bytes \<Rightarrow>
       path_root text \<noteq> [] \<and> ''..'' \<notin> set (path_parts text)
       \<and> resolved_first c = Inr (path_text text) \<and> resolved_after c = Inr (path_text text)
       \<and> anchored c (path_parts text) \<and> (\<exists>st. undisturbed c st bytes)"
proof (cases "read_snapshot c text")
  case (Inl e)
  then show ?thesis by simp
next
  case (Inr bytes)
  then obtain before_chain st where path: "canonical_path c text = Inr (path_parts text)"
    and chains: "path_chain snapshot_error (walk_before c) (path_parts text) = Inr before_chain"
      "path_chain snapshot_error (walk_after c) (path_parts text) = Inr before_chain"
    and held: "read_held_open c st (path_parts text) = Inr (bytes, st, st)"
    and last: "lstat_before c = Inr st" "lstat_after c = Inr st" "resolved_after c = Inr (path_text text)"
    and st: "is_regular st" "links st = 1" "0 < byte_size st" "owner_uid st = effective_uid c" "permissions st \<in> {256, 384}"
      "byte_size st = int (length bytes)" "length bytes \<le> MAX_KUBECONFIG_BYTES"
    by (auto simp: read_snapshot_def canonical_path_def as_snapshot_error_def read_held_open_def)
  then have "undisturbed c st bytes" by (auto simp: undisturbed_def read_held_open_def)
  moreover have "path_root text \<noteq> [] \<and> ''..'' \<notin> set (path_parts text) \<and> resolved_first c = Inr (path_text text)"
    using path by (auto simp: canonical_path_def as_snapshot_error_def list_ex_iff)
  ultimately show ?thesis using chains_anchored [OF chains] last(3) Inr by auto
qed

end
