(* ===== verification/PyAddress.thy ===== *)
theory PyAddress
  imports PyBytes
begin

text \<open>
  \<open>ipaddress.ip_address\<close> of Python 3.12 on text, and the text it prints.  An IPv4 address is its
  four octets; an IPv6 address its eight groups of 16 bits, with the scope that follows a
  percent sign.
\<close>

section \<open>IPv4\<close>

definition octet_of :: "string \<Rightarrow> nat option" where
  "octet_of s =
    (if s \<noteq> [] \<and> list_all is_digit s \<and> length s \<le> 3 \<and> (s = ''0'' \<or> hd s \<noteq> CHR ''0'') \<and> read_nat s \<le> 255
     then Some (read_nat s) else None)"

definition ipv4_of :: "string \<Rightarrow> nat list option" where
  "ipv4_of s =
    (let octets = map octet_of (split_on (CHR ''.'') s) in
     if length octets = 4 \<and> None \<notin> set octets then Some (map the octets) else None)"

definition show_ipv4 :: "nat list \<Rightarrow> string" where
  "show_ipv4 octets = join ''.'' (map show_nat octets)"

section \<open>IPv6\<close>

fun hex_digit_of :: "char \<Rightarrow> nat option" where
  "hex_digit_of c =
    (if is_digit c then Some (byte c - 48)
     else if byte_in 97 102 c then Some (byte c - 87)
     else if byte_in 65 70 c then Some (byte c - 55) else None)"

definition group_of_text :: "string \<Rightarrow> nat option" where
  "group_of_text s =
    (if s \<noteq> [] \<and> length s \<le> 4 \<and> None \<notin> set (map hex_digit_of s)
     then Some (foldl (\<lambda>n c. n * 16 + the (hex_digit_of c)) 0 s) else None)"

fun show_hex :: "nat \<Rightarrow> string" where
  "show_hex n =
    (let d = char_of (if n mod 16 < 10 then 48 + n mod 16 else 87 + n mod 16)
     in if n < 16 then [d] else show_hex (n div 16) @ [d])"

declare show_hex.simps [simp del]

text \<open>A dotted tail stands for two groups.\<close>

definition expand_tail :: "string list \<Rightarrow> string list option" where
  "expand_tail parts =
    (if CHR ''.'' \<in> set (List.last parts)
     then (case ipv4_of (List.last parts) of
             Some [a, b, c, d] \<Rightarrow> Some (butlast parts @ [show_hex (a * 256 + b), show_hex (c * 256 + d)])
           | _ \<Rightarrow> None)
     else Some parts)"

text \<open>
  An empty part between the first and the last one is the one gap; an empty first or last part must touch
  it, and the gap stands for at least one group.
\<close>

definition inner_gaps :: "string list \<Rightarrow> nat list" where
  "inner_gaps parts = filter (\<lambda>i. parts ! i = []) [1..<length parts - 1]"

definition arranged :: "string list \<Rightarrow> (string list \<times> nat \<times> string list) option" where
  "arranged parts =
    (case inner_gaps parts of
       [] \<Rightarrow> if length parts = 8 \<and> hd parts \<noteq> [] \<and> List.last parts \<noteq> [] then Some (parts, 0, []) else None
     | [i] \<Rightarrow>
         let front = (if hd parts = [] then i - 1 else i);
             rear = (if List.last parts = [] then length parts - i - 2 else length parts - i - 1) in
         if (hd parts = [] \<and> front \<noteq> 0) \<or> (List.last parts = [] \<and> rear \<noteq> 0) \<or> 8 \<le> front + rear then None
         else Some (take front parts, 8 - (front + rear), drop (length parts - rear) parts)
     | _ \<Rightarrow> None)"

definition groups_of_text :: "string \<Rightarrow> nat list option" where
  "groups_of_text s =
    (let parts = split_on (CHR '':'') s in
     if length parts < 3 then None
     else case expand_tail parts of
            None \<Rightarrow> None
          | Some expanded \<Rightarrow>
              if 9 < length expanded then None
              else (case arranged expanded of
                      None \<Rightarrow> None
                    | Some (front, gap, rear) \<Rightarrow>
                        let found = map group_of_text (front @ rear) in
                        if None \<in> set found then None
                        else Some (map the (take (length front) found) @ replicate gap 0
                          @ map the (drop (length front) found))))"

definition ipv6_of :: "string \<Rightarrow> (nat list \<times> string) option" where
  "ipv6_of s =
    (case split_first (CHR ''%'') s of
       None \<Rightarrow> map_option (\<lambda>groups. (groups, [])) (groups_of_text s)
     | Some (address, scope) \<Rightarrow>
         if scope = [] \<or> CHR ''%'' \<in> set scope then None
         else map_option (\<lambda>groups. (groups, scope)) (groups_of_text address))"

text \<open>The first of the longest runs of at least two zero groups is printed as a gap.\<close>

definition zero_run :: "nat list \<Rightarrow> nat \<Rightarrow> nat" where
  "zero_run groups i = length (takeWhile (\<lambda>g. g = 0) (drop i groups))"

definition best_run :: "nat list \<Rightarrow> nat \<times> nat" where
  "best_run groups =
    foldl (\<lambda>(i, n) j. if n < zero_run groups j then (j, zero_run groups j) else (i, n)) (0, 0) [0..<length groups]"

definition show_groups :: "nat list \<Rightarrow> string" where
  "show_groups groups =
    (case best_run groups of (i, n) \<Rightarrow>
       let texts = map show_hex groups in
       if n \<le> 1 then join '':'' texts
       else join '':'' ((if i = 0 then [[]] else []) @ take i texts @ [[]]
         @ drop (i + n) texts @ (if i + n = length groups then [[]] else [])))"

section \<open>Addresses\<close>

datatype ip_address = IPv4 "nat list" | IPv6 "nat list" string

definition ip_address_of :: "string \<Rightarrow> ip_address option" where
  "ip_address_of s =
    (case ipv4_of s of
       Some octets \<Rightarrow> Some (IPv4 octets)
     | None \<Rightarrow> map_option (\<lambda>(groups, scope). IPv6 groups scope) (ipv6_of s))"

text \<open>\<open>address.compressed\<close>.\<close>

fun compressed :: "ip_address \<Rightarrow> string" where
  "compressed (IPv4 octets) = show_ipv4 octets"
| "compressed (IPv6 groups scope) = show_groups groups @ (if scope = [] then [] else ''%'' @ scope)"

section \<open>Printed IPv4 addresses\<close>

lemma octet_show: "n \<le> 255 \<Longrightarrow> octet_of (show_nat n) = Some n"
proof -
  assume n: "n \<le> 255"
  have "length (show_nat n) \<le> 3"
    using n by (simp add: show_nat.simps [of n] show_nat.simps [of "n div 10"] show_nat.simps [of "n div 10 div 10"])
  moreover have "show_nat n = ''0'' \<or> hd (show_nat n) \<noteq> CHR ''0''"
    using show_nat_hd [of n] by (cases "n = 0") (simp_all add: show_nat.simps [of 0] digit_char_def)
  ultimately show ?thesis using n show_nat_digits [of n] by (simp add: octet_of_def)
qed

lemma ipv4_show: "length octets = 4 \<Longrightarrow> list_all (\<lambda>n. n \<le> 255) octets \<Longrightarrow> ipv4_of (show_ipv4 octets) = Some octets"
proof -
  assume len: "length octets = 4" and small: "list_all (\<lambda>n. n \<le> 255) octets"
  then obtain a b c d where octets: "octets = [a, b, c, d]" by (auto simp: length_Suc_conv numeral_eq_Suc)
  have "split_on (CHR ''.'') (show_ipv4 octets) = map show_nat octets"
    unfolding octets show_ipv4_def by (simp add: split_on_append split_on_word)
  then show ?thesis using small by (simp add: ipv4_of_def octets octet_show)
qed

text \<open>An address that is read prints as the text it was read from.\<close>

lemma octet_text: "octet_of s = Some n \<Longrightarrow> s = show_nat n \<and> n \<le> 255"
  using show_read_positive [of s]
  by (auto simp: octet_of_def read_nat_def digit_val_def show_nat.simps [of 0] digit_char_def split: if_splits)

lemma ipv4_text: "ipv4_of s = Some octets \<Longrightarrow> s = show_ipv4 octets \<and> length octets = 4 \<and> list_all (\<lambda>n. n \<le> 255) octets"
proof -
  assume parsed: "ipv4_of s = Some octets"
  then have len: "length (split_on (CHR ''.'') s) = 4" and some: "None \<notin> set (map octet_of (split_on (CHR ''.'') s))"
    and octets: "octets = map the (map octet_of (split_on (CHR ''.'') s))"
    by (auto simp: ipv4_of_def Let_def split: if_splits)
  let ?parts = "split_on (CHR ''.'') s"
  have each: "show_nat (the (octet_of x)) = x \<and> the (octet_of x) \<le> 255" if x: "x \<in> set ?parts" for x
  proof -
    have "octet_of x \<noteq> None" using some x by (metis image_eqI set_map)
    then show ?thesis using octet_text by fastforce
  qed
  have printed: "map show_nat octets = ?parts" unfolding octets map_map
    by (rule map_idI) (simp add: each)
  have "show_ipv4 octets = s" unfolding show_ipv4_def printed using join_split_on [of "CHR ''.''" s] by simp
  then show ?thesis using each len by (auto simp: octets list_all_iff)
qed

end
