(* ===== verification/Kubeconfig.thy ===== *)
theory Kubeconfig
  imports PrivateFile PyAddress PyValue PyCodec
begin

text \<open>
  scripts/validate_kubeconfig_snapshot.py: the closed schema of a kubeconfig with embedded
  credentials.  Every fault is the same error, which names no value.
\<close>

section \<open>Names and sizes\<close>

definition KUBECONFIG_SNAPSHOT_ENV :: string where "KUBECONFIG_SNAPSHOT_ENV = ''KUBECONFIG_SNAPSHOT_FILE''"
definition MAX_EMBEDDED_BYTES :: nat where "MAX_EMBEDDED_BYTES = 128 * 1024"

definition TOP_LEVEL_KEYS :: "string list" where
  "TOP_LEVEL_KEYS = [''apiVersion'', ''kind'', ''current-context'', ''clusters'', ''users'', ''contexts'', ''preferences'']"

definition CLUSTER_KEYS :: "string list" where "CLUSTER_KEYS = [''server'', ''certificate-authority-data'']"
definition CLUSTER_KEYS_WITH_TLS_NAME :: "string list" where "CLUSTER_KEYS_WITH_TLS_NAME = CLUSTER_KEYS @ [''tls-server-name'']"
definition USER_KEYS :: "string list" where "USER_KEYS = [''client-certificate-data'', ''client-key-data'']"
definition CONTEXT_KEYS :: "string list" where "CONTEXT_KEYS = [''cluster'', ''user'']"
definition CONTEXT_KEYS_WITH_NAMESPACE :: "string list" where "CONTEXT_KEYS_WITH_NAMESPACE = CONTEXT_KEYS @ [''namespace'']"

text \<open>A class of first and last characters around at most \<open>n\<close> inner ones.\<close>

definition enclosed :: "(char \<Rightarrow> bool) \<Rightarrow> (char \<Rightarrow> bool) \<Rightarrow> nat \<Rightarrow> string \<Rightarrow> bool" where
  "enclosed outer inner n s =
    (case s of
       [] \<Rightarrow> False
     | c # t \<Rightarrow> outer c \<and> (t = [] \<or> length t \<le> n + 1 \<and> outer (List.last t) \<and> list_all inner (butlast t)))"

definition alnum_char :: "char \<Rightarrow> bool" where
  "alnum_char c = (byte_in 65 90 c \<or> byte_in 97 122 c \<or> is_digit c)"

definition label_char :: "char \<Rightarrow> bool" where
  "label_char c = (byte_in 97 122 c \<or> is_digit c)"

text \<open>\<open>SAFE_NAME_RE\<close> and \<open>DNS_LABEL_RE\<close>, both under \<open>fullmatch\<close>.\<close>

definition safe_name_text :: "string \<Rightarrow> bool" where
  "safe_name_text s = enclosed alnum_char (\<lambda>c. alnum_char c \<or> c \<in> set ''._@-'') 126 s"

definition dns_label :: "string \<Rightarrow> bool" where
  "dns_label s = enclosed label_char (\<lambda>c. label_char c \<or> c = CHR ''-'') 61 s"

section \<open>Shapes\<close>

definition exact_object :: "json \<Rightarrow> string list \<Rightarrow> dict res" where
  "exact_object v keys =
    (case v of JObj d \<Rightarrow> raise_if (\<not> keys_are d keys) snapshot_error (Inr d) | _ \<Rightarrow> Inl snapshot_error)"

definition one_entry :: "json \<Rightarrow> dict res" where
  "one_entry v = (case v of JArr [JObj d] \<Rightarrow> Inr d | _ \<Rightarrow> Inl snapshot_error)"

definition safe_name :: "json \<Rightarrow> string res" where
  "safe_name v =
    (case v of JStr s \<Rightarrow> raise_if (\<not> safe_name_text s) snapshot_error (Inr s) | _ \<Rightarrow> Inl snapshot_error)"

text \<open>A name with a character beyond ASCII has no valid label, whatever its length.\<close>

definition valid_dns_name :: "json \<Rightarrow> string res" where
  "valid_dns_name v =
    (case v of
       JStr s \<Rightarrow>
         raise_if (253 < length s \<or> s = []) snapshot_error (
         raise_if (\<not> list_all dns_label (split_on (CHR ''.'') s)) snapshot_error (Inr s))
     | _ \<Rightarrow> Inl snapshot_error)"

section \<open>Credentials\<close>

definition canonical_base64 :: "json \<Rightarrow> string res" where
  "canonical_base64 v =
    (case v of
       JStr s \<Rightarrow>
         raise_if (s = []) snapshot_error (
         case b64decode s of
           None \<Rightarrow> Inl snapshot_error
         | Some decoded \<Rightarrow>
             raise_if (decoded = [] \<or> MAX_EMBEDDED_BYTES < length decoded) snapshot_error (
             raise_if (b64encode decoded \<noteq> s) snapshot_error (Inr decoded)))
     | _ \<Rightarrow> Inl snapshot_error)"

function pieces :: "string \<Rightarrow> string list" where
  "pieces s = (if s = [] then [] else take 64 s # pieces (drop 64 s))"
  by pat_completeness auto
termination
  by (relation "measure length") auto

declare pieces.simps [simp del]

definition begin_line :: "string \<Rightarrow> string" where "begin_line label = ''-----BEGIN '' @ label @ ''-----''"
definition end_line :: "string \<Rightarrow> string" where "end_line label = ''-----END '' @ label @ ''-----''"

definition pem_text :: "string \<Rightarrow> string \<Rightarrow> string" where
  "pem_text label der = join [line_feed] ([begin_line label] @ pieces (b64encode der) @ [end_line label, []])"

definition canonical_pem :: "json \<Rightarrow> string list \<Rightarrow> nat \<Rightarrow> string res" where
  "canonical_pem encoded allowed_labels minimum_der_bytes =
    bind (canonical_base64 encoded) (\<lambda>pem.
    raise_if (\<not> is_ascii pem) snapshot_error (
    raise_if (CHR 0x0D \<in> set pem \<or> \<not> endswith pem [line_feed]) snapshot_error (
    let lines = split_on line_feed (butlast pem) in
    raise_if (length lines < 3) snapshot_error (
    case find (\<lambda>label. hd lines = begin_line label) allowed_labels of
      None \<Rightarrow> Inl snapshot_error
    | Some label \<Rightarrow>
        raise_if (List.last lines \<noteq> end_line label) snapshot_error (
        case b64decode (concat (butlast (tl lines))) of
          None \<Rightarrow> Inl snapshot_error
        | Some der \<Rightarrow>
            raise_if (length der < minimum_der_bytes \<or> MAX_EMBEDDED_BYTES < length der \<or> \<not> startswith der [CHR 0x30])
              snapshot_error (
            raise_if (pem \<noteq> pem_text label der) snapshot_error (Inr pem)))))))"

section \<open>The server\<close>

definition url_path :: "string \<Rightarrow> string" where
  "url_path s = before (CHR ''?'') (before (CHR ''#'') (snd (split_netloc (snd (split_scheme (clean_url s))))))"

definition url_query :: "string \<Rightarrow> string" where
  "url_query s = after (CHR ''?'') (before (CHR ''#'') (snd (split_netloc (snd (split_scheme (clean_url s))))))"

definition dotted_digits :: "string \<Rightarrow> bool" where
  "dotted_digits s = list_all (\<lambda>c. is_digit c \<or> c = CHR ''.'') s"

definition canonical_server :: "string \<Rightarrow> string \<Rightarrow> string \<Rightarrow> nat option \<Rightarrow> bool \<Rightarrow> bool res" where
  "canonical_server s netloc host port is_address =
    (let canonical = host @ (case port of None \<Rightarrow> [] | Some p \<Rightarrow> '':'' @ show_nat p) in
     raise_if (netloc \<noteq> canonical \<or> s \<noteq> ''https://'' @ canonical) snapshot_error (Inr is_address))"

text \<open>An at sign anywhere in the network location gives a user name, even an empty one.\<close>

definition validate_server :: "(string \<Rightarrow> bool) \<Rightarrow> json \<Rightarrow> bool res" where
  "validate_server rejected v =
    (case v of
       JStr s \<Rightarrow>
         raise_if (s = [] \<or> strip s \<noteq> s) snapshot_error (
         bind (rewrap is_value_error (\<lambda>_. snapshot_error)
           (bind (urlsplit rejected s) (\<lambda>u. bind (url_port u) (\<lambda>port. Inr (u, port))))) (\<lambda>(u, port).
         let netloc = url_netloc u; hostname = url_hostname u in
         raise_if (url_scheme u \<noteq> ''https'' \<or> netloc = [] \<or> url_path s \<noteq> [] \<or> url_query s \<noteq> [] \<or> url_fragment u \<noteq> []
             \<or> CHR ''@'' \<in> set netloc \<or> hostname = [] \<or> port = Some 0) snapshot_error (
         raise_if (\<not> is_ascii hostname) snapshot_error (
         case ip_address_of hostname of
           None \<Rightarrow>
             raise_if (dotted_digits hostname) snapshot_error (
             bind (valid_dns_name (JStr hostname)) (\<lambda>_. canonical_server s netloc hostname port False))
         | Some (IPv4 octets) \<Rightarrow> canonical_server s netloc (compressed (IPv4 octets)) port True
         | Some (IPv6 groups scope) \<Rightarrow>
             canonical_server s netloc (''['' @ compressed (IPv6 groups scope) @ '']'') port True))))
     | _ \<Rightarrow> Inl snapshot_error)"

definition validate_tls_server_name :: "json \<Rightarrow> unit res" where
  "validate_tls_server_name v =
    bind (valid_dns_name v) (\<lambda>name.
    raise_if (ip_address_of name \<noteq> None \<or> dotted_digits name) snapshot_error (Inr ()))"

section \<open>The document\<close>

text \<open>\<open>hmac.compare_digest\<close> on text, which must be ASCII.\<close>

definition compare_digest :: "string \<Rightarrow> string \<Rightarrow> bool res" where
  "compare_digest a b = raise_if (\<not> is_ascii a \<or> \<not> is_ascii b) TypeError (Inr (a = b))"

definition decode_snapshot :: "float_text \<Rightarrow> string \<Rightarrow> json res" where
  "decode_snapshot fl bytes =
    rewrap (\<lambda>e. e = UnicodeDecodeError \<or> e = JSONDecodeError \<or> e = snapshot_error) (\<lambda>_. snapshot_error)
      (bind (decode_utf8 bytes) (\<lambda>text. loads_strict fl snapshot_error snapshot_error text))"

definition check_cluster :: "(string \<Rightarrow> bool) \<Rightarrow> json \<Rightarrow> string res" where
  "check_cluster rejected v =
    (case v of
       JObj cluster \<Rightarrow>
         raise_if (\<not> keys_are cluster CLUSTER_KEYS \<and> \<not> keys_are cluster CLUSTER_KEYS_WITH_TLS_NAME) snapshot_error (
         bind (validate_server rejected (get cluster ''server'')) (\<lambda>server_uses_ip.
         bind (canonical_pem (get cluster ''certificate-authority-data'') [''CERTIFICATE''] 64) (\<lambda>ca_pem.
         bind (if has_key cluster ''tls-server-name''
               then raise_if (\<not> server_uses_ip) snapshot_error (validate_tls_server_name (get cluster ''tls-server-name''))
               else Inr ()) (\<lambda>_. Inr ca_pem))))
     | _ \<Rightarrow> Inl snapshot_error)"

definition KEY_LABELS :: "string list" where
  "KEY_LABELS = [''PRIVATE KEY'', ''RSA PRIVATE KEY'', ''EC PRIVATE KEY'']"

definition check_user :: "json \<Rightarrow> string \<Rightarrow> unit res" where
  "check_user v ca_pem =
    bind (exact_object v USER_KEYS) (\<lambda>user.
    bind (canonical_pem (get user ''client-certificate-data'') [''CERTIFICATE''] 64) (\<lambda>client_pem.
    bind (canonical_pem (get user ''client-key-data'') KEY_LABELS 32) (\<lambda>_.
    raise_if (ca_pem = client_pem) snapshot_error (Inr ()))))"

definition same_names :: "dict \<Rightarrow> string \<Rightarrow> string \<Rightarrow> string \<Rightarrow> string \<Rightarrow> unit res" where
  "same_names context cluster_name user_name current_context context_name =
    (case (get context ''cluster'', get context ''user'') of
       (JStr cluster, JStr user) \<Rightarrow>
         bind (compare_digest cluster cluster_name) (\<lambda>same.
         raise_if (\<not> same) snapshot_error (
         bind (compare_digest user user_name) (\<lambda>same.
         raise_if (\<not> same) snapshot_error (
         bind (compare_digest current_context context_name) (\<lambda>same.
         raise_if (\<not> same) snapshot_error (Inr ()))))))
     | _ \<Rightarrow> Inl snapshot_error)"

definition check_context :: "json \<Rightarrow> string \<Rightarrow> string \<Rightarrow> string \<Rightarrow> string \<Rightarrow> unit res" where
  "check_context v cluster_name user_name current_context context_name =
    (case v of
       JObj context \<Rightarrow>
         raise_if (\<not> keys_are context CONTEXT_KEYS \<and> \<not> keys_are context CONTEXT_KEYS_WITH_NAMESPACE) snapshot_error (
         bind (same_names context cluster_name user_name current_context context_name) (\<lambda>_.
         if has_key context ''namespace''
         then (case get context ''namespace'' of
                 JStr namespace \<Rightarrow> raise_if (\<not> dns_label namespace) snapshot_error (Inr ())
               | _ \<Rightarrow> Inl snapshot_error)
         else Inr ()))
     | _ \<Rightarrow> Inl snapshot_error)"

definition parse_snapshot :: "(string \<Rightarrow> bool) \<Rightarrow> float_text \<Rightarrow> string \<Rightarrow> unit res" where
  "parse_snapshot rejected fl bytes =
    bind (decode_snapshot fl bytes) (\<lambda>document.
    bind (exact_object document TOP_LEVEL_KEYS) (\<lambda>d.
    raise_if (get d ''apiVersion'' \<noteq> JStr ''v1'') snapshot_error (
    raise_if (get d ''kind'' \<noteq> JStr ''Config'') snapshot_error (
    raise_if (get d ''preferences'' \<noteq> JObj []) snapshot_error (
    bind (one_entry (get d ''clusters'')) (\<lambda>cluster_entry.
    bind (one_entry (get d ''users'')) (\<lambda>user_entry.
    bind (one_entry (get d ''contexts'')) (\<lambda>context_entry.
    bind (exact_object (JObj cluster_entry) [''name'', ''cluster'']) (\<lambda>_.
    bind (exact_object (JObj user_entry) [''name'', ''user'']) (\<lambda>_.
    bind (exact_object (JObj context_entry) [''name'', ''context'']) (\<lambda>_.
    bind (safe_name (get cluster_entry ''name'')) (\<lambda>cluster_name.
    bind (safe_name (get user_entry ''name'')) (\<lambda>user_name.
    bind (safe_name (get context_entry ''name'')) (\<lambda>context_name.
    bind (safe_name (get d ''current-context'')) (\<lambda>current_context.
    bind (check_cluster rejected (get cluster_entry ''cluster'')) (\<lambda>ca_pem.
    bind (check_user (get user_entry ''user'') ca_pem) (\<lambda>_.
    check_context (get context_entry ''context'') cluster_name user_name current_context context_name)))))))))))))))))"

section \<open>The command\<close>

definition validate_kubeconfig :: "(string \<Rightarrow> bool) \<Rightarrow> float_text \<Rightarrow> custody \<Rightarrow> (string \<times> string) list \<Rightarrow> unit res" where
  "validate_kubeconfig rejected fl c environment =
    (let text = (case map_of environment KUBECONFIG_SNAPSHOT_ENV of None \<Rightarrow> [] | Some t \<Rightarrow> t) in
     bind (read_snapshot c text) (parse_snapshot rejected fl))"

definition kubeconfig_main ::
  "(string \<Rightarrow> bool) \<Rightarrow> float_text \<Rightarrow> custody \<Rightarrow> (string \<times> string) list \<Rightarrow> string list \<Rightarrow> bool \<Rightarrow> nat \<times> string" where
  "kubeconfig_main rejected fl c environment arguments isolated =
    (case raise_if (arguments \<noteq> [] \<or> \<not> isolated) snapshot_error (validate_kubeconfig rejected fl c environment) of
       Inl _ \<Rightarrow> (1, ''FAIL Kubernetes kubeconfig snapshot validation.'')
     | Inr _ \<Rightarrow> (0, ''PASS Kubernetes kubeconfig snapshot validation.''))"

text \<open>What the kubeconfig validator accepts as a credential: one text for every DER value and label.\<close>

section \<open>Pieces of a line\<close>

lemma concat_pieces [simp]: "concat (pieces s) = s"
  by (induction s rule: pieces.induct) (subst pieces.simps, simp)

lemma pieces_chars: "x \<in> set (pieces s) \<Longrightarrow> c \<in> set x \<Longrightarrow> c \<in> set s"
  by (metis UN_I concat_pieces set_concat)

lemma pieces_nonempty: "s \<noteq> [] \<Longrightarrow> pieces s \<noteq> []"
  by (subst pieces.simps) simp

lemma b64_char_ascii: "n < 64 \<Longrightarrow> byte (b64_char n) < 128 \<and> b64_char n \<notin> {CHR 0x0A, CHR 0x0D}"
proof -
  assume n: "n < 64"
  have "b64_value CHR 0x0A = None" "b64_value CHR 0x0D = None" by (simp_all add: b64_value_def byte_in_def)
  with b64_value_char [OF n] have "b64_char n \<notin> {CHR 0x0A, CHR 0x0D}" by auto
  moreover have "byte (b64_char n) < 128" using n by (auto simp: b64_char_def)
  ultimately show ?thesis by simp
qed

definition b64_output :: "char set" where
  "b64_output = insert (CHR ''='') (b64_char ` {..<64})"

lemma b64_output_simps [simp]: "n < 64 \<Longrightarrow> b64_char n \<in> b64_output" "CHR ''='' \<in> b64_output"
  by (simp_all add: b64_output_def)

lemma b64encode_output: "set (b64encode s) \<subseteq> b64_output"
proof (induction s rule: b64encode.induct)
  case 1
  then show ?case by simp
next
  case (2 a)
  show ?case using b64_groups [OF byte_less [of a] byte_less [of a] byte_less [of a]] by simp
next
  case (3 a b)
  show ?case using b64_groups [OF byte_less [of a] byte_less [of b] byte_less [of b]] by simp
next
  case (4 a b c s)
  then show ?case using b64_groups [OF byte_less [of a] byte_less [of b] byte_less [of c]] by simp
qed

lemma b64encode_chars: "c \<in> set (b64encode s) \<Longrightarrow> byte c < 128 \<and> c \<noteq> CHR 0x0A \<and> c \<noteq> CHR 0x0D"
proof -
  assume "c \<in> set (b64encode s)"
  then have "c \<in> b64_output" using b64encode_output by blast
  then show ?thesis using b64_char_ascii by (auto simp: b64_output_def)
qed

section \<open>PEM\<close>

definition plain_label :: "string \<Rightarrow> bool" where
  "plain_label label \<longleftrightarrow> list_all (\<lambda>c. byte c < 128 \<and> c \<noteq> CHR 0x0A \<and> c \<noteq> CHR 0x0D) label"

definition pem_lines :: "string \<Rightarrow> string \<Rightarrow> string list" where
  "pem_lines label der = [begin_line label] @ pieces (b64encode der) @ [end_line label]"

lemma join_end: "ws \<noteq> [] \<Longrightarrow> join sep (ws @ [[]]) = join sep ws @ sep"
  by (induction sep ws rule: join.induct) auto

lemma pem_text_lines: "pem_text label der = join [line_feed] (pem_lines label der) @ [line_feed]"
  using join_end [of "pem_lines label der" "[line_feed]"] by (simp add: pem_text_def pem_lines_def)

abbreviation line_char :: "char \<Rightarrow> bool" where
  "line_char c \<equiv> byte c < 128 \<and> c \<noteq> CHR 0x0A \<and> c \<noteq> CHR 0x0D"

lemma line_chars:
  assumes "plain_label label" and "l \<in> set (pem_lines label der)"
  shows "list_all line_char l"
proof -
  consider "l = begin_line label" | "l \<in> set (pieces (b64encode der))" | "l = end_line label"
    using assms(2) by (auto simp: pem_lines_def)
  then show ?thesis
  proof cases
    case 2
    then show ?thesis using pieces_chars b64encode_chars unfolding list_all_iff by blast
  qed (use assms(1) in \<open>simp_all add: begin_line_def end_line_def plain_label_def\<close>)
qed

lemma join_members: "c \<in> set (join sep ws) \<Longrightarrow> c \<in> set sep \<or> (\<exists>w \<in> set ws. c \<in> set w)"
  by (induction sep ws rule: join.induct) auto

lemma split_on_lines: "ws \<noteq> [] \<Longrightarrow> (\<And>w. w \<in> set ws \<Longrightarrow> sep \<notin> set w) \<Longrightarrow> split_on sep (join [sep] ws) = ws"
proof (induction "[sep]" ws rule: join.induct)
  case (3 w v ws)
  then show ?case by (simp add: split_on_append)
qed (auto simp: split_on_word)

lemma pem_split:
  assumes "plain_label label"
  shows "split_on line_feed (butlast (pem_text label der)) = pem_lines label der"
    and "is_ascii (pem_text label der)" and "CHR 0x0D \<notin> set (pem_text label der)"
proof -
  have chars: "byte c < 128 \<and> c \<noteq> CHR 0x0D" if "c \<in> set (pem_text label der)" for c
  proof -
    from that consider "c = line_feed" | w where "w \<in> set (pem_lines label der)" "c \<in> set w"
      using join_members [of c "[line_feed]" "pem_lines label der"] by (auto simp: pem_text_lines)
    then show ?thesis
    proof cases
      case 2
      then show ?thesis using line_chars [OF assms 2(1)] by (simp add: list_all_iff)
    qed (simp add: line_feed_def)
  qed
  have "line_feed \<notin> set w" if "w \<in> set (pem_lines label der)" for w
    using line_chars [OF assms that] by (auto simp: line_feed_def list_all_iff)
  then have "split_on line_feed (join [line_feed] (pem_lines label der)) = pem_lines label der"
    by (intro split_on_lines) (simp_all add: pem_lines_def)
  then show "split_on line_feed (butlast (pem_text label der)) = pem_lines label der"
    by (simp add: pem_text_lines)
  show "is_ascii (pem_text label der)" "CHR 0x0D \<notin> set (pem_text label der)"
    using chars by (auto simp: is_ascii_def list_all_iff)
qed

lemma canonical_base64_Inr:
  "canonical_base64 (JStr s) = Inr decoded \<longleftrightarrow>
    s = b64encode decoded \<and> decoded \<noteq> [] \<and> length decoded \<le> MAX_EMBEDDED_BYTES"
  by (auto simp: canonical_base64_def)

lemma begin_line_inj: "begin_line a = begin_line b \<longleftrightarrow> a = b"
  by (simp add: begin_line_def)

lemma find_label: "label \<in> set labels \<Longrightarrow> find (\<lambda>l. begin_line label = begin_line l) labels = Some label"
  by (induction labels) (auto simp: begin_line_inj)

definition der_ok :: "nat \<Rightarrow> string \<Rightarrow> bool" where
  "der_ok least der \<longleftrightarrow> least \<le> length der \<and> length der \<le> MAX_EMBEDDED_BYTES \<and> startswith der [CHR 0x30]"

lemma canonical_pem_text:
  assumes "canonical_pem (JStr s) labels least = Inr pem"
  shows "\<exists>label der. label \<in> set labels \<and> der_ok least der \<and> pem = pem_text label der
    \<and> s = b64encode pem \<and> length pem \<le> MAX_EMBEDDED_BYTES"
proof -
  from assms obtain lines label der where decoded: "canonical_base64 (JStr s) = Inr pem"
    and label: "find (\<lambda>label. hd lines = begin_line label) labels = Some label"
    and der: "\<not> (length der < least \<or> MAX_EMBEDDED_BYTES < length der \<or> \<not> startswith der [CHR 0x30])" "pem = pem_text label der"
    unfolding canonical_pem_def Let_def by auto
  from label have "label \<in> set labels" by (auto simp: find_Some_iff)
  with decoded der show ?thesis unfolding canonical_base64_Inr by (auto simp: der_ok_def not_less)
qed

lemma pem_text_canonical:
  assumes "label \<in> set labels" and "plain_label label" and "der_ok least der"
    and "length (pem_text label der) \<le> MAX_EMBEDDED_BYTES"
  shows "canonical_pem (JStr (b64encode (pem_text label der))) labels least = Inr (pem_text label der)"
proof -
  have "der \<noteq> []" using assms(3) by (auto simp: der_ok_def startswith_def)
  then have lines: "\<not> length (pem_lines label der) < 3"
    using pieces_nonempty [of "b64encode der"] by (cases "pieces (b64encode der)") (auto simp: pem_lines_def)
  have body: "concat (butlast (tl (pem_lines label der))) = b64encode der"
    by (simp add: pem_lines_def butlast_append)
  have base64: "canonical_base64 (JStr (b64encode (pem_text label der))) = Inr (pem_text label der)"
    using assms(4) by (simp add: canonical_base64_Inr pem_text_lines)
  have "find (\<lambda>l. hd (pem_lines label der) = begin_line l) labels = Some label"
    using find_label [OF assms(1)] by (simp add: pem_lines_def)
  moreover have "List.last (pem_lines label der) = end_line label" by (simp add: pem_lines_def)
  moreover have "endswith (pem_text label der) [line_feed]" by (simp add: pem_text_lines endswith_def)
  moreover have "pem_text label der \<noteq> []" by (simp add: pem_text_lines)
  ultimately show ?thesis
    using assms(3,4) pem_split [OF assms(2), of der] lines body
    unfolding canonical_pem_def
    by (simp add: base64 der_ok_def Let_def not_less)
qed

definition CREDENTIAL_LABELS :: "bool \<Rightarrow> string list" where
  "CREDENTIAL_LABELS key = (if key then KEY_LABELS else [''CERTIFICATE''])"

lemma credential_labels_plain: "label \<in> set (CREDENTIAL_LABELS key) \<Longrightarrow> plain_label label"
  by (cases key) (auto simp: CREDENTIAL_LABELS_def KEY_LABELS_def plain_label_def)

text \<open>
  C28: credentials have one text.  For certificates and for keys, an embedded value is accepted exactly when it is the base64
  text of the PEM text, in lines of 64 characters, of a DER value within the bounds that starts a sequence, under one
  of the allowed labels.
\<close>

theorem credential_text_exact:
  "canonical_pem (JStr s) (CREDENTIAL_LABELS key) least = Inr pem \<longleftrightarrow>
    (\<exists>label der. label \<in> set (CREDENTIAL_LABELS key) \<and> der_ok least der \<and> pem = pem_text label der
      \<and> length pem \<le> MAX_EMBEDDED_BYTES \<and> s = b64encode pem)"
  using canonical_pem_text pem_text_canonical credential_labels_plain by blast

end
