(* ===== verification/AdminIngress.thy ===== *)
theory AdminIngress
  imports PrivateFile PyRegex ReleaseLines
begin

text \<open>
  scripts/validate_admin_ingress_contract.py: the private file that names the administrative ingress
  interfaces.  A diagnostic is a fixed token, with a line number where there is a line, and
  never a value of the file.
\<close>

section \<open>Interfaces\<close>

definition REVIEW_KEY :: string where "REVIEW_KEY = ''ADMIN_INGRESS_REVIEWED''"
definition INTERFACE_KEY :: string where "INTERFACE_KEY = ''ADMIN_INGRESS_INTERFACE''"
definition ALLOWED_KEYS :: "string list" where "ALLOWED_KEYS = [REVIEW_KEY, INTERFACE_KEY]"

definition INTERFACE_MIN_LENGTH :: nat where "INTERFACE_MIN_LENGTH = 2"
definition INTERFACE_MAX_LENGTH :: nat where "INTERFACE_MAX_LENGTH = 15"

definition interface_first :: "char \<Rightarrow> bool" where "interface_first c = byte_in 97 122 c"
definition interface_char :: "char \<Rightarrow> bool" where
  "interface_char c = (byte_in 97 122 c \<or> is_digit c \<or> c \<in> set ''._-'')"

definition FORBIDDEN_EXACT :: "string list" where "FORBIDDEN_EXACT = [''lo'']"
definition FORBIDDEN_PREFIXES :: "string list" where
  "FORBIDDEN_PREFIXES =
    [''bond'', ''br'', ''cali'', ''cni'', ''docker'', ''dummy'', ''en'', ''eth'', ''flannel'', ''kube'', ''lxc'', ''tap'',
     ''team'', ''tunl'', ''veth'', ''virbr'', ''vxlan'', ''wl'']"

definition MAX_CONTRACT_BYTES :: nat where "MAX_CONTRACT_BYTES = 8192"
definition MAX_INTERFACES :: nat where "MAX_INTERFACES = 16"

definition at_line :: "string \<Rightarrow> nat \<Rightarrow> string" where
  "at_line token n = token @ '' line '' @ show_nat n"

definition interface_errors :: "string \<Rightarrow> nat \<Rightarrow> string list" where
  "interface_errors v n =
    (let size = length (characters v) in
     if \<not> (INTERFACE_MIN_LENGTH \<le> size \<and> size \<le> INTERFACE_MAX_LENGTH) \<or> \<not> interface_first (hd v) \<or> \<not> list_all interface_char v
     then [at_line ''INTERFACE_SHAPE_INVALID'' n]
     else if v \<in> set FORBIDDEN_EXACT \<or> list_ex (startswith v) FORBIDDEN_PREFIXES
     then [at_line ''INTERFACE_CLASS_FORBIDDEN'' n]
     else [])"

section \<open>Lines\<close>

text \<open>\<open>seen_interfaces\<close> holds the elements of \<open>interfaces\<close>.\<close>

record contract_state =
  review_values :: "string list"
  interfaces :: "string list"
  contract_errors :: "string list"

definition complain :: "string list \<Rightarrow> contract_state \<Rightarrow> contract_state" where
  "complain tokens st = st\<lparr>contract_errors := contract_errors st @ tokens\<rparr>"

definition key_letter :: "char \<Rightarrow> bool" where
  "key_letter c = (byte_in 65 90 c \<or> c = CHR ''_'')"

definition review_entry :: "nat \<Rightarrow> string \<Rightarrow> contract_state \<Rightarrow> contract_state" where
  "review_entry n v st =
    (if review_values st \<noteq> [] then complain [at_line ''REVIEW_FLAG_DUPLICATE'' n] st
     else if v \<notin> {''yes'', ''no''} then complain [at_line ''REVIEW_FLAG_INVALID'' n] st
     else st\<lparr>review_values := [v]\<rparr>)"

definition interface_entry :: "nat \<Rightarrow> string \<Rightarrow> contract_state \<Rightarrow> contract_state" where
  "interface_entry n v st =
    (if interface_errors v n \<noteq> [] then complain (interface_errors v n) st
     else if v \<in> set (interfaces st) then complain [at_line ''INTERFACE_DUPLICATE'' n] st
     else if MAX_INTERFACES \<le> length (interfaces st) then complain [at_line ''INTERFACE_LIMIT_EXCEEDED'' n] st
     else st\<lparr>interfaces := interfaces st @ [v]\<rparr>)"

definition contract_line :: "nat \<Rightarrow> string \<Rightarrow> contract_state \<Rightarrow> contract_state" where
  "contract_line n line st =
    (if line = [] \<or> startswith line ''#'' then st
     else if line \<noteq> strip line \<or> list_ex (\<lambda>c. byte c < 32) line then complain [at_line ''LINE_SHAPE_INVALID'' n] st
     else
       case split_first (CHR ''='') line of
         None \<Rightarrow> complain [at_line ''LINE_SHAPE_INVALID'' n] st
       | Some (key, v) \<Rightarrow>
           if key = [] \<or> v = [] then complain [at_line ''LINE_SHAPE_INVALID'' n] st
           else if \<not> list_all key_letter key then complain [at_line ''LINE_SHAPE_INVALID'' n] st
           else if key \<notin> set ALLOWED_KEYS then complain [at_line ''KEY_UNSUPPORTED'' n] st
           else if list_ex space_char (characters v) then complain [at_line ''VALUE_WHITESPACE_AMBIGUOUS'' n] st
           else if key = REVIEW_KEY then review_entry n v st
           else interface_entry n v st)"

fun contract_lines :: "nat \<Rightarrow> string list \<Rightarrow> contract_state \<Rightarrow> contract_state" where
  "contract_lines n [] st = st"
| "contract_lines n (line # lines) st = contract_lines (n + 1) lines (contract_line n line st)"

definition final_errors :: "contract_state \<Rightarrow> string list" where
  "final_errors st =
    contract_errors st
    @ (case review_values st of [] \<Rightarrow> [''REVIEW_FLAG_MISSING''] | v # _ \<Rightarrow> if v \<noteq> ''yes'' then [''REVIEW_INCOMPLETE''] else [])
    @ (if interfaces st = [] then [''INTERFACE_MISSING''] else [])"

text \<open>The interfaces, or the errors.\<close>

definition parse_contract_text :: "string \<Rightarrow> string list + string list" where
  "parse_contract_text text =
    (let st = contract_lines 1 (split_on line_feed text) \<lparr>review_values = [], interfaces = [], contract_errors = []\<rparr> in
     if final_errors st \<noteq> [] then Inl (final_errors st) else Inr (interfaces st))"

section \<open>The file\<close>

definition metadata_errors :: "bool \<Rightarrow> bool \<Rightarrow> int \<Rightarrow> int \<Rightarrow> int \<Rightarrow> int \<Rightarrow> string list" where
  "metadata_errors symlink regular mode uid gid nlink =
    (if symlink then [''CONTRACT_SYMLINK'']
     else if \<not> regular then [''CONTRACT_NOT_REGULAR'']
     else (if mode \<noteq> 384 then [''CONTRACT_MODE_INVALID''] else [])
        @ (if uid \<noteq> 0 \<or> gid \<noteq> 0 then [''CONTRACT_OWNERSHIP_INVALID''] else [])
        @ (if nlink \<noteq> 1 then [''CONTRACT_LINK_COUNT_INVALID''] else []))"

definition stat_errors :: "os_stat \<Rightarrow> string list" where
  "stat_errors st =
    metadata_errors (is_symlink st) (is_regular st) (permissions st) (owner_uid st) (owner_gid st) (links st)"

definition contract_stat :: "os_stat \<Rightarrow> int list" where
  "contract_stat st =
    [device st, inode st, mode_bits st, owner_uid st, owner_gid st, links st, byte_size st, modified_ns st, changed_ns st]"

text \<open>
  What the operating system answers.  An error of \<open>fstat\<close> on the open descriptor is not caught.
\<close>

record contract_file =
  given_path :: string
  first_lstat :: "os_stat res"
  contract_descends :: "string list \<Rightarrow> unit res"
  first_fstat :: "os_stat res"
  contract_offered :: "nat \<Rightarrow> string res"
  second_fstat :: "os_stat res"
  last_lstat :: "os_stat res"

text \<open>A \<open>return None, tokens\<close> from inside the body.\<close>

definition refuse :: "string list \<Rightarrow> (string list + 'a) res" where "refuse tokens = Inr (Inl tokens)"

definition on_os_error :: "string \<Rightarrow> 'a res \<Rightarrow> ('a \<Rightarrow> (string list + 'b) res) \<Rightarrow> (string list + 'b) res" where
  "on_os_error token m k =
    (case m of Inl e \<Rightarrow> if e = OSError then refuse [token] else Inl e | Inr x \<Rightarrow> k x)"

definition read_contract_bytes :: "contract_file \<Rightarrow> (string list + string) res" where
  "read_contract_bytes file =
    on_os_error ''CONTRACT_UNAVAILABLE'' (first_lstat file) (\<lambda>initial.
    if stat_errors initial \<noteq> [] then refuse (stat_errors initial)
    else
      on_os_error ''CONTRACT_UNAVAILABLE''
        (open_no_follow OSError (path_root (given_path file) \<noteq> []) (path_parts (given_path file)) (contract_descends file)) (\<lambda>_.
      bind (first_fstat file) (\<lambda>opened.
      if (device opened, inode opened) \<noteq> (device initial, inode initial) then refuse [''CONTRACT_CHANGED_WHILE_READING'']
      else if stat_errors opened \<noteq> [] then refuse (stat_errors opened)
      else
        on_os_error ''CONTRACT_UNAVAILABLE'' (read_upto (contract_offered file) 0 (MAX_CONTRACT_BYTES + 1)) (\<lambda>bytes.
        bind (second_fstat file) (\<lambda>later.
        if contract_stat later \<noteq> contract_stat opened \<or> byte_size later \<noteq> int (length bytes)
        then refuse [''CONTRACT_CHANGED_WHILE_READING'']
        else
          on_os_error ''CONTRACT_CHANGED_WHILE_READING'' (last_lstat file) (\<lambda>final.
          if contract_stat final \<noteq> contract_stat later then refuse [''CONTRACT_CHANGED_WHILE_READING'']
          else if MAX_CONTRACT_BYTES < length bytes then refuse [''CONTRACT_TOO_LARGE'']
          else Inr (Inr bytes)))))))"

definition load_admin_ingress_contract :: "contract_file \<Rightarrow> (string list + string list) res" where
  "load_admin_ingress_contract file =
    bind (read_contract_bytes file) (\<lambda>found.
    case found of
      Inl tokens \<Rightarrow> refuse tokens
    | Inr bytes \<Rightarrow> if utf8_valid bytes then Inr (parse_contract_text bytes) else refuse [''CONTRACT_ENCODING_INVALID''])"

section \<open>The example and the command line\<close>

definition example_errors :: "string \<Rightarrow> string list" where
  "example_errors text =
    (let lines = split_on line_feed text in
     (if length (filter (\<lambda>line. line = REVIEW_KEY @ ''=no'') lines) \<noteq> 1 \<or> contains text (REVIEW_KEY @ ''=yes'')
      then [''EXAMPLE_MUST_STAY_UNREVIEWED''] else [])
     @ (if list_ex (\<lambda>line. startswith line (INTERFACE_KEY @ ''='')) lines then [''EXAMPLE_MUST_DECLARE_NO_VALUE''] else []))"

text \<open>
  \<open>content\<close> is what \<open>read_text\<close> finds; a byte that is not UTF-8 raises an error that nothing catches.
\<close>

definition contract_report :: "string \<Rightarrow> string list \<Rightarrow> nat \<times> string list" where
  "contract_report subject errors =
    (if errors \<noteq> [] then (1, map (\<lambda>e. ''admin-ingress-contract: FAIL '' @ e) errors)
     else (0, [''admin-ingress-contract: PASS reviewed-admin-ingress-'' @ subject]))"

definition admin_ingress_main :: "contract_file \<Rightarrow> string res \<Rightarrow> string list \<Rightarrow> (nat \<times> string list) res" where
  "admin_ingress_main file content argv =
    (if length argv \<noteq> 3 \<or> argv ! 1 \<notin> {''CONTRACT'', ''EXAMPLE''}
     then Inr (2, [''usage: validate_admin_ingress_contract.py CONTRACT|EXAMPLE <path>''])
     else if argv ! 1 = ''EXAMPLE''
     then
       (case bind content decode_utf8 of
          Inr text \<Rightarrow> Inr (contract_report ''example'' (example_errors (universal_newlines text)))
        | Inl e \<Rightarrow> if e = OSError then Inr (contract_report ''example'' [''CONTRACT_UNAVAILABLE'']) else Inl e)
     else
       bind (load_admin_ingress_contract file) (\<lambda>found.
       Inr (contract_report ''contract'' (case found of Inl errors \<Rightarrow> errors | Inr _ \<Rightarrow> []))))"

text \<open>
  What an accepted ingress contract declares.  A relation says which lists of lines carry which
  review flags and interfaces; the parser accepts exactly these.
\<close>

section \<open>Accepted lines\<close>

definition reviewed :: "string \<Rightarrow> string" where "reviewed v = REVIEW_KEY @ ''='' @ v"
definition declared :: "string \<Rightarrow> string" where "declared v = INTERFACE_KEY @ ''='' @ v"

definition interface_ok :: "string \<Rightarrow> bool" where
  "interface_ok v \<longleftrightarrow>
    INTERFACE_MIN_LENGTH \<le> length v \<and> length v \<le> INTERFACE_MAX_LENGTH \<and> interface_first (hd v) \<and> list_all interface_char v
    \<and> v \<notin> set FORBIDDEN_EXACT \<and> \<not> list_ex (startswith v) FORBIDDEN_PREFIXES"

abbreviation insignificant :: "string \<Rightarrow> bool" where
  "insignificant line \<equiv> line = [] \<or> startswith line ''#''"

inductive carries :: "string list \<Rightarrow> string list \<Rightarrow> string list \<Rightarrow> bool" where
  carries_nothing: "carries [] [] []"
| carries_comment: "insignificant line \<Longrightarrow> carries lines flags names \<Longrightarrow> carries (line # lines) flags names"
| carries_flag: "v = ''yes'' \<or> v = ''no'' \<Longrightarrow> carries lines flags names \<Longrightarrow> carries (reviewed v # lines) (v # flags) names"
| carries_name: "interface_ok v \<Longrightarrow> carries lines flags names \<Longrightarrow> carries (declared v # lines) flags (v # names)"

inductive_cases carries_NilE: "carries [] flags names"

lemma interface_char_plain: "interface_char c \<Longrightarrow> plain_char c \<and> c \<noteq> CHR ''=''"
proof -
  assume c: "interface_char c"
  have "\<not> interface_char (CHR ''='')" by code_simp
  moreover from c consider "byte_in 97 122 c" | "byte_in 48 57 c" | "c = CHR ''.''" | "c = CHR ''_''" | "c = CHR ''-''"
    unfolding interface_char_def is_digit_def by auto
  then have "plain_char c" by cases (simp_all add: plain_char_def byte_in_def)
  ultimately show ?thesis using c by blast
qed

lemma plain_ascii: "list_all plain_char s \<Longrightarrow> is_ascii s"
  by (induction s) (simp_all add: plain_char_def)

lemma interface_plain: "list_all interface_char v \<Longrightarrow> list_all plain_char v"
  by (induction v) (simp_all add: interface_char_plain)

lemma interface_errors_empty: "interface_errors v n = [] \<longleftrightarrow> interface_ok v"
proof (cases "list_all interface_char v")
  case True
  then have "length (characters v) = length v" by (simp add: characters_ascii plain_ascii interface_plain)
  then show ?thesis unfolding interface_errors_def interface_ok_def Let_def using True by (simp split: if_split) blast
qed (simp add: interface_errors_def interface_ok_def Let_def)

lemma plain_entry:
  assumes "list_all plain_char line" and "hd line \<noteq> CHR ''#''"
  shows "\<not> startswith line ''#'' \<and> strip line = line \<and> \<not> list_ex (\<lambda>c. byte c < 32) line"
  using assms strip_plain by (cases line) (auto simp: startswith_def list_ex_iff list_all_iff plain_char_def)

lemma keys_plain: "list_all plain_char (reviewed [])" "list_all plain_char (declared [])"
  by code_simp+

lemma entry_plain: "list_all plain_char v \<Longrightarrow> list_all plain_char (reviewed v) \<and> list_all plain_char (declared v)"
  using keys_plain by (simp add: reviewed_def declared_def)

lemma no_spaces: "list_all plain_char v \<Longrightarrow> \<not> list_ex space_char (characters v)"
proof -
  assume plain: "list_all plain_char v"
  then have "is_ascii v" by (rule plain_ascii)
  moreover have "\<not> space_char [c]" if "plain_char c" for c
    using strip_plain [of "[c]"] that by (simp add: space_char_def)
  ultimately show ?thesis using plain by (auto simp: characters_ascii list_ex_iff list_all_iff)
qed

lemma split_entry:
  "split_first (CHR ''='') (reviewed v) = Some (REVIEW_KEY, v)" "split_first (CHR ''='') (declared v) = Some (INTERFACE_KEY, v)"
  by (simp_all add: reviewed_def declared_def REVIEW_KEY_def INTERFACE_KEY_def)

lemma keys_ok:
  "REVIEW_KEY \<noteq> []" "INTERFACE_KEY \<noteq> []" "list_all key_letter REVIEW_KEY" "list_all key_letter INTERFACE_KEY"
  "REVIEW_KEY \<in> set ALLOWED_KEYS" "INTERFACE_KEY \<in> set ALLOWED_KEYS" "INTERFACE_KEY \<noteq> REVIEW_KEY"
  by code_simp+

lemma flag_line:
  assumes "v = ''yes'' \<or> v = ''no''"
  shows "contract_line n (reviewed v) st = review_entry n v st"
proof -
  have plain: "list_all plain_char v" "v \<noteq> []" using assms by (auto simp: plain_char_def)
  have "hd (reviewed v) \<noteq> CHR ''#''" "reviewed v \<noteq> []" by (simp_all add: reviewed_def REVIEW_KEY_def)
  then show ?thesis
    using plain_entry entry_plain [OF plain(1)] no_spaces [OF plain(1)] plain(2)
    by (simp add: contract_line_def split_entry keys_ok)
qed

lemma name_line:
  assumes "interface_ok v"
  shows "contract_line n (declared v) st = interface_entry n v st"
proof -
  have plain: "list_all plain_char v" "v \<noteq> []"
    using assms interface_plain [of v] by (auto simp: interface_ok_def INTERFACE_MIN_LENGTH_def)
  have "hd (declared v) \<noteq> CHR ''#''" "declared v \<noteq> []" by (simp_all add: declared_def INTERFACE_KEY_def)
  then show ?thesis
    using plain_entry entry_plain [OF plain(1)] no_spaces [OF plain(1)] plain(2)
    by (simp add: contract_line_def split_entry keys_ok)
qed

lemma comment_line: "insignificant line \<Longrightarrow> contract_line n line st = st"
  by (simp add: contract_line_def)

section \<open>Errors stay\<close>

lemma complain_errors [simp]: "contract_errors (complain tokens st) = contract_errors st @ tokens"
  by (simp add: complain_def)

lemma line_errors: "\<exists>more. contract_errors (contract_line n line st) = contract_errors st @ more"
  by (auto simp: contract_line_def review_entry_def interface_entry_def split: option.splits)

lemma lines_errors: "\<exists>more. contract_errors (contract_lines n lines st) = contract_errors st @ more"
proof (induction lines arbitrary: n st)
  case (Cons line lines)
  then show ?case using line_errors [of n line st] by (metis append.assoc contract_lines.simps(2))
qed simp

text \<open>A line that raises no complaint.\<close>

lemma quiet_line:
  assumes "contract_errors (contract_line n line st) = []"
  shows "insignificant line
    \<or> (\<exists>v. line = reviewed v \<and> (v = ''yes'' \<or> v = ''no'') \<and> review_values st = [])
    \<or> (\<exists>v. line = declared v \<and> interface_ok v \<and> v \<notin> set (interfaces st) \<and> length (interfaces st) < MAX_INTERFACES)"
proof (cases "insignificant line")
  case False
  then obtain key v where split: "split_first (CHR ''='') line = Some (key, v)" and key: "key \<in> set ALLOWED_KEYS"
    and entry: "contract_errors (if key = REVIEW_KEY then review_entry n v st else interface_entry n v st) = []"
    using assms by (auto simp: contract_line_def split: option.splits if_splits)
  have line: "line = key @ ''='' @ v" using split_first_Some [OF split] by simp
  show ?thesis
  proof (cases "key = REVIEW_KEY")
    case True
    then show ?thesis using entry line by (auto simp: review_entry_def reviewed_def split: if_splits)
  next
    case False
    then have "key = INTERFACE_KEY" using key by (simp add: ALLOWED_KEYS_def)
    with entry line False have "line = declared v \<and> interface_ok v \<and> v \<notin> set (interfaces st) \<and> length (interfaces st) < MAX_INTERFACES"
      by (auto simp: interface_entry_def declared_def interface_errors_empty not_le split: if_splits)
    then show ?thesis by blast
  qed
qed simp

section \<open>Whole texts\<close>

definition adds :: "contract_state \<Rightarrow> string list \<Rightarrow> string list \<Rightarrow> contract_state" where
  "adds st flags names = st\<lparr>review_values := review_values st @ flags, interfaces := interfaces st @ names\<rparr>"

definition room :: "contract_state \<Rightarrow> string list \<Rightarrow> string list \<Rightarrow> bool" where
  "room st flags names \<longleftrightarrow>
    length (review_values st @ flags) \<le> 1 \<and> distinct (interfaces st @ names) \<and> length (interfaces st @ names) \<le> MAX_INTERFACES"

lemma adds_adds: "adds (adds st f n) f' n' = adds st (f @ f') (n @ n')"
  by (simp add: adds_def)

lemma adds_nothing [simp]: "adds st [] [] = st"
  by (simp add: adds_def)

lemma room_adds: "room (adds st f n) f' n' \<longleftrightarrow> room st (f @ f') (n @ n')"
  by (simp add: room_def adds_def)

lemma entries_add:
  "room st [v] [] \<Longrightarrow> v = ''yes'' \<or> v = ''no'' \<Longrightarrow> review_entry n v st = adds st [v] []"
  "room st [] [v] \<Longrightarrow> interface_ok v \<Longrightarrow> interface_entry n v st = adds st [] [v]"
  by (auto simp: review_entry_def interface_entry_def room_def adds_def interface_errors_empty)

lemma room_prefix: "room st (f @ f') (n @ n') \<Longrightarrow> room st f n"
  by (auto simp: room_def)

lemma carried_accepted:
  assumes "carries lines flags names" and "room st flags names"
  shows "contract_lines n lines st = adds st flags names"
  using assms
proof (induction lines flags names arbitrary: n st rule: carries.induct)
  case carries_nothing
  then show ?case by simp
next
  case (carries_comment line lines flags names)
  then show ?case by (simp add: comment_line)
next
  case (carries_flag v lines flags names)
  have here: "room st [v] []" and rest: "room (adds st [v] []) flags names"
    using carries_flag.prems room_prefix [of st "[v]" flags "[]" names] by (simp_all add: room_adds)
  show ?case
    using carries_flag.IH [OF rest] carries_flag.hyps(1) here by (simp add: flag_line entries_add adds_adds)
next
  case (carries_name v lines flags names)
  have here: "room st [] [v]" and rest: "room (adds st [] [v]) flags names"
    using carries_name.prems room_prefix [of st "[]" flags "[v]" names] by (simp_all add: room_adds)
  show ?case
    using carries_name.IH [OF rest] carries_name.hyps(1) here by (simp add: name_line entries_add adds_adds)
qed

lemma accepted_carried:
  assumes "contract_errors (contract_lines n lines st) = []" and "room st [] []"
  shows "\<exists>flags names. carries lines flags names \<and> room st flags names \<and> contract_lines n lines st = adds st flags names"
  using assms
proof (induction lines arbitrary: n st)
  case Nil
  have "carries [] [] []" by (rule carries_nothing)
  with Nil show ?case by fastforce
next
  case (Cons line lines)
  let ?st = "contract_line n line st"
  have later: "contract_errors (contract_lines (n + 1) lines ?st) = []" using Cons.prems(1) by simp
  then have quiet: "contract_errors ?st = []" using lines_errors [of "n + 1" lines ?st] by auto
  have step: "\<exists>f m. ?st = adds st f m \<and> room st f m
      \<and> (\<forall>flags names. carries lines flags names \<longrightarrow> carries (line # lines) (f @ flags) (m @ names))"
    using quiet_line [OF quiet]
  proof (elim disjE exE conjE)
    assume "line = []"
    then show ?thesis using Cons.prems(2) carries_comment comment_line
      by (intro exI [of _ "[]"]) auto
  next
    assume "startswith line ''#''"
    then show ?thesis using Cons.prems(2) carries_comment comment_line
      by (intro exI [of _ "[]"]) auto
  next
    fix v
    assume line: "line = reviewed v" and v: "v = ''yes''" and none: "review_values st = []"
    have "room st [v] []" using Cons.prems(2) none by (simp add: room_def)
    then show ?thesis using line v carries_flag [of v] flag_line [of v n st] entries_add(1) [of st v n]
      by (intro exI [of _ "[v]"] exI [of _ "[]"]) auto
  next
    fix v
    assume line: "line = reviewed v" and v: "v = ''no''" and none: "review_values st = []"
    have "room st [v] []" using Cons.prems(2) none by (simp add: room_def)
    then show ?thesis using line v carries_flag [of v] flag_line [of v n st] entries_add(1) [of st v n]
      by (intro exI [of _ "[v]"] exI [of _ "[]"]) auto
  next
    fix v
    assume line: "line = declared v" and v: "interface_ok v" "v \<notin> set (interfaces st)" "length (interfaces st) < MAX_INTERFACES"
    have "room st [] [v]" using Cons.prems(2) v by (simp add: room_def)
    then show ?thesis using line v(1) carries_name [of v] name_line [of v n st] entries_add(2) [of st v n]
      by (intro exI [of _ "[]"] exI [of _ "[v]"]) auto
  qed
  then obtain f m where st: "?st = adds st f m" "room st f m"
    and extend: "\<And>flags names. carries lines flags names \<Longrightarrow> carries (line # lines) (f @ flags) (m @ names)" by blast
  have "room ?st [] []" using st by (simp add: room_adds)
  from Cons.IH [OF later this] obtain flags names where
    "carries lines flags names" "room ?st flags names" "contract_lines (n + 1) lines ?st = adds ?st flags names" by blast
  with st extend show ?case by (auto simp: adds_adds room_adds)
qed

text \<open>
  C29: the contract says what it declares.  A text yields exactly the interfaces that its lines declare, in their order, when
  these lines are comments, one approving review flag and between one and sixteen different interfaces of an
  admitted shape and class, and nothing else.
\<close>

theorem contract_exact:
  "parse_contract_text text = Inr names \<longleftrightarrow>
    carries (split_on line_feed text) [''yes''] names \<and> distinct names \<and> names \<noteq> [] \<and> length names \<le> MAX_INTERFACES"
proof -
  let ?start = "\<lparr>review_values = [], interfaces = [], contract_errors = []\<rparr>"
  let ?st = "contract_lines 1 (split_on line_feed text) ?start"
  have room0: "room ?start flags names \<longleftrightarrow> length flags \<le> 1 \<and> distinct names \<and> length names \<le> MAX_INTERFACES" for flags names
    by (simp add: room_def)
  show ?thesis
  proof
    assume "parse_contract_text text = Inr names"
    then have quiet: "contract_errors ?st = []" and flag: "\<exists>vs. review_values ?st = ''yes'' # vs"
      and names: "interfaces ?st = names" "names \<noteq> []"
      by (auto simp: parse_contract_text_def final_errors_def Let_def split: if_splits list.splits)
    from accepted_carried [OF quiet] obtain flags found where
      "carries (split_on line_feed text) flags found" "room ?start flags found" "?st = adds ?start flags found"
      by (auto simp: room0)
    with flag names show "carries (split_on line_feed text) [''yes''] names \<and> distinct names \<and> names \<noteq> []
        \<and> length names \<le> MAX_INTERFACES"
      by (auto simp: room0 adds_def length_Suc_conv le_Suc_eq)
  next
    assume "carries (split_on line_feed text) [''yes''] names \<and> distinct names \<and> names \<noteq> [] \<and> length names \<le> MAX_INTERFACES"
    then have "?st = adds ?start [''yes''] names" "names \<noteq> []" using carried_accepted [of _ _ _ ?start] by (simp_all add: room0)
    then show "parse_contract_text text = Inr names"
      by (simp add: parse_contract_text_def final_errors_def adds_def)
  qed
qed

end
