(* ===== verification/RuntimeEvidence.thy ===== *)
theory RuntimeEvidence
  imports PrivateFile PyJson PyCodec Complex_Main
begin

text \<open>
  scripts/validate_protected_runtime_evidence.py: the attestation of a host review, bound to one boot
  and a short window of time.  Times in seconds are rational numbers; the source holds them as
  floats, whose differences are exact in the range that is accepted.
\<close>

section \<open>The document\<close>

definition EVIDENCE_FILENAME :: string where "EVIDENCE_FILENAME = ''protected-legacy-runtime-evidence.local''"
definition EVIDENCE_HASH_KEY :: string where "EVIDENCE_HASH_KEY = ''PROTECTED_LEGACY_RUNTIME_EVIDENCE_SHA256''"
definition EVIDENCE_SCHEMA :: string where "EVIDENCE_SCHEMA = ''protected-legacy-host-review-v2''"
definition MAX_EVIDENCE_BYTES :: nat where "MAX_EVIDENCE_BYTES = 4096"
definition MAX_EVIDENCE_LINES :: nat where "MAX_EVIDENCE_LINES = 32"
definition MAX_EVIDENCE_AGE_SECONDS :: rat where "MAX_EVIDENCE_AGE_SECONDS = 600"
definition MAX_BOOT_ID_BYTES :: nat where "MAX_BOOT_ID_BYTES = 128"
definition PRESENCE_FIELD :: string where "PRESENCE_FIELD = ''LEGACY_ARCHIVES_PRESENT''"

definition STATUS_FIELDS :: "string list" where
  "STATUS_FIELDS =
    [''ARCHIVE_INVENTORY_STATUS'', ''SYSTEM_MANAGER_UNITS_STATUS'', ''USER_MANAGER_UNITS_STATUS'', ''CONTAINERS_STATUS'',
     ''PACKAGE_ACTIVATION_STATUS'', ''SCHEDULERS_AUTOSTART_STATUS'', ''PROCESSES_STATUS'', ''CGROUPS_STATUS'',
     ''OPEN_FILES_STATUS'', ''LISTENERS_STATUS'', ''PRODUCT_EXECUTION_STATUS'']"

definition REQUIRED_FIELDS :: "string list" where
  "REQUIRED_FIELDS = [''RUNTIME_EVIDENCE_SCHEMA'', ''BOOT_ID_SHA256'', ''CREATED_UNIX'', PRESENCE_FIELD] @ STATUS_FIELDS"

definition digest_text :: "string \<Rightarrow> bool" where
  "digest_text s = (length s = 64 \<and> list_all is_hex s)"

text \<open>\<open>BOOT_ID_RE\<close> and \<open>UNIX_EPOCH_RE\<close> under \<open>fullmatch\<close>.\<close>

definition boot_id_text :: "string \<Rightarrow> bool" where
  "boot_id_text s =
    (let parts = split_on (CHR ''-'') s in map length parts = [8, 4, 4, 4, 12] \<and> list_all (list_all is_hex) parts)"

definition unix_epoch_text :: "string \<Rightarrow> bool" where
  "unix_epoch_text s =
    (9 \<le> length s \<and> length s \<le> 11 \<and> list_all is_digit s \<and> hd s \<noteq> CHR ''0'')"

record runtime_evidence =
  boot_id_sha256 :: string
  created_unix :: nat
  archives_present :: bool

section \<open>Parsing\<close>

text \<open>\<open>ordered_keys\<close> are the keys of the entries in the order they were added.\<close>

record evidence_state =
  evidence_entries :: "(string \<times> string) list"
  evidence_errors :: "string list"

definition line_complaint :: "nat \<Rightarrow> string \<Rightarrow> evidence_state \<Rightarrow> evidence_state" where
  "line_complaint n reason st =
    st\<lparr>evidence_errors := evidence_errors st @ [''runtime evidence line '' @ show_nat n @ reason]\<rparr>"

definition evidence_line :: "nat \<Rightarrow> string \<Rightarrow> evidence_state \<Rightarrow> evidence_state" where
  "evidence_line n line st =
    (if line = [] \<or> line \<noteq> strip line \<or> length (filter (\<lambda>c. c = CHR ''='') line) \<noteq> 1
     then line_complaint n '' is not canonical KEY=VALUE'' st
     else
       case split_first (CHR ''='') line of
         None \<Rightarrow> st
       | Some (key, v) \<Rightarrow>
           if key \<notin> set REQUIRED_FIELDS then line_complaint n '' has an unsupported key'' st
           else if key \<in> set (map fst (evidence_entries st)) then line_complaint n '' duplicates a field'' st
           else if v = [] \<or> list_ex (\<lambda>c. byte c < 33 \<or> 126 < byte c) v then line_complaint n '' has an invalid value'' st
           else st\<lparr>evidence_entries := evidence_entries st @ [(key, v)]\<rparr>)"

fun evidence_lines :: "nat \<Rightarrow> string list \<Rightarrow> evidence_state \<Rightarrow> evidence_state" where
  "evidence_lines n [] st = st"
| "evidence_lines n (line # lines) st = evidence_lines (n + 1) lines (evidence_line n line st)"

definition entry :: "(string \<times> string) list \<Rightarrow> string \<Rightarrow> string" where
  "entry entries key = (case map_of entries key of Some v \<Rightarrow> v | None \<Rightarrow> [])"

definition time_errors :: "string \<Rightarrow> rat \<Rightarrow> string list" where
  "time_errors created now =
    (if \<not> unix_epoch_text created then [''runtime evidence creation time is invalid'']
     else let age = now - of_nat (read_nat created) in
       if age < 0 then [''runtime evidence creation time is in the future'']
       else if MAX_EVIDENCE_AGE_SECONDS < age then [''runtime evidence is stale''] else [])"

definition boot_errors :: "string \<Rightarrow> string \<Rightarrow> string list" where
  "boot_errors bound current =
    (if \<not> digest_text bound then [''runtime evidence boot binding is not a lowercase SHA-256''] else [])
    @ (if \<not> digest_text current then [''current boot identity is unavailable'']
       else if bound \<noteq> current then [''runtime evidence belongs to a different boot''] else [])"

definition entry_errors :: "(string \<times> string) list \<Rightarrow> string \<Rightarrow> rat \<Rightarrow> string list" where
  "entry_errors entries current now =
    (if entry entries ''RUNTIME_EVIDENCE_SCHEMA'' \<noteq> EVIDENCE_SCHEMA then [''runtime evidence schema is unsupported''] else [])
    @ boot_errors (entry entries ''BOOT_ID_SHA256'') current
    @ time_errors (entry entries ''CREATED_UNIX'') now
    @ (if entry entries PRESENCE_FIELD \<notin> {''yes'', ''no''} then [''runtime evidence archive-presence decision is invalid''] else [])
    @ (if list_ex (\<lambda>field. entry entries field \<noteq> ''PASS'') STATUS_FIELDS
       then [''runtime evidence contains a non-PASS status''] else [])"

text \<open>A comparison of digests raises on text beyond ASCII; the bytes here have been decoded as ASCII.\<close>

definition parse_evidence_bytes :: "string \<Rightarrow> string \<Rightarrow> rat \<Rightarrow> string list + runtime_evidence" where
  "parse_evidence_bytes raw_bytes current now =
    (if MAX_EVIDENCE_BYTES < length raw_bytes then Inl [''runtime evidence exceeds the size limit'']
     else if \<not> endswith raw_bytes [line_feed] \<or> CHR 0x0D \<in> set raw_bytes \<or> CHR 0x00 \<in> set raw_bytes
     then Inl [''runtime evidence must use canonical LF-terminated ASCII'']
     else if \<not> is_ascii raw_bytes then Inl [''runtime evidence must be canonical ASCII'']
     else
       let lines = splitlines raw_bytes in
       if MAX_EVIDENCE_LINES < length lines then Inl [''runtime evidence exceeds the line limit'']
       else if length lines \<noteq> length REQUIRED_FIELDS then Inl [''runtime evidence has missing or extra fields'']
       else
         let st = evidence_lines 1 lines \<lparr>evidence_entries = [], evidence_errors = []\<rparr>; entries = evidence_entries st in
         if evidence_errors st \<noteq> [] then Inl (evidence_errors st)
         else if map fst entries \<noteq> REQUIRED_FIELDS then Inl [''runtime evidence fields are not in canonical order'']
         else if entry_errors entries current now \<noteq> [] then Inl (entry_errors entries current now)
         else Inr \<lparr>boot_id_sha256 = entry entries ''BOOT_ID_SHA256'', created_unix = read_nat (entry entries ''CREATED_UNIX''),
                   archives_present = (entry entries PRESENCE_FIELD = ''yes'')\<rparr>)"

section \<open>The boot identity\<close>

text \<open>\<open>boot_file\<close> is what the file holds.\<close>

definition current_boot_id_sha256 :: "string res \<Rightarrow> string option" where
  "current_boot_id_sha256 boot_file =
    (case boot_file of
       Inl _ \<Rightarrow> None
     | Inr content \<Rightarrow>
         let bytes = take (MAX_BOOT_ID_BYTES + 1) content in
         if MAX_BOOT_ID_BYTES < length bytes \<or> \<not> is_ascii bytes then None
         else let boot_id = strip bytes in
              if \<not> boot_id_text boot_id then None else Some (sha256_hex boot_id))"

section \<open>The file\<close>

definition stable_stat_state :: "os_stat \<Rightarrow> int list" where
  "stable_stat_state st =
    [device st, inode st, mode_bits st, owner_uid st, owner_gid st, links st, byte_size st, modified_ns st, changed_ns st]"

text \<open>What the operating system answers, in the order of the calls.\<close>

record evidence_file =
  evidence_path :: string
  seen_before :: "os_stat res"
  seen_resolved :: "bool res"  \<comment> \<open>the path resolves to its absolute form\<close>
  opening_steps :: "string list \<Rightarrow> unit res"
  held_before :: "os_stat res"
  held_parent_before :: "os_stat res"
  evidence_offered :: "nat \<Rightarrow> string res"
  held_after :: "os_stat res"
  held_parent_after :: "os_stat res"
  named_after :: "os_stat res"
  reopening :: "string list \<Rightarrow> unit res"
  reopened :: "os_stat res"
  reopened_parent :: "os_stat res"
  seen_after :: "os_stat res"

definition refuse_read :: "string \<Rightarrow> (string list + 'a) res" where
  "refuse_read reason = Inr (Inl [reason])"

definition when_os_error :: "string \<Rightarrow> 'a res \<Rightarrow> ('a \<Rightarrow> (string list + 'b) res) \<Rightarrow> (string list + 'b) res" where
  "when_os_error reason m k =
    (case m of Inl e \<Rightarrow> if e = OSError then refuse_read reason else Inl e | Inr x \<Rightarrow> k x)"

definition read_held :: "evidence_file \<Rightarrow> os_stat \<Rightarrow> (string list + string \<times> os_stat) res" where
  "read_held file earlier =
    (let os = when_os_error ''runtime evidence cannot be read safely'';
         stat = when_os_error ''runtime evidence cannot be read safely'' in
     stat (held_before file) (\<lambda>opened.
     stat (held_parent_before file) (\<lambda>parent.
     if stable_stat_state opened \<noteq> stable_stat_state earlier then refuse_read ''runtime evidence changed while opening''
     else if \<not> is_regular opened then refuse_read ''runtime evidence controls changed while opening''
     else
       os (read_upto (evidence_offered file) 0 (MAX_EVIDENCE_BYTES + 1)) (\<lambda>bytes.
       stat (held_after file) (\<lambda>later.
       stat (held_parent_after file) (\<lambda>parent_later.
       if stable_stat_state opened \<noteq> stable_stat_state later \<or> byte_size later \<noteq> int (length bytes)
          \<or> stable_stat_state parent \<noteq> stable_stat_state parent_later
       then refuse_read ''runtime evidence changed while reading''
       else
         stat (named_after file) (\<lambda>named.
         if stable_stat_state named \<noteq> stable_stat_state later
         then refuse_read ''runtime evidence directory entry changed while reading''
         else
           when_os_error ''runtime evidence path changed while reading''
             (open_no_follow OSError (path_root (evidence_path file) \<noteq> []) (path_parts (evidence_path file)) (reopening file)) (\<lambda>_.
           stat (reopened file) (\<lambda>again.
           if stable_stat_state again \<noteq> stable_stat_state later
           then refuse_read ''runtime evidence path changed while reading''
           else
             stat (reopened_parent file) (\<lambda>parent_again.
             if stable_stat_state parent_again \<noteq> stable_stat_state parent_later
             then refuse_read ''runtime evidence path changed while reading''
             else Inr (Inr (bytes, later))))))))))))"

definition read_evidence_file :: "evidence_file \<Rightarrow> (string list + string \<times> os_stat) res" where
  "read_evidence_file file =
    when_os_error ''runtime evidence is unavailable'' (seen_before file) (\<lambda>earlier.
    when_os_error ''runtime evidence is unavailable'' (seen_resolved file) (\<lambda>direct.
    if is_symlink earlier then refuse_read ''runtime evidence must not be a symbolic link''
    else if \<not> is_regular earlier then refuse_read ''runtime evidence must be a regular file''
    else if \<not> direct then refuse_read ''runtime evidence path must not traverse a symbolic link''
    else
      when_os_error ''runtime evidence cannot be opened safely''
        (open_no_follow OSError (path_root (evidence_path file) \<noteq> []) (path_parts (evidence_path file)) (opening_steps file)) (\<lambda>_.
      bind (read_held file earlier) (\<lambda>found.
      case found of
        Inl reasons \<Rightarrow> Inr (Inl reasons)
      | Inr (bytes, later) \<Rightarrow>
          when_os_error ''runtime evidence changed after reading'' (seen_after file) (\<lambda>final.
          if stable_stat_state final \<noteq> stable_stat_state later then refuse_read ''runtime evidence changed after reading''
          else if MAX_EVIDENCE_BYTES < length bytes then refuse_read ''runtime evidence exceeds the size limit''
          else Inr (Inr (bytes, later)))))))"

section \<open>Validation\<close>

text \<open>\<open>st_mtime\<close> in seconds.\<close>

definition modified_seconds :: "os_stat \<Rightarrow> rat" where
  "modified_seconds st = of_int (modified_ns st) / 1000000000"

definition ownership_errors :: "os_stat \<Rightarrow> os_stat \<Rightarrow> rat \<Rightarrow> string list" where
  "ownership_errors contract found now =
    (if permissions found \<noteq> 384 then [''runtime evidence mode must be exactly 0600''] else [])
    @ (if links found \<noteq> 1 then [''runtime evidence must have exactly one hard link''] else [])
    @ (if owner_uid found \<noteq> owner_uid contract \<or> owner_gid found \<noteq> owner_gid contract
       then [''runtime evidence owner must match the protected-host contract''] else [])
    @ (if now - modified_seconds found < 0 then [''runtime evidence modification time is in the future'']
       else if MAX_EVIDENCE_AGE_SECONDS < now - modified_seconds found then [''runtime evidence file is stale''] else [])"

definition binding_errors :: "string list + runtime_evidence \<Rightarrow> os_stat \<Rightarrow> bool option \<Rightarrow> string list" where
  "binding_errors parsed found expected_present =
    (case parsed of
       Inl reasons \<Rightarrow> reasons
     | Inr evidence \<Rightarrow>
         (if modified_seconds found + 1 < of_nat (created_unix evidence)
          then [''runtime evidence modification predates its creation time''] else [])
         @ (if expected_present \<noteq> None \<and> expected_present \<noteq> Some (archives_present evidence)
            then [''runtime evidence archive-presence decision does not match the protected-host contract''] else []))"

record surroundings =
  contract_lstat :: "os_stat res"
  directory_lstat :: "os_stat res"
  evidence :: evidence_file
  boot_file :: "string res"

definition judge_evidence ::
  "surroundings \<Rightarrow> os_stat \<Rightarrow> string \<Rightarrow> os_stat \<Rightarrow> string option \<Rightarrow> bool option \<Rightarrow> rat
    \<Rightarrow> string list + runtime_evidence \<times> string" where
  "judge_evidence s contract bytes found expected_sha256 expected_present now =
    (let owner = ownership_errors contract found now in
     case current_boot_id_sha256 (boot_file s) of
       None \<Rightarrow> Inl (owner @ [''current boot identity is unavailable''])
     | Some boot \<Rightarrow>
         let parsed = parse_evidence_bytes bytes boot now;
             errors = owner @ binding_errors parsed found expected_present in
         case parsed of
           Inl _ \<Rightarrow> Inl errors
         | Inr ev \<Rightarrow>
             if errors \<noteq> [] then Inl errors
             else
               (case expected_sha256 of
                  None \<Rightarrow> Inr (ev, sha256_hex bytes)
                | Some expected \<Rightarrow>
                    if \<not> digest_text expected then Inl [''expected runtime evidence binding is not a lowercase SHA-256'']
                    else if sha256_hex bytes \<noteq> expected then Inl [''runtime evidence binding changed'']
                    else Inr (ev, sha256_hex bytes)))"

definition validate_runtime_evidence ::
  "surroundings \<Rightarrow> string option \<Rightarrow> bool option \<Rightarrow> rat \<Rightarrow> (string list + runtime_evidence \<times> string) res" where
  "validate_runtime_evidence s expected_sha256 expected_present now =
    when_os_error ''protected-host contract is unavailable'' (contract_lstat s) (\<lambda>contract.
    if is_symlink contract then refuse_read ''protected-host contract must not be a symbolic link''
    else if \<not> is_regular contract then refuse_read ''protected-host contract must be a regular file''
    else if permissions contract \<noteq> 384 then refuse_read ''protected-host contract mode must be exactly 0600''
    else
      when_os_error ''runtime evidence directory is unavailable'' (directory_lstat s) (\<lambda>directory.
      if is_symlink directory \<or> \<not> is_directory directory
      then refuse_read ''runtime evidence directory must be a non-symlink directory''
      else
        bind (read_evidence_file (evidence s)) (\<lambda>found.
        case found of
          Inl reasons \<Rightarrow> Inr (Inl reasons)
        | Inr (bytes, st) \<Rightarrow> Inr (judge_evidence s contract bytes st expected_sha256 expected_present now))))"

section \<open>The command\<close>

text \<open>
  The contract parser of the sibling script: none when it cannot be loaded; otherwise an exception, or the
  contract's archive presence and its errors.
\<close>

type_synonym presence_source = "(json option \<times> string list) res option"

definition adjacent_contract_presence :: "presence_source \<Rightarrow> string list + bool" where
  "adjacent_contract_presence loaded =
    (case loaded of
       None \<Rightarrow> Inl [''protected-host contract validator is unavailable'']
     | Some (Inl _) \<Rightarrow> Inl [''protected-host contract presence is unavailable'']
     | Some (Inr (Some (JBool present), [])) \<Rightarrow> Inr present
     | Some (Inr _) \<Rightarrow> Inl [''protected-host contract presence is invalid''])"

datatype evidence_action = EmitSha256 | ExpectedSha256 string

definition evidence_report :: "evidence_action \<Rightarrow> string \<Rightarrow> string list" where
  "evidence_report action digest =
    (case action of
       EmitSha256 \<Rightarrow>
         [EVIDENCE_HASH_KEY @ ''='' @ digest,
          ''PASS fresh presence-bound protected-host review attestation matches ''
          @ ''the adjacent contract; DIGEST EMISSION ONLY, NOT AUTHORIZATION'']
     | ExpectedSha256 _ \<Rightarrow>
         [''PASS fresh presence-bound protected-host review attestation matches the adjacent contract''])"

definition runtime_evidence_main ::
  "presence_source \<Rightarrow> presence_source \<Rightarrow> surroundings \<Rightarrow> evidence_action \<Rightarrow> rat \<Rightarrow> (nat \<times> string list) res" where
  "runtime_evidence_main first later s action now =
    (let failed = (\<lambda>errors. (1, map (\<lambda>e. ''ERROR '' @ e) errors)) in
     case adjacent_contract_presence first of
       Inl errors \<Rightarrow> Inr (failed errors)
     | Inr expected_presence \<Rightarrow>
         bind (validate_runtime_evidence s (case action of EmitSha256 \<Rightarrow> None | ExpectedSha256 x \<Rightarrow> Some x)
           (Some expected_presence) now) (\<lambda>loaded.
         case loaded of
           Inl errors \<Rightarrow> Inr (failed errors)
         | Inr (_, digest) \<Rightarrow>
             (if adjacent_contract_presence later \<noteq> Inr expected_presence
              then Inr (failed [''protected-host contract presence changed during validation''])
              else Inr (0, evidence_report action digest))))"

end
