(* ===== verification/RuntimeEvidenceProps.thy ===== *)
theory RuntimeEvidenceProps
  imports RuntimeEvidence ReleaseLines
begin

text \<open>What accepted runtime evidence looks like, byte for byte.\<close>

section \<open>Lines of ASCII text\<close>

definition ascii_break :: "char \<Rightarrow> bool" where
  "ascii_break c \<longleftrightarrow> byte_in 10 12 c \<or> byte_in 28 30 c"

definition lines_with :: "string list \<Rightarrow> string \<Rightarrow> string" where
  "lines_with lines breaks = concat (map2 (\<lambda>line b. line @ [b]) lines breaks)"

text \<open>Characters that neither break a line nor leave ASCII.\<close>

definition inner_char :: "char \<Rightarrow> bool" where
  "inner_char c \<longleftrightarrow> byte c < 128 \<and> \<not> ascii_break c \<and> c \<noteq> CHR 0x0D"

lemma line_break_inner: "inner_char c \<Longrightarrow> line_break (c # s) = 0"
  by (cases s) (auto simp: inner_char_def ascii_break_def)

lemma line_break_break: "ascii_break c \<Longrightarrow> line_break (c # s) = 1"
  by (auto simp: ascii_break_def byte_in_def)

lemma lines_acc_break:
  "list_all inner_char l \<Longrightarrow> ascii_break b \<Longrightarrow> lines_acc cur (l @ b # s) = (rev cur @ l) # lines_acc [] s"
proof (induction l arbitrary: cur)
  case Nil
  then show ?case by (simp add: lines_acc.simps [of cur "b # s"] line_break_break del: line_break.simps)
next
  case (Cons c l)
  then show ?case by (simp add: lines_acc.simps [of cur "c # l @ b # s"] line_break_inner del: line_break.simps)
qed

lemma splitlines_with:
  "length breaks = length lines \<Longrightarrow> list_all ascii_break breaks \<Longrightarrow> list_all (list_all inner_char) lines
    \<Longrightarrow> splitlines (lines_with lines breaks) = lines"
proof (induction lines arbitrary: breaks)
  case Nil
  then show ?case by (simp add: lines_with_def splitlines_def lines_acc.simps [of "[]" "[]"])
next
  case (Cons l ls)
  then obtain b bs where breaks: "breaks = b # bs" by (cases breaks) auto
  with Cons have "splitlines (lines_with ls bs) = ls" by simp
  then show ?case
    using Cons.prems breaks by (simp add: lines_with_def splitlines_def lines_acc_break)
qed

lemma cut_line:
  assumes "is_ascii s" and "CHR 0x0D \<notin> set s"
  shows "list_all inner_char s \<or> (\<exists>l b t. s = l @ b # t \<and> list_all inner_char l \<and> ascii_break b)"
  using assms
proof (induction s)
  case (Cons c s)
  show ?case
  proof (cases "ascii_break c")
    case True
    then have "c # s = [] @ c # s \<and> list_all inner_char [] \<and> ascii_break c" by simp
    then show ?thesis by blast
  next
    case False
    with Cons.prems have c: "inner_char c" by (auto simp: inner_char_def)
    from Cons consider "list_all inner_char s" | l b t where "s = l @ b # t" "list_all inner_char l" "ascii_break b" by auto
    then show ?thesis
    proof cases
      case 2
      with c have "c # s = (c # l) @ b # t \<and> list_all inner_char (c # l) \<and> ascii_break b" by simp
      then show ?thesis by blast
    qed (use c in simp)
  qed
qed simp

lemma splitlines_breaks:
  assumes "is_ascii s" and "CHR 0x0D \<notin> set s" and "s = [] \<or> ascii_break (List.last s)"
  shows "\<exists>breaks. length breaks = length (splitlines s) \<and> list_all ascii_break breaks \<and> s = lines_with (splitlines s) breaks"
  using assms
proof (induction s rule: length_induct)
  case (1 s)
  show ?case
  proof (cases "s = []")
    case True
    then show ?thesis by (simp add: lines_with_def splitlines_def lines_acc.simps [of "[]" "[]"])
  next
    case False
    then have end_break: "ascii_break (List.last s)" using "1.prems" by simp
    have "\<not> list_all inner_char s"
      using end_break last_in_set [OF False] unfolding list_all_iff inner_char_def by blast
    with cut_line [OF "1.prems"(1,2)] obtain l b t where s: "s = l @ b # t" "list_all inner_char l" "ascii_break b" by blast
    have "t = [] \<or> ascii_break (List.last t)" using end_break s(1) by (cases "t = []") simp_all
    moreover have "length t < length s" "is_ascii t" "CHR 0x0D \<notin> set t" using "1.prems"(1,2) by (simp_all add: s(1))
    ultimately obtain bs where
      bs: "length bs = length (splitlines t)" "list_all ascii_break bs" "t = lines_with (splitlines t) bs"
      using "1.IH" by blast
    have "splitlines s = l # splitlines t" using s by (simp add: splitlines_def lines_acc_break)
    with bs s have "length (b # bs) = length (splitlines s) \<and> list_all ascii_break (b # bs) \<and> s = lines_with (splitlines s) (b # bs)"
      by (simp add: lines_with_def)
    then show ?thesis by blast
  qed
qed

section \<open>Entries\<close>

definition field_line :: "string \<times> string \<Rightarrow> string" where
  "field_line = (\<lambda>(key, v). key @ ''='' @ v)"

definition value_ok :: "string \<Rightarrow> bool" where
  "value_ok v \<longleftrightarrow> v \<noteq> [] \<and> list_all (\<lambda>c. 33 \<le> byte c \<and> byte c \<le> 126 \<and> c \<noteq> CHR ''='') v"

lemma fields_plain: "list_all (\<lambda>key. key \<noteq> [] \<and> list_all (\<lambda>c. plain_char c \<and> c \<noteq> CHR ''='') key) REQUIRED_FIELDS"
  by code_simp

lemma field_plain: "key \<in> set REQUIRED_FIELDS \<Longrightarrow> key \<noteq> [] \<and> list_all plain_char key \<and> CHR ''='' \<notin> set key"
proof -
  assume "key \<in> set REQUIRED_FIELDS"
  then have "key \<noteq> [] \<and> list_all (\<lambda>c. plain_char c \<and> c \<noteq> CHR ''='') key"
    using fields_plain unfolding list_all_iff [of _ REQUIRED_FIELDS] by blast
  then show ?thesis unfolding list_all_iff by blast
qed

lemma line_complaint_errors [simp]: "evidence_errors (line_complaint n reason st) \<noteq> []"
  by (simp add: line_complaint_def)

lemma line_errors_stay: "evidence_errors (evidence_line n line st) = [] \<Longrightarrow> evidence_errors st = []"
  by (auto simp: evidence_line_def split: option.splits if_splits)

lemma lines_errors_stay: "evidence_errors (evidence_lines n lines st) = [] \<Longrightarrow> evidence_errors st = []"
proof (induction lines arbitrary: n st)
  case (Cons line lines)
  from Cons.prems have "evidence_errors (evidence_lines (n + 1) lines (evidence_line n line st)) = []" by simp
  from Cons.IH [OF this] show ?case by (rule line_errors_stay)
qed simp

lemma quiet_entry:
  assumes "evidence_errors (evidence_line n line st) = []"
  shows "\<exists>key v. line = field_line (key, v) \<and> key \<in> set REQUIRED_FIELDS \<and> value_ok v
    \<and> evidence_line n line st = st\<lparr>evidence_entries := evidence_entries st @ [(key, v)]\<rparr>"
proof -
  have one: "length (filter (\<lambda>c. c = CHR ''='') line) = 1"
    using assms by (auto simp: evidence_line_def split: if_splits)
  then have "filter (\<lambda>c. c = CHR ''='') line \<noteq> []" by auto
  then have "CHR ''='' \<in> set line" by (simp add: filter_empty_conv)
  then obtain key v where split: "split_first (CHR ''='') line = Some (key, v)"
    using split_list_first [of "CHR ''=''" line] split_first_append by fastforce
  have line: "line = key @ CHR ''='' # v" using split_first_Some [OF split] by simp
  with one have "CHR ''='' \<notin> set v" by (auto simp: filter_empty_conv)
  moreover have "key \<in> set REQUIRED_FIELDS" "\<not> (v = [] \<or> list_ex (\<lambda>c. byte c < 33 \<or> 126 < byte c) v)"
    and "evidence_line n line st = st\<lparr>evidence_entries := evidence_entries st @ [(key, v)]\<rparr>"
    using assms split by (auto simp: evidence_line_def split: if_splits)
  ultimately show ?thesis using line by (auto simp: field_line_def value_ok_def list_ex_iff list_all_iff not_less)
qed

lemma accepted_entries:
  assumes "evidence_errors (evidence_lines n lines st) = []"
  shows "\<exists>entries. lines = map field_line entries
    \<and> list_all (\<lambda>(key, v). key \<in> set REQUIRED_FIELDS \<and> value_ok v) entries
    \<and> evidence_entries (evidence_lines n lines st) = evidence_entries st @ entries"
  using assms
proof (induction lines arbitrary: n st)
  case Nil
  then show ?case by simp
next
  case (Cons line lines)
  let ?st = "evidence_line n line st"
  have later: "evidence_errors (evidence_lines (n + 1) lines ?st) = []" using Cons.prems by simp
  from quiet_entry [OF lines_errors_stay [OF later]] obtain key v where line: "line = field_line (key, v)"
    "key \<in> set REQUIRED_FIELDS" "value_ok v" "?st = st\<lparr>evidence_entries := evidence_entries st @ [(key, v)]\<rparr>" by blast
  from Cons.IH [OF later] obtain entries where rest: "lines = map field_line entries"
    "list_all (\<lambda>(key, v). key \<in> set REQUIRED_FIELDS \<and> value_ok v) entries"
    "evidence_entries (evidence_lines (n + 1) lines ?st) = evidence_entries ?st @ entries" by blast
  from line rest have "line # lines = map field_line ((key, v) # entries)
    \<and> list_all (\<lambda>(key, v). key \<in> set REQUIRED_FIELDS \<and> value_ok v) ((key, v) # entries)
    \<and> evidence_entries (evidence_lines n (line # lines) st) = evidence_entries st @ (key, v) # entries" by simp
  then show ?case by (rule exI)
qed

lemma value_plain: "value_ok v \<Longrightarrow> v \<noteq> [] \<and> list_all plain_char v \<and> CHR ''='' \<notin> set v \<and> \<not> list_ex (\<lambda>c. byte c < 33 \<or> 126 < byte c) v"
proof -
  assume "value_ok v"
  then have "v \<noteq> []" "list_all (\<lambda>c. 33 \<le> byte c \<and> byte c \<le> 126 \<and> c \<noteq> CHR ''='') v" by (simp_all add: value_ok_def)
  moreover from this(2) have "list_all plain_char v \<and> CHR ''='' \<notin> set v \<and> \<not> list_ex (\<lambda>c. byte c < 33 \<or> 126 < byte c) v"
    by (induction v) (auto simp: plain_char_def)
  ultimately show ?thesis by blast
qed

lemma field_line_quiet:
  assumes "key \<in> set REQUIRED_FIELDS" and "value_ok v" and "key \<notin> set (map fst (evidence_entries st))"
  shows "evidence_line n (field_line (key, v)) st = st\<lparr>evidence_entries := evidence_entries st @ [(key, v)]\<rparr>"
proof -
  note key = field_plain [OF assms(1)]
  have v: "v \<noteq> []" "list_all plain_char v" "CHR ''='' \<notin> set v" "\<not> list_ex (\<lambda>c. byte c < 33 \<or> 126 < byte c) v"
    using value_plain [OF assms(2)] by simp_all
  have "list_all plain_char (field_line (key, v))" using key v by (simp add: field_line_def plain_char_def)
  then have "strip (field_line (key, v)) = field_line (key, v)" by (rule strip_plain)
  moreover have "length (filter (\<lambda>c. c = CHR ''='') (field_line (key, v))) = 1"
  proof -
    have "filter (\<lambda>c. c = CHR ''='') key = []" "filter (\<lambda>c. c = CHR ''='') v = []"
      using key v(3) unfolding filter_empty_conv by blast+
    then show ?thesis by (simp add: field_line_def)
  qed
  moreover have "split_first (CHR ''='') (field_line (key, v)) = Some (key, v)"
    using key by (simp add: field_line_def split_first_append)
  moreover have "field_line (key, v) \<noteq> []" by (simp add: field_line_def)
  ultimately show ?thesis using assms(1,3) v by (simp add: evidence_line_def)
qed

lemma entries_accepted:
  assumes "list_all (\<lambda>(key, v). key \<in> set REQUIRED_FIELDS \<and> value_ok v) entries"
    and "distinct (map fst (evidence_entries st @ entries))"
  shows "evidence_lines n (map field_line entries) st = st\<lparr>evidence_entries := evidence_entries st @ entries\<rparr>"
  using assms
proof (induction entries arbitrary: n st)
  case Nil
  then show ?case by simp
next
  case (Cons e entries)
  obtain key v where e: "e = (key, v)" by (cases e)
  let ?st = "st\<lparr>evidence_entries := evidence_entries st @ [(key, v)]\<rparr>"
  have "evidence_line n (field_line e) st = ?st"
    using Cons.prems by (simp add: e field_line_quiet)
  moreover have "evidence_lines (n + 1) (map field_line entries) ?st = ?st\<lparr>evidence_entries := evidence_entries ?st @ entries\<rparr>"
    using Cons.prems by (intro Cons.IH) (simp_all add: e)
  ultimately show ?case by (simp add: e)
qed

section \<open>The document\<close>

definition evidence_values :: "runtime_evidence \<Rightarrow> string list" where
  "evidence_values ev =
    [EVIDENCE_SCHEMA, boot_id_sha256 ev, show_nat (created_unix ev), if archives_present ev then ''yes'' else ''no'']
    @ map (\<lambda>_. ''PASS'') STATUS_FIELDS"

definition evidence_document :: "runtime_evidence \<Rightarrow> string list" where
  "evidence_document ev = map field_line (zip REQUIRED_FIELDS (evidence_values ev))"

lemma lines_with_Cons: "lines_with (l # ls) (b # bs) = l @ b # lines_with ls bs"
  by (simp add: lines_with_def)

lemma last_lines_with:
  "length breaks = length lines \<Longrightarrow> lines \<noteq> [] \<Longrightarrow> List.last (lines_with lines breaks) = List.last breaks"
proof (induction lines arbitrary: breaks)
  case (Cons l ls)
  then obtain b bs where breaks: "breaks = b # bs" by (cases breaks) auto
  show ?case
  proof (cases ls)
    case Nil
    then show ?thesis using Cons.prems breaks by (simp add: lines_with_def)
  next
    case more: (Cons l' ls')
    then obtain b' bs' where bs: "bs = b' # bs'" using Cons.prems breaks by (cases bs) auto
    have "List.last (lines_with ls bs) = List.last bs"
      using Cons.prems breaks more by (intro Cons.IH) simp_all
    moreover have "lines_with ls bs \<noteq> []" by (simp add: more bs lines_with_Cons)
    ultimately show ?thesis by (simp add: breaks lines_with_Cons bs)
  qed
qed simp

lemma fields_distinct: "distinct REQUIRED_FIELDS"
  by code_simp

lemma entries_values:
  assumes "map fst entries = REQUIRED_FIELDS"
  shows "entries = zip REQUIRED_FIELDS (map (entry entries) REQUIRED_FIELDS)"
proof -
  have once: "distinct (map fst entries)" using assms fields_distinct by simp
  have "snd e = entry entries (fst e)" if "e \<in> set entries" for e
    using map_of_is_SomeI [OF once, of "fst e" "snd e"] that by (simp add: entry_def)
  then have "map snd entries = map (entry entries) (map fst entries)" by simp
  then have "zip (map fst entries) (map (entry entries) (map fst entries)) = entries" by (metis zip_map_fst_snd)
  then show ?thesis unfolding assms by (rule sym)
qed

lemma epoch_shown: "unix_epoch_text s \<Longrightarrow> show_nat (read_nat s) = s"
  using show_read_positive [of s] by (cases s) (simp_all add: unix_epoch_text_def)

lemma checked_values:
  assumes "entry_errors entries current now = []"
  defines "ev \<equiv> \<lparr>boot_id_sha256 = entry entries ''BOOT_ID_SHA256'', created_unix = read_nat (entry entries ''CREATED_UNIX''),
    archives_present = (entry entries PRESENCE_FIELD = ''yes'')\<rparr>"
  shows "map (entry entries) REQUIRED_FIELDS = evidence_values ev
    \<and> boot_id_sha256 ev = current \<and> digest_text current \<and> unix_epoch_text (show_nat (created_unix ev))
    \<and> 0 \<le> now - of_nat (created_unix ev) \<and> now - of_nat (created_unix ev) \<le> MAX_EVIDENCE_AGE_SECONDS"
proof -
  have fields: "entry entries ''RUNTIME_EVIDENCE_SCHEMA'' = EVIDENCE_SCHEMA"
    "entry entries PRESENCE_FIELD = ''yes'' \<or> entry entries PRESENCE_FIELD = ''no''"
    "\<not> list_ex (\<lambda>field. entry entries field \<noteq> ''PASS'') STATUS_FIELDS"
    and boot: "boot_errors (entry entries ''BOOT_ID_SHA256'') current = []"
    and created: "time_errors (entry entries ''CREATED_UNIX'') now = []"
    using assms(1) by (simp_all add: entry_errors_def split: if_splits)
  have time: "unix_epoch_text (entry entries ''CREATED_UNIX'')"
    "0 \<le> now - of_nat (read_nat (entry entries ''CREATED_UNIX''))"
    "now - of_nat (read_nat (entry entries ''CREATED_UNIX'')) \<le> MAX_EVIDENCE_AGE_SECONDS"
    using created by (simp_all add: time_errors_def Let_def not_less split: if_splits)
  have "map (entry entries) STATUS_FIELDS = map (\<lambda>_. ''PASS'') STATUS_FIELDS"
    using fields(3) by (simp add: list_ex_iff)
  then show ?thesis
    using fields(1,2) boot time epoch_shown [OF time(1)]
    by (auto simp: REQUIRED_FIELDS_def evidence_values_def ev_def boot_errors_def split: if_splits)
qed

lemma lines_with_end:
  assumes "length breaks = length lines" and "lines \<noteq> []" and "endswith (lines_with lines breaks) [c]"
  shows "List.last breaks = c"
proof -
  have "lines_with lines breaks \<noteq> []" using assms by (cases lines; cases breaks) (auto simp: lines_with_def)
  then have "List.last (lines_with lines breaks) = c"
    using assms(3) by (cases "lines_with lines breaks" rule: rev_cases) (auto simp: endswith_def)
  then show ?thesis using last_lines_with [OF assms(1,2)] by simp
qed

lemma parsed_text:
  assumes "parse_evidence_bytes raw_bytes current now = Inr ev"
  shows "(\<exists>breaks. raw_bytes = lines_with (evidence_document ev) breaks \<and> length breaks = length REQUIRED_FIELDS
      \<and> list_all ascii_break breaks \<and> List.last breaks = line_feed)
    \<and> boot_id_sha256 ev = current \<and> digest_text current \<and> unix_epoch_text (show_nat (created_unix ev))
    \<and> 0 \<le> now - of_nat (created_unix ev) \<and> now - of_nat (created_unix ev) \<le> MAX_EVIDENCE_AGE_SECONDS"
proof -
  let ?st = "evidence_lines 1 (splitlines raw_bytes) \<lparr>evidence_entries = [], evidence_errors = []\<rparr>"
  let ?entries = "evidence_entries ?st"
  from assms have bytes: "endswith raw_bytes [line_feed]" "CHR 0x0D \<notin> set raw_bytes" "is_ascii raw_bytes"
    and len: "length (splitlines raw_bytes) = length REQUIRED_FIELDS" and quiet: "evidence_errors ?st = []"
    and keys: "map fst ?entries = REQUIRED_FIELDS" and checked: "entry_errors ?entries current now = []"
    and ev: "ev = \<lparr>boot_id_sha256 = entry ?entries ''BOOT_ID_SHA256'', created_unix = read_nat (entry ?entries ''CREATED_UNIX''),
      archives_present = (entry ?entries PRESENCE_FIELD = ''yes'')\<rparr>"
    by (auto simp: parse_evidence_bytes_def Let_def split: if_splits)
  from bytes(1) have "raw_bytes = [] \<or> ascii_break (List.last raw_bytes)"
    by (cases raw_bytes rule: rev_cases) (auto simp: endswith_def ascii_break_def line_feed_def byte_in_def)
  from splitlines_breaks [OF bytes(3,2) this] obtain breaks where
    breaks: "length breaks = length (splitlines raw_bytes)" "list_all ascii_break breaks"
      "raw_bytes = lines_with (splitlines raw_bytes) breaks" by blast
  note values_ok = checked_values [OF checked, folded ev]
  from accepted_entries [OF quiet] have "splitlines raw_bytes = map field_line ?entries" by auto
  then have document: "splitlines raw_bytes = evidence_document ev"
    using entries_values [OF keys] values_ok by (simp add: evidence_document_def)
  have "splitlines raw_bytes \<noteq> []" using len by (auto simp: REQUIRED_FIELDS_def)
  then have "List.last breaks = line_feed" using lines_with_end [of breaks "splitlines raw_bytes"] breaks bytes(1) by metis
  then show ?thesis using breaks len values_ok document by metis
qed

lemma hex_value: "list_all is_hex s \<Longrightarrow> list_all (\<lambda>c. 33 \<le> byte c \<and> byte c \<le> 126 \<and> c \<noteq> CHR ''='') s"
proof (induction s)
  case (Cons c s)
  then have "byte_in 48 57 c \<or> byte_in 97 102 c" by (simp add: is_hex_def)
  then have "33 \<le> byte c \<and> byte c \<le> 126 \<and> c \<noteq> CHR ''=''" by (elim disjE) (auto simp: byte_in_def)
  with Cons show ?case by simp
qed simp

lemma digit_hex: "list_all is_digit s \<Longrightarrow> list_all is_hex s"
  by (induction s) (simp_all add: is_digit_def is_hex_def)

lemma fixed_values_ok: "list_all value_ok [EVIDENCE_SCHEMA, ''yes'', ''no'', ''PASS'']"
  by code_simp

lemma values_ok:
  assumes "digest_text (boot_id_sha256 ev)" and "unix_epoch_text (show_nat (created_unix ev))"
  shows "list_all value_ok (evidence_values ev)"
proof -
  have "value_ok (boot_id_sha256 ev)" using assms(1) hex_value by (auto simp: digest_text_def value_ok_def)
  moreover have "value_ok (show_nat (created_unix ev))"
    using hex_value digit_hex show_nat_digits by (simp add: value_ok_def)
  ultimately show ?thesis using fixed_values_ok by (simp add: evidence_values_def list_all_iff)
qed

lemma values_count: "length (evidence_values ev) = length REQUIRED_FIELDS"
  by (simp add: evidence_values_def REQUIRED_FIELDS_def)

lemma plain_inner: "list_all plain_char s \<Longrightarrow> list_all inner_char s"
proof (induction s)
  case (Cons c s)
  then have "33 \<le> byte c" "byte c < 127" by (simp_all add: plain_char_def)
  then have "inner_char c" by (auto simp: inner_char_def ascii_break_def byte_in_def)
  with Cons show ?case by simp
qed simp

lemma document_plain:
  assumes "list_all value_ok (evidence_values ev)"
  shows "list_all (list_all plain_char) (evidence_document ev)"
  unfolding list_all_iff
proof
  fix line
  assume "line \<in> set (evidence_document ev)"
  then obtain key v where line: "line = field_line (key, v)" "(key, v) \<in> set (zip REQUIRED_FIELDS (evidence_values ev))"
    by (auto simp: evidence_document_def)
  then have "key \<in> set REQUIRED_FIELDS" "value_ok v"
    using assms by (auto dest: set_zip_leftD set_zip_rightD simp: list_all_iff)
  then show "\<forall>c \<in> set line. plain_char c"
    using field_plain [of key] value_plain [of v] by (auto simp: line(1) field_line_def list_all_iff plain_char_def)
qed

lemma document_length:
  assumes "length (boot_id_sha256 ev) = 64" and "length (show_nat (created_unix ev)) \<le> 11" and "length breaks = length REQUIRED_FIELDS"
  shows "length (lines_with (evidence_document ev) breaks) \<le> MAX_EVIDENCE_BYTES"
proof -
  have "length (lines_with lines bs) = sum_list (map length lines) + length lines" if "length bs = length lines" for lines bs
    using that
  proof (induction lines arbitrary: bs)
    case (Cons l ls)
    then obtain b bs' where "bs = b # bs'" by (cases bs) auto
    with Cons show ?case by (simp add: lines_with_Cons)
  qed (simp add: lines_with_def)
  then have "length (lines_with (evidence_document ev) breaks)
      = sum_list (map length (evidence_document ev)) + length (evidence_document ev)"
    using assms(3) by (simp add: evidence_document_def values_count)
  also have "\<dots> \<le> 4096"
    using assms(1,2)
    by (simp add: evidence_document_def evidence_values_def REQUIRED_FIELDS_def STATUS_FIELDS_def PRESENCE_FIELD_def
      EVIDENCE_SCHEMA_def field_line_def)
  finally show ?thesis by (simp add: MAX_EVIDENCE_BYTES_def)
qed

lemma entry_zip: "distinct ks \<Longrightarrow> length vs = length ks \<Longrightarrow> map (entry (zip ks vs)) ks = vs"
  by (rule nth_equalityI) (simp_all add: entry_def map_of_zip_nth)

lemma document_errors:
  assumes "digest_text (boot_id_sha256 ev)" and "unix_epoch_text (show_nat (created_unix ev))"
    and "0 \<le> now - of_nat (created_unix ev)" and "now - of_nat (created_unix ev) \<le> MAX_EVIDENCE_AGE_SECONDS"
  defines "entries \<equiv> zip REQUIRED_FIELDS (evidence_values ev)"
  shows "entry_errors entries (boot_id_sha256 ev) now = []
    \<and> ev = \<lparr>boot_id_sha256 = entry entries ''BOOT_ID_SHA256'', created_unix = read_nat (entry entries ''CREATED_UNIX''),
        archives_present = (entry entries PRESENCE_FIELD = ''yes'')\<rparr>"
proof -
  have "map (entry entries) REQUIRED_FIELDS = evidence_values ev"
    unfolding entries_def using fields_distinct by (rule entry_zip) (simp add: values_count)
  then have fields: "entry entries ''RUNTIME_EVIDENCE_SCHEMA'' = EVIDENCE_SCHEMA"
    "entry entries ''BOOT_ID_SHA256'' = boot_id_sha256 ev" "entry entries ''CREATED_UNIX'' = show_nat (created_unix ev)"
    "entry entries PRESENCE_FIELD = (if archives_present ev then ''yes'' else ''no'')"
    and "map (entry entries) STATUS_FIELDS = map (\<lambda>_. ''PASS'') STATUS_FIELDS"
    by (simp_all add: evidence_values_def REQUIRED_FIELDS_def)
  then have status: "\<not> list_ex (\<lambda>field. entry entries field \<noteq> ''PASS'') STATUS_FIELDS"
    by (simp add: list_ex_iff)
  show ?thesis
    using assms(1-4) status
    by (simp add: entry_errors_def fields boot_errors_def time_errors_def Let_def)
qed

lemma lines_with_chars:
  assumes "c \<in> set (lines_with lines breaks)"
  shows "c \<in> set breaks \<or> (\<exists>l \<in> set lines. c \<in> set l)"
  using assms by (auto simp: lines_with_def dest: set_zip_leftD set_zip_rightD)

lemma ends_with_break:
  assumes "length breaks = length lines" and "lines \<noteq> []"
  shows "endswith (lines_with lines breaks) [List.last breaks]"
proof -
  have "lines_with lines breaks \<noteq> []" using assms by (cases lines; cases breaks) (auto simp: lines_with_def)
  then show ?thesis using last_lines_with [OF assms]
    by (cases "lines_with lines breaks" rule: rev_cases) (auto simp: endswith_def)
qed

lemma text_parsed:
  assumes "length breaks = length REQUIRED_FIELDS" and "list_all ascii_break breaks" and "List.last breaks = line_feed"
    and "digest_text (boot_id_sha256 ev)" and "unix_epoch_text (show_nat (created_unix ev))"
    and "0 \<le> now - of_nat (created_unix ev)" and "now - of_nat (created_unix ev) \<le> MAX_EVIDENCE_AGE_SECONDS"
  shows "parse_evidence_bytes (lines_with (evidence_document ev) breaks) (boot_id_sha256 ev) now = Inr ev"
proof -
  let ?raw = "lines_with (evidence_document ev) breaks"
  let ?entries = "zip REQUIRED_FIELDS (evidence_values ev)"
  have vals: "list_all value_ok (evidence_values ev)" by (rule values_ok [OF assms(4,5)])
  have count: "length (evidence_document ev) = length REQUIRED_FIELDS" by (simp add: evidence_document_def values_count)
  have ne: "evidence_document ev \<noteq> []" using count by (auto simp: REQUIRED_FIELDS_def)
  have plain: "list_all (list_all plain_char) (evidence_document ev)" by (rule document_plain [OF vals])
  then have inner: "list_all (list_all inner_char) (evidence_document ev)"
    unfolding list_all_iff [of _ "evidence_document ev"] using plain_inner by blast
  have split: "splitlines ?raw = evidence_document ev"
    using assms(1,2) inner by (intro splitlines_with) (simp_all add: count)
  have chars: "byte c < 128 \<and> c \<noteq> CHR 0x0D \<and> c \<noteq> CHR 0x00" if "c \<in> set ?raw" for c
  proof -
    from lines_with_chars [OF that] consider "ascii_break c" | "plain_char c"
      using assms(2) plain unfolding list_all_iff by blast
    then show ?thesis by cases (auto simp: ascii_break_def byte_in_def plain_char_def)
  qed
  then have bytes: "CHR 0x0D \<notin> set ?raw" "CHR 0x00 \<notin> set ?raw" "is_ascii ?raw"
    unfolding is_ascii_def list_all_iff by blast+
  have size: "\<not> MAX_EVIDENCE_BYTES < length ?raw"
    using document_length [of ev breaks] assms(1,4,5) by (simp add: digest_text_def unix_epoch_text_def)
  have feed: "endswith ?raw [line_feed]" using ends_with_break [of breaks "evidence_document ev"] assms(1,3) count ne by simp
  have keys: "map fst ?entries = REQUIRED_FIELDS" by (simp add: values_count)
  have "evidence_lines 1 (map field_line ?entries) \<lparr>evidence_entries = [], evidence_errors = []\<rparr>
      = \<lparr>evidence_entries = [] @ ?entries, evidence_errors = []\<rparr>"
    using entries_accepted [of ?entries "\<lparr>evidence_entries = [], evidence_errors = []\<rparr>" 1] vals keys fields_distinct
    by (simp add: list_all_iff) (metis (mono_tags, lifting) case_prodI2 set_zip_leftD set_zip_rightD)
  then have st: "evidence_lines 1 (splitlines ?raw) \<lparr>evidence_entries = [], evidence_errors = []\<rparr>
      = \<lparr>evidence_entries = ?entries, evidence_errors = []\<rparr>"
    using split by (metis evidence_document_def append_Nil)
  have small: "\<not> MAX_EVIDENCE_LINES < length REQUIRED_FIELDS" by code_simp
  note checked = document_errors [OF assms(4-7)]
  show ?thesis
    unfolding parse_evidence_bytes_def Let_def st
    using size feed bytes checked keys small by (simp add: split count)
qed

text \<open>
  C30: evidence has one content.  Bytes are accepted as evidence exactly when they are the fifteen fields in the order of the schema
  with their one text each, for the present boot and a creation time of at most ten minutes ago, where
  every line but the last may end in any of the six line boundaries of ASCII other than the carriage return.
\<close>

theorem evidence_text_exact:
  "parse_evidence_bytes raw_bytes current now = Inr ev \<longleftrightarrow>
    (\<exists>breaks. raw_bytes = lines_with (evidence_document ev) breaks \<and> length breaks = length REQUIRED_FIELDS
      \<and> list_all ascii_break breaks \<and> List.last breaks = line_feed)
    \<and> boot_id_sha256 ev = current \<and> digest_text current \<and> unix_epoch_text (show_nat (created_unix ev))
    \<and> 0 \<le> now - of_nat (created_unix ev) \<and> now - of_nat (created_unix ev) \<le> MAX_EVIDENCE_AGE_SECONDS"
  using parsed_text text_parsed by blast

end
