(* ===== verification/HostContract.thy ===== *)
theory HostContract
  imports RuntimeEvidence PyRegex
begin

text \<open>
  scripts/validate_protected_host_contract.py, the private contract: its closed schema and the guarded
  read of the file.  A diagnostic names a role and an index and never a value.
\<close>

section \<open>The schema\<close>

definition REVIEW_KEYS :: "string list" where
  "REVIEW_KEYS = [''PROTECTED_SERVICES_REVIEWED'', ''PROTECTED_LEGACY_ARCHIVES_REVIEWED'']"

definition PRESENCE_KEY :: string where "PRESENCE_KEY = ''PROTECTED_LEGACY_ARCHIVES_PRESENT''"
definition ACTIVATION_CLASS_KEY :: string where "ACTIVATION_CLASS_KEY = ''PROTECTED_LEGACY_ACTIVATION_CLASS_REVIEWED''"
definition RUNTIME_EVIDENCE_HASH_KEY :: string where "RUNTIME_EVIDENCE_HASH_KEY = ''PROTECTED_LEGACY_RUNTIME_EVIDENCE_SHA256''"

definition REQUIRED_ACTIVATION_CLASSES :: "string list" where
  "REQUIRED_ACTIVATION_CLASSES =
    [''containers'', ''package-activation'', ''runtime-exposure'', ''scheduled-autostart'', ''system-manager-units'',
     ''user-manager-units'']"

definition REPEATED_KEYS :: "string list" where
  "REPEATED_KEYS =
    [''PROTECTED_SYSTEMD_UNIT'', ''PROTECTED_LEGACY_ARCHIVE_ROOT'', ''PROTECTED_LEGACY_ARCHIVE_BINDING_SHA256'',
     ''PROTECTED_LEGACY_SYSTEMD_UNIT'', ACTIVATION_CLASS_KEY]"

definition HOST_CONTRACT_KEYS :: "string list" where
  "HOST_CONTRACT_KEYS = REVIEW_KEYS @ [PRESENCE_KEY, RUNTIME_EVIDENCE_HASH_KEY] @ REPEATED_KEYS"

definition MAX_HOST_CONTRACT_BYTES :: nat where "MAX_HOST_CONTRACT_BYTES = 65536"
definition MAX_CONTRACT_ENTRIES :: nat where "MAX_CONTRACT_ENTRIES = 256"

text \<open>\<open>ACTIVE_UNIT_RE\<close> and \<open>LEGACY_UNIT_RE\<close> under \<open>fullmatch\<close>: a class of characters and one of the endings.\<close>

definition unit_first :: "char \<Rightarrow> bool" where
  "unit_first c = (byte_in 65 90 c \<or> byte_in 97 122 c \<or> is_digit c \<or> c = CHR ''_'')"

definition unit_char :: "char \<Rightarrow> bool" where
  "unit_char c = (unit_first c \<or> c \<in> set ''.:@-'')"

definition unit_name :: "string list \<Rightarrow> string \<Rightarrow> bool" where
  "unit_name endings s =
    (s \<noteq> [] \<and> unit_first (hd s) \<and> list_all unit_char s
     \<and> list_ex (\<lambda>e. length e < length s \<and> endswith s e) endings)"

definition ACTIVE_UNIT_SUFFIXES :: "string list" where "ACTIVE_UNIT_SUFFIXES = [''.service'']"
definition LEGACY_UNIT_SUFFIXES :: "string list" where
  "LEGACY_UNIT_SUFFIXES = [''.service'', ''.socket'', ''.timer'', ''.path'']"

definition safe_unit :: "string list \<Rightarrow> string \<Rightarrow> bool" where
  "safe_unit endings s = (unit_name endings s \<and> \<not> contains s ''..'' \<and> \<not> contains s ''@.'')"

text \<open>\<open>ARCHIVE_ROOT_RE\<close>: one or more components of a class, each after a slash.\<close>

definition root_char :: "char \<Rightarrow> bool" where
  "root_char c = (byte_in 65 90 c \<or> byte_in 97 122 c \<or> is_digit c \<or> c \<in> set ''_@+~.-'')"

definition archive_root_text :: "string \<Rightarrow> bool" where
  "archive_root_text s =
    (case s of
       [] \<Rightarrow> False
     | c # t \<Rightarrow> c = CHR ''/'' \<and> list_all (\<lambda>part. part \<noteq> [] \<and> list_all root_char part) (split_on (CHR ''/'') t))"

text \<open>\<open>posixpath.normpath\<close>.\<close>

fun fold_dots :: "bool \<Rightarrow> string list \<Rightarrow> string list \<Rightarrow> string list" where
  "fold_dots rooted done_parts [] = rev done_parts"
| "fold_dots rooted done_parts (part # rest) =
    (if part = [] \<or> part = ''.'' then fold_dots rooted done_parts rest
     else if part \<noteq> ''..'' \<or> (\<not> rooted \<and> done_parts = []) \<or> (done_parts \<noteq> [] \<and> hd done_parts = ''..'')
          then fold_dots rooted (part # done_parts) rest
     else fold_dots rooted (tl done_parts) rest)"

definition normpath :: "string \<Rightarrow> string" where
  "normpath s =
    (let found = path_root s @ join ''/'' (fold_dots (path_root s \<noteq> []) [] (split_on (CHR ''/'') s)) in
     if found = [] then ''.'' else found)"

definition dotted_parts :: "string \<Rightarrow> bool" where
  "dotted_parts s = list_ex (\<lambda>part. part \<in> {[], ''.'', ''..''}) (tl (split_on (CHR ''/'') s))"

text \<open>The least number of components, the root among them, of a dedicated directory.\<close>

definition ALLOWED_ARCHIVE_ROOT_PREFIX_PARTS :: "(string \<times> nat) list" where
  "ALLOWED_ARCHIVE_ROOT_PREFIX_PARTS = [(''home'', 4), (''media'', 3), (''mnt'', 3), (''opt'', 3), (''srv'', 3)]"

record host_contract =
  active_units :: "string list"
  legacy_archives_present :: bool
  runtime_evidence_sha256 :: "string option"
  archive_roots :: "string list"
  archive_bindings :: "string list"
  legacy_units :: "string list"
  activation_classes :: "string list"

section \<open>Entries\<close>

type_synonym entries = "(string \<times> string list) list"

fun add_value :: "string \<Rightarrow> string \<Rightarrow> entries \<Rightarrow> entries" where
  "add_value key v [] = [(key, [v])]"
| "add_value key v ((k, vs) # rest) = (if k = key then (k, vs @ [v]) # rest else (k, vs) # add_value key v rest)"

definition declared_values :: "entries \<Rightarrow> string \<Rightarrow> string list" where
  "declared_values entries key = (case map_of entries key of Some vs \<Rightarrow> vs | None \<Rightarrow> [])"

definition at_index :: "string \<Rightarrow> nat \<Rightarrow> string \<Rightarrow> string" where
  "at_index label index reason = label @ '' '' @ show_nat index @ reason"

definition duplicates_in :: "string list \<Rightarrow> string \<Rightarrow> string list" where
  "duplicates_in vs label =
    concat (map (\<lambda>(index, v).
      if v \<in> set (take (index - 1) vs) then [at_index label index '' duplicates an earlier declaration''] else [])
      (enumerate 1 vs))"

definition review_errors :: "bool \<Rightarrow> entries \<Rightarrow> string list" where
  "review_errors allow_unreviewed entries =
    concat (map (\<lambda>key.
      case declared_values entries key of
        [v] \<Rightarrow> if v = ''yes'' \<or> allow_unreviewed \<and> v = ''no'' then []
               else [key @ '' must occur exactly once and '' @ (if allow_unreviewed then ''equal yes or no'' else ''equal yes'')]
      | _ \<Rightarrow> [key @ '' must occur exactly once and '' @ (if allow_unreviewed then ''equal yes or no'' else ''equal yes'')])
      (sort_key (\<lambda>key. key) REVIEW_KEYS))"

definition presence_errors :: "entries \<Rightarrow> string list" where
  "presence_errors entries =
    (if declared_values entries PRESENCE_KEY \<in> {[''yes''], [''no'']} then []
     else [PRESENCE_KEY @ '' must occur exactly once and equal yes or no''])"

definition class_errors :: "string list \<Rightarrow> string list" where
  "class_errors classes =
    (if set classes \<noteq> set REQUIRED_ACTIVATION_CLASSES \<or> length classes \<noteq> length REQUIRED_ACTIVATION_CLASSES
     then [''activation class review declarations are incomplete or unsupported''] else [])"

definition digest_errors :: "string list \<Rightarrow> string list" where
  "digest_errors bindings =
    concat (map (\<lambda>(index, b). if \<not> digest_text b then [at_index ''archive binding'' index '' must be a lowercase SHA-256''] else [])
      (enumerate 1 bindings))"

definition active_errors :: "string list \<Rightarrow> string list" where
  "active_errors units =
    concat (map (\<lambda>(index, u).
      if \<not> safe_unit ACTIVE_UNIT_SUFFIXES u then [at_index ''active unit'' index '' has an unsafe identifier''] else [])
      (enumerate 1 units))"

definition legacy_errors :: "string list \<Rightarrow> string list \<Rightarrow> string list" where
  "legacy_errors active units =
    concat (map (\<lambda>(index, u).
      (if \<not> safe_unit LEGACY_UNIT_SUFFIXES u then [at_index ''legacy unit'' index '' has an unsafe identifier''] else [])
      @ (if u \<in> set active then [at_index ''legacy unit'' index '' overlaps an active unit''] else []))
      (enumerate 1 units))"

text \<open>The components of a canonical root, and whether it is dedicated.\<close>

definition parsed_root :: "string \<Rightarrow> string list option" where
  "parsed_root v = (if \<not> archive_root_text v \<or> normpath v \<noteq> v \<or> dotted_parts v then None else Some (path_parts v))"

definition dedicated :: "string list \<Rightarrow> bool" where
  "dedicated parts =
    (case parts of
       [] \<Rightarrow> False
     | hierarchy # _ \<Rightarrow> (case map_of ALLOWED_ARCHIVE_ROOT_PREFIX_PARTS hierarchy of None \<Rightarrow> False | Some n \<Rightarrow> n \<le> 1 + length parts))"

definition root_errors :: "string list \<Rightarrow> string list" where
  "root_errors roots =
    concat (map (\<lambda>(index, v).
      case parsed_root v of
        None \<Rightarrow> [at_index ''archive root'' index '' must be an absolute canonical path'']
      | Some parts \<Rightarrow> if \<not> dedicated parts then [at_index ''archive root'' index '' is too broad to be dedicated''] else [])
      (enumerate 1 roots))"

definition overlap_errors :: "string list option list \<Rightarrow> string list" where
  "overlap_errors parsed =
    concat (map (\<lambda>(index, p).
      case p of
        None \<Rightarrow> []
      | Some parts \<Rightarrow>
          if list_ex (\<lambda>q. case q of None \<Rightarrow> False
                | Some earlier \<Rightarrow> strict_prefix parts earlier \<or> strict_prefix earlier parts) (take (index - 1) parsed)
          then [at_index ''archive root'' index '' overlaps an earlier archive root''] else [])
      (enumerate 1 parsed))"

definition binding_key_errors :: "bool \<Rightarrow> string list \<Rightarrow> string list" where
  "binding_key_errors allow_missing hashes =
    (case hashes of
       [h] \<Rightarrow> if \<not> digest_text h then [RUNTIME_EVIDENCE_HASH_KEY @ '' must be a lowercase SHA-256''] else []
     | _ \<Rightarrow> if allow_missing \<and> hashes = [] then []
            else [RUNTIME_EVIDENCE_HASH_KEY @ '' must occur exactly once for either archive-presence decision''])"

definition archive_errors :: "bool \<Rightarrow> host_contract \<Rightarrow> string list" where
  "archive_errors allow_missing c =
    (let roots = archive_roots c; bindings = archive_bindings c in
     if legacy_archives_present c
     then (if roots = [] then [''archive presence is yes but no dedicated archive root is declared''] else [])
        @ (if \<not> allow_missing \<and> length bindings \<noteq> length roots
           then [''each declared archive root must have one binding SHA-256''] else [])
        @ (if allow_missing \<and> bindings \<noteq> [] \<and> length bindings \<noteq> length roots
           then [''archive bindings must be absent or complete while deriving them''] else [])
     else if roots \<noteq> [] \<or> bindings \<noteq> [] \<or> legacy_units c \<noteq> []
     then [''archive presence is no but legacy archive declarations are not empty''] else [])"

definition host_contract_of :: "entries \<Rightarrow> host_contract" where
  "host_contract_of entries =
    \<lparr>active_units = declared_values entries ''PROTECTED_SYSTEMD_UNIT'',
     legacy_archives_present = (declared_values entries PRESENCE_KEY = [''yes'']),
     runtime_evidence_sha256 = (case declared_values entries RUNTIME_EVIDENCE_HASH_KEY of [h] \<Rightarrow> Some h | _ \<Rightarrow> None),
     archive_roots = declared_values entries ''PROTECTED_LEGACY_ARCHIVE_ROOT'',
     archive_bindings = declared_values entries ''PROTECTED_LEGACY_ARCHIVE_BINDING_SHA256'',
     legacy_units = declared_values entries ''PROTECTED_LEGACY_SYSTEMD_UNIT'',
     activation_classes = declared_values entries ACTIVATION_CLASS_KEY\<rparr>"

definition entry_count :: "entries \<Rightarrow> nat" where
  "entry_count entries = sum_list (map (length \<circ> snd) entries)"

definition schema_errors :: "bool \<Rightarrow> bool \<Rightarrow> entries \<Rightarrow> string list" where
  "schema_errors allow_missing allow_unreviewed entries =
    (let c = host_contract_of entries in
     (if MAX_CONTRACT_ENTRIES < entry_count entries then [''protected-host contract has too many declarations''] else [])
     @ review_errors allow_unreviewed entries @ presence_errors entries
     @ duplicates_in (active_units c) ''active unit'' @ duplicates_in (archive_roots c) ''archive root''
     @ duplicates_in (archive_bindings c) ''archive binding'' @ duplicates_in (legacy_units c) ''legacy unit''
     @ duplicates_in (activation_classes c) ''activation class review''
     @ class_errors (activation_classes c) @ digest_errors (archive_bindings c) @ active_errors (active_units c)
     @ legacy_errors (active_units c) (legacy_units c) @ root_errors (archive_roots c)
     @ overlap_errors (map (parsed_root) (archive_roots c))
     @ binding_key_errors allow_missing (declared_values entries RUNTIME_EVIDENCE_HASH_KEY) @ archive_errors allow_missing c)"

definition validate_entries :: "bool \<Rightarrow> bool \<Rightarrow> entries \<Rightarrow> string list + host_contract" where
  "validate_entries allow_missing allow_unreviewed entries =
    (if schema_errors allow_missing allow_unreviewed entries \<noteq> []
     then Inl (schema_errors allow_missing allow_unreviewed entries) else Inr (host_contract_of entries))"

section \<open>Lines\<close>

record host_lines =
  line_entries :: entries
  line_errors :: "string list"

definition line_fault :: "nat \<Rightarrow> string \<Rightarrow> host_lines \<Rightarrow> host_lines" where
  "line_fault n reason st = st\<lparr>line_errors := line_errors st @ [''line '' @ show_nat n @ reason]\<rparr>"

definition host_line :: "nat \<Rightarrow> string \<Rightarrow> host_lines \<Rightarrow> host_lines" where
  "host_line n line st =
    (if line = [] \<or> startswith line ''#'' then st
     else if line \<noteq> strip line then line_fault n '': expected unindented KEY=VALUE'' st
     else
       case split_first (CHR ''='') line of
         None \<Rightarrow> line_fault n '': expected unindented KEY=VALUE'' st
       | Some (key, v) \<Rightarrow>
           if key \<notin> set HOST_CONTRACT_KEYS then line_fault n '': unsupported key'' st
           else if v = [] \<or> list_ex (\<lambda>x. space_char x \<or> byte (hd x) < 32) (characters v)
           then line_fault n '': value is empty or contains whitespace/control data'' st
           else st\<lparr>line_entries := add_value key v (line_entries st)\<rparr>)"

fun host_lines_from :: "nat \<Rightarrow> string list \<Rightarrow> host_lines \<Rightarrow> host_lines" where
  "host_lines_from n [] st = st"
| "host_lines_from n (line # lines) st = host_lines_from (n + 1) lines (host_line n line st)"

definition parse_host_contract :: "bool \<Rightarrow> bool \<Rightarrow> string \<Rightarrow> string list + host_contract" where
  "parse_host_contract allow_missing allow_unreviewed text =
    (let st = host_lines_from 1 (splitlines text) \<lparr>line_entries = [], line_errors = []\<rparr> in
     if line_errors st \<noteq> [] then Inl (line_errors st)
     else validate_entries allow_missing allow_unreviewed (line_entries st))"

section \<open>The file\<close>

text \<open>The calls are those of the evidence reader, so the observations are of the same form.\<close>

definition private_controls :: "os_stat \<Rightarrow> bool" where
  "private_controls st \<longleftrightarrow> is_regular st \<and> permissions st = 384 \<and> links st = 1"

definition read_contract_open :: "evidence_file \<Rightarrow> os_stat \<Rightarrow> (string list + string \<times> os_stat) res" where
  "read_contract_open file earlier =
    (let os = when_os_error ''protected-host contract cannot be read safely'';
         stat = when_os_error ''protected-host contract cannot be read safely'' in
     stat (held_before file) (\<lambda>opened.
     stat (held_parent_before file) (\<lambda>parent.
     if (device earlier, inode earlier) \<noteq> (device opened, inode opened)
     then refuse_read ''protected-host contract changed while opening''
     else if \<not> private_controls opened then refuse_read ''protected-host contract controls changed while opening''
     else
       os (read_upto (evidence_offered file) 0 (MAX_HOST_CONTRACT_BYTES + 1)) (\<lambda>bytes.
       stat (held_after file) (\<lambda>later.
       stat (held_parent_after file) (\<lambda>parent_later.
       if stable_stat_state opened \<noteq> stable_stat_state later \<or> byte_size later \<noteq> int (length bytes)
          \<or> stable_stat_state parent \<noteq> stable_stat_state parent_later
       then refuse_read ''protected-host contract changed while reading''
       else
         stat (named_after file) (\<lambda>named.
         if stable_stat_state named \<noteq> stable_stat_state later
         then refuse_read ''protected-host contract directory entry changed while reading''
         else
           when_os_error ''protected-host contract path changed while reading''
             (open_no_follow OSError (path_root (evidence_path file) \<noteq> []) (path_parts (evidence_path file)) (reopening file)) (\<lambda>_.
           stat (reopened file) (\<lambda>again.
           stat (reopened_parent file) (\<lambda>parent_again.
           if stable_stat_state again \<noteq> stable_stat_state later
              \<or> stable_stat_state parent_again \<noteq> stable_stat_state parent_later
           then refuse_read ''protected-host contract path changed while reading''
           else Inr (Inr (bytes, later))))))))))))"

definition load_contract :: "evidence_file \<Rightarrow> bool \<Rightarrow> bool \<Rightarrow> (string list + host_contract) res" where
  "load_contract file allow_missing allow_unreviewed =
    when_os_error ''protected-host contract is unavailable'' (seen_before file) (\<lambda>earlier.
    when_os_error ''protected-host contract is unavailable'' (seen_resolved file) (\<lambda>direct.
    if is_symlink earlier then refuse_read ''protected-host contract must not be a symbolic link''
    else if \<not> is_regular earlier then refuse_read ''protected-host contract must be a regular file''
    else if \<not> direct then refuse_read ''protected-host contract path must not traverse a symbolic link''
    else if permissions earlier \<noteq> 384 then refuse_read ''protected-host contract mode must be exactly 0600''
    else if links earlier \<noteq> 1 then refuse_read ''protected-host contract must have exactly one hard link''
    else
      when_os_error ''protected-host contract cannot be opened safely''
        (open_no_follow OSError (path_root (evidence_path file) \<noteq> []) (path_parts (evidence_path file)) (opening_steps file)) (\<lambda>_.
      bind (read_contract_open file earlier) (\<lambda>found.
      case found of
        Inl reasons \<Rightarrow> Inr (Inl reasons)
      | Inr (bytes, later) \<Rightarrow>
          when_os_error ''protected-host contract changed after reading'' (seen_after file) (\<lambda>final.
          if stable_stat_state final \<noteq> stable_stat_state later then refuse_read ''protected-host contract changed after reading''
          else if MAX_HOST_CONTRACT_BYTES < length bytes then refuse_read ''protected-host contract exceeds the size limit''
          else if \<not> utf8_valid bytes then refuse_read ''protected-host contract cannot be read as UTF-8''
          else Inr (parse_host_contract allow_missing allow_unreviewed bytes))))))"

text \<open>A successful read backwards.\<close>

lemma when_os_error_success [simp]: "when_os_error reason m k = Inr (Inr y) \<longleftrightarrow> (\<exists>x. m = Inr x \<and> k x = Inr (Inr y))"
  by (auto simp: when_os_error_def refuse_read_def split: sum.splits)

lemma refuse_read_no_success [simp]: "refuse_read reason \<noteq> Inr (Inr y)"
  by (simp add: refuse_read_def)

lemma found_success [simp]:
  "(case found of Inl reasons \<Rightarrow> Inr (Inl reasons) | Inr x \<Rightarrow> f x) = Inr (Inr y) \<longleftrightarrow> (\<exists>x. found = Inr x \<and> f x = Inr (Inr y))"
  by (cases found) auto

text \<open>What the evidence script reads of the contract.\<close>

definition contract_presence :: "evidence_file \<Rightarrow> presence_source" where
  "contract_presence file =
    Some (bind (load_contract file True True) (\<lambda>found.
      Inr (case found of Inl errors \<Rightarrow> (None, errors) | Inr c \<Rightarrow> (Some (JBool (legacy_archives_present c)), []))))"

text \<open>
  What an accepted host contract says: the archive roots are separate dedicated directories and the
  declarations are consistent with the presence decision.
\<close>

section \<open>Indexed checks\<close>

lemma indexed_none: "concat (map f (enumerate 1 xs)) = [] \<longleftrightarrow> (\<forall>i < length xs. f (i + 1, xs ! i) = [])"
proof -
  have "concat (map f (enumerate 1 xs)) = [] \<longleftrightarrow> (\<forall>p \<in> set (enumerate 1 xs). f p = [])" by auto
  also have "\<dots> \<longleftrightarrow> (\<forall>i < length xs. f (i + 1, xs ! i) = [])"
  proof (intro iffI allI impI ballI)
    fix i assume none: "\<forall>p \<in> set (enumerate 1 xs). f p = []" and i: "i < length xs"
    then have "(i + 1, xs ! i) \<in> set (enumerate 1 xs)" by (simp add: in_set_enumerate_eq)
    with none show "f (i + 1, xs ! i) = []" by blast
  next
    fix p assume none: "\<forall>i < length xs. f (i + 1, xs ! i) = []" and p: "p \<in> set (enumerate 1 xs)"
    then have "p = (fst p - 1 + 1, xs ! (fst p - 1))" "fst p - 1 < length xs"
      by (cases p; auto simp: in_set_enumerate_eq)+
    with none show "f p = []" by metis
  qed
  finally show ?thesis .
qed

lemma duplicates_none: "duplicates_in vs label = [] \<longleftrightarrow> distinct vs"
proof -
  have "duplicates_in vs label = [] \<longleftrightarrow> (\<forall>i < length vs. vs ! i \<notin> set (take i vs))"
    unfolding duplicates_in_def indexed_none by auto
  also have "\<dots> \<longleftrightarrow> distinct vs"
    by (auto simp: distinct_conv_nth in_set_conv_nth) (metis nat_neq_iff)
  finally show ?thesis .
qed

lemma filter_at_most_one:
  assumes "\<And>i j. i < j \<Longrightarrow> j < length xs \<Longrightarrow> P (xs ! i) \<Longrightarrow> P (xs ! j) \<Longrightarrow> False"
  shows "length (filter P xs) \<le> 1"
  using assms
proof (induction xs)
  case Nil
  then show ?case by simp
next
  case (Cons x xs)
  have IH: "length (filter P xs) \<le> 1"
  proof (rule Cons.IH)
    fix i j assume "i < j" "j < length xs" "P (xs ! i)" "P (xs ! j)"
    then show False using Cons.prems [of "Suc i" "Suc j"] by simp
  qed
  have "filter P xs = []" if "P x"
    using that Cons.prems [of 0 "Suc i" for i] by (auto simp: filter_empty_conv in_set_conv_nth)
  then show ?case using IH by simp
qed

section \<open>Roots\<close>

lemma split_on_inj: "split_on c s = split_on c t \<Longrightarrow> s = t"
  by (metis join_split_on)

lemma root_parts:
  assumes "parsed_root v = Some parts"
  shows "parts = path_parts v" and "v = CHR ''/'' # tl v" and "path_parts v = split_on (CHR ''/'') (tl v)"
proof -
  from assms show "parts = path_parts v" by (simp add: parsed_root_def split: if_splits)
  from assms have root: "archive_root_text v" and dots: "\<not> dotted_parts v" by (simp_all add: parsed_root_def split: if_splits)
  from root obtain t where v: "v = CHR ''/'' # t" by (auto simp: archive_root_text_def split: list.splits)
  then show "v = CHR ''/'' # tl v" by simp
  have "list_all (\<lambda>part. part \<noteq> [] \<and> part \<noteq> ''.'') (split_on (CHR ''/'') t)"
    using dots v by (auto simp: dotted_parts_def list_ex_iff list_all_iff)
  then show "path_parts v = split_on (CHR ''/'') (tl v)"
    using v by (simp add: path_parts_def list_all_iff)
qed

lemma root_parts_inj:
  assumes "parsed_root v = Some parts" and "parsed_root w = Some parts"
  shows "v = w"
  using root_parts [OF assms(1)] root_parts [OF assms(2)] split_on_inj by metis

lemma roots_apart:
  assumes "root_errors roots = []" and "overlap_errors (map parsed_root roots) = []" and "distinct roots"
  shows "list_all (\<lambda>root. \<exists>parts. parsed_root root = Some parts \<and> dedicated parts) roots"
    and "length (filter (\<lambda>root. prefix (path_parts root) path) roots) \<le> 1"
proof -
  have each: "\<exists>parts. parsed_root (roots ! i) = Some parts \<and> dedicated parts" if "i < length roots" for i
    using assms(1) that unfolding root_errors_def indexed_none by (auto split: option.splits if_splits)
  then show "list_all (\<lambda>root. \<exists>parts. parsed_root root = Some parts \<and> dedicated parts) roots"
    by (auto simp: list_all_length)
  show "length (filter (\<lambda>root. prefix (path_parts root) path) roots) \<le> 1"
  proof (rule filter_at_most_one)
    fix i j
    assume order: "i < j" "j < length roots" and covers: "prefix (path_parts (roots ! i)) path" "prefix (path_parts (roots ! j)) path"
    from each order obtain p q where p: "parsed_root (roots ! i) = Some p" and q: "parsed_root (roots ! j) = Some q"
      by (meson less_trans)
    have "roots ! i \<noteq> roots ! j" using assms(3) order by (simp add: nth_eq_iff_index_eq)
    then have "p \<noteq> q" using root_parts_inj p q by metis
    moreover have "prefix p q \<or> prefix q p" using covers root_parts(1) [OF p] root_parts(1) [OF q] prefix_same_cases by blast
    ultimately have "strict_prefix p q \<or> strict_prefix q p" by auto
    moreover have "Some p \<in> set (take j (map parsed_root roots))" using p order by (auto simp: in_set_conv_nth)
    moreover have "\<not> list_ex (\<lambda>x. case x of None \<Rightarrow> False | Some earlier \<Rightarrow> strict_prefix q earlier \<or> strict_prefix earlier q)
        (take j (map parsed_root roots))"
      using assms(2) order q unfolding overlap_errors_def indexed_none by (auto split: if_splits)
    ultimately show False by (force simp: list_ex_iff)
  qed
qed

section \<open>What is accepted\<close>

text \<open>The presence decision fixes which declarations there are.\<close>

definition presence_consistent :: "bool \<Rightarrow> host_contract \<Rightarrow> bool" where
  "presence_consistent deriving c =
    (if legacy_archives_present c
     then archive_roots c \<noteq> [] \<and> (length (archive_bindings c) = length (archive_roots c) \<or> deriving \<and> archive_bindings c = [])
     else archive_roots c = [] \<and> archive_bindings c = [] \<and> legacy_units c = [])"

lemma archive_errors_none: "archive_errors deriving c = [] \<longleftrightarrow> presence_consistent deriving c"
  by (auto simp: archive_errors_def presence_consistent_def Let_def)

lemma units_apart: "legacy_errors active units = [] \<Longrightarrow> set active \<inter> set units = {}"
proof -
  assume none: "legacy_errors active units = []"
  have "units ! i \<notin> set active" if "i < length units" for i
    using none that unfolding legacy_errors_def indexed_none by (auto split: if_splits)
  then show "set active \<inter> set units = {}" by (metis disjoint_iff in_set_conv_nth)
qed

lemma accepted_schema:
  assumes "parse_host_contract deriving unreviewed text = Inr c"
  shows "\<exists>entries. c = host_contract_of entries \<and> schema_errors deriving unreviewed entries = []"
  using assms by (auto simp: parse_host_contract_def validate_entries_def Let_def split: if_splits)

text \<open>
  C31: whatever path one takes, at most one declared archive root contains it.  The roots of an accepted contract are dedicated
  directories of the reviewed hierarchies, none inside another; no unit is both protected and to be kept
  inactive, and without archives nothing is declared about them.
\<close>

theorem archive_roots_exclusive:
  "case parse_host_contract deriving unreviewed text of
     Inl errors \<Rightarrow> True
   | Inr c \<Rightarrow>
       list_all (\<lambda>root. \<exists>parts. parsed_root root = Some parts \<and> dedicated parts) (archive_roots c)
       \<and> (\<forall>path. length (filter (\<lambda>root. prefix (path_parts root) path) (archive_roots c)) \<le> 1)
       \<and> distinct (archive_bindings c) \<and> set (active_units c) \<inter> set (legacy_units c) = {}
       \<and> presence_consistent deriving c"
proof (cases "parse_host_contract deriving unreviewed text")
  case (Inl errors)
  then show ?thesis by simp
next
  case (Inr c)
  from accepted_schema [OF this] obtain entries where "c = host_contract_of entries" "schema_errors deriving unreviewed entries = []"
    by blast
  then have ok: "root_errors (archive_roots c) = []" "overlap_errors (map parsed_root (archive_roots c)) = []"
    "distinct (archive_roots c)" "distinct (archive_bindings c)" "legacy_errors (active_units c) (legacy_units c) = []"
    "presence_consistent deriving c"
    by (simp_all add: schema_errors_def Let_def duplicates_none archive_errors_none)
  show ?thesis using Inr roots_apart [OF ok(1-3)] units_apart [OF ok(5)] ok(4,6) by simp
qed

end
