(* ===== verification/MountTopology.thy ===== *)
theory MountTopology
  imports HostContract
begin

text \<open>
  scripts/validate_protected_host_contract.py, the mount table: parsing \<open>/proc/self/mountinfo\<close> and selecting
  the one mount that holds an archive, with no other way to reach it.  Digits beyond ASCII in
  the table are not modelled.
\<close>

section \<open>Pure paths\<close>

text \<open>\<open>PurePosixPath(text)\<close>: its root and its components.\<close>

type_synonym posix_path = "string \<times> string list"

definition pure_path :: "string \<Rightarrow> posix_path" where
  "pure_path text = (path_root text, path_parts text)"

text \<open>\<open>p in q.parents\<close>, and equal to or among the parents.\<close>

definition is_parent :: "posix_path \<Rightarrow> posix_path \<Rightarrow> bool" where
  "is_parent p q = (fst p = fst q \<and> strict_prefix (snd p) (snd q))"

definition contains_path :: "posix_path \<Rightarrow> posix_path \<Rightarrow> bool" where
  "contains_path p q = (p = q \<or> is_parent p q)"

definition paths_overlap :: "posix_path \<Rightarrow> posix_path \<Rightarrow> bool" where
  "paths_overlap p q = (p = q \<or> is_parent p q \<or> is_parent q p)"

text \<open>\<open>target.relative_to(base)\<close> and \<open>base.joinpath(relative)\<close>.\<close>

definition relative_parts :: "posix_path \<Rightarrow> posix_path \<Rightarrow> string list option" where
  "relative_parts target base = (if contains_path base target then Some (drop (length (snd base)) (snd target)) else None)"

definition below :: "posix_path \<Rightarrow> string list \<Rightarrow> posix_path" where
  "below p parts = (fst p, snd p @ parts)"

lemma contains_path_iff: "contains_path p q \<longleftrightarrow> fst p = fst q \<and> prefix (snd p) (snd q)"
  by (cases p; cases q) (auto simp: contains_path_def is_parent_def)

lemma paths_overlap_iff: "paths_overlap p q \<longleftrightarrow> contains_path p q \<or> contains_path q p"
  by (auto simp: paths_overlap_def contains_path_def)

section \<open>The mount table\<close>

definition MAX_MOUNTINFO_BYTES :: nat where "MAX_MOUNTINFO_BYTES = 4 * 1024 * 1024"
definition MAX_MOUNTINFO_LINES :: nat where "MAX_MOUNTINFO_LINES = 8192"

definition ALLOWED_ARCHIVE_FILESYSTEM_TYPES :: "string list" where
  "ALLOWED_ARCHIVE_FILESYSTEM_TYPES = [''btrfs'', ''ext4'', ''f2fs'', ''xfs'', ''zfs'']"

record mount_record =
  mount_id :: nat
  parent_id :: nat
  major_minor :: string
  mount_root :: posix_path
  mount_point :: posix_path
  filesystem_type :: string

text \<open>Every backslash must start one of four octal codes, so one pass checks and replaces.\<close>

definition octal_code :: "string \<Rightarrow> char option" where
  "octal_code s =
    (if startswith s ''040'' then Some (CHR 0x20) else if startswith s ''011'' then Some (CHR 0x09)
     else if startswith s ''012'' then Some (CHR 0x0A) else if startswith s ''134'' then Some (CHR 0x5C) else None)"

function mountinfo_unescape :: "string \<Rightarrow> string option" where
  "mountinfo_unescape s =
    (case s of
       [] \<Rightarrow> Some []
     | c # t \<Rightarrow>
         if c = CHR 0x5C
         then (case octal_code t of
                 None \<Rightarrow> None
               | Some x \<Rightarrow> map_option (Cons x) (mountinfo_unescape (drop 3 t)))
         else map_option (Cons c) (mountinfo_unescape t))"
  by pat_completeness auto
termination
  by (relation "measure length") auto

declare mountinfo_unescape.simps [simp del]

fun partition_text :: "string \<Rightarrow> string \<Rightarrow> (string \<times> string) option" where
  "partition_text sep [] = None"
| "partition_text sep (c # t) =
    (if startswith (c # t) sep then Some ([], drop (length sep) (c # t))
     else map_option (\<lambda>(a, b). (c # a, b)) (partition_text sep t))"

definition digits_text :: "string \<Rightarrow> bool" where
  "digits_text s = (s \<noteq> [] \<and> list_all is_digit s)"

definition device_numbers :: "string \<Rightarrow> bool" where
  "device_numbers s =
    (case split_first (CHR '':'') s of Some (a, b) \<Rightarrow> digits_text a \<and> digits_text b | None \<Rightarrow> False)"

definition mount_path_ok :: "string \<Rightarrow> bool" where
  "mount_path_ok s = (startswith s ''/'' \<and> normpath s = s \<and> list_all (\<lambda>c. 32 \<le> byte c \<and> byte c \<noteq> 127) s)"

definition type_char :: "char \<Rightarrow> bool" where
  "type_char c = (byte_in 65 90 c \<or> byte_in 97 122 c \<or> is_digit c \<or> c \<in> set ''_.+-'')"

definition lower_text :: "string \<Rightarrow> string" where
  "lower_text s = map (\<lambda>c. if byte_in 65 90 c then char_of (byte c + 32) else c) s"

definition type_text :: "string \<Rightarrow> bool" where
  "type_text s = (1 \<le> length s \<and> length s \<le> 64 \<and> list_all type_char s)"

definition mount_line :: "nat list \<Rightarrow> string \<Rightarrow> mount_record option" where
  "mount_line seen line =
    (case partition_text '' - '' line of
       None \<Rightarrow> None
     | Some (left, right) \<Rightarrow>
         let earlier = words left; later = words right in
         if length earlier < 6 \<or> length later < 3 then None
         else if \<not> digits_text (earlier ! 0) \<or> \<not> digits_text (earlier ! 1) then None
         else
           let ident = read_nat (earlier ! 0) in
           if ident = 0 \<or> ident \<in> set seen then None
           else if \<not> device_numbers (earlier ! 2) then None
           else
             (case (mountinfo_unescape (earlier ! 3), mountinfo_unescape (earlier ! 4)) of
                (Some found_root, Some found_point) \<Rightarrow>
                  if \<not> mount_path_ok found_root \<or> \<not> mount_path_ok found_point \<or> \<not> type_text (hd later) then None
                  else Some \<lparr>mount_id = ident, parent_id = read_nat (earlier ! 1), major_minor = earlier ! 2,
                    mount_root = pure_path found_root, mount_point = pure_path found_point,
                    filesystem_type = lower_text (hd later)\<rparr>
              | _ \<Rightarrow> None))"

fun mount_lines :: "string list \<Rightarrow> mount_record list \<Rightarrow> mount_record list option" where
  "mount_lines [] records = Some records"
| "mount_lines (line # lines) records =
    (case mount_line (map mount_id records) line of
       None \<Rightarrow> None
     | Some m \<Rightarrow> mount_lines lines (records @ [m]))"

definition parse_mountinfo_bytes :: "string \<Rightarrow> mount_record list option" where
  "parse_mountinfo_bytes bytes =
    (if MAX_MOUNTINFO_BYTES < length bytes \<or> \<not> utf8_valid bytes then None
     else
       let lines = splitlines bytes in
       if lines = [] \<or> MAX_MOUNTINFO_LINES < length lines then None else mount_lines lines [])"

text \<open>The content of the table; none when it cannot be opened or read.\<close>

definition read_mountinfo :: "string option \<Rightarrow> mount_record list option" where
  "read_mountinfo content =
    (case content of None \<Rightarrow> None | Some bytes \<Rightarrow> parse_mountinfo_bytes (take (MAX_MOUNTINFO_BYTES + 1) bytes))"

section \<open>Selection\<close>

text \<open>\<open>max(candidates, key=...)\<close>: the first of the deepest.\<close>

fun deepest :: "mount_record \<Rightarrow> mount_record list \<Rightarrow> mount_record" where
  "deepest best [] = best"
| "deepest best (m # ms) =
    deepest (if length (snd (mount_point best)) < length (snd (mount_point m)) then m else best) ms"

definition mount_relevant :: "posix_path \<Rightarrow> mount_record \<Rightarrow> bool" where
  "mount_relevant target m = (contains_path (mount_point m) target \<or> is_parent target (mount_point m))"

definition aliases :: "mount_record \<Rightarrow> posix_path \<Rightarrow> mount_record \<Rightarrow> bool" where
  "aliases selected archive m =
    (mount_id m \<noteq> mount_id selected \<and> major_minor m = major_minor selected \<and> paths_overlap (mount_root m) archive)"

definition mount_record_from_records :: "string \<Rightarrow> mount_record list \<Rightarrow> string list + mount_record" where
  "mount_record_from_records v records =
    (let target = pure_path v; relevant = filter (mount_relevant target) records in
     if \<not> distinct (map mount_id records) then Inl [''mount topology has duplicate record identifiers'']
     else if \<not> distinct (map mount_point relevant) then Inl [''has an ambiguous stacked mount topology'']
     else if list_ex (\<lambda>m. is_parent target (mount_point m)) relevant
     then Inl [''contains an undeclared descendant mount'']
     else
       case filter (\<lambda>m. contains_path (mount_point m) target) relevant of
         [] \<Rightarrow> Inl [''containing mount is unavailable'']
       | m # ms \<Rightarrow>
           let selected = deepest m ms in
           if filesystem_type selected \<notin> set ALLOWED_ARCHIVE_FILESYSTEM_TYPES
           then Inl [''uses an unsupported non-local or non-durable filesystem'']
           else
             (case relative_parts target (mount_point selected) of
                None \<Rightarrow> Inl [''containing mount relationship is invalid'']
              | Some relative \<Rightarrow>
                  if list_ex (aliases selected (below (mount_root selected) relative)) records
                  then Inl [''has an external mount alias'']
                  else Inr selected))"

text \<open>The helper that only looks at mount points.\<close>

definition point_record :: "nat \<Rightarrow> posix_path \<Rightarrow> mount_record" where
  "point_record index point =
    \<lparr>mount_id = index, parent_id = 0, major_minor = show_nat index @ '':0'', mount_root = pure_path ''/'',
     mount_point = point, filesystem_type = ''ext4''\<rparr>"

definition path_string :: "posix_path \<Rightarrow> string" where
  "path_string p = (if fst p @ join ''/'' (snd p) = [] then ''.'' else fst p @ join ''/'' (snd p))"

definition mount_target_from_points :: "string \<Rightarrow> posix_path list \<Rightarrow> string list + string" where
  "mount_target_from_points v points =
    map_sum id (path_string \<circ> mount_point)
      (mount_record_from_records v (map (\<lambda>(index, p). point_record index p) (enumerate 1 points)))"

text \<open>The two namespaces are the identities of \<open>/proc/self/ns/mnt\<close> and \<open>/proc/1/ns/mnt\<close>.\<close>

definition host_mount_namespace_matches :: "os_stat option \<Rightarrow> os_stat option \<Rightarrow> bool" where
  "host_mount_namespace_matches current host =
    (case (current, host) of (Some a, Some b) \<Rightarrow> (device a, inode a) = (device b, inode b) | _ \<Rightarrow> False)"

record mount_view =
  own_namespace :: "os_stat option"
  host_namespace :: "os_stat option"
  mountinfo :: "string option"

definition archive_mount_record :: "mount_view \<Rightarrow> string \<Rightarrow> string list + mount_record" where
  "archive_mount_record view v =
    (if \<not> host_mount_namespace_matches (own_namespace view) (host_namespace view)
     then Inl [''must be inspected from the host mount namespace'']
     else
       case read_mountinfo (mountinfo view) of
         None \<Rightarrow> Inl [''mount topology is unavailable'']
       | Some records \<Rightarrow> mount_record_from_records v records)"

section \<open>One way to the archive\<close>

lemma deepest_member: "deepest best ms \<in> set (best # ms)"
  by (induction best ms rule: deepest.induct) auto

lemma deepest_max: "m \<in> set (best # ms) \<Longrightarrow> length (snd (mount_point m)) \<le> length (snd (mount_point (deepest best ms)))"
proof (induction best ms arbitrary: m rule: deepest.induct)
  case (1 best)
  then show ?case by simp
next
  case (2 best x ms)
  let ?b = "if length (snd (mount_point best)) < length (snd (mount_point x)) then x else best"
  have keep: "length (snd (mount_point y)) \<le> length (snd (mount_point (deepest ?b ms)))" if "y \<in> {best, x}" for y
    using "2.IH" [of ?b] that by (auto split: if_splits)
  show ?case using "2.prems" keep "2.IH" [of m] by auto
qed

text \<open>What a name below a mount point means: a device and a place on it.\<close>

definition place :: "mount_record \<Rightarrow> posix_path \<Rightarrow> (string \<times> posix_path) option" where
  "place m path =
    (case relative_parts path (mount_point m) of
       None \<Rightarrow> None
     | Some relative \<Rightarrow> Some (major_minor m, below (mount_root m) relative))"

definition inside :: "string \<times> posix_path \<Rightarrow> string \<times> posix_path \<Rightarrow> bool" where
  "inside inner outer = (fst inner = fst outer \<and> contains_path (snd outer) (snd inner))"

lemma selected_facts:
  assumes "mount_record_from_records v records = Inr m"
  shows "m \<in> set records" and "distinct (map mount_id records)" and "contains_path (mount_point m) (pure_path v)"
    and "filesystem_type m \<in> set ALLOWED_ARCHIVE_FILESYSTEM_TYPES"
    and "\<And>x. x \<in> set records \<Longrightarrow> \<not> is_parent (pure_path v) (mount_point x)"
    and "\<And>x. x \<in> set records \<Longrightarrow> contains_path (mount_point x) (pure_path v) \<Longrightarrow> contains_path (mount_point x) (mount_point m)"
    and "\<And>x. x \<in> set records \<Longrightarrow>
      \<not> aliases m (below (mount_root m) (drop (length (snd (mount_point m))) (snd (pure_path v)))) x"
proof -
  let ?t = "pure_path v"
  let ?relevant = "filter (mount_relevant ?t) records"
  let ?on = "filter (\<lambda>m. contains_path (mount_point m) ?t) ?relevant"
  from assms obtain a ms where d: "distinct (map mount_id records)"
    and no_below: "\<not> list_ex (\<lambda>m. is_parent ?t (mount_point m)) ?relevant"
    and on: "?on = a # ms" and m: "m = deepest a ms"
    and fs: "filesystem_type m \<in> set ALLOWED_ARCHIVE_FILESYSTEM_TYPES"
    and rest: "\<exists>relative. relative_parts ?t (mount_point m) = Some relative
      \<and> \<not> list_ex (aliases m (below (mount_root m) relative)) records"
    by (auto simp: mount_record_from_records_def Let_def split: if_splits list.splits option.splits)
  have "m \<in> set ?on" using deepest_member [of a ms] on m by simp
  then show "m \<in> set records" and over: "contains_path (mount_point m) ?t" by auto
  show "distinct (map mount_id records)" by (rule d)
  show "filesystem_type m \<in> set ALLOWED_ARCHIVE_FILESYSTEM_TYPES" by (rule fs)
  show "\<not> is_parent ?t (mount_point x)" if "x \<in> set records" for x
    using no_below that by (auto simp: list_ex_iff mount_relevant_def)
  show "contains_path (mount_point x) (mount_point m)" if x: "x \<in> set records" "contains_path (mount_point x) ?t" for x
  proof -
    from x have "x \<in> set ?on" by (simp add: mount_relevant_def)
    then have "x \<in> set (a # ms)" unfolding on .
    then have "length (snd (mount_point x)) \<le> length (snd (mount_point m))" unfolding m by (rule deepest_max)
    with x(2) over show ?thesis by (auto simp: contains_path_iff intro: prefix_length_prefix)
  qed
  show "\<not> aliases m (below (mount_root m) (drop (length (snd (mount_point m))) (snd ?t))) x" if "x \<in> set records" for x
    using rest that over by (auto simp: relative_parts_def list_ex_iff split: if_splits)
qed


end
