(* ===== verification/ArchiveBinding.thy ===== *)
theory ArchiveBinding
  imports MountTopology PyValue "HOL-Library.Product_Lexorder"
begin

text \<open>
  scripts/validate_protected_host_contract.py, the binding of an archive: the digest of its root's
  metadata, of the filesystem that holds it and of its immediate entries, taken while nothing changes.
  An observation is none when the operating system reports an error.  Letters beyond ASCII in filesystem
  types and identifiers are not lowered.
\<close>

section \<open>The filesystem\<close>

definition safe_findmnt_string :: "bool \<Rightarrow> json \<Rightarrow> string option option" where
  "safe_findmnt_string optional v =
    (if optional \<and> (v = JNull \<or> v = JStr ''-'') then Some None
     else
       case v of
         JStr s \<Rightarrow>
           if s = [] \<or> s = ''-'' \<or> list_ex (\<lambda>c. byte c < 32 \<or> byte c = 127) s then None else Some (Some s)
       | _ \<Rightarrow> None)"

definition required_string :: "dict \<Rightarrow> string \<Rightarrow> string option" where
  "required_string d key = (case safe_findmnt_string False (get d key) of Some (Some s) \<Rightarrow> Some s | _ \<Rightarrow> None)"

definition FINDMNT_FIELDS :: "string list" where
  "FINDMNT_FIELDS = [''target'', ''source'', ''fstype'', ''options'', ''uuid'', ''partuuid'', ''maj:min'']"

text \<open>The one record of the printed document; duplicate keys are refused.\<close>

definition findmnt_record :: "float_text \<Rightarrow> string \<Rightarrow> dict option" where
  "findmnt_record fl stdout =
    (case bind (decode_utf8 stdout) (loads fl (unique_pairs (ValueError ''duplicate JSON key''))) of
       Inr (JObj document) \<Rightarrow>
         if \<not> keys_are document [''filesystems''] then None
         else (case get document ''filesystems'' of
                 JArr [JObj d] \<Rightarrow> if keys_are d FINDMNT_FIELDS then Some d else None
               | _ \<Rightarrow> None)
     | _ \<Rightarrow> None)"

text \<open>\<open>\[([^\[\]\x00-\x1f]+)\]\Z\<close>, searched in the source.\<close>

definition subpath_char :: "char \<Rightarrow> bool" where
  "subpath_char c = (c \<noteq> CHR ''['' \<and> c \<noteq> CHR '']'' \<and> 32 \<le> byte c)"

definition source_subpath :: "string \<Rightarrow> string option" where
  "source_subpath s =
    (case rev s of
       [] \<Rightarrow> None
     | c # t \<Rightarrow>
         if c = CHR '']'' \<and> takeWhile subpath_char t \<noteq> []
            \<and> (case dropWhile subpath_char t of d # _ \<Rightarrow> d = CHR ''['' | [] \<Rightarrow> False)
         then Some (rev (takeWhile subpath_char t)) else None)"

definition identifiers_of :: "string option \<Rightarrow> string option \<Rightarrow> dict" where
  "identifiers_of filesystem_uuid partition_uuid =
    (case filesystem_uuid of Some u \<Rightarrow> [(''uuid'', JStr (lower_text u))] | None \<Rightarrow> [])
    @ (case partition_uuid of Some u \<Rightarrow> [(''partuuid'', JStr (lower_text u))] | None \<Rightarrow> [])"

definition findmnt_payload :: "string \<Rightarrow> string list \<Rightarrow> string \<Rightarrow> string \<Rightarrow> dict \<Rightarrow> json" where
  "findmnt_payload fs option_list target source ids =
    JObj ([(''filesystem_type'', JStr fs), (''options'', JArr (map JStr (sort option_list))), (''target'', JStr target)]
      @ (if ids \<noteq> [] then [(''stable_ids'', JObj ids)] else [(''source_fallback'', JStr source)])
      @ (case source_subpath source of Some p \<Rightarrow> [(''source_subpath'', JStr p)] | None \<Rightarrow> []))"

definition findmnt_identity :: "float_text \<Rightarrow> string option \<Rightarrow> string \<Rightarrow> string \<Rightarrow> string \<Rightarrow> json option" where
  "findmnt_identity fl stdout expected_target expected_type expected_device =
    (case Option.bind stdout (findmnt_record fl) of
       None \<Rightarrow> None
     | Some d \<Rightarrow>
         (case (required_string d ''target'', required_string d ''source'', required_string d ''fstype'',
                required_string d ''options'', safe_findmnt_string True (get d ''uuid''),
                safe_findmnt_string True (get d ''partuuid''), required_string d ''maj:min'') of
            (Some target, Some source, Some fstype, Some options, Some filesystem_uuid, Some partition_uuid, Some numbers) \<Rightarrow>
              let fs = lower_text fstype; option_list = split_on (CHR '','') options in
              if target \<noteq> expected_target \<or> \<not> startswith target ''/'' \<or> normpath target \<noteq> target then None
              else if fs \<notin> set ALLOWED_ARCHIVE_FILESYSTEM_TYPES \<or> fs \<noteq> lower_text expected_type then None
              else if \<not> device_numbers numbers \<or> numbers \<noteq> expected_device then None
              else if [] \<in> set option_list then None
              else Some (findmnt_payload fs option_list target source (identifiers_of filesystem_uuid partition_uuid))
          | _ \<Rightarrow> None))"

section \<open>Directories\<close>

text \<open>\<open>os.major\<close> and \<open>os.minor\<close> of a Linux device number.\<close>

definition archive_device_identity :: "os_stat \<Rightarrow> string" where
  "archive_device_identity st =
    (let d = device st;
         major = d div 2 ^ 8 mod 2 ^ 12 + d div 2 ^ 44 mod 2 ^ 20 * 2 ^ 12;
         minor = d mod 2 ^ 8 + d div 2 ^ 20 mod 2 ^ 24 * 2 ^ 8
     in show_int major @ '':'' @ show_int minor)"

text \<open>\<open>enter\<close> opens one more component and reads its metadata through the descriptor.\<close>

definition open_archive_directory :: "(string list \<Rightarrow> os_stat option) \<Rightarrow> string \<Rightarrow> bool" where
  "open_archive_directory enter v =
    (startswith v ''/'' \<and> v \<noteq> ''/'' \<and> normpath v = v \<and> \<not> dotted_parts v
     \<and> list_all (\<lambda>component. case enter component of Some st \<Rightarrow> is_directory st | None \<Rightarrow> False) (tl (prefixes (path_parts v))))"

section \<open>Entries\<close>

definition MAX_ARCHIVE_TOP_LEVEL_ENTRIES :: nat where "MAX_ARCHIVE_TOP_LEVEL_ENTRIES = 256"
definition MAX_ARCHIVE_TOP_LEVEL_MANIFEST_BYTES :: nat where "MAX_ARCHIVE_TOP_LEVEL_MANIFEST_BYTES = 2 * 1024 * 1024"

record retained =
  root_before :: "os_stat option"
  listing :: "string list option"
  first_look :: "string \<Rightarrow> os_stat option"
  second_look :: "string \<Rightarrow> os_stat option"
  root_after :: "os_stat option"

definition entry_name :: "string \<Rightarrow> bool" where
  "entry_name name = (name \<notin> {[], ''.'', ''..''} \<and> CHR ''/'' \<notin> set name \<and> CHR 0x00 \<notin> set name)"

definition entry_payload :: "string \<Rightarrow> os_stat \<Rightarrow> json" where
  "entry_payload name st =
    JObj [(''name_sha256'', JStr (sha256_hex name)), (''type'', JInt (file_kind st * 4096)), (''inode'', JInt (inode st)),
      (''mode'', JInt (permissions st)), (''uid'', JInt (owner_uid st)), (''gid'', JInt (owner_gid st)), (''nlink'', JInt (links st)),
      (''size'', JInt (byte_size st)), (''mtime_ns'', JInt (modified_ns st)), (''ctime_ns'', JInt (changed_ns st))]"

type_synonym entry_record = "string \<times> int list \<times> string"

definition entry_record_of :: "float_text \<Rightarrow> (string \<Rightarrow> os_stat option) \<Rightarrow> string \<Rightarrow> entry_record option" where
  "entry_record_of fl look name =
    (case look name of
       None \<Rightarrow> None
     | Some st \<Rightarrow>
         if is_symlink st then None
         else Some (sha256_hex name, stable_stat_state st, dumps_ascii fl (entry_payload name st)))"

definition manifest_size :: "entry_record list \<Rightarrow> nat" where
  "manifest_size records = sum_list (map (\<lambda>(_, _, serialized). length serialized + 4) records)"

definition manifest_digest :: "entry_record list \<Rightarrow> string" where
  "manifest_digest records =
    sha256_hex (''protected-legacy-top-level-v1'' @ [CHR 0x00]
      @ concat (map (\<lambda>(_, _, serialized). be_bytes 4 (length serialized) @ serialized) (sort records)))"

definition all_some :: "'a option list \<Rightarrow> 'a list option" where
  "all_some xs = (if list_all (\<lambda>x. x \<noteq> None) xs then Some (map the xs) else None)"

definition unchanged :: "os_stat option \<Rightarrow> os_stat option \<Rightarrow> bool" where
  "unchanged x y =
    (case (x, y) of (Some a, Some b) \<Rightarrow> stable_stat_state a = stable_stat_state b | _ \<Rightarrow> False)"

definition archive_top_level_fingerprint :: "float_text \<Rightarrow> retained \<Rightarrow> json option" where
  "archive_top_level_fingerprint fl r =
    (case (root_before r, listing r) of
       (Some before_root, Some names) \<Rightarrow>
         if \<not> is_directory before_root \<or> MAX_ARCHIVE_TOP_LEVEL_ENTRIES < length names \<or> \<not> list_all entry_name names \<or> names = []
         then None
         else
           (case all_some (map (entry_record_of fl (first_look r)) names) of
              None \<Rightarrow> None
            | Some records \<Rightarrow>
                if MAX_ARCHIVE_TOP_LEVEL_MANIFEST_BYTES < manifest_size records then None
                else if \<not> list_all (\<lambda>name. unchanged (first_look r name) (second_look r name)) names then None
                else if \<not> unchanged (root_before r) (root_after r) then None
                else Some (JObj [(''schema'', JStr ''protected-legacy-top-level-v1''),
                  (''entry_count'', JInt (int (length records))), (''metadata_sha256'', JStr (manifest_digest records))]))
     | _ \<Rightarrow> None)"

section \<open>The binding\<close>

definition archive_binding_payload :: "os_stat \<Rightarrow> json \<Rightarrow> json \<Rightarrow> json" where
  "archive_binding_payload st mount_identity top_level =
    JObj [(''schema'', JStr ''protected-legacy-archive-binding-v3''),
      (''root'', JObj [(''inode'', JInt (inode st)), (''uid'', JInt (owner_uid st)), (''gid'', JInt (owner_gid st)),
         (''mode'', JInt (permissions st)), (''nlink'', JInt (links st)), (''mtime_ns'', JInt (modified_ns st)),
         (''ctime_ns'', JInt (changed_ns st))]),
      (''mount'', mount_identity), (''top_level'', top_level)]"

definition archive_binding_digest :: "float_text \<Rightarrow> os_stat \<Rightarrow> json \<Rightarrow> json \<Rightarrow> string" where
  "archive_binding_digest fl st mount_identity top_level =
    sha256_hex (dumps_ascii fl (archive_binding_payload st mount_identity top_level))"

text \<open>What is observed, in order: opening, metadata, mounts, filesystem, entries, and all but the entries again.\<close>

record archive_view =
  enter_first :: "string list \<Rightarrow> os_stat option"
  stat_first :: "os_stat option"
  entry_first :: "os_stat option"
  mounts_first :: mount_view
  findmnt_first :: "string option"
  retained_entries :: retained
  mounts_last :: mount_view
  stat_last :: "os_stat option"
  entry_last :: "os_stat option"
  findmnt_last :: "string option"
  enter_again :: "string list \<Rightarrow> os_stat option"
  stat_again :: "os_stat option"
  entry_again :: "os_stat option"

definition filesystem_of :: "float_text \<Rightarrow> string option \<Rightarrow> mount_record \<Rightarrow> os_stat \<Rightarrow> json option" where
  "filesystem_of fl stdout m st =
    findmnt_identity fl stdout (path_string (mount_point m)) (filesystem_type m) (archive_device_identity st)"

definition still_bound :: "float_text \<Rightarrow> archive_view \<Rightarrow> string \<Rightarrow> os_stat \<Rightarrow> mount_record \<Rightarrow> json \<Rightarrow> bool" where
  "still_bound fl view v st m mount_identity =
    (archive_mount_record (mounts_last view) v = Inr m
     \<and> (case (stat_last view, entry_last view) of
          (Some later, Some entry_later) \<Rightarrow>
            stable_stat_state st = stable_stat_state later \<and> stable_stat_state st = stable_stat_state entry_later
            \<and> archive_device_identity later = major_minor m
            \<and> filesystem_of fl (findmnt_last view) m later = Some mount_identity
        | _ \<Rightarrow> False)
     \<and> open_archive_directory (enter_again view) v
     \<and> unchanged (Some st) (stat_again view) \<and> unchanged (Some st) (entry_again view))"

definition archive_binding_fingerprint :: "float_text \<Rightarrow> archive_view \<Rightarrow> string \<Rightarrow> string option" where
  "archive_binding_fingerprint fl view v =
    (if \<not> open_archive_directory (enter_first view) v then None
     else
       case (stat_first view, entry_first view) of
         (Some st, Some entry_st) \<Rightarrow>
           if \<not> is_directory st \<or> is_symlink entry_st \<or> stable_stat_state st \<noteq> stable_stat_state entry_st then None
           else
             (case archive_mount_record (mounts_first view) v of
                Inl _ \<Rightarrow> None
              | Inr m \<Rightarrow>
                  if archive_device_identity st \<noteq> major_minor m then None
                  else
                    (case (filesystem_of fl (findmnt_first view) m st, archive_top_level_fingerprint fl (retained_entries view)) of
                       (Some mount_identity, Some top_level) \<Rightarrow>
                         if still_bound fl view v st m mount_identity
                         then Some (archive_binding_digest fl (the (stat_last view)) mount_identity top_level) else None
                     | _ \<Rightarrow> None))
       | _ \<Rightarrow> None)"

section \<open>The root\<close>

record root_view =
  root_lstat :: "os_stat option"
  root_resolved :: "string option"
  repository_root :: string
  root_mounts :: mount_view

definition archive_root_issues :: "root_view \<Rightarrow> string \<Rightarrow> string list" where
  "archive_root_issues view v =
    (case root_lstat view of
       None \<Rightarrow> [''is unavailable'']
     | Some st \<Rightarrow>
         if is_symlink st then [''must not be a symbolic link'']
         else if \<not> is_directory st then [''must be a directory'']
         else
           (case root_resolved view of
              None \<Rightarrow> [''cannot be resolved canonically'']
            | Some resolved \<Rightarrow>
                (if resolved \<noteq> v then [''must not traverse a symbolic-link or noncanonical component''] else [])
                @ (if permissions st mod 64 \<noteq> 0 then [''must not grant group or world access''] else [])
                @ (if paths_overlap (pure_path resolved) (pure_path (repository_root view))
                   then [''must be isolated from the public repository''] else [])
                @ (case archive_mount_record (root_mounts view) v of
                     Inl problems \<Rightarrow> problems
                   | Inr m \<Rightarrow> if archive_device_identity st \<noteq> major_minor m
                             then [''does not match its containing mount device''] else [])))"

section \<open>What a binding binds\<close>

lemma stable_stat_state_inj [simp]: "stable_stat_state st = stable_stat_state st' \<longleftrightarrow> st = st'"
  by (auto simp: stable_stat_state_def)

lemma unchanged_iff: "unchanged x y \<longleftrightarrow> (\<exists>st. x = Some st \<and> y = Some st)"
  by (auto simp: unchanged_def split: option.splits)

lemma all_some_iff: "all_some xs = Some ys \<longleftrightarrow> xs = map Some ys"
  by (auto simp: all_some_def list_all_iff intro!: nth_equalityI)

text \<open>The entries, one by one the same at both looks, none of them a link.\<close>

definition entries_held :: "float_text \<Rightarrow> retained \<Rightarrow> json \<Rightarrow> bool" where
  "entries_held fl r top_level =
    (\<exists>st names found. root_before r = Some st \<and> root_after r = Some st \<and> listing r = Some names \<and> names \<noteq> []
      \<and> length names \<le> MAX_ARCHIVE_TOP_LEVEL_ENTRIES \<and> list_all entry_name names
      \<and> map (first_look r) names = map Some found \<and> map (second_look r) names = map Some found
      \<and> filter is_symlink found = []
      \<and> top_level = JObj [(''schema'', JStr ''protected-legacy-top-level-v1''), (''entry_count'', JInt (int (length names))),
          (''metadata_sha256'', JStr (manifest_digest
            (map (\<lambda>(name, st). (sha256_hex name, stable_stat_state st, dumps_ascii fl (entry_payload name st))) (zip names found))))])"

lemma fingerprint_held:
  assumes "archive_top_level_fingerprint fl r = Some top_level"
  shows "entries_held fl r top_level"
proof -
  from assms obtain st names records where base: "root_before r = Some st" "listing r = Some names" "names \<noteq> []"
      "length names \<le> MAX_ARCHIVE_TOP_LEVEL_ENTRIES" "list_all entry_name names" "root_after r = Some st"
    and records: "map (entry_record_of fl (first_look r)) names = map Some records"
    and same: "list_all (\<lambda>name. unchanged (first_look r name) (second_look r name)) names"
    and top: "top_level = JObj [(''schema'', JStr ''protected-legacy-top-level-v1''), (''entry_count'', JInt (int (length records))),
      (''metadata_sha256'', JStr (manifest_digest records))]"
    by (auto simp: archive_top_level_fingerprint_def all_some_iff unchanged_iff split: option.splits if_splits)
  define found where "found = map (\<lambda>name. the (first_look r name)) names"
  have looks: "map (first_look r) names = map Some found" "map (second_look r) names = map Some found"
    using same by (auto simp: found_def list_all_iff unchanged_iff)
  have len: "length records = length names" using records by (metis length_map)
  have each: "entry_record_of fl (first_look r) (names ! i) = Some (records ! i)" if "i < length names" for i
    using arg_cong [OF records, of "\<lambda>xs. xs ! i"] that len by simp
  have look: "first_look r (names ! i) = Some (found ! i)" if "i < length names" for i
    using arg_cong [OF looks(1), of "\<lambda>xs. xs ! i"] that by (simp add: found_def)
  have parts: "\<not> is_symlink (found ! i) \<and> records ! i = (sha256_hex (names ! i), stable_stat_state (found ! i),
      dumps_ascii fl (entry_payload (names ! i) (found ! i)))" if "i < length names" for i
    using each [OF that] look [OF that] by (simp add: entry_record_of_def split: if_splits)
  have flen: "length found = length names" by (simp add: found_def)
  have "filter is_symlink found = []" using parts flen by (auto simp: filter_empty_conv in_set_conv_nth)
  moreover have "records = map (\<lambda>(name, st). (sha256_hex name, stable_stat_state st, dumps_ascii fl (entry_payload name st))) (zip names found)"
    using parts len flen by (intro nth_equalityI) auto
  ultimately show ?thesis using base looks len top by (auto simp: entries_held_def)
qed

text \<open>
  C34: a binding describes one state.  Where a digest is given, the directory was the same at all six observations, on the one mount that
  shows it, both times with the same filesystem identity, its entries were the same at both looks, and the digest is that
  of exactly this state.
\<close>

theorem binding_of_one_state:
  "case archive_binding_fingerprint fl view v of
     None \<Rightarrow> True
   | Some digest \<Rightarrow>
       (\<exists>st m mount_identity top_level.
          stat_first view = Some st \<and> entry_first view = Some st \<and> stat_last view = Some st \<and> entry_last view = Some st
          \<and> stat_again view = Some st \<and> entry_again view = Some st \<and> is_directory st
          \<and> open_archive_directory (enter_first view) v \<and> open_archive_directory (enter_again view) v
          \<and> archive_mount_record (mounts_first view) v = Inr m \<and> archive_mount_record (mounts_last view) v = Inr m
          \<and> archive_device_identity st = major_minor m
          \<and> filesystem_of fl (findmnt_first view) m st = Some mount_identity
          \<and> filesystem_of fl (findmnt_last view) m st = Some mount_identity
          \<and> entries_held fl (retained_entries view) top_level
          \<and> digest = archive_binding_digest fl st mount_identity top_level)"
proof (cases "archive_binding_fingerprint fl view v")
  case None
  then show ?thesis by simp
next
  case (Some digest)
  then obtain st m mount_identity top_level where base: "open_archive_directory (enter_first view) v" "stat_first view = Some st"
      "entry_first view = Some st" "is_directory st" "archive_mount_record (mounts_first view) v = Inr m"
      "archive_device_identity st = major_minor m" "filesystem_of fl (findmnt_first view) m st = Some mount_identity"
    and top: "archive_top_level_fingerprint fl (retained_entries view) = Some top_level"
    and still: "still_bound fl view v st m mount_identity"
    and digest: "digest = archive_binding_digest fl (the (stat_last view)) mount_identity top_level"
    by (auto simp: archive_binding_fingerprint_def split: option.splits sum.splits if_splits)
  from still have "archive_mount_record (mounts_last view) v = Inr m" "stat_last view = Some st" "entry_last view = Some st"
    "filesystem_of fl (findmnt_last view) m st = Some mount_identity" "open_archive_directory (enter_again view) v"
    "stat_again view = Some st" "entry_again view = Some st"
    by (auto simp: still_bound_def unchanged_iff split: option.splits)
  with Some base fingerprint_held [OF top] digest show ?thesis by auto
qed

end
