(* ===== verification/BoundedCommand.thy ===== *)
theory BoundedCommand
  imports PyText Complex_Main
begin

text \<open>
  scripts/validate_protected_host_contract.py, capturing a helper command under a byte cap and a deadline.  The
  helper runs in a process group of its own; what the operating system answers is a record, and the
  signals and waits are the list of actions.  Times are rational numbers.
\<close>

section \<open>A child process\<close>

datatype wait_outcome = Exited int | TimedOut | WaitFailed
datatype signal_outcome = Delivered | NoSuchProcess | SignalFailed

record helper_child =
  child_pid :: int
  child_group :: "int option"
  caller_group :: "int option"
  caller_group_later :: "int option"
  has_stdout :: bool
  clock :: "nat \<Rightarrow> rat"
  ready :: "nat \<Rightarrow> bool option"
  offered_output :: "nat \<Rightarrow> string option"
  waited :: wait_outcome
  group_signal :: signal_outcome
  still_running :: bool
  cleanup_wait :: wait_outcome

datatype action = Reaped | SignalGroup int | KillChild | WaitChild

definition isolated_process_group_id :: "helper_child \<Rightarrow> int option" where
  "isolated_process_group_id c =
    (case (child_group c, caller_group c) of
       (Some g, Some own) \<Rightarrow> if g \<le> 1 \<or> g \<noteq> child_pid c \<or> g = own then None else Some g
     | _ \<Rightarrow> None)"

text \<open>Kill the group if it may be signalled, otherwise the child, then wait for the child.\<close>

definition terminate_process_group :: "helper_child \<Rightarrow> int option \<Rightarrow> action list" where
  "terminate_process_group c group_id =
    (let may_signal = (case group_id of None \<Rightarrow> False | Some g \<Rightarrow> 1 < g \<and> caller_group_later c \<noteq> Some g);
         signaled = (may_signal \<and> group_signal c \<in> {Delivered, NoSuchProcess}) in
     (case group_id of Some g \<Rightarrow> if may_signal then [SignalGroup g] else [] | None \<Rightarrow> [])
     @ (if \<not> signaled \<and> still_running c then [KillChild] else [])
     @ [WaitChild]
     @ (case cleanup_wait c of Exited _ \<Rightarrow> [] | _ \<Rightarrow> [KillChild, WaitChild]))"

text \<open>The loop; \<open>clock k\<close> is the reading at the start of its k-th round and one later after its end.\<close>

function capture_from :: "helper_child \<Rightarrow> nat \<Rightarrow> rat \<Rightarrow> nat \<Rightarrow> string \<Rightarrow> (string \<times> nat) option" where
  "capture_from c max_bytes deadline k captured =
    (if deadline - clock c k \<le> 0 then None
     else if ready c k \<noteq> Some True then None
     else
       case offered_output c k of
         None \<Rightarrow> None
       | Some bytes \<Rightarrow>
           let chunk = take (min 65536 (max_bytes + 1 - length captured)) bytes in
           if chunk = [] then Some (captured, k + 1)
           else if max_bytes < length (captured @ chunk) then None
           else capture_from c max_bytes deadline (k + 1) (captured @ chunk))"
  by pat_completeness auto
termination
  by (relation "measure (\<lambda>(c, max_bytes, deadline, k, captured). max_bytes + 1 - length captured)") (auto simp: Let_def neq_Nil_conv min_def split: if_splits)

declare capture_from.simps [simp del]

definition settle_child :: "helper_child \<Rightarrow> string \<Rightarrow> string option \<times> bool \<times> action list" where
  "settle_child c captured =
    (case waited c of
       TimedOut \<Rightarrow> (None, True, [])
     | WaitFailed \<Rightarrow> (None, False, [])
     | Exited code \<Rightarrow> (if code \<noteq> 0 then None else Some captured, False, [Reaped]))"

definition capture_child :: "helper_child \<Rightarrow> nat \<Rightarrow> rat \<Rightarrow> string option \<times> bool \<times> action list" where
  "capture_child c max_bytes timeout =
    (let deadline = clock c 0 + timeout in
     case capture_from c max_bytes deadline 1 [] of
       None \<Rightarrow> (None, True, [])
     | Some (captured, k) \<Rightarrow> if deadline - clock c k \<le> 0 then (None, True, []) else settle_child c captured)"

text \<open>The process is none when it cannot be started.\<close>

definition bounded_command_stdout :: "helper_child option \<Rightarrow> int \<Rightarrow> rat \<Rightarrow> string option \<times> action list" where
  "bounded_command_stdout started max_bytes timeout =
    (if max_bytes < 0 \<or> timeout \<le> 0 then (None, [])
     else
       case started of
         None \<Rightarrow> (None, [])
       | Some c \<Rightarrow>
           let group_id = isolated_process_group_id c in
           if \<not> has_stdout c then (None, terminate_process_group c group_id)
           else
             let (captured, safe, actions) = capture_child c (nat max_bytes) timeout in
             (captured, actions @ terminate_process_group c (if safe then group_id else None)))"

section \<open>What is signalled\<close>

lemma captured_bound: "capture_from c m d k captured = Some (bytes, j) \<Longrightarrow> length captured \<le> m \<Longrightarrow> length bytes \<le> m"
proof (induction c m d k captured rule: capture_from.induct)
  case (1 c m d k captured)
  show ?case
  proof (cases "\<exists>chunk. offered_output c k = Some chunk \<and> take (min 65536 (m + 1 - length captured)) chunk \<noteq> []")
    case False
    with "1.prems" show ?thesis
      by (subst (asm) capture_from.simps) (auto simp: Let_def split: if_splits option.splits)
  next
    case True
    then obtain chunk where chunk: "offered_output c k = Some chunk" "take (min 65536 (m + 1 - length captured)) chunk \<noteq> []" by blast
    let ?next = "captured @ take (min 65536 (m + 1 - length captured)) chunk"
    from "1.prems"(1) chunk have go: "\<not> d - clock c k \<le> 0" "ready c k = Some True" "\<not> m < length ?next"
      and rest: "capture_from c m d (k + 1) ?next = Some (bytes, j)"
      by (subst (asm) capture_from.simps, auto simp: Let_def split: if_splits)+
    show ?thesis using "1.IH" [OF go(1) _ chunk(1) refl chunk(2) go(3) rest] go(2,3) by simp
  qed
qed

definition own_group :: "helper_child \<Rightarrow> action \<Rightarrow> bool" where
  "own_group c a =
    (case a of SignalGroup g \<Rightarrow> g = child_pid c \<and> 1 < g \<and> caller_group c \<noteq> Some g \<and> caller_group_later c \<noteq> Some g | _ \<Rightarrow> True)"

definition is_signal :: "action \<Rightarrow> bool" where
  "is_signal a = (case a of SignalGroup _ \<Rightarrow> True | _ \<Rightarrow> False)"

lemma terminate_actions:
  "list_all (own_group c) (terminate_process_group c (isolated_process_group_id c))"
  "list_all (own_group c) (terminate_process_group c None)"
  "WaitChild \<in> set (terminate_process_group c g)" "Reaped \<notin> set (terminate_process_group c g)"
  "filter is_signal (terminate_process_group c None) = []"
  by (auto simp: terminate_process_group_def Let_def own_group_def is_signal_def isolated_process_group_id_def split: option.splits if_splits wait_outcome.splits)


end
