(* ===== verification/HostLive.thy ===== *)
theory HostLive
  imports HostContract ArchiveBinding BoundedCommand
begin

text \<open>
  scripts/validate_protected_host_contract.py, the live checks and the command line: the state of the named
  units, the archives, and the attestation that the evidence script validates.
\<close>

section \<open>Units\<close>

record unit_state =
  load_state :: "string option"
  active_state :: "string option"
  unit_file_state :: "string option"
  control_group :: "string option"

definition unknown_unit :: unit_state where
  "unknown_unit = \<lparr>load_state = None, active_state = None, unit_file_state = None, control_group = None\<rparr>"

definition UNIT_PROPERTIES :: "string list" where
  "UNIT_PROPERTIES = [''LoadState'', ''ActiveState'', ''UnitFileState'', ''ControlGroup'']"

fun unit_properties :: "string list \<Rightarrow> (string \<times> string) list \<Rightarrow> (string \<times> string) list option" where
  "unit_properties [] found = Some found"
| "unit_properties (line # lines) found =
    (case split_first (CHR ''='') line of
       None \<Rightarrow> None
     | Some (key, v) \<Rightarrow>
         if key \<notin> set UNIT_PROPERTIES \<or> key \<in> set (map fst found) then None
         else unit_properties lines (found @ [(key, v)]))"

text \<open>What \<open>systemctl show\<close> answered: its exit code and output, none when it cannot be run in time.\<close>

definition systemd_unit_state :: "(int \<times> string) option \<Rightarrow> unit_state" where
  "systemd_unit_state answer =
    (case answer of
       None \<Rightarrow> unknown_unit
     | Some (code, stdout) \<Rightarrow>
         if \<not> utf8_valid stdout \<or> code \<noteq> 0 then unknown_unit
         else
           (case unit_properties (splitlines (universal_newlines stdout)) [] of
              None \<Rightarrow> unknown_unit
            | Some found \<Rightarrow>
                if set (map fst found) \<noteq> set UNIT_PROPERTIES then unknown_unit
                else \<lparr>load_state = map_of found ''LoadState'', active_state = map_of found ''ActiveState'',
                       unit_file_state = map_of found ''UnitFileState'', control_group = map_of found ''ControlGroup''\<rparr>))"

definition state_known :: "unit_state \<Rightarrow> bool" where
  "state_known u = (None \<notin> {load_state u, active_state u, unit_file_state u, control_group u})"

definition active_unit_errors :: "nat \<Rightarrow> unit_state \<Rightarrow> string list" where
  "active_unit_errors index u =
    (if \<not> state_known u then [at_index ''active unit'' index '' state is unavailable'']
     else if load_state u \<noteq> Some ''loaded'' then [at_index ''active unit'' index '' is not loaded'']
     else if active_state u \<noteq> Some ''active'' then [at_index ''active unit'' index '' is not exactly active'']
     else [])"

definition legacy_unit_errors :: "nat \<Rightarrow> unit_state \<Rightarrow> string list" where
  "legacy_unit_errors index u =
    (if \<not> state_known u then [at_index ''legacy unit'' index '' state is unavailable'']
     else
       (if active_state u \<noteq> Some ''inactive'' then [at_index ''legacy unit'' index '' must be exactly inactive''] else [])
       @ (if load_state u \<notin> {Some ''loaded'', Some ''masked''}
          then [at_index ''legacy unit'' index '' load state is not safely classified''] else [])
       @ (if unit_file_state u \<notin> {Some ''disabled'', Some ''masked''}
          then [at_index ''legacy unit'' index '' must be persistently disabled or masked''] else [])
       @ (if control_group u \<noteq> Some [] then [at_index ''legacy unit'' index '' still has a control group''] else []))"

section \<open>The live state\<close>

text \<open>The two probes of an archive; none when the first raises an \<open>OSError\<close>.\<close>

definition archive_state_errors :: "nat \<Rightarrow> string list option \<Rightarrow> string option \<Rightarrow> string \<Rightarrow> string list" where
  "archive_state_errors index problems actual expected =
    map (\<lambda>problem. at_index ''archive root'' index ('' '' @ problem))
      (case problems of None \<Rightarrow> [''state is unavailable''] | Some ps \<Rightarrow> ps)
    @ (case actual of
         None \<Rightarrow> [at_index ''archive root'' index '' binding is unavailable'']
       | Some b \<Rightarrow> if b \<noteq> expected then [at_index ''archive root'' index '' binding changed''] else [])"

definition check_live_state ::
  "(string \<Rightarrow> unit_state) \<Rightarrow> (string \<Rightarrow> string list option) \<Rightarrow> (string \<Rightarrow> string option) \<Rightarrow> host_contract \<Rightarrow> string list" where
  "check_live_state unit_probe archive_probe binding_probe c =
    concat (map (\<lambda>(index, u). active_unit_errors index (unit_probe u)) (enumerate 1 (active_units c)))
    @ concat (map (\<lambda>(index, u). legacy_unit_errors index (unit_probe u)) (enumerate 1 (legacy_units c)))
    @ concat (map (\<lambda>(index, (v, expected)). archive_state_errors index (archive_probe v) (binding_probe v) expected)
        (enumerate 1 (zip (archive_roots c) (archive_bindings c))))"

text \<open>The evidence script, when it can be loaded, with what it observes and the time.\<close>

type_synonym evidence_script = "(surroundings \<times> rat) option"

definition runtime_evidence_issues :: "evidence_script \<Rightarrow> string option \<Rightarrow> bool \<Rightarrow> string list" where
  "runtime_evidence_issues script expected_sha256 expected_present =
    (case expected_sha256 of
       None \<Rightarrow> [''fresh boot-bound runtime evidence binding is unavailable'']
     | Some expected \<Rightarrow>
         if \<not> digest_text expected then [''fresh boot-bound runtime evidence binding is unavailable'']
         else
           (case script of
              None \<Rightarrow> [''fresh boot-bound runtime evidence validator is unavailable'']
            | Some (s, now) \<Rightarrow>
                (case validate_runtime_evidence s (Some expected) (Some expected_present) now of
                   Inl _ \<Rightarrow> [''fresh boot-bound runtime evidence validation is unavailable'']
                 | Inr (Inl _) \<Rightarrow> [''fresh boot-bound runtime evidence is invalid'']
                 | Inr (Inr (ev, digest)) \<Rightarrow>
                     if digest \<noteq> expected then [''fresh boot-bound runtime evidence binding is invalid'']
                     else if archives_present ev \<noteq> expected_present
                     then [''fresh boot-bound runtime evidence presence binding is invalid'']
                     else [])))"

section \<open>The command line\<close>

datatype host_mode = SyntaxOnly | CheckLive | EmitBindings

record host_world =
  contract_source :: evidence_file
  unit_answer :: "string \<Rightarrow> (int \<times> string) option"
  root_views :: "string \<Rightarrow> root_view"
  archive_views :: "string \<Rightarrow> archive_view"
  evidence_script :: evidence_script

definition live_errors :: "float_text \<Rightarrow> host_world \<Rightarrow> host_contract \<Rightarrow> string list" where
  "live_errors fl w c =
    check_live_state (\<lambda>u. systemd_unit_state (unit_answer w u)) (\<lambda>v. Some (archive_root_issues (root_views w v) v))
      (\<lambda>v. archive_binding_fingerprint fl (archive_views w v) v) c
    @ runtime_evidence_issues (evidence_script w) (runtime_evidence_sha256 c) (legacy_archives_present c)"

definition derived_binding :: "float_text \<Rightarrow> host_world \<Rightarrow> string \<Rightarrow> string option" where
  "derived_binding fl w v =
    (if archive_root_issues (root_views w v) v \<noteq> [] then None else archive_binding_fingerprint fl (archive_views w v) v)"

definition emit_errors :: "float_text \<Rightarrow> host_world \<Rightarrow> host_contract \<Rightarrow> string list" where
  "emit_errors fl w c =
    (if archive_bindings c \<noteq> [] then [''remove existing archive bindings before deriving replacements'']
     else concat (map (\<lambda>(index, v).
       if derived_binding fl w v = None then [at_index ''archive root'' index '' binding cannot be derived safely''] else [])
       (enumerate 1 (archive_roots c))))"

text \<open>The exit code and what is printed on either stream.\<close>

definition host_passed :: "float_text \<Rightarrow> host_world \<Rightarrow> host_contract \<Rightarrow> host_mode \<Rightarrow> string list" where
  "host_passed fl w c mode =
    (case mode of
       SyntaxOnly \<Rightarrow> [''PASS protected-host contract syntax is valid'']
     | CheckLive \<Rightarrow>
         [''PASS protected-host contract and live checks passed; the fresh ''
          @ ''presence-bound boot attestation is structurally valid'']
     | EmitBindings \<Rightarrow>
         map (\<lambda>v. ''PROTECTED_LEGACY_ARCHIVE_BINDING_SHA256='' @ the (derived_binding fl w v)) (archive_roots c)
         @ [''PASS DERIVATION ONLY, NOT AUTHORIZATION: archive binding SHA-256 ''
            @ ''values were derived from bounded metadata''])"

definition host_contract_main :: "float_text \<Rightarrow> host_world \<Rightarrow> host_mode \<Rightarrow> (nat \<times> string list) res" where
  "host_contract_main fl w mode =
    bind (load_contract (contract_source w) (mode = EmitBindings) (mode = EmitBindings)) (\<lambda>found.
    case found of
      Inl errors \<Rightarrow> Inr (1, map (\<lambda>e. ''ERROR '' @ e) errors)
    | Inr c \<Rightarrow>
        let errors = (case mode of SyntaxOnly \<Rightarrow> [] | CheckLive \<Rightarrow> live_errors fl w c | EmitBindings \<Rightarrow> emit_errors fl w c) in
        Inr (if errors \<noteq> [] then (1, map (\<lambda>e. ''ERROR '' @ e) errors) else (0, host_passed fl w c mode)))"

section \<open>What a pass means\<close>

definition unit_protected :: "unit_state \<Rightarrow> bool" where
  "unit_protected u \<longleftrightarrow> state_known u \<and> load_state u = Some ''loaded'' \<and> active_state u = Some ''active''"

definition unit_retired :: "unit_state \<Rightarrow> bool" where
  "unit_retired u \<longleftrightarrow> active_state u = Some ''inactive'' \<and> load_state u \<in> {Some ''loaded'', Some ''masked''}
    \<and> unit_file_state u \<in> {Some ''disabled'', Some ''masked''} \<and> control_group u = Some []"

lemma unit_errors_none:
  "active_unit_errors index u = [] \<longleftrightarrow> unit_protected u"
  "legacy_unit_errors index u = [] \<longleftrightarrow> unit_retired u"
  by (auto simp: active_unit_errors_def legacy_unit_errors_def unit_protected_def unit_retired_def state_known_def)

lemma archive_errors_absent:
  "archive_state_errors index (Some problems) actual expected = [] \<longleftrightarrow> problems = [] \<and> actual = Some expected"
  by (auto simp: archive_state_errors_def split: option.splits)

lemma indexed_units: "concat (map (\<lambda>(index, x). f index x) (enumerate 1 xs)) = [] \<longleftrightarrow> (\<forall>i < length xs. f (i + 1) (xs ! i) = [])"
  unfolding indexed_none by simp

definition archive_bound :: "float_text \<Rightarrow> host_world \<Rightarrow> string \<Rightarrow> string \<Rightarrow> bool" where
  "archive_bound fl w v binding \<longleftrightarrow>
    archive_root_issues (root_views w v) v = [] \<and> archive_binding_fingerprint fl (archive_views w v) v = Some binding"

definition attested :: "host_world \<Rightarrow> host_contract \<Rightarrow> bool" where
  "attested w c \<longleftrightarrow>
    (\<exists>s now ev digest. evidence_script w = Some (s, now) \<and> runtime_evidence_sha256 c = Some digest \<and> digest_text digest
      \<and> validate_runtime_evidence s (Some digest) (Some (legacy_archives_present c)) now = Inr (Inr (ev, digest))
      \<and> archives_present ev = legacy_archives_present c)"

lemma evidence_issues_none:
  "runtime_evidence_issues (evidence_script w) (runtime_evidence_sha256 c) (legacy_archives_present c) = [] \<longleftrightarrow> attested w c"
proof
  assume "runtime_evidence_issues (evidence_script w) (runtime_evidence_sha256 c) (legacy_archives_present c) = []"
  then show "attested w c"
    by (auto simp: runtime_evidence_issues_def attested_def split: option.splits sum.splits if_splits)
next
  assume "attested w c"
  then show "runtime_evidence_issues (evidence_script w) (runtime_evidence_sha256 c) (legacy_archives_present c) = []"
    by (auto simp: runtime_evidence_issues_def attested_def)
qed

lemma bindings_paired:
  assumes "presence_consistent False c"
  shows "length (archive_bindings c) = length (archive_roots c)"
  using assms by (auto simp: presence_consistent_def split: if_splits)

lemma live_errors_none:
  assumes "presence_consistent False c"
  shows "live_errors fl w c = [] \<longleftrightarrow>
    list_all (\<lambda>u. unit_protected (systemd_unit_state (unit_answer w u))) (active_units c)
    \<and> list_all (\<lambda>u. unit_retired (systemd_unit_state (unit_answer w u))) (legacy_units c)
    \<and> list_all2 (archive_bound fl w) (archive_roots c) (archive_bindings c) \<and> attested w c"
  unfolding live_errors_def check_live_state_def append_is_Nil_conv evidence_issues_none indexed_units unit_errors_none
  using bindings_paired [OF assms]
  by (auto simp: archive_errors_absent archive_bound_def list_all2_conv_all_nth list_all_length)

lemma loaded_consistent:
  assumes "load_contract file False False = Inr (Inr c)"
  shows "presence_consistent False c"
proof -
  from assms obtain content where "parse_host_contract False False content = Inr c"
    by (auto simp: load_contract_def split: if_splits)
  from accepted_schema [OF this] show ?thesis by (auto simp: schema_errors_def Let_def archive_errors_none)
qed

text \<open>
  C35: what a live pass stands for.  The command with \<open>--check-live\<close> ends with exit code 0 exactly when the contract loads, every
  protected unit is loaded and active, every legacy unit is inactive for good, every archive is without fault and has the
  digest that is bound to it, and the fresh attestation has the digest and the presence decision of the contract.
\<close>

theorem live_pass_exact:
  "(\<exists>out. host_contract_main fl w CheckLive = Inr (0, out)) \<longleftrightarrow>
    (\<exists>c. load_contract (contract_source w) False False = Inr (Inr c)
      \<and> list_all (\<lambda>u. unit_protected (systemd_unit_state (unit_answer w u))) (active_units c)
      \<and> list_all (\<lambda>u. unit_retired (systemd_unit_state (unit_answer w u))) (legacy_units c)
      \<and> list_all2 (archive_bound fl w) (archive_roots c) (archive_bindings c) \<and> attested w c)"
proof (cases "\<exists>c. load_contract (contract_source w) False False = Inr (Inr c)")
  case True
  then obtain c where c: "load_contract (contract_source w) False False = Inr (Inr c)" by blast
  then have "(\<exists>out. host_contract_main fl w CheckLive = Inr (0, out)) \<longleftrightarrow> live_errors fl w c = []"
    by (simp add: host_contract_main_def Let_def)
  with c live_errors_none [OF loaded_consistent [OF c]] show ?thesis by simp
next
  case False
  then show ?thesis by (auto simp: host_contract_main_def Let_def split: sum.splits)
qed

end
