(* ===== verification/StrictYaml.thy ===== *)
theory StrictYaml
  imports PyJson PyRegex
begin

text \<open>
  scripts/validate_kubeadm_config.py, the parser: a YAML subset of mappings and sequences by indentation of two
  spaces.  A mapping, a list and a scalar are the JSON values of the same form.  A
  \<open>ConfigSyntaxError\<close> is a \<open>ValueError\<close> with its text, which names a line and no content.
\<close>

section \<open>Scalars and lines\<close>

definition syntax_error :: "string \<Rightarrow> nat \<Rightarrow> exc" where
  "syntax_error reason n = ValueError (reason @ show_nat n)"

definition strip_scalar :: "string \<Rightarrow> nat \<Rightarrow> json res" where
  "strip_scalar given n =
    (let v = strip given in
     if v = ''[]'' then Inr (JArr [])
     else
       case v of
         [] \<Rightarrow> Inl (syntax_error ''empty scalar at line '' n)
       | c # t \<Rightarrow>
           if c = CHR 0x27 \<or> c = CHR 0x22
           then if length v < 2 \<or> List.last v \<noteq> c then Inl (syntax_error ''unterminated quoted scalar at line '' n)
                else Inr (JStr (butlast t))
           else if contains v '' #'' then Inl (syntax_error ''inline comments are unsupported at line '' n)
           else Inr (JStr v))"

text \<open>\<open>(?:^|\s)[&*!][^\s]*\<close> occurs in the text.\<close>

fun marker_in :: "bool \<Rightarrow> string list \<Rightarrow> bool" where
  "marker_in bounded [] = False"
| "marker_in bounded (x # xs) = (bounded \<and> x \<in> {''&'', ''*'', ''!''} \<or> marker_in (space_char x) xs)"

record yaml_token =
  token_indent :: nat
  token_content :: string
  token_line :: nat

definition carries_content :: "string \<Rightarrow> bool" where
  "carries_content line \<longleftrightarrow> strip line \<noteq> [] \<and> \<not> startswith (lstrip line) ''#''"

definition yaml_line :: "nat \<Rightarrow> string \<Rightarrow> yaml_token list \<Rightarrow> yaml_token list res" where
  "yaml_line n original tokens =
    (let line = rstrip original in
     if \<not> carries_content line then Inr tokens
     else if CHR 0x09 \<in> set line then Inl (syntax_error ''tabs are unsupported at line '' n)
     else
       let indent = length (takeWhile (\<lambda>c. c = CHR '' '') line); content = drop indent line in
       if indent mod 2 \<noteq> 0 then Inl (syntax_error ''indentation must use two-space levels at line '' n)
       else if marker_in True (characters content) \<or> endswith content ''|'' \<or> endswith content ''>''
       then Inl (syntax_error ''advanced YAML features are unsupported at line '' n)
       else Inr (tokens @ [\<lparr>token_indent = indent, token_content = content, token_line = n\<rparr>]))"

definition tokenize :: "string \<Rightarrow> nat \<Rightarrow> yaml_token list res" where
  "tokenize document first_line =
    bind (for_each (\<lambda>(n, line) tokens. yaml_line n line tokens) (enumerate first_line (splitlines document)) []) (\<lambda>tokens.
    raise_if (tokens = []) (ValueError ''empty YAML document'') (Inr tokens))"

definition yaml_key_char :: "char \<Rightarrow> bool" where
  "yaml_key_char c = (byte_in 65 90 c \<or> byte_in 97 122 c \<or> is_digit c \<or> c \<in> set ''_.-'')"

text \<open>\<open>([A-Za-z0-9_.-]+):(?:\s*(.*))?\<close>: the key, and the value or the empty text.\<close>

definition key_prefix :: "string \<Rightarrow> (string \<times> string) option" where
  "key_prefix content =
    (case split_first (CHR '':'') content of
       Some (key, rest) \<Rightarrow> if key \<noteq> [] \<and> list_all yaml_key_char key then Some (key, rest) else None
     | None \<Rightarrow> None)"

definition split_pair :: "string \<Rightarrow> nat \<Rightarrow> (string \<times> string) res" where
  "split_pair content n =
    (case key_prefix content of
       None \<Rightarrow> Inl (syntax_error ''unsupported mapping syntax at line '' n)
     | Some (key, rest) \<Rightarrow> Inr (key, lstrip rest))"

section \<open>Blocks\<close>

text \<open>
  The parsers return what remains of the tokens.  They call each other through a task; each function is one step over the
  parser for what it calls.  The fuel bounds the calls in the model only; \<open>RecursionError\<close> is its end, and
  \<open>fuel_suffices\<close> proves that the fuel given is never used up.
\<close>

definition next_line :: "nat \<Rightarrow> yaml_token list \<Rightarrow> nat" where
  "next_line last_line ts = (case ts of [] \<Rightarrow> last_line | t # _ \<Rightarrow> token_line t)"

definition nested_below :: "nat \<Rightarrow> yaml_token list \<Rightarrow> bool" where
  "nested_below indent ts = (case ts of [] \<Rightarrow> False | t # _ \<Rightarrow> indent < token_indent t)"

definition starts_at :: "nat \<Rightarrow> yaml_token list \<Rightarrow> bool" where
  "starts_at indent ts = (case ts of [] \<Rightarrow> False | t # _ \<Rightarrow> token_indent t = indent)"

datatype yaml_task = Block | Mapping dict | Sequence "json list" | Item string nat

type_synonym parsed = "(json \<times> yaml_token list) res"
type_synonym yaml_parser = "yaml_task \<Rightarrow> nat \<Rightarrow> yaml_token list \<Rightarrow> nat \<Rightarrow> parsed"

definition parse_block :: "yaml_parser \<Rightarrow> nat \<Rightarrow> yaml_token list \<Rightarrow> nat \<Rightarrow> parsed" where
  "parse_block parse last_line ts indent =
    (if \<not> starts_at indent ts then Inl (syntax_error ''unexpected indentation near line '' (next_line last_line ts))
     else if startswith (token_content (hd ts)) ''-'' then parse (Sequence []) last_line ts indent
     else parse (Mapping []) last_line ts indent)"

definition parse_mapping :: "yaml_parser \<Rightarrow> dict \<Rightarrow> nat \<Rightarrow> yaml_token list \<Rightarrow> nat \<Rightarrow> parsed" where
  "parse_mapping parse result last_line ts indent =
    (case ts of
       [] \<Rightarrow> Inr (JObj result, [])
     | t # rest \<Rightarrow>
         let n = token_line t in
         if token_indent t < indent then Inr (JObj result, ts)
         else if indent < token_indent t then Inl (syntax_error ''unexpected indentation at line '' n)
         else if startswith (token_content t) ''-'' then Inr (JObj result, ts)
         else
           bind (split_pair (token_content t) n) (\<lambda>(key, given).
           raise_if (has_key result key) (syntax_error ''duplicate mapping key at line '' n) (
           if given \<noteq> [] then bind (strip_scalar given n) (\<lambda>v. parse (Mapping (put result key v)) last_line rest indent)
           else if \<not> nested_below indent rest then Inl (syntax_error ''mapping key has no value at line '' n)
           else
             bind (parse Block last_line rest (indent + 2)) (\<lambda>(v, later).
             parse (Mapping (put result key v)) last_line later indent))))"

definition parse_item :: "yaml_parser \<Rightarrow> string \<Rightarrow> nat \<Rightarrow> nat \<Rightarrow> yaml_token list \<Rightarrow> nat \<Rightarrow> parsed" where
  "parse_item parse given n last_line rest indent =
    (if given = []
     then (if \<not> nested_below indent rest then Inl (syntax_error ''empty sequence item at line '' n)
           else parse Block last_line rest (indent + 2))
     else if key_prefix given \<noteq> None
     then
       bind (split_pair given n) (\<lambda>(key, v).
       if v = []
       then (if \<not> starts_at (indent + 4) rest
             then Inl (syntax_error ''nested sequence value has invalid indentation at line '' n)
             else bind (parse Block last_line rest (indent + 4)) (\<lambda>(nested, later).
               parse (Mapping [(key, nested)]) last_line later (indent + 2)))
       else bind (strip_scalar v n) (\<lambda>s. parse (Mapping [(key, s)]) last_line rest (indent + 2)))
     else
       bind (strip_scalar given n) (\<lambda>s.
       raise_if (nested_below indent rest) (syntax_error ''scalar sequence item has nested content at line '' n)
         (Inr (s, rest))))"

definition parse_sequence :: "yaml_parser \<Rightarrow> json list \<Rightarrow> nat \<Rightarrow> yaml_token list \<Rightarrow> nat \<Rightarrow> parsed" where
  "parse_sequence parse items last_line ts indent =
    (case ts of
       [] \<Rightarrow> Inr (JArr items, [])
     | t # rest \<Rightarrow>
         let n = token_line t in
         if token_indent t < indent then Inr (JArr items, ts)
         else if token_indent t \<noteq> indent \<or> \<not> startswith (token_content t) ''-''
         then Inl (syntax_error ''unsupported sequence indentation at line '' n)
         else
           bind (parse (Item (strip (tl (token_content t))) n) last_line rest indent) (\<lambda>(v, later).
           parse (Sequence (items @ [v])) last_line later indent))"

definition parse_step :: "yaml_parser \<Rightarrow> yaml_parser" where
  "parse_step parse task last_line ts indent =
    (case task of
       Block \<Rightarrow> parse_block parse last_line ts indent
     | Mapping result \<Rightarrow> parse_mapping parse result last_line ts indent
     | Sequence items \<Rightarrow> parse_sequence parse items last_line ts indent
     | Item given n \<Rightarrow> parse_item parse given n last_line ts indent)"

primrec yaml_parse :: "nat \<Rightarrow> yaml_parser" where
  "yaml_parse 0 = (\<lambda>task last_line ts indent. Inl RecursionError)"
| "yaml_parse (Suc k) = parse_step (yaml_parse k)"

text \<open>Every call consumes a token or is followed by one that does.\<close>

definition task_need :: "yaml_task \<Rightarrow> nat \<Rightarrow> nat" where
  "task_need task n = 4 * n + (case task of Block \<Rightarrow> 2 | Item _ _ \<Rightarrow> 3 | _ \<Rightarrow> 1)"

definition never_exhausted :: "yaml_token list \<Rightarrow> parsed \<Rightarrow> bool" where
  "never_exhausted ts r =
    (case r of Inl e \<Rightarrow> e \<noteq> RecursionError | Inr (v, later) \<Rightarrow> length later \<le> length ts)"

lemma never_exhausted_bind:
  assumes "never_exhausted rest m" and "\<And>v later. length later \<le> length rest \<Longrightarrow> never_exhausted ts (f v later)"
  shows "never_exhausted ts (bind m (\<lambda>(v, later). f v later))"
proof (cases m)
  case (Inl e)
  with assms(1) show ?thesis by (simp add: never_exhausted_def)
next
  case (Inr r)
  with assms show ?thesis by (cases r) (simp add: never_exhausted_def)
qed

lemma never_exhausted_shorter: "never_exhausted ts r \<Longrightarrow> length ts \<le> length us \<Longrightarrow> never_exhausted us r"
  by (auto simp: never_exhausted_def split: sum.splits)

lemma never_exhausted_simps [simp]:
  "never_exhausted ts (Inl (syntax_error s n))" "never_exhausted ts (Inr (v, later)) \<longleftrightarrow> length later \<le> length ts"
  by (simp_all add: never_exhausted_def syntax_error_def)

lemma scalar_errors: "strip_scalar given n = Inl e \<Longrightarrow> e \<noteq> RecursionError" "split_pair given n = Inl e \<Longrightarrow> e \<noteq> RecursionError"
  by (auto simp: strip_scalar_def split_pair_def Let_def syntax_error_def split: if_splits list.splits option.splits)

lemma never_exhausted_scalar:
  assumes "\<And>v. never_exhausted ts (f v)"
  shows "never_exhausted ts (bind (strip_scalar given n) f)"
proof (cases "strip_scalar given n")
  case (Inl e)
  then show ?thesis using scalar_errors(1) [OF Inl] by (simp add: never_exhausted_def)
next
  case (Inr v)
  then show ?thesis using assms by simp
qed

lemma never_exhausted_pair:
  assumes "\<And>v. never_exhausted ts (f v)"
  shows "never_exhausted ts (bind (split_pair given n) f)"
proof (cases "split_pair given n")
  case (Inl e)
  then show ?thesis using scalar_errors(2) [OF Inl] by (simp add: never_exhausted_def)
next
  case (Inr v)
  then show ?thesis using assms by simp
qed

lemma fuel_suffices: "task_need task (length ts) \<le> k \<Longrightarrow> never_exhausted ts (yaml_parse k task last_line ts indent)"
proof (induction k arbitrary: task ts indent)
  case 0
  then show ?case by (cases task) (simp_all add: task_need_def)
next
  case (Suc k)
  have step: "never_exhausted us (yaml_parse k task' last_line us indent')" if "task_need task' (length us) \<le> k" for task' us indent'
    using Suc.IH that by blast
  have longer: "never_exhausted vs (yaml_parse k task' last_line us indent')"
    if "task_need task' (length us) \<le> k" "length us \<le> length vs" for task' us vs indent'
    using step [OF that(1)] never_exhausted_shorter that(2) by blast
  show ?case
  proof (cases task)
    case Block
    with Suc.prems show ?thesis by (auto simp: parse_step_def parse_block_def task_need_def intro!: step)
  next
    case (Mapping result)
    show ?thesis
    proof (cases ts)
      case Nil
      with Mapping show ?thesis by (simp add: parse_step_def parse_mapping_def)
    next
      case (Cons t rest)
      then have k: "4 * length rest + 4 \<le> k" using Suc.prems Mapping by (simp add: task_need_def)
      have later: "never_exhausted (t # rest) (yaml_parse k (Mapping r) last_line us indent)" if "length us \<le> length rest" for r us
        using that k by (intro longer) (simp_all add: task_need_def)
      have block: "never_exhausted rest (yaml_parse k Block last_line rest j)" for j
        using k by (intro step) (simp add: task_need_def)
      show ?thesis unfolding Mapping Cons parse_step_def parse_mapping_def Let_def raise_if_def yaml_task.case list.case yaml_parse.simps
        using later by (auto intro!: never_exhausted_pair never_exhausted_scalar never_exhausted_bind [OF block] simp del: bind_simps)
    qed
  next
    case (Sequence items)
    show ?thesis
    proof (cases ts)
      case Nil
      with Sequence show ?thesis by (simp add: parse_step_def parse_sequence_def)
    next
      case (Cons t rest)
      then have k: "4 * length rest + 4 \<le> k" using Suc.prems Sequence by (simp add: task_need_def)
      have later: "never_exhausted (t # rest) (yaml_parse k (Sequence r) last_line us indent)" if "length us \<le> length rest" for r us
        using that k by (intro longer) (simp_all add: task_need_def)
      have item: "never_exhausted rest (yaml_parse k (Item g n) last_line rest indent)" for g n
        using k by (intro step) (simp add: task_need_def)
      show ?thesis unfolding Sequence Cons parse_step_def parse_sequence_def Let_def yaml_task.case list.case yaml_parse.simps
        using later by (auto intro!: never_exhausted_bind [OF item])
    qed
  next
    case (Item given n)
    then have k: "4 * length ts + 2 \<le> k" using Suc.prems by (simp add: task_need_def)
    have later: "never_exhausted ts (yaml_parse k (Mapping r) last_line us j)" if "length us \<le> length ts" for r us j
      using that k by (intro longer) (simp_all add: task_need_def)
    have block: "never_exhausted ts (yaml_parse k Block last_line ts j)" for j
      using k by (intro step) (simp add: task_need_def)
    show ?thesis unfolding Item parse_step_def parse_item_def Let_def raise_if_def yaml_task.case yaml_parse.simps
      using later block by (auto intro!: never_exhausted_pair never_exhausted_scalar never_exhausted_bind [OF block])
  qed
qed

section \<open>Documents\<close>

text \<open>The loop over the lines: finished chunks with their first lines, the current chunk, its start, and where the next one starts.\<close>

record chunking =
  chunks :: "(string \<times> nat) list"
  current_lines :: "string list"
  first_line_of :: nat
  chunk_start :: nat

definition worth_keeping :: "string list \<Rightarrow> bool" where
  "worth_keeping lines = list_ex (\<lambda>l. strip l \<noteq> [] \<and> \<not> startswith (lstrip l) ''#'') lines"

definition chunk_line :: "nat \<times> string \<Rightarrow> chunking \<Rightarrow> chunking" where
  "chunk_line numbered st =
    (let (n, line) = numbered in
     if strip line = ''---''
     then st\<lparr>chunks := chunks st @ (if worth_keeping (current_lines st) then [(join nl (current_lines st), chunk_start st)] else []),
             current_lines := [], chunk_start := n + 1\<rparr>
     else st\<lparr>first_line_of := (if current_lines st = [] then chunk_start st else first_line_of st),
             current_lines := current_lines st @ [line]\<rparr>)"

definition chunks_of :: "string \<Rightarrow> (string \<times> nat) list" where
  "chunks_of content =
    (let st = fold chunk_line (enumerate 1 (splitlines content))
       \<lparr>chunks = [], current_lines = [], first_line_of = 1, chunk_start = 1\<rparr> in
     chunks st @ (if worth_keeping (current_lines st) then [(join nl (current_lines st), first_line_of st)] else []))"

definition parse_fuel :: "yaml_token list \<Rightarrow> nat" where
  "parse_fuel ts = 4 * length ts + 4"

definition parse_document :: "string \<times> nat \<Rightarrow> dict \<Rightarrow> dict res" where
  "parse_document chunk documents =
    (let (content, n) = chunk in
     bind (tokenize content n) (\<lambda>tokens.
     bind (yaml_parse (parse_fuel tokens) Block (token_line (List.last tokens)) tokens 0) (\<lambda>(v, later).
     case v of
       JObj d \<Rightarrow>
         raise_if (later \<noteq> []) (ValueError (''document at line '' @ show_nat n @ '' is not one mapping'')) (
         case get d ''kind'' of
           JStr kind \<Rightarrow>
             raise_if (has_key documents kind) (syntax_error ''duplicate document kind at line '' n) (Inr (put documents kind v))
         | _ \<Rightarrow> Inl (ValueError (''document at line '' @ show_nat n @ '' has no scalar kind'')))
     | _ \<Rightarrow> Inl (ValueError (''document at line '' @ show_nat n @ '' is not one mapping'')))))"

definition parse_documents :: "string \<Rightarrow> dict res" where
  "parse_documents content = for_each parse_document (chunks_of content) []"

section \<open>Facts\<close>

lemma put_fresh: "k \<notin> fst ` set r \<Longrightarrow> put r k v = r @ [(k, v)]"
  by (induction r k v rule: put.induct) auto

end
