(* ===== verification/YamlRoundtrip.thy ===== *)
theory YamlRoundtrip
  imports StrictYaml ReleaseLines Git HistoryKeys
begin

text \<open>
  The parser of the YAML subset inverts a printer: trees of plain keys and plain scalars, printed with
  indentation by two spaces, are read back.
\<close>

section \<open>Plain trees and their lines\<close>

text \<open>A plain scalar has no white space, is no quotation, marker or empty list, and does not end like a block scalar.\<close>

definition plain_scalar :: "string \<Rightarrow> bool" where
  "plain_scalar s \<longleftrightarrow> s \<noteq> [] \<and> list_all plain_char s \<and> s \<noteq> ''[]''
     \<and> hd s \<notin> {CHR 0x27, CHR 0x22, CHR ''&'', CHR ''*'', CHR ''!''} \<and> List.last s \<notin> {CHR ''|'', CHR ''>''}"

definition key_ok :: "string \<Rightarrow> bool" where
  "key_ok k \<longleftrightarrow> k \<noteq> [] \<and> list_all yaml_key_char k \<and> hd k \<noteq> CHR ''-''"

function tree_ok :: "json \<Rightarrow> bool" where
  "tree_ok (JStr s) = plain_scalar s"
| "tree_ok (JArr xs) = list_all (\<lambda>x. tree_ok x \<and> (case x of JStr s \<Rightarrow> key_prefix s = None | _ \<Rightarrow> True)) xs"
| "tree_ok (JObj d) = (d \<noteq> [] \<and> distinct (map fst d) \<and> list_all (\<lambda>(k, v). key_ok k \<and> tree_ok v) d)"
| "tree_ok JNull = False"
| "tree_ok (JBool b) = False"
| "tree_ok (JInt i) = False"
| "tree_ok (JFloat f) = False"
  by pat_completeness auto
termination
  by (relation "measure size") (auto simp: less_Suc_eq_le size_list_estimation' dest: size_item_value)

text \<open>A line is its indentation and its content.  The first line of a mapping in a list follows the dash.\<close>

type_synonym yaml_lines = "(nat \<times> string) list"

definition is_flat :: "json \<Rightarrow> bool" where
  "is_flat v = (case v of JStr _ \<Rightarrow> True | JArr xs \<Rightarrow> xs = [] | _ \<Rightarrow> False)"

definition flat_text :: "json \<Rightarrow> string" where
  "flat_text v = (case v of JStr s \<Rightarrow> s | _ \<Rightarrow> ''[]'')"

definition head_text :: "string \<Rightarrow> json \<Rightarrow> string" where
  "head_text k v = k @ (if is_flat v then '': '' @ flat_text v else '':'')"

function block_lines :: "nat \<Rightarrow> json \<Rightarrow> yaml_lines" where
  "block_lines indent (JObj d) =
    concat (map (\<lambda>(k, v). (indent, head_text k v) # (if is_flat v then [] else block_lines (indent + 2) v)) d)"
| "block_lines indent (JArr xs) =
    concat (map (\<lambda>x.
      if is_flat x then [(indent, ''- '' @ flat_text x)]
      else
        case x of
          JObj d \<Rightarrow> (case block_lines (indent + 2) x of [] \<Rightarrow> [] | (_, first) # later \<Rightarrow> (indent, ''- '' @ first) # later)
        | _ \<Rightarrow> (indent, ''-'') # block_lines (indent + 2) x) xs)"
| "block_lines indent (JStr s) = []"
| "block_lines indent JNull = []"
| "block_lines indent (JBool b) = []"
| "block_lines indent (JInt i) = []"
| "block_lines indent (JFloat f) = []"
  by pat_completeness auto
termination
  by (relation "measure (\<lambda>(indent, v). size v)") (auto simp: less_Suc_eq_le size_list_estimation' dest: size_item_value)

definition pair_lines :: "nat \<Rightarrow> string \<times> json \<Rightarrow> yaml_lines" where
  "pair_lines indent entry =
    (indent, head_text (fst entry) (snd entry)) # (if is_flat (snd entry) then [] else block_lines (indent + 2) (snd entry))"

definition item_lines :: "nat \<Rightarrow> json \<Rightarrow> yaml_lines" where
  "item_lines indent x =
    (if is_flat x then [(indent, ''- '' @ flat_text x)]
     else
       case x of
         JObj d \<Rightarrow> (case block_lines (indent + 2) x of [] \<Rightarrow> [] | (_, first) # later \<Rightarrow> (indent, ''- '' @ first) # later)
       | _ \<Rightarrow> (indent, ''-'') # block_lines (indent + 2) x)"

lemma block_lines_parts:
  "block_lines indent (JObj d) = concat (map (pair_lines indent) d)"
  "block_lines indent (JArr xs) = concat (map (item_lines indent) xs)"
  by (auto intro!: arg_cong [where f = concat] map_cong simp: pair_lines_def item_lines_def)

declare block_lines.simps(1,2) [simp del]

section \<open>Contents\<close>

lemma yaml_key_plain: "yaml_key_char c \<Longrightarrow> plain_char c \<and> c \<noteq> CHR '':''"
proof -
  assume "yaml_key_char c"
  then consider "byte_in 65 90 c" | "byte_in 97 122 c" | "is_digit c" | "c \<in> set ''_.-''" by (auto simp: yaml_key_char_def)
  then show ?thesis by cases (auto simp: plain_char_def byte_in_def is_digit_def)
qed

lemma scalar_read: "plain_scalar s \<Longrightarrow> strip_scalar s n = Inr (JStr s)"
proof -
  assume ok: "plain_scalar s"
  then obtain c t where s: "s = c # t" by (cases s) (auto simp: plain_scalar_def)
  have "\<not> contains s '' #''"
  proof
    assume "contains s '' #''"
    then obtain a b where "s = a @ '' #'' @ b" by (auto simp: contains_iff)
    then show False using ok by (auto simp: plain_scalar_def list_all_iff plain_char_def)
  qed
  moreover have "strip s = s" using ok by (intro strip_plain) (simp add: plain_scalar_def)
  ultimately show ?thesis using ok s by (auto simp: strip_scalar_def plain_scalar_def Let_def)
qed

lemma empty_read: "strip_scalar ''[]'' n = Inr (JArr [])"
  by (simp add: strip_scalar_def strip_plain plain_char_def)

lemma key_prefix_key: "key_ok k \<Longrightarrow> key_prefix (k @ CHR '':'' # rest) = Some (k, rest)"
proof -
  assume ok: "key_ok k"
  then have "CHR '':'' \<notin> set k" using yaml_key_plain by (auto simp: key_ok_def list_all_iff)
  with ok show ?thesis by (simp add: key_prefix_def split_first_append key_ok_def)
qed

lemma lstrip_empty [simp]: "lstrip [] = []"
  by (simp add: lstrip.simps [of "[]"] leading_space_def)

lemma pair_read:
  assumes "key_ok k"
  shows "split_pair (k @ '':'') n = Inr (k, [])" and "plain_char c \<Longrightarrow> split_pair (k @ '': '' @ c # s) n = Inr (k, c # s)"
  using key_prefix_key [OF assms, of "[]"] key_prefix_key [OF assms, of "CHR '' '' # c # s"]
  by (simp_all add: split_pair_def lstrip_space lstrip_plain)

lemma no_dash: "key_ok k \<Longrightarrow> \<not> startswith (k @ r) ''-''"
  by (cases k) (auto simp: key_ok_def startswith_def)

lemma dash_content: "startswith (CHR ''-'' # c) ''-''"
  by (simp add: startswith_def)

lemma lstrip_stop: "lstrip s = s \<Longrightarrow> lstrip (CHR '' '' # s) = s"
  by (simp add: lstrip_space)

text \<open>What starts and ends with a plain character is not stripped.\<close>

lemma strip_between:
  assumes "plain_char (hd s)" and "plain_char (List.last s)" and "s \<noteq> []"
  shows "strip s = s"
proof -
  have "rstrip s = s" using rstrip_plain [OF assms(2), of "butlast s"] assms(3) by simp
  moreover have "lstrip s = s" using lstrip_plain [OF assms(1), of "tl s"] assms(3) by simp
  ultimately show ?thesis by (simp add: strip_def)
qed

lemma strip_space: "plain_char (hd s) \<Longrightarrow> plain_char (List.last s) \<Longrightarrow> s \<noteq> [] \<Longrightarrow> strip (CHR '' '' # s) = s"
  using strip_between [of s] by (simp add: strip_def lstrip_space)

lemma strip_nil [simp]: "strip [] = []"
  by (simp add: strip_plain)

section \<open>Tokens\<close>

definition line_of :: "yaml_token \<Rightarrow> nat \<times> string" where
  "line_of t = (token_indent t, token_content t)"

text \<open>What follows a block is less indented.\<close>

definition ends :: "nat \<Rightarrow> yaml_token list \<Rightarrow> bool" where
  "ends indent rest = (case rest of [] \<Rightarrow> True | t # _ \<Rightarrow> token_indent t < indent)"

lemma ends_mono: "ends i rest \<Longrightarrow> i \<le> j \<Longrightarrow> ends j rest"
  by (cases rest) (auto simp: ends_def)

definition reads :: "json \<Rightarrow> bool" where
  "reads v \<longleftrightarrow>
    (\<forall>k last_line ts rest indent. map line_of ts = block_lines indent v \<longrightarrow> 4 * length (ts @ rest) + 2 \<le> k
      \<longrightarrow> ends indent rest \<longrightarrow> yaml_parse k Block last_line (ts @ rest) indent = Inr (v, rest))"

lemma block_starts:
  "tree_ok v \<Longrightarrow> \<not> is_flat v \<Longrightarrow> \<exists>c lines. block_lines indent v = (indent, c) # lines"
proof (induction v arbitrary: indent rule: tree_ok.induct)
  case (2 xs)
  then obtain x ys where xs: "xs = x # ys" by (cases xs) (auto simp: is_flat_def)
  with 2 have x: "tree_ok x" by auto
  show ?case
  proof (cases "is_flat x")
    case False
    with "2.IH" [of x "indent + 2"] xs x obtain c lines where "block_lines (indent + 2) x = (indent + 2, c) # lines" by auto
    with xs False x show ?thesis by (cases x) (auto simp: block_lines_parts item_lines_def)
  qed (simp add: xs block_lines_parts item_lines_def)
next
  case (3 d)
  then show ?case by (cases d) (auto simp: block_lines_parts pair_lines_def)
qed (simp_all add: is_flat_def)

lemma take_lines:
  assumes "map line_of ts = ls @ ms"
  shows "\<exists>us vs. ts = us @ vs \<and> map line_of us = ls \<and> map line_of vs = ms"
  using assms by (metis append_eq_map_conv)

lemma flat_read: "is_flat v \<Longrightarrow> tree_ok v \<Longrightarrow> strip_scalar (flat_text v) n = Inr v \<and> plain_char (hd (flat_text v))
    \<and> plain_char (List.last (flat_text v)) \<and> flat_text v \<noteq> []"
  by (cases v) (auto simp: is_flat_def flat_text_def scalar_read empty_read plain_scalar_def plain_char_def list_all_iff)

lemma pair_flat:
  assumes "key_ok k" and "is_flat v" and "tree_ok v"
  shows "split_pair (head_text k v) n = Inr (k, flat_text v)"
proof -
  from flat_read [OF assms(2,3)] obtain c s where "flat_text v = c # s" "plain_char c" by (cases "flat_text v") auto
  with pair_read(2) [OF assms(1)] assms(2) show ?thesis by (simp add: head_text_def)
qed

lemma head_plain:
  assumes "key_ok k" and "tree_ok v"
  shows "plain_char (hd (head_text k v))" and "plain_char (List.last (head_text k v))" and "head_text k v \<noteq> []"
    and "\<not> startswith (head_text k v) ''-''"
proof -
  show "head_text k v \<noteq> []" "\<not> startswith (head_text k v) ''-''" using no_dash [OF assms(1)] assms(1) by (auto simp: head_text_def key_ok_def)
  show "plain_char (hd (head_text k v))" using assms(1) yaml_key_plain by (cases k) (auto simp: head_text_def key_ok_def)
  show "plain_char (List.last (head_text k v))"
    using flat_read [OF _ assms(2)] by (auto simp: head_text_def plain_char_def)
qed

lemma pair_lines_Cons:
  "concat (map (pair_lines indent) ((k, v) # d)) =
    (indent, head_text k v) # (if is_flat v then [] else block_lines (indent + 2) v) @ concat (map (pair_lines indent) d)"
  by (simp add: pair_lines_def [of indent "(k, v)"])

lemma mapping_reads:
  assumes "list_all (\<lambda>(k, v). key_ok k \<and> tree_ok v \<and> (\<not> is_flat v \<longrightarrow> reads v)) d" and "distinct (map fst (r @ d))"
    and "map line_of ts = concat (map (pair_lines indent) d)" and "4 * length (ts @ rest) + 1 \<le> k" and "ends indent rest"
  shows "yaml_parse k (Mapping r) last_line (ts @ rest) indent = Inr (JObj (r @ d), rest)"
  using assms
proof (induction d arbitrary: r ts k)
  case Nil
  then obtain k' where k: "k = Suc k'" by (cases k) auto
  from Nil show ?case unfolding k by (auto simp: parse_step_def parse_mapping_def ends_def Let_def split: list.splits)
next
  case (Cons entry d)
  obtain key v where entry: "entry = (key, v)" by (cases entry)
  from Cons.prems(1) entry have ok: "key_ok key" "tree_ok v" "\<not> is_flat v \<Longrightarrow> reads v" by auto
  have "map line_of ts = (indent, head_text key v) # (if is_flat v then [] else block_lines (indent + 2) v) @ concat (map (pair_lines indent) d)"
    using Cons.prems(3) unfolding entry pair_lines_Cons .
  then obtain t ts' where t: "line_of t = (indent, head_text key v)" and "ts = t # ts'"
    and "map line_of ts' = (if is_flat v then [] else block_lines (indent + 2) v) @ concat (map (pair_lines indent) d)"
    by (auto simp only: map_eq_Cons_conv)
  with take_lines obtain us vs where ts: "ts = t # us @ vs"
    and us: "map line_of us = (if is_flat v then [] else block_lines (indent + 2) v)"
    and vs: "map line_of vs = concat (map (pair_lines indent) d)" by blast
  from Cons.prems(4) ts obtain k' where k: "k = Suc k'" "4 * length (us @ vs @ rest) + 4 \<le> k'" by (cases k) auto
  have fresh: "\<not> has_key r key" "put r key v = r @ [(key, v)]"
    using Cons.prems(2) entry by (auto simp: has_key_def intro: put_fresh)
  have more: "yaml_parse k' (Mapping (r @ [(key, v)])) last_line (vs @ rest) indent = Inr (JObj (r @ entry # d), rest)"
    using Cons.IH [of "r @ [(key, v)]" vs k'] Cons.prems(1,2,5) entry vs k by simp
  have t': "token_indent t = indent" "token_content t = head_text key v" using t by (simp_all add: line_of_def)
  show ?case
  proof (cases "is_flat v")
    case True
    then have "us = []" using us by simp
    with True show ?thesis
      using more ts t' k fresh flat_read [OF True ok(2)] pair_flat [OF ok(1) True ok(2)] head_plain(4) [OF ok(1,2)]
      by (simp add: parse_step_def parse_mapping_def Let_def)
  next
    case False
    then obtain c lines where "block_lines (indent + 2) v = (indent + 2, c) # lines" using block_starts [OF ok(2)] by blast
    with us False have below: "nested_below indent (us @ vs @ rest)" and first: "us \<noteq> []"
      by (auto simp: nested_below_def line_of_def map_eq_Cons_conv)
    have stop: "ends (indent + 2) (vs @ rest)"
    proof (cases d)
      case Nil
      with vs Cons.prems(5) show ?thesis using ends_mono [of indent rest "indent + 2"] by simp
    next
      case (Cons e d')
      with vs show ?thesis by (auto simp: ends_def pair_lines_def line_of_def map_eq_Cons_conv)
    qed
    have "yaml_parse k' Block last_line (us @ vs @ rest) (indent + 2) = Inr (v, vs @ rest)"
      using ok(3) [OF False] us False stop k by (simp add: reads_def)
    moreover have "split_pair (head_text key v) n = Inr (key, [])" for n using False pair_read(1) [OF ok(1)] by (simp add: head_text_def)
    ultimately show ?thesis
      using more ts t' k fresh below head_plain(4) [OF ok(1,2)] by (simp add: parse_step_def parse_mapping_def Let_def)
  qed
qed


text \<open>The parts of a tree are read.\<close>

definition parts_read :: "json \<Rightarrow> bool" where
  "parts_read x =
    (case x of
       JObj d \<Rightarrow> list_all (\<lambda>(k, v). \<not> is_flat v \<longrightarrow> reads v) d
     | _ \<Rightarrow> \<not> is_flat x \<longrightarrow> reads x)"

definition item_ok :: "json \<Rightarrow> bool" where
  "item_ok x \<longleftrightarrow> tree_ok x \<and> (case x of JStr s \<Rightarrow> key_prefix s = None | _ \<Rightarrow> True)"

lemma strip_dash: "plain_char (hd c) \<Longrightarrow> plain_char (List.last c) \<Longrightarrow> c \<noteq> [] \<Longrightarrow> strip (tl (''- '' @ c)) = c"
  by (simp add: strip_space)

lemma key_prefix_head: "key_ok k \<Longrightarrow> key_prefix (head_text k v) \<noteq> None"
  using key_prefix_key [of k] by (auto simp: head_text_def)

lemma pair_nested: "key_ok k \<Longrightarrow> \<not> is_flat v \<Longrightarrow> split_pair (head_text k v) n = Inr (k, [])"
  using pair_read(1) by (simp add: head_text_def)

lemma item_reads:
  assumes "item_ok x" and "parts_read x" and "map line_of ts = item_lines indent x" and "4 * length (ts @ rest) \<le> k"
    and "ends (Suc indent) rest"
  shows "\<exists>t us. ts = t # us \<and> token_indent t = indent \<and> startswith (token_content t) ''-''
    \<and> yaml_parse k (Item (strip (tl (token_content t))) n) last_line (us @ rest) indent = Inr (x, rest)"
proof -
  have stop: "ends (indent + 2) rest" using ends_mono [OF assms(5)] by simp
  have ok: "tree_ok x" using assms(1) by (simp add: item_ok_def)
  consider (flat) "is_flat x" | (list) "\<not> is_flat x" "\<forall>d. x \<noteq> JObj d" | (object) d where "x = JObj d" by blast
  then show ?thesis
  proof cases
    case flat
    then obtain t where ts: "ts = [t]" and t: "token_indent t = indent" "token_content t = ''- '' @ flat_text x"
      using assms(3) by (auto simp: item_lines_def line_of_def)
    from assms(4) ts obtain k' where k: "k = Suc k'" by (cases k) auto
    have plain: "key_prefix (flat_text x) = None"
      using assms(1) flat by (cases x) (auto simp: item_ok_def is_flat_def flat_text_def key_prefix_def)
    have "\<not> nested_below indent rest" using assms(5) by (cases rest) (auto simp: ends_def nested_below_def)
    then show ?thesis
      using ts t k plain flat_read [OF flat ok] strip_dash [of "flat_text x"]
      by (auto simp: parse_step_def parse_item_def dash_content)
  next
    case list
    from block_starts [OF ok list(1)] obtain c lines where lines: "block_lines (indent + 2) x = (indent + 2, c) # lines" by blast
    from list have "item_lines indent x = (indent, ''-'') # block_lines (indent + 2) x"
      using ok by (cases x) (auto simp: item_lines_def)
    with assms(3) obtain t us where ts: "ts = t # us" and t: "token_indent t = indent" "token_content t = ''-''"
      and us: "map line_of us = block_lines (indent + 2) x" by (auto simp: map_eq_Cons_conv line_of_def)
    from assms(4) ts obtain k' where k: "k = Suc k'" "4 * length (us @ rest) + 2 \<le> k'" by (cases k) auto
    have "reads x" using assms(2) list by (cases x) (auto simp: parts_read_def)
    then have "yaml_parse k' Block last_line (us @ rest) (indent + 2) = Inr (x, rest)" using us k stop by (simp add: reads_def)
    moreover have "nested_below indent (us @ rest)" using us lines by (auto simp: nested_below_def line_of_def map_eq_Cons_conv)
    ultimately show ?thesis using ts t k by (auto simp: parse_step_def parse_item_def dash_content)
  next
    case (object d)
    with ok obtain key v e where d: "d = (key, v) # e" by (cases d) auto
    have keys: "key_ok key" "tree_ok v" "distinct (map fst d)" using ok object d by auto
    have read: "list_all (\<lambda>(k, v). key_ok k \<and> tree_ok v \<and> (\<not> is_flat v \<longrightarrow> reads v)) d"
      using ok assms(2) object by (auto simp: parts_read_def list_all_iff)
    have "item_lines indent x = (indent, ''- '' @ head_text key v)
        # (if is_flat v then [] else block_lines (indent + 4) v) @ concat (map (pair_lines (indent + 2)) e)"
      unfolding object item_lines_def block_lines_parts d pair_lines_Cons by (simp add: is_flat_def numeral_eq_Suc)
    with assms(3) have "map line_of ts = (indent, ''- '' @ head_text key v)
        # (if is_flat v then [] else block_lines (indent + 4) v) @ concat (map (pair_lines (indent + 2)) e)" by (simp only:)
    from this obtain t ts' where t: "line_of t = (indent, ''- '' @ head_text key v)" and ts': "ts = t # ts'"
      "map line_of ts' = (if is_flat v then [] else block_lines (indent + 4) v) @ concat (map (pair_lines (indent + 2)) e)"
      by (auto simp only: map_eq_Cons_conv)
    from t have t: "token_indent t = indent" "token_content t = ''- '' @ head_text key v" by (simp_all add: line_of_def)
    from take_lines [OF ts'(2)] ts'(1) obtain us vs where ts: "ts = t # us @ vs"
      and us: "map line_of us = (if is_flat v then [] else block_lines (indent + 4) v)"
      and vs: "map line_of vs = concat (map (pair_lines (indent + 2)) e)" by blast
    from assms(4) ts obtain k' where k: "k = Suc k'" "4 * length (us @ vs @ rest) + 2 \<le> k'" by (cases k) auto
    have given: "strip (tl (token_content t)) = head_text key v" using t strip_dash head_plain [OF keys(1,2)] by simp
    have more: "yaml_parse k' (Mapping [(key, v)]) last_line (vs @ rest) (indent + 2) = Inr (x, rest)"
      using mapping_reads [of e "[(key, v)]" vs "indent + 2" rest k'] read keys(3) vs k stop object d by simp
    show ?thesis
    proof (cases "is_flat v")
      case True
      with us have "us = []" by simp
      then show ?thesis
        using ts t k given more True key_prefix_head [OF keys(1)] pair_flat [OF keys(1) True keys(2)] flat_read [OF True keys(2)]
          head_plain(3) [OF keys(1,2)]
        by (auto simp: parse_step_def parse_item_def dash_content)
    next
      case False
      from block_starts [OF keys(2) False] obtain c lines where "block_lines (indent + 4) v = (indent + 4, c) # lines" by blast
      with us False have at: "starts_at (indent + 4) (us @ vs @ rest)" by (auto simp: starts_at_def line_of_def map_eq_Cons_conv)
      have "ends (indent + 4) (vs @ rest)"
      proof (cases e)
        case Nil
        with vs stop show ?thesis using ends_mono [of "indent + 2" rest "indent + 4"] by simp
      next
        case (Cons y z)
        with vs show ?thesis by (auto simp: ends_def pair_lines_def line_of_def map_eq_Cons_conv)
      qed
      moreover have "reads v" using read d False by simp
      ultimately have "yaml_parse k' Block last_line (us @ vs @ rest) (indent + 4) = Inr (v, vs @ rest)"
        using us False k by (simp add: reads_def)
      then show ?thesis
        using ts t k given more at key_prefix_head [OF keys(1)] pair_nested [OF keys(1) False] head_plain(3) [OF keys(1,2)]
        by (auto simp: parse_step_def parse_item_def dash_content)
    qed
  qed
qed

lemma item_starts: "item_ok x \<Longrightarrow> \<exists>c lines. item_lines indent x = (indent, CHR ''-'' # c) # lines"
  using block_starts [of x "indent + 2"] by (cases x) (auto simp: item_lines_def item_ok_def)

lemma sequence_reads:
  assumes "list_all (\<lambda>x. item_ok x \<and> parts_read x) xs" and "map line_of ts = concat (map (item_lines indent) xs)"
    and "4 * length (ts @ rest) + 1 \<le> k" and "ends indent rest"
  shows "yaml_parse k (Sequence items) last_line (ts @ rest) indent = Inr (JArr (items @ xs), rest)"
  using assms
proof (induction xs arbitrary: items ts k)
  case Nil
  then obtain k' where k: "k = Suc k'" by (cases k) auto
  from Nil show ?case unfolding k by (auto simp: parse_step_def parse_sequence_def ends_def Let_def split: list.splits)
next
  case (Cons x xs)
  from Cons.prems(2) have "map line_of ts = item_lines indent x @ concat (map (item_lines indent) xs)" by simp
  from take_lines [OF this] obtain us vs where ts: "ts = us @ vs" and us: "map line_of us = item_lines indent x"
    and vs: "map line_of vs = concat (map (item_lines indent) xs)" by blast
  have ok: "item_ok x" "parts_read x" using Cons.prems(1) by simp_all
  obtain k' where k: "k = Suc k'" "4 * length (us @ vs @ rest) \<le> k'" using Cons.prems(3) ts by (cases k) auto
  have "ends (Suc indent) (vs @ rest)"
  proof (cases xs)
    case Nil
    with vs Cons.prems(4) show ?thesis using ends_mono [of indent rest "Suc indent"] by simp
  next
    case (Cons y ys)
    with Cons.prems(1) obtain c lines where "item_lines indent y = (indent, c) # lines" using item_starts [of y indent] by auto
    with vs Cons show ?thesis by (auto simp: ends_def line_of_def map_eq_Cons_conv)
  qed
  note read = item_reads [OF ok us k(2) this]
  from read obtain t us' where "us = t # us'" by blast
  with read [of "token_line t" last_line] have item: "us = t # us'" "token_indent t = indent"
      "startswith (token_content t) ''-''"
      "yaml_parse k' (Item (strip (tl (token_content t))) (token_line t)) last_line (us' @ vs @ rest) indent = Inr (x, vs @ rest)"
    by simp_all
  have "yaml_parse k' (Sequence (items @ [x])) last_line (vs @ rest) indent = Inr (JArr (items @ x # xs), rest)"
    using Cons.IH [of vs k' "items @ [x]"] Cons.prems(1,4) vs k item(1) by simp
  with item show ?case unfolding k(1) ts by (simp add: parse_step_def parse_sequence_def Let_def)
qed

text \<open>Every plain tree that is not flat is read back from its lines, whatever follows.\<close>

lemma tree_reads: "tree_ok v \<Longrightarrow> \<not> is_flat v \<Longrightarrow> reads v"
proof (induction v rule: measure_induct_rule [of size])
  case (less v)
  show ?case unfolding reads_def
  proof (intro allI impI)
    fix k last_line ts rest indent
    assume ts: "map line_of ts = block_lines indent v" and k: "4 * length (ts @ rest) + 2 \<le> k" and stop: "ends indent rest"
    from k obtain k' where k': "k = Suc k'" "4 * length (ts @ rest) + 1 \<le> k'" by (cases k) auto
    from block_starts [OF less.prems] obtain c lines where first: "block_lines indent v = (indent, c) # lines" by blast
    with ts obtain t us where head: "ts = t # us" "token_indent t = indent" "token_content t = c"
      by (auto simp: map_eq_Cons_conv line_of_def)
    show "yaml_parse k Block last_line (ts @ rest) indent = Inr (v, rest)"
    proof (cases v)
      case (JObj d)
      have read: "list_all (\<lambda>(k, v). key_ok k \<and> tree_ok v \<and> (\<not> is_flat v \<longrightarrow> reads v)) d"
        using less JObj by (auto simp: list_all_iff dest: size_item_value)
      have "c = head_text (fst (hd d)) (snd (hd d))" "key_ok (fst (hd d))" "tree_ok (snd (hd d))"
        using first less.prems JObj by (cases d; auto simp: block_lines_parts pair_lines_def)+
      then have "\<not> startswith c ''-''" using head_plain(4) by simp
      moreover have "yaml_parse k' (Mapping []) last_line (ts @ rest) indent = Inr (JObj d, rest)"
        using mapping_reads [OF read, of "[]" ts indent rest k'] less.prems JObj ts k'(2) stop by (simp add: block_lines_parts)
      ultimately show ?thesis using k'(1) head JObj by (simp add: parse_step_def parse_block_def starts_at_def)
    next
      case (JArr xs)
      have "list_all (\<lambda>x. item_ok x \<and> parts_read x) xs"
        unfolding list_all_iff
      proof
        fix x assume x: "x \<in> set xs"
        with less.prems JArr have ok: "item_ok x" by (auto simp: item_ok_def list_all_iff)
        have small: "size x < size v" using x JArr by (auto simp: less_Suc_eq_le size_list_estimation')
        have "parts_read x"
        proof (cases x)
          case (JObj d)
          have "reads w" if "(k, w) \<in> set d" "\<not> is_flat w" for k w
            using less.IH [of w] that ok small JObj size_item_value [of k w d] by (auto simp: item_ok_def list_all_iff)
          then show ?thesis using JObj by (auto simp: parts_read_def list_all_iff)
        qed (use less.IH [OF small] ok in \<open>auto simp: parts_read_def item_ok_def\<close>)
        with ok show "item_ok x \<and> parts_read x" by simp
      qed
      moreover have "startswith c ''-''"
      proof (cases xs)
        case (Cons y ys)
        with less.prems JArr have "item_ok y" by (auto simp: item_ok_def)
        from item_starts [OF this, of indent] first JArr Cons show ?thesis by (auto simp: block_lines_parts startswith_def)
      qed (use less.prems JArr in \<open>simp add: is_flat_def\<close>)
      moreover have "yaml_parse k' (Sequence []) last_line (ts @ rest) indent = Inr (JArr xs, rest)"
        using sequence_reads [of xs ts indent rest k' "[]"] calculation(1) JArr ts k'(2) stop by (simp add: block_lines_parts)
      ultimately show ?thesis using k'(1) head JArr by (simp add: parse_step_def parse_block_def starts_at_def)
    qed (use less.prems in \<open>simp_all add: is_flat_def\<close>)
  qed
qed


text \<open>The text of plain documents: what is printed line by line and separated by dashes is tokenized, split and parsed back.\<close>

section \<open>Lines\<close>

definition text_char :: "char \<Rightarrow> bool" where
  "text_char c = (32 \<le> byte c \<and> byte c < 127)"

definition marks :: "char set" where "marks = {CHR ''&'', CHR ''*'', CHR ''!''}"

text \<open>What the tokenizer needs of the content of a line.\<close>

definition content_ok :: "string \<Rightarrow> bool" where
  "content_ok c \<longleftrightarrow> c \<noteq> [] \<and> list_all text_char c \<and> plain_char (hd c) \<and> plain_char (List.last c) \<and> hd c \<noteq> CHR ''#''
     \<and> List.last c \<notin> {CHR ''|'', CHR ''>''} \<and> \<not> marker_in True (map (\<lambda>x. [x]) c) \<and> c \<noteq> ''---''"

lemma plain_text: "plain_char c \<Longrightarrow> text_char c"
  by (simp add: plain_char_def text_char_def)

lemma space_single [simp]: "plain_char c \<Longrightarrow> \<not> space_char [c]" "space_char '' ''"
proof -
  show "plain_char c \<Longrightarrow> \<not> space_char [c]" by (simp add: space_char_def strip_plain)
  have "strip '' '' = strip []" by (simp only: strip_def lstrip_space)
  then show "space_char '' ''" by (simp add: space_char_def)
qed

lemma marker_word:
  "list_all plain_char w \<Longrightarrow> marker_in b (map (\<lambda>x. [x]) w @ r) \<longleftrightarrow> b \<and> w \<noteq> [] \<and> hd w \<in> marks \<or> marker_in (b \<and> w = []) r"
proof (induction w arbitrary: b)
  case (Cons c w)
  then have "\<not> space_char [c]" by (simp add: space_single)
  with Cons show ?case by (auto simp: marks_def)
qed simp

lemma marker_space: "marker_in b ('' '' # r) \<longleftrightarrow> marker_in True r"
  by (simp add: space_single)

lemma key_facts:
  assumes "key_ok k"
  shows "list_all plain_char k" and "hd k \<notin> marks" and "hd k \<noteq> CHR ''#''" and "hd k \<noteq> CHR ''-''" and "k \<noteq> []"
proof -
  have k: "k \<noteq> []" "list_all yaml_key_char k" using assms by (simp_all add: key_ok_def)
  then show "list_all plain_char k" using yaml_key_plain by (auto simp: list_all_iff)
  from k have "yaml_key_char (hd k)" by (cases k) simp_all
  then consider "byte_in 65 90 (hd k)" | "byte_in 97 122 (hd k)" | "is_digit (hd k)" | "hd k \<in> set ''_.-''" by (auto simp: yaml_key_char_def)
  then show "hd k \<notin> marks" "hd k \<noteq> CHR ''#''" by (cases; auto simp: marks_def byte_in_def is_digit_def)+
  show "hd k \<noteq> CHR ''-''" "k \<noteq> []" using assms by (simp_all add: key_ok_def)
qed

lemma flat_facts:
  assumes "is_flat v" and "tree_ok v"
  shows "list_all plain_char (flat_text v)" and "flat_text v \<noteq> []" and "hd (flat_text v) \<notin> marks"
    and "List.last (flat_text v) \<notin> {CHR ''|'', CHR ''>''}"
  using assms by (cases v; simp add: is_flat_def flat_text_def plain_scalar_def plain_char_def marks_def)+

lemma head_text_ok:
  assumes "key_ok k" and "tree_ok v"
  shows "list_all text_char (head_text k v)" and "\<not> marker_in True (map (\<lambda>x. [x]) (head_text k v))"
    and "List.last (head_text k v) \<notin> {CHR ''|'', CHR ''>''}" and "hd (head_text k v) \<noteq> CHR ''#''"
proof -
  note key = key_facts [OF assms(1)]
  have plain: "list_all plain_char (k @ '':'')" using key(1) by (simp add: plain_char_def)
  then have word: "list_all text_char (k @ '':'')" by (auto simp: list_all_iff plain_text)
  have mark: "\<not> marker_in True (map (\<lambda>x. [x]) (k @ '':'') @ r)" if "\<not> marker_in False r" for r
    using marker_word [OF plain, of True r] key(2,5) that by (cases k) simp_all
  show "hd (head_text k v) \<noteq> CHR ''#''" using key(3,5) by (cases k) (simp_all add: head_text_def)
  show "list_all text_char (head_text k v)"
    using word flat_facts(1) [OF _ assms(2)] by (force simp: head_text_def list_all_iff text_char_def plain_char_def)
  show "List.last (head_text k v) \<notin> {CHR ''|'', CHR ''>''}"
    using flat_facts(2,4) [OF _ assms(2)] by (auto simp: head_text_def)
  show "\<not> marker_in True (map (\<lambda>x. [x]) (head_text k v))"
  proof (cases "is_flat v")
    case True
    note flat = flat_facts [OF True assms(2)]
    have "\<not> marker_in False ('' '' # map (\<lambda>x. [x]) (flat_text v))"
      unfolding marker_space using marker_word [OF flat(1), of True "[]"] flat(2,3) by simp
    from mark [OF this] True show ?thesis by (simp add: head_text_def)
  next
    case False
    then show ?thesis using mark [of "[]"] by (simp add: head_text_def)
  qed
qed

lemma head_content: "key_ok k \<Longrightarrow> tree_ok v \<Longrightarrow> content_ok (head_text k v)"
  using head_text_ok [of k v] head_plain [of k v] key_facts(4,5) [of k]
  by (cases k) (auto simp: content_ok_def startswith_def head_text_def)

lemma dash_item:
  assumes "content_ok c" and "c \<noteq> ''-''"
  shows "content_ok (''- '' @ c)"
proof -
  have "\<not> marker_in True (map (\<lambda>x. [x]) (''- '' @ c))"
    using assms marker_word [of "''-''" True "'' '' # map (\<lambda>x. [x]) c"] by (simp add: content_ok_def marker_space plain_char_def marks_def)
  moreover have "list_all text_char (''- '' @ c)" using assms(1) by (simp add: content_ok_def text_char_def)
  ultimately show ?thesis using assms(1) by (simp add: content_ok_def plain_char_def)
qed

lemma dash_content_ok: "content_ok ''-''"
  using marker_word [of "''-''" True "[]"] by (simp add: content_ok_def text_char_def plain_char_def marks_def)

lemma dash_flat: "is_flat v \<Longrightarrow> tree_ok v \<Longrightarrow> content_ok (''- '' @ flat_text v)"
  using flat_facts [of v] flat_read [of v 0] marker_word [of "flat_text v" True "[]"]
    marker_word [of "''-''" True "'' '' # map (\<lambda>x. [x]) (flat_text v)"]
  by (auto simp: content_ok_def text_char_def plain_char_def marks_def list_all_iff marker_space)

definition line_ok :: "nat \<times> string \<Rightarrow> bool" where
  "line_ok l = (even (fst l) \<and> content_ok (snd l))"

lemma block_lines_ok: "tree_ok v \<Longrightarrow> even indent \<Longrightarrow> list_all line_ok (block_lines indent v)"
proof (induction v arbitrary: indent rule: measure_induct_rule [of size])
  case (less v)
  show ?case
  proof (cases v)
    case (JArr xs)
    have "list_all line_ok (item_lines indent x)" if x: "x \<in> set xs" for x
    proof -
      have ok: "tree_ok x" using x less.prems JArr by (auto simp: list_all_iff)
      have "size x < size v" using x JArr by (auto simp: less_Suc_eq_le size_list_estimation')
      from less.IH [OF this ok, of "indent + 2"] less.prems(2) have part: "list_all line_ok (block_lines (indent + 2) x)" by simp
      show ?thesis
      proof (cases "is_flat x")
        case True
        then show ?thesis using dash_flat [OF True ok] less.prems(2) by (simp add: item_lines_def line_ok_def)
      next
        case False
        from block_starts [OF ok False] obtain c lines where lines: "block_lines (indent + 2) x = (indent + 2, c) # lines" by blast
        show ?thesis
        proof (cases x)
          case (JObj d)
          with ok obtain k w e where d: "d = (k, w) # e" and kw: "key_ok k" "tree_ok w" by (cases d) auto
          from lines JObj d have "c = head_text k w" by (simp add: block_lines_parts pair_lines_def)
          with dash_item [OF head_content [OF kw]] key_facts(4,5) [OF kw(1)] have "content_ok (''- '' @ c)"
            by (cases k) (auto simp: head_text_def)
          with part lines False JObj less.prems(2) show ?thesis by (simp add: item_lines_def line_ok_def)
        qed (use part lines False less.prems(2) dash_content_ok ok in \<open>simp_all add: item_lines_def line_ok_def\<close>)
      qed
    qed
    with JArr show ?thesis by (auto simp: block_lines_parts list_all_iff)
  next
    case (JObj d)
    have "list_all line_ok (pair_lines indent entry)" if x: "entry \<in> set d" for entry
    proof -
      obtain k w where entry: "entry = (k, w)" by (cases entry)
      have ok: "key_ok k" "tree_ok w" using x entry less.prems JObj by (auto simp: list_all_iff)
      have "size w < size v" using x entry JObj by (auto dest: size_item_value)
      from less.IH [OF this ok(2), of "indent + 2"] less.prems(2) head_content [OF ok] show ?thesis
        unfolding entry pair_lines_def by (simp add: line_ok_def [of "(indent, head_text k w)"])
    qed
    with JObj show ?thesis by (auto simp: block_lines_parts list_all_iff)
  qed simp_all
qed

section \<open>Tokens\<close>

definition line_text :: "nat \<times> string \<Rightarrow> string" where
  "line_text l = replicate (fst l) CHR '' '' @ snd l"

text \<open>A printed line: characters from the blank up, the last one is not the blank.\<close>

definition printed :: "string \<Rightarrow> bool" where
  "printed s \<longleftrightarrow> s \<noteq> [] \<and> list_all text_char s \<and> plain_char (List.last s)"

lemma line_printed: "line_ok l \<Longrightarrow> printed (line_text l)"
  by (auto simp: printed_def line_text_def line_ok_def content_ok_def text_char_def list_all_iff)

lemma rstrip_printed: "printed s \<Longrightarrow> rstrip s = s"
  using rstrip_plain [of "List.last s" "butlast s"] by (simp add: printed_def)

lemma text_no_break: "list_all text_char s \<Longrightarrow> no_break s"
proof (induction s)
  case (Cons c s)
  then have "line_break (c # s) = 0" by (cases s) (auto simp: text_char_def byte_in_def)
  with Cons show ?case by simp
qed simp

lemma lstrip_line: "content_ok c \<Longrightarrow> lstrip (replicate n CHR '' '' @ c) = c"
  using lstrip_plain [of "hd c" "tl c"] by (simp add: content_ok_def lstrip_replicate)

lemma text_ascii: "list_all text_char s \<Longrightarrow> is_ascii s"
  by (auto simp: is_ascii_def list_all_iff text_char_def)

lemma take_spaces:
  assumes "plain_char (hd c)" and "c \<noteq> []"
  shows "takeWhile (\<lambda>x. x = CHR '' '') (replicate n CHR '' '' @ c) = replicate n CHR '' ''"
proof -
  have "hd c \<noteq> CHR '' ''" using assms(1) by (auto simp: plain_char_def)
  with assms(2) have "takeWhile (\<lambda>x. x = CHR '' '') c = []" by (cases c) simp_all
  then show ?thesis by (induction n) simp_all
qed

lemma line_token:
  assumes "line_ok l"
  shows "yaml_line n (line_text l) tokens =
    Inr (tokens @ [\<lparr>token_indent = fst l, token_content = snd l, token_line = n\<rparr>])"
proof -
  obtain i c where l: "l = (i, c)" by (cases l)
  from assms l have c: "content_ok c" "even i" by (simp_all add: line_ok_def)
  then have facts: "c \<noteq> []" "plain_char (hd c)" "list_all text_char c" "\<not> marker_in True (characters c)" "hd c \<noteq> CHR ''#''"
    "\<not> endswith c ''|''" "\<not> endswith c ''>''" "rstrip c = c"
    using text_ascii [of c] rstrip_printed [of c]
    by (auto simp: content_ok_def characters_ascii printed_def endswith_def)
       (cases c rule: rev_cases; simp)+
  have "carries_content (line_text l)"
    using lstrip_line [OF c(1), of i] facts by (cases c) (simp_all add: carries_content_def line_text_def l strip_def startswith_def)
  moreover have "CHR 0x09 \<notin> set (line_text l)" using facts(3) by (auto simp: line_text_def l list_all_iff text_char_def)
  ultimately show ?thesis
    using rstrip_printed [OF line_printed [OF assms]] take_spaces [OF facts(2,1), of i] facts c(2)
    by (simp add: yaml_line_def line_text_def l Let_def)
qed

lemma comment_token: "yaml_line n (CHR ''#'' # s) tokens = Inr tokens"
proof -
  have plain: "plain_char CHR ''#''" by (simp add: plain_char_def)
  from rstrip_rev_keeps [OF this, of "rev s"] obtain u where "rstrip (CHR ''#'' # s) = CHR ''#'' # rev u" by (auto simp: rstrip_def)
  then have "\<not> carries_content (rstrip (CHR ''#'' # s))" using lstrip_plain [OF plain] by (simp add: carries_content_def startswith_def)
  then show ?thesis by (simp add: yaml_line_def Let_def)
qed

abbreviation tokens_from :: "nat \<Rightarrow> string list \<Rightarrow> yaml_token list \<Rightarrow> yaml_token list res" where
  "tokens_from n lines \<equiv> for_each (\<lambda>(n, line) tokens. yaml_line n line tokens) (enumerate n lines)"

lemma lines_tokens:
  "list_all line_ok ls \<Longrightarrow> \<exists>ts. tokens_from n (map line_text ls) tokens = Inr (tokens @ ts) \<and> map line_of ts = ls"
proof (induction ls arbitrary: n tokens)
  case (Cons l ls)
  let ?t = "\<lparr>token_indent = fst l, token_content = snd l, token_line = n\<rparr>"
  from Cons.IH [of "Suc n" "tokens @ [?t]"] Cons.prems obtain ts where
    ts: "tokens_from (Suc n) (map line_text ls) (tokens @ [?t]) = Inr (tokens @ ?t # ts)" "map line_of ts = ls" by auto
  have "tokens_from n (map line_text (l # ls)) tokens = tokens_from (Suc n) (map line_text ls) (tokens @ [?t])"
    using Cons.prems by (simp add: line_token)
  also note ts(1)
  finally have "tokens_from n (map line_text (l # ls)) tokens = Inr (tokens @ ?t # ts)" .
  moreover have "map line_of (?t # ts) = l # ls" using ts(2) by (simp add: line_of_def)
  ultimately have "tokens_from n (map line_text (l # ls)) tokens = Inr (tokens @ ?t # ts) \<and> map line_of (?t # ts) = l # ls" ..
  then show ?case by (rule exI)
qed simp

lemma comments_tokens: "tokens_from n (map ((#) CHR ''#'') cs @ lines) tokens = tokens_from (n + length cs) lines tokens"
  by (induction cs arbitrary: n) (simp_all add: comment_token)

section \<open>Documents\<close>

text \<open>A document is some comments and a mapping.\<close>

type_synonym document = "string list \<times> dict"

definition document_lines :: "document \<Rightarrow> string list" where
  "document_lines doc = map ((#) CHR ''#'') (fst doc) @ map line_text (block_lines 0 (JObj (snd doc)))"

definition document_ok :: "document \<Rightarrow> bool" where
  "document_ok doc \<longleftrightarrow> tree_ok (JObj (snd doc)) \<and> list_all (list_all text_char) (fst doc)
     \<and> (case get (snd doc) ''kind'' of JStr _ \<Rightarrow> True | _ \<Rightarrow> False)"

definition kind_of :: "document \<Rightarrow> string" where
  "kind_of doc = (case get (snd doc) ''kind'' of JStr kind \<Rightarrow> kind | _ \<Rightarrow> [])"

lemma splitlines_join:
  "list_all no_break ws \<Longrightarrow> (ws \<noteq> [] \<Longrightarrow> List.last ws \<noteq> []) \<Longrightarrow> splitlines (join nl ws) = ws"
proof (induction ws rule: induct_list012)
  case 1
  show ?case by (simp add: splitlines_def lines_acc.simps [of "[]" "[]"])
next
  case (2 w)
  have "lines_acc cur w = [rev cur @ w]" if "no_break w" "w \<noteq> [] \<or> cur \<noteq> []" for cur w
    using that
  proof (induction w arbitrary: cur)
    case Nil
    then show ?case by (simp add: lines_acc.simps [of cur "[]"])
  next
    case (Cons c w)
    then show ?case by (simp add: lines_acc.simps [of cur "c # w"])
  qed
  with 2 show ?case by (simp add: splitlines_def)
next
  case (3 w v ws)
  then show ?case by (simp add: splitlines_def nl_def lines_acc_line)
qed

lemma document_facts:
  assumes "document_ok doc"
  shows "document_lines doc \<noteq> []" and "List.last (document_lines doc) \<noteq> []" and "list_all no_break (document_lines doc)"
    and "list_all (\<lambda>l. strip l \<noteq> ''---'') (document_lines doc)" and "worth_keeping (document_lines doc)"
    and "list_all line_ok (block_lines 0 (JObj (snd doc)))" and "block_lines 0 (JObj (snd doc)) \<noteq> []"
proof -
  have ok: "tree_ok (JObj (snd doc))" using assms unfolding document_ok_def by blast
  show lines: "list_all line_ok (block_lines 0 (JObj (snd doc)))" by (rule block_lines_ok [OF ok]) simp
  show some: "block_lines 0 (JObj (snd doc)) \<noteq> []" using block_starts [OF ok, of 0] by (auto simp: is_flat_def)
  then show "document_lines doc \<noteq> []" by (simp add: document_lines_def)
  have printed: "printed (line_text l)" if "l \<in> set (block_lines 0 (JObj (snd doc)))" for l
    using lines that line_printed by (simp add: list_all_iff)
  show "List.last (document_lines doc) \<noteq> []"
    using printed [OF last_in_set [OF some]] some by (simp add: document_lines_def last_map printed_def)
  have comments: "list_all text_char (CHR ''#'' # c)" if "c \<in> set (fst doc)" for c
    using assms that by (simp add: document_ok_def list_all_iff text_char_def)
  show "list_all no_break (document_lines doc)"
    using printed text_no_break [OF comments] by (auto simp: document_lines_def list_all_iff printed_def intro: text_no_break)
  have content: "strip (line_text l) = snd l" "content_ok (snd l)" if "l \<in> set (block_lines 0 (JObj (snd doc)))" for l
  proof -
    show c: "content_ok (snd l)" using lines that by (simp add: list_all_iff line_ok_def)
    then show "strip (line_text l) = snd l"
      using lstrip_line [OF c, of "fst l"] rstrip_printed [of "snd l"] by (simp add: strip_def line_text_def printed_def content_ok_def)
  qed
  have comment: "strip (CHR ''#'' # c) \<noteq> ''---''" for c
  proof -
    have plain: "plain_char CHR ''#''" by (simp add: plain_char_def)
    from rstrip_rev_keeps [OF this, of "rev c"] show ?thesis by (auto simp: strip_def lstrip_plain [OF plain] rstrip_def)
  qed
  show "list_all (\<lambda>l. strip l \<noteq> ''---'') (document_lines doc)"
    using content comment by (auto simp: document_lines_def list_all_iff content_ok_def)
  from some obtain l ls where "block_lines 0 (JObj (snd doc)) = l # ls" by (cases "block_lines 0 (JObj (snd doc))") auto
  then have l: "l \<in> set (block_lines 0 (JObj (snd doc)))" by simp
  have "strip (line_text l) \<noteq> [] \<and> \<not> startswith (lstrip (line_text l)) ''#''"
    using content [OF l] lstrip_line [OF content(2) [OF l], of "fst l"]
    by (cases "snd l") (auto simp: content_ok_def line_text_def startswith_def)
  with l show "worth_keeping (document_lines doc)" by (auto simp: worth_keeping_def document_lines_def list_ex_iff)
qed

lemma document_tokens:
  assumes "document_ok doc"
  shows "\<exists>ts. tokenize (join nl (document_lines doc)) n = Inr ts \<and> map line_of ts = block_lines 0 (JObj (snd doc))"
proof -
  note facts = document_facts [OF assms]
  from lines_tokens [OF facts(6), of "n + length (fst doc)" "[]"] obtain ts where
    "tokens_from (n + length (fst doc)) (map line_text (block_lines 0 (JObj (snd doc)))) [] = Inr ts"
    and ts: "map line_of ts = block_lines 0 (JObj (snd doc))" by auto
  then have "tokens_from n (document_lines doc) [] = Inr ts" by (simp add: document_lines_def comments_tokens)
  moreover have "ts \<noteq> []" using ts facts(7) by auto
  ultimately show ?thesis using ts splitlines_join [OF facts(3)] facts(2) by (simp add: tokenize_def)
qed

lemma reads_whole:
  assumes "reads v" and "map line_of ts = block_lines 0 v"
  shows "yaml_parse (parse_fuel ts) Block last_line ts 0 = Inr (v, [])"
  using assms(1) [unfolded reads_def, rule_format, where rest = "[]" and ts = ts and indent = 0 and k = "parse_fuel ts"] assms(2)
  by (simp add: parse_fuel_def ends_def)

lemma document_parses:
  assumes "document_ok doc" and "kind_of doc \<notin> fst ` set documents"
  shows "parse_document (join nl (document_lines doc), n) documents = Inr (documents @ [(kind_of doc, JObj (snd doc))])"
proof -
  from document_tokens [OF assms(1), of n] obtain ts where
    ts: "tokenize (join nl (document_lines doc)) n = Inr ts" "map line_of ts = block_lines 0 (JObj (snd doc))" by blast
  from assms(1) obtain kind where kind: "get (snd doc) ''kind'' = JStr kind" and ok: "tree_ok (JObj (snd doc))"
    by (cases "get (snd doc) ''kind''") (auto simp: document_ok_def)
  have "reads (JObj (snd doc))" by (rule tree_reads [OF ok]) (simp add: is_flat_def)
  from reads_whole [OF this ts(2)]
  have "yaml_parse (parse_fuel ts) Block (token_line (List.last ts)) ts 0 = Inr (JObj (snd doc), [])" .
  then show ?thesis
    using ts(1) kind assms(2) by (simp add: parse_document_def kind_of_def has_key_def put_fresh image_iff)
qed

section \<open>Streams\<close>

text \<open>Documents with lines of three dashes between them.\<close>

fun stream_lines :: "document list \<Rightarrow> string list" where
  "stream_lines [] = []"
| "stream_lines [doc] = document_lines doc"
| "stream_lines (doc # next_doc # docs) = document_lines doc @ ''---'' # stream_lines (next_doc # docs)"

definition stream_text :: "document list \<Rightarrow> string" where
  "stream_text docs = concat (map (\<lambda>line. line @ [CHR 0x0A]) (stream_lines docs))"

abbreviation split_chunks :: "nat \<Rightarrow> string list \<Rightarrow> chunking \<Rightarrow> chunking" where
  "split_chunks n lines st \<equiv> fold chunk_line (enumerate n lines) st"

definition kept :: "chunking \<Rightarrow> string list" where
  "kept st = map fst (chunks st) @ (if worth_keeping (current_lines st) then [join nl (current_lines st)] else [])"

lemma no_separator:
  "list_all (\<lambda>l. strip l \<noteq> ''---'') ls \<Longrightarrow> current_lines (split_chunks n ls st) = current_lines st @ ls
    \<and> chunks (split_chunks n ls st) = chunks st"
  by (induction ls arbitrary: n st) (simp_all add: chunk_line_def)

lemma split_append: "split_chunks n (ls @ ms) st = split_chunks (n + length ls) ms (split_chunks n ls st)"
  by (induction ls arbitrary: n st) simp_all

lemma stream_chunks:
  "list_all document_ok docs \<Longrightarrow> current_lines st = [] \<Longrightarrow>
    kept (split_chunks n (stream_lines docs) st) = map fst (chunks st) @ map (\<lambda>doc. join nl (document_lines doc)) docs"
proof (induction docs arbitrary: n st rule: stream_lines.induct)
  case 1
  then show ?case by (simp add: kept_def worth_keeping_def)
next
  case (2 doc)
  then show ?case
    using no_separator [OF document_facts(4), of doc n st] document_facts(5) [of doc] by (simp add: kept_def)
next
  case (3 doc next_doc docs)
  then have doc: "document_ok doc" by simp
  let ?st = "split_chunks n (document_lines doc) st"
  let ?after = "chunk_line (n + length (document_lines doc), ''---'') ?st"
  have dashes: "strip ''---'' = ''---''" by (rule strip_plain) (simp add: plain_char_def)
  have "current_lines ?after = [] \<and> map fst (chunks ?after) = map fst (chunks st) @ [join nl (document_lines doc)]"
    using no_separator [OF document_facts(4) [OF doc], of n st] document_facts(5) [OF doc] 3 dashes
    by (simp add: chunk_line_def)
  with 3 show ?case by (simp add: split_append)
qed

lemma stream_splits:
  assumes "list_all document_ok docs"
  shows "map fst (chunks_of (stream_text docs)) = map (\<lambda>doc. join nl (document_lines doc)) docs"
proof -
  have "list_all no_break (stream_lines docs)"
    using assms document_facts(3) by (induction docs rule: stream_lines.induct) (auto simp: byte_in_def)
  then have "splitlines (stream_text docs) = stream_lines docs" by (simp add: stream_text_def splitlines_lines)
  with stream_chunks [OF assms, of "\<lparr>chunks = [], current_lines = [], first_line_of = 1, chunk_start = 1\<rparr>" 1]
  show ?thesis by (auto simp: chunks_of_def kept_def Let_def split: if_splits)
qed

lemma stream_parses:
  "list_all document_ok docs \<Longrightarrow> distinct (map kind_of docs) \<Longrightarrow> \<forall>doc \<in> set docs. kind_of doc \<notin> fst ` set documents
    \<Longrightarrow> map fst cs = map (\<lambda>doc. join nl (document_lines doc)) docs
    \<Longrightarrow> for_each parse_document cs documents = Inr (documents @ map (\<lambda>doc. (kind_of doc, JObj (snd doc))) docs)"
proof (induction docs arbitrary: cs documents)
  case (Cons doc docs)
  then obtain n cs' where cs: "cs = (join nl (document_lines doc), n) # cs'" "map fst cs' = map (\<lambda>doc. join nl (document_lines doc)) docs"
    by (auto simp: map_eq_Cons_conv)
  from Cons.prems have "parse_document (join nl (document_lines doc), n) documents = Inr (documents @ [(kind_of doc, JObj (snd doc))])"
    by (intro document_parses) simp_all
  moreover have "for_each parse_document cs' (documents @ [(kind_of doc, JObj (snd doc))])
      = Inr ((documents @ [(kind_of doc, JObj (snd doc))]) @ map (\<lambda>doc. (kind_of doc, JObj (snd doc))) docs)"
    using Cons.prems cs(2) by (intro Cons.IH) (auto simp: image_iff)
  ultimately show ?case using cs(1) by simp
qed simp

lemma parse_stream:
  "list_all document_ok docs \<Longrightarrow> distinct (map kind_of docs)
    \<Longrightarrow> parse_documents (stream_text docs) = Inr (map (\<lambda>doc. (kind_of doc, JObj (snd doc))) docs)"
  using stream_parses [of docs "[]" "chunks_of (stream_text docs)"] stream_splits [of docs] by (simp add: parse_documents_def)

text \<open>
  C36: The strict parser inverts the printer of plain documents: a stream of documents of different kinds, with comments,
  nested mappings and lists, printed with two spaces a level and separated by dashes, is read as these documents in
  this order.
\<close>

theorem yaml_roundtrip:
  assumes "list_all document_ok docs" and "distinct (map kind_of docs)"
  shows "parse_documents (stream_text docs) = Inr (map (\<lambda>doc. (kind_of doc, JObj (snd doc))) docs)"
  by (rule parse_stream [OF assms])

definition sample_documents :: "document list" where
  "sample_documents =
    [([], [(''kind'', JStr ''InitConfiguration''),
           (''nodeRegistration'', JObj [(''criSocket'', JStr ''unix:///run/containerd.sock''),
             (''kubeletExtraArgs'', JArr [JObj [(''name'', JStr ''node-ip''), (''value'', JStr ''10.0.0.2'')], JStr ''x''])])]),
     (['' second''], [(''apiServer'', JObj [(''taints'', JArr [])]), (''kind'', JStr ''ClusterConfiguration'')])]"

theorem yaml_roundtrip_witness:
  "parse_documents (stream_text sample_documents) = Inr (map (\<lambda>doc. (kind_of doc, JObj (snd doc))) sample_documents)"
proof (rule yaml_roundtrip)
  show "list_all document_ok sample_documents"
    by (simp add: sample_documents_def document_ok_def plain_scalar_def plain_char_def key_ok_def yaml_key_char_def byte_in_def
        is_digit_def text_char_def key_prefix_def)
  show "distinct (map kind_of sample_documents)" by (simp add: sample_documents_def kind_of_def)
qed


end
