(* ===== verification/EncryptionConfig.thy ===== *)
theory EncryptionConfig
  imports StrictYaml PyCodec PrivateFile
begin

text \<open>
  scripts/validate_encryption_config.py: the one accepted encryption configuration of the API server, and
  scripts/generate_encryption_config.py, which renders it from a template and writes it.
\<close>

section \<open>Validation\<close>

definition sentinel :: rx where
  "sentinel = Alt (ci_lit ''REPLACE_'') (ci_lit ''UNRESOLVED'')"

definition sentinel_errors :: "string \<Rightarrow> string list" where
  "sentinel_errors content = (if rx_search sentinel content then [''replacement sentinel remains''] else [])"

definition key_names :: "dict \<Rightarrow> string list" where
  "key_names d = map fst d"

text \<open>The message names what is expected; of the fields found it gives only a number.\<close>

definition exact_keys :: "json \<Rightarrow> string list \<Rightarrow> string \<Rightarrow> string list" where
  "exact_keys v expected label =
    (case v of
       JObj d \<Rightarrow>
         if keys_are d expected then []
         else
           let missing = filter (\<lambda>k. \<not> has_key d k) (sort expected) in
           [label @ '' must contain exactly '' @ join '', '' (sort expected) @ ''; missing ''
            @ (if missing \<noteq> [] then join '', '' missing else ''none'') @ ''; unreviewed field count ''
            @ show_nat (length (remdups (filter (\<lambda>k. k \<notin> set expected) (key_names d))))]
     | _ \<Rightarrow> [label @ '' must be a mapping''])"

definition ENCRYPTION_KIND :: string where "ENCRYPTION_KIND = ''EncryptionConfiguration''"

text \<open>\<open>key-[0-9]{4}-[0-9]{2}\<close> under \<open>fullmatch\<close>.\<close>

definition key_name_text :: "string \<Rightarrow> bool" where
  "key_name_text s =
    (case split_on (CHR ''-'') s of
       [a, b, c] \<Rightarrow> a = ''key'' \<and> length b = 4 \<and> length c = 2 \<and> list_all is_digit (b @ c)
     | _ \<Rightarrow> False)"

definition secret_errors :: "json \<Rightarrow> string list" where
  "secret_errors v =
    (case v of
       JStr secret \<Rightarrow>
         let decoded = (case b64decode secret of Some d \<Rightarrow> d | None \<Rightarrow> []) in
         if length decoded \<noteq> 32 \<or> b64encode decoded \<noteq> secret
         then [''secretbox key must be canonical base64 encoding exactly 32 bytes''] else []
     | _ \<Rightarrow> [''secretbox key must be one base64 scalar''])"

definition key_errors :: "dict \<Rightarrow> string list" where
  "key_errors key =
    exact_keys (JObj key) [''name'', ''secret''] ''secretbox.keys[0]''
    @ (case get key ''name'' of
         JStr name \<Rightarrow> if key_name_text name then [] else [''secretbox key name must use key-YYYY-MM'']
       | _ \<Rightarrow> [''secretbox key name must use key-YYYY-MM''])
    @ secret_errors (get key ''secret'')"

definition secretbox_errors :: "json \<Rightarrow> string list" where
  "secretbox_errors v =
    (if exact_keys v [''keys''] ''secretbox'' \<noteq> [] then exact_keys v [''keys''] ''secretbox''
     else
       case v of
         JObj secretbox \<Rightarrow>
           (case get secretbox ''keys'' of
              JArr [JObj key] \<Rightarrow> key_errors key
            | _ \<Rightarrow> [''secretbox.keys must contain exactly one key''])
       | _ \<Rightarrow> [])"

definition provider_errors :: "json \<Rightarrow> string list" where
  "provider_errors v =
    (case v of
       JArr [first, second] \<Rightarrow>
         (case (first, second) of
            (JObj writer, JObj reader) \<Rightarrow>
              if \<not> keys_are writer [''secretbox''] \<or> \<not> keys_are reader [''identity'']
              then [''providers must contain exactly secretbox first and identity second'']
              else
                (if get reader ''identity'' \<noteq> JStr ''{}''
                 then [''identity fallback must be the empty mapping and appear second''] else [])
                @ secretbox_errors (get writer ''secretbox'')
          | _ \<Rightarrow> [''each provider must be a mapping''])
     | _ \<Rightarrow> [''providers must contain exactly secretbox first and identity second''])"

definition resource_errors :: "json \<Rightarrow> string list" where
  "resource_errors v =
    (case v of
       JArr [JObj rule] \<Rightarrow>
         exact_keys (JObj rule) [''resources'', ''providers''] ''resources[0]''
         @ (if get rule ''resources'' \<noteq> JArr [JStr ''secrets''] then [''resources[0].resources must be exactly [secrets]''] else [])
         @ provider_errors (get rule ''providers'')
     | _ \<Rightarrow> [''resources must contain exactly one resource rule''])"

definition document_errors :: "json \<Rightarrow> string list" where
  "document_errors v =
    exact_keys v [''apiVersion'', ''kind'', ''resources''] ENCRYPTION_KIND
    @ (case v of
         JObj d \<Rightarrow>
           (if get d ''apiVersion'' \<noteq> JStr ''apiserver.config.k8s.io/v1''
            then [''EncryptionConfiguration.apiVersion must be apiserver.config.k8s.io/v1''] else [])
           @ resource_errors (get d ''resources'')
       | _ \<Rightarrow> [])"

definition error_text :: "exc \<Rightarrow> string" where
  "error_text e = (case e of ValueError s \<Rightarrow> s | _ \<Rightarrow> [])"

definition validate_encryption :: "string \<Rightarrow> string list" where
  "validate_encryption content =
    sentinel_errors content
    @ (case parse_documents content of
         Inl e \<Rightarrow> [error_text e]
       | Inr documents \<Rightarrow>
           if \<not> keys_are documents [ENCRYPTION_KIND]
           then [''configuration must contain exactly one EncryptionConfiguration document'']
           else document_errors (get documents ENCRYPTION_KIND))"

text \<open>The file is read as text with newlines translated; bytes that are not UTF-8 raise.\<close>

definition encryption_main :: "string res \<Rightarrow> (nat \<times> string list) res" where
  "encryption_main content =
    (case bind content decode_utf8 of
       Inl e \<Rightarrow> if e = OSError then Inr (1, [''FAIL unable to read encryption config'']) else Inl e
     | Inr found \<Rightarrow>
         let errors = validate_encryption (universal_newlines found) in
         Inr (if errors \<noteq> [] then (1, map (\<lambda>e. ''FAIL '' @ e) errors)
              else (0, [''PASS encryption config is exact: secretbox first, identity read fallback second''])))"

section \<open>Generation\<close>

definition KEY_NAME_SENTINEL :: string where "KEY_NAME_SENTINEL = ''REPLACE_KEY_NAME''"
definition KEY_SENTINEL :: string where "KEY_SENTINEL = ''REPLACE_BASE64_32_BYTE_KEY''"
definition MAX_SOURCE_BYTES :: nat where "MAX_SOURCE_BYTES = 128 * 1024"

text \<open>bootstrap/pi/encryption-config.yaml.example, the template of the repository.\<close>

definition ENCRYPTION_TEMPLATE :: string where
  "ENCRYPTION_TEMPLATE = concat (map (\<lambda>line. line @ nl)
    [''# Never replace these sentinels by hand or print key material in a terminal.'',
     ''# The generator entrypoint is code-blocked until the separately installed'',
     ''# reviewed-blob launcher exists. Do not replace these sentinels before then.'',
     ''apiVersion: apiserver.config.k8s.io/v1'',
     ''kind: EncryptionConfiguration'',
     ''resources:'',
     ''  - resources:'',
     ''      - secrets'',
     ''    providers:'',
     ''      - secretbox:'',
     ''          keys:'',
     ''            - name: REPLACE_KEY_NAME'',
     ''              secret: REPLACE_BASE64_32_BYTE_KEY'',
     ''      - identity: {}''])"

text \<open>\<open>GenerationError\<close> derives from \<open>ValueError\<close> and has no text.\<close>

abbreviation generation_error :: exc where "generation_error \<equiv> ValueError []"

text \<open>\<open>s.count(t)\<close> and \<open>s.replace(t, u)\<close> for a text that is not empty, from left to right.\<close>

function count_text :: "string \<Rightarrow> string \<Rightarrow> nat" where
  "count_text t s =
    (if t = [] \<or> s = [] then 0
     else if startswith s t then Suc (count_text t (drop (length t) s)) else count_text t (tl s))"
  by pat_completeness auto
termination by (relation "measure (\<lambda>(t, s). length s)") auto

function replace_text :: "string \<Rightarrow> string \<Rightarrow> string \<Rightarrow> string" where
  "replace_text t u s =
    (if t = [] \<or> s = [] then s
     else if startswith s t then u @ replace_text t u (drop (length t) s) else hd s # replace_text t u (tl s))"
  by pat_completeness auto
termination by (relation "measure (\<lambda>(t, u, s). length s)") auto

declare count_text.simps [simp del] replace_text.simps [simp del]

text \<open>The validator is the one above when it is loaded from the repository; here it is any.\<close>

definition render_config :: "(string \<Rightarrow> string list) \<Rightarrow> string \<Rightarrow> string \<Rightarrow> string \<Rightarrow> string res" where
  "render_config validator template key_name key_bytes =
    raise_if (\<not> key_name_text key_name \<or> length key_bytes \<noteq> 32) generation_error (
    raise_if (count_text KEY_NAME_SENTINEL template \<noteq> 1 \<or> count_text KEY_SENTINEL template \<noteq> 1) generation_error (
    let rendered = replace_text KEY_SENTINEL (b64encode key_bytes) (replace_text KEY_NAME_SENTINEL key_name template) in
    raise_if (validator rendered \<noteq> []) generation_error (Inr rendered)))"

text \<open>\<open>offer k\<close> is what the k-th read finds.\<close>

function read_source :: "(nat \<Rightarrow> string res) \<Rightarrow> nat \<Rightarrow> string \<Rightarrow> string res" where
  "read_source offer k content =
    bind (offer k) (\<lambda>bytes.
    let chunk = take (min 16384 (MAX_SOURCE_BYTES + 1 - length content)) bytes in
    if chunk = [] then Inr content
    else raise_if (MAX_SOURCE_BYTES < length (content @ chunk)) generation_error (read_source offer (k + 1) (content @ chunk)))"
  by pat_completeness auto
termination
  by (relation "measure (\<lambda>(offer, k, content). MAX_SOURCE_BYTES + 1 - length content)") 
     (auto simp: Let_def neq_Nil_conv min_def raise_if_def split: if_splits)

declare read_source.simps [simp del]

text \<open>Opening without following a link comes before the guarded part.\<close>

record template_file =
  template_opened :: "unit res"
  template_stat :: "os_stat res"
  template_offered :: "nat \<Rightarrow> string res"

definition read_bounded_regular_file :: "template_file \<Rightarrow> string res" where
  "read_bounded_regular_file file =
    bind (template_opened file) (\<lambda>_.
    rewrap (\<lambda>e. e = OSError \<or> e = UnicodeDecodeError) (\<lambda>_. generation_error)
      (bind (template_stat file) (\<lambda>st.
       raise_if (\<not> is_regular st \<or> links st \<noteq> 1) generation_error (
       bind (read_source (template_offered file) 0 []) decode_utf8))))"

text \<open>
  Writing a new file.  \<open>accepted k\<close> is how much of the rest the k-th write takes; the last component of the result says
  whether the path was unlinked.
\<close>

record output_file =
  created_new :: "unit res"
  created_stat :: "os_stat res"
  mode_set :: "unit res"
  accepted :: "nat \<Rightarrow> int res"
  synced :: "unit res"
  final_stat :: "os_stat res"
  path_stat :: "os_stat res"
  unlinked :: "unit res"
  directory_synced :: "unit res"

function write_all :: "(nat \<Rightarrow> int res) \<Rightarrow> nat \<Rightarrow> string \<Rightarrow> unit res" where
  "write_all accept k content =
    (if content = [] then Inr ()
     else bind (accept k) (\<lambda>n. if n \<le> 0 then Inl generation_error else write_all accept (k + 1) (drop (nat n) content)))"
  by pat_completeness auto
termination
  by (relation "measure (\<lambda>(accept, k, content). length content)") auto

declare write_all.simps [simp del]

definition same_file :: "os_stat \<Rightarrow> os_stat \<Rightarrow> bool" where
  "same_file a b = ((device a, inode a) = (device b, inode b))"

definition fill_new_file :: "output_file \<Rightarrow> string \<Rightarrow> os_stat \<Rightarrow> unit res" where
  "fill_new_file file content created =
    raise_if (\<not> is_regular created \<or> links created \<noteq> 1) generation_error (
    bind (mode_set file) (\<lambda>_.
    bind (write_all (accepted file) 0 content) (\<lambda>_.
    bind (synced file) (\<lambda>_.
    bind (final_stat file) (\<lambda>final.
    raise_if (\<not> same_file final created \<or> links final \<noteq> 1) generation_error (Inr ()))))))"

text \<open>The handler removes the path when it still names the file that was created, and ends in \<open>GenerationError\<close>.\<close>

definition abandons :: "exc \<Rightarrow> bool" where "abandons e = (e = OSError \<or> e = generation_error)"

definition removes :: "output_file \<Rightarrow> os_stat \<Rightarrow> bool" where
  "removes file created = (case path_stat file of Inr current \<Rightarrow> same_file current created | Inl _ \<Rightarrow> False)"

definition write_exclusive :: "output_file \<Rightarrow> string \<Rightarrow> unit res \<times> bool" where
  "write_exclusive file content =
    (case bind (created_new file) (\<lambda>_. created_stat file) of
       Inl e \<Rightarrow> (Inl (if abandons e then generation_error else e), False)
     | Inr created \<Rightarrow>
         (case fill_new_file file content created of
            Inl e \<Rightarrow> if abandons e then (Inl generation_error, removes file created \<and> is_ok (unlinked file)) else (Inl e, False)
          | Inr _ \<Rightarrow> (directory_synced file, False)))"

text \<open>The three paths are absolute; \<open>loaded\<close> is the validator, or the error of loading it.\<close>

definition generate_main ::
  "bool \<Rightarrow> (string \<Rightarrow> string list) res \<Rightarrow> template_file \<Rightarrow> output_file \<Rightarrow> string \<Rightarrow> string \<Rightarrow> nat \<times> string list" where
  "generate_main absolute loaded source target key_name random =
    (case raise_if (\<not> absolute) generation_error (
       bind loaded (\<lambda>validator.
       bind (read_bounded_regular_file source) (\<lambda>template.
       bind (render_config validator template key_name random) (\<lambda>rendered. fst (write_exclusive target rendered))))) of
       Inl _ \<Rightarrow> (1, [''FAIL API encryption config generation.''])
     | Inr _ \<Rightarrow> (0, []))"

end
