(* ===== verification/EncryptionProps.thy ===== *)
theory EncryptionProps
  imports YamlRoundtrip EncryptionConfig Kubeconfig
begin

text \<open>
  The encryption configuration: what the generator renders from the template of the repository, that it is
  accepted and read back, and that no message repeats a byte of the configuration.
\<close>

section \<open>Occurrences\<close>

text \<open>The search for words without regard to case, in text of ASCII letters.\<close>

lemma fold_ascii: "byte c < 128 \<Longrightarrow> fold_letter [c] = [PyRegex.lower_char c]"
  by (simp add: fold_letter_def)

lemma ci_lit_runs:
  "is_ascii s \<Longrightarrow> ahead p = map (\<lambda>c. [c]) s \<Longrightarrow>
    runs (ci_lit w) p \<noteq> [] \<longleftrightarrow> startswith (map PyRegex.lower_char s) (map PyRegex.lower_char w)"
proof (induction w arbitrary: s p)
  case Nil
  then show ?case by (simp add: startswith_def)
next
  case (Cons x w)
  show ?case
  proof (cases s)
    case Nil
    with Cons.prems show ?thesis by (simp add: ci_where_def startswith_def)
  next
    case (Cons c t)
    let ?q = "p\<lparr>behind := [c] # behind p, ahead := map (\<lambda>c. [c]) t\<rparr>"
    have "runs (ci_lit w) ?q \<noteq> [] \<longleftrightarrow> startswith (map PyRegex.lower_char t) (map PyRegex.lower_char w)"
      using Cons.IH [of t ?q] Cons Cons.prems(1) by (simp add: is_ascii_def)
    then show ?thesis using Cons Cons.prems by (simp add: ci_where_def fold_ascii is_ascii_def startswith_def)
  qed
qed

lemma search_words:
  assumes "is_ascii s"
  shows "search_from (Alt (ci_lit a) (ci_lit b)) pre (map (\<lambda>c. [c]) s) \<noteq> None \<longleftrightarrow>
    contains (map PyRegex.lower_char s) (map PyRegex.lower_char a) \<or> contains (map PyRegex.lower_char s) (map PyRegex.lower_char b)"
  using assms
proof (induction s arbitrary: pre)
  case Nil
  have "runs (ci_lit w) \<lparr>behind = pre, ahead = [], groups = []\<rparr> \<noteq> [] \<longleftrightarrow> w = []" for w
    using ci_lit_runs [of "[]" "\<lparr>behind = pre, ahead = [], groups = []\<rparr>" w] by (simp add: is_ascii_def startswith_def)
  then have "runs (Alt (ci_lit a) (ci_lit b)) \<lparr>behind = pre, ahead = [], groups = []\<rparr> \<noteq> [] \<longleftrightarrow> a = [] \<or> b = []" by simp
  then show ?case by (auto simp: contains_iff simp del: runs.simps split: list.splits)
next
  case (Cons c s)
  have now: "runs (Alt (ci_lit a) (ci_lit b)) \<lparr>behind = pre, ahead = [c] # map (\<lambda>c. [c]) s, groups = []\<rparr> \<noteq> [] \<longleftrightarrow>
      startswith (map PyRegex.lower_char (c # s)) (map PyRegex.lower_char a) \<or> startswith (map PyRegex.lower_char (c # s)) (map PyRegex.lower_char b)"
    using ci_lit_runs [OF Cons.prems, of "\<lparr>behind = pre, ahead = [c] # map (\<lambda>c. [c]) s, groups = []\<rparr>"] by simp
  have later: "contains (x # y) p \<longleftrightarrow> startswith (x # y) p \<or> contains y p" for x :: char and y p
  proof
    assume "contains (x # y) p"
    then obtain u v where "x # y = u @ p @ v" by (auto simp: contains_iff)
    then show "startswith (x # y) p \<or> contains y p" by (cases u) (auto simp: startswith_def contains_iff)
  next
    assume "startswith (x # y) p \<or> contains y p"
    then show "contains (x # y) p"
    proof
      assume "startswith (x # y) p"
      then have "x # y = [] @ p @ drop (length p) (x # y)" by (metis append_Nil append_take_drop_id startswith_def)
      then show ?thesis unfolding contains_iff by blast
    next
      assume "contains y p"
      then obtain u v where "y = u @ p @ v" by (auto simp: contains_iff)
      then have "x # y = (x # u) @ p @ v" by simp
      then show ?thesis unfolding contains_iff by blast
    qed
  qed
  from Cons.prems have "is_ascii s" by (simp add: is_ascii_def)
  from Cons.IH [OF this, of "[c] # pre"] now show ?case
    by (auto simp: later simp del: runs.simps split: list.splits)
qed

text \<open>A word does not reach over a character it does not have.\<close>

lemma contains_apart:
  assumes "c \<notin> set w" and "w \<noteq> []"
  shows "contains (x @ c # y) w \<longleftrightarrow> contains x w \<or> contains y w"
proof
  assume "contains (x @ c # y) w"
  then obtain u v where uv: "x @ c # y = u @ w @ v" by (auto simp: contains_iff)
  then consider us where "x = u @ us" "us @ c # y = w @ v" | us where "u = x @ us" "c # y = us @ w @ v"
    unfolding append_eq_append_conv2 by blast
  then show "contains x w \<or> contains y w"
  proof cases
    case 1
    from 1(2) consider vs where "us = w @ vs" | vs where "w = us @ vs" "c # y = vs @ v"
      unfolding append_eq_append_conv2 by auto
    then show ?thesis
    proof cases
      case 1
      with \<open>x = u @ us\<close> show ?thesis by (auto simp: contains_iff)
    next
      case 2
      with assms(1) have "vs = []" by (cases vs) auto
      with 2 \<open>x = u @ us\<close> have "x = u @ w @ []" by simp
      then show ?thesis unfolding contains_iff by blast
    qed
  next
    case 2
    with assms show ?thesis by (cases us; cases w) (auto simp: contains_iff)
  qed
next
  assume "contains x w \<or> contains y w"
  then show "contains (x @ c # y) w"
  proof
    assume "contains x w"
    then obtain u v where "x = u @ w @ v" by (auto simp: contains_iff)
    then have "x @ c # y = u @ w @ (v @ c # y)" by simp
    then show ?thesis unfolding contains_iff by blast
  next
    assume "contains y w"
    then obtain u v where "y = u @ w @ v" by (auto simp: contains_iff)
    then have "x @ c # y = (x @ c # u) @ w @ v" by simp
    then show ?thesis unfolding contains_iff by blast
  qed
qed

lemma contains_after: "c \<notin> set w \<Longrightarrow> w \<noteq> [] \<Longrightarrow> contains (c # y) w \<longleftrightarrow> contains y w"
  using contains_apart [of c w "[]" y] by simp

lemma absent: "c \<in> set w \<Longrightarrow> c \<notin> set s \<Longrightarrow> \<not> contains s w"
  by (auto simp: contains_iff)

section \<open>Counting and replacing\<close>

lemma replace_absent: "\<not> contains s t \<Longrightarrow> replace_text t u s = s \<and> count_text t s = 0"
proof (induction s)
  case Nil
  show ?case by (simp add: replace_text.simps [of t u "[]"] count_text.simps [of t "[]"])
next
  case (Cons c s)
  have "\<not> startswith (c # s) t"
  proof
    assume "startswith (c # s) t"
    then have "c # s = [] @ t @ drop (length t) (c # s)" by (metis append_Nil append_take_drop_id startswith_def)
    with Cons.prems show False unfolding contains_iff by blast
  qed
  moreover have "\<not> contains s t"
  proof
    assume "contains s t"
    then obtain x y where "s = x @ t @ y" by (auto simp: contains_iff)
    then have "c # s = (c # x) @ t @ y" by simp
    with Cons.prems show False unfolding contains_iff by blast
  qed
  ultimately show ?case using Cons.IH by (simp add: replace_text.simps [of t u "c # s"] count_text.simps [of t "c # s"])
qed

text \<open>One occurrence, and none that starts before it.\<close>

lemma replace_once:
  assumes "t \<noteq> []" and "\<not> contains (a @ butlast t) t" and "\<not> contains b t"
  shows "replace_text t u (a @ t @ b) = a @ u @ b \<and> count_text t (a @ t @ b) = 1"
  using assms(2)
proof (induction a)
  case Nil
  have "startswith (t @ b) t" by (simp add: startswith_def)
  with assms(1) show ?case
    using replace_absent [OF assms(3)] by (simp add: replace_text.simps [of t u "t @ b"] count_text.simps [of t "t @ b"])
next
  case (Cons c a)
  have "\<not> startswith (c # a @ t @ b) t"
  proof
    assume "startswith (c # a @ t @ b) t"
    moreover have "length t \<le> length (c # a @ butlast t)" using assms(1) by simp
    moreover have "take (length t) (c # a @ t @ b) = take (length t) (c # a @ butlast t)"
    proof -
      have "c # a @ t @ b = (c # a @ butlast t) @ List.last t # b" using assms(1) by simp
      then show ?thesis using \<open>length t \<le> length (c # a @ butlast t)\<close> by (simp only: take_append) simp
    qed
    ultimately have "c # a @ butlast t = [] @ t @ drop (length t) (c # a @ butlast t)"
      by (metis append_Nil append_take_drop_id startswith_def)
    with Cons.prems show False unfolding contains_iff by (metis append_Cons)
  qed
  moreover have "\<not> contains (a @ butlast t) t"
  proof
    assume "contains (a @ butlast t) t"
    then obtain x y where "a @ butlast t = x @ t @ y" by (auto simp: contains_iff)
    then have "(c # a) @ butlast t = (c # x) @ t @ y" by simp
    with Cons.prems show False unfolding contains_iff by blast
  qed
  ultimately show ?case
    using Cons.IH assms(1) by (simp add: replace_text.simps [of t u "c # a @ t @ b"] count_text.simps [of t "c # a @ t @ b"])
qed

section \<open>The template\<close>

definition encryption_document :: "string \<Rightarrow> string \<Rightarrow> dict" where
  "encryption_document name secret =
    [(''apiVersion'', JStr ''apiserver.config.k8s.io/v1''), (''kind'', JStr ENCRYPTION_KIND),
     (''resources'', JArr [JObj [(''resources'', JArr [JStr ''secrets'']),
       (''providers'', JArr [
         JObj [(''secretbox'', JObj [(''keys'', JArr [JObj [(''name'', JStr name), (''secret'', JStr secret)]])])],
         JObj [(''identity'', JStr ''{}'')]])]])]"

definition template_comments :: "string list" where
  "template_comments =
    ['' Never replace these sentinels by hand or print key material in a terminal.'',
     '' The generator entrypoint is code-blocked until the separately installed'',
     '' reviewed-blob launcher exists. Do not replace these sentinels before then.'']"

definition filled_template :: "string \<Rightarrow> string \<Rightarrow> string" where
  "filled_template name secret = stream_text [(template_comments, encryption_document name secret)]"

definition template_head :: string where
  "template_head = concat (map (\<lambda>c. CHR ''#'' # c @ nl) template_comments) @ concat (map (\<lambda>line. line @ nl)
    [''apiVersion: apiserver.config.k8s.io/v1'', ''kind: EncryptionConfiguration'', ''resources:'', ''  - resources:'',
     ''      - secrets'', ''    providers:'', ''      - secretbox:'', ''          keys:'']) @ ''            - name:''"

definition template_middle :: string where "template_middle = ''              secret:''"
definition template_tail :: string where "template_tail = ''      - identity: {}'' @ nl"

lemma filled_text:
  "filled_template name secret =
    template_head @ CHR '' '' # name @ CHR 0x0A # template_middle @ CHR '' '' # secret @ CHR 0x0A # template_tail"
  by (simp add: filled_template_def stream_text_def document_lines_def encryption_document_def block_lines.simps
      head_text_def is_flat_def flat_text_def line_text_def template_comments_def template_head_def template_middle_def
      template_tail_def nl_def ENCRYPTION_KIND_def numeral_eq_Suc)

lemma template_filled: "ENCRYPTION_TEMPLATE = filled_template KEY_NAME_SENTINEL KEY_SENTINEL"
  by (simp add: ENCRYPTION_TEMPLATE_def filled_text template_head_def template_middle_def template_tail_def template_comments_def
      KEY_NAME_SENTINEL_def KEY_SENTINEL_def nl_def)

text \<open>Names and keys.\<close>

definition name_char :: "char \<Rightarrow> bool" where
  "name_char c \<longleftrightarrow> is_digit c \<or> c \<in> set ''key-''"

lemma name_chars:
  assumes "key_name_text name"
  shows "list_all name_char name" and "length name = 11" and "plain_scalar name"
proof -
  have "join [CHR ''-''] (split_on (CHR ''-'') name) = name" by (rule join_split_on)
  with assms obtain b c where name: "name = ''key-'' @ b @ ''-'' @ c" and digits: "length b = 4" "length c = 2" "list_all is_digit (b @ c)"
    by (auto simp: key_name_text_def split: list.splits)
  then show chars: "list_all name_char name" and size: "length name = 11" by (auto simp: name_char_def list_all_iff)
  have "List.last name = List.last c" using name digits(2) by (cases c) auto
  moreover have "is_digit (List.last c)" using digits(2,3) last_in_set [of c] by (cases c) (auto simp: list_all_iff)
  ultimately have "is_digit (List.last name)" by simp
  moreover have "list_all plain_char name"
    using chars by (force simp: list_all_iff name_char_def plain_char_def is_digit_def byte_in_def)
  ultimately show "plain_scalar name" using size by (auto simp: plain_scalar_def name is_digit_def byte_in_def)
qed

lemma encoded_scalar:
  assumes "bytes \<noteq> []"
  shows "plain_scalar (b64encode bytes)"
proof -
  have plain: "plain_char c \<and> c \<notin> {CHR 0x27, CHR 0x22, CHR ''&'', CHR ''*'', CHR ''!'', CHR ''|'', CHR ''>'', CHR ''['', CHR ''_''}"
    if "c \<in> set (b64encode bytes)" for c
  proof -
    from that b64encode_output have "c \<in> b64_output" by blast
    then consider "c = CHR ''=''" | n where "n < 64" "c = b64_char n" by (auto simp: b64_output_def)
    then show ?thesis
    proof cases
      case 1
      then show ?thesis by (simp add: plain_char_def)
    next
      case 2
      then have "b64_value c = Some n" by (simp add: b64_value_char)
      then have "c \<notin> {CHR 0x27, CHR 0x22, CHR ''&'', CHR ''*'', CHR ''!'', CHR ''|'', CHR ''>'', CHR ''['', CHR ''_''}"
        by (auto simp: b64_value_def byte_in_def)
      moreover have "plain_char c" using 2 by (auto simp: b64_char_def plain_char_def)
      ultimately show ?thesis by blast
    qed
  qed
  have some: "b64encode bytes \<noteq> []" using assms by simp
  have "hd (b64encode bytes) \<noteq> CHR ''[''" using plain [OF hd_in_set [OF some]] by blast
  then have "b64encode bytes \<noteq> ''[]''" by auto
  then show ?thesis
    using plain plain [OF hd_in_set [OF some]] plain [OF last_in_set [OF some]] some unfolding plain_scalar_def list_all_iff by blast
qed

lemma encoded_no_underscore: "CHR ''_'' \<notin> set (b64encode bytes)"
proof
  assume "CHR ''_'' \<in> set (b64encode bytes)"
  then have "CHR ''_'' \<in> b64_output" using b64encode_output by blast
  then obtain n where "n < 64" "CHR ''_'' = b64_char n" by (auto simp: b64_output_def)
  then have "b64_value CHR ''_'' = Some n" by (simp add: b64_value_char)
  then show False by (simp add: b64_value_def byte_in_def)
qed

section \<open>Rendering\<close>

lemma filled_document:
  assumes "plain_scalar name" and "plain_scalar secret"
  shows "document_ok (template_comments, encryption_document name secret)"
  using assms
  by (simp add: document_ok_def encryption_document_def template_comments_def text_char_def plain_scalar_def plain_char_def
      key_ok_def yaml_key_char_def byte_in_def is_digit_def ENCRYPTION_KIND_def key_prefix_def)

lemma filled_parses:
  assumes "plain_scalar name" and "plain_scalar secret"
  shows "parse_documents (filled_template name secret) = Inr [(ENCRYPTION_KIND, JObj (encryption_document name secret))]"
  using parse_stream [of "[(template_comments, encryption_document name secret)]"] filled_document [OF assms]
  by (simp add: filled_template_def kind_of_def encryption_document_def)

lemma filled_errors:
  assumes "key_name_text name" and "length bytes = 32"
  shows "document_errors (JObj (encryption_document name (b64encode bytes))) = []"
  using assms
  by (simp add: document_errors_def encryption_document_def exact_keys_def keys_are_def resource_errors_def provider_errors_def
      secretbox_errors_def key_errors_def secret_errors_def ENCRYPTION_KIND_def insert_commute)

abbreviation lowered :: "string \<Rightarrow> string" where "lowered \<equiv> map PyRegex.lower_char"

lemma lower_text: "list_all (\<lambda>c. PyRegex.lower_char c = c) s \<Longrightarrow> lowered s = s"
  by (induction s) simp_all

definition lowered_head :: string where
  "lowered_head = concat (map (\<lambda>c. CHR ''#'' # c @ nl)
    ['' never replace these sentinels by hand or print key material in a terminal.'',
     '' the generator entrypoint is code-blocked until the separately installed'',
     '' reviewed-blob launcher exists. do not replace these sentinels before then.'']) @ concat (map (\<lambda>line. line @ nl)
    [''apiversion: apiserver.config.k8s.io/v1'', ''kind: encryptionconfiguration'', ''resources:'', ''  - resources:'',
     ''      - secrets'', ''    providers:'', ''      - secretbox:'', ''          keys:'']) @ ''            - name:''"

lemma head_lowered: "lowered template_head = lowered_head"
  by (simp add: template_head_def template_comments_def lowered_head_def nl_def PyRegex.lower_char_def byte_in_def, code_simp)

lemma head_resolved: "\<not> contains lowered_head ''unresolved''"
  by (simp add: lowered_head_def nl_def startswith_def)

lemma fixed_ascii: "is_ascii template_head" "is_ascii template_middle" "is_ascii template_tail"
  by (simp_all add: template_head_def template_comments_def template_middle_def template_tail_def nl_def is_ascii_def)

lemma fixed_absent:
  "CHR ''_'' \<notin> set lowered_head" "CHR ''_'' \<notin> set template_head"
  "CHR ''_'' \<notin> set (lowered template_middle)" "CHR ''u'' \<notin> set (lowered template_middle)" "CHR ''_'' \<notin> set template_middle"
  "CHR ''_'' \<notin> set (lowered template_tail)" "CHR ''u'' \<notin> set (lowered template_tail)" "CHR ''_'' \<notin> set template_tail"
  by (simp_all add: template_head_def template_comments_def template_middle_def template_tail_def nl_def lowered_head_def
      PyRegex.lower_char_def byte_in_def)

lemma lower_underscore:
  assumes "PyRegex.lower_char c = CHR ''_''"
  shows "c = CHR ''_''"
proof (cases "byte_in 65 90 c")
  case True
  with assms have "byte (char_of (byte c + 32) :: char) = 95" by (simp add: PyRegex.lower_char_def)
  with True show ?thesis by (simp add: byte_in_def)
qed (use assms in \<open>simp add: PyRegex.lower_char_def\<close>)

lemma fixed_parts:
  "\<not> contains (lowered template_head) ''replace_''" "\<not> contains (lowered template_head) ''unresolved''"
  "\<not> contains (lowered template_middle) ''replace_''" "\<not> contains (lowered template_middle) ''unresolved''"
  "\<not> contains (lowered template_tail) ''replace_''" "\<not> contains (lowered template_tail) ''unresolved''"
  by (rule absent [of "CHR ''_''"] absent [of "CHR ''u''"] head_resolved [folded head_lowered]; use fixed_absent head_lowered in simp)+

lemma sentinel_parts:
  "\<not> contains template_head KEY_NAME_SENTINEL" "\<not> contains template_middle KEY_NAME_SENTINEL"
  "\<not> contains template_tail KEY_NAME_SENTINEL" "\<not> contains KEY_SENTINEL KEY_NAME_SENTINEL"
  "\<not> contains template_head KEY_SENTINEL" "\<not> contains template_middle KEY_SENTINEL" "\<not> contains template_tail KEY_SENTINEL"
  "\<not> contains (butlast KEY_NAME_SENTINEL) KEY_NAME_SENTINEL" "\<not> contains (butlast KEY_SENTINEL) KEY_SENTINEL"
  "\<not> contains KEY_NAME_SENTINEL KEY_SENTINEL"
proof -
  have mark: "CHR ''_'' \<in> set KEY_NAME_SENTINEL" "CHR ''_'' \<in> set KEY_SENTINEL"
    by (simp_all add: KEY_NAME_SENTINEL_def KEY_SENTINEL_def)
  show "\<not> contains template_head KEY_NAME_SENTINEL" "\<not> contains template_middle KEY_NAME_SENTINEL"
    "\<not> contains template_tail KEY_NAME_SENTINEL" "\<not> contains template_head KEY_SENTINEL"
    "\<not> contains template_middle KEY_SENTINEL" "\<not> contains template_tail KEY_SENTINEL"
    using absent mark fixed_absent by blast+
  show "\<not> contains KEY_SENTINEL KEY_NAME_SENTINEL" "\<not> contains (butlast KEY_NAME_SENTINEL) KEY_NAME_SENTINEL"
    "\<not> contains (butlast KEY_SENTINEL) KEY_SENTINEL" "\<not> contains KEY_NAME_SENTINEL KEY_SENTINEL"
    by (simp_all add: KEY_NAME_SENTINEL_def KEY_SENTINEL_def startswith_def)
qed

lemma lower_apart: "PyRegex.lower_char c = c" if "c \<in> {CHR ''_'', CHR '' '', CHR 0x0A}" for c
  using that by (auto simp: PyRegex.lower_char_def byte_in_def)

lemma filled_sentinel:
  assumes "key_name_text name" and "is_ascii secret" and "CHR ''_'' \<notin> set (lowered secret)"
  shows "rx_search sentinel (filled_template name secret) \<longleftrightarrow> contains (lowered secret) ''unresolved''"
proof -
  note chars = name_chars(1) [OF assms(1)]
  have name: "is_ascii name" "CHR ''_'' \<notin> set (lowered name)" "CHR ''u'' \<notin> set (lowered name)"
    using chars by (auto simp: is_ascii_def list_all_iff name_char_def is_digit_def PyRegex.lower_char_def byte_in_def)
  have ascii: "is_ascii (filled_template name secret)"
    using name(1) assms(2) fixed_ascii by (simp add: filled_text is_ascii_def)
  have low: "lowered ''REPLACE_'' = ''replace_''" "lowered ''UNRESOLVED'' = ''unresolved''"
    by (code_simp, code_simp)
  have parts: "contains (lowered (filled_template name secret)) w \<longleftrightarrow>
      contains (lowered template_head) w \<or> contains (lowered name) w \<or> contains (lowered template_middle) w
        \<or> contains (lowered secret) w \<or> contains (lowered template_tail) w"
    if "CHR '' '' \<notin> set w" "CHR 0x0A \<notin> set w" "w \<noteq> []" for w
    unfolding filled_text by (simp only: map_append list.map lower_apart contains_apart [OF that(1,3)] contains_apart [OF that(2,3)] insert_iff simp_thms)
  have "rx_search sentinel (filled_template name secret) \<longleftrightarrow>
      contains (lowered (filled_template name secret)) ''replace_'' \<or> contains (lowered (filled_template name secret)) ''unresolved''"
    using search_words [OF ascii, of "''REPLACE_''" "''UNRESOLVED''" "[]"]
    by (simp only: rx_search_def sentinel_def characters_ascii [OF ascii] low)
  also have "\<dots> \<longleftrightarrow> contains (lowered secret) ''unresolved''"
    using parts [of "''replace_''"] parts [of "''unresolved''"] fixed_parts
      absent [of "CHR ''_''" "''replace_''" "lowered name"] absent [of "CHR ''_''" "''replace_''" "lowered secret"]
      absent [of "CHR ''u''" "''unresolved''" "lowered name"] name(2,3) assms(3) by simp
  finally show ?thesis .
qed

lemma template_filling:
  assumes "key_name_text name" and "\<not> contains secret KEY_SENTINEL"
  shows "replace_text KEY_SENTINEL secret (replace_text KEY_NAME_SENTINEL name ENCRYPTION_TEMPLATE) = filled_template name secret"
    and "count_text KEY_NAME_SENTINEL ENCRYPTION_TEMPLATE = 1" and "count_text KEY_SENTINEL ENCRYPTION_TEMPLATE = 1"
proof -
  have blank: "CHR '' '' \<notin> set KEY_NAME_SENTINEL" "CHR 0x0A \<notin> set KEY_NAME_SENTINEL" "KEY_NAME_SENTINEL \<noteq> []"
      "CHR '' '' \<notin> set KEY_SENTINEL" "CHR 0x0A \<notin> set KEY_SENTINEL" "KEY_SENTINEL \<noteq> []"
    by (simp_all add: KEY_NAME_SENTINEL_def KEY_SENTINEL_def)
  have "CHR ''R'' \<notin> set name" using name_chars(1) [OF assms(1)] by (auto simp: list_all_iff name_char_def is_digit_def byte_in_def)
  then have name: "\<not> contains name KEY_SENTINEL" by (intro absent [of "CHR ''R''"]) (simp_all add: KEY_SENTINEL_def)
  have first: "replace_text KEY_NAME_SENTINEL name ENCRYPTION_TEMPLATE = filled_template name KEY_SENTINEL
      \<and> count_text KEY_NAME_SENTINEL ENCRYPTION_TEMPLATE = 1"
  proof -
    have "\<not> contains ((template_head @ '' '') @ butlast KEY_NAME_SENTINEL) KEY_NAME_SENTINEL"
      using contains_apart [OF blank(1,3), of template_head "butlast KEY_NAME_SENTINEL"] sentinel_parts(1,8) by simp
    moreover have "\<not> contains (CHR 0x0A # template_middle @ CHR '' '' # KEY_SENTINEL @ CHR 0x0A # template_tail) KEY_NAME_SENTINEL"
      using sentinel_parts(2-4)
      by (simp only: contains_after [OF blank(2,3)] contains_apart [OF blank(1,3)] contains_apart [OF blank(2,3)] simp_thms)
    ultimately show ?thesis
      using replace_once [OF blank(3), of "template_head @ '' ''" _ name] by (simp add: template_filled filled_text)
  qed
  then show "count_text KEY_NAME_SENTINEL ENCRYPTION_TEMPLATE = 1" by simp
  have second: "replace_text KEY_SENTINEL secret (filled_template x KEY_SENTINEL) = filled_template x secret
      \<and> count_text KEY_SENTINEL (filled_template x KEY_SENTINEL) = 1" if "\<not> contains x KEY_SENTINEL" for x
  proof -
    have "\<not> contains ((template_head @ CHR '' '' # x @ CHR 0x0A # template_middle @ '' '') @ butlast KEY_SENTINEL) KEY_SENTINEL"
      using contains_apart [OF blank(4,6)] contains_apart [OF blank(5,6)] sentinel_parts(5,6,9) that by simp
    moreover have "\<not> contains (CHR 0x0A # template_tail) KEY_SENTINEL"
      using sentinel_parts(7) by (simp only: contains_after [OF blank(5,6)] simp_thms)
    ultimately show ?thesis
      using replace_once [OF blank(6), of "template_head @ CHR '' '' # x @ CHR 0x0A # template_middle @ '' ''" _ secret]
      by (simp add: filled_text)
  qed
  show "count_text KEY_SENTINEL ENCRYPTION_TEMPLATE = 1"
    using second [OF sentinel_parts(10)] by (simp add: template_filled)
  show "replace_text KEY_SENTINEL secret (replace_text KEY_NAME_SENTINEL name ENCRYPTION_TEMPLATE) = filled_template name secret"
    using first second [OF name] by simp
qed

text \<open>
  C37: What the generator renders from the template of the repository, for the validator beside it: exactly when the name
  is key-YYYY-MM, the key has 32 bytes and its base64 text does not spell UNRESOLVED, the result is the template with
  both sentinels replaced, and the strict parser reads back from it the one document with that name and that
  base64 text.
\<close>

theorem generated_config_accepted:
  "(if key_name_text name \<and> length bytes = 32 \<and> \<not> contains (map PyRegex.lower_char (b64encode bytes)) ''unresolved''
    then render_config validate_encryption ENCRYPTION_TEMPLATE name bytes = Inr (filled_template name (b64encode bytes))
      \<and> parse_documents (filled_template name (b64encode bytes)) =
        Inr [(ENCRYPTION_KIND, JObj (encryption_document name (b64encode bytes)))]
    else render_config validate_encryption ENCRYPTION_TEMPLATE name bytes = Inl (ValueError []))"
proof (cases "key_name_text name \<and> bytes \<noteq> []")
  case True
  then have name: "key_name_text name" by simp
  have secret: "is_ascii (b64encode bytes)" using b64encode_chars by (auto simp: is_ascii_def list_all_iff)
  have "CHR ''_'' \<notin> set (lowered (b64encode bytes))"
    using encoded_no_underscore [of bytes] by (metis imageE list.set_map lower_underscore)
  note flagged = filled_sentinel [OF name secret this]
  have "CHR ''_'' \<in> set KEY_SENTINEL" by (simp add: KEY_SENTINEL_def)
  then have "\<not> contains (b64encode bytes) KEY_SENTINEL" using absent encoded_no_underscore by blast
  note filling = template_filling [OF name this]
  have read: "parse_documents (filled_template name (b64encode bytes)) = Inr [(ENCRYPTION_KIND, JObj (encryption_document name (b64encode bytes)))]"
    using True name_chars(3) encoded_scalar by (intro filled_parses) simp_all
  then have "validate_encryption (filled_template name (b64encode bytes)) = sentinel_errors (filled_template name (b64encode bytes))"
    if "length bytes = 32"
    using that True filled_errors [of name bytes] by (simp add: validate_encryption_def keys_are_def)
  with True read flagged filling show ?thesis by (auto simp: render_config_def sentinel_errors_def Let_def raise_if_def)
next
  case False
  then show ?thesis by (auto simp: render_config_def)
qed

section \<open>Messages\<close>

text \<open>What the parser can say: a fixed text, a line number, a fixed text.\<close>

definition SYNTAX_MESSAGES :: "(string \<times> string) list" where
  "SYNTAX_MESSAGES =
    [(''empty scalar at line '', []), (''unterminated quoted scalar at line '', []), (''inline comments are unsupported at line '', []),
     (''tabs are unsupported at line '', []), (''indentation must use two-space levels at line '', []),
     (''advanced YAML features are unsupported at line '', []), (''unsupported mapping syntax at line '', []),
     (''unexpected indentation near line '', []), (''unexpected indentation at line '', []), (''duplicate mapping key at line '', []),
     (''mapping key has no value at line '', []), (''empty sequence item at line '', []),
     (''nested sequence value has invalid indentation at line '', []), (''scalar sequence item has nested content at line '', []),
     (''unsupported sequence indentation at line '', []), (''duplicate document kind at line '', []),
     (''document at line '', '' is not one mapping''), (''document at line '', '' has no scalar kind'')]"

definition syntax_message :: "string \<Rightarrow> bool" where
  "syntax_message e \<longleftrightarrow> e = ''empty YAML document'' \<or> (\<exists>(a, b) \<in> set SYNTAX_MESSAGES. \<exists>n. e = a @ show_nat n @ b)"

definition syntactic :: "exc \<Rightarrow> bool" where
  "syntactic e \<longleftrightarrow> e = RecursionError \<or> (\<exists>s. e = ValueError s \<and> syntax_message s)"

lemma syntactic_message: "(a, b) \<in> set SYNTAX_MESSAGES \<Longrightarrow> syntactic (ValueError (a @ show_nat n @ b))"
  by (auto simp: syntactic_def syntax_message_def)

lemma syntactic_error: "(a, []) \<in> set SYNTAX_MESSAGES \<Longrightarrow> syntactic (syntax_error a n)"
  using syntactic_message [of a "[]" n] by (simp only: append_Nil2 syntax_error_def)

lemma syntactic_scalar: "strip_scalar given n = Inl e \<Longrightarrow> syntactic e" "split_pair given n = Inl e \<Longrightarrow> syntactic e"
  by (auto simp: strip_scalar_def split_pair_def Let_def SYNTAX_MESSAGES_def intro!: syntactic_error split: if_splits list.splits option.splits)

definition only_syntactic :: "'a res \<Rightarrow> bool" where
  "only_syntactic r = (case r of Inl e \<Rightarrow> syntactic e | Inr _ \<Rightarrow> True)"

lemma only_syntactic_simps [simp]:
  "only_syntactic (Inl e) \<longleftrightarrow> syntactic e" "only_syntactic (Inr x)" "syntactic RecursionError"
  by (simp_all add: only_syntactic_def syntactic_def)

lemma only_syntactic_bind: "only_syntactic m \<Longrightarrow> (\<And>x. only_syntactic (f x)) \<Longrightarrow> only_syntactic (bind m f)"
  by (cases m) simp_all

lemma only_syntactic_raise: "(c \<Longrightarrow> syntactic e) \<Longrightarrow> only_syntactic r \<Longrightarrow> only_syntactic (raise_if c e r)"
  by (simp add: raise_if_def)

lemma only_syntactic_scalar: "only_syntactic (strip_scalar given n)" "only_syntactic (split_pair given n)"
  using syntactic_scalar by (auto simp: only_syntactic_def split: sum.splits)

lemma only_syntactic_loop: "(\<And>x s. only_syntactic (f x s)) \<Longrightarrow> only_syntactic (for_each f xs s)"
  by (induction xs arbitrary: s) (auto intro: only_syntactic_bind)

lemmas syntactic_rules = only_syntactic_bind only_syntactic_raise only_syntactic_scalar syntactic_error

lemma parse_messages: "only_syntactic (yaml_parse k task last_line ts indent)"
proof (induction k arbitrary: task ts indent)
  case (Suc k)
  show ?case
  proof (cases task)
    case Block
    then show ?thesis
      using Suc by (auto simp: parse_step_def parse_block_def SYNTAX_MESSAGES_def intro!: syntactic_rules)
  next
    case (Mapping result)
    then show ?thesis
      using Suc by (auto simp: parse_step_def parse_mapping_def SYNTAX_MESSAGES_def Let_def intro!: syntactic_rules split: list.splits prod.splits)
  next
    case (Sequence items)
    then show ?thesis
      using Suc by (auto simp: parse_step_def parse_sequence_def SYNTAX_MESSAGES_def Let_def intro!: syntactic_rules split: list.splits prod.splits)
  next
    case (Item given n)
    then show ?thesis
      using Suc by (auto simp: parse_step_def parse_item_def SYNTAX_MESSAGES_def intro!: syntactic_rules split: prod.splits)
  qed
qed simp

lemma document_messages: "only_syntactic (parse_document part documents)"
proof -
  have lines: "only_syntactic (yaml_line n line tokens)" for n line tokens
    by (auto simp: yaml_line_def Let_def SYNTAX_MESSAGES_def intro!: syntactic_rules)
  have empty: "syntactic (ValueError ''empty YAML document'')" by (simp add: syntactic_def syntax_message_def)
  have "only_syntactic (tokenize content n)" for content n
    using lines empty unfolding tokenize_def by (auto intro!: syntactic_rules only_syntactic_loop)
  moreover have "(''document at line '', '' is not one mapping'') \<in> set SYNTAX_MESSAGES"
    "(''document at line '', '' has no scalar kind'') \<in> set SYNTAX_MESSAGES"
    "(''duplicate document kind at line '', []) \<in> set SYNTAX_MESSAGES" by (simp_all add: SYNTAX_MESSAGES_def)
  ultimately show ?thesis
    unfolding parse_document_def Let_def
    by (auto intro!: syntactic_rules parse_messages syntactic_message split: prod.splits json.splits simp del: append.simps)
qed

lemma documents_messages: "parse_documents content = Inl e \<Longrightarrow> syntactic e"
  using only_syntactic_loop [of parse_document "chunks_of content" "[]"] document_messages by (simp add: parse_documents_def)

text \<open>The fuel is enough, so the parser always ends with a document or a syntax error.\<close>

lemma document_returns: "parse_document part documents \<noteq> Inl RecursionError"
proof
  assume stuck: "parse_document part documents = Inl RecursionError"
  obtain content n where part: "part = (content, n)" by (cases part)
  have lines: "for_each (\<lambda>(n, line) tokens. yaml_line n line tokens) numbered tokens \<noteq> Inl RecursionError" for numbered tokens
    by (induction numbered arbitrary: tokens)
       (auto simp: yaml_line_def Let_def syntax_error_def raise_if_def bind_eq_Inl split: prod.splits if_splits)
  have tokens: "tokenize content n \<noteq> Inl RecursionError"
    using lines by (auto simp: tokenize_def bind_eq_Inl raise_if_def split: if_splits)
  show False
  proof (cases "tokenize content n")
    case (Inr ts)
    have "never_exhausted ts (yaml_parse (parse_fuel ts) Block (token_line (List.last ts)) ts 0)"
      by (rule fuel_suffices) (simp add: task_need_def parse_fuel_def)
    with stuck Inr part show False
      by (auto simp: parse_document_def never_exhausted_def syntax_error_def raise_if_def bind_eq_Inl
          split: sum.splits prod.splits json.splits if_splits)
  qed (use tokens stuck part in \<open>simp add: parse_document_def\<close>)
qed

lemma documents_return: "parse_documents content = Inl e \<Longrightarrow> \<exists>s. e = ValueError s \<and> syntax_message s"
proof -
  assume e: "parse_documents content = Inl e"
  have "for_each parse_document parts documents \<noteq> Inl RecursionError" for parts documents
    using document_returns by (induction parts arbitrary: documents) (auto simp: bind_eq_Inl)
  with e have "e \<noteq> RecursionError" by (auto simp: parse_documents_def)
  with documents_messages [OF e] show ?thesis by (auto simp: syntactic_def)
qed

text \<open>What the validator can say: fixed texts, and the fields of one of four mappings that are missing, with a number.\<close>

definition VALIDATOR_MESSAGES :: "string list" where
  "VALIDATOR_MESSAGES =
    [''replacement sentinel remains'', ''configuration must contain exactly one EncryptionConfiguration document'',
     ''EncryptionConfiguration.apiVersion must be apiserver.config.k8s.io/v1'', ''resources must contain exactly one resource rule'',
     ''resources[0].resources must be exactly [secrets]'', ''providers must contain exactly secretbox first and identity second'',
     ''each provider must be a mapping'', ''identity fallback must be the empty mapping and appear second'',
     ''secretbox must be a mapping'', ''secretbox.keys must contain exactly one key'',
     ''secretbox key name must use key-YYYY-MM'', ''secretbox key must be one base64 scalar'',
     ''secretbox key must be canonical base64 encoding exactly 32 bytes'']"

definition REVIEWED_FIELDS :: "(string \<times> string list) list" where
  "REVIEWED_FIELDS =
    [(''EncryptionConfiguration'', [''apiVersion'', ''kind'', ''resources'']), (''resources[0]'', [''providers'', ''resources'']),
     (''secretbox'', [''keys'']), (''secretbox.keys[0]'', [''name'', ''secret''])]"

definition fields_message :: "string \<Rightarrow> string list \<Rightarrow> string list \<Rightarrow> nat \<Rightarrow> string" where
  "fields_message label expected missing n =
    label @ '' must contain exactly '' @ join '', '' expected @ ''; missing ''
    @ (if missing \<noteq> [] then join '', '' missing else ''none'') @ ''; unreviewed field count '' @ show_nat n"

definition validator_message :: "string \<Rightarrow> bool" where
  "validator_message e \<longleftrightarrow> e \<in> set VALIDATOR_MESSAGES \<or> syntax_message e
     \<or> (\<exists>(label, expected) \<in> set REVIEWED_FIELDS. \<exists>missing \<in> set (subseqs expected). \<exists>n. e = fields_message label expected missing n)"

lemma fixed_message: "e \<in> set VALIDATOR_MESSAGES \<Longrightarrow> validator_message e"
  by (simp add: validator_message_def)

lemma exact_messages:
  assumes "(label, sort expected) \<in> set REVIEWED_FIELDS" and "e \<in> set (exact_keys (JObj d) expected label)"
  shows "validator_message e"
proof -
  let ?missing = "filter (\<lambda>k. \<not> has_key d k) (sort expected)"
  have "subseq ?missing (sort expected)" by (rule subseq_filter_left)
  then have "?missing \<in> set (subseqs (sort expected))" by simp
  moreover have "\<exists>n. e = fields_message label (sort expected) ?missing n"
    using assms(2) by (auto simp: exact_keys_def fields_message_def Let_def split: if_splits)
  ultimately show ?thesis using assms(1) unfolding validator_message_def by blast
qed

abbreviation said :: "string list \<Rightarrow> bool" where "said \<equiv> list_all validator_message"

lemma said_exact: "(label, sort expected) \<in> set REVIEWED_FIELDS \<Longrightarrow> said (exact_keys (JObj d) expected label)"
  using exact_messages by (auto simp: list_all_iff)

lemma fixed_messages [simp]: "list_all validator_message VALIDATOR_MESSAGES"
  using fixed_message by (auto simp: list_all_iff)

lemmas fixed_texts [simp] = fixed_messages [unfolded VALIDATOR_MESSAGES_def list.pred_inject, simplified]

lemma said_key: "said (key_errors key)"
proof -
  have "said (exact_keys (JObj key) [''name'', ''secret''] ''secretbox.keys[0]'')"
    by (rule said_exact) (simp add: REVIEWED_FIELDS_def)
  moreover have "said (secret_errors v)" for v by (cases v) (simp_all add: secret_errors_def Let_def)
  ultimately show ?thesis unfolding key_errors_def by (auto split: json.splits)
qed

lemma said_secretbox: "said (secretbox_errors v)"
proof -
  have fields: "said (exact_keys (JObj d) [''keys''] ''secretbox'')" for d by (rule said_exact) (simp add: REVIEWED_FIELDS_def)
  have "said (exact_keys v [''keys''] ''secretbox'')"
    using fields by (cases v) (simp_all add: exact_keys_def)
  then show ?thesis unfolding secretbox_errors_def by (auto simp: said_key split: json.splits list.splits)
qed

lemma said_provider: "said (provider_errors v)"
  unfolding provider_errors_def by (auto simp: said_secretbox split: json.splits list.splits)

lemma said_resource: "said (resource_errors v)"
proof -
  have "said (exact_keys (JObj d) [''resources'', ''providers''] ''resources[0]'')" for d
    by (rule said_exact) (simp add: REVIEWED_FIELDS_def)
  then show ?thesis unfolding resource_errors_def by (auto simp: said_provider split: json.splits list.splits)
qed

lemma said_document: "said (document_errors (JObj d))"
proof -
  have "said (exact_keys (JObj d) [''apiVersion'', ''kind'', ''resources''] ENCRYPTION_KIND)"
    by (rule said_exact) (simp add: REVIEWED_FIELDS_def ENCRYPTION_KIND_def)
  then show ?thesis unfolding document_errors_def by (simp add: said_resource)
qed

lemma documents_mappings:
  assumes "parse_documents content = Inr documents"
  shows "list_all (\<lambda>(k, v). \<exists>d. v = JObj d) documents"
  using assms unfolding parse_documents_def
proof (rule for_each_invariant [where I = "list_all (\<lambda>(k, v). \<exists>d. v = JObj d)"])
  fix part :: "string \<times> nat" and documents :: dict and later :: dict
  assume step: "parse_document part documents = Inr later" and ok: "list_all (\<lambda>(k, v). \<exists>d. v = JObj d) documents"
  then obtain k d where "later = put documents k (JObj d)"
    by (auto simp: parse_document_def split: prod.splits json.splits if_splits)
  with ok show "list_all (\<lambda>(k, v). \<exists>d. v = JObj d) later"
    by (induction documents k "JObj d" arbitrary: later rule: put.induct) auto
qed simp

text \<open>
  C38: No message of the validator repeats anything of the inspected file, which holds the secretbox key: whatever the
  content, every message is one of the fixed texts, a fixed syntax complaint with a line number, or names the expected
  fields of one of four mappings, which of them are missing, and a count.
\<close>

theorem diagnostics_closed: "list_all validator_message (validate_encryption content)"
proof -
  have first: "said (sentinel_errors content)" by (simp add: sentinel_errors_def)
  show ?thesis
  proof (cases "parse_documents content")
    case (Inl e)
    with documents_return obtain s where "e = ValueError s" "syntax_message s" by blast
    with Inl first show ?thesis by (simp add: validate_encryption_def error_text_def validator_message_def)
  next
    case (Inr documents)
    show ?thesis
    proof (cases "keys_are documents [ENCRYPTION_KIND]")
      case True
      then have "ENCRYPTION_KIND \<in> fst ` set documents" by (simp add: keys_are_def)
      then obtain w where "map_of documents ENCRYPTION_KIND = Some w" by (metis map_of_eq_None_iff not_None_eq)
      with documents_mappings [OF Inr] obtain d where "get documents ENCRYPTION_KIND = JObj d"
        by (fastforce simp: get_def list_all_iff dest: map_of_SomeD)
      with Inr True first show ?thesis by (simp add: validate_encryption_def said_document)
    qed (use Inr first in \<open>simp add: validate_encryption_def\<close>)
  qed
qed

end
