(* ===== verification/Kubeadm.thy ===== *)
theory Kubeadm
  imports StrictYaml PyAddress
begin

text \<open>
  scripts/validate_kubeadm_config.py, the validation: the pins, the private addresses and networks, and the checks of the
  four documents.  The messages are collected; an unhashable proxy mode raises \<open>TypeError\<close>.
\<close>

section \<open>Pins\<close>

definition CRI_SOCKET :: string where "CRI_SOCKET = ''unix:///run/containerd/containerd.sock''"
definition KUBERNETES_VERSION :: string where "KUBERNETES_VERSION = ''v1.36.4''"
definition IMAGE_REPOSITORY :: string where "IMAGE_REPOSITORY = ''registry.k8s.io''"

definition API_SERVER_ARGS :: "(string \<times> string) list" where
  "API_SERVER_ARGS =
    [(''admission-control-config-file'', ''/etc/kubernetes/admission/psa.yaml''),
     (''audit-policy-file'', ''/etc/kubernetes/audit/audit-policy.yaml''),
     (''audit-log-path'', ''/var/log/kubernetes/audit/audit.log''),
     (''audit-log-maxage'', ''30''),
     (''audit-log-maxbackup'', ''10''),
     (''audit-log-maxsize'', ''100''),
     (''encryption-provider-config'', ''/etc/kubernetes/encryption/encryption-config.yaml''),
     (''encryption-provider-config-automatic-reload'', ''true''),
     (''service-account-extend-token-expiration'', ''false'')]"

definition API_SERVER_VOLUMES :: "(string \<times> (string \<times> string) list) list" where
  "API_SERVER_VOLUMES =
    [(''psa-config'',
       [(''hostPath'', ''/etc/kubernetes/admission/psa.yaml''), (''mountPath'', ''/etc/kubernetes/admission/psa.yaml''),
        (''readOnly'', ''true''), (''pathType'', ''File'')]),
     (''audit-policy'',
       [(''hostPath'', ''/etc/kubernetes/audit/audit-policy.yaml''), (''mountPath'', ''/etc/kubernetes/audit/audit-policy.yaml''),
        (''readOnly'', ''true''), (''pathType'', ''File'')]),
     (''audit-log'',
       [(''hostPath'', ''/var/log/kubernetes/audit''), (''mountPath'', ''/var/log/kubernetes/audit''),
        (''readOnly'', ''false''), (''pathType'', ''DirectoryOrCreate'')]),
     (''encryption-config'',
       [(''hostPath'', ''/etc/kubernetes/encryption/encryption-config.yaml''),
        (''mountPath'', ''/etc/kubernetes/encryption/encryption-config.yaml''),
        (''readOnly'', ''true''), (''pathType'', ''File'')])]"

definition ETCD_ARGS :: "(string \<times> string) list" where
  "ETCD_ARGS =
    [(''auto-compaction-mode'', ''periodic''), (''auto-compaction-retention'', ''1h''), (''quota-backend-bytes'', ''8589934592'')]"

definition DOCUMENT_KEYS :: "(string \<times> string list) list" where
  "DOCUMENT_KEYS =
    [(''InitConfiguration'', [''apiVersion'', ''kind'', ''localAPIEndpoint'', ''nodeRegistration'']),
     (''ClusterConfiguration'',
       [''apiVersion'', ''kind'', ''clusterName'', ''kubernetesVersion'', ''controlPlaneEndpoint'', ''imageRepository'',
        ''certificatesDir'', ''networking'', ''apiServer'', ''etcd'']),
     (''KubeletConfiguration'',
       [''apiVersion'', ''kind'', ''cgroupDriver'', ''failSwapOn'', ''failCgroupV1'', ''protectKernelDefaults'',
        ''readOnlyPort'', ''authentication'', ''authorization'', ''rotateCertificates'', ''seccompDefault'',
        ''serverTLSBootstrap'', ''enforceNodeAllocatable'', ''containerLogMaxFiles'', ''containerLogMaxSize'']),
     (''KubeProxyConfiguration'', [''apiVersion'', ''kind'', ''mode'', ''clusterCIDR'', ''detectLocalMode''])]"

definition EXPECTED_DOCUMENTS :: "(string \<times> string) list" where
  "EXPECTED_DOCUMENTS =
    [(''InitConfiguration'', ''kubeadm.k8s.io/v1beta4''), (''ClusterConfiguration'', ''kubeadm.k8s.io/v1beta4''),
     (''KubeletConfiguration'', ''kubelet.config.k8s.io/v1beta1''),
     (''KubeProxyConfiguration'', ''kubeproxy.config.k8s.io/v1alpha1'')]"

section \<open>Private networks\<close>

text \<open>\<open>ip_network(text, strict=True)\<close> for IPv4: the octets of the network address and the prefix length.\<close>

record ip_network =
  network_octets :: "nat list"
  network_prefix :: nat

definition ip_int :: "nat list \<Rightarrow> nat" where
  "ip_int octets = foldl (\<lambda>n x. n * 256 + x) 0 octets"

text \<open>A mask is a prefix length, or an address with ones before zeros or zeros before ones.\<close>

definition prefix_of_mask :: "string \<Rightarrow> nat option" where
  "prefix_of_mask s =
    (if s \<noteq> [] \<and> list_all is_digit s \<and> read_nat s \<le> 32 then Some (read_nat s)
     else
       case ipv4_of s of
         None \<Rightarrow> None
       | Some octets \<Rightarrow>
           (case List.find (\<lambda>p. ip_int octets = 2 ^ 32 - 2 ^ (32 - p)) [0..<33] of
              Some p \<Rightarrow> Some p
            | None \<Rightarrow> List.find (\<lambda>p. ip_int octets = 2 ^ (32 - p) - 1) [0..<33]))"

text \<open>The address and the prefix length of a text.\<close>

definition network_parts :: "string \<Rightarrow> (nat list \<times> nat) option" where
  "network_parts s =
    (let found =
       (case split_on (CHR ''/'') s of
          [address] \<Rightarrow> Some (address, Some 32)
        | [address, given] \<Rightarrow> Some (address, prefix_of_mask given)
        | _ \<Rightarrow> None) in
     case found of
       Some (address, Some p) \<Rightarrow> map_option (\<lambda>octets. (octets, p)) (ipv4_of address)
     | _ \<Rightarrow> None)"

definition ip_network_of :: "string \<Rightarrow> ip_network option" where
  "ip_network_of s =
    (case network_parts s of
       Some (octets, p) \<Rightarrow>
         if ip_int octets mod 2 ^ (32 - p) = 0 then Some \<lparr>network_octets = octets, network_prefix = p\<rparr> else None
     | None \<Rightarrow> None)"

definition network_address :: "ip_network \<Rightarrow> nat" where
  "network_address n = ip_int (network_octets n)"

definition broadcast_address :: "ip_network \<Rightarrow> nat" where
  "broadcast_address n = network_address n + 2 ^ (32 - network_prefix n) - 1"

definition in_network :: "nat \<Rightarrow> ip_network \<Rightarrow> bool" where
  "in_network a n = (a - a mod 2 ^ (32 - network_prefix n) = network_address n)"

definition subnet_of :: "ip_network \<Rightarrow> ip_network \<Rightarrow> bool" where
  "subnet_of a b = (network_address b \<le> network_address a \<and> broadcast_address a \<le> broadcast_address b)"

definition networks_overlap :: "ip_network \<Rightarrow> ip_network \<Rightarrow> bool" where
  "networks_overlap a b =
    (in_network (network_address b) a \<or> in_network (broadcast_address b) a
     \<or> in_network (network_address a) b \<or> in_network (broadcast_address a) b)"

definition show_network :: "ip_network \<Rightarrow> string" where
  "show_network n = show_ipv4 (network_octets n) @ ''/'' @ show_nat (network_prefix n)"

definition RFC1918 :: "ip_network list" where
  "RFC1918 =
    [\<lparr>network_octets = [10, 0, 0, 0], network_prefix = 8\<rparr>, \<lparr>network_octets = [172, 16, 0, 0], network_prefix = 12\<rparr>,
     \<lparr>network_octets = [192, 168, 0, 0], network_prefix = 16\<rparr>]"

text \<open>The text of a list or of a mapping is no address and no network.\<close>

definition private_ipv4 :: "json \<Rightarrow> nat list option" where
  "private_ipv4 v =
    (case v of
       JStr s \<Rightarrow>
         (case ip_address_of s of
            Some (IPv4 octets) \<Rightarrow> if list_ex (in_network (ip_int octets)) RFC1918 then Some octets else None
          | _ \<Rightarrow> None)
     | _ \<Rightarrow> None)"

definition private_network :: "json \<Rightarrow> ip_network option" where
  "private_network v =
    (case v of
       JStr s \<Rightarrow>
         (case ip_network_of s of
            Some n \<Rightarrow> if list_ex (subnet_of n) RFC1918 then Some n else None
          | None \<Rightarrow> None)
     | _ \<Rightarrow> None)"

section \<open>Shapes\<close>

definition mapping_of :: "json \<Rightarrow> dict" where
  "mapping_of v = (case v of JObj d \<Rightarrow> d | _ \<Rightarrow> [])"

definition named_entry :: "json \<Rightarrow> dict option \<Rightarrow> dict option" where
  "named_entry entry found =
    (case (entry, found) of
       (JObj d, Some result) \<Rightarrow>
         (case get d ''name'' of
            JStr name \<Rightarrow>
              if has_key result name then None else Some (put result name (JObj (filter (\<lambda>(k, v). k \<noteq> ''name'') d)))
          | _ \<Rightarrow> None)
     | _ \<Rightarrow> None)"

definition named_list :: "json \<Rightarrow> string \<Rightarrow> string list \<times> dict option" where
  "named_list v label =
    (case v of
       JArr entries \<Rightarrow>
         if \<not> list_all (\<lambda>entry. case entry of JObj _ \<Rightarrow> True | _ \<Rightarrow> False) entries then ([label @ '' must be a list of name/value mappings''], None)
         else
           (case fold named_entry entries (Some []) of
              None \<Rightarrow> ([label @ '' contains a missing or duplicate name''], None)
            | Some result \<Rightarrow> ([], Some result))
     | _ \<Rightarrow> ([label @ '' must be a list of name/value mappings''], None))"

definition required_value :: "dict \<Rightarrow> string \<Rightarrow> string \<Rightarrow> string \<Rightarrow> string list" where
  "required_value d key expected label =
    (if get d key \<noteq> JStr expected then [label @ ''.'' @ key @ '' must be '' @ expected] else [])"

definition require_keys :: "dict \<Rightarrow> string list \<Rightarrow> string \<Rightarrow> string list" where
  "require_keys d expected label =
    (if keys_are d expected then []
     else
       let missing = filter (\<lambda>k. \<not> has_key d k) (sort expected);
           unexpected = length (remdups (filter (\<lambda>k. k \<notin> set expected) (map fst d))) in
       [label @ '' must contain exactly the reviewed fields (''
        @ join ''; '' ((if missing \<noteq> [] then [''missing '' @ join '', '' missing] else [])
            @ (if unexpected \<noteq> 0 then [show_nat unexpected @ '' unexpected field(s)''] else [])) @ '')''])"

definition flat_entry :: "string \<times> json \<Rightarrow> (string \<times> string) option" where
  "flat_entry named =
    (case snd named of
       JObj fields_found \<Rightarrow>
         (case get fields_found ''value'' of
            JStr v \<Rightarrow> if keys_are fields_found [''value''] then Some (fst named, v) else None
          | _ \<Rightarrow> None)
     | _ \<Rightarrow> None)"

definition flatten_named_values :: "json \<Rightarrow> string \<Rightarrow> string list \<times> (string \<times> string) list option" where
  "flatten_named_values v label =
    (case named_list v label of
       (errors, None) \<Rightarrow> (errors, None)
     | (errors, Some named) \<Rightarrow>
         if None \<in> set (map flat_entry named)
         then (errors @ [label @ '' entries must contain exactly name and scalar value''], None)
         else (errors, Some (map (\<lambda>e. the (flat_entry e)) named)))"

text \<open>Dictionaries are equal whatever their order; their keys are distinct.\<close>

definition same_entries :: "(string \<times> 'a) list \<Rightarrow> (string \<times> 'a) list \<Rightarrow> bool" where
  "same_entries d e = (set d = set e)"

definition args_errors :: "json \<Rightarrow> string \<Rightarrow> (string \<times> string) list \<Rightarrow> string \<Rightarrow> string list" where
  "args_errors v label expected message =
    (case flatten_named_values v label of
       (errors, Some found) \<Rightarrow> errors @ (if \<not> same_entries found expected then [message] else [])
     | (errors, None) \<Rightarrow> errors)"

section \<open>Documents\<close>

definition find_document :: "dict \<Rightarrow> string \<Rightarrow> dict" where
  "find_document documents kind = mapping_of (get documents kind)"

definition kind_errors :: "dict \<Rightarrow> string list" where
  "kind_errors documents =
    (let kinds = map fst EXPECTED_DOCUMENTS in
     if keys_are documents kinds then []
     else
       let missing = filter (\<lambda>k. \<not> has_key documents k) (sort kinds);
           unexpected = length (filter (\<lambda>k. k \<notin> set kinds) (map fst documents)) in
       [''configuration must contain exactly the four reviewed document kinds''
        @ (if missing \<noteq> [] then ''; missing '' @ join '', '' missing else [])
        @ (if unexpected \<noteq> 0 then ''; '' @ show_nat unexpected @ '' unexpected document kind(s)'' else [])])"

definition document_shape_errors :: "dict \<Rightarrow> string list" where
  "document_shape_errors documents =
    concat (map (\<lambda>(kind, api_version).
      require_keys (find_document documents kind) (the (map_of DOCUMENT_KEYS kind)) kind
      @ (if get (find_document documents kind) ''apiVersion'' \<noteq> JStr api_version
         then [kind @ '' apiVersion must be '' @ api_version] else [])) EXPECTED_DOCUMENTS)"

definition alnum_lower :: "char \<Rightarrow> bool" where
  "alnum_lower c = (byte_in 97 122 c \<or> is_digit c)"

text \<open>\<open>[a-z0-9](?:[a-z0-9.-]{0,251}[a-z0-9])?\<close> under \<open>fullmatch\<close>.\<close>

definition dns_name :: "string \<Rightarrow> bool" where
  "dns_name s =
    (s \<noteq> [] \<and> length s \<le> 253 \<and> alnum_lower (hd s) \<and> alnum_lower (List.last s)
     \<and> list_all (\<lambda>c. alnum_lower c \<or> c = CHR ''.'' \<or> c = CHR ''-'') s)"

text \<open>\<open>d.get(key, "")\<close>: no value is \<open>None\<close> here, so that a missing key reads as the empty text.\<close>

definition get_text :: "dict \<Rightarrow> string \<Rightarrow> json" where
  "get_text d key = (if has_key d key then get d key else JStr [])"

definition node_errors :: "dict \<Rightarrow> string list" where
  "node_errors node =
    require_keys node [''criSocket'', ''imagePullPolicy'', ''imagePullSerial'', ''name'', ''taints'', ''kubeletExtraArgs'']
      ''nodeRegistration''
    @ required_value node ''criSocket'' CRI_SOCKET ''nodeRegistration''
    @ required_value node ''imagePullPolicy'' ''IfNotPresent'' ''nodeRegistration''
    @ required_value node ''imagePullSerial'' ''true'' ''nodeRegistration''
    @ (if get node ''taints'' \<noteq> JArr []
       then [''nodeRegistration.taints must be [] so the reviewed single node is schedulable''] else [])
    @ (if \<not> str_matches dns_name (get_text node ''name'') then [''nodeRegistration.name must be a normalized DNS name''] else [])"

definition endpoint_errors :: "dict \<Rightarrow> nat list option \<Rightarrow> string list" where
  "endpoint_errors endpoint advertise =
    require_keys endpoint [''advertiseAddress'', ''bindPort''] ''localAPIEndpoint''
    @ (if advertise = None then [''localAPIEndpoint.advertiseAddress must be one explicit RFC1918 IPv4 address''] else [])
    @ required_value endpoint ''bindPort'' ''6443'' ''localAPIEndpoint''"

definition kubelet_args_errors :: "dict \<Rightarrow> nat list option \<Rightarrow> string list" where
  "kubelet_args_errors node advertise =
    (case flatten_named_values (get node ''kubeletExtraArgs'') ''nodeRegistration.kubeletExtraArgs'' of
       (errors, None) \<Rightarrow> errors
     | (errors, Some found) \<Rightarrow>
         errors
         @ (if (case advertise of Some a \<Rightarrow> same_entries found [(''node-ip'', show_ipv4 a)] | None \<Rightarrow> False) then []
            else [''nodeRegistration.kubeletExtraArgs must contain only node-ip matching advertiseAddress'']))"

text \<open>\<open>([0-9.]+):6443\<close> under \<open>fullmatch\<close>: what stands before the port.\<close>

definition endpoint_host :: "json \<Rightarrow> json" where
  "endpoint_host v =
    (case v of
       JStr s \<Rightarrow>
         let host = take (length s - 5) s in
         if s = host @ '':6443'' \<and> host \<noteq> [] \<and> list_all (\<lambda>c. is_digit c \<or> c = CHR ''.'') host then JStr host else JNull
     | _ \<Rightarrow> JNull)"

definition cluster_errors :: "dict \<Rightarrow> nat list option \<Rightarrow> string list" where
  "cluster_errors cluster advertise =
    required_value cluster ''clusterName'' ''pi-production'' ''ClusterConfiguration''
    @ required_value cluster ''kubernetesVersion'' KUBERNETES_VERSION ''ClusterConfiguration''
    @ required_value cluster ''imageRepository'' IMAGE_REPOSITORY ''ClusterConfiguration''
    @ required_value cluster ''certificatesDir'' ''/etc/kubernetes/pki'' ''ClusterConfiguration''
    @ (let control = private_ipv4 (endpoint_host (get_text cluster ''controlPlaneEndpoint'')) in
       if control = None \<or> advertise = None \<or> control \<noteq> advertise
       then [''controlPlaneEndpoint must match the RFC1918 advertise address on port 6443''] else [])"

definition networking_errors :: "dict \<Rightarrow> nat list option \<Rightarrow> ip_network option \<Rightarrow> ip_network option \<Rightarrow> string list" where
  "networking_errors networking advertise pod service =
    require_keys networking [''dnsDomain'', ''podSubnet'', ''serviceSubnet''] ''networking''
    @ required_value networking ''dnsDomain'' ''cluster.local'' ''networking''
    @ (if pod = None then [''networking.podSubnet must be one canonical RFC1918 IPv4 CIDR''] else [])
    @ (if service = None then [''networking.serviceSubnet must be one canonical RFC1918 IPv4 CIDR''] else [])
    @ (if (case (pod, service) of (Some p, Some s) \<Rightarrow> networks_overlap p s | _ \<Rightarrow> False)
       then [''podSubnet and serviceSubnet must not overlap''] else [])
    @ (if (case advertise of
             Some a \<Rightarrow> list_ex (\<lambda>n. case n of Some net \<Rightarrow> in_network (ip_int a) net | None \<Rightarrow> False) [pod, service]
           | None \<Rightarrow> False)
       then [''the API advertise address must not fall inside a pod or service CIDR''] else [])"

definition etcd_errors :: "dict \<Rightarrow> string list" where
  "etcd_errors etcd =
    require_keys etcd [''local''] ''etcd''
    @ (if \<not> keys_are etcd [''local''] \<or> has_key etcd ''external''
       then [''etcd must use only the reviewed stacked local configuration''] else [])
    @ (let local = mapping_of (get etcd ''local'') in
       require_keys local [''dataDir'', ''extraArgs''] ''etcd.local''
       @ required_value local ''dataDir'' ''/var/lib/etcd'' ''etcd.local''
       @ args_errors (get local ''extraArgs'') ''etcd.local.extraArgs'' ETCD_ARGS
           ''etcd.local.extraArgs must exactly match the reviewed local maintenance settings'')"

definition cert_sans_errors :: "json \<Rightarrow> nat list option \<Rightarrow> string list" where
  "cert_sans_errors v advertise =
    (case v of
       JArr [JStr address, JStr name] \<Rightarrow>
         if (case advertise of Some a \<Rightarrow> address = show_ipv4 a | None \<Rightarrow> False)
            \<and> dns_name name \<and> CHR ''*'' \<notin> set name \<and> private_ipv4 (JStr name) = None
         then []
         else [''apiServer.certSANs must contain exactly the advertise IP and one normalized private DNS name'']
     | _ \<Rightarrow> [''apiServer.certSANs must contain exactly the advertise IP and one private DNS name''])"

definition volumes_match :: "dict \<Rightarrow> bool" where
  "volumes_match named =
    (keys_are named (map fst API_SERVER_VOLUMES)
     \<and> list_all (\<lambda>(name, entries).
          case get named name of JObj d \<Rightarrow> same_entries d (map (\<lambda>(k, v). (k, JStr v)) entries) | _ \<Rightarrow> False) API_SERVER_VOLUMES)"

definition api_server_errors :: "dict \<Rightarrow> nat list option \<Rightarrow> string list" where
  "api_server_errors api_server advertise =
    require_keys api_server [''certSANs'', ''extraArgs'', ''extraVolumes''] ''apiServer''
    @ cert_sans_errors (get api_server ''certSANs'') advertise
    @ args_errors (get api_server ''extraArgs'') ''apiServer.extraArgs'' API_SERVER_ARGS
        ''apiServer.extraArgs must exactly match the reviewed PSA, audit, encryption, and token flags''
    @ (case named_list (get api_server ''extraVolumes'') ''apiServer.extraVolumes'' of
         (errors, None) \<Rightarrow> errors
       | (errors, Some named) \<Rightarrow>
           errors
           @ (if volumes_match named then []
              else [''apiServer.extraVolumes must exactly match the reviewed read-only configs and writable audit log'']))"

definition KUBELET_SCALARS :: "(string \<times> string) list" where
  "KUBELET_SCALARS =
    [(''cgroupDriver'', ''systemd''), (''failSwapOn'', ''true''), (''failCgroupV1'', ''true''),
     (''protectKernelDefaults'', ''true''), (''readOnlyPort'', ''0''), (''rotateCertificates'', ''true''),
     (''seccompDefault'', ''true''), (''serverTLSBootstrap'', ''false''), (''containerLogMaxFiles'', ''5''),
     (''containerLogMaxSize'', ''10Mi'')]"

definition kubelet_errors :: "dict \<Rightarrow> string list" where
  "kubelet_errors kubelet =
    concat (map (\<lambda>(key, expected). required_value kubelet key expected ''KubeletConfiguration'') KUBELET_SCALARS)
    @ (let authentication = mapping_of (get kubelet ''authentication'');
           anonymous = mapping_of (get authentication ''anonymous'');
           webhook = mapping_of (get authentication ''webhook'');
           authorization = mapping_of (get kubelet ''authorization'') in
       require_keys authentication [''anonymous'', ''webhook''] ''authentication''
       @ require_keys anonymous [''enabled''] ''authentication.anonymous''
       @ require_keys webhook [''enabled''] ''authentication.webhook''
       @ required_value anonymous ''enabled'' ''false'' ''authentication.anonymous''
       @ required_value webhook ''enabled'' ''true'' ''authentication.webhook''
       @ require_keys authorization [''mode''] ''authorization''
       @ required_value authorization ''mode'' ''Webhook'' ''authorization''
       @ (if get kubelet ''enforceNodeAllocatable'' \<noteq> JArr [JStr ''pods'']
          then [''KubeletConfiguration.enforceNodeAllocatable must be exactly [pods]''] else []))"

definition proxy_errors :: "dict \<Rightarrow> ip_network option \<Rightarrow> string list res" where
  "proxy_errors proxy pod =
    bind (in_str_set (get proxy ''mode'') [''iptables'', ''nftables'']) (\<lambda>known. Inr (
      (if \<not> known then [''KubeProxyConfiguration.mode must be explicitly iptables or nftables''] else [])
      @ required_value proxy ''detectLocalMode'' ''ClusterCIDR'' ''KubeProxyConfiguration''
      @ (if (case pod of Some p \<Rightarrow> get proxy ''clusterCIDR'' = JStr (show_network p) | None \<Rightarrow> False) then []
         else [''KubeProxyConfiguration.clusterCIDR must exactly match networking.podSubnet''])))"

section \<open>The whole\<close>

definition document_set_errors :: "dict \<Rightarrow> string list res" where
  "document_set_errors documents =
    (let init = find_document documents ''InitConfiguration'';
         node = mapping_of (get init ''nodeRegistration'');
         endpoint = mapping_of (get init ''localAPIEndpoint'');
         advertise = private_ipv4 (get_text endpoint ''advertiseAddress'');
         cluster = find_document documents ''ClusterConfiguration'';
         networking = mapping_of (get cluster ''networking'');
         pod = private_network (get_text networking ''podSubnet'');
         service = private_network (get_text networking ''serviceSubnet'') in
     bind (proxy_errors (find_document documents ''KubeProxyConfiguration'') pod) (\<lambda>proxy. Inr (
       kind_errors documents @ document_shape_errors documents
       @ node_errors node @ endpoint_errors endpoint advertise @ kubelet_args_errors node advertise
       @ cluster_errors cluster advertise @ networking_errors networking advertise pod service
       @ etcd_errors (mapping_of (get cluster ''etcd''))
       @ api_server_errors (mapping_of (get cluster ''apiServer'')) advertise
       @ kubelet_errors (find_document documents ''KubeletConfiguration'') @ proxy)))"

definition unresolved_marker :: rx where
  "unresolved_marker = Alt (ci_lit ''REPLACE_'') (ci_lit ''UNRESOLVED'')"

definition preflight_override :: rx where
  "preflight_override =
    seqs [LineStart, many white, Alt (lit ''ignorePreflightErrors'') (lit ''skipPhases''), many white, lit '':'']"

definition marker_errors :: "string \<Rightarrow> string list" where
  "marker_errors content =
    (if rx_search unresolved_marker content then [''replacement sentinel remains''] else [])
    @ (if rx_search preflight_override content then [''ignored preflight errors and skipped phases are forbidden''] else [])"

definition syntax_text :: "exc \<Rightarrow> string" where
  "syntax_text e = (case e of ValueError s \<Rightarrow> s | _ \<Rightarrow> [])"

definition validate_kubeadm :: "string \<Rightarrow> string list res" where
  "validate_kubeadm content =
    (case parse_documents content of
       Inl e \<Rightarrow> Inr (marker_errors content @ [syntax_text e])
     | Inr documents \<Rightarrow> map_sum id (\<lambda>errors. marker_errors content @ errors) (document_set_errors documents))"

definition kubeadm_main :: "string res \<Rightarrow> (nat \<times> string list) res" where
  "kubeadm_main content =
    (case bind content decode_utf8 of
       Inl e \<Rightarrow> if e = OSError then Inr (1, [''FAIL unable to read kubeadm config'']) else Inl e
     | Inr found \<Rightarrow>
         bind (validate_kubeadm (universal_newlines found)) (\<lambda>errors.
         Inr (if errors \<noteq> [] then (1, map (\<lambda>e. ''FAIL '' @ e) errors)
              else (0, [''PASS kubeadm config matches the reviewed security, runtime, and topology contract'']))))"

end
