(* ===== verification/KubeadmProps.thy ===== *)
theory KubeadmProps
  imports Kubeadm
begin

text \<open>
  The kubeadm configuration that is accepted: networks as sets of addresses, the one address of the API server in
  all its places, the reviewed flags and mounts; and the one way the validator does not return.
\<close>

section \<open>Networks as sets of addresses\<close>

definition network_range :: "ip_network \<Rightarrow> nat set" where
  "network_range n = {network_address n .. broadcast_address n}"

definition aligned :: "ip_network \<Rightarrow> bool" where
  "aligned n \<longleftrightarrow> network_address n mod 2 ^ (32 - network_prefix n) = 0"

definition private_addresses :: "nat set" where
  "private_addresses = {167772160..184549375} \<union> {2886729728..2887778303} \<union> {3232235520..3232301055}"

lemma block_range:
  fixes a b k :: nat
  assumes "0 < k" and "b mod k = 0"
  shows "a - a mod k = b \<longleftrightarrow> b \<le> a \<and> a \<le> b + k - 1"
proof
  assume "a - a mod k = b"
  moreover have "a mod k < k" "a mod k \<le> a" using assms(1) by simp_all
  ultimately show "b \<le> a \<and> a \<le> b + k - 1" by linarith
next
  assume range: "b \<le> a \<and> a \<le> b + k - 1"
  from assms(2) obtain m where m: "b = k * m" by (metis dvdE mod_0_imp_dvd)
  have "a div k = m" using range assms(1) by (intro div_nat_eqI) (auto simp: m algebra_simps)
  then show "a - a mod k = b" using m minus_mod_eq_mult_div [of a k] by simp
qed

lemma in_network_range: "aligned n \<Longrightarrow> in_network a n \<longleftrightarrow> a \<in> network_range n"
  using block_range [of "2 ^ (32 - network_prefix n)" "network_address n" a]
  by (auto simp: in_network_def aligned_def network_range_def broadcast_address_def)

lemma range_ends: "network_address n \<in> network_range n" "broadcast_address n \<in> network_range n"
proof -
  have "(1::nat) \<le> 2 ^ (32 - network_prefix n)" by simp
  then have "network_address n \<le> broadcast_address n" unfolding broadcast_address_def by arith
  then show "network_address n \<in> network_range n" "broadcast_address n \<in> network_range n" by (simp_all add: network_range_def)
qed

text \<open>The four tests of two end points decide whether two networks share an address.\<close>

lemma overlap_sets:
  assumes "aligned a" and "aligned b"
  shows "networks_overlap a b \<longleftrightarrow> network_range a \<inter> network_range b \<noteq> {}"
proof
  assume "networks_overlap a b"
  with assms range_ends [of a] range_ends [of b] show "network_range a \<inter> network_range b \<noteq> {}"
    by (auto simp: networks_overlap_def in_network_range)
next
  assume "network_range a \<inter> network_range b \<noteq> {}"
  then obtain x where "x \<in> network_range a" "x \<in> network_range b" by blast
  then have "network_address a \<in> network_range b \<or> network_address b \<in> network_range a"
    using range_ends(1) [of a] range_ends(1) [of b] by (auto simp: network_range_def)
  with assms show "networks_overlap a b" by (auto simp: networks_overlap_def in_network_range)
qed

lemma rfc1918_ranges:
  "\<Union> (network_range ` set RFC1918) = private_addresses" "list_all aligned RFC1918"
  by (simp_all add: RFC1918_def private_addresses_def network_range_def broadcast_address_def network_address_def ip_int_def
      aligned_def Un_assoc)

lemma private_address: "list_ex (in_network a) RFC1918 \<longleftrightarrow> a \<in> private_addresses"
  using rfc1918_ranges by (auto simp: list_ex_iff list_all_iff in_network_range)

lemma subnet_range: "subnet_of a b \<longleftrightarrow> network_range a \<subseteq> network_range b"
  using range_ends [of a] by (auto simp: subnet_of_def network_range_def)

lemma private_subnet: "list_ex (subnet_of n) RFC1918 \<Longrightarrow> network_range n \<subseteq> private_addresses"
  using rfc1918_ranges(1) by (auto simp: list_ex_iff subnet_range)

lemma network_aligned: "ip_network_of s = Some n \<Longrightarrow> aligned n"
  by (auto simp: ip_network_of_def aligned_def network_address_def Let_def split: list.splits option.splits if_splits)

lemma private_network_facts: "private_network v = Some n \<Longrightarrow> aligned n \<and> network_range n \<subseteq> private_addresses"
  using network_aligned private_subnet by (auto simp: private_network_def split: json.splits option.splits if_splits)

lemma private_ipv4_facts: "private_ipv4 v = Some a \<Longrightarrow> v = JStr (show_ipv4 a) \<and> ip_int a \<in> private_addresses"
  using ipv4_text private_address
  by (fastforce simp: private_ipv4_def ip_address_of_def split: json.splits option.splits if_splits prod.splits)

section \<open>Shapes\<close>

lemma required_value_none [simp]: "required_value d key expected label = [] \<longleftrightarrow> get d key = JStr expected"
  by (simp add: required_value_def)

lemma require_keys_none [simp]: "require_keys d expected label = [] \<longleftrightarrow> keys_are d expected"
  by (simp add: require_keys_def Let_def)

text \<open>A list of mappings that have a name and a value each, with different names.\<close>

definition entry_of :: "dict \<Rightarrow> string \<times> string \<Rightarrow> bool" where
  "entry_of d arg \<longleftrightarrow> keys_are d [''name'', ''value''] \<and> get d ''name'' = JStr (fst arg) \<and> get d ''value'' = JStr (snd arg)"

definition lists_args :: "json \<Rightarrow> (string \<times> string) list \<Rightarrow> bool" where
  "lists_args v args \<longleftrightarrow> distinct (map fst args) \<and> (\<exists>ds. v = JArr (map JObj ds) \<and> list_all2 entry_of ds args)"

definition without_name :: "dict \<Rightarrow> dict" where
  "without_name d = filter (\<lambda>(k, v). k \<noteq> ''name'') d"

definition names_entry :: "dict \<Rightarrow> string \<times> json \<Rightarrow> bool" where
  "names_entry d named \<longleftrightarrow> get d ''name'' = JStr (fst named) \<and> snd named = JObj (without_name d)"

lemma named_none: "fold named_entry xs None = None"
  by (induction xs) (simp_all add: named_entry_def split: json.splits)

lemma named_fold:
  "fold named_entry xs (Some r) = Some result \<Longrightarrow> distinct (map fst r) \<Longrightarrow>
    distinct (map fst result) \<and> (\<exists>ds named. xs = map JObj ds \<and> result = r @ named \<and> list_all2 names_entry ds named)"
proof (induction xs arbitrary: r)
  case Nil
  then show ?case by simp
next
  case (Cons x xs)
  have "named_entry x (Some r) \<noteq> None"
  proof
    assume "named_entry x (Some r) = None"
    with Cons.prems(1) show False by (simp add: named_none)
  qed
  then obtain d name where x: "x = JObj d" "get d ''name'' = JStr name" "\<not> has_key r name"
    and step: "named_entry x (Some r) = Some (put r name (JObj (without_name d)))"
    by (auto simp: named_entry_def without_name_def split: json.splits if_splits)
  have fresh: "put r name (JObj (without_name d)) = r @ [(name, JObj (without_name d))]"
    using x(3) by (intro put_fresh) (simp add: has_key_def)
  from Cons.IH [of "r @ [(name, JObj (without_name d))]"] Cons.prems step fresh x(3)
  obtain ds named where rest: "distinct (map fst result)" "xs = map JObj ds"
      "result = (r @ [(name, JObj (without_name d))]) @ named" "list_all2 names_entry ds named"
    by (auto simp: has_key_def)
  have "x # xs = map JObj (d # ds) \<and> result = r @ (name, JObj (without_name d)) # named
      \<and> list_all2 names_entry (d # ds) ((name, JObj (without_name d)) # named)"
    using rest x by (simp add: names_entry_def)
  with rest(1) show ?case by (intro conjI exI) auto
qed

lemma named_list_exact:
  assumes "named_list v label = ([], Some named)"
  shows "distinct (map fst named) \<and> (\<exists>ds. v = JArr (map JObj ds) \<and> list_all2 names_entry ds named)"
proof -
  from assms obtain xs where "v = JArr xs" "fold named_entry xs (Some []) = Some named"
    by (auto simp: named_list_def split: json.splits if_splits option.splits)
  with named_fold [of xs "[]" named] show ?thesis by auto
qed

lemma named_list_result: "named_list v label = (errors, found) \<Longrightarrow> errors = [] \<longleftrightarrow> found \<noteq> None"
proof (cases v)
  case (JArr xs)
  assume "named_list v label = (errors, found)"
  with JArr show ?thesis by (cases "fold named_entry xs (Some [])") (auto simp: named_list_def dest: sym [of "Some _"] split: if_splits)
qed (auto simp: named_list_def)

lemma flat_names:
  assumes "names_entry d named" and "flat_entry named = Some arg"
  shows "entry_of d arg" and "fst arg = fst named"
proof -
  from assms have parts: "get d ''name'' = JStr (fst named)" "get (without_name d) ''value'' = JStr (snd arg)"
      "keys_are (without_name d) [''value'']" "fst arg = fst named"
    by (auto simp: names_entry_def flat_entry_def split: json.splits if_splits)
  have "get (without_name d) k = get d k" if "k \<noteq> ''name''" for k
    using that by (induction d) (auto simp: without_name_def)
  then have "get d ''value'' = JStr (snd arg)" using parts(2) by simp
  moreover have "keys_are d [''name'', ''value'']"
  proof -
    have "has_key d ''name''" using parts(1) get_not_key [of d "''name''"] by auto
    moreover have "fst ` set (without_name d) = fst ` set d - {''name''}" by (auto simp: without_name_def image_iff)
    ultimately show ?thesis using parts(3) by (auto simp: keys_are_def has_key_def)
  qed
  ultimately show "entry_of d arg" "fst arg = fst named" using parts by (simp_all add: entry_of_def)
qed

lemma flatten_exact:
  assumes "flatten_named_values v label = ([], Some args)"
  shows "lists_args v args"
proof -
  from assms obtain named where named: "named_list v label = ([], Some named)" "None \<notin> set (map flat_entry named)"
    and args: "args = map (\<lambda>e. the (flat_entry e)) named"
    by (auto simp: flatten_named_values_def split: prod.splits option.splits if_splits)
  from named_list_exact [OF named(1)] obtain ds where ds: "distinct (map fst named)" "v = JArr (map JObj ds)" "list_all2 names_entry ds named"
    by blast
  have flat: "flat_entry e = Some (the (flat_entry e))" if "e \<in> set named" for e 
    using that named(2) by (cases "flat_entry e") (auto simp: image_iff)
  have "list_all2 entry_of ds args"
    using ds(3) flat_names(1) [OF _ flat] unfolding args list_all2_map2 list_all2_conv_all_nth by simp
  moreover have "map fst args = map fst named"
  proof -
    have "fst (the (flat_entry e)) = fst e" if "e \<in> set named" for e
      using that ds(3) flat_names(2) [OF _ flat [OF that]] by (metis in_set_conv_nth list_all2_conv_all_nth)
    then show ?thesis unfolding args by simp
  qed
  ultimately show ?thesis using ds(1,2) by (auto simp: lists_args_def)
qed

lemma flatten_result: "flatten_named_values v label = (errors, found) \<Longrightarrow> errors = [] \<longleftrightarrow> found \<noteq> None"
  using named_list_result by (fastforce simp: flatten_named_values_def split: prod.splits option.splits if_splits)

lemma args_none: "args_errors v label expected message = [] \<Longrightarrow> \<exists>args. lists_args v args \<and> set args = set expected"
  using flatten_exact flatten_result
  by (fastforce simp: args_errors_def same_entries_def split: prod.splits option.splits if_splits)

section \<open>The contract\<close>

text \<open>The value at a path; what is no mapping reads as an empty one.\<close>

definition setting :: "dict \<Rightarrow> string list \<Rightarrow> json" where
  "setting documents path = foldl (\<lambda>v key. get (mapping_of v) key) (JObj documents) path"

lemma endpoint_host_text: "endpoint_host v = JStr host \<Longrightarrow> v = JStr (host @ '':6443'')"
  by (auto simp: endpoint_host_def Let_def split: json.splits if_splits)

lemma get_text_given: "get_text d key = JStr s \<Longrightarrow> s \<noteq> [] \<Longrightarrow> get d key = JStr s"
  by (simp add: get_text_def split: if_splits)

lemma private_text:
  assumes "private_ipv4 (get_text d key) = Some a"
  shows "get d key = JStr (show_ipv4 a)" and "ip_int a \<in> private_addresses"
proof -
  from private_ipv4_facts [OF assms] have "get_text d key = JStr (show_ipv4 a)" and "ip_int a \<in> private_addresses" by simp_all
  moreover from this have "show_ipv4 a \<noteq> []"
    using assms by (auto simp: private_ipv4_def ip_address_of_def ipv4_of_def octet_of_def ipv6_of_def groups_of_text_def)
  ultimately show "get d key = JStr (show_ipv4 a)" "ip_int a \<in> private_addresses" using get_text_given by simp_all
qed

lemma one_arg: "lists_args v args \<Longrightarrow> set args = {arg} \<Longrightarrow> lists_args v [arg]"
proof -
  assume args: "lists_args v args" "set args = {arg}"
  then have "distinct args" by (auto simp: lists_args_def distinct_map)
  with args(2) have "length args = 1" by (metis card.empty card_insert_disjoint distinct_card empty_iff finite.emptyI One_nat_def)
  with args(2) have "args = [arg]" by (cases args) auto
  with args(1) show ?thesis by simp
qed

text \<open>The address has its places.\<close>

lemma address_places:
  assumes "kubelet_args_errors node (Some a) = []" and "cluster_errors cluster (Some a) = []"
  shows "lists_args (get node ''kubeletExtraArgs'') [(''node-ip'', show_ipv4 a)]"
    and "get cluster ''controlPlaneEndpoint'' = JStr (show_ipv4 a @ '':6443'')"
proof -
  from assms(1) obtain args where
    "flatten_named_values (get node ''kubeletExtraArgs'') ''nodeRegistration.kubeletExtraArgs'' = ([], Some args)"
    "same_entries args [(''node-ip'', show_ipv4 a)]"
    using flatten_result by (fastforce simp: kubelet_args_errors_def split: prod.splits option.splits if_splits)
  then show "lists_args (get node ''kubeletExtraArgs'') [(''node-ip'', show_ipv4 a)]"
    using one_arg [OF flatten_exact, of "get node ''kubeletExtraArgs''" "''nodeRegistration.kubeletExtraArgs''" args] by (simp add: same_entries_def)
  from assms(2) have control: "private_ipv4 (endpoint_host (get_text cluster ''controlPlaneEndpoint'')) = Some a"
    by (simp add: cluster_errors_def Let_def split: if_splits)
  from private_ipv4_facts [OF this] have "endpoint_host (get_text cluster ''controlPlaneEndpoint'') = JStr (show_ipv4 a)" by simp
  from get_text_given [OF endpoint_host_text [OF this]]
  show "get cluster ''controlPlaneEndpoint'' = JStr (show_ipv4 a @ '':6443'')" by simp
qed

lemma networks_apart:
  assumes "networking_errors networking (Some a) pod service = []"
    and "pod = private_network v" and "service = private_network w"
  shows "\<exists>p s. pod = Some p \<and> service = Some s \<and> network_range p \<subseteq> private_addresses \<and> network_range s \<subseteq> private_addresses
    \<and> network_range p \<inter> network_range s = {} \<and> ip_int a \<notin> network_range p \<union> network_range s"
proof -
  from assms(1) obtain p s where ps: "pod = Some p" "service = Some s" "\<not> networks_overlap p s"
      "\<not> in_network (ip_int a) p" "\<not> in_network (ip_int a) s"
    by (auto simp: networking_errors_def split: if_splits option.splits)
  have "aligned p" "aligned s" "network_range p \<subseteq> private_addresses" "network_range s \<subseteq> private_addresses"
    using private_network_facts [of v p] private_network_facts [of w s] ps(1,2) assms(2,3) by simp_all
  with ps overlap_sets [of p s] in_network_range show ?thesis by auto
qed

lemma api_server_places:
  assumes "api_server_errors api_server (Some a) = []"
  shows "\<exists>name. get api_server ''certSANs'' = JArr [JStr (show_ipv4 a), JStr name] \<and> dns_name name"
    and "\<exists>args. lists_args (get api_server ''extraArgs'') args \<and> set args = set API_SERVER_ARGS"
    and "\<exists>named. named_list (get api_server ''extraVolumes'') ''apiServer.extraVolumes'' = ([], Some named) \<and> volumes_match named"
proof -
  note parts = assms [unfolded api_server_errors_def append_is_Nil_conv]
  from parts show "\<exists>name. get api_server ''certSANs'' = JArr [JStr (show_ipv4 a), JStr name] \<and> dns_name name"
    by (auto simp: cert_sans_errors_def split: json.splits list.splits if_splits)
  from parts show "\<exists>args. lists_args (get api_server ''extraArgs'') args \<and> set args = set API_SERVER_ARGS"
    using args_none by blast
  from parts show "\<exists>named. named_list (get api_server ''extraVolumes'') ''apiServer.extraVolumes'' = ([], Some named) \<and> volumes_match named"
    using named_list_result by (fastforce split: prod.splits option.splits if_splits)
qed

text \<open>The only exception.\<close>

lemma kubeadm_outcomes:
  "validate_kubeadm content = Inl e \<longleftrightarrow>
     e = TypeError \<and> (\<exists>documents. parse_documents content = Inr documents
       \<and> \<not> hashable (setting documents [''KubeProxyConfiguration'', ''mode'']))"
  by (auto simp: validate_kubeadm_def document_set_errors_def proxy_errors_def in_str_set_def setting_def find_document_def
      mapping_of_def [of "JObj _"] Let_def split: sum.splits)


section \<open>An accepted configuration\<close>

text \<open>A set of documents without a complaint.\<close>

definition scalars :: "(string \<times> string) list \<Rightarrow> dict" where
  "scalars d = map (\<lambda>(k, v). (k, JStr v)) d"

definition arg_entries :: "(string \<times> string) list \<Rightarrow> json" where
  "arg_entries args = JArr (map (\<lambda>(k, v). JObj (scalars [(''name'', k), (''value'', v)])) args)"

definition sample_cluster :: dict where
  "sample_cluster =
    [(''InitConfiguration'', JObj (scalars [(''apiVersion'', ''kubeadm.k8s.io/v1beta4''), (''kind'', ''InitConfiguration'')] @
       [(''localAPIEndpoint'', JObj (scalars [(''advertiseAddress'', ''192.168.1.10''), (''bindPort'', ''6443'')])),
        (''nodeRegistration'', JObj (scalars
          [(''criSocket'', CRI_SOCKET), (''imagePullPolicy'', ''IfNotPresent''), (''imagePullSerial'', ''true''), (''name'', ''pi'')] @
          [(''taints'', JArr []), (''kubeletExtraArgs'', arg_entries [(''node-ip'', ''192.168.1.10'')])]))])),
     (''ClusterConfiguration'', JObj (scalars
       [(''apiVersion'', ''kubeadm.k8s.io/v1beta4''), (''kind'', ''ClusterConfiguration''), (''clusterName'', ''pi-production''),
        (''kubernetesVersion'', KUBERNETES_VERSION), (''controlPlaneEndpoint'', ''192.168.1.10:6443''),
        (''imageRepository'', IMAGE_REPOSITORY), (''certificatesDir'', ''/etc/kubernetes/pki'')] @
       [(''networking'', JObj (scalars
          [(''dnsDomain'', ''cluster.local''), (''podSubnet'', ''10.244.0.0/16''), (''serviceSubnet'', ''10.96.0.0/12'')])),
        (''apiServer'', JObj
          [(''certSANs'', JArr [JStr ''192.168.1.10'', JStr ''pi.home.arpa'']), (''extraArgs'', arg_entries API_SERVER_ARGS),
           (''extraVolumes'', JArr (map (\<lambda>(k, d). JObj (scalars ((''name'', k) # d))) API_SERVER_VOLUMES))]),
        (''etcd'', JObj [(''local'', JObj [(''dataDir'', JStr ''/var/lib/etcd''), (''extraArgs'', arg_entries ETCD_ARGS)])])])),
     (''KubeletConfiguration'', JObj (scalars
       ([(''apiVersion'', ''kubelet.config.k8s.io/v1beta1''), (''kind'', ''KubeletConfiguration'')] @ KUBELET_SCALARS) @
       [(''authentication'', JObj [(''anonymous'', JObj (scalars [(''enabled'', ''false'')])),
          (''webhook'', JObj (scalars [(''enabled'', ''true'')]))]),
        (''authorization'', JObj (scalars [(''mode'', ''Webhook'')])),
        (''enforceNodeAllocatable'', JArr [JStr ''pods''])])),
     (''KubeProxyConfiguration'', JObj (scalars
       [(''apiVersion'', ''kubeproxy.config.k8s.io/v1alpha1''), (''kind'', ''KubeProxyConfiguration''), (''mode'', ''nftables''),
        (''clusterCIDR'', ''10.244.0.0/16''), (''detectLocalMode'', ''ClusterCIDR'')]))]"

lemmas address_evaluation =
  ipv4_of_def octet_of_def read_nat_def digit_val_def is_digit_def byte_in_def in_network_def subnet_of_def networks_overlap_def
  network_address_def broadcast_address_def ip_int_def RFC1918_def

lemma sample_address: "private_ipv4 (JStr ''192.168.1.10'') = Some [192, 168, 1, 10]"
  by (simp add: private_ipv4_def ip_address_of_def address_evaluation)

lemma sample_networks:
  "private_network (JStr ''10.244.0.0/16'') = Some \<lparr>network_octets = [10, 244, 0, 0], network_prefix = 16\<rparr>"
  "private_network (JStr ''10.96.0.0/12'') = Some \<lparr>network_octets = [10, 96, 0, 0], network_prefix = 12\<rparr>"
  by (simp_all add: private_network_def ip_network_of_def network_parts_def prefix_of_mask_def address_evaluation)

text \<open>A network is read from other texts than its own.\<close>

lemma other_texts:
  "private_network (JStr ''10.0.0.0/8'') = Some \<lparr>network_octets = [10, 0, 0, 0], network_prefix = 8\<rparr>"
  "private_network (JStr ''10.0.0.0/08'') = Some \<lparr>network_octets = [10, 0, 0, 0], network_prefix = 8\<rparr>"
  by (simp_all add: private_network_def ip_network_of_def network_parts_def prefix_of_mask_def address_evaluation)

lemma netmask_text:
  "private_network (JStr ''10.0.0.0/255.0.0.0'') = Some \<lparr>network_octets = [10, 0, 0, 0], network_prefix = 8\<rparr>"
  by (simp add: private_network_def ip_network_of_def network_parts_def prefix_of_mask_def address_evaluation upt_rec)

lemma named_args:
  "list_all (\<lambda>(k, v). k \<notin> fst ` set r) args \<Longrightarrow> distinct (map fst args) \<Longrightarrow>
    fold named_entry (map (\<lambda>(k, v). JObj (scalars [(''name'', k), (''value'', v)])) args) (Some r)
      = Some (r @ map (\<lambda>(k, v). (k, JObj [(''value'', JStr v)])) args)"
proof (induction args arbitrary: r)
  case (Cons x args)
  obtain k v where x: "x = (k, v)" by (cases x)
  have step: "named_entry (JObj (scalars [(''name'', k), (''value'', v)])) (Some r) = Some (r @ [(k, JObj [(''value'', JStr v)])])"
    using Cons.prems(1) x by (simp add: named_entry_def scalars_def has_key_def put_fresh)
  have "fold named_entry (map (\<lambda>(k, v). JObj (scalars [(''name'', k), (''value'', v)])) args) (Some (r @ [(k, JObj [(''value'', JStr v)])]))
      = Some ((r @ [(k, JObj [(''value'', JStr v)])]) @ map (\<lambda>(k, v). (k, JObj [(''value'', JStr v)])) args)"
    using Cons.prems x by (intro Cons.IH) (force simp: list_all_iff)+
  with step x show ?case by simp
qed simp

lemma flat_args: "distinct (map fst args) \<Longrightarrow> flatten_named_values (arg_entries args) label = ([], Some args)"
proof -
  assume "distinct (map fst args)"
  from named_args [OF _ this, of "[]"]
  have "named_list (arg_entries args) label = ([], Some (map (\<lambda>(k, v). (k, JObj [(''value'', JStr v)])) args))"
    by (auto simp: named_list_def arg_entries_def list_all_iff)
  moreover have flat: "flat_entry (k, JObj [(''value'', JStr v)]) = Some (k, v)" for k v
    by (simp add: flat_entry_def keys_are_def)
  moreover have "map (\<lambda>e. the (flat_entry e)) (map (\<lambda>(k, v). (k, JObj [(''value'', JStr v)])) args) = args"
    by (induction args) (auto simp: flat)
  ultimately show ?thesis by (force simp: flatten_named_values_def)
qed

lemmas document_evaluation = find_document_def mapping_of_def scalars_def get_text_def keys_are_def insert_commute Let_def

lemma sample_cluster_accepted: "document_set_errors sample_cluster = Inr []"
proof -
  have shapes: "kind_errors sample_cluster = []" "document_shape_errors sample_cluster = []"
    by (simp_all add: sample_cluster_def kind_errors_def document_shape_errors_def EXPECTED_DOCUMENTS_def DOCUMENT_KEYS_def
        KUBELET_SCALARS_def document_evaluation)
  let ?init = "find_document sample_cluster ''InitConfiguration''"
  let ?cluster = "find_document sample_cluster ''ClusterConfiguration''"
  let ?a = "[192, 168, 1, 10]"
  have host: "endpoint_host (JStr ''192.168.1.10:6443'') = JStr ''192.168.1.10''"
    by (simp add: endpoint_host_def is_digit_def byte_in_def)
  have dns: "dns_name ''pi''" "dns_name ''pi.home.arpa''"
    by (simp_all add: dns_name_def alnum_lower_def is_digit_def byte_in_def)
  have name: "private_ipv4 (JStr ''pi.home.arpa'') = None"
    by (simp add: private_ipv4_def ip_address_of_def ipv4_of_def octet_of_def ipv6_of_def groups_of_text_def is_digit_def byte_in_def)
  have shown: "show_ipv4 ?a = ''192.168.1.10''"
    using ipv4_text [of "''192.168.1.10''" ?a] by (simp add: address_evaluation)
  have net: "show_network \<lparr>network_octets = [10, 244, 0, 0], network_prefix = 16\<rparr> = ''10.244.0.0/16''"
    using ipv4_text [of "''10.244.0.0''" "[10, 244, 0, 0]"]
    by (simp add: show_network_def address_evaluation show_nat.simps digit_char_def, code_simp)
  have init: "node_errors (mapping_of (get ?init ''nodeRegistration'')) = []"
    "endpoint_errors (mapping_of (get ?init ''localAPIEndpoint'')) (Some ?a) = []"
    "kubelet_args_errors (mapping_of (get ?init ''nodeRegistration'')) (Some ?a) = []"
    using dns
    by (simp_all add: sample_cluster_def node_errors_def endpoint_errors_def kubelet_args_errors_def flat_args same_entries_def shown
        document_evaluation del: One_nat_def)
  have cluster: "cluster_errors ?cluster (Some ?a) = []"
    "networking_errors (mapping_of (get ?cluster ''networking'')) (Some ?a) 
       (Some \<lparr>network_octets = [10, 244, 0, 0], network_prefix = 16\<rparr>) (Some \<lparr>network_octets = [10, 96, 0, 0], network_prefix = 12\<rparr>) = []"
    "etcd_errors (mapping_of (get ?cluster ''etcd'')) = []"
    by (simp_all add: sample_cluster_def cluster_errors_def networking_errors_def etcd_errors_def args_errors_def flat_args same_entries_def
        ETCD_ARGS_def host sample_address address_evaluation document_evaluation del: One_nat_def)
  have api: "api_server_errors (mapping_of (get ?cluster ''apiServer'')) (Some ?a) = []"
    using dns name
    by (simp add: sample_cluster_def api_server_errors_def cert_sans_errors_def args_errors_def flat_args same_entries_def shown
        API_SERVER_ARGS_def API_SERVER_VOLUMES_def named_list_def named_entry_def volumes_match_def document_evaluation del: One_nat_def)
  have kubelet: "kubelet_errors (find_document sample_cluster ''KubeletConfiguration'') = []"
    by (simp add: sample_cluster_def kubelet_errors_def KUBELET_SCALARS_def document_evaluation)
  have proxy: "proxy_errors (find_document sample_cluster ''KubeProxyConfiguration'')
      (Some \<lparr>network_octets = [10, 244, 0, 0], network_prefix = 16\<rparr>) = Inr []"
    by (simp add: sample_cluster_def proxy_errors_def in_str_set_def net document_evaluation)
  have read: "get_text (mapping_of (get ?init ''localAPIEndpoint'')) ''advertiseAddress'' = JStr ''192.168.1.10''"
    "get_text (mapping_of (get ?cluster ''networking'')) ''podSubnet'' = JStr ''10.244.0.0/16''"
    "get_text (mapping_of (get ?cluster ''networking'')) ''serviceSubnet'' = JStr ''10.96.0.0/12''"
    by (simp_all add: sample_cluster_def document_evaluation)
  show ?thesis
    unfolding document_set_errors_def Let_def read sample_address sample_networks shapes init cluster api kubelet proxy by simp
qed


end
