(* ===== verification/PiNetwork.thy ===== *)
theory PiNetwork
  imports KubeadmProps PyValue RecoverySelection MountTopology
begin

text \<open>
  scripts/validate_pi_network.py: the pod and service networks of the kubeadm configuration are compared with what
  the host routes now.  \<open>ip\<close> is what \<open>ip -j -4\<close> prints for its arguments, or the exception of running it.  Every
  \<open>ValueError\<close> ends in the same failure; their texts are not modelled.
\<close>

section \<open>Constants\<close>

definition DEFAULT_IPV4_RULES :: "(int \<times> string \<times> string) list" where
  "DEFAULT_IPV4_RULES = [(0, ''all'', ''local''), (32766, ''all'', ''main''), (32767, ''all'', ''default'')]"

definition TABLE_NAMES :: "(json \<times> string) list" where
  "TABLE_NAMES =
    [(JStr ''253'', ''default''), (JStr ''254'', ''main''), (JStr ''255'', ''local''),
     (JInt 253, ''default''), (JInt 254, ''main''), (JInt 255, ''local'')]"

definition TUNNEL_LINK_KINDS :: "string list" where
  "TUNNEL_LINK_KINDS =
    [''erspan'', ''gre'', ''gretap'', ''ip6gre'', ''ip6gretap'', ''ipip'', ''l2tp'', ''macsec'', ''ppp'', ''sit'', ''tap'',
     ''tun'', ''vti'', ''vti6'', ''wireguard'', ''xfrm'']"

definition numbered :: "string \<Rightarrow> rx" where
  "numbered s = Seq (ci_lit s) (many (chars_where is_digit))"

definition name_end :: rx where "name_end = One (\<lambda>x. x \<in> {''-'', ''_'', ''.''})"

definition TUNNEL_INTERFACE_NAME :: rx where
  "TUNNEL_INTERFACE_NAME =
    seqs [Alt TextStart name_end,
      alts [ci_lit ''corp-vpn'', ci_lit ''ipsec'', numbered ''ppp'', numbered ''tap'', numbered ''tun'', numbered ''utun'',
        numbered ''vpn'', numbered ''warp'', numbered ''wg'', numbered ''wireguard'', numbered ''xfrm''],
      Alt Dollar name_end]"

definition UNSUPPORTED_ROUTE_KEYS :: "string list" where
  "UNSUPPORTED_ROUTE_KEYS = [''encap'', ''multipath'', ''nexthops'', ''nhid'', ''via'']"

abbreviation unproved :: exc where "unproved \<equiv> ValueError []"

section \<open>Text and queries\<close>

definition non_space :: rx where "non_space = One (\<lambda>x. \<not> space_char x)"

text \<open>\<open>^\s{2}name:\s*(\S+)\s*$\<close>, once in the text.\<close>

definition setting_line :: "string \<Rightarrow> rx" where
  "setting_line name =
    seqs [LineStart, times 2 white, lit name, lit '':'', many white, Cap ''value'' (some_of non_space), many white, LineEnd]"

definition one_match :: "string \<Rightarrow> string \<Rightarrow> string res" where
  "one_match name content =
    (case rx_find_groups (setting_line name) ''value'' content of
       [found] \<Rightarrow> Inr found
     | _ \<Rightarrow> Inl unproved)"

type_synonym ip_command = "string list \<Rightarrow> string res"

definition ip_json :: "float_text \<Rightarrow> ip_command \<Rightarrow> string list \<Rightarrow> json res" where
  "ip_json fl ip arguments = bind (ip arguments) (loads fl dict_hook)"

definition require_json_list :: "json \<Rightarrow> dict list res" where
  "require_json_list v =
    (case v of
       JArr xs \<Rightarrow> if list_all is_object xs then Inr (objects xs) else Inl unproved
     | _ \<Rightarrow> Inl unproved)"

section \<open>Policy rules\<close>

definition normalize_table :: "json \<Rightarrow> json res" where
  "normalize_table v =
    raise_if (\<not> hashable v) TypeError (
    let named = (case List.find (\<lambda>(key, _). json_eq v key) TABLE_NAMES of Some (_, name) \<Rightarrow> JStr name | None \<Rightarrow> v) in
    Inr (case named of JStr s \<Rightarrow> JStr (lower_text (strip s)) | w \<Rightarrow> w))"

text \<open>\<open>int(v)\<close>: a float is cut off, an infinity overflows.\<close>

definition int_of_json :: "json \<Rightarrow> int res" where
  "int_of_json v =
    (case v of
       JInt i \<Rightarrow> Inr i
     | JBool b \<Rightarrow> Inr (if b then 1 else 0)
     | JStr s \<Rightarrow> int_of_text s
     | JFloat (Fin m e) \<Rightarrow> Inr (if 0 \<le> e then m * 2 ^ nat e else sgn m * (\<bar>m\<bar> div 2 ^ nat (- e)))
     | JFloat NaN \<Rightarrow> Inl unproved
     | JFloat _ \<Rightarrow> Inl OverflowError
     | _ \<Rightarrow> Inl TypeError)"

definition exact_lookup_error :: "exc \<Rightarrow> bool" where
  "exact_lookup_error e = (e = KeyError \<or> e = TypeError \<or> is_value_error e)"

definition no_flags :: "dict \<Rightarrow> bool" where
  "no_flags d = (get_default d ''flags'' (JArr []) \<in> {JNull, JArr []})"

definition observed_rule :: "dict \<Rightarrow> (int \<times> json \<times> json) res" where
  "observed_rule rule =
    raise_if (\<not> list_all (\<lambda>k. k \<in> set [''flags'', ''priority'', ''protocol'', ''src'', ''table'']) (map fst rule)) unproved (
    raise_if (\<not> no_flags rule) unproved (
    bind (rewrap exact_lookup_error (\<lambda>_. unproved) (bind (item rule ''priority'') int_of_json)) (\<lambda>priority.
    let src = (if get rule ''src'' = JStr ''0.0.0.0/0'' then JStr ''all'' else get rule ''src'') in
    bind (normalize_table (get rule ''table'')) (\<lambda>table. Inr (priority, src, table)))))"

definition validate_default_ipv4_rules :: "json \<Rightarrow> unit res" where
  "validate_default_ipv4_rules rules =
    bind (require_json_list rules) (\<lambda>ds.
    bind (for_each (\<lambda>rule observed. bind (observed_rule rule) (\<lambda>r. Inr (observed @ [r]))) ds []) (\<lambda>observed.
    raise_if (length observed \<noteq> length DEFAULT_IPV4_RULES) unproved (
    raise_if (\<not> list_all (\<lambda>(_, src, _). hashable src) observed) TypeError (
    raise_if (set observed \<noteq> (\<lambda>(p, s, t). (p, JStr s, JStr t)) ` set DEFAULT_IPV4_RULES) unproved (Inr ())))))"

section \<open>Links\<close>

type_synonym link_map = "(string \<times> (string option \<times> string option)) list"

definition nonempty_name :: "json \<Rightarrow> string res" where
  "nonempty_name v = (case v of JStr s \<Rightarrow> if s = [] then Inl unproved else Inr s | _ \<Rightarrow> Inl unproved)"

definition optional_text :: "json \<Rightarrow> string option res" where
  "optional_text v =
    (case v of
       JNull \<Rightarrow> Inr None
     | JStr s \<Rightarrow> Inr (if s = [] then None else Some (lower_text s))
     | _ \<Rightarrow> Inl unproved)"

definition parse_link :: "dict \<Rightarrow> link_map \<Rightarrow> link_map res" where
  "parse_link link parsed =
    bind (nonempty_name (get link ''ifname'')) (\<lambda>name.
    raise_if (name \<in> fst ` set parsed) unproved (
    bind (optional_text (get link ''link_type'')) (\<lambda>link_type.
    bind (case get link ''linkinfo'' of JNull \<Rightarrow> Inr [] | JObj d \<Rightarrow> Inr d | _ \<Rightarrow> Inl unproved) (\<lambda>info.
    bind (optional_text (get info ''info_kind'')) (\<lambda>kind. Inr (parsed @ [(name, (kind, link_type))]))))))"

definition parse_links :: "json \<Rightarrow> link_map res" where
  "parse_links known = bind (require_json_list known) (\<lambda>ds. for_each parse_link ds [])"

definition link_is_tunnel :: "string \<Rightarrow> link_map \<Rightarrow> bool res" where
  "link_is_tunnel interface known =
    (case map_of known interface of
       None \<Rightarrow> Inl unproved
     | Some (kind, link_type) \<Rightarrow>
         Inr (kind \<in> Some ` set TUNNEL_LINK_KINDS \<or> link_type \<in> Some ` set TUNNEL_LINK_KINDS \<or> link_type = Some ''none''
              \<or> rx_search TUNNEL_INTERFACE_NAME interface))"

section \<open>Addresses\<close>

text \<open>
  \<open>ip_address\<close> of a value of JSON.  \<open>None\<close> stands for what raises a \<open>ValueError\<close> and for an IPv6 address, which every use
  here refuses with one.  A truth value is an integer.
\<close>

definition octets_of_int :: "int \<Rightarrow> nat list" where
  "octets_of_int i = map (\<lambda>k. nat i div 256 ^ k mod 256) [3, 2, 1, 0]"

definition ipv4_value :: "json \<Rightarrow> nat list option" where
  "ipv4_value v =
    (case v of
       JStr s \<Rightarrow> ipv4_of s
     | _ \<Rightarrow> (case as_int v of
               Some i \<Rightarrow> if 0 \<le> i \<and> i < 2 ^ 32 then Some (octets_of_int i) else None
             | None \<Rightarrow> None))"

text \<open>\<open>ip_network(text, strict=False)\<close>: the bits of the host are cleared.\<close>

definition loose_network :: "string \<Rightarrow> ip_network option" where
  "loose_network s =
    map_option (\<lambda>(octets, p).
      \<lparr>network_octets = octets_of_int (int (ip_int octets - ip_int octets mod 2 ^ (32 - p))), network_prefix = p\<rparr>)
      (network_parts s)"

text \<open>The text of a prefix length; of the other values no text is one.\<close>

definition prefix_text :: "json \<Rightarrow> string" where
  "prefix_text v = (case v of JStr s \<Rightarrow> s | JInt i \<Rightarrow> show_int i | _ \<Rightarrow> ''?'')"

definition interface_network :: "dict \<Rightarrow> (nat list \<times> ip_network) res" where
  "interface_network address =
    rewrap exact_lookup_error (\<lambda>_. unproved)
      (bind (item address ''local'') (\<lambda>v.
       case ipv4_value v of
         None \<Rightarrow> Inl unproved
       | Some own \<Rightarrow>
           bind (item address ''prefixlen'') (\<lambda>p.
           case loose_network (show_ipv4 own @ ''/'' @ prefix_text p) of
             None \<Rightarrow> Inl unproved
           | Some n \<Rightarrow> Inr (own, n))))"

type_synonym known_networks = "(string \<times> ip_network) list"
type_synonym address_bindings = "(string \<times> ip_network) list"

definition parse_address ::
  "string \<Rightarrow> nat list \<Rightarrow> json \<Rightarrow> known_networks \<times> address_bindings \<Rightarrow> (known_networks \<times> address_bindings) res" where
  "parse_address name advertise address found =
    (case address of
       JObj d \<Rightarrow>
         if get d ''family'' \<noteq> JStr ''inet'' then Inr found
         else
           bind (interface_network d) (\<lambda>(own, n).
           Inr (fst found @ [(''interface '' @ name, n)],
                if own = advertise then snd found @ [(name, n)] else snd found))
     | _ \<Rightarrow> Inl unproved)"

definition parse_interface ::
  "nat list \<Rightarrow> link_map \<Rightarrow> dict \<Rightarrow> known_networks \<times> address_bindings \<Rightarrow> (known_networks \<times> address_bindings) res" where
  "parse_interface advertise known interface found =
    bind (nonempty_name (get interface ''ifname'')) (\<lambda>name.
    raise_if (name \<notin> fst ` set known) unproved (
    case get interface ''addr_info'' of
      JArr entries \<Rightarrow> for_each (parse_address name advertise) entries found
    | _ \<Rightarrow> Inl unproved))"

definition parse_addresses :: "json \<Rightarrow> nat list \<Rightarrow> link_map \<Rightarrow> (known_networks \<times> (string \<times> ip_network)) res" where
  "parse_addresses addresses advertise known =
    bind (require_json_list addresses) (\<lambda>ds.
    bind (for_each (parse_interface advertise known) ds ([], [])) (\<lambda>(networks, found).
    case found of
      [only] \<Rightarrow> Inr (networks, only)
    | _ \<Rightarrow> Inl unproved))"

section \<open>Routes\<close>

definition parse_route_network :: "json \<Rightarrow> ip_network res" where
  "parse_route_network destination =
    (case destination of
       JStr s \<Rightarrow>
         if s = [] then Inl unproved
         else if s = ''default'' then Inr \<lparr>network_octets = [0, 0, 0, 0], network_prefix = 0\<rparr>
         else (case loose_network s of Some n \<Rightarrow> Inr n | None \<Rightarrow> Inl unproved)
     | _ \<Rightarrow> Inl unproved)"

definition validate_default_route :: "dict \<Rightarrow> nat list \<Rightarrow> string \<times> ip_network \<Rightarrow> unit res" where
  "validate_default_route route advertise bound =
    raise_if (get route ''dev'' \<noteq> JStr (fst bound)) unproved (
    bind (rewrap exact_lookup_error (\<lambda>_. unproved) (item route ''gateway'')) (\<lambda>v.
    case ipv4_value v of
      None \<Rightarrow> Inl unproved
    | Some gateway \<Rightarrow>
        raise_if (\<not> in_network (ip_int gateway) (snd bound) \<or> gateway = advertise) unproved (
        raise_if (get route ''prefsrc'' \<noteq> JNull \<and> ipv4_value (get route ''prefsrc'') \<noteq> Some advertise) unproved (
        raise_if (\<not> no_flags route) unproved (Inr ())))))"

text \<open>The networks and the number of default routes so far.\<close>

definition add_route ::
  "nat list \<Rightarrow> string \<times> ip_network \<Rightarrow> link_map \<Rightarrow> dict \<Rightarrow> known_networks \<times> nat \<Rightarrow> (known_networks \<times> nat) res" where
  "add_route advertise bound known route found =
    raise_if (list_ex (\<lambda>k. k \<in> set UNSUPPORTED_ROUTE_KEYS) (map fst route)) unproved (
    bind (normalize_table (get_default route ''table'' (JStr ''main''))) (\<lambda>table.
    raise_if (table \<notin> {JStr ''local'', JStr ''main''}) unproved (
    bind (parse_route_network (get route ''dst'')) (\<lambda>n.
    let route_type = get_default route ''type'' (JStr ''unicast'') in
    if table = JStr ''local''
    then
      raise_if (network_prefix n = 0 \<or> route_type \<notin> {JStr ''broadcast'', JStr ''local''}) unproved (
      Inr (fst found @ [(''route table local'', n)], snd found))
    else
      raise_if (route_type \<noteq> JStr ''unicast'') unproved (
      bind (nonempty_name (get route ''dev'')) (\<lambda>interface.
      bind (link_is_tunnel interface known) (\<lambda>tunnel.
      raise_if tunnel unproved (
      if network_prefix n = 0
      then bind (validate_default_route route advertise bound) (\<lambda>_. Inr (fst found, snd found + 1))
      else Inr (fst found @ [(''route table main'', n)], snd found)))))))))"

definition live_networks :: "float_text \<Rightarrow> ip_command \<Rightarrow> nat list \<Rightarrow> known_networks res" where
  "live_networks fl ip advertise =
    bind (ip_json fl ip [''address'', ''show'']) (\<lambda>addresses.
    bind (bind (ip_json fl ip [''-details'', ''link'', ''show'']) parse_links) (\<lambda>known.
    bind (bind (ip_json fl ip [''rule'', ''show'']) validate_default_ipv4_rules) (\<lambda>_.
    bind (bind (ip_json fl ip [''route'', ''show'', ''table'', ''all'']) require_json_list) (\<lambda>routes.
    bind (parse_addresses addresses advertise known) (\<lambda>(networks, bound).
    bind (for_each (add_route advertise bound known) routes (networks, 0)) (\<lambda>(all_networks, defaults).
    raise_if (1 < defaults) unproved (Inr all_networks)))))))"

section \<open>The command\<close>

text \<open>\<open>is_private\<close>, \<open>is_loopback\<close> and \<open>is_link_local\<close> of an IPv4 address.\<close>

definition reserved_network :: "nat list \<times> nat \<Rightarrow> ip_network" where
  "reserved_network = (\<lambda>(octets, p). \<lparr>network_octets = octets, network_prefix = p\<rparr>)"

definition PRIVATE_NETWORKS :: "ip_network list" where
  "PRIVATE_NETWORKS = map reserved_network
    [([0, 0, 0, 0], 8), ([10, 0, 0, 0], 8), ([127, 0, 0, 0], 8), ([169, 254, 0, 0], 16), ([172, 16, 0, 0], 12),
     ([192, 0, 0, 0], 24), ([192, 0, 0, 170], 31), ([192, 0, 2, 0], 24), ([192, 168, 0, 0], 16), ([198, 18, 0, 0], 15),
     ([198, 51, 100, 0], 24), ([203, 0, 113, 0], 24), ([240, 0, 0, 0], 4), ([255, 255, 255, 255], 32)]"

definition private_unicast :: "nat list \<Rightarrow> bool" where
  "private_unicast a =
    (let inside = (\<lambda>n. in_network (ip_int a) (reserved_network n)) in
     list_ex (in_network (ip_int a)) PRIVATE_NETWORKS \<and> \<not> inside ([192, 0, 0, 9], 32) \<and> \<not> inside ([192, 0, 0, 10], 32)
     \<and> \<not> inside ([127, 0, 0, 0], 8) \<and> \<not> inside ([169, 254, 0, 0], 16))"

definition exact_network :: "string \<Rightarrow> ip_network res" where
  "exact_network s = (case ip_network_of s of Some n \<Rightarrow> Inr n | None \<Rightarrow> Inl unproved)"

definition network_plan :: "string \<Rightarrow> (ip_network \<times> ip_network \<times> nat list) res" where
  "network_plan content =
    bind (bind (one_match ''podSubnet'' content) exact_network) (\<lambda>pod.
    bind (bind (one_match ''serviceSubnet'' content) exact_network) (\<lambda>service.
    bind (one_match ''advertiseAddress'' content) (\<lambda>s.
    case ipv4_of s of
      None \<Rightarrow> Inl unproved
    | Some advertise \<Rightarrow> Inr (pod, service, advertise))))"

definition separation_failures :: "ip_network \<Rightarrow> ip_network \<Rightarrow> nat list \<Rightarrow> known_networks \<Rightarrow> string list" where
  "separation_failures pod service advertise current =
    (if networks_overlap pod service then [''pod and service CIDRs overlap''] else [])
    @ (if \<not> private_unicast advertise then [''API advertise address is not a private unicast address''] else [])
    @ concat (map (\<lambda>(name, target).
        concat (map (\<lambda>(src, n).
          if networks_overlap target n
          then [name @ '' CIDR '' @ show_network target @ '' overlaps '' @ src @ '' '' @ show_network n] else []) current))
        [(''pod'', pod), (''service'', service)])"

definition network_caught :: "exc \<Rightarrow> bool" where
  "network_caught e = (e = KeyError \<or> e = OSError \<or> e = TypeError \<or> e = SubprocessError \<or> is_value_error e)"

definition pi_network_main :: "float_text \<Rightarrow> ip_command \<Rightarrow> string res \<Rightarrow> (nat \<times> string list) res" where
  "pi_network_main fl ip file =
    bind (bind file decode_utf8) (\<lambda>content.
    case bind (network_plan (universal_newlines content)) (\<lambda>(pod, service, advertise).
      bind (live_networks fl ip advertise) (\<lambda>current. Inr (separation_failures pod service advertise current))) of
      Inl e \<Rightarrow> if network_caught e then Inr (1, [''FAIL unable to prove live network separation'']) else Inl e
    | Inr failures \<Rightarrow>
        Inr (if failures \<noteq> [] then (1, map (\<lambda>f. ''FAIL '' @ f) (sort (remdups failures)))
             else (0, [''PASS pod and service CIDRs are separated under the canonical LAN route model''])))"


text \<open>
  What a passed comparison of the cluster networks with the routes of the host stands for: the networks share no
  address with each other, with a network of an interface or with the destination of a route.
\<close>

section \<open>Networks of the host\<close>

lemma ip_int_bound: "length octets = 4 \<Longrightarrow> list_all (\<lambda>n. n \<le> 255) octets \<Longrightarrow> ip_int octets < 2 ^ 32"
proof -
  assume "length octets = 4" and small: "list_all (\<lambda>n. n \<le> 255) octets"
  then obtain a b c d where octets: "octets = [a, b, c, d]" by (auto simp: length_Suc_conv numeral_eq_Suc)
  with small show ?thesis by (simp add: ip_int_def)
qed

lemma ip_int_octets: "n < 2 ^ 32 \<Longrightarrow> ip_int (octets_of_int (int n)) = n"
proof -
  assume n: "n < 2 ^ 32"
  have top: "n div 16777216 mod 256 = n div 16777216" using n by (intro mod_less) (simp add: less_mult_imp_div_less)
  have "n div 16777216 * 256 + n div 65536 mod 256 = n div 65536"
    using div_mult_mod_eq [of "n div 65536" 256] by (simp flip: div_mult2_eq)
  moreover have "n div 65536 * 256 + n div 256 mod 256 = n div 256"
    using div_mult_mod_eq [of "n div 256" 256] by (simp flip: div_mult2_eq)
  moreover have "n div 256 * 256 + n mod 256 = n" by (rule div_mult_mod_eq)
  ultimately show ?thesis by (simp add: ip_int_def octets_of_int_def top)
qed

lemma loose_aligned: "loose_network s = Some n \<Longrightarrow> aligned n"
proof -
  assume "loose_network s = Some n"
  then obtain octets p where parts: "network_parts s = Some (octets, p)"
    and n: "n = \<lparr>network_octets = octets_of_int (int (ip_int octets - ip_int octets mod 2 ^ (32 - p))), network_prefix = p\<rparr>"
    by (auto simp: loose_network_def)
  from parts obtain address where "ipv4_of address = Some octets"
    by (auto simp: network_parts_def Let_def split: list.splits option.splits)
  from ipv4_text [OF this] ip_int_bound have bound: "ip_int octets < 2 ^ 32" by simp
  let ?m = "ip_int octets - ip_int octets mod 2 ^ (32 - p)"
  have "?m < 2 ^ 32" using bound by linarith
  then have "network_address n = ?m" by (simp only: network_address_def n ip_network.simps ip_int_octets)
  moreover have "?m mod 2 ^ (32 - p) = 0" by (simp add: minus_mod_eq_mult_div)
  ultimately show ?thesis by (simp add: aligned_def n)
qed

lemma route_aligned: "parse_route_network v = Inr n \<Longrightarrow> aligned n"
  using loose_aligned by (auto simp: parse_route_network_def aligned_def network_address_def ip_int_def split: json.splits if_splits option.splits)

lemma interface_aligned: "interface_network d = Inr (own, n) \<Longrightarrow> aligned n"
  using loose_aligned by (auto simp: interface_network_def split: option.splits)

section \<open>What is collected\<close>

definition entry_known :: "known_networks \<Rightarrow> json \<Rightarrow> bool" where
  "entry_known networks v =
    (case v of
       JObj d \<Rightarrow>
         if get d ''family'' = JStr ''inet''
         then (case interface_network d of Inr (own, n) \<Rightarrow> n \<in> snd ` set networks | Inl _ \<Rightarrow> False)
         else True
     | _ \<Rightarrow> False)"

definition interface_known :: "known_networks \<Rightarrow> dict \<Rightarrow> bool" where
  "interface_known networks d =
    (case get d ''addr_info'' of JArr entries \<Rightarrow> list_all (entry_known networks) entries | _ \<Rightarrow> False)"

definition is_default :: "dict \<Rightarrow> bool" where
  "is_default d = (case parse_route_network (get d ''dst'') of Inr n \<Rightarrow> network_prefix n = 0 | Inl _ \<Rightarrow> False)"

definition route_known :: "known_networks \<Rightarrow> dict \<Rightarrow> bool" where
  "route_known networks d =
    (case parse_route_network (get d ''dst'') of
       Inr n \<Rightarrow> if network_prefix n = 0 then True else n \<in> snd ` set networks
     | Inl _ \<Rightarrow> False)"

lemma known_mono:
  assumes "set networks \<subseteq> set more_networks"
  shows "entry_known networks v \<Longrightarrow> entry_known more_networks v"
    and "interface_known networks d \<Longrightarrow> interface_known more_networks d"
    and "route_known networks d \<Longrightarrow> route_known more_networks d"
proof -
  have entry: "entry_known networks v \<Longrightarrow> entry_known more_networks v" for v
    using assms by (auto simp: entry_known_def split: json.splits sum.splits if_splits)
  then show "entry_known networks v \<Longrightarrow> entry_known more_networks v" .
  show "interface_known networks d \<Longrightarrow> interface_known more_networks d"
    using entry by (auto simp: interface_known_def list_all_iff split: json.splits)
  show "route_known networks d \<Longrightarrow> route_known more_networks d"
    using assms by (auto simp: route_known_def split: sum.splits if_splits)
qed

definition all_aligned :: "known_networks \<Rightarrow> bool" where
  "all_aligned networks = list_all (\<lambda>(_, n). aligned n) networks"

lemma address_step:
  assumes "parse_address name advertise v found = Inr found'" and "all_aligned (fst found)"
  shows "all_aligned (fst found')" and "set (fst found) \<subseteq> set (fst found')" and "entry_known (fst found') v"
proof -
  from assms(1) obtain d where v: "v = JObj d" by (auto simp: parse_address_def split: json.splits)
  have "all_aligned (fst found') \<and> set (fst found) \<subseteq> set (fst found') \<and> entry_known (fst found') v"
  proof (cases "get d ''family'' = JStr ''inet''")
    case True
    with assms(1) v obtain own n where n: "interface_network d = Inr (own, n)" "fst found' = fst found @ [(''interface '' @ name, n)]"
      by (auto simp: parse_address_def)
    with True v assms(2) interface_aligned [OF n(1)] show ?thesis by (auto simp: entry_known_def all_aligned_def)
  next
    case False
    with assms v show ?thesis by (simp add: parse_address_def entry_known_def)
  qed
  then show "all_aligned (fst found')" "set (fst found) \<subseteq> set (fst found')" "entry_known (fst found') v" by simp_all
qed

lemma entries_known:
  assumes "for_each (parse_address name advertise) entries found = Inr found'" and "all_aligned (fst found)"
  shows "all_aligned (fst found') \<and> set (fst found) \<subseteq> set (fst found') \<and> list_all (entry_known (fst found')) entries"
  using assms(1)
proof (rule for_each_prefix_invariant [where I = "\<lambda>pre s. all_aligned (fst s) \<and> set (fst found) \<subseteq> set (fst s) \<and> list_all (entry_known (fst s)) pre"])
  fix pre v s s'
  assume step: "parse_address name advertise v s = Inr s'"
    and ok: "all_aligned (fst s) \<and> set (fst found) \<subseteq> set (fst s) \<and> list_all (entry_known (fst s)) pre"
  from address_step [OF step] ok known_mono(1) [of "fst s" "fst s'"]
  show "all_aligned (fst s') \<and> set (fst found) \<subseteq> set (fst s') \<and> list_all (entry_known (fst s')) (pre @ [v])"
    by (auto simp: list_all_iff)
qed (use assms(2) in simp)

lemma interface_step:
  assumes "parse_interface advertise known d found = Inr found'" and "all_aligned (fst found)"
  shows "all_aligned (fst found') \<and> set (fst found) \<subseteq> set (fst found') \<and> interface_known (fst found') d"
proof -
  from assms(1) obtain name entries where "get d ''addr_info'' = JArr entries"
    and "for_each (parse_address name advertise) entries found = Inr found'"
    by (auto simp: parse_interface_def split: json.splits)
  with entries_known [OF this(2) assms(2)] show ?thesis by (simp add: interface_known_def)
qed

lemma addresses_known:
  assumes "parse_addresses (JArr xs) advertise known = Inr (networks, bound)"
  shows "all_aligned networks \<and> list_all is_object xs \<and> list_all (interface_known networks) (objects xs)"
proof -
  from assms obtain found where objects: "list_all is_object xs"
    and loop: "for_each (parse_interface advertise known) (objects xs) ([], []) = Inr (networks, found)"
    by (auto simp: parse_addresses_def require_json_list_def split: if_splits prod.splits list.splits)
  have "all_aligned (fst (networks, found)) \<and> list_all (interface_known (fst (networks, found))) (objects xs)"
    using loop
  proof (rule for_each_prefix_invariant [where I = "\<lambda>pre s. all_aligned (fst s) \<and> list_all (interface_known (fst s)) pre"])
    fix pre d s s'
    assume step: "parse_interface advertise known d s = Inr s'" and ok: "all_aligned (fst s) \<and> list_all (interface_known (fst s)) pre"
    from interface_step [OF step] ok known_mono(2) [of "fst s" "fst s'"]
    show "all_aligned (fst s') \<and> list_all (interface_known (fst s')) (pre @ [d])" by (auto simp: list_all_iff)
  qed (simp add: all_aligned_def)
  with objects show ?thesis by simp
qed

lemma route_step:
  assumes "add_route advertise bound known route found = Inr found'" and "all_aligned (fst found)"
  shows "all_aligned (fst found')" and "set (fst found) \<subseteq> set (fst found')" and "route_known (fst found') route"
    and "snd found' = snd found + (if is_default route then 1 else 0)"
  using assms route_aligned
  by (auto simp: add_route_def route_known_def is_default_def all_aligned_def Let_def split: if_splits)

lemma routes_known:
  assumes "for_each (add_route advertise bound known) routes (networks, 0) = Inr (all_networks, defaults)" and "all_aligned networks"
  shows "all_aligned all_networks \<and> set networks \<subseteq> set all_networks \<and> list_all (route_known all_networks) routes
    \<and> defaults = length (filter is_default routes)"
proof -
  have "all_aligned (fst (all_networks, defaults)) \<and> set networks \<subseteq> set (fst (all_networks, defaults))
      \<and> list_all (route_known (fst (all_networks, defaults))) routes \<and> snd (all_networks, defaults) = length (filter is_default routes)"
    using assms(1)
  proof (rule for_each_prefix_invariant [where I = "\<lambda>pre s. all_aligned (fst s) \<and> set networks \<subseteq> set (fst s)
      \<and> list_all (route_known (fst s)) pre \<and> snd s = length (filter is_default pre)"])
    fix pre d s s'
    assume step: "add_route advertise bound known d s = Inr s'" and ok: "all_aligned (fst s) \<and> set networks \<subseteq> set (fst s)
      \<and> list_all (route_known (fst s)) pre \<and> snd s = length (filter is_default pre)"
    from route_step [OF step] ok known_mono(3) [of "fst s" "fst s'"]
    show "all_aligned (fst s') \<and> set networks \<subseteq> set (fst s') \<and> list_all (route_known (fst s')) (pre @ [d])
        \<and> snd s' = length (filter is_default (pre @ [d]))" by (auto simp: list_all_iff)
  qed (use assms(2) in simp)
  then show ?thesis by simp
qed

section \<open>Separation\<close>

definition apart :: "ip_network \<Rightarrow> ip_network \<Rightarrow> ip_network \<Rightarrow> bool" where
  "apart pod service n \<longleftrightarrow> (network_range pod \<union> network_range service) \<inter> network_range n = {}"

definition entry_apart :: "ip_network \<Rightarrow> ip_network \<Rightarrow> json \<Rightarrow> bool" where
  "entry_apart pod service v =
    (case v of
       JObj d \<Rightarrow>
         if get d ''family'' = JStr ''inet''
         then (case interface_network d of Inr (own, n) \<Rightarrow> apart pod service n | Inl _ \<Rightarrow> False)
         else True
     | _ \<Rightarrow> False)"

definition interfaces_apart :: "ip_network \<Rightarrow> ip_network \<Rightarrow> json \<Rightarrow> bool" where
  "interfaces_apart pod service v =
    (case v of
       JArr xs \<Rightarrow>
         list_all (\<lambda>d. case get d ''addr_info'' of JArr entries \<Rightarrow> list_all (entry_apart pod service) entries | _ \<Rightarrow> False)
           (objects xs)
     | _ \<Rightarrow> False)"

definition routes_apart :: "ip_network \<Rightarrow> ip_network \<Rightarrow> json \<Rightarrow> bool" where
  "routes_apart pod service v =
    (case v of
       JArr xs \<Rightarrow>
         length (filter is_default (objects xs)) \<le> 1
         \<and> list_all (\<lambda>d. case parse_route_network (get d ''dst'') of
               Inr n \<Rightarrow> if network_prefix n = 0 then True else apart pod service n
             | Inl _ \<Rightarrow> False) (objects xs)
     | _ \<Rightarrow> False)"

lemma no_failures:
  assumes "separation_failures pod service advertise current = []" and "aligned pod" and "aligned service" and "all_aligned current"
  shows "network_range pod \<inter> network_range service = {}" and "private_unicast advertise"
    and "(src, n) \<in> set current \<Longrightarrow> apart pod service n"
proof -
  from assms(1) have free: "\<not> networks_overlap pod service" "private_unicast advertise"
    "\<And>src n. (src, n) \<in> set current \<Longrightarrow> \<not> networks_overlap pod n \<and> \<not> networks_overlap service n"
    by (auto simp: separation_failures_def split: if_splits)
  from free(1) show "network_range pod \<inter> network_range service = {}" using overlap_sets [OF assms(2,3)] by blast
  show "private_unicast advertise" by (rule free(2))
  assume n: "(src, n) \<in> set current"
  then have "aligned n" using assms(4) by (auto simp: all_aligned_def list_all_iff)
  with free(3) [OF n] show "apart pod service n"
    using overlap_sets [OF assms(2)] overlap_sets [OF assms(3)] by (auto simp: apart_def)
qed

lemma json_list_Inr: "require_json_list v = Inr ds \<longleftrightarrow> (\<exists>xs. v = JArr xs \<and> list_all is_object xs \<and> ds = objects xs)"
  by (cases v) (auto simp: require_json_list_def)

lemma live_known:
  assumes "live_networks fl ip advertise = Inr current"
  shows "\<exists>xs ys. ip_json fl ip [''address'', ''show''] = Inr (JArr xs) \<and> ip_json fl ip [''route'', ''show'', ''table'', ''all''] = Inr (JArr ys)
    \<and> all_aligned current \<and> list_all (interface_known current) (objects xs) \<and> list_all (route_known current) (objects ys)
    \<and> length (filter is_default (objects ys)) \<le> 1"
proof -
  from assms obtain addresses known v ys networks bound defaults where
    addresses: "ip_json fl ip [''address'', ''show''] = Inr addresses" "parse_addresses addresses advertise known = Inr (networks, bound)"
    and routes: "ip_json fl ip [''route'', ''show'', ''table'', ''all''] = Inr v" "require_json_list v = Inr ys"
      "for_each (add_route advertise bound known) ys (networks, 0) = Inr (current, defaults)" "\<not> 1 < defaults"
    by (auto simp: live_networks_def split: prod.splits)
  from addresses(2) obtain xs where xs: "addresses = JArr xs"
    by (auto simp: parse_addresses_def json_list_Inr)
  from addresses_known [OF addresses(2) [unfolded xs]]
  have known: "all_aligned networks" "list_all (interface_known networks) (objects xs)" by simp_all
  from routes_known [OF routes(3) known(1)] have all: "all_aligned current" "set networks \<subseteq> set current"
      "list_all (route_known current) ys" "defaults = length (filter is_default ys)" by simp_all
  have "list_all (interface_known current) (objects xs)" using known(2) known_mono(2) [OF all(2)] by (auto simp: list_all_iff)
  with addresses(1) xs routes all show ?thesis by (auto simp: json_list_Inr)
qed

lemma passed:
  assumes "pi_network_main fl ip file = Inr (0, printed)"
  shows "\<exists>content pod service advertise current.
    bind file decode_utf8 = Inr content \<and> network_plan (universal_newlines content) = Inr (pod, service, advertise)
    \<and> live_networks fl ip advertise = Inr current \<and> separation_failures pod service advertise current = []"
proof -
  from assms obtain content where content: "bind file decode_utf8 = Inr content"
    by (cases "bind file decode_utf8") (simp_all add: pi_network_main_def)
  let ?judged = "bind (network_plan (universal_newlines content)) (\<lambda>(pod, service, advertise).
      bind (live_networks fl ip advertise) (\<lambda>current. Inr (separation_failures pod service advertise current)))"
  have "?judged = Inr []"
  proof (cases ?judged)
    case (Inl e)
    with assms content show ?thesis by (simp add: pi_network_main_def split: if_splits)
  next
    case (Inr failures)
    with assms content have "failures = []" by (simp add: pi_network_main_def split: if_splits)
    with Inr show ?thesis by simp
  qed
  then show ?thesis using content by (auto split: prod.splits)
qed

lemma known_apart:
  assumes "\<And>src n. (src, n) \<in> set current \<Longrightarrow> apart pod service n"
  shows "entry_known current v \<Longrightarrow> entry_apart pod service v"
    and "interface_known current d \<Longrightarrow>
      (case get d ''addr_info'' of JArr entries \<Rightarrow> list_all (entry_apart pod service) entries | _ \<Rightarrow> False)"
    and "route_known current d \<Longrightarrow>
      (case parse_route_network (get d ''dst'') of Inr n \<Rightarrow> if network_prefix n = 0 then True else apart pod service n | Inl _ \<Rightarrow> False)"
proof -
  have apart: "apart pod service n" if "n \<in> snd ` set current" for n using that assms by auto
  have entry: "entry_known current v \<Longrightarrow> entry_apart pod service v" for v
    using apart by (cases v) (auto simp: entry_known_def entry_apart_def split: sum.splits if_splits)
  then show "entry_known current v \<Longrightarrow> entry_apart pod service v" .
  show "interface_known current d \<Longrightarrow>
      (case get d ''addr_info'' of JArr entries \<Rightarrow> list_all (entry_apart pod service) entries | _ \<Rightarrow> False)"
    using entry by (cases "get d ''addr_info''") (auto simp: interface_known_def list_all_iff)
  show "route_known current d \<Longrightarrow>
      (case parse_route_network (get d ''dst'') of Inr n \<Rightarrow> if network_prefix n = 0 then True else apart pod service n | Inl _ \<Rightarrow> False)"
    using apart by (cases "parse_route_network (get d ''dst'')") (auto simp: route_known_def split: if_splits)
qed

text \<open>
  C40: When the comparison passes, the pod and the service network share no address with each other, with the network of any
  IPv4 address of an interface, or with the destination of any route of any table but the default route, of which
  there is at most one; and the advertised address is private.
\<close>

theorem networks_separated:
  "case pi_network_main fl ip file of
     Inr (0, _) \<Rightarrow>
       (\<exists>content pod service advertise addresses routes.
          bind file decode_utf8 = Inr content \<and> network_plan (universal_newlines content) = Inr (pod, service, advertise)
          \<and> ip_json fl ip [''address'', ''show''] = Inr addresses
          \<and> ip_json fl ip [''route'', ''show'', ''table'', ''all''] = Inr routes
          \<and> network_range pod \<inter> network_range service = {} \<and> private_unicast advertise
          \<and> interfaces_apart pod service addresses \<and> routes_apart pod service routes)
   | _ \<Rightarrow> True"
proof (cases "\<exists>printed. pi_network_main fl ip file = Inr (0, printed)")
  case True
  then obtain content pod service advertise current where
    content: "bind file decode_utf8 = Inr content" "network_plan (universal_newlines content) = Inr (pod, service, advertise)"
    and live: "live_networks fl ip advertise = Inr current" "separation_failures pod service advertise current = []"
    using passed by blast
  have aligned: "aligned pod" "aligned service"
    using content(2) network_aligned by (auto simp: network_plan_def exact_network_def split: option.splits)
  from live_known [OF live(1)] obtain xs ys where known:
    "ip_json fl ip [''address'', ''show''] = Inr (JArr xs)" "ip_json fl ip [''route'', ''show'', ''table'', ''all''] = Inr (JArr ys)"
    "all_aligned current" "list_all (interface_known current) (objects xs)" "list_all (route_known current) (objects ys)"
    "length (filter is_default (objects ys)) \<le> 1" by blast
  note free = no_failures [OF live(2) aligned known(3)]
  note apart = known_apart [of current pod service, OF free(3)]
  have "interfaces_apart pod service (JArr xs)"
    unfolding interfaces_apart_def json.case by (rule list.pred_mono_strong [OF known(4)]) (rule apart(2))
  moreover have "routes_apart pod service (JArr ys)"
    unfolding routes_apart_def json.case by (intro conjI known(6) list.pred_mono_strong [OF known(5)]) (rule apart(3))
  ultimately have "bind file decode_utf8 = Inr content \<and> network_plan (universal_newlines content) = Inr (pod, service, advertise)
      \<and> ip_json fl ip [''address'', ''show''] = Inr (JArr xs) \<and> ip_json fl ip [''route'', ''show'', ''table'', ''all''] = Inr (JArr ys)
      \<and> network_range pod \<inter> network_range service = {} \<and> private_unicast advertise
      \<and> interfaces_apart pod service (JArr xs) \<and> routes_apart pod service (JArr ys)"
    using content known free(1,2) by simp
  then have "\<exists>content pod service advertise addresses routes.
      bind file decode_utf8 = Inr content \<and> network_plan (universal_newlines content) = Inr (pod, service, advertise)
      \<and> ip_json fl ip [''address'', ''show''] = Inr addresses \<and> ip_json fl ip [''route'', ''show'', ''table'', ''all''] = Inr routes
      \<and> network_range pod \<inter> network_range service = {} \<and> private_unicast advertise
      \<and> interfaces_apart pod service addresses \<and> routes_apart pod service routes" by (intro exI)
  moreover from True obtain printed where "pi_network_main fl ip file = Inr (0, printed)" by blast
  ultimately show ?thesis by (simp only: sum.case prod.case nat.case)
next
  case False
  then show ?thesis by (cases "pi_network_main fl ip file") (auto split: nat.splits)
qed


end
