(* ===== verification/HostPlan.thy ===== *)
theory HostPlan
  imports PyRegex PyBytes
begin

text \<open>
  scripts/validate_host_prerequisites_plan.py: the plan that binds an approval to one host.  The order in which the
  digests are reported is that of a set in Python, and that of the list here.
\<close>

section \<open>Constants\<close>

definition FIXED :: "(string \<times> string) list" where
  "FIXED =
    [(''PLAN_VERSION'', ''1''),
     (''MODULES_TARGET'', ''/etc/modules-load.d/90-website-infrastructure-kubeadm.conf''),
     (''SYSCTL_TARGET'', ''/etc/sysctl.d/90-website-infrastructure-kubeadm.conf''),
     (''FSTAB_TARGET'', ''/etc/fstab''),
     (''BACKUP_ROOT'', ''/var/backups/website-infrastructure/host-prerequisites''),
     (''STATE_ROOT'', ''/var/lib/website-infrastructure/host-prerequisites''),
     (''DESIRED_MODULES'', ''overlay,br_netfilter''),
     (''DESIRED_VM_OVERCOMMIT_MEMORY'', ''1''),
     (''DESIRED_VM_PANIC_ON_OOM'', ''0''),
     (''DESIRED_KERNEL_PANIC'', ''10''),
     (''DESIRED_KERNEL_PANIC_ON_OOPS'', ''1''),
     (''DESIRED_KERNEL_KEYS_ROOT_MAXKEYS'', ''1000000''),
     (''DESIRED_KERNEL_KEYS_ROOT_MAXBYTES'', ''25000000''),
     (''DESIRED_NET_IPV4_IP_FORWARD'', ''1''),
     (''DESIRED_NET_BRIDGE_BRIDGE_NF_CALL_IPTABLES'', ''1''),
     (''DESIRED_NET_BRIDGE_BRIDGE_NF_CALL_IP6TABLES'', ''1'')]"

definition CURRENT_BOUNDS :: "(string \<times> (nat \<times> nat)) list" where
  "CURRENT_BOUNDS =
    [(''CURRENT_VM_OVERCOMMIT_MEMORY'', (0, 2)),
     (''CURRENT_VM_PANIC_ON_OOM'', (0, 1)),
     (''CURRENT_KERNEL_PANIC'', (0, 3600)),
     (''CURRENT_KERNEL_PANIC_ON_OOPS'', (0, 1)),
     (''CURRENT_KERNEL_KEYS_ROOT_MAXKEYS'', (1, 2000000000)),
     (''CURRENT_KERNEL_KEYS_ROOT_MAXBYTES'', (1, 2000000000)),
     (''CURRENT_NET_IPV4_IP_FORWARD'', (0, 1)),
     (''CURRENT_NET_BRIDGE_BRIDGE_NF_CALL_IPTABLES'', (0, 1)),
     (''CURRENT_NET_BRIDGE_BRIDGE_NF_CALL_IP6TABLES'', (0, 1))]"

definition MODULE_GATED_CURRENT_KEYS :: "string list" where
  "MODULE_GATED_CURRENT_KEYS =
    [''CURRENT_NET_BRIDGE_BRIDGE_NF_CALL_IPTABLES'', ''CURRENT_NET_BRIDGE_BRIDGE_NF_CALL_IP6TABLES'']"

definition SHA_KEYS :: "string list" where
  "SHA_KEYS =
    [''EXPECTED_MACHINE_ID_SHA256'', ''EXPECTED_BOOT_ID_SHA256'', ''EXPECTED_OS_RELEASE_SHA256'', ''EXPECTED_FSTAB_SHA256'',
     ''EXPECTED_ACTIVE_SWAP_SHA256'', ''DESIRED_MODULES_SHA256'', ''DESIRED_SYSCTL_SHA256'']"

definition EXPECTED_KEYS :: "string list" where
  "EXPECTED_KEYS =
    map fst FIXED @ map fst CURRENT_BOUNDS @ SHA_KEYS
    @ [''PLAN_STATUS'', ''EXPECTED_ARCHITECTURE'', ''EXPECTED_KERNEL_RELEASE'', ''EXPECTED_MODULES_TARGET_STATE'',
       ''EXPECTED_SYSCTL_TARGET_STATE'', ''SWAP_MECHANISM'', ''SWAP_ACTION'']"

definition sha_text :: "string \<Rightarrow> bool" where
  "sha_text s = (length s = 64 \<and> list_all (\<lambda>c. is_digit c \<or> byte_in 97 102 c) s)"

definition kernel_text :: "string \<Rightarrow> bool" where
  "kernel_text s =
    (s \<noteq> [] \<and> length s \<le> 128 \<and> (is_letter (hd s) \<or> is_digit (hd s))
     \<and> list_all (\<lambda>c. is_letter c \<or> is_digit c \<or> c \<in> set ''._+~-'') s)"

definition state_text :: "string \<Rightarrow> bool" where
  "state_text s = (s = ''absent'' \<or> startswith s ''sha256:'' \<and> sha_text (drop 7 s))"

section \<open>Reading\<close>

definition plan_key :: "string \<Rightarrow> bool" where
  "plan_key s = (s \<noteq> [] \<and> byte_in 65 90 (hd s) \<and> list_all (\<lambda>c. byte_in 65 90 c \<or> is_digit c \<or> c = CHR ''_'') s)"

type_synonym plan = "(string \<times> string) list"

definition plan_fault :: "nat \<Rightarrow> string \<Rightarrow> string" where
  "plan_fault n reason = ''line '' @ show_nat n @ '': '' @ reason"

definition plan_line :: "nat \<times> string \<Rightarrow> plan \<times> string list \<Rightarrow> plan \<times> string list" where
  "plan_line numbered st =
    (let (n, raw) = numbered; (plan_values, errors) = st; line = strip raw in
     if line = [] \<or> startswith line ''#'' then st
     else if raw \<noteq> line then (plan_values, errors @ [plan_fault n ''expected unindented KEY=VALUE''])
     else
       case split_first (CHR ''='') line of
         None \<Rightarrow> (plan_values, errors @ [plan_fault n ''expected unindented KEY=VALUE''])
       | Some (key, v) \<Rightarrow>
           if \<not> plan_key key then (plan_values, errors @ [plan_fault n ''malformed key''])
           else if v = [] \<or> list_ex space_char (characters v)
           then (plan_values, errors @ [plan_fault n ''value must be nonempty and contain no whitespace''])
           else if key \<in> fst ` set plan_values then (plan_values, errors @ [plan_fault n ''duplicate key''])
           else (plan_values @ [(key, v)], errors))"

definition parse_plan :: "string res \<Rightarrow> plan \<times> string list" where
  "parse_plan file =
    (case bind file decode_utf8 of
       Inl e \<Rightarrow> ([], [''cannot read plan''])
     | Inr content \<Rightarrow> fold plan_line (enumerate 1 (splitlines (universal_newlines content))) ([], []))"

section \<open>Checks\<close>

definition plan_value :: "plan \<Rightarrow> string \<Rightarrow> string" where
  "plan_value plan_values key = the (map_of plan_values key)"

definition current_errors :: "plan \<Rightarrow> string \<times> (nat \<times> nat) \<Rightarrow> string list" where
  "current_errors plan_values bound =
    (let (key, (least, most)) = bound; v = plan_value plan_values key in
     if v = ''unavailable-until-module-load'' \<and> key \<in> set MODULE_GATED_CURRENT_KEYS then []
     else if v = [] \<or> \<not> list_all is_digit v then [key @ '' must be an unsigned integer'']
     else if least \<le> read_nat v \<and> read_nat v \<le> most then []
     else [key @ '' must be between '' @ show_nat least @ '' and '' @ show_nat most])"

definition SWAP_ACTIONS :: "(string \<times> string) list" where
  "SWAP_ACTIONS = [(''none'', ''none''), (''fstab-only'', ''disable-fstab'')]"

definition swap_errors :: "plan \<Rightarrow> string list" where
  "swap_errors plan_values =
    (let mechanism = plan_value plan_values ''SWAP_MECHANISM''; expected = map_of SWAP_ACTIONS mechanism in
     (if mechanism \<notin> {''none'', ''fstab-only''}
      then [''SWAP_MECHANISM must be none or fstab-only; unknown mechanisms are forbidden''] else [])
     @ (if Some (plan_value plan_values ''SWAP_ACTION'') \<noteq> expected
        then [''SWAP_ACTION must be '' @ (case expected of None \<Rightarrow> ''None'' | Some a \<Rightarrow> a) @ '' for SWAP_MECHANISM='' @ mechanism]
        else []))"

definition validate_plan :: "plan \<Rightarrow> string list" where
  "validate_plan plan_values =
    (let missing = filter (\<lambda>k. k \<notin> fst ` set plan_values) (sort EXPECTED_KEYS);
         unknown = filter (\<lambda>k. k \<notin> set EXPECTED_KEYS) (map fst plan_values) in
     if missing \<noteq> [] \<or> unknown \<noteq> []
     then (if missing \<noteq> [] then [''missing keys: '' @ join '', '' missing] else [])
       @ (if unknown \<noteq> [] then [''unknown keys: '' @ show_nat (length unknown)] else [])
     else
       concat (map (\<lambda>(key, expected). if plan_value plan_values key \<noteq> expected then [key @ '' must be exactly '' @ expected] else []) FIXED)
       @ (if plan_value plan_values ''PLAN_STATUS'' \<noteq> ''approved-after-host-discovery''
          then [''PLAN_STATUS must be approved-after-host-discovery''] else [])
       @ (if plan_value plan_values ''EXPECTED_ARCHITECTURE'' \<notin> {''aarch64'', ''arm64''}
          then [''EXPECTED_ARCHITECTURE must be aarch64 or arm64''] else [])
       @ (if \<not> kernel_text (plan_value plan_values ''EXPECTED_KERNEL_RELEASE'') then [''EXPECTED_KERNEL_RELEASE is malformed''] else [])
       @ concat (map (\<lambda>key. if \<not> sha_text (plan_value plan_values key) then [key @ '' must be a lowercase SHA-256''] else []) SHA_KEYS)
       @ concat (map (\<lambda>key.
           if \<not> state_text (plan_value plan_values key) then [key @ '' must be absent or sha256:<lowercase SHA-256>''] else [])
           [''EXPECTED_MODULES_TARGET_STATE'', ''EXPECTED_SYSCTL_TARGET_STATE''])
       @ concat (map (current_errors plan_values) CURRENT_BOUNDS)
       @ swap_errors plan_values)"

definition host_plan_main :: "string res \<Rightarrow> nat \<times> string list" where
  "host_plan_main file =
    (let (plan_values, faults) = parse_plan file;
         errors = faults @ (if faults = [] then validate_plan plan_values else []) in
     if errors \<noteq> [] then (1, map (\<lambda>e. ''ERROR '' @ e) errors)
     else (0, [''PASS host-prerequisites plan matches the exact reviewed contract'']))"

section \<open>The lines of a plan\<close>

text \<open>A plan that is read without a fault is its significant lines, each key once.\<close>

definition plan_carries :: "string \<Rightarrow> bool" where
  "plan_carries raw \<longleftrightarrow> strip raw \<noteq> [] \<and> \<not> startswith (strip raw) ''#''"

lemma plan_lines:
  assumes "fold plan_line (enumerate n lines) (given, []) = (plan_values, [])" and "distinct (map fst given)"
  shows "distinct (map fst plan_values) \<and> filter plan_carries lines = map (\<lambda>(k, v). k @ CHR ''='' # v) (drop (length given) plan_values)
    \<and> take (length given) plan_values = given"
proof -
  have faulty: "snd (fold plan_line numbered (given, e # errors)) \<noteq> []" for numbered given e errors
  proof -
    have "\<exists>more. snd (fold plan_line numbered st) = snd st @ more" for st
    proof (induction numbered arbitrary: st)
      case (Cons x numbered)
      have "\<exists>more. snd (plan_line x st) = snd st @ more"
        by (cases x; cases st) (auto simp: plan_line_def Let_def split: option.splits)
      with Cons.IH [of "plan_line x st"] show ?case by auto
    qed simp
    from this [of "(given, e # errors)"] show ?thesis by auto
  qed
  show ?thesis using assms
  proof (induction lines arbitrary: n given)
    case Nil
    then show ?case by simp
  next
    case (Cons raw lines)
    obtain given' errors where step: "plan_line (n, raw) (given, []) = (given', errors)" by fastforce
    with Cons.prems(1) have rest: "fold plan_line (enumerate (Suc n) lines) (given', errors) = (plan_values, [])" by simp
    have "errors = []"
    proof (cases errors)
      case (Cons e es)
      with rest faulty [of "enumerate (Suc n) lines" given' e es] show ?thesis by simp
    qed
    show ?case
    proof (cases "plan_carries raw")
      case False
      with step have "given' = given" by (auto simp: plan_line_def plan_carries_def)
      with Cons.IH [of "Suc n" given] rest \<open>errors = []\<close> Cons.prems(2) False show ?thesis by simp
    next
      case True
      with step \<open>errors = []\<close> obtain k v where kv: "strip raw = raw" "split_first (CHR ''='') raw = Some (k, v)"
          "given' = given @ [(k, v)]" "k \<notin> fst ` set given"
        by (auto simp: plan_line_def plan_carries_def Let_def split: if_splits option.splits)
      with Cons.IH [of "Suc n" given'] rest \<open>errors = []\<close> Cons.prems(2)
      have IH: "distinct (map fst plan_values)" "filter plan_carries lines = map (\<lambda>(k, v). k @ CHR ''='' # v) (drop (length (given @ [(k, v)])) plan_values)"
        "take (length (given @ [(k, v)])) plan_values = given @ [(k, v)]" by auto
      have "plan_values = (given @ [(k, v)]) @ drop (length (given @ [(k, v)])) plan_values"
        using append_take_drop_id [of "length (given @ [(k, v)])" plan_values] IH(3) by metis
      then have split: "drop (length given) plan_values = (k, v) # drop (length (given @ [(k, v)])) plan_values" "take (length given) plan_values = given"
        by (metis append.assoc append_Cons append_Nil append_eq_conv_conj)+
      have "raw = k @ CHR ''='' # v" using split_first_Some [OF kv(2)] by simp
      with IH(1,2) True split show ?thesis by simp
    qed
  qed
qed

text \<open>A plan that passes says nothing else than one value for each of the reviewed keys.\<close>

lemma passed_plan:
  assumes "host_plan_main file = (0, printed)"
  shows "\<exists>content plan_values. bind file decode_utf8 = Inr content \<and> distinct (map fst plan_values) \<and> set (map fst plan_values) = set EXPECTED_KEYS
    \<and> filter plan_carries (splitlines (universal_newlines content)) = map (\<lambda>(k, v). k @ CHR ''='' # v) plan_values
    \<and> list_all (\<lambda>(key, expected). map_of plan_values key = Some expected) FIXED"
proof -
  obtain plan_values faults where parsed: "parse_plan file = (plan_values, faults)" by fastforce
  with assms have none: "faults = []" "validate_plan plan_values = []" by (auto simp: host_plan_main_def Let_def split: if_splits)
  from parsed none(1) obtain content where content: "bind file decode_utf8 = Inr content"
    and read: "fold plan_line (enumerate 1 (splitlines (universal_newlines content))) ([], []) = (plan_values, [])"
    by (auto simp: parse_plan_def split: sum.splits)
  from plan_lines [OF read] have lines: "distinct (map fst plan_values)"
    "filter plan_carries (splitlines (universal_newlines content)) = map (\<lambda>(k, v). k @ CHR ''='' # v) plan_values" by simp_all
  have keys: "filter (\<lambda>k. k \<notin> fst ` set plan_values) (sort EXPECTED_KEYS) = []" "filter (\<lambda>k. k \<notin> set EXPECTED_KEYS) (map fst plan_values) = []"
    using none(2) unfolding validate_plan_def Let_def by (auto split: if_splits)
  then have same: "set (map fst plan_values) = set EXPECTED_KEYS" by (auto simp: filter_empty_conv)
  have fixed: "concat (map (\<lambda>(key, expected). if plan_value plan_values key \<noteq> expected then [key @ '' must be exactly '' @ expected] else []) FIXED) = []"
    using none(2) keys unfolding validate_plan_def Let_def by (simp only: append_is_Nil_conv if_False simp_thms)
  have "list_all (\<lambda>(key, expected). map_of plan_values key = Some expected) FIXED"
    unfolding list_all_iff
  proof
    fix entry assume entry: "entry \<in> set FIXED"
    obtain key expected where e: "entry = (key, expected)" by (cases entry)
    have "plan_value plan_values key = expected" using fixed entry unfolding e by (auto split: if_splits)
    moreover have "key \<in> set EXPECTED_KEYS" using entry e by (auto simp: EXPECTED_KEYS_def image_iff intro!: bexI [of _ entry])
    then have "map_of plan_values key \<noteq> None" unfolding same [symmetric] by (simp add: map_of_eq_None_iff)
    ultimately show "case entry of (key, expected) \<Rightarrow> map_of plan_values key = Some expected" using e by (auto simp: plan_value_def)
  qed
  with content lines same show ?thesis by blast
qed

end
