(* ===== verification/Spec2Isabelle.thy ===== *)
theory Spec2Isabelle
  imports Agreement Git KeyOrder Command Predecessor RecoveryProps ReleaseProps HistoryMain HistoryKeys
    StorageTypes FluxProps RuntimeProps DisposalProps PrFlow ImageRelease Kubeconfig AdminIngress
    RuntimeEvidenceProps HostLive EncryptionProps PiNetwork HostPlan
begin

text \<open>
  A verification development for the Python programs of the website infrastructure: the release chain under
  src/scripts/ci, the validators of release, host and cluster evidence under src/scripts, and the generators beside
  them.  The programs decide from repository history, GitHub records, files and captured cluster state whether a
  release, a host or a configuration may be used; they fail closed.  The theorems say what an acceptance stands for, that
  nothing else is accepted, what a refusal may print, and which exceptions escape.

  \<^bold>\<open>How a program is modelled.\<close>  Every function of a script is a definition of the same name where the name is
  free.  A Python exception is a value of the datatype \<open>exc\<close> on the left of a sum (\<open>res\<close> in Prelude), a
  \<open>try\<close> is a case distinction or \<open>rewrap\<close>, a loop that may raise is \<open>for_each\<close>, an early return is a branch.  Texts are
  byte strings in UTF-8, dictionaries are association lists in insertion order with the keys of the document, JSON
  values the datatype \<open>json\<close>.  What a program asks of git, gh, cosign, findmnt, systemctl, the clock, the network or the file system
  is an argument: a function from requests to answers or a record of observations, of which nothing is assumed.

  \<^bold>\<open>The library of Python.\<close>  Prelude (errors, loops), PyText (UTF-8, stripping, splitting, lines, decimal text, results of
  processes), PyPattern (character classes and identifiers), PyRegex (a backtracking matcher with the order of Python's
  \<open>re\<close>), PyJson, PyJsonParse, PyJsonPrint, PyJsonRoundtrip (values, parser, canonical printer and their round
  trip), PyCodec (base64, SHA-256 on 32-bit words), PyDate (the calendar and ISO times), PyBytes (encodings, URLs),
  PyValue (truth, equality and order of values), PyAddress (IPv4 and IPv6 text).  PrivateFile is the guarded read of
  private files that validate_kubeconfig_snapshot.py and its siblings share.

  \<^bold>\<open>The release chain.\<close>  Interfaces holds the locales that components rely on: canonical codecs and numberings without gaps;
  each is interpreted on the model's own definitions in the theory of its provider.
  Epoch is platform_release_epoch.py.  Git, Ledger, Evidence, Identity, IdentityCheck, Records, RunEvidence, MainCi, Settings,
  LiveSettings and Command are platform_release_contract.py in the order of the module: versions and fragments, the ledger
  derived from tags, strict evidence, the rendered identity and its check, REST records, workflow attempts, the receipts of
  continuous integration and of settings, the command line.  LedgerProps, LedgerReplay, KeyOrder, PublisherProps and Agreement
  hold their theorems: the ledger is contiguous, a window is the next patch and survives its publication, the bytes the publisher
  writes are accepted by the verifier.  Predecessor is validate_platform_predecessor.py.  Client, Recovery, RecoverySelection,
  RecoveryReads and RecoveryProps are platform_release_recovery.py: the bounded network client, the proofs of a release, the
  selection of the first incomplete one and its passage between jobs.  ReleaseState, ReleaseLines, ReleaseSegments,
  ReleaseTree, ReleaseContract, ReleaseTransition and ReleaseProps are validate_release_state.py and
  validate_release_transition.py with the closed YAML grammar.  ImageRelease and PrFlow are validate_image_release.py and
  validate_pr_flow.py.

  \<^bold>\<open>Publication history.\<close>  HistoryText, HistoryContent, History, HistoryProps, HistoryMain and HistoryKeys are
  validate_publication_history.py: the detectors, the scan of a range, its limits, and that a verdict is exact, bounded and prints
  no scanned content.

  \<^bold>\<open>Evidence.\<close>  StorageEvidence, StorageProps and StorageTypes are validate_reserved_storage_evidence.py; FluxEvidence and FluxProps
  validate_flux_release_evidence.py; RuntimeInventory and RuntimeProps validate_runtime_inventory_evidence.py; DisposalLedger
  and DisposalProps validate_destructive_test_ledger.py; Kubeconfig validate_kubeconfig_snapshot.py; AdminIngress
  validate_admin_ingress_contract.py; RuntimeEvidence and RuntimeEvidenceProps validate_protected_runtime_evidence.py.
  HostContract, MountTopology, BoundedCommand, ArchiveBinding and HostLive are validate_protected_host_contract.py: the schema, the
  mount of an archive, helper processes and their signals, the digest of an archive, and the live checks, which call the model
  of the runtime evidence.

  \<^bold>\<open>Bootstrap configuration.\<close>  StrictYaml is the parser of validate_kubeadm_config.py, with YamlRoundtrip for its
  inverse; EncryptionConfig and EncryptionProps are validate_encryption_config.py and generate_encryption_config.py, which use it; Kubeadm
  and KubeadmProps are the checks of validate_kubeadm_config.py; PiNetwork is validate_pi_network.py, which compares its networks with
  the routes of the host; HostPlan is validate_host_prerequisites_plan.py.

  \<^bold>\<open>Bounds and fuel.\<close>  Scanners recurse on what is left of the text.  The JSON parser has as fuel the length of the text and the
  YAML parser \<open>parse_fuel\<close>, four for every token and four more: every call of a parser consumes a token or is
  followed by one that does, and \<open>fuel_suffices\<close> proves that the fuel is never used up.  The matcher repeats an
  expression only while the text shrinks, so the length of the text bounds it.  The read loops end within the budget the code
  gives them (\<open>read_loop_complete\<close>, \<open>read_source\<close>).

  \<^bold>\<open>What is not modelled.\<close>  Usage errors of argparse, the layout of printed JSON where nothing reads it back, the text of messages about
  unreadable input, the loading of sibling modules by path, and the branches for Windows.  Of the standard library: the
  recursion limit, the limit of 4300 digits of \<open>int\<close>, digits beyond ASCII in \<open>int\<close> and \<open>isdigit\<close>, lowering of letters
  beyond ASCII in mount identifiers, and printing of surrogates.  Unicode classes beyond ASCII in the history detectors are a
  parameter (\<open>unicode_data\<close>), so are the network locations that \<open>urlsplit\<close> refuses after normalisation and the decimal text of
  floats (\<open>float_text\<close>); entropy uses real logarithms where the code uses floats, and times are rational numbers.
  Not modelled at all: validate_repository.py and the policy validators beside it, render_obsync_private_connector.py (they
  read YAML through PyYAML and check the text of workflows and manifests), validate_ingress_guard.py and the
  transaction fixtures (they drive nftables and shell programs), validate_cni_manifest.py, validate_cloudflared_tunnel_token.py, redact_inventory.py, and the test runner,
  coverage and currency tools under ci/.
\<close>

end
